(* ===== verification/Tip_Prelude.thy ===== *)
theory Tip_Prelude
  imports Main "HOL-Library.Word" "HOL-Library.List_Lexorder"
begin

text \<open>
  Shared ground of the tip router development: the machine integers of the Rust sources as
  words of fixed width with Rust's checked arithmetic, the result type of fallible code with its
  sequencing, array searches (\<open>iter().find\<close>, \<open>iter().position\<close>,
  \<open>for \<dots> iter_mut()\<close> with an early return), and the lemma collections the component
  theories put into their simplifier calls.
\<close>

named_theorems res_simps \<open>sequencing of fallible code that returned a value\<close>
named_theorems checked_simps \<open>checked word arithmetic, read at the level of naturals\<close>
named_theorems wf_simps \<open>well-formedness predicates of the account layouts\<close>

section \<open>Machine integers\<close>

type_synonym u8 = "8 word"
type_synonym u16 = "16 word"
type_synonym u64 = "64 word"
type_synonym u128 = "128 word"

text \<open>Rust's \<open>checked_add\<close>, \<open>checked_sub\<close>, \<open>checked_mul\<close>, \<open>checked_div\<close>,
  \<open>saturating_sub\<close> and \<open>try_into\<close> on unsigned integers.\<close>

definition checked_add :: "'a::len word \<Rightarrow> 'a word \<Rightarrow> 'a word option" where
  "checked_add a b = (if unat a + unat b < 2 ^ LENGTH('a) then Some (a + b) else None)"

definition checked_sub :: "'a::len word \<Rightarrow> 'a word \<Rightarrow> 'a word option" where
  "checked_sub a b = (if b \<le> a then Some (a - b) else None)"

definition checked_mul :: "'a::len word \<Rightarrow> 'a word \<Rightarrow> 'a word option" where
  "checked_mul a b = (if unat a * unat b < 2 ^ LENGTH('a) then Some (a * b) else None)"

definition checked_div :: "'a::len word \<Rightarrow> 'a word \<Rightarrow> 'a word option" where
  "checked_div a b = (if b = 0 then None else Some (a div b))"

definition saturating_sub :: "'a::len word \<Rightarrow> 'a word \<Rightarrow> 'a word" where
  "saturating_sub a b = (if b \<le> a then a - b else 0)"

definition try_into :: "'a::len word \<Rightarrow> 'b::len word option" where
  "try_into a = (if unat a < 2 ^ LENGTH('b) then Some (of_nat (unat a)) else None)"

lemma unat_less_pow [simp]: "unat (a :: 'a::len word) < 2 ^ LENGTH('a)"
  by (rule unsigned_less)

text \<open>A widening cast (\<open>as u128\<close>, \<open>as u64\<close>) keeps the value.\<close>

lemma unat_ucast_widen:
  "LENGTH('a) \<le> LENGTH('b) \<Longrightarrow> unat (ucast (x :: 'a::len word) :: 'b::len word) = unat x"
proof -
  assume "LENGTH('a) \<le> LENGTH('b)"
  then have "(2::nat) ^ LENGTH('a) \<le> 2 ^ LENGTH('b)" by (rule power_increasing) simp
  then have "unat x < 2 ^ LENGTH('b)" using unat_less_pow [of x] by linarith
  then show ?thesis by (simp add: unsigned_ucast_eq take_bit_nat_eq_self)
qed

lemma checked_add_Some [checked_simps]:
  "checked_add a b = Some c \<longleftrightarrow> unat c = unat a + unat b"
proof
  assume "checked_add a b = Some c"
  then show "unat c = unat a + unat b"
    by (auto simp: checked_add_def unat_word_ariths split: if_splits)
next
  assume c: "unat c = unat a + unat b"
  then have "unat a + unat b < 2 ^ LENGTH('a)" using unat_less_pow [of c] by simp
  then have "unat (a + b) = unat c" using c by (simp add: unat_word_ariths)
  then have "a + b = c" by (simp only: word_unat_eq_iff)
  with \<open>unat a + unat b < 2 ^ LENGTH('a)\<close> show "checked_add a b = Some c"
    by (simp add: checked_add_def)
qed

lemma checked_add_None [checked_simps]:
  "checked_add a b = None \<longleftrightarrow> 2 ^ LENGTH('a) \<le> unat a + unat (b :: 'a::len word)"
  by (auto simp: checked_add_def)

lemma checked_sub_Some [checked_simps]:
  "checked_sub a b = Some c \<longleftrightarrow> unat a = unat b + unat c"
proof
  assume "checked_sub a b = Some c"
  then have "b \<le> a" and c: "c = a - b" by (auto simp: checked_sub_def split: if_splits)
  then show "unat a = unat b + unat c" by (simp add: unat_sub word_le_nat_alt)
next
  assume a: "unat a = unat b + unat c"
  then have le: "b \<le> a" by (simp add: word_le_nat_alt)
  then have "unat (a - b) = unat c" using a by (simp add: unat_sub)
  then have "a - b = c" by (simp only: word_unat_eq_iff)
  with le show "checked_sub a b = Some c" by (simp add: checked_sub_def)
qed

lemma checked_sub_None [checked_simps]: "checked_sub a b = None \<longleftrightarrow> unat a < unat b"
  by (auto simp: checked_sub_def word_le_nat_alt)

lemma checked_mul_Some [checked_simps]:
  "checked_mul a b = Some c \<longleftrightarrow> unat c = unat a * unat b"
proof
  assume "checked_mul a b = Some c"
  then show "unat c = unat a * unat b"
    by (auto simp: checked_mul_def unat_word_ariths split: if_splits)
next
  assume c: "unat c = unat a * unat b"
  then have lt: "unat a * unat b < 2 ^ LENGTH('a)" using unat_less_pow [of c] by simp
  then have "unat (a * b) = unat c" using c by (simp add: unat_word_ariths)
  then have "a * b = c" by (simp only: word_unat_eq_iff)
  with lt show "checked_mul a b = Some c" by (simp add: checked_mul_def)
qed

lemma checked_mul_None [checked_simps]:
  "checked_mul a b = None \<longleftrightarrow> 2 ^ LENGTH('a) \<le> unat a * unat (b :: 'a::len word)"
  by (auto simp: checked_mul_def)

lemma checked_div_Some [checked_simps]:
  "checked_div a b = Some c \<longleftrightarrow> b \<noteq> 0 \<and> unat c = unat a div unat b"
proof -
  have "unat (a div b) = unat a div unat b" by (rule unat_div_distrib)
  then have "a div b = c \<longleftrightarrow> unat c = unat a div unat b"
    by (metis word_unat_eq_iff)
  then show ?thesis by (auto simp: checked_div_def)
qed

lemma checked_div_None [checked_simps]: "checked_div a b = None \<longleftrightarrow> b = 0"
  by (simp add: checked_div_def)

lemma try_into_Some [checked_simps]:
  "try_into (a :: 'a::len word) = Some (b :: 'b::len word) \<longleftrightarrow> unat b = unat a"
proof
  assume "try_into a = Some b"
  then show "unat b = unat a"
    by (auto simp: try_into_def unsigned_ucast_eq take_bit_nat_eq_self split: if_splits)
next
  assume b: "unat b = unat a"
  then have "unat a < 2 ^ LENGTH('b)" using unat_less_pow [of b] by simp
  moreover have "of_nat (unat a) = b" unfolding b [symmetric] by simp
  ultimately show "try_into a = Some b" by (simp add: try_into_def)
qed

lemma try_into_None [checked_simps]:
  "(try_into (a :: 'a::len word) :: 'b::len word option) = None \<longleftrightarrow> 2 ^ LENGTH('b) \<le> unat a"
  by (auto simp: try_into_def)

lemma unat_saturating_sub [checked_simps]: "unat (saturating_sub a b) = unat a - unat b"
  by (auto simp: saturating_sub_def word_le_nat_alt unat_sub)

section \<open>Results\<close>

text \<open>
  Fallible Rust code returns \<open>Result<T, E>\<close>: here \<open>'e + 'a\<close> with \<open>Inl\<close> the error. \<open>rbind\<close> is
  the \<open>?\<close> operator, \<open>ok_or\<close> turns an option into a result, \<open>fail_if\<close> is a guard with an early
  \<open>return Err(..)\<close>, and \<open>rfold\<close> is a \<open>for\<close> loop whose body may fail.
\<close>

definition rbind :: "'e + 'a \<Rightarrow> ('a \<Rightarrow> 'e + 'b) \<Rightarrow> 'e + 'b" where
  "rbind m f = (case m of Inl e \<Rightarrow> Inl e | Inr x \<Rightarrow> f x)"

definition ok_or :: "'e \<Rightarrow> 'a option \<Rightarrow> 'e + 'a" where
  "ok_or e m = (case m of None \<Rightarrow> Inl e | Some x \<Rightarrow> Inr x)"

definition fail_if :: "bool \<Rightarrow> 'e \<Rightarrow> 'e + unit" where
  "fail_if b e = (if b then Inl e else Inr ())"

definition rmap_err :: "('e \<Rightarrow> 'f) \<Rightarrow> 'e + 'a \<Rightarrow> 'f + 'a" where
  "rmap_err f m = (case m of Inl e \<Rightarrow> Inl (f e) | Inr x \<Rightarrow> Inr x)"

primrec rfold :: "('a \<Rightarrow> 's \<Rightarrow> 'e + 's) \<Rightarrow> 'a list \<Rightarrow> 's \<Rightarrow> 'e + 's" where
  "rfold f [] s = Inr s"
| "rfold f (x # xs) s = rbind (f x s) (rfold f xs)"

text \<open>\<open>if let Some(x) = o { \<dots>? }\<close>: the body runs when there is a value.\<close>

definition if_some :: "'a option \<Rightarrow> ('a \<Rightarrow> 's \<Rightarrow> 'e + 's) \<Rightarrow> 's \<Rightarrow> 'e + 's" where
  "if_some opt f s = (case opt of None \<Rightarrow> Inr s | Some x \<Rightarrow> f x s)"

lemma rbind_simps [simp]: "rbind (Inl e) f = Inl e" "rbind (Inr x) f = f x"
  by (simp_all add: rbind_def)

lemma ok_or_simps [simp]: "ok_or e None = Inl e" "ok_or e (Some x) = Inr x"
  by (simp_all add: ok_or_def)

lemma fail_if_simps [simp]: "fail_if True e = Inl e" "fail_if False e = Inr ()"
  by (simp_all add: fail_if_def)

lemma rbind_Inr [res_simps]: "rbind m f = Inr y \<longleftrightarrow> (\<exists>x. m = Inr x \<and> f x = Inr y)"
  by (cases m) auto

lemma rbind_Inl [res_simps]:
  "rbind m f = Inl e \<longleftrightarrow> m = Inl e \<or> (\<exists>x. m = Inr x \<and> f x = Inl e)"
  by (cases m) auto

lemma ok_or_Inr [res_simps]: "ok_or e m = Inr y \<longleftrightarrow> m = Some y"
  by (cases m) auto

lemma ok_or_Inl [res_simps]: "ok_or e m = Inl e' \<longleftrightarrow> m = None \<and> e' = e"
  by (cases m) auto

lemma fail_if_Inr [res_simps]: "fail_if b e = Inr u \<longleftrightarrow> \<not> b"
  by (cases b) auto

lemma fail_if_Inl [res_simps]: "fail_if b e = Inl e' \<longleftrightarrow> b \<and> e' = e"
  by (cases b) auto

lemma rmap_err_Inr [res_simps]: "rmap_err f m = Inr y \<longleftrightarrow> m = Inr y"
  by (cases m) (auto simp: rmap_err_def)

lemma rmap_err_Inl [res_simps]: "rmap_err f m = Inl y \<longleftrightarrow> (\<exists>e. m = Inl e \<and> y = f e)"
  by (cases m) (auto simp: rmap_err_def)

lemma if_some_Inr:
  "if_some opt f s = Inr t \<longleftrightarrow> (opt = None \<and> t = s) \<or> (\<exists>x. opt = Some x \<and> f x s = Inr t)"
  by (cases opt) (auto simp: if_some_def)

lemma rbind_assoc: "rbind (rbind m f) g = rbind m (\<lambda>x. rbind (f x) g)"
  by (cases m) auto

lemma rfold_append: "rfold f (xs @ ys) s = rbind (rfold f xs s) (rfold f ys)"
proof (induction xs arbitrary: s)
  case Nil
  then show ?case by simp
next
  case (Cons x xs)
  then show ?case by (cases "f x s") simp_all
qed

text \<open>An invariant of the body is an invariant of the loop.\<close>

lemma rfold_invariant:
  assumes "rfold f xs s = Inr t" and "P s"
    and "\<And>x s t. x \<in> set xs \<Longrightarrow> P s \<Longrightarrow> f x s = Inr t \<Longrightarrow> P t"
  shows "P t"
  using assms
proof (induction xs arbitrary: s)
  case Nil
  then show ?case by simp
next
  case (Cons x xs)
  from Cons.prems(1) obtain u where u: "f x s = Inr u" and rest: "rfold f xs u = Inr t"
    by (auto simp: res_simps)
  have "P u" using Cons.prems(3) [OF _ Cons.prems(2) u] by simp
  with rest show ?case using Cons.prems(3) by (intro Cons.IH [OF rest]) auto
qed

text \<open>A quantity the body leaves alone is left alone by the loop.\<close>

lemma rfold_frame:
  assumes "rfold f xs s = Inr t" and "\<And>x s t. f x s = Inr t \<Longrightarrow> g t = g s"
  shows "g t = g s"
  using assms(1)
proof (induction xs arbitrary: s)
  case Nil
  then show ?case by simp
next
  case (Cons x xs)
  then obtain u where "f x s = Inr u" and "rfold f xs u = Inr t" by (auto simp: res_simps)
  then show ?case using Cons.IH assms(2) by metis
qed

text \<open>A loop over distinct array slots acts slot by slot. \<open>get\<close> reads the array out of the state,
  \<open>idx\<close> gives the slot an iteration writes, \<open>R\<close> relates the slot before and after it.\<close>

lemma rfold_pointwise:
  assumes "rfold f xs s = Inr t" and "distinct (map idx xs)" and "length (get s) = n"
    and "\<And>x. x \<in> set xs \<Longrightarrow> idx x < n"
    and step: "\<And>x s t. x \<in> set xs \<Longrightarrow> length (get s) = n \<Longrightarrow> f x s = Inr t \<Longrightarrow>
      \<exists>v. get t = (get s)[idx x := v] \<and> R x (get s ! idx x) v"
  shows "length (get t) = n \<and>
    (\<forall>x \<in> set xs. R x (get s ! idx x) (get t ! idx x)) \<and>
    (\<forall>j. j \<notin> idx ` set xs \<longrightarrow> get t ! j = get s ! j)"
  using assms
proof (induction xs arbitrary: s)
  case Nil
  then show ?case by simp
next
  case (Cons x xs)
  from Cons.prems(1) obtain u where u: "f x s = Inr u" and rest: "rfold f xs u = Inr t"
    by (auto simp: res_simps)
  from Cons.prems(5) [OF _ Cons.prems(3) u] obtain v
    where v: "get u = (get s)[idx x := v]" and R: "R x (get s ! idx x) v"
    by auto
  have notin: "idx x \<notin> idx ` set xs" and dist: "distinct (map idx xs)"
    using Cons.prems(2) by auto
  have IH: "length (get t) = n \<and>
    (\<forall>y \<in> set xs. R y (get u ! idx y) (get t ! idx y)) \<and>
    (\<forall>j. j \<notin> idx ` set xs \<longrightarrow> get t ! j = get u ! j)"
    using v Cons.prems(3-5) by (intro Cons.IH [OF rest dist]) auto
  have same: "get u ! idx y = get s ! idx y" if "y \<in> set xs" for y
  proof -
    have "idx x \<noteq> idx y" using that notin by (metis imageI)
    then show ?thesis by (simp add: v)
  qed
  have here: "get t ! idx x = v"
    using IH notin v Cons.prems(3) Cons.prems(4) [of x] by auto
  show ?case using IH same here R v by (auto simp: nth_list_update)
qed

text \<open>If every iteration can write its slot from what that slot held at the start, the loop
  returns.\<close>

lemma rfold_pointwise_total:
  assumes "distinct (map idx xs)" and "\<And>x. x \<in> set xs \<Longrightarrow> Q x (get s ! idx x)"
    and "P s"
    and "\<And>x s. x \<in> set xs \<Longrightarrow> P s \<Longrightarrow> Q x (get s ! idx x) \<Longrightarrow>
      \<exists>t v. f x s = Inr t \<and> P t \<and> get t = (get s)[idx x := v]"
  shows "\<exists>t. rfold f xs s = Inr t"
  using assms
proof (induction xs arbitrary: s)
  case Nil
  then show ?case by simp
next
  case (Cons x xs)
  obtain u v where u: "f x s = Inr u" "P u" "get u = (get s)[idx x := v]"
    using Cons.prems(4) [of x s] Cons.prems(2,3) by auto
  have "\<exists>t. rfold f xs u = Inr t"
  proof (rule Cons.IH)
    show "distinct (map idx xs)" using Cons.prems(1) by simp
    show "Q y (get u ! idx y)" if "y \<in> set xs" for y
    proof -
      have "idx x \<noteq> idx y" using that Cons.prems(1) by (metis distinct.simps(2) imageI list.simps(9) set_map)
      then show ?thesis using Cons.prems(2) that u(3) by simp
    qed
    show "\<exists>t v. f y s = Inr t \<and> P t \<and> get t = (get s)[idx y := v]"
      if "y \<in> set xs" "P s" "Q y (get s ! idx y)" for y s
      using Cons.prems(4) that by simp
  qed (rule u(2))
  with u(1) show ?case by auto
qed

text \<open>A loop whose body cannot fail while an invariant holds returns.\<close>

lemma rfold_total:
  assumes "P s" and "\<And>x s. x \<in> set xs \<Longrightarrow> P s \<Longrightarrow> \<exists>t. f x s = Inr t \<and> P t"
  shows "\<exists>t. rfold f xs s = Inr t \<and> P t"
  using assms
proof (induction xs arbitrary: s)
  case Nil
  then show ?case by simp
next
  case (Cons x xs)
  obtain u where u: "f x s = Inr u" "P u" using Cons.prems(2) [OF _ Cons.prems(1)] by auto
  then obtain t where "rfold f xs u = Inr t \<and> P t"
    using Cons.IH [of u] Cons.prems(2) by (meson list.set_intros(2))
  with u show ?case by auto
qed

text \<open>A loop over a list, step by step: \<open>P i\<close> holds before the iteration of position \<open>i\<close>.\<close>

lemma rfold_steps:
  assumes "P 0 s"
    and "\<And>i s. i < length xs \<Longrightarrow> P i s \<Longrightarrow> \<exists>t. f (xs ! i) s = Inr t \<and> P (Suc i) t"
  shows "\<exists>t. rfold f xs s = Inr t \<and> P (length xs) t"
  using assms
proof (induction xs arbitrary: s P)
  case Nil
  then show ?case by simp
next
  case (Cons x xs)
  obtain u where u: "f x s = Inr u" "P (Suc 0) u" using Cons.prems(2) [of 0 s] Cons.prems(1) by auto
  have "\<exists>t. rfold f xs u = Inr t \<and> P (Suc (length xs)) t"
    by (rule Cons.IH [of "\<lambda>i. P (Suc i)", OF u(2)]) (use Cons.prems(2) in force)
  with u(1) show ?case by auto
qed

text \<open>A loop over an index range that stopped at \<open>i\<close>.\<close>

lemma upt_split:
  assumes "[a..<n] = pre @ i # post"
  shows "[i..<n] = i # post \<and> a \<le> i \<and> i < n \<and> (pre \<noteq> [] \<longrightarrow> a < i)"
proof -
  have len: "n - a = length pre + Suc (length post)" using arg_cong [OF assms, of length] by simp
  have "i = [a..<n] ! length pre" using assms by simp
  then have i: "i = a + length pre" using len by simp
  have "i # post = drop (length pre) [a..<n]" using assms by simp
  then have "i # post = [i..<n]" by (simp add: i)
  with i len show ?thesis by auto
qed

section \<open>Array searches\<close>

text \<open>\<open>find_idx P xs\<close>: the position of the first element with \<open>P\<close> (\<open>iter().position\<close>, or the
  element a \<open>for x in iter_mut()\<close> loop with an early return stops at).\<close>

primrec find_idx :: "('a \<Rightarrow> bool) \<Rightarrow> 'a list \<Rightarrow> nat option" where
  "find_idx P [] = None"
| "find_idx P (x # xs) = (if P x then Some 0 else map_option Suc (find_idx P xs))"

lemma find_idx_None: "find_idx P xs = None \<longleftrightarrow> (\<forall>x \<in> set xs. \<not> P x)"
  by (induction xs) auto

lemma find_idx_Some:
  "find_idx P xs = Some i \<longleftrightarrow> i < length xs \<and> P (xs ! i) \<and> (\<forall>j < i. \<not> P (xs ! j))"
proof (induction xs arbitrary: i)
  case Nil
  then show ?case by simp
next
  case (Cons x xs)
  show ?case
  proof (cases i)
    case 0
    then show ?thesis by auto
  next
    case (Suc k)
    have "(\<forall>j < Suc k. \<not> P ((x # xs) ! j)) \<longleftrightarrow> \<not> P x \<and> (\<forall>j < k. \<not> P (xs ! j))"
      by (auto simp: less_Suc_eq_0_disj)
    then show ?thesis using Cons.IH [of k] Suc by auto
  qed
qed

lemma find_idx_SomeD:
  assumes "find_idx P xs = Some i"
  shows "i < length xs" "P (xs ! i)" "\<And>j. j < i \<Longrightarrow> \<not> P (xs ! j)"
  using assms by (auto simp: find_idx_Some)

lemma find_conv_find_idx: "List.find P xs = map_option (\<lambda>i. xs ! i) (find_idx P xs)"
  by (induction xs) (auto simp: option.map_comp comp_def)

lemma find_idx_exists: "x \<in> set xs \<Longrightarrow> P x \<Longrightarrow> \<exists>i. find_idx P xs = Some i"
  using find_idx_None [of P xs] by (cases "find_idx P xs") auto

lemma find_idx_cong:
  "xs = ys \<Longrightarrow> (\<And>x. x \<in> set ys \<Longrightarrow> P x = Q x) \<Longrightarrow> find_idx P xs = find_idx Q ys"
  by (induction ys arbitrary: xs) auto

lemma find_idx_replicate [simp]:
  "find_idx P (replicate n x) = (if 0 < n \<and> P x then Some 0 else None)"
  by (induction n) auto

section \<open>Sums over arrays\<close>

text \<open>Array totals are sums of the entries at the naturals; one entry of the array changing
  changes the total by the difference of the entries.\<close>

lemma sum_list_map_update:
  fixes f :: "'a \<Rightarrow> nat"
  assumes "i < length xs"
  shows "sum_list (map f (xs[i := y])) + f (xs ! i) = sum_list (map f xs) + f y"
  using assms
proof (induction xs arbitrary: i)
  case Nil
  then show ?case by simp
next
  case (Cons x xs)
  then show ?case by (cases i) (auto simp: algebra_simps)
qed

lemma sum_list_map_replicate [simp]:
  "sum_list (map (f :: 'a \<Rightarrow> nat) (replicate n x)) = n * f x"
  by (induction n) auto

lemma member_le_sum_list_map:
  fixes f :: "'a \<Rightarrow> nat"
  shows "x \<in> set xs \<Longrightarrow> f x \<le> sum_list (map f xs)"
  by (induction xs) auto

lemma nth_le_sum_list_map:
  fixes f :: "'a \<Rightarrow> nat"
  shows "i < length xs \<Longrightarrow> f (xs ! i) \<le> sum_list (map f xs)"
  by (rule member_le_sum_list_map) simp

lemma length_filter_conv_sum: "length (filter P xs) = sum_list (map (\<lambda>x. of_bool (P x)) xs)"
  by (induction xs) auto

lemma sum_list_map_mono_nat:
  fixes f g :: "'a \<Rightarrow> nat"
  shows "(\<And>x. x \<in> set xs \<Longrightarrow> f x \<le> g x) \<Longrightarrow> sum_list (map f xs) \<le> sum_list (map g xs)"
  by (induction xs) (auto intro: add_mono)

lemma filter_all_length: "length (filter P xs) = length xs \<longleftrightarrow> (\<forall>x \<in> set xs. P x)"
proof
  assume "length (filter P xs) = length xs"
  then show "\<forall>x \<in> set xs. P x" using length_filter_less [where P = P and xs = xs] by fastforce
qed simp

text \<open>The write of a single slot, as loops over slots leave it.\<close>

lemma slot_updateI: "R v \<Longrightarrow> \<exists>b. xs[i := v] = xs[i := b] \<and> R b"
  by blast

text \<open>The Pubkey of the Solana SDK and every 32-byte array are lists of bytes; the default
  public key is all zero.\<close>

type_synonym pubkey = "u8 list"
type_synonym bytes32 = "u8 list"

definition default_pubkey :: pubkey where
  "default_pubkey = replicate 32 0"

section \<open>Evaluating concrete arrays\<close>

lemma replicate_8: "replicate 8 x = [x, x, x, x, x, x, x, x]"
  by (simp add: numeral_eq_Suc)

lemma replicate_32: "replicate 32 x = replicate 8 x @ replicate 8 x @ replicate 8 x @ replicate 8 x"
  by (simp add: numeral_eq_Suc)

lemmas eval_simps = list_update_code nth_Cons_numeral nth_Cons_0 replicate_8 replicate_32
  checked_add_def checked_sub_def checked_mul_def checked_div_def saturating_sub_def try_into_def

end
