(* ===== verification/Tip_Errors.thy ===== *)
theory Tip_Errors
  imports Tip_Prelude
begin

text \<open>
  The error enumeration of \<open>core/src/error.rs\<close> with its numeric codes (the first variant has
  code 0x2100, \<open>IncorrectWeightTableAdmin\<close> restarts at 0x2200, every other variant is its
  predecessor plus one), the conversion into the runtime's \<open>ProgramError\<close>, and the constants of
  \<open>core/src/constants.rs\<close>.
\<close>

section \<open>Error variants\<close>

datatype (plugins only: size) tip_router_error =
    DenominatorIsZero
  | ArithmeticOverflow
  | ArithmeticUnderflowError
  | ArithmeticFloorError
  | ModuloOverflow
  | NewPreciseNumberError
  | CastToImpreciseNumberError
  | CastToU64Error
  | CastToU128Error
  | IncorrectWeightTableAdmin
  | DuplicateMintsInTable
  | NoMintsInTable
  | TableNotInitialized
  | RegistryNotInitialized
  | NoVaultsInRegistry
  | VaultNotInRegistry
  | MintInTable
  | TooManyMintsForTable
  | TooManyVaultsForRegistry
  | WeightTableAlreadyInitialized
  | CannotCreateFutureWeightTables
  | WeightMintsDoNotMatchLength
  | WeightMintsDoNotMatchMintHash
  | InvalidMintForWeightTable
  | ConfigMintsNotUpdated
  | ConfigMintListFull
  | VaultRegistryListFull
  | VaultRegistryVaultLocked
  | VaultIndexAlreadyInUse
  | MintEntryNotFound
  | FeeCapExceeded
  | TotalFeesCannotBeZero
  | DefaultDaoWallet
  | IncorrectNcnAdmin
  | IncorrectNcn
  | IncorrectFeeAdmin
  | WeightTableNotFinalized
  | WeightNotFound
  | NoOperators
  | VaultOperatorDelegationFinalized
  | OperatorFinalized
  | TooManyVaultOperatorDelegations
  | DuplicateVaultOperatorDelegation
  | DuplicateVoteCast
  | OperatorVotesFull
  | BallotTallyFull
  | BallotTallyNotFoundFull
  | BallotTallyNotEmpty
  | ConsensusAlreadyReached
  | ConsensusNotReached
  | EpochSnapshotNotFinalized
  | VotingNotValid
  | TieBreakerAdminInvalid
  | VotingNotFinalized
  | TieBreakerNotInPriorVotes
  | InvalidMerkleProof
  | InvalidOperatorVoter
  | InvalidNcnFeeGroup
  | InvalidBaseFeeGroup
  | OperatorRewardListFull
  | OperatorRewardNotFound
  | VaultRewardNotFound
  | DestinationMismatch
  | NcnRewardRouteNotFound
  | FeeNotActive
  | NoRewards
  | NoFeedWeightNotSet
  | SwitchboardNotRegistered
  | BadSwitchboardFeed
  | BadSwitchboardValue
  | StaleSwitchboardFeed
  | NoFeedWeightOrSwitchboardFeed
  | RouterStillRouting
  | InvalidEpochsBeforeStall
  | InvalidEpochsBeforeClose
  | InvalidSlotsAfterConsensus
  | VaultNeedsUpdate
  | InvalidAccountStatus
  | AccountAlreadyInitialized
  | BadBallot
  | VotingIsNotOver
  | OperatorIsNotInSnapshot
  | InvalidAccountToCloseDiscriminator
  | CannotCloseAccount
  | CannotCloseAccountAlreadyClosed
  | CannotCloseAccountNotEnoughEpochs
  | CannotCloseAccountNoReceiverProvided
  | CannotCloseEpochStateAccount
  | InvalidDaoWallet
  | EpochIsClosingDown
  | MarkerExists

text \<open>\<open>e as u32\<close>: the code of a variant.\<close>

primrec error_code :: "tip_router_error \<Rightarrow> nat" where
  "error_code DenominatorIsZero = 8448"
| "error_code ArithmeticOverflow = 8449"
| "error_code ArithmeticUnderflowError = 8450"
| "error_code ArithmeticFloorError = 8451"
| "error_code ModuloOverflow = 8452"
| "error_code NewPreciseNumberError = 8453"
| "error_code CastToImpreciseNumberError = 8454"
| "error_code CastToU64Error = 8455"
| "error_code CastToU128Error = 8456"
| "error_code IncorrectWeightTableAdmin = 8704"
| "error_code DuplicateMintsInTable = 8705"
| "error_code NoMintsInTable = 8706"
| "error_code TableNotInitialized = 8707"
| "error_code RegistryNotInitialized = 8708"
| "error_code NoVaultsInRegistry = 8709"
| "error_code VaultNotInRegistry = 8710"
| "error_code MintInTable = 8711"
| "error_code TooManyMintsForTable = 8712"
| "error_code TooManyVaultsForRegistry = 8713"
| "error_code WeightTableAlreadyInitialized = 8714"
| "error_code CannotCreateFutureWeightTables = 8715"
| "error_code WeightMintsDoNotMatchLength = 8716"
| "error_code WeightMintsDoNotMatchMintHash = 8717"
| "error_code InvalidMintForWeightTable = 8718"
| "error_code ConfigMintsNotUpdated = 8719"
| "error_code ConfigMintListFull = 8720"
| "error_code VaultRegistryListFull = 8721"
| "error_code VaultRegistryVaultLocked = 8722"
| "error_code VaultIndexAlreadyInUse = 8723"
| "error_code MintEntryNotFound = 8724"
| "error_code FeeCapExceeded = 8725"
| "error_code TotalFeesCannotBeZero = 8726"
| "error_code DefaultDaoWallet = 8727"
| "error_code IncorrectNcnAdmin = 8728"
| "error_code IncorrectNcn = 8729"
| "error_code IncorrectFeeAdmin = 8730"
| "error_code WeightTableNotFinalized = 8731"
| "error_code WeightNotFound = 8732"
| "error_code NoOperators = 8733"
| "error_code VaultOperatorDelegationFinalized = 8734"
| "error_code OperatorFinalized = 8735"
| "error_code TooManyVaultOperatorDelegations = 8736"
| "error_code DuplicateVaultOperatorDelegation = 8737"
| "error_code DuplicateVoteCast = 8738"
| "error_code OperatorVotesFull = 8739"
| "error_code BallotTallyFull = 8740"
| "error_code BallotTallyNotFoundFull = 8741"
| "error_code BallotTallyNotEmpty = 8742"
| "error_code ConsensusAlreadyReached = 8743"
| "error_code ConsensusNotReached = 8744"
| "error_code EpochSnapshotNotFinalized = 8745"
| "error_code VotingNotValid = 8746"
| "error_code TieBreakerAdminInvalid = 8747"
| "error_code VotingNotFinalized = 8748"
| "error_code TieBreakerNotInPriorVotes = 8749"
| "error_code InvalidMerkleProof = 8750"
| "error_code InvalidOperatorVoter = 8751"
| "error_code InvalidNcnFeeGroup = 8752"
| "error_code InvalidBaseFeeGroup = 8753"
| "error_code OperatorRewardListFull = 8754"
| "error_code OperatorRewardNotFound = 8755"
| "error_code VaultRewardNotFound = 8756"
| "error_code DestinationMismatch = 8757"
| "error_code NcnRewardRouteNotFound = 8758"
| "error_code FeeNotActive = 8759"
| "error_code NoRewards = 8760"
| "error_code NoFeedWeightNotSet = 8761"
| "error_code SwitchboardNotRegistered = 8762"
| "error_code BadSwitchboardFeed = 8763"
| "error_code BadSwitchboardValue = 8764"
| "error_code StaleSwitchboardFeed = 8765"
| "error_code NoFeedWeightOrSwitchboardFeed = 8766"
| "error_code RouterStillRouting = 8767"
| "error_code InvalidEpochsBeforeStall = 8768"
| "error_code InvalidEpochsBeforeClose = 8769"
| "error_code InvalidSlotsAfterConsensus = 8770"
| "error_code VaultNeedsUpdate = 8771"
| "error_code InvalidAccountStatus = 8772"
| "error_code AccountAlreadyInitialized = 8773"
| "error_code BadBallot = 8774"
| "error_code VotingIsNotOver = 8775"
| "error_code OperatorIsNotInSnapshot = 8776"
| "error_code InvalidAccountToCloseDiscriminator = 8777"
| "error_code CannotCloseAccount = 8778"
| "error_code CannotCloseAccountAlreadyClosed = 8779"
| "error_code CannotCloseAccountNotEnoughEpochs = 8780"
| "error_code CannotCloseAccountNoReceiverProvided = 8781"
| "error_code CannotCloseEpochStateAccount = 8782"
| "error_code InvalidDaoWallet = 8783"
| "error_code EpochIsClosingDown = 8784"
| "error_code MarkerExists = 8785"

text \<open>The variants of \<open>ProgramError\<close> the sources raise; a \<open>TipRouterError\<close> becomes
  \<open>Custom\<close> with its code. \<open>ExternalError\<close> stands for the errors of called programs,
  \<open>ModifiedUnwritableAccount\<close> for the runtime's rejection of a change to an account that the program does
  not own or that was passed read-only, \<open>Panicked\<close> for the abort of the program by a Rust panic (an array index out of bounds).\<close>

datatype program_error =
    Custom nat
  | InvalidArgument
  | InvalidAccountData
  | InvalidAccountOwner
  | InvalidSeeds
  | IllegalOwner
  | NotEnoughAccountKeys
  | IncorrectProgramId
  | ProgramArithmeticOverflow
  | MissingRequiredSignature
  | AccountNotInitialized
  | ExternalError nat
  | BorshIoError
  | ModifiedUnwritableAccount
  | Panicked

definition program_error_from :: "tip_router_error \<Rightarrow> program_error" where
  "program_error_from e = Custom (error_code e)"

definition all_tip_router_errors :: "tip_router_error list" where
  "all_tip_router_errors =
   [DenominatorIsZero, ArithmeticOverflow, ArithmeticUnderflowError, ArithmeticFloorError,
    ModuloOverflow, NewPreciseNumberError, CastToImpreciseNumberError, CastToU64Error,
    CastToU128Error, IncorrectWeightTableAdmin, DuplicateMintsInTable, NoMintsInTable,
    TableNotInitialized, RegistryNotInitialized, NoVaultsInRegistry, VaultNotInRegistry,
    MintInTable, TooManyMintsForTable, TooManyVaultsForRegistry, WeightTableAlreadyInitialized,
    CannotCreateFutureWeightTables, WeightMintsDoNotMatchLength, WeightMintsDoNotMatchMintHash, InvalidMintForWeightTable,
    ConfigMintsNotUpdated, ConfigMintListFull, VaultRegistryListFull, VaultRegistryVaultLocked,
    VaultIndexAlreadyInUse, MintEntryNotFound, FeeCapExceeded, TotalFeesCannotBeZero,
    DefaultDaoWallet, IncorrectNcnAdmin, IncorrectNcn, IncorrectFeeAdmin,
    WeightTableNotFinalized, WeightNotFound, NoOperators, VaultOperatorDelegationFinalized,
    OperatorFinalized, TooManyVaultOperatorDelegations, DuplicateVaultOperatorDelegation, DuplicateVoteCast,
    OperatorVotesFull, BallotTallyFull, BallotTallyNotFoundFull, BallotTallyNotEmpty,
    ConsensusAlreadyReached, ConsensusNotReached, EpochSnapshotNotFinalized, VotingNotValid,
    TieBreakerAdminInvalid, VotingNotFinalized, TieBreakerNotInPriorVotes, InvalidMerkleProof,
    InvalidOperatorVoter, InvalidNcnFeeGroup, InvalidBaseFeeGroup, OperatorRewardListFull,
    OperatorRewardNotFound, VaultRewardNotFound, DestinationMismatch, NcnRewardRouteNotFound,
    FeeNotActive, NoRewards, NoFeedWeightNotSet, SwitchboardNotRegistered,
    BadSwitchboardFeed, BadSwitchboardValue, StaleSwitchboardFeed, NoFeedWeightOrSwitchboardFeed,
    RouterStillRouting, InvalidEpochsBeforeStall, InvalidEpochsBeforeClose, InvalidSlotsAfterConsensus,
    VaultNeedsUpdate, InvalidAccountStatus, AccountAlreadyInitialized, BadBallot,
    VotingIsNotOver, OperatorIsNotInSnapshot, InvalidAccountToCloseDiscriminator, CannotCloseAccount,
    CannotCloseAccountAlreadyClosed, CannotCloseAccountNotEnoughEpochs, CannotCloseAccountNoReceiverProvided, CannotCloseEpochStateAccount,
    InvalidDaoWallet, EpochIsClosingDown, MarkerExists]"

section \<open>Constants\<close>

definition MAX_FEE_BPS :: u64 where "MAX_FEE_BPS = 10000"
definition MAX_ST_MINTS :: nat where "MAX_ST_MINTS = 64"
definition MAX_VAULTS :: nat where "MAX_VAULTS = 64"
definition MAX_OPERATORS :: nat where "MAX_OPERATORS = 256"
definition MIN_EPOCHS_BEFORE_STALL :: u64 where "MIN_EPOCHS_BEFORE_STALL = 1"
definition MAX_EPOCHS_BEFORE_STALL :: u64 where "MAX_EPOCHS_BEFORE_STALL = 50"
definition MIN_EPOCHS_AFTER_CONSENSUS_BEFORE_CLOSE :: u64 where
  "MIN_EPOCHS_AFTER_CONSENSUS_BEFORE_CLOSE = 10"
definition MAX_EPOCHS_AFTER_CONSENSUS_BEFORE_CLOSE :: u64 where
  "MAX_EPOCHS_AFTER_CONSENSUS_BEFORE_CLOSE = 100"
definition MIN_VALID_SLOTS_AFTER_CONSENSUS :: u64 where "MIN_VALID_SLOTS_AFTER_CONSENSUS = 1000"

text \<open>\<open>50 * DEFAULT_SLOTS_PER_EPOCH\<close>, with the SDK's 432000 slots per epoch.\<close>

definition MAX_VALID_SLOTS_AFTER_CONSENSUS :: u64 where
  "MAX_VALID_SLOTS_AFTER_CONSENSUS = 50 * 432000"
definition DEFAULT_CONSENSUS_REACHED_SLOT :: u64 where
  "DEFAULT_CONSENSUS_REACHED_SLOT = 18446744073709551615"

text \<open>The SDK's \<open>MAX_PERMITTED_DATA_INCREASE\<close> is 10240 bytes.\<close>

definition MAX_REALLOC_BYTES :: nat where "MAX_REALLOC_BYTES = 10240"
definition WEIGHT_PRECISION :: u128 where "WEIGHT_PRECISION = 1000000000"
definition SWITCHBOARD_MAX_STALE_SLOTS :: u64 where "SWITCHBOARD_MAX_STALE_SLOTS = 100"

section \<open>Codes identify errors\<close>

lemma all_tip_router_errors_complete: "e \<in> set all_tip_router_errors"
  by (cases e) (simp_all add: all_tip_router_errors_def)

lemma distinct_error_codes: "distinct (map error_code all_tip_router_errors)"
  by (simp add: all_tip_router_errors_def)

lemma error_code_inject [simp]: "error_code e = error_code f \<longleftrightarrow> e = f"
  using distinct_error_codes all_tip_router_errors_complete
  by (auto simp: distinct_map dest: inj_onD)

lemma program_error_from_inject [simp]: "program_error_from e = program_error_from f \<longleftrightarrow> e = f"
  by (simp add: program_error_from_def)

end
