(* ===== verification/Fee_Groups.thy ===== *)
theory Fee_Groups
  imports Tip_Errors
begin

text \<open>
  The base fee groups (\<open>core/src/base_fee_group.rs\<close>) and the NCN fee groups
  (\<open>core/src/ncn_fee_group.rs\<close>). Both are one-byte tags with eight valid values that index the
  eight-slot arrays of fees, stake weights and rewards. Their common contract is the locale
  \<open>fee_group\<close>, interpreted for both.
\<close>

definition FEE_GROUP_COUNT :: nat where "FEE_GROUP_COUNT = 8"

section \<open>Base fee groups\<close>

text \<open>\<open>base_fee_group.rs\<close>: the enum with its discriminants, and the one-byte struct.\<close>

datatype base_fee_group_type =
    Base_DAO
  | Base_Reserved1
  | Base_Reserved2
  | Base_Reserved3
  | Base_Reserved4
  | Base_Reserved5
  | Base_Reserved6
  | Base_Reserved7

record base_fee_group =
  base_group :: u8

primrec base_fee_group_type_as_u8 :: "base_fee_group_type \<Rightarrow> u8" where
  "base_fee_group_type_as_u8 Base_DAO = 0"
| "base_fee_group_type_as_u8 Base_Reserved1 = 1"
| "base_fee_group_type_as_u8 Base_Reserved2 = 2"
| "base_fee_group_type_as_u8 Base_Reserved3 = 3"
| "base_fee_group_type_as_u8 Base_Reserved4 = 4"
| "base_fee_group_type_as_u8 Base_Reserved5 = 5"
| "base_fee_group_type_as_u8 Base_Reserved6 = 6"
| "base_fee_group_type_as_u8 Base_Reserved7 = 7"

definition base_fee_group_new :: "base_fee_group_type \<Rightarrow> base_fee_group" where
  "base_fee_group_new t = \<lparr>base_group = base_fee_group_type_as_u8 t\<rparr>"

definition base_fee_group_default :: base_fee_group where
  "base_fee_group_default = \<lparr>base_group = base_fee_group_type_as_u8 Base_DAO\<rparr>"

definition base_fee_group_try_from :: "u8 \<Rightarrow> tip_router_error + base_fee_group" where
  "base_fee_group_try_from u =
    (if u = 0 then Inr (base_fee_group_new Base_DAO) else
     if u = 1 then Inr (base_fee_group_new Base_Reserved1) else
     if u = 2 then Inr (base_fee_group_new Base_Reserved2) else
     if u = 3 then Inr (base_fee_group_new Base_Reserved3) else
     if u = 4 then Inr (base_fee_group_new Base_Reserved4) else
     if u = 5 then Inr (base_fee_group_new Base_Reserved5) else
     if u = 6 then Inr (base_fee_group_new Base_Reserved6) else
     if u = 7 then Inr (base_fee_group_new Base_Reserved7) else
     Inl InvalidBaseFeeGroup)"

definition base_fee_group_group_type :: "base_fee_group \<Rightarrow> tip_router_error + base_fee_group_type" where
  "base_fee_group_group_type g =
    (if base_group g = 0 then Inr Base_DAO else
     if base_group g = 1 then Inr Base_Reserved1 else
     if base_group g = 2 then Inr Base_Reserved2 else
     if base_group g = 3 then Inr Base_Reserved3 else
     if base_group g = 4 then Inr Base_Reserved4 else
     if base_group g = 5 then Inr Base_Reserved5 else
     if base_group g = 6 then Inr Base_Reserved6 else
     if base_group g = 7 then Inr Base_Reserved7 else
     Inl InvalidNcnFeeGroup)"

definition base_fee_group_group_index :: "base_fee_group \<Rightarrow> tip_router_error + nat" where
  "base_fee_group_group_index g =
    rbind (base_fee_group_group_type g) (\<lambda>t. Inr (unat (base_fee_group_type_as_u8 t)))"

definition base_fee_group_all_groups :: "base_fee_group list" where
  "base_fee_group_all_groups =
    [base_fee_group_new Base_DAO,
     base_fee_group_new Base_Reserved1,
     base_fee_group_new Base_Reserved2,
     base_fee_group_new Base_Reserved3,
     base_fee_group_new Base_Reserved4,
     base_fee_group_new Base_Reserved5,
     base_fee_group_new Base_Reserved6,
     base_fee_group_new Base_Reserved7]"

definition base_fee_group_dao :: base_fee_group where
  "base_fee_group_dao = base_fee_group_new Base_DAO"

section \<open>NCN fee groups\<close>

text \<open>\<open>ncn_fee_group.rs\<close>: the enum with its discriminants, and the one-byte struct.\<close>

datatype ncn_fee_group_type =
    Ncn_Default
  | Ncn_JTO
  | Ncn_Reserved2
  | Ncn_Reserved3
  | Ncn_Reserved4
  | Ncn_Reserved5
  | Ncn_Reserved6
  | Ncn_Reserved7

record ncn_fee_group =
  ncn_group :: u8

primrec ncn_fee_group_type_as_u8 :: "ncn_fee_group_type \<Rightarrow> u8" where
  "ncn_fee_group_type_as_u8 Ncn_Default = 0"
| "ncn_fee_group_type_as_u8 Ncn_JTO = 1"
| "ncn_fee_group_type_as_u8 Ncn_Reserved2 = 2"
| "ncn_fee_group_type_as_u8 Ncn_Reserved3 = 3"
| "ncn_fee_group_type_as_u8 Ncn_Reserved4 = 4"
| "ncn_fee_group_type_as_u8 Ncn_Reserved5 = 5"
| "ncn_fee_group_type_as_u8 Ncn_Reserved6 = 6"
| "ncn_fee_group_type_as_u8 Ncn_Reserved7 = 7"

definition ncn_fee_group_new :: "ncn_fee_group_type \<Rightarrow> ncn_fee_group" where
  "ncn_fee_group_new t = \<lparr>ncn_group = ncn_fee_group_type_as_u8 t\<rparr>"

definition ncn_fee_group_default :: ncn_fee_group where
  "ncn_fee_group_default = \<lparr>ncn_group = ncn_fee_group_type_as_u8 Ncn_Default\<rparr>"

definition ncn_fee_group_try_from :: "u8 \<Rightarrow> tip_router_error + ncn_fee_group" where
  "ncn_fee_group_try_from u =
    (if u = 0 then Inr (ncn_fee_group_new Ncn_Default) else
     if u = 1 then Inr (ncn_fee_group_new Ncn_JTO) else
     if u = 2 then Inr (ncn_fee_group_new Ncn_Reserved2) else
     if u = 3 then Inr (ncn_fee_group_new Ncn_Reserved3) else
     if u = 4 then Inr (ncn_fee_group_new Ncn_Reserved4) else
     if u = 5 then Inr (ncn_fee_group_new Ncn_Reserved5) else
     if u = 6 then Inr (ncn_fee_group_new Ncn_Reserved6) else
     if u = 7 then Inr (ncn_fee_group_new Ncn_Reserved7) else
     Inl InvalidNcnFeeGroup)"

definition ncn_fee_group_group_type :: "ncn_fee_group \<Rightarrow> tip_router_error + ncn_fee_group_type" where
  "ncn_fee_group_group_type g =
    (if ncn_group g = 0 then Inr Ncn_Default else
     if ncn_group g = 1 then Inr Ncn_JTO else
     if ncn_group g = 2 then Inr Ncn_Reserved2 else
     if ncn_group g = 3 then Inr Ncn_Reserved3 else
     if ncn_group g = 4 then Inr Ncn_Reserved4 else
     if ncn_group g = 5 then Inr Ncn_Reserved5 else
     if ncn_group g = 6 then Inr Ncn_Reserved6 else
     if ncn_group g = 7 then Inr Ncn_Reserved7 else
     Inl InvalidNcnFeeGroup)"

definition ncn_fee_group_group_index :: "ncn_fee_group \<Rightarrow> tip_router_error + nat" where
  "ncn_fee_group_group_index g =
    rbind (ncn_fee_group_group_type g) (\<lambda>t. Inr (unat (ncn_fee_group_type_as_u8 t)))"

definition ncn_fee_group_all_groups :: "ncn_fee_group list" where
  "ncn_fee_group_all_groups =
    [ncn_fee_group_new Ncn_Default,
     ncn_fee_group_new Ncn_JTO,
     ncn_fee_group_new Ncn_Reserved2,
     ncn_fee_group_new Ncn_Reserved3,
     ncn_fee_group_new Ncn_Reserved4,
     ncn_fee_group_new Ncn_Reserved5,
     ncn_fee_group_new Ncn_Reserved6,
     ncn_fee_group_new Ncn_Reserved7]"

definition ncn_fee_group_lst :: ncn_fee_group where
  "ncn_fee_group_lst = ncn_fee_group_new Ncn_Default"

definition ncn_fee_group_jto :: ncn_fee_group where
  "ncn_fee_group_jto = ncn_fee_group_new Ncn_JTO"

section \<open>The contract of a fee group\<close>

text \<open>What the fee tables, stake weights and routers rely on: the list of all groups enumerates
  the eight array slots in order, and a group with an index is the group of that slot.\<close>

locale fee_group =
  fixes group_index :: "'g \<Rightarrow> tip_router_error + nat"
    and all_groups :: "'g list"
    and try_from :: "u8 \<Rightarrow> tip_router_error + 'g"
  assumes length_all: "length all_groups = 8"
    and index_all: "i < 8 \<Longrightarrow> group_index (all_groups ! i) = Inr i"
    and index_inv: "group_index g = Inr i \<Longrightarrow> i < 8 \<and> g = all_groups ! i"
    and try_from_iff: "try_from u = Inr g \<longleftrightarrow> unat u < 8 \<and> g = all_groups ! unat u"
begin

lemma index_bound: "group_index g = Inr i \<Longrightarrow> i < 8"
  using index_inv by blast

lemma index_inject: "group_index g = Inr i \<Longrightarrow> group_index h = Inr i \<Longrightarrow> g = h"
  using index_inv by blast

lemma all_has_index: "g \<in> set all_groups \<Longrightarrow> \<exists>i < 8. group_index g = Inr i \<and> g = all_groups ! i"
  by (metis in_set_conv_nth index_all length_all)

lemma index_in_all: "group_index g = Inr i \<Longrightarrow> g \<in> set all_groups"
  using index_inv length_all by (metis nth_mem)

lemma map_index_all: "map group_index all_groups = map Inr [0..<8]"
  by (rule nth_equalityI) (simp_all add: length_all index_all)

lemma distinct_all: "distinct all_groups"
proof -
  have "distinct (map group_index all_groups)"
    by (simp add: map_index_all distinct_map inj_on_def)
  then show ?thesis by (simp add: distinct_map)
qed

lemma try_from_index: "try_from u = Inr g \<Longrightarrow> group_index g = Inr (unat u)"
  by (auto simp: try_from_iff index_all)

text \<open>The slot of a group as a number; arbitrary groups outside the enumeration have no slot.\<close>

definition slot :: "'g \<Rightarrow> nat" where
  "slot g = (case group_index g of Inl _ \<Rightarrow> 8 | Inr i \<Rightarrow> i)"

lemma slot_eq: "group_index g = Inr i \<Longrightarrow> slot g = i"
  by (simp add: slot_def)

lemma slot_nth [simp]: "i < 8 \<Longrightarrow> slot (all_groups ! i) = i"
  by (simp add: slot_def index_all)

lemma map_slot_all: "map slot all_groups = [0..<8]"
  by (rule nth_equalityI) (simp_all add: length_all)

lemma distinct_slots: "distinct (map slot all_groups)"
  by (simp add: map_slot_all)

lemma slot_bound: "g \<in> set all_groups \<Longrightarrow> slot g < 8"
  using all_has_index slot_eq by metis

lemma image_slot_all: "slot ` set all_groups = {..<8}"
  by (metis atLeast0LessThan map_slot_all set_map set_upt)

text \<open>A loop over all groups that writes the slot of its group acts pointwise on the array.\<close>

lemma rfold_groups:
  assumes "rfold f all_groups s = Inr t" and "length (get s) = 8"
    and step: "\<And>i s t. i < 8 \<Longrightarrow> length (get s) = 8 \<Longrightarrow> f (all_groups ! i) s = Inr t \<Longrightarrow>
      \<exists>v. get t = (get s)[i := v] \<and> R i (get s ! i) v"
  shows "length (get t) = 8 \<and> (\<forall>i < 8. R i (get s ! i) (get t ! i))"
proof -
  have "length (get t) = 8 \<and>
    (\<forall>g \<in> set all_groups. R (slot g) (get s ! slot g) (get t ! slot g)) \<and>
    (\<forall>j. j \<notin> slot ` set all_groups \<longrightarrow> get t ! j = get s ! j)"
  proof (rule rfold_pointwise [where idx = slot and get = get, OF assms(1) distinct_slots assms(2)])
    show "slot g < 8" if "g \<in> set all_groups" for g using that by (rule slot_bound)
  next
    fix g s t
    assume "g \<in> set all_groups" and s: "length (get s) = 8" "f g s = Inr t"
    then obtain i where "i < 8" "g = all_groups ! i" using all_has_index by blast
    with s step [of i s t]
    show "\<exists>v. get t = (get s)[slot g := v] \<and> R (slot g) (get s ! slot g) v" by simp
  qed
  then show ?thesis using length_all by (metis nth_mem slot_nth)
qed

end

lemmas base_group_defs =
  base_fee_group_new_def base_fee_group_default_def base_fee_group_try_from_def
  base_fee_group_group_type_def base_fee_group_group_index_def base_fee_group_all_groups_def
  base_fee_group_dao_def

lemmas ncn_group_defs =
  ncn_fee_group_new_def ncn_fee_group_default_def ncn_fee_group_try_from_def
  ncn_fee_group_group_type_def ncn_fee_group_group_index_def ncn_fee_group_all_groups_def
  ncn_fee_group_lst_def ncn_fee_group_jto_def

lemma less_8_cases: "(i::nat) < 8 \<Longrightarrow> i = 0 \<or> i = 1 \<or> i = 2 \<or> i = 3 \<or> i = 4 \<or> i = 5 \<or> i = 6 \<or> i = 7"
  by arith

interpretation bg: fee_group base_fee_group_group_index base_fee_group_all_groups
  base_fee_group_try_from
proof
  show "length base_fee_group_all_groups = 8" by (simp add: base_group_defs)
  show "base_fee_group_group_index (base_fee_group_all_groups ! i) = Inr i" if "i < 8" for i
    using less_8_cases [OF that] by (elim disjE) (simp_all add: base_group_defs)
  show "i < 8 \<and> g = base_fee_group_all_groups ! i" if "base_fee_group_group_index g = Inr i" for g i
    using that by (cases g) (auto simp: base_group_defs split: if_splits)
  show "base_fee_group_try_from u = Inr g \<longleftrightarrow> unat u < 8 \<and> g = base_fee_group_all_groups ! unat u"
    for u g
  proof (cases "unat u < 8")
    case True
    then have "u \<in> {0, 1, 2, 3, 4, 5, 6, 7}" 
      using less_8_cases [OF True] by (auto simp: word_unat_eq_iff)
    then show ?thesis by (auto simp: base_group_defs)
  next
    case False
    then have "u \<notin> {0, 1, 2, 3, 4, 5, 6, 7}" by auto
    with False show ?thesis by (simp add: base_group_defs)
  qed
qed

interpretation ng: fee_group ncn_fee_group_group_index ncn_fee_group_all_groups
  ncn_fee_group_try_from
proof
  show "length ncn_fee_group_all_groups = 8" by (simp add: ncn_group_defs)
  show "ncn_fee_group_group_index (ncn_fee_group_all_groups ! i) = Inr i" if "i < 8" for i
    using less_8_cases [OF that] by (elim disjE) (simp_all add: ncn_group_defs)
  show "i < 8 \<and> g = ncn_fee_group_all_groups ! i" if "ncn_fee_group_group_index g = Inr i" for g i
    using that by (cases g) (auto simp: ncn_group_defs split: if_splits)
  show "ncn_fee_group_try_from u = Inr g \<longleftrightarrow> unat u < 8 \<and> g = ncn_fee_group_all_groups ! unat u"
    for u g
  proof (cases "unat u < 8")
    case True
    then have "u \<in> {0, 1, 2, 3, 4, 5, 6, 7}" 
      using less_8_cases [OF True] by (auto simp: word_unat_eq_iff)
    then show ?thesis by (auto simp: ncn_group_defs)
  next
    case False
    then have "u \<notin> {0, 1, 2, 3, 4, 5, 6, 7}" by auto
    with False show ?thesis by (simp add: ncn_group_defs)
  qed
qed

lemma dao_index [simp]: "base_fee_group_group_index base_fee_group_dao = Inr 0"
  by (simp add: base_group_defs)

lemma base_default_index [simp]: "base_fee_group_group_index base_fee_group_default = Inr 0"
  by (simp add: base_group_defs)

lemma ncn_default_index [simp]: "ncn_fee_group_group_index ncn_fee_group_default = Inr 0"
  by (simp add: ncn_group_defs)

end
