(* ===== verification/Stake_Weight.thy ===== *)
theory Stake_Weight
  imports Fee_Groups
begin

text \<open>
  \<open>core/src/stake_weight.rs\<close>: a stake weight with its breakdown into the eight NCN fee groups.
  The operations mutate a \<open>StakeWeights\<close> in place through checked arithmetic; here they return
  the updated record. Read at the naturals (\<open>sw_total\<close>, \<open>sw_at\<close>), incrementing is addition and
  decrementing is its inverse, slot by slot.
\<close>

section \<open>Model\<close>

record ncn_fee_group_weight =
  ngw_weight :: u128

record stake_weights =
  sw_stake_weight :: u128
  sw_group_weights :: "ncn_fee_group_weight list"

definition ncn_fee_group_weight_default :: ncn_fee_group_weight where
  "ncn_fee_group_weight_default = \<lparr>ngw_weight = 0\<rparr>"

definition ncn_fee_group_weight_new :: "u128 \<Rightarrow> ncn_fee_group_weight" where
  "ncn_fee_group_weight_new w = \<lparr>ngw_weight = w\<rparr>"

definition stake_weights_default :: stake_weights where
  "stake_weights_default =
    \<lparr>sw_stake_weight = 0,
     sw_group_weights = replicate FEE_GROUP_COUNT ncn_fee_group_weight_default\<rparr>"

definition stake_weights_new :: "u128 \<Rightarrow> stake_weights" where
  "stake_weights_new w =
    \<lparr>sw_stake_weight = w,
     sw_group_weights = replicate FEE_GROUP_COUNT ncn_fee_group_weight_default\<rparr>"

definition ncn_fee_group_stake_weight ::
    "stake_weights \<Rightarrow> ncn_fee_group \<Rightarrow> tip_router_error + u128" where
  "ncn_fee_group_stake_weight s g =
    rbind (ncn_fee_group_group_index g) (\<lambda>i. Inr (ngw_weight (sw_group_weights s ! i)))"

definition increment_stake_weight :: "stake_weights \<Rightarrow> u128 \<Rightarrow> tip_router_error + stake_weights" where
  "increment_stake_weight s w =
    rbind (ok_or ArithmeticOverflow (checked_add (sw_stake_weight s) w)) (\<lambda>v.
    Inr (s\<lparr>sw_stake_weight := v\<rparr>))"

definition increment_ncn_fee_group_stake_weight ::
    "stake_weights \<Rightarrow> ncn_fee_group \<Rightarrow> u128 \<Rightarrow> tip_router_error + stake_weights" where
  "increment_ncn_fee_group_stake_weight s g w =
    rbind (ncn_fee_group_group_index g) (\<lambda>i.
    rbind (ncn_fee_group_stake_weight s g) (\<lambda>cur.
    rbind (ok_or ArithmeticOverflow (checked_add cur w)) (\<lambda>v.
    Inr (s\<lparr>sw_group_weights := (sw_group_weights s)[i := (sw_group_weights s ! i)\<lparr>ngw_weight := v\<rparr>]\<rparr>))))"

definition stake_weights_increment ::
    "stake_weights \<Rightarrow> stake_weights \<Rightarrow> tip_router_error + stake_weights" where
  "stake_weights_increment s d =
    rbind (increment_stake_weight s (sw_stake_weight d)) (\<lambda>s.
    rfold (\<lambda>g s. rbind (ncn_fee_group_stake_weight d g) (\<lambda>w.
      increment_ncn_fee_group_stake_weight s g w)) ncn_fee_group_all_groups s)"

definition decrement_stake_weight :: "stake_weights \<Rightarrow> u128 \<Rightarrow> tip_router_error + stake_weights" where
  "decrement_stake_weight s w =
    rbind (ok_or ArithmeticOverflow (checked_sub (sw_stake_weight s) w)) (\<lambda>v.
    Inr (s\<lparr>sw_stake_weight := v\<rparr>))"

definition decrement_ncn_fee_group_stake_weight ::
    "stake_weights \<Rightarrow> ncn_fee_group \<Rightarrow> u128 \<Rightarrow> tip_router_error + stake_weights" where
  "decrement_ncn_fee_group_stake_weight s g w =
    rbind (ncn_fee_group_group_index g) (\<lambda>i.
    rbind (ncn_fee_group_stake_weight s g) (\<lambda>cur.
    rbind (ok_or ArithmeticOverflow (checked_sub cur w)) (\<lambda>v.
    Inr (s\<lparr>sw_group_weights := (sw_group_weights s)[i := (sw_group_weights s ! i)\<lparr>ngw_weight := v\<rparr>]\<rparr>))))"

definition stake_weights_decrement ::
    "stake_weights \<Rightarrow> stake_weights \<Rightarrow> tip_router_error + stake_weights" where
  "stake_weights_decrement s d =
    rbind (decrement_stake_weight s (sw_stake_weight d)) (\<lambda>s.
    rfold (\<lambda>g s. rbind (ncn_fee_group_stake_weight d g) (\<lambda>w.
      decrement_ncn_fee_group_stake_weight s g w)) ncn_fee_group_all_groups s)"

text \<open>\<open>(reward_multiplier_bps as u128)\<close> widens, so it keeps the value.\<close>

definition stake_weights_snapshot ::
    "ncn_fee_group \<Rightarrow> u128 \<Rightarrow> u64 \<Rightarrow> tip_router_error + stake_weights" where
  "stake_weights_snapshot g stake_weight reward_multiplier_bps =
    rbind (ok_or ArithmeticOverflow (checked_mul (ucast reward_multiplier_bps) stake_weight)) (\<lambda>reward.
    rbind (increment_stake_weight stake_weights_default stake_weight) (\<lambda>s.
    increment_ncn_fee_group_stake_weight s g reward))"

section \<open>Reading stake weights at the naturals\<close>

definition wf_stake_weights :: "stake_weights \<Rightarrow> bool" where
  "wf_stake_weights s \<longleftrightarrow> length (sw_group_weights s) = 8"

definition sw_total :: "stake_weights \<Rightarrow> nat" where
  "sw_total s = unat (sw_stake_weight s)"

definition sw_at :: "stake_weights \<Rightarrow> nat \<Rightarrow> nat" where
  "sw_at s i = unat (ngw_weight (sw_group_weights s ! i))"

lemmas sw_defs = wf_stake_weights_def sw_total_def sw_at_def

lemma wf_stake_weights_default [simp]: "wf_stake_weights stake_weights_default"
  by (simp add: sw_defs stake_weights_default_def FEE_GROUP_COUNT_def)

lemma sw_total_default [simp]: "sw_total stake_weights_default = 0"
  by (simp add: sw_defs stake_weights_default_def)

lemma sw_at_default [simp]: "i < 8 \<Longrightarrow> sw_at stake_weights_default i = 0"
  by (simp add: sw_defs stake_weights_default_def FEE_GROUP_COUNT_def
      ncn_fee_group_weight_default_def)

text \<open>A well-formed stake weight is determined by its readings.\<close>

lemma stake_weights_eqI:
  assumes "wf_stake_weights s" "wf_stake_weights t" "sw_total s = sw_total t"
    and "\<And>i. i < 8 \<Longrightarrow> sw_at s i = sw_at t i"
  shows "s = t"
proof -
  have "sw_stake_weight s = sw_stake_weight t"
    using assms(3) by (simp add: sw_total_def word_unat_eq_iff)
  moreover have "sw_group_weights s = sw_group_weights t"
    using assms(1,2,4)
    by (intro nth_equalityI) (auto simp: sw_defs word_unat_eq_iff intro!: ncn_fee_group_weight.equality)
  ultimately show ?thesis by simp
qed

lemma ncn_fee_group_stake_weight_Inr:
  "ncn_fee_group_stake_weight s g = Inr w \<longleftrightarrow>
    (\<exists>i. ncn_fee_group_group_index g = Inr i \<and> w = ngw_weight (sw_group_weights s ! i))"
  by (auto simp: ncn_fee_group_stake_weight_def res_simps)

section \<open>Incrementing is addition\<close>

text \<open>Every field of the result is the sum of the fields of the operands, or the call fails.\<close>

lemma stake_weights_increment_wf:
  assumes "stake_weights_increment s d = Inr t" and "wf_stake_weights s"
  shows "wf_stake_weights t \<and> sw_total t = sw_total s + sw_total d \<and>
    (\<forall>i < 8. sw_at t i = sw_at s i + sw_at d i)"
proof -
  let ?step = "\<lambda>g s. rbind (ncn_fee_group_stake_weight d g) (\<lambda>w.
      increment_ncn_fee_group_stake_weight s g w)"
  obtain v where v: "checked_add (sw_stake_weight s) (sw_stake_weight d) = Some v"
    and loop: "rfold ?step ncn_fee_group_all_groups (s\<lparr>sw_stake_weight := v\<rparr>) = Inr t"
    using assms(1) by (auto simp: stake_weights_increment_def increment_stake_weight_def res_simps)
  have "sw_stake_weight t = sw_stake_weight (s\<lparr>sw_stake_weight := v\<rparr>)"
    by (rule rfold_frame [OF loop]) (auto simp: increment_ncn_fee_group_stake_weight_def res_simps)
  then have total: "sw_stake_weight t = v" by simp
  have "length (sw_group_weights t) = 8 \<and>
    (\<forall>i < 8. unat (ngw_weight (sw_group_weights t ! i)) =
      unat (ngw_weight (sw_group_weights (s\<lparr>sw_stake_weight := v\<rparr>) ! i)) + sw_at d i)"
  proof (rule ng.rfold_groups [OF loop, where get = sw_group_weights and
        R = "\<lambda>i a b. unat (ngw_weight b) = unat (ngw_weight a) + sw_at d i"])
    show "length (sw_group_weights (s\<lparr>sw_stake_weight := v\<rparr>)) = 8"
      using assms(2) by (simp add: sw_defs)
  next
    fix i s t
    assume "i < 8" and "?step (ncn_fee_group_all_groups ! i) s = Inr t"
    then show "\<exists>b. sw_group_weights t = (sw_group_weights s)[i := b] \<and>
        unat (ngw_weight b) = unat (ngw_weight (sw_group_weights s ! i)) + sw_at d i"
      by (auto simp: increment_ncn_fee_group_stake_weight_def ncn_fee_group_stake_weight_Inr
          ng.index_all res_simps checked_simps sw_at_def intro!: slot_updateI)
  qed
  with total v show ?thesis by (simp add: sw_defs checked_simps)
qed

lemma stake_weights_decrement_wf:
  assumes "stake_weights_decrement s d = Inr t" and "wf_stake_weights s"
  shows "wf_stake_weights t \<and> sw_total s = sw_total d + sw_total t \<and>
    (\<forall>i < 8. sw_at s i = sw_at d i + sw_at t i)"
proof -
  let ?step = "\<lambda>g s. rbind (ncn_fee_group_stake_weight d g) (\<lambda>w.
      decrement_ncn_fee_group_stake_weight s g w)"
  obtain v where v: "checked_sub (sw_stake_weight s) (sw_stake_weight d) = Some v"
    and loop: "rfold ?step ncn_fee_group_all_groups (s\<lparr>sw_stake_weight := v\<rparr>) = Inr t"
    using assms(1) by (auto simp: stake_weights_decrement_def decrement_stake_weight_def res_simps)
  have "sw_stake_weight t = sw_stake_weight (s\<lparr>sw_stake_weight := v\<rparr>)"
    by (rule rfold_frame [OF loop]) (auto simp: decrement_ncn_fee_group_stake_weight_def res_simps)
  then have total: "sw_stake_weight t = v" by simp
  have "length (sw_group_weights t) = 8 \<and>
    (\<forall>i < 8. unat (ngw_weight (sw_group_weights (s\<lparr>sw_stake_weight := v\<rparr>) ! i)) =
      sw_at d i + unat (ngw_weight (sw_group_weights t ! i)))"
  proof (rule ng.rfold_groups [OF loop, where get = sw_group_weights and
        R = "\<lambda>i a b. unat (ngw_weight a) = sw_at d i + unat (ngw_weight b)"])
    show "length (sw_group_weights (s\<lparr>sw_stake_weight := v\<rparr>)) = 8"
      using assms(2) by (simp add: sw_defs)
  next
    fix i s t
    assume "i < 8" and "?step (ncn_fee_group_all_groups ! i) s = Inr t"
    then show "\<exists>b. sw_group_weights t = (sw_group_weights s)[i := b] \<and>
        unat (ngw_weight (sw_group_weights s ! i)) = sw_at d i + unat (ngw_weight b)"
      by (auto simp: decrement_ncn_fee_group_stake_weight_def ncn_fee_group_stake_weight_Inr
          ng.index_all res_simps checked_simps sw_at_def intro!: slot_updateI)
  qed
  with total v show ?thesis by (simp add: sw_defs checked_simps)
qed

section \<open>When the operations return\<close>

lemma stake_weights_decrement_total:
  assumes "wf_stake_weights s" and "sw_total d \<le> sw_total s"
    and "\<And>i. i < 8 \<Longrightarrow> sw_at d i \<le> sw_at s i"
  shows "\<exists>t. stake_weights_decrement s d = Inr t"
proof -
  let ?step = "\<lambda>g s. rbind (ncn_fee_group_stake_weight d g) (\<lambda>w.
      decrement_ncn_fee_group_stake_weight s g w)"
  obtain v where v: "checked_sub (sw_stake_weight s) (sw_stake_weight d) = Some v"
    using assms(2) by (cases "checked_sub (sw_stake_weight s) (sw_stake_weight d)")
      (auto simp: checked_simps sw_defs)
  have "\<exists>t. rfold ?step ncn_fee_group_all_groups (s\<lparr>sw_stake_weight := v\<rparr>) = Inr t"
  proof (rule rfold_pointwise_total [where idx = ng.slot and get = sw_group_weights
        and Q = "\<lambda>g a. sw_at d (ng.slot g) \<le> unat (ngw_weight a)" and P = "\<lambda>_. True"])
    show "sw_at d (ng.slot g) \<le> unat (ngw_weight (sw_group_weights (s\<lparr>sw_stake_weight := v\<rparr>) ! ng.slot g))"
      if "g \<in> set ncn_fee_group_all_groups" for g
      using assms(3) [OF ng.slot_bound [OF that]] by (simp add: sw_at_def)
  next
    fix g and s :: stake_weights
    assume g: "g \<in> set ncn_fee_group_all_groups"
      and le: "sw_at d (ng.slot g) \<le> unat (ngw_weight (sw_group_weights s ! ng.slot g))"
    from g obtain i where i: "i < 8" "ncn_fee_group_group_index g = Inr i" "g = ncn_fee_group_all_groups ! i"
      using ng.all_has_index by blast
    obtain w where "checked_sub (ngw_weight (sw_group_weights s ! i)) (ngw_weight (sw_group_weights d ! i)) = Some w"
      using le i by (cases "checked_sub (ngw_weight (sw_group_weights s ! i)) (ngw_weight (sw_group_weights d ! i))")
        (auto simp: checked_simps sw_at_def)
    then show "\<exists>t v. ?step g s = Inr t \<and> True \<and> sw_group_weights t = (sw_group_weights s)[ng.slot g := v]"
      using i by (auto simp: decrement_ncn_fee_group_stake_weight_def ncn_fee_group_stake_weight_def)
  qed (simp_all add: ng.distinct_slots)
  then show ?thesis using v by (simp add: stake_weights_decrement_def decrement_stake_weight_def)
qed

lemma stake_weights_increment_total:
  assumes "wf_stake_weights s" and "sw_total s + sw_total d < 2 ^ 128"
    and "\<And>i. i < 8 \<Longrightarrow> sw_at s i + sw_at d i < 2 ^ 128"
  shows "\<exists>t. stake_weights_increment s d = Inr t"
proof -
  let ?step = "\<lambda>g s. rbind (ncn_fee_group_stake_weight d g) (\<lambda>w.
      increment_ncn_fee_group_stake_weight s g w)"
  obtain v where v: "checked_add (sw_stake_weight s) (sw_stake_weight d) = Some v"
    using assms(2) by (cases "checked_add (sw_stake_weight s) (sw_stake_weight d)")
      (auto simp: checked_simps sw_defs)
  have "\<exists>t. rfold ?step ncn_fee_group_all_groups (s\<lparr>sw_stake_weight := v\<rparr>) = Inr t"
  proof (rule rfold_pointwise_total [where idx = ng.slot and get = sw_group_weights
        and Q = "\<lambda>g a. unat (ngw_weight a) + sw_at d (ng.slot g) < 2 ^ 128" and P = "\<lambda>_. True"])
    show "unat (ngw_weight (sw_group_weights (s\<lparr>sw_stake_weight := v\<rparr>) ! ng.slot g)) + sw_at d (ng.slot g) < 2 ^ 128"
      if "g \<in> set ncn_fee_group_all_groups" for g
      using assms(3) [OF ng.slot_bound [OF that]] by (simp add: sw_at_def)
  next
    fix g and s :: stake_weights
    assume g: "g \<in> set ncn_fee_group_all_groups"
      and le: "unat (ngw_weight (sw_group_weights s ! ng.slot g)) + sw_at d (ng.slot g) < 2 ^ 128"
    from g obtain i where i: "i < 8" "ncn_fee_group_group_index g = Inr i" "g = ncn_fee_group_all_groups ! i"
      using ng.all_has_index by blast
    obtain w where "checked_add (ngw_weight (sw_group_weights s ! i)) (ngw_weight (sw_group_weights d ! i)) = Some w"
      using le i by (cases "checked_add (ngw_weight (sw_group_weights s ! i)) (ngw_weight (sw_group_weights d ! i))")
        (auto simp: checked_simps sw_at_def)
    then show "\<exists>t v. ?step g s = Inr t \<and> True \<and> sw_group_weights t = (sw_group_weights s)[ng.slot g := v]"
      using i by (auto simp: increment_ncn_fee_group_stake_weight_def ncn_fee_group_stake_weight_def)
  qed (simp_all add: ng.distinct_slots)
  then show ?thesis using v by (simp add: stake_weights_increment_def increment_stake_weight_def)
qed

text \<open>Adding a stake weight to a tally and subtracting it again gives back the tally, in the
  total and in every fee group, and the subtraction never fails.\<close>

theorem stake_weights_increment_decrement:
  assumes "wf_stake_weights s" and "stake_weights_increment s d = Inr t"
  shows "stake_weights_decrement t d = Inr s"
proof -
  have inc: "wf_stake_weights t" "sw_total t = sw_total s + sw_total d"
    "\<forall>i < 8. sw_at t i = sw_at s i + sw_at d i"
    using stake_weights_increment_wf [OF assms(2,1)] by auto
  then obtain u where u: "stake_weights_decrement t d = Inr u"
    using stake_weights_decrement_total [of t d] by auto
  then have "u = s"
    using stake_weights_decrement_wf [OF u inc(1)] inc assms(1)
    by (intro stake_weights_eqI) auto
  with u show ?thesis by simp
qed

theorem stake_weights_increment_decrement_witness:
  "\<exists>t. stake_weights_increment (stake_weights_new 7) (stake_weights_new 5) = Inr t \<and>
    sw_total t = 12 \<and> stake_weights_decrement t (stake_weights_new 5) = Inr (stake_weights_new 7)"
proof -
  have wf: "wf_stake_weights (stake_weights_new n)" "sw_total (stake_weights_new n) = unat n"
    "i < 8 \<Longrightarrow> sw_at (stake_weights_new n) i = 0" for n i
    by (simp_all add: sw_defs stake_weights_new_def FEE_GROUP_COUNT_def ncn_fee_group_weight_default_def)
  obtain t where t: "stake_weights_increment (stake_weights_new 7) (stake_weights_new 5) = Inr t"
    using stake_weights_increment_total [of "stake_weights_new 7" "stake_weights_new 5"] wf by auto
  have "sw_total t = 12" using stake_weights_increment_wf [OF t wf(1)] wf(2) by simp
  with t stake_weights_increment_decrement [OF wf(1) t] show ?thesis by blast
qed

text \<open>The weight taken at a snapshot: the stake weight votes with its full value and counts for
  rewards in its mint's fee group only, multiplied by the reward multiplier.\<close>

lemma stake_weights_snapshot_Inr:
  assumes "stake_weights_snapshot g w m = Inr s"
  shows "wf_stake_weights s \<and> sw_total s = unat w \<and>
    (\<exists>i < 8. ncn_fee_group_group_index g = Inr i \<and>
      (\<forall>j < 8. sw_at s j = (if j = i then unat m * unat w else 0)))"
proof -
  have m: "unat (ucast m :: u128) = unat m"
    by (rule unat_ucast_widen) simp
  obtain i v reward where i: "ncn_fee_group_group_index g = Inr i" "i < 8"
    and r: "checked_mul (ucast m) w = Some reward"
    and s: "s = stake_weights_default\<lparr>sw_stake_weight := w,
        sw_group_weights := (sw_group_weights stake_weights_default)
          [i := (sw_group_weights stake_weights_default ! i)\<lparr>ngw_weight := v\<rparr>]\<rparr>"
    and v: "unat v = unat reward"
    using assms ng.index_bound
    by (auto simp: stake_weights_snapshot_def increment_stake_weight_def
        increment_ncn_fee_group_stake_weight_def ncn_fee_group_stake_weight_def res_simps
        checked_simps stake_weights_default_def ncn_fee_group_weight_default_def FEE_GROUP_COUNT_def
        word_unat_eq_iff split: if_splits)
  show ?thesis
    using i r v m by (auto simp: s sw_defs stake_weights_default_def FEE_GROUP_COUNT_def
        ncn_fee_group_weight_default_def nth_list_update checked_simps)
qed

end
