(* ===== verification/Precise_Number.thy ===== *)
theory Precise_Number
  imports Complex_Main Tip_Errors
begin

text \<open>
  The fixed-point numbers of the \<open>spl_math\<close> crate, which the sources call and do not contain. The
  operations are a record \<open>precise_ops\<close> that every definition using them takes as an argument;
  the locale \<open>precise_number\<close> states the documented behaviour the program relies on: a
  \<open>PreciseNumber\<close> is a rational with twelve decimals, made from any \<open>u128\<close>, compared by value.
  The record \<open>fixed12\<close> is a concrete implementation on naturals scaled by \<open>10^12\<close>; it
  interprets the locale, so the laws can hold together.
\<close>

record 'p precise_ops =
  pn_new :: "u128 \<Rightarrow> 'p option"
  pn_checked_mul :: "'p \<Rightarrow> 'p \<Rightarrow> 'p option"
  pn_checked_div :: "'p \<Rightarrow> 'p \<Rightarrow> 'p option"
  pn_floor :: "'p \<Rightarrow> 'p option"
  pn_to_imprecise :: "'p \<Rightarrow> u128 option"
  pn_greater_than_or_equal :: "'p \<Rightarrow> 'p \<Rightarrow> bool"

section \<open>What the callers compute with it\<close>

text \<open>\<open>constants.rs\<close>: two thirds, as a precise number.\<close>

definition precise_consensus :: "'p precise_ops \<Rightarrow> tip_router_error + 'p" where
  "precise_consensus pn =
    rbind (ok_or NewPreciseNumberError (pn_new pn 2)) (\<lambda>two.
    rbind (ok_or NewPreciseNumberError (pn_new pn 3)) (\<lambda>three.
    ok_or DenominatorIsZero (pn_checked_div pn two three)))"

text \<open>
  The computation both routers repeat for a share: \<open>rewards * part / whole\<close> as precise numbers,
  floored and cast to \<open>u64\<close>. (\<open>calculate_reward_split\<close>,
  \<open>calculate_ncn_fee_group_route_reward\<close>, \<open>calculate_operator_reward\<close> and
  \<open>calculate_vault_reward\<close> are this computation behind different guards, with their three
  operands made precise in different orders.)
\<close>

definition precise_share :: "'p precise_ops \<Rightarrow> 'p \<Rightarrow> 'p \<Rightarrow> 'p \<Rightarrow> tip_router_error + u64" where
  "precise_share pn rewards part whole =
    rbind (ok_or ArithmeticOverflow
      (Option.bind (pn_checked_mul pn rewards part) (\<lambda>x. pn_checked_div pn x whole))) (\<lambda>share.
    rbind (ok_or ArithmeticFloorError (pn_floor pn share)) (\<lambda>floored.
    rbind (ok_or CastToImpreciseNumberError (pn_to_imprecise pn floored)) (\<lambda>share_u128.
    ok_or CastToU64Error (try_into share_u128))))"

section \<open>The contract\<close>

locale precise_number =
  fixes pn :: "'p precise_ops" and val :: "'p \<Rightarrow> rat"
  assumes new_exact: "\<exists>p. pn_new pn n = Some p \<and> val p = of_nat (unat n)"
    and mul_exact: "\<lbrakk>pn_checked_mul pn p q = Some r; val p = of_nat a; val q = of_nat b\<rbrakk>
      \<Longrightarrow> val r = of_nat (a * b)"
    and mul_defined: "\<lbrakk>val p = of_nat a; val q = of_nat b; a * b < 2 ^ 128\<rbrakk>
      \<Longrightarrow> \<exists>r. pn_checked_mul pn p q = Some r"
    and div_zero: "val q = 0 \<Longrightarrow> pn_checked_div pn p q = None"
    and div_defined: "\<lbrakk>val p = of_nat a; a < 2 ^ 128; val q = of_nat b; b \<noteq> 0\<rbrakk>
      \<Longrightarrow> \<exists>r. pn_checked_div pn p q = Some r"
    and div_bounds: "\<lbrakk>pn_checked_div pn p q = Some r; val p = of_nat a; val q = of_nat b; b \<noteq> 0\<rbrakk>
      \<Longrightarrow> of_nat (a div b) \<le> val r \<and> val r \<le> of_nat a / of_nat b"
    and div_decimals: "\<lbrakk>pn_checked_div pn p q = Some r; val p = of_nat a; a < 2 ^ 128;
        val q = of_nat b; b \<noteq> 0\<rbrakk> \<Longrightarrow> val r = of_nat (a * 10 ^ 12 div b) / 10 ^ 12"
    and floor_exact: "pn_floor pn p = Some r \<Longrightarrow> val r = of_int \<lfloor>val p\<rfloor>"
    and floor_defined: "\<exists>r. pn_floor pn p = Some r"
    and imprecise_exact: "\<lbrakk>pn_to_imprecise pn p = Some n; val p = of_nat a\<rbrakk> \<Longrightarrow> unat n = a"
    and imprecise_defined: "\<lbrakk>val p = of_nat a; a < 2 ^ 128\<rbrakk> \<Longrightarrow> \<exists>n. pn_to_imprecise pn p = Some n"
    and ge_iff: "pn_greater_than_or_equal pn p q \<longleftrightarrow> val q \<le> val p"
begin

lemma new_Some: "pn_new pn n = Some p \<Longrightarrow> val p = of_nat (unat n)"
  using new_exact [of n] by auto

lemma new_not_None: "pn_new pn n \<noteq> None"
  using new_exact [of n] by auto

text \<open>A quotient of integers, floored, is the integer quotient.\<close>

lemma div_floor:
  assumes "pn_checked_div pn p q = Some r" "val p = of_nat a" "val q = of_nat b" "b \<noteq> 0"
  shows "\<lfloor>val r\<rfloor> = int (a div b)"
proof -
  have bounds: "of_nat (a div b) \<le> val r" "val r \<le> of_nat a / of_nat b"
    using div_bounds [OF assms] by auto
  have "a < (a div b + 1) * b" using assms(4) by (simp add: dividend_less_div_times)
  then have "(of_nat a :: rat) < of_nat ((a div b + 1) * b)" by (simp only: of_nat_less_iff)
  then have "(of_nat a / of_nat b :: rat) < of_nat (a div b) + 1"
    using assms(4) by (simp add: pos_divide_less_eq algebra_simps)
  then show ?thesis using bounds by (intro floor_unique) auto
qed

text \<open>The share computation returns the integer quotient, whenever it returns.\<close>

lemma share_exact:
  assumes "precise_share pn p q d = Inr x"
    and p: "val p = of_nat r" and q: "val q = of_nat a" and d: "val d = of_nat b"
  shows "b \<noteq> 0 \<and> unat x = r * a div b"
proof -
  obtain m s f n where m: "pn_checked_mul pn p q = Some m" and s: "pn_checked_div pn m d = Some s"
    and f: "pn_floor pn s = Some f" and n: "pn_to_imprecise pn f = Some n" and x: "try_into n = Some x"
    using assms(1) by (auto simp: precise_share_def res_simps bind_eq_Some_conv)
  have b: "b \<noteq> 0" using div_zero [of d m] s d by (cases b) auto
  have "\<lfloor>val s\<rfloor> = int (r * a div b)"
    using div_floor [OF s mul_exact [OF m p q] d b] .
  then have "val f = of_nat (r * a div b)" using floor_exact [OF f] by simp
  then have "unat n = r * a div b" using imprecise_exact [OF n] by simp
  then show ?thesis using x b by (simp add: checked_simps)
qed

text \<open>It returns when the product fits 128 bits and the quotient 64.\<close>

lemma share_defined:
  assumes p: "val p = of_nat r" and q: "val q = of_nat a" and d: "val d = of_nat b"
    and b: "b \<noteq> 0" and prod: "r * a < 2 ^ 128" and quot: "r * a div b < 2 ^ 64"
  shows "\<exists>x. precise_share pn p q d = Inr x"
proof -
  obtain m where m: "pn_checked_mul pn p q = Some m" using mul_defined [OF p q prod] by auto
  have vm: "val m = of_nat (r * a)" by (rule mul_exact [OF m p q])
  obtain s where s: "pn_checked_div pn m d = Some s" using div_defined [OF vm prod d b] by auto
  obtain f where f: "pn_floor pn s = Some f" using floor_defined by auto
  have "val f = of_nat (r * a div b)"
    using floor_exact [OF f] div_floor [OF s vm d b] by simp
  moreover have "r * a div b < 2 ^ 128" using quot by simp
  ultimately obtain n where n: "pn_to_imprecise pn f = Some n" "unat n = r * a div b"
    using imprecise_defined imprecise_exact by blast
  then obtain x :: u64 where "try_into n = Some x"
    using quot by (cases "try_into n :: u64 option") (auto simp: checked_simps)
  then show ?thesis using m s f n by (simp add: precise_share_def)
qed

text \<open>Two thirds are \<open>0.666666666666\<close>, and comparing a ratio of two \<open>u128\<close> with it means
  comparing the ratio cut to twelve decimals.\<close>

lemma consensus_val:
  assumes "precise_consensus pn = Inr c"
  shows "val c = 666666666666 / 10 ^ 12"
proof -
  obtain two three where t: "pn_new pn 2 = Some two" "pn_new pn 3 = Some three"
    and c: "pn_checked_div pn two three = Some c"
    using assms by (auto simp: precise_consensus_def res_simps)
  have "val c = of_nat (2 * 10 ^ 12 div 3) / 10 ^ 12"
    using div_decimals [OF c, of 2 3] new_Some [OF t(1)] new_Some [OF t(2)] by simp
  then show ?thesis by simp
qed

lemma consensus_defined: "\<exists>c. precise_consensus pn = Inr c"
proof -
  obtain two three where t: "pn_new pn 2 = Some two" "pn_new pn 3 = Some three"
    using new_not_None by (metis option.exhaust)
  then have "\<exists>c. pn_checked_div pn two three = Some c"
    using div_defined [of two 2 three 3] new_Some [OF t(1)] new_Some [OF t(2)] by simp
  then show ?thesis using t by (auto simp: precise_consensus_def)
qed

end

section \<open>A concrete implementation\<close>

text \<open>Naturals scaled by \<open>10^12\<close> with 256-bit intermediate results, rounding half up, and a
  division that falls back to whole numbers when the scaled dividend does not fit.\<close>

definition fixed12 :: "nat precise_ops" where
  "fixed12 =
    \<lparr>pn_new = (\<lambda>n. Some (unat n * 10 ^ 12)),
     pn_checked_mul = (\<lambda>p q. if p * q < 2 ^ 256 then Some ((p * q + 5 * 10 ^ 11) div 10 ^ 12) else None),
     pn_checked_div = (\<lambda>p q. if q = 0 then None
       else if p * 10 ^ 12 + 5 * 10 ^ 11 < 2 ^ 256 then Some ((p * 10 ^ 12 + 5 * 10 ^ 11) div q)
       else if (p + 5 * 10 ^ 11) div q * 10 ^ 12 < 2 ^ 256 then Some ((p + 5 * 10 ^ 11) div q * 10 ^ 12)
       else None),
     pn_floor = (\<lambda>p. Some (p div 10 ^ 12 * 10 ^ 12)),
     pn_to_imprecise = (\<lambda>p. let v = (p + 5 * 10 ^ 11) div 10 ^ 12 in
       if v < 2 ^ 128 then Some (of_nat v) else None),
     pn_greater_than_or_equal = (\<lambda>p q. q \<le> p)\<rparr>"

definition fixed12_val :: "nat \<Rightarrow> rat" where
  "fixed12_val p = of_nat p / 10 ^ 12"

lemma fixed12_val_nat: "fixed12_val p = of_nat a \<longleftrightarrow> p = a * 10 ^ 12"
proof -
  have "fixed12_val p = of_nat a \<longleftrightarrow> (of_nat p :: rat) = of_nat (a * 10 ^ 12)"
    by (simp add: fixed12_val_def field_simps)
  then show ?thesis by (simp only: of_nat_eq_iff)
qed

lemma rounded_div: "c < m \<Longrightarrow> (k * m + c) div m = (k::nat)"
  by simp

lemma half_less_one: "5 * 10 ^ 11 < (10 ^ 12 :: nat)"
  by simp

lemma fixed12_quot_whole: "(k * 10 ^ 12 + 5 * 10 ^ 11) div (b * 10 ^ 12) = k div (b::nat)"
proof -
  have "(k * 10 ^ 12 + 5 * 10 ^ 11) div (b * 10 ^ 12)
      = (k * 10 ^ 12 + 5 * 10 ^ 11) div 10 ^ 12 div b"
    by (simp only: div_mult2_eq [symmetric] mult.commute)
  then show ?thesis by (simp only: rounded_div [OF half_less_one])
qed

lemma div_le_quot: "b \<noteq> 0 \<Longrightarrow> (of_nat (a div b) :: rat) \<le> of_nat a / of_nat b"
proof -
  assume "b \<noteq> 0"
  have "(of_nat (a div b * b) :: rat) \<le> of_nat a" by (simp only: of_nat_le_iff div_times_less_eq_dividend)
  with \<open>b \<noteq> 0\<close> show ?thesis by (simp add: pos_le_divide_eq)
qed

lemma fixed12_cut_bounds:
  assumes "b \<noteq> 0"
  shows "of_nat (a div b) \<le> fixed12_val (a * 10 ^ 12 div b) \<and>
    fixed12_val (a * 10 ^ 12 div b) \<le> of_nat a / of_nat b"
proof -
  have "(a div b) * 10 ^ 12 * b \<le> a * 10 ^ 12"
    using div_times_less_eq_dividend [of a b] by (simp add: algebra_simps)
  then have "(a div b) * 10 ^ 12 \<le> a * 10 ^ 12 div b"
    using assms by (simp add: less_eq_div_iff_mult_less_eq)
  then have "(of_nat ((a div b) * 10 ^ 12) :: rat) \<le> of_nat (a * 10 ^ 12 div b)"
    by (simp only: of_nat_le_iff)
  moreover have "(of_nat (a * 10 ^ 12 div b) :: rat) \<le> of_nat (a * 10 ^ 12) / of_nat b"
    by (rule div_le_quot [OF assms])
  ultimately show ?thesis by (simp add: fixed12_val_def field_simps)
qed

interpretation fixed12: precise_number fixed12 fixed12_val
proof
  fix n :: u128 and p q r :: nat and a b :: nat
  show "\<exists>p. pn_new fixed12 n = Some p \<and> fixed12_val p = of_nat (unat n)"
  proof (intro exI conjI)
    show "pn_new fixed12 n = Some (unat n * 10 ^ 12)" by (simp add: fixed12_def)
    show "fixed12_val (unat n * 10 ^ 12) = of_nat (unat n)" by (simp only: fixed12_val_nat)
  qed
  show "pn_checked_mul fixed12 p q = Some r \<Longrightarrow> fixed12_val p = of_nat a \<Longrightarrow> fixed12_val q = of_nat b
      \<Longrightarrow> fixed12_val r = of_nat (a * b)"
  proof -
    assume m: "pn_checked_mul fixed12 p q = Some r" and "fixed12_val p = of_nat a"
      and "fixed12_val q = of_nat b"
    then have pq: "p = a * 10 ^ 12" "q = b * 10 ^ 12" by (simp_all only: fixed12_val_nat)
    have "r = (a * 10 ^ 12 * (b * 10 ^ 12) + 5 * 10 ^ 11) div 10 ^ 12"
      using m unfolding pq by (auto simp: fixed12_def split: if_splits)
    also have "a * 10 ^ 12 * (b * 10 ^ 12) = a * b * 10 ^ 12 * (10 ^ 12 :: nat)" by simp
    also have "(\<dots> + 5 * 10 ^ 11) div 10 ^ 12 = a * b * 10 ^ 12" by (rule rounded_div [OF half_less_one])
    finally show "fixed12_val r = of_nat (a * b)" by (simp only: fixed12_val_nat)
  qed
  show "fixed12_val p = of_nat a \<Longrightarrow> fixed12_val q = of_nat b \<Longrightarrow> a * b < 2 ^ 128
      \<Longrightarrow> \<exists>r. pn_checked_mul fixed12 p q = Some r"
    by (simp add: fixed12_def fixed12_val_nat)
  show "fixed12_val q = 0 \<Longrightarrow> pn_checked_div fixed12 p q = None"
    by (simp add: fixed12_def fixed12_val_def)
  show "fixed12_val p = of_nat a \<Longrightarrow> a < 2 ^ 128 \<Longrightarrow> fixed12_val q = of_nat b \<Longrightarrow> b \<noteq> 0
      \<Longrightarrow> \<exists>r. pn_checked_div fixed12 p q = Some r"
    by (simp add: fixed12_def fixed12_val_nat)
  show "pn_checked_div fixed12 p q = Some r \<Longrightarrow> fixed12_val p = of_nat a \<Longrightarrow> fixed12_val q = of_nat b
      \<Longrightarrow> b \<noteq> 0 \<Longrightarrow> of_nat (a div b) \<le> fixed12_val r \<and> fixed12_val r \<le> of_nat a / of_nat b"
  proof -
    assume d: "pn_checked_div fixed12 p q = Some r" and "fixed12_val p = of_nat a"
      and "fixed12_val q = of_nat b" and b: "b \<noteq> 0"
    then have pq: "p = a * 10 ^ 12" "q = b * 10 ^ 12" by (simp_all only: fixed12_val_nat)
    have "r = a * 10 ^ 12 div b \<or> r = a div b * 10 ^ 12"
      using d fixed12_quot_whole [of "a * 10 ^ 12" b] fixed12_quot_whole [of a b] unfolding pq
      by (auto simp: fixed12_def split: if_splits)
    then show ?thesis
      using fixed12_cut_bounds [OF b, of a] div_le_quot [OF b, of a]
      by (auto simp: fixed12_val_def)
  qed
  show "pn_checked_div fixed12 p q = Some r \<Longrightarrow> fixed12_val p = of_nat a \<Longrightarrow> a < 2 ^ 128
      \<Longrightarrow> fixed12_val q = of_nat b \<Longrightarrow> b \<noteq> 0 \<Longrightarrow> fixed12_val r = of_nat (a * 10 ^ 12 div b) / 10 ^ 12"
  proof -
    assume d: "pn_checked_div fixed12 p q = Some r" and "fixed12_val p = of_nat a"
      and a: "a < 2 ^ 128" and "fixed12_val q = of_nat b" and b: "b \<noteq> 0"
    then have pq: "p = a * 10 ^ 12" "q = b * 10 ^ 12" by (simp_all only: fixed12_val_nat)
    have "a * 10 ^ 12 * 10 ^ 12 + 5 * 10 ^ 11 < 2 ^ 256" using a by simp
    then have "r = a * 10 ^ 12 div b"
      using d b fixed12_quot_whole [of "a * 10 ^ 12" b] unfolding pq by (auto simp: fixed12_def)
    then show ?thesis by (simp add: fixed12_val_def)
  qed
  show "pn_floor fixed12 p = Some r \<Longrightarrow> fixed12_val r = of_int \<lfloor>fixed12_val p\<rfloor>"
  proof -
    assume "pn_floor fixed12 p = Some r"
    then have r: "r = p div 10 ^ 12 * 10 ^ 12" by (simp add: fixed12_def)
    have "\<lfloor>(of_nat p :: rat) / of_nat (10 ^ 12)\<rfloor> = int (p div 10 ^ 12)"
      by (rule floor_divide_of_nat_eq)
    then show ?thesis by (simp add: r fixed12_val_def)
  qed
  show "\<exists>r. pn_floor fixed12 p = Some r" by (simp add: fixed12_def)
  show "pn_to_imprecise fixed12 p = Some n \<Longrightarrow> fixed12_val p = of_nat a \<Longrightarrow> unat n = a"
    by (auto simp: fixed12_def fixed12_val_nat Let_def unat_of_nat split: if_splits)
  show "fixed12_val p = of_nat a \<Longrightarrow> a < 2 ^ 128 \<Longrightarrow> \<exists>n. pn_to_imprecise fixed12 p = Some n"
    by (auto simp: fixed12_def fixed12_val_nat Let_def)
  show "pn_greater_than_or_equal fixed12 p q \<longleftrightarrow> fixed12_val q \<le> fixed12_val p"
    by (simp add: fixed12_def fixed12_val_def divide_right_mono_neg divide_le_cancel)
qed

end
