(* ===== verification/Merkle.thy ===== *)
theory Merkle
  imports Tip_Prelude "HOL-Library.Multiset"
begin

text \<open>
  \<open>meta_merkle_tree/src\<close>: the Merkle tree whose root the operators vote on. The tree is a flat
  vector of nodes, level after level (\<open>merkle_tree.rs\<close>); proofs are the siblings on the path to
  the root (\<open>utils.rs\<close>), checked with sorted hashing (\<open>verify.rs\<close>); the meta tree has one leaf per
  tip distribution account (\<open>tree_node.rs\<close>, \<open>meta_merkle_tree.rs\<close>). The SDK's \<open>hashv\<close> is an
  argument of every definition that hashes. Hashes compare as byte arrays do, lexicographically.
\<close>

section \<open>Model\<close>

type_synonym hasher = "u8 list list \<Rightarrow> bytes32"

record merkle_tree =
  mt_leaf_count :: nat
  mt_nodes :: "bytes32 list"

text \<open>\<open>ProofEntry(target, left_sibling, right_sibling)\<close>.\<close>

type_synonym proof_entry = "bytes32 \<times> bytes32 option \<times> bytes32 option"

definition LEAF_PREFIX :: "u8 list" where "LEAF_PREFIX = [0]"
definition INTERMEDIATE_PREFIX :: "u8 list" where "INTERMEDIATE_PREFIX = [1]"

definition hash_leaf :: "hasher \<Rightarrow> u8 list \<Rightarrow> bytes32" where
  "hash_leaf hashv d = hashv [LEAF_PREFIX, d]"

definition hash_intermediate :: "hasher \<Rightarrow> bytes32 \<Rightarrow> bytes32 \<Rightarrow> bytes32" where
  "hash_intermediate hashv l r = hashv [INTERMEDIATE_PREFIX, l, r]"

definition next_level_len :: "nat \<Rightarrow> nat" where
  "next_level_len n = (if n = 1 then 0 else (n + 1) div 2)"

lemma next_level_len_less: "0 < n \<Longrightarrow> next_level_len n < n"
  by (auto simp: next_level_len_def)

text \<open>The body of the \<open>for\<close> loop of \<open>MerkleTree::new\<close>: the node above slots \<open>2 * i\<close> and
  \<open>2 * i + 1\<close> of the previous level, the last one doubled when it is alone.\<close>

definition push_parent ::
    "hasher \<Rightarrow> bool \<Rightarrow> nat \<Rightarrow> nat \<Rightarrow> bytes32 list \<Rightarrow> nat \<Rightarrow> bytes32 list" where
  "push_parent hashv sorted_hashes prev_level_start prev_level_len nodes i =
    (let prev_level_idx = 2 * i;
         lsib = nodes ! (prev_level_start + prev_level_idx);
         rsib = (if prev_level_idx + 1 < prev_level_len
                 then nodes ! (prev_level_start + prev_level_idx + 1)
                 else nodes ! (prev_level_start + prev_level_idx))
     in nodes @ [if sorted_hashes
                 then if lsib \<le> rsib then hash_intermediate hashv lsib rsib
                      else hash_intermediate hashv rsib lsib
                 else hash_intermediate hashv lsib rsib])"

function build_levels ::
    "hasher \<Rightarrow> bool \<Rightarrow> bytes32 list \<Rightarrow> nat \<Rightarrow> nat \<Rightarrow> nat \<Rightarrow> nat \<Rightarrow> bytes32 list" where
  "build_levels hashv sorted_hashes nodes level_len level_start prev_level_len prev_level_start =
    (if 0 < level_len then
       build_levels hashv sorted_hashes
         (foldl (push_parent hashv sorted_hashes prev_level_start prev_level_len) nodes [0..<level_len])
         (next_level_len level_len) (level_start + level_len) level_len level_start
     else nodes)"
  by pat_completeness auto
termination
  by (relation "measure (\<lambda>(_, _, _, level_len, _). level_len)") (simp_all add: next_level_len_less)

declare build_levels.simps [simp del]

definition merkle_tree_new :: "hasher \<Rightarrow> u8 list list \<Rightarrow> bool \<Rightarrow> merkle_tree" where
  "merkle_tree_new hashv items sorted_hashes =
    \<lparr>mt_leaf_count = length items,
     mt_nodes = build_levels hashv sorted_hashes (map (hash_leaf hashv) items)
       (next_level_len (length items)) (length items) (length items) 0\<rparr>"

definition get_root :: "merkle_tree \<Rightarrow> bytes32 option" where
  "get_root mt = (if mt_nodes mt = [] then None else Some (last (mt_nodes mt)))"

function find_path_loop ::
    "bytes32 list \<Rightarrow> nat \<Rightarrow> nat \<Rightarrow> proof_entry list \<Rightarrow> nat \<Rightarrow> bytes32 option \<Rightarrow> bytes32 option \<Rightarrow>
     proof_entry list" where
  "find_path_loop nodes level_len level_start path node_index lsib rsib =
    (if 0 < level_len then
       let level = take level_len (drop level_start nodes);
           target = level ! node_index;
           path = (if lsib \<noteq> None \<or> rsib \<noteq> None then path @ [(target, lsib, rsib)] else path);
           lsib = (if even node_index then None else Some (level ! (node_index - 1)));
           rsib = (if even node_index
                   then if node_index + 1 < length level then Some (level ! (node_index + 1))
                        else Some (level ! node_index)
                   else None)
       in find_path_loop nodes (next_level_len level_len) (level_start + level_len) path
            (node_index div 2) lsib rsib
     else path)"
  by pat_completeness auto
termination
  by (relation "measure (\<lambda>(_, level_len, _). level_len)") (simp_all add: next_level_len_less)

declare find_path_loop.simps [simp del]

definition find_path :: "merkle_tree \<Rightarrow> nat \<Rightarrow> proof_entry list option" where
  "find_path mt index =
    (if mt_leaf_count mt \<le> index then None
     else Some (find_path_loop (mt_nodes mt) (mt_leaf_count mt) 0 [] index None None))"

text \<open>\<open>Proof::verify\<close>, for trees hashed in order; \<open>try_fold\<close> stops at the first mismatch.\<close>

fun proof_try_fold :: "hasher \<Rightarrow> bytes32 \<Rightarrow> proof_entry list \<Rightarrow> bytes32 option" where
  "proof_try_fold hashv candidate [] = Some candidate"
| "proof_try_fold hashv candidate ((target, l, r) # pes) =
    (let lsib = (case l of None \<Rightarrow> candidate | Some h \<Rightarrow> h);
         rsib = (case r of None \<Rightarrow> candidate | Some h \<Rightarrow> h);
         hash = hash_intermediate hashv lsib rsib
     in if hash = target then proof_try_fold hashv hash pes else None)"

definition proof_verify :: "hasher \<Rightarrow> proof_entry list \<Rightarrow> bytes32 \<Rightarrow> bool" where
  "proof_verify hashv path candidate = (proof_try_fold hashv candidate path \<noteq> None)"

text \<open>\<open>utils.rs\<close>: the siblings of a path; \<open>None\<close> is the panic on a missing path or sibling.\<close>

fun proof_siblings :: "proof_entry list \<Rightarrow> bytes32 list option" where
  "proof_siblings [] = Some []"
| "proof_siblings ((_, Some h, _) # pes) = map_option ((#) h) (proof_siblings pes)"
| "proof_siblings ((_, None, Some h) # pes) = map_option ((#) h) (proof_siblings pes)"
| "proof_siblings ((_, None, None) # pes) = None"

definition get_proof :: "merkle_tree \<Rightarrow> nat \<Rightarrow> bytes32 list option" where
  "get_proof mt index = Option.bind (find_path mt index) proof_siblings"

definition verify_step :: "hasher \<Rightarrow> bytes32 \<Rightarrow> bytes32 \<Rightarrow> bytes32" where
  "verify_step hashv computed_hash proof_element =
    (if computed_hash \<le> proof_element then hashv [[1], computed_hash, proof_element]
     else hashv [[1], proof_element, computed_hash])"

definition verify :: "hasher \<Rightarrow> bytes32 list \<Rightarrow> bytes32 \<Rightarrow> bytes32 \<Rightarrow> bool" where
  "verify hashv prf root leaf \<longleftrightarrow> foldl (verify_step hashv) leaf prf = root"

subsection \<open>The meta tree\<close>

definition to_le_bytes :: "u64 \<Rightarrow> u8 list" where
  "to_le_bytes w = map (\<lambda>i. ucast (drop_bit (8 * i) w)) [0..<8]"

record tree_node =
  tn_tip_distribution_account :: pubkey
  tn_proof :: "bytes32 list option"
  tn_validator_merkle_root :: bytes32
  tn_max_total_claim :: u64
  tn_max_num_nodes :: u64

definition tree_node_new :: "pubkey \<Rightarrow> bytes32 \<Rightarrow> u64 \<Rightarrow> u64 \<Rightarrow> tree_node" where
  "tree_node_new tip_distribution_account validator_merkle_root max_total_claim max_num_nodes =
    \<lparr>tn_tip_distribution_account = tip_distribution_account, tn_proof = None,
     tn_validator_merkle_root = validator_merkle_root,
     tn_max_total_claim = max_total_claim, tn_max_num_nodes = max_num_nodes\<rparr>"

definition tree_node_hash :: "hasher \<Rightarrow> tree_node \<Rightarrow> bytes32" where
  "tree_node_hash hashv n =
    hashv [tn_tip_distribution_account n, tn_validator_merkle_root n,
           to_le_bytes (tn_max_total_claim n), to_le_bytes (tn_max_num_nodes n)]"

record meta_merkle_tree =
  mmt_merkle_root :: bytes32
  mmt_num_nodes :: u64
  mmt_tree_nodes :: "tree_node list"

text \<open>\<open>error.rs\<close>, and the panics of \<open>expect\<close> and \<open>assert_eq!\<close> as a fault of their own.\<close>

datatype merkle_tree_error =
    MerkleValidationError string
  | MerkleRootError
  | MerkleArithmeticOverflow
  | MerklePanic

definition mmt_verify_proof :: "hasher \<Rightarrow> meta_merkle_tree \<Rightarrow> merkle_tree_error + unit" where
  "mmt_verify_proof hashv t =
    (let hashed_nodes = map (tree_node_hash hashv) (mmt_tree_nodes t);
         mk = merkle_tree_new hashv hashed_nodes True
     in rbind (ok_or (MerkleValidationError ''invalid merkle proof'') (get_root mk)) (\<lambda>root.
        rbind (fail_if (root \<noteq> mmt_merkle_root t) MerklePanic) (\<lambda>_.
        rfold (\<lambda>i _. rbind (ok_or MerklePanic (get_proof mk i)) (\<lambda>prf.
            fail_if (\<not> verify hashv prf (mmt_merkle_root t) (hashv [LEAF_PREFIX, hashed_nodes ! i]))
              (MerkleValidationError ''invalid merkle proof'')))
          [0..<length hashed_nodes] ())))"

definition mmt_validate :: "hasher \<Rightarrow> meta_merkle_tree \<Rightarrow> merkle_tree_error + unit" where
  "mmt_validate hashv t =
    rbind (fail_if (mmt_num_nodes t > 4294967295)
      (MerkleValidationError ''Max num nodes is greater than 2^32 - 1'')) (\<lambda>_.
    rbind (fail_if (length (mmt_tree_nodes t) \<noteq> unat (mmt_num_nodes t))
      (MerkleValidationError ''Tree nodes length does not match max_num_nodes'')) (\<lambda>_.
    rbind (fail_if (card (set (map tn_tip_distribution_account (mmt_tree_nodes t))) \<noteq> length (mmt_tree_nodes t))
      (MerkleValidationError ''Duplicate vote_accounts found'')) (\<lambda>_.
    (case mmt_verify_proof hashv t of
       Inr _ \<Rightarrow> Inr ()
     | Inl MerklePanic \<Rightarrow> Inl MerklePanic
     | Inl _ \<Rightarrow> Inl (MerkleValidationError ''Merkle root is invalid given nodes'')))))"

text \<open>\<open>tree_nodes.len() as u64\<close> wraps in the model as it does in the code.\<close>

definition meta_merkle_tree_new :: "hasher \<Rightarrow> tree_node list \<Rightarrow> merkle_tree_error + meta_merkle_tree" where
  "meta_merkle_tree_new hashv tree_nodes =
    (let tree_nodes = sort_key (tree_node_hash hashv) tree_nodes;
         hashed_nodes = map (tree_node_hash hashv) tree_nodes;
         tree = merkle_tree_new hashv hashed_nodes True
     in rbind (rfold (\<lambda>i tns. rbind (ok_or MerklePanic (get_proof tree i)) (\<lambda>prf.
            Inr (tns[i := (tns ! i)\<lparr>tn_proof := Some prf\<rparr>]))) [0..<length tree_nodes] tree_nodes)
          (\<lambda>tree_nodes.
        rbind (ok_or MerkleRootError (get_root tree)) (\<lambda>root.
        let t = \<lparr>mmt_merkle_root = root, mmt_num_nodes = of_nat (length tree_nodes),
                 mmt_tree_nodes = tree_nodes\<rparr>
        in rbind (mmt_validate hashv t) (\<lambda>_. Inr t))))"

definition get_node :: "meta_merkle_tree \<Rightarrow> pubkey \<Rightarrow> tree_node option" where
  "get_node t tip_distribution_account =
    List.find (\<lambda>n. tn_tip_distribution_account n = tip_distribution_account) (mmt_tree_nodes t)"

section \<open>Levels of the tree\<close>

text \<open>The tree as a list of levels, from the leaves up.\<close>

definition parent :: "hasher \<Rightarrow> bool \<Rightarrow> bytes32 \<Rightarrow> bytes32 \<Rightarrow> bytes32" where
  "parent hashv sorted_hashes l r =
    (if sorted_hashes \<and> \<not> l \<le> r then hash_intermediate hashv r l else hash_intermediate hashv l r)"

definition right_of :: "bytes32 list \<Rightarrow> nat \<Rightarrow> bytes32" where
  "right_of L i = (if i + 1 < length L then L ! (i + 1) else L ! i)"

definition next_level :: "hasher \<Rightarrow> bool \<Rightarrow> bytes32 list \<Rightarrow> bytes32 list" where
  "next_level hashv so L =
    map (\<lambda>i. parent hashv so (L ! (2 * i)) (right_of L (2 * i))) [0..<(length L + 1) div 2]"

lemma length_next_level [simp]: "length (next_level hashv so L) = (length L + 1) div 2"
  by (simp add: next_level_def)

function levels :: "hasher \<Rightarrow> bool \<Rightarrow> bytes32 list \<Rightarrow> bytes32 list list" where
  "levels hashv so L = (if length L \<le> 1 then [L] else L # levels hashv so (next_level hashv so L))"
  by pat_completeness auto
termination by (relation "measure (\<lambda>(_, _, L). length L)") auto

declare levels.simps [simp del]

lemma push_parents:
  assumes "nodes = pre @ L" and "prev = length pre" and "n \<le> (length L + 1) div 2"
  shows "foldl (push_parent hashv so prev (length L)) nodes [0..<n] =
    nodes @ take n (next_level hashv so L)"
  using assms(3)
proof (induction n)
  case 0
  then show ?case by simp
next
  case (Suc n)
  let ?ns = "nodes @ take n (next_level hashv so L)"
  have at: "?ns ! (prev + k) = L ! k" if "k < length L" for k
    using that assms(1,2) by (simp add: nth_append)
  have n: "2 * n < length L" using Suc.prems by simp
  have right: "(if 2 * n + 1 < length L then ?ns ! (prev + 2 * n + 1) else ?ns ! (prev + 2 * n)) =
      right_of L (2 * n)"
    using at [OF n] at [of "2 * n + 1"] by (simp add: right_of_def add.assoc)
  have "push_parent hashv so prev (length L) ?ns n =
      ?ns @ [parent hashv so (L ! (2 * n)) (right_of L (2 * n))]"
    by (simp only: push_parent_def Let_def right, simp only: at [OF n], simp add: parent_def)
  moreover have "take (Suc n) (next_level hashv so L) =
      take n (next_level hashv so L) @ [parent hashv so (L ! (2 * n)) (right_of L (2 * n))]"
    using Suc.prems by (simp add: take_Suc_conv_app_nth next_level_def)
  ultimately show ?case using Suc by simp
qed

lemma build_levels_eq:
  assumes "L \<noteq> []"
  shows "build_levels hashv so (pre @ L) (next_level_len (length L)) (length pre + length L)
    (length L) (length pre) = pre @ concat (levels hashv so L)"
  using assms
proof (induction hashv so L arbitrary: pre rule: levels.induct)
  case (1 hashv so L)
  show ?case
  proof (cases "length L \<le> 1")
    case True
    with 1 have "length L = 1" by (cases L) auto
    then show ?thesis by (subst build_levels.simps) (simp add: next_level_len_def levels.simps)
  next
    case False
    let ?N = "next_level hashv so L"
    have N: "?N \<noteq> []" "next_level_len (length L) = length ?N" "0 < length ?N"
      using False by (auto simp: next_level_len_def next_level_def)
    have "build_levels hashv so (pre @ L) (next_level_len (length L)) (length pre + length L)
        (length L) (length pre) =
      build_levels hashv so ((pre @ L) @ ?N) (next_level_len (length ?N))
        (length (pre @ L) + length ?N) (length ?N) (length (pre @ L))"
      using push_parents [OF refl refl, where n = "length ?N" and L = L and pre = pre
          and hashv = hashv and so = so]
      by (subst build_levels.simps) (use N in simp)
    also have "\<dots> = (pre @ L) @ concat (levels hashv so ?N)"
      using False N(1) by (intro "1.IH") auto
    also have "\<dots> = pre @ concat (levels hashv so L)"
      using False by (subst (2) levels.simps) simp
    finally show ?thesis .
  qed
qed

lemma merkle_tree_new_nodes:
  assumes "items \<noteq> []"
  shows "mt_nodes (merkle_tree_new hashv items so) = concat (levels hashv so (map (hash_leaf hashv) items))"
  using build_levels_eq [of "map (hash_leaf hashv) items" hashv so "[]"] assms
  by (simp add: merkle_tree_new_def)

section \<open>Paths\<close>

text \<open>The root is the value of the topmost level.\<close>

lemma levels_last:
  assumes "L \<noteq> []"
  shows "concat (levels hashv so L) \<noteq> []"
    and "last (concat (levels hashv so L)) = last (last (levels hashv so L))"
    and "length (last (levels hashv so L)) = 1"
proof -
  have "concat (levels hashv so L) \<noteq> [] \<and>
    last (concat (levels hashv so L)) = last (last (levels hashv so L)) \<and>
    length (last (levels hashv so L)) = 1"
    using assms
  proof (induction hashv so L rule: levels.induct)
    case (1 hashv so L)
    show ?case
    proof (cases "length L \<le> 1")
      case True
      with 1 show ?thesis by (cases L) (simp_all add: levels.simps)
    next
      case False
      have "levels hashv so (next_level hashv so L) \<noteq> []" by (subst levels.simps) simp
      moreover have "levels hashv so L = L # levels hashv so (next_level hashv so L)"
        using False by (subst levels.simps) simp
      ultimately show ?thesis using False 1 by (simp add: next_level_def)
    qed
  qed
  then show "concat (levels hashv so L) \<noteq> []"
    "last (concat (levels hashv so L)) = last (last (levels hashv so L))"
    "length (last (levels hashv so L)) = 1" by auto
qed

text \<open>What the path from slot \<open>i\<close> of a level records: the nodes above and the siblings.\<close>

definition left_sib :: "bytes32 list \<Rightarrow> nat \<Rightarrow> bytes32 option" where
  "left_sib L i = (if even i then None else Some (L ! (i - 1)))"

definition right_sib :: "bytes32 list \<Rightarrow> nat \<Rightarrow> bytes32 option" where
  "right_sib L i = (if even i then Some (right_of L i) else None)"

definition sibling :: "bytes32 list \<Rightarrow> nat \<Rightarrow> bytes32" where
  "sibling L i = (if even i then right_of L i else L ! (i - 1))"

function path_entries :: "hasher \<Rightarrow> bool \<Rightarrow> bytes32 list \<Rightarrow> nat \<Rightarrow> proof_entry list" where
  "path_entries hashv so L i =
    (if length L \<le> 1 then []
     else (next_level hashv so L ! (i div 2), left_sib L i, right_sib L i) #
       path_entries hashv so (next_level hashv so L) (i div 2))"
  by pat_completeness auto
termination by (relation "measure (\<lambda>(_, _, L, _). length L)") auto

declare path_entries.simps [simp del]

lemma sibs_not_None: "left_sib L i \<noteq> None \<or> right_sib L i \<noteq> None"
  by (simp add: left_sib_def right_sib_def)

lemma find_path_loop_stop: "find_path_loop nodes 0 start path i l r = path"
  by (simp add: find_path_loop.simps)

lemma find_path_loop_step:
  assumes "take n (drop start nodes) = L" and "length L = n" and "0 < n" and "i < n"
  shows "find_path_loop nodes n start path i l r =
    find_path_loop nodes (next_level_len n) (start + n)
      (if l \<noteq> None \<or> r \<noteq> None then path @ [(L ! i, l, r)] else path)
      (i div 2) (left_sib L i) (right_sib L i)"
  using assms(3)
  by (subst find_path_loop.simps) (simp add: assms(1,2) left_sib_def right_sib_def right_of_def)

lemma find_path_loop_eq:
  assumes "nodes = pre @ concat (levels hashv so L)" and "i < length L"
  shows "find_path_loop nodes (length L) (length pre) path i l r =
    path @ (if l \<noteq> None \<or> r \<noteq> None then [(L ! i, l, r)] else []) @ path_entries hashv so L i"
  using assms
proof (induction hashv so L arbitrary: pre path i l r rule: levels.induct)
  case (1 hashv so L)
  have take: "take (length L) (drop (length pre) nodes) = L"
    using "1.prems"(1) by (subst (asm) levels.simps) (simp split: if_splits)
  have pos: "0 < length L" using "1.prems"(2) by linarith
  note step = find_path_loop_step [OF take refl pos "1.prems"(2)]
  show ?case
  proof (cases "length L \<le> 1")
    case True
    with pos have "length L = 1" by linarith
    then show ?thesis unfolding step
      by (simp add: next_level_len_def find_path_loop_stop path_entries.simps)
  next
    case False
    let ?N = "next_level hashv so L"
    have len: "next_level_len (length L) = length ?N" using False by (simp add: next_level_len_def)
    have nodes: "nodes = (pre @ L) @ concat (levels hashv so ?N)"
      using "1.prems"(1) False by (subst (asm) levels.simps) simp
    have i: "i div 2 < length ?N" using "1.prems"(2) by simp
    have rest: "find_path_loop nodes (length ?N) (length pre + length L) p (i div 2)
        (left_sib L i) (right_sib L i) =
      p @ [(?N ! (i div 2), left_sib L i, right_sib L i)] @ path_entries hashv so ?N (i div 2)" for p
      using "1.IH" [OF False nodes i, of p "left_sib L i" "right_sib L i"] sibs_not_None [of L i]
      by simp
    have "path_entries hashv so L i =
      (?N ! (i div 2), left_sib L i, right_sib L i) # path_entries hashv so ?N (i div 2)"
      using False by (subst path_entries.simps) simp
    then show ?thesis unfolding step len rest by simp
  qed
qed

lemma find_path_new:
  assumes "i < length items"
  shows "find_path (merkle_tree_new hashv items so) i =
    Some (path_entries hashv so (map (hash_leaf hashv) items) i)"
proof -
  let ?L = "map (hash_leaf hashv) items"
  have "items \<noteq> []" using assms by auto
  then have "mt_nodes (merkle_tree_new hashv items so) = [] @ concat (levels hashv so ?L)"
    by (simp add: merkle_tree_new_nodes)
  from find_path_loop_eq [OF this, of i "[]" None None] assms show ?thesis
    by (simp add: find_path_def merkle_tree_new_def)
qed

lemma get_root_new:
  assumes "items \<noteq> []"
  shows "get_root (merkle_tree_new hashv items so) =
    Some (last (last (levels hashv so (map (hash_leaf hashv) items))))"
  using assms levels_last [of "map (hash_leaf hashv) items" hashv so]
  by (simp add: get_root_def merkle_tree_new_nodes)

text \<open>The siblings of a path, and what hashing up along them computes.\<close>

function siblings :: "hasher \<Rightarrow> bytes32 list \<Rightarrow> nat \<Rightarrow> bytes32 list" where
  "siblings hashv L i = (if length L \<le> 1 then []
     else sibling L i # siblings hashv (next_level hashv True L) (i div 2))"
  by pat_completeness auto
termination by (relation "measure (\<lambda>(_, L, _). length L)") auto

declare siblings.simps [simp del]

lemma proof_siblings_path: "proof_siblings (path_entries hashv True L i) = Some (siblings hashv L i)"
proof (induction hashv L i rule: siblings.induct)
  case (1 hashv L i)
  show ?case
    by (subst path_entries.simps, subst siblings.simps)
      (use "1.IH" in \<open>auto simp: left_sib_def right_sib_def sibling_def\<close>)
qed

lemma verify_step_parent:
  assumes "i < length L" and "1 < length L"
  shows "verify_step hashv (L ! i) (sibling L i) = next_level hashv True L ! (i div 2)"
proof -
  have nth: "next_level hashv True L ! (i div 2) =
      parent hashv True (L ! (2 * (i div 2))) (right_of L (2 * (i div 2)))"
  proof -
    have "i div 2 < (length L + 1) div 2" using assms by linarith
    then show ?thesis by (simp add: next_level_def)
  qed
  show ?thesis
  proof (cases "even i")
    case True
    then show ?thesis unfolding nth
      by (auto simp: verify_step_def sibling_def parent_def hash_intermediate_def INTERMEDIATE_PREFIX_def)
  next
    case False
    then obtain k where i: "i = 2 * k + 1" by (auto elim: oddE)
    then have "right_of L (2 * k) = L ! i" "sibling L i = L ! (2 * k)"
      using assms False by (auto simp: right_of_def sibling_def)
    then show ?thesis unfolding nth using i
      by (auto simp: verify_step_def parent_def hash_intermediate_def INTERMEDIATE_PREFIX_def
          not_le dest: order.antisym)
  qed
qed

lemma foldl_siblings:
  "i < length L \<Longrightarrow> foldl (verify_step hashv) (L ! i) (siblings hashv L i) = last (last (levels hashv True L))"
proof (induction hashv L i rule: siblings.induct)
  case (1 hashv L i)
  show ?case
  proof (cases "length L \<le> 1")
    case True
    with 1 have "length L = 1" "i = 0" by auto
    then show ?thesis by (cases L) (auto simp: siblings.simps levels.simps)
  next
    case False
    have "levels hashv True (next_level hashv True L) \<noteq> []" by (subst levels.simps) simp
    with False 1 show ?thesis
      by (subst siblings.simps, subst levels.simps) (simp add: verify_step_parent)
  qed
qed

lemma get_proof_accepted:
  assumes "i < length items"
  shows "\<exists>root prf. get_root (merkle_tree_new hashv items True) = Some root \<and>
    get_proof (merkle_tree_new hashv items True) i = Some prf \<and>
    verify hashv prf root (hash_leaf hashv (items ! i))"
proof -
  let ?L = "map (hash_leaf hashv) items"
  have "items \<noteq> []" using assms by auto
  moreover have "get_proof (merkle_tree_new hashv items True) i = Some (siblings hashv ?L i)"
    using assms by (simp add: get_proof_def find_path_new proof_siblings_path)
  moreover have "verify hashv (siblings hashv ?L i) (last (last (levels hashv True ?L)))
      (hash_leaf hashv (items ! i))"
    using foldl_siblings [of i ?L hashv] assms by (simp add: verify_def)
  ultimately show ?thesis by (simp add: get_root_new)
qed

text \<open>C39. Every proof the tree generates is accepted: for each item of a tree with sorted hashing,
  \<open>get_proof\<close> returns a proof and \<open>verify\<close> accepts it for the item's leaf and the tree's root. This
  needs nothing of the hash function.\<close>

theorem get_proof_verifies:
  assumes "i < length items"
  shows "\<exists>root prf. get_root (merkle_tree_new hashv items True) = Some root \<and>
    get_proof (merkle_tree_new hashv items True) i = Some prf \<and>
    verify hashv prf root (hash_leaf hashv (items ! i))"
  using assms by (rule get_proof_accepted)

text \<open>For trees hashed in order, the path itself is accepted by \<open>Proof::verify\<close>.\<close>

lemma path_verifies_in_order:
  assumes "i < length L"
  shows "proof_try_fold hashv (L ! i) (path_entries hashv False L i) \<noteq> None"
  using assms
proof (induction hashv False L i rule: path_entries.induct)
  case (1 hashv L i)
  show ?case
  proof (cases "length L \<le> 1")
    case True
    then show ?thesis by (simp add: path_entries.simps)
  next
    case False
    let ?N = "next_level hashv False L"
    have div: "i div 2 < (length L + 1) div 2" using "1.prems" by linarith
    have nth: "?N ! (i div 2) = hash_intermediate hashv (L ! (2 * (i div 2))) (right_of L (2 * (i div 2)))"
      using div by (simp add: next_level_def parent_def)
    have here: "hash_intermediate hashv (case left_sib L i of None \<Rightarrow> L ! i | Some h \<Rightarrow> h)
        (case right_sib L i of None \<Rightarrow> L ! i | Some h \<Rightarrow> h) = ?N ! (i div 2)"
      using "1.prems" unfolding nth
      by (cases "even i") (auto simp: left_sib_def right_sib_def right_of_def elim!: oddE)
    have "proof_try_fold hashv (?N ! (i div 2)) (path_entries hashv False ?N (i div 2)) \<noteq> None"
      using "1.hyps" [OF False] div by simp
    with False here show ?thesis by (subst path_entries.simps) (simp add: Let_def)
  qed
qed

section \<open>Soundness of verification\<close>

text \<open>The byte strings hashed while a tree is built, and while a proof is checked.\<close>

definition level_preimages :: "bytes32 list \<Rightarrow> u8 list set" where
  "level_preimages L = (\<lambda>k. INTERMEDIATE_PREFIX @
      (if L ! (2 * k) \<le> right_of L (2 * k) then L ! (2 * k) @ right_of L (2 * k)
       else right_of L (2 * k) @ L ! (2 * k))) ` {..<(length L + 1) div 2}"

definition tree_preimages :: "hasher \<Rightarrow> u8 list list \<Rightarrow> u8 list set" where
  "tree_preimages hashv items =
    (\<lambda>d. LEAF_PREFIX @ d) ` set items \<union>
    (\<Union>L \<in> {L \<in> set (levels hashv True (map (hash_leaf hashv) items)). 1 < length L}. level_preimages L)"

fun proof_preimages :: "hasher \<Rightarrow> bytes32 \<Rightarrow> bytes32 list \<Rightarrow> u8 list set" where
  "proof_preimages hashv c [] = {}"
| "proof_preimages hashv c (p # ps) =
    insert (INTERMEDIATE_PREFIX @ (if c \<le> p then c @ p else p @ c))
      (proof_preimages hashv (verify_step hashv c p) ps)"

lemma next_level_node:
  assumes "n \<in> set (next_level hashv True L)"
  shows "\<exists>l r. l \<in> set L \<and> r \<in> set L \<and> n = hash_intermediate hashv l r \<and>
    INTERMEDIATE_PREFIX @ l @ r \<in> level_preimages L"
proof -
  from assms obtain k where k: "k < (length L + 1) div 2"
    and n: "n = parent hashv True (L ! (2 * k)) (right_of L (2 * k))"
    by (auto simp: next_level_def)
  have "2 * k < length L" using k by linarith
  then have "L ! (2 * k) \<in> set L" "right_of L (2 * k) \<in> set L" by (auto simp: right_of_def)
  moreover have "INTERMEDIATE_PREFIX @ (if L ! (2 * k) \<le> right_of L (2 * k)
      then L ! (2 * k) @ right_of L (2 * k) else right_of L (2 * k) @ L ! (2 * k)) \<in> level_preimages L"
    unfolding level_preimages_def using k by blast
  ultimately show ?thesis using n unfolding parent_def
    by (cases "L ! (2 * k) \<le> right_of L (2 * k)") auto
qed

lemma levels_node:
  assumes "h \<in> set (concat (levels hashv True L))"
  shows "h \<in> set L \<or> (\<exists>M l r. M \<in> set (levels hashv True L) \<and> 1 < length M \<and> l \<in> set M \<and> r \<in> set M \<and>
    h = hash_intermediate hashv l r \<and> INTERMEDIATE_PREFIX @ l @ r \<in> level_preimages M)"
  using assms
proof (induction hashv True L rule: levels.induct)
  case (1 hashv L)
  show ?case
  proof (cases "length L \<le> 1")
    case True
    then show ?thesis using "1.prems" by (simp add: levels.simps)
  next
    case False
    let ?N = "next_level hashv True L"
    have lv: "levels hashv True L = L # levels hashv True ?N" using False by (subst levels.simps) simp
    then have "h \<in> set L \<or> h \<in> set (concat (levels hashv True ?N))" using "1.prems" by simp
    then show ?thesis
    proof
      assume "h \<in> set (concat (levels hashv True ?N))"
      from "1.hyps" [OF False this] show ?thesis
      proof
        assume "h \<in> set ?N"
        from next_level_node [OF this] False show ?thesis unfolding lv
          by (metis list.set_intros(1) not_le)
      qed (metis lv list.set_intros(2))
    qed simp
  qed
qed

lemma tree_node_preimage:
  assumes concat: "\<And>vals. hashv vals = sha (concat vals)" and ne: "items \<noteq> []"
    and h: "h \<in> set (mt_nodes (merkle_tree_new hashv items True))"
  shows "(\<exists>d \<in> set items. h = sha (LEAF_PREFIX @ d) \<and> LEAF_PREFIX @ d \<in> tree_preimages hashv items) \<or>
    (\<exists>l r. l \<in> set (mt_nodes (merkle_tree_new hashv items True)) \<and>
      r \<in> set (mt_nodes (merkle_tree_new hashv items True)) \<and>
      h = sha (INTERMEDIATE_PREFIX @ l @ r) \<and> INTERMEDIATE_PREFIX @ l @ r \<in> tree_preimages hashv items)"
proof -
  let ?L = "map (hash_leaf hashv) items"
  have nodes: "mt_nodes (merkle_tree_new hashv items True) = concat (levels hashv True ?L)"
    by (rule merkle_tree_new_nodes [OF ne])
  have leaf: "hash_leaf hashv d = sha (LEAF_PREFIX @ d)" for d by (simp add: hash_leaf_def concat)
  have inner: "hash_intermediate hashv l r = sha (INTERMEDIATE_PREFIX @ l @ r)" for l r
    by (simp add: hash_intermediate_def concat)
  from levels_node [of h hashv ?L] h consider "h \<in> set ?L" |
    M l r where "M \<in> set (levels hashv True ?L)" "1 < length M" "l \<in> set M" "r \<in> set M"
      "h = hash_intermediate hashv l r" "INTERMEDIATE_PREFIX @ l @ r \<in> level_preimages M"
    unfolding nodes by blast
  then show ?thesis
  proof cases
    case 1
    then show ?thesis by (auto simp: leaf tree_preimages_def)
  next
    case 2
    then have "INTERMEDIATE_PREFIX @ l @ r \<in> tree_preimages hashv items"
      unfolding tree_preimages_def by blast
    moreover have "l \<in> set (concat (levels hashv True ?L))" "r \<in> set (concat (levels hashv True ?L))"
      using 2 by auto
    ultimately show ?thesis using 2(5) unfolding nodes inner by blast
  qed
qed

text \<open>Hashing up along a proof stays inside the tree, read from the root down.\<close>

lemma verified_in_tree:
  assumes concat: "\<And>vals. hashv vals = sha (concat vals)" and len: "\<And>s. length (sha s) = 32"
    and ne: "items \<noteq> []" and inj: "inj_on sha (tree_preimages hashv items \<union> P)"
    and "length c = 32" and "\<forall>p \<in> set ps. length p = 32"
    and "foldl (verify_step hashv) c ps \<in> set (mt_nodes (merkle_tree_new hashv items True))"
    and "proof_preimages hashv c ps \<subseteq> P"
  shows "c \<in> set (mt_nodes (merkle_tree_new hashv items True))"
  using assms(5-)
proof (induction ps arbitrary: c)
  case Nil
  then show ?case by simp
next
  case (Cons p ps)
  let ?T = "set (mt_nodes (merkle_tree_new hashv items True))"
  let ?s = "INTERMEDIATE_PREFIX @ (if c \<le> p then c @ p else p @ c)"
  have step: "verify_step hashv c p = sha ?s"
    by (simp add: verify_step_def concat INTERMEDIATE_PREFIX_def)
  have "verify_step hashv c p \<in> ?T"
  proof (rule Cons.IH)
    show "length (verify_step hashv c p) = 32" by (simp only: step len)
    show "\<forall>q \<in> set ps. length q = 32" using Cons.prems(2) by simp
    show "foldl (verify_step hashv) (verify_step hashv c p) ps \<in> ?T" using Cons.prems(3) by simp
    show "proof_preimages hashv (verify_step hashv c p) ps \<subseteq> P" using Cons.prems(4) by simp
  qed
  then consider d where "sha ?s = sha (LEAF_PREFIX @ d)" "LEAF_PREFIX @ d \<in> tree_preimages hashv items"
    | l r where "l \<in> ?T" "r \<in> ?T" "sha ?s = sha (INTERMEDIATE_PREFIX @ l @ r)"
      "INTERMEDIATE_PREFIX @ l @ r \<in> tree_preimages hashv items"
    using tree_node_preimage [where hashv = hashv and sha = sha, OF concat ne] unfolding step by blast
  then show ?case
  proof cases
    case (1 d)
    have "?s = LEAF_PREFIX @ d"
      using 1 Cons.prems(4) by (intro inj_onD [OF inj 1(1)]) auto
    then show ?thesis by (simp add: LEAF_PREFIX_def INTERMEDIATE_PREFIX_def)
  next
    case (2 l r)
    have "?s = INTERMEDIATE_PREFIX @ l @ r"
      using 2 Cons.prems(4) by (intro inj_onD [OF inj 2(3)]) auto
    then have eq: "(if c \<le> p then c @ p else p @ c) = l @ r" by simp
    have "length l = 32"
      using tree_node_preimage [where hashv = hashv and sha = sha, OF concat ne 2(1)] len by auto
    then have "c = l \<or> c = r" using eq Cons.prems(1,2) by (auto split: if_splits)
    with 2 show ?thesis by auto
  qed
qed

text \<open>C40. A proof cannot be forged: if the hash is a hash of the concatenated bytes with 32-byte
  results and no two of the strings hashed for the tree and for the proof collide, then whatever
  \<open>verify\<close> accepts against the tree's root, for a leaf made of \<open>d\<close>, shows that \<open>d\<close> is one of the
  items of the tree.\<close>

theorem verify_sound:
  assumes "\<And>vals. hashv vals = sha (concat vals)" and "\<And>s. length (sha s) = 32"
    and "get_root (merkle_tree_new hashv items True) = Some root"
    and "\<forall>p \<in> set given. length p = 32"
    and "inj_on sha (tree_preimages hashv items \<union>
      insert (LEAF_PREFIX @ d) (proof_preimages hashv (hash_leaf hashv d) given))"
    and "verify hashv given root (hash_leaf hashv d)"
  shows "d \<in> set items"
proof -
  have "items \<noteq> []" using assms(3) by (auto simp: get_root_def merkle_tree_new_def build_levels.simps next_level_len_def)
  have leaf: "hash_leaf hashv d = sha (LEAF_PREFIX @ d)" by (simp add: hash_leaf_def assms(1))
  have "root \<in> set (mt_nodes (merkle_tree_new hashv items True))"
    using assms(3) by (auto simp: get_root_def split: if_splits)
  then have up: "foldl (verify_step hashv) (hash_leaf hashv d) given \<in>
      set (mt_nodes (merkle_tree_new hashv items True))"
    using assms(6) unfolding verify_def by (simp only:)
  have "length (hash_leaf hashv d) = 32" unfolding leaf by (rule assms(2))
  then have "hash_leaf hashv d \<in> set (mt_nodes (merkle_tree_new hashv items True))"
    by (rule verified_in_tree [where hashv = hashv and sha = sha,
          OF assms(1,2) \<open>items \<noteq> []\<close> assms(5) _ assms(4) up subset_insertI])
  then consider x where "x \<in> set items" "sha (LEAF_PREFIX @ d) = sha (LEAF_PREFIX @ x)"
      "LEAF_PREFIX @ x \<in> tree_preimages hashv items"
    | l r where "sha (LEAF_PREFIX @ d) = sha (INTERMEDIATE_PREFIX @ l @ r)"
      "INTERMEDIATE_PREFIX @ l @ r \<in> tree_preimages hashv items"
    using tree_node_preimage [where hashv = hashv and sha = sha, OF assms(1) \<open>items \<noteq> []\<close>]
    unfolding leaf by blast
  then show ?thesis
  proof cases
    case (1 x)
    have "LEAF_PREFIX @ d = LEAF_PREFIX @ x"
      using 1 by (intro inj_onD [OF assms(5) 1(2)]) auto
    with 1 show ?thesis by simp
  next
    case (2 l r)
    have "LEAF_PREFIX @ d = INTERMEDIATE_PREFIX @ l @ r"
      using 2 by (intro inj_onD [OF assms(5) 2(1)]) auto
    then show ?thesis by (simp add: LEAF_PREFIX_def INTERMEDIATE_PREFIX_def)
  qed
qed

section \<open>The meta tree\<close>

lemma rfold_guards: "(\<And>x. x \<in> set xs \<Longrightarrow> f x () = Inr ()) \<Longrightarrow> rfold f xs () = Inr ()"
  by (induction xs) auto

lemma mmt_verify_proof_ok:
  assumes "mmt_tree_nodes t \<noteq> []"
    and "get_root (merkle_tree_new hashv (map (tree_node_hash hashv) (mmt_tree_nodes t)) True) =
      Some (mmt_merkle_root t)"
  shows "mmt_verify_proof hashv t = Inr ()"
proof -
  let ?items = "map (tree_node_hash hashv) (mmt_tree_nodes t)"
  have "rbind (ok_or MerklePanic (get_proof (merkle_tree_new hashv ?items True) i)) (\<lambda>prf.
      fail_if (\<not> verify hashv prf (mmt_merkle_root t) (hashv [LEAF_PREFIX, ?items ! i]))
        (MerkleValidationError ''invalid merkle proof'')) = Inr ()"
    if "i \<in> set [0..<length ?items]" for i
    using get_proof_accepted [of i ?items hashv] that assms(2) by (auto simp: hash_leaf_def)
  then show ?thesis
    unfolding mmt_verify_proof_def Let_def assms(2) by (simp add: rfold_guards del: set_upt)
qed

text \<open>The loop that attaches the proofs.\<close>

lemma rfold_attach:
  assumes "\<And>i. i < length ns \<Longrightarrow> get i = Some (p i)" and "n \<le> length ns"
  shows "rfold (\<lambda>i ns. rbind (ok_or e (get i)) (\<lambda>prf. Inr (ns[i := g prf (ns ! i)]))) [0..<n] ns =
    Inr (map (\<lambda>i. g (p i) (ns ! i)) [0..<n] @ drop n ns)"
  using assms(2)
proof (induction n)
  case 0
  then show ?case by simp
next
  case (Suc n)
  then show ?case using assms(1) [of n]
    by (simp add: rfold_append nth_append list_update_append Cons_nth_drop_Suc [symmetric])
qed

lemma tree_node_hash_proof [simp]: "tree_node_hash hashv (n\<lparr>tn_proof := p\<rparr>) = tree_node_hash hashv n"
  by (simp add: tree_node_hash_def)

lemma meta_merkle_tree_new_eq:
  fixes ns :: "tree_node list" and hashv :: hasher
  assumes "ns \<noteq> []" and "length ns \<le> 4294967295"
    and "distinct (map tn_tip_distribution_account ns)"
  defines "s \<equiv> sort_key (tree_node_hash hashv) ns"
  defines "leaves \<equiv> map (hash_leaf hashv) (map (tree_node_hash hashv) s)"
  shows "meta_merkle_tree_new hashv ns =
    Inr \<lparr>mmt_merkle_root = last (last (levels hashv True leaves)), mmt_num_nodes = of_nat (length ns),
      mmt_tree_nodes = map (\<lambda>i. (s ! i)\<lparr>tn_proof := Some (siblings hashv leaves i)\<rparr>) [0..<length s]\<rparr>"
proof -
  let ?items = "map (tree_node_hash hashv) s"
  let ?tree = "merkle_tree_new hashv ?items True"
  let ?ns = "map (\<lambda>i. (s ! i)\<lparr>tn_proof := Some (siblings hashv leaves i)\<rparr>) [0..<length s]"
  let ?t = "\<lparr>mmt_merkle_root = last (last (levels hashv True leaves)), mmt_num_nodes = of_nat (length ns),
      mmt_tree_nodes = ?ns\<rparr>"
  have len: "length s = length ns" by (simp add: s_def)
  have ne: "?items \<noteq> []" using assms(1) len by auto
  have root: "get_root ?tree = Some (last (last (levels hashv True leaves)))"
    using get_root_new [OF ne] by (simp add: leaves_def)
  have proofs: "get_proof ?tree i = Some (siblings hashv leaves i)" if "i < length s" for i
    using that unfolding leaves_def by (simp add: get_proof_def find_path_new proof_siblings_path)
  have hashes: "map (tree_node_hash hashv) ?ns = ?items" by (rule nth_equalityI) simp_all
  have accounts: "map tn_tip_distribution_account ?ns = map tn_tip_distribution_account s"
    by (rule nth_equalityI) simp_all
  have "mset (map tn_tip_distribution_account s) = mset (map tn_tip_distribution_account ns)"
    by (simp add: s_def)
  then have "distinct (map tn_tip_distribution_account s)"
    using assms(3) by (metis mset_eq_imp_distinct_iff)
  then have card: "card (set (map tn_tip_distribution_account ?ns)) = length s"
    unfolding accounts by (simp add: distinct_card del: set_map)
  have num: "unat (of_nat (length ns) :: u64) = length ns"
    using assms(2) by (simp add: unat_of_nat)
  have vp: "mmt_verify_proof hashv ?t = Inr ()"
    using root ne hashes by (intro mmt_verify_proof_ok) auto
  have "\<not> (4294967295 :: u64) < of_nat (length ns)"
    using assms(2) num by (simp add: word_less_nat_alt)
  then have val: "mmt_validate hashv ?t = Inr ()"
    using card num len vp by (simp add: mmt_validate_def del: set_map)
  have attach: "rfold (\<lambda>i tns. rbind (ok_or MerklePanic (get_proof ?tree i)) (\<lambda>prf.
      Inr (tns[i := (tns ! i)\<lparr>tn_proof := Some prf\<rparr>]))) [0..<length s] s = Inr ?ns"
    using rfold_attach [where ns = s and n = "length s" and get = "get_proof ?tree"
        and p = "siblings hashv leaves" and g = "\<lambda>prf n. n\<lparr>tn_proof := Some prf\<rparr>", OF proofs] by simp
  have "length ?ns = length ns" by (simp add: len)
  then show ?thesis
    unfolding meta_merkle_tree_new_def Let_def s_def [symmetric] attach
    by (simp add: root val del: length_map)
qed

lemma map_update_same: "f u = f (xs ! i) \<Longrightarrow> map f (xs[i := u]) = map f xs"
  by (cases "i < length xs") (simp_all add: map_update list_update_same_conv list_update_beyond)

lemma meta_merkle_tree_new_Inr:
  assumes "meta_merkle_tree_new hashv ns = Inr t"
  shows "ns \<noteq> []" "length ns \<le> 4294967295" "distinct (map tn_tip_distribution_account ns)"
proof -
  let ?s = "sort_key (tree_node_hash hashv) ns"
  let ?tree = "merkle_tree_new hashv (map (tree_node_hash hashv) ?s) True"
  obtain ns' root where loop: "rfold (\<lambda>i tns. rbind (ok_or MerklePanic (get_proof ?tree i)) (\<lambda>prf.
      Inr (tns[i := (tns ! i)\<lparr>tn_proof := Some prf\<rparr>]))) [0..<length ?s] ?s = Inr ns'"
    and root: "get_root ?tree = Some root" and val: "mmt_validate hashv \<lparr>mmt_merkle_root = root,
      mmt_num_nodes = of_nat (length ns'), mmt_tree_nodes = ns'\<rparr> = Inr ()"
    using assms unfolding meta_merkle_tree_new_def Let_def rbind_Inr ok_or_Inr by auto
  have ns': "map tn_tip_distribution_account ns' = map tn_tip_distribution_account ?s"
    using loop by (rule rfold_frame) (auto simp: rbind_Inr map_update_same)
  have len: "length ns' = length ns" using arg_cong [OF ns', of length] by simp
  show "ns \<noteq> []" using root by (auto simp: get_root_def merkle_tree_new_def next_level_len_def build_levels.simps)
  have "length ns' = unat (of_nat (length ns') :: u64)" "(of_nat (length ns') :: u64) \<le> 4294967295"
    using val by (auto simp: mmt_validate_def rbind_Inr fail_if_Inr not_less)
  then show "length ns \<le> 4294967295" by (simp add: len word_le_nat_alt)
  have "card (set (map tn_tip_distribution_account ns')) = length ns'"
    using val by (simp add: mmt_validate_def rbind_Inr fail_if_Inr)
  then have "distinct (map tn_tip_distribution_account ?s)"
    unfolding ns' len by (intro card_distinct) simp
  moreover have "mset (map tn_tip_distribution_account ?s) = mset (map tn_tip_distribution_account ns)" by simp
  ultimately show "distinct (map tn_tip_distribution_account ns)" by (metis mset_eq_imp_distinct_iff)
qed

lemma map_sort_key: "map f (sort_key f xs) = sort (map f xs)"
  by (rule properties_for_sort [symmetric]) simp_all

text \<open>Building the meta tree succeeds for any non-empty list of fewer than \<open>2^32\<close> nodes with
  distinct tip distribution accounts, keeps exactly those nodes, and gives every one of them a proof
  that the program's \<open>verify\<close> accepts against the published root.\<close>

theorem meta_merkle_tree_new_ok:
  assumes "ns \<noteq> []" and "length ns \<le> 4294967295" and "distinct (map tn_tip_distribution_account ns)"
  shows "\<exists>t. meta_merkle_tree_new hashv ns = Inr t \<and>
    mset (map (tree_node_hash hashv) (mmt_tree_nodes t)) = mset (map (tree_node_hash hashv) ns) \<and>
    (\<forall>n \<in> set (mmt_tree_nodes t). \<exists>prf. tn_proof n = Some prf \<and>
      verify hashv prf (mmt_merkle_root t) (hashv [LEAF_PREFIX, tree_node_hash hashv n]))"
proof -
  define s where "s = sort_key (tree_node_hash hashv) ns"
  define leaves where "leaves = map (hash_leaf hashv) (map (tree_node_hash hashv) s)"
  let ?ns = "map (\<lambda>i. (s ! i)\<lparr>tn_proof := Some (siblings hashv leaves i)\<rparr>) [0..<length s]"
  have hashes: "map (tree_node_hash hashv) ?ns = map (tree_node_hash hashv) s"
    by (rule nth_equalityI) simp_all
  have "verify hashv (siblings hashv leaves i) (last (last (levels hashv True leaves)))
      (hashv [LEAF_PREFIX, tree_node_hash hashv (s ! i)])" if "i < length s" for i
    using foldl_siblings [of i leaves hashv] that by (simp add: verify_def leaves_def hash_leaf_def)
  with meta_merkle_tree_new_eq [OF assms, of hashv] hashes show ?thesis
    unfolding s_def [symmetric] leaves_def [symmetric]
    by (intro exI conjI) (assumption, simp_all add: s_def)
qed

lemma meta_merkle_tree_new_root:
  assumes "meta_merkle_tree_new hashv ns = Inr t"
  shows "get_root (merkle_tree_new hashv (sort (map (tree_node_hash hashv) ns)) True) =
    Some (mmt_merkle_root t)"
  using assms unfolding meta_merkle_tree_new_def Let_def map_sort_key rbind_Inr ok_or_Inr by auto

text \<open>Operators that see the same nodes in different orders compute the same root: the root
  depends only on the collection of nodes.\<close>

theorem meta_merkle_tree_new_order:
  assumes "mset ns = mset ms" and "meta_merkle_tree_new hashv ns = Inr t"
    and "meta_merkle_tree_new hashv ms = Inr u"
  shows "mmt_merkle_root t = mmt_merkle_root u"
proof -
  have "sort (map (tree_node_hash hashv) ns) = sort (map (tree_node_hash hashv) ms)"
    using assms(1) by (intro properties_for_sort) simp_all
  then show ?thesis
    using meta_merkle_tree_new_root [OF assms(2)] meta_merkle_tree_new_root [OF assms(3)] by simp
qed

section \<open>Small trees, evaluated\<close>

text \<open>A stand-in hash: the first 32 bytes of the padded input.\<close>

definition pad_sha :: "u8 list \<Rightarrow> bytes32" where
  "pad_sha s = take 32 (s @ replicate 32 0)"

definition pad_hashv :: hasher where
  "pad_hashv vals = pad_sha (concat vals)"

theorem get_proof_verifies_witness:
  "\<exists>root prf. get_root (merkle_tree_new pad_hashv [[5], [6], [7]] True) = Some root \<and>
    get_proof (merkle_tree_new pad_hashv [[5], [6], [7]] True) 2 = Some prf \<and>
    verify pad_hashv prf root (hash_leaf pad_hashv [7])"
  using get_proof_verifies [of 2 "[[5], [6], [7]]" pad_hashv] by simp

definition sample_nodes :: "tree_node list" where
  "sample_nodes = [tree_node_new [1] [9] 100 3, tree_node_new [2] [8] 200 4]"

lemma sample_nodes_ok:
  "sample_nodes \<noteq> []" "length sample_nodes \<le> 4294967295"
  "distinct (map tn_tip_distribution_account sample_nodes)"
  by (simp_all add: sample_nodes_def tree_node_new_def)

theorem meta_merkle_tree_new_ok_witness:
  "\<exists>t. meta_merkle_tree_new pad_hashv sample_nodes = Inr t \<and>
    (\<forall>n \<in> set (mmt_tree_nodes t). \<exists>prf. tn_proof n = Some prf \<and>
      verify pad_hashv prf (mmt_merkle_root t) (pad_hashv [LEAF_PREFIX, tree_node_hash pad_hashv n]))"
  using meta_merkle_tree_new_ok [OF sample_nodes_ok, of pad_hashv] by blast

theorem meta_merkle_tree_new_order_witness:
  "\<exists>t u. meta_merkle_tree_new pad_hashv sample_nodes = Inr t \<and>
    meta_merkle_tree_new pad_hashv (rev sample_nodes) = Inr u \<and> mmt_merkle_root t = mmt_merkle_root u"
proof -
  have "rev sample_nodes \<noteq> []" "length (rev sample_nodes) \<le> 4294967295"
    "distinct (map tn_tip_distribution_account (rev sample_nodes))"
    using sample_nodes_ok by (simp_all add: rev_map [symmetric])
  then obtain t u where "meta_merkle_tree_new pad_hashv sample_nodes = Inr t"
    "meta_merkle_tree_new pad_hashv (rev sample_nodes) = Inr u"
    using meta_merkle_tree_new_eq sample_nodes_ok by blast
  with meta_merkle_tree_new_order [of sample_nodes "rev sample_nodes" pad_hashv t u]
  show ?thesis by simp
qed

lemma pad_sha_values:
  "pad_sha [0, 5] = [0, 5] @ replicate 30 0" "pad_sha [0, 6] = [0, 6] @ replicate 30 0"
  "pad_sha (1 # pad_sha [0, 5] @ pad_sha [0, 6]) = [1, 0, 5] @ replicate 29 0"
  by (simp_all add: pad_sha_def numeral_eq_Suc)

lemma sample_levels:
  "levels pad_hashv True (map (hash_leaf pad_hashv) [[5], [6]]) =
    [[pad_sha [0, 5], pad_sha [0, 6]], [pad_sha (1 # pad_sha [0, 5] @ pad_sha [0, 6])]]"
proof -
  have le: "pad_sha [0, 5] \<le> pad_sha [0, 6]" unfolding pad_sha_values by simp
  have up: "next_level pad_hashv True [pad_sha [0, 5], pad_sha [0, 6]] =
      [pad_sha (1 # pad_sha [0, 5] @ pad_sha [0, 6])]"
    using le by (simp add: next_level_def parent_def right_of_def hash_intermediate_def
        INTERMEDIATE_PREFIX_def pad_hashv_def)
  have "map (hash_leaf pad_hashv) [[5], [6]] = [pad_sha [0, 5], pad_sha [0, 6]]"
    by (simp add: hash_leaf_def LEAF_PREFIX_def pad_hashv_def)
  then show ?thesis using up by (simp add: levels.simps)
qed

theorem verify_sound_witness: "[6 :: u8] \<in> set [[5], [6]]"
proof (rule verify_sound [where hashv = pad_hashv and sha = pad_sha and given = "[pad_sha [0, 5]]"
      and root = "pad_sha (1 # pad_sha [0, 5] @ pad_sha [0, 6])"])
  have le: "\<not> pad_sha [0, 6] \<le> pad_sha [0, 5]" unfolding pad_sha_values by simp
  have leaf: "hash_leaf pad_hashv [6] = pad_sha [0, 6]"
    by (simp add: hash_leaf_def LEAF_PREFIX_def pad_hashv_def)
  show "pad_hashv vals = pad_sha (concat vals)" for vals by (simp add: pad_hashv_def)
  show "length (pad_sha s) = 32" for s by (simp add: pad_sha_def)
  then show "\<forall>p \<in> set [pad_sha [0, 5]]. length p = 32" by simp
  show "get_root (merkle_tree_new pad_hashv [[5], [6]] True) =
      Some (pad_sha (1 # pad_sha [0, 5] @ pad_sha [0, 6]))"
    using get_root_new [of "[[5], [6]]" pad_hashv True] sample_levels by simp
  show "verify pad_hashv [pad_sha [0, 5]] (pad_sha (1 # pad_sha [0, 5] @ pad_sha [0, 6]))
      (hash_leaf pad_hashv [6])"
    using le by (simp add: verify_def verify_step_def leaf pad_hashv_def)
  have "proof_preimages pad_hashv (hash_leaf pad_hashv [6]) [pad_sha [0, 5]] =
      {1 # pad_sha [0, 5] @ pad_sha [0, 6]}"
    using le by (simp add: leaf INTERMEDIATE_PREFIX_def)
  moreover have "tree_preimages pad_hashv [[5], [6]] =
      {[0, 5], [0, 6], 1 # pad_sha [0, 5] @ pad_sha [0, 6]}"
  proof -
    have "level_preimages [pad_sha [0, 5], pad_sha [0, 6]] = {1 # pad_sha [0, 5] @ pad_sha [0, 6]}"
    proof -
      have one: "{..<(length [pad_sha [0, 5], pad_sha [0, 6]] + 1) div 2} = {0}" by auto
      show ?thesis using le unfolding level_preimages_def one
        by (auto simp: right_of_def INTERMEDIATE_PREFIX_def)
    qed
    moreover have "{L \<in> set (levels pad_hashv True (map (hash_leaf pad_hashv) [[5], [6]])). 1 < length L} =
        {[pad_sha [0, 5], pad_sha [0, 6]]}"
      unfolding sample_levels by auto
    ultimately show ?thesis unfolding tree_preimages_def by (simp add: LEAF_PREFIX_def insert_commute)
  qed
  ultimately have all: "tree_preimages pad_hashv [[5], [6]] \<union> insert (LEAF_PREFIX @ [6])
      (proof_preimages pad_hashv (hash_leaf pad_hashv [6]) [pad_sha [0, 5]]) =
      {[0, 5], [0, 6], 1 # pad_sha [0, 5] @ pad_sha [0, 6]}"
    by (auto simp: LEAF_PREFIX_def)
  have "pad_sha [0, 5] \<noteq> pad_sha (1 # pad_sha [0, 5] @ pad_sha [0, 6])"
    "pad_sha [0, 6] \<noteq> pad_sha (1 # pad_sha [0, 5] @ pad_sha [0, 6])" "pad_sha [0, 5] \<noteq> pad_sha [0, 6]"
    unfolding pad_sha_values(3) by (simp_all add: pad_sha_values(1,2))
  then show "inj_on pad_sha (tree_preimages pad_hashv [[5], [6]] \<union> insert (LEAF_PREFIX @ [6])
      (proof_preimages pad_hashv (hash_leaf pad_hashv [6]) [pad_sha [0, 5]]))"
    unfolding all inj_on_def by (simp add: eq_commute)
qed

end
