(* ===== verification/Ballot_Box.thy ===== *)
theory Ballot_Box
  imports Stake_Weight Precise_Number Merkle
begin

text \<open>
  \<open>core/src/ballot_box.rs\<close>: the box the operators of an NCN cast their votes in. A vote names a
  Merkle root; the box keeps one slot per operator that voted and one tally per root voted for,
  and records the winner when a root holds two thirds of the stake weight or when the tie breaker
  sets it. Reserved bytes are left out; the address derivation is in \<open>Accounts\<close>.
\<close>

section \<open>Model\<close>

record ballot =
  meta_merkle_root :: bytes32
  ballot_is_valid :: bool

record ballot_tally =
  bt_index :: u16
  bt_ballot :: ballot
  bt_stake_weights :: stake_weights
  bt_tally :: u64

record operator_vote =
  ov_operator :: pubkey
  ov_slot_voted :: u64
  ov_stake_weights :: stake_weights
  ov_ballot_index :: u16

record ballot_box =
  bb_ncn :: pubkey
  bb_epoch :: u64
  bb_bump :: u8
  bb_slot_created :: u64
  bb_slot_consensus_reached :: u64
  bb_operators_voted :: u64
  bb_unique_ballots :: u64
  bb_winning_ballot :: ballot
  bb_operator_votes :: "operator_vote list"
  bb_ballot_tallies :: "ballot_tally list"

subsection \<open>Ballots\<close>

text \<open>\<open>PartialEq for Ballot\<close>: an invalid ballot equals nothing, not even itself.\<close>

definition ballot_eq :: "ballot \<Rightarrow> ballot \<Rightarrow> bool" where
  "ballot_eq a b =
    (if \<not> ballot_is_valid a \<or> \<not> ballot_is_valid b then False
     else meta_merkle_root a = meta_merkle_root b)"

definition ballot_default :: ballot where
  "ballot_default = \<lparr>meta_merkle_root = replicate 32 0, ballot_is_valid = False\<rparr>"

definition ballot_new :: "bytes32 \<Rightarrow> ballot" where
  "ballot_new r =
    \<lparr>meta_merkle_root = r, ballot_is_valid = list_ex (\<lambda>byte. byte \<noteq> 0) r\<rparr>"

subsection \<open>Tallies\<close>

definition ballot_tally_default :: ballot_tally where
  "ballot_tally_default =
    \<lparr>bt_index = 65535, bt_ballot = ballot_default, bt_stake_weights = stake_weights_default, bt_tally = 0\<rparr>"

definition ballot_tally_new :: "u16 \<Rightarrow> ballot \<Rightarrow> stake_weights \<Rightarrow> ballot_tally" where
  "ballot_tally_new index b sw =
    \<lparr>bt_index = index, bt_ballot = b, bt_stake_weights = sw, bt_tally = 1\<rparr>"

definition bt_is_valid :: "ballot_tally \<Rightarrow> bool" where
  "bt_is_valid t = ballot_is_valid (bt_ballot t)"

definition increment_tally :: "ballot_tally \<Rightarrow> stake_weights \<Rightarrow> tip_router_error + ballot_tally" where
  "increment_tally t sw =
    rbind (stake_weights_increment (bt_stake_weights t) sw) (\<lambda>s.
    rbind (ok_or ArithmeticOverflow (checked_add (bt_tally t) 1)) (\<lambda>n.
    Inr (t\<lparr>bt_stake_weights := s, bt_tally := n\<rparr>)))"

definition decrement_tally :: "ballot_tally \<Rightarrow> stake_weights \<Rightarrow> tip_router_error + ballot_tally" where
  "decrement_tally t sw =
    rbind (stake_weights_decrement (bt_stake_weights t) sw) (\<lambda>s.
    rbind (ok_or ArithmeticOverflow (checked_sub (bt_tally t) 1)) (\<lambda>n.
    Inr (t\<lparr>bt_stake_weights := s, bt_tally := n\<rparr>)))"

subsection \<open>Votes\<close>

definition operator_vote_default :: operator_vote where
  "operator_vote_default =
    \<lparr>ov_operator = default_pubkey, ov_slot_voted = 0, ov_stake_weights = stake_weights_default,
     ov_ballot_index = 65535\<rparr>"

definition operator_vote_new :: "nat \<Rightarrow> pubkey \<Rightarrow> u64 \<Rightarrow> stake_weights \<Rightarrow> operator_vote" where
  "operator_vote_new ballot_index operator current_slot sw =
    \<lparr>ov_operator = operator, ov_slot_voted = current_slot, ov_stake_weights = sw,
     ov_ballot_index = of_nat ballot_index\<rparr>"

definition ov_is_empty :: "operator_vote \<Rightarrow> bool" where
  "ov_is_empty v \<longleftrightarrow> ov_ballot_index v = 65535"

subsection \<open>The box\<close>

definition ballot_box_new :: "pubkey \<Rightarrow> u64 \<Rightarrow> u8 \<Rightarrow> u64 \<Rightarrow> ballot_box" where
  "ballot_box_new ncn epoch bump current_slot =
    \<lparr>bb_ncn = ncn, bb_epoch = epoch, bb_bump = bump, bb_slot_created = current_slot,
     bb_slot_consensus_reached = DEFAULT_CONSENSUS_REACHED_SLOT, bb_operators_voted = 0,
     bb_unique_ballots = 0, bb_winning_ballot = ballot_default,
     bb_operator_votes = replicate MAX_OPERATORS operator_vote_default,
     bb_ballot_tallies = replicate MAX_OPERATORS ballot_tally_default\<rparr>"

definition ballot_box_initialize :: "ballot_box \<Rightarrow> pubkey \<Rightarrow> u64 \<Rightarrow> u8 \<Rightarrow> u64 \<Rightarrow> ballot_box" where
  "ballot_box_initialize bb ncn epoch bump current_slot =
    bb\<lparr>bb_ncn := ncn, bb_epoch := epoch, bb_bump := bump, bb_slot_created := current_slot,
       bb_slot_consensus_reached := DEFAULT_CONSENSUS_REACHED_SLOT, bb_operators_voted := 0,
       bb_unique_ballots := 0, bb_winning_ballot := ballot_default,
       bb_operator_votes := replicate MAX_OPERATORS operator_vote_default,
       bb_ballot_tallies := replicate MAX_OPERATORS ballot_tally_default\<rparr>"

definition has_ballot :: "ballot_box \<Rightarrow> ballot \<Rightarrow> bool" where
  "has_ballot bb b = list_ex (\<lambda>t. ballot_eq (bt_ballot t) b) (bb_ballot_tallies bb)"

definition is_consensus_reached :: "ballot_box \<Rightarrow> bool" where
  "is_consensus_reached bb \<longleftrightarrow>
    bb_slot_consensus_reached bb \<noteq> DEFAULT_CONSENSUS_REACHED_SLOT \<or> ballot_is_valid (bb_winning_ballot bb)"

definition tie_breaker_set :: "ballot_box \<Rightarrow> bool" where
  "tie_breaker_set bb \<longleftrightarrow>
    bb_slot_consensus_reached bb = DEFAULT_CONSENSUS_REACHED_SLOT \<and> ballot_is_valid (bb_winning_ballot bb)"

definition get_winning_ballot :: "ballot_box \<Rightarrow> tip_router_error + ballot" where
  "get_winning_ballot bb =
    (if \<not> ballot_is_valid (bb_winning_ballot bb) then Inl ConsensusNotReached
     else Inr (bb_winning_ballot bb))"

definition get_winning_ballot_tally :: "ballot_box \<Rightarrow> tip_router_error + ballot_tally" where
  "get_winning_ballot_tally bb =
    (if \<not> ballot_is_valid (bb_winning_ballot bb) then Inl ConsensusNotReached
     else ok_or BallotTallyNotFoundFull
       (List.find (\<lambda>t. ballot_eq (bt_ballot t) (bb_winning_ballot bb)) (bb_ballot_tallies bb)))"

definition has_winning_ballot :: "ballot_box \<Rightarrow> bool" where
  "has_winning_ballot bb = ballot_is_valid (bb_winning_ballot bb)"

definition set_winning_ballot :: "ballot_box \<Rightarrow> ballot \<Rightarrow> ballot_box" where
  "set_winning_ballot bb b = bb\<lparr>bb_winning_ballot := b\<rparr>"

text \<open>Returns the box and the index of the tally.\<close>

definition increment_or_create_ballot_tally ::
    "ballot_box \<Rightarrow> ballot \<Rightarrow> stake_weights \<Rightarrow> tip_router_error + ballot_box \<times> nat" where
  "increment_or_create_ballot_tally bb b sw =
    (case find_idx (\<lambda>t. bt_is_valid t \<and> ballot_eq (bt_ballot t) b) (bb_ballot_tallies bb) of
       Some i \<Rightarrow>
         rbind (increment_tally (bb_ballot_tallies bb ! i) sw) (\<lambda>t.
         Inr (bb\<lparr>bb_ballot_tallies := (bb_ballot_tallies bb)[i := t]\<rparr>, i))
     | None \<Rightarrow>
         (case find_idx (\<lambda>t. \<not> bt_is_valid t) (bb_ballot_tallies bb) of
            Some i \<Rightarrow>
              rbind (ok_or ArithmeticOverflow (checked_add (bb_unique_ballots bb) 1)) (\<lambda>n.
              Inr (bb\<lparr>bb_ballot_tallies := (bb_ballot_tallies bb)[i := ballot_tally_new (of_nat i) b sw],
                      bb_unique_ballots := n\<rparr>, i))
          | None \<Rightarrow> Inl BallotTallyFull))"

definition is_voting_valid :: "ballot_box \<Rightarrow> u64 \<Rightarrow> u64 \<Rightarrow> tip_router_error + bool" where
  "is_voting_valid bb current_slot valid_slots_after_consensus =
    (if tie_breaker_set bb then Inr False
     else if is_consensus_reached bb then
       rbind (ok_or ArithmeticOverflow
         (checked_add (bb_slot_consensus_reached bb) valid_slots_after_consensus)) (\<lambda>last_slot.
       Inr (current_slot \<le> last_slot))
     else Inr True)"

text \<open>The loop over the votes stops at the first slot that holds a vote of the operator or none.
  A vote of the operator is withdrawn from the tally it was counted in: \<open>withdraw_vote\<close>.\<close>

definition withdraw_vote :: "ballot_box \<Rightarrow> u64 \<Rightarrow> operator_vote \<Rightarrow> tip_router_error + ballot_box" where
  "withdraw_vote bb unique_ballots vote =
    (let prev_ballot_index = unat (ov_ballot_index vote) in
     if prev_ballot_index < length (bb_ballot_tallies bb) then
       rbind (decrement_tally (bb_ballot_tallies bb ! prev_ballot_index) (ov_stake_weights vote)) (\<lambda>t.
       if bt_tally t = 0 then
         rbind (ok_or ArithmeticOverflow (checked_sub unique_ballots 1)) (\<lambda>n.
         Inr (bb\<lparr>bb_ballot_tallies := (bb_ballot_tallies bb)[prev_ballot_index := ballot_tally_default],
                 bb_unique_ballots := n\<rparr>))
       else Inr (bb\<lparr>bb_ballot_tallies := (bb_ballot_tallies bb)[prev_ballot_index := t]\<rparr>))
     else Inr bb)"

definition cast_vote ::
    "ballot_box \<Rightarrow> pubkey \<Rightarrow> ballot \<Rightarrow> stake_weights \<Rightarrow> u64 \<Rightarrow> u64 \<Rightarrow> tip_router_error + ballot_box" where
  "cast_vote bb operator b sw current_slot valid_slots_after_consensus =
    rbind (is_voting_valid bb current_slot valid_slots_after_consensus) (\<lambda>valid.
    rbind (fail_if (\<not> valid) VotingNotValid) (\<lambda>_.
    rbind (fail_if (\<not> ballot_is_valid b) BadBallot) (\<lambda>_.
    rbind (increment_or_create_ballot_tally bb b sw) (\<lambda>(bb, ballot_index).
    let unique_ballots = bb_unique_ballots bb;
        consensus_reached = is_consensus_reached bb
    in case find_idx (\<lambda>v. ov_operator v = operator \<or> ov_is_empty v) (bb_operator_votes bb) of
         None \<Rightarrow> Inl OperatorVotesFull
       | Some i \<Rightarrow>
           let vote = bb_operator_votes bb ! i;
               new_vote = operator_vote_new ballot_index operator current_slot sw
           in if ov_operator vote = operator then
                if consensus_reached then Inl ConsensusAlreadyReached
                else rbind (withdraw_vote bb unique_ballots vote) (\<lambda>bb.
                     Inr (bb\<lparr>bb_operator_votes := (bb_operator_votes bb)[i := new_vote]\<rparr>))
              else rbind (ok_or ArithmeticOverflow (checked_add (bb_operators_voted bb) 1)) (\<lambda>n.
                   Inr (bb\<lparr>bb_operator_votes := (bb_operator_votes bb)[i := new_vote],
                           bb_operators_voted := n\<rparr>))))))"

text \<open>\<open>Iterator::max_by_key\<close>: of several largest elements, the last.\<close>

fun max_by_key :: "('a \<Rightarrow> 'k::linorder) \<Rightarrow> 'a list \<Rightarrow> 'a option" where
  "max_by_key key [] = None"
| "max_by_key key (x # xs) =
    (case max_by_key key xs of None \<Rightarrow> Some x | Some y \<Rightarrow> if key y < key x then Some x else Some y)"

text \<open>The \<open>unwrap\<close> on the maximum cannot fail on the array of 256 tallies; the branch for an empty
  array keeps the definition total.\<close>

definition tally_votes ::
    "'p precise_ops \<Rightarrow> ballot_box \<Rightarrow> u128 \<Rightarrow> u64 \<Rightarrow> tip_router_error + ballot_box" where
  "tally_votes pn bb total_stake_weight current_slot =
    (if bb_slot_consensus_reached bb \<noteq> DEFAULT_CONSENSUS_REACHED_SLOT then Inr bb
     else case max_by_key (\<lambda>t. sw_stake_weight (bt_stake_weights t)) (bb_ballot_tallies bb) of
       None \<Rightarrow> Inl BallotTallyNotFoundFull
     | Some max_tally \<Rightarrow>
         rbind (ok_or NewPreciseNumberError (pn_new pn (sw_stake_weight (bt_stake_weights max_tally))))
           (\<lambda>precise_ballot_stake_weight.
         rbind (ok_or NewPreciseNumberError (pn_new pn total_stake_weight)) (\<lambda>precise_total_stake_weight.
         rbind (ok_or DenominatorIsZero
           (pn_checked_div pn precise_ballot_stake_weight precise_total_stake_weight)) (\<lambda>ratio.
         rbind (precise_consensus pn) (\<lambda>target.
         if pn_greater_than_or_equal pn ratio target \<and> \<not> ballot_is_valid (bb_winning_ballot bb)
         then Inr (set_winning_ballot (bb\<lparr>bb_slot_consensus_reached := current_slot\<rparr>)
                (bt_ballot max_tally))
         else Inr bb)))))"

definition set_tie_breaker_ballot ::
    "ballot_box \<Rightarrow> bytes32 \<Rightarrow> u64 \<Rightarrow> u64 \<Rightarrow> tip_router_error + ballot_box" where
  "set_tie_breaker_ballot bb r current_epoch epochs_before_stall =
    rbind (fail_if (is_consensus_reached bb) ConsensusAlreadyReached) (\<lambda>_.
    rbind (ok_or ArithmeticOverflow (checked_add (bb_epoch bb) epochs_before_stall)) (\<lambda>stall_epoch.
    rbind (fail_if (current_epoch < stall_epoch) VotingNotFinalized) (\<lambda>_.
    let finalized_ballot = ballot_new r in
    rbind (fail_if (\<not> has_ballot bb finalized_ballot) TieBreakerNotInPriorVotes) (\<lambda>_.
    Inr (set_winning_ballot bb finalized_ballot)))))"

definition verify_merkle_root ::
    "hasher \<Rightarrow> ballot_box \<Rightarrow> pubkey \<Rightarrow> bytes32 list \<Rightarrow> bytes32 \<Rightarrow> u64 \<Rightarrow> u64 \<Rightarrow> tip_router_error + unit" where
  "verify_merkle_root hashv bb tip_distribution_account prf merkle_root max_total_claim max_num_nodes =
    (let n = tree_node_new tip_distribution_account merkle_root max_total_claim max_num_nodes;
         node_hash = hashv [LEAF_PREFIX, tree_node_hash hashv n]
     in fail_if (\<not> verify hashv prf (meta_merkle_root (bb_winning_ballot bb)) node_hash) InvalidMerkleProof)"

section \<open>Counting votes\<close>

text \<open>A tally and a vote are read through ten numbers: the number of votes, the stake weight, and
  the weight in each of the eight fee groups.\<close>

definition sw_reading :: "nat \<Rightarrow> stake_weights \<Rightarrow> nat" where
  "sw_reading k s = (if k = 0 then 1 else if k = 1 then sw_total s else sw_at s (k - 2))"

definition tally_reading :: "nat \<Rightarrow> ballot_tally \<Rightarrow> nat" where
  "tally_reading k t = (if k = 0 then unat (bt_tally t) else sw_reading k (bt_stake_weights t))"

definition contrib :: "nat \<Rightarrow> nat \<Rightarrow> operator_vote \<Rightarrow> nat" where
  "contrib k j v = (if unat (ov_ballot_index v) = j then sw_reading k (ov_stake_weights v) else 0)"

text \<open>What the votes add up to for the tally with index \<open>j\<close>.\<close>

definition counted :: "operator_vote list \<Rightarrow> nat \<Rightarrow> nat \<Rightarrow> nat" where
  "counted vs k j = sum_list (map (contrib k j) vs)"

text \<open>The tallies hold the counts \<open>E\<close>, one tally per root, and \<open>u\<close> of them are in use.\<close>

definition tally_state :: "ballot_tally list \<Rightarrow> (nat \<Rightarrow> nat \<Rightarrow> nat) \<Rightarrow> nat \<Rightarrow> bool" where
  "tally_state ts E u \<longleftrightarrow> length ts = 256 \<and>
    (\<forall>j < 256. wf_stake_weights (bt_stake_weights (ts ! j)) \<and>
      (\<forall>k < 10. tally_reading k (ts ! j) = E k j) \<and>
      (bt_is_valid (ts ! j) \<longleftrightarrow> 0 < E 0 j) \<and>
      (bt_is_valid (ts ! j) \<longrightarrow> bt_index (ts ! j) = of_nat j) \<and>
      (\<not> bt_is_valid (ts ! j) \<longrightarrow> ts ! j = ballot_tally_default)) \<and>
    (\<forall>i < 256. \<forall>j < 256. ballot_eq (bt_ballot (ts ! i)) (bt_ballot (ts ! j)) \<longrightarrow> i = j) \<and>
    u = length (filter bt_is_valid ts)"

definition votes_ok :: "operator_vote list \<Rightarrow> nat \<Rightarrow> bool" where
  "votes_ok vs n \<longleftrightarrow> length vs = 256 \<and> n \<le> 256 \<and>
    (\<forall>i < n. unat (ov_ballot_index (vs ! i)) < 256 \<and> ov_operator (vs ! i) \<noteq> default_pubkey \<and>
      wf_stake_weights (ov_stake_weights (vs ! i))) \<and>
    (\<forall>i < 256. n \<le> i \<longrightarrow> vs ! i = operator_vote_default) \<and>
    distinct (map ov_operator (take n vs))"

definition bb_inv :: "ballot_box \<Rightarrow> bool" where
  "bb_inv bb \<longleftrightarrow>
    votes_ok (bb_operator_votes bb) (unat (bb_operators_voted bb)) \<and>
    tally_state (bb_ballot_tallies bb) (counted (bb_operator_votes bb)) (unat (bb_unique_ballots bb)) \<and>
    (is_consensus_reached bb \<longrightarrow> has_ballot bb (bb_winning_ballot bb))"

lemma counted_update:
  "i < length vs \<Longrightarrow> counted (vs[i := v]) k j + contrib k j (vs ! i) = counted vs k j + contrib k j v"
  by (simp add: counted_def sum_list_map_update)

lemma counted_zero:
  assumes "counted vs 0 j = 0"
  shows "counted vs k j = 0"
proof -
  have "contrib k j v = 0" if "v \<in> set vs" for v
  proof -
    have "contrib 0 j v \<le> counted vs 0 j" unfolding counted_def by (rule member_le_sum_list_map [OF that])
    then have "unat (ov_ballot_index v) \<noteq> j" using assms by (auto simp: contrib_def sw_reading_def)
    then show ?thesis by (simp add: contrib_def)
  qed
  then show ?thesis unfolding counted_def by (induction vs) auto
qed

lemma contrib_empty: "j < 256 \<Longrightarrow> contrib k j operator_vote_default = 0"
  by (simp add: contrib_def operator_vote_default_def)

lemma contrib_new: "i < 256 \<Longrightarrow> contrib k j (operator_vote_new i operator slot sw) = (if i = j then sw_reading k sw else 0)"
  by (simp add: contrib_def operator_vote_new_def unat_of_nat)

lemma operator_vote_new_sel [simp]:
  "ov_operator (operator_vote_new i operator slot sw) = operator"
  "ov_stake_weights (operator_vote_new i operator slot sw) = sw"
  "i < 256 \<Longrightarrow> unat (ov_ballot_index (operator_vote_new i operator slot sw)) = i"
  by (simp_all add: operator_vote_new_def unat_of_nat)

lemma ov_is_empty_default [simp]: "ov_is_empty operator_vote_default"
  by (simp add: ov_is_empty_def operator_vote_default_def)

section \<open>One tally\<close>

lemma all_less_10: "(\<forall>k < (10::nat). P k) \<longleftrightarrow> P 0 \<and> P 1 \<and> (\<forall>i < 8. P (i + 2))"
proof
  assume R: "P 0 \<and> P 1 \<and> (\<forall>i < 8. P (i + 2))"
  show "\<forall>k < 10. P k"
  proof (intro allI impI)
    fix k :: nat
    assume "k < 10"
    show "P k"
    proof (cases "k < 2")
      case True
      then have "k = 0 \<or> k = 1" by arith
      with R show ?thesis by auto
    next
      case False
      then obtain i where "k = i + 2" by (metis add.commute le_Suc_ex not_less)
      with \<open>k < 10\<close> R show ?thesis by auto
    qed
  qed
qed auto

lemma readings_unfold:
  "tally_reading 0 t = unat (bt_tally t)" "tally_reading 1 t = sw_total (bt_stake_weights t)"
  "tally_reading (i + 2) t = sw_at (bt_stake_weights t) i"
  "sw_reading 0 s = 1" "sw_reading 1 s = sw_total s" "sw_reading (i + 2) s = sw_at s i"
  by (simp_all add: tally_reading_def sw_reading_def)

lemma increment_tally_Inr:
  assumes "increment_tally t sw = Inr t'" and "wf_stake_weights (bt_stake_weights t)"
  shows "wf_stake_weights (bt_stake_weights t')" "bt_ballot t' = bt_ballot t" "bt_index t' = bt_index t"
    "k < 10 \<Longrightarrow> tally_reading k t' = tally_reading k t + sw_reading k sw"
proof -
  obtain s n where s: "stake_weights_increment (bt_stake_weights t) sw = Inr s"
    and n: "checked_add (bt_tally t) 1 = Some n" and t': "t' = t\<lparr>bt_stake_weights := s, bt_tally := n\<rparr>"
    using assms(1) by (auto simp: increment_tally_def res_simps)
  note wf = stake_weights_increment_wf [OF s assms(2)]
  show "wf_stake_weights (bt_stake_weights t')" "bt_ballot t' = bt_ballot t" "bt_index t' = bt_index t"
    using wf t' by simp_all
  have "\<forall>k < 10. tally_reading k t' = tally_reading k t + sw_reading k sw"
    unfolding all_less_10 readings_unfold using wf n t' by (simp add: checked_simps)
  then show "k < 10 \<Longrightarrow> tally_reading k t' = tally_reading k t + sw_reading k sw" by blast
qed

lemma decrement_tally_Inr:
  assumes "decrement_tally t sw = Inr t'" and "wf_stake_weights (bt_stake_weights t)"
  shows "wf_stake_weights (bt_stake_weights t')" "bt_ballot t' = bt_ballot t" "bt_index t' = bt_index t"
    "k < 10 \<Longrightarrow> tally_reading k t = tally_reading k t' + sw_reading k sw"
proof -
  obtain s n where s: "stake_weights_decrement (bt_stake_weights t) sw = Inr s"
    and n: "checked_sub (bt_tally t) 1 = Some n" and t': "t' = t\<lparr>bt_stake_weights := s, bt_tally := n\<rparr>"
    using assms(1) by (auto simp: decrement_tally_def res_simps)
  note wf = stake_weights_decrement_wf [OF s assms(2)]
  show "wf_stake_weights (bt_stake_weights t')" "bt_ballot t' = bt_ballot t" "bt_index t' = bt_index t"
    using wf t' by simp_all
  have "\<forall>k < 10. tally_reading k t = tally_reading k t' + sw_reading k sw"
    unfolding all_less_10 readings_unfold using wf n t' by (simp add: checked_simps)
  then show "k < 10 \<Longrightarrow> tally_reading k t = tally_reading k t' + sw_reading k sw" by blast
qed

lemma ballot_default_invalid [simp]:
  "\<not> bt_is_valid ballot_tally_default" "\<not> ballot_is_valid ballot_default"
  by (simp_all add: bt_is_valid_def ballot_tally_default_def ballot_default_def)

lemma tally_reading_default: "k < 10 \<Longrightarrow> tally_reading k ballot_tally_default = 0"
proof -
  have "\<forall>k < 10. tally_reading k ballot_tally_default = 0"
    unfolding all_less_10 readings_unfold by (simp add: ballot_tally_default_def)
  then show "k < 10 \<Longrightarrow> tally_reading k ballot_tally_default = 0" by blast
qed

lemma tally_reading_new: "k < 10 \<Longrightarrow> tally_reading k (ballot_tally_new i b sw) = sw_reading k sw"
  by (simp add: tally_reading_def sw_reading_def ballot_tally_new_def)

section \<open>The array of tallies\<close>

lemma tally_stateD:
  assumes "tally_state ts E u"
  shows "length ts = 256" "u = length (filter bt_is_valid ts)"
    "j < 256 \<Longrightarrow> wf_stake_weights (bt_stake_weights (ts ! j))"
    "j < 256 \<Longrightarrow> k < 10 \<Longrightarrow> tally_reading k (ts ! j) = E k j"
    "j < 256 \<Longrightarrow> bt_is_valid (ts ! j) \<longleftrightarrow> 0 < E 0 j"
    "j < 256 \<Longrightarrow> \<not> bt_is_valid (ts ! j) \<Longrightarrow> ts ! j = ballot_tally_default"
    "i < 256 \<Longrightarrow> j < 256 \<Longrightarrow> ballot_eq (bt_ballot (ts ! i)) (bt_ballot (ts ! j)) \<Longrightarrow> i = j"
    "j < 256 \<Longrightarrow> bt_is_valid (ts ! j) \<Longrightarrow> bt_index (ts ! j) = of_nat j"
  using assms unfolding tally_state_def by blast+

lemma filter_valid_update:
  assumes "i < length ts"
  shows "length (filter P (ts[i := t])) + of_bool (P (ts ! i)) = length (filter P ts) + of_bool (P t)"
  unfolding length_filter_conv_sum using sum_list_map_update [OF assms, of "\<lambda>x. of_bool (P x)" t] by simp

text \<open>Writing one tally.\<close>

lemma tally_state_put:
  assumes ts: "tally_state ts E u" and i: "i < 256"
    and t: "wf_stake_weights (bt_stake_weights t)" "\<And>k. k < 10 \<Longrightarrow> tally_reading k t = E' k i"
      "bt_is_valid t \<longleftrightarrow> 0 < E' 0 i" "\<not> bt_is_valid t \<Longrightarrow> t = ballot_tally_default"
      "bt_is_valid t \<Longrightarrow> bt_index t = of_nat i"
    and same: "\<And>k j. j \<noteq> i \<Longrightarrow> E' k j = E k j"
    and fresh: "\<And>j. j < 256 \<Longrightarrow> j \<noteq> i \<Longrightarrow> \<not> ballot_eq (bt_ballot (ts ! j)) (bt_ballot t)"
    and u: "u' + of_bool (bt_is_valid (ts ! i)) = u + of_bool (bt_is_valid t)"
  shows "tally_state (ts[i := t]) E' u'"
proof -
  note D = tally_stateD [OF ts]
  have nth: "ts[i := t] ! j = (if j = i then t else ts ! j)" if "j < 256" for j
    using i D(1) that by (simp add: nth_list_update)
  have one: "wf_stake_weights (bt_stake_weights (ts[i := t] ! j)) \<and>
      (\<forall>k < 10. tally_reading k (ts[i := t] ! j) = E' k j) \<and>
      (bt_is_valid (ts[i := t] ! j) \<longleftrightarrow> 0 < E' 0 j) \<and>
      (bt_is_valid (ts[i := t] ! j) \<longrightarrow> bt_index (ts[i := t] ! j) = of_nat j) \<and>
      (\<not> bt_is_valid (ts[i := t] ! j) \<longrightarrow> ts[i := t] ! j = ballot_tally_default)" if "j < 256" for j
    using t D(3-6,8) [OF that] same [of j] unfolding nth [OF that] by (cases "j = i") auto
  have sym: "ballot_eq a b = ballot_eq b a" for a b by (auto simp: ballot_eq_def)
  have "a = b" if "a < 256" "b < 256" "ballot_eq (bt_ballot (ts[i := t] ! a)) (bt_ballot (ts[i := t] ! b))"
    for a b
    using that D(7) [OF that(1,2)] fresh [OF that(1)] fresh [OF that(2)] sym
    unfolding nth [OF that(1)] nth [OF that(2)] by (auto split: if_splits)
  moreover have "u' = length (filter bt_is_valid (ts[i := t]))"
    using filter_valid_update [of i ts bt_is_valid t] i D(1,2) u by simp
  ultimately show ?thesis using one D(1) unfolding tally_state_def by simp
qed

lemma increment_or_create_state:
  assumes ts: "tally_state (bb_ballot_tallies bb) E (unat (bb_unique_ballots bb))"
    and b: "ballot_is_valid b" and sw: "wf_stake_weights sw"
    and ioc: "increment_or_create_ballot_tally bb b sw = Inr (bb', i)"
  shows "\<exists>t n. i < 256 \<and> bb' = bb\<lparr>bb_ballot_tallies := (bb_ballot_tallies bb)[i := t], bb_unique_ballots := n\<rparr> \<and>
    tally_state ((bb_ballot_tallies bb)[i := t]) (\<lambda>k j. E k j + (if i = j then sw_reading k sw else 0)) (unat n) \<and>
    ballot_eq (bt_ballot t) b \<and>
    (bt_is_valid (bb_ballot_tallies bb ! i) \<longrightarrow> bt_ballot t = bt_ballot (bb_ballot_tallies bb ! i))"
proof -
  let ?ts = "bb_ballot_tallies bb"
  note D = tally_stateD [OF ts]
  show ?thesis
  proof (cases "find_idx (\<lambda>t. bt_is_valid t \<and> ballot_eq (bt_ballot t) b) ?ts")
    case (Some j)
    then obtain t where inc: "increment_tally (?ts ! i) sw = Inr t" and j: "j = i"
      and bb': "bb' = bb\<lparr>bb_ballot_tallies := ?ts[i := t]\<rparr>"
      using ioc by (auto simp: increment_or_create_ballot_tally_def res_simps)
    have i: "i < 256" "bt_is_valid (?ts ! i)" "ballot_eq (bt_ballot (?ts ! i)) b"
      using find_idx_SomeD [OF Some] D(1) j by auto
    note I = increment_tally_Inr [OF inc D(3) [OF i(1)]]
    have "tally_state (?ts[i := t]) (\<lambda>k j. E k j + (if i = j then sw_reading k sw else 0))
        (unat (bb_unique_ballots bb))"
    proof (rule tally_state_put [OF ts i(1) I(1)])
      show "\<not> ballot_eq (bt_ballot (?ts ! j)) (bt_ballot t)" if "j < 256" "j \<noteq> i" for j
        using D(7) [OF that(1) i(1)] that I(2) by auto
    qed (use I D(4,5,8) [OF i(1)] i(2) in \<open>auto simp: bt_is_valid_def sw_reading_def\<close>)
    then show ?thesis using i I(2) bb' by (intro exI [of _ t] exI [of _ "bb_unique_ballots bb"]) simp
  next
    case None
    then obtain j n where j: "find_idx (\<lambda>t. \<not> bt_is_valid t) ?ts = Some i"
      and n: "unat n = unat (bb_unique_ballots bb) + 1"
      and bb': "bb' = bb\<lparr>bb_ballot_tallies := ?ts[i := ballot_tally_new (of_nat i) b sw], bb_unique_ballots := n\<rparr>"
      using ioc by (auto simp: increment_or_create_ballot_tally_def res_simps checked_simps split: option.splits)
    let ?t = "ballot_tally_new (of_nat i) b sw"
    have i: "i < 256" "\<not> bt_is_valid (?ts ! i)" using find_idx_SomeD [OF j] D(1) by auto
    then have E0: "E k i = 0" if "k < 10" for k
      using D(4) [OF i(1) that] D(6) [OF i] tally_reading_default [OF that] by simp
    have t: "bt_ballot ?t = b" "bt_is_valid ?t" using b by (simp_all add: ballot_tally_new_def bt_is_valid_def)
    have "tally_state (?ts[i := ?t]) (\<lambda>k j. E k j + (if i = j then sw_reading k sw else 0)) (unat n)"
    proof (rule tally_state_put [OF ts i(1)])
      show "\<not> ballot_eq (bt_ballot (?ts ! j)) (bt_ballot ?t)" if "j < 256" "j \<noteq> i" for j
        using None that D(1) t by (auto simp: find_idx_None ballot_eq_def bt_is_valid_def)
      show "wf_stake_weights (bt_stake_weights ?t)" using sw by (simp add: ballot_tally_new_def)
      show "tally_reading k ?t = E k i + (if i = i then sw_reading k sw else 0)" if "k < 10" for k
        using E0 [OF that] tally_reading_new [OF that] by simp
      show "unat n + of_bool (bt_is_valid (?ts ! i)) = unat (bb_unique_ballots bb) + of_bool (bt_is_valid ?t)"
        using i t n by simp
    qed (use t in \<open>auto simp: sw_reading_def ballot_tally_new_def\<close>)
    then show ?thesis using i t b bb'
      by (intro exI [of _ ?t] exI [of _ n]) (simp add: ballot_eq_def)
  qed
qed

lemma withdraw_vote_state:
  assumes ts: "tally_state (bb_ballot_tallies bb) E (unat (bb_unique_ballots bb))"
    and E: "\<And>k j. E k j = E' k j + (if unat (ov_ballot_index v) = j then sw_reading k (ov_stake_weights v) else 0)"
    and zero: "\<And>k j. E' 0 j = 0 \<Longrightarrow> E' k j = 0"
    and p: "unat (ov_ballot_index v) < 256"
    and w: "withdraw_vote bb (bb_unique_ballots bb) v = Inr bb'"
  shows "\<exists>t n. bb' = bb\<lparr>bb_ballot_tallies := (bb_ballot_tallies bb)[unat (ov_ballot_index v) := t], bb_unique_ballots := n\<rparr> \<and>
    tally_state ((bb_ballot_tallies bb)[unat (ov_ballot_index v) := t]) E' (unat n) \<and>
    (bt_is_valid t \<longrightarrow> bt_ballot t = bt_ballot (bb_ballot_tallies bb ! unat (ov_ballot_index v)))"
proof -
  let ?ts = "bb_ballot_tallies bb" and ?p = "unat (ov_ballot_index v)"
  note D = tally_stateD [OF ts]
  obtain d where dec: "decrement_tally (?ts ! ?p) (ov_stake_weights v) = Inr d"
    using w p D(1) by (auto simp: withdraw_vote_def Let_def res_simps)
  note I = decrement_tally_Inr [OF dec D(3) [OF p]]
  have val: "bt_is_valid (?ts ! ?p)" using D(5) [OF p] E [of 0 ?p] by (simp add: sw_reading_def)
  have read: "tally_reading k d = E' k ?p" if "k < 10" for k
    using I(4) [OF that] D(4) [OF p that] E [of k ?p] by simp
  have d0: "unat (bt_tally d) = E' 0 ?p" using read [of 0] by (simp add: tally_reading_def)
  show ?thesis
  proof (cases "bt_tally d = 0")
    case True
    then obtain n where n: "unat (bb_unique_ballots bb) = unat n + 1"
      and bb': "bb' = bb\<lparr>bb_ballot_tallies := ?ts[?p := ballot_tally_default], bb_unique_ballots := n\<rparr>"
      using w p D(1) dec by (auto simp: withdraw_vote_def Let_def res_simps checked_simps)
    have E0: "E' k ?p = 0" for k using zero d0 True by simp
    have "tally_state (?ts[?p := ballot_tally_default]) E' (unat n)"
    proof (rule tally_state_put [OF ts p])
      show "\<not> ballot_eq (bt_ballot (?ts ! j)) (bt_ballot ballot_tally_default)" for j
        using ballot_default_invalid by (simp add: ballot_eq_def bt_is_valid_def)
      show "E' k j = E k j" if "j \<noteq> ?p" for k j using E [of k j] that by simp
      show "wf_stake_weights (bt_stake_weights ballot_tally_default)" by (simp add: ballot_tally_default_def)
    qed (use E0 val n tally_reading_default in auto)
    then show ?thesis using bb' by (intro exI [of _ ballot_tally_default] exI [of _ n]) simp
  next
    case False
    then have bb': "bb' = bb\<lparr>bb_ballot_tallies := ?ts[?p := d]\<rparr>"
      using w p D(1) dec by (auto simp: withdraw_vote_def Let_def)
    have pos: "0 < E' 0 ?p" using False d0 by (simp add: word_unat_eq_iff)
    have dv: "bt_is_valid d" using val I(2) by (simp add: bt_is_valid_def)
    have "tally_state (?ts[?p := d]) E' (unat (bb_unique_ballots bb))"
    proof (rule tally_state_put [OF ts p I(1)])
      show "\<not> ballot_eq (bt_ballot (?ts ! j)) (bt_ballot d)" if "j < 256" "j \<noteq> ?p" for j
        using D(7) [OF that(1) p] that I(2) by auto
      show "E' k j = E k j" if "j \<noteq> ?p" for k j using E [of k j] that by simp
    qed (use pos dv val read I(3) D(8) [OF p] in auto)
    then show ?thesis using bb' I(2) by (intro exI [of _ d] exI [of _ "bb_unique_ballots bb"]) simp
  qed
qed

section \<open>The array of votes\<close>

lemma votes_okD:
  assumes "votes_ok vs n"
  shows "length vs = 256" "n \<le> 256" "distinct (map ov_operator (take n vs))"
    "i < n \<Longrightarrow> unat (ov_ballot_index (vs ! i)) < 256" "i < n \<Longrightarrow> ov_operator (vs ! i) \<noteq> default_pubkey"
    "i < n \<Longrightarrow> wf_stake_weights (ov_stake_weights (vs ! i))"
    "n \<le> i \<Longrightarrow> i < 256 \<Longrightarrow> vs ! i = operator_vote_default"
  using assms unfolding votes_ok_def by auto

lemma votes_ok_not_empty: "votes_ok vs n \<Longrightarrow> i < n \<Longrightarrow> \<not> ov_is_empty (vs ! i)"
  using votes_okD(4) [of vs n i] by (auto simp: ov_is_empty_def)

text \<open>Where the loop over the votes stops.\<close>

lemma find_vote:
  assumes vs: "votes_ok vs n" and op: "operator \<noteq> default_pubkey"
    and find: "find_idx (\<lambda>v. ov_operator v = operator \<or> ov_is_empty v) vs = Some i"
  shows "(i < n \<and> ov_operator (vs ! i) = operator) \<or>
    (i = n \<and> n < 256 \<and> vs ! i = operator_vote_default \<and> operator \<notin> ov_operator ` set (take n vs))"
proof -
  note D = votes_okD [OF vs] and F = find_idx_SomeD [OF find]
  show ?thesis
  proof (cases "i < n")
    case True
    then show ?thesis using F(2) votes_ok_not_empty [OF vs] by auto
  next
    case False
    have "i = n"
    proof (rule ccontr)
      assume "i \<noteq> n"
      then have "ov_is_empty (vs ! n)" using False F(1) D(1) D(7) [of n] by simp
      then show False using F(3) [of n] False \<open>i \<noteq> n\<close> by simp
    qed
    moreover have "operator \<notin> ov_operator ` set (take n vs)"
      using F(3) \<open>i = n\<close> by (force simp: in_set_conv_nth)
    ultimately show ?thesis using F(1) D(1,2) D(7) [of i] by simp
  qed
qed

text \<open>The slot of the operator, or the first free one, exists while there is room.\<close>

lemma find_vote_exists:
  assumes vs: "votes_ok vs n" and "n < 256 \<or> operator \<in> ov_operator ` set (take n vs)"
  shows "\<exists>i. find_idx (\<lambda>v. ov_operator v = operator \<or> ov_is_empty v) vs = Some i"
proof -
  note D = votes_okD [OF vs]
  from assms(2) obtain v where "v \<in> set vs" "ov_operator v = operator \<or> ov_is_empty v"
    using D(1) D(7) [of n] by (metis imageE in_set_takeD le_refl nth_mem ov_is_empty_default)
  then show ?thesis by (rule find_idx_exists)
qed

lemma votes_ok_revote:
  assumes vs: "votes_ok vs n" and i: "i < n" "ov_operator (vs ! i) = operator"
    and v: "ov_operator v = operator" "unat (ov_ballot_index v) < 256" "wf_stake_weights (ov_stake_weights v)"
  shows "votes_ok (vs[i := v]) n"
proof -
  note D = votes_okD [OF vs]
  have "map ov_operator (take n (vs[i := v])) = map ov_operator (take n vs)"
    using i v D(1,2) by (intro nth_equalityI) (auto simp: nth_list_update)
  moreover have "ov_operator v \<noteq> default_pubkey" using i v D(5) by auto
  ultimately show ?thesis using D i v unfolding votes_ok_def by (auto simp: nth_list_update)
qed

lemma votes_ok_append:
  assumes vs: "votes_ok vs n" and n: "n < 256" "operator \<notin> ov_operator ` set (take n vs)" "operator \<noteq> default_pubkey"
    and v: "ov_operator v = operator" "unat (ov_ballot_index v) < 256" "wf_stake_weights (ov_stake_weights v)"
  shows "votes_ok (vs[n := v]) (n + 1)"
proof -
  note D = votes_okD [OF vs]
  have "take (n + 1) (vs[n := v]) = take n vs @ [v]"
    using n D(1) by (simp add: take_Suc_conv_app_nth)
  then have "distinct (map ov_operator (take (n + 1) (vs[n := v])))"
    using D(3) n v by (auto simp: image_iff)
  then show ?thesis using D n v unfolding votes_ok_def by (auto simp: nth_list_update less_Suc_eq)
qed

section \<open>Casting a vote\<close>

lemma has_ballot_nth: "has_ballot bb b \<longleftrightarrow> (\<exists>j < length (bb_ballot_tallies bb). ballot_eq (bt_ballot (bb_ballot_tallies bb ! j)) b)"
  unfolding has_ballot_def list_ex_iff by (metis in_set_conv_nth)

text \<open>What a successful vote does, step by step: the vote is counted in tally \<open>i\<close>, the operator's
  slot \<open>s\<close> gets it, and an earlier vote of the same operator is withdrawn.\<close>

lemma cast_vote_steps [consumes 4, case_names first_vote revote]:
  assumes inv: "bb_inv bb" and op: "operator \<noteq> default_pubkey" and sw: "wf_stake_weights sw"
    and cast: "cast_vote bb operator b sw slot window = Inr bb'"
  obtains (first_vote) i t u where "i < 256" "unat (bb_operators_voted bb) < 256"
      "operator \<notin> ov_operator ` set (take (unat (bb_operators_voted bb)) (bb_operator_votes bb))"
      "unat (bb_operators_voted bb') = unat (bb_operators_voted bb) + 1"
      "bb' = bb\<lparr>bb_ballot_tallies := (bb_ballot_tallies bb)[i := t], bb_unique_ballots := u,
         bb_operators_voted := bb_operators_voted bb',
         bb_operator_votes := (bb_operator_votes bb)[unat (bb_operators_voted bb) := operator_vote_new i operator slot sw]\<rparr>"
      "tally_state (bb_ballot_tallies bb')
        (\<lambda>k j. counted (bb_operator_votes bb) k j + (if i = j then sw_reading k sw else 0)) (unat u)"
      "ballot_eq (bt_ballot t) b"
      "bt_is_valid (bb_ballot_tallies bb ! i) \<Longrightarrow> bt_ballot t = bt_ballot (bb_ballot_tallies bb ! i)"
  | (revote) i t u s p d where "i < 256" "s < unat (bb_operators_voted bb)"
      "ov_operator (bb_operator_votes bb ! s) = operator" "p = unat (ov_ballot_index (bb_operator_votes bb ! s))"
      "\<not> is_consensus_reached bb"
      "bb' = bb\<lparr>bb_ballot_tallies := (bb_ballot_tallies bb)[i := t, p := d], bb_unique_ballots := u,
         bb_operator_votes := (bb_operator_votes bb)[s := operator_vote_new i operator slot sw]\<rparr>"
      "tally_state (bb_ballot_tallies bb') (counted (bb_operator_votes bb')) (unat u)"
      "ballot_eq (bt_ballot t) b"
      "bt_is_valid (bb_ballot_tallies bb ! i) \<Longrightarrow> bt_ballot t = bt_ballot (bb_ballot_tallies bb ! i)"
      "bt_is_valid d \<Longrightarrow> bt_ballot d = bt_ballot ((bb_ballot_tallies bb)[i := t] ! p)"
proof -
  let ?vs = "bb_operator_votes bb" and ?n = "unat (bb_operators_voted bb)"
  have vs: "votes_ok ?vs ?n"
    and ts: "tally_state (bb_ballot_tallies bb) (counted ?vs) (unat (bb_unique_ballots bb))"
    using inv by (auto simp: bb_inv_def)
  obtain bb1 i s where b: "ballot_is_valid b"
    and ioc: "increment_or_create_ballot_tally bb b sw = Inr (bb1, i)"
    and s: "find_idx (\<lambda>v. ov_operator v = operator \<or> ov_is_empty v) (bb_operator_votes bb1) = Some s"
    and rest: "(let vote = bb_operator_votes bb1 ! s; new_vote = operator_vote_new i operator slot sw
       in if ov_operator vote = operator then
            if is_consensus_reached bb1 then Inl ConsensusAlreadyReached
            else rbind (withdraw_vote bb1 (bb_unique_ballots bb1) vote) (\<lambda>bb.
                 Inr (bb\<lparr>bb_operator_votes := (bb_operator_votes bb)[s := new_vote]\<rparr>))
          else rbind (ok_or ArithmeticOverflow (checked_add (bb_operators_voted bb1) 1)) (\<lambda>n.
               Inr (bb1\<lparr>bb_operator_votes := (bb_operator_votes bb1)[s := new_vote],
                        bb_operators_voted := n\<rparr>))) = Inr bb'"
    using cast unfolding cast_vote_def rbind_Inr fail_if_Inr
    by (auto simp: Let_def split: option.splits)
  from increment_or_create_state [OF ts b sw ioc] obtain t u where i: "i < 256"
    and bb1: "bb1 = bb\<lparr>bb_ballot_tallies := (bb_ballot_tallies bb)[i := t], bb_unique_ballots := u\<rparr>"
    and ts1: "tally_state ((bb_ballot_tallies bb)[i := t]) (\<lambda>k j. counted ?vs k j + (if i = j then sw_reading k sw else 0)) (unat u)"
    and t: "ballot_eq (bt_ballot t) b"
      "bt_is_valid (bb_ballot_tallies bb ! i) \<Longrightarrow> bt_ballot t = bt_ballot (bb_ballot_tallies bb ! i)"
    by blast
  have find: "find_idx (\<lambda>v. ov_operator v = operator \<or> ov_is_empty v) ?vs = Some s" using s bb1 by simp
  let ?new = "operator_vote_new i operator slot sw"
  from find_vote [OF vs op find] show ?thesis
  proof (elim disjE conjE)
    assume s: "s < ?n" "ov_operator (?vs ! s) = operator"
    then obtain bb2 where cons: "\<not> is_consensus_reached bb"
      and w: "withdraw_vote bb1 (bb_unique_ballots bb1) (?vs ! s) = Inr bb2"
      and bb': "bb' = bb2\<lparr>bb_operator_votes := (bb_operator_votes bb2)[s := ?new]\<rparr>"
      using rest bb1 by (auto simp: Let_def res_simps is_consensus_reached_def split: if_splits)
    let ?p = "unat (ov_ballot_index (?vs ! s))"
    have len: "s < length ?vs" using s votes_okD(1,2) [OF vs] by simp
    have E: "counted ?vs k j + (if i = j then sw_reading k sw else 0) =
        counted (?vs[s := ?new]) k j + (if ?p = j then sw_reading k (ov_stake_weights (?vs ! s)) else 0)" for k j
      using counted_update [OF len, of ?new k j] contrib_new [OF i, of k j operator slot sw]
      by (simp add: contrib_def [of k j "?vs ! s"])
    have "tally_state (bb_ballot_tallies bb1) (\<lambda>k j. counted ?vs k j + (if i = j then sw_reading k sw else 0))
        (unat (bb_unique_ballots bb1))" using ts1 bb1 by simp
    from withdraw_vote_state [OF this E counted_zero votes_okD(4) [OF vs s(1)] w] obtain d u'
      where "bb2 = bb1\<lparr>bb_ballot_tallies := (bb_ballot_tallies bb1)[?p := d], bb_unique_ballots := u'\<rparr>"
        "tally_state ((bb_ballot_tallies bb1)[?p := d]) (counted (?vs[s := ?new])) (unat u')"
        "bt_is_valid d \<Longrightarrow> bt_ballot d = bt_ballot (bb_ballot_tallies bb1 ! ?p)" by blast
    with s i t cons bb' bb1 show ?thesis by (intro revote [where i = i and s = s and p = ?p and t = t and d = d and u = u']) simp_all
  next
    assume s: "s = ?n" "?n < 256" "?vs ! s = operator_vote_default" "operator \<notin> ov_operator ` set (take ?n ?vs)"
    then have "ov_operator (?vs ! s) \<noteq> operator" using op by (simp add: operator_vote_default_def)
    then obtain n where "unat n = ?n + 1"
      "bb' = bb1\<lparr>bb_operator_votes := (bb_operator_votes bb1)[s := ?new], bb_operators_voted := n\<rparr>"
      using rest bb1 by (auto simp: Let_def res_simps checked_simps)
    with s i t ts1 bb1 show ?thesis by (intro first_vote [where i = i and t = t and u = u]) simp_all
  qed
qed

lemma counted_pos:
  assumes "s < length vs" and "unat (ov_ballot_index (vs ! s)) = j"
  shows "0 < counted vs 0 j"
proof -
  have "contrib 0 j (vs ! s) \<le> counted vs 0 j"
    unfolding counted_def using assms(1) by (rule nth_le_sum_list_map)
  then show ?thesis using assms(2) by (simp add: contrib_def sw_reading_def)
qed

lemma bb_inv_new: "bb_inv (ballot_box_new ncn epoch bump slot)"
proof -
  have vs: "votes_ok (replicate 256 operator_vote_default) 0"
    by (simp add: votes_ok_def)
  have "counted (replicate 256 operator_vote_default) k j = 0" if "j < 256" for k j
    unfolding counted_def sum_list_map_replicate contrib_empty [OF that] by simp
  then have "tally_state (replicate 256 ballot_tally_default) (counted (replicate 256 operator_vote_default)) 0"
    using tally_reading_default ballot_default_invalid
    by (auto simp: tally_state_def ballot_eq_def bt_is_valid_def) (simp add: ballot_tally_default_def)
  with vs show ?thesis
    by (simp add: bb_inv_def ballot_box_new_def MAX_OPERATORS_def is_consensus_reached_def)
qed

text \<open>A vote keeps the books of the box.\<close>

lemma cast_vote_inv:
  assumes inv: "bb_inv bb" and op: "operator \<noteq> default_pubkey" and sw: "wf_stake_weights sw"
    and cast: "cast_vote bb operator b sw slot window = Inr bb'"
  shows "bb_inv bb'"
  using assms
proof (cases rule: cast_vote_steps)
  case (first_vote i t u)
  let ?vs = "bb_operator_votes bb" and ?n = "unat (bb_operators_voted bb)"
  let ?new = "operator_vote_new i operator slot sw"
  have vs: "votes_ok ?vs ?n" and ts: "tally_state (bb_ballot_tallies bb) (counted ?vs) (unat (bb_unique_ballots bb))"
    and won: "is_consensus_reached bb \<Longrightarrow> has_ballot bb (bb_winning_ballot bb)"
    using inv by (auto simp: bb_inv_def)
  have votes: "bb_operator_votes bb' = ?vs[?n := ?new]" and tallies: "bb_ballot_tallies bb' = (bb_ballot_tallies bb)[i := t]"
    and rest: "bb_unique_ballots bb' = u" "is_consensus_reached bb' = is_consensus_reached bb"
      "bb_winning_ballot bb' = bb_winning_ballot bb"
    by (subst first_vote(5), simp add: is_consensus_reached_def)+
  have len: "?n < length ?vs" "?vs ! ?n = operator_vote_default"
    using votes_okD(1) [OF vs] votes_okD(7) [OF vs, of ?n] first_vote(2) by simp_all
  have E: "counted ?vs k j + (if i = j then sw_reading k sw else 0) = counted (?vs[?n := ?new]) k j"
    if "j < 256" for k j
    using counted_update [OF len(1), of ?new k j] contrib_new [OF first_vote(1), of k j operator slot sw]
      contrib_empty [OF that, of k] len(2) by simp
  then have "tally_state (bb_ballot_tallies bb') (counted (bb_operator_votes bb')) (unat (bb_unique_ballots bb'))"
    using first_vote(6) unfolding votes rest tally_state_def by simp
  moreover have "votes_ok (bb_operator_votes bb') (unat (bb_operators_voted bb'))"
    unfolding votes first_vote(4)
    by (rule votes_ok_append [OF vs first_vote(2,3) op])
      (use first_vote(1) sw in simp_all)
  moreover have "has_ballot bb' (bb_winning_ballot bb')" if "is_consensus_reached bb'"
  proof -
    from won that rest obtain j where j: "j < 256" "ballot_eq (bt_ballot (bb_ballot_tallies bb ! j)) (bb_winning_ballot bb)"
      using tally_stateD(1) [OF ts] by (auto simp: has_ballot_nth)
    then have "bt_is_valid (bb_ballot_tallies bb ! j)" by (simp add: ballot_eq_def bt_is_valid_def split: if_splits)
    then have "bt_ballot (bb_ballot_tallies bb' ! j) = bt_ballot (bb_ballot_tallies bb ! j)"
      using first_vote(1,8) j(1) tally_stateD(1) [OF ts] by (simp add: tallies nth_list_update)
    with j rest(3) show ?thesis using tally_stateD(1) [OF ts] by (auto simp: has_ballot_nth tallies)
  qed
  ultimately show ?thesis by (simp add: bb_inv_def)
next
  case (revote i t u s p d)
  have vs: "votes_ok (bb_operator_votes bb) (unat (bb_operators_voted bb))" using inv by (simp add: bb_inv_def)
  have votes: "bb_operator_votes bb' = (bb_operator_votes bb)[s := operator_vote_new i operator slot sw]"
    and rest: "bb_unique_ballots bb' = u" "bb_operators_voted bb' = bb_operators_voted bb"
      "is_consensus_reached bb' = is_consensus_reached bb"
    by (subst revote(6), simp add: is_consensus_reached_def)+
  have "votes_ok (bb_operator_votes bb') (unat (bb_operators_voted bb'))"
    unfolding votes rest by (rule votes_ok_revote [OF vs revote(2,3)])
      (use revote(1) sw in simp_all)
  then show ?thesis using revote(5,7) rest by (simp add: bb_inv_def)
qed

section \<open>The box as a map from operators to votes\<close>

definition voted :: "ballot_box \<Rightarrow> pubkey \<Rightarrow> (bytes32 \<times> stake_weights) option" where
  "voted bb operator =
    map_option (\<lambda>v. (meta_merkle_root (bt_ballot (bb_ballot_tallies bb ! unat (ov_ballot_index v))), ov_stake_weights v))
      (List.find (\<lambda>v. ov_operator v = operator \<and> \<not> ov_is_empty v) (bb_operator_votes bb))"

definition vote_of :: "ballot_box \<Rightarrow> nat \<Rightarrow> bytes32 \<times> stake_weights" where
  "vote_of bb i = (let v = bb_operator_votes bb ! i in
    (meta_merkle_root (bt_ballot (bb_ballot_tallies bb ! unat (ov_ballot_index v))), ov_stake_weights v))"

lemma voted_Some:
  assumes vs: "votes_ok (bb_operator_votes bb) (unat (bb_operators_voted bb))"
  shows "voted bb operator = Some x \<longleftrightarrow>
    (\<exists>i < unat (bb_operators_voted bb). ov_operator (bb_operator_votes bb ! i) = operator \<and> x = vote_of bb i)"
proof -
  let ?vs = "bb_operator_votes bb" and ?n = "unat (bb_operators_voted bb)"
  note D = votes_okD [OF vs]
  have live: "\<not> ov_is_empty (?vs ! i) \<longleftrightarrow> i < ?n" if "i < 256" for i
    using that votes_ok_not_empty [OF vs, of i] D(7) [of i] by (cases "i < ?n") auto
  have uniq: "i = j" if "i < ?n" "j < ?n" "ov_operator (?vs ! i) = ov_operator (?vs ! j)" for i j
    using D(1,2,3) that by (auto simp: distinct_conv_nth)
  have "find_idx (\<lambda>v. ov_operator v = operator \<and> \<not> ov_is_empty v) ?vs = Some i \<longleftrightarrow>
      i < ?n \<and> ov_operator (?vs ! i) = operator" for i
    unfolding find_idx_Some D(1) using live D(2) uniq
    by (metis (no_types, lifting) less_le_trans less_trans nat_neq_iff)
  then show ?thesis
    by (auto simp: voted_def find_conv_find_idx vote_of_def Let_def)
qed

lemma map_upd_eqI:
  assumes "\<And>k x. m' k = Some x \<longleftrightarrow> (if k = a then x = y else m k = Some x)"
  shows "m' = m(a \<mapsto> y)"
proof
  fix k
  show "m' k = (m(a \<mapsto> y)) k"
  proof (cases "k = a")
    case True
    then show ?thesis using assms [of a y] by simp
  next
    case False
    then have "m' k = Some x \<longleftrightarrow> m k = Some x" for x using assms [of k x] by simp
    then show ?thesis using False by (metis fun_upd_other not_None_eq)
  qed
qed

text \<open>The slot a vote is written to, and that every other slot keeps its vote.\<close>

lemma cast_vote_slots:
  assumes inv: "bb_inv bb" and op: "operator \<noteq> default_pubkey" and sw: "wf_stake_weights sw"
    and cast: "cast_vote bb operator b sw slot window = Inr bb'"
  shows "\<exists>s < unat (bb_operators_voted bb'). ov_operator (bb_operator_votes bb' ! s) = operator \<and>
    vote_of bb' s = (meta_merkle_root b, sw) \<and>
    (\<forall>i. i \<noteq> s \<longrightarrow> (i < unat (bb_operators_voted bb') \<longleftrightarrow> i < unat (bb_operators_voted bb))) \<and>
    (\<forall>i < unat (bb_operators_voted bb). i \<noteq> s \<longrightarrow>
      ov_operator (bb_operator_votes bb' ! i) = ov_operator (bb_operator_votes bb ! i) \<and>
      vote_of bb' i = vote_of bb i) \<and>
    (s < unat (bb_operators_voted bb) \<longrightarrow> ov_operator (bb_operator_votes bb ! s) = operator)"
proof -
  let ?vs = "bb_operator_votes bb" and ?n = "unat (bb_operators_voted bb)"
  have vs: "votes_ok ?vs ?n" and ts: "tally_state (bb_ballot_tallies bb) (counted ?vs) (unat (bb_unique_ballots bb))"
    using inv by (auto simp: bb_inv_def)
  have valid: "bt_is_valid (bb_ballot_tallies bb ! unat (ov_ballot_index (?vs ! i)))" if "i < ?n" for i
    using tally_stateD(5) [OF ts] votes_okD(4) [OF vs that] counted_pos [of i ?vs] that votes_okD(1,2) [OF vs]
    by simp
  have ts': "tally_state (bb_ballot_tallies bb') (counted (bb_operator_votes bb')) (unat (bb_unique_ballots bb'))"
    and vs': "votes_ok (bb_operator_votes bb') (unat (bb_operators_voted bb'))"
    using cast_vote_inv [OF assms] by (auto simp: bb_inv_def)
  have valid': "bt_is_valid (bb_ballot_tallies bb' ! unat (ov_ballot_index (bb_operator_votes bb' ! i)))"
    if "i < unat (bb_operators_voted bb')" for i
    using tally_stateD(5) [OF ts'] votes_okD(4) [OF vs' that] counted_pos [of i "bb_operator_votes bb'"]
      that votes_okD(1,2) [OF vs'] by simp
  have b: "meta_merkle_root x = meta_merkle_root b" if "ballot_eq x b" for x
    using that by (simp add: ballot_eq_def split: if_splits)
  from assms show ?thesis
  proof (cases rule: cast_vote_steps)
    case (first_vote i t u)
    let ?new = "operator_vote_new i operator slot sw"
    have votes: "bb_operator_votes bb' = ?vs[?n := ?new]" and tallies: "bb_ballot_tallies bb' = (bb_ballot_tallies bb)[i := t]"
      by (subst first_vote(5), simp)+
    have new: "(?vs[?n := ?new]) ! ?n = ?new" using votes_okD(1) [OF vs] first_vote(2) by simp
    have "vote_of bb' ?n = (meta_merkle_root b, sw)"
      using first_vote(1,7) b tally_stateD(1) [OF ts]
      by (simp add: vote_of_def votes tallies new Let_def)
    moreover have "vote_of bb' j = vote_of bb j" if "j < ?n" for j
      using that valid [OF that] first_vote(1,8) tally_stateD(1) [OF ts]
      by (auto simp: vote_of_def votes tallies Let_def nth_list_update)
    ultimately show ?thesis
      using first_vote(4) new by (intro exI [of _ ?n]) (auto simp: votes)
  next
    case (revote i t u s p d)
    let ?new = "operator_vote_new i operator slot sw"
    have votes: "bb_operator_votes bb' = ?vs[s := ?new]" and n: "bb_operators_voted bb' = bb_operators_voted bb"
      and tallies: "bb_ballot_tallies bb' = (bb_ballot_tallies bb)[i := t, p := d]"
      by (subst revote(6), simp)+
    have len: "length (bb_ballot_tallies bb) = 256" by (rule tally_stateD(1) [OF ts])
    have p: "p < 256" using votes_okD(4) [OF vs revote(2)] revote(4) by simp
    have new: "(?vs[s := ?new]) ! s = ?new" using votes_okD(1,2) [OF vs] revote(2) by simp
    have at: "bt_ballot (bb_ballot_tallies bb' ! j) = bt_ballot ((bb_ballot_tallies bb)[i := t] ! j)"
      if "j < 256" "bt_is_valid (bb_ballot_tallies bb' ! j)" for j
      using that revote(10) p len by (cases "j = p") (auto simp: tallies)
    have "vote_of bb' s = (meta_merkle_root b, sw)"
      using at [of i] valid' [of s] revote(1,2,8) b len n
      by (simp add: vote_of_def votes new Let_def)
    moreover have "vote_of bb' j = vote_of bb j" if j: "j < ?n" "j \<noteq> s" for j
    proof -
      have k: "unat (ov_ballot_index (?vs ! j)) < 256" by (rule votes_okD(4) [OF vs j(1)])
      have "bt_ballot (bb_ballot_tallies bb' ! unat (ov_ballot_index (?vs ! j))) =
          bt_ballot ((bb_ballot_tallies bb)[i := t] ! unat (ov_ballot_index (?vs ! j)))"
        using at [OF k] valid' [of j] j n by (simp add: votes)
      also have "\<dots> = bt_ballot (bb_ballot_tallies bb ! unat (ov_ballot_index (?vs ! j)))"
        using valid [OF j(1)] revote(1,9) k len by (simp add: nth_list_update)
      finally show ?thesis using j by (simp add: vote_of_def votes Let_def)
    qed
    ultimately show ?thesis
      using revote(2,3) n new by (intro exI [of _ s]) (auto simp: votes)
  qed
qed

lemma cast_vote_voted:
  assumes inv: "bb_inv bb" and op: "operator \<noteq> default_pubkey" and sw: "wf_stake_weights sw"
    and cast: "cast_vote bb operator b sw slot window = Inr bb'"
  shows "voted bb' = (voted bb)(operator \<mapsto> (meta_merkle_root b, sw))"
proof (rule map_upd_eqI)
  fix o' x
  let ?vs = "bb_operator_votes bb" and ?vs' = "bb_operator_votes bb'"
  let ?n = "unat (bb_operators_voted bb)" and ?n' = "unat (bb_operators_voted bb')"
  have ok: "votes_ok ?vs ?n" "votes_ok ?vs' ?n'" and ts: "length (bb_ballot_tallies bb) = 256"
    using inv cast_vote_inv [OF assms] tally_stateD(1) by (auto simp: bb_inv_def)
  obtain s where s: "s < ?n'" "ov_operator (?vs' ! s) = operator" "vote_of bb' s = (meta_merkle_root b, sw)"
    and other: "\<And>i. i \<noteq> s \<Longrightarrow> i < ?n' \<longleftrightarrow> i < ?n"
      "\<And>i. i < ?n \<Longrightarrow> i \<noteq> s \<Longrightarrow> ov_operator (?vs' ! i) = ov_operator (?vs ! i) \<and> vote_of bb' i = vote_of bb i"
      "s < ?n \<Longrightarrow> ov_operator (?vs ! s) = operator"
    using cast_vote_slots [OF assms] by blast
  have uniq: "i = s" if "i < ?n'" "ov_operator (?vs' ! i) = operator" for i
    using votes_okD(1,2,3) [OF ok(2)] that s(1,2) by (auto simp: distinct_conv_nth)
  show "voted bb' o' = Some x \<longleftrightarrow>
    (if o' = operator then x = (meta_merkle_root b, sw) else voted bb o' = Some x)"
    unfolding voted_Some [OF ok(1)] voted_Some [OF ok(2)] using s other uniq by metis
qed

end
