(* ===== verification/Fees.thy ===== *)
theory Fees
  imports Fee_Groups Precise_Number
begin

text \<open>
  \<open>core/src/fees.rs\<close>: the fee table of one activation epoch (\<open>Fees\<close>) and the double-buffered fee
  configuration (\<open>FeeConfig\<close>). A change is written into the buffer that is not in force and takes
  effect at the next epoch. The reserved padding bytes of the account layouts are left out: no
  code reads or writes them after initialisation.
\<close>

section \<open>Model\<close>

record fee =
  fee_fee :: u16

record fees =
  fees_activation_epoch :: u64
  base_fee_groups_bps :: "fee list"
  ncn_fee_groups_bps :: "fee list"

record fee_config =
  block_engine_fee_bps :: u16
  base_fee_wallets :: "pubkey list"
  fee_1 :: fees
  fee_2 :: fees

definition fee_default :: fee where
  "fee_default = \<lparr>fee_fee = 0\<rparr>"

definition fee_new :: "u16 \<Rightarrow> fee" where
  "fee_new v = \<lparr>fee_fee = v\<rparr>"

subsection \<open>The fee table of one epoch\<close>

definition fees_base_fee_bps :: "fees \<Rightarrow> base_fee_group \<Rightarrow> tip_router_error + u16" where
  "fees_base_fee_bps fs g =
    rbind (base_fee_group_group_index g) (\<lambda>i. Inr (fee_fee (base_fee_groups_bps fs ! i)))"

definition fees_precise_base_fee_bps ::
    "'p precise_ops \<Rightarrow> fees \<Rightarrow> base_fee_group \<Rightarrow> tip_router_error + 'p" where
  "fees_precise_base_fee_bps pn fs g =
    rbind (fees_base_fee_bps fs g) (\<lambda>fee. ok_or NewPreciseNumberError (pn_new pn (ucast fee)))"

definition fees_ncn_fee_bps :: "fees \<Rightarrow> ncn_fee_group \<Rightarrow> tip_router_error + u16" where
  "fees_ncn_fee_bps fs g =
    rbind (ncn_fee_group_group_index g) (\<lambda>i. Inr (fee_fee (ncn_fee_groups_bps fs ! i)))"

definition fees_precise_ncn_fee_bps ::
    "'p precise_ops \<Rightarrow> fees \<Rightarrow> ncn_fee_group \<Rightarrow> tip_router_error + 'p" where
  "fees_precise_ncn_fee_bps pn fs g =
    rbind (fees_ncn_fee_bps fs g) (\<lambda>fee. ok_or NewPreciseNumberError (pn_new pn (ucast fee)))"

definition fees_total_fees_bps :: "fees \<Rightarrow> tip_router_error + u64" where
  "fees_total_fees_bps fs =
    rbind (rfold (\<lambda>g total.
        rbind (fees_base_fee_bps fs g) (\<lambda>bps.
        ok_or ArithmeticOverflow (checked_add total (ucast bps)))) base_fee_group_all_groups 0) (\<lambda>total.
    rfold (\<lambda>g total.
        rbind (fees_ncn_fee_bps fs g) (\<lambda>bps.
        ok_or ArithmeticOverflow (checked_add total (ucast bps)))) ncn_fee_group_all_groups total)"

definition fees_precise_total_fee_bps :: "'p precise_ops \<Rightarrow> fees \<Rightarrow> tip_router_error + 'p" where
  "fees_precise_total_fee_bps pn fs =
    rbind (fees_total_fees_bps fs) (\<lambda>total. ok_or NewPreciseNumberError (pn_new pn (ucast total)))"

definition set_activation_epoch :: "fees \<Rightarrow> u64 \<Rightarrow> fees" where
  "set_activation_epoch fs v = fs\<lparr>fees_activation_epoch := v\<rparr>"

definition fees_set_base_fee_bps :: "fees \<Rightarrow> base_fee_group \<Rightarrow> u16 \<Rightarrow> tip_router_error + fees" where
  "fees_set_base_fee_bps fs g v =
    rbind (fail_if (ucast v > MAX_FEE_BPS) FeeCapExceeded) (\<lambda>_.
    rbind (base_fee_group_group_index g) (\<lambda>i.
    Inr (fs\<lparr>base_fee_groups_bps := (base_fee_groups_bps fs)[i := fee_new v]\<rparr>)))"

definition fees_set_ncn_fee_bps :: "fees \<Rightarrow> ncn_fee_group \<Rightarrow> u16 \<Rightarrow> tip_router_error + fees" where
  "fees_set_ncn_fee_bps fs g v =
    rbind (fail_if (ucast v > MAX_FEE_BPS) FeeCapExceeded) (\<lambda>_.
    rbind (ncn_fee_group_group_index g) (\<lambda>i.
    Inr (fs\<lparr>ncn_fee_groups_bps := (ncn_fee_groups_bps fs)[i := fee_new v]\<rparr>)))"

definition fees_new :: "u16 \<Rightarrow> u16 \<Rightarrow> u64 \<Rightarrow> tip_router_error + fees" where
  "fees_new dao_fee_bps default_ncn_fee_bps epoch =
    rbind (fees_set_base_fee_bps
        \<lparr>fees_activation_epoch = epoch,
         base_fee_groups_bps = replicate FEE_GROUP_COUNT fee_default,
         ncn_fee_groups_bps = replicate FEE_GROUP_COUNT fee_default\<rparr>
        base_fee_group_default dao_fee_bps) (\<lambda>fs.
    fees_set_ncn_fee_bps fs ncn_fee_group_default default_ncn_fee_bps)"

subsection \<open>The fee configuration\<close>

text \<open>\<open>updatable_fees\<close> hands out a mutable reference to one of the two buffers: here the name of
  the buffer, read with \<open>get_fees\<close> and written with \<open>put_fees\<close>.\<close>

datatype fee_slot = Fee_1 | Fee_2

primrec get_fees :: "fee_config \<Rightarrow> fee_slot \<Rightarrow> fees" where
  "get_fees fc Fee_1 = fee_1 fc"
| "get_fees fc Fee_2 = fee_2 fc"

primrec put_fees :: "fee_config \<Rightarrow> fee_slot \<Rightarrow> fees \<Rightarrow> fee_config" where
  "put_fees fc Fee_1 fs = fc\<lparr>fee_1 := fs\<rparr>"
| "put_fees fc Fee_2 fs = fc\<lparr>fee_2 := fs\<rparr>"

definition current_fees :: "fee_config \<Rightarrow> u64 \<Rightarrow> fees" where
  "current_fees fc e =
    (if fees_activation_epoch (fee_1 fc) > e then fee_2 fc
     else if fees_activation_epoch (fee_2 fc) > e then fee_1 fc
     else if fees_activation_epoch (fee_1 fc) \<ge> fees_activation_epoch (fee_2 fc) then fee_1 fc
     else fee_2 fc)"

definition updatable_fees :: "fee_config \<Rightarrow> u64 \<Rightarrow> fee_slot" where
  "updatable_fees fc e =
    (if fees_activation_epoch (fee_1 fc) > e then Fee_1
     else if fees_activation_epoch (fee_2 fc) > e then Fee_2
     else if fees_activation_epoch (fee_1 fc) \<le> fees_activation_epoch (fee_2 fc) then Fee_1
     else Fee_2)"

definition update_updatable_epoch :: "fee_config \<Rightarrow> u64 \<Rightarrow> tip_router_error + fee_config" where
  "update_updatable_epoch fc e =
    rbind (ok_or ArithmeticOverflow (checked_add e 1)) (\<lambda>next_epoch.
    let u = updatable_fees fc e in
    Inr (put_fees fc u (set_activation_epoch (get_fees fc u) next_epoch)))"

definition total_fees_bps :: "fee_config \<Rightarrow> u64 \<Rightarrow> tip_router_error + u64" where
  "total_fees_bps fc e = fees_total_fees_bps (current_fees fc e)"

definition precise_total_fee_bps :: "'p precise_ops \<Rightarrow> fee_config \<Rightarrow> u64 \<Rightarrow> tip_router_error + 'p" where
  "precise_total_fee_bps pn fc e = fees_precise_total_fee_bps pn (current_fees fc e)"

definition adjusted_fee_bps :: "fee_config \<Rightarrow> u16 \<Rightarrow> tip_router_error + u64" where
  "adjusted_fee_bps fc fee =
    rbind (ok_or ArithmeticUnderflowError (checked_sub MAX_FEE_BPS (ucast (block_engine_fee_bps fc))))
      (\<lambda>remaining_bps.
    ok_or DenominatorIsZero
      (Option.bind (checked_mul (ucast fee) MAX_FEE_BPS) (\<lambda>x. checked_div x remaining_bps)))"

definition adjusted_precise_fee_bps ::
    "'p precise_ops \<Rightarrow> fee_config \<Rightarrow> u16 \<Rightarrow> tip_router_error + 'p" where
  "adjusted_precise_fee_bps pn fc fee =
    rbind (ok_or ArithmeticOverflow (checked_sub MAX_FEE_BPS (ucast (block_engine_fee_bps fc))))
      (\<lambda>remaining_bps.
    rbind (ok_or NewPreciseNumberError (pn_new pn (ucast remaining_bps))) (\<lambda>precise_remaining_bps.
    rbind (ok_or ArithmeticOverflow (checked_mul (ucast fee) MAX_FEE_BPS)) (\<lambda>adjusted_fee :: u64.
    rbind (ok_or NewPreciseNumberError (pn_new pn (ucast adjusted_fee))) (\<lambda>precise_adjusted_fee.
    ok_or DenominatorIsZero (pn_checked_div pn precise_adjusted_fee precise_remaining_bps)))))"

definition adjusted_total_fees_bps :: "fee_config \<Rightarrow> u64 \<Rightarrow> tip_router_error + u64" where
  "adjusted_total_fees_bps fc e =
    rbind (total_fees_bps fc e) (\<lambda>total.
    rbind (ok_or ArithmeticOverflow (try_into total)) (\<lambda>total. adjusted_fee_bps fc total))"

definition precise_block_engine_fee_bps :: "'p precise_ops \<Rightarrow> fee_config \<Rightarrow> tip_router_error + 'p" where
  "precise_block_engine_fee_bps pn fc =
    ok_or NewPreciseNumberError (pn_new pn (ucast (block_engine_fee_bps fc)))"

definition set_block_engine_fee_bps :: "fee_config \<Rightarrow> u16 \<Rightarrow> tip_router_error + fee_config" where
  "set_block_engine_fee_bps fc v =
    rbind (fail_if (ucast v > MAX_FEE_BPS) FeeCapExceeded) (\<lambda>_.
    Inr (fc\<lparr>block_engine_fee_bps := v\<rparr>))"

definition base_fee_bps :: "fee_config \<Rightarrow> base_fee_group \<Rightarrow> u64 \<Rightarrow> tip_router_error + u16" where
  "base_fee_bps fc g e = fees_base_fee_bps (current_fees fc e) g"

definition precise_base_fee_bps ::
    "'p precise_ops \<Rightarrow> fee_config \<Rightarrow> base_fee_group \<Rightarrow> u64 \<Rightarrow> tip_router_error + 'p" where
  "precise_base_fee_bps pn fc g e = fees_precise_base_fee_bps pn (current_fees fc e) g"

definition adjusted_base_fee_bps :: "fee_config \<Rightarrow> base_fee_group \<Rightarrow> u64 \<Rightarrow> tip_router_error + u64" where
  "adjusted_base_fee_bps fc g e =
    rbind (fees_base_fee_bps (current_fees fc e) g) (\<lambda>fee. adjusted_fee_bps fc fee)"

definition adjusted_precise_base_fee_bps ::
    "'p precise_ops \<Rightarrow> fee_config \<Rightarrow> base_fee_group \<Rightarrow> u64 \<Rightarrow> tip_router_error + 'p" where
  "adjusted_precise_base_fee_bps pn fc g e =
    rbind (fees_base_fee_bps (current_fees fc e) g) (\<lambda>fee. adjusted_precise_fee_bps pn fc fee)"

definition set_base_fee_bps ::
    "fee_config \<Rightarrow> base_fee_group \<Rightarrow> u16 \<Rightarrow> u64 \<Rightarrow> tip_router_error + fee_config" where
  "set_base_fee_bps fc g v e =
    (let u = updatable_fees fc e in
     rbind (fees_set_base_fee_bps (get_fees fc u) g v) (\<lambda>fs. Inr (put_fees fc u fs)))"

definition ncn_fee_bps :: "fee_config \<Rightarrow> ncn_fee_group \<Rightarrow> u64 \<Rightarrow> tip_router_error + u16" where
  "ncn_fee_bps fc g e = fees_ncn_fee_bps (current_fees fc e) g"

definition precise_ncn_fee_bps ::
    "'p precise_ops \<Rightarrow> fee_config \<Rightarrow> ncn_fee_group \<Rightarrow> u64 \<Rightarrow> tip_router_error + 'p" where
  "precise_ncn_fee_bps pn fc g e = fees_precise_ncn_fee_bps pn (current_fees fc e) g"

definition adjusted_ncn_fee_bps :: "fee_config \<Rightarrow> ncn_fee_group \<Rightarrow> u64 \<Rightarrow> tip_router_error + u64" where
  "adjusted_ncn_fee_bps fc g e =
    rbind (fees_ncn_fee_bps (current_fees fc e) g) (\<lambda>fee. adjusted_fee_bps fc fee)"

definition adjusted_precise_ncn_fee_bps ::
    "'p precise_ops \<Rightarrow> fee_config \<Rightarrow> ncn_fee_group \<Rightarrow> u64 \<Rightarrow> tip_router_error + 'p" where
  "adjusted_precise_ncn_fee_bps pn fc g e =
    rbind (fees_ncn_fee_bps (current_fees fc e) g) (\<lambda>fee. adjusted_precise_fee_bps pn fc fee)"

definition set_ncn_fee_bps ::
    "fee_config \<Rightarrow> ncn_fee_group \<Rightarrow> u16 \<Rightarrow> u64 \<Rightarrow> tip_router_error + fee_config" where
  "set_ncn_fee_bps fc g v e =
    (let u = updatable_fees fc e in
     rbind (fees_set_ncn_fee_bps (get_fees fc u) g v) (\<lambda>fs. Inr (put_fees fc u fs)))"

definition base_fee_wallet :: "fee_config \<Rightarrow> base_fee_group \<Rightarrow> tip_router_error + pubkey" where
  "base_fee_wallet fc g =
    rbind (base_fee_group_group_index g) (\<lambda>i. Inr (base_fee_wallets fc ! i))"

definition set_base_fee_wallet ::
    "fee_config \<Rightarrow> base_fee_group \<Rightarrow> pubkey \<Rightarrow> tip_router_error + fee_config" where
  "set_base_fee_wallet fc g w =
    rbind (base_fee_group_group_index g) (\<lambda>i.
    Inr (fc\<lparr>base_fee_wallets := (base_fee_wallets fc)[i := w]\<rparr>))"

definition set_fees_to_current :: "fee_config \<Rightarrow> u64 \<Rightarrow> tip_router_error + fee_config" where
  "set_fees_to_current fc e =
    rbind (fail_if (fees_activation_epoch (fee_1 fc) > e \<or> fees_activation_epoch (fee_2 fc) > e)
      FeeNotActive) (\<lambda>_.
    Inr (put_fees fc (updatable_fees fc e) (current_fees fc e)))"

definition check_fees_okay :: "'p precise_ops \<Rightarrow> fee_config \<Rightarrow> u64 \<Rightarrow> tip_router_error + unit" where
  "check_fees_okay pn fc e =
    rbind (fail_if (ucast (block_engine_fee_bps fc) > MAX_FEE_BPS) FeeCapExceeded) (\<lambda>_.
    rbind (rfold (\<lambda>g _. rbind (adjusted_precise_base_fee_bps pn fc g e) (\<lambda>_. Inr ()))
      base_fee_group_all_groups ()) (\<lambda>_.
    rbind (rfold (\<lambda>g _. rbind (adjusted_precise_ncn_fee_bps pn fc g e) (\<lambda>_. Inr ()))
      ncn_fee_group_all_groups ()) (\<lambda>_.
    rbind (total_fees_bps fc e) (\<lambda>total.
    rbind (fail_if (total > MAX_FEE_BPS) FeeCapExceeded) (\<lambda>_.
    fail_if (total = 0) TotalFeesCannotBeZero)))))"

definition fee_config_new ::
    "'p precise_ops \<Rightarrow> pubkey \<Rightarrow> u16 \<Rightarrow> u16 \<Rightarrow> u16 \<Rightarrow> u64 \<Rightarrow> tip_router_error + fee_config" where
  "fee_config_new pn dao_fee_wallet block_engine_bps dao_fee_bps default_ncn_fee_bps e =
    rbind (fail_if (dao_fee_wallet = default_pubkey) DefaultDaoWallet) (\<lambda>_.
    rbind (fail_if (ucast block_engine_bps > MAX_FEE_BPS) FeeCapExceeded) (\<lambda>_.
    rbind (fees_new dao_fee_bps default_ncn_fee_bps e) (\<lambda>fs.
    rbind (set_base_fee_wallet
        \<lparr>block_engine_fee_bps = block_engine_bps,
         base_fee_wallets = replicate FEE_GROUP_COUNT dao_fee_wallet,
         fee_1 = fs, fee_2 = fs\<rparr>
        base_fee_group_default dao_fee_wallet) (\<lambda>fc.
    rbind (check_fees_okay pn fc e) (\<lambda>_. Inr fc)))))"

definition update_fee_config ::
    "'p precise_ops \<Rightarrow> fee_config \<Rightarrow> u16 option \<Rightarrow> base_fee_group option \<Rightarrow> pubkey option \<Rightarrow>
     u16 option \<Rightarrow> ncn_fee_group option \<Rightarrow> u16 option \<Rightarrow> u64 \<Rightarrow> tip_router_error + fee_config" where
  "update_fee_config pn fc new_block_engine_fee_bps base_group_opt new_base_fee_wallet
      new_base_fee_bps ncn_group_opt new_ncn_fee_bps e =
    rbind (if fees_activation_epoch (get_fees fc (updatable_fees fc e)) \<le> e
           then set_fees_to_current fc e else Inr fc) (\<lambda>fc.
    rbind (if_some new_block_engine_fee_bps (\<lambda>v fc. Inr (fc\<lparr>block_engine_fee_bps := v\<rparr>)) fc) (\<lambda>fc.
    let bg = (case base_group_opt of None \<Rightarrow> base_fee_group_default | Some g \<Rightarrow> g) in
    rbind (if_some new_base_fee_wallet (\<lambda>w fc. set_base_fee_wallet fc bg w) fc) (\<lambda>fc.
    rbind (if_some new_base_fee_bps (\<lambda>v fc. set_base_fee_bps fc bg v e) fc) (\<lambda>fc.
    let ng = (case ncn_group_opt of None \<Rightarrow> ncn_fee_group_default | Some g \<Rightarrow> g) in
    rbind (if_some new_ncn_fee_bps (\<lambda>v fc. set_ncn_fee_bps fc ng v e) fc) (\<lambda>fc.
    rbind (update_updatable_epoch fc e) (\<lambda>fc.
    rbind (check_fees_okay pn fc e) (\<lambda>_.
    rbind (ok_or ArithmeticOverflow (checked_add e 1)) (\<lambda>next_epoch.
    rbind (check_fees_okay pn fc next_epoch) (\<lambda>_. Inr fc)))))))))"

section \<open>Invariant\<close>

definition wf_fees :: "fees \<Rightarrow> bool" where
  "wf_fees fs \<longleftrightarrow> length (base_fee_groups_bps fs) = 8 \<and> length (ncn_fee_groups_bps fs) = 8"

definition wf_fee_config :: "fee_config \<Rightarrow> bool" where
  "wf_fee_config fc \<longleftrightarrow> length (base_fee_wallets fc) = 8 \<and> wf_fees (fee_1 fc) \<and> wf_fees (fee_2 fc)"

text \<open>At epoch \<open>e\<close> at most one buffer is pending, it is pending for the next epoch, and buffers
  activated at the same epoch agree.\<close>

definition fee_buffers_ok :: "fee_config \<Rightarrow> u64 \<Rightarrow> bool" where
  "fee_buffers_ok fc e \<longleftrightarrow>
    (fees_activation_epoch (fee_1 fc) \<le> e \<or> fees_activation_epoch (fee_2 fc) \<le> e) \<and>
    unat (fees_activation_epoch (fee_1 fc)) \<le> unat e + 1 \<and>
    unat (fees_activation_epoch (fee_2 fc)) \<le> unat e + 1 \<and>
    (fees_activation_epoch (fee_1 fc) = fees_activation_epoch (fee_2 fc) \<longrightarrow> fee_1 fc = fee_2 fc)"

text \<open>The total of a fee table, as a natural number.\<close>

definition fees_sum :: "fees \<Rightarrow> nat" where
  "fees_sum fs = sum_list (map (\<lambda>f. unat (fee_fee f)) (base_fee_groups_bps fs)) +
    sum_list (map (\<lambda>f. unat (fee_fee f)) (ncn_fee_groups_bps fs))"

text \<open>The change an update asks for, on a fee table that is a plain value.\<close>

definition edit_fees ::
    "base_fee_group option \<Rightarrow> u16 option \<Rightarrow> ncn_fee_group option \<Rightarrow> u16 option \<Rightarrow> fees \<Rightarrow> fees" where
  "edit_fees base_group_opt base_bps ncn_group_opt ncn_bps fs =
    fs\<lparr>base_fee_groups_bps := (case base_bps of None \<Rightarrow> base_fee_groups_bps fs
       | Some v \<Rightarrow> (base_fee_groups_bps fs)
           [bg.slot (case base_group_opt of None \<Rightarrow> base_fee_group_default | Some g \<Rightarrow> g) := fee_new v]),
       ncn_fee_groups_bps := (case ncn_bps of None \<Rightarrow> ncn_fee_groups_bps fs
       | Some v \<Rightarrow> (ncn_fee_groups_bps fs)
           [ng.slot (case ncn_group_opt of None \<Rightarrow> ncn_fee_group_default | Some g \<Rightarrow> g) := fee_new v])\<rparr>"

section \<open>The two buffers\<close>

primrec other_slot :: "fee_slot \<Rightarrow> fee_slot" where
  "other_slot Fee_1 = Fee_2"
| "other_slot Fee_2 = Fee_1"

lemma get_put_fees [simp]:
  "get_fees (put_fees fc u fs) u = fs"
  "get_fees (put_fees fc u fs) (other_slot u) = get_fees fc (other_slot u)"
  by (cases u; simp)+

lemma get_fees_frame [simp]:
  "get_fees (fc\<lparr>block_engine_fee_bps := v\<rparr>) u = get_fees fc u"
  "get_fees (fc\<lparr>base_fee_wallets := ws\<rparr>) u = get_fees fc u"
  by (cases u; simp)+

text \<open>Buffer \<open>u\<close> is where updates of epoch \<open>e\<close> go, and the other one is in force: either \<open>u\<close> is
  pending, or both hold the same activation epoch and \<open>u\<close> is the first.\<close>

definition writing :: "fee_config \<Rightarrow> u64 \<Rightarrow> fee_slot \<Rightarrow> bool" where
  "writing fc e u \<longleftrightarrow>
    fees_activation_epoch (get_fees fc (other_slot u)) \<le> e \<and>
    (e < fees_activation_epoch (get_fees fc u) \<or>
     u = Fee_1 \<and> fees_activation_epoch (fee_1 fc) = fees_activation_epoch (fee_2 fc))"

lemma writing_updatable: "writing fc e u \<Longrightarrow> updatable_fees fc e = u"
  by (cases u) (auto simp: writing_def updatable_fees_def)

lemma writing_put:
  assumes "writing fc e u" and "fees_activation_epoch fs = fees_activation_epoch (get_fees fc u)"
  shows "writing (put_fees fc u fs) e u"
  using assms by (cases u) (auto simp: writing_def)

lemma current_when_pending:
  assumes "fees_activation_epoch (get_fees fc (other_slot u)) \<le> e"
    and "e < fees_activation_epoch (get_fees fc u)"
  shows "current_fees fc e = get_fees fc (other_slot u)"
    and "fees_activation_epoch (get_fees fc u) \<le> e' \<Longrightarrow> current_fees fc e' = get_fees fc u"
  using assms by (cases u; auto simp: current_fees_def)+

text \<open>The copy at the start of an update establishes \<open>writing\<close> and sets the target buffer to
  what the next epoch would have used.\<close>

lemma copy_over_current:
  assumes "fee_buffers_ok fc e" and "unat e1 = unat e + 1"
    and "(if fees_activation_epoch (get_fees fc (updatable_fees fc e)) \<le> e
           then set_fees_to_current fc e else Inr fc) = Inr fc1"
  shows "\<exists>u. writing fc1 e u \<and> get_fees fc1 (other_slot u) = current_fees fc e \<and>
    get_fees fc1 u = current_fees fc e1"
proof -
  let ?a1 = "fees_activation_epoch (fee_1 fc)" and ?a2 = "fees_activation_epoch (fee_2 fc)"
  have bounds: "e < e1" "?a1 \<le> e1" "?a2 \<le> e1"
    and same: "?a1 = ?a2 \<Longrightarrow> fee_1 fc = fee_2 fc" and one: "?a1 \<le> e \<or> ?a2 \<le> e"
    using assms(1,2) by (auto simp: fee_buffers_ok_def word_less_nat_alt word_le_nat_alt)
  consider "?a1 \<le> e" "?a2 \<le> e" | "e < ?a1" "?a2 \<le> e" | "?a1 \<le> e" "e < ?a2"
    using one by fastforce
  then show ?thesis
  proof cases
    case 1
    then have "fc1 = put_fees fc (updatable_fees fc e) (current_fees fc e)"
      and "current_fees fc e1 = current_fees fc e"
      using assms(3) bounds by (auto simp: set_fees_to_current_def current_fees_def updatable_fees_def
          split: if_splits)
    moreover have "get_fees fc (other_slot (updatable_fees fc e)) = current_fees fc e"
      using 1 same by (auto simp: current_fees_def updatable_fees_def)
    ultimately show ?thesis
      using 1 by (intro exI [of _ Fee_1])
        (cases "updatable_fees fc e"; auto simp: writing_def current_fees_def split: if_splits)
  next
    case 2
    then have "fc1 = fc" using assms(3) by (auto simp: updatable_fees_def split: if_splits)
    with 2 bounds show ?thesis
      by (intro exI [of _ Fee_1]) (auto simp: writing_def current_fees_def)
  next
    case 3
    then have "fc1 = fc" using assms(3) by (auto simp: updatable_fees_def split: if_splits)
    with 3 bounds show ?thesis
      by (intro exI [of _ Fee_2]) (auto simp: writing_def current_fees_def)
  qed
qed

section \<open>Updating\<close>

lemma set_base_fee_bps_writing:
  assumes "writing fc e u" and "set_base_fee_bps fc g v e = Inr fc'"
  shows "writing fc' e u" "get_fees fc' (other_slot u) = get_fees fc (other_slot u)"
    "get_fees fc' u = (get_fees fc u)
      \<lparr>base_fee_groups_bps := (base_fee_groups_bps (get_fees fc u))[bg.slot g := fee_new v]\<rparr>"
    "block_engine_fee_bps fc' = block_engine_fee_bps fc" "base_fee_wallets fc' = base_fee_wallets fc"
proof -
  obtain i where "base_fee_group_group_index g = Inr i"
    and fc': "fc' = put_fees fc u ((get_fees fc u)
      \<lparr>base_fee_groups_bps := (base_fee_groups_bps (get_fees fc u))[i := fee_new v]\<rparr>)"
    using assms by (auto simp: set_base_fee_bps_def fees_set_base_fee_bps_def res_simps Let_def
        writing_updatable)
  then show "writing fc' e u" "get_fees fc' (other_slot u) = get_fees fc (other_slot u)"
    "get_fees fc' u = (get_fees fc u)
      \<lparr>base_fee_groups_bps := (base_fee_groups_bps (get_fees fc u))[bg.slot g := fee_new v]\<rparr>"
    using writing_put [OF assms(1)] by (auto simp: bg.slot_eq)
  show "block_engine_fee_bps fc' = block_engine_fee_bps fc" "base_fee_wallets fc' = base_fee_wallets fc"
    using fc' by (cases u; simp)+
qed

lemma set_ncn_fee_bps_writing:
  assumes "writing fc e u" and "set_ncn_fee_bps fc g v e = Inr fc'"
  shows "writing fc' e u" "get_fees fc' (other_slot u) = get_fees fc (other_slot u)"
    "get_fees fc' u = (get_fees fc u)
      \<lparr>ncn_fee_groups_bps := (ncn_fee_groups_bps (get_fees fc u))[ng.slot g := fee_new v]\<rparr>"
    "block_engine_fee_bps fc' = block_engine_fee_bps fc" "base_fee_wallets fc' = base_fee_wallets fc"
proof -
  obtain i where "ncn_fee_group_group_index g = Inr i"
    and fc': "fc' = put_fees fc u ((get_fees fc u)
      \<lparr>ncn_fee_groups_bps := (ncn_fee_groups_bps (get_fees fc u))[i := fee_new v]\<rparr>)"
    using assms by (auto simp: set_ncn_fee_bps_def fees_set_ncn_fee_bps_def res_simps Let_def
        writing_updatable)
  then show "writing fc' e u" "get_fees fc' (other_slot u) = get_fees fc (other_slot u)"
    "get_fees fc' u = (get_fees fc u)
      \<lparr>ncn_fee_groups_bps := (ncn_fee_groups_bps (get_fees fc u))[ng.slot g := fee_new v]\<rparr>"
    using writing_put [OF assms(1)] by (auto simp: ng.slot_eq)
  show "block_engine_fee_bps fc' = block_engine_fee_bps fc" "base_fee_wallets fc' = base_fee_wallets fc"
    using fc' by (cases u; simp)+
qed

text \<open>What an update leaves in the two buffers.\<close>

lemma update_fee_config_buffers:
  assumes ok: "fee_buffers_ok fc e"
    and upd: "update_fee_config pn fc be bgo wallet bps ngo nbps e = Inr fc'"
  shows "\<exists>u e1. unat e1 = unat e + 1 \<and>
    get_fees fc' (other_slot u) = current_fees fc e \<and>
    get_fees fc' u = set_activation_epoch (edit_fees bgo bps ngo nbps (current_fees fc e1)) e1 \<and>
    fees_activation_epoch (current_fees fc e) \<le> e \<and>
    check_fees_okay pn fc' e = Inr () \<and> check_fees_okay pn fc' e1 = Inr ()"
proof -
  let ?bg = "case bgo of None \<Rightarrow> base_fee_group_default | Some g \<Rightarrow> g"
  let ?ng = "case ngo of None \<Rightarrow> ncn_fee_group_default | Some g \<Rightarrow> g"
  from upd obtain f1 f2 f3 f4 f5 f6 e1 c1 c2 where add: "checked_add e 1 = Some e1"
    and f1: "(if fees_activation_epoch (get_fees fc (updatable_fees fc e)) \<le> e
           then set_fees_to_current fc e else Inr fc) = Inr f1"
    and f2: "if_some be (\<lambda>v fc. Inr (fc\<lparr>block_engine_fee_bps := v\<rparr>)) f1 = (Inr f2 :: tip_router_error + fee_config)"
    and f3: "if_some wallet (\<lambda>w fc. set_base_fee_wallet fc ?bg w) f2 = Inr f3"
    and f4: "if_some bps (\<lambda>v fc. set_base_fee_bps fc ?bg v e) f3 = Inr f4"
    and f5: "if_some nbps (\<lambda>v fc. set_ncn_fee_bps fc ?ng v e) f4 = Inr f5"
    and fin: "update_updatable_epoch f5 e = Inr f6"
      "check_fees_okay pn f6 e = Inr c1" "check_fees_okay pn f6 e1 = Inr c2" "f6 = fc'"
    unfolding update_fee_config_def Let_def rbind_Inr ok_or_Inr sum.inject
    by blast
  then have e1: "unat e1 = unat e + 1" by (simp add: checked_simps)
  from copy_over_current [OF ok e1 f1] obtain u
    where w1: "writing f1 e u" and g1: "get_fees f1 (other_slot u) = current_fees fc e"
      "get_fees f1 u = current_fees fc e1" by blast
  have frame: "f3 = f1\<lparr>block_engine_fee_bps := block_engine_fee_bps f3, base_fee_wallets := base_fee_wallets f3\<rparr>"
    using f2 f3 by (auto simp: if_some_Inr set_base_fee_wallet_def res_simps)
  have w3: "writing f3 e u" using w1 by (subst frame) (auto simp: writing_def)
  have g3: "get_fees f3 v = get_fees f1 v" for v by (subst frame) simp
  have w4: "writing f4 e u" and g4: "get_fees f4 (other_slot u) = get_fees f3 (other_slot u)"
    "get_fees f4 u = edit_fees bgo bps None None (get_fees f3 u)"
    using f4 w3 set_base_fee_bps_writing [OF w3] by (auto simp: if_some_Inr edit_fees_def)
  have w5: "writing f5 e u" and g5: "get_fees f5 (other_slot u) = get_fees f4 (other_slot u)"
    "get_fees f5 u = edit_fees None None ngo nbps (get_fees f4 u)"
    using f5 w4 set_ncn_fee_bps_writing [OF w4] by (auto simp: if_some_Inr edit_fees_def)
  have fc': "fc' = put_fees f5 u (set_activation_epoch (get_fees f5 u) e1)"
    using fin(1,4) add writing_updatable [OF w5] by (simp add: update_updatable_epoch_def)
  have edit: "edit_fees None None ngo nbps (edit_fees bgo bps None None fs) = edit_fees bgo bps ngo nbps fs" for fs
    by (cases bps; cases nbps; simp add: edit_fees_def)
  have "fees_activation_epoch (current_fees fc e) \<le> e"
    using w1 g1 by (simp add: writing_def)
  then show ?thesis using e1 fin fc' g1 g3 g4 g5 edit by (intro exI [of _ u] exI [of _ e1]) simp
qed

text \<open>C22. Changing the fees at epoch \<open>e\<close> leaves the fees in force at \<open>e\<close> as they were; from epoch
  \<open>e + 1\<close> on, until the next change, the fees in force are those that would have been in force at
  \<open>e + 1\<close> with the requested edits applied. Several changes in the same epoch accumulate.\<close>

theorem update_fee_config_refines:
  assumes "fee_buffers_ok fc e"
    and "update_fee_config pn fc be bgo wallet bps ngo nbps e = Inr fc'"
  shows "current_fees fc' e = current_fees fc e \<and>
    (\<forall>e' > e. current_fees fc' e' =
      set_activation_epoch (edit_fees bgo bps ngo nbps (current_fees fc (e + 1))) (e + 1))"
proof -
  from update_fee_config_buffers [OF assms] obtain u e1 where e1: "unat e1 = unat e + 1"
    and other: "get_fees fc' (other_slot u) = current_fees fc e"
    and new: "get_fees fc' u = set_activation_epoch (edit_fees bgo bps ngo nbps (current_fees fc e1)) e1"
    and le: "fees_activation_epoch (current_fees fc e) \<le> e" by blast
  have act: "fees_activation_epoch (get_fees fc' u) = e1" by (simp add: new set_activation_epoch_def)
  have "unat (e + 1) = unat e1" using e1 unat_less_pow [of e1] by (simp add: unat_word_ariths)
  then have e1': "e + 1 = e1" by (simp only: word_unat_eq_iff)
  have lt: "e < e1" using e1 by (simp add: word_less_nat_alt)
  have "e1 \<le> e'" if "e < e'" for e' using that e1 by (simp add: word_less_nat_alt word_le_nat_alt)
  with current_when_pending [of fc' u e] other le lt act new e1' show ?thesis by auto
qed

section \<open>Totals\<close>

text \<open>A loop that adds up fees is the sum of the fees, if the sum fits.\<close>

lemma rfold_checked_sum:
  fixes a :: u64 and w :: "'g \<Rightarrow> u16"
  assumes "\<And>g. g \<in> set gs \<Longrightarrow> get g = Inr (w g)"
  shows "rfold (\<lambda>g total. rbind (get g) (\<lambda>v. ok_or e (checked_add total (ucast v)))) gs a = Inr t \<longleftrightarrow>
    unat t = unat a + (\<Sum>g \<leftarrow> gs. unat (w g))"
  using assms
proof (induction gs arbitrary: a)
  case Nil
  then show ?case by (auto simp: word_unat_eq_iff)
next
  case (Cons g gs)
  have wide: "unat (ucast (w g) :: u64) = unat (w g)" by (rule unat_ucast_widen) simp
  have IH: "rfold (\<lambda>g total. rbind (get g) (\<lambda>v. ok_or e (checked_add total (ucast v)))) gs b = Inr t \<longleftrightarrow>
    unat t = unat b + (\<Sum>g \<leftarrow> gs. unat (w g))" for b
    using Cons.prems by (intro Cons.IH) simp
  show ?case
  proof (cases "checked_add a (ucast (w g))")
    case None
    then have "2 ^ 64 \<le> unat a + unat (w g)" by (simp add: checked_simps wide)
    then have "unat t \<noteq> unat a + (\<Sum>g \<leftarrow> g # gs. unat (w g))"
      using unat_less_pow [of t] by simp
    with None Cons.prems show ?thesis by simp
  next
    case (Some b)
    then have "unat b = unat a + unat (w g)" by (simp add: checked_simps wide)
    with Some Cons.prems IH show ?thesis by (simp add: add.assoc)
  qed
qed

lemma sum_slots: "length xs = 8 \<Longrightarrow> (\<Sum>i \<leftarrow> [0..<8]. f (xs ! i)) = sum_list (map f xs)"
proof -
  assume n: "length xs = 8"
  have "map (\<lambda>i. f (xs ! i)) [0..<length xs] = map f xs" by (rule nth_equalityI) simp_all
  then show ?thesis by (simp only: n)
qed

lemma fees_total_fees_bps_Inr:
  assumes "wf_fees fs"
  shows "fees_total_fees_bps fs = Inr t \<longleftrightarrow> unat t = fees_sum fs"
proof -
  let ?b = "\<lambda>g. fee_fee (base_fee_groups_bps fs ! bg.slot g)"
  let ?n = "\<lambda>g. fee_fee (ncn_fee_groups_bps fs ! ng.slot g)"
  have b: "fees_base_fee_bps fs g = Inr (?b g)" if "g \<in> set base_fee_group_all_groups" for g
    using bg.all_has_index [OF that] by (auto simp: fees_base_fee_bps_def bg.slot_eq)
  have n: "fees_ncn_fee_bps fs g = Inr (?n g)" if "g \<in> set ncn_fee_group_all_groups" for g
    using ng.all_has_index [OF that] by (auto simp: fees_ncn_fee_bps_def ng.slot_eq)
  have sb: "(\<Sum>g \<leftarrow> base_fee_group_all_groups. unat (?b g)) =
      sum_list (map (\<lambda>f. unat (fee_fee f)) (base_fee_groups_bps fs))"
    using sum_slots [of "base_fee_groups_bps fs" "\<lambda>f. unat (fee_fee f)"] assms
      arg_cong [OF bg.map_slot_all, of "map (\<lambda>i. unat (fee_fee (base_fee_groups_bps fs ! i)))"]
    by (simp add: wf_fees_def comp_def)
  have sn: "(\<Sum>g \<leftarrow> ncn_fee_group_all_groups. unat (?n g)) =
      sum_list (map (\<lambda>f. unat (fee_fee f)) (ncn_fee_groups_bps fs))"
    using sum_slots [of "ncn_fee_groups_bps fs" "\<lambda>f. unat (fee_fee f)"] assms
      arg_cong [OF ng.map_slot_all, of "map (\<lambda>i. unat (fee_fee (ncn_fee_groups_bps fs ! i)))"]
    by (simp add: wf_fees_def comp_def)
  let ?add = "\<lambda>get g total. rbind (get g) (\<lambda>v. ok_or ArithmeticOverflow (checked_add total (ucast v)))"
  have B: "rfold (?add (fees_base_fee_bps fs)) base_fee_group_all_groups 0 = Inr s \<longleftrightarrow>
      unat s = sum_list (map (\<lambda>f. unat (fee_fee f)) (base_fee_groups_bps fs))" for s :: u64
    by (subst rfold_checked_sum [where w = ?b], erule b) (simp add: sb)
  have N: "rfold (?add (fees_ncn_fee_bps fs)) ncn_fee_group_all_groups s = Inr t \<longleftrightarrow>
      unat t = unat s + sum_list (map (\<lambda>f. unat (fee_fee f)) (ncn_fee_groups_bps fs))" for s :: u64
    by (subst rfold_checked_sum [where w = ?n], erule n) (simp add: sn)
  have "fees_total_fees_bps fs = Inr t \<longleftrightarrow>
    (\<exists>s :: u64. unat s = sum_list (map (\<lambda>f. unat (fee_fee f)) (base_fee_groups_bps fs)) \<and>
      unat t = fees_sum fs)"
    unfolding fees_total_fees_bps_def rbind_Inr B N
    by (auto simp: fees_sum_def)
  also have "\<dots> \<longleftrightarrow> unat t = fees_sum fs"
  proof -
    have "unat (of_nat (fees_sum fs - sum_list (map (\<lambda>f. unat (fee_fee f)) (ncn_fee_groups_bps fs))) :: u64)
      = sum_list (map (\<lambda>f. unat (fee_fee f)) (base_fee_groups_bps fs))" if "unat t = fees_sum fs"
      using that unat_less_pow [of t] by (simp add: fees_sum_def unat_of_nat)
    then show ?thesis by blast
  qed
  finally show ?thesis .
qed

lemma check_fees_okay_bounds:
  assumes "precise_number pn val" and "wf_fees (current_fees fc e)" and "check_fees_okay pn fc e = Inr ()"
  shows "unat (block_engine_fee_bps fc) < 10000"
    "1 \<le> fees_sum (current_fees fc e)" "fees_sum (current_fees fc e) \<le> 10000"
proof -
  have wide: "unat (ucast (block_engine_fee_bps fc) :: u64) = unat (block_engine_fee_bps fc)"
    by (rule unat_ucast_widen) simp
  have max: "unat MAX_FEE_BPS = 10000" by (simp add: MAX_FEE_BPS_def)
  obtain total p where t: "fees_total_fees_bps (current_fees fc e) = Inr total" "total \<le> MAX_FEE_BPS" "total \<noteq> 0"
    and be: "ucast (block_engine_fee_bps fc) \<le> MAX_FEE_BPS"
    and p: "adjusted_precise_base_fee_bps pn fc (base_fee_group_new Base_DAO) e = Inr p"
    using assms(3) by (auto simp: check_fees_okay_def res_simps total_fees_bps_def
        base_fee_group_all_groups_def)
  have "unat total = fees_sum (current_fees fc e)"
    using t(1) fees_total_fees_bps_Inr [OF assms(2)] by simp
  moreover have "unat total \<noteq> 0" using t(3) by (simp add: word_unat_eq_iff)
  ultimately show "1 \<le> fees_sum (current_fees fc e)" "fees_sum (current_fees fc e) \<le> 10000"
    using t(2) max by (simp_all add: word_le_nat_alt)
  from p obtain r q a d where r: "checked_sub MAX_FEE_BPS (ucast (block_engine_fee_bps fc)) = Some r"
    and q: "pn_new pn (ucast r) = Some q" and d: "pn_checked_div pn a q = Some d"
    by (auto simp: adjusted_precise_base_fee_bps_def adjusted_precise_fee_bps_def res_simps)
  have "unat (ucast r :: u128) = unat r" by (rule unat_ucast_widen) simp
  then have "val q = of_nat (unat r)" using precise_number.new_Some [OF assms(1) q] by simp
  moreover have "val q \<noteq> 0" using precise_number.div_zero [OF assms(1), of q a] d by auto
  ultimately have "unat r \<noteq> 0" by (simp only: of_nat_eq_0_iff) blast
  then show "unat (block_engine_fee_bps fc) < 10000"
    using r be max wide by (auto simp: checked_simps word_le_nat_alt)
qed

section \<open>Reachable fee configurations\<close>

text \<open>The configurations the program can hold at an epoch: created by \<open>initialize_config\<close>, kept
  while epochs pass, changed by \<open>admin_set_config_fees\<close>.\<close>

inductive fee_reachable :: "'p precise_ops \<Rightarrow> fee_config \<Rightarrow> u64 \<Rightarrow> bool" for pn where
  created: "fee_config_new pn wallet be dao ncn e = Inr fc \<Longrightarrow> fee_reachable pn fc e"
| epoch_passes: "fee_reachable pn fc e \<Longrightarrow> e \<le> e' \<Longrightarrow> fee_reachable pn fc e'"
| updated: "fee_reachable pn fc e \<Longrightarrow>
    update_fee_config pn fc be bgo w bps ngo nbps e = Inr fc' \<Longrightarrow> fee_reachable pn fc' e"

definition fees_in_range :: "fee_config \<Rightarrow> u64 \<Rightarrow> bool" where
  "fees_in_range fc e \<longleftrightarrow> unat (block_engine_fee_bps fc) < 10000 \<and>
    1 \<le> fees_sum (current_fees fc e) \<and> fees_sum (current_fees fc e) \<le> 10000"

lemma wf_current_fees: "wf_fee_config fc \<Longrightarrow> wf_fees (current_fees fc e)"
  by (auto simp: wf_fee_config_def current_fees_def)

lemma wf_fees_edit:
  "wf_fees fs \<Longrightarrow> wf_fees (set_activation_epoch (edit_fees bgo bps ngo nbps fs) e)"
  by (auto simp: wf_fees_def set_activation_epoch_def edit_fees_def split: option.splits)

lemma fees_in_range_check:
  assumes "precise_number pn val" and "wf_fee_config fc" and "check_fees_okay pn fc e = Inr ()"
  shows "fees_in_range fc e"
  using check_fees_okay_bounds [OF assms(1) wf_current_fees [OF assms(2)] assms(3)]
  by (simp add: fees_in_range_def)

lemma fee_config_new_ok:
  assumes "precise_number pn val" and "fee_config_new pn wallet be dao ncn e = Inr fc"
  shows "wf_fee_config fc" "fee_buffers_ok fc e" "e \<le> e' \<Longrightarrow> fees_in_range fc e'"
proof -
  have same: "(replicate 8 wallet)[0 := wallet] = replicate 8 wallet"
    by (simp add: list_update_same_conv)
  obtain fs where fs: "fees_new dao ncn e = Inr fs"
    and fc: "fc = \<lparr>block_engine_fee_bps = be,
         base_fee_wallets = replicate 8 wallet, fee_1 = fs, fee_2 = fs\<rparr>"
    and chk: "check_fees_okay pn fc e = Inr ()"
    using assms(2) same by (auto simp: fee_config_new_def set_base_fee_wallet_def FEE_GROUP_COUNT_def
        res_simps)
  have act: "fees_activation_epoch fs = e" and wf: "wf_fees fs"
    using fs by (auto simp: fees_new_def fees_set_base_fee_bps_def fees_set_ncn_fee_bps_def
        res_simps wf_fees_def FEE_GROUP_COUNT_def)
  show "wf_fee_config fc" using wf by (simp add: fc wf_fee_config_def)
  show "fee_buffers_ok fc e" using act by (simp add: fc fee_buffers_ok_def)
  have "current_fees fc e' = current_fees fc e" by (simp add: fc current_fees_def)
  then show "fees_in_range fc e'" if "e \<le> e'"
    using fees_in_range_check [OF assms(1) \<open>wf_fee_config fc\<close> chk] by (simp add: fees_in_range_def)
qed

lemma update_fee_config_wallets:
  assumes "update_fee_config pn fc be bgo wallet bps ngo nbps e = Inr fc'"
  shows "length (base_fee_wallets fc') = length (base_fee_wallets fc)"
proof -
  have put: "base_fee_wallets (put_fees f u fs) = base_fee_wallets f" for f u fs by (cases u) auto
  show ?thesis using assms
    by (auto simp: update_fee_config_def Let_def rbind_Inr ok_or_Inr put if_some_Inr set_fees_to_current_def
        set_base_fee_wallet_def set_base_fee_bps_def set_ncn_fee_bps_def update_updatable_epoch_def
        split: if_splits)
qed

lemma update_fee_config_ok:
  assumes "precise_number pn val" and "wf_fee_config fc" and "fee_buffers_ok fc e"
    and upd: "update_fee_config pn fc be bgo wallet bps ngo nbps e = Inr fc'"
  shows "wf_fee_config fc'" "fee_buffers_ok fc' e" "e \<le> e' \<Longrightarrow> fees_in_range fc' e'"
proof -
  from update_fee_config_buffers [OF assms(3) upd] obtain u e1 where e1: "unat e1 = unat e + 1"
    and other: "get_fees fc' (other_slot u) = current_fees fc e"
    and new: "get_fees fc' u = set_activation_epoch (edit_fees bgo bps ngo nbps (current_fees fc e1)) e1"
    and le: "fees_activation_epoch (current_fees fc e) \<le> e"
    and chk: "check_fees_okay pn fc' e = Inr ()" "check_fees_okay pn fc' e1 = Inr ()" by blast
  have lt: "e < e1" using e1 by (simp add: word_less_nat_alt)
  have act: "fees_activation_epoch (get_fees fc' u) = e1" by (simp add: new set_activation_epoch_def)
  have "wf_fees (get_fees fc' u)" "wf_fees (get_fees fc' (other_slot u))"
    using wf_current_fees [OF assms(2)] by (simp_all add: new other wf_fees_edit)
  then show wf: "wf_fee_config fc'"
    using update_fee_config_wallets [OF upd] assms(2) by (cases u) (auto simp: wf_fee_config_def)
  show "fee_buffers_ok fc' e"
    using act other le lt e1
    by (cases u) (auto simp: fee_buffers_ok_def word_le_nat_alt word_less_nat_alt)
  show "fees_in_range fc' e'" if "e \<le> e'"
  proof (cases "e1 \<le> e'")
    case True
    then have "current_fees fc' e' = current_fees fc' e1"
      using current_when_pending(2) [of fc' u e] other le lt act by simp
    then show ?thesis using fees_in_range_check [OF assms(1) wf chk(2)] by (simp add: fees_in_range_def)
  next
    case False
    then have "e' = e" using that e1 by (simp add: word_le_nat_alt word_unat_eq_iff)
    then show ?thesis using fees_in_range_check [OF assms(1) wf chk(1)] by simp
  qed
qed

lemma fee_reachable_invariant:
  assumes "precise_number pn val" and "fee_reachable pn fc e"
  shows "wf_fee_config fc \<and> fee_buffers_ok fc e \<and> (\<forall>e' \<ge> e. fees_in_range fc e')"
  using assms(2)
proof induction
  case (created wallet be dao ncn e fc)
  then show ?case using fee_config_new_ok [OF assms(1)] by blast
next
  case (epoch_passes fc e e')
  then have "fee_buffers_ok fc e'"
    by (auto simp: fee_buffers_ok_def word_le_nat_alt)
  with epoch_passes show ?case by auto
next
  case (updated fc e be bgo w bps ngo nbps fc')
  then show ?case using update_fee_config_ok [OF assms(1) _ _ updated.hyps(2)] by simp
qed

text \<open>C23. In every fee configuration the program can reach, at its epoch and at every later one, the
  fees in force add up to at least 1 and at most 10000 basis points and the block engine fee stays
  below 10000, so no share computed from them divides by zero.\<close>

theorem fee_reachable_in_range:
  assumes "precise_number pn val" and "fee_reachable pn fc e" and "e \<le> e'"
  shows "unat (block_engine_fee_bps fc) < 10000 \<and>
    1 \<le> fees_sum (current_fees fc e') \<and> fees_sum (current_fees fc e') \<le> 10000 \<and>
    (\<exists>t. total_fees_bps fc e' = Inr t \<and> unat t = fees_sum (current_fees fc e'))"
proof -
  have inv: "wf_fee_config fc" "fees_in_range fc e'"
    using fee_reachable_invariant [OF assms(1,2)] assms(3) by auto
  let ?t = "of_nat (fees_sum (current_fees fc e')) :: u64"
  have "unat ?t = fees_sum (current_fees fc e')"
    using inv(2) by (simp add: fees_in_range_def unat_of_nat)
  then have "total_fees_bps fc e' = Inr ?t"
    using fees_total_fees_bps_Inr [OF wf_current_fees [OF inv(1)]] by (simp add: total_fees_bps_def)
  with inv(2) \<open>unat ?t = _\<close> show ?thesis by (auto simp: fees_in_range_def)
qed

section \<open>A configuration, evaluated\<close>

lemmas fee_config_defs =
  fee_config_new_def fees_new_def set_base_fee_wallet_def check_fees_okay_def
  adjusted_precise_base_fee_bps_def adjusted_precise_ncn_fee_bps_def adjusted_precise_fee_bps_def
  fees_base_fee_bps_def fees_ncn_fee_bps_def fees_total_fees_bps_def total_fees_bps_def
  fees_set_base_fee_bps_def fees_set_ncn_fee_bps_def fee_default_def fee_new_def
  update_fee_config_def if_some_def set_base_fee_bps_def set_ncn_fee_bps_def
  update_updatable_epoch_def set_activation_epoch_def set_fees_to_current_def updatable_fees_def
  current_fees_def MAX_FEE_BPS_def FEE_GROUP_COUNT_def

definition sample_fees :: "u64 \<Rightarrow> u16 \<Rightarrow> fees" where
  "sample_fees e dao = \<lparr>fees_activation_epoch = e,
    base_fee_groups_bps = fee_new dao # replicate 7 (fee_new 0),
    ncn_fee_groups_bps = fee_new 30 # replicate 7 (fee_new 0)\<rparr>"

definition sample_fee_config :: "u64 \<Rightarrow> u16 \<Rightarrow> fee_config" where
  "sample_fee_config e dao = \<lparr>block_engine_fee_bps = 500, base_fee_wallets = replicate 8 (replicate 32 1),
    fee_1 = sample_fees e dao, fee_2 = sample_fees 5 270\<rparr>"

lemma replicate_7: "replicate 7 x = [x, x, x, x, x, x, x]"
  by (simp add: numeral_eq_Suc)

lemmas sample_fee_simps = fee_config_defs base_group_defs ncn_group_defs fixed12_def
  default_pubkey_def sample_fee_config_def sample_fees_def eval_simps replicate_7

lemma sample_fee_config_new:
  "fee_config_new fixed12 (replicate 32 1) 500 270 30 5 = Inr (sample_fee_config 5 270)"
  by (simp add: sample_fee_simps split del: if_split)

lemma sample_fee_config_update:
  "update_fee_config fixed12 (sample_fee_config 5 270) None None None (Some 100) None None 5 =
    Inr (sample_fee_config 6 100)"
  by (simp add: sample_fee_simps split del: if_split)

lemma sample_fee_buffers_ok: "fee_buffers_ok (sample_fee_config 5 270) 5"
  by (simp add: fee_buffers_ok_def sample_fee_config_def sample_fees_def)

theorem update_fee_config_refines_witness:
  "current_fees (sample_fee_config 6 100) 5 = sample_fees 5 270 \<and>
   current_fees (sample_fee_config 6 100) 9 = sample_fees 6 100"
  using update_fee_config_refines [OF sample_fee_buffers_ok sample_fee_config_update]
  by (auto simp: sample_fee_simps edit_fees_def bg.slot_def)

theorem fee_reachable_in_range_witness:
  "fees_sum (current_fees (sample_fee_config 6 100) 9) \<le> 10000"
proof -
  have "fee_reachable fixed12 (sample_fee_config 6 100) 5"
    by (rule fee_reachable.updated [OF fee_reachable.created [OF sample_fee_config_new] sample_fee_config_update])
  from fee_reachable_in_range [OF fixed12.precise_number_axioms this, of 9] show ?thesis by simp
qed

end
