(* ===== verification/Reward_Pool.thy ===== *)
theory Reward_Pool
  imports Precise_Number
begin

text \<open>
  What the base reward router and the NCN reward router have in common. Both keep a pool of
  lamports that came in, buckets of lamports assigned to recipients, and the running total of the
  buckets (\<open>rewards_processed\<close>); both hand out floored shares. The locale \<open>reward_router\<close> states the
  contract of their operations, one step at a time; its theorem is that over any sequence of
  operations no lamport is created or lost.
\<close>

section \<open>Runs of a router\<close>

text \<open>\<open>step r i p r'\<close>: an operation that takes \<open>i\<close> lamports in and pays \<open>p\<close> lamports out. A run adds
  both up.\<close>

inductive router_runs :: "('r \<Rightarrow> bool) \<Rightarrow> ('r \<Rightarrow> nat \<Rightarrow> nat \<Rightarrow> 'r \<Rightarrow> bool) \<Rightarrow> 'r \<Rightarrow> nat \<Rightarrow> nat \<Rightarrow> bool"
  for init step where
  start: "init r \<Longrightarrow> router_runs init step r 0 0"
| step: "router_runs init step r received paid \<Longrightarrow> step r i p r' \<Longrightarrow>
    router_runs init step r' (received + i) (paid + p)"

locale reward_router =
  fixes init :: "'r \<Rightarrow> bool" and step :: "'r \<Rightarrow> nat \<Rightarrow> nat \<Rightarrow> 'r \<Rightarrow> bool"
    and wf :: "'r \<Rightarrow> bool" and pool processed total buckets :: "'r \<Rightarrow> nat"
  assumes init_ok: "init r \<Longrightarrow> wf r \<and> pool r = 0 \<and> processed r = 0 \<and> total r = 0 \<and> buckets r = 0"
    and step_ok: "\<lbrakk>wf r; step r i p r'\<rbrakk> \<Longrightarrow> wf r' \<and> total r' = total r + i \<and>
      pool r' + processed r' + p = pool r + processed r + i \<and>
      processed r' + buckets r = processed r + buckets r'"
begin

lemma conservation:
  assumes "router_runs init step r received paid"
  shows "wf r \<and> total r = received \<and> pool r + processed r + paid = received \<and> processed r = buckets r"
  using assms
proof induction
  case (start r)
  then show ?case using init_ok by simp
next
  case (step r received paid i p r')
  then show ?case using step_ok [of r i p r'] by simp
qed

lemma never_overpays: "router_runs init step r received paid \<Longrightarrow> paid \<le> received"
  using conservation by fastforce

end

section \<open>Shares\<close>

text \<open>The floored share of a whole that all parts add up to at most: what is handed out never
  exceeds what there is.\<close>

lemma sum_shares_le:
  fixes f :: "'a \<Rightarrow> nat"
  assumes "sum_list (map f xs) \<le> whole" and "0 < whole"
  shows "sum_list (map (\<lambda>x. r * f x div whole) xs) \<le> r"
proof -
  have "sum_list (map (\<lambda>x. r * f x div whole) xs) * whole \<le> r * sum_list (map f xs)"
  proof (induction xs)
    case (Cons x xs)
    have "r * f x div whole * whole \<le> r * f x" by simp
    with Cons show ?case by (simp only: list.map sum_list.Cons distrib_left distrib_right add_mono)
  qed simp
  also have "\<dots> \<le> r * whole" using assms(1) by simp
  finally show ?thesis using assms(2) by simp
qed

lemma share_le: "b \<noteq> 0 \<Longrightarrow> a \<le> b \<Longrightarrow> r * a div b \<le> (r::nat)"
  using sum_shares_le [of "\<lambda>x. x" "[a]" b r] by simp

section \<open>Amounts as integers\<close>

definition amount :: "u64 \<Rightarrow> int" where
  "amount w = int (unat w)"

lemma amount_0 [simp]: "amount 0 = 0"
  by (simp add: amount_def)

lemma amount_nonneg [simp]: "0 \<le> amount w"
  unfolding amount_def by (rule of_nat_0_le_iff)

lemma amount_eq_iff: "amount a = amount b \<longleftrightarrow> a = b"
  unfolding amount_def by (simp only: of_nat_eq_iff word_unat_eq_iff)

lemma amount_less: "amount w < 2 ^ 64"
proof -
  have "int (unat w) < int (2 ^ 64)" using unat_less_pow [of w] by (simp only: of_nat_less_iff len_of_numeral_defs) simp
  then show ?thesis unfolding amount_def by (simp only: of_nat_power of_nat_numeral)
qed

lemma checked_add_amount: "checked_add a b = Some c \<longleftrightarrow> amount c = amount a + amount b"
  unfolding amount_def checked_add_Some of_nat_add [symmetric] of_nat_eq_iff ..

lemma checked_sub_amount: "checked_sub a b = Some c \<longleftrightarrow> amount c = amount a - amount b"
proof -
  have "unat a = unat b + unat c \<longleftrightarrow> int (unat a) = int (unat b) + int (unat c)"
    by (simp only: of_nat_add [symmetric] of_nat_eq_iff)
  then show ?thesis unfolding amount_def checked_sub_Some by linarith
qed

lemma checked_add_amount_exists: "amount a + amount b < 2 ^ 64 \<Longrightarrow> \<exists>c. checked_add a b = Some c"
proof -
  assume "amount a + amount b < 2 ^ 64"
  then have "int (unat a + unat b) < int (2 ^ 64)" unfolding amount_def by simp
  then have "unat a + unat b < 2 ^ 64" by (simp only: of_nat_less_iff)
  then show ?thesis by (simp add: checked_add_def)
qed

lemma checked_sub_amount_exists: "amount b \<le> amount a \<Longrightarrow> \<exists>c. checked_sub a b = Some c"
proof -
  assume "amount b \<le> amount a"
  then have "unat b \<le> unat a" unfolding amount_def by (simp only: of_nat_le_iff)
  then show ?thesis by (simp add: checked_sub_def word_le_nat_alt)
qed

lemmas amount_simps = checked_add_amount checked_sub_amount

end
