(* ===== verification/Base_Reward_Router.thy ===== *)
theory Base_Reward_Router
  imports Ballot_Box Fees Reward_Pool
begin

text \<open>
  \<open>core/src/base_reward_router.rs\<close>: the router that splits the rewards of an epoch between the
  base fee groups (the DAO first) and the NCN fee groups, and the rewards of each NCN fee group
  between the operators that voted for the winning ballot. Routing to operators stops after a number
  of votes and resumes from a saved position. Address derivation and the transfers out of the
  receiver account are in \<open>Accounts\<close>.
\<close>

section \<open>Model\<close>

record base_reward_router_rewards =
  brw_rewards :: u64

record ncn_reward_route =
  nrr_operator :: pubkey
  nrr_ncn_fee_group_rewards :: "base_reward_router_rewards list"

record base_reward_router =
  br_ncn :: pubkey
  br_epoch :: u64
  br_bump :: u8
  br_slot_created :: u64
  br_total_rewards :: u64
  br_reward_pool :: u64
  br_rewards_processed :: u64
  br_last_ncn_group_index :: u8
  br_last_vote_index :: u16
  br_last_rewards_to_process :: u64
  br_base_fee_group_rewards :: "base_reward_router_rewards list"
  br_ncn_fee_group_rewards :: "base_reward_router_rewards list"
  br_ncn_fee_group_reward_routes :: "ncn_reward_route list"

definition NO_LAST_NCN_GROUP_INDEX :: u8 where "NO_LAST_NCN_GROUP_INDEX = 255"
definition NO_LAST_VOTE_INDEX :: u16 where "NO_LAST_VOTE_INDEX = 65535"
definition NO_LAST_REWARDS_TO_PROCESS :: u64 where "NO_LAST_REWARDS_TO_PROCESS = 18446744073709551615"
definition MAX_ROUTE_BASE_ITERATIONS :: u16 where "MAX_ROUTE_BASE_ITERATIONS = 30"

subsection \<open>Routes of one operator\<close>

definition base_reward_router_rewards_default :: base_reward_router_rewards where
  "base_reward_router_rewards_default = \<lparr>brw_rewards = 0\<rparr>"

definition ncn_reward_route_default :: ncn_reward_route where
  "ncn_reward_route_default =
    \<lparr>nrr_operator = default_pubkey,
     nrr_ncn_fee_group_rewards = replicate FEE_GROUP_COUNT base_reward_router_rewards_default\<rparr>"

definition route_rewards :: "ncn_reward_route \<Rightarrow> ncn_fee_group \<Rightarrow> tip_router_error + u64" where
  "route_rewards rt g =
    rbind (ncn_fee_group_group_index g) (\<lambda>i. Inr (brw_rewards (nrr_ncn_fee_group_rewards rt ! i)))"

definition route_set_rewards ::
    "ncn_reward_route \<Rightarrow> ncn_fee_group \<Rightarrow> u64 \<Rightarrow> tip_router_error + ncn_reward_route" where
  "route_set_rewards rt g rewards =
    rbind (ncn_fee_group_group_index g) (\<lambda>i.
    Inr (rt\<lparr>nrr_ncn_fee_group_rewards :=
      (nrr_ncn_fee_group_rewards rt)[i := (nrr_ncn_fee_group_rewards rt ! i)\<lparr>brw_rewards := rewards\<rparr>]\<rparr>))"

definition ncn_reward_route_new ::
    "pubkey \<Rightarrow> ncn_fee_group \<Rightarrow> u64 \<Rightarrow> tip_router_error + ncn_reward_route" where
  "ncn_reward_route_new operator g rewards =
    route_set_rewards
      \<lparr>nrr_operator = operator,
       nrr_ncn_fee_group_rewards = replicate FEE_GROUP_COUNT base_reward_router_rewards_default\<rparr>
      g rewards"

definition route_is_empty :: "ncn_reward_route \<Rightarrow> bool" where
  "route_is_empty rt \<longleftrightarrow> nrr_operator rt = default_pubkey"

fun route_has_rewards_from :: "ncn_reward_route \<Rightarrow> ncn_fee_group list \<Rightarrow> tip_router_error + bool" where
  "route_has_rewards_from rt [] = Inr False"
| "route_has_rewards_from rt (g # gs) =
    rbind (route_rewards rt g) (\<lambda>r. if r > 0 then Inr True else route_has_rewards_from rt gs)"

definition route_has_rewards :: "ncn_reward_route \<Rightarrow> tip_router_error + bool" where
  "route_has_rewards rt = route_has_rewards_from rt ncn_fee_group_all_groups"

definition route_increment_rewards ::
    "ncn_reward_route \<Rightarrow> ncn_fee_group \<Rightarrow> u64 \<Rightarrow> tip_router_error + ncn_reward_route" where
  "route_increment_rewards rt g rewards =
    rbind (route_rewards rt g) (\<lambda>current.
    rbind (ok_or ArithmeticOverflow (checked_add current rewards)) (\<lambda>new_rewards.
    route_set_rewards rt g new_rewards))"

definition route_decrement_rewards ::
    "ncn_reward_route \<Rightarrow> ncn_fee_group \<Rightarrow> u64 \<Rightarrow> tip_router_error + ncn_reward_route" where
  "route_decrement_rewards rt g rewards =
    rbind (route_rewards rt g) (\<lambda>current.
    rbind (ok_or ArithmeticOverflow (checked_sub current rewards)) (\<lambda>new_rewards.
    route_set_rewards rt g new_rewards))"

subsection \<open>Creation and routing state\<close>

definition base_reward_router_new :: "pubkey \<Rightarrow> u64 \<Rightarrow> u8 \<Rightarrow> u64 \<Rightarrow> base_reward_router" where
  "base_reward_router_new ncn ncn_epoch bump slot_created =
    \<lparr>br_ncn = ncn, br_epoch = ncn_epoch, br_bump = bump, br_slot_created = slot_created,
     br_total_rewards = 0, br_reward_pool = 0, br_rewards_processed = 0,
     br_last_ncn_group_index = NO_LAST_NCN_GROUP_INDEX, br_last_vote_index = NO_LAST_VOTE_INDEX,
     br_last_rewards_to_process = NO_LAST_REWARDS_TO_PROCESS,
     br_base_fee_group_rewards = replicate FEE_GROUP_COUNT base_reward_router_rewards_default,
     br_ncn_fee_group_rewards = replicate FEE_GROUP_COUNT base_reward_router_rewards_default,
     br_ncn_fee_group_reward_routes = replicate MAX_OPERATORS ncn_reward_route_default\<rparr>"

definition br_save_routing_state :: "base_reward_router \<Rightarrow> nat \<Rightarrow> nat \<Rightarrow> u64 \<Rightarrow> base_reward_router" where
  "br_save_routing_state r ncn_group_index vote_index rewards_to_process =
    r\<lparr>br_last_ncn_group_index := of_nat ncn_group_index, br_last_vote_index := of_nat vote_index,
      br_last_rewards_to_process := rewards_to_process\<rparr>"

definition br_reset_routing_state :: "base_reward_router \<Rightarrow> base_reward_router" where
  "br_reset_routing_state r =
    r\<lparr>br_last_ncn_group_index := NO_LAST_NCN_GROUP_INDEX, br_last_vote_index := NO_LAST_VOTE_INDEX,
      br_last_rewards_to_process := NO_LAST_REWARDS_TO_PROCESS\<rparr>"

definition br_still_routing :: "base_reward_router \<Rightarrow> bool" where
  "br_still_routing r \<longleftrightarrow>
    br_last_ncn_group_index r \<noteq> NO_LAST_NCN_GROUP_INDEX \<or>
    br_last_vote_index r \<noteq> NO_LAST_VOTE_INDEX \<or>
    br_last_rewards_to_process r \<noteq> NO_LAST_REWARDS_TO_PROCESS"

definition br_resume_routing_state :: "base_reward_router \<Rightarrow> nat \<times> nat \<times> u64" where
  "br_resume_routing_state r =
    (if \<not> br_still_routing r then (0, 0, 0)
     else (unat (br_last_ncn_group_index r), unat (br_last_vote_index r), br_last_rewards_to_process r))"

definition base_reward_router_initialize ::
    "base_reward_router \<Rightarrow> pubkey \<Rightarrow> u64 \<Rightarrow> u8 \<Rightarrow> u64 \<Rightarrow> base_reward_router" where
  "base_reward_router_initialize r ncn ncn_epoch bump current_slot =
    br_reset_routing_state
      (r\<lparr>br_ncn := ncn, br_epoch := ncn_epoch, br_bump := bump, br_slot_created := current_slot,
         br_total_rewards := 0, br_reward_pool := 0, br_rewards_processed := 0,
         br_base_fee_group_rewards := replicate FEE_GROUP_COUNT base_reward_router_rewards_default,
         br_ncn_fee_group_rewards := replicate FEE_GROUP_COUNT base_reward_router_rewards_default,
         br_ncn_fee_group_reward_routes := replicate MAX_OPERATORS ncn_reward_route_default\<rparr>)"

subsection \<open>Pool and buckets\<close>

definition br_total_rewards_in_transit :: "base_reward_router \<Rightarrow> tip_router_error + u64" where
  "br_total_rewards_in_transit r =
    ok_or ArithmeticOverflow (checked_add (br_reward_pool r) (br_rewards_processed r))"

definition br_route_to_reward_pool ::
    "base_reward_router \<Rightarrow> u64 \<Rightarrow> tip_router_error + base_reward_router" where
  "br_route_to_reward_pool r rewards =
    (if rewards = 0 then Inr r else
     rbind (ok_or ArithmeticOverflow (checked_add (br_total_rewards r) rewards)) (\<lambda>total_r.
     rbind (ok_or ArithmeticOverflow (checked_add (br_reward_pool r) rewards)) (\<lambda>pool.
     Inr (r\<lparr>br_total_rewards := total_r, br_reward_pool := pool\<rparr>))))"

definition br_increment_rewards_processed ::
    "base_reward_router \<Rightarrow> u64 \<Rightarrow> tip_router_error + base_reward_router" where
  "br_increment_rewards_processed r rewards =
    (if rewards = 0 then Inr r else
     rbind (ok_or ArithmeticOverflow (checked_add (br_rewards_processed r) rewards)) (\<lambda>n.
     Inr (r\<lparr>br_rewards_processed := n\<rparr>)))"

definition br_decrement_rewards_processed ::
    "base_reward_router \<Rightarrow> u64 \<Rightarrow> tip_router_error + base_reward_router" where
  "br_decrement_rewards_processed r rewards =
    (if rewards = 0 then Inr r else
     rbind (ok_or ArithmeticUnderflowError (checked_sub (br_rewards_processed r) rewards)) (\<lambda>n.
     Inr (r\<lparr>br_rewards_processed := n\<rparr>)))"

definition br_route_from_reward_pool ::
    "base_reward_router \<Rightarrow> u64 \<Rightarrow> tip_router_error + base_reward_router" where
  "br_route_from_reward_pool r rewards =
    (if rewards = 0 then Inr r else
     rbind (ok_or ArithmeticUnderflowError (checked_sub (br_reward_pool r) rewards)) (\<lambda>pool.
     br_increment_rewards_processed (r\<lparr>br_reward_pool := pool\<rparr>) rewards))"

definition br_route_incoming_rewards ::
    "base_reward_router \<Rightarrow> u64 \<Rightarrow> u64 \<Rightarrow> tip_router_error + base_reward_router" where
  "br_route_incoming_rewards r rent_cost account_balance =
    rbind (br_total_rewards_in_transit r) (\<lambda>in_transit.
    rbind (ok_or ArithmeticUnderflowError (checked_sub account_balance in_transit)) (\<lambda>incoming.
    rbind (ok_or ArithmeticUnderflowError (checked_sub incoming rent_cost)) (\<lambda>rewards_to_route.
    br_route_to_reward_pool r rewards_to_route)))"

definition br_base_fee_group_reward ::
    "base_reward_router \<Rightarrow> base_fee_group \<Rightarrow> tip_router_error + u64" where
  "br_base_fee_group_reward r g =
    rbind (base_fee_group_group_index g) (\<lambda>i. Inr (brw_rewards (br_base_fee_group_rewards r ! i)))"

definition br_route_to_base_fee_group_rewards ::
    "base_reward_router \<Rightarrow> base_fee_group \<Rightarrow> u64 \<Rightarrow> tip_router_error + base_reward_router" where
  "br_route_to_base_fee_group_rewards r g rewards =
    (if rewards = 0 then Inr r else
     rbind (base_fee_group_group_index g) (\<lambda>i.
     rbind (br_base_fee_group_reward r g) (\<lambda>current.
     rbind (ok_or ArithmeticOverflow (checked_add current rewards)) (\<lambda>n.
     Inr (r\<lparr>br_base_fee_group_rewards :=
       (br_base_fee_group_rewards r)[i := (br_base_fee_group_rewards r ! i)\<lparr>brw_rewards := n\<rparr>]\<rparr>)))))"

definition br_distribute_base_fee_group_rewards ::
    "base_reward_router \<Rightarrow> base_fee_group \<Rightarrow> tip_router_error + base_reward_router \<times> u64" where
  "br_distribute_base_fee_group_rewards r g =
    rbind (base_fee_group_group_index g) (\<lambda>i.
    rbind (br_base_fee_group_reward r g) (\<lambda>rewards.
    rbind (ok_or ArithmeticUnderflowError (checked_sub rewards rewards)) (\<lambda>n.
    rbind (br_decrement_rewards_processed
      (r\<lparr>br_base_fee_group_rewards :=
        (br_base_fee_group_rewards r)[i := (br_base_fee_group_rewards r ! i)\<lparr>brw_rewards := n\<rparr>]\<rparr>)
      rewards) (\<lambda>r. Inr (r, rewards)))))"

definition br_ncn_fee_group_reward ::
    "base_reward_router \<Rightarrow> ncn_fee_group \<Rightarrow> tip_router_error + u64" where
  "br_ncn_fee_group_reward r g =
    rbind (ncn_fee_group_group_index g) (\<lambda>i. Inr (brw_rewards (br_ncn_fee_group_rewards r ! i)))"

definition br_route_to_ncn_fee_group_rewards ::
    "base_reward_router \<Rightarrow> ncn_fee_group \<Rightarrow> u64 \<Rightarrow> tip_router_error + base_reward_router" where
  "br_route_to_ncn_fee_group_rewards r g rewards =
    (if rewards = 0 then Inr r else
     rbind (ncn_fee_group_group_index g) (\<lambda>i.
     rbind (br_ncn_fee_group_reward r g) (\<lambda>current.
     rbind (ok_or ArithmeticOverflow (checked_add current rewards)) (\<lambda>n.
     Inr (r\<lparr>br_ncn_fee_group_rewards :=
       (br_ncn_fee_group_rewards r)[i := (br_ncn_fee_group_rewards r ! i)\<lparr>brw_rewards := n\<rparr>]\<rparr>)))))"

definition br_route_from_ncn_fee_group_rewards ::
    "base_reward_router \<Rightarrow> ncn_fee_group \<Rightarrow> u64 \<Rightarrow> tip_router_error + base_reward_router" where
  "br_route_from_ncn_fee_group_rewards r g rewards =
    (if rewards = 0 then Inr r else
     rbind (ncn_fee_group_group_index g) (\<lambda>i.
     rbind (br_ncn_fee_group_reward r g) (\<lambda>current.
     rbind (ok_or ArithmeticUnderflowError (checked_sub current rewards)) (\<lambda>n.
     Inr (r\<lparr>br_ncn_fee_group_rewards :=
       (br_ncn_fee_group_rewards r)[i := (br_ncn_fee_group_rewards r ! i)\<lparr>brw_rewards := n\<rparr>]\<rparr>)))))"

definition has_operator_reward_route :: "base_reward_router \<Rightarrow> pubkey \<Rightarrow> bool" where
  "has_operator_reward_route r operator =
    list_ex (\<lambda>rt. nrr_operator rt = operator) (br_ncn_fee_group_reward_routes r)"

definition ncn_fee_group_reward_route ::
    "base_reward_router \<Rightarrow> pubkey \<Rightarrow> tip_router_error + ncn_reward_route" where
  "ncn_fee_group_reward_route r operator =
    ok_or NcnRewardRouteNotFound
      (List.find (\<lambda>rt. nrr_operator rt = operator) (br_ncn_fee_group_reward_routes r))"

definition br_route_to_reward_route ::
    "base_reward_router \<Rightarrow> ncn_fee_group \<Rightarrow> pubkey \<Rightarrow> u64 \<Rightarrow> tip_router_error + base_reward_router" where
  "br_route_to_reward_route r g operator rewards =
    (if rewards = 0 then Inr r else
     let routes = br_ncn_fee_group_reward_routes r in
     case find_idx (\<lambda>rt. nrr_operator rt = operator) routes of
       Some i \<Rightarrow>
         rbind (route_increment_rewards (routes ! i) g rewards) (\<lambda>rt.
         Inr (r\<lparr>br_ncn_fee_group_reward_routes := routes[i := rt]\<rparr>))
     | None \<Rightarrow>
         (case find_idx (\<lambda>rt. nrr_operator rt = default_pubkey) routes of
            Some i \<Rightarrow>
              rbind (ncn_reward_route_new operator g rewards) (\<lambda>rt.
              Inr (r\<lparr>br_ncn_fee_group_reward_routes := routes[i := rt]\<rparr>))
          | None \<Rightarrow> Inl OperatorRewardListFull))"

definition br_distribute_reward_route ::
    "base_reward_router \<Rightarrow> ncn_fee_group \<Rightarrow> pubkey \<Rightarrow> tip_router_error + base_reward_router \<times> u64" where
  "br_distribute_reward_route r g operator =
    (let routes = br_ncn_fee_group_reward_routes r in
     case find_idx (\<lambda>rt. nrr_operator rt = operator) routes of
       Some i \<Rightarrow>
         rbind (route_rewards (routes ! i) g) (\<lambda>rewards.
         rbind (route_decrement_rewards (routes ! i) g rewards) (\<lambda>rt.
         rbind (br_decrement_rewards_processed (r\<lparr>br_ncn_fee_group_reward_routes := routes[i := rt]\<rparr>) rewards)
           (\<lambda>r. Inr (r, rewards))))
     | None \<Rightarrow> Inl OperatorRewardNotFound)"

subsection \<open>Shares\<close>

definition calculate_reward_split ::
    "'p precise_ops \<Rightarrow> u16 \<Rightarrow> u64 \<Rightarrow> u64 \<Rightarrow> tip_router_error + u64" where
  "calculate_reward_split pn fee_bps total_fee_bps rewards_to_process =
    (if fee_bps = 0 \<or> rewards_to_process = 0 then Inr 0 else
     rbind (ok_or NewPreciseNumberError (pn_new pn (ucast fee_bps))) (\<lambda>precise_fee_bps.
     rbind (ok_or NewPreciseNumberError (pn_new pn (ucast total_fee_bps))) (\<lambda>precise_total_fee_bps.
     rbind (ok_or NewPreciseNumberError (pn_new pn (ucast rewards_to_process))) (\<lambda>precise_rewards.
     precise_share pn precise_rewards precise_fee_bps precise_total_fee_bps))))"

definition calculate_ncn_fee_group_route_reward ::
    "'p precise_ops \<Rightarrow> u128 \<Rightarrow> u128 \<Rightarrow> u64 \<Rightarrow> tip_router_error + u64" where
  "calculate_ncn_fee_group_route_reward pn route_weight winning_weight rewards_to_process =
    (if route_weight = 0 \<or> rewards_to_process = 0 then Inr 0 else
     rbind (ok_or NewPreciseNumberError (pn_new pn (ucast rewards_to_process))) (\<lambda>precise_rewards.
     rbind (ok_or NewPreciseNumberError (pn_new pn route_weight)) (\<lambda>precise_route.
     rbind (ok_or NewPreciseNumberError (pn_new pn winning_weight)) (\<lambda>precise_winning.
     precise_share pn precise_rewards precise_route precise_winning))))"

subsection \<open>Routing\<close>

definition br_route_reward_pool ::
    "'p precise_ops \<Rightarrow> base_reward_router \<Rightarrow> fees \<Rightarrow> tip_router_error + base_reward_router" where
  "br_route_reward_pool pn r fs =
    (let rewards_to_process = br_reward_pool r in
     rbind (fees_total_fees_bps fs) (\<lambda>total_fee_bps.
     rbind (rfold (\<lambda>g r.
         rbind (fees_base_fee_bps fs g) (\<lambda>base_fee.
         rbind (calculate_reward_split pn base_fee total_fee_bps rewards_to_process) (\<lambda>rewards.
         rbind (br_route_from_reward_pool r rewards) (\<lambda>r.
         br_route_to_base_fee_group_rewards r g rewards)))) base_fee_group_all_groups r) (\<lambda>r.
     rbind (rfold (\<lambda>g r.
         rbind (fees_ncn_fee_bps fs g) (\<lambda>ncn_group_fee.
         rbind (calculate_reward_split pn ncn_group_fee total_fee_bps rewards_to_process) (\<lambda>rewards.
         rbind (br_route_from_reward_pool r rewards) (\<lambda>r.
         br_route_to_ncn_fee_group_rewards r g rewards)))) ncn_fee_group_all_groups r) (\<lambda>r.
     let leftover_rewards = br_reward_pool r in
     rbind (br_route_from_reward_pool r leftover_rewards) (\<lambda>r.
     br_route_to_base_fee_group_rewards r base_fee_group_dao leftover_rewards)))))"

text \<open>The nested loops of \<open>route_ncn_fee_group_rewards\<close>. The inner loop, over the votes, either runs
  to its end with the iteration count or has saved its position and returns from the function.\<close>

datatype route_progress =
    Saved base_reward_router
  | Done base_reward_router u16

definition route_one_vote ::
    "'p precise_ops \<Rightarrow> ballot_tally \<Rightarrow> ncn_fee_group \<Rightarrow> u64 \<Rightarrow> operator_vote \<Rightarrow> base_reward_router \<Rightarrow>
     tip_router_error + base_reward_router" where
  "route_one_vote pn winning g rewards_to_process v r =
    rbind (ncn_fee_group_stake_weight (bt_stake_weights winning) g) (\<lambda>winning_weight.
    rbind (ncn_fee_group_stake_weight (ov_stake_weights v) g) (\<lambda>route_weight.
    rbind (calculate_ncn_fee_group_route_reward pn route_weight winning_weight rewards_to_process) (\<lambda>reward.
    rbind (br_route_from_ncn_fee_group_rewards r g reward) (\<lambda>r.
    br_route_to_reward_route r g (ov_operator v) reward))))"

fun route_votes ::
    "'p precise_ops \<Rightarrow> operator_vote list \<Rightarrow> ballot_tally \<Rightarrow> nat \<Rightarrow> u16 \<Rightarrow> u64 \<Rightarrow> nat list \<Rightarrow>
     base_reward_router \<Rightarrow> u16 \<Rightarrow> tip_router_error + route_progress" where
  "route_votes pn vs winning group_index max_iterations rewards_to_process [] r iterations =
    Inr (Done r iterations)"
| "route_votes pn vs winning group_index max_iterations rewards_to_process (vote_index # rest) r iterations =
    (let v = vs ! vote_index in
     if ov_ballot_index v = bt_index winning then
       rbind (ok_or ArithmeticOverflow (checked_add iterations 1)) (\<lambda>iterations.
       if iterations > max_iterations
       then Inr (Saved (br_save_routing_state r group_index vote_index rewards_to_process))
       else rbind (route_one_vote pn winning (ncn_fee_group_all_groups ! group_index) rewards_to_process v r) (\<lambda>r.
         route_votes pn vs winning group_index max_iterations rewards_to_process rest r iterations))
     else route_votes pn vs winning group_index max_iterations rewards_to_process rest r iterations)"

text \<open>The DAO gets what the floored shares of a group leave.\<close>

definition br_route_leftover ::
    "base_reward_router \<Rightarrow> ncn_fee_group \<Rightarrow> tip_router_error + base_reward_router" where
  "br_route_leftover r g =
    rbind (br_ncn_fee_group_reward r g) (\<lambda>leftover_rewards.
    rbind (br_route_from_ncn_fee_group_rewards r g leftover_rewards) (\<lambda>r.
    br_route_to_base_fee_group_rewards r base_fee_group_dao leftover_rewards))"

text \<open>The outer loop, over the groups; a skipped group does not reset the starting vote.\<close>

fun route_groups ::
    "'p precise_ops \<Rightarrow> operator_vote list \<Rightarrow> ballot_tally \<Rightarrow> u16 \<Rightarrow> nat list \<Rightarrow> nat \<Rightarrow> u64 \<Rightarrow>
     base_reward_router \<Rightarrow> u16 \<Rightarrow> tip_router_error + base_reward_router" where
  "route_groups pn vs winning max_iterations [] starting_vote starting_rewards r iterations =
    Inr (br_reset_routing_state r)"
| "route_groups pn vs winning max_iterations (group_index # rest) starting_vote starting_rewards r iterations =
    rbind (if starting_rewards > 0 then Inr starting_rewards
           else br_ncn_fee_group_reward r (ncn_fee_group_all_groups ! group_index)) (\<lambda>rewards_to_process.
    if rewards_to_process = 0
    then route_groups pn vs winning max_iterations rest starting_vote 0 r iterations
    else rbind (route_votes pn vs winning group_index max_iterations rewards_to_process
                  [starting_vote..<length vs] r iterations) (\<lambda>progress.
      case progress of
        Saved r \<Rightarrow> Inr r
      | Done r iterations \<Rightarrow>
          rbind (br_route_leftover r (ncn_fee_group_all_groups ! group_index)) (\<lambda>r.
          route_groups pn vs winning max_iterations rest 0 0 r iterations)))"

definition br_route_ncn_fee_group_rewards ::
    "'p precise_ops \<Rightarrow> base_reward_router \<Rightarrow> ballot_box \<Rightarrow> u16 \<Rightarrow> tip_router_error + base_reward_router" where
  "br_route_ncn_fee_group_rewards pn r bb max_iterations =
    rbind (get_winning_ballot_tally bb) (\<lambda>winning.
    let (starting_group, starting_vote, starting_rewards) = br_resume_routing_state r in
    route_groups pn (bb_operator_votes bb) winning (max max_iterations 1)
      [starting_group..<FEE_GROUP_COUNT] starting_vote starting_rewards r 0)"

section \<open>Accounting\<close>

definition bucket_sum :: "base_reward_router_rewards list \<Rightarrow> nat" where
  "bucket_sum xs = sum_list (map (\<lambda>b. unat (brw_rewards b)) xs)"

definition route_sum :: "ncn_reward_route \<Rightarrow> nat" where
  "route_sum rt = bucket_sum (nrr_ncn_fee_group_rewards rt)"

definition br_buckets :: "base_reward_router \<Rightarrow> nat" where
  "br_buckets r = bucket_sum (br_base_fee_group_rewards r) + bucket_sum (br_ncn_fee_group_rewards r) +
    sum_list (map route_sum (br_ncn_fee_group_reward_routes r))"

text \<open>A free route slot, one of the default key, holds nothing.\<close>

definition wf_route :: "ncn_reward_route \<Rightarrow> bool" where
  "wf_route rt \<longleftrightarrow> length (nrr_ncn_fee_group_rewards rt) = 8 \<and>
    (nrr_operator rt = default_pubkey \<longrightarrow> route_sum rt = 0)"

definition br_wf :: "base_reward_router \<Rightarrow> bool" where
  "br_wf r \<longleftrightarrow> length (br_base_fee_group_rewards r) = 8 \<and> length (br_ncn_fee_group_rewards r) = 8 \<and>
    length (br_ncn_fee_group_reward_routes r) = 256 \<and> (\<forall>rt \<in> set (br_ncn_fee_group_reward_routes r). wf_route rt)"

text \<open>\<open>br_shift r dt dp dr db r'\<close>: from \<open>r\<close> to \<open>r'\<close> the total changes by \<open>dt\<close>, the pool by \<open>dp\<close>, the
  rewards processed by \<open>dr\<close> and the buckets by \<open>db\<close>.\<close>

definition br_shift :: "base_reward_router \<Rightarrow> int \<Rightarrow> int \<Rightarrow> int \<Rightarrow> int \<Rightarrow> base_reward_router \<Rightarrow> bool" where
  "br_shift r dt dp dr db r' \<longleftrightarrow> (br_wf r \<longrightarrow> br_wf r' \<and>
    amount (br_total_rewards r') = amount (br_total_rewards r) + dt \<and>
    amount (br_reward_pool r') = amount (br_reward_pool r) + dp \<and>
    amount (br_rewards_processed r') = amount (br_rewards_processed r) + dr \<and>
    int (br_buckets r') = int (br_buckets r) + db)"

lemma br_shift_refl [simp]: "br_shift r 0 0 0 0 r"
  by (simp add: br_shift_def)

lemma br_shift_trans:
  "br_shift r a b c d r1 \<Longrightarrow> br_shift r1 a' b' c' d' r2 \<Longrightarrow> br_shift r (a + a') (b + b') (c + c') (d + d') r2"
  by (simp add: br_shift_def)

lemma bucket_sum_update:
  assumes "i < length xs" and "amount v + k = amount (brw_rewards (xs ! i)) + m"
  shows "int (bucket_sum (xs[i := (xs ! i)\<lparr>brw_rewards := v\<rparr>])) = int (bucket_sum xs) + m - k"
  using arg_cong [OF sum_list_map_update [OF assms(1), of "\<lambda>b. unat (brw_rewards b)" "(xs ! i)\<lparr>brw_rewards := v\<rparr>"], of int]
    assms(2) unfolding bucket_sum_def amount_def of_nat_add by simp

lemma routes_update:
  assumes "i < length rts" and "int (route_sum rt) = int (route_sum (rts ! i)) + k"
  shows "int (sum_list (map route_sum (rts[i := rt]))) = int (sum_list (map route_sum rts)) + k"
  using sum_list_map_update [OF assms(1), of route_sum rt] assms(2) by linarith

lemma br_route_to_reward_pool_shift:
  "br_route_to_reward_pool r x = Inr r' \<Longrightarrow> br_shift r (amount x) (amount x) 0 0 r'"
  by (auto simp: br_route_to_reward_pool_def br_shift_def res_simps amount_simps br_wf_def br_buckets_def
      split: if_splits)

lemma br_route_from_reward_pool_shift:
  "br_route_from_reward_pool r x = Inr r' \<Longrightarrow> br_shift r 0 (- amount x) (amount x) 0 r'"
  by (auto simp: br_route_from_reward_pool_def br_increment_rewards_processed_def br_shift_def res_simps
      amount_simps br_wf_def br_buckets_def split: if_splits)

lemma br_decrement_rewards_processed_shift:
  "br_decrement_rewards_processed r x = Inr r' \<Longrightarrow> br_shift r 0 0 (- amount x) 0 r'"
  by (auto simp: br_decrement_rewards_processed_def br_shift_def res_simps
      amount_simps br_wf_def br_buckets_def split: if_splits)

lemma br_route_to_base_shift:
  assumes "br_route_to_base_fee_group_rewards r g x = Inr r'"
  shows "br_shift r 0 0 0 (amount x) r'"
proof (cases "x = 0")
  case False
  then obtain i n where "base_fee_group_group_index g = Inr i"
    and n: "amount n = amount (brw_rewards (br_base_fee_group_rewards r ! i)) + amount x"
    and r': "r' = r\<lparr>br_base_fee_group_rewards :=
       (br_base_fee_group_rewards r)[i := (br_base_fee_group_rewards r ! i)\<lparr>brw_rewards := n\<rparr>]\<rparr>"
    using assms by (auto simp: br_route_to_base_fee_group_rewards_def br_base_fee_group_reward_def res_simps amount_simps)
  then have "i < 8" using bg.index_bound by blast
  then show ?thesis using bucket_sum_update [of i "br_base_fee_group_rewards r" n 0 "amount x"] n
    by (simp add: br_shift_def r' br_wf_def br_buckets_def)
qed (use assms in \<open>simp add: br_route_to_base_fee_group_rewards_def\<close>)

lemma br_route_to_ncn_shift:
  assumes "br_route_to_ncn_fee_group_rewards r g x = Inr r'"
  shows "br_shift r 0 0 0 (amount x) r'"
proof (cases "x = 0")
  case False
  then obtain i n where "ncn_fee_group_group_index g = Inr i"
    and n: "amount n = amount (brw_rewards (br_ncn_fee_group_rewards r ! i)) + amount x"
    and r': "r' = r\<lparr>br_ncn_fee_group_rewards :=
       (br_ncn_fee_group_rewards r)[i := (br_ncn_fee_group_rewards r ! i)\<lparr>brw_rewards := n\<rparr>]\<rparr>"
    using assms by (auto simp: br_route_to_ncn_fee_group_rewards_def br_ncn_fee_group_reward_def res_simps amount_simps)
  then have "i < 8" using ng.index_bound by blast
  then show ?thesis using bucket_sum_update [of i "br_ncn_fee_group_rewards r" n 0 "amount x"] n
    by (simp add: br_shift_def r' br_wf_def br_buckets_def)
qed (use assms in \<open>simp add: br_route_to_ncn_fee_group_rewards_def\<close>)

lemma br_route_from_ncn_shift:
  assumes "br_route_from_ncn_fee_group_rewards r g x = Inr r'"
  shows "br_shift r 0 0 0 (- amount x) r'"
proof (cases "x = 0")
  case False
  then obtain i n where "ncn_fee_group_group_index g = Inr i"
    and n: "amount n = amount (brw_rewards (br_ncn_fee_group_rewards r ! i)) - amount x"
    and r': "r' = r\<lparr>br_ncn_fee_group_rewards :=
       (br_ncn_fee_group_rewards r)[i := (br_ncn_fee_group_rewards r ! i)\<lparr>brw_rewards := n\<rparr>]\<rparr>"
    using assms by (auto simp: br_route_from_ncn_fee_group_rewards_def br_ncn_fee_group_reward_def res_simps amount_simps)
  then have "i < 8" using ng.index_bound by blast
  then show ?thesis using bucket_sum_update [of i "br_ncn_fee_group_rewards r" n "amount x" 0] n
    by (simp add: br_shift_def r' br_wf_def br_buckets_def)
qed (use assms in \<open>simp add: br_route_from_ncn_fee_group_rewards_def\<close>)

lemma br_distribute_base_shift:
  assumes "br_distribute_base_fee_group_rewards r g = Inr (r', x)"
  shows "br_shift r 0 0 (- amount x) (- amount x) r'"
proof -
  obtain i n where "base_fee_group_group_index g = Inr i"
    and x: "x = brw_rewards (br_base_fee_group_rewards r ! i)" and n: "amount n = 0"
    and dec: "br_decrement_rewards_processed (r\<lparr>br_base_fee_group_rewards :=
       (br_base_fee_group_rewards r)[i := (br_base_fee_group_rewards r ! i)\<lparr>brw_rewards := n\<rparr>]\<rparr>) x = Inr r'"
    using assms by (auto simp: br_distribute_base_fee_group_rewards_def br_base_fee_group_reward_def res_simps amount_simps)
  then have "i < 8" using bg.index_bound by blast
  then have "br_shift r 0 0 0 (- amount x) (r\<lparr>br_base_fee_group_rewards :=
       (br_base_fee_group_rewards r)[i := (br_base_fee_group_rewards r ! i)\<lparr>brw_rewards := n\<rparr>]\<rparr>)"
    using bucket_sum_update [of i "br_base_fee_group_rewards r" n "amount x" 0] n x
    by (simp add: br_shift_def br_wf_def br_buckets_def)
  from br_shift_trans [OF this br_decrement_rewards_processed_shift [OF dec]] show ?thesis by simp
qed

text \<open>Routes.\<close>

lemma route_set_rewards_sum:
  assumes "route_set_rewards rt g v = Inr rt'" and "route_rewards rt g = Inr old"
    and "length (nrr_ncn_fee_group_rewards rt) = 8"
  shows "length (nrr_ncn_fee_group_rewards rt') = 8 \<and> nrr_operator rt' = nrr_operator rt \<and>
    int (route_sum rt') = int (route_sum rt) + amount v - amount old"
proof -
  obtain i where "ncn_fee_group_group_index g = Inr i" and old: "old = brw_rewards (nrr_ncn_fee_group_rewards rt ! i)"
    and rt': "rt' = rt\<lparr>nrr_ncn_fee_group_rewards :=
      (nrr_ncn_fee_group_rewards rt)[i := (nrr_ncn_fee_group_rewards rt ! i)\<lparr>brw_rewards := v\<rparr>]\<rparr>"
    using assms(1,2) by (auto simp: route_set_rewards_def route_rewards_def res_simps)
  then have "i < 8" using ng.index_bound by blast
  then show ?thesis
    using bucket_sum_update [of i "nrr_ncn_fee_group_rewards rt" v "amount old" "amount v"] old assms(3)
    by (simp add: rt' route_sum_def)
qed

lemma route_increment_sum:
  assumes "route_increment_rewards rt g x = Inr rt'" and "wf_route rt" and "nrr_operator rt \<noteq> default_pubkey"
  shows "wf_route rt' \<and> int (route_sum rt') = int (route_sum rt) + amount x"
proof -
  obtain old n where old: "route_rewards rt g = Inr old" and n: "amount n = amount old + amount x"
    and set: "route_set_rewards rt g n = Inr rt'"
    using assms(1) by (auto simp: route_increment_rewards_def res_simps amount_simps)
  from route_set_rewards_sum [OF set old] assms(2,3) n show ?thesis by (simp add: wf_route_def)
qed

lemma route_decrement_sum:
  assumes "route_decrement_rewards rt g x = Inr rt'" and "wf_route rt"
  shows "wf_route rt' \<and> int (route_sum rt') = int (route_sum rt) - amount x"
proof -
  obtain old n where old: "route_rewards rt g = Inr old" and n: "amount n = amount old - amount x"
    and set: "route_set_rewards rt g n = Inr rt'"
    using assms(1) by (auto simp: route_decrement_rewards_def res_simps amount_simps)
  from route_set_rewards_sum [OF set old] assms(2) n
  have "length (nrr_ncn_fee_group_rewards rt') = 8" "nrr_operator rt' = nrr_operator rt"
    and eq: "int (route_sum rt') = int (route_sum rt) - amount x"
    by (auto simp: wf_route_def)
  moreover have "route_sum rt' = 0" if "route_sum rt = 0" using eq that amount_nonneg [of x] by linarith
  ultimately show ?thesis using assms(2) by (auto simp: wf_route_def)
qed

lemma bucket_sum_default [simp]: "bucket_sum (replicate n base_reward_router_rewards_default) = 0"
  by (simp add: bucket_sum_def base_reward_router_rewards_default_def)

lemma route_new_sum:
  assumes "ncn_reward_route_new operator g x = Inr rt" and "operator \<noteq> default_pubkey"
  shows "wf_route rt \<and> int (route_sum rt) = amount x"
proof -
  let ?rt = "\<lparr>nrr_operator = operator,
       nrr_ncn_fee_group_rewards = replicate FEE_GROUP_COUNT base_reward_router_rewards_default\<rparr>"
  obtain i where "ncn_fee_group_group_index g = Inr i"
    using assms by (auto simp: ncn_reward_route_new_def route_set_rewards_def res_simps)
  then have "route_rewards ?rt g = Inr 0"
    using ng.index_bound by (auto simp: route_rewards_def FEE_GROUP_COUNT_def base_reward_router_rewards_default_def)
  then show ?thesis
    using route_set_rewards_sum [of ?rt g x rt 0] assms
    by (simp add: ncn_reward_route_new_def wf_route_def FEE_GROUP_COUNT_def route_sum_def)
qed

lemma put_route_shift:
  assumes "i < length (br_ncn_fee_group_reward_routes r)"
    and "br_wf r \<Longrightarrow> wf_route rt \<and> int (route_sum rt) = int (route_sum (br_ncn_fee_group_reward_routes r ! i)) + k"
  shows "br_shift r 0 0 0 k (r\<lparr>br_ncn_fee_group_reward_routes := (br_ncn_fee_group_reward_routes r)[i := rt]\<rparr>)"
  unfolding br_shift_def
proof (intro impI)
  assume wf: "br_wf r"
  have "set ((br_ncn_fee_group_reward_routes r)[i := rt]) \<subseteq> insert rt (set (br_ncn_fee_group_reward_routes r))"
    by (rule set_update_subset_insert)
  then show "br_wf (r\<lparr>br_ncn_fee_group_reward_routes := (br_ncn_fee_group_reward_routes r)[i := rt]\<rparr>) \<and>
    amount (br_total_rewards (r\<lparr>br_ncn_fee_group_reward_routes := (br_ncn_fee_group_reward_routes r)[i := rt]\<rparr>)) =
      amount (br_total_rewards r) + 0 \<and>
    amount (br_reward_pool (r\<lparr>br_ncn_fee_group_reward_routes := (br_ncn_fee_group_reward_routes r)[i := rt]\<rparr>)) =
      amount (br_reward_pool r) + 0 \<and>
    amount (br_rewards_processed (r\<lparr>br_ncn_fee_group_reward_routes := (br_ncn_fee_group_reward_routes r)[i := rt]\<rparr>)) =
      amount (br_rewards_processed r) + 0 \<and>
    int (br_buckets (r\<lparr>br_ncn_fee_group_reward_routes := (br_ncn_fee_group_reward_routes r)[i := rt]\<rparr>)) =
      int (br_buckets r) + k"
    using assms(2) [OF wf] wf routes_update [OF assms(1), of rt k]
    by (auto simp: br_wf_def br_buckets_def)
qed

lemma br_wf_route: "br_wf r \<Longrightarrow> i < length (br_ncn_fee_group_reward_routes r) \<Longrightarrow>
    wf_route (br_ncn_fee_group_reward_routes r ! i)"
  by (simp add: br_wf_def)

lemma br_route_to_reward_route_shift:
  assumes "br_route_to_reward_route r g operator x = Inr r'" and op: "operator \<noteq> default_pubkey"
  shows "br_shift r 0 0 0 (amount x) r'"
proof (cases "x = 0")
  case True
  then show ?thesis using assms(1) by (simp add: br_route_to_reward_route_def)
next
  case False
  let ?rts = "br_ncn_fee_group_reward_routes r"
  show ?thesis
  proof (cases "find_idx (\<lambda>rt. nrr_operator rt = operator) ?rts")
    case (Some i)
    then obtain rt where rt: "route_increment_rewards (?rts ! i) g x = Inr rt"
      and r': "r' = r\<lparr>br_ncn_fee_group_reward_routes := ?rts[i := rt]\<rparr>"
      using assms(1) False by (auto simp: br_route_to_reward_route_def Let_def res_simps)
    show ?thesis unfolding r'
      using route_increment_sum [OF rt] find_idx_SomeD(1,2) [OF Some] op
      by (intro put_route_shift) (auto simp: br_wf_def)
  next
    case None
    then obtain i rt where i: "find_idx (\<lambda>rt. nrr_operator rt = default_pubkey) ?rts = Some i"
      and rt: "ncn_reward_route_new operator g x = Inr rt"
      and r': "r' = r\<lparr>br_ncn_fee_group_reward_routes := ?rts[i := rt]\<rparr>"
      using assms(1) False by (auto simp: br_route_to_reward_route_def Let_def res_simps split: option.splits)
    have "route_sum (?rts ! i) = 0" if "br_wf r"
      using that find_idx_SomeD(1,2) [OF i] br_wf_route [OF that, of i] by (simp add: wf_route_def)
    then show ?thesis unfolding r'
      using route_new_sum [OF rt op] find_idx_SomeD(1) [OF i] by (intro put_route_shift) auto
  qed
qed

lemma br_distribute_route_shift:
  assumes "br_distribute_reward_route r g operator = Inr (r', x)"
  shows "br_shift r 0 0 (- amount x) (- amount x) r'"
proof -
  let ?rts = "br_ncn_fee_group_reward_routes r"
  obtain i rt where i: "i < length ?rts" and rt: "route_decrement_rewards (?rts ! i) g x = Inr rt"
    and dec: "br_decrement_rewards_processed (r\<lparr>br_ncn_fee_group_reward_routes := ?rts[i := rt]\<rparr>) x = Inr r'"
    using assms by (auto simp: br_distribute_reward_route_def Let_def res_simps dest: find_idx_SomeD(1)
        split: option.splits)
  have "br_shift r 0 0 0 (- amount x) (r\<lparr>br_ncn_fee_group_reward_routes := ?rts[i := rt]\<rparr>)"
    using route_decrement_sum [OF rt] br_wf_route i by (intro put_route_shift [OF i]) auto
  from br_shift_trans [OF this br_decrement_rewards_processed_shift [OF dec]] show ?thesis by simp
qed

section \<open>Routing moves lamports only\<close>

lemma br_pool_to_base:
  assumes "br_route_from_reward_pool r x = Inr r1" and "br_route_to_base_fee_group_rewards r1 g x = Inr r2"
  shows "br_shift r 0 (- amount x) (amount x) (amount x) r2"
  using br_shift_trans [OF br_route_from_reward_pool_shift [OF assms(1)] br_route_to_base_shift [OF assms(2)]]
  by simp

lemma br_pool_to_ncn:
  assumes "br_route_from_reward_pool r x = Inr r1" and "br_route_to_ncn_fee_group_rewards r1 g x = Inr r2"
  shows "br_shift r 0 (- amount x) (amount x) (amount x) r2"
  using br_shift_trans [OF br_route_from_reward_pool_shift [OF assms(1)] br_route_to_ncn_shift [OF assms(2)]]
  by simp

text \<open>A loop whose body moves some amount from the pool into the buckets does so as a whole.\<close>

lemma rfold_moves:
  assumes "rfold f xs r = Inr r'"
    and "\<And>x r r'. f x r = Inr r' \<Longrightarrow> \<exists>k. br_shift r 0 (- k) k k r'"
  shows "\<exists>k. br_shift r 0 (- k) k k r'"
proof (rule rfold_invariant [OF assms(1), where P = "\<lambda>s. \<exists>k. br_shift r 0 (- k) k k s"])
  show "\<exists>k. br_shift r 0 (- k) k k r" by (rule exI [of _ 0]) simp
next
  fix x s t
  assume "\<exists>k. br_shift r 0 (- k) k k s" and "f x s = Inr t"
  then obtain k l where "br_shift r 0 (- k) k k s" "br_shift s 0 (- l) l l t" using assms(2) by blast
  from br_shift_trans [OF this] show "\<exists>k. br_shift r 0 (- k) k k t" by (intro exI [of _ "k + l"]) simp
qed

lemma br_route_reward_pool_moves:
  assumes "br_route_reward_pool pn r fs = Inr r'"
  shows "\<exists>k. br_shift r 0 (- k) k k r'"
proof -
  obtain total_bps r1 r2 r3 where
    loop1: "rfold (\<lambda>g s. rbind (fees_base_fee_bps fs g) (\<lambda>base_fee.
         rbind (calculate_reward_split pn base_fee total_bps (br_reward_pool r)) (\<lambda>rewards.
         rbind (br_route_from_reward_pool s rewards) (\<lambda>s.
         br_route_to_base_fee_group_rewards s g rewards)))) base_fee_group_all_groups r = Inr r1"
    and loop2: "rfold (\<lambda>g s. rbind (fees_ncn_fee_bps fs g) (\<lambda>ncn_group_fee.
         rbind (calculate_reward_split pn ncn_group_fee total_bps (br_reward_pool r)) (\<lambda>rewards.
         rbind (br_route_from_reward_pool s rewards) (\<lambda>s.
         br_route_to_ncn_fee_group_rewards s g rewards)))) ncn_fee_group_all_groups r1 = Inr r2"
    and rest: "br_route_from_reward_pool r2 (br_reward_pool r2) = Inr r3"
      "br_route_to_base_fee_group_rewards r3 base_fee_group_dao (br_reward_pool r2) = Inr r'"
    using assms unfolding br_route_reward_pool_def Let_def rbind_Inr by blast
  have "\<exists>k. br_shift r 0 (- k) k k r1"
    by (rule rfold_moves [OF loop1]) (auto simp: rbind_Inr dest: br_pool_to_base)
  moreover have "\<exists>k. br_shift r1 0 (- k) k k r2"
    by (rule rfold_moves [OF loop2]) (auto simp: rbind_Inr dest: br_pool_to_ncn)
  moreover note br_pool_to_base [OF rest]
  ultimately obtain k l m where "br_shift r 0 (- k) k k r1" "br_shift r1 0 (- l) l l r2"
    "br_shift r2 0 (- m) m m r'" by blast
  from br_shift_trans [OF br_shift_trans [OF this(1,2)] this(3)] show ?thesis
    by (intro exI [of _ "k + l + m"]) simp
qed

lemma br_state_shift [simp]:
  "br_shift r 0 0 0 0 (br_save_routing_state r i j x)" "br_shift r 0 0 0 0 (br_reset_routing_state r)"
  by (simp_all add: br_shift_def br_save_routing_state_def br_reset_routing_state_def br_wf_def br_buckets_def)

lemma route_one_vote_shift:
  assumes "route_one_vote pn w g x v r = Inr r'" and "ov_operator v \<noteq> default_pubkey"
  shows "br_shift r 0 0 0 0 r'"
proof -
  obtain y r1 where "br_route_from_ncn_fee_group_rewards r g y = Inr r1"
    "br_route_to_reward_route r1 g (ov_operator v) y = Inr r'"
    using assms(1) by (auto simp: route_one_vote_def rbind_Inr)
  from br_shift_trans [OF br_route_from_ncn_shift [OF this(1)] br_route_to_reward_route_shift [OF this(2) assms(2)]]
  show ?thesis by simp
qed

lemma br_route_leftover_shift:
  assumes "br_route_leftover r g = Inr r'"
  shows "br_shift r 0 0 0 0 r'"
proof -
  obtain y r1 where "br_route_from_ncn_fee_group_rewards r g y = Inr r1"
    "br_route_to_base_fee_group_rewards r1 base_fee_group_dao y = Inr r'"
    using assms by (auto simp: br_route_leftover_def rbind_Inr)
  from br_shift_trans [OF br_route_from_ncn_shift [OF this(1)] br_route_to_base_shift [OF this(2)]]
  show ?thesis by simp
qed

text \<open>The router a loop over votes ends with, saved or not.\<close>

primrec progress_router :: "route_progress \<Rightarrow> base_reward_router" where
  "progress_router (Saved r) = r"
| "progress_router (Done r _) = r"

text \<open>The votes for the winner were cast by operators with a key.\<close>

definition winners_named :: "operator_vote list \<Rightarrow> ballot_tally \<Rightarrow> bool" where
  "winners_named vs w \<longleftrightarrow> (\<forall>i < length vs. ov_ballot_index (vs ! i) = bt_index w \<longrightarrow> ov_operator (vs ! i) \<noteq> default_pubkey)"

lemma route_votes_shift:
  assumes "winners_named vs w" and "\<forall>i \<in> set is. i < length vs"
    and "route_votes pn vs w gi m x is r it = Inr p"
  shows "br_shift r 0 0 0 0 (progress_router p)"
  using assms(2,3)
proof (induction "is" arbitrary: r it)
  case Nil
  then show ?case by auto
next
  case (Cons i "is")
  show ?case
  proof (cases "ov_ballot_index (vs ! i) = bt_index w")
    case False
    then show ?thesis using Cons by simp
  next
    case True
    then have op: "ov_operator (vs ! i) \<noteq> default_pubkey"
      using Cons.prems(1) assms(1) by (simp add: winners_named_def)
    from Cons.prems(2) True obtain it' where it': "checked_add it 1 = Some it'"
      by (auto simp: Let_def rbind_Inr ok_or_Inr)
    show ?thesis
    proof (cases "it' > m")
      case True
      with Cons.prems(2) \<open>ov_ballot_index (vs ! i) = bt_index w\<close> it' show ?thesis by (auto simp: Let_def)
    next
      case False
      with Cons.prems(2) True it' obtain r1 where
        r1: "route_one_vote pn w (ncn_fee_group_all_groups ! gi) x (vs ! i) r = Inr r1"
        and rest: "route_votes pn vs w gi m x is r1 it' = Inr p"
        by (auto simp: Let_def rbind_Inr)
      have "br_shift r1 0 0 0 0 (progress_router p)" using Cons.prems(1) by (intro Cons.IH [OF _ rest]) simp
      from br_shift_trans [OF route_one_vote_shift [OF r1 op] this] show ?thesis by simp
    qed
  qed
qed

lemma route_groups_shift:
  assumes "winners_named vs w" and "route_groups pn vs w m gs sv sr r it = Inr r'"
  shows "br_shift r 0 0 0 0 r'"
  using assms(2)
proof (induction gs arbitrary: sv sr r it)
  case Nil
  then show ?case by auto
next
  case (Cons gi gs)
  obtain x where x: "(if sr > 0 then Inr sr else br_ncn_fee_group_reward r (ncn_fee_group_all_groups ! gi)) = Inr x"
    using Cons.prems by (auto simp: rbind_Inr)
  show ?case
  proof (cases "x = 0")
    case True
    then show ?thesis using Cons.IH Cons.prems x by simp
  next
    case False
    obtain p where p: "route_votes pn vs w gi m x [sv..<length vs] r it = Inr p"
      using Cons.prems x False by (auto simp: rbind_Inr)
    have s: "br_shift r 0 0 0 0 (progress_router p)" by (rule route_votes_shift [OF assms(1) _ p]) simp
    show ?thesis
    proof (cases p)
      case (Saved r1)
      then show ?thesis using Cons.prems x False p s by simp
    next
      case (Done r1 it1)
      then obtain r2 where "br_route_leftover r1 (ncn_fee_group_all_groups ! gi) = Inr r2"
        and "route_groups pn vs w m gs 0 0 r2 it1 = Inr r'"
        using Cons.prems x False p by (auto simp: rbind_Inr)
      from br_shift_trans [OF br_shift_trans [OF s, unfolded Done] Cons.IH [OF this(2)]]
        br_route_leftover_shift [OF this(1)] show ?thesis using Done by simp
    qed
  qed
qed

end
