(* ===== verification/Ballot_Protocol.thy ===== *)
theory Ballot_Protocol
  imports Ballot_Box
begin

text \<open>
  The voting protocol on the ballot box: tallying against the two-thirds threshold, the tie
  breaker, and the boxes that votes, tallies and tie breakers can produce in any order. The
  handlers \<open>process_cast_vote\<close> and \<open>process_set_tie_breaker\<close> of \<open>program/src\<close> change the box only
  through these operations.
\<close>

section \<open>Tallying\<close>

lemma max_by_key_exists: "xs \<noteq> [] \<Longrightarrow> \<exists>x. max_by_key key xs = Some x"
  by (cases xs) (auto split: option.splits)

lemma max_by_key_Some:
  "max_by_key key xs = Some x \<Longrightarrow> x \<in> set xs \<and> (\<forall>y \<in> set xs. key y \<le> key x)"
proof (induction xs arbitrary: x)
  case Nil
  then show ?case by simp
next
  case (Cons y ys)
  show ?case
  proof (cases "max_by_key key ys")
    case None
    then have "ys = []" using max_by_key_exists [of ys key] by auto
    then show ?thesis using Cons.prems by simp
  next
    case (Some m)
    note IH = Cons.IH [OF Some]
    from Cons.prems Some consider "x = y" "key m < key y" | "x = m" "key y \<le> key m"
      by (auto split: if_splits)
    then show ?thesis
    proof cases
      case 1
      then have "key z \<le> key y" if "z \<in> set ys" for z using IH that by (meson less_imp_le order.trans)
      with 1 show ?thesis by simp
    next
      case 2
      with IH show ?thesis by simp
    qed
  qed
qed

text \<open>The threshold of the program, two thirds with twelve decimals: the ratio reaches 0.666666666666. Two thirds reach
  it, and a weight that reaches it is short of two thirds by at most a part in 10 to the 12 of the total.\<close>

definition reaches_consensus :: "nat \<Rightarrow> nat \<Rightarrow> bool" where
  "reaches_consensus w total_w \<longleftrightarrow> 666666666666 * total_w \<le> 10 ^ 12 * w"

lemma two_thirds_reaches: "2 * total_w \<le> 3 * w \<Longrightarrow> reaches_consensus w total_w"
  by (simp add: reaches_consensus_def)

lemma reaches_two_thirds: "reaches_consensus w total_w \<Longrightarrow> 2 * 10 ^ 12 * total_w \<le> 3 * 10 ^ 12 * w + 2 * total_w"
  by (simp add: reaches_consensus_def)

lemma ratio_test:
  assumes pn: "precise_number pn val" and "pn_new pn w = Some pw" and "pn_new pn total_w = Some pt"
    and "pn_checked_div pn pw pt = Some ratio" and "precise_consensus pn = Inr c" and "total_w \<noteq> 0"
  shows "pn_greater_than_or_equal pn ratio c \<longleftrightarrow> reaches_consensus (unat w) (unat total_w)"
proof -
  let ?q = "unat w * 10 ^ 12 div unat total_w"
  have pos: "0 < unat total_w" using assms(6) by (simp add: unat_gt_0)
  have v: "val pw = of_nat (unat w)" "val pt = of_nat (unat total_w)"
    using precise_number.new_Some [OF pn] assms(2,3) by blast+
  have "val ratio = of_nat ?q / 10 ^ 12"
    using precise_number.div_decimals [OF pn assms(4) v(1) _ v(2)] pos unat_less_pow [of w] by simp
  moreover have "val c = of_nat 666666666666 / 10 ^ 12"
    using precise_number.consensus_val [OF pn assms(5)] by simp
  ultimately have "val c \<le> val ratio \<longleftrightarrow> (of_nat 666666666666 :: rat) \<le> of_nat ?q"
    by (simp only: divide_le_cancel) simp
  also have "\<dots> \<longleftrightarrow> 666666666666 \<le> ?q" by (simp only: of_nat_le_iff)
  also have "\<dots> \<longleftrightarrow> 666666666666 * unat total_w \<le> unat w * 10 ^ 12"
    using pos by (rule less_eq_div_iff_mult_less_eq)
  finally show ?thesis
    using precise_number.ge_iff [OF pn] by (simp add: reaches_consensus_def mult.commute)
qed

lemma tally_votes_eq:
  assumes pn: "precise_number pn val" and "bb_ballot_tallies bb \<noteq> []" and "total_w \<noteq> 0"
    and "bb_slot_consensus_reached bb = DEFAULT_CONSENSUS_REACHED_SLOT"
  shows "\<exists>t \<in> set (bb_ballot_tallies bb).
    (\<forall>t' \<in> set (bb_ballot_tallies bb). sw_total (bt_stake_weights t') \<le> sw_total (bt_stake_weights t)) \<and>
    tally_votes pn bb total_w slot = Inr
      (if reaches_consensus (sw_total (bt_stake_weights t)) (unat total_w) \<and> \<not> ballot_is_valid (bb_winning_ballot bb)
       then bb\<lparr>bb_slot_consensus_reached := slot, bb_winning_ballot := bt_ballot t\<rparr> else bb)"
proof -
  obtain t where t: "max_by_key (\<lambda>t. sw_stake_weight (bt_stake_weights t)) (bb_ballot_tallies bb) = Some t"
    using max_by_key_exists [OF assms(2)] by blast
  obtain pw pt where p: "pn_new pn (sw_stake_weight (bt_stake_weights t)) = Some pw" "pn_new pn total_w = Some pt"
    using precise_number.new_not_None [OF pn] by (metis option.exhaust)
  have v: "val pw = of_nat (unat (sw_stake_weight (bt_stake_weights t)))" "val pt = of_nat (unat total_w)"
    using precise_number.new_Some [OF pn] p by blast+
  obtain ratio where r: "pn_checked_div pn pw pt = Some ratio"
    using precise_number.div_defined [OF pn v(1) _ v(2)] assms(3) unat_less_pow [of "sw_stake_weight (bt_stake_weights t)"]
    by (auto simp: unat_eq_zero)
  obtain c where c: "precise_consensus pn = Inr c" using precise_number.consensus_defined [OF pn] by blast
  have "tally_votes pn bb total_w slot = Inr
      (if reaches_consensus (sw_total (bt_stake_weights t)) (unat total_w) \<and> \<not> ballot_is_valid (bb_winning_ballot bb)
       then bb\<lparr>bb_slot_consensus_reached := slot, bb_winning_ballot := bt_ballot t\<rparr> else bb)"
    using assms(4) ratio_test [OF pn p r c assms(3)]
    by (simp add: tally_votes_def t p r c set_winning_ballot_def sw_total_def)
  then show ?thesis using max_by_key_Some [OF t] by (auto simp: sw_total_def word_le_nat_alt)
qed

lemma tally_votes_no_stake:
  assumes pn: "precise_number pn val" and "bb_ballot_tallies bb \<noteq> []"
    and "bb_slot_consensus_reached bb = DEFAULT_CONSENSUS_REACHED_SLOT"
  shows "tally_votes pn bb 0 slot = Inl DenominatorIsZero"
proof -
  obtain t where t: "max_by_key (\<lambda>t. sw_stake_weight (bt_stake_weights t)) (bb_ballot_tallies bb) = Some t"
    using max_by_key_exists [OF assms(2)] by blast
  obtain pw pt where p: "pn_new pn (sw_stake_weight (bt_stake_weights t)) = Some pw" "pn_new pn 0 = Some pt"
    using precise_number.new_not_None [OF pn] by (metis option.exhaust)
  have "val pt = 0" using precise_number.new_Some [OF pn p(2)] by simp
  then have "pn_checked_div pn pw pt = None" using precise_number.div_zero [OF pn] by blast
  then show ?thesis using assms(3) by (simp add: tally_votes_def t p)
qed

lemma tally_votes_cases:
  assumes pn: "precise_number pn val" and "tally_votes pn bb total_w slot = Inr bb'"
  shows "bb' = bb \<or> (\<exists>t \<in> set (bb_ballot_tallies bb).
    bb' = bb\<lparr>bb_slot_consensus_reached := slot, bb_winning_ballot := bt_ballot t\<rparr> \<and>
    \<not> is_consensus_reached bb \<and> total_w \<noteq> 0 \<and> reaches_consensus (sw_total (bt_stake_weights t)) (unat total_w) \<and>
    (\<forall>t' \<in> set (bb_ballot_tallies bb). sw_total (bt_stake_weights t') \<le> sw_total (bt_stake_weights t)))"
proof (cases "bb_slot_consensus_reached bb = DEFAULT_CONSENSUS_REACHED_SLOT")
  case False
  then show ?thesis using assms(2) by (simp add: tally_votes_def)
next
  case True
  have ne: "bb_ballot_tallies bb \<noteq> []" using assms(2) True by (auto simp: tally_votes_def)
  have "total_w \<noteq> 0"
  proof
    assume "total_w = 0"
    then obtain pt pw ratio where pt: "pn_new pn 0 = Some pt" and "pn_checked_div pn pw pt = Some ratio"
      using assms(2) True ne by (auto simp: tally_votes_def res_simps split: option.splits)
    moreover have "val pt = 0" using precise_number.new_Some [OF pn pt] by simp
    ultimately show False using precise_number.div_zero [OF pn] by simp
  qed
  with tally_votes_eq [OF pn ne this True, of slot] assms(2) True show ?thesis
    by (auto simp: is_consensus_reached_def split: if_splits)
qed

section \<open>Reachable ballot boxes\<close>

inductive bb_step :: "'p precise_ops \<Rightarrow> ballot_box \<Rightarrow> ballot_box \<Rightarrow> bool" for pn where
  vote: "operator \<noteq> default_pubkey \<Longrightarrow> wf_stake_weights sw \<Longrightarrow>
    cast_vote bb operator b sw slot window = Inr bb' \<Longrightarrow> bb_step pn bb bb'"
| tally: "tally_votes pn bb total_w slot = Inr bb' \<Longrightarrow> bb_step pn bb bb'"
| tie_break: "set_tie_breaker_ballot bb r epoch stall = Inr bb' \<Longrightarrow> bb_step pn bb bb'"

inductive bb_reachable :: "'p precise_ops \<Rightarrow> ballot_box \<Rightarrow> bool" for pn where
  created: "bb_reachable pn (ballot_box_new ncn epoch bump slot)"
| stepped: "bb_reachable pn bb \<Longrightarrow> bb_step pn bb bb' \<Longrightarrow> bb_reachable pn bb'"

lemma cast_vote_frame:
  assumes "cast_vote bb operator b sw slot window = Inr bb'"
  shows "bb_winning_ballot bb' = bb_winning_ballot bb"
    "bb_slot_consensus_reached bb' = bb_slot_consensus_reached bb" "bb_epoch bb' = bb_epoch bb"
proof -
  have ioc: "bb_winning_ballot x = bb_winning_ballot bb \<and>
      bb_slot_consensus_reached x = bb_slot_consensus_reached bb \<and> bb_epoch x = bb_epoch bb"
    if "increment_or_create_ballot_tally bb b sw = Inr (x, i)" for x i
    using that by (auto simp: increment_or_create_ballot_tally_def res_simps split: option.splits)
  have w: "bb_winning_ballot y = bb_winning_ballot x \<and>
      bb_slot_consensus_reached y = bb_slot_consensus_reached x \<and> bb_epoch y = bb_epoch x"
    if "withdraw_vote x u v = Inr y" for x y u v
    using that by (auto simp: withdraw_vote_def Let_def res_simps split: if_splits)
  have "bb_winning_ballot bb' = bb_winning_ballot bb \<and>
      bb_slot_consensus_reached bb' = bb_slot_consensus_reached bb \<and> bb_epoch bb' = bb_epoch bb"
    using assms unfolding cast_vote_def rbind_Inr fail_if_Inr
    by (auto simp: Let_def res_simps dest!: ioc w split: option.splits if_splits)
  then show "bb_winning_ballot bb' = bb_winning_ballot bb"
    "bb_slot_consensus_reached bb' = bb_slot_consensus_reached bb" "bb_epoch bb' = bb_epoch bb" by auto
qed

lemma reaches_positive: "reaches_consensus w n \<Longrightarrow> 0 < n \<Longrightarrow> 0 < w"
  by (simp add: reaches_consensus_def)

lemma weight_valid:
  assumes "tally_state ts E u" and "t \<in> set ts" and "0 < sw_total (bt_stake_weights t)"
  shows "bt_is_valid t"
proof (rule ccontr)
  assume "\<not> bt_is_valid t"
  with assms(1,2) have "t = ballot_tally_default"
    using tally_stateD(1,6) by (metis in_set_conv_nth)
  then show False using assms(3) by (simp add: ballot_tally_default_def)
qed

lemma bb_inv_step:
  assumes pn: "precise_number pn val" and inv: "bb_inv bb" and step: "bb_step pn bb bb'"
  shows "bb_inv bb'"
  using step
proof cases
  case (vote operator sw b slot window)
  then show ?thesis using cast_vote_inv [OF inv] by blast
next
  case (tally total_w slot)
  from tally_votes_cases [OF pn tally] show ?thesis
  proof (elim disjE bexE conjE)
    fix t
    assume t: "t \<in> set (bb_ballot_tallies bb)" "total_w \<noteq> 0"
      "reaches_consensus (sw_total (bt_stake_weights t)) (unat total_w)"
      and bb': "bb' = bb\<lparr>bb_slot_consensus_reached := slot, bb_winning_ballot := bt_ballot t\<rparr>"
    have "0 < unat total_w" using t(2) by (simp add: unat_gt_0)
    then have "0 < sw_total (bt_stake_weights t)" by (rule reaches_positive [OF t(3)])
    then have "bt_is_valid t" using weight_valid inv t(1) by (auto simp: bb_inv_def)
    then have "has_ballot bb' (bb_winning_ballot bb')"
      using t(1) by (auto simp: bb' has_ballot_def list_ex_iff ballot_eq_def bt_is_valid_def)
    then show ?thesis using inv by (simp add: bb_inv_def bb')
  qed (use inv in simp)
next
  case (tie_break r epoch stall)
  then have "has_ballot bb (ballot_new r)" "bb' = bb\<lparr>bb_winning_ballot := ballot_new r\<rparr>"
    by (auto simp: set_tie_breaker_ballot_def res_simps set_winning_ballot_def Let_def)
  then show ?thesis using inv by (simp add: bb_inv_def has_ballot_def)
qed

lemma bb_reachable_inv:
  assumes pn: "precise_number pn val" and "bb_reachable pn bb"
  shows "bb_inv bb"
  using assms(2) by induction (auto intro: bb_inv_new bb_inv_step [OF pn])

lemma counted_filter:
  "counted vs k j = (\<Sum>v \<leftarrow> filter (\<lambda>v. unat (ov_ballot_index v) = j) vs. sw_reading k (ov_stake_weights v))"
  by (induction vs) (auto simp: counted_def contrib_def)

text \<open>C25. In every reachable ballot box each tally counts exactly the votes for it: their number,
  their stake weight, and their weight in each fee group; no two tallies in use have the same root;
  \<open>unique_ballots\<close> is the number of tallies in use, \<open>operators_voted\<close> the number of votes; and no
  operator has two votes.\<close>

theorem ballot_box_books:
  assumes "precise_number pn val" and "bb_reachable pn bb"
  shows "(\<forall>j < 256. let t = bb_ballot_tallies bb ! j;
        vs = filter (\<lambda>v. unat (ov_ballot_index v) = j) (bb_operator_votes bb)
      in unat (bt_tally t) = length vs \<and>
         sw_total (bt_stake_weights t) = (\<Sum>v \<leftarrow> vs. sw_total (ov_stake_weights v)) \<and>
         (\<forall>g < 8. sw_at (bt_stake_weights t) g = (\<Sum>v \<leftarrow> vs. sw_at (ov_stake_weights v) g)) \<and>
         (bt_is_valid t \<longleftrightarrow> vs \<noteq> [])) \<and>
    (\<forall>i < 256. \<forall>j < 256. ballot_eq (bt_ballot (bb_ballot_tallies bb ! i)) (bt_ballot (bb_ballot_tallies bb ! j)) \<longrightarrow> i = j) \<and>
    unat (bb_unique_ballots bb) = length (filter bt_is_valid (bb_ballot_tallies bb)) \<and>
    (\<forall>i < 256. ov_is_empty (bb_operator_votes bb ! i) \<longleftrightarrow> unat (bb_operators_voted bb) \<le> i) \<and>
    distinct (map ov_operator (take (unat (bb_operators_voted bb)) (bb_operator_votes bb)))"
proof -
  have inv: "votes_ok (bb_operator_votes bb) (unat (bb_operators_voted bb))"
    "tally_state (bb_ballot_tallies bb) (counted (bb_operator_votes bb)) (unat (bb_unique_ballots bb))"
    using bb_reachable_inv [OF assms] by (auto simp: bb_inv_def)
  note V = votes_okD [OF inv(1)] and T = tally_stateD [OF inv(2)]
  have read: "\<forall>k < 10. tally_reading k (bb_ballot_tallies bb ! j) =
      (\<Sum>v \<leftarrow> filter (\<lambda>v. unat (ov_ballot_index v) = j) (bb_operator_votes bb). sw_reading k (ov_stake_weights v))"
    if "j < 256" for j using T(4) [OF that] by (simp add: counted_filter)
  have valid: "bt_is_valid (bb_ballot_tallies bb ! j) \<longleftrightarrow>
      filter (\<lambda>v. unat (ov_ballot_index v) = j) (bb_operator_votes bb) \<noteq> []" if "j < 256" for j
    using T(5) [OF that] unfolding counted_filter
    by (cases "filter (\<lambda>v. unat (ov_ballot_index v) = j) (bb_operator_votes bb)") (simp_all add: sw_reading_def)
  have "ov_is_empty (bb_operator_votes bb ! i) \<longleftrightarrow> unat (bb_operators_voted bb) \<le> i" if "i < 256" for i
    using votes_ok_not_empty [OF inv(1), of i] V(7) [of i] that by (cases "i < unat (bb_operators_voted bb)") auto
  with read valid T(2,7) V(3) show ?thesis
    unfolding all_less_10 readings_unfold by (simp add: Let_def sum_list_triv)
qed

text \<open>C26. Once a box has a winner, nothing changes it: no later vote, tally or tie breaker, in any
  order, alters the winning ballot or the slot consensus was reached.\<close>

theorem winner_fixed:
  assumes "(bb_step pn)\<^sup>*\<^sup>* bb bb'" and "has_winning_ballot bb"
  shows "bb_winning_ballot bb' = bb_winning_ballot bb \<and>
    bb_slot_consensus_reached bb' = bb_slot_consensus_reached bb"
  using assms(1)
proof induction
  case (step bb1 bb2)
  have won: "ballot_is_valid (bb_winning_ballot bb1)" using step.IH assms(2) by (simp add: has_winning_ballot_def)
  from step.hyps(2) have "bb_winning_ballot bb2 = bb_winning_ballot bb1 \<and>
    bb_slot_consensus_reached bb2 = bb_slot_consensus_reached bb1"
  proof cases
    case (vote operator sw b slot window)
    then show ?thesis using cast_vote_frame by blast
  next
    case (tally total_w slot)
    then show ?thesis using won by (auto simp: tally_votes_def res_simps split: if_splits option.splits)
  next
    case (tie_break r epoch stall)
    then show ?thesis using won by (auto simp: set_tie_breaker_ballot_def is_consensus_reached_def res_simps)
  qed
  with step.IH show ?case by simp
qed simp

section \<open>Consensus\<close>

text \<open>Two tallies share the stake weight of the votes.\<close>

lemma two_tallies_le:
  assumes "i \<noteq> j"
  shows "counted vs 1 i + counted vs 1 j \<le> (\<Sum>v \<leftarrow> vs. sw_total (ov_stake_weights v))"
proof (induction vs)
  case Nil
  then show ?case by (simp add: counted_def)
next
  case (Cons v vs)
  have "contrib 1 i v + contrib 1 j v \<le> sw_total (ov_stake_weights v)"
    using assms by (simp add: contrib_def sw_reading_def)
  with Cons show ?case by (simp add: counted_def)
qed

lemma consensus_unique:
  assumes inv: "bb_inv bb" and "0 < n" and sum: "(\<Sum>v \<leftarrow> bb_operator_votes bb. sw_total (ov_stake_weights v)) \<le> n"
    and "t \<in> set (bb_ballot_tallies bb)" "reaches_consensus (sw_total (bt_stake_weights t)) n"
    and "t' \<in> set (bb_ballot_tallies bb)" "reaches_consensus (sw_total (bt_stake_weights t')) n"
  shows "t = t'"
proof -
  have ts: "tally_state (bb_ballot_tallies bb) (counted (bb_operator_votes bb)) (unat (bb_unique_ballots bb))"
    using inv by (simp add: bb_inv_def)
  obtain i j where ij: "i < 256" "t = bb_ballot_tallies bb ! i" "j < 256" "t' = bb_ballot_tallies bb ! j"
    using assms(4,6) tally_stateD(1) [OF ts] by (metis in_set_conv_nth)
  have w: "sw_total (bt_stake_weights t) = counted (bb_operator_votes bb) 1 i"
    "sw_total (bt_stake_weights t') = counted (bb_operator_votes bb) 1 j"
    using tally_stateD(4) [OF ts ij(1), of 1] tally_stateD(4) [OF ts ij(3), of 1] ij
    unfolding readings_unfold by simp_all
  have "i = j"
  proof (rule ccontr)
    assume "i \<noteq> j"
    then have "sw_total (bt_stake_weights t) + sw_total (bt_stake_weights t') \<le> n"
      using two_tallies_le [of i j "bb_operator_votes bb"] sum w by simp
    then show False using assms(2,5,7) by (simp add: reaches_consensus_def)
  qed
  then show ?thesis using ij by simp
qed

text \<open>C27. Tallying a box without a winner. Without stake it fails. Otherwise it returns: if no tally has 0.666666666666
  of the total (the fixed-point value of two thirds) nothing changes, else the ballot of a tally that has it and that
  none exceeds becomes the winner, with the current slot. When the total covers the weights of the votes only one
  tally can have that much.\<close>

theorem tally_votes_consensus:
  assumes pn: "precise_number pn val" and inv: "bb_inv bb" and open_box: "\<not> is_consensus_reached bb"
  shows "tally_votes pn bb 0 slot = Inl DenominatorIsZero \<and>
    (total_w \<noteq> 0 \<longrightarrow>
      (if \<exists>t \<in> set (bb_ballot_tallies bb). reaches_consensus (sw_total (bt_stake_weights t)) (unat total_w)
       then \<exists>t \<in> set (bb_ballot_tallies bb). reaches_consensus (sw_total (bt_stake_weights t)) (unat total_w) \<and>
         (\<forall>t' \<in> set (bb_ballot_tallies bb). sw_total (bt_stake_weights t') \<le> sw_total (bt_stake_weights t)) \<and>
         bt_is_valid t \<and>
         tally_votes pn bb total_w slot = Inr (bb\<lparr>bb_slot_consensus_reached := slot, bb_winning_ballot := bt_ballot t\<rparr>)
       else tally_votes pn bb total_w slot = Inr bb)) \<and>
    (total_w \<noteq> 0 \<and> (\<Sum>v \<leftarrow> bb_operator_votes bb. sw_total (ov_stake_weights v)) \<le> unat total_w \<longrightarrow>
      (\<forall>t \<in> set (bb_ballot_tallies bb). \<forall>t' \<in> set (bb_ballot_tallies bb).
        reaches_consensus (sw_total (bt_stake_weights t)) (unat total_w) \<and>
        reaches_consensus (sw_total (bt_stake_weights t')) (unat total_w) \<longrightarrow> t = t'))"
proof (intro conjI impI ballI)
  let ?reach = "\<lambda>t. reaches_consensus (sw_total (bt_stake_weights t)) (unat total_w)"
  have ts: "tally_state (bb_ballot_tallies bb) (counted (bb_operator_votes bb)) (unat (bb_unique_ballots bb))"
    using inv by (simp add: bb_inv_def)
  have ne: "bb_ballot_tallies bb \<noteq> []" using tally_stateD(1) [OF ts] by auto
  have slot: "bb_slot_consensus_reached bb = DEFAULT_CONSENSUS_REACHED_SLOT" "\<not> ballot_is_valid (bb_winning_ballot bb)"
    using open_box by (auto simp: is_consensus_reached_def)
  show "tally_votes pn bb 0 slot = Inl DenominatorIsZero" by (rule tally_votes_no_stake [OF pn ne slot(1)])
  {
    assume pos: "total_w \<noteq> 0"
    then have n: "0 < unat total_w" by (simp add: unat_gt_0)
    obtain t where t: "t \<in> set (bb_ballot_tallies bb)"
      and max: "\<forall>t' \<in> set (bb_ballot_tallies bb). sw_total (bt_stake_weights t') \<le> sw_total (bt_stake_weights t)"
      and eq: "tally_votes pn bb total_w slot = Inr (if ?reach t
         then bb\<lparr>bb_slot_consensus_reached := slot, bb_winning_ballot := bt_ballot t\<rparr> else bb)"
      using tally_votes_eq [OF pn ne pos slot(1), of slot] slot(2) by auto
    have "?reach t" if "t' \<in> set (bb_ballot_tallies bb)" "?reach t'" for t'
      using max that by (fastforce simp: reaches_consensus_def)
    moreover have "bt_is_valid t" if "?reach t" using weight_valid [OF ts t] reaches_positive [OF that n] by simp
    ultimately show "if \<exists>t \<in> set (bb_ballot_tallies bb). ?reach t
       then \<exists>t \<in> set (bb_ballot_tallies bb). ?reach t \<and>
         (\<forall>t' \<in> set (bb_ballot_tallies bb). sw_total (bt_stake_weights t') \<le> sw_total (bt_stake_weights t)) \<and>
         bt_is_valid t \<and>
         tally_votes pn bb total_w slot = Inr (bb\<lparr>bb_slot_consensus_reached := slot, bb_winning_ballot := bt_ballot t\<rparr>)
       else tally_votes pn bb total_w slot = Inr bb"
      using t max eq by auto
  }
  fix t t'
  assume sum: "total_w \<noteq> 0 \<and> (\<Sum>v \<leftarrow> bb_operator_votes bb. sw_total (ov_stake_weights v)) \<le> unat total_w"
    and "t \<in> set (bb_ballot_tallies bb)" "t' \<in> set (bb_ballot_tallies bb)" "?reach t \<and> ?reach t'"
  then show "t = t'" using consensus_unique [OF inv _ conjunct2 [OF sum]] by (simp add: unat_gt_0)
qed

text \<open>C28. The tie breaker: it is accepted only when the box has no winner and the voting has stalled
  for the configured number of epochs; it then makes a root the winner that some operator voted for,
  leaves every vote as it was, and no vote is accepted afterwards.\<close>

theorem tie_breaker_safe:
  assumes inv: "bb_inv bb" and tb: "set_tie_breaker_ballot bb r current_epoch stall = Inr bb'"
  shows "\<not> is_consensus_reached bb \<and> unat (bb_epoch bb) + unat stall \<le> unat current_epoch \<and>
    get_winning_ballot bb' = Inr (ballot_new r) \<and> voted bb' = voted bb \<and>
    (\<exists>operator sw. voted bb operator = Some (r, sw)) \<and>
    (\<forall>operator b sw slot window. cast_vote bb' operator b sw slot window = Inl VotingNotValid)"
proof -
  from tb obtain e where e: "unat e = unat (bb_epoch bb) + unat stall" "\<not> current_epoch < e"
    and nc: "\<not> is_consensus_reached bb" and has: "has_ballot bb (ballot_new r)"
    and bb': "bb' = bb\<lparr>bb_winning_ballot := ballot_new r\<rparr>"
    by (auto simp: set_tie_breaker_ballot_def res_simps checked_simps set_winning_ballot_def Let_def)
  have ts: "tally_state (bb_ballot_tallies bb) (counted (bb_operator_votes bb)) (unat (bb_unique_ballots bb))"
    and vs: "votes_ok (bb_operator_votes bb) (unat (bb_operators_voted bb))"
    using inv by (auto simp: bb_inv_def)
  from has obtain j where j: "j < 256" "ballot_eq (bt_ballot (bb_ballot_tallies bb ! j)) (ballot_new r)"
    using tally_stateD(1) [OF ts] by (auto simp: has_ballot_nth)
  then have valid: "bt_is_valid (bb_ballot_tallies bb ! j)" "ballot_is_valid (ballot_new r)"
    and root_j: "meta_merkle_root (bt_ballot (bb_ballot_tallies bb ! j)) = r"
    by (simp_all add: ballot_eq_def bt_is_valid_def ballot_new_def split: if_splits)
  have "0 < counted (bb_operator_votes bb) 0 j" using tally_stateD(5) [OF ts j(1)] valid by simp
  then have "filter (\<lambda>v. unat (ov_ballot_index v) = j) (bb_operator_votes bb) \<noteq> []"
    unfolding counted_filter by (intro notI) simp
  then obtain v where "v \<in> set (bb_operator_votes bb)" "unat (ov_ballot_index v) = j"
    by (auto simp: filter_empty_conv)
  then obtain i where i: "i < 256" "unat (ov_ballot_index (bb_operator_votes bb ! i)) = j"
    using votes_okD(1) [OF vs] by (metis in_set_conv_nth)
  then have "i < unat (bb_operators_voted bb)"
    using votes_okD(7) [OF vs, of i] j(1) by (fastforce simp: operator_vote_default_def)
  then have "\<exists>operator sw. voted bb operator = Some (r, sw)"
    using voted_Some [OF vs] i(2) root_j by (auto simp: vote_of_def Let_def)
  moreover have "tie_breaker_set bb'" using nc valid(2) by (auto simp: bb' tie_breaker_set_def is_consensus_reached_def)
  then have "cast_vote bb' operator b sw slot window = Inl VotingNotValid" for operator b sw slot window
    by (simp add: cast_vote_def is_voting_valid_def)
  moreover have "voted bb' = voted bb" by (auto simp: bb' voted_def)
  ultimately show ?thesis
    using nc e valid(2) by (simp add: word_less_nat_alt get_winning_ballot_def bb')
qed

text \<open>After consensus votes are final: the program accepts a vote only from an operator that has
  not voted yet, only for a non-zero root, and only while the window of slots after consensus is
  open; the winner stays what it was.\<close>

theorem votes_final_after_consensus:
  assumes inv: "bb_inv bb" and op: "operator \<noteq> default_pubkey" and sw: "wf_stake_weights sw"
    and reached: "bb_slot_consensus_reached bb \<noteq> DEFAULT_CONSENSUS_REACHED_SLOT"
    and cast: "cast_vote bb operator b sw slot window = Inr bb'"
  shows "voted bb operator = None \<and> ballot_is_valid b \<and>
    unat slot \<le> unat (bb_slot_consensus_reached bb) + unat window \<and>
    bb_winning_ballot bb' = bb_winning_ballot bb"
proof -
  have vs: "votes_ok (bb_operator_votes bb) (unat (bb_operators_voted bb))" using inv by (simp add: bb_inv_def)
  have cons: "is_consensus_reached bb" "\<not> tie_breaker_set bb"
    using reached by (auto simp: is_consensus_reached_def tie_breaker_set_def)
  have "ballot_is_valid b" "unat slot \<le> unat (bb_slot_consensus_reached bb) + unat window"
    using cast cons unfolding cast_vote_def rbind_Inr fail_if_Inr
    by (auto simp: is_voting_valid_def res_simps checked_simps word_le_nat_alt)
  moreover from inv op sw cast have "voted bb operator = None"
  proof (cases rule: cast_vote_steps)
    case (first_vote i t u)
    have "ov_operator (bb_operator_votes bb ! j) \<noteq> operator" if "j < unat (bb_operators_voted bb)" for j
      using first_vote(3) that votes_okD(1,2) [OF vs] by (fastforce simp: in_set_conv_nth image_iff)
    then show ?thesis using voted_Some [OF vs, of operator] by (cases "voted bb operator") auto
  next
    case (revote i t u s p d)
    then show ?thesis using cons by simp
  qed
  ultimately show ?thesis using cast_vote_frame [OF cast] by simp
qed

section \<open>Votes are accepted\<close>

lemma checked_add_exists: "unat a + unat b < 2 ^ LENGTH('a) \<Longrightarrow> \<exists>c. checked_add a (b :: 'a::len word) = Some c"
  by (simp add: checked_add_def)

lemma checked_sub_exists: "unat b \<le> unat a \<Longrightarrow> \<exists>c. checked_sub a b = Some c"
  by (simp add: checked_sub_def word_le_nat_alt)

lemma counted_le: "counted vs k j \<le> (\<Sum>v \<leftarrow> vs. sw_reading k (ov_stake_weights v))"
  unfolding counted_def by (rule sum_list_map_mono_nat) (simp add: contrib_def)

lemma increment_tally_total:
  assumes "wf_stake_weights (bt_stake_weights t)" and "unat (bt_tally t) + 1 < 2 ^ 64"
    and "\<And>k. 0 < k \<Longrightarrow> k < 10 \<Longrightarrow> tally_reading k t + sw_reading k sw < 2 ^ 128"
  shows "\<exists>t'. increment_tally t sw = Inr t'"
proof -
  obtain s where "stake_weights_increment (bt_stake_weights t) sw = Inr s"
    using stake_weights_increment_total [OF assms(1), of sw] assms(3) [of 1] assms(3) [of "i + 2" for i]
    unfolding readings_unfold by force
  moreover obtain n where "checked_add (bt_tally t) 1 = Some n"
    using checked_add_exists [of "bt_tally t" 1] assms(2) by auto
  ultimately show ?thesis by (simp add: increment_tally_def)
qed

lemma decrement_tally_total:
  assumes "wf_stake_weights (bt_stake_weights t)" and "\<And>k. k < 10 \<Longrightarrow> sw_reading k sw \<le> tally_reading k t"
  shows "\<exists>t'. decrement_tally t sw = Inr t'"
proof -
  obtain s where "stake_weights_decrement (bt_stake_weights t) sw = Inr s"
    using stake_weights_decrement_total [OF assms(1), of sw] assms(2) [of 1] assms(2) [of "i + 2" for i]
    unfolding readings_unfold by force
  moreover obtain n where "checked_sub (bt_tally t) 1 = Some n"
    using checked_sub_exists [of 1 "bt_tally t"] assms(2) [of 0] unfolding readings_unfold by auto
  ultimately show ?thesis by (simp add: decrement_tally_def)
qed

text \<open>With a free vote slot there is a free tally.\<close>

lemma free_tally:
  assumes vs: "votes_ok vs n" and ts: "tally_state ts (counted vs) u" and "n < 256"
  shows "\<exists>t \<in> set ts. \<not> bt_is_valid t"
proof (rule ccontr)
  assume all: "\<not> ?thesis"
  have "{..<256} \<subseteq> (\<lambda>i. unat (ov_ballot_index (vs ! i))) ` {..<n}"
  proof
    fix j :: nat
    assume "j \<in> {..<256}"
    then have "0 < counted vs 0 j" using all tally_stateD(1,5) [OF ts] by (metis lessThan_iff nth_mem)
    then have "filter (\<lambda>v. unat (ov_ballot_index v) = j) vs \<noteq> []" unfolding counted_filter by (intro notI) simp
    then obtain i where i: "i < 256" "unat (ov_ballot_index (vs ! i)) = j"
      using votes_okD(1) [OF vs] by (auto simp: filter_empty_conv in_set_conv_nth)
    then have "i < n" using votes_okD(7) [OF vs, of i] \<open>j \<in> {..<256}\<close>
      by (fastforce simp: operator_vote_default_def)
    with i show "j \<in> (\<lambda>i. unat (ov_ballot_index (vs ! i))) ` {..<n}" by auto
  qed
  then have "card {..<256::nat} \<le> card {..<n}" by (metis card_image_le card_mono finite_imageI finite_lessThan order.trans)
  then show False using assms(3) by simp
qed

lemma increment_or_create_total:
  assumes inv: "bb_inv bb" and n: "unat (bb_operators_voted bb) < 256"
    and room: "\<And>k. 0 < k \<Longrightarrow> k < 10 \<Longrightarrow>
      (\<Sum>v \<leftarrow> bb_operator_votes bb. sw_reading k (ov_stake_weights v)) + sw_reading k sw < 2 ^ 128"
  shows "\<exists>r. increment_or_create_ballot_tally bb b sw = Inr r"
proof -
  let ?ts = "bb_ballot_tallies bb" and ?vs = "bb_operator_votes bb"
  have ts: "tally_state ?ts (counted ?vs) (unat (bb_unique_ballots bb))"
    and vs: "votes_ok ?vs (unat (bb_operators_voted bb))" using inv by (auto simp: bb_inv_def)
  note T = tally_stateD [OF ts]
  show ?thesis
  proof (cases "find_idx (\<lambda>t. bt_is_valid t \<and> ballot_eq (bt_ballot t) b) ?ts")
    case (Some i)
    then have i: "i < 256" using find_idx_SomeD(1) T(1) by metis
    have "tally_reading k (?ts ! i) + sw_reading k sw < 2 ^ 128" if "0 < k" "k < 10" for k
      using room [OF that] counted_le [of ?vs k i] T(4) [OF i that(2)] by linarith
    moreover have "unat (bt_tally (?ts ! i)) \<le> 256"
      using T(4) [OF i, of 0] counted_le [of ?vs 0 i] votes_okD(1) [OF vs]
      unfolding readings_unfold by (simp add: sum_list_triv)
    ultimately obtain t where "increment_tally (?ts ! i) sw = Inr t"
      using increment_tally_total [OF T(3) [OF i]] by fastforce
    with Some show ?thesis by (simp add: increment_or_create_ballot_tally_def)
  next
    case None
    from free_tally [OF vs ts n] obtain i where "find_idx (\<lambda>t. \<not> bt_is_valid t) ?ts = Some i"
      using find_idx_exists by metis
    moreover have "unat (bb_unique_ballots bb) \<le> 256" using T(1,2) length_filter_le [of bt_is_valid ?ts] by simp
    then obtain m where "checked_add (bb_unique_ballots bb) 1 = Some m"
      using checked_add_exists [of "bb_unique_ballots bb" 1] by auto
    ultimately show ?thesis using None by (simp add: increment_or_create_ballot_tally_def)
  qed
qed

lemma withdraw_vote_total:
  assumes ts: "tally_state (bb_ballot_tallies bb) E (unat (bb_unique_ballots bb))"
    and p: "unat (ov_ballot_index v) < 256"
    and E: "\<And>k. k < 10 \<Longrightarrow> sw_reading k (ov_stake_weights v) \<le> E k (unat (ov_ballot_index v))"
  shows "\<exists>bb'. withdraw_vote bb (bb_unique_ballots bb) v = Inr bb'"
proof -
  let ?p = "unat (ov_ballot_index v)" and ?ts = "bb_ballot_tallies bb"
  note T = tally_stateD [OF ts]
  have "sw_reading k (ov_stake_weights v) \<le> tally_reading k (?ts ! ?p)" if "k < 10" for k
    using E [OF that] T(4) [OF p that] by simp
  then obtain d where d: "decrement_tally (?ts ! ?p) (ov_stake_weights v) = Inr d"
    using decrement_tally_total [OF T(3) [OF p]] by blast
  have "bt_is_valid (?ts ! ?p)" using T(5) [OF p] E [of 0] by (simp add: sw_reading_def)
  then have "filter bt_is_valid ?ts \<noteq> []" using T(1) p by (auto simp: filter_empty_conv)
  then have "1 \<le> unat (bb_unique_ballots bb)" using T(2) by (simp add: Suc_le_eq)
  then obtain m where "checked_sub (bb_unique_ballots bb) 1 = Some m"
    using checked_sub_exists [of 1 "bb_unique_ballots bb"] by auto
  then show ?thesis using d p T(1) by (simp add: withdraw_vote_def Let_def)
qed

lemma cast_vote_total:
  assumes inv: "bb_inv bb" and op: "operator \<noteq> default_pubkey" and sw: "wf_stake_weights sw"
    and b: "ballot_is_valid b" and open_box: "is_voting_valid bb slot window = Inr True"
    and n: "unat (bb_operators_voted bb) < 256"
    and who: "voted bb operator = None \<or> \<not> is_consensus_reached bb"
    and room: "\<And>k. 0 < k \<Longrightarrow> k < 10 \<Longrightarrow>
      (\<Sum>v \<leftarrow> bb_operator_votes bb. sw_reading k (ov_stake_weights v)) + sw_reading k sw < 2 ^ 128"
  shows "\<exists>bb'. cast_vote bb operator b sw slot window = Inr bb'"
proof -
  let ?vs = "bb_operator_votes bb" and ?n = "unat (bb_operators_voted bb)"
  have ts: "tally_state (bb_ballot_tallies bb) (counted ?vs) (unat (bb_unique_ballots bb))"
    and vs: "votes_ok ?vs ?n" using inv by (auto simp: bb_inv_def)
  obtain bb1 i where ioc: "increment_or_create_ballot_tally bb b sw = Inr (bb1, i)"
    using increment_or_create_total [OF inv n room] by (metis surj_pair)
  from increment_or_create_state [OF ts b sw ioc] obtain t u where
    bb1: "bb1 = bb\<lparr>bb_ballot_tallies := (bb_ballot_tallies bb)[i := t], bb_unique_ballots := u\<rparr>"
    and ts1: "tally_state ((bb_ballot_tallies bb)[i := t]) (\<lambda>k j. counted ?vs k j + (if i = j then sw_reading k sw else 0)) (unat u)"
    by blast
  obtain s where s: "find_idx (\<lambda>v. ov_operator v = operator \<or> ov_is_empty v) ?vs = Some s"
    using find_vote_exists [OF vs] n by blast
  have cons: "is_consensus_reached bb1 = is_consensus_reached bb" by (simp add: bb1 is_consensus_reached_def)
  from find_vote [OF vs op s] show ?thesis
  proof (elim disjE conjE)
    assume slot: "s < ?n" "ov_operator (?vs ! s) = operator"
    then have "voted bb operator = Some (vote_of bb s)" using voted_Some [OF vs] by blast
    then have nc: "\<not> is_consensus_reached bb" using who by simp
    have "sw_reading k (ov_stake_weights (?vs ! s)) \<le> counted ?vs k (unat (ov_ballot_index (?vs ! s)))" for k
      unfolding counted_def using nth_le_sum_list_map [of s ?vs "contrib k (unat (ov_ballot_index (?vs ! s)))"]
        slot votes_okD(1,2) [OF vs] by (simp add: contrib_def)
    then have "sw_reading k (ov_stake_weights (?vs ! s)) \<le>
        counted ?vs k (unat (ov_ballot_index (?vs ! s))) + (if i = unat (ov_ballot_index (?vs ! s)) then sw_reading k sw else 0)" for k
      by (rule trans_le_add1)
    moreover have "tally_state (bb_ballot_tallies bb1)
        (\<lambda>k j. counted ?vs k j + (if i = j then sw_reading k sw else 0)) (unat (bb_unique_ballots bb1))"
      using ts1 bb1 by simp
    ultimately obtain bb2 where "withdraw_vote bb1 (bb_unique_ballots bb1) (?vs ! s) = Inr bb2"
      using withdraw_vote_total [OF _ votes_okD(4) [OF vs slot(1)]] by blast
    then show ?thesis
      using open_box b ioc s slot nc cons bb1 by (simp add: cast_vote_def Let_def)
  next
    assume slot: "s = ?n" "?vs ! s = operator_vote_default"
    obtain m where "checked_add (bb_operators_voted bb) 1 = Some m"
      using checked_add_exists [of "bb_operators_voted bb" 1] n by auto
    then show ?thesis
      using open_box b ioc s slot op bb1 by (simp add: cast_vote_def Let_def operator_vote_default_def)
  qed
qed


text \<open>What the book of votes takes: voting is open, the ballot is one, and an operator that has voted does not vote
  again once there is a consensus. There is room for it if not all have voted and the weights fit.\<close>

definition vote_allowed :: "ballot_box \<Rightarrow> pubkey \<Rightarrow> ballot \<Rightarrow> u64 \<Rightarrow> u64 \<Rightarrow> bool" where
  "vote_allowed bb operator b slot window \<longleftrightarrow> is_voting_valid bb slot window = Inr True \<and> ballot_is_valid b \<and>
    (voted bb operator = None \<or> \<not> is_consensus_reached bb)"

definition room_for_vote :: "ballot_box \<Rightarrow> stake_weights \<Rightarrow> bool" where
  "room_for_vote bb sw \<longleftrightarrow> unat (bb_operators_voted bb) < 256 \<and>
    (\<forall>k \<in> {1..<10}. (\<Sum>v \<leftarrow> bb_operator_votes bb. sw_reading k (ov_stake_weights v)) + sw_reading k sw < 2 ^ 128)"

lemma cast_vote_revote:
  assumes inv: "bb_inv bb" and op: "operator \<noteq> default_pubkey"
    and b: "ballot_is_valid b" and open_box: "is_voting_valid bb slot window = Inr True"
    and reached: "voted bb operator \<noteq> None" "is_consensus_reached bb"
    and ioc: "increment_or_create_ballot_tally bb b sw = Inr (bb1, i)"
  shows "cast_vote bb operator b sw slot window = Inl ConsensusAlreadyReached"
proof -
  let ?vs = "bb_operator_votes bb" and ?n = "unat (bb_operators_voted bb)"
  have vs: "votes_ok ?vs ?n" using inv by (auto simp: bb_inv_def)
  from ioc have bb1: "bb_operator_votes bb1 = ?vs" "is_consensus_reached bb1 = is_consensus_reached bb"
    by (auto simp: increment_or_create_ballot_tally_def rbind_Inr is_consensus_reached_def split: option.splits)
  obtain j where j: "j < ?n" "ov_operator (?vs ! j) = operator" using reached(1) voted_Some [OF vs] by auto
  then have "operator \<in> ov_operator ` set (take ?n ?vs)"
    using votes_okD(1,2) [OF vs] by (metis image_eqI in_set_conv_nth length_take min.absorb2 nth_take)
  then obtain s where s: "find_idx (\<lambda>v. ov_operator v = operator \<or> ov_is_empty v) ?vs = Some s"
    and "operator \<in> ov_operator ` set (take ?n ?vs)" using find_vote_exists [OF vs] by blast
  then have "ov_operator (?vs ! s) = operator" using find_vote [OF vs op s] by blast
  then show ?thesis using open_box b ioc bb1 s reached(2) by (simp add: cast_vote_def Let_def)
qed

lemma cast_vote_allowed:
  assumes inv: "bb_inv bb" and op: "operator \<noteq> default_pubkey"
    and cast: "cast_vote bb operator b sw slot window = Inr bb'"
  shows "vote_allowed bb operator b slot window"
proof -
  have ok: "is_voting_valid bb slot window = Inr True" "ballot_is_valid b"
    and "\<exists>r. increment_or_create_ballot_tally bb b sw = Inr r"
    using cast by (auto simp: cast_vote_def rbind_Inr fail_if_Inr)
  then obtain bb1 i where "increment_or_create_ballot_tally bb b sw = Inr (bb1, i)" by (metis surj_pair)
  then show ?thesis using cast_vote_revote [OF inv op ok(2,1)] cast ok by (fastforce simp: vote_allowed_def)
qed

text \<open>C24. Refinement: the ballot box seen as a map from operators to votes is the book of votes. A vote that is
  accepted was allowed, sets the entry of its operator to the ballot and the weights of the call, and changes no
  other vote and not the winner; and while there is room a vote is refused only for what the book refuses it, with
  the error for it: voting that is over, a ballot that is none, or a second vote after the consensus.\<close>

theorem cast_vote_refines:
  assumes "bb_inv bb" and "operator \<noteq> default_pubkey" and "wf_stake_weights sw"
  shows "case cast_vote bb operator b sw slot window of
      Inr bb' \<Rightarrow> vote_allowed bb operator b slot window \<and> voted bb' = (voted bb)(operator \<mapsto> (meta_merkle_root b, sw)) \<and>
        bb_winning_ballot bb' = bb_winning_ballot bb \<and> bb_slot_consensus_reached bb' = bb_slot_consensus_reached bb
    | Inl e \<Rightarrow> room_for_vote bb sw \<longrightarrow> is_voting_valid bb slot window = Inl e \<or>
        is_voting_valid bb slot window = Inr False \<and> e = VotingNotValid \<or>
        is_voting_valid bb slot window = Inr True \<and> \<not> ballot_is_valid b \<and> e = BadBallot \<or>
        is_voting_valid bb slot window = Inr True \<and> ballot_is_valid b \<and> voted bb operator \<noteq> None \<and>
          is_consensus_reached bb \<and> e = ConsensusAlreadyReached"
proof (cases "cast_vote bb operator b sw slot window")
  case (Inr bb')
  then show ?thesis
    using cast_vote_allowed [OF assms(1,2) Inr] cast_vote_voted [OF assms Inr] cast_vote_frame [OF Inr] by simp
next
  case (Inl e)
  have "is_voting_valid bb slot window = Inr True \<and> ballot_is_valid b \<Longrightarrow> room_for_vote bb sw \<Longrightarrow>
      voted bb operator \<noteq> None \<and> is_consensus_reached bb \<and> e = ConsensusAlreadyReached"
  proof (elim conjE)
    assume ok: "is_voting_valid bb slot window = Inr True" "ballot_is_valid b" and "room_for_vote bb sw"
    then have n: "unat (bb_operators_voted bb) < 256" and room: "\<And>k. 0 < k \<Longrightarrow> k < 10 \<Longrightarrow>
      (\<Sum>v \<leftarrow> bb_operator_votes bb. sw_reading k (ov_stake_weights v)) + sw_reading k sw < 2 ^ 128"
      by (auto simp: room_for_vote_def)
    have again: "voted bb operator \<noteq> None" "is_consensus_reached bb"
      using cast_vote_total [OF assms ok(2,1) n _ room] Inl by fastforce+
    obtain bb1 i where "increment_or_create_ballot_tally bb b sw = Inr (bb1, i)"
      using increment_or_create_total [OF assms(1) n room] by (metis surj_pair)
    from cast_vote_revote [OF assms(1,2) ok(2,1) again this] again Inl
    show "voted bb operator \<noteq> None \<and> is_consensus_reached bb \<and> e = ConsensusAlreadyReached" by simp
  qed
  moreover have "is_voting_valid bb slot window = Inl e \<or>
      is_voting_valid bb slot window = Inr False \<and> e = VotingNotValid \<or>
      is_voting_valid bb slot window = Inr True \<and> \<not> ballot_is_valid b \<and> e = BadBallot \<or>
      is_voting_valid bb slot window = Inr True \<and> ballot_is_valid b"
    using Inl by (cases "is_voting_valid bb slot window") (auto simp: cast_vote_def fail_if_def split: if_splits)
  ultimately show ?thesis using Inl by auto
qed

section \<open>A small election\<close>

text \<open>Operator \<open>[7]\<close> votes for root \<open>[5]\<close> with stake weight 7.\<close>

definition fresh_box :: ballot_box where
  "fresh_box = ballot_box_new [1] 10 255 40"

definition first_vote_box :: ballot_box where
  "first_vote_box = fresh_box\<lparr>bb_operators_voted := 1, bb_unique_ballots := 1,
    bb_operator_votes := operator_vote_new 0 [7] 41 (stake_weights_new 7) # replicate 255 operator_vote_default,
    bb_ballot_tallies := ballot_tally_new 0 (ballot_new [5]) (stake_weights_new 7) # replicate 255 ballot_tally_default\<rparr>"

lemma replicate_256: "replicate 256 x = x # replicate 255 x"
  using replicate_Suc [of 255 x] by (simp del: replicate_Suc)

lemma wf_stake_weights_new [simp]: "wf_stake_weights (stake_weights_new w)"
  "sw_total (stake_weights_new w) = unat w" "i < 8 \<Longrightarrow> sw_at (stake_weights_new w) i = 0"
  by (simp_all add: sw_defs stake_weights_new_def FEE_GROUP_COUNT_def ncn_fee_group_weight_default_def)

lemma sample_keys [simp]: "[x] \<noteq> default_pubkey" "default_pubkey \<noteq> [x]"
  by (simp_all add: default_pubkey_def numeral_eq_Suc)

lemma sample_ballot: "x \<noteq> 0 \<Longrightarrow> ballot_is_valid (ballot_new [x])" "meta_merkle_root (ballot_new [x]) = [x]"
  by (simp_all add: ballot_new_def)

lemmas box_defs = fresh_box_def first_vote_box_def ballot_box_new_def cast_vote_def is_voting_valid_def
  tie_breaker_set_def is_consensus_reached_def increment_or_create_ballot_tally_def MAX_OPERATORS_def

lemma first_vote_cast:
  "cast_vote fresh_box [7] (ballot_new [5]) (stake_weights_new 7) 41 1000 = Inr first_vote_box"
  by (simp add: box_defs sample_ballot replicate_256 checked_add_def operator_vote_default_def ov_is_empty_def)

lemma fresh_box_inv: "bb_inv fresh_box"
  by (simp add: fresh_box_def bb_inv_new)

lemma first_vote_box_inv: "bb_inv first_vote_box"
  by (rule cast_vote_inv [OF fresh_box_inv _ _ first_vote_cast]) simp_all

theorem cast_vote_refines_witness: "voted first_vote_box [7] = Some ([5], stake_weights_new 7)"
  using cast_vote_refines [OF fresh_box_inv, where operator = "[7]" and sw = "stake_weights_new 7" and b = "ballot_new [5]" and slot = 41 and window = 1000] first_vote_cast
  by (simp add: sample_ballot)

theorem ballot_box_books_witness: "unat (bb_unique_ballots first_vote_box) =
    length (filter bt_is_valid (bb_ballot_tallies first_vote_box))"
proof -
  have "bb_reachable fixed12 first_vote_box"
    unfolding fresh_box_def using bb_step.vote [OF _ _ first_vote_cast, of fixed12]
    by (intro bb_reachable.stepped [OF bb_reachable.created [of fixed12 "[1]" 10 255 40]])
      (simp add: fresh_box_def [symmetric])
  from ballot_box_books [OF fixed12.precise_number_axioms this] show ?thesis by blast
qed

lemma first_vote_box_total: "(\<Sum>v \<leftarrow> bb_operator_votes first_vote_box. sw_reading k (ov_stake_weights v)) + sw_reading k s =
    sw_reading k (stake_weights_new 7) + 255 * sw_reading k stake_weights_default + sw_reading k s"
  by (simp add: first_vote_box_def operator_vote_default_def sum_list_replicate)

theorem tally_votes_consensus_witness:
  "\<exists>bb'. tally_votes fixed12 first_vote_box 9 42 = Inr bb' \<and> is_consensus_reached bb'"
proof -
  have "\<not> is_consensus_reached first_vote_box" by (simp add: box_defs)
  moreover have "(\<Sum>v \<leftarrow> bb_operator_votes first_vote_box. sw_total (ov_stake_weights v)) \<le> unat (9 :: u128)"
    by (simp add: first_vote_box_def operator_vote_default_def sum_list_replicate)
  moreover have "\<exists>t \<in> set (bb_ballot_tallies first_vote_box).
      reaches_consensus (sw_total (bt_stake_weights t)) (unat (9 :: u128))"
    by (simp add: first_vote_box_def ballot_tally_new_def reaches_consensus_def)
  ultimately show ?thesis
    using tally_votes_consensus [OF fixed12.precise_number_axioms first_vote_box_inv, where total_w = 9 and slot = 42]
    by (auto simp: is_consensus_reached_def DEFAULT_CONSENSUS_REACHED_SLOT_def)
qed

text \<open>The tie breaker picks the root of the only vote, three epochs later.\<close>

lemma tie_break_sample:
  "set_tie_breaker_ballot first_vote_box [5] 13 3 = Inr (first_vote_box\<lparr>bb_winning_ballot := ballot_new [5]\<rparr>)"
  by (simp add: set_tie_breaker_ballot_def Let_def box_defs checked_add_def set_winning_ballot_def has_ballot_def
      ballot_tally_new_def ballot_eq_def sample_ballot)

theorem tie_breaker_safe_witness:
  "cast_vote (first_vote_box\<lparr>bb_winning_ballot := ballot_new [5]\<rparr>) [8] (ballot_new [6]) (stake_weights_new 1) 50 1000
    = Inl VotingNotValid"
  using tie_breaker_safe [OF first_vote_box_inv tie_break_sample] by blast

definition decided_box :: ballot_box where
  "decided_box = first_vote_box\<lparr>bb_slot_consensus_reached := 42, bb_winning_ballot := ballot_new [5]\<rparr>"

lemma decided_box_inv: "bb_inv decided_box"
  using first_vote_box_inv
  by (simp add: bb_inv_def decided_box_def has_ballot_def first_vote_box_def ballot_tally_new_def ballot_eq_def sample_ballot)

lemma decided_box_vote:
  "\<exists>bb'. cast_vote decided_box [8] (ballot_new [6]) (stake_weights_new 1) 50 1000 = Inr bb'"
  by (simp add: box_defs decided_box_def sample_ballot checked_add_def operator_vote_default_def
      DEFAULT_CONSENSUS_REACHED_SLOT_def ballot_tally_new_def bt_is_valid_def ballot_eq_def ballot_new_def
      operator_vote_new_def ov_is_empty_def Let_def ballot_default_invalid [unfolded bt_is_valid_def])

theorem winner_fixed_witness:
  "\<exists>bb'. bb_step fixed12 decided_box bb' \<and> bb_winning_ballot bb' = ballot_new [5] \<and>
    bb_slot_consensus_reached bb' = 42"
proof -
  from decided_box_vote obtain bb' where
    "cast_vote decided_box [8] (ballot_new [6]) (stake_weights_new 1) 50 1000 = Inr bb'" ..
  then have step: "bb_step fixed12 decided_box bb'" by (intro bb_step.vote) simp_all
  have "has_winning_ballot decided_box" by (simp add: has_winning_ballot_def decided_box_def sample_ballot)
  from winner_fixed [OF r_into_rtranclp [where r = "bb_step fixed12", OF step] this] step show ?thesis
    by (auto simp: decided_box_def)
qed

theorem votes_final_after_consensus_witness:
  "\<exists>bb'. cast_vote decided_box [8] (ballot_new [6]) (stake_weights_new 1) 50 1000 = Inr bb' \<and>
    voted decided_box [8] = None \<and> bb_winning_ballot bb' = ballot_new [5]"
proof -
  from decided_box_vote obtain bb' where
    cast: "cast_vote decided_box [8] (ballot_new [6]) (stake_weights_new 1) 50 1000 = Inr bb'" ..
  have "bb_slot_consensus_reached decided_box \<noteq> DEFAULT_CONSENSUS_REACHED_SLOT"
    by (simp add: decided_box_def DEFAULT_CONSENSUS_REACHED_SLOT_def)
  from votes_final_after_consensus [OF decided_box_inv _ _ this cast] cast show ?thesis
    by (simp add: decided_box_def)
qed


end
