(* ===== verification/Base_Split.thy ===== *)
theory Base_Split
  imports Base_Routing
begin

text \<open>
  The split of the reward pool in closed form: every base and every NCN fee group gets its floored
  share of the pool, the DAO the remainder, and the split never fails on a router the program can
  reach.
\<close>

section \<open>The loop over the groups\<close>

definition handed :: "(nat \<Rightarrow> nat) \<Rightarrow> (nat \<Rightarrow> nat) \<Rightarrow> nat \<Rightarrow> nat \<Rightarrow> nat" where
  "handed b n k m = (\<Sum>i<k. b i) + (\<Sum>i<m. n i)"

lemma handed_0 [simp]: "handed b n 0 0 = 0"
  by (simp add: handed_def)

lemma handed_Suc: "handed b n (Suc k) m = handed b n k m + b k" "handed b n k (Suc m) = handed b n k m + n m"
  by (simp_all add: handed_def)

text \<open>The state of the router \<open>s\<close> once \<open>k\<close> base groups and \<open>m\<close> NCN groups have their shares \<open>b\<close> and
  \<open>n\<close> out of the pool of \<open>r\<close>.\<close>

definition split_state ::
    "base_reward_router \<Rightarrow> (nat \<Rightarrow> nat) \<Rightarrow> (nat \<Rightarrow> nat) \<Rightarrow> nat \<Rightarrow> nat \<Rightarrow> base_reward_router \<Rightarrow> bool" where
  "split_state r b n k m s \<longleftrightarrow>
    br_ncn_fee_group_reward_routes s = br_ncn_fee_group_reward_routes r \<and>
    br_total_rewards s = br_total_rewards r \<and>
    length (br_base_fee_group_rewards s) = 8 \<and> length (br_ncn_fee_group_rewards s) = 8 \<and>
    amount (br_reward_pool s) = amount (br_reward_pool r) - int (handed b n k m) \<and>
    amount (br_rewards_processed s) = amount (br_rewards_processed r) + int (handed b n k m) \<and>
    (\<forall>i<8. amount (brw_rewards (br_base_fee_group_rewards s ! i)) =
      amount (brw_rewards (br_base_fee_group_rewards r ! i)) + int (if i < k then b i else 0)) \<and>
    (\<forall>i<8. amount (brw_rewards (br_ncn_fee_group_rewards s ! i)) =
      amount (brw_rewards (br_ncn_fee_group_rewards r ! i)) + int (if i < m then n i else 0))"

text \<open>No lamport of the pool can overflow a bucket or the rewards processed.\<close>

definition room :: "base_reward_router \<Rightarrow> bool" where
  "room r \<longleftrightarrow> length (br_base_fee_group_rewards r) = 8 \<and> length (br_ncn_fee_group_rewards r) = 8 \<and>
    amount (br_rewards_processed r) + amount (br_reward_pool r) < 2 ^ 64 \<and>
    (\<forall>i<8. amount (brw_rewards (br_base_fee_group_rewards r ! i)) + amount (br_reward_pool r) < 2 ^ 64) \<and>
    (\<forall>i<8. amount (brw_rewards (br_ncn_fee_group_rewards r ! i)) + amount (br_reward_pool r) < 2 ^ 64)"

lemma amount_eq_plus: "amount a = amount b + int c \<longleftrightarrow> unat a = unat b + c"
  unfolding amount_def of_nat_add [symmetric] of_nat_eq_iff ..

lemma amount_eq_sum: "amount c = amount a + amount b \<longleftrightarrow> unat c = unat a + unat b"
  unfolding amount_def of_nat_add [symmetric] of_nat_eq_iff ..

lemma amount_add_less: "amount a + amount b < 2 ^ 64 \<longleftrightarrow> unat a + unat b < 2 ^ 64"
proof -
  have "int (unat a + unat b) < int (2 ^ 64) \<longleftrightarrow> unat a + unat b < 2 ^ 64" by (simp only: of_nat_less_iff)
  then show ?thesis unfolding amount_def by simp
qed

lemma split_start: "room r \<Longrightarrow> split_state r b n 0 0 r"
  by (simp add: split_state_def room_def)

lemma pool_take:
  assumes "amount x \<le> amount (br_reward_pool s)" and "amount (br_rewards_processed s) + amount x < 2 ^ 64"
  shows "\<exists>t. br_route_from_reward_pool s x = Inr t \<and>
    (\<exists>pool n. t = s\<lparr>br_reward_pool := pool, br_rewards_processed := n\<rparr> \<and>
      amount pool = amount (br_reward_pool s) - amount x \<and>
      amount n = amount (br_rewards_processed s) + amount x)"
proof (cases "x = 0")
  case True
  then show ?thesis
    by (intro exI [of _ s] conjI exI [of _ "br_reward_pool s"] exI [of _ "br_rewards_processed s"])
      (simp_all add: br_route_from_reward_pool_def)
next
  case False
  obtain pool n where "checked_sub (br_reward_pool s) x = Some pool" "checked_add (br_rewards_processed s) x = Some n"
    using checked_sub_amount_exists [OF assms(1)] checked_add_amount_exists [OF assms(2)] by blast
  with False show ?thesis
    by (intro exI [of _ "s\<lparr>br_reward_pool := pool, br_rewards_processed := n\<rparr>"] conjI exI [of _ pool] exI [of _ n])
      (simp_all add: br_route_from_reward_pool_def br_increment_rewards_processed_def amount_simps [symmetric])
qed

lemma base_put:
  assumes "i < 8" and "amount (brw_rewards (br_base_fee_group_rewards s ! i)) + amount x < 2 ^ 64"
  shows "\<exists>v. br_route_to_base_fee_group_rewards s (base_fee_group_all_groups ! i) x =
      Inr (s\<lparr>br_base_fee_group_rewards := (br_base_fee_group_rewards s)[i := (br_base_fee_group_rewards s ! i)\<lparr>brw_rewards := v\<rparr>]\<rparr>) \<and>
    amount v = amount (brw_rewards (br_base_fee_group_rewards s ! i)) + amount x"
proof (cases "x = 0")
  case True
  then show ?thesis by (intro exI [of _ "brw_rewards (br_base_fee_group_rewards s ! i)"])
      (simp add: br_route_to_base_fee_group_rewards_def)
next
  case False
  obtain v where "checked_add (brw_rewards (br_base_fee_group_rewards s ! i)) x = Some v"
    using checked_add_amount_exists [OF assms(2)] by blast
  with False bg.index_all [OF assms(1)] show ?thesis
    by (intro exI [of _ v]) (simp add: br_route_to_base_fee_group_rewards_def br_base_fee_group_reward_def amount_simps [symmetric])
qed

lemma ncn_put:
  assumes "i < 8" and "amount (brw_rewards (br_ncn_fee_group_rewards s ! i)) + amount x < 2 ^ 64"
  shows "\<exists>v. br_route_to_ncn_fee_group_rewards s (ncn_fee_group_all_groups ! i) x =
      Inr (s\<lparr>br_ncn_fee_group_rewards := (br_ncn_fee_group_rewards s)[i := (br_ncn_fee_group_rewards s ! i)\<lparr>brw_rewards := v\<rparr>]\<rparr>) \<and>
    amount v = amount (brw_rewards (br_ncn_fee_group_rewards s ! i)) + amount x"
proof (cases "x = 0")
  case True
  then show ?thesis by (intro exI [of _ "brw_rewards (br_ncn_fee_group_rewards s ! i)"])
      (simp add: br_route_to_ncn_fee_group_rewards_def)
next
  case False
  obtain v where "checked_add (brw_rewards (br_ncn_fee_group_rewards s ! i)) x = Some v"
    using checked_add_amount_exists [OF assms(2)] by blast
  with False ng.index_all [OF assms(1)] show ?thesis
    by (intro exI [of _ v]) (simp add: br_route_to_ncn_fee_group_rewards_def br_ncn_fee_group_reward_def amount_simps [symmetric])
qed

lemma split_base_step:
  assumes s: "split_state r b n k m s" and k: "k < 8" and room: "room r"
    and fits: "handed b n (Suc k) m \<le> unat (br_reward_pool r)" and x: "unat x = b k"
  shows "\<exists>t. rbind (br_route_from_reward_pool s x) (\<lambda>s.
      br_route_to_base_fee_group_rewards s (base_fee_group_all_groups ! k) x) = Inr t \<and>
    split_state r b n (Suc k) m t"
proof -
  have ax: "amount x = int (b k)" using x by (simp add: amount_def)
  have fit: "int (handed b n k m) + amount x \<le> amount (br_reward_pool r)"
    using fits unfolding amount_def x handed_Suc of_nat_add [symmetric] of_nat_le_iff .
  have sk: "amount (br_reward_pool s) = amount (br_reward_pool r) - int (handed b n k m)"
    "amount (br_rewards_processed s) = amount (br_rewards_processed r) + int (handed b n k m)"
    "amount (brw_rewards (br_base_fee_group_rewards s ! k)) = amount (brw_rewards (br_base_fee_group_rewards r ! k))"
    using s k by (auto simp: split_state_def)
  have rm: "amount (br_rewards_processed r) + amount (br_reward_pool r) < 2 ^ 64"
    "amount (brw_rewards (br_base_fee_group_rewards r ! k)) + amount (br_reward_pool r) < 2 ^ 64"
    using room k by (auto simp: room_def)
  obtain pool p where take: "br_route_from_reward_pool s x = Inr (s\<lparr>br_reward_pool := pool, br_rewards_processed := p\<rparr>)"
    and pool: "amount pool = amount (br_reward_pool s) - amount x"
    and p: "amount p = amount (br_rewards_processed s) + amount x"
    using pool_take [of x s] sk fit rm by (smt (verit))
  let ?s = "s\<lparr>br_reward_pool := pool, br_rewards_processed := p\<rparr>"
  have "amount (brw_rewards (br_base_fee_group_rewards ?s ! k)) + amount x < 2 ^ 64"
    using sk(3) fit rm(2) by simp
  then obtain v where put: "br_route_to_base_fee_group_rewards ?s (base_fee_group_all_groups ! k) x =
      Inr (?s\<lparr>br_base_fee_group_rewards := (br_base_fee_group_rewards s)[k := (br_base_fee_group_rewards s ! k)\<lparr>brw_rewards := v\<rparr>]\<rparr>)"
    and v: "amount v = amount (brw_rewards (br_base_fee_group_rewards s ! k)) + amount x"
    using base_put [OF k, of ?s x] by auto
  show ?thesis
    using s pool p v ax k by (auto simp: take put split_state_def handed_Suc nth_list_update less_Suc_eq)
qed

lemma split_ncn_step:
  assumes s: "split_state r b n k m s" and m: "m < 8" and room: "room r"
    and fits: "handed b n k (Suc m) \<le> unat (br_reward_pool r)" and x: "unat x = n m"
  shows "\<exists>t. rbind (br_route_from_reward_pool s x) (\<lambda>s.
      br_route_to_ncn_fee_group_rewards s (ncn_fee_group_all_groups ! m) x) = Inr t \<and>
    split_state r b n k (Suc m) t"
proof -
  have ax: "amount x = int (n m)" using x by (simp add: amount_def)
  have fit: "int (handed b n k m) + amount x \<le> amount (br_reward_pool r)"
    using fits unfolding amount_def x handed_Suc of_nat_add [symmetric] of_nat_le_iff .
  have sk: "amount (br_reward_pool s) = amount (br_reward_pool r) - int (handed b n k m)"
    "amount (br_rewards_processed s) = amount (br_rewards_processed r) + int (handed b n k m)"
    "amount (brw_rewards (br_ncn_fee_group_rewards s ! m)) = amount (brw_rewards (br_ncn_fee_group_rewards r ! m))"
    using s m by (auto simp: split_state_def)
  have rm: "amount (br_rewards_processed r) + amount (br_reward_pool r) < 2 ^ 64"
    "amount (brw_rewards (br_ncn_fee_group_rewards r ! m)) + amount (br_reward_pool r) < 2 ^ 64"
    using room m by (auto simp: room_def)
  obtain pool p where take: "br_route_from_reward_pool s x = Inr (s\<lparr>br_reward_pool := pool, br_rewards_processed := p\<rparr>)"
    and pool: "amount pool = amount (br_reward_pool s) - amount x"
    and p: "amount p = amount (br_rewards_processed s) + amount x"
    using pool_take [of x s] sk fit rm by (smt (verit))
  let ?s = "s\<lparr>br_reward_pool := pool, br_rewards_processed := p\<rparr>"
  have "amount (brw_rewards (br_ncn_fee_group_rewards ?s ! m)) + amount x < 2 ^ 64"
    using sk(3) fit rm(2) by simp
  then obtain v where put: "br_route_to_ncn_fee_group_rewards ?s (ncn_fee_group_all_groups ! m) x =
      Inr (?s\<lparr>br_ncn_fee_group_rewards := (br_ncn_fee_group_rewards s)[m := (br_ncn_fee_group_rewards s ! m)\<lparr>brw_rewards := v\<rparr>]\<rparr>)"
    and v: "amount v = amount (brw_rewards (br_ncn_fee_group_rewards s ! m)) + amount x"
    using ncn_put [OF m, of ?s x] by auto
  show ?thesis
    using s pool p v ax m by (auto simp: take put split_state_def handed_Suc nth_list_update less_Suc_eq)
qed

section \<open>The split\<close>

lemma reward_split_value:
  assumes pn: "precise_number pn val" and le: "unat fee \<le> unat total_bps"
  shows "\<exists>x. calculate_reward_split pn fee total_bps rewards = Inr x \<and>
    unat x = unat rewards * unat fee div unat total_bps"
proof (cases "fee = 0 \<or> rewards = 0")
  case True
  then show ?thesis by (auto simp: calculate_reward_split_def)
next
  case False
  have wide: "unat (ucast rewards :: u128) = unat rewards" "unat (ucast fee :: u128) = unat fee"
    "unat (ucast total_bps :: u128) = unat total_bps"
    by (rule unat_ucast_widen, simp)+
  obtain p q d where ps: "pn_new pn (ucast rewards) = Some p" "pn_new pn (ucast fee) = Some q"
    "pn_new pn (ucast total_bps) = Some d"
    using precise_number.new_exact [OF pn] by meson
  have vals: "val p = of_nat (unat rewards)" "val q = of_nat (unat fee)" "val d = of_nat (unat total_bps)"
    using precise_number.new_Some [OF pn ps(1)] precise_number.new_Some [OF pn ps(2)]
      precise_number.new_Some [OF pn ps(3)] wide by simp_all
  have b: "unat total_bps \<noteq> 0" using False le by (metis le_zero_eq unat_eq_zero)
  have "unat rewards * unat fee < 2 ^ 64 * 2 ^ 16"
    using unat_less_pow [of rewards] unat_less_pow [of fee] by (intro mult_strict_mono) simp_all
  then have prod: "unat rewards * unat fee < 2 ^ 128" by simp
  have quot: "unat rewards * unat fee div unat total_bps < 2 ^ 64"
    using share_le [OF b le, of "unat rewards"] unat_less_pow [of rewards] by simp
  obtain x where x: "precise_share pn p q d = Inr x"
    using precise_number.share_defined [OF pn vals b prod quot] by blast
  then show ?thesis
    using precise_number.share_exact [OF pn x vals] False ps by (simp add: calculate_reward_split_def)
qed

definition base_share :: "fees \<Rightarrow> nat \<Rightarrow> nat \<Rightarrow> nat" where
  "base_share fs pool i = pool * unat (fee_fee (base_fee_groups_bps fs ! i)) div fees_sum fs"

definition ncn_share :: "fees \<Rightarrow> nat \<Rightarrow> nat \<Rightarrow> nat" where
  "ncn_share fs pool i = pool * unat (fee_fee (ncn_fee_groups_bps fs ! i)) div fees_sum fs"

lemma sum_upto_8: "length xs = 8 \<Longrightarrow> (\<Sum>i<8. f (xs ! i)) = sum_list (map f xs)"
  by (simp add: sum_list_sum_nth lessThan_atLeast0)

lemma shares_fit:
  assumes "wf_fees fs"
  shows "handed (base_share fs pool) (ncn_share fs pool) 8 8 \<le> pool"
proof (cases "fees_sum fs = 0")
  case True
  then show ?thesis by (simp add: handed_def base_share_def ncn_share_def)
next
  case False
  let ?xs = "base_fee_groups_bps fs @ ncn_fee_groups_bps fs"
  have "handed (base_share fs pool) (ncn_share fs pool) 8 8 =
      sum_list (map (\<lambda>f. pool * unat (fee_fee f) div fees_sum fs) ?xs)"
    using assms sum_upto_8 [of "base_fee_groups_bps fs" "\<lambda>f. pool * unat (fee_fee f) div fees_sum fs"]
      sum_upto_8 [of "ncn_fee_groups_bps fs" "\<lambda>f. pool * unat (fee_fee f) div fees_sum fs"]
    by (simp add: handed_def base_share_def ncn_share_def wf_fees_def)
  also have "\<dots> \<le> pool"
  proof (rule sum_shares_le)
    show "sum_list (map (\<lambda>f. unat (fee_fee f)) ?xs) \<le> fees_sum fs" by (simp add: fees_sum_def)
    show "0 < fees_sum fs" using False by simp
  qed
  finally show ?thesis .
qed

lemma fees_total_defined:
  assumes "wf_fees fs"
  obtains t where "fees_total_fees_bps fs = Inr t" "unat t = fees_sum fs"
proof -
  have le: "unat (fee_fee f) \<le> 65535" for f using unat_less_pow [of "fee_fee f"] by simp
  have "fees_sum fs \<le> sum_list (map (\<lambda>f. 65535) (base_fee_groups_bps fs)) + sum_list (map (\<lambda>f. 65535) (ncn_fee_groups_bps fs))"
    unfolding fees_sum_def using le by (intro add_mono sum_list_map_mono_nat)
  also have "\<dots> < 2 ^ 64" using assms by (simp add: wf_fees_def sum_list_triv)
  finally have "unat (of_nat (fees_sum fs) :: u64) = fees_sum fs" by (simp add: unat_of_nat)
  with fees_total_fees_bps_Inr [OF assms] show ?thesis using that by blast
qed

lemma nth_le_bucket_sum: "i < length xs \<Longrightarrow> unat (brw_rewards (xs ! i)) \<le> bucket_sum xs"
  unfolding bucket_sum_def by (rule nth_le_sum_list_map)

lemma runs_room:
  assumes "router_runs base_router_init (base_router_step pn) r received paid"
  shows "room r"
proof -
  have c: "br_wf r" "unat (br_total_rewards r) = received"
    "unat (br_reward_pool r) + unat (br_rewards_processed r) + paid = received"
    "unat (br_rewards_processed r) = br_buckets r"
    using base_router.conservation [OF assms] by auto
  have lim: "unat (br_reward_pool r) + unat (br_rewards_processed r) < 2 ^ 64"
    using c(2,3) unat_less_pow [of "br_total_rewards r"] by simp
  have small: "amount (brw_rewards (xs ! i)) + amount (br_reward_pool r) < 2 ^ 64"
    if "i < length xs" "bucket_sum xs \<le> br_buckets r" for xs and i :: nat
  proof -
    have "int (unat (brw_rewards (xs ! i)) + unat (br_reward_pool r)) < int (2 ^ 64)"
      using nth_le_bucket_sum [OF that(1)] that(2) c(4) lim by (simp only: of_nat_less_iff)
    then show ?thesis unfolding amount_def by simp
  qed
  have "int (unat (br_rewards_processed r) + unat (br_reward_pool r)) < int (2 ^ 64)"
    using lim by (simp only: of_nat_less_iff)
  then have "amount (br_rewards_processed r) + amount (br_reward_pool r) < 2 ^ 64" unfolding amount_def by simp
  with small c(1) show ?thesis by (simp add: room_def br_wf_def br_buckets_def)
qed

lemma handed_mono: "k \<le> k' \<Longrightarrow> m \<le> m' \<Longrightarrow> handed b n k m \<le> handed b n k' m'"
  unfolding handed_def by (intro add_mono sum_mono2) auto

lemma split_loops:
  assumes pn: "precise_number pn val" and room: "room r" and fs: "wf_fees fs"
    and t: "fees_total_fees_bps fs = Inr t" "unat t = fees_sum fs"
  shows "\<exists>s. rbind (rfold (\<lambda>g r'.
         rbind (fees_base_fee_bps fs g) (\<lambda>base_fee.
         rbind (calculate_reward_split pn base_fee t (br_reward_pool r)) (\<lambda>rewards.
         rbind (br_route_from_reward_pool r' rewards) (\<lambda>r'.
         br_route_to_base_fee_group_rewards r' g rewards)))) base_fee_group_all_groups r) (\<lambda>r1.
     rfold (\<lambda>g r'.
         rbind (fees_ncn_fee_bps fs g) (\<lambda>ncn_group_fee.
         rbind (calculate_reward_split pn ncn_group_fee t (br_reward_pool r)) (\<lambda>rewards.
         rbind (br_route_from_reward_pool r' rewards) (\<lambda>r'.
         br_route_to_ncn_fee_group_rewards r' g rewards)))) ncn_fee_group_all_groups r1) = Inr s \<and>
    split_state r (base_share fs (unat (br_reward_pool r))) (ncn_share fs (unat (br_reward_pool r))) 8 8 s"
proof -
  let ?b = "base_share fs (unat (br_reward_pool r))" and ?n = "ncn_share fs (unat (br_reward_pool r))"
  have fit: "handed ?b ?n k m \<le> unat (br_reward_pool r)" if "k \<le> 8" "m \<le> 8" for k m
    using handed_mono [OF that] shares_fit [OF fs] le_trans by blast
  have part: "unat (fee_fee (base_fee_groups_bps fs ! i)) \<le> unat t" "unat (fee_fee (ncn_fee_groups_bps fs ! i)) \<le> unat t"
    if "i < 8" for i
    using that fs t(2) nth_le_sum_list_map [of i "base_fee_groups_bps fs" "\<lambda>f. unat (fee_fee f)"]
      nth_le_sum_list_map [of i "ncn_fee_groups_bps fs" "\<lambda>f. unat (fee_fee f)"]
    by (auto simp: wf_fees_def fees_sum_def)
  let ?f = "\<lambda>g r'. rbind (fees_base_fee_bps fs g) (\<lambda>base_fee.
         rbind (calculate_reward_split pn base_fee t (br_reward_pool r)) (\<lambda>rewards.
         rbind (br_route_from_reward_pool r' rewards) (\<lambda>r'.
         br_route_to_base_fee_group_rewards r' g rewards)))"
  let ?g = "\<lambda>g r'. rbind (fees_ncn_fee_bps fs g) (\<lambda>ncn_group_fee.
         rbind (calculate_reward_split pn ncn_group_fee t (br_reward_pool r)) (\<lambda>rewards.
         rbind (br_route_from_reward_pool r' rewards) (\<lambda>r'.
         br_route_to_ncn_fee_group_rewards r' g rewards)))"
  have "\<exists>s. rfold ?f base_fee_group_all_groups r = Inr s \<and> split_state r ?b ?n (length base_fee_group_all_groups) 0 s"
  proof (rule rfold_steps [where P = "\<lambda>k. split_state r ?b ?n k 0", OF split_start [OF room]])
    fix i s
    assume "i < length base_fee_group_all_groups" and s: "split_state r ?b ?n i 0 s"
    then have i: "i < 8" by (simp add: bg.length_all)
    obtain x where x: "calculate_reward_split pn (fee_fee (base_fee_groups_bps fs ! i)) t (br_reward_pool r) = Inr x"
      "unat x = ?b i"
      using reward_split_value [OF pn part(1) [OF i]] t(2) unfolding base_share_def by metis
    show "\<exists>t. ?f (base_fee_group_all_groups ! i) s = Inr t \<and> split_state r ?b ?n (Suc i) 0 t"
      using split_base_step [OF s i room fit x(2)] i x(1) by (simp add: fees_base_fee_bps_def bg.index_all)
  qed
  then obtain r1 where r1: "rfold ?f base_fee_group_all_groups r = Inr r1" "split_state r ?b ?n 8 0 r1"
    by (auto simp: bg.length_all)
  have "\<exists>s. rfold ?g ncn_fee_group_all_groups r1 = Inr s \<and> split_state r ?b ?n 8 (length ncn_fee_group_all_groups) s"
  proof (rule rfold_steps [where P = "\<lambda>m. split_state r ?b ?n 8 m", OF r1(2)])
    fix i s
    assume "i < length ncn_fee_group_all_groups" and s: "split_state r ?b ?n 8 i s"
    then have i: "i < 8" by (simp add: ng.length_all)
    obtain x where x: "calculate_reward_split pn (fee_fee (ncn_fee_groups_bps fs ! i)) t (br_reward_pool r) = Inr x"
      "unat x = ?n i"
      using reward_split_value [OF pn part(2) [OF i]] t(2) unfolding ncn_share_def by metis
    show "\<exists>t. ?g (ncn_fee_group_all_groups ! i) s = Inr t \<and> split_state r ?b ?n 8 (Suc i) t"
      using split_ncn_step [OF s i room fit x(2)] i x(1) by (simp add: fees_ncn_fee_bps_def ng.index_all)
  qed
  with r1(1) show ?thesis by (simp add: ng.length_all)
qed

text \<open>C31. The split of the pool: on every router the program can reach, and for every fee table,
  \<open>route_reward_pool\<close> returns; it empties the pool, gives every base group and every NCN group
  the floor of pool times fee over the total of all fees, and the DAO (base group 0) also the remainder, and
  touches no route of an operator.\<close>

theorem base_pool_split:
  assumes pn: "precise_number pn val" and runs: "router_runs base_router_init (base_router_step pn) r received paid"
    and fs: "wf_fees fs"
  shows "\<exists>r'. br_route_reward_pool pn r fs = Inr r' \<and> unat (br_reward_pool r') = 0 \<and>
    unat (br_rewards_processed r') = unat (br_rewards_processed r) + unat (br_reward_pool r) \<and>
    br_total_rewards r' = br_total_rewards r \<and>
    br_ncn_fee_group_reward_routes r' = br_ncn_fee_group_reward_routes r \<and>
    (\<forall>i<8. unat (brw_rewards (br_ncn_fee_group_rewards r' ! i)) =
      unat (brw_rewards (br_ncn_fee_group_rewards r ! i)) +
      unat (br_reward_pool r) * unat (fee_fee (ncn_fee_groups_bps fs ! i)) div fees_sum fs) \<and>
    (\<forall>i<8. unat (brw_rewards (br_base_fee_group_rewards r' ! i)) =
      unat (brw_rewards (br_base_fee_group_rewards r ! i)) +
      unat (br_reward_pool r) * unat (fee_fee (base_fee_groups_bps fs ! i)) div fees_sum fs +
      (if i = 0 then unat (br_reward_pool r) -
        ((\<Sum>j<8. unat (br_reward_pool r) * unat (fee_fee (base_fee_groups_bps fs ! j)) div fees_sum fs) +
         (\<Sum>j<8. unat (br_reward_pool r) * unat (fee_fee (ncn_fee_groups_bps fs ! j)) div fees_sum fs))
       else 0))"
proof -
  let ?pool = "unat (br_reward_pool r)"
  let ?b = "base_share fs ?pool" and ?n = "ncn_share fs ?pool"
  have room: "room r" by (rule runs_room [OF runs])
  obtain t where t: "fees_total_fees_bps fs = Inr t" "unat t = fees_sum fs" using fees_total_defined [OF fs] .
  obtain s where loops: "br_route_reward_pool pn r fs = rbind (br_route_from_reward_pool s (br_reward_pool s)) (\<lambda>r'.
      br_route_to_base_fee_group_rewards r' base_fee_group_dao (br_reward_pool s))"
    and s: "split_state r ?b ?n 8 8 s"
    using split_loops [OF pn room fs t] t(1) by (auto simp: br_route_reward_pool_def Let_def rbind_Inr)
  let ?left = "?pool - handed ?b ?n 8 8"
  have fit: "handed ?b ?n 8 8 \<le> ?pool" by (rule shares_fit [OF fs])
  have pool: "unat (br_reward_pool s) = ?left"
  proof -
    have "int (unat (br_reward_pool s)) = int ?pool - int (handed ?b ?n 8 8)"
      using s unfolding split_state_def amount_def by blast
    then show ?thesis using fit by linarith
  qed
  have S: "unat (br_rewards_processed s) = unat (br_rewards_processed r) + handed ?b ?n 8 8"
    "br_ncn_fee_group_reward_routes s = br_ncn_fee_group_reward_routes r"
    "br_total_rewards s = br_total_rewards r" "length (br_base_fee_group_rewards s) = 8"
    using s unfolding split_state_def amount_eq_plus by blast+
  have base: "unat (brw_rewards (br_base_fee_group_rewards s ! i)) = unat (brw_rewards (br_base_fee_group_rewards r ! i)) + ?b i"
    and ncn: "unat (brw_rewards (br_ncn_fee_group_rewards s ! i)) = unat (brw_rewards (br_ncn_fee_group_rewards r ! i)) + ?n i"
    if "i < 8" for i
    using s that by (simp_all add: split_state_def amount_eq_plus)
  have rm: "unat (br_rewards_processed r) + ?pool < 2 ^ 64"
    "unat (brw_rewards (br_base_fee_group_rewards r ! 0)) + ?pool < 2 ^ 64"
    using room unfolding room_def amount_add_less by auto
  have part: "?b 0 + ?left \<le> ?pool"
    using fit handed_mono [of 1 8 0 8 ?b ?n] by (simp add: handed_def)
  have lim: "amount (br_rewards_processed s) + amount (br_reward_pool s) < 2 ^ 64"
    unfolding amount_add_less using S(1) pool rm(1) fit by simp
  obtain q p where take: "br_route_from_reward_pool s (br_reward_pool s) =
      Inr (s\<lparr>br_reward_pool := q, br_rewards_processed := p\<rparr>)"
    and q: "unat q = 0" and p: "unat p = unat (br_rewards_processed s) + unat (br_reward_pool s)"
    using pool_take [OF order_refl lim] amount_eq_iff [of _ 0] by (auto simp: amount_eq_sum)
  let ?s = "s\<lparr>br_reward_pool := q, br_rewards_processed := p\<rparr>"
  have "amount (brw_rewards (br_base_fee_group_rewards ?s ! 0)) + amount (br_reward_pool s) < 2 ^ 64"
    unfolding amount_add_less using base [of 0] pool rm(2) part by simp
  moreover have "base_fee_group_dao = base_fee_group_all_groups ! 0" using bg.index_inv [OF dao_index] by simp
  ultimately obtain v where put: "br_route_to_base_fee_group_rewards ?s base_fee_group_dao (br_reward_pool s) =
      Inr (?s\<lparr>br_base_fee_group_rewards := (br_base_fee_group_rewards s)[0 := (br_base_fee_group_rewards s ! 0)\<lparr>brw_rewards := v\<rparr>]\<rparr>)"
    and v: "unat v = unat (brw_rewards (br_base_fee_group_rewards s ! 0)) + unat (br_reward_pool s)"
    using base_put [of 0 ?s "br_reward_pool s"] by (auto simp: amount_eq_sum)
  show ?thesis
    using loops take put S base ncn v pool p q fit
    by (simp add: nth_list_update handed_def base_share_def ncn_share_def)
qed

section \<open>Sample runs\<close>

definition fresh_router :: base_reward_router where
  "fresh_router = base_reward_router_new [1] 5 255 10"

definition funded_router :: base_reward_router where
  "funded_router = fresh_router\<lparr>br_total_rewards := 1001, br_reward_pool := 1001\<rparr>"

lemma funded_router_runs: "router_runs base_router_init (base_router_step fixed12) funded_router 1001 0"
proof -
  have "br_route_incoming_rewards fresh_router 890880 891881 = Inr funded_router"
    by (simp add: br_route_incoming_rewards_def br_total_rewards_in_transit_def br_route_to_reward_pool_def
        fresh_router_def funded_router_def base_reward_router_new_def checked_add_def checked_sub_def)
  from base_router_step.incoming [OF this]
  have "base_router_step fixed12 fresh_router 1001 0 funded_router"
    by (simp add: fresh_router_def base_reward_router_new_def)
  moreover have "base_router_init fresh_router"
    unfolding base_router_init_def fresh_router_def by blast
  ultimately show ?thesis
    using router_runs.step [OF router_runs.start, of base_router_init fresh_router "base_router_step fixed12" 1001 0]
    by simp
qed

theorem base_router_conservation_witness:
  "unat (br_total_rewards funded_router) = 1001 \<and> br_buckets funded_router = 0"
  using base_router_conservation [OF funded_router_runs] by (simp add: funded_router_def fresh_router_def
      base_reward_router_new_def)

theorem base_pool_split_witness:
  "\<exists>r'. br_route_reward_pool fixed12 funded_router (sample_fees 5 270) = Inr r' \<and>
    unat (brw_rewards (br_ncn_fee_group_rewards r' ! 0)) = 100 \<and>
    unat (brw_rewards (br_base_fee_group_rewards r' ! 0)) = 901"
proof -
  have wf: "wf_fees (sample_fees 5 270)" by (simp add: wf_fees_def sample_fees_def)
  have s8: "(\<Sum>j<8. f j) = f 0 + f 1 + f 2 + f 3 + f 4 + f 5 + f 6 + f (7::nat)" for f :: "nat \<Rightarrow> nat"
    by (simp add: numeral_eq_Suc)
  have sum: "fees_sum (sample_fees 5 270) = 300"
    by (simp add: fees_sum_def sample_fees_def fee_new_def)
  have fees: "(\<Sum>j<8. 1001 * unat (fee_fee (base_fee_groups_bps (sample_fees 5 270) ! j)) div 300) = 900"
    "(\<Sum>j<8. 1001 * unat (fee_fee (ncn_fee_groups_bps (sample_fees 5 270) ! j)) div 300) = 100"
    unfolding s8 by (simp_all add: sample_fees_def fee_new_def replicate_7)
  have first: "fee_fee (base_fee_groups_bps (sample_fees 5 270) ! 0) = 270"
    "fee_fee (ncn_fee_groups_bps (sample_fees 5 270) ! 0) = 30" "unat (br_reward_pool funded_router) = 1001"
    "brw_rewards (br_base_fee_group_rewards funded_router ! 0) = 0" "brw_rewards (br_ncn_fee_group_rewards funded_router ! 0) = 0"
    by (simp_all add: sample_fees_def fee_new_def funded_router_def fresh_router_def base_reward_router_new_def
        FEE_GROUP_COUNT_def base_reward_router_rewards_default_def)
  obtain r' where "br_route_reward_pool fixed12 funded_router (sample_fees 5 270) = Inr r'" and
    shares: "\<forall>i<8. unat (brw_rewards (br_ncn_fee_group_rewards r' ! i)) =
      unat (brw_rewards (br_ncn_fee_group_rewards funded_router ! i)) +
      1001 * unat (fee_fee (ncn_fee_groups_bps (sample_fees 5 270) ! i)) div 300"
    "\<forall>i<8. unat (brw_rewards (br_base_fee_group_rewards r' ! i)) =
      unat (brw_rewards (br_base_fee_group_rewards funded_router ! i)) +
      1001 * unat (fee_fee (base_fee_groups_bps (sample_fees 5 270) ! i)) div 300 + (if i = 0 then 1001 - (900 + 100) else 0)"
    using base_pool_split [OF fixed12.precise_number_axioms funded_router_runs wf] unfolding first(3) sum fees by blast
  moreover have "unat (brw_rewards (br_ncn_fee_group_rewards r' ! 0)) = 100"
    using shares(1) [rule_format, of 0] first by simp
  moreover have "unat (brw_rewards (br_base_fee_group_rewards r' ! 0)) = 901"
    using shares(2) [rule_format, of 0] first by simp
  ultimately show ?thesis by blast
qed

end
