(* ===== verification/Base_Resume.thy ===== *)
theory Base_Resume
  imports Base_Routing
begin

text \<open>
  Routing to the operators in bounded steps. \<open>route_ncn_fee_group_rewards\<close> stops after
  \<open>max_iterations\<close> votes and saves its position; here the sequence of calls that
  finishes the work is shown equal to one pass with no limit, whatever the limits are.
\<close>

section \<open>One pass\<close>

definition share_vote ::
    "'p precise_ops \<Rightarrow> operator_vote list \<Rightarrow> ballot_tally \<Rightarrow> nat \<Rightarrow> u64 \<Rightarrow> nat \<Rightarrow> base_reward_router \<Rightarrow>
     tip_router_error + base_reward_router" where
  "share_vote pn vs w gi rewards i r =
    (if ov_ballot_index (vs ! i) = bt_index w
     then route_one_vote pn w (ncn_fee_group_all_groups ! gi) rewards (vs ! i) r else Inr r)"

definition pass_group ::
    "'p precise_ops \<Rightarrow> operator_vote list \<Rightarrow> ballot_tally \<Rightarrow> nat \<Rightarrow> base_reward_router \<Rightarrow>
     tip_router_error + base_reward_router" where
  "pass_group pn vs w gi r =
    rbind (br_ncn_fee_group_reward r (ncn_fee_group_all_groups ! gi)) (\<lambda>rewards.
    if rewards = 0 then Inr r
    else rbind (rfold (share_vote pn vs w gi rewards) [0..<length vs] r) (\<lambda>r.
      br_route_leftover r (ncn_fee_group_all_groups ! gi)))"

definition one_pass ::
    "'p precise_ops \<Rightarrow> ballot_box \<Rightarrow> base_reward_router \<Rightarrow> tip_router_error + base_reward_router" where
  "one_pass pn bb r =
    rbind (get_winning_ballot_tally bb) (\<lambda>w.
    rbind (rfold (pass_group pn (bb_operator_votes bb) w) [0..<8] r) (\<lambda>r.
    Inr (br_reset_routing_state r)))"

text \<open>The calls a caller makes: one limit per call, until the router is done.\<close>

fun route_calls ::
    "'p precise_ops \<Rightarrow> ballot_box \<Rightarrow> u16 list \<Rightarrow> base_reward_router \<Rightarrow> tip_router_error + base_reward_router" where
  "route_calls pn bb [] r = Inr r"
| "route_calls pn bb (m # ms) r =
    rbind (br_route_ncn_fee_group_rewards pn r bb m) (\<lambda>r'.
    if br_still_routing r' then route_calls pn bb ms r' else Inr r')"

text \<open>What is left to do from a position.\<close>

fun work_left ::
    "'p precise_ops \<Rightarrow> operator_vote list \<Rightarrow> ballot_tally \<Rightarrow> nat list \<Rightarrow> nat \<Rightarrow> u64 \<Rightarrow> base_reward_router \<Rightarrow>
     tip_router_error + base_reward_router" where
  "work_left pn vs w [] sv sr r = Inr (br_reset_routing_state r)"
| "work_left pn vs w (gi # gs) sv sr r =
    rbind (if sr > 0 then Inr sr else br_ncn_fee_group_reward r (ncn_fee_group_all_groups ! gi)) (\<lambda>rewards.
    if rewards = 0 then work_left pn vs w gs sv 0 r
    else rbind (rfold (share_vote pn vs w gi rewards) [sv..<length vs] r) (\<lambda>r.
      rbind (br_route_leftover r (ncn_fee_group_all_groups ! gi)) (work_left pn vs w gs 0 0)))"

lemma work_left_all:
  "work_left pn vs w gs 0 0 r = rbind (rfold (pass_group pn vs w) gs r) (\<lambda>r. Inr (br_reset_routing_state r))"
proof (induction gs arbitrary: r)
  case Nil
  then show ?case by simp
next
  case (Cons gi gs)
  show ?case
  proof (cases "br_ncn_fee_group_reward r (ncn_fee_group_all_groups ! gi)")
    case (Inl e)
    then show ?thesis by (simp add: pass_group_def)
  next
    case (Inr rewards)
    have "work_left pn vs w gs 0 0 = (\<lambda>r. rbind (rfold (pass_group pn vs w) gs r) (\<lambda>r. Inr (br_reset_routing_state r)))"
      using Cons.IH by (rule ext)
    with Inr show ?thesis by (simp add: pass_group_def [of pn vs w gi r] rbind_assoc del: upt_Suc)
  qed
qed

section \<open>The saved position does not matter to the routing\<close>

definition at_position :: "u8 \<times> u16 \<times> u64 \<Rightarrow> base_reward_router \<Rightarrow> base_reward_router" where
  "at_position p r = r\<lparr>br_last_ncn_group_index := fst p, br_last_vote_index := fst (snd p),
    br_last_rewards_to_process := snd (snd p)\<rparr>"

definition commutes_at :: "(base_reward_router \<Rightarrow> tip_router_error + base_reward_router) \<Rightarrow> bool" where
  "commutes_at f \<longleftrightarrow> (\<forall>p r. f (at_position p r) = rbind (f r) (\<lambda>r. Inr (at_position p r)))"

lemma commutes_atD: "commutes_at f \<Longrightarrow> f (at_position p r) = rbind (f r) (\<lambda>r. Inr (at_position p r))"
  unfolding commutes_at_def by blast

lemma commutes_Inr [intro]: "commutes_at Inr"
  by (simp add: commutes_at_def)

lemma commutes_rbind [intro]: "commutes_at f \<Longrightarrow> commutes_at g \<Longrightarrow> commutes_at (\<lambda>r. rbind (f r) g)"
  by (simp add: commutes_at_def rbind_assoc)

lemma commutes_const [intro]: "(\<And>x. commutes_at (f x)) \<Longrightarrow> commutes_at (\<lambda>r. rbind m (\<lambda>x. f x r))"
  by (cases m) (simp_all add: commutes_at_def)

lemma commutes_rfold [intro]: "(\<And>x. commutes_at (f x)) \<Longrightarrow> commutes_at (rfold f xs)"
  by (induction xs) (auto simp: commutes_at_def rbind_assoc)

lemma commutes_from_ncn [intro]: "commutes_at (\<lambda>r. br_route_from_ncn_fee_group_rewards r g x)"
  by (auto simp: commutes_at_def at_position_def br_route_from_ncn_fee_group_rewards_def br_ncn_fee_group_reward_def
      rbind_def split: sum.splits)

lemma commutes_to_route [intro]: "commutes_at (\<lambda>r. br_route_to_reward_route r g op x)"
  by (auto simp: commutes_at_def at_position_def br_route_to_reward_route_def Let_def rbind_def
      split: sum.splits option.splits)

lemma commutes_to_base [intro]: "commutes_at (\<lambda>r. br_route_to_base_fee_group_rewards r g x)"
  by (auto simp: commutes_at_def at_position_def br_route_to_base_fee_group_rewards_def br_base_fee_group_reward_def
      rbind_def split: sum.splits)

lemma commutes_one_vote [intro]: "commutes_at (route_one_vote pn w g x v)"
  unfolding route_one_vote_def
  by (rule commutes_const)+ (rule commutes_rbind [OF commutes_from_ncn commutes_to_route])

lemma commutes_share_vote: "commutes_at (share_vote pn vs w gi x i)"
  unfolding share_vote_def by (cases "ov_ballot_index (vs ! i) = bt_index w") auto

lemma reward_at: "br_ncn_fee_group_reward (at_position p r) g = br_ncn_fee_group_reward r g"
  by (simp add: br_ncn_fee_group_reward_def at_position_def)

lemma commutes_leftover: "commutes_at (\<lambda>r. br_route_leftover r g)"
proof -
  have "commutes_at (\<lambda>r. rbind (br_route_from_ncn_fee_group_rewards r g x) (\<lambda>r.
    br_route_to_base_fee_group_rewards r base_fee_group_dao x))" for x
    by (rule commutes_rbind [OF commutes_from_ncn commutes_to_base])
  then show ?thesis
    by (simp add: br_route_leftover_def commutes_at_def reward_at rbind_def split: sum.splits)
qed

lemma work_left_at: "work_left pn vs w gs sv sr (at_position p r) = work_left pn vs w gs sv sr r"
proof (induction gs arbitrary: sv sr r)
  case Nil
  then show ?case by (simp add: at_position_def br_reset_routing_state_def)
next
  case (Cons gi gs)
  have votes: "commutes_at (rfold (share_vote pn vs w gi x) is)" for x "is"
    by (intro commutes_rfold commutes_share_vote)
  have "(if sr > 0 then Inr sr else br_ncn_fee_group_reward (at_position p r) g) =
      (if sr > 0 then Inr sr else br_ncn_fee_group_reward r g)" for g
    by (simp add: reward_at)
  then show ?case
    by (simp add: Cons.IH commutes_atD [OF votes] commutes_atD [OF commutes_leftover] rbind_assoc del: upt_Suc cong: if_cong)
qed

section \<open>A bounded call\<close>

lemma route_votes_run:
  assumes "unat it + length is < 2 ^ 16"
  shows "(case rfold (share_vote pn vs w gi rewards) is r of
       Inl e \<Rightarrow> route_votes pn vs w gi m rewards is r it = Inl e
     | Inr r' \<Rightarrow> \<exists>it'. route_votes pn vs w gi m rewards is r it = Inr (Done r' it') \<and>
         unat it' \<le> unat it + length is) \<or>
    (\<exists>pre i post r0. is = pre @ i # post \<and> rfold (share_vote pn vs w gi rewards) pre r = Inr r0 \<and>
      route_votes pn vs w gi m rewards is r it = Inr (Saved (br_save_routing_state r0 gi i rewards)) \<and>
      (it < m \<longrightarrow> pre \<noteq> []))"
  using assms
proof (induction "is" arbitrary: r it)
  case Nil
  then show ?case by simp
next
  case (Cons i "is")
  show ?case
  proof (cases "ov_ballot_index (vs ! i) = bt_index w")
    case False
    have "unat it + length is < 2 ^ 16" using Cons.prems by simp
    from Cons.IH [OF this, of r] show ?thesis
    proof (elim disjE exE conjE)
      fix pre j post r0
      assume "is = pre @ j # post" "rfold (share_vote pn vs w gi rewards) pre r = Inr r0"
        "route_votes pn vs w gi m rewards is r it = Inr (Saved (br_save_routing_state r0 gi j rewards))"
      with False show ?thesis
        by - (rule disjI2, rule exI [of _ "i # pre"], rule exI [of _ j], rule exI [of _ post],
            rule exI [of _ r0], simp add: share_vote_def [of pn vs w gi rewards i])
    qed (use False in \<open>auto simp: share_vote_def [of pn vs w gi rewards i] split: sum.splits\<close>)
  next
    case True
    have lt: "unat it + 1 < 2 ^ 16" using Cons.prems by simp
    then have it': "checked_add it 1 = Some (it + 1)" by (simp add: checked_add_def)
    then have u: "unat (it + 1) = unat it + 1" by (simp add: checked_simps)
    show ?thesis
    proof (cases "it + 1 > m")
      case over: True
      have "\<not> it < m"
      proof
        assume "it < m"
        then have "unat it + 1 \<le> unat m" by (simp add: word_less_nat_alt)
        with over u show False by (simp add: word_less_nat_alt)
      qed
      with over True it' show ?thesis
        by - (rule disjI2, rule exI [of _ "[]"], rule exI [of _ i], rule exI [of _ "is"], rule exI [of _ r], simp)
    next
      case False
      show ?thesis
      proof (cases "share_vote pn vs w gi rewards i r")
        case (Inl e)
        with True False it' show ?thesis by (simp add: share_vote_def)
      next
        case (Inr r1)
        then have one: "route_one_vote pn w (ncn_fee_group_all_groups ! gi) rewards (vs ! i) r = Inr r1"
          using True by (simp add: share_vote_def)
        have "unat (it + 1) + length is < 2 ^ 16" using Cons.prems u by simp
        from Cons.IH [OF this, of r1] show ?thesis
        proof (elim disjE exE conjE)
          fix pre j post r0
          assume "is = pre @ j # post" "rfold (share_vote pn vs w gi rewards) pre r1 = Inr r0"
            "route_votes pn vs w gi m rewards is r1 (it + 1) = Inr (Saved (br_save_routing_state r0 gi j rewards))"
          with True False it' one Inr show ?thesis
            by - (rule disjI2, rule exI [of _ "i # pre"], rule exI [of _ j], rule exI [of _ post], rule exI [of _ r0], simp)
        qed (use True False it' one Inr u in \<open>auto split: sum.splits\<close>)
      qed
    qed
  qed
qed

text \<open>The call stopped at a position at or after \<open>p\<close>, with \<open>res\<close> still to come.\<close>

definition stops_at ::
    "'p precise_ops \<Rightarrow> operator_vote list \<Rightarrow> ballot_tally \<Rightarrow> bool \<Rightarrow> nat \<Rightarrow>
     tip_router_error + base_reward_router \<Rightarrow> tip_router_error + base_reward_router \<Rightarrow> bool" where
  "stops_at pn vs w strict p res out \<longleftrightarrow>
    (\<exists>g v x r0. out = Inr (br_save_routing_state r0 g v x) \<and> g < 8 \<and> v < 256 \<and> x \<noteq> 0 \<and>
      p \<le> g * 256 + v \<and> (strict \<longrightarrow> p < g * 256 + v) \<and> work_left pn vs w [g..<8] v x r0 = res)"

lemma stops_at_mono:
  assumes "stops_at pn vs w a p res out" and "p' \<le> p" and "b \<longrightarrow> a \<or> p' < p"
  shows "stops_at pn vs w b p' res out"
proof -
  obtain g v x r0 where "out = Inr (br_save_routing_state r0 g v x)" "g < 8" "v < 256" "x \<noteq> 0"
    "work_left pn vs w [g..<8] v x r0 = res" and p: "p \<le> g * 256 + v" "a \<longrightarrow> p < g * 256 + v"
    using assms(1) unfolding stops_at_def by blast
  moreover have "p' \<le> g * 256 + v" "b \<longrightarrow> p' < g * 256 + v" using p assms(2,3) by auto
  ultimately show ?thesis unfolding stops_at_def by blast
qed

lemma route_groups_run:
  assumes "length vs = 256" and "k \<le> 8" and "sv < 256" and "unat it + 256 * (8 - k) < 2 ^ 16"
  shows "route_groups pn vs w m [k..<8] sv sr r it = work_left pn vs w [k..<8] sv sr r \<or>
    stops_at pn vs w (it < m) (k * 256 + sv) (work_left pn vs w [k..<8] sv sr r)
      (route_groups pn vs w m [k..<8] sv sr r it)"
  using assms(2-)
proof (induction "8 - k" arbitrary: k sv sr r it)
  case 0
  then show ?case by simp
next
  case (Suc n)
  then have k: "k < 8" and up: "[k..<8] = k # [Suc k..<8]" by (simp_all add: upt_conv_Cons)
  let ?g = "ncn_fee_group_all_groups ! k"
  note IH = Suc.hyps(1) [of "Suc k"]
  show ?case
  proof (cases "if sr > 0 then Inr sr else br_ncn_fee_group_reward r ?g")
    case (Inl e)
    then show ?thesis by (simp add: up)
  next
    case (Inr x)
    show ?thesis
    proof (cases "x = 0")
      case True
      then have eq: "route_groups pn vs w m [k..<8] sv sr r it = route_groups pn vs w m [Suc k..<8] sv 0 r it"
        "work_left pn vs w [k..<8] sv sr r = work_left pn vs w [Suc k..<8] sv 0 r"
        using Inr by (simp_all add: up)
      have "unat it + 256 * (8 - Suc k) < 2 ^ 16" "n = 8 - Suc k" using Suc.prems(3) Suc.hyps(2) by simp_all
      then have "route_groups pn vs w m [Suc k..<8] sv 0 r it = work_left pn vs w [Suc k..<8] sv 0 r \<or>
        stops_at pn vs w (it < m) (Suc k * 256 + sv) (work_left pn vs w [Suc k..<8] sv 0 r)
          (route_groups pn vs w m [Suc k..<8] sv 0 r it)"
        using IH k Suc.prems(2) by simp
      then show ?thesis unfolding eq
        by (rule disj_forward) (simp, rule stops_at_mono, assumption, simp_all)
    next
      case False
      have "unat it + length [sv..<256] < 2 ^ 16" using Suc.prems(3) k by simp
      from route_votes_run [OF this, where pn = pn and vs = vs and w = w and gi = k and rewards = x and r = r and m = m] show ?thesis
      proof (elim disjE exE conjE)
        assume run: "case rfold (share_vote pn vs w k x) [sv..<256] r of
            Inl e \<Rightarrow> route_votes pn vs w k m x [sv..<256] r it = Inl e
          | Inr r' \<Rightarrow> \<exists>it'. route_votes pn vs w k m x [sv..<256] r it = Inr (Done r' it') \<and>
              unat it' \<le> unat it + length [sv..<256]"
        show ?thesis
        proof (cases "rfold (share_vote pn vs w k x) [sv..<256] r")
          case (Inl e)
          with run Inr False assms(1) show ?thesis by (simp add: up)
        next
          case votes: (Inr r1)
          with run obtain it' where it': "route_votes pn vs w k m x [sv..<256] r it = Inr (Done r1 it')"
            "unat it' \<le> unat it + 256" by auto
          show ?thesis
          proof (cases "br_route_leftover r1 ?g")
            case (Inl e)
            with votes it' Inr False assms(1) show ?thesis by (simp add: up)
          next
            case left: (Inr r2)
            have small: "unat it' + 256 * (8 - Suc k) < 2 ^ 16" "n = 8 - Suc k"
              using it'(2) Suc.prems(3) Suc.hyps(2) k by simp_all
            have eq: "route_groups pn vs w m [k..<8] sv sr r it = route_groups pn vs w m [Suc k..<8] 0 0 r2 it'"
              "work_left pn vs w [k..<8] sv sr r = work_left pn vs w [Suc k..<8] 0 0 r2"
              using left votes it' Inr False assms(1) by (simp_all add: up)
            have "route_groups pn vs w m [Suc k..<8] 0 0 r2 it' = work_left pn vs w [Suc k..<8] 0 0 r2 \<or>
              stops_at pn vs w (it' < m) (Suc k * 256 + 0) (work_left pn vs w [Suc k..<8] 0 0 r2)
                (route_groups pn vs w m [Suc k..<8] 0 0 r2 it')"
              using IH [OF small(2), of 0 it' 0 r2] small(1) k by simp
            then show ?thesis unfolding eq
              by (rule disj_forward) (simp, rule stops_at_mono, assumption, use Suc.prems(2) in simp_all)
          qed
        qed
      next
        fix pre i post r0
        assume "[sv..<256] = pre @ i # post" and pre: "rfold (share_vote pn vs w k x) pre r = Inr r0"
          and saved: "route_votes pn vs w k m x [sv..<256] r it = Inr (Saved (br_save_routing_state r0 k i x))"
          and new: "it < m \<longrightarrow> pre \<noteq> []"
        then have i: "[sv..<256] = pre @ [i..<256]" "sv \<le> i" "i < 256" "pre \<noteq> [] \<longrightarrow> sv < i"
          using upt_split [of sv 256 pre i post] by auto
        have "route_groups pn vs w m [k..<8] sv sr r it = Inr (br_save_routing_state r0 k i x)"
          using saved Inr False assms(1) by (simp add: up)
        moreover have "work_left pn vs w [k..<8] i x r0 = work_left pn vs w [k..<8] sv sr r"
          using Inr False pre assms(1) word_gt_0 [of x] by (simp add: up i(1) rfold_append)
        ultimately show ?thesis unfolding stops_at_def using i(2-4) k False new
          by (intro disjI2 exI [of _ k] exI [of _ i] exI [of _ x] exI [of _ r0]) auto
      qed
    qed
  qed
qed

section \<open>Calls until done\<close>

lemma saved_position:
  assumes "g < 8" and "v < 256"
  shows "br_still_routing (br_save_routing_state r g v x)"
    "br_resume_routing_state (br_save_routing_state r g v x) = (g, v, x)"
    "br_save_routing_state r g v x = at_position (of_nat g, of_nat v, x) r"
proof -
  have g: "unat (of_nat g :: u8) = g" and v: "unat (of_nat v :: u16) = v"
    using assms by (simp_all add: unat_of_nat)
  then have "unat (of_nat g :: u8) \<noteq> unat (255 :: u8)" using assms(1) by simp
  then have "(of_nat g :: u8) \<noteq> 255" by metis
  then show "br_still_routing (br_save_routing_state r g v x)"
    by (simp add: br_still_routing_def br_save_routing_state_def NO_LAST_NCN_GROUP_INDEX_def)
  with g v show "br_resume_routing_state (br_save_routing_state r g v x) = (g, v, x)"
    by (simp add: br_resume_routing_state_def br_save_routing_state_def)
  show "br_save_routing_state r g v x = at_position (of_nat g, of_nat v, x) r"
    by (simp add: br_save_routing_state_def at_position_def)
qed

lemma work_left_not_routing: "work_left pn vs w gs sv sr r = Inr r' \<Longrightarrow> \<not> br_still_routing r'"
  by (induction pn vs w gs sv sr r rule: work_left.induct)
    (auto simp: br_still_routing_def br_reset_routing_state_def rbind_Inr simp del: upt_Suc split: if_splits)

lemma calls_finish:
  assumes w: "get_winning_ballot_tally bb = Inr w" and len: "length (bb_operator_votes bb) = 256"
    and "br_resume_routing_state r = (k, sv, sr)" and "k < 8" and "sv < 256"
    and "2048 \<le> k * 256 + sv + length ms"
  shows "route_calls pn bb ms r = work_left pn (bb_operator_votes bb) w [k..<8] sv sr r"
  using assms(3-)
proof (induction ms arbitrary: r k sv sr)
  case Nil
  then show ?case by simp
next
  case (Cons m ms)
  let ?vs = "bb_operator_votes bb" and ?m = "max m 1"
  let ?out = "br_route_ncn_fee_group_rewards pn r bb m"
  let ?res = "work_left pn ?vs w [k..<8] sv sr r"
  have out: "?out = route_groups pn ?vs w ?m [k..<8] sv sr r 0"
    using w Cons.prems(1) by (simp add: br_route_ncn_fee_group_rewards_def FEE_GROUP_COUNT_def)
  have "0 < ?m" using word_gt_0 [of m] by (auto simp: max_def)
  moreover have "unat (0 :: u16) + 256 * (8 - k) < 2 ^ 16" by simp
  ultimately consider "?out = ?res" | "stops_at pn ?vs w True (k * 256 + sv) ?res ?out"
    unfolding out using route_groups_run [OF len less_imp_le [OF Cons.prems(2)] Cons.prems(3), of 0 pn w ?m sr r] by auto
  then show ?case
  proof cases
    case 1
    then show ?thesis using work_left_not_routing [of pn ?vs w "[k..<8]" sv sr r] by (cases ?res) auto
  next
    case 2
    then obtain g v x r0 where s: "?out = Inr (br_save_routing_state r0 g v x)" and g: "g < 8" "v < 256"
      and pos: "k * 256 + sv < g * 256 + v" and left: "work_left pn ?vs w [g..<8] v x r0 = ?res"
      unfolding stops_at_def by auto
    have "route_calls pn bb ms (br_save_routing_state r0 g v x) =
        work_left pn ?vs w [g..<8] v x (br_save_routing_state r0 g v x)"
      by (rule Cons.IH [OF saved_position(2) [OF g] g]) (use pos Cons.prems(4) in simp)
    then show ?thesis
      using s left saved_position [OF g, of r0 x] by (simp add: work_left_at)
  qed
qed

lemma route_calls_one_pass:
  assumes "length (bb_operator_votes bb) = 256" and "\<not> br_still_routing r" and "2048 \<le> length ms"
  shows "route_calls pn bb ms r = one_pass pn bb r"
proof (cases "get_winning_ballot_tally bb")
  case (Inl e)
  with assms(3) show ?thesis
    by (cases ms) (simp_all add: one_pass_def br_route_ncn_fee_group_rewards_def)
next
  case (Inr w)
  have "br_resume_routing_state r = (0, 0, 0)" using assms(2) by (simp add: br_resume_routing_state_def)
  from calls_finish [OF Inr assms(1) this] assms(3) show ?thesis
    by (simp add: work_left_all one_pass_def Inr del: upt_Suc)
qed

text \<open>C32. Resumable routing: from a router that is not in the middle of routing, 2048 calls (the number of
  groups times votes) with any iteration limits, zero included, do what one pass without any limit
  does: they end with the same router, or with the same error.\<close>

theorem base_routing_resumable:
  assumes "length (bb_operator_votes bb) = 256" and "\<not> br_still_routing r" and "2048 \<le> length ms"
  shows "route_calls pn bb ms r = one_pass pn bb r"
  using assms by (rule route_calls_one_pass)

definition loaded_router :: base_reward_router where
  "loaded_router = (base_reward_router_new [1] 5 255 10)
    \<lparr>br_total_rewards := 100, br_rewards_processed := 100,
     br_ncn_fee_group_rewards := \<lparr>brw_rewards = 100\<rparr> # replicate 7 \<lparr>brw_rewards = 0\<rparr>\<rparr>"

theorem base_routing_resumable_witness:
  "route_calls fixed12 decided_box (replicate 2048 0) loaded_router = one_pass fixed12 decided_box loaded_router"
proof (rule base_routing_resumable)
  show "length (bb_operator_votes decided_box) = 256"
    using decided_box_inv votes_okD(1) unfolding bb_inv_def by blast
  show "\<not> br_still_routing loaded_router"
    by (simp add: br_still_routing_def loaded_router_def base_reward_router_new_def)
qed simp

end
