(* ===== verification/Slot_Table.thy ===== *)
theory Slot_Table
  imports Tip_Prelude
begin

text \<open>
  Fixed-size arrays used as tables. The vault registry, the weight table and the routers
  keep entries keyed by a public key in an array of a fixed length, where the default key marks a
  free slot. The contract of a write is the locale \<open>slot_table\<close>: it replaces the entry of the same key, or
  fills a free slot when there is no such entry. Read as a partial map (\<open>slot_map\<close>), a write is then a
  map update, and no key ever has two entries.
\<close>

definition slot_map :: "('e \<Rightarrow> pubkey) \<Rightarrow> 'e list \<Rightarrow> pubkey \<Rightarrow> 'e option" where
  "slot_map key xs k = (if k = default_pubkey then None else List.find (\<lambda>e. key e = k) xs)"

definition slots_ok :: "('e \<Rightarrow> pubkey) \<Rightarrow> 'e list \<Rightarrow> bool" where
  "slots_ok key xs \<longleftrightarrow> (\<forall>i < length xs. \<forall>j < length xs.
    key (xs ! i) = key (xs ! j) \<longrightarrow> key (xs ! i) \<noteq> default_pubkey \<longrightarrow> i = j)"

lemma slots_okD:
  "slots_ok key xs \<Longrightarrow> i < length xs \<Longrightarrow> j < length xs \<Longrightarrow> key (xs ! i) = key (xs ! j) \<Longrightarrow>
    key (xs ! i) \<noteq> default_pubkey \<Longrightarrow> i = j"
  unfolding slots_ok_def by blast

lemma slot_map_Some_find:
  assumes "slot_map key xs k = Some e"
  shows "k \<noteq> default_pubkey" "key e = k" "e \<in> set xs"
  using assms by (auto simp: slot_map_def find_conv_find_idx dest: find_idx_SomeD split: if_splits)

text \<open>In a table without double keys the entry found is the only one with its key.\<close>

lemma slot_map_Some:
  assumes ok: "slots_ok key xs"
  shows "slot_map key xs k = Some e \<longleftrightarrow> e \<in> set xs \<and> key e = k \<and> k \<noteq> default_pubkey"
proof
  assume "slot_map key xs k = Some e"
  then show "e \<in> set xs \<and> key e = k \<and> k \<noteq> default_pubkey" using slot_map_Some_find by fastforce
next
  assume e: "e \<in> set xs \<and> key e = k \<and> k \<noteq> default_pubkey"
  then obtain i where i: "find_idx (\<lambda>e. key e = k) xs = Some i" using find_idx_exists [of e xs "\<lambda>e. key e = k"] by auto
  obtain j where j: "j < length xs" "xs ! j = e" using e by (auto simp: in_set_conv_nth)
  have "i = j" using slots_okD [OF ok find_idx_SomeD(1) [OF i] j(1)] find_idx_SomeD(2) [OF i] j(2) e by simp
  with i j e show "slot_map key xs k = Some e" by (simp add: slot_map_def find_conv_find_idx)
qed

lemma slot_map_None: "slot_map key xs k = None \<longleftrightarrow> k = default_pubkey \<or> k \<notin> key ` set xs"
  by (auto simp: slot_map_def find_None_iff)

lemma slot_map_empty [simp]: "key e = default_pubkey \<Longrightarrow> slot_map key (replicate n e) = (\<lambda>k. None)"
  by (rule ext) (auto simp: slot_map_None)

lemma slots_ok_empty [simp]: "key e = default_pubkey \<Longrightarrow> slots_ok key (replicate n e)"
  by (simp add: slots_ok_def)

text \<open>The number of entries is the number of slots in use.\<close>

lemma slot_map_dom: "slots_ok key xs \<Longrightarrow> dom (slot_map key xs) = key ` set xs - {default_pubkey}"
  by (auto simp: dom_def slot_map_Some)

lemma finite_dom_slot_map [simp]: "finite (dom (slot_map key xs))"
proof -
  have "dom (slot_map key xs) \<subseteq> key ` set xs" using slot_map_Some_find by (fastforce simp: dom_def)
  then show ?thesis by (rule finite_subset) simp
qed

lemma slots_ok_distinct: "slots_ok key xs \<Longrightarrow> distinct (map key (filter (\<lambda>e. key e \<noteq> default_pubkey) xs))"
proof (induction xs)
  case Nil
  then show ?case by simp
next
  case (Cons x xs)
  have tail: "slots_ok key xs" unfolding slots_ok_def
  proof (intro allI impI)
    fix i j
    assume "i < length xs" "j < length xs" "key (xs ! i) = key (xs ! j)" "key (xs ! i) \<noteq> default_pubkey"
    then show "i = j" using slots_okD [OF Cons.prems, of "Suc i" "Suc j"] by simp
  qed
  have "key x \<noteq> key y" if y: "y \<in> set xs" and x: "key x \<noteq> default_pubkey" for y
  proof
    assume "key x = key y"
    moreover obtain j where "j < length xs" "xs ! j = y" using y by (auto simp: in_set_conv_nth)
    ultimately show False using slots_okD [OF Cons.prems, of 0 "Suc j"] x by simp
  qed
  with Cons.IH [OF tail] show ?case by auto
qed

lemma slot_map_card:
  assumes "slots_ok key xs"
  shows "card (dom (slot_map key xs)) = length (filter (\<lambda>e. key e \<noteq> default_pubkey) xs)"
proof -
  have "key ` set xs - {default_pubkey} = set (map key (filter (\<lambda>e. key e \<noteq> default_pubkey) xs))" by auto
  then show ?thesis
    using slot_map_dom [OF assms] distinct_card [OF slots_ok_distinct [OF assms]] by simp
qed

section \<open>The contract of a write\<close>

locale slot_table =
  fixes key :: "'e \<Rightarrow> pubkey" and entries :: "'t \<Rightarrow> 'e list" and writes :: "'t \<Rightarrow> 'e \<Rightarrow> 't \<Rightarrow> bool"
  assumes write_slot: "writes t e t' \<Longrightarrow> key e \<noteq> default_pubkey \<Longrightarrow> \<exists>i < length (entries t).
    entries t' = (entries t)[i := e] \<and>
    (key (entries t ! i) = key e \<or>
     key (entries t ! i) = default_pubkey \<and> key e \<notin> key ` set (entries t))"
begin

lemma write_ok:
  assumes w: "writes t e t'" and e: "key e \<noteq> default_pubkey" and ok: "slots_ok key (entries t)"
  shows "slots_ok key (entries t') \<and> slot_map key (entries t') = (slot_map key (entries t))(key e \<mapsto> e) \<and>
    length (entries t') = length (entries t)"
proof -
  obtain i where i: "i < length (entries t)" and t': "entries t' = (entries t)[i := e]"
    and slot: "key (entries t ! i) = key e \<or>
      key (entries t ! i) = default_pubkey \<and> key e \<notin> key ` set (entries t)"
    using write_slot [OF w e] by blast
  have other: "key (entries t ! j) \<noteq> key e" if "j < length (entries t)" "j \<noteq> i" for j
    using slot slots_okD [OF ok that(1) i] that e by (metis image_eqI nth_mem)
  have ok': "slots_ok key (entries t')"
    unfolding slots_ok_def
  proof (intro allI impI)
    fix a b
    assume ab: "a < length (entries t')" "b < length (entries t')" "key (entries t' ! a) = key (entries t' ! b)"
      "key (entries t' ! a) \<noteq> default_pubkey"
    show "a = b"
    proof (cases "a = i \<or> b = i")
      case True
      with ab other [of a] other [of b] i show ?thesis by (auto simp: t' nth_list_update split: if_splits)
    next
      case False
      with ab slots_okD [OF ok, of a b] show ?thesis by (simp add: t')
    qed
  qed
  have "slot_map key (entries t') k = ((slot_map key (entries t))(key e \<mapsto> e)) k" for k
  proof (cases "k = key e")
    case True
    then show ?thesis using slot_map_Some [OF ok', of k e] e set_update_memI [OF i] by (simp add: t')
  next
    case False
    have "x \<in> set (entries t') \<longleftrightarrow> x \<in> set (entries t)" if "key x = k" "k \<noteq> default_pubkey" for x
    proof
      assume "x \<in> set (entries t')"
      then have "x \<in> insert e (set (entries t))" using set_update_subset_insert [of "entries t" i e] by (auto simp: t')
      then show "x \<in> set (entries t)" using that False by auto
    next
      assume "x \<in> set (entries t)"
      then obtain j where j: "j < length (entries t)" "entries t ! j = x" by (auto simp: in_set_conv_nth)
      then have "j \<noteq> i" using that False slot by auto
      then have "entries t' ! j = x" using j by (simp add: t')
      with j(1) show "x \<in> set (entries t')" using nth_mem [of j "entries t'"] by (simp add: t')
    qed
    then have "slot_map key (entries t') k = Some x \<longleftrightarrow> slot_map key (entries t) k = Some x" for x
      using slot_map_Some [OF ok'] slot_map_Some [OF ok] by auto
    then have "slot_map key (entries t') k = slot_map key (entries t) k" by (metis option.exhaust)
    then show ?thesis using False by simp
  qed
  then show ?thesis using ok' by (auto simp: t')
qed

end

end
