(* ===== verification/Vault_Registry.thy ===== *)
theory Vault_Registry
  imports Slot_Table Fee_Groups
begin

text \<open>
  \<open>core/src/vault_registry.rs\<close>: the supported token mints and the vaults of an NCN, each list an
  array of 64 entries. Errors are \<open>ProgramError\<close>s, a \<open>TipRouterError\<close> as its custom code.
\<close>

section \<open>Model\<close>

record st_mint_entry =
  sm_st_mint :: pubkey
  sm_ncn_fee_group :: ncn_fee_group
  sm_reward_multiplier_bps :: u64
  sm_switchboard_feed :: pubkey
  sm_no_feed_weight :: u128

record vault_entry =
  ve_vault :: pubkey
  ve_st_mint :: pubkey
  ve_vault_index :: u64
  ve_slot_registered :: u64

record vault_registry =
  vr_ncn :: pubkey
  vr_bump :: u8
  vr_st_mint_list :: "st_mint_entry list"
  vr_vault_list :: "vault_entry list"

definition EMPTY_VAULT_INDEX :: u64 where "EMPTY_VAULT_INDEX = 18446744073709551615"
definition EMPTY_SLOT_REGISTERED :: u64 where "EMPTY_SLOT_REGISTERED = 18446744073709551615"

definition st_mint_entry_new ::
    "pubkey \<Rightarrow> ncn_fee_group \<Rightarrow> u64 \<Rightarrow> pubkey \<Rightarrow> u128 \<Rightarrow> st_mint_entry" where
  "st_mint_entry_new st_mint g reward_multiplier_bps switchboard_feed no_feed_weight =
    \<lparr>sm_st_mint = st_mint, sm_ncn_fee_group = g, sm_reward_multiplier_bps = reward_multiplier_bps,
     sm_switchboard_feed = switchboard_feed, sm_no_feed_weight = no_feed_weight\<rparr>"

definition st_mint_entry_default :: st_mint_entry where
  "st_mint_entry_default = st_mint_entry_new default_pubkey ncn_fee_group_default 0 default_pubkey 0"

definition sm_is_empty :: "st_mint_entry \<Rightarrow> bool" where
  "sm_is_empty e \<longleftrightarrow> sm_st_mint e = default_pubkey"

definition vault_entry_new :: "pubkey \<Rightarrow> pubkey \<Rightarrow> u64 \<Rightarrow> u64 \<Rightarrow> vault_entry" where
  "vault_entry_new vault st_mint vault_index slot_registered =
    \<lparr>ve_vault = vault, ve_st_mint = st_mint, ve_vault_index = vault_index,
     ve_slot_registered = slot_registered\<rparr>"

definition vault_entry_default :: vault_entry where
  "vault_entry_default = vault_entry_new default_pubkey default_pubkey EMPTY_VAULT_INDEX EMPTY_SLOT_REGISTERED"

definition ve_is_empty :: "vault_entry \<Rightarrow> bool" where
  "ve_is_empty e \<longleftrightarrow> ve_slot_registered e = 18446744073709551615"

definition vault_registry_new :: "pubkey \<Rightarrow> u8 \<Rightarrow> vault_registry" where
  "vault_registry_new ncn bump =
    \<lparr>vr_ncn = ncn, vr_bump = bump, vr_st_mint_list = replicate MAX_ST_MINTS st_mint_entry_default,
     vr_vault_list = replicate MAX_VAULTS vault_entry_default\<rparr>"

definition vault_registry_initialize :: "vault_registry \<Rightarrow> pubkey \<Rightarrow> u8 \<Rightarrow> vault_registry" where
  "vault_registry_initialize r ncn bump =
    r\<lparr>vr_ncn := ncn, vr_bump := bump, vr_st_mint_list := replicate MAX_ST_MINTS st_mint_entry_default,
      vr_vault_list := replicate MAX_VAULTS vault_entry_default\<rparr>"

definition has_st_mint :: "vault_registry \<Rightarrow> pubkey \<Rightarrow> bool" where
  "has_st_mint r mint \<longleftrightarrow> list_ex (\<lambda>m. sm_st_mint m = mint) (vr_st_mint_list r)"

definition check_st_mint_entry :: "st_mint_entry \<Rightarrow> program_error + unit" where
  "check_st_mint_entry e =
    fail_if (sm_no_feed_weight e = 0 \<and> sm_switchboard_feed e = default_pubkey)
      (program_error_from NoFeedWeightOrSwitchboardFeed)"

definition register_st_mint ::
    "vault_registry \<Rightarrow> pubkey \<Rightarrow> ncn_fee_group \<Rightarrow> u64 \<Rightarrow> pubkey \<Rightarrow> u128 \<Rightarrow> program_error + vault_registry" where
  "register_st_mint r st_mint g reward_multiplier_bps switchboard_feed no_feed_weight =
    rbind (fail_if (list_ex (\<lambda>m. sm_st_mint m = st_mint) (vr_st_mint_list r)) (program_error_from MintInTable)) (\<lambda>_.
    rbind (ok_or (program_error_from VaultRegistryListFull)
      (find_idx (\<lambda>m. sm_st_mint m = sm_st_mint st_mint_entry_default) (vr_st_mint_list r))) (\<lambda>i.
    let new_mint_entry = st_mint_entry_new st_mint g reward_multiplier_bps switchboard_feed no_feed_weight in
    rbind (check_st_mint_entry new_mint_entry) (\<lambda>_.
    Inr (r\<lparr>vr_st_mint_list := (vr_st_mint_list r)[i := new_mint_entry]\<rparr>))))"

definition set_st_mint ::
    "vault_registry \<Rightarrow> pubkey \<Rightarrow> u8 option \<Rightarrow> u64 option \<Rightarrow> pubkey option \<Rightarrow> u128 option \<Rightarrow>
     program_error + vault_registry" where
  "set_st_mint r st_mint ncn_fee_group_opt reward_multiplier_bps_opt switchboard_feed_opt no_feed_weight_opt =
    rbind (ok_or (program_error_from MintEntryNotFound)
      (find_idx (\<lambda>m. sm_st_mint m = st_mint) (vr_st_mint_list r))) (\<lambda>i.
    rbind (if_some ncn_fee_group_opt (\<lambda>g m.
        rbind (rmap_err program_error_from (ncn_fee_group_try_from g)) (\<lambda>g.
        Inr (m\<lparr>sm_ncn_fee_group := g\<rparr>))) (vr_st_mint_list r ! i)) (\<lambda>m.
    rbind (if_some reward_multiplier_bps_opt (\<lambda>v m. Inr (m\<lparr>sm_reward_multiplier_bps := v\<rparr>)) m) (\<lambda>m.
    rbind (if_some switchboard_feed_opt (\<lambda>v m. Inr (m\<lparr>sm_switchboard_feed := v\<rparr>)) m) (\<lambda>m.
    rbind (if_some no_feed_weight_opt (\<lambda>v m. Inr (m\<lparr>sm_no_feed_weight := v\<rparr>)) m) (\<lambda>m.
    rbind (check_st_mint_entry m) (\<lambda>_.
    Inr (r\<lparr>vr_st_mint_list := (vr_st_mint_list r)[i := m]\<rparr>)))))))"

definition register_vault ::
    "vault_registry \<Rightarrow> pubkey \<Rightarrow> pubkey \<Rightarrow> u64 \<Rightarrow> u64 \<Rightarrow> program_error + vault_registry" where
  "register_vault r vault st_mint vault_index current_slot =
    (if list_ex (\<lambda>m. ve_vault m = vault) (vr_vault_list r) then Inr r else
     rbind (ok_or (program_error_from VaultRegistryListFull)
       (find_idx (\<lambda>m. ve_st_mint m = ve_st_mint vault_entry_default) (vr_vault_list r))) (\<lambda>i.
     Inr (r\<lparr>vr_vault_list := (vr_vault_list r)[i := vault_entry_new vault st_mint vault_index current_slot]\<rparr>)))"

definition vr_vault_count :: "vault_registry \<Rightarrow> u64" where
  "vr_vault_count r = of_nat (length (filter (\<lambda>m. \<not> ve_is_empty m) (vr_vault_list r)))"

definition get_valid_vault_entries :: "vault_registry \<Rightarrow> vault_entry list" where
  "get_valid_vault_entries r = filter (\<lambda>m. \<not> ve_is_empty m) (vr_vault_list r)"

definition get_valid_mint_entries :: "vault_registry \<Rightarrow> st_mint_entry list" where
  "get_valid_mint_entries r = filter (\<lambda>m. \<not> sm_is_empty m) (vr_st_mint_list r)"

definition vr_st_mint_count :: "vault_registry \<Rightarrow> nat" where
  "vr_st_mint_count r = length (filter (\<lambda>m. \<not> sm_is_empty m) (vr_st_mint_list r))"

definition get_mint_entry :: "vault_registry \<Rightarrow> pubkey \<Rightarrow> program_error + st_mint_entry" where
  "get_mint_entry r st_mint =
    ok_or (program_error_from MintEntryNotFound)
      (List.find (\<lambda>m. sm_st_mint m = st_mint) (vr_st_mint_list r))"

section \<open>The lists as tables\<close>

definition mint_map :: "vault_registry \<Rightarrow> pubkey \<Rightarrow> st_mint_entry option" where
  "mint_map r = slot_map sm_st_mint (vr_st_mint_list r)"

definition vault_map :: "vault_registry \<Rightarrow> pubkey \<Rightarrow> vault_entry option" where
  "vault_map r = slot_map ve_vault (vr_vault_list r)"

text \<open>A mint entry is usable when it has a feed or a fixed weight. The three ways the code asks
  whether a vault slot is free (\<open>register_vault\<close> by the mint, \<open>is_empty\<close> by the slot, and the key)
  agree.\<close>

definition registry_inv :: "vault_registry \<Rightarrow> bool" where
  "registry_inv r \<longleftrightarrow>
    length (vr_st_mint_list r) = 64 \<and> length (vr_vault_list r) = 64 \<and>
    slots_ok sm_st_mint (vr_st_mint_list r) \<and> slots_ok ve_vault (vr_vault_list r) \<and>
    (\<forall>m \<in> set (vr_st_mint_list r). sm_is_empty m \<or> check_st_mint_entry m = Inr ()) \<and>
    (\<forall>v \<in> set (vr_vault_list r). (ve_is_empty v \<longleftrightarrow> ve_vault v = default_pubkey) \<and>
      (ve_st_mint v = default_pubkey \<longleftrightarrow> ve_vault v = default_pubkey))"

text \<open>Writing a mint entry, by registration or by an update.\<close>

definition writes_mint :: "vault_registry \<Rightarrow> st_mint_entry \<Rightarrow> vault_registry \<Rightarrow> bool" where
  "writes_mint r e r' \<longleftrightarrow>
    register_st_mint r (sm_st_mint e) (sm_ncn_fee_group e) (sm_reward_multiplier_bps e)
      (sm_switchboard_feed e) (sm_no_feed_weight e) = Inr r' \<or>
    (\<exists>g bps feed w. set_st_mint r (sm_st_mint e) g bps feed w = Inr r' \<and> get_mint_entry r' (sm_st_mint e) = Inr e)"

definition writes_vault :: "vault_registry \<Rightarrow> vault_entry \<Rightarrow> vault_registry \<Rightarrow> bool" where
  "writes_vault r e r' \<longleftrightarrow> vault_map r (ve_vault e) = None \<and>
    register_vault r (ve_vault e) (ve_st_mint e) (ve_vault_index e) (ve_slot_registered e) = Inr r' \<and>
    (\<forall>v \<in> set (vr_vault_list r). ve_st_mint v = default_pubkey \<longrightarrow> ve_vault v = default_pubkey)"

lemma st_mint_entry_new_sel [simp]: "st_mint_entry_new (sm_st_mint e) (sm_ncn_fee_group e)
    (sm_reward_multiplier_bps e) (sm_switchboard_feed e) (sm_no_feed_weight e) = e"
  by (simp add: st_mint_entry_new_def)

lemma vault_entry_new_sel [simp]:
  "vault_entry_new (ve_vault e) (ve_st_mint e) (ve_vault_index e) (ve_slot_registered e) = e"
  by (simp add: vault_entry_new_def)

lemma register_st_mint_Inr:
  "register_st_mint r mint g bps feed w = Inr r' \<longleftrightarrow>
    mint \<notin> sm_st_mint ` set (vr_st_mint_list r) \<and>
    check_st_mint_entry (st_mint_entry_new mint g bps feed w) = Inr () \<and>
    (\<exists>i. find_idx (\<lambda>m. sm_st_mint m = default_pubkey) (vr_st_mint_list r) = Some i \<and>
      r' = r\<lparr>vr_st_mint_list := (vr_st_mint_list r)[i := st_mint_entry_new mint g bps feed w]\<rparr>)"
proof -
  have "sm_st_mint st_mint_entry_default = default_pubkey"
    by (simp add: st_mint_entry_default_def st_mint_entry_new_def)
  then show ?thesis by (auto simp: register_st_mint_def res_simps Let_def list_ex_iff)
qed

text \<open>The fields a \<open>set_st_mint\<close> changes.\<close>

definition edit_mint ::
    "ncn_fee_group option \<Rightarrow> u64 option \<Rightarrow> pubkey option \<Rightarrow> u128 option \<Rightarrow> st_mint_entry \<Rightarrow> st_mint_entry" where
  "edit_mint g bps feed w m =
    m\<lparr>sm_ncn_fee_group := case g of None \<Rightarrow> sm_ncn_fee_group m | Some x \<Rightarrow> x,
      sm_reward_multiplier_bps := case bps of None \<Rightarrow> sm_reward_multiplier_bps m | Some x \<Rightarrow> x,
      sm_switchboard_feed := case feed of None \<Rightarrow> sm_switchboard_feed m | Some x \<Rightarrow> x,
      sm_no_feed_weight := case w of None \<Rightarrow> sm_no_feed_weight m | Some x \<Rightarrow> x\<rparr>"

lemma edit_mint_key [simp]: "sm_st_mint (edit_mint g bps feed w m) = sm_st_mint m"
  by (simp add: edit_mint_def)

lemma set_st_mint_cases:
  assumes "set_st_mint r mint g bps feed w = Inr r'"
  obtains i go where "find_idx (\<lambda>m. sm_st_mint m = mint) (vr_st_mint_list r) = Some i"
    "case g of None \<Rightarrow> go = None | Some u \<Rightarrow> \<exists>x. ncn_fee_group_try_from u = Inr x \<and> go = Some x"
    "check_st_mint_entry (edit_mint go bps feed w (vr_st_mint_list r ! i)) = Inr ()"
    "r' = r\<lparr>vr_st_mint_list := (vr_st_mint_list r)[i := edit_mint go bps feed w (vr_st_mint_list r ! i)]\<rparr>"
proof -
  let ?e = "\<lambda>i. vr_st_mint_list r ! i"
  obtain i m1 where i: "find_idx (\<lambda>m. sm_st_mint m = mint) (vr_st_mint_list r) = Some i"
    and m1: "if_some g (\<lambda>g m. rbind (rmap_err program_error_from (ncn_fee_group_try_from g)) (\<lambda>g.
        Inr (m\<lparr>sm_ncn_fee_group := g\<rparr>))) (?e i) = Inr m1"
    and rest: "rbind (if_some bps (\<lambda>v m. Inr (m\<lparr>sm_reward_multiplier_bps := v\<rparr>)) m1) (\<lambda>m.
      rbind (if_some feed (\<lambda>v m. Inr (m\<lparr>sm_switchboard_feed := v\<rparr>)) m) (\<lambda>m.
      rbind (if_some w (\<lambda>v m. Inr (m\<lparr>sm_no_feed_weight := v\<rparr>)) m) (\<lambda>m.
      rbind (check_st_mint_entry m) (\<lambda>_.
      Inr (r\<lparr>vr_st_mint_list := (vr_st_mint_list r)[i := m]\<rparr>))))) = Inr r'"
    using assms unfolding set_st_mint_def rbind_Inr ok_or_Inr by blast
  obtain go where go: "case g of None \<Rightarrow> go = None | Some u \<Rightarrow> \<exists>x. ncn_fee_group_try_from u = Inr x \<and> go = Some x"
    and m1': "m1 = edit_mint go None None None (?e i)"
    using m1 by (cases g) (auto simp: if_some_def edit_mint_def res_simps)
  have "check_st_mint_entry (edit_mint go bps feed w (?e i)) = Inr () \<and>
      r' = r\<lparr>vr_st_mint_list := (vr_st_mint_list r)[i := edit_mint go bps feed w (?e i)]\<rparr>"
    using rest unfolding m1'
    by (cases bps; cases feed; cases w) (auto simp: if_some_def edit_mint_def rbind_Inr)
  with i go show ?thesis using that by blast
qed

interpretation mint_table: slot_table sm_st_mint vr_st_mint_list writes_mint
proof
  fix r e r'
  assume w: "writes_mint r e r'" and e: "sm_st_mint e \<noteq> default_pubkey"
  consider "register_st_mint r (sm_st_mint e) (sm_ncn_fee_group e) (sm_reward_multiplier_bps e)
      (sm_switchboard_feed e) (sm_no_feed_weight e) = Inr r'"
    | g bps feed w where "set_st_mint r (sm_st_mint e) g bps feed w = Inr r'" "get_mint_entry r' (sm_st_mint e) = Inr e"
    using w unfolding writes_mint_def by blast
  then show "\<exists>i<length (vr_st_mint_list r). vr_st_mint_list r' = (vr_st_mint_list r)[i := e] \<and>
      (sm_st_mint (vr_st_mint_list r ! i) = sm_st_mint e \<or>
       sm_st_mint (vr_st_mint_list r ! i) = default_pubkey \<and> sm_st_mint e \<notin> sm_st_mint ` set (vr_st_mint_list r))"
  proof cases
    case 1
    then show ?thesis by (auto simp: register_st_mint_Inr dest: find_idx_SomeD)
  next
    case 2
    from 2(1) obtain i go where i: "find_idx (\<lambda>m. sm_st_mint m = sm_st_mint e) (vr_st_mint_list r) = Some i"
      and r': "r' = r\<lparr>vr_st_mint_list := (vr_st_mint_list r)[i := edit_mint go bps feed w (vr_st_mint_list r ! i)]\<rparr>"
      by (rule set_st_mint_cases)
    let ?e = "edit_mint go bps feed w (vr_st_mint_list r ! i)"
    note D = find_idx_SomeD [OF i]
    have "find_idx (\<lambda>m. sm_st_mint m = sm_st_mint e) (vr_st_mint_list r') = Some i"
      using D by (simp add: find_idx_Some r')
    then have "e = ?e" using 2(2) D(1) by (simp add: get_mint_entry_def find_conv_find_idx r')
    then show ?thesis using D r' by auto
  qed
qed

interpretation vault_table: slot_table ve_vault vr_vault_list writes_vault
proof
  fix r e r'
  assume w: "writes_vault r e r'" and e: "ve_vault e \<noteq> default_pubkey"
  have none: "ve_vault e \<notin> ve_vault ` set (vr_vault_list r)"
    using w e by (simp add: writes_vault_def vault_map_def slot_map_None)
  then have not_listed: "\<not> list_ex (\<lambda>m. ve_vault m = ve_vault e) (vr_vault_list r)"
    unfolding list_ex_iff by (metis image_eqI)
  have "ve_st_mint vault_entry_default = default_pubkey"
    by (simp add: vault_entry_default_def vault_entry_new_def)
  then obtain i where i: "find_idx (\<lambda>m. ve_st_mint m = default_pubkey) (vr_vault_list r) = Some i"
    and r': "r' = r\<lparr>vr_vault_list := (vr_vault_list r)[i := e]\<rparr>"
    using w not_listed by (auto simp: writes_vault_def register_vault_def res_simps)
  then have "ve_vault (vr_vault_list r ! i) = default_pubkey"
    using w find_idx_SomeD(1,2) [OF i] by (simp add: writes_vault_def)
  then show "\<exists>i<length (vr_vault_list r). vr_vault_list r' = (vr_vault_list r)[i := e] \<and>
      (ve_vault (vr_vault_list r ! i) = ve_vault e \<or>
       ve_vault (vr_vault_list r ! i) = default_pubkey \<and> ve_vault e \<notin> ve_vault ` set (vr_vault_list r))"
    using find_idx_SomeD(1) [OF i] none r' by auto
qed

section \<open>Well-formed registries\<close>

lemma registry_invD:
  assumes "registry_inv r"
  shows "length (vr_st_mint_list r) = 64" "length (vr_vault_list r) = 64"
    "slots_ok sm_st_mint (vr_st_mint_list r)" "slots_ok ve_vault (vr_vault_list r)"
    "m \<in> set (vr_st_mint_list r) \<Longrightarrow> sm_is_empty m \<or> check_st_mint_entry m = Inr ()"
    "v \<in> set (vr_vault_list r) \<Longrightarrow> ve_is_empty v \<longleftrightarrow> ve_vault v = default_pubkey"
    "v \<in> set (vr_vault_list r) \<Longrightarrow> ve_st_mint v = default_pubkey \<longleftrightarrow> ve_vault v = default_pubkey"
  using assms unfolding registry_inv_def by blast+

lemma registry_inv_new: "registry_inv (vault_registry_new ncn bump)"
  by (simp add: registry_inv_def vault_registry_new_def MAX_ST_MINTS_def MAX_VAULTS_def slots_ok_empty
      st_mint_entry_default_def st_mint_entry_new_def vault_entry_default_def vault_entry_new_def
      sm_is_empty_def ve_is_empty_def EMPTY_SLOT_REGISTERED_def)

lemma put_mint_inv:
  assumes inv: "registry_inv r" and i: "i < 64"
    and ok: "slots_ok sm_st_mint ((vr_st_mint_list r)[i := m])" and m: "sm_is_empty m \<or> check_st_mint_entry m = Inr ()"
  shows "registry_inv (r\<lparr>vr_st_mint_list := (vr_st_mint_list r)[i := m]\<rparr>)"
proof -
  have "x = m \<or> x \<in> set (vr_st_mint_list r)" if "x \<in> set ((vr_st_mint_list r)[i := m])" for x
    using that set_update_subset_insert by fastforce
  then show ?thesis using inv ok m unfolding registry_inv_def by auto
qed

lemma slots_ok_same_key:
  assumes "slots_ok key xs" and "i < length xs" and "key e = key (xs ! i)"
  shows "slots_ok key (xs[i := e])"
proof -
  have "key (xs[i := e] ! j) = key (xs ! j)" for j using assms(2,3) by (cases "j = i") simp_all
  then show ?thesis using assms(1) by (simp add: slots_ok_def)
qed

lemma register_st_mint_inv:
  assumes inv: "registry_inv r" and reg: "register_st_mint r mint g bps feed w = Inr r'"
  shows "registry_inv r' \<and> mint \<noteq> default_pubkey"
proof -
  let ?e = "st_mint_entry_new mint g bps feed w"
  obtain i where i: "find_idx (\<lambda>m. sm_st_mint m = default_pubkey) (vr_st_mint_list r) = Some i"
    and new: "mint \<notin> sm_st_mint ` set (vr_st_mint_list r)" and ok: "check_st_mint_entry ?e = Inr ()"
    and r': "r' = r\<lparr>vr_st_mint_list := (vr_st_mint_list r)[i := ?e]\<rparr>"
    using reg by (auto simp: register_st_mint_Inr)
  have key: "sm_st_mint ?e = mint" by (simp add: st_mint_entry_new_def)
  have "mint \<noteq> default_pubkey"
  proof
    assume "mint = default_pubkey"
    then have "mint = sm_st_mint (vr_st_mint_list r ! i)" using find_idx_SomeD(2) [OF i] by simp
    then show False using new nth_mem [OF find_idx_SomeD(1) [OF i]] by blast
  qed
  moreover have "writes_mint r ?e r'" using reg by (simp add: writes_mint_def st_mint_entry_new_def)
  ultimately have "slots_ok sm_st_mint (vr_st_mint_list r')"
    using mint_table.write_ok [of r ?e r'] registry_invD(3) [OF inv] key by simp
  then have "registry_inv r'"
    using put_mint_inv [OF inv, of i ?e] ok find_idx_SomeD(1) [OF i] registry_invD(1) [OF inv] by (simp add: r')
  then show ?thesis using \<open>mint \<noteq> default_pubkey\<close> by blast
qed

lemma set_st_mint_inv:
  assumes inv: "registry_inv r" and set: "set_st_mint r mint g bps feed w = Inr r'"
  shows "registry_inv r'"
proof -
  from set obtain i go where i: "find_idx (\<lambda>m. sm_st_mint m = mint) (vr_st_mint_list r) = Some i"
    and ok: "check_st_mint_entry (edit_mint go bps feed w (vr_st_mint_list r ! i)) = Inr ()"
    and r': "r' = r\<lparr>vr_st_mint_list := (vr_st_mint_list r)[i := edit_mint go bps feed w (vr_st_mint_list r ! i)]\<rparr>"
    by (rule set_st_mint_cases)
  have "i < 64" using find_idx_SomeD(1) [OF i] registry_invD(1) [OF inv] by simp
  moreover have "slots_ok sm_st_mint ((vr_st_mint_list r)[i := edit_mint go bps feed w (vr_st_mint_list r ! i)])"
    by (rule slots_ok_same_key [OF registry_invD(3) [OF inv] find_idx_SomeD(1) [OF i]]) simp
  ultimately show ?thesis unfolding r' using put_mint_inv [OF inv] ok by blast
qed

text \<open>A vault that is registered has a key, a mint with a key, and a real slot.\<close>

definition real_vault :: "pubkey \<Rightarrow> pubkey \<Rightarrow> u64 \<Rightarrow> bool" where
  "real_vault vault st_mint slot \<longleftrightarrow>
    vault \<noteq> default_pubkey \<and> st_mint \<noteq> default_pubkey \<and> slot \<noteq> EMPTY_SLOT_REGISTERED"

lemma register_vault_cases:
  assumes "registry_inv r" and "vault \<noteq> default_pubkey"
  shows "register_vault r vault st_mint idx slot =
    (if vault_map r vault \<noteq> None then Inr r else
     case find_idx (\<lambda>m. ve_vault m = default_pubkey) (vr_vault_list r) of
       None \<Rightarrow> Inl (program_error_from VaultRegistryListFull)
     | Some i \<Rightarrow> Inr (r\<lparr>vr_vault_list := (vr_vault_list r)[i := vault_entry_new vault st_mint idx slot]\<rparr>))"
proof -
  have "ve_st_mint vault_entry_default = default_pubkey"
    by (simp add: vault_entry_default_def vault_entry_new_def)
  moreover have "find_idx (\<lambda>m. ve_st_mint m = default_pubkey) (vr_vault_list r) =
      find_idx (\<lambda>m. ve_vault m = default_pubkey) (vr_vault_list r)"
    by (rule find_idx_cong) (simp_all add: registry_invD(7) [OF assms(1)])
  moreover have "list_ex (\<lambda>m. ve_vault m = vault) (vr_vault_list r) \<longleftrightarrow> vault_map r vault \<noteq> None"
    using assms(2) by (auto simp: list_ex_iff vault_map_def slot_map_None)
  ultimately show ?thesis by (simp add: register_vault_def ok_or_def split: option.split)
qed

lemma register_vault_inv:
  assumes inv: "registry_inv r" and real: "real_vault vault st_mint slot"
    and reg: "register_vault r vault st_mint idx slot = Inr r'"
  shows "registry_inv r' \<and> vault_map r' = (if vault_map r vault \<noteq> None then vault_map r
    else (vault_map r)(vault \<mapsto> vault_entry_new vault st_mint idx slot))"
proof (cases "vault_map r vault")
  case (Some v)
  then show ?thesis using inv reg register_vault_cases [OF inv] real by (simp add: real_vault_def)
next
  case None
  let ?e = "vault_entry_new vault st_mint idx slot"
  obtain i where i: "find_idx (\<lambda>m. ve_vault m = default_pubkey) (vr_vault_list r) = Some i"
    and r': "r' = r\<lparr>vr_vault_list := (vr_vault_list r)[i := ?e]\<rparr>"
    using None reg register_vault_cases [OF inv] real by (auto simp: real_vault_def split: option.splits)
  have w: "writes_vault r ?e r'"
    using None reg registry_invD(7) [OF inv] by (simp add: writes_vault_def vault_entry_new_def)
  have e: "ve_vault ?e = vault" "ve_st_mint ?e = st_mint" "\<not> ve_is_empty ?e"
    using real by (simp_all add: vault_entry_new_def real_vault_def ve_is_empty_def EMPTY_SLOT_REGISTERED_def)
  have ok: "slots_ok ve_vault (vr_vault_list r')" "vault_map r' = (vault_map r)(vault \<mapsto> ?e)"
    "length (vr_vault_list r') = 64"
    using vault_table.write_ok [OF w] e(1) real registry_invD(2,4) [OF inv] by (simp_all add: real_vault_def vault_map_def)
  have "x = ?e \<or> x \<in> set (vr_vault_list r)" if "x \<in> set (vr_vault_list r')" for x
    using that set_update_subset_insert [of "vr_vault_list r" i ?e] by (auto simp: r')
  then have entries: "(ve_is_empty v \<longleftrightarrow> ve_vault v = default_pubkey) \<and>
      (ve_st_mint v = default_pubkey \<longleftrightarrow> ve_vault v = default_pubkey)" if "v \<in> set (vr_vault_list r')" for v
    using that registry_invD(6,7) [OF inv, of v] e real unfolding real_vault_def by metis
  have "vr_st_mint_list r' = vr_st_mint_list r" by (simp add: r')
  then have "registry_inv r'"
    using inv ok(1,3) entries unfolding registry_inv_def by simp
  with ok(2) None show ?thesis by simp
qed

section \<open>Properties\<close>

inductive registry_reachable :: "vault_registry \<Rightarrow> bool" where
  created: "registry_reachable (vault_registry_new ncn bump)"
| register_mint: "registry_reachable r \<Longrightarrow> register_st_mint r mint g bps feed w = Inr r' \<Longrightarrow> registry_reachable r'"
| set_mint: "registry_reachable r \<Longrightarrow> set_st_mint r mint go bpso feedo wo = Inr r' \<Longrightarrow> registry_reachable r'"
| register_vault: "registry_reachable r \<Longrightarrow> real_vault vault st_mint slot \<Longrightarrow>
    register_vault r vault st_mint idx slot = Inr r' \<Longrightarrow> registry_reachable r'"

lemma registry_reachable_inv: "registry_reachable r \<Longrightarrow> registry_inv r"
  by (induction rule: registry_reachable.induct)
    (auto simp: registry_inv_new dest: register_st_mint_inv set_st_mint_inv register_vault_inv)

lemma vault_count_map:
  assumes "registry_inv r"
  shows "unat (vr_vault_count r) = card (dom (vault_map r))"
proof -
  have "filter (\<lambda>m. \<not> ve_is_empty m) (vr_vault_list r) = filter (\<lambda>m. ve_vault m \<noteq> default_pubkey) (vr_vault_list r)"
    by (rule filter_cong) (simp_all add: registry_invD(6) [OF assms])
  moreover have "length (filter (\<lambda>m. ve_vault m \<noteq> default_pubkey) (vr_vault_list r)) \<le> 64"
    using length_filter_le [of _ "vr_vault_list r"] registry_invD(2) [OF assms] by simp
  ultimately show ?thesis
    using slot_map_card [OF registry_invD(4) [OF assms]] by (simp add: vr_vault_count_def vault_map_def unat_of_nat)
qed

lemma mint_count_map: "registry_inv r \<Longrightarrow> vr_st_mint_count r = card (dom (mint_map r))"
  using slot_map_card [OF registry_invD(3), of r] by (simp add: vr_st_mint_count_def mint_map_def sm_is_empty_def)

text \<open>In every registry the program can reach, each mint and each vault is listed at most once, every
  registered mint has a price feed or a fixed weight, the three tests for a free vault slot agree, and
  the counts the program reports are the numbers of registered mints and vaults.\<close>

theorem registry_reachable_wf:
  assumes "registry_reachable r"
  shows "distinct (map sm_st_mint (get_valid_mint_entries r)) \<and>
    distinct (map ve_vault (filter (\<lambda>v. ve_vault v \<noteq> default_pubkey) (vr_vault_list r))) \<and>
    (\<forall>mint m. mint_map r mint = Some m \<longrightarrow> sm_no_feed_weight m \<noteq> 0 \<or> sm_switchboard_feed m \<noteq> default_pubkey) \<and>
    (\<forall>v \<in> set (vr_vault_list r). (ve_is_empty v \<longleftrightarrow> ve_vault v = default_pubkey) \<and>
      (ve_st_mint v = default_pubkey \<longleftrightarrow> ve_vault v = default_pubkey)) \<and>
    vr_st_mint_count r = card (dom (mint_map r)) \<and> unat (vr_vault_count r) = card (dom (vault_map r))"
proof -
  note inv = registry_reachable_inv [OF assms]
  have "sm_no_feed_weight m \<noteq> 0 \<or> sm_switchboard_feed m \<noteq> default_pubkey" if "mint_map r mint = Some m" for mint m
    using slot_map_Some_find [OF that [unfolded mint_map_def]] registry_invD(5) [OF inv, of m]
    by (auto simp: sm_is_empty_def check_st_mint_entry_def res_simps)
  moreover have "distinct (map sm_st_mint (get_valid_mint_entries r))"
    using slots_ok_distinct [OF registry_invD(3) [OF inv]] by (simp add: get_valid_mint_entries_def sm_is_empty_def)
  ultimately show ?thesis
    using slots_ok_distinct [OF registry_invD(4) [OF inv]] registry_invD(6,7) [OF inv]
      mint_count_map [OF inv] vault_count_map [OF inv] by (intro conjI allI impI ballI) simp_all
qed

lemma free_slot_card:
  assumes "slots_ok key xs" and "length xs = 64"
  shows "find_idx (\<lambda>e. key e = default_pubkey) xs = None \<longleftrightarrow> card (dom (slot_map key xs)) = 64"
proof -
  have "length (filter (\<lambda>e. key e \<noteq> default_pubkey) xs) = length xs \<longleftrightarrow> (\<forall>e \<in> set xs. key e \<noteq> default_pubkey)"
    by (rule filter_all_length)
  then show ?thesis using slot_map_card [OF assms(1)] assms(2) by (simp add: find_idx_None)
qed

text \<open>Registering a mint refines an insertion into a map of at most 64 entries, with the errors in
  the order the code raises them: a mint that is listed is refused, then a full list, then an entry with
  neither feed nor weight; otherwise exactly this entry is added and the vaults stay as they were.\<close>

theorem register_st_mint_refines:
  assumes "registry_inv r" and "mint \<noteq> default_pubkey"
  shows "case register_st_mint r mint g bps feed w of
      Inl e \<Rightarrow> e = program_error_from
        (if mint_map r mint \<noteq> None then MintInTable
         else if card (dom (mint_map r)) = 64 then VaultRegistryListFull else NoFeedWeightOrSwitchboardFeed)
    | Inr r' \<Rightarrow> mint_map r mint = None \<and> card (dom (mint_map r)) < 64 \<and> (w \<noteq> 0 \<or> feed \<noteq> default_pubkey) \<and>
        mint_map r' = (mint_map r)(mint \<mapsto> st_mint_entry_new mint g bps feed w) \<and> vault_map r' = vault_map r"
proof (cases "register_st_mint r mint g bps feed w")
  case (Inl e)
  have listed: "list_ex (\<lambda>m. sm_st_mint m = mint) (vr_st_mint_list r) \<longleftrightarrow> mint_map r mint \<noteq> None"
    using assms(2) by (auto simp: list_ex_iff mint_map_def slot_map_None)
  have "sm_st_mint st_mint_entry_default = default_pubkey"
    by (simp add: st_mint_entry_default_def st_mint_entry_new_def)
  then show ?thesis
    using Inl free_slot_card [OF registry_invD(3,1) [OF assms(1)]]
    by (auto simp: register_st_mint_def res_simps listed Let_def check_st_mint_entry_def mint_map_def)
next
  case (Inr r')
  let ?e = "st_mint_entry_new mint g bps feed w"
  have w: "writes_mint r ?e r'" using Inr by (simp add: writes_mint_def st_mint_entry_new_def)
  have key: "sm_st_mint ?e = mint" by (simp add: st_mint_entry_new_def)
  have "mint_map r' = (mint_map r)(mint \<mapsto> ?e)"
    using mint_table.write_ok [OF w] registry_invD(3) [OF assms(1)] assms(2) key by (simp add: mint_map_def)
  moreover have "mint_map r mint = None" "check_st_mint_entry ?e = Inr ()" "vault_map r' = vault_map r"
    "find_idx (\<lambda>m. sm_st_mint m = default_pubkey) (vr_st_mint_list r) \<noteq> None"
    using Inr by (auto simp: register_st_mint_Inr mint_map_def slot_map_None vault_map_def)
  moreover have "card (dom (mint_map r)) \<le> 64"
    using slot_map_card [OF registry_invD(3) [OF assms(1)]] length_filter_le [of _ "vr_st_mint_list r"]
      registry_invD(1) [OF assms(1)] by (simp add: mint_map_def)
  ultimately show ?thesis
    using Inr free_slot_card [OF registry_invD(3,1) [OF assms(1)]]
    by (auto simp: check_st_mint_entry_def res_simps st_mint_entry_new_def mint_map_def)
qed

text \<open>Registering a vault refines an insertion that keeps what is there: a vault that is listed is
  left as it is, with success; a new one is added, unless 64 vaults are listed.\<close>

theorem register_vault_refines:
  assumes "registry_inv r" and "real_vault vault st_mint slot"
  shows "case register_vault r vault st_mint idx slot of
      Inl e \<Rightarrow> e = program_error_from VaultRegistryListFull \<and> vault_map r vault = None \<and> card (dom (vault_map r)) = 64
    | Inr r' \<Rightarrow> registry_inv r' \<and> mint_map r' = mint_map r \<and>
        vault_map r' = (if vault_map r vault \<noteq> None then vault_map r
          else (vault_map r)(vault \<mapsto> vault_entry_new vault st_mint idx slot))"
proof (cases "register_vault r vault st_mint idx slot")
  case (Inl e)
  then show ?thesis
    using register_vault_cases [OF assms(1)] assms(2) free_slot_card [OF registry_invD(4,2) [OF assms(1)]]
    by (auto simp: real_vault_def vault_map_def split: if_splits option.splits)
next
  case (Inr r')
  then have "mint_map r' = mint_map r"
    by (auto simp: register_vault_def mint_map_def res_simps split: if_splits)
  with Inr register_vault_inv [OF assms Inr] show ?thesis by simp
qed

section \<open>Sample registry\<close>

definition sample_registry :: vault_registry where
  "sample_registry = vault_registry_new (replicate 32 9) 255"

theorem registry_reachable_wf_witness: "vr_st_mint_count sample_registry = card (dom (mint_map sample_registry))"
  using registry_reachable_wf [OF registry_reachable.created [of "replicate 32 9" 255]] by (simp add: sample_registry_def)

lemma ones_key: "replicate 32 (1 :: u8) \<noteq> default_pubkey"
  by (simp add: default_pubkey_def replicate_eq_replicate)

lemma sample_mint_registered:
  "register_st_mint sample_registry (replicate 32 1) ncn_fee_group_default 10000 default_pubkey 5 =
    Inr (sample_registry\<lparr>vr_st_mint_list := (vr_st_mint_list sample_registry)
      [0 := st_mint_entry_new (replicate 32 1) ncn_fee_group_default 10000 default_pubkey 5]\<rparr>)"
  using ones_key by (auto simp: register_st_mint_Inr sample_registry_def vault_registry_new_def MAX_ST_MINTS_def
      st_mint_entry_default_def st_mint_entry_new_def check_st_mint_entry_def)

theorem register_st_mint_refines_witness:
  "mint_map (sample_registry\<lparr>vr_st_mint_list := (vr_st_mint_list sample_registry)
      [0 := st_mint_entry_new (replicate 32 1) ncn_fee_group_default 10000 default_pubkey 5]\<rparr>) (replicate 32 1) =
    Some (st_mint_entry_new (replicate 32 1) ncn_fee_group_default 10000 default_pubkey 5)"
  using register_st_mint_refines [where r = sample_registry and g = ncn_fee_group_default and bps = 10000
      and feed = default_pubkey and w = 5, OF _ ones_key]
    registry_inv_new [of "replicate 32 9" 255, folded sample_registry_def] sample_mint_registered by simp

theorem register_vault_refines_witness:
  "vault_map (sample_registry\<lparr>vr_vault_list := (vr_vault_list sample_registry)
      [0 := vault_entry_new (replicate 32 1) (replicate 32 1) 0 77]\<rparr>) (replicate 32 1) =
    Some (vault_entry_new (replicate 32 1) (replicate 32 1) 0 77)"
proof -
  have real: "real_vault (replicate 32 1) (replicate 32 1) 77"
    using ones_key by (simp add: real_vault_def EMPTY_SLOT_REGISTERED_def)
  have inv: "registry_inv sample_registry" unfolding sample_registry_def by (rule registry_inv_new)
  have free: "vault_map sample_registry (replicate 32 1) = None"
    by (simp add: vault_map_def sample_registry_def vault_registry_new_def vault_entry_default_def vault_entry_new_def)
  have "register_vault sample_registry (replicate 32 1) (replicate 32 1) 0 77 =
    Inr (sample_registry\<lparr>vr_vault_list := (vr_vault_list sample_registry)
      [0 := vault_entry_new (replicate 32 1) (replicate 32 1) 0 77]\<rparr>)"
    using ones_key register_vault_cases [OF inv ones_key] free
    by (simp add: sample_registry_def vault_registry_new_def MAX_VAULTS_def vault_entry_default_def vault_entry_new_def)
  with register_vault_refines [OF inv real, of 0] free show ?thesis by simp
qed

end
