(* ===== verification/Weight_Table.thy ===== *)
theory Weight_Table
  imports Vault_Registry Precise_Number
begin

text \<open>
  \<open>core/src/weight_entry.rs\<close> and \<open>core/src/weight_table.rs\<close>: the weights of the supported
  mints for one epoch, next to a copy of the vault list of the registry.
\<close>

section \<open>Model\<close>

record weight_entry =
  we_st_mint_entry :: st_mint_entry
  we_weight :: u128
  we_slot_set :: u64
  we_slot_updated :: u64

record weight_table =
  wt_ncn :: pubkey
  wt_epoch :: u64
  wt_slot_created :: u64
  wt_vault_count :: u64
  wt_bump :: u8
  wt_vault_registry :: "vault_entry list"
  wt_table :: "weight_entry list"

definition weight_entry_default :: weight_entry where
  "weight_entry_default =
    \<lparr>we_st_mint_entry = st_mint_entry_default, we_weight = 0, we_slot_set = 0, we_slot_updated = 0\<rparr>"

definition weight_entry_new :: "st_mint_entry \<Rightarrow> weight_entry" where
  "weight_entry_new m = \<lparr>we_st_mint_entry = m, we_weight = 0, we_slot_set = 0, we_slot_updated = 0\<rparr>"

definition we_is_empty :: "weight_entry \<Rightarrow> bool" where
  "we_is_empty e \<longleftrightarrow> sm_is_empty (we_st_mint_entry e)"

definition we_is_set :: "weight_entry \<Rightarrow> bool" where
  "we_is_set e \<longleftrightarrow> we_slot_set e > 0"

definition we_st_mint :: "weight_entry \<Rightarrow> pubkey" where
  "we_st_mint e = sm_st_mint (we_st_mint_entry e)"

definition we_precise_weight :: "'p precise_ops \<Rightarrow> weight_entry \<Rightarrow> tip_router_error + 'p" where
  "we_precise_weight pn e = ok_or NewPreciseNumberError (pn_new pn (we_weight e))"

definition we_set_weight :: "weight_entry \<Rightarrow> u128 \<Rightarrow> u64 \<Rightarrow> weight_entry" where
  "we_set_weight e weight current_slot =
    (let e = e\<lparr>we_weight := weight\<rparr>;
         e = (if we_slot_set e = 0 then e\<lparr>we_slot_set := current_slot, we_slot_updated := current_slot\<rparr> else e)
     in e\<lparr>we_slot_updated := current_slot\<rparr>)"

definition weight_table_new :: "pubkey \<Rightarrow> u64 \<Rightarrow> u64 \<Rightarrow> u64 \<Rightarrow> u8 \<Rightarrow> weight_table" where
  "weight_table_new ncn epoch slot_created vault_count bump =
    \<lparr>wt_ncn = ncn, wt_epoch = epoch, wt_slot_created = slot_created, wt_vault_count = vault_count,
     wt_bump = bump, wt_vault_registry = replicate MAX_VAULTS vault_entry_default,
     wt_table = replicate MAX_ST_MINTS weight_entry_default\<rparr>"

definition mint_count :: "weight_table \<Rightarrow> nat" where
  "mint_count t = length (filter (\<lambda>e. \<not> we_is_empty e) (wt_table t))"

definition weight_count :: "weight_table \<Rightarrow> nat" where
  "weight_count t = length (filter we_is_set (wt_table t))"

definition wt_st_mint_count :: "weight_table \<Rightarrow> nat" where
  "wt_st_mint_count t = length (filter (\<lambda>e. \<not> we_is_empty e) (wt_table t))"

definition vault_entry_count :: "weight_table \<Rightarrow> nat" where
  "vault_entry_count t = length (filter (\<lambda>e. \<not> ve_is_empty e) (wt_vault_registry t))"

definition vault_registry_initialized :: "weight_table \<Rightarrow> bool" where
  "vault_registry_initialized t \<longleftrightarrow> wt_vault_count t = of_nat (vault_entry_count t)"

definition table_initialized :: "weight_table \<Rightarrow> bool" where
  "table_initialized t \<longleftrightarrow> mint_count t > 0"

definition wt_finalized :: "weight_table \<Rightarrow> bool" where
  "wt_finalized t \<longleftrightarrow> vault_registry_initialized t \<and> table_initialized t \<and> mint_count t = weight_count t"

definition check_table_initialized :: "weight_table \<Rightarrow> tip_router_error + unit" where
  "check_table_initialized t = fail_if (\<not> table_initialized t) TableNotInitialized"

definition check_registry_initialized :: "weight_table \<Rightarrow> tip_router_error + unit" where
  "check_registry_initialized t = fail_if (\<not> vault_registry_initialized t) RegistryNotInitialized"

definition check_registry_for_vault :: "weight_table \<Rightarrow> u64 \<Rightarrow> tip_router_error + unit" where
  "check_registry_for_vault t vault_index =
    rbind (fail_if (vault_index = EMPTY_VAULT_INDEX) VaultNotInRegistry) (\<lambda>_.
    fail_if (\<not> list_ex (\<lambda>e. ve_vault_index e = vault_index) (wt_vault_registry t)) VaultNotInRegistry)"

text \<open>The two copying loops write every slot of arrays of the same length.\<close>

definition set_vault_entries :: "weight_table \<Rightarrow> vault_entry list \<Rightarrow> tip_router_error + weight_table" where
  "set_vault_entries t vault_entries =
    rbind (fail_if (vault_registry_initialized t) WeightTableAlreadyInitialized) (\<lambda>_.
    let t = t\<lparr>wt_vault_registry := vault_entries\<rparr> in
    rbind (check_registry_initialized t) (\<lambda>_. Inr t))"

definition set_mint_entries :: "weight_table \<Rightarrow> st_mint_entry list \<Rightarrow> tip_router_error + weight_table" where
  "set_mint_entries t mint_entries =
    rbind (fail_if (table_initialized t) WeightTableAlreadyInitialized) (\<lambda>_.
    let t = t\<lparr>wt_table := map weight_entry_new mint_entries\<rparr> in
    rbind (check_table_initialized t) (\<lambda>_. Inr t))"

definition weight_table_initialize ::
    "weight_table \<Rightarrow> pubkey \<Rightarrow> u64 \<Rightarrow> u64 \<Rightarrow> u64 \<Rightarrow> u8 \<Rightarrow> vault_entry list \<Rightarrow> st_mint_entry list \<Rightarrow>
     tip_router_error + weight_table" where
  "weight_table_initialize t ncn ncn_epoch slot_created vault_count bump vault_entries mint_entries =
    (let t = t\<lparr>wt_ncn := ncn, wt_epoch := ncn_epoch, wt_slot_created := slot_created,
       wt_vault_count := vault_count, wt_bump := bump,
       wt_vault_registry := replicate MAX_VAULTS vault_entry_default,
       wt_table := replicate MAX_ST_MINTS weight_entry_default\<rparr>
     in rbind (set_vault_entries t vault_entries) (\<lambda>t. set_mint_entries t mint_entries))"

definition set_weight :: "weight_table \<Rightarrow> pubkey \<Rightarrow> u128 \<Rightarrow> u64 \<Rightarrow> tip_router_error + weight_table" where
  "set_weight t mint weight current_slot =
    (case find_idx (\<lambda>e. we_st_mint e = mint) (wt_table t) of
       None \<Rightarrow> Inl InvalidMintForWeightTable
     | Some i \<Rightarrow> Inr (t\<lparr>wt_table := (wt_table t)[i := we_set_weight (wt_table t ! i) weight current_slot]\<rparr>))"

definition get_weight :: "weight_table \<Rightarrow> pubkey \<Rightarrow> tip_router_error + u128" where
  "get_weight t mint =
    (case List.find (\<lambda>e. we_st_mint e = mint) (wt_table t) of
       None \<Rightarrow> Inl InvalidMintForWeightTable
     | Some e \<Rightarrow> Inr (we_weight e))"

definition get_weight_entry :: "weight_table \<Rightarrow> pubkey \<Rightarrow> tip_router_error + weight_entry" where
  "get_weight_entry t mint =
    ok_or InvalidMintForWeightTable (List.find (\<lambda>e. we_st_mint e = mint) (wt_table t))"

definition get_precise_weight :: "'p precise_ops \<Rightarrow> weight_table \<Rightarrow> pubkey \<Rightarrow> tip_router_error + 'p" where
  "get_precise_weight pn t mint =
    rbind (get_weight t mint) (\<lambda>weight. ok_or NewPreciseNumberError (pn_new pn weight))"

definition get_mints :: "weight_table \<Rightarrow> pubkey list" where
  "get_mints t = map we_st_mint (filter (\<lambda>e. \<not> we_is_empty e) (wt_table t))"

section \<open>The table as a map\<close>

definition weight_map :: "weight_table \<Rightarrow> pubkey \<Rightarrow> weight_entry option" where
  "weight_map t = slot_map we_st_mint (wt_table t)"

text \<open>Free slots are not set.\<close>

definition table_inv :: "weight_table \<Rightarrow> bool" where
  "table_inv t \<longleftrightarrow> length (wt_table t) = 64 \<and> slots_ok we_st_mint (wt_table t) \<and>
    (\<forall>e \<in> set (wt_table t). we_is_empty e \<longrightarrow> \<not> we_is_set e)"

definition writes_weight :: "weight_table \<Rightarrow> weight_entry \<Rightarrow> weight_table \<Rightarrow> bool" where
  "writes_weight t e t' \<longleftrightarrow> (\<exists>w slot. set_weight t (we_st_mint e) w slot = Inr t' \<and>
    (\<exists>i. find_idx (\<lambda>x. we_st_mint x = we_st_mint e) (wt_table t) = Some i \<and> e = we_set_weight (wt_table t ! i) w slot))"

lemma we_set_weight_sel [simp]:
  "we_st_mint (we_set_weight e w slot) = we_st_mint e" "we_weight (we_set_weight e w slot) = w"
  "we_st_mint_entry (we_set_weight e w slot) = we_st_mint_entry e"
  "we_slot_set (we_set_weight e w slot) = (if we_slot_set e = 0 then slot else we_slot_set e)"
  by (simp_all add: we_set_weight_def Let_def we_st_mint_def)

lemma we_set_weight_set: "we_is_set (we_set_weight e w slot) \<longleftrightarrow> we_is_set e \<or> slot \<noteq> 0"
  by (auto simp: we_is_set_def word_gt_0)

lemma we_is_empty_key: "we_is_empty e \<longleftrightarrow> we_st_mint e = default_pubkey"
  by (simp add: we_is_empty_def we_st_mint_def sm_is_empty_def)

interpretation weights: slot_table we_st_mint wt_table writes_weight
proof
  fix t e t'
  assume "writes_weight t e t'"
  then obtain w slot i where "set_weight t (we_st_mint e) w slot = Inr t'"
    and i: "find_idx (\<lambda>x. we_st_mint x = we_st_mint e) (wt_table t) = Some i"
    and "e = we_set_weight (wt_table t ! i) w slot"
    unfolding writes_weight_def by blast
  then have "wt_table t' = (wt_table t)[i := e]" by (auto simp: set_weight_def)
  then show "\<exists>i<length (wt_table t). wt_table t' = (wt_table t)[i := e] \<and>
      (we_st_mint (wt_table t ! i) = we_st_mint e \<or>
       we_st_mint (wt_table t ! i) = default_pubkey \<and> we_st_mint e \<notin> we_st_mint ` set (wt_table t))"
    using find_idx_SomeD(1,2) [OF i] by blast
qed

lemma set_weight_cases:
  assumes "mint \<noteq> default_pubkey"
  shows "(weight_map t mint = None \<and> set_weight t mint w slot = Inl InvalidMintForWeightTable) \<or>
    (\<exists>e t'. weight_map t mint = Some e \<and> set_weight t mint w slot = Inr t' \<and>
      writes_weight t (we_set_weight e w slot) t' \<and> we_st_mint e = mint \<and>
      t' = t\<lparr>wt_table := wt_table t'\<rparr>)"
proof (cases "find_idx (\<lambda>e. we_st_mint e = mint) (wt_table t)")
  case None
  then show ?thesis using assms by (simp add: set_weight_def weight_map_def slot_map_def find_conv_find_idx)
next
  case (Some i)
  then have "weight_map t mint = Some (wt_table t ! i)" "we_st_mint (wt_table t ! i) = mint"
    using assms find_idx_SomeD(2) [OF Some] by (simp_all add: weight_map_def slot_map_def find_conv_find_idx)
  moreover have "set_weight t mint w slot =
      Inr (t\<lparr>wt_table := (wt_table t)[i := we_set_weight (wt_table t ! i) w slot]\<rparr>)"
    using Some by (simp add: set_weight_def)
  ultimately show ?thesis using Some by (auto simp: writes_weight_def)
qed

lemma set_weight_inv:
  assumes inv: "table_inv t" and mint: "mint \<noteq> default_pubkey" and set: "set_weight t mint w slot = Inr t'"
  shows "table_inv t' \<and> (\<exists>e. weight_map t mint = Some e \<and> we_st_mint e = mint \<and>
    weight_map t' = (weight_map t)(mint \<mapsto> we_set_weight e w slot)) \<and> t' = t\<lparr>wt_table := wt_table t'\<rparr>"
proof -
  obtain e where e: "weight_map t mint = Some e" "we_st_mint e = mint"
    and wr: "writes_weight t (we_set_weight e w slot) t'" and frame: "t' = t\<lparr>wt_table := wt_table t'\<rparr>"
    using set_weight_cases [OF mint, of t w slot] set by auto
  have ok: "slots_ok we_st_mint (wt_table t')" "weight_map t' = (weight_map t)(mint \<mapsto> we_set_weight e w slot)"
    "length (wt_table t') = 64"
    using weights.write_ok [OF wr] inv e(2) mint by (simp_all add: table_inv_def weight_map_def)
  obtain i where "wt_table t' = (wt_table t)[i := we_set_weight e w slot]"
    using weights.write_slot [OF wr] e(2) mint by auto
  then have sub: "x = we_set_weight e w slot \<or> x \<in> set (wt_table t)" if "x \<in> set (wt_table t')" for x
    using that set_update_subset_insert by fastforce
  have "\<forall>x \<in> set (wt_table t'). we_is_empty x \<longrightarrow> \<not> we_is_set x"
  proof (intro ballI impI)
    fix x
    assume "x \<in> set (wt_table t')" and "we_is_empty x"
    then show "\<not> we_is_set x" using sub [of x] inv e(2) mint by (auto simp: table_inv_def we_is_empty_key)
  qed
  with ok inv have "table_inv t'" by (simp add: table_inv_def)
  with e ok(2) frame show ?thesis by blast
qed

section \<open>Properties\<close>

lemma weight_map_init:
  assumes "slots_ok sm_st_mint ms"
  shows "slots_ok we_st_mint (map weight_entry_new ms)"
    "slot_map we_st_mint (map weight_entry_new ms) = (\<lambda>mint. map_option weight_entry_new (slot_map sm_st_mint ms mint))"
proof -
  have key: "we_st_mint (weight_entry_new m) = sm_st_mint m" for m by (simp add: we_st_mint_def weight_entry_new_def)
  show "slots_ok we_st_mint (map weight_entry_new ms)" using assms by (simp add: slots_ok_def key)
  have "List.find (\<lambda>e. we_st_mint e = k) (map weight_entry_new ms) =
      map_option weight_entry_new (List.find (\<lambda>m. sm_st_mint m = k) ms)" for k
    by (induction ms) (auto simp: key)
  then show "slot_map we_st_mint (map weight_entry_new ms) = (\<lambda>mint. map_option weight_entry_new (slot_map sm_st_mint ms mint))"
    by (simp add: slot_map_def fun_eq_iff)
qed

text \<open>What the table of an epoch is created as.\<close>

definition initial_table ::
    "weight_table \<Rightarrow> pubkey \<Rightarrow> u64 \<Rightarrow> u64 \<Rightarrow> u8 \<Rightarrow> vault_registry \<Rightarrow> weight_table" where
  "initial_table t ncn epoch slot bump r =
    t\<lparr>wt_ncn := ncn, wt_epoch := epoch, wt_slot_created := slot, wt_vault_count := vr_vault_count r,
     wt_bump := bump, wt_vault_registry := vr_vault_list r, wt_table := map weight_entry_new (vr_st_mint_list r)\<rparr>"

lemma weight_table_initialize_eq:
  "weight_table_initialize t ncn epoch slot (vr_vault_count r) bump (vr_vault_list r) (vr_st_mint_list r) =
      (if vr_vault_count r = 0 then Inl WeightTableAlreadyInitialized
       else if vr_st_mint_count r = 0 then Inl TableNotInitialized else Inr (initial_table t ncn epoch slot bump r))"
proof -
  have vaults: "vault_registry_initialized x \<longleftrightarrow> wt_vault_count x = vr_vault_count r"
    if "wt_vault_registry x = vr_vault_list r" for x
    using that by (simp add: vault_registry_initialized_def vault_entry_count_def vr_vault_count_def)
  have no_vaults: "vault_registry_initialized x \<longleftrightarrow> wt_vault_count x = 0"
    if "wt_vault_registry x = replicate MAX_VAULTS vault_entry_default" for x
    using that by (simp add: vault_registry_initialized_def vault_entry_count_def vault_entry_default_def
        vault_entry_new_def ve_is_empty_def EMPTY_SLOT_REGISTERED_def)
  have no_mints: "\<not> table_initialized x" if "wt_table x = replicate MAX_ST_MINTS weight_entry_default" for x
    using that by (simp add: table_initialized_def mint_count_def weight_entry_default_def we_is_empty_def
        st_mint_entry_default_def st_mint_entry_new_def sm_is_empty_def)
  have table: "table_initialized x \<longleftrightarrow> vr_st_mint_count r \<noteq> 0" if "wt_table x = map weight_entry_new (vr_st_mint_list r)" for x
    using that by (simp add: table_initialized_def mint_count_def vr_st_mint_count_def filter_map comp_def
        we_is_empty_def weight_entry_new_def)
  show ?thesis
    by (simp add: weight_table_initialize_def Let_def set_vault_entries_def set_mint_entries_def initial_table_def
        check_registry_initialized_def check_table_initialized_def vaults no_vaults no_mints table)
qed

lemma initial_table_ok:
  assumes "registry_inv r"
  shows "table_inv (initial_table t ncn epoch slot bump r)"
    "weight_map (initial_table t ncn epoch slot bump r) = (\<lambda>mint. map_option weight_entry_new (mint_map r mint))"
    "vault_registry_initialized (initial_table t ncn epoch slot bump r)"
    "weight_count (initial_table t ncn epoch slot bump r) = 0"
    "mint_count (initial_table t ncn epoch slot bump r) = vr_st_mint_count r"
    "vr_st_mint_count r = 0 \<longleftrightarrow> mint_map r = Map.empty"
    "vr_vault_count r = 0 \<longleftrightarrow> vault_map r = Map.empty"
proof -
  have unset: "\<not> we_is_set (weight_entry_new m)" for m by (simp add: we_is_set_def weight_entry_new_def)
  then show "table_inv (initial_table t ncn epoch slot bump r)"
    using weight_map_init(1) [OF registry_invD(3) [OF assms]] registry_invD(1) [OF assms]
    by (auto simp: table_inv_def initial_table_def)
  show "weight_map (initial_table t ncn epoch slot bump r) = (\<lambda>mint. map_option weight_entry_new (mint_map r mint))"
    using weight_map_init(2) [OF registry_invD(3) [OF assms]] by (simp add: weight_map_def mint_map_def initial_table_def)
  show "vault_registry_initialized (initial_table t ncn epoch slot bump r)"
    by (simp add: vault_registry_initialized_def vault_entry_count_def vr_vault_count_def initial_table_def)
  show "weight_count (initial_table t ncn epoch slot bump r) = 0"
    using unset by (simp add: weight_count_def filter_empty_conv initial_table_def)
  show "mint_count (initial_table t ncn epoch slot bump r) = vr_st_mint_count r"
    by (simp add: mint_count_def vr_st_mint_count_def filter_map comp_def we_is_empty_def weight_entry_new_def initial_table_def)
  show "vr_st_mint_count r = 0 \<longleftrightarrow> mint_map r = Map.empty"
    using mint_count_map [OF assms] by (simp add: mint_map_def)
  have "vr_vault_count r = 0 \<longleftrightarrow> unat (vr_vault_count r) = 0" by (simp add: unat_eq_0)
  then show "vr_vault_count r = 0 \<longleftrightarrow> vault_map r = Map.empty"
    using vault_count_map [OF assms] by (simp add: vault_map_def)
qed

text \<open>C19. Creating the table of an epoch from a registry: it fails exactly when the registry has no
  vault or no mint; otherwise the table lists the mints of the registry with weight zero, none of
  them set, so it is not final, and it knows every vault index of the registry.\<close>

theorem weight_table_initialize_ok:
  assumes "registry_inv r"
  shows "case weight_table_initialize t ncn epoch slot (vr_vault_count r) bump (vr_vault_list r) (vr_st_mint_list r) of
      Inl e \<Rightarrow> if vault_map r = Map.empty then e = WeightTableAlreadyInitialized
        else e = TableNotInitialized \<and> mint_map r = Map.empty
    | Inr t' \<Rightarrow> vault_map r \<noteq> Map.empty \<and> mint_map r \<noteq> Map.empty \<and>
        weight_map t' = (\<lambda>mint. map_option weight_entry_new (mint_map r mint)) \<and> \<not> wt_finalized t' \<and>
        (\<forall>v \<in> ran (vault_map r). ve_vault_index v \<noteq> EMPTY_VAULT_INDEX \<longrightarrow>
          check_registry_for_vault t' (ve_vault_index v) = Inr ())"
proof -
  let ?t' = "initial_table t ncn epoch slot bump r"
  have "check_registry_for_vault ?t' (ve_vault_index v) = Inr ()"
    if "v \<in> ran (vault_map r)" "ve_vault_index v \<noteq> EMPTY_VAULT_INDEX" for v
  proof -
    have "v \<in> set (vr_vault_list r)" using that(1) slot_map_Some_find(3) by (force simp: ran_def vault_map_def)
    then show ?thesis using that(2)
      by (auto simp: check_registry_for_vault_def list_ex_iff fail_if_Inr initial_table_def)
  qed
  moreover have "\<not> wt_finalized ?t'"
    using initial_table_ok(4,5) [OF assms] by (auto simp: wt_finalized_def table_initialized_def)
  ultimately show ?thesis
    using initial_table_ok(2,6,7) [OF assms] by (simp add: weight_table_initialize_eq)
qed

text \<open>C20. Setting a weight refines a map update: for a mint of the table the entry gets the weight and
  counts as set from the first non-zero slot on, every other mint keeps its entry, and the weight reads
  back; for another mint the call fails.\<close>

theorem set_weight_refines:
  assumes "table_inv t" and "mint \<noteq> default_pubkey"
  shows "case set_weight t mint w slot of
      Inl e \<Rightarrow> e = InvalidMintForWeightTable \<and> weight_map t mint = None
    | Inr t' \<Rightarrow> (\<exists>e e'. weight_map t mint = Some e \<and> weight_map t' = (weight_map t)(mint \<mapsto> e') \<and>
        we_st_mint_entry e' = we_st_mint_entry e \<and> (we_is_set e' \<longleftrightarrow> we_is_set e \<or> slot \<noteq> 0)) \<and>
        get_weight t' mint = Inr w"
proof (cases "set_weight t mint w slot")
  case (Inl e)
  then show ?thesis using set_weight_cases [OF assms(2), of t w slot] by auto
next
  case (Inr t')
  from set_weight_inv [OF assms Inr] obtain e where e: "weight_map t mint = Some e"
    and t': "weight_map t' = (weight_map t)(mint \<mapsto> we_set_weight e w slot)" by blast
  then have "weight_map t' mint = Some (we_set_weight e w slot)" by simp
  then have "get_weight t' mint = Inr w"
    using assms(2) by (simp add: weight_map_def slot_map_def get_weight_def)
  with Inr e t' show ?thesis by (auto simp: we_set_weight_set)
qed

text \<open>The weights that are set are those of mints, so with fewer than mints one is missing.\<close>

lemma weight_missing:
  assumes inv: "table_inv t" and less: "weight_count t < mint_count t"
  shows "\<exists>mint e. weight_map t mint = Some e \<and> \<not> we_is_set e"
proof -
  have ok: "slots_ok we_st_mint (wt_table t)" using inv by (simp add: table_inv_def)
  have "\<exists>e \<in> set (wt_table t). \<not> we_is_empty e \<and> \<not> we_is_set e"
  proof (rule ccontr)
    assume "\<not> ?thesis"
    then have "filter we_is_set (wt_table t) = filter (\<lambda>e. \<not> we_is_empty e) (wt_table t)"
      by (intro filter_cong) (use inv in \<open>auto simp: table_inv_def\<close>)
    then show False using less by (simp add: mint_count_def weight_count_def)
  qed
  then show ?thesis using slot_map_Some [OF ok] by (auto simp: weight_map_def we_is_empty_key)
qed

text \<open>The code does not refuse the default key.\<close>

lemma default_mint_accepted:
  assumes inv: "table_inv t" and init: "vault_registry_initialized t"
    and missing: "mint_count t = Suc (weight_count t)" and free: "mint_count t < 64" and slot: "slot \<noteq> 0"
  shows "\<exists>t'. set_weight t default_pubkey w slot = Inr t' \<and> wt_finalized t' \<and> weight_map t' = weight_map t"
proof -
  let ?xs = "wt_table t"
  have "length (filter (\<lambda>e. \<not> we_is_empty e) ?xs) \<noteq> length ?xs"
    using free inv by (simp add: mint_count_def table_inv_def)
  then obtain e where "e \<in> set ?xs" "we_st_mint e = default_pubkey"
    by (auto simp: filter_all_length we_is_empty_key)
  then obtain i where i: "find_idx (\<lambda>e. we_st_mint e = default_pubkey) ?xs = Some i"
    using find_idx_exists [of e ?xs "\<lambda>e. we_st_mint e = default_pubkey"] by blast
  note D = find_idx_SomeD(1,2) [OF i]
  let ?e = "we_set_weight (?xs ! i) w slot"
  let ?t' = "t\<lparr>wt_table := ?xs[i := ?e]\<rparr>"
  have empty: "we_is_empty (?xs ! i)" "we_is_empty ?e" using D by (simp_all add: we_is_empty_key)
  then have "\<not> we_is_set (?xs ! i)" using inv D(1) by (simp add: table_inv_def)
  then have "weight_count ?t' = Suc (weight_count t)"
    using sum_list_map_update [OF D(1), of "\<lambda>e. of_bool (we_is_set e)" ?e] slot
    by (simp add: weight_count_def length_filter_conv_sum we_set_weight_set)
  moreover have "mint_count ?t' = mint_count t"
    using sum_list_map_update [OF D(1), of "\<lambda>e. of_bool (\<not> we_is_empty e)" ?e] empty
    by (simp add: mint_count_def length_filter_conv_sum)
  moreover have "vault_registry_initialized ?t'"
    using init by (simp add: vault_registry_initialized_def vault_entry_count_def)
  ultimately have "wt_finalized ?t'" using missing by (simp add: wt_finalized_def table_initialized_def)
  moreover have "weight_map ?t' = weight_map t"
  proof
    fix k
    have ok: "slots_ok we_st_mint (?xs[i := ?e])"
      by (rule slots_ok_same_key) (use inv D(1) in \<open>simp_all add: table_inv_def\<close>)
    have "x \<in> set (?xs[i := ?e]) \<longleftrightarrow> x \<in> set ?xs" if "we_st_mint x \<noteq> default_pubkey" for x
    proof
      show "x \<in> set (?xs[i := ?e]) \<Longrightarrow> x \<in> set ?xs"
        using set_update_subset_insert [of ?xs i ?e] that empty(2) by (auto simp: we_is_empty_key)
      assume "x \<in> set ?xs"
      then obtain j where j: "j < length ?xs" "?xs ! j = x" by (auto simp: in_set_conv_nth)
      then have "j \<noteq> i" using that D(2) by auto
      then show "x \<in> set (?xs[i := ?e])" using j nth_mem [of j "?xs[i := ?e]"] by simp
    qed
    then have "weight_map ?t' k = Some x \<longleftrightarrow> weight_map t k = Some x" for x
      using slot_map_Some [OF ok] slot_map_Some [of we_st_mint ?xs] inv by (auto simp: weight_map_def table_inv_def)
    then show "weight_map ?t' k = weight_map t k" by (metis option.exhaust)
  qed
  moreover have "set_weight t default_pubkey w slot = Inr ?t'" using i by (simp add: set_weight_def)
  ultimately show ?thesis by blast
qed

text \<open>C21. With one weight missing and a free slot in the table, setting a weight of the default key is accepted: it
  marks a free slot as set, the counts agree, and the table is final although a mint has no weight.\<close>

theorem default_mint_finalizes:
  assumes inv: "table_inv t" and init: "vault_registry_initialized t"
    and missing: "mint_count t = Suc (weight_count t)" and free: "mint_count t < 64" and slot: "slot \<noteq> 0"
  shows "\<exists>t'. set_weight t default_pubkey w slot = Inr t' \<and> wt_finalized t' \<and> weight_map t' = weight_map t \<and>
    (\<exists>mint e. weight_map t' mint = Some e \<and> \<not> we_is_set e)"
  using default_mint_accepted [OF assms] weight_missing [OF inv] missing by (metis lessI)

section \<open>Sample table\<close>

definition sample_mint :: st_mint_entry where
  "sample_mint = st_mint_entry_new (replicate 32 1) ncn_fee_group_default 10000 default_pubkey 5"

definition full_registry :: vault_registry where
  "full_registry = sample_registry
    \<lparr>vr_st_mint_list := (vr_st_mint_list sample_registry)[0 := sample_mint],
     vr_vault_list := (vr_vault_list sample_registry)[0 := vault_entry_new (replicate 32 1) (replicate 32 1) 0 77]\<rparr>"

lemma full_registry_ok:
  "registry_inv full_registry" "mint_map full_registry = [replicate 32 1 \<mapsto> sample_mint]"
  "vault_map full_registry \<noteq> Map.empty"
proof -
  let ?r1 = "sample_registry\<lparr>vr_st_mint_list := (vr_st_mint_list sample_registry)[0 := sample_mint]\<rparr>"
  have inv0: "registry_inv sample_registry" unfolding sample_registry_def by (rule registry_inv_new)
  have inv1: "registry_inv ?r1"
    using register_st_mint_inv [OF inv0 sample_mint_registered] by (simp add: sample_mint_def)
  have free: "vault_map ?r1 = Map.empty"
    by (simp add: vault_map_def sample_registry_def vault_registry_new_def vault_entry_default_def vault_entry_new_def)
  have "register_vault ?r1 (replicate 32 1) (replicate 32 1) 0 77 = Inr full_registry"
    using register_vault_cases [OF inv1 ones_key] free
    by (simp add: full_registry_def sample_registry_def vault_registry_new_def MAX_VAULTS_def
        vault_entry_default_def vault_entry_new_def)
  moreover have "real_vault (replicate 32 1) (replicate 32 1) 77"
    using ones_key by (simp add: real_vault_def EMPTY_SLOT_REGISTERED_def)
  ultimately show "registry_inv full_registry" "vault_map full_registry \<noteq> Map.empty"
    using register_vault_inv [OF inv1] free by auto
  have "writes_mint sample_registry sample_mint ?r1"
    using sample_mint_registered by (simp add: writes_mint_def sample_mint_def st_mint_entry_new_def)
  moreover have "sm_st_mint sample_mint = replicate 32 1" by (simp add: sample_mint_def st_mint_entry_new_def)
  moreover have "mint_map sample_registry = Map.empty"
    by (simp add: mint_map_def sample_registry_def vault_registry_new_def st_mint_entry_default_def st_mint_entry_new_def)
  ultimately have "mint_map ?r1 = [replicate 32 1 \<mapsto> sample_mint]"
    using mint_table.write_ok [of sample_registry sample_mint ?r1] ones_key registry_invD(3) [OF inv0]
    by (simp add: mint_map_def)
  then show "mint_map full_registry = [replicate 32 1 \<mapsto> sample_mint]" by (simp add: full_registry_def mint_map_def)
qed

abbreviation sample_table_result :: "tip_router_error + weight_table" where
  "sample_table_result \<equiv> weight_table_initialize (weight_table_new [] 0 0 0 0) (replicate 32 9) 5 100
    (vr_vault_count full_registry) 254 (vr_vault_list full_registry) (vr_st_mint_list full_registry)"

definition sample_table :: weight_table where
  "sample_table = initial_table (weight_table_new [] 0 0 0 0) (replicate 32 9) 5 100 254 full_registry"

lemma sample_table_created: "sample_table_result = Inr sample_table"
  using initial_table_ok(6,7) [OF full_registry_ok(1)] full_registry_ok(2,3)
  by (simp add: weight_table_initialize_eq sample_table_def)

lemma sample_table_map: "weight_map sample_table = [replicate 32 1 \<mapsto> weight_entry_new sample_mint]"
  using initial_table_ok(2) [OF full_registry_ok(1)] full_registry_ok(2) by (simp add: sample_table_def fun_eq_iff)

theorem weight_table_initialize_ok_witness:
  "\<exists>t. sample_table_result = Inr t \<and> \<not> wt_finalized t"
  using weight_table_initialize_ok [OF full_registry_ok(1), of "weight_table_new [] 0 0 0 0" "replicate 32 9" 5 100 254]
  by (simp add: sample_table_created)

lemma sample_weight_set:
  obtains t where "set_weight sample_table (replicate 32 1) 7 101 = Inr t"
    "weight_map t = [replicate 32 1 \<mapsto> we_set_weight (weight_entry_new sample_mint) 7 101]"
proof -
  obtain t where t: "set_weight sample_table (replicate 32 1) 7 101 = Inr t"
    using set_weight_cases [OF ones_key, of sample_table 7 101] sample_table_map by auto
  moreover have "table_inv sample_table" unfolding sample_table_def by (rule initial_table_ok(1) [OF full_registry_ok(1)])
  ultimately show ?thesis using set_weight_inv [OF _ ones_key t] that sample_table_map by auto
qed

theorem set_weight_refines_witness:
  "\<exists>t. set_weight sample_table (replicate 32 1) 7 101 = Inr t \<and> get_weight t (replicate 32 1) = Inr 7"
proof -
  obtain t where "set_weight sample_table (replicate 32 1) 7 101 = Inr t" using sample_weight_set .
  moreover have "table_inv sample_table" unfolding sample_table_def by (rule initial_table_ok(1) [OF full_registry_ok(1)])
  ultimately show ?thesis using set_weight_refines [OF _ ones_key, where t = sample_table and w = 7 and slot = 101] by auto
qed

theorem default_mint_finalizes_witness:
  "\<exists>t. set_weight sample_table default_pubkey 7 101 = Inr t \<and> wt_finalized t \<and>
    (\<exists>e. weight_map t (replicate 32 1) = Some e \<and> \<not> we_is_set e)"
proof -
  note ok = initial_table_ok(1,3,4) [OF full_registry_ok(1), where t = "weight_table_new [] 0 0 0 0" and ncn = "replicate 32 9"
      and epoch = 5 and slot = 100 and bump = 254, folded sample_table_def]
  have "slots_ok we_st_mint (wt_table sample_table)" using ok(1) by (simp add: table_inv_def)
  from slot_map_card [OF this] have "mint_count sample_table = 1"
    using sample_table_map by (simp add: weight_map_def mint_count_def we_is_empty_key)
  then show ?thesis
    using default_mint_finalizes [of sample_table 101 7] ok sample_table_map by (fastforce split: if_splits)
qed

end
