(* ===== verification/Epoch_Snapshot.thy ===== *)
theory Epoch_Snapshot
  imports Weight_Table Fees Stake_Weight
begin

text \<open>
  \<open>core/src/epoch_snapshot.rs\<close>: the snapshot of an epoch and the snapshots of its operators. Every
  operator snapshot registers each vault of the epoch once, with the stake weight its delegation
  has; when the last vault is in, the operator's weights are added to the epoch's.
\<close>

section \<open>Model\<close>

record vault_operator_stake_weight =
  vw_vault :: pubkey
  vw_vault_index :: u64
  vw_ncn_fee_group :: ncn_fee_group
  vw_stake_weight :: stake_weights

record epoch_snapshot =
  es_ncn :: pubkey
  es_epoch :: u64
  es_bump :: u8
  es_slot_created :: u64
  es_slot_finalized :: u64
  es_fees :: fees
  es_operator_count :: u64
  es_vault_count :: u64
  es_operators_registered :: u64
  es_valid_operator_vault_delegations :: u64
  es_stake_weights :: stake_weights

record operator_snapshot =
  os_operator :: pubkey
  os_ncn :: pubkey
  os_ncn_epoch :: u64
  os_bump :: u8
  os_slot_created :: u64
  os_slot_finalized :: u64
  os_is_active :: bool
  os_ncn_operator_index :: u64
  os_operator_index :: u64
  os_operator_fee_bps :: u16
  os_vault_operator_delegation_count :: u64
  os_vault_operator_delegations_registered :: u64
  os_valid_operator_vault_delegations :: u64
  os_stake_weights :: stake_weights
  os_vault_operator_stake_weight :: "vault_operator_stake_weight list"

definition vault_operator_stake_weight_default :: vault_operator_stake_weight where
  "vault_operator_stake_weight_default =
    \<lparr>vw_vault = default_pubkey, vw_vault_index = 18446744073709551615,
     vw_ncn_fee_group = ncn_fee_group_default, vw_stake_weight = stake_weights_default\<rparr>"

definition vault_operator_stake_weight_new ::
    "pubkey \<Rightarrow> u64 \<Rightarrow> ncn_fee_group \<Rightarrow> stake_weights \<Rightarrow> vault_operator_stake_weight" where
  "vault_operator_stake_weight_new vault vault_index g stake_weight =
    \<lparr>vw_vault = vault, vw_vault_index = vault_index, vw_ncn_fee_group = g, vw_stake_weight = stake_weight\<rparr>"

definition vw_is_empty :: "vault_operator_stake_weight \<Rightarrow> bool" where
  "vw_is_empty v \<longleftrightarrow> vw_vault_index v = 18446744073709551615"

subsection \<open>The epoch snapshot\<close>

definition epoch_snapshot_new :: "pubkey \<Rightarrow> u64 \<Rightarrow> u8 \<Rightarrow> u64 \<Rightarrow> fees \<Rightarrow> u64 \<Rightarrow> u64 \<Rightarrow> epoch_snapshot" where
  "epoch_snapshot_new ncn ncn_epoch bump current_slot fs operator_count vault_count =
    \<lparr>es_ncn = ncn, es_epoch = ncn_epoch, es_bump = bump, es_slot_created = current_slot,
     es_slot_finalized = 0, es_fees = fs, es_operator_count = operator_count,
     es_vault_count = vault_count, es_operators_registered = 0,
     es_valid_operator_vault_delegations = 0, es_stake_weights = stake_weights_default\<rparr>"

definition es_finalized :: "epoch_snapshot \<Rightarrow> bool" where
  "es_finalized es \<longleftrightarrow> es_operators_registered es = es_operator_count es"

definition increment_operator_registration ::
    "epoch_snapshot \<Rightarrow> u64 \<Rightarrow> u64 \<Rightarrow> stake_weights \<Rightarrow> tip_router_error + epoch_snapshot" where
  "increment_operator_registration es current_slot vault_operator_delegations stake_weight =
    rbind (fail_if (es_finalized es) OperatorFinalized) (\<lambda>_.
    rbind (ok_or ArithmeticOverflow (checked_add (es_operators_registered es) 1)) (\<lambda>registered.
    rbind (ok_or ArithmeticOverflow
      (checked_add (es_valid_operator_vault_delegations es) vault_operator_delegations)) (\<lambda>valid.
    rbind (stake_weights_increment (es_stake_weights es) stake_weight) (\<lambda>weights.
    let es = es\<lparr>es_operators_registered := registered, es_valid_operator_vault_delegations := valid,
               es_stake_weights := weights\<rparr> in
    Inr (if es_finalized es then es\<lparr>es_slot_finalized := current_slot\<rparr> else es)))))"

subsection \<open>Operator snapshots\<close>

definition operator_snapshot_new ::
    "pubkey \<Rightarrow> pubkey \<Rightarrow> u64 \<Rightarrow> u8 \<Rightarrow> u64 \<Rightarrow> bool \<Rightarrow> u64 \<Rightarrow> u64 \<Rightarrow> u16 \<Rightarrow> u64 \<Rightarrow>
     tip_router_error + operator_snapshot" where
  "operator_snapshot_new operator ncn ncn_epoch bump current_slot is_active ncn_operator_index
      operator_index operator_fee_bps vault_operator_delegation_count =
    rbind (fail_if (vault_operator_delegation_count > of_nat MAX_VAULTS) TooManyVaultOperatorDelegations) (\<lambda>_.
    Inr \<lparr>os_operator = operator, os_ncn = ncn, os_ncn_epoch = ncn_epoch, os_bump = bump,
      os_slot_created = current_slot, os_slot_finalized = 0, os_is_active = is_active,
      os_ncn_operator_index = ncn_operator_index, os_operator_index = operator_index,
      os_operator_fee_bps = operator_fee_bps,
      os_vault_operator_delegation_count = vault_operator_delegation_count,
      os_vault_operator_delegations_registered = 0, os_valid_operator_vault_delegations = 0,
      os_stake_weights = stake_weights_default,
      os_vault_operator_stake_weight = replicate MAX_VAULTS vault_operator_stake_weight_default\<rparr>)"

definition operator_snapshot_initialize ::
    "operator_snapshot \<Rightarrow> pubkey \<Rightarrow> pubkey \<Rightarrow> u64 \<Rightarrow> u8 \<Rightarrow> u64 \<Rightarrow> bool \<Rightarrow> u64 \<Rightarrow> u64 \<Rightarrow> u16 \<Rightarrow> u64 \<Rightarrow>
     tip_router_error + operator_snapshot" where
  "operator_snapshot_initialize os operator ncn ncn_epoch bump current_slot is_active ncn_operator_index
      operator_index operator_fee_bps vault_operator_delegation_count =
    rbind (fail_if (vault_operator_delegation_count > of_nat MAX_VAULTS) TooManyVaultOperatorDelegations) (\<lambda>_.
    let slot_finalized = (if \<not> is_active then current_slot else 0);
        operator_fee_bps = (if is_active then operator_fee_bps else 0);
        vault_operator_delegation_count = (if is_active then vault_operator_delegation_count else 0)
    in Inr (os\<lparr>os_operator := operator, os_ncn := ncn, os_ncn_epoch := ncn_epoch, os_bump := bump,
      os_slot_created := current_slot, os_slot_finalized := slot_finalized, os_is_active := is_active,
      os_ncn_operator_index := ncn_operator_index, os_operator_index := operator_index,
      os_operator_fee_bps := operator_fee_bps,
      os_vault_operator_delegation_count := vault_operator_delegation_count,
      os_vault_operator_delegations_registered := 0, os_valid_operator_vault_delegations := 0,
      os_stake_weights := stake_weights_default,
      os_vault_operator_stake_weight := replicate MAX_VAULTS vault_operator_stake_weight_default\<rparr>))"

definition os_finalized :: "operator_snapshot \<Rightarrow> bool" where
  "os_finalized os \<longleftrightarrow> os_vault_operator_delegations_registered os = os_vault_operator_delegation_count os"

definition contains_vault_index :: "operator_snapshot \<Rightarrow> u64 \<Rightarrow> bool" where
  "contains_vault_index os vault_index \<longleftrightarrow>
    list_ex (\<lambda>v. vw_vault_index v = vault_index) (os_vault_operator_stake_weight os)"

definition contains_vault :: "operator_snapshot \<Rightarrow> pubkey \<Rightarrow> bool" where
  "contains_vault os vault \<longleftrightarrow> list_ex (\<lambda>v. vw_vault v = vault) (os_vault_operator_stake_weight os)"

definition insert_vault_operator_stake_weight ::
    "operator_snapshot \<Rightarrow> pubkey \<Rightarrow> u64 \<Rightarrow> ncn_fee_group \<Rightarrow> stake_weights \<Rightarrow>
     tip_router_error + operator_snapshot" where
  "insert_vault_operator_stake_weight os vault vault_index g stake_weight =
    rbind (ok_or ArithmeticOverflow (checked_add (os_vault_operator_delegations_registered os) 1)) (\<lambda>n.
    rbind (fail_if (n > of_nat MAX_VAULTS) TooManyVaultOperatorDelegations) (\<lambda>_.
    rbind (fail_if (contains_vault_index os vault_index) DuplicateVaultOperatorDelegation) (\<lambda>_.
    Inr (os\<lparr>os_vault_operator_stake_weight := (os_vault_operator_stake_weight os)
      [unat (os_vault_operator_delegations_registered os) :=
        vault_operator_stake_weight_new vault vault_index g stake_weight]\<rparr>))))"

definition increment_vault_operator_delegation_registration ::
    "operator_snapshot \<Rightarrow> u64 \<Rightarrow> pubkey \<Rightarrow> u64 \<Rightarrow> ncn_fee_group \<Rightarrow> stake_weights \<Rightarrow>
     tip_router_error + operator_snapshot" where
  "increment_vault_operator_delegation_registration os current_slot vault vault_index g stake_weight =
    rbind (fail_if (os_finalized os) VaultOperatorDelegationFinalized) (\<lambda>_.
    rbind (insert_vault_operator_stake_weight os vault vault_index g stake_weight) (\<lambda>os.
    rbind (ok_or ArithmeticOverflow (checked_add (os_vault_operator_delegations_registered os) 1)) (\<lambda>registered.
    let os = os\<lparr>os_vault_operator_delegations_registered := registered\<rparr> in
    rbind (if sw_stake_weight stake_weight > 0
      then rbind (ok_or ArithmeticOverflow (checked_add (os_valid_operator_vault_delegations os) 1)) (\<lambda>valid.
        Inr (os\<lparr>os_valid_operator_vault_delegations := valid\<rparr>))
      else Inr os) (\<lambda>os.
    rbind (stake_weights_increment (os_stake_weights os) stake_weight) (\<lambda>weights.
    let os = os\<lparr>os_stake_weights := weights\<rparr> in
    Inr (if os_finalized os then os\<lparr>os_slot_finalized := current_slot\<rparr> else os))))))"

text \<open>The delegation lives in an account of the vault program; \<open>total_security\<close> is what its
  method of that name returns.\<close>

definition calculate_total_stake_weight ::
    "'p precise_ops \<Rightarrow> program_error + u64 \<Rightarrow> weight_table \<Rightarrow> pubkey \<Rightarrow> program_error + u128" where
  "calculate_total_stake_weight pn total_security wt st_mint =
    rbind total_security (\<lambda>security.
    rbind (ok_or (program_error_from NewPreciseNumberError) (pn_new pn (ucast security))) (\<lambda>precise_security.
    rbind (rmap_err program_error_from (get_precise_weight pn wt st_mint)) (\<lambda>precise_weight.
    rbind (ok_or (program_error_from ArithmeticOverflow) (pn_checked_mul pn precise_security precise_weight)) (\<lambda>precise_total.
    ok_or (program_error_from CastToImpreciseNumberError) (pn_to_imprecise pn precise_total)))))"

section \<open>Invariant of an operator snapshot\<close>

text \<open>The vaults registered so far fill the array from the front.\<close>

definition registered :: "operator_snapshot \<Rightarrow> vault_operator_stake_weight list" where
  "registered os = take (unat (os_vault_operator_delegations_registered os)) (os_vault_operator_stake_weight os)"

definition os_inv :: "operator_snapshot \<Rightarrow> bool" where
  "os_inv os \<longleftrightarrow>
    length (os_vault_operator_stake_weight os) = 64 \<and>
    unat (os_vault_operator_delegations_registered os) \<le> unat (os_vault_operator_delegation_count os) \<and>
    unat (os_vault_operator_delegation_count os) \<le> 64 \<and>
    drop (unat (os_vault_operator_delegations_registered os)) (os_vault_operator_stake_weight os) =
      replicate (64 - unat (os_vault_operator_delegations_registered os)) vault_operator_stake_weight_default \<and>
    distinct (map vw_vault_index (registered os)) \<and>
    (\<forall>v \<in> set (registered os). \<not> vw_is_empty v \<and> wf_stake_weights (vw_stake_weight v)) \<and>
    wf_stake_weights (os_stake_weights os) \<and>
    sw_total (os_stake_weights os) = (\<Sum>v \<leftarrow> registered os. sw_total (vw_stake_weight v)) \<and>
    (\<forall>i < 8. sw_at (os_stake_weights os) i = (\<Sum>v \<leftarrow> registered os. sw_at (vw_stake_weight v) i)) \<and>
    unat (os_valid_operator_vault_delegations os) =
      length (filter (\<lambda>v. sw_total (vw_stake_weight v) > 0) (registered os))"

lemma os_inv_initialize:
  assumes "operator_snapshot_initialize os op ncn e bump slot active ni oi bps n = Inr os'"
  shows "os_inv os' \<and> registered os' = [] \<and> os_is_active os' = active \<and>
    (os_finalized os' \<longleftrightarrow> \<not> active \<or> n = 0) \<and> os_stake_weights os' = stake_weights_default"
proof -
  have "unat n \<le> 64" if "active"
    using assms by (auto simp: operator_snapshot_initialize_def res_simps MAX_VAULTS_def word_less_nat_alt)
  then show ?thesis
    using assms by (auto simp: operator_snapshot_initialize_def res_simps Let_def os_inv_def registered_def
        MAX_VAULTS_def os_finalized_def)
qed

lemma insert_Inr:
  "insert_vault_operator_stake_weight os vault idx g sw = Inr os' \<longleftrightarrow>
    unat (os_vault_operator_delegations_registered os) < 64 \<and>
    (\<forall>v \<in> set (os_vault_operator_stake_weight os). vw_vault_index v \<noteq> idx) \<and>
    os' = os\<lparr>os_vault_operator_stake_weight := (os_vault_operator_stake_weight os)
      [unat (os_vault_operator_delegations_registered os) := vault_operator_stake_weight_new vault idx g sw]\<rparr>"
proof -
  have "(\<exists>n. unat n = unat (os_vault_operator_delegations_registered os) + 1 \<and> \<not> (of_nat MAX_VAULTS :: u64) < n) \<longleftrightarrow>
      unat (os_vault_operator_delegations_registered os) < 64"
  proof
    assume "\<exists>n. unat n = unat (os_vault_operator_delegations_registered os) + 1 \<and> \<not> (of_nat MAX_VAULTS :: u64) < n"
    then show "unat (os_vault_operator_delegations_registered os) < 64"
      by (auto simp: MAX_VAULTS_def word_less_nat_alt)
  next
    assume lt: "unat (os_vault_operator_delegations_registered os) < 64"
    then have "unat (of_nat (unat (os_vault_operator_delegations_registered os) + 1) :: u64) =
        unat (os_vault_operator_delegations_registered os) + 1"
      by (simp only: unat_of_nat len_of_numeral_defs) simp
    with lt show "\<exists>n. unat n = unat (os_vault_operator_delegations_registered os) + 1 \<and> \<not> (of_nat MAX_VAULTS :: u64) < n"
      by (intro exI [of _ "of_nat (unat (os_vault_operator_delegations_registered os) + 1)"])
        (simp add: MAX_VAULTS_def word_less_nat_alt)
  qed
  then show ?thesis
    by (auto simp: insert_vault_operator_stake_weight_def res_simps checked_simps contains_vault_index_def list_ex_iff)
qed

text \<open>Registering one more vault.\<close>

lemma append_slot:
  assumes "n < length xs" and "drop n xs = replicate (length xs - n) d"
  shows "take (Suc n) (xs[n := x]) = take n xs @ [x]" "drop (Suc n) (xs[n := x]) = replicate (length xs - Suc n) d"
    "d \<in> set xs"
proof -
  show "take (Suc n) (xs[n := x]) = take n xs @ [x]" using assms(1) by (simp add: take_Suc_conv_app_nth)
  have "drop (Suc n) xs = tl (drop n xs)" by (simp add: drop_Suc tl_drop)
  then show "drop (Suc n) (xs[n := x]) = replicate (length xs - Suc n) d"
    using assms by (simp add: tl_replicate)
  have "d \<in> set (drop n xs)" using assms by simp
  then show "d \<in> set xs" by (rule in_set_dropD)
qed

lemma increment_registration_cases:
  assumes "increment_vault_operator_delegation_registration os slot vault idx g sw = Inr os'"
  obtains n valid weights where "\<not> os_finalized os" "unat (os_vault_operator_delegations_registered os) < 64"
    "\<forall>v \<in> set (os_vault_operator_stake_weight os). vw_vault_index v \<noteq> idx"
    "unat n = unat (os_vault_operator_delegations_registered os) + 1"
    "unat valid = unat (os_valid_operator_vault_delegations os) + (if sw_total sw > 0 then 1 else 0)"
    "stake_weights_increment (os_stake_weights os) sw = Inr weights"
    "os' = os\<lparr>os_vault_operator_stake_weight := (os_vault_operator_stake_weight os)
        [unat (os_vault_operator_delegations_registered os) := vault_operator_stake_weight_new vault idx g sw],
      os_vault_operator_delegations_registered := n, os_valid_operator_vault_delegations := valid,
      os_stake_weights := weights,
      os_slot_finalized := if n = os_vault_operator_delegation_count os then slot else os_slot_finalized os\<rparr>"
proof -
  let ?os1 = "os\<lparr>os_vault_operator_stake_weight := (os_vault_operator_stake_weight os)
        [unat (os_vault_operator_delegations_registered os) := vault_operator_stake_weight_new vault idx g sw]\<rparr>"
  have pos: "sw_stake_weight sw > 0 \<longleftrightarrow> sw_total sw > 0" by (simp add: sw_total_def word_less_nat_alt)
  obtain os1 n os2 weights where fin: "\<not> os_finalized os"
    and ins: "insert_vault_operator_stake_weight os vault idx g sw = Inr os1"
    and n: "checked_add (os_vault_operator_delegations_registered os1) 1 = Some n"
    and os2: "(if sw_stake_weight sw > 0
      then rbind (ok_or ArithmeticOverflow (checked_add (os_valid_operator_vault_delegations
          (os1\<lparr>os_vault_operator_delegations_registered := n\<rparr>)) 1)) (\<lambda>valid.
        Inr (os1\<lparr>os_vault_operator_delegations_registered := n, os_valid_operator_vault_delegations := valid\<rparr>))
      else Inr (os1\<lparr>os_vault_operator_delegations_registered := n\<rparr>)) = (Inr os2 :: tip_router_error + operator_snapshot)"
    and weights: "stake_weights_increment (os_stake_weights os2) sw = Inr weights"
    and os': "Inr (if os_finalized (os2\<lparr>os_stake_weights := weights\<rparr>)
      then os2\<lparr>os_stake_weights := weights, os_slot_finalized := slot\<rparr> else os2\<lparr>os_stake_weights := weights\<rparr>) =
      (Inr os' :: tip_router_error + operator_snapshot)"
    using assms unfolding increment_vault_operator_delegation_registration_def rbind_Inr ok_or_Inr fail_if_Inr Let_def
    by blast
  have os1: "os1 = ?os1" and room: "unat (os_vault_operator_delegations_registered os) < 64"
    and fresh: "\<forall>v \<in> set (os_vault_operator_stake_weight os). vw_vault_index v \<noteq> idx"
    using ins unfolding insert_Inr by blast+
  have n': "unat n = unat (os_vault_operator_delegations_registered os) + 1" using n by (simp add: os1 checked_add_Some)
  obtain valid where valid: "unat valid = unat (os_valid_operator_vault_delegations os) + (if sw_total sw > 0 then 1 else 0)"
    and os2': "os2 = ?os1\<lparr>os_vault_operator_delegations_registered := n, os_valid_operator_vault_delegations := valid\<rparr>"
    using os2 unfolding pos os1 by (cases "sw_total sw > 0") (auto simp: rbind_Inr ok_or_Inr checked_add_Some)
  have "stake_weights_increment (os_stake_weights os) sw = Inr weights" using weights by (simp add: os2')
  moreover have "os' = ?os1\<lparr>os_vault_operator_delegations_registered := n, os_valid_operator_vault_delegations := valid,
      os_stake_weights := weights,
      os_slot_finalized := if n = os_vault_operator_delegation_count os then slot else os_slot_finalized os\<rparr>"
    using os' by (auto simp: os2' os_finalized_def)
  ultimately show ?thesis using fin n' valid room fresh by (intro that)
qed

lemma increment_registration_inv:
  assumes inv: "os_inv os" and wf: "wf_stake_weights sw"
    and reg: "increment_vault_operator_delegation_registration os slot vault idx g sw = Inr os'"
  shows "os_inv os' \<and> registered os' = registered os @ [vault_operator_stake_weight_new vault idx g sw] \<and>
    idx \<notin> vw_vault_index ` set (registered os) \<and> \<not> os_finalized os"
proof -
  let ?n = "unat (os_vault_operator_delegations_registered os)"
  let ?e = "vault_operator_stake_weight_new vault idx g sw"
  from reg obtain n valid weights where fin: "\<not> os_finalized os" and lt: "?n < 64"
    and new: "\<forall>v \<in> set (os_vault_operator_stake_weight os). vw_vault_index v \<noteq> idx"
    and n: "unat n = ?n + 1"
    and valid: "unat valid = unat (os_valid_operator_vault_delegations os) + (if sw_total sw > 0 then 1 else 0)"
    and weights: "stake_weights_increment (os_stake_weights os) sw = Inr weights"
    and os': "os' = os\<lparr>os_vault_operator_stake_weight := (os_vault_operator_stake_weight os)[?n := ?e],
      os_vault_operator_delegations_registered := n, os_valid_operator_vault_delegations := valid,
      os_stake_weights := weights,
      os_slot_finalized := if n = os_vault_operator_delegation_count os then slot else os_slot_finalized os\<rparr>"
    by (rule increment_registration_cases)
  have I: "length (os_vault_operator_stake_weight os) = 64"
    "drop ?n (os_vault_operator_stake_weight os) = replicate (64 - ?n) vault_operator_stake_weight_default"
    "wf_stake_weights (os_stake_weights os)" "?n \<le> unat (os_vault_operator_delegation_count os)"
    using inv by (simp_all add: os_inv_def)
  have slots: "take (Suc ?n) ((os_vault_operator_stake_weight os)[?n := ?e]) = registered os @ [?e]"
    "drop (Suc ?n) ((os_vault_operator_stake_weight os)[?n := ?e]) = replicate (64 - Suc ?n) vault_operator_stake_weight_default"
    "vault_operator_stake_weight_default \<in> set (os_vault_operator_stake_weight os)"
    using append_slot [of ?n "os_vault_operator_stake_weight os"] lt I(1,2) by (simp_all add: registered_def)
  have regs: "registered os' = registered os @ [?e]" using slots(1) by (simp add: registered_def os' n)
  have idx: "idx \<notin> vw_vault_index ` set (registered os)" using new by (auto simp: registered_def dest: in_set_takeD)
  have ne: "\<not> vw_is_empty ?e"
    using new slots(3) by (force simp: vw_is_empty_def vault_operator_stake_weight_new_def vault_operator_stake_weight_default_def)
  have sums: "wf_stake_weights weights" "sw_total weights = sw_total (os_stake_weights os) + sw_total sw"
    "\<forall>i<8. sw_at weights i = sw_at (os_stake_weights os) i + sw_at sw i"
    using stake_weights_increment_wf [OF weights I(3)] by auto
  have "unat n \<le> unat (os_vault_operator_delegation_count os)"
    using fin I(4) n by (simp add: os_finalized_def word_unat_eq_iff)
  moreover have "drop (unat n) (os_vault_operator_stake_weight os') =
      replicate (64 - unat n) vault_operator_stake_weight_default" using slots(2) by (simp add: os' n)
  moreover have e: "vw_vault_index ?e = idx" "vw_stake_weight ?e = sw" by (simp_all add: vault_operator_stake_weight_new_def)
  ultimately have "os_inv os'"
    using inv regs sums valid ne wf idx unfolding os_inv_def by (simp add: os' I(1))
  with regs idx fin show ?thesis by blast
qed

end
