(* ===== verification/Ncn_Reward_Router.thy ===== *)
theory Ncn_Reward_Router
  imports Epoch_Snapshot Reward_Pool
begin

text \<open>
  \<open>core/src/ncn_reward_router.rs\<close>: the router of one operator and one NCN fee group. The operator
  takes its fee from the rewards that come in, the vaults delegated to the operator share the rest by
  stake weight, the operator gets what the floored shares leave. Routing to the vaults stops after a number of
  vaults and resumes from a saved position.
\<close>

section \<open>Model\<close>

record vault_reward_route =
  vrr_vault :: pubkey
  vrr_rewards :: u64

record ncn_reward_router =
  nr_ncn_fee_group :: ncn_fee_group
  nr_operator :: pubkey
  nr_ncn :: pubkey
  nr_epoch :: u64
  nr_bump :: u8
  nr_slot_created :: u64
  nr_ncn_operator_index :: u64
  nr_total_rewards :: u64
  nr_reward_pool :: u64
  nr_rewards_processed :: u64
  nr_operator_rewards :: u64
  nr_last_rewards_to_process :: u64
  nr_last_vault_operator_delegation_index :: u16
  nr_vault_reward_routes :: "vault_reward_route list"

definition NR_NO_LAST_REWARDS_TO_PROCESS :: u64 where "NR_NO_LAST_REWARDS_TO_PROCESS = 18446744073709551615"
definition NO_LAST_VAULT_OPERATION_DELEGATION_INDEX :: u16 where "NO_LAST_VAULT_OPERATION_DELEGATION_INDEX = 65535"
definition MAX_ROUTE_NCN_ITERATIONS :: u16 where "MAX_ROUTE_NCN_ITERATIONS = 30"

subsection \<open>Routes of the vaults\<close>

definition vault_reward_route_default :: vault_reward_route where
  "vault_reward_route_default = \<lparr>vrr_vault = default_pubkey, vrr_rewards = 0\<rparr>"

definition vault_reward_route_new :: "pubkey \<Rightarrow> u64 \<Rightarrow> tip_router_error + vault_reward_route" where
  "vault_reward_route_new vault rewards = Inr \<lparr>vrr_vault = vault, vrr_rewards = rewards\<rparr>"

definition vrr_is_empty :: "vault_reward_route \<Rightarrow> bool" where
  "vrr_is_empty rt \<longleftrightarrow> vrr_vault rt = default_pubkey"

definition vrr_has_rewards :: "vault_reward_route \<Rightarrow> bool" where
  "vrr_has_rewards rt \<longleftrightarrow> vrr_rewards rt > 0"

definition vrr_set_rewards :: "vault_reward_route \<Rightarrow> u64 \<Rightarrow> tip_router_error + vault_reward_route" where
  "vrr_set_rewards rt rewards = Inr (rt\<lparr>vrr_rewards := rewards\<rparr>)"

definition vrr_increment_rewards :: "vault_reward_route \<Rightarrow> u64 \<Rightarrow> tip_router_error + vault_reward_route" where
  "vrr_increment_rewards rt rewards =
    rbind (ok_or ArithmeticOverflow (checked_add (vrr_rewards rt) rewards)) (\<lambda>new_rewards.
    vrr_set_rewards rt new_rewards)"

definition vrr_decrement_rewards :: "vault_reward_route \<Rightarrow> u64 \<Rightarrow> tip_router_error + vault_reward_route" where
  "vrr_decrement_rewards rt rewards =
    rbind (ok_or ArithmeticUnderflowError (checked_sub (vrr_rewards rt) rewards)) (\<lambda>new_rewards.
    vrr_set_rewards rt new_rewards)"

subsection \<open>Creation and routing state\<close>

definition ncn_reward_router_new ::
    "ncn_fee_group \<Rightarrow> pubkey \<Rightarrow> u64 \<Rightarrow> pubkey \<Rightarrow> u64 \<Rightarrow> u8 \<Rightarrow> u64 \<Rightarrow> ncn_reward_router" where
  "ncn_reward_router_new g operator operator_ncn_index ncn epoch bump slot_created =
    \<lparr>nr_ncn_fee_group = g, nr_operator = operator, nr_ncn = ncn, nr_epoch = epoch, nr_bump = bump,
     nr_slot_created = slot_created, nr_ncn_operator_index = operator_ncn_index,
     nr_total_rewards = 0, nr_reward_pool = 0, nr_rewards_processed = 0, nr_operator_rewards = 0,
     nr_last_rewards_to_process = NR_NO_LAST_REWARDS_TO_PROCESS,
     nr_last_vault_operator_delegation_index = NO_LAST_VAULT_OPERATION_DELEGATION_INDEX,
     nr_vault_reward_routes = replicate MAX_VAULTS vault_reward_route_default\<rparr>"

definition nr_still_routing :: "ncn_reward_router \<Rightarrow> bool" where
  "nr_still_routing r \<longleftrightarrow>
    nr_last_rewards_to_process r \<noteq> NR_NO_LAST_REWARDS_TO_PROCESS \<or>
    nr_last_vault_operator_delegation_index r \<noteq> NO_LAST_VAULT_OPERATION_DELEGATION_INDEX"

definition nr_resume_routing_state :: "ncn_reward_router \<Rightarrow> u64 \<Rightarrow> u64 \<times> nat" where
  "nr_resume_routing_state r rewards_to_process =
    (if \<not> nr_still_routing r then (rewards_to_process, 0)
     else (nr_last_rewards_to_process r, unat (nr_last_vault_operator_delegation_index r)))"

definition nr_save_routing_state :: "ncn_reward_router \<Rightarrow> u64 \<Rightarrow> nat \<Rightarrow> ncn_reward_router" where
  "nr_save_routing_state r rewards_to_process vault_operator_delegation_index =
    r\<lparr>nr_last_rewards_to_process := rewards_to_process,
      nr_last_vault_operator_delegation_index := of_nat vault_operator_delegation_index\<rparr>"

definition nr_reset_routing_state :: "ncn_reward_router \<Rightarrow> ncn_reward_router" where
  "nr_reset_routing_state r =
    r\<lparr>nr_last_rewards_to_process := NR_NO_LAST_REWARDS_TO_PROCESS,
      nr_last_vault_operator_delegation_index := NO_LAST_VAULT_OPERATION_DELEGATION_INDEX\<rparr>"

subsection \<open>Pool and buckets\<close>

definition nr_total_rewards_in_transit :: "ncn_reward_router \<Rightarrow> tip_router_error + u64" where
  "nr_total_rewards_in_transit r =
    ok_or ArithmeticOverflow (checked_add (nr_reward_pool r) (nr_rewards_processed r))"

definition nr_route_to_reward_pool :: "ncn_reward_router \<Rightarrow> u64 \<Rightarrow> tip_router_error + ncn_reward_router" where
  "nr_route_to_reward_pool r rewards =
    (if rewards = 0 then Inr r else
     rbind (ok_or ArithmeticOverflow (checked_add (nr_total_rewards r) rewards)) (\<lambda>total_r.
     rbind (ok_or ArithmeticOverflow (checked_add (nr_reward_pool r) rewards)) (\<lambda>pool.
     Inr (r\<lparr>nr_total_rewards := total_r, nr_reward_pool := pool\<rparr>))))"

definition nr_increment_rewards_processed :: "ncn_reward_router \<Rightarrow> u64 \<Rightarrow> tip_router_error + ncn_reward_router" where
  "nr_increment_rewards_processed r rewards =
    (if rewards = 0 then Inr r else
     rbind (ok_or ArithmeticOverflow (checked_add (nr_rewards_processed r) rewards)) (\<lambda>n.
     Inr (r\<lparr>nr_rewards_processed := n\<rparr>)))"

definition nr_decrement_rewards_processed :: "ncn_reward_router \<Rightarrow> u64 \<Rightarrow> tip_router_error + ncn_reward_router" where
  "nr_decrement_rewards_processed r rewards =
    (if rewards = 0 then Inr r else
     rbind (ok_or ArithmeticUnderflowError (checked_sub (nr_rewards_processed r) rewards)) (\<lambda>n.
     Inr (r\<lparr>nr_rewards_processed := n\<rparr>)))"

definition nr_route_from_reward_pool :: "ncn_reward_router \<Rightarrow> u64 \<Rightarrow> tip_router_error + ncn_reward_router" where
  "nr_route_from_reward_pool r rewards =
    (if rewards = 0 then Inr r else
     rbind (ok_or ArithmeticUnderflowError (checked_sub (nr_reward_pool r) rewards)) (\<lambda>pool.
     nr_increment_rewards_processed (r\<lparr>nr_reward_pool := pool\<rparr>) rewards))"

definition nr_route_incoming_rewards ::
    "ncn_reward_router \<Rightarrow> u64 \<Rightarrow> u64 \<Rightarrow> tip_router_error + ncn_reward_router" where
  "nr_route_incoming_rewards r rent_cost account_balance =
    rbind (nr_total_rewards_in_transit r) (\<lambda>in_transit.
    rbind (ok_or ArithmeticUnderflowError (checked_sub account_balance in_transit)) (\<lambda>incoming.
    rbind (ok_or ArithmeticUnderflowError (checked_sub incoming rent_cost)) (\<lambda>rewards_to_route.
    nr_route_to_reward_pool r rewards_to_route)))"

definition nr_route_to_operator_rewards :: "ncn_reward_router \<Rightarrow> u64 \<Rightarrow> tip_router_error + ncn_reward_router" where
  "nr_route_to_operator_rewards r rewards =
    (if rewards = 0 then Inr r else
     rbind (ok_or ArithmeticOverflow (checked_add (nr_operator_rewards r) rewards)) (\<lambda>n.
     Inr (r\<lparr>nr_operator_rewards := n\<rparr>)))"

definition nr_distribute_operator_rewards :: "ncn_reward_router \<Rightarrow> tip_router_error + ncn_reward_router \<times> u64" where
  "nr_distribute_operator_rewards r =
    (let rewards = nr_operator_rewards r in
     rbind (ok_or ArithmeticUnderflowError (checked_sub (nr_operator_rewards r) rewards)) (\<lambda>n.
     rbind (nr_decrement_rewards_processed (r\<lparr>nr_operator_rewards := n\<rparr>) rewards) (\<lambda>r.
     Inr (r, rewards))))"

definition nr_vault_reward_route :: "ncn_reward_router \<Rightarrow> pubkey \<Rightarrow> tip_router_error + vault_reward_route" where
  "nr_vault_reward_route r vault =
    ok_or VaultRewardNotFound (List.find (\<lambda>rt. vrr_vault rt = vault) (nr_vault_reward_routes r))"

definition nr_route_to_vault_reward_route ::
    "ncn_reward_router \<Rightarrow> pubkey \<Rightarrow> u64 \<Rightarrow> tip_router_error + ncn_reward_router" where
  "nr_route_to_vault_reward_route r vault rewards =
    (if rewards = 0 then Inr r else
     let routes = nr_vault_reward_routes r in
     case find_idx (\<lambda>rt. vrr_vault rt = vault) routes of
       Some i \<Rightarrow>
         rbind (vrr_increment_rewards (routes ! i) rewards) (\<lambda>rt.
         Inr (r\<lparr>nr_vault_reward_routes := routes[i := rt]\<rparr>))
     | None \<Rightarrow>
         (case find_idx (\<lambda>rt. vrr_vault rt = default_pubkey) routes of
            Some i \<Rightarrow>
              rbind (vault_reward_route_new vault rewards) (\<lambda>rt.
              Inr (r\<lparr>nr_vault_reward_routes := routes[i := rt]\<rparr>))
          | None \<Rightarrow> Inl OperatorRewardListFull))"

definition nr_distribute_vault_reward_route ::
    "ncn_reward_router \<Rightarrow> pubkey \<Rightarrow> tip_router_error + ncn_reward_router \<times> u64" where
  "nr_distribute_vault_reward_route r vault =
    (let routes = nr_vault_reward_routes r in
     case find_idx (\<lambda>rt. vrr_vault rt = vault) routes of
       Some i \<Rightarrow>
         let rewards = vrr_rewards (routes ! i) in
         rbind (vrr_decrement_rewards (routes ! i) rewards) (\<lambda>rt.
         rbind (nr_decrement_rewards_processed (r\<lparr>nr_vault_reward_routes := routes[i := rt]\<rparr>) rewards)
           (\<lambda>r. Inr (r, rewards)))
     | None \<Rightarrow> Inl OperatorRewardNotFound)"

subsection \<open>Shares\<close>

text \<open>\<open>max_bps\<close> is the constant \<open>MAX_BPS\<close> of the \<open>jito_vault_core\<close> crate.\<close>

definition calculate_operator_reward ::
    "'p precise_ops \<Rightarrow> u16 \<Rightarrow> u64 \<Rightarrow> u64 \<Rightarrow> tip_router_error + u64" where
  "calculate_operator_reward pn max_bps fee_bps rewards_to_process =
    (if fee_bps = 0 \<or> rewards_to_process = 0 then Inr 0 else
     rbind (ok_or NewPreciseNumberError (pn_new pn (ucast fee_bps))) (\<lambda>precise_operator_fee_bps.
     rbind (ok_or NewPreciseNumberError (pn_new pn (ucast max_bps))) (\<lambda>precise_max_bps.
     rbind (ok_or NewPreciseNumberError (pn_new pn (ucast rewards_to_process))) (\<lambda>precise_rewards.
     precise_share pn precise_rewards precise_operator_fee_bps precise_max_bps))))"

definition calculate_vault_reward ::
    "'p precise_ops \<Rightarrow> u128 \<Rightarrow> u128 \<Rightarrow> u64 \<Rightarrow> tip_router_error + u64" where
  "calculate_vault_reward pn vault_weight operator_weight rewards_to_process =
    (if operator_weight = 0 \<or> rewards_to_process = 0 then Inr 0 else
     rbind (ok_or NewPreciseNumberError (pn_new pn (ucast rewards_to_process))) (\<lambda>precise_rewards.
     rbind (ok_or NewPreciseNumberError (pn_new pn vault_weight)) (\<lambda>precise_vault.
     rbind (ok_or NewPreciseNumberError (pn_new pn operator_weight)) (\<lambda>precise_operator.
     precise_share pn precise_rewards precise_vault precise_operator))))"

subsection \<open>Routing\<close>

definition nr_route_operator_rewards ::
    "'p precise_ops \<Rightarrow> u16 \<Rightarrow> ncn_reward_router \<Rightarrow> operator_snapshot \<Rightarrow> tip_router_error + ncn_reward_router" where
  "nr_route_operator_rewards pn max_bps r os =
    (let rewards_to_process = nr_reward_pool r in
     rbind (calculate_operator_reward pn max_bps (ucast (os_operator_fee_bps os)) rewards_to_process) (\<lambda>operator_rewards.
     rbind (nr_route_from_reward_pool r operator_rewards) (\<lambda>r.
     nr_route_to_operator_rewards r operator_rewards)))"

text \<open>The body of the loop over the vaults, and the loop, which either runs to its end or saves its
  position and returns from the function.\<close>

definition nr_route_one_vault ::
    "'p precise_ops \<Rightarrow> operator_snapshot \<Rightarrow> u64 \<Rightarrow> nat \<Rightarrow> ncn_reward_router \<Rightarrow> tip_router_error + ncn_reward_router" where
  "nr_route_one_vault pn os rewards_to_process i r =
    (let v = os_vault_operator_stake_weight os ! i; g = nr_ncn_fee_group r in
     rbind (ncn_fee_group_stake_weight (vw_stake_weight v) g) (\<lambda>vault_weight.
     rbind (ncn_fee_group_stake_weight (os_stake_weights os) g) (\<lambda>operator_weight.
     rbind (calculate_vault_reward pn vault_weight operator_weight rewards_to_process) (\<lambda>vault_reward.
     rbind (nr_route_from_reward_pool r vault_reward) (\<lambda>r.
     nr_route_to_vault_reward_route r (vw_vault v) vault_reward)))))"

datatype vault_progress =
    Paused ncn_reward_router
  | Finished ncn_reward_router

fun nr_route_vaults ::
    "'p precise_ops \<Rightarrow> operator_snapshot \<Rightarrow> u16 \<Rightarrow> u64 \<Rightarrow> nat list \<Rightarrow> ncn_reward_router \<Rightarrow> u16 \<Rightarrow>
     tip_router_error + vault_progress" where
  "nr_route_vaults pn os max_iterations rewards_to_process [] r iterations = Inr (Finished r)"
| "nr_route_vaults pn os max_iterations rewards_to_process (i # rest) r iterations =
    rbind (ok_or ArithmeticOverflow (checked_add iterations 1)) (\<lambda>iterations.
    if iterations > max_iterations
    then Inr (Paused (nr_save_routing_state r rewards_to_process i))
    else rbind (nr_route_one_vault pn os rewards_to_process i r) (\<lambda>r.
      nr_route_vaults pn os max_iterations rewards_to_process rest r iterations))"

text \<open>The operator gets any remainder.\<close>

definition nr_route_leftover :: "ncn_reward_router \<Rightarrow> tip_router_error + ncn_reward_router" where
  "nr_route_leftover r =
    (let leftover_rewards = nr_reward_pool r in
     rbind (nr_route_from_reward_pool r leftover_rewards) (\<lambda>r.
     nr_route_to_operator_rewards r leftover_rewards))"

definition nr_route_reward_pool ::
    "'p precise_ops \<Rightarrow> ncn_reward_router \<Rightarrow> operator_snapshot \<Rightarrow> u16 \<Rightarrow> tip_router_error + ncn_reward_router" where
  "nr_route_reward_pool pn r os max_iterations =
    (let (rewards_to_process, starting_index) = nr_resume_routing_state r (nr_reward_pool r) in
     if rewards_to_process = 0 then Inr r else
     rbind (nr_route_vaults pn os (max max_iterations 1) rewards_to_process
       [starting_index..<length (os_vault_operator_stake_weight os)] r 0) (\<lambda>progress.
     case progress of
       Paused r \<Rightarrow> Inr r
     | Finished r \<Rightarrow> nr_route_leftover (nr_reset_routing_state r)))"

end
