(* ===== verification/Ncn_Routing.thy ===== *)
theory Ncn_Routing
  imports Ncn_Reward_Router
begin

text \<open>
  Properties of the NCN reward router: no lamport is created or lost over any sequence of operations;
  routing to the vaults in bounded calls ends with what one pass computes; and that is the floored
  share of every vault with the remainder to the operator.
\<close>

section \<open>Accounting\<close>

definition vault_sum :: "vault_reward_route list \<Rightarrow> nat" where
  "vault_sum xs = sum_list (map (\<lambda>rt. unat (vrr_rewards rt)) xs)"

definition nr_buckets :: "ncn_reward_router \<Rightarrow> nat" where
  "nr_buckets r = unat (nr_operator_rewards r) + vault_sum (nr_vault_reward_routes r)"

text \<open>The vaults of the operator's snapshot have a key. The routes are a table: a free one holds
  nothing, and each vault of the snapshot has at most one.\<close>

definition vaults_named :: "operator_snapshot \<Rightarrow> bool" where
  "vaults_named os \<longleftrightarrow> os_inv os \<and> (\<forall>v \<in> set (registered os). vw_vault v \<noteq> default_pubkey)"

abbreviation snapshot_vaults :: "operator_snapshot \<Rightarrow> pubkey set" where
  "snapshot_vaults os \<equiv> vw_vault ` set (registered os)"

definition nr_wf :: "pubkey set \<Rightarrow> ncn_reward_router \<Rightarrow> bool" where
  "nr_wf V r \<longleftrightarrow> length (nr_vault_reward_routes r) = 64 \<and>
    slots_ok vrr_vault (nr_vault_reward_routes r) \<and>
    (\<forall>rt \<in> set (nr_vault_reward_routes r). vrr_vault rt = default_pubkey \<longrightarrow> vrr_rewards rt = 0) \<and>
    dom (slot_map vrr_vault (nr_vault_reward_routes r)) \<subseteq> V"

definition nr_shift ::
    "pubkey set \<Rightarrow> ncn_reward_router \<Rightarrow> int \<Rightarrow> int \<Rightarrow> int \<Rightarrow> int \<Rightarrow> ncn_reward_router \<Rightarrow> bool" where
  "nr_shift V r dt dp dr db r' \<longleftrightarrow> (nr_wf V r \<longrightarrow> nr_wf V r' \<and>
    amount (nr_total_rewards r') = amount (nr_total_rewards r) + dt \<and>
    amount (nr_reward_pool r') = amount (nr_reward_pool r) + dp \<and>
    amount (nr_rewards_processed r') = amount (nr_rewards_processed r) + dr \<and>
    int (nr_buckets r') = int (nr_buckets r) + db)"

lemma nr_shift_refl [simp]: "nr_shift V r 0 0 0 0 r"
  by (simp add: nr_shift_def)

lemma nr_shift_trans:
  "nr_shift V r a b c d r1 \<Longrightarrow> nr_shift V r1 a' b' c' d' r2 \<Longrightarrow> nr_shift V r (a + a') (b + b') (c + c') (d + d') r2"
  by (simp add: nr_shift_def)

lemma nr_route_to_reward_pool_shift:
  "nr_route_to_reward_pool r x = Inr r' \<Longrightarrow> nr_shift V r (amount x) (amount x) 0 0 r'"
  by (auto simp: nr_route_to_reward_pool_def nr_shift_def res_simps amount_simps nr_wf_def nr_buckets_def
      split: if_splits)

lemma nr_route_from_reward_pool_shift:
  "nr_route_from_reward_pool r x = Inr r' \<Longrightarrow> nr_shift V r 0 (- amount x) (amount x) 0 r'"
  by (auto simp: nr_route_from_reward_pool_def nr_increment_rewards_processed_def nr_shift_def res_simps
      amount_simps nr_wf_def nr_buckets_def split: if_splits)

lemma nr_decrement_rewards_processed_shift:
  "nr_decrement_rewards_processed r x = Inr r' \<Longrightarrow> nr_shift V r 0 0 (- amount x) 0 r'"
  by (auto simp: nr_decrement_rewards_processed_def nr_shift_def res_simps
      amount_simps nr_wf_def nr_buckets_def split: if_splits)

lemma nr_buckets_amount: "int (nr_buckets r) = amount (nr_operator_rewards r) + int (vault_sum (nr_vault_reward_routes r))"
  by (simp add: nr_buckets_def amount_def)

lemma nr_route_to_operator_shift:
  "nr_route_to_operator_rewards r x = Inr r' \<Longrightarrow> nr_shift V r 0 0 0 (amount x) r'"
  by (auto simp: nr_route_to_operator_rewards_def nr_shift_def res_simps amount_simps nr_wf_def nr_buckets_amount
      split: if_splits)

lemma nr_distribute_operator_shift:
  assumes "nr_distribute_operator_rewards r = Inr (r', x)"
  shows "nr_shift V r 0 0 (- amount x) (- amount x) r'"
proof -
  obtain n where x: "x = nr_operator_rewards r" and n: "amount n = 0"
    and dec: "nr_decrement_rewards_processed (r\<lparr>nr_operator_rewards := n\<rparr>) x = Inr r'"
    using assms by (auto simp: nr_distribute_operator_rewards_def Let_def res_simps amount_simps)
  have "nr_shift V r 0 0 0 (- amount x) (r\<lparr>nr_operator_rewards := n\<rparr>)"
    by (simp add: nr_shift_def nr_wf_def nr_buckets_amount n x)
  from nr_shift_trans [OF this nr_decrement_rewards_processed_shift [OF dec]] show ?thesis by simp
qed

text \<open>Writing a route.\<close>

definition writes_route :: "vault_reward_route list \<Rightarrow> vault_reward_route \<Rightarrow> vault_reward_route list \<Rightarrow> bool" where
  "writes_route xs rt ys \<longleftrightarrow> (\<exists>i < length xs. ys = xs[i := rt] \<and>
    (vrr_vault (xs ! i) = vrr_vault rt \<or>
     vrr_vault (xs ! i) = default_pubkey \<and> vrr_vault rt \<notin> vrr_vault ` set xs))"

interpretation routes: slot_table vrr_vault "\<lambda>xs. xs" writes_route
  by unfold_locales (auto simp: writes_route_def)

lemma vault_sum_update:
  assumes "i < length xs" and "amount v + k = amount (vrr_rewards (xs ! i)) + m"
    and "vrr_rewards rt = v"
  shows "int (vault_sum (xs[i := rt])) = int (vault_sum xs) + m - k"
  using arg_cong [OF sum_list_map_update [OF assms(1), of "\<lambda>b. unat (vrr_rewards b)" rt], of int]
    assms(2,3) unfolding vault_sum_def amount_def of_nat_add by simp

definition nr_credit :: "ncn_reward_router \<Rightarrow> pubkey \<Rightarrow> nat" where
  "nr_credit r vault = (case slot_map vrr_vault (nr_vault_reward_routes r) vault of
    None \<Rightarrow> 0 | Some rt \<Rightarrow> unat (vrr_rewards rt))"

text \<open>What routing to a vault does: it writes one route, which holds \<open>rewards\<close> more than the vault had.\<close>

lemma route_to_vault_writes:
  assumes "nr_route_to_vault_reward_route r vault x = Inr r'" and "x \<noteq> 0" and "vault \<noteq> default_pubkey"
    and wf: "nr_wf V r"
  shows "\<exists>rt. r' = r\<lparr>nr_vault_reward_routes := nr_vault_reward_routes r'\<rparr> \<and>
    writes_route (nr_vault_reward_routes r) rt (nr_vault_reward_routes r') \<and> vrr_vault rt = vault \<and>
    unat (vrr_rewards rt) = nr_credit r vault + unat x \<and>
    int (vault_sum (nr_vault_reward_routes r')) = int (vault_sum (nr_vault_reward_routes r)) + amount x"
proof -
  let ?rts = "nr_vault_reward_routes r"
  show ?thesis
  proof (cases "find_idx (\<lambda>rt. vrr_vault rt = vault) ?rts")
    case (Some i)
    then obtain v where v: "checked_add (vrr_rewards (?rts ! i)) x = Some v"
      and r': "r' = r\<lparr>nr_vault_reward_routes := ?rts[i := (?rts ! i)\<lparr>vrr_rewards := v\<rparr>]\<rparr>"
      using assms(1,2) by (auto simp: nr_route_to_vault_reward_route_def Let_def res_simps
          vrr_increment_rewards_def vrr_set_rewards_def)
    have i: "i < length ?rts" "vrr_vault (?rts ! i) = vault" using find_idx_SomeD(1,2) [OF Some] by auto
    have "nr_credit r vault = unat (vrr_rewards (?rts ! i))"
      using Some assms(3) by (simp add: nr_credit_def slot_map_def find_conv_find_idx)
    then show ?thesis
      using v i vault_sum_update [OF i(1), of v 0 "amount x" "(?rts ! i)\<lparr>vrr_rewards := v\<rparr>"]
      by (intro exI [of _ "(?rts ! i)\<lparr>vrr_rewards := v\<rparr>"])
        (auto simp: r' writes_route_def checked_add_Some amount_simps [symmetric])
  next
    case None
    let ?rt = "\<lparr>vrr_vault = vault, vrr_rewards = x\<rparr>"
    obtain i where i: "find_idx (\<lambda>rt. vrr_vault rt = default_pubkey) ?rts = Some i"
      and r': "r' = r\<lparr>nr_vault_reward_routes := ?rts[i := ?rt]\<rparr>"
      using assms(1,2) None by (auto simp: nr_route_to_vault_reward_route_def Let_def res_simps
          vault_reward_route_new_def split: option.splits)
    have idx: "i < length ?rts" "vrr_vault (?rts ! i) = default_pubkey" using find_idx_SomeD(1,2) [OF i] by auto
    then have "vrr_rewards (?rts ! i) = 0" using wf by (simp add: nr_wf_def)
    moreover have "nr_credit r vault = 0" using None by (simp add: nr_credit_def slot_map_def find_conv_find_idx)
    moreover have "vault \<notin> vrr_vault ` set ?rts" using None by (auto simp: find_idx_None)
    ultimately show ?thesis
      using idx vault_sum_update [OF idx(1), of x 0 "amount x" ?rt]
      by (intro exI [of _ ?rt]) (auto simp: r' writes_route_def)
  qed
qed

text \<open>A written table is still one: the new route is of a vault of the snapshot, or free and empty.\<close>

lemma nr_wf_write:
  assumes wf: "nr_wf V r" and w: "writes_route (nr_vault_reward_routes r) rt ys"
    and rt: "vrr_vault rt \<in> V" "vrr_vault rt \<noteq> default_pubkey"
  shows "nr_wf V (r\<lparr>nr_vault_reward_routes := ys\<rparr>)"
    "slot_map vrr_vault ys = (slot_map vrr_vault (nr_vault_reward_routes r))(vrr_vault rt \<mapsto> rt)"
proof -
  have ok: "slots_ok vrr_vault ys" "slot_map vrr_vault ys = (slot_map vrr_vault (nr_vault_reward_routes r))(vrr_vault rt \<mapsto> rt)"
    "length ys = length (nr_vault_reward_routes r)"
    using routes.write_ok [OF w rt(2)] wf by (auto simp: nr_wf_def)
  have "set ys \<subseteq> insert rt (set (nr_vault_reward_routes r))"
    using w by (auto simp: writes_route_def dest: set_update_subset_insert [THEN subsetD])
  then show "nr_wf V (r\<lparr>nr_vault_reward_routes := ys\<rparr>)" using wf ok rt by (auto simp: nr_wf_def)
  show "slot_map vrr_vault ys = (slot_map vrr_vault (nr_vault_reward_routes r))(vrr_vault rt \<mapsto> rt)" by (rule ok(2))
qed

lemma nr_route_to_vault_shift:
  assumes "nr_route_to_vault_reward_route r vault x = Inr r'"
    and v: "vault \<in> V" "vault \<noteq> default_pubkey"
  shows "nr_shift V r 0 0 0 (amount x) r'"
proof (cases "x = 0")
  case True
  then show ?thesis using assms(1) by (simp add: nr_route_to_vault_reward_route_def)
next
  case False
  show ?thesis unfolding nr_shift_def
  proof (intro impI)
    assume wf: "nr_wf V r"
    obtain rt where r': "r' = r\<lparr>nr_vault_reward_routes := nr_vault_reward_routes r'\<rparr>"
      and w: "writes_route (nr_vault_reward_routes r) rt (nr_vault_reward_routes r')" and rt: "vrr_vault rt = vault"
      and s: "int (vault_sum (nr_vault_reward_routes r')) = int (vault_sum (nr_vault_reward_routes r)) + amount x"
      using route_to_vault_writes [OF assms(1) False v(2) wf] by blast
    have fields: "nr_total_rewards r' = nr_total_rewards r" "nr_reward_pool r' = nr_reward_pool r"
      "nr_rewards_processed r' = nr_rewards_processed r" "nr_operator_rewards r' = nr_operator_rewards r"
      using r' by (metis ncn_reward_router.select_convs(8-11) ncn_reward_router.update_convs(14) ncn_reward_router.surjective)+
    show "nr_wf V r' \<and> amount (nr_total_rewards r') = amount (nr_total_rewards r) + 0 \<and>
      amount (nr_reward_pool r') = amount (nr_reward_pool r) + 0 \<and>
      amount (nr_rewards_processed r') = amount (nr_rewards_processed r) + 0 \<and>
      int (nr_buckets r') = int (nr_buckets r) + amount x"
      using nr_wf_write(1) [OF wf w] v rt r' fields s by (simp add: nr_buckets_amount)
  qed
qed

lemma nr_distribute_vault_shift:
  assumes "nr_distribute_vault_reward_route r vault = Inr (r', x)"
  shows "nr_shift V r 0 0 (- amount x) (- amount x) r'"
proof -
  let ?rts = "nr_vault_reward_routes r"
  obtain i v where i: "find_idx (\<lambda>rt. vrr_vault rt = vault) ?rts = Some i" and x: "x = vrr_rewards (?rts ! i)"
    and v: "amount v = 0"
    and dec: "nr_decrement_rewards_processed (r\<lparr>nr_vault_reward_routes := ?rts[i := (?rts ! i)\<lparr>vrr_rewards := v\<rparr>]\<rparr>) x = Inr r'"
    using assms by (auto simp: nr_distribute_vault_reward_route_def Let_def res_simps amount_simps
        vrr_decrement_rewards_def vrr_set_rewards_def split: option.splits)
  have v0: "v = 0" using v amount_eq_iff [of v 0] by simp
  have idx: "i < length ?rts" using find_idx_SomeD(1) [OF i] .
  let ?rt = "(?rts ! i)\<lparr>vrr_rewards := v\<rparr>" and ?r = "r\<lparr>nr_vault_reward_routes := ?rts[i := (?rts ! i)\<lparr>vrr_rewards := v\<rparr>]\<rparr>"
  have "nr_shift V r 0 0 0 (- amount x) ?r"
    unfolding nr_shift_def
  proof (intro impI)
    assume wf: "nr_wf V r"
    have keys: "map vrr_vault (?rts[i := ?rt]) = map vrr_vault ?rts"
      using idx by (simp add: map_update list_update_same_conv)
    have sub: "set (?rts[i := ?rt]) \<subseteq> insert ?rt (set ?rts)" by (rule set_update_subset_insert)
    have ok: "slots_ok vrr_vault (?rts[i := ?rt])"
      using wf keys nth_map [of _ "?rts[i := ?rt]" vrr_vault] nth_map [of _ ?rts vrr_vault]
      unfolding nr_wf_def slots_ok_def by (metis length_list_update)
    have "vrr_vault ` set (?rts[i := ?rt]) = vrr_vault ` set ?rts" using keys by (metis set_map)
    then have "dom (slot_map vrr_vault (?rts[i := ?rt])) = dom (slot_map vrr_vault ?rts)"
      using wf ok by (simp add: slot_map_dom nr_wf_def)
    then have "nr_wf V ?r" using wf ok sub v0 by (auto simp: nr_wf_def)
    then show "nr_wf V ?r \<and> amount (nr_total_rewards ?r) = amount (nr_total_rewards r) + 0 \<and>
      amount (nr_reward_pool ?r) = amount (nr_reward_pool r) + 0 \<and>
      amount (nr_rewards_processed ?r) = amount (nr_rewards_processed r) + 0 \<and>
      int (nr_buckets ?r) = int (nr_buckets r) + - amount x"
      using vault_sum_update [OF idx, of v "amount x" 0 ?rt] x v by (simp add: nr_buckets_amount)
  qed
  from nr_shift_trans [OF this nr_decrement_rewards_processed_shift [OF dec]] show ?thesis by simp
qed

lemma nr_state_shift [simp]:
  "nr_shift V r 0 0 0 0 (nr_save_routing_state r x i)" "nr_shift V r 0 0 0 0 (nr_reset_routing_state r)"
  by (simp_all add: nr_shift_def nr_save_routing_state_def nr_reset_routing_state_def nr_wf_def nr_buckets_def)

lemma nr_route_leftover_shift:
  assumes "nr_route_leftover r = Inr r'"
  shows "\<exists>k. nr_shift V r 0 (- k) k k r'"
proof -
  obtain r1 where "nr_route_from_reward_pool r (nr_reward_pool r) = Inr r1"
    "nr_route_to_operator_rewards r1 (nr_reward_pool r) = Inr r'"
    using assms by (auto simp: nr_route_leftover_def Let_def rbind_Inr)
  from nr_shift_trans [OF nr_route_from_reward_pool_shift [OF this(1)] nr_route_to_operator_shift [OF this(2)]]
  show ?thesis by (intro exI [of _ "amount (nr_reward_pool r)"]) simp
qed

section \<open>The share of one vault\<close>

text \<open>The entries of a snapshot: the registered vaults, then free entries of no weight.\<close>

lemma entry_cases:
  assumes "vaults_named os" and "i < 64"
  shows "(os_vault_operator_stake_weight os ! i \<in> set (registered os) \<and>
      vw_vault (os_vault_operator_stake_weight os ! i) \<noteq> default_pubkey) \<or>
    os_vault_operator_stake_weight os ! i = vault_operator_stake_weight_default"
proof -
  let ?n = "unat (os_vault_operator_delegations_registered os)" and ?es = "os_vault_operator_stake_weight os"
  have len: "length ?es = 64" and rest: "drop ?n ?es = replicate (64 - ?n) vault_operator_stake_weight_default"
    using assms(1) by (simp_all add: vaults_named_def os_inv_def)
  show ?thesis
  proof (cases "i < ?n")
    case True
    then have "registered os ! i = ?es ! i" "i < length (registered os)" using assms(2) len by (simp_all add: registered_def)
    then have "?es ! i \<in> set (registered os)" by (metis nth_mem)
    then show ?thesis using assms(1) by (simp add: vaults_named_def)
  next
    case False
    then have "?es ! i = drop ?n ?es ! (i - ?n)" using assms(2) len by simp
    then show ?thesis using False assms(2) by (simp add: rest)
  qed
qed

lemma group_weight:
  assumes "ncn_fee_group_stake_weight s g = Inr w"
  shows "\<exists>i < 8. ncn_fee_group_group_index g = Inr i \<and> unat w = sw_at s i"
  using assms ng.index_bound by (auto simp: ncn_fee_group_stake_weight_def rbind_Inr sw_at_def)

lemma vault_reward_exact:
  assumes pn: "precise_number pn val" and "calculate_vault_reward pn a b rewards = Inr x"
  shows "unat x = unat rewards * unat a div unat b"
proof (cases "b = 0 \<or> rewards = 0")
  case True
  then show ?thesis using assms(2) by (auto simp: calculate_vault_reward_def)
next
  case False
  have wide: "unat (ucast rewards :: u128) = unat rewards" by (rule unat_ucast_widen) simp
  from False assms(2) obtain p q d where ps: "pn_new pn (ucast rewards) = Some p" "pn_new pn a = Some q"
    "pn_new pn b = Some d" "precise_share pn p q d = Inr x"
    by (auto simp: calculate_vault_reward_def res_simps)
  then show ?thesis
    using precise_number.share_exact [OF pn ps(4)] precise_number.new_Some [OF pn] wide by metis
qed

lemma vault_reward_defined:
  assumes pn: "precise_number pn val" and le: "unat a \<le> unat b" and small: "unat rewards * unat b < 2 ^ 128"
  shows "\<exists>x. calculate_vault_reward pn a b rewards = Inr x"
proof (cases "b = 0 \<or> rewards = 0")
  case True
  then show ?thesis by (auto simp: calculate_vault_reward_def)
next
  case False
  have wide: "unat (ucast rewards :: u128) = unat rewards" by (rule unat_ucast_widen) simp
  obtain p q d where ps: "pn_new pn (ucast rewards) = Some p" "pn_new pn a = Some q" "pn_new pn b = Some d"
    using precise_number.new_exact [OF pn] by meson
  have vals: "val p = of_nat (unat rewards)" "val q = of_nat (unat a)" "val d = of_nat (unat b)"
    using precise_number.new_Some [OF pn ps(1)] precise_number.new_Some [OF pn ps(2)]
      precise_number.new_Some [OF pn ps(3)] unfolding wide .
  have b: "unat b \<noteq> 0" using False by (simp add: unat_eq_zero)
  have "unat rewards * unat a \<le> unat rewards * unat b" using le by simp
  then have prod: "unat rewards * unat a < 2 ^ 128" using small by linarith
  have quot: "unat rewards * unat a div unat b < 2 ^ 64"
    using share_le [OF b le, of "unat rewards"] unat_less_pow [of rewards] by simp
  obtain x where x: "precise_share pn p q d = Inr x"
    using precise_number.share_defined [OF pn vals b prod quot] by blast
  with False ps show ?thesis by (simp add: calculate_vault_reward_def)
qed

text \<open>A successful iteration moves the floored share of the entry from the pool to its vault.\<close>

lemma route_one_vault_cases:
  assumes pn: "precise_number pn val" and named: "vaults_named os" and i: "i < 64"
    and one: "nr_route_one_vault pn os rewards i r = Inr r'"
  obtains x r1 where "nr_route_from_reward_pool r x = Inr r1"
    "nr_route_to_vault_reward_route r1 (vw_vault (os_vault_operator_stake_weight os ! i)) x = Inr r'"
    "x = 0 \<or> vw_vault (os_vault_operator_stake_weight os ! i) \<noteq> default_pubkey \<and>
      vw_vault (os_vault_operator_stake_weight os ! i) \<in> vw_vault ` set (registered os)"
proof -
  let ?v = "os_vault_operator_stake_weight os ! i"
  obtain a b x r1 where a: "ncn_fee_group_stake_weight (vw_stake_weight ?v) (nr_ncn_fee_group r) = Inr a"
    and x: "calculate_vault_reward pn a b rewards = Inr x"
    and moves: "nr_route_from_reward_pool r x = Inr r1" "nr_route_to_vault_reward_route r1 (vw_vault ?v) x = Inr r'"
    using one unfolding nr_route_one_vault_def Let_def rbind_Inr by blast
  have "x = 0" if "?v = vault_operator_stake_weight_default"
  proof -
    have "unat a = 0" using group_weight [OF a] that by (auto simp: vault_operator_stake_weight_default_def)
    then show "x = 0" using vault_reward_exact [OF pn x] by (simp add: unat_eq_zero)
  qed
  then show ?thesis using that [OF moves] entry_cases [OF named i] by blast
qed

lemma nr_route_one_vault_shift:
  assumes "precise_number pn val" and "vaults_named os" and "i < 64"
    and "nr_route_one_vault pn os rewards i r = Inr r'" and sub: "snapshot_vaults os \<subseteq> V"
  shows "\<exists>k. nr_shift V r 0 (- k) k k r'"
proof -
  obtain x r1 where x: "nr_route_from_reward_pool r x = Inr r1"
    "nr_route_to_vault_reward_route r1 (vw_vault (os_vault_operator_stake_weight os ! i)) x = Inr r'"
    "x = 0 \<or> vw_vault (os_vault_operator_stake_weight os ! i) \<noteq> default_pubkey \<and>
      vw_vault (os_vault_operator_stake_weight os ! i) \<in> snapshot_vaults os"
    using route_one_vault_cases [OF assms(1-4)] .
  have "nr_shift V r1 0 0 0 (amount x) r'"
  proof (cases "x = 0")
    case True
    then show ?thesis using x(2) by (simp add: nr_route_to_vault_reward_route_def)
  next
    case False
    then show ?thesis using nr_route_to_vault_shift [OF x(2)] x(3) sub by blast
  qed
  from nr_shift_trans [OF nr_route_from_reward_pool_shift [OF x(1)] this] show ?thesis
    by (intro exI [of _ "amount x"]) simp
qed

section \<open>Conservation\<close>

lemma moves_trans:
  "\<exists>k. nr_shift V r 0 (- k) k k r1 \<Longrightarrow> \<exists>k. nr_shift V r1 0 (- k) k k r2 \<Longrightarrow> \<exists>k. nr_shift V r 0 (- k) k k r2"
proof -
  assume "\<exists>k. nr_shift V r 0 (- k) k k r1" "\<exists>k. nr_shift V r1 0 (- k) k k r2"
  then obtain k l where "nr_shift V r 0 (- k) k k r1" "nr_shift V r1 0 (- l) l l r2" by blast
  from nr_shift_trans [OF this] show ?thesis by (intro exI [of _ "k + l"]) simp
qed

primrec vault_progress_router :: "vault_progress \<Rightarrow> ncn_reward_router" where
  "vault_progress_router (Paused r) = r"
| "vault_progress_router (Finished r) = r"

lemma nr_route_vaults_shift:
  assumes "precise_number pn val" and "vaults_named os" and "\<forall>i \<in> set is. i < 64"
    and "nr_route_vaults pn os m x is r it = Inr p" and sub: "snapshot_vaults os \<subseteq> V"
  shows "\<exists>k. nr_shift V r 0 (- k) k k (vault_progress_router p)"
  using assms(3,4)
proof (induction "is" arbitrary: r it)
  case Nil
  then have "nr_shift V r 0 (- 0) 0 0 (vault_progress_router p)" by auto
  then show ?case by blast
next
  case (Cons i "is")
  then obtain it' where it': "checked_add it 1 = Some it'" by (auto simp: res_simps)
  show ?case
  proof (cases "it' > m")
    case True
    then have "nr_shift V r 0 (- 0) 0 0 (vault_progress_router p)" using Cons.prems(2) it' by auto
    then show ?thesis by blast
  next
    case False
    then obtain r1 where one: "nr_route_one_vault pn os x i r = Inr r1" and rest: "nr_route_vaults pn os m x is r1 it' = Inr p"
      using Cons.prems(2) it' by (auto simp: rbind_Inr)
    have "i < 64" "\<forall>i \<in> set is. i < 64" using Cons.prems(1) by auto
    from moves_trans [OF nr_route_one_vault_shift [OF assms(1,2) this(1) one sub] Cons.IH [OF this(2) rest]]
    show ?thesis .
  qed
qed

lemma nr_route_reward_pool_shift:
  assumes "precise_number pn val" and named: "vaults_named os" and "nr_route_reward_pool pn r os m = Inr r'"
    and sub: "snapshot_vaults os \<subseteq> V"
  shows "\<exists>k. nr_shift V r 0 (- k) k k r'"
proof -
  obtain x i where res: "nr_resume_routing_state r (nr_reward_pool r) = (x, i)" by (cases "nr_resume_routing_state r (nr_reward_pool r)")
  have len: "length (os_vault_operator_stake_weight os) = 64" using named by (simp add: vaults_named_def os_inv_def)
  show ?thesis
  proof (cases "x = 0")
    case True
    then have "nr_shift V r 0 (- 0) 0 0 r'" using assms(3) res by (simp add: nr_route_reward_pool_def)
    then show ?thesis by blast
  next
    case False
    then obtain p where p: "nr_route_vaults pn os (max m 1) x [i..<64] r 0 = Inr p"
      and rest: "(case p of Paused r \<Rightarrow> Inr r | Finished r \<Rightarrow> nr_route_leftover (nr_reset_routing_state r)) = Inr r'"
      using assms(3) res len by (auto simp: nr_route_reward_pool_def rbind_Inr)
    have moved: "\<exists>k. nr_shift V r 0 (- k) k k (vault_progress_router p)"
      by (rule nr_route_vaults_shift [OF assms(1) named _ p sub]) simp
    show ?thesis
    proof (cases p)
      case (Paused r1)
      then show ?thesis using moved rest by simp
    next
      case (Finished r1)
      have "nr_shift V r1 0 (- 0) 0 0 (nr_reset_routing_state r1)" by simp
      then have "\<exists>k. nr_shift V r1 0 (- k) k k (nr_reset_routing_state r1)" by blast
      from moves_trans [OF moved [unfolded Finished, simplified] moves_trans [OF this nr_route_leftover_shift]] rest Finished
      show ?thesis by simp
    qed
  qed
qed

text \<open>The operations on the router of one epoch. The snapshot may be another at each step, as long as its
  vaults are among \<open>V\<close>; for the final snapshot of the epoch, \<open>V\<close> is the set of its vaults.\<close>

definition ncn_router_init :: "ncn_reward_router \<Rightarrow> bool" where
  "ncn_router_init r \<longleftrightarrow> (\<exists>g operator idx ncn epoch bump slot. r = ncn_reward_router_new g operator idx ncn epoch bump slot)"

inductive ncn_router_step ::
    "'p precise_ops \<Rightarrow> ('p \<Rightarrow> rat) \<Rightarrow> u16 \<Rightarrow> pubkey set \<Rightarrow> ncn_reward_router \<Rightarrow> nat \<Rightarrow> nat \<Rightarrow> ncn_reward_router \<Rightarrow> bool"
  for pn val max_bps V where
  incoming: "nr_route_incoming_rewards r rent balance = Inr r' \<Longrightarrow>
    ncn_router_step pn val max_bps V r
      (unat balance - (unat (nr_reward_pool r) + unat (nr_rewards_processed r)) - unat rent) 0 r'"
| operator_fee: "nr_route_operator_rewards pn max_bps r os = Inr r' \<Longrightarrow> ncn_router_step pn val max_bps V r 0 0 r'"
| route: "precise_number pn val \<Longrightarrow> vaults_named os \<Longrightarrow> snapshot_vaults os \<subseteq> V \<Longrightarrow>
    nr_route_reward_pool pn r os max_iterations = Inr r' \<Longrightarrow>
    ncn_router_step pn val max_bps V r 0 0 r'"
| distribute_operator: "nr_distribute_operator_rewards r = Inr (r', x) \<Longrightarrow> ncn_router_step pn val max_bps V r 0 (unat x) r'"
| distribute_vault: "nr_distribute_vault_reward_route r vault = Inr (r', x) \<Longrightarrow>
    ncn_router_step pn val max_bps V r 0 (unat x) r'"

lemma nr_shift_nat:
  assumes "nr_shift V r (int i) dp dr db r'" and "nr_wf V r" and "dp + dr + int p = int i" and "dr = db"
  shows "nr_wf V r' \<and> unat (nr_total_rewards r') = unat (nr_total_rewards r) + i \<and>
    unat (nr_reward_pool r') + unat (nr_rewards_processed r') + p =
      unat (nr_reward_pool r) + unat (nr_rewards_processed r) + i \<and>
    unat (nr_rewards_processed r') + nr_buckets r = unat (nr_rewards_processed r) + nr_buckets r'"
proof -
  have wf: "nr_wf V r'"
    and t: "int (unat (nr_total_rewards r')) = int (unat (nr_total_rewards r)) + int i"
    and pl: "int (unat (nr_reward_pool r')) = int (unat (nr_reward_pool r)) + dp"
    and pr: "int (unat (nr_rewards_processed r')) = int (unat (nr_rewards_processed r)) + dr"
    and b: "int (nr_buckets r') = int (nr_buckets r) + db"
    using assms(1,2) unfolding nr_shift_def amount_def by blast+
  have "unat (nr_total_rewards r') = unat (nr_total_rewards r) + i" using t by linarith
  moreover have "unat (nr_reward_pool r') + unat (nr_rewards_processed r') + p =
      unat (nr_reward_pool r) + unat (nr_rewards_processed r) + i" using pl pr assms(3) by linarith
  moreover have "unat (nr_rewards_processed r') + nr_buckets r = unat (nr_rewards_processed r) + nr_buckets r'"
    using pr b assms(4) by linarith
  ultimately show ?thesis using wf by blast
qed

lemma nr_wf_new: "ncn_router_init r \<Longrightarrow> nr_wf V r \<and> nr_buckets r = 0 \<and> nr_reward_pool r = 0 \<and>
    nr_rewards_processed r = 0 \<and> nr_total_rewards r = 0"
  by (auto simp: ncn_router_init_def ncn_reward_router_new_def nr_wf_def nr_buckets_def vault_sum_def MAX_VAULTS_def
      vault_reward_route_default_def)

interpretation ncn_router: reward_router ncn_router_init "ncn_router_step pn val max_bps V" "nr_wf V"
  "\<lambda>r. unat (nr_reward_pool r)" "\<lambda>r. unat (nr_rewards_processed r)" "\<lambda>r. unat (nr_total_rewards r)"
  nr_buckets for pn val max_bps V
proof
  fix r
  assume "ncn_router_init r"
  then show "nr_wf V r \<and> unat (nr_reward_pool r) = 0 \<and> unat (nr_rewards_processed r) = 0 \<and>
      unat (nr_total_rewards r) = 0 \<and> nr_buckets r = 0"
    using nr_wf_new by simp
next
  fix r i p r'
  assume wf: "nr_wf V r" and "ncn_router_step pn val max_bps V r i p r'"
  from this(2) show "nr_wf V r' \<and> unat (nr_total_rewards r') = unat (nr_total_rewards r) + i \<and>
      unat (nr_reward_pool r') + unat (nr_rewards_processed r') + p =
        unat (nr_reward_pool r) + unat (nr_rewards_processed r) + i \<and>
      unat (nr_rewards_processed r') + nr_buckets r = unat (nr_rewards_processed r) + nr_buckets r'"
  proof cases
    case (incoming rent balance)
    then obtain x where x: "nr_route_to_reward_pool r x = Inr r'"
      and "unat x = unat balance - (unat (nr_reward_pool r) + unat (nr_rewards_processed r)) - unat rent"
      by (auto simp: nr_route_incoming_rewards_def nr_total_rewards_in_transit_def res_simps checked_simps)
    with incoming have "nr_shift V r (int i) (int i) 0 0 r'"
      using nr_route_to_reward_pool_shift [OF x] unfolding amount_def by simp
    from nr_shift_nat [OF this wf, of p] incoming show ?thesis by simp
  next
    case (operator_fee os)
    then obtain x r1 where "nr_route_from_reward_pool r x = Inr r1" "nr_route_to_operator_rewards r1 x = Inr r'"
      by (auto simp: nr_route_operator_rewards_def Let_def rbind_Inr)
    then have "nr_shift V r 0 (- amount x) (amount x) (amount x) r'"
      using nr_shift_trans [OF nr_route_from_reward_pool_shift nr_route_to_operator_shift] by fastforce
    from nr_shift_nat [of V r 0, simplified, OF this wf] operator_fee show ?thesis by simp
  next
    case (route os m)
    obtain k where "nr_shift V r 0 (- k) k k r'"
      using nr_route_reward_pool_shift [OF route(3,4,6,5)] by blast
    from nr_shift_nat [of V r 0, simplified, OF this wf] route show ?thesis by simp
  next
    case (distribute_operator x)
    from nr_shift_nat [of V r 0, simplified, OF nr_distribute_operator_shift [OF distribute_operator(3)] wf, of p]
      distribute_operator(1,2) show ?thesis unfolding amount_def by simp
  next
    case (distribute_vault vault x)
    from nr_shift_nat [of V r 0, simplified, OF nr_distribute_vault_shift [OF distribute_vault(3)] wf, of p]
      distribute_vault(1,2) show ?thesis unfolding amount_def by simp
  qed
qed

text \<open>C34. Conservation for the router of an operator: after any sequence of incoming transfers, operator
  fees, routing calls and distributions, what came in is the pool plus the rewards processed plus what
  was paid out, and the rewards processed are the operator's rewards plus the sum of the routes; no
  vault of the snapshot has two routes.\<close>

theorem ncn_router_conservation:
  assumes "router_runs ncn_router_init (ncn_router_step pn val max_bps V) r received paid"
  shows "unat (nr_total_rewards r) = received \<and>
    unat (nr_reward_pool r) + unat (nr_rewards_processed r) + paid = received \<and>
    unat (nr_rewards_processed r) = unat (nr_operator_rewards r) +
      (\<Sum>rt \<leftarrow> nr_vault_reward_routes r. unat (vrr_rewards rt)) \<and>
    distinct (map vrr_vault (filter (\<lambda>rt. vrr_vault rt \<noteq> default_pubkey) (nr_vault_reward_routes r)))"
  using ncn_router.conservation [OF assms] slots_ok_distinct [of vrr_vault "nr_vault_reward_routes r"]
  by (simp add: nr_wf_def nr_buckets_def vault_sum_def)

end
