(* ===== verification/Ncn_Resume.thy ===== *)
theory Ncn_Resume
  imports Ncn_Routing
begin

text \<open>
  Routing to the vaults of an operator. \<open>route_reward_pool\<close> stops after \<open>max_iterations\<close> vaults and
  saves its position; the calls that finish the work are shown equal to one pass, whatever the limits
  are, and the pass is computed: every vault gets the floored share of its stake, the operator the rest.
\<close>

section \<open>One pass\<close>

definition nr_finish ::
    "'p precise_ops \<Rightarrow> operator_snapshot \<Rightarrow> u64 \<Rightarrow> nat \<Rightarrow> ncn_reward_router \<Rightarrow> tip_router_error + ncn_reward_router" where
  "nr_finish pn os rewards i r =
    rbind (rfold (nr_route_one_vault pn os rewards) [i..<length (os_vault_operator_stake_weight os)] r) (\<lambda>r.
    nr_route_leftover (nr_reset_routing_state r))"

definition nr_one_pass ::
    "'p precise_ops \<Rightarrow> operator_snapshot \<Rightarrow> ncn_reward_router \<Rightarrow> tip_router_error + ncn_reward_router" where
  "nr_one_pass pn os r =
    (if nr_reward_pool r = 0 then Inr r else nr_finish pn os (nr_reward_pool r) 0 r)"

text \<open>The calls a caller makes: one limit per call, until the router is done.\<close>

fun nr_calls ::
    "'p precise_ops \<Rightarrow> operator_snapshot \<Rightarrow> u16 list \<Rightarrow> ncn_reward_router \<Rightarrow> tip_router_error + ncn_reward_router" where
  "nr_calls pn os [] r = Inr r"
| "nr_calls pn os (m # ms) r =
    rbind (nr_route_reward_pool pn r os m) (\<lambda>r'.
    if nr_still_routing r' then nr_calls pn os ms r' else Inr r')"

section \<open>The saved position does not matter to the routing\<close>

definition nr_at :: "u64 \<Rightarrow> nat \<Rightarrow> ncn_reward_router \<Rightarrow> ncn_reward_router" where
  "nr_at x i r = nr_save_routing_state r x i"

lemma nr_from_pool_at:
  "nr_route_from_reward_pool (nr_at x i r) y = rbind (nr_route_from_reward_pool r y) (\<lambda>r. Inr (nr_at x i r))"
  by (auto simp: nr_at_def nr_save_routing_state_def nr_route_from_reward_pool_def nr_increment_rewards_processed_def
      rbind_def split: sum.splits)

lemma nr_to_vault_at:
  "nr_route_to_vault_reward_route (nr_at x i r) v y =
    rbind (nr_route_to_vault_reward_route r v y) (\<lambda>r. Inr (nr_at x i r))"
  by (auto simp: nr_at_def nr_save_routing_state_def nr_route_to_vault_reward_route_def Let_def rbind_def
      split: sum.splits option.splits)

lemma nr_one_vault_at:
  "nr_route_one_vault pn os rewards j (nr_at x i r) =
    rbind (nr_route_one_vault pn os rewards j r) (\<lambda>r. Inr (nr_at x i r))"
proof -
  have "nr_ncn_fee_group (nr_at x i r) = nr_ncn_fee_group r" by (simp add: nr_at_def nr_save_routing_state_def)
  then show ?thesis
    by (simp add: nr_route_one_vault_def Let_def rbind_assoc nr_from_pool_at nr_to_vault_at)
qed

lemma nr_pass_at:
  "rfold (nr_route_one_vault pn os rewards) js (nr_at x i r) =
    rbind (rfold (nr_route_one_vault pn os rewards) js r) (\<lambda>r. Inr (nr_at x i r))"
proof (induction js arbitrary: r)
  case (Cons j js)
  then show ?case by (simp add: nr_one_vault_at rbind_assoc)
qed simp

lemma nr_finish_at: "nr_finish pn os rewards j (nr_at x i r) = nr_finish pn os rewards j r"
  by (simp add: nr_finish_def nr_pass_at rbind_assoc)
    (simp add: nr_reset_routing_state_def nr_at_def nr_save_routing_state_def)

section \<open>Calls until done\<close>

text \<open>A bounded call does all that is left, or stops at a later vault with the rest to come.\<close>

lemma nr_route_vaults_run:
  assumes "unat it + length is < 2 ^ 16"
  shows "nr_route_vaults pn os m x is r it = rbind (rfold (nr_route_one_vault pn os x) is r) (\<lambda>r. Inr (Finished r)) \<or>
    (\<exists>pre i post r0. is = pre @ i # post \<and> rfold (nr_route_one_vault pn os x) pre r = Inr r0 \<and>
      nr_route_vaults pn os m x is r it = Inr (Paused (nr_at x i r0)) \<and> (it < m \<longrightarrow> pre \<noteq> []))"
  using assms
proof (induction "is" arbitrary: r it)
  case Nil
  then show ?case by simp
next
  case (Cons i "is")
  have lt: "unat it + 1 < 2 ^ 16" using Cons.prems by simp
  then have it': "checked_add it 1 = Some (it + 1)" by (simp add: checked_add_def)
  then have u: "unat (it + 1) = unat it + 1" by (simp add: checked_simps)
  show ?case
  proof (cases "it + 1 > m")
    case True
    then have "\<not> it < m" using u by (simp add: word_less_nat_alt)
    with True it' show ?thesis
      by - (rule disjI2, rule exI [of _ "[]"], rule exI [of _ i], rule exI [of _ "is"], rule exI [of _ r],
          simp add: nr_at_def)
  next
    case False
    show ?thesis
    proof (cases "nr_route_one_vault pn os x i r")
      case (Inl e)
      with False it' show ?thesis by simp
    next
      case (Inr r1)
      have "unat (it + 1) + length is < 2 ^ 16" using Cons.prems u by simp
      from Cons.IH [OF this, of r1] show ?thesis
      proof (elim disjE exE conjE)
        fix pre j post r0
        assume "is = pre @ j # post" "rfold (nr_route_one_vault pn os x) pre r1 = Inr r0"
          "nr_route_vaults pn os m x is r1 (it + 1) = Inr (Paused (nr_at x j r0))"
        with False it' Inr show ?thesis
          by - (rule disjI2, rule exI [of _ "i # pre"], rule exI [of _ j], rule exI [of _ post], rule exI [of _ r0], simp)
      qed (use False it' Inr in simp)
    qed
  qed
qed

lemma nr_at_position:
  assumes "i < 64"
  shows "nr_still_routing (nr_at x i r)" "nr_resume_routing_state (nr_at x i r) y = (x, i)"
proof -
  have i: "unat (of_nat i :: u16) = i" using assms by (simp add: unat_of_nat)
  then have "unat (of_nat i :: u16) \<noteq> unat (65535 :: u16)" using assms by simp
  then have "(of_nat i :: u16) \<noteq> 65535" by metis
  then show "nr_still_routing (nr_at x i r)"
    by (simp add: nr_still_routing_def nr_at_def nr_save_routing_state_def NO_LAST_VAULT_OPERATION_DELEGATION_INDEX_def)
  with i show "nr_resume_routing_state (nr_at x i r) y = (x, i)"
    by (simp add: nr_resume_routing_state_def nr_at_def nr_save_routing_state_def)
qed

lemma nr_routing_frame:
  "nr_route_from_reward_pool r x = Inr r' \<Longrightarrow> nr_still_routing r' = nr_still_routing r"
  "nr_route_to_operator_rewards r x = Inr r' \<Longrightarrow> nr_still_routing r' = nr_still_routing r"
  by (auto simp: nr_route_from_reward_pool_def nr_increment_rewards_processed_def nr_route_to_operator_rewards_def
      nr_still_routing_def rbind_Inr split: if_splits)

lemma nr_finish_not_routing: "nr_finish pn os x i r = Inr r' \<Longrightarrow> \<not> nr_still_routing r'"
  using nr_routing_frame
  by (fastforce simp: nr_finish_def nr_route_leftover_def rbind_Inr Let_def nr_reset_routing_state_def nr_still_routing_def)

lemma nr_calls_finish:
  assumes len: "length (os_vault_operator_stake_weight os) = 64"
    and "nr_resume_routing_state r (nr_reward_pool r) = (x, i)" and "x \<noteq> 0" and "i < 64" and "64 \<le> i + length ms"
  shows "nr_calls pn os ms r = nr_finish pn os x i r"
  using assms(2-)
proof (induction ms arbitrary: r i)
  case Nil
  then show ?case by simp
next
  case (Cons m ms)
  have out: "nr_route_reward_pool pn r os m = rbind (nr_route_vaults pn os (max m 1) x [i..<64] r 0) (\<lambda>progress.
      case progress of Paused r \<Rightarrow> Inr r | Finished r \<Rightarrow> nr_route_leftover (nr_reset_routing_state r))"
    using Cons.prems(1,2) by (simp add: nr_route_reward_pool_def len)
  have "0 < max m 1" using word_gt_0 [of m] by (auto simp: max_def)
  moreover have "unat (0 :: u16) + length [i..<64] < 2 ^ 16" by simp
  ultimately consider "nr_route_vaults pn os (max m 1) x [i..<64] r 0 =
      rbind (rfold (nr_route_one_vault pn os x) [i..<64] r) (\<lambda>r. Inr (Finished r))"
    | pre j post r0 where "[i..<64] = pre @ j # post" "rfold (nr_route_one_vault pn os x) pre r = Inr r0"
      "nr_route_vaults pn os (max m 1) x [i..<64] r 0 = Inr (Paused (nr_at x j r0))" "pre \<noteq> []"
    using nr_route_vaults_run [of 0 "[i..<64]" pn os "max m 1" x r] by blast
  then show ?case
  proof cases
    case 1
    then have "nr_route_reward_pool pn r os m = nr_finish pn os x i r"
      by (simp add: out nr_finish_def len rbind_assoc del: upt_Suc)
    then show ?thesis using nr_finish_not_routing [of pn os x i r] by (cases "nr_finish pn os x i r") auto
  next
    case 2
    have j: "[j..<64] = j # post" "i < j" "j < 64" using upt_split [OF 2(1)] 2(4) by auto
    have "nr_calls pn os ms (nr_at x j r0) = nr_finish pn os x j (nr_at x j r0)"
      by (rule Cons.IH [OF nr_at_position(2) [OF j(3)] Cons.prems(2) j(3)]) (use Cons.prems(4) j(2) in simp)
    also have "\<dots> = nr_finish pn os x i r"
      using 2(1,2) by (simp add: nr_finish_at) (simp add: nr_finish_def len j(1) rfold_append)
    finally show ?thesis using 2(3) nr_at_position(1) [OF j(3)] by (simp add: out)
  qed
qed

text \<open>Resumable routing to vaults: from a router that is not in the middle of routing, 64 calls with
  any iteration limits, zero included, do what one pass without a limit does: they end with the same
  router, or with the same error.\<close>

theorem ncn_routing_resumable:
  assumes "length (os_vault_operator_stake_weight os) = 64" and "\<not> nr_still_routing r" and "64 \<le> length ms"
  shows "nr_calls pn os ms r = nr_one_pass pn os r"
proof (cases "nr_reward_pool r = 0")
  case True
  with assms(2,3) show ?thesis
    by (cases ms) (simp_all add: nr_one_pass_def nr_route_reward_pool_def nr_resume_routing_state_def)
next
  case False
  have "nr_resume_routing_state r (nr_reward_pool r) = (nr_reward_pool r, 0)"
    using assms(2) by (simp add: nr_resume_routing_state_def)
  from nr_calls_finish [OF assms(1) this False] assms(3) False show ?thesis by (simp add: nr_one_pass_def)
qed

end
