(* ===== verification/Snapshot_Protocol.thy ===== *)
theory Snapshot_Protocol
  imports Epoch_Snapshot
begin

text \<open>
  How the snapshots of an epoch are filled: the parts of the handlers
  \<open>process_realloc_operator_snapshot\<close> and \<open>process_snapshot_vault_operator_delegation\<close> that update an
  operator snapshot and, when it is complete, the epoch snapshot. The theorem is that the books
  balance: the stake of the epoch is the stake of every vault of every completed operator, counted once.
\<close>

section \<open>Steps\<close>

text \<open>From \<open>process_realloc_operator_snapshot\<close>: the account is initialised, and an inactive operator is registered
  with nothing at once.\<close>

definition open_operator_snapshot ::
    "epoch_snapshot \<Rightarrow> operator_snapshot \<Rightarrow> pubkey \<Rightarrow> pubkey \<Rightarrow> u64 \<Rightarrow> u8 \<Rightarrow> u64 \<Rightarrow> bool \<Rightarrow> u64 \<Rightarrow> u64 \<Rightarrow> u16 \<Rightarrow>
     tip_router_error + epoch_snapshot \<times> operator_snapshot" where
  "open_operator_snapshot es os operator ncn epoch bump current_slot is_active ncn_operator_index
      operator_index operator_fee_bps =
    rbind (operator_snapshot_initialize os operator ncn epoch bump current_slot is_active ncn_operator_index
      operator_index operator_fee_bps (es_vault_count es)) (\<lambda>os.
    if \<not> is_active
    then rbind (increment_operator_registration es current_slot 0 stake_weights_default) (\<lambda>es. Inr (es, os))
    else Inr (es, os))"

text \<open>From \<open>process_snapshot_vault_operator_delegation\<close>: one delegation is registered, and a complete operator is
  registered with the epoch.\<close>

definition snapshot_delegation ::
    "epoch_snapshot \<Rightarrow> operator_snapshot \<Rightarrow> u64 \<Rightarrow> pubkey \<Rightarrow> u64 \<Rightarrow> ncn_fee_group \<Rightarrow> u128 \<Rightarrow> u64 \<Rightarrow>
     tip_router_error + epoch_snapshot \<times> operator_snapshot" where
  "snapshot_delegation es os current_slot vault vault_index g total_stake_weight reward_multiplier_bps =
    rbind (stake_weights_snapshot g total_stake_weight reward_multiplier_bps) (\<lambda>sw.
    rbind (increment_vault_operator_delegation_registration os current_slot vault vault_index g sw) (\<lambda>os.
    if os_finalized os
    then rbind (increment_operator_registration es current_slot (os_valid_operator_vault_delegations os)
        (os_stake_weights os)) (\<lambda>es. Inr (es, os))
    else Inr (es, os)))"

type_synonym snapshots = "epoch_snapshot \<times> (pubkey \<Rightarrow> operator_snapshot option)"

inductive snap_step :: "snapshots \<Rightarrow> snapshots \<Rightarrow> bool" where
  opened: "ops operator = None \<Longrightarrow>
    open_operator_snapshot es os0 operator ncn epoch bump slot active ni oi bps = Inr (es', os) \<Longrightarrow>
    snap_step (es, ops) (es', ops(operator \<mapsto> os))"
| delegated: "ops operator = Some os \<Longrightarrow>
    snapshot_delegation es os slot vault idx g w bps = Inr (es', os') \<Longrightarrow>
    snap_step (es, ops) (es', ops(operator \<mapsto> os'))"

inductive snap_reachable :: "snapshots \<Rightarrow> bool" where
  created: "vaults \<noteq> 0 \<Longrightarrow> snap_reachable (epoch_snapshot_new ncn epoch bump slot fs operators vaults, Map.empty)"
| step: "snap_reachable s \<Longrightarrow> snap_step s s' \<Longrightarrow> snap_reachable s'"

section \<open>Completed operators\<close>

definition completed :: "(pubkey \<Rightarrow> operator_snapshot option) \<Rightarrow> pubkey set" where
  "completed ops = {operator. \<exists>os. ops operator = Some os \<and> os_finalized os}"

definition book :: "(operator_snapshot \<Rightarrow> nat) \<Rightarrow> (pubkey \<Rightarrow> operator_snapshot option) \<Rightarrow> nat" where
  "book f ops = (\<Sum>operator \<in> completed ops. f (the (ops operator)))"

lemma completed_open:
  assumes "operator \<notin> completed ops" and "\<not> os_finalized os"
  shows "completed (ops(operator \<mapsto> os)) = completed ops" "book f (ops(operator \<mapsto> os)) = book f ops"
proof -
  show c: "completed (ops(operator \<mapsto> os)) = completed ops" using assms by (auto simp: completed_def)
  show "book f (ops(operator \<mapsto> os)) = book f ops"
    unfolding book_def c by (rule sum.cong) (use assms(1) in auto)
qed

lemma completed_close:
  assumes "operator \<notin> completed ops" and "os_finalized os" and "finite (completed ops)"
  shows "completed (ops(operator \<mapsto> os)) = insert operator (completed ops)"
    "book f (ops(operator \<mapsto> os)) = book f ops + f os"
proof -
  show c: "completed (ops(operator \<mapsto> os)) = insert operator (completed ops)" using assms by (auto simp: completed_def)
  have "(\<Sum>x \<in> completed ops. f (the ((ops(operator \<mapsto> os)) x))) = book f ops"
    unfolding book_def by (rule sum.cong) (use assms(1) in auto)
  then show "book f (ops(operator \<mapsto> os)) = book f ops + f os"
    using assms(1,3) unfolding book_def [of f "ops(operator \<mapsto> os)"] c by simp
qed

section \<open>The books\<close>

definition snap_inv :: "snapshots \<Rightarrow> bool" where
  "snap_inv s \<longleftrightarrow> (let (es, ops) = s in
    finite (completed ops) \<and> es_vault_count es \<noteq> 0 \<and>
    (\<forall>operator os. ops operator = Some os \<longrightarrow> os_inv os) \<and>
    unat (es_operators_registered es) = card (completed ops) \<and>
    unat (es_operators_registered es) \<le> unat (es_operator_count es) \<and>
    wf_stake_weights (es_stake_weights es) \<and>
    sw_total (es_stake_weights es) = book (\<lambda>os. sw_total (os_stake_weights os)) ops \<and>
    (\<forall>i < 8. sw_at (es_stake_weights es) i = book (\<lambda>os. sw_at (os_stake_weights os) i) ops) \<and>
    unat (es_valid_operator_vault_delegations es) = book (\<lambda>os. unat (os_valid_operator_vault_delegations os)) ops)"

lemma increment_operator_registration_cases:
  assumes "increment_operator_registration es slot n sw = Inr es'"
  shows "\<not> es_finalized es \<and>
    unat (es_operators_registered es') = unat (es_operators_registered es) + 1 \<and>
    unat (es_valid_operator_vault_delegations es') = unat (es_valid_operator_vault_delegations es) + unat n \<and>
    stake_weights_increment (es_stake_weights es) sw = Inr (es_stake_weights es') \<and>
    es_operator_count es' = es_operator_count es \<and> es_vault_count es' = es_vault_count es"
  using assms by (auto simp: increment_operator_registration_def rbind_Inr ok_or_Inr fail_if_Inr checked_add_Some Let_def)

text \<open>Registering a completed operator keeps the books.\<close>

lemma snap_inv_close:
  assumes inv: "snap_inv (es, ops)" and new: "operator \<notin> completed ops" and fin: "os_finalized os" and os: "os_inv os"
    and reg: "increment_operator_registration es slot (os_valid_operator_vault_delegations os) (os_stake_weights os) = Inr es'"
  shows "snap_inv (es', ops(operator \<mapsto> os))"
proof -
  note R = increment_operator_registration_cases [OF reg]
  have finite: "finite (completed ops)" and wf: "wf_stake_weights (es_stake_weights es)"
    using inv by (simp_all add: snap_inv_def)
  have "unat (es_operators_registered es) \<noteq> unat (es_operator_count es)"
    using R by (simp add: es_finalized_def word_unat_eq_iff)
  then have count: "unat (es_operators_registered es') \<le> unat (es_operator_count es')"
    using R inv by (simp add: snap_inv_def)
  note W = stake_weights_increment_wf [OF conjunct1 [OF conjunct2 [OF conjunct2 [OF conjunct2 [OF R]]]] wf]
  show ?thesis
    unfolding snap_inv_def Let_def prod.case completed_close [OF new fin finite]
    using inv R W count new os finite by (simp add: snap_inv_def)
qed

lemma snap_inv_open:
  assumes "snap_inv (es, ops)" and "operator \<notin> completed ops" and "\<not> os_finalized os" and "os_inv os"
  shows "snap_inv (es, ops(operator \<mapsto> os))"
  using assms(1,4) completed_open [OF assms(2,3)] by (simp add: snap_inv_def)

lemma snap_step_inv:
  assumes "snap_step s s'" and "snap_inv s"
  shows "snap_inv s'"
  using assms
proof cases
  case (opened ops operator es os0 ncn epoch bump slot active ni oi bps es' os)
  obtain os' where init: "operator_snapshot_initialize os0 operator ncn epoch bump slot active ni oi bps (es_vault_count es) = Inr os'"
    and rest: "(if \<not> active then rbind (increment_operator_registration es slot 0 stake_weights_default) (\<lambda>es. Inr (es, os'))
      else Inr (es, os')) = (Inr (es', os) :: tip_router_error + epoch_snapshot \<times> operator_snapshot)"
    using opened(4) unfolding open_operator_snapshot_def rbind_Inr by blast
  then have os': "os' = os" by (auto simp: rbind_Inr split: if_splits)
  note I = os_inv_initialize [OF init, unfolded os']
  have new: "operator \<notin> completed ops" using opened(3) by (simp add: completed_def)
  have vaults: "es_vault_count es \<noteq> 0" using assms(2) opened(1) by (simp add: snap_inv_def)
  show ?thesis
  proof (cases active)
    case True
    then have "es' = es" "\<not> os_finalized os" using rest I vaults by (simp_all add: os')
    then show ?thesis using snap_inv_open [OF _ new] I assms(2) opened(1,2) by simp
  next
    case False
    have "unat (os_valid_operator_vault_delegations os) = 0" using I by (simp add: os_inv_def)
    then have "os_valid_operator_vault_delegations os = 0" by (simp only: unat_eq_zero)
    then have "increment_operator_registration es slot (os_valid_operator_vault_delegations os) (os_stake_weights os) = Inr es'"
      using rest I False by (auto simp: rbind_Inr)
    then show ?thesis using snap_inv_close [OF _ new] I False assms(2) opened(1,2) by simp
  qed
next
  case (delegated ops operator os es slot vault idx g w bps es' os')
  obtain sw where sw: "stake_weights_snapshot g w bps = Inr sw"
    and reg: "increment_vault_operator_delegation_registration os slot vault idx g sw = Inr os'"
    and rest: "(if os_finalized os' then rbind (increment_operator_registration es slot
        (os_valid_operator_vault_delegations os') (os_stake_weights os')) (\<lambda>es. Inr (es, os'))
      else Inr (es, os')) = (Inr (es', os') :: tip_router_error + epoch_snapshot \<times> operator_snapshot)"
    using delegated(4) by (auto simp: snapshot_delegation_def rbind_Inr split: if_splits)
  have "os_inv os" using assms(2) delegated(1,3) by (simp add: snap_inv_def)
  note I = increment_registration_inv [OF this conjunct1 [OF stake_weights_snapshot_Inr [OF sw]] reg]
  have new: "operator \<notin> completed ops" using I delegated(3) by (simp add: completed_def)
  show ?thesis
  proof (cases "os_finalized os'")
    case True
    then have "increment_operator_registration es slot (os_valid_operator_vault_delegations os') (os_stake_weights os') = Inr es'"
      using rest by (auto simp: rbind_Inr)
    then show ?thesis using snap_inv_close [OF _ new True] I assms(2) delegated(1,2) by simp
  next
    case False
    then show ?thesis using rest snap_inv_open [OF _ new False] I assms(2) delegated(1,2) by simp
  qed
qed

lemma snap_reachable_inv: "snap_reachable s \<Longrightarrow> snap_inv s"
proof (induction rule: snap_reachable.induct)
  case (created vaults ncn epoch bump slot fs operators)
  then show ?case by (simp add: snap_inv_def epoch_snapshot_new_def completed_def book_def)
next
  case (step s s')
  then show ?case using snap_step_inv by blast
qed

text \<open>C18. The books of an epoch: in every reachable state the stake weight of the epoch, in total and in
  each fee group, is the sum over the completed operators of the weights of all vaults they have
  registered; no vault index is registered twice with an operator; the operators registered are the completed ones,
  and the epoch snapshot is final exactly when all operators of the epoch are completed.\<close>

theorem snapshot_books:
  assumes "snap_reachable (es, ops)"
  shows "sw_total (es_stake_weights es) =
      (\<Sum>operator \<in> completed ops. \<Sum>v \<leftarrow> registered (the (ops operator)). sw_total (vw_stake_weight v)) \<and>
    (\<forall>i < 8. sw_at (es_stake_weights es) i =
      (\<Sum>operator \<in> completed ops. \<Sum>v \<leftarrow> registered (the (ops operator)). sw_at (vw_stake_weight v) i)) \<and>
    (\<forall>operator os. ops operator = Some os \<longrightarrow> distinct (map vw_vault_index (registered os))) \<and>
    unat (es_operators_registered es) = card (completed ops) \<and>
    (es_finalized es \<longleftrightarrow> card (completed ops) = unat (es_operator_count es))"
proof -
  have inv: "snap_inv (es, ops)" by (rule snap_reachable_inv [OF assms])
  then have os: "os_inv os" if "ops operator = Some os" for operator os
    using that by (simp add: snap_inv_def)
  have "book f ops = (\<Sum>operator \<in> completed ops. g (the (ops operator)))"
    if "\<And>os. os_inv os \<Longrightarrow> f os = g os" for f g
    unfolding book_def using os by (intro sum.cong) (auto simp: completed_def that)
  note books = this
  have "sw_total (es_stake_weights es) =
      (\<Sum>operator \<in> completed ops. \<Sum>v \<leftarrow> registered (the (ops operator)). sw_total (vw_stake_weight v))"
    using inv books [of "\<lambda>os. sw_total (os_stake_weights os)" "\<lambda>os. \<Sum>v \<leftarrow> registered os. sw_total (vw_stake_weight v)"]
    by (simp add: snap_inv_def os_inv_def)
  moreover have "sw_at (es_stake_weights es) i =
      (\<Sum>operator \<in> completed ops. \<Sum>v \<leftarrow> registered (the (ops operator)). sw_at (vw_stake_weight v) i)" if "i < 8" for i
    using inv that books [of "\<lambda>os. sw_at (os_stake_weights os) i" "\<lambda>os. \<Sum>v \<leftarrow> registered os. sw_at (vw_stake_weight v) i"]
    by (simp add: snap_inv_def os_inv_def)
  moreover have "distinct (map vw_vault_index (registered os))" if "ops operator = Some os" for operator os
    using os [OF that] by (simp add: os_inv_def)
  moreover have "es_finalized es \<longleftrightarrow> card (completed ops) = unat (es_operator_count es)"
    using inv by (simp add: snap_inv_def es_finalized_def word_unat_eq_iff)
  ultimately show ?thesis using inv by (simp add: snap_inv_def)
qed

text \<open>An epoch of two operators and one vault: the first operator is inactive, the second gets the
  delegation of the vault, of weight 70 with a reward multiplier of 15 basis points for the first fee group.\<close>

definition sample_epoch :: epoch_snapshot where
  "sample_epoch = epoch_snapshot_new [1] 5 255 100 (sample_fees 5 100) 2 1"

definition idle_operator :: operator_snapshot where
  "idle_operator = \<lparr>os_operator = [2], os_ncn = [1], os_ncn_epoch = 5, os_bump = 254, os_slot_created = 101,
    os_slot_finalized = 101, os_is_active = False, os_ncn_operator_index = 0, os_operator_index = 0,
    os_operator_fee_bps = 0, os_vault_operator_delegation_count = 0, os_vault_operator_delegations_registered = 0,
    os_valid_operator_vault_delegations = 0, os_stake_weights = stake_weights_default,
    os_vault_operator_stake_weight = replicate MAX_VAULTS vault_operator_stake_weight_default\<rparr>"

definition busy_operator :: operator_snapshot where
  "busy_operator = idle_operator\<lparr>os_operator := [3], os_slot_finalized := 0, os_is_active := True,
    os_ncn_operator_index := 1, os_operator_index := 1, os_operator_fee_bps := 700,
    os_vault_operator_delegation_count := 1\<rparr>"

definition vault_weights :: stake_weights where
  "vault_weights = \<lparr>sw_stake_weight = 70, sw_group_weights = \<lparr>ngw_weight = 1050\<rparr> # replicate 7 \<lparr>ngw_weight = 0\<rparr>\<rparr>"

definition delegated_operator :: operator_snapshot where
  "delegated_operator = busy_operator\<lparr>os_slot_finalized := 103, os_vault_operator_delegations_registered := 1,
    os_valid_operator_vault_delegations := 1, os_stake_weights := vault_weights,
    os_vault_operator_stake_weight :=
      vault_operator_stake_weight_new [4] 0 ncn_fee_group_lst vault_weights # replicate 63 vault_operator_stake_weight_default\<rparr>"

definition half_epoch :: epoch_snapshot where
  "half_epoch = sample_epoch\<lparr>es_operators_registered := 1\<rparr>"

definition full_epoch :: epoch_snapshot where
  "full_epoch = sample_epoch\<lparr>es_operators_registered := 2, es_valid_operator_vault_delegations := 1,
    es_stake_weights := vault_weights, es_slot_finalized := 103\<rparr>"

lemmas sample_epoch_defs = sample_epoch_def half_epoch_def full_epoch_def idle_operator_def busy_operator_def
  delegated_operator_def epoch_snapshot_new_def

lemma sample_open_idle:
  "open_operator_snapshot sample_epoch idle_operator [2] [1] 5 254 101 False 0 0 0 = Inr (half_epoch, idle_operator)"
  by (simp add: open_operator_snapshot_def operator_snapshot_initialize_def sample_epoch_defs MAX_VAULTS_def
      increment_operator_registration_def es_finalized_def stake_weights_increment_def increment_stake_weight_def
      increment_ncn_fee_group_stake_weight_def stake_weights_default_def ncn_group_defs eval_simps replicate_7
      FEE_GROUP_COUNT_def ncn_fee_group_weight_default_def ncn_fee_group_stake_weight_def)

lemma sample_open_busy:
  "open_operator_snapshot half_epoch idle_operator [3] [1] 5 254 101 True 1 1 700 = Inr (half_epoch, busy_operator)"
  by (simp add: open_operator_snapshot_def operator_snapshot_initialize_def sample_epoch_defs MAX_VAULTS_def)

lemma vault_weights_snapshot: "stake_weights_snapshot ncn_fee_group_lst 70 15 = Inr vault_weights"
  by (simp add: stake_weights_snapshot_def vault_weights_def increment_stake_weight_def
      increment_ncn_fee_group_stake_weight_def stake_weights_default_def ncn_group_defs eval_simps replicate_7
      FEE_GROUP_COUNT_def ncn_fee_group_weight_default_def ncn_fee_group_stake_weight_def)

lemma vault_weights_increment: "stake_weights_increment stake_weights_default vault_weights = Inr vault_weights"
  by (simp add: vault_weights_def stake_weights_increment_def increment_stake_weight_def
      increment_ncn_fee_group_stake_weight_def stake_weights_default_def ncn_group_defs eval_simps replicate_7
      FEE_GROUP_COUNT_def ncn_fee_group_weight_default_def ncn_fee_group_stake_weight_def)

lemma replicate_64: "replicate 64 x = x # replicate 63 x"
  by (simp add: numeral_eq_Suc)

lemma sample_registration:
  "increment_vault_operator_delegation_registration busy_operator 103 [4] 0 ncn_fee_group_lst vault_weights =
    Inr delegated_operator"
proof -
  have "insert_vault_operator_stake_weight busy_operator [4] 0 ncn_fee_group_lst vault_weights =
      Inr (busy_operator\<lparr>os_vault_operator_stake_weight := os_vault_operator_stake_weight delegated_operator\<rparr>)"
    by (simp add: insert_vault_operator_stake_weight_def busy_operator_def idle_operator_def delegated_operator_def
        contains_vault_index_def list_ex_iff MAX_VAULTS_def replicate_64 checked_add_def
        vault_operator_stake_weight_default_def)
  moreover have "sw_stake_weight vault_weights > 0" by (simp add: vault_weights_def)
  ultimately show ?thesis
    by (simp add: increment_vault_operator_delegation_registration_def os_finalized_def busy_operator_def
        idle_operator_def delegated_operator_def checked_add_def vault_weights_increment)
qed

lemma sample_delegation:
  "snapshot_delegation half_epoch busy_operator 103 [4] 0 ncn_fee_group_lst 70 15 = Inr (full_epoch, delegated_operator)"
proof -
  have "increment_operator_registration half_epoch 103 1 vault_weights = Inr full_epoch"
    by (simp add: increment_operator_registration_def es_finalized_def half_epoch_def full_epoch_def sample_epoch_def
        epoch_snapshot_new_def vault_weights_increment checked_add_def)
  then show ?thesis
    by (simp add: snapshot_delegation_def vault_weights_snapshot sample_registration)
      (simp add: delegated_operator_def busy_operator_def idle_operator_def os_finalized_def)
qed

lemma sample_full_reachable:
  "snap_reachable (full_epoch, [[2] \<mapsto> idle_operator, [3] \<mapsto> delegated_operator])"
proof -
  have "snap_reachable (sample_epoch, Map.empty)" unfolding sample_epoch_def by (rule snap_reachable.created) simp
  from snap_reachable.step [OF this snap_step.opened [OF _ sample_open_idle]]
  have "snap_reachable (half_epoch, [[2] \<mapsto> idle_operator])" by simp
  from snap_reachable.step [OF this snap_step.opened [OF _ sample_open_busy]]
  have "snap_reachable (half_epoch, [[2] \<mapsto> idle_operator, [3] \<mapsto> busy_operator])" by simp
  from snap_reachable.step [OF this snap_step.delegated [OF _ sample_delegation, of _ "[3]"]]
  show ?thesis by simp
qed

theorem snapshot_books_witness:
  "card (completed [[2] \<mapsto> idle_operator, [3] \<mapsto> delegated_operator]) = 2 \<and>
   (\<Sum>operator \<in> completed [[2] \<mapsto> idle_operator, [3] \<mapsto> delegated_operator].
     \<Sum>v \<leftarrow> registered (the ([[2] \<mapsto> idle_operator, [3] \<mapsto> delegated_operator] operator)). sw_total (vw_stake_weight v)) = 70"
  using snapshot_books [OF sample_full_reachable]
  by (simp add: full_epoch_def sample_epoch_def epoch_snapshot_new_def es_finalized_def vault_weights_def sw_total_def)

text \<open>A final snapshot is fixed: once all operators are registered, no opening of an operator and
  no delegation, in any order, changes the epoch snapshot.\<close>

theorem snapshot_final_fixed:
  assumes "snap_step\<^sup>*\<^sup>* (es, ops) (es', ops')" and "es_finalized es"
  shows "es' = es"
proof -
  have "fst s' = es" if "snap_step\<^sup>*\<^sup>* (es, ops) s'" for s'
    using that
  proof induction
    case (step s1 s2)
    have "increment_operator_registration es slot n sw = Inr x \<longleftrightarrow> False" for slot n sw x
      using increment_operator_registration_cases assms(2) by blast
    with step.hyps(2) step.IH show ?case
      by (cases rule: snap_step.cases)
        (auto simp: open_operator_snapshot_def snapshot_delegation_def rbind_Inr split: if_splits)
  qed simp
  from this [OF assms(1)] show ?thesis by simp
qed

text \<open>A third operator that opens after the snapshot is final.\<close>

theorem snapshot_final_fixed_witness:
  "case open_operator_snapshot full_epoch idle_operator [3] [1] 5 254 101 True 1 1 700 of
     Inl _ \<Rightarrow> False
   | Inr (es', os) \<Rightarrow> es' = full_epoch"
proof -
  obtain es' os where opened: "open_operator_snapshot full_epoch idle_operator [3] [1] 5 254 101 True 1 1 700 = Inr (es', os)"
    by (simp add: open_operator_snapshot_def operator_snapshot_initialize_def sample_epoch_defs MAX_VAULTS_def)
  from snap_step.opened [OF _ opened, of Map.empty]
  have step: "snap_step\<^sup>*\<^sup>* (full_epoch, Map.empty) (es', [[3] \<mapsto> os])" by (simp add: r_into_rtranclp)
  have "es_finalized full_epoch" by (simp add: es_finalized_def sample_epoch_defs)
  from snapshot_final_fixed [OF step this] opened show ?thesis by simp
qed

end
