(* ===== verification/Ncn_Split.thy ===== *)
theory Ncn_Split
  imports Ncn_Resume Snapshot_Protocol
begin

text \<open>
  What routing to the vaults computes: every vault of the operator's snapshot is credited the floored
  share of the pool its stake has in the fee group of the router, the operator gets the rest, and
  no lamport remains in the pool.
\<close>

section \<open>Shares\<close>

definition vault_share :: "operator_snapshot \<Rightarrow> nat \<Rightarrow> nat \<Rightarrow> vault_operator_stake_weight \<Rightarrow> nat" where
  "vault_share os gi pool v = pool * sw_at (vw_stake_weight v) gi div sw_at (os_stake_weights os) gi"

definition entry_share :: "operator_snapshot \<Rightarrow> nat \<Rightarrow> nat \<Rightarrow> nat \<Rightarrow> nat" where
  "entry_share os gi pool i = vault_share os gi pool (os_vault_operator_stake_weight os ! i)"

text \<open>What the first \<open>k\<close> entries get in all, and what the entries of one vault among them get.\<close>

definition handed_out :: "operator_snapshot \<Rightarrow> nat \<Rightarrow> nat \<Rightarrow> nat \<Rightarrow> nat" where
  "handed_out os gi pool k = (\<Sum>i<k. entry_share os gi pool i)"

definition credited :: "operator_snapshot \<Rightarrow> nat \<Rightarrow> nat \<Rightarrow> nat \<Rightarrow> pubkey \<Rightarrow> nat" where
  "credited os gi pool k vault =
    (\<Sum>i<k. if vw_vault (os_vault_operator_stake_weight os ! i) = vault then entry_share os gi pool i else 0)"

lemma registered_split:
  assumes "vaults_named os"
  shows "os_vault_operator_stake_weight os =
    registered os @ replicate (64 - unat (os_vault_operator_delegations_registered os)) vault_operator_stake_weight_default"
  using assms append_take_drop_id [of "unat (os_vault_operator_delegations_registered os)" "os_vault_operator_stake_weight os"]
  by (simp add: vaults_named_def os_inv_def registered_def)

lemma default_share [simp]: "gi < 8 \<Longrightarrow> vault_share os gi pool vault_operator_stake_weight_default = 0"
  by (simp add: vault_share_def vault_operator_stake_weight_default_def)

lemma sum_entries:
  assumes "vaults_named os" and "f vault_operator_stake_weight_default = (0::nat)"
  shows "(\<Sum>i<64. f (os_vault_operator_stake_weight os ! i)) = (\<Sum>v \<leftarrow> registered os. f v)"
proof -
  have "length (os_vault_operator_stake_weight os) = 64" using assms(1) by (simp add: vaults_named_def os_inv_def)
  then have "(\<Sum>i<64. f (os_vault_operator_stake_weight os ! i)) = sum_list (map f (os_vault_operator_stake_weight os))"
    by (simp add: sum_list_sum_nth lessThan_atLeast0)
  also have "\<dots> = (\<Sum>v \<leftarrow> registered os. f v)"
    using assms(2) by (subst registered_split [OF assms(1)]) (simp add: sum_list_replicate)
  finally show ?thesis .
qed

lemma handed_out_all:
  assumes "vaults_named os" and "gi < 8"
  shows "handed_out os gi pool 64 = (\<Sum>v \<leftarrow> registered os. vault_share os gi pool v)"
  using sum_entries [OF assms(1), of "vault_share os gi pool"] assms(2)
  by (simp add: handed_out_def entry_share_def)

lemma credited_all:
  assumes "vaults_named os" and "gi < 8"
  shows "credited os gi pool 64 vault =
    (\<Sum>v \<leftarrow> filter (\<lambda>v. vw_vault v = vault) (registered os). vault_share os gi pool v)"
proof -
  have "(if vw_vault vault_operator_stake_weight_default = vault
      then vault_share os gi pool vault_operator_stake_weight_default else 0) = 0"
    using assms(2) by simp
  from sum_entries [OF assms(1), of "\<lambda>v. if vw_vault v = vault then vault_share os gi pool v else 0", OF this]
  show ?thesis unfolding credited_def entry_share_def sum_list_map_filter' .
qed

lemma shares_of_pool:
  assumes "vaults_named os" and "gi < 8"
  shows "handed_out os gi pool 64 \<le> pool"
proof (cases "sw_at (os_stake_weights os) gi = 0")
  case True
  then show ?thesis by (simp add: handed_out_def entry_share_def vault_share_def)
next
  case False
  have "sw_at (os_stake_weights os) gi = (\<Sum>v \<leftarrow> registered os. sw_at (vw_stake_weight v) gi)"
    using assms by (simp add: vaults_named_def os_inv_def)
  moreover have "0 < sw_at (os_stake_weights os) gi" using False by simp
  ultimately have "(\<Sum>v \<leftarrow> registered os. pool * sw_at (vw_stake_weight v) gi div sw_at (os_stake_weights os) gi) \<le> pool"
    using sum_shares_le [of "\<lambda>v. sw_at (vw_stake_weight v) gi" "registered os"] by (metis order_refl)
  then show ?thesis unfolding handed_out_all [OF assms] vault_share_def .
qed

lemma handed_out_mono: "k \<le> k' \<Longrightarrow> handed_out os gi pool k \<le> handed_out os gi pool k'"
  unfolding handed_out_def by (intro sum_mono2) auto

section \<open>Crediting a vault\<close>

lemma nr_credit_le: "nr_wf (snapshot_vaults os) r \<Longrightarrow> nr_credit r vault \<le> vault_sum (nr_vault_reward_routes r)"
  unfolding nr_credit_def vault_sum_def
  by (auto simp: nr_wf_def slot_map_Some member_le_sum_list_map [of _ _ "\<lambda>rt. unat (vrr_rewards rt)"] split: option.split)

text \<open>There is room for a route of every vault of the snapshot.\<close>

lemma free_route:
  assumes wf: "nr_wf (snapshot_vaults os) r" and named: "vaults_named os" and v: "vault \<in> vw_vault ` set (registered os)"
    and new: "vault \<notin> vrr_vault ` set (nr_vault_reward_routes r)" and "vault \<noteq> default_pubkey"
  shows "\<exists>i. find_idx (\<lambda>rt. vrr_vault rt = default_pubkey) (nr_vault_reward_routes r) = Some i"
proof (rule ccontr)
  let ?rts = "nr_vault_reward_routes r"
  assume "\<nexists>i. find_idx (\<lambda>rt. vrr_vault rt = default_pubkey) ?rts = Some i"
  then have "\<forall>rt \<in> set ?rts. vrr_vault rt \<noteq> default_pubkey" by (simp add: find_idx_None [symmetric])
  then have full: "card (dom (slot_map vrr_vault ?rts)) = 64"
    using wf slot_map_card [of vrr_vault ?rts] filter_all_length [of "\<lambda>rt. vrr_vault rt \<noteq> default_pubkey" ?rts]
    by (simp add: nr_wf_def)
  have dom: "insert vault (dom (slot_map vrr_vault ?rts)) \<subseteq> vw_vault ` set (registered os)"
    using wf v by (simp add: nr_wf_def)
  have "vault \<notin> dom (slot_map vrr_vault ?rts)" using new slot_map_None [of vrr_vault ?rts vault] by (simp add: dom_def)
  then have "Suc 64 = card (insert vault (dom (slot_map vrr_vault ?rts)))" using full by simp
  also have "\<dots> \<le> card (vw_vault ` set (registered os))" using dom by (intro card_mono) simp_all
  also have "\<dots> \<le> length (registered os)"
    using card_image_le [of "set (registered os)" vw_vault] card_length [of "registered os"] by simp
  also have "\<dots> \<le> 64" using named by (simp add: vaults_named_def os_inv_def registered_def)
  finally show False by simp
qed

lemma credit_vault:
  assumes wf: "nr_wf (snapshot_vaults os) r" and named: "vaults_named os"
    and v: "vault \<in> vw_vault ` set (registered os)" "vault \<noteq> default_pubkey"
    and small: "nr_credit r vault + unat x < 2 ^ 64"
  shows "\<exists>r'. nr_route_to_vault_reward_route r vault x = Inr r' \<and> nr_wf (snapshot_vaults os) r' \<and>
    r' = r\<lparr>nr_vault_reward_routes := nr_vault_reward_routes r'\<rparr> \<and>
    nr_credit r' = (nr_credit r)(vault := nr_credit r vault + unat x)"
proof (cases "x = 0")
  case True
  then show ?thesis using wf by (simp add: nr_route_to_vault_reward_route_def)
next
  case False
  let ?rts = "nr_vault_reward_routes r"
  have "\<exists>r'. nr_route_to_vault_reward_route r vault x = Inr r'"
  proof (cases "find_idx (\<lambda>rt. vrr_vault rt = vault) ?rts")
    case (Some i)
    then have "nr_credit r vault = unat (vrr_rewards (?rts ! i))"
      using v(2) by (simp add: nr_credit_def slot_map_def find_conv_find_idx)
    then have "checked_add (vrr_rewards (?rts ! i)) x = Some (vrr_rewards (?rts ! i) + x)"
      using small by (simp add: checked_add_def)
    then show ?thesis using Some False
      by (simp add: nr_route_to_vault_reward_route_def Let_def vrr_increment_rewards_def vrr_set_rewards_def)
  next
    case None
    then have "vault \<notin> vrr_vault ` set ?rts" by (auto simp: find_idx_None)
    from free_route [OF wf named v(1) this v(2)] None False show ?thesis
      by (auto simp: nr_route_to_vault_reward_route_def Let_def vault_reward_route_new_def)
  qed
  then obtain r' where r': "nr_route_to_vault_reward_route r vault x = Inr r'" ..
  obtain rt where eq: "r' = r\<lparr>nr_vault_reward_routes := nr_vault_reward_routes r'\<rparr>"
    and w: "writes_route ?rts rt (nr_vault_reward_routes r')" and rt: "vrr_vault rt = vault"
    and x: "unat (vrr_rewards rt) = nr_credit r vault + unat x"
    using route_to_vault_writes [OF r' False v(2) wf] by blast
  have keyed: "vrr_vault rt \<in> vw_vault ` set (registered os)" "vrr_vault rt \<noteq> default_pubkey" using v rt by auto
  have "nr_wf (snapshot_vaults os) r'" using nr_wf_write(1) [OF wf w keyed] eq by simp
  moreover have "nr_credit r' = (nr_credit r)(vault := nr_credit r vault + unat x)"
    by (rule ext) (simp add: nr_credit_def nr_wf_write(2) [OF wf w keyed] rt x)
  ultimately show ?thesis using r' eq by blast
qed

section \<open>The pass\<close>

lemma nr_pool_take:
  assumes "unat x \<le> unat (nr_reward_pool s)" and "unat (nr_rewards_processed s) + unat x < 2 ^ 64"
  shows "\<exists>pool n. nr_route_from_reward_pool s x = Inr (s\<lparr>nr_reward_pool := pool, nr_rewards_processed := n\<rparr>) \<and>
    unat pool = unat (nr_reward_pool s) - unat x \<and> unat n = unat (nr_rewards_processed s) + unat x"
proof (cases "x = 0")
  case True
  then show ?thesis
    by - (rule exI [of _ "nr_reward_pool s"], rule exI [of _ "nr_rewards_processed s"],
        simp add: nr_route_from_reward_pool_def)
next
  case False
  obtain pool where pool: "checked_sub (nr_reward_pool s) x = Some pool"
    using assms(1) by (cases "checked_sub (nr_reward_pool s) x") (auto simp: checked_simps)
  obtain n where n: "checked_add (nr_rewards_processed s) x = Some n"
    using assms(2) by (cases "checked_add (nr_rewards_processed s) x") (auto simp: checked_simps)
  show ?thesis
    using False pool n pool [unfolded checked_sub_Some] n [unfolded checked_add_Some]
    by - (rule exI [of _ pool], rule exI [of _ n],
        simp add: nr_route_from_reward_pool_def nr_increment_rewards_processed_def)
qed

definition pass_state :: "operator_snapshot \<Rightarrow> nat \<Rightarrow> ncn_reward_router \<Rightarrow> nat \<Rightarrow> ncn_reward_router \<Rightarrow> bool" where
  "pass_state os gi r i s \<longleftrightarrow> nr_wf (snapshot_vaults os) s \<and>
    nr_total_rewards s = nr_total_rewards r \<and> nr_operator_rewards s = nr_operator_rewards r \<and>
    nr_ncn_fee_group s = nr_ncn_fee_group r \<and>
    unat (nr_reward_pool s) + handed_out os gi (unat (nr_reward_pool r)) i = unat (nr_reward_pool r) \<and>
    unat (nr_rewards_processed s) = unat (nr_rewards_processed r) + handed_out os gi (unat (nr_reward_pool r)) i \<and>
    (\<forall>vault. vault \<noteq> default_pubkey \<longrightarrow>
      nr_credit s vault = nr_credit r vault + credited os gi (unat (nr_reward_pool r)) i vault)"

text \<open>What the router must be for the pass: well-formed, with no more than 64 bits in all, and with a product
  of pool and stake weight that fits 128 bits.\<close>

definition pass_ok :: "operator_snapshot \<Rightarrow> nat \<Rightarrow> ncn_reward_router \<Rightarrow> bool" where
  "pass_ok os gi r \<longleftrightarrow> nr_wf (snapshot_vaults os) r \<and> ncn_fee_group_group_index (nr_ncn_fee_group r) = Inr gi \<and>
    unat (nr_reward_pool r) + unat (nr_rewards_processed r) < 2 ^ 64 \<and>
    nr_buckets r = unat (nr_rewards_processed r) \<and>
    unat (nr_reward_pool r) * sw_at (os_stake_weights os) gi < 2 ^ 128"

lemma entry_weight_le:
  assumes "vaults_named os" and "gi < 8" and "i < 64"
  shows "sw_at (vw_stake_weight (os_vault_operator_stake_weight os ! i)) gi \<le> sw_at (os_stake_weights os) gi"
proof -
  have "sw_at (os_stake_weights os) gi = (\<Sum>v \<leftarrow> registered os. sw_at (vw_stake_weight v) gi)"
    using assms(1,2) by (simp add: vaults_named_def os_inv_def)
  then show ?thesis
    using entry_cases [OF assms(1,3)] assms(2)
      member_le_sum_list_map [of "os_vault_operator_stake_weight os ! i" "registered os" "\<lambda>v. sw_at (vw_stake_weight v) gi"]
    by (auto simp: vault_operator_stake_weight_default_def)
qed

lemma pass_step:
  assumes pn: "precise_number pn val" and named: "vaults_named os" and ok: "pass_ok os gi r" and i: "i < 64"
    and s: "pass_state os gi r i s"
  shows "\<exists>t. nr_route_one_vault pn os (nr_reward_pool r) i s = Inr t \<and> pass_state os gi r (Suc i) t"
proof -
  let ?v = "os_vault_operator_stake_weight os ! i" and ?P = "unat (nr_reward_pool r)"
  let ?H = "handed_out os gi ?P"
  have g: "ncn_fee_group_group_index (nr_ncn_fee_group s) = Inr gi" and gi: "gi < 8"
    using ok s ng.index_bound by (auto simp: pass_ok_def pass_state_def)
  obtain a b where a: "ncn_fee_group_stake_weight (vw_stake_weight ?v) (nr_ncn_fee_group s) = Inr a" "unat a = sw_at (vw_stake_weight ?v) gi"
    and b: "ncn_fee_group_stake_weight (os_stake_weights os) (nr_ncn_fee_group s) = Inr b" "unat b = sw_at (os_stake_weights os) gi"
    using g by (simp add: ncn_fee_group_stake_weight_def sw_at_def)
  obtain x where x: "calculate_vault_reward pn a b (nr_reward_pool r) = Inr x"
    using vault_reward_defined [OF pn, of a b "nr_reward_pool r"] entry_weight_le [OF named gi i] ok a(2) b(2)
    by (auto simp: pass_ok_def)
  have share: "unat x = entry_share os gi ?P i"
    using vault_reward_exact [OF pn x] a(2) b(2) by (simp add: entry_share_def vault_share_def)
  have H: "?H (Suc i) = ?H i + unat x" by (simp add: handed_out_def share)
  have "?H (Suc i) \<le> ?P"
    using handed_out_mono [of "Suc i" 64 os gi ?P] shares_of_pool [OF named gi] i by (simp add: le_trans)
  note fit = this [unfolded H]
  have S: "unat (nr_reward_pool s) + ?H i = ?P" "unat (nr_rewards_processed s) = unat (nr_rewards_processed r) + ?H i"
    "nr_wf (snapshot_vaults os) s" using s by (simp_all add: pass_state_def)
  have lim: "?P + unat (nr_rewards_processed r) < 2 ^ 64" using ok by (simp add: pass_ok_def)
  have take_ok: "unat x \<le> unat (nr_reward_pool s)" "unat (nr_rewards_processed s) + unat x < 2 ^ 64"
    using S fit lim by linarith+
  obtain pool n where take: "nr_route_from_reward_pool s x = Inr (s\<lparr>nr_reward_pool := pool, nr_rewards_processed := n\<rparr>)"
    and pool: "unat pool = unat (nr_reward_pool s) - unat x" and n: "unat n = unat (nr_rewards_processed s) + unat x"
    using nr_pool_take [OF take_ok] by blast
  let ?s = "s\<lparr>nr_reward_pool := pool, nr_rewards_processed := n\<rparr>"
  have cs: "nr_credit ?s = nr_credit s" by (rule ext) (simp add: nr_credit_def)
  have cred: "credited os gi ?P (Suc i) vault = credited os gi ?P i vault + (if vw_vault ?v = vault then unat x else 0)" for vault
    by (simp add: credited_def share)
  have wf: "nr_wf (snapshot_vaults os) ?s" using S(3) by (simp add: nr_wf_def)
  show ?thesis
  proof (cases "?v = vault_operator_stake_weight_default")
    case True
    then have "unat x = 0" using share gi by (simp add: entry_share_def)
    moreover from this have "x = 0" by (simp add: unat_eq_zero)
    ultimately show ?thesis
      using s x a b by (auto simp: nr_route_one_vault_def nr_route_from_reward_pool_def nr_route_to_vault_reward_route_def
          pass_state_def H cred)
  next
    case False
    then have v: "vw_vault ?v \<in> vw_vault ` set (registered os)" "vw_vault ?v \<noteq> default_pubkey"
      using entry_cases [OF named i] by auto
    have "nr_credit r (vw_vault ?v) \<le> unat (nr_rewards_processed r)"
      using nr_credit_le [of os r "vw_vault ?v"] ok by (simp add: pass_ok_def nr_buckets_def)
    moreover have "credited os gi ?P i (vw_vault ?v) \<le> ?H i" unfolding credited_def handed_out_def by (rule sum_mono) simp
    ultimately have small: "nr_credit ?s (vw_vault ?v) + unat x < 2 ^ 64"
      using s v(2) fit lim unfolding cs by (simp add: pass_state_def)
    obtain t where t: "nr_route_to_vault_reward_route ?s (vw_vault ?v) x = Inr t" "nr_wf (snapshot_vaults os) t"
      "t = ?s\<lparr>nr_vault_reward_routes := nr_vault_reward_routes t\<rparr>"
      "nr_credit t = (nr_credit s)(vw_vault ?v := nr_credit s (vw_vault ?v) + unat x)"
      using credit_vault [OF wf named v small] unfolding cs by blast
    have fields: "nr_total_rewards t = nr_total_rewards s" "nr_operator_rewards t = nr_operator_rewards s"
      "nr_ncn_fee_group t = nr_ncn_fee_group s" "nr_reward_pool t = pool" "nr_rewards_processed t = n"
      by (subst t(3), simp)+
    have "nr_route_one_vault pn os (nr_reward_pool r) i s = Inr t"
      using x a b take t(1) by (simp add: nr_route_one_vault_def)
    moreover have "pass_state os gi r (Suc i) t"
      using s t(2,4) pool n fit S(1) by (auto simp: pass_state_def fields H cred)
    ultimately show ?thesis by blast
  qed
qed

lemma pass_start: "pass_ok os gi r \<Longrightarrow> pass_state os gi r 0 r"
  by (simp add: pass_ok_def pass_state_def handed_out_def credited_def)

lemma nr_to_operator:
  assumes "unat (nr_operator_rewards s) + unat x < 2 ^ 64"
  shows "\<exists>n. nr_route_to_operator_rewards s x = Inr (s\<lparr>nr_operator_rewards := n\<rparr>) \<and>
    unat n = unat (nr_operator_rewards s) + unat x"
proof (cases "x = 0")
  case True
  then show ?thesis by (intro exI [of _ "nr_operator_rewards s"]) (simp add: nr_route_to_operator_rewards_def)
next
  case False
  obtain n where n: "checked_add (nr_operator_rewards s) x = Some n"
    using assms by (cases "checked_add (nr_operator_rewards s) x") (auto simp: checked_simps)
  with False n [unfolded checked_add_Some] show ?thesis
    by (intro exI [of _ n]) (simp add: nr_route_to_operator_rewards_def)
qed

lemma nr_finish_total:
  assumes pn: "precise_number pn val" and named: "vaults_named os" and ok: "pass_ok os gi r"
  shows "\<exists>r'. nr_finish pn os (nr_reward_pool r) 0 r = Inr r' \<and> nr_reward_pool r' = 0 \<and> \<not> nr_still_routing r' \<and>
    nr_total_rewards r' = nr_total_rewards r \<and>
    (\<forall>vault. vault \<noteq> default_pubkey \<longrightarrow> nr_credit r' vault = nr_credit r vault +
      (\<Sum>v \<leftarrow> filter (\<lambda>v. vw_vault v = vault) (registered os). vault_share os gi (unat (nr_reward_pool r)) v)) \<and>
    unat (nr_operator_rewards r') = unat (nr_operator_rewards r) + (unat (nr_reward_pool r) -
      (\<Sum>v \<leftarrow> registered os. vault_share os gi (unat (nr_reward_pool r)) v))"
proof -
  have gi: "gi < 8" using ok ng.index_bound by (auto simp: pass_ok_def)
  have len: "length (os_vault_operator_stake_weight os) = 64" using named by (simp add: vaults_named_def os_inv_def)
  have "\<exists>s. rfold (nr_route_one_vault pn os (nr_reward_pool r)) [0..<64] r = Inr s \<and>
      pass_state os gi r (length [0..<64]) s"
  proof (rule rfold_steps)
    fix i s
    assume i: "i < length [0..<64]" and s: "pass_state os gi r i s"
    then have "i < 64" by simp
    from pass_step [OF pn named ok this s]
    show "\<exists>t. nr_route_one_vault pn os (nr_reward_pool r) ([0..<64] ! i) s = Inr t \<and> pass_state os gi r (Suc i) t"
      using \<open>i < 64\<close> by (simp del: upt_Suc)
  qed (rule pass_start [OF ok])
  then obtain s where pass: "rfold (nr_route_one_vault pn os (nr_reward_pool r)) [0..<64] r = Inr s"
    and s: "pass_state os gi r 64 s" by auto
  let ?s = "nr_reset_routing_state s" and ?left = "nr_reward_pool s"
  note S = s [unfolded pass_state_def handed_out_all [OF named gi] credited_all [OF named gi]]
  have B: "nr_buckets r = unat (nr_rewards_processed r)" and lim: "unat (nr_reward_pool r) + unat (nr_rewards_processed r) < 2 ^ 64"
    using ok by (simp_all add: pass_ok_def)
  have "unat ?left \<le> unat (nr_reward_pool ?s)" by (simp add: nr_reset_routing_state_def)
  moreover have "unat (nr_rewards_processed ?s) + unat ?left < 2 ^ 64"
    using S lim by (simp add: nr_reset_routing_state_def)
  ultimately obtain pool n where take: "nr_route_from_reward_pool ?s ?left = Inr (?s\<lparr>nr_reward_pool := pool, nr_rewards_processed := n\<rparr>)"
    and pool: "unat pool = unat (nr_reward_pool ?s) - unat ?left"
    using nr_pool_take by blast
  let ?t = "?s\<lparr>nr_reward_pool := pool, nr_rewards_processed := n\<rparr>"
  have "unat (nr_operator_rewards ?t) + unat ?left < 2 ^ 64"
    using S B lim by (simp add: nr_reset_routing_state_def nr_buckets_def)
  then obtain q where q: "nr_route_to_operator_rewards ?t ?left = Inr (?t\<lparr>nr_operator_rewards := q\<rparr>)"
    "unat q = unat (nr_operator_rewards ?t) + unat ?left" using nr_to_operator by blast
  have left: "unat (nr_reward_pool r) - (\<Sum>v \<leftarrow> registered os. vault_share os gi (unat (nr_reward_pool r)) v) = unat ?left"
    using S by linarith
  have "pool = 0" using pool by (simp add: nr_reset_routing_state_def unat_eq_zero)
  then show ?thesis
    using pass take q S unfolding left
    by (simp add: nr_finish_def len nr_route_leftover_def Let_def nr_reset_routing_state_def nr_still_routing_def
        nr_credit_def del: upt_Suc)
qed

text \<open>The calls that follow, on a router with any pool.\<close>

lemma nr_pass_computed:
  assumes pn: "precise_number pn val" and named: "vaults_named os"
    and runs: "router_runs ncn_router_init (ncn_router_step pn val max_bps (snapshot_vaults os)) r received paid"
    and fresh: "\<not> nr_still_routing r"
    and g: "ncn_fee_group_group_index (nr_ncn_fee_group r) = Inr gi"
    and small: "unat (nr_reward_pool r) * sw_at (os_stake_weights os) gi < 2 ^ 128"
    and calls: "64 \<le> length ms"
  shows "\<exists>r'. nr_calls pn os ms r = Inr r' \<and> nr_reward_pool r' = 0 \<and> \<not> nr_still_routing r' \<and>
    (\<forall>vault. vault \<noteq> default_pubkey \<longrightarrow> nr_credit r' vault = nr_credit r vault +
      (\<Sum>v \<leftarrow> filter (\<lambda>v. vw_vault v = vault) (registered os).
        unat (nr_reward_pool r) * sw_at (vw_stake_weight v) gi div sw_at (os_stake_weights os) gi)) \<and>
    unat (nr_operator_rewards r') = unat (nr_operator_rewards r) + (unat (nr_reward_pool r) -
      (\<Sum>v \<leftarrow> registered os.
        unat (nr_reward_pool r) * sw_at (vw_stake_weight v) gi div sw_at (os_stake_weights os) gi))"
proof (cases "nr_reward_pool r = 0")
  case True
  with fresh calls show ?thesis
    by (cases ms) (simp_all add: nr_route_reward_pool_def nr_resume_routing_state_def)
next
  case False
  have len: "length (os_vault_operator_stake_weight os) = 64" using named by (simp add: vaults_named_def os_inv_def)
  have "nr_resume_routing_state r (nr_reward_pool r) = (nr_reward_pool r, 0)"
    using fresh by (simp add: nr_resume_routing_state_def)
  from nr_calls_finish [OF len this False] calls
  have "nr_calls pn os ms r = nr_finish pn os (nr_reward_pool r) 0 r" by simp
  moreover have "pass_ok os gi r"
    using ncn_router.conservation [OF runs] g small unat_less_pow [of "nr_total_rewards r"] by (simp add: pass_ok_def)
  ultimately show ?thesis using nr_finish_total [OF pn named] unfolding vault_share_def by metis
qed

text \<open>The first call on new rewards: the fee of the operator.\<close>

lemma operator_reward_defined:
  assumes pn: "precise_number pn val" and le: "unat fee_bps \<le> unat max_bps"
  shows "\<exists>x. calculate_operator_reward pn max_bps (ucast (fee_bps :: u16)) rewards = Inr x \<and>
    unat x = unat rewards * unat fee_bps div unat max_bps"
proof (cases "fee_bps = 0 \<or> rewards = 0")
  case True
  then show ?thesis by (auto simp: calculate_operator_reward_def)
next
  case False
  let ?f = "ucast fee_bps :: u64"
  have wide: "unat (ucast rewards :: u128) = unat rewards" "unat (ucast ?f :: u128) = unat fee_bps"
    "unat (ucast max_bps :: u128) = unat max_bps" "unat ?f = unat fee_bps"
    by (simp_all add: unat_ucast_widen)
  obtain p q d where ps: "pn_new pn (ucast rewards) = Some p" "pn_new pn (ucast ?f) = Some q" "pn_new pn (ucast max_bps) = Some d"
    using precise_number.new_exact [OF pn] by meson
  have vals: "val p = of_nat (unat rewards)" "val q = of_nat (unat fee_bps)" "val d = of_nat (unat max_bps)"
    using ps precise_number.new_Some [OF pn] wide by metis+
  have "unat fee_bps \<noteq> 0" using False by (simp add: unat_eq_zero)
  then have b: "unat max_bps \<noteq> 0" using le by simp
  have quot: "unat rewards * unat fee_bps div unat max_bps < 2 ^ 64"
    using share_le [OF b le, of "unat rewards"] unat_less_pow [of rewards] by simp
  have "unat rewards * unat fee_bps < 2 ^ 64 * 2 ^ 16"
    using unat_less_pow [of rewards] unat_less_pow [of fee_bps] by (intro mult_strict_mono) simp_all
  then have prod: "unat rewards * unat fee_bps < 2 ^ 128" by simp
  obtain x where x: "precise_share pn p q d = Inr x"
    using precise_number.share_defined [OF pn vals b prod quot] by blast
  have "?f \<noteq> 0" using False wide(4) \<open>unat fee_bps \<noteq> 0\<close> by (metis unat_0)
  then show ?thesis
    using x precise_number.share_exact [OF pn x vals] ps False by (simp add: calculate_operator_reward_def)
qed

lemma operator_fee_computed:
  assumes pn: "precise_number pn val" and le: "unat (os_operator_fee_bps os) \<le> unat max_bps"
    and room: "unat (nr_reward_pool r) + unat (nr_rewards_processed r) < 2 ^ 64"
      "unat (nr_operator_rewards r) \<le> unat (nr_rewards_processed r)"
  defines "fee \<equiv> unat (nr_reward_pool r) * unat (os_operator_fee_bps os) div unat max_bps"
  shows "\<exists>pool n q. nr_route_operator_rewards pn max_bps r os =
      Inr (r\<lparr>nr_reward_pool := pool, nr_rewards_processed := n, nr_operator_rewards := q\<rparr>) \<and>
    unat pool = unat (nr_reward_pool r) - fee \<and> unat q = unat (nr_operator_rewards r) + fee"
proof -
  obtain x where x: "calculate_operator_reward pn max_bps (ucast (os_operator_fee_bps os)) (nr_reward_pool r) = Inr x"
    and fee: "unat x = fee"
    using operator_reward_defined [OF pn le] unfolding fee_def by blast
  have "fee \<le> unat (nr_reward_pool r)"
    using share_le [OF _ le, of "unat (nr_reward_pool r)"] by (cases "unat max_bps = 0") (simp_all add: fee_def)
  then have "unat x \<le> unat (nr_reward_pool r)" "unat (nr_rewards_processed r) + unat x < 2 ^ 64"
    using room(1) fee by simp_all
  from nr_pool_take [OF this] obtain pool n
    where take: "nr_route_from_reward_pool r x = Inr (r\<lparr>nr_reward_pool := pool, nr_rewards_processed := n\<rparr>)"
      and pool: "unat pool = unat (nr_reward_pool r) - fee" using fee by auto
  let ?s = "r\<lparr>nr_reward_pool := pool, nr_rewards_processed := n\<rparr>"
  have "unat (nr_operator_rewards ?s) + unat x < 2 ^ 64"
    using room \<open>unat (nr_rewards_processed r) + unat x < 2 ^ 64\<close> by simp
  from nr_to_operator [OF this] obtain q
    where q: "nr_route_to_operator_rewards ?s x = Inr (?s\<lparr>nr_operator_rewards := q\<rparr>)"
      "unat q = unat (nr_operator_rewards r) + fee" using fee by auto
  show ?thesis
    using x take q pool
    by - (rule exI [of _ pool], rule exI [of _ n], rule exI [of _ q], simp add: nr_route_operator_rewards_def)
qed

text \<open>C35. What an operator and its vaults get, computed. On every router the program can reach that is not
  in the middle of routing, \<open>route_operator_rewards\<close> succeeds and 64 calls with any iteration limits
  then succeed and empty the pool. The operator first gets the floor of the pool times its fee; of the rest
  every vault gets the floor of the rest times its stake over the stake of the operator, in the fee group of
  the router; the operator also gets exactly what the floors leave. Hypotheses: the fee is at most
  \<open>MAX_BPS\<close>, as the restaking program keeps it, and the product of the pool and the stake of the operator fits
  the 128 bits for which \<open>PreciseNumber\<close> is known to multiply (else routing may end in
  \<open>ArithmeticOverflow\<close>).\<close>

theorem ncn_pool_split:
  assumes pn: "precise_number pn val" and named: "vaults_named os"
    and runs: "router_runs ncn_router_init (ncn_router_step pn val max_bps (snapshot_vaults os)) r received paid"
    and fresh: "\<not> nr_still_routing r"
    and g: "ncn_fee_group_group_index (nr_ncn_fee_group r) = Inr gi"
    and fee_le: "unat (os_operator_fee_bps os) \<le> unat max_bps"
    and small: "unat (nr_reward_pool r) * sw_at (os_stake_weights os) gi < 2 ^ 128"
    and calls: "64 \<le> length ms"
  defines "fee \<equiv> unat (nr_reward_pool r) * unat (os_operator_fee_bps os) div unat max_bps"
  defines "rest \<equiv> unat (nr_reward_pool r) - fee"
  defines "share v \<equiv> rest * sw_at (vw_stake_weight v) gi div sw_at (os_stake_weights os) gi"
  shows "\<exists>r1 r'. nr_route_operator_rewards pn max_bps r os = Inr r1 \<and> nr_calls pn os ms r1 = Inr r' \<and>
    unat (nr_reward_pool r1) = rest \<and> unat (nr_operator_rewards r1) = unat (nr_operator_rewards r) + fee \<and>
    nr_reward_pool r' = 0 \<and> \<not> nr_still_routing r' \<and>
    (\<forall>vault. vault \<noteq> default_pubkey \<longrightarrow> nr_credit r' vault = nr_credit r vault +
      (\<Sum>v \<leftarrow> filter (\<lambda>v. vw_vault v = vault) (registered os). share v)) \<and>
    unat (nr_operator_rewards r') = unat (nr_operator_rewards r) + fee + (rest - (\<Sum>v \<leftarrow> registered os. share v))"
proof -
  note C = ncn_router.conservation [OF runs]
  have "unat (nr_reward_pool r) + unat (nr_rewards_processed r) < 2 ^ 64"
    using C unat_less_pow [of "nr_total_rewards r"] by simp
  moreover have "unat (nr_operator_rewards r) \<le> unat (nr_rewards_processed r)" using C by (simp add: nr_buckets_def)
  ultimately obtain pool n q where step: "nr_route_operator_rewards pn max_bps r os =
      Inr (r\<lparr>nr_reward_pool := pool, nr_rewards_processed := n, nr_operator_rewards := q\<rparr>)" (is "_ = Inr ?r1")
    and pool: "unat pool = rest" and q: "unat q = unat (nr_operator_rewards r) + fee"
    using operator_fee_computed [OF pn fee_le] unfolding rest_def fee_def by blast
  have runs1: "router_runs ncn_router_init (ncn_router_step pn val max_bps (snapshot_vaults os)) ?r1 received paid"
    using router_runs.step [OF runs ncn_router_step.operator_fee [OF step]] by simp
  have "rest * sw_at (os_stake_weights os) gi \<le> unat (nr_reward_pool r) * sw_at (os_stake_weights os) gi"
    by (simp add: rest_def)
  also note small
  finally have small1: "unat (nr_reward_pool ?r1) * sw_at (os_stake_weights os) gi < 2 ^ 128"
    unfolding pool [symmetric] by simp
  have same: "\<not> nr_still_routing ?r1" "ncn_fee_group_group_index (nr_ncn_fee_group ?r1) = Inr gi"
    "nr_credit ?r1 = nr_credit r"
    using fresh g by (simp_all add: nr_still_routing_def nr_credit_def fun_eq_iff)
  show ?thesis
    using nr_pass_computed [OF pn named runs1 same(1,2) small1 calls] step pool q unfolding same(3) share_def by simp
qed

section \<open>A sample run\<close>

text \<open>An operator with two vaults of weights 10 and 20, whose stake counts once in the first fee group. Of 1000 lamports
  the operator takes 70 as its fee of 7 percent; the vaults get 310 and 620 of the remaining 930.\<close>

definition sample_weights :: "u128 \<Rightarrow> stake_weights" where
  "sample_weights w = \<lparr>sw_stake_weight = w, sw_group_weights = \<lparr>ngw_weight = w\<rparr> # replicate 7 \<lparr>ngw_weight = 0\<rparr>\<rparr>"

definition two_vaults :: operator_snapshot where
  "two_vaults = busy_operator\<lparr>os_vault_operator_delegation_count := 2, os_vault_operator_delegations_registered := 2,
    os_valid_operator_vault_delegations := 2, os_stake_weights := sample_weights 30,
    os_vault_operator_stake_weight :=
      vault_operator_stake_weight_new [4] 0 ncn_fee_group_lst (sample_weights 10) #
      vault_operator_stake_weight_new [5] 1 ncn_fee_group_lst (sample_weights 20) #
      replicate 62 vault_operator_stake_weight_default\<rparr>"

lemma two_vaults_registered:
  "registered two_vaults = [vault_operator_stake_weight_new [4] 0 ncn_fee_group_lst (sample_weights 10),
    vault_operator_stake_weight_new [5] 1 ncn_fee_group_lst (sample_weights 20)]"
  by (simp add: registered_def two_vaults_def)

lemma two_vaults_named: "vaults_named two_vaults"
proof -
  have len: "length (os_vault_operator_stake_weight two_vaults) = 64" by (simp add: two_vaults_def)
  have counts: "unat (os_vault_operator_delegations_registered two_vaults) = 2"
    "unat (os_vault_operator_delegation_count two_vaults) = 2" "unat (os_valid_operator_vault_delegations two_vaults) = 2"
    "os_stake_weights two_vaults = sample_weights 30"
    by (simp_all add: two_vaults_def)
  have free: "drop 2 (os_vault_operator_stake_weight two_vaults) = replicate 62 vault_operator_stake_weight_default"
    by (simp add: two_vaults_def numeral_2_eq_2)
  have wf: "wf_stake_weights (sample_weights w)" for w by (simp add: wf_stake_weights_def sample_weights_def)
  have at: "sw_at (sample_weights w) i = (if i = 0 then unat w else 0)" if "i < 8" for w i
    using that by (cases i) (simp_all add: sw_at_def sample_weights_def)
  show ?thesis
    unfolding vaults_named_def os_inv_def two_vaults_registered counts free len
    by (simp add: wf at sw_total_def vw_is_empty_def vault_operator_stake_weight_new_def default_pubkey_def eval_simps)
      (simp add: sample_weights_def)
qed

definition fresh_ncn_router :: ncn_reward_router where
  "fresh_ncn_router = ncn_reward_router_new ncn_fee_group_lst [3] 1 [1] 5 255 200"

definition funded_ncn_router :: ncn_reward_router where
  "funded_ncn_router = fresh_ncn_router\<lparr>nr_total_rewards := 1000, nr_reward_pool := 930, nr_rewards_processed := 70,
    nr_operator_rewards := 70\<rparr>"

definition paid_ncn_router :: ncn_reward_router where
  "paid_ncn_router = fresh_ncn_router\<lparr>nr_total_rewards := 1000, nr_reward_pool := 1000\<rparr>"

lemma paid_ncn_router_runs:
  "router_runs ncn_router_init (ncn_router_step fixed12 fixed12_val 10000 (snapshot_vaults two_vaults)) paid_ncn_router 1000 0"
proof -
  have "ncn_router_init fresh_ncn_router" unfolding ncn_router_init_def fresh_ncn_router_def by blast
  note start = router_runs.start [where init = ncn_router_init and step = "ncn_router_step fixed12 fixed12_val 10000 (snapshot_vaults two_vaults)", OF this]
  have "nr_route_incoming_rewards fresh_ncn_router 890880 891880 = Inr paid_ncn_router"
    by (simp add: nr_route_incoming_rewards_def nr_total_rewards_in_transit_def nr_route_to_reward_pool_def
        paid_ncn_router_def fresh_ncn_router_def ncn_reward_router_new_def eval_simps)
  from ncn_router_step.incoming [OF this]
  have "ncn_router_step fixed12 fixed12_val 10000 (snapshot_vaults two_vaults) fresh_ncn_router 1000 0 paid_ncn_router"
    by (simp add: fresh_ncn_router_def ncn_reward_router_new_def)
  from router_runs.step [OF start this] show ?thesis by simp
qed

lemma funded_ncn_router_runs:
  "router_runs ncn_router_init (ncn_router_step fixed12 fixed12_val 10000 (snapshot_vaults two_vaults)) funded_ncn_router 1000 0"
proof -
  have "calculate_operator_reward fixed12 10000 700 1000 = Inr 70"
    by (simp add: calculate_operator_reward_def precise_share_def fixed12_def eval_simps)
  then have "nr_route_operator_rewards fixed12 10000 paid_ncn_router two_vaults = Inr funded_ncn_router"
    by (simp add: nr_route_operator_rewards_def two_vaults_def busy_operator_def idle_operator_def funded_ncn_router_def
        nr_route_from_reward_pool_def nr_increment_rewards_processed_def nr_route_to_operator_rewards_def
        paid_ncn_router_def fresh_ncn_router_def ncn_reward_router_new_def eval_simps)
  from router_runs.step [OF paid_ncn_router_runs ncn_router_step.operator_fee [OF this]] show ?thesis by simp
qed

theorem ncn_router_conservation_witness:
  "unat (nr_reward_pool funded_ncn_router) + unat (nr_rewards_processed funded_ncn_router) = 1000"
  using ncn_router_conservation [OF funded_ncn_router_runs] by simp

lemma funded_not_routing: "\<not> nr_still_routing funded_ncn_router"
  by (simp add: nr_still_routing_def funded_ncn_router_def fresh_ncn_router_def ncn_reward_router_new_def)

theorem ncn_routing_resumable_witness:
  "nr_calls fixed12 two_vaults (replicate 64 0) funded_ncn_router = nr_one_pass fixed12 two_vaults funded_ncn_router"
proof (rule ncn_routing_resumable [OF _ funded_not_routing])
  show "length (os_vault_operator_stake_weight two_vaults) = 64"
    using two_vaults_named by (simp add: vaults_named_def os_inv_def)
qed simp

theorem ncn_pool_split_witness:
  "\<exists>r1 r'. nr_route_operator_rewards fixed12 10000 paid_ncn_router two_vaults = Inr r1 \<and>
    nr_calls fixed12 two_vaults (replicate 64 0) r1 = Inr r' \<and> nr_reward_pool r' = 0 \<and>
    nr_credit r' [4] = 310 \<and> nr_credit r' [5] = 620 \<and> unat (nr_operator_rewards r') = 70"
proof -
  have g: "ncn_fee_group_group_index (nr_ncn_fee_group paid_ncn_router) = Inr 0"
    by (simp add: paid_ncn_router_def fresh_ncn_router_def ncn_reward_router_new_def ncn_group_defs)
  have routing: "\<not> nr_still_routing paid_ncn_router"
    by (simp add: nr_still_routing_def paid_ncn_router_def fresh_ncn_router_def ncn_reward_router_new_def)
  have pool: "unat (nr_reward_pool paid_ncn_router) = 1000" by (simp add: paid_ncn_router_def)
  have at: "sw_at (sample_weights w) 0 = unat w" for w by (simp add: sw_at_def sample_weights_def)
  have os: "os_stake_weights two_vaults = sample_weights 30" by (simp add: two_vaults_def)
  have bps: "unat (os_operator_fee_bps two_vaults) = 700" by (simp add: two_vaults_def busy_operator_def idle_operator_def)
  have credit: "nr_credit paid_ncn_router v = 0" for v
    by (simp add: nr_credit_def paid_ncn_router_def fresh_ncn_router_def ncn_reward_router_new_def
        vault_reward_route_default_def)
  have start: "unat (nr_operator_rewards paid_ncn_router) = 0"
    by (simp add: paid_ncn_router_def fresh_ncn_router_def ncn_reward_router_new_def)
  have fee_le: "unat (os_operator_fee_bps two_vaults) \<le> unat (10000 :: u16)" by (simp add: bps)
  have small: "unat (nr_reward_pool paid_ncn_router) * sw_at (os_stake_weights two_vaults) 0 < 2 ^ 128"
    by (simp add: pool os at)
  have calls: "64 \<le> length (replicate 64 (0 :: u16))" by simp
  have rest: "1000 - 1000 * 700 div unat (10000 :: u16) = 930" by simp
  obtain r1 r' where r': "nr_route_operator_rewards fixed12 10000 paid_ncn_router two_vaults = Inr r1"
      "nr_calls fixed12 two_vaults (replicate 64 0) r1 = Inr r'" "nr_reward_pool r' = 0"
    and shares: "\<forall>vault. vault \<noteq> default_pubkey \<longrightarrow> nr_credit r' vault =
      (\<Sum>v \<leftarrow> filter (\<lambda>v. vw_vault v = vault) (registered two_vaults). 930 * sw_at (vw_stake_weight v) 0 div 30)"
    and left: "unat (nr_operator_rewards r') = 70 + (930 - (\<Sum>v \<leftarrow> registered two_vaults. 930 * sw_at (vw_stake_weight v) 0 div 30))"
    using ncn_pool_split [OF fixed12.precise_number_axioms two_vaults_named paid_ncn_router_runs routing g fee_le small calls]
    unfolding pool os at credit start bps rest by auto
  have "nr_credit r' [4] = 310" "nr_credit r' [5] = 620"
    using shares [rule_format, of "[4]"] shares [rule_format, of "[5]"]
    by (simp_all add: two_vaults_registered default_pubkey_def vault_operator_stake_weight_new_def at eval_simps)
  moreover have "unat (nr_operator_rewards r') = 70"
    using left by (simp add: two_vaults_registered vault_operator_stake_weight_new_def at)
  ultimately show ?thesis using r' by blast
qed

end
