(* ===== verification/Epoch_State.thy ===== *)
theory Epoch_State
  imports Fee_Groups
begin

text \<open>
  \<open>core/src/epoch_state.rs\<close>: the account that follows an epoch from its weight table to its closing. It
  holds which accounts of the epoch exist, how far each stage has got, and the slot of consensus, and
  derives the state the epoch is in. Operators are indexed by their position in the NCN, NCN routers by
  operator and fee group in one array; an index out of range aborts the program.
\<close>

section \<open>Model\<close>

text \<open>Array accesses of the source: an index out of range panics.\<close>

definition at_index :: "'a list \<Rightarrow> u64 \<Rightarrow> program_error + 'a" where
  "at_index xs i = (if unat i < length xs then Inr (xs ! unat i) else Inl Panicked)"

definition put_index :: "'a list \<Rightarrow> u64 \<Rightarrow> 'a \<Rightarrow> program_error + 'a list" where
  "put_index xs i x = (if unat i < length xs then Inr (xs[unat i := x]) else Inl Panicked)"

subsection \<open>Account statuses\<close>

datatype account_status = DNE | Created | CreatedWithReceiver | Closed

primrec account_status_as_u8 :: "account_status \<Rightarrow> u8" where
  "account_status_as_u8 DNE = 0"
| "account_status_as_u8 Created = 1"
| "account_status_as_u8 CreatedWithReceiver = 2"
| "account_status_as_u8 Closed = 3"

record epoch_account_status =
  as_epoch_state :: u8
  as_weight_table :: u8
  as_epoch_snapshot :: u8
  as_operator_snapshot :: "u8 list"
  as_ballot_box :: u8
  as_base_reward_router :: u8
  as_ncn_reward_router :: "u8 list"

definition epoch_account_status_default :: epoch_account_status where
  "epoch_account_status_default =
    \<lparr>as_epoch_state = 0, as_weight_table = 0, as_epoch_snapshot = 0,
     as_operator_snapshot = replicate MAX_OPERATORS 0, as_ballot_box = 0, as_base_reward_router = 0,
     as_ncn_reward_router = replicate (MAX_OPERATORS * FEE_GROUP_COUNT) 0\<rparr>"

definition get_account_status :: "u8 \<Rightarrow> program_error + account_status" where
  "get_account_status u =
    (if u = 0 then Inr DNE else if u = 1 then Inr Created else if u = 2 then Inr CreatedWithReceiver
     else if u = 3 then Inr Closed else Inl (program_error_from InvalidAccountStatus))"

text \<open>\<open>usize\<close> is 64 bits wide on the target. The group is one byte that is not checked here.\<close>

definition get_ncn_reward_router_index :: "u64 \<Rightarrow> ncn_fee_group \<Rightarrow> program_error + u64" where
  "get_ncn_reward_router_index ncn_operator_index g =
    rbind (ok_or (program_error_from ArithmeticOverflow)
      (checked_mul ncn_operator_index (of_nat FEE_GROUP_COUNT))) (\<lambda>index.
    ok_or (program_error_from ArithmeticOverflow) (checked_add index (ucast (ncn_group g))))"

definition operator_snapshot_status :: "epoch_account_status \<Rightarrow> u64 \<Rightarrow> program_error + account_status" where
  "operator_snapshot_status a index = rbind (at_index (as_operator_snapshot a) index) get_account_status"

definition ncn_reward_router_status ::
    "epoch_account_status \<Rightarrow> u64 \<Rightarrow> ncn_fee_group \<Rightarrow> program_error + account_status" where
  "ncn_reward_router_status a index g =
    rbind (get_ncn_reward_router_index index g) (\<lambda>i.
    rbind (at_index (as_ncn_reward_router a) i) get_account_status)"

definition set_operator_snapshot ::
    "epoch_account_status \<Rightarrow> u64 \<Rightarrow> account_status \<Rightarrow> program_error + epoch_account_status" where
  "set_operator_snapshot a index status =
    rbind (put_index (as_operator_snapshot a) index (account_status_as_u8 status)) (\<lambda>xs.
    Inr (a\<lparr>as_operator_snapshot := xs\<rparr>))"

definition set_ncn_reward_router ::
    "epoch_account_status \<Rightarrow> u64 \<Rightarrow> ncn_fee_group \<Rightarrow> account_status \<Rightarrow> program_error + epoch_account_status" where
  "set_ncn_reward_router a index g status =
    rbind (get_ncn_reward_router_index index g) (\<lambda>i.
    rbind (put_index (as_ncn_reward_router a) i (account_status_as_u8 status)) (\<lambda>xs.
    Inr (a\<lparr>as_ncn_reward_router := xs\<rparr>)))"

definition are_all_closed :: "epoch_account_status \<Rightarrow> bool" where
  "are_all_closed a \<longleftrightarrow>
    as_weight_table a = account_status_as_u8 Closed \<and>
    as_epoch_snapshot a = account_status_as_u8 Closed \<and>
    list_all (\<lambda>u. u = account_status_as_u8 DNE \<or> u = account_status_as_u8 Closed) (as_operator_snapshot a) \<and>
    as_ballot_box a = account_status_as_u8 Closed \<and>
    as_base_reward_router a = account_status_as_u8 Closed \<and>
    list_all (\<lambda>u. u = account_status_as_u8 DNE \<or> u = account_status_as_u8 Closed) (as_ncn_reward_router a)"

subsection \<open>Progress\<close>

record progress =
  pr_tally :: u64
  pr_total :: u64

definition PROGRESS_INVALID :: u64 where "PROGRESS_INVALID = 18446744073709551615"

definition progress_default :: progress where
  "progress_default = \<lparr>pr_tally = PROGRESS_INVALID, pr_total = PROGRESS_INVALID\<rparr>"

definition progress_new :: "u64 \<Rightarrow> progress" where
  "progress_new total_n = \<lparr>pr_tally = 0, pr_total = total_n\<rparr>"

definition progress_increment :: "progress \<Rightarrow> u64 \<Rightarrow> program_error + progress" where
  "progress_increment p n =
    rbind (ok_or (program_error_from ArithmeticOverflow) (checked_add (pr_tally p) n)) (\<lambda>t.
    Inr (p\<lparr>pr_tally := t\<rparr>))"

definition progress_increment_one :: "progress \<Rightarrow> program_error + progress" where
  "progress_increment_one p = progress_increment p 1"

definition progress_set_tally :: "progress \<Rightarrow> u64 \<Rightarrow> progress" where
  "progress_set_tally p tally = p\<lparr>pr_tally := tally\<rparr>"

definition progress_set_total :: "progress \<Rightarrow> u64 \<Rightarrow> progress" where
  "progress_set_total p total_n = p\<lparr>pr_total := total_n\<rparr>"

definition progress_is_invalid :: "progress \<Rightarrow> bool" where
  "progress_is_invalid p \<longleftrightarrow> pr_tally p = PROGRESS_INVALID \<or> pr_total p = PROGRESS_INVALID"

definition progress_is_complete :: "progress \<Rightarrow> bool" where
  "progress_is_complete p = (if progress_is_invalid p then False else pr_tally p \<ge> pr_total p)"

subsection \<open>The epoch state\<close>

record epoch_state =
  st_ncn :: pubkey
  st_epoch :: u64
  st_bump :: u8
  st_slot_created :: u64
  st_was_tie_breaker_set :: bool
  st_slot_consensus_reached :: u64
  st_operator_count :: u64
  st_vault_count :: u64
  st_account_status :: epoch_account_status
  st_set_weight_progress :: progress
  st_epoch_snapshot_progress :: progress
  st_operator_snapshot_progress :: "progress list"
  st_voting_progress :: progress
  st_validation_progress :: progress
  st_upload_progress :: progress
  st_total_distribution_progress :: progress
  st_base_distribution_progress :: progress
  st_ncn_distribution_progress :: "progress list"
  st_is_closing :: bool

definition epoch_state_new :: "pubkey \<Rightarrow> u64 \<Rightarrow> u8 \<Rightarrow> u64 \<Rightarrow> epoch_state" where
  "epoch_state_new ncn epoch bump slot_created =
    \<lparr>st_ncn = ncn, st_epoch = epoch, st_bump = bump, st_slot_created = slot_created,
     st_was_tie_breaker_set = False, st_slot_consensus_reached = DEFAULT_CONSENSUS_REACHED_SLOT,
     st_operator_count = 0, st_vault_count = 0, st_account_status = epoch_account_status_default,
     st_set_weight_progress = progress_default, st_epoch_snapshot_progress = progress_default,
     st_operator_snapshot_progress = replicate MAX_OPERATORS progress_default,
     st_voting_progress = progress_default, st_validation_progress = progress_default,
     st_upload_progress = progress_default, st_total_distribution_progress = progress_default,
     st_base_distribution_progress = progress_default,
     st_ncn_distribution_progress = replicate (MAX_OPERATORS * FEE_GROUP_COUNT) progress_default,
     st_is_closing = False\<rparr>"

text \<open>What a zeroed account reads as.\<close>

definition zero_progress :: progress where
  "zero_progress = \<lparr>pr_tally = 0, pr_total = 0\<rparr>"

definition zero_epoch_state :: epoch_state where
  "zero_epoch_state =
    \<lparr>st_ncn = default_pubkey, st_epoch = 0, st_bump = 0, st_slot_created = 0,
     st_was_tie_breaker_set = False, st_slot_consensus_reached = 0,
     st_operator_count = 0, st_vault_count = 0, st_account_status = epoch_account_status_default,
     st_set_weight_progress = zero_progress, st_epoch_snapshot_progress = zero_progress,
     st_operator_snapshot_progress = replicate MAX_OPERATORS zero_progress,
     st_voting_progress = zero_progress, st_validation_progress = zero_progress,
     st_upload_progress = zero_progress, st_total_distribution_progress = zero_progress,
     st_base_distribution_progress = zero_progress,
     st_ncn_distribution_progress = replicate (MAX_OPERATORS * FEE_GROUP_COUNT) zero_progress,
     st_is_closing = False\<rparr>"

text \<open>\<open>initialize\<close> sets these fields only; the others keep what the account held (zeroes in a fresh
  account, where a zero \<open>Progress\<close> is not invalid).\<close>

definition epoch_state_initialize :: "epoch_state \<Rightarrow> pubkey \<Rightarrow> u64 \<Rightarrow> u8 \<Rightarrow> u64 \<Rightarrow> epoch_state" where
  "epoch_state_initialize s ncn epoch bump slot_created =
    s\<lparr>st_ncn := ncn, st_bump := bump, st_epoch := epoch, st_slot_created := slot_created,
      st_slot_consensus_reached := DEFAULT_CONSENSUS_REACHED_SLOT\<rparr>"

definition set_upload_progress :: "epoch_state \<Rightarrow> epoch_state" where
  "set_upload_progress s = s\<lparr>st_upload_progress := progress_new 1\<rparr>"

definition epoch_state_load_to_close :: "epoch_state \<Rightarrow> pubkey \<Rightarrow> u64 \<Rightarrow> program_error + unit" where
  "epoch_state_load_to_close s ncn epoch =
    rbind (fail_if (st_ncn s \<noteq> ncn) (program_error_from CannotCloseAccount)) (\<lambda>_.
    rbind (fail_if (st_epoch s \<noteq> epoch) (program_error_from CannotCloseAccount)) (\<lambda>_.
    fail_if (\<not> are_all_closed (st_account_status s)) (program_error_from CannotCloseEpochStateAccount)))"

definition st_is_consensus_reached :: "epoch_state \<Rightarrow> bool" where
  "st_is_consensus_reached s \<longleftrightarrow> st_slot_consensus_reached s \<noteq> DEFAULT_CONSENSUS_REACHED_SLOT"

definition get_slot_consensus_reached :: "epoch_state \<Rightarrow> program_error + u64" where
  "get_slot_consensus_reached s =
    (if st_slot_consensus_reached s = DEFAULT_CONSENSUS_REACHED_SLOT
     then Inl (program_error_from ConsensusNotReached)
     else Inr (st_slot_consensus_reached s))"

text \<open>\<open>get_epoch\<close> is \<open>EpochSchedule::get_epoch\<close> of the runtime.\<close>

definition get_epoch_consensus_reached :: "(u64 \<Rightarrow> u64) \<Rightarrow> epoch_state \<Rightarrow> program_error + u64" where
  "get_epoch_consensus_reached get_epoch s =
    rbind (get_slot_consensus_reached s) (\<lambda>slot. Inr (get_epoch slot))"

definition ncn_distribution_progress :: "epoch_state \<Rightarrow> u64 \<Rightarrow> ncn_fee_group \<Rightarrow> program_error + progress" where
  "ncn_distribution_progress s ncn_operator_index g =
    rbind (get_ncn_reward_router_index ncn_operator_index g) (at_index (st_ncn_distribution_progress s))"

subsection \<open>Updaters\<close>

definition update_realloc_epoch_state :: "epoch_state \<Rightarrow> epoch_state" where
  "update_realloc_epoch_state s =
    s\<lparr>st_account_status := (st_account_status s)\<lparr>as_epoch_state := account_status_as_u8 Created\<rparr>\<rparr>"

definition update_realloc_weight_table :: "epoch_state \<Rightarrow> u64 \<Rightarrow> u64 \<Rightarrow> epoch_state" where
  "update_realloc_weight_table s vault_count st_mint_count =
    s\<lparr>st_account_status := (st_account_status s)\<lparr>as_weight_table := account_status_as_u8 Created\<rparr>,
      st_vault_count := vault_count, st_set_weight_progress := progress_new st_mint_count\<rparr>"

definition update_set_weight :: "epoch_state \<Rightarrow> u64 \<Rightarrow> u64 \<Rightarrow> epoch_state" where
  "update_set_weight s weights_set st_mint_count =
    s\<lparr>st_set_weight_progress :=
      progress_set_total (progress_set_tally (st_set_weight_progress s) weights_set) st_mint_count\<rparr>"

definition update_initialize_epoch_snapshot :: "epoch_state \<Rightarrow> u64 \<Rightarrow> epoch_state" where
  "update_initialize_epoch_snapshot s operator_count =
    s\<lparr>st_account_status := (st_account_status s)\<lparr>as_epoch_snapshot := account_status_as_u8 Created\<rparr>,
      st_operator_count := operator_count, st_epoch_snapshot_progress := progress_new operator_count\<rparr>"

definition update_realloc_operator_snapshot :: "epoch_state \<Rightarrow> u64 \<Rightarrow> bool \<Rightarrow> program_error + epoch_state" where
  "update_realloc_operator_snapshot s ncn_operator_index is_active =
    rbind (set_operator_snapshot (st_account_status s) ncn_operator_index Created) (\<lambda>a.
    let s = s\<lparr>st_account_status := a\<rparr> in
    if is_active then
      rbind (put_index (st_operator_snapshot_progress s) ncn_operator_index (progress_new (st_vault_count s))) (\<lambda>ps.
      Inr (s\<lparr>st_operator_snapshot_progress := ps\<rparr>))
    else
      rbind (progress_increment_one (progress_new 1)) (\<lambda>p.
      rbind (put_index (st_operator_snapshot_progress s) ncn_operator_index p) (\<lambda>ps.
      rbind (progress_increment_one (st_epoch_snapshot_progress s)) (\<lambda>q.
      Inr (s\<lparr>st_operator_snapshot_progress := ps, st_epoch_snapshot_progress := q\<rparr>)))))"

definition update_snapshot_vault_operator_delegation ::
    "epoch_state \<Rightarrow> u64 \<Rightarrow> bool \<Rightarrow> program_error + epoch_state" where
  "update_snapshot_vault_operator_delegation s ncn_operator_index finalized =
    rbind (at_index (st_operator_snapshot_progress s) ncn_operator_index) (\<lambda>p.
    rbind (progress_increment_one p) (\<lambda>p.
    rbind (put_index (st_operator_snapshot_progress s) ncn_operator_index p) (\<lambda>ps.
    let s = s\<lparr>st_operator_snapshot_progress := ps\<rparr> in
    if finalized then
      rbind (progress_increment_one (st_epoch_snapshot_progress s)) (\<lambda>q.
      Inr (s\<lparr>st_epoch_snapshot_progress := q\<rparr>))
    else Inr s)))"

definition update_realloc_ballot_box :: "epoch_state \<Rightarrow> epoch_state" where
  "update_realloc_ballot_box s =
    s\<lparr>st_account_status := (st_account_status s)\<lparr>as_ballot_box := account_status_as_u8 Created\<rparr>,
      st_voting_progress := progress_new (st_operator_count s),
      st_validation_progress := progress_new 1, st_upload_progress := progress_new 1\<rparr>"

definition update_cast_vote :: "epoch_state \<Rightarrow> u64 \<Rightarrow> bool \<Rightarrow> u64 \<Rightarrow> tip_router_error + epoch_state" where
  "update_cast_vote s operators_voted consensus_reached current_slot =
    (let s = (if consensus_reached \<and> \<not> st_is_consensus_reached s
        then s\<lparr>st_slot_consensus_reached := current_slot\<rparr> else s) in
     Inr (s\<lparr>st_voting_progress := progress_set_tally (st_voting_progress s) operators_voted\<rparr>))"

definition update_set_tie_breaker :: "epoch_state \<Rightarrow> bool \<Rightarrow> u64 \<Rightarrow> tip_router_error + epoch_state" where
  "update_set_tie_breaker s consensus_reached current_slot =
    Inr (if consensus_reached \<and> \<not> st_is_consensus_reached s
      then s\<lparr>st_slot_consensus_reached := current_slot, st_was_tie_breaker_set := True\<rparr> else s)"

definition update_set_merkle_root :: "epoch_state \<Rightarrow> program_error + epoch_state" where
  "update_set_merkle_root s =
    rbind (progress_increment_one (st_upload_progress s)) (\<lambda>p.
    Inr (s\<lparr>st_upload_progress := progress_set_total p (pr_tally p)\<rparr>))"

definition update_realloc_base_reward_router :: "epoch_state \<Rightarrow> epoch_state" where
  "update_realloc_base_reward_router s =
    s\<lparr>st_account_status := (st_account_status s)\<lparr>as_base_reward_router := account_status_as_u8 CreatedWithReceiver\<rparr>,
      st_base_distribution_progress := progress_new 0\<rparr>"

definition update_realloc_ncn_reward_router ::
    "epoch_state \<Rightarrow> u64 \<Rightarrow> ncn_fee_group \<Rightarrow> program_error + epoch_state" where
  "update_realloc_ncn_reward_router s ncn_operator_index g =
    rbind (set_ncn_reward_router (st_account_status s) ncn_operator_index g CreatedWithReceiver) (\<lambda>a.
    rbind (get_ncn_reward_router_index ncn_operator_index g) (\<lambda>i.
    rbind (put_index (st_ncn_distribution_progress s) i (progress_new 0)) (\<lambda>ps.
    Inr (s\<lparr>st_account_status := a, st_ncn_distribution_progress := ps\<rparr>))))"

definition update_route_base_rewards :: "epoch_state \<Rightarrow> u64 \<Rightarrow> epoch_state" where
  "update_route_base_rewards s total_rewards =
    s\<lparr>st_total_distribution_progress := progress_set_total (st_total_distribution_progress s) total_rewards,
      st_base_distribution_progress := progress_set_total (st_base_distribution_progress s) total_rewards\<rparr>"

definition update_route_ncn_rewards ::
    "epoch_state \<Rightarrow> u64 \<Rightarrow> ncn_fee_group \<Rightarrow> u64 \<Rightarrow> program_error + epoch_state" where
  "update_route_ncn_rewards s ncn_operator_index g total_rewards =
    rbind (get_ncn_reward_router_index ncn_operator_index g) (\<lambda>i.
    rbind (at_index (st_ncn_distribution_progress s) i) (\<lambda>p.
    rbind (put_index (st_ncn_distribution_progress s) i (progress_set_total p total_rewards)) (\<lambda>ps.
    Inr (s\<lparr>st_ncn_distribution_progress := ps\<rparr>))))"

definition update_distribute_base_rewards :: "epoch_state \<Rightarrow> u64 \<Rightarrow> program_error + epoch_state" where
  "update_distribute_base_rewards s rewards =
    rbind (progress_increment (st_total_distribution_progress s) rewards) (\<lambda>p.
    rbind (progress_increment (st_base_distribution_progress s) rewards) (\<lambda>q.
    Inr (s\<lparr>st_total_distribution_progress := p, st_base_distribution_progress := q\<rparr>)))"

definition update_distribute_base_ncn_rewards :: "epoch_state \<Rightarrow> u64 \<Rightarrow> program_error + epoch_state" where
  "update_distribute_base_ncn_rewards s rewards =
    rbind (progress_increment (st_base_distribution_progress s) rewards) (\<lambda>q.
    Inr (s\<lparr>st_base_distribution_progress := q\<rparr>))"

definition update_distribute_ncn_rewards ::
    "epoch_state \<Rightarrow> u64 \<Rightarrow> ncn_fee_group \<Rightarrow> u64 \<Rightarrow> program_error + epoch_state" where
  "update_distribute_ncn_rewards s ncn_operator_index g rewards =
    rbind (progress_increment (st_total_distribution_progress s) rewards) (\<lambda>p.
    rbind (get_ncn_reward_router_index ncn_operator_index g) (\<lambda>i.
    rbind (at_index (st_ncn_distribution_progress s) i) (\<lambda>q.
    rbind (progress_increment q rewards) (\<lambda>q.
    rbind (put_index (st_ncn_distribution_progress s) i q) (\<lambda>qs.
    Inr (s\<lparr>st_total_distribution_progress := p, st_ncn_distribution_progress := qs\<rparr>))))))"

subsection \<open>Closers\<close>

definition set_is_closing :: "epoch_state \<Rightarrow> epoch_state" where
  "set_is_closing s = s\<lparr>st_is_closing := True\<rparr>"

definition close_epoch_state :: "epoch_state \<Rightarrow> epoch_state" where
  "close_epoch_state s =
    s\<lparr>st_account_status := (st_account_status s)\<lparr>as_epoch_state := account_status_as_u8 Closed\<rparr>\<rparr>"

definition close_weight_table :: "epoch_state \<Rightarrow> epoch_state" where
  "close_weight_table s =
    s\<lparr>st_account_status := (st_account_status s)\<lparr>as_weight_table := account_status_as_u8 Closed\<rparr>\<rparr>"

definition close_epoch_snapshot :: "epoch_state \<Rightarrow> epoch_state" where
  "close_epoch_snapshot s =
    s\<lparr>st_account_status := (st_account_status s)\<lparr>as_epoch_snapshot := account_status_as_u8 Closed\<rparr>\<rparr>"

definition close_operator_snapshot :: "epoch_state \<Rightarrow> u64 \<Rightarrow> program_error + epoch_state" where
  "close_operator_snapshot s ncn_operator_index =
    rbind (set_operator_snapshot (st_account_status s) ncn_operator_index Closed) (\<lambda>a.
    Inr (s\<lparr>st_account_status := a\<rparr>))"

definition close_ballot_box :: "epoch_state \<Rightarrow> epoch_state" where
  "close_ballot_box s =
    s\<lparr>st_account_status := (st_account_status s)\<lparr>as_ballot_box := account_status_as_u8 Closed\<rparr>\<rparr>"

definition close_base_reward_router :: "epoch_state \<Rightarrow> epoch_state" where
  "close_base_reward_router s =
    s\<lparr>st_account_status := (st_account_status s)\<lparr>as_base_reward_router := account_status_as_u8 Closed\<rparr>\<rparr>"

definition close_ncn_reward_router :: "epoch_state \<Rightarrow> u64 \<Rightarrow> ncn_fee_group \<Rightarrow> program_error + epoch_state" where
  "close_ncn_reward_router s ncn_operator_index g =
    rbind (set_ncn_reward_router (st_account_status s) ncn_operator_index g Closed) (\<lambda>a.
    Inr (s\<lparr>st_account_status := a\<rparr>))"

subsection \<open>The state an epoch is in\<close>

datatype epoch_stage = SetWeight | Snapshot | Vote | Distribute | Close

definition can_start_routing :: "epoch_state \<Rightarrow> u64 \<Rightarrow> u64 \<Rightarrow> program_error + bool" where
  "can_start_routing s valid_slots_after_consensus current_slot =
    (if \<not> st_is_consensus_reached s then Inr False else
     rbind (get_slot_consensus_reached s) (\<lambda>slot_consensus_reached.
     rbind (ok_or (program_error_from ArithmeticOverflow)
       (checked_add slot_consensus_reached valid_slots_after_consensus)) (\<lambda>slot_can_start_routing.
     Inr (current_slot \<ge> slot_can_start_routing))))"

definition can_close_epoch_accounts :: "(u64 \<Rightarrow> u64) \<Rightarrow> epoch_state \<Rightarrow> u64 \<Rightarrow> u64 \<Rightarrow> program_error + bool" where
  "can_close_epoch_accounts get_epoch s epochs_after_consensus_before_close current_slot =
    rbind (get_epoch_consensus_reached get_epoch s) (\<lambda>epoch_consensus_reached.
    let current_epoch = get_epoch current_slot;
        epoch_delta = saturating_sub current_epoch epoch_consensus_reached
    in Inr (epoch_delta \<ge> epochs_after_consensus_before_close))"

text \<open>\<open>||\<close> evaluates its right side only when the left side is false: \<open>or_else\<close>.\<close>

definition or_else :: "program_error + bool \<Rightarrow> program_error + bool \<Rightarrow> program_error + bool" where
  "or_else a b = rbind a (\<lambda>x. if x then Inr True else b)"

definition account_dne :: "u8 \<Rightarrow> program_error + bool" where
  "account_dne u = rbind (get_account_status u) (\<lambda>status. Inr (status = DNE))"

definition current_state :: "(u64 \<Rightarrow> u64) \<Rightarrow> epoch_state \<Rightarrow> u64 \<Rightarrow> u64 \<Rightarrow> u64 \<Rightarrow> program_error + epoch_stage" where
  "current_state get_epoch s valid_slots_after_consensus epochs_after_consensus_before_close current_slot =
    rbind (or_else (account_dne (as_weight_table (st_account_status s)))
      (Inr (\<not> progress_is_complete (st_set_weight_progress s)))) (\<lambda>b. if b then Inr SetWeight else
    rbind (or_else (account_dne (as_epoch_snapshot (st_account_status s)))
      (Inr (\<not> progress_is_complete (st_epoch_snapshot_progress s)))) (\<lambda>b. if b then Inr Snapshot else
    rbind (or_else (account_dne (as_ballot_box (st_account_status s)))
      (rbind (can_start_routing s valid_slots_after_consensus current_slot) (\<lambda>c. Inr (\<not> c)))) (\<lambda>b. if b then Inr Vote else
    rbind (can_close_epoch_accounts get_epoch s epochs_after_consensus_before_close current_slot) (\<lambda>c.
    Inr (if c then Close else Distribute)))))"

definition current_state_patched ::
    "(u64 \<Rightarrow> u64) \<Rightarrow> epoch_state \<Rightarrow> u64 \<Rightarrow> u64 \<Rightarrow> u64 \<Rightarrow> u64 \<Rightarrow> program_error + epoch_stage" where
  "current_state_patched get_epoch s valid_slots_after_consensus epochs_after_consensus_before_close
      st_mint_count current_slot =
    rbind (or_else (account_dne (as_weight_table (st_account_status s)))
      (Inr (pr_tally (st_set_weight_progress s) < st_mint_count))) (\<lambda>b. if b then Inr SetWeight else
    rbind (or_else (account_dne (as_epoch_snapshot (st_account_status s)))
      (Inr (\<not> progress_is_complete (st_epoch_snapshot_progress s)))) (\<lambda>b. if b then Inr Snapshot else
    rbind (or_else (account_dne (as_ballot_box (st_account_status s)))
      (rbind (can_start_routing s valid_slots_after_consensus current_slot) (\<lambda>c. Inr (\<not> c)))) (\<lambda>b. if b then Inr Vote else
    rbind (can_close_epoch_accounts get_epoch s epochs_after_consensus_before_close current_slot) (\<lambda>c.
    Inr (if c then Close else Distribute)))))"

end
