(* ===== verification/Epoch_Stages.thy ===== *)
theory Epoch_Stages
  imports Epoch_State
begin

text \<open>
  Facts about \<open>core/src/epoch_state.rs\<close>: the arrays of the account as tables whose slots do not overlap,
  the invariant every updater and closer keeps (array lengths, status bytes that decode), the order of
  the stages of an epoch and how time moves an epoch through them.
\<close>

section \<open>Tables in one array\<close>

text \<open>A table kept in one array: valid keys have slots of their own inside the array.\<close>

locale slotted =
  fixes valid :: "'k \<Rightarrow> bool"
    and slot_of :: "'k \<Rightarrow> program_error + u64"
    and size_of :: nat
  assumes in_range: "valid k \<Longrightarrow> \<exists>i. slot_of k = Inr i \<and> unat i < size_of"
    and own_slot: "valid k \<Longrightarrow> valid l \<Longrightarrow> slot_of k = slot_of l \<Longrightarrow> k = l"
begin

definition read_at :: "'a list \<Rightarrow> 'k \<Rightarrow> program_error + 'a" where
  "read_at xs k = rbind (slot_of k) (at_index xs)"

definition write_at :: "'a list \<Rightarrow> 'k \<Rightarrow> 'a \<Rightarrow> program_error + 'a list" where
  "write_at xs k v = rbind (slot_of k) (\<lambda>i. put_index xs i v)"

lemma read_total: "valid k \<Longrightarrow> length xs = size_of \<Longrightarrow> \<exists>v \<in> set xs. read_at xs k = Inr v"
  using in_range [of k] by (force simp: read_at_def at_index_def)

lemma write_total: "valid k \<Longrightarrow> length xs = size_of \<Longrightarrow> \<exists>ys. write_at xs k v = Inr ys \<and> length ys = size_of"
  using in_range [of k] by (force simp: write_at_def put_index_def)

lemma read_write:
  assumes "valid k" and "valid l" and "write_at xs k v = Inr ys"
  shows "read_at ys l = (if l = k then Inr v else read_at xs l)"
proof -
  obtain i where i: "slot_of k = Inr i" using in_range [OF assms(1)] by blast
  obtain j where j: "slot_of l = Inr j" using in_range [OF assms(2)] by blast
  have same: "l = k \<longleftrightarrow> unat i = unat j" using own_slot [OF assms(1,2)] i j by (auto simp: word_unat_eq_iff)
  have "ys = xs[unat i := v]" "unat i < length xs"
    using assms(3) i by (auto simp: write_at_def put_index_def split: if_splits)
  then show ?thesis using same i j by (auto simp: read_at_def at_index_def)
qed

end

text \<open>Operators by index; routers by operator and fee group.\<close>

definition operator_valid :: "u64 \<Rightarrow> bool" where
  "operator_valid i \<longleftrightarrow> i < 256"

definition router_valid :: "u64 \<times> ncn_fee_group \<Rightarrow> bool" where
  "router_valid k \<longleftrightarrow> fst k < 256 \<and> ncn_group (snd k) < 8"

lemma router_index:
  assumes "i < 256" and "ncn_group g < 8"
  shows "\<exists>k. get_ncn_reward_router_index i g = Inr k \<and> unat k = unat i * 8 + unat (ncn_group g)"
proof -
  have i: "unat i < 256" and g: "unat (ncn_group g) < 8" using assms by (simp_all add: word_less_nat_alt)
  have m: "unat (i * 8) = unat i * 8" using i by (simp add: unat_word_ariths)
  have u: "unat (ucast (ncn_group g) :: u64) = unat (ncn_group g)" by (rule unat_ucast_widen) simp
  have a: "unat (i * 8 + ucast (ncn_group g)) = unat i * 8 + unat (ncn_group g)"
    using i g m u by (simp add: unat_word_ariths)
  have "checked_mul i 8 = Some (i * 8)" by (simp add: checked_mul_Some m)
  moreover have "checked_add (i * 8) (ucast (ncn_group g)) = Some (i * 8 + ucast (ncn_group g))"
    by (simp add: checked_add_Some m u a)
  ultimately show ?thesis using a by (simp add: get_ncn_reward_router_index_def FEE_GROUP_COUNT_def)
qed

interpretation operators: slotted operator_valid "\<lambda>i. Inr i" MAX_OPERATORS
  by unfold_locales (auto simp: operator_valid_def word_less_nat_alt MAX_OPERATORS_def)

interpretation routers: slotted router_valid "\<lambda>k. get_ncn_reward_router_index (fst k) (snd k)"
  "MAX_OPERATORS * FEE_GROUP_COUNT"
proof
  fix k assume k: "router_valid k"
  then have "unat (fst k) < 256" "unat (ncn_group (snd k)) < 8"
    by (simp_all add: router_valid_def word_less_nat_alt)
  then have "unat (fst k) * 8 + unat (ncn_group (snd k)) < 2048" by linarith
  then show "\<exists>i. get_ncn_reward_router_index (fst k) (snd k) = Inr i \<and> unat i < MAX_OPERATORS * FEE_GROUP_COUNT"
    using router_index [of "fst k" "snd k"] k
    by (auto simp: router_valid_def MAX_OPERATORS_def FEE_GROUP_COUNT_def)
next
  fix k l assume k: "router_valid k" and l: "router_valid l"
    and eq: "get_ncn_reward_router_index (fst k) (snd k) = get_ncn_reward_router_index (fst l) (snd l)"
  have b: "unat (ncn_group (snd k)) < 8" "unat (ncn_group (snd l)) < 8"
    using k l by (simp_all add: router_valid_def word_less_nat_alt)
  have "unat (fst k) * 8 + unat (ncn_group (snd k)) = unat (fst l) * 8 + unat (ncn_group (snd l))"
    using router_index [of "fst k" "snd k"] router_index [of "fst l" "snd l"] k l eq
    by (auto simp: router_valid_def)
  with b have "unat (fst k) = unat (fst l)" "unat (ncn_group (snd k)) = unat (ncn_group (snd l))"
    by presburger+
  then show "k = l" by (simp add: prod_eq_iff word_unat_eq_iff)
qed

section \<open>The layout every operation keeps\<close>

definition status_ok :: "u8 \<Rightarrow> bool" where
  "status_ok u \<longleftrightarrow> u \<le> 3"

definition wf_account_status :: "epoch_account_status \<Rightarrow> bool" where
  "wf_account_status a \<longleftrightarrow>
    status_ok (as_epoch_state a) \<and> status_ok (as_weight_table a) \<and> status_ok (as_epoch_snapshot a) \<and>
    status_ok (as_ballot_box a) \<and> status_ok (as_base_reward_router a) \<and>
    length (as_operator_snapshot a) = MAX_OPERATORS \<and> list_all status_ok (as_operator_snapshot a) \<and>
    length (as_ncn_reward_router a) = MAX_OPERATORS * FEE_GROUP_COUNT \<and>
    list_all status_ok (as_ncn_reward_router a)"

definition wf_epoch_state :: "epoch_state \<Rightarrow> bool" where
  "wf_epoch_state s \<longleftrightarrow> wf_account_status (st_account_status s) \<and>
    length (st_operator_snapshot_progress s) = MAX_OPERATORS \<and>
    length (st_ncn_distribution_progress s) = MAX_OPERATORS * FEE_GROUP_COUNT"

lemma get_account_status_total: "status_ok u \<Longrightarrow> \<exists>st. get_account_status u = Inr st"
proof -
  assume "status_ok u"
  then have "unat u \<le> 3" by (simp add: status_ok_def word_le_nat_alt)
  then have "u = 0 \<or> u = 1 \<or> u = 2 \<or> u = 3" by (auto simp: word_unat_eq_iff)
  then show ?thesis by (auto simp: get_account_status_def)
qed

lemma status_ok_as_u8 [simp]: "status_ok (account_status_as_u8 st)"
  by (cases st) (simp_all add: status_ok_def)

lemma status_ok_numbers [simp]: "status_ok 0" "status_ok 1" "status_ok 2" "status_ok 3"
  by (simp_all add: status_ok_def)

lemma get_as_u8 [simp]: "get_account_status (account_status_as_u8 st) = Inr st"
  by (cases st) (simp_all add: get_account_status_def)

lemma put_index_Inr: "put_index xs i v = Inr ys \<longleftrightarrow> unat i < length xs \<and> ys = xs[unat i := v]"
  by (auto simp: put_index_def)

lemma at_index_Inr: "at_index xs i = Inr v \<longleftrightarrow> unat i < length xs \<and> v = xs ! unat i"
  by (auto simp: at_index_def)

lemma list_all_update: "list_all P xs \<Longrightarrow> P v \<Longrightarrow> list_all P (xs[i := v])"
  by (auto simp: list_all_length) (metis nth_list_update_eq nth_list_update_neq)

lemma wf_set_operator_snapshot:
  assumes "wf_account_status a" and "set_operator_snapshot a i st = Inr a'"
  shows "wf_account_status a'"
proof -
  have "a' = a\<lparr>as_operator_snapshot := (as_operator_snapshot a)[unat i := account_status_as_u8 st]\<rparr>"
    using assms(2) unfolding set_operator_snapshot_def rbind_Inr put_index_Inr by blast
  with assms(1) show ?thesis by (simp add: wf_account_status_def list_all_update)
qed

lemma wf_set_ncn_reward_router:
  assumes "wf_account_status a" and "set_ncn_reward_router a i g st = Inr a'"
  shows "wf_account_status a'"
proof -
  obtain k :: nat where "a' = a\<lparr>as_ncn_reward_router := (as_ncn_reward_router a)[k := account_status_as_u8 st]\<rparr>"
    using assms(2) unfolding set_ncn_reward_router_def rbind_Inr put_index_Inr by blast
  with assms(1) show ?thesis by (simp add: wf_account_status_def list_all_update)
qed

text \<open>Every operation on an epoch state that a handler performs.\<close>

inductive epoch_update :: "epoch_state \<Rightarrow> epoch_state \<Rightarrow> bool" where
  "epoch_update s (update_realloc_epoch_state s)"
| "epoch_update s (update_realloc_weight_table s vaults mints)"
| "epoch_update s (update_set_weight s weights mints)"
| "epoch_update s (update_initialize_epoch_snapshot s operators)"
| "update_realloc_operator_snapshot s i active = Inr t \<Longrightarrow> epoch_update s t"
| "update_snapshot_vault_operator_delegation s i final = Inr t \<Longrightarrow> epoch_update s t"
| "epoch_update s (update_realloc_ballot_box s)"
| "update_cast_vote s voted reached slot = Inr t \<Longrightarrow> epoch_update s t"
| "update_set_tie_breaker s reached slot = Inr t \<Longrightarrow> epoch_update s t"
| "update_set_merkle_root s = Inr t \<Longrightarrow> epoch_update s t"
| "epoch_update s (update_realloc_base_reward_router s)"
| "update_realloc_ncn_reward_router s i g = Inr t \<Longrightarrow> epoch_update s t"
| "epoch_update s (update_route_base_rewards s rewards)"
| "update_route_ncn_rewards s i g rewards = Inr t \<Longrightarrow> epoch_update s t"
| "update_distribute_base_rewards s rewards = Inr t \<Longrightarrow> epoch_update s t"
| "update_distribute_base_ncn_rewards s rewards = Inr t \<Longrightarrow> epoch_update s t"
| "update_distribute_ncn_rewards s i g rewards = Inr t \<Longrightarrow> epoch_update s t"
| "epoch_update s (set_is_closing s)"
| "epoch_update s (close_epoch_state s)"
| "epoch_update s (close_weight_table s)"
| "epoch_update s (close_epoch_snapshot s)"
| "close_operator_snapshot s i = Inr t \<Longrightarrow> epoch_update s t"
| "epoch_update s (close_ballot_box s)"
| "epoch_update s (close_base_reward_router s)"
| "close_ncn_reward_router s i g = Inr t \<Longrightarrow> epoch_update s t"

lemmas epoch_update_defs =
  update_realloc_epoch_state_def update_realloc_weight_table_def update_set_weight_def
  update_initialize_epoch_snapshot_def update_realloc_operator_snapshot_def
  update_snapshot_vault_operator_delegation_def update_realloc_ballot_box_def update_cast_vote_def
  update_set_tie_breaker_def update_set_merkle_root_def update_realloc_base_reward_router_def
  update_realloc_ncn_reward_router_def update_route_base_rewards_def update_route_ncn_rewards_def
  update_distribute_base_rewards_def update_distribute_base_ncn_rewards_def update_distribute_ncn_rewards_def
  set_is_closing_def close_epoch_state_def close_weight_table_def close_epoch_snapshot_def
  close_operator_snapshot_def close_ballot_box_def close_base_reward_router_def close_ncn_reward_router_def

lemma wf_update_realloc_operator_snapshot:
  assumes "update_realloc_operator_snapshot s i active = Inr t" and "wf_epoch_state s"
  shows "wf_epoch_state t"
  using assms unfolding update_realloc_operator_snapshot_def Let_def wf_epoch_state_def
  by (cases active) (auto simp: rbind_Inr put_index_Inr intro: wf_set_operator_snapshot)

lemma wf_update_snapshot_vault_operator_delegation:
  assumes "update_snapshot_vault_operator_delegation s i final = Inr t" and "wf_epoch_state s"
  shows "wf_epoch_state t"
  using assms unfolding update_snapshot_vault_operator_delegation_def rbind_Inr put_index_Inr Let_def
  by (cases final) (auto simp: wf_epoch_state_def rbind_Inr)

lemma epoch_update_wf:
  assumes "epoch_update s t" and "wf_epoch_state s"
  shows "wf_epoch_state t"
  using assms
proof (induction rule: epoch_update.induct)
  case 5
  then show ?case by (rule wf_update_realloc_operator_snapshot)
next
  case 6
  then show ?case by (rule wf_update_snapshot_vault_operator_delegation)
next
  case (22 s i t)
  then show ?case
    unfolding close_operator_snapshot_def rbind_Inr wf_epoch_state_def by (auto intro: wf_set_operator_snapshot)
next
  case (25 s i g t)
  then show ?case
    unfolding close_ncn_reward_router_def rbind_Inr wf_epoch_state_def by (auto intro: wf_set_ncn_reward_router)
next
  case (12 s i g t)
  then show ?case
    unfolding update_realloc_ncn_reward_router_def rbind_Inr put_index_Inr wf_epoch_state_def
    by (auto intro: wf_set_ncn_reward_router)
qed (auto simp: epoch_update_defs wf_epoch_state_def rbind_Inr put_index_Inr Let_def wf_account_status_def)

inductive epoch_reachable :: "epoch_state \<Rightarrow> bool" where
  created: "epoch_reachable (epoch_state_initialize zero_epoch_state ncn epoch bump slot)"
| built: "epoch_reachable (epoch_state_new ncn epoch bump slot)"
| updated: "epoch_reachable s \<Longrightarrow> epoch_update s t \<Longrightarrow> epoch_reachable t"

lemma epoch_reachable_wf: "epoch_reachable s \<Longrightarrow> wf_epoch_state s"
proof (induction rule: epoch_reachable.induct)
  case (updated s t)
  then show ?case using epoch_update_wf by blast
qed (simp_all add: wf_epoch_state_def wf_account_status_def epoch_state_initialize_def zero_epoch_state_def
    epoch_state_new_def epoch_account_status_default_def list_all_iff)

lemma status_ok_nth: "list_all status_ok xs \<Longrightarrow> i < length xs \<Longrightarrow> \<exists>st. get_account_status (xs ! i) = Inr st"
  by (simp add: get_account_status_total list_all_length)

lemma group_of_byte: "ncn_fee_group_try_from u = Inr g \<Longrightarrow> ncn_group g = u \<and> u < 8"
  by (auto simp: ncn_fee_group_try_from_def ncn_fee_group_new_def split: if_splits)

text \<open>The account of an epoch stays readable: whatever updates and closings it goes through, every status byte decodes,
  also those of all 256 operators and of all their routers, and every progress entry is inside its array.\<close>

lemma epoch_state_typed:
  assumes "epoch_reachable s" and "i < 256" and "ncn_fee_group_try_from u = Inr g"
  shows "\<exists>st wt es bb br os nr p q. get_account_status (as_epoch_state (st_account_status s)) = Inr st \<and>
      get_account_status (as_weight_table (st_account_status s)) = Inr wt \<and>
      get_account_status (as_epoch_snapshot (st_account_status s)) = Inr es \<and>
      get_account_status (as_ballot_box (st_account_status s)) = Inr bb \<and>
      get_account_status (as_base_reward_router (st_account_status s)) = Inr br \<and>
      operator_snapshot_status (st_account_status s) i = Inr os \<and>
      ncn_reward_router_status (st_account_status s) i g = Inr nr \<and>
      at_index (st_operator_snapshot_progress s) i = Inr p \<and>
      ncn_distribution_progress s i g = Inr q"
proof -
  let ?a = "st_account_status s"
  have wf: "wf_account_status ?a" "length (st_operator_snapshot_progress s) = MAX_OPERATORS"
      "length (st_ncn_distribution_progress s) = MAX_OPERATORS * FEE_GROUP_COUNT"
    using epoch_reachable_wf [OF assms(1)] by (simp_all add: wf_epoch_state_def)
  have i: "unat i < MAX_OPERATORS" using assms(2) by (simp add: MAX_OPERATORS_def word_less_nat_alt)
  have "router_valid (i, g)" using group_of_byte [OF assms(3)] assms(2) by (simp add: router_valid_def)
  then obtain k where k: "get_ncn_reward_router_index i g = Inr k" "unat k < MAX_OPERATORS * FEE_GROUP_COUNT"
    using routers.in_range [of "(i, g)"] by auto
  obtain os where "operator_snapshot_status ?a i = Inr os"
    using wf i status_ok_nth [of "as_operator_snapshot ?a" "unat i"]
    by (auto simp: operator_snapshot_status_def at_index_def wf_account_status_def)
  moreover obtain nr where "ncn_reward_router_status ?a i g = Inr nr"
    using wf k status_ok_nth [of "as_ncn_reward_router ?a" "unat k"]
    by (auto simp: ncn_reward_router_status_def at_index_def wf_account_status_def)
  moreover have "\<exists>p. at_index (st_operator_snapshot_progress s) i = Inr p" using wf i by (simp add: at_index_def)
  moreover have "\<exists>q. ncn_distribution_progress s i g = Inr q"
    using wf k by (simp add: ncn_distribution_progress_def at_index_def)
  ultimately show ?thesis using wf get_account_status_total by (simp add: wf_account_status_def)
qed

text \<open>The routers of an epoch do not share slots: for the 256 operators and the eight fee groups,
  setting the status of one router succeeds, reads back, and leaves the status of every other operator
  and group alone.\<close>

theorem ncn_router_slots:
  assumes "wf_account_status a" and "i < 256" and "j < 256"
    and "ncn_fee_group_try_from u = Inr g" and "ncn_fee_group_try_from v = Inr h"
  shows "\<exists>b. set_ncn_reward_router a i g st = Inr b \<and> wf_account_status b \<and>
    ncn_reward_router_status b j h = (if (j, h) = (i, g) then Inr st else ncn_reward_router_status a j h)"
proof -
  have valid: "router_valid (i, g)" "router_valid (j, h)"
    using group_of_byte [OF assms(4)] group_of_byte [OF assms(5)] assms(2,3) by (simp_all add: router_valid_def)
  have set: "set_ncn_reward_router a i g st =
      rbind (routers.write_at (as_ncn_reward_router a) (i, g) (account_status_as_u8 st))
        (\<lambda>xs. Inr (a\<lparr>as_ncn_reward_router := xs\<rparr>))"
    by (simp add: set_ncn_reward_router_def routers.write_at_def rbind_assoc)
  have get: "ncn_reward_router_status b j h =
      rbind (routers.read_at (as_ncn_reward_router b) (j, h)) get_account_status" for b
    by (simp add: ncn_reward_router_status_def routers.read_at_def rbind_assoc)
  have "length (as_ncn_reward_router a) = MAX_OPERATORS * FEE_GROUP_COUNT"
    using assms(1) by (simp add: wf_account_status_def)
  from routers.write_total [OF valid(1) this, of "account_status_as_u8 st"] obtain xs
    where xs: "routers.write_at (as_ncn_reward_router a) (i, g) (account_status_as_u8 st) = Inr xs" by blast
  have ok: "set_ncn_reward_router a i g st = Inr (a\<lparr>as_ncn_reward_router := xs\<rparr>)" by (simp add: set xs)
  show ?thesis
    using ok wf_set_ncn_reward_router [OF assms(1) ok] routers.read_write [OF valid xs]
    by (simp add: get)
qed

section \<open>Stages\<close>

text \<open>The stages in the order of their discriminants.\<close>

primrec epoch_stage_rank :: "epoch_stage \<Rightarrow> nat" where
  "epoch_stage_rank SetWeight = 0"
| "epoch_stage_rank Snapshot = 1"
| "epoch_stage_rank Vote = 2"
| "epoch_stage_rank Distribute = 3"
| "epoch_stage_rank Close = 4"

instantiation epoch_stage :: linorder
begin

definition less_eq_epoch_stage :: "epoch_stage \<Rightarrow> epoch_stage \<Rightarrow> bool" where
  "less_eq_epoch_stage a b \<longleftrightarrow> epoch_stage_rank a \<le> epoch_stage_rank b"

definition less_epoch_stage :: "epoch_stage \<Rightarrow> epoch_stage \<Rightarrow> bool" where
  "less_epoch_stage a b \<longleftrightarrow> epoch_stage_rank a < epoch_stage_rank b"

instance
proof
  fix a b :: epoch_stage
  assume "a \<le> b" and "b \<le> a"
  then show "a = b" by (cases a; cases b) (simp_all add: less_eq_epoch_stage_def)
qed (auto simp: less_eq_epoch_stage_def less_epoch_stage_def)

end

text \<open>The operations of the stages from the vote on: ballot box, votes, tie breaker, root uploads, routers, routing,
  distribution, closing of accounts. They leave the weights and the epoch snapshot's progress alone.\<close>

inductive late_update :: "epoch_state \<Rightarrow> epoch_state \<Rightarrow> bool" where
  "late_update s s"
| "late_update s (update_realloc_ballot_box s)"
| "update_cast_vote s voted reached slot = Inr t \<Longrightarrow> late_update s t"
| "update_set_tie_breaker s reached slot = Inr t \<Longrightarrow> late_update s t"
| "update_set_merkle_root s = Inr t \<Longrightarrow> late_update s t"
| "late_update s (update_realloc_base_reward_router s)"
| "update_realloc_ncn_reward_router s i g = Inr t \<Longrightarrow> late_update s t"
| "late_update s (update_route_base_rewards s rewards)"
| "update_route_ncn_rewards s i g rewards = Inr t \<Longrightarrow> late_update s t"
| "update_distribute_base_rewards s rewards = Inr t \<Longrightarrow> late_update s t"
| "update_distribute_base_ncn_rewards s rewards = Inr t \<Longrightarrow> late_update s t"
| "update_distribute_ncn_rewards s i g rewards = Inr t \<Longrightarrow> late_update s t"
| "late_update s (set_is_closing s)"
| "late_update s (close_weight_table s)"
| "late_update s (close_epoch_snapshot s)"
| "close_operator_snapshot s i = Inr t \<Longrightarrow> late_update s t"
| "late_update s (close_ballot_box s)"
| "late_update s (close_base_reward_router s)"
| "close_ncn_reward_router s i g = Inr t \<Longrightarrow> late_update s t"

text \<open>What the stage of an epoch depends on, and how the late operations change it.\<close>

definition stage_kept :: "epoch_state \<Rightarrow> epoch_state \<Rightarrow> bool" where
  "stage_kept s t \<longleftrightarrow>
    st_set_weight_progress t = st_set_weight_progress s \<and>
    st_epoch_snapshot_progress t = st_epoch_snapshot_progress s \<and>
    (as_weight_table (st_account_status s) \<noteq> 0 \<longrightarrow> as_weight_table (st_account_status t) \<noteq> 0) \<and>
    (as_epoch_snapshot (st_account_status s) \<noteq> 0 \<longrightarrow> as_epoch_snapshot (st_account_status t) \<noteq> 0) \<and>
    (as_ballot_box (st_account_status s) \<noteq> 0 \<longrightarrow> as_ballot_box (st_account_status t) \<noteq> 0) \<and>
    (st_is_consensus_reached s \<longrightarrow> st_slot_consensus_reached t = st_slot_consensus_reached s)"

lemma late_update_kept: "late_update s t \<Longrightarrow> stage_kept s t"
  by (induction rule: late_update.induct)
    (auto simp: stage_kept_def epoch_update_defs rbind_Inr Let_def set_ncn_reward_router_def
      set_operator_snapshot_def put_index_Inr st_is_consensus_reached_def)

lemma stage_kept_refl: "stage_kept s s"
  by (simp add: stage_kept_def)

lemma stage_kept_trans: "stage_kept s t \<Longrightarrow> stage_kept t u \<Longrightarrow> stage_kept s u"
  by (auto simp: stage_kept_def st_is_consensus_reached_def)

lemma late_updates_kept: "late_update\<^sup>*\<^sup>* s t \<Longrightarrow> stage_kept s t"
  by (induction rule: rtranclp_induct) (blast intro: stage_kept_refl stage_kept_trans late_update_kept)+

text \<open>What each stage means, as tests on the account.\<close>

lemma account_dne_Inr: "account_dne u = Inr b \<longleftrightarrow> u \<le> 3 \<and> b = (u = 0)"
proof -
  have "u \<le> 3 \<longleftrightarrow> u = 0 \<or> u = 1 \<or> u = 2 \<or> u = 3"
  proof
    assume "u \<le> 3"
    then have "unat u \<le> 3" by (simp add: word_le_nat_alt)
    then show "u = 0 \<or> u = 1 \<or> u = 2 \<or> u = 3" by (auto simp: word_unat_eq_iff)
  qed auto
  then show ?thesis by (auto simp: account_dne_def get_account_status_def)
qed

lemma or_else_Inr: "or_else a b = Inr c \<longleftrightarrow> (a = Inr True \<and> c) \<or> (a = Inr False \<and> b = Inr c)"
  by (auto simp: or_else_def rbind_Inr split: if_splits)

text \<open>Time and the operations from the vote on only move an epoch forward.\<close>

lemma can_start_routing_later:
  assumes "can_start_routing s v slot = Inr True" and "stage_kept s t" and "slot \<le> slot'" and "v' \<le> v"
  shows "can_start_routing t v' slot' = Inr True"
proof -
  have reached: "st_is_consensus_reached s" using assms(1) by (auto simp: can_start_routing_def split: if_splits)
  then have same: "st_slot_consensus_reached t = st_slot_consensus_reached s"
    using assms(2) by (simp add: stage_kept_def)
  then have later: "st_is_consensus_reached t" using reached by (simp add: st_is_consensus_reached_def)
  obtain d' where d': "checked_add (st_slot_consensus_reached s) v = Some d'" "d' \<le> slot"
    using assms(1) reached
    by (auto simp: can_start_routing_def get_slot_consensus_reached_def rbind_Inr ok_or_Inr split: if_splits)
  let ?c = "st_slot_consensus_reached s"
  have "unat ?c + unat v' < 2 ^ 64"
    using d'(1) assms(4) unat_less_pow [of d'] by (simp add: checked_simps word_le_nat_alt)
  then have "checked_add ?c v' = Some (?c + v')" by (simp add: checked_add_def)
  moreover from this have "?c + v' \<le> slot'"
    using d' assms(3,4) by (simp add: checked_simps word_le_nat_alt)
  moreover have "?c \<noteq> DEFAULT_CONSENSUS_REACHED_SLOT" using reached by (simp add: st_is_consensus_reached_def)
  ultimately show ?thesis using later same by (simp add: can_start_routing_def get_slot_consensus_reached_def)
qed

lemma can_close_later:
  assumes "can_close_epoch_accounts ge s n slot = Inr True" and "stage_kept s t" and "slot \<le> slot'" and "mono ge"
    and "n' \<le> n"
  shows "can_close_epoch_accounts ge t n' slot' = Inr True"
proof -
  have reached: "st_slot_consensus_reached s \<noteq> DEFAULT_CONSENSUS_REACHED_SLOT"
    using assms(1) by (auto simp: can_close_epoch_accounts_def get_epoch_consensus_reached_def
        get_slot_consensus_reached_def split: if_splits)
  then have same: "st_slot_consensus_reached t = st_slot_consensus_reached s"
    using assms(2) by (simp add: stage_kept_def st_is_consensus_reached_def)
  have grows: "saturating_sub (ge slot) c \<le> saturating_sub (ge slot') c" for c
    using monoD [OF assms(4,3)] unat_saturating_sub [of "ge slot" c] unat_saturating_sub [of "ge slot'" c]
    by (simp add: word_le_nat_alt)
  have "n \<le> saturating_sub (ge slot) c \<Longrightarrow> n' \<le> saturating_sub (ge slot') c" for c
    by (rule order_trans [OF assms(5) order_trans [OF _ grows]])
  then show ?thesis using assms(1) reached same
    by (simp add: can_close_epoch_accounts_def get_epoch_consensus_reached_def get_slot_consensus_reached_def Let_def)
qed

definition weights_ready :: "epoch_state \<Rightarrow> bool" where
  "weights_ready s \<longleftrightarrow> as_weight_table (st_account_status s) \<noteq> 0 \<and> progress_is_complete (st_set_weight_progress s)"

definition snapshot_ready :: "epoch_state \<Rightarrow> bool" where
  "snapshot_ready s \<longleftrightarrow> weights_ready s \<and>
    as_epoch_snapshot (st_account_status s) \<noteq> 0 \<and> progress_is_complete (st_epoch_snapshot_progress s)"

definition routing_ready :: "epoch_state \<Rightarrow> u64 \<Rightarrow> u64 \<Rightarrow> bool" where
  "routing_ready s v slot \<longleftrightarrow> snapshot_ready s \<and>
    as_ballot_box (st_account_status s) \<noteq> 0 \<and> can_start_routing s v slot = Inr True"

lemma current_state_Inr:
  assumes "current_state ge s v n slot = Inr a"
  shows "Snapshot \<le> a \<longleftrightarrow> weights_ready s" and "Vote \<le> a \<longleftrightarrow> snapshot_ready s"
    and "Distribute \<le> a \<longleftrightarrow> routing_ready s v slot"
    and "Close \<le> a \<longleftrightarrow> routing_ready s v slot \<and> can_close_epoch_accounts ge s n slot = Inr True"
  using assms
  by (auto simp: current_state_def rbind_Inr or_else_Inr account_dne_Inr weights_ready_def snapshot_ready_def
      routing_ready_def less_eq_epoch_stage_def split: if_splits)

lemma stage_leI:
  assumes "Snapshot \<le> a \<Longrightarrow> Snapshot \<le> b" and "Vote \<le> a \<Longrightarrow> Vote \<le> b"
    and "Distribute \<le> a \<Longrightarrow> Distribute \<le> b" and "Close \<le> a \<Longrightarrow> Close \<le> (b :: epoch_stage)"
  shows "a \<le> b"
  using assms by (cases a; cases b) (simp_all add: less_eq_epoch_stage_def)

lemma ready_later:
  assumes "stage_kept s t"
  shows "weights_ready s \<Longrightarrow> weights_ready t" and "snapshot_ready s \<Longrightarrow> snapshot_ready t"
    and "routing_ready s v slot \<Longrightarrow> slot \<le> slot' \<Longrightarrow> v' \<le> v \<Longrightarrow> routing_ready t v' slot'"
  using assms can_start_routing_later [OF _ assms]
  by (auto simp: weights_ready_def snapshot_ready_def routing_ready_def stage_kept_def)


section \<open>A sample epoch\<close>

text \<open>An epoch with one mint and one operator, voted on at slot 500.\<close>

definition voted_epoch :: epoch_state where
  "voted_epoch =
    (update_realloc_ballot_box (update_initialize_epoch_snapshot (update_set_weight
      (update_realloc_weight_table (epoch_state_initialize zero_epoch_state [1] 7 255 100) 1 1) 1 1) 1))
    \<lparr>st_epoch_snapshot_progress := \<lparr>pr_tally = 1, pr_total = 1\<rparr>, st_slot_consensus_reached := 500\<rparr>"

lemmas voted_epoch_defs =
  voted_epoch_def update_realloc_ballot_box_def update_initialize_epoch_snapshot_def update_set_weight_def
  update_realloc_weight_table_def epoch_state_initialize_def zero_epoch_state_def progress_new_def
  progress_set_tally_def progress_set_total_def progress_is_complete_def progress_is_invalid_def
  PROGRESS_INVALID_def epoch_account_status_default_def

lemma voted_epoch_stages:
  "current_state (\<lambda>slot. slot div 432000) voted_epoch 1000 10 1499 = Inr Vote"
  "current_state (\<lambda>slot. slot div 432000) voted_epoch 1000 10 1500 = Inr Distribute"
  "current_state (\<lambda>slot. slot div 432000) voted_epoch 1000 10 4320000 = Inr Close"
  by (simp_all add: current_state_def or_else_def account_dne_def get_account_status_def voted_epoch_defs
      can_start_routing_def st_is_consensus_reached_def get_slot_consensus_reached_def checked_add_def
      DEFAULT_CONSENSUS_REACHED_SLOT_def can_close_epoch_accounts_def get_epoch_consensus_reached_def
      saturating_sub_def)

lemma div_mono_word: "mono (\<lambda>slot :: u64. slot div 432000)"
  by (simp add: mono_def word_le_nat_alt unat_div_distrib div_le_mono)


lemma fresh_epoch_wf: "wf_account_status epoch_account_status_default"
  using epoch_reachable_wf [OF epoch_reachable.created [of "[1]" 7 255 100]]
  by (simp add: wf_epoch_state_def epoch_state_initialize_def zero_epoch_state_def)

theorem ncn_router_slots_witness:
  "\<exists>b. set_ncn_reward_router epoch_account_status_default 1 (ncn_fee_group_new Ncn_Default) Created = Inr b \<and>
    ncn_reward_router_status b 0 (ncn_fee_group_new Ncn_Reserved7) =
    ncn_reward_router_status epoch_account_status_default 0 (ncn_fee_group_new Ncn_Reserved7)"
  using ncn_router_slots [OF fresh_epoch_wf, of 1 0 0 "ncn_fee_group_new Ncn_Default" 7
      "ncn_fee_group_new Ncn_Reserved7" Created]
  by (auto simp: ncn_fee_group_try_from_def)

end
