(* ===== verification/Config.thy ===== *)
theory Config
  imports Fees
begin

text \<open>
  \<open>core/src/config.rs\<close> and \<open>core/src/epoch_marker.rs\<close>: the configuration of an NCN and the marker that
  remains of a closed epoch.
\<close>

record config =
  cf_ncn :: pubkey
  cf_tie_breaker_admin :: pubkey
  cf_fee_admin :: pubkey
  cf_valid_slots_after_consensus :: u64
  cf_epochs_before_stall :: u64
  cf_fee_config :: fee_config
  cf_bump :: u8
  cf_epochs_after_consensus_before_close :: u64
  cf_starting_valid_epoch :: u64

datatype config_admin_role = FeeAdmin | TieBreakerAdmin

definition config_new ::
    "pubkey \<Rightarrow> pubkey \<Rightarrow> pubkey \<Rightarrow> fee_config \<Rightarrow> u64 \<Rightarrow> u64 \<Rightarrow> u64 \<Rightarrow> u64 \<Rightarrow> u8 \<Rightarrow> config" where
  "config_new ncn tie_breaker_admin fee_admin fc starting_valid_epoch valid_slots_after_consensus
      epochs_before_stall epochs_after_consensus_before_close bump =
    \<lparr>cf_ncn = ncn, cf_tie_breaker_admin = tie_breaker_admin, cf_fee_admin = fee_admin,
     cf_valid_slots_after_consensus = valid_slots_after_consensus,
     cf_epochs_before_stall = epochs_before_stall, cf_fee_config = fc, cf_bump = bump,
     cf_epochs_after_consensus_before_close = epochs_after_consensus_before_close,
     cf_starting_valid_epoch = starting_valid_epoch\<rparr>"

record epoch_marker =
  em_ncn :: pubkey
  em_epoch :: u64
  em_slot_closed :: u64

definition epoch_marker_new :: "pubkey \<Rightarrow> u64 \<Rightarrow> u64 \<Rightarrow> epoch_marker" where
  "epoch_marker_new ncn epoch slot_closed = \<lparr>em_ncn = ncn, em_epoch = epoch, em_slot_closed = slot_closed\<rparr>"

text \<open>What zeroed bytes read as.\<close>

definition zero_fees :: fees where
  "zero_fees = \<lparr>fees_activation_epoch = 0, base_fee_groups_bps = replicate 8 \<lparr>fee_fee = 0\<rparr>,
     ncn_fee_groups_bps = replicate 8 \<lparr>fee_fee = 0\<rparr>\<rparr>"

definition zero_fee_config :: fee_config where
  "zero_fee_config = \<lparr>block_engine_fee_bps = 0, base_fee_wallets = replicate 8 default_pubkey,
     fee_1 = zero_fees, fee_2 = zero_fees\<rparr>"

definition zero_config :: config where
  "zero_config = config_new default_pubkey default_pubkey default_pubkey zero_fee_config 0 0 0 0 0"

definition zero_epoch_marker :: epoch_marker where
  "zero_epoch_marker = epoch_marker_new default_pubkey 0 0"

end
