(* ===== verification/Seeds.thy ===== *)
theory Seeds
  imports Merkle Fee_Groups
begin

text \<open>
  The seeds of every program address (\<open>seeds\<close> and \<open>find_program_address\<close> of the files of \<open>core/src\<close>): a
  name, then the keys, group and epoch of the account. The address is a hash of the seeds joined
  together, without separators; what is shown here is that the joined seeds of two accounts differ
  unless kind, keys, group and epoch all agree, so that no account can take the place of another.
\<close>

section \<open>Model\<close>

text \<open>A byte string literal \<open>b"\<dots>".to_vec()\<close>.\<close>

definition ascii :: "string \<Rightarrow> u8 list" where
  "ascii s = map of_char s"

definition config_seeds :: "pubkey \<Rightarrow> u8 list list" where
  "config_seeds ncn = [ascii ''config'', ncn]"

definition vault_registry_seeds :: "pubkey \<Rightarrow> u8 list list" where
  "vault_registry_seeds ncn = [ascii ''vault_registry'', ncn]"

definition weight_table_seeds :: "pubkey \<Rightarrow> u64 \<Rightarrow> u8 list list" where
  "weight_table_seeds ncn ncn_epoch = [ascii ''weight_table'', ncn, to_le_bytes ncn_epoch]"

definition epoch_snapshot_seeds :: "pubkey \<Rightarrow> u64 \<Rightarrow> u8 list list" where
  "epoch_snapshot_seeds ncn ncn_epoch = [ascii ''epoch_snapshot'', ncn, to_le_bytes ncn_epoch]"

definition operator_snapshot_seeds :: "pubkey \<Rightarrow> pubkey \<Rightarrow> u64 \<Rightarrow> u8 list list" where
  "operator_snapshot_seeds operator ncn ncn_epoch =
    [ascii ''operator_snapshot'', operator, ncn, to_le_bytes ncn_epoch]"

definition ballot_box_seeds :: "pubkey \<Rightarrow> u64 \<Rightarrow> u8 list list" where
  "ballot_box_seeds ncn epoch = [ascii ''ballot_box'', ncn, to_le_bytes epoch]"

definition base_reward_router_seeds :: "pubkey \<Rightarrow> u64 \<Rightarrow> u8 list list" where
  "base_reward_router_seeds ncn ncn_epoch = [ascii ''base_reward_router'', ncn, to_le_bytes ncn_epoch]"

definition base_reward_receiver_seeds :: "pubkey \<Rightarrow> u64 \<Rightarrow> u8 list list" where
  "base_reward_receiver_seeds ncn epoch = [ascii ''base_reward_receiver'', ncn, to_le_bytes epoch]"

definition ncn_reward_router_seeds :: "ncn_fee_group \<Rightarrow> pubkey \<Rightarrow> pubkey \<Rightarrow> u64 \<Rightarrow> u8 list list" where
  "ncn_reward_router_seeds g operator ncn epoch =
    [ascii ''ncn_reward_router'', [ncn_group g], operator, ncn, to_le_bytes epoch]"

definition ncn_reward_receiver_seeds :: "ncn_fee_group \<Rightarrow> pubkey \<Rightarrow> pubkey \<Rightarrow> u64 \<Rightarrow> u8 list list" where
  "ncn_reward_receiver_seeds g operator ncn epoch =
    [ascii ''ncn_reward_receiver'', [ncn_group g], operator, ncn, to_le_bytes epoch]"

definition epoch_state_seeds :: "pubkey \<Rightarrow> u64 \<Rightarrow> u8 list list" where
  "epoch_state_seeds ncn epoch = [ascii ''epoch_state'', ncn, to_le_bytes epoch]"

definition epoch_marker_seeds :: "pubkey \<Rightarrow> u64 \<Rightarrow> u8 list list" where
  "epoch_marker_seeds ncn epoch = [ascii ''epoch_marker'', ncn, to_le_bytes epoch]"

definition account_payer_seeds :: "pubkey \<Rightarrow> u8 list list" where
  "account_payer_seeds ncn = [ascii ''account_payer'', ncn]"

text \<open>The accounts of the program, and the seeds \<open>find_program_address\<close> hashes for each. The marker and the
  payer push the key of the NCN a second time.\<close>

datatype program_account =
    Config_Account pubkey
  | Vault_Registry_Account pubkey
  | Weight_Table_Account pubkey u64
  | Epoch_Snapshot_Account pubkey u64
  | Operator_Snapshot_Account pubkey pubkey u64
  | Ballot_Box_Account pubkey u64
  | Base_Reward_Router_Account pubkey u64
  | Base_Reward_Receiver_Account pubkey u64
  | Ncn_Reward_Router_Account ncn_fee_group pubkey pubkey u64
  | Ncn_Reward_Receiver_Account ncn_fee_group pubkey pubkey u64
  | Epoch_State_Account pubkey u64
  | Epoch_Marker_Account pubkey u64
  | Account_Payer_Account pubkey

primrec pda_seeds :: "program_account \<Rightarrow> u8 list list" where
  "pda_seeds (Config_Account ncn) = config_seeds ncn"
| "pda_seeds (Vault_Registry_Account ncn) = vault_registry_seeds ncn"
| "pda_seeds (Weight_Table_Account ncn e) = weight_table_seeds ncn e"
| "pda_seeds (Epoch_Snapshot_Account ncn e) = epoch_snapshot_seeds ncn e"
| "pda_seeds (Operator_Snapshot_Account operator ncn e) = operator_snapshot_seeds operator ncn e"
| "pda_seeds (Ballot_Box_Account ncn e) = ballot_box_seeds ncn e"
| "pda_seeds (Base_Reward_Router_Account ncn e) = base_reward_router_seeds ncn e"
| "pda_seeds (Base_Reward_Receiver_Account ncn e) = base_reward_receiver_seeds ncn e"
| "pda_seeds (Ncn_Reward_Router_Account g operator ncn e) = ncn_reward_router_seeds g operator ncn e"
| "pda_seeds (Ncn_Reward_Receiver_Account g operator ncn e) = ncn_reward_receiver_seeds g operator ncn e"
| "pda_seeds (Epoch_State_Account ncn e) = epoch_state_seeds ncn e"
| "pda_seeds (Epoch_Marker_Account ncn e) = epoch_marker_seeds ncn e @ [ncn]"
| "pda_seeds (Account_Payer_Account ncn) = account_payer_seeds ncn @ [ncn]"

section \<open>Addresses are unambiguous\<close>

text \<open>Public keys are 32 bytes long.\<close>

primrec keys_ok :: "program_account \<Rightarrow> bool" where
  "keys_ok (Config_Account ncn) \<longleftrightarrow> length ncn = 32"
| "keys_ok (Vault_Registry_Account ncn) \<longleftrightarrow> length ncn = 32"
| "keys_ok (Weight_Table_Account ncn e) \<longleftrightarrow> length ncn = 32"
| "keys_ok (Epoch_Snapshot_Account ncn e) \<longleftrightarrow> length ncn = 32"
| "keys_ok (Operator_Snapshot_Account operator ncn e) \<longleftrightarrow> length operator = 32 \<and> length ncn = 32"
| "keys_ok (Ballot_Box_Account ncn e) \<longleftrightarrow> length ncn = 32"
| "keys_ok (Base_Reward_Router_Account ncn e) \<longleftrightarrow> length ncn = 32"
| "keys_ok (Base_Reward_Receiver_Account ncn e) \<longleftrightarrow> length ncn = 32"
| "keys_ok (Ncn_Reward_Router_Account g operator ncn e) \<longleftrightarrow> length operator = 32 \<and> length ncn = 32"
| "keys_ok (Ncn_Reward_Receiver_Account g operator ncn e) \<longleftrightarrow> length operator = 32 \<and> length ncn = 32"
| "keys_ok (Epoch_State_Account ncn e) \<longleftrightarrow> length ncn = 32"
| "keys_ok (Epoch_Marker_Account ncn e) \<longleftrightarrow> length ncn = 32"
| "keys_ok (Account_Payer_Account ncn) \<longleftrightarrow> length ncn = 32"

lemmas seeds_defs =
  config_seeds_def vault_registry_seeds_def weight_table_seeds_def epoch_snapshot_seeds_def
  operator_snapshot_seeds_def ballot_box_seeds_def base_reward_router_seeds_def
  base_reward_receiver_seeds_def ncn_reward_router_seeds_def ncn_reward_receiver_seeds_def
  epoch_state_seeds_def epoch_marker_seeds_def account_payer_seeds_def ascii_def

lemma length_le_bytes [simp]: "length (to_le_bytes e) = 8"
  by (simp add: to_le_bytes_def)

lemma le_bytes_inject [simp]: "to_le_bytes a = to_le_bytes b \<longleftrightarrow> a = b"
proof
  assume eq: "to_le_bytes a = to_le_bytes b"
  show "a = b"
  proof (rule bit_word_eqI)
    fix n assume n: "n < LENGTH(64)"
    then have "n div 8 < 8" by simp
    then have "to_le_bytes a ! (n div 8) = (ucast (drop_bit (8 * (n div 8)) a) :: u8)"
        "to_le_bytes b ! (n div 8) = (ucast (drop_bit (8 * (n div 8)) b) :: u8)"
      by (simp_all add: to_le_bytes_def)
    with eq have "bit (ucast (drop_bit (8 * (n div 8)) a) :: u8) (n mod 8) =
        bit (ucast (drop_bit (8 * (n div 8)) b) :: u8) (n mod 8)" by simp
    then show "bit a n = bit b n" by (simp add: bit_simps)
  qed
qed simp

lemma joined_seeds_inject:
  "keys_ok p \<Longrightarrow> keys_ok q \<Longrightarrow> concat (pda_seeds p) = concat (pda_seeds q) \<longleftrightarrow> p = q"
  by (cases p; cases q) (auto simp: seeds_defs)

text \<open>C37. No account of the program can be passed for another: if the joined seeds of two accounts are the
  same bytes, they are the same kind of account of the same NCN, operator, fee group and epoch. And all
  seeds are within the limits of the address derivation, at most 32 bytes each and, with the bump, at
  most 16 of them.\<close>

theorem pda_seeds_unambiguous:
  assumes "keys_ok p" and "keys_ok q"
  shows "(concat (pda_seeds p) = concat (pda_seeds q) \<longleftrightarrow> p = q) \<and>
    length (pda_seeds p) + 1 \<le> 16 \<and> list_all (\<lambda>seed. length seed \<le> 32) (pda_seeds p)"
proof (intro conjI)
  show "concat (pda_seeds p) = concat (pda_seeds q) \<longleftrightarrow> p = q" using assms by (rule joined_seeds_inject)
  show "length (pda_seeds p) + 1 \<le> 16" by (cases p) (simp_all add: seeds_defs)
  show "list_all (\<lambda>seed. length seed \<le> 32) (pda_seeds p)"
    using assms(1) by (cases p) (simp_all add: seeds_defs)
qed

theorem pda_seeds_unambiguous_witness:
  "concat (pda_seeds (Epoch_State_Account (replicate 32 7) 5)) \<noteq>
   concat (pda_seeds (Epoch_Marker_Account (replicate 32 7) 5))"
  using pda_seeds_unambiguous [of "Epoch_State_Account (replicate 32 7) 5" "Epoch_Marker_Account (replicate 32 7) 5"]
  by simp

end
