(* ===== verification/Ledger.thy ===== *)
theory Ledger
  imports Config Seeds Weight_Table Snapshot_Protocol Ballot_Box Base_Reward_Router Ncn_Reward_Router Epoch_State
begin

text \<open>
  Accounts as the handlers see them (\<open>core/src/loaders.rs\<close>, \<open>core/src/utils.rs\<close>,
  \<open>core/src/discriminators.rs\<close>, \<open>core/src/account_payer.rs\<close>, \<open>core/src/epoch_marker.rs\<close> and the \<open>load\<close>
  functions of every account): a ledger maps addresses to accounts, the handler gets the addresses with
  the flags of the transaction, the bytes of an account of this program are the value they encode.
  The Solana runtime and the programs it calls are the record \<open>runtime\<close>.
\<close>

section \<open>The ledger\<close>

datatype 'x account_data =
    Zeroed
  | Config_Data config
  | Vault_Registry_Data vault_registry
  | Weight_Table_Data weight_table
  | Epoch_Snapshot_Data epoch_snapshot
  | Operator_Snapshot_Data operator_snapshot
  | Ballot_Box_Data ballot_box
  | Base_Reward_Router_Data base_reward_router
  | Ncn_Reward_Router_Data ncn_reward_router
  | Epoch_State_Data epoch_state
  | Epoch_Marker_Data epoch_marker
  | Foreign_Data 'x

text \<open>An account: lamports, owning program, length of its data, first byte of its data, the value the
  rest encodes. \<open>AccountInfo\<close>: an address and the flags it was passed with.\<close>

record 'x account =
  ac_lamports :: u64
  ac_owner :: pubkey
  ac_len :: u64
  ac_disc :: u8
  ac_data :: "'x account_data"

type_synonym 'x ledger = "pubkey \<Rightarrow> 'x account"

record account_info =
  ai_key :: pubkey
  ai_is_signer :: bool
  ai_is_writable :: bool

text \<open>
  The runtime: the sysvars, the derivation of program addresses, the check \<open>try_from_slice_unchecked\<close> makes
  on discriminator and length before it casts the bytes (given the expected discriminator and size), and
  the invocations of the system program (with the seeds that sign) and \<open>AccountInfo::realloc\<close>.
\<close>

record 'x runtime =
  rt_slot :: u64
  rt_epoch :: u64
  rt_get_epoch :: "u64 \<Rightarrow> u64"
  rt_minimum_balance :: "u64 \<Rightarrow> u64"
  rt_find_program_address :: "u8 list list \<Rightarrow> pubkey \<Rightarrow> pubkey \<times> u8"
  rt_cast :: "u8 \<Rightarrow> u64 \<Rightarrow> u8 \<Rightarrow> u64 \<Rightarrow> program_error + unit"
  rt_transfer :: "account_info \<Rightarrow> account_info \<Rightarrow> u64 \<Rightarrow> u8 list list \<Rightarrow> 'x ledger \<Rightarrow> program_error + 'x ledger"
  rt_allocate :: "account_info \<Rightarrow> u64 \<Rightarrow> u8 list list \<Rightarrow> 'x ledger \<Rightarrow> program_error + 'x ledger"
  rt_assign :: "account_info \<Rightarrow> pubkey \<Rightarrow> u8 list list \<Rightarrow> 'x ledger \<Rightarrow> program_error + 'x ledger"
  rt_realloc :: "account_info \<Rightarrow> u64 \<Rightarrow> 'x ledger \<Rightarrow> program_error + 'x ledger"

definition system_program_id :: pubkey where
  "system_program_id = replicate 32 0"

section \<open>Discriminators and sizes\<close>

datatype discriminators =
    D_Config | D_VaultRegistry | D_WeightTable | D_EpochSnapshot | D_OperatorSnapshot | D_BallotBox
  | D_BaseRewardRouter | D_NcnRewardRouter | D_EpochState | D_EpochMarker

primrec discriminator :: "discriminators \<Rightarrow> u8" where
  "discriminator D_Config = 0x01"
| "discriminator D_VaultRegistry = 0x02"
| "discriminator D_WeightTable = 0x10"
| "discriminator D_EpochSnapshot = 0x11"
| "discriminator D_OperatorSnapshot = 0x12"
| "discriminator D_BallotBox = 0x20"
| "discriminator D_BaseRewardRouter = 0x40"
| "discriminator D_NcnRewardRouter = 0x41"
| "discriminator D_EpochState = 0x50"
| "discriminator D_EpochMarker = 0x51"

text \<open>\<open>8 + size_of::<Self>()\<close>, field by field in the order of the structs (all of alignment one).\<close>

definition fees_size :: u64 where "fees_size = 8 + 128 + 8 * 2 + 8 * 2"
definition fee_config_size :: u64 where "fee_config_size = 2 + 8 * 32 + 128 + fees_size + fees_size"
definition stake_weights_size :: u64 where "stake_weights_size = 16 + 8 * 16"
definition ballot_size :: u64 where "ballot_size = 32 + 1 + 63"
definition ballot_tally_size :: u64 where "ballot_tally_size = 2 + ballot_size + stake_weights_size + 8"
definition operator_vote_size :: u64 where "operator_vote_size = 32 + 8 + stake_weights_size + 2 + 64"
definition st_mint_entry_size :: u64 where "st_mint_entry_size = 32 + 1 + 8 + 32 + 16 + 128"
definition vault_entry_size :: u64 where "vault_entry_size = 32 + 32 + 8 + 8 + 128"
definition weight_entry_size :: u64 where "weight_entry_size = st_mint_entry_size + 16 + 8 + 8 + 128"
definition vault_operator_stake_weight_size :: u64 where
  "vault_operator_stake_weight_size = 32 + 8 + 1 + stake_weights_size + 32"
definition epoch_account_status_size :: u64 where
  "epoch_account_status_size = 1 + 1 + 1 + 256 + 1 + 1 + 2048"
definition progress_size :: u64 where "progress_size = 8 + 8 + 8"

definition account_size :: "discriminators \<Rightarrow> u64" where
  "account_size d = (case d of
      D_Config \<Rightarrow> 8 + (32 + 32 + 32 + 8 + 8 + fee_config_size + 1 + 8 + 8 + 111)
    | D_VaultRegistry \<Rightarrow> 8 + (32 + 1 + 127 + 64 * st_mint_entry_size + 64 * vault_entry_size)
    | D_WeightTable \<Rightarrow> 8 + (32 + 8 + 8 + 8 + 1 + 128 + 64 * vault_entry_size + 64 * weight_entry_size)
    | D_EpochSnapshot \<Rightarrow> 8 + (32 + 8 + 1 + 8 + 8 + fees_size + 8 + 8 + 8 + 8 + stake_weights_size + 128)
    | D_OperatorSnapshot \<Rightarrow> 8 + (32 + 32 + 8 + 1 + 8 + 8 + 1 + 8 + 8 + 2 + 8 + 8 + 8 + stake_weights_size + 256 +
        64 * vault_operator_stake_weight_size)
    | D_BallotBox \<Rightarrow> 8 + (32 + 8 + 1 + 8 + 8 + 128 + 8 + 8 + ballot_size + 256 * operator_vote_size +
        256 * ballot_tally_size)
    | D_BaseRewardRouter \<Rightarrow> 8 + (32 + 8 + 1 + 8 + 8 + 8 + 8 + 128 + 1 + 2 + 8 + 8 * 8 + 8 * 8 + 256 * (32 + 8 * 8))
    | D_NcnRewardRouter \<Rightarrow> 8 + (1 + 32 + 32 + 8 + 1 + 8 + 8 + 8 + 8 + 8 + 8 + 128 + 8 + 2 + 64 * (32 + 8))
    | D_EpochState \<Rightarrow> 8 + (32 + 8 + 1 + 8 + 1 + 8 + 8 + 8 + epoch_account_status_size + progress_size + progress_size +
        256 * progress_size + 5 * progress_size + 2048 * progress_size + 1 + 1023)
    | D_EpochMarker \<Rightarrow> 8 + (32 + 8 + 8))"

end
