(* ===== verification/Loaders.thy ===== *)
theory Loaders
  imports Ledger
begin

text \<open>
  Reading, writing, creating, growing and closing accounts: the typed view of the bytes of an account
  (\<open>try_from_slice_unchecked\<close>), \<open>check_load\<close> and the \<open>load\<close> functions built on it, the account payer, the
  epoch marker and the receivers. Aborted instructions leave the ledger unchanged, so an error carries no
  ledger.
\<close>

section \<open>Typed views\<close>

text \<open>What a zeroed account of each type reads as.\<close>

definition zero_stake_weights :: stake_weights where
  "zero_stake_weights = \<lparr>sw_stake_weight = 0, sw_group_weights = replicate 8 \<lparr>ngw_weight = 0\<rparr>\<rparr>"

definition zero_st_mint_entry :: st_mint_entry where
  "zero_st_mint_entry = st_mint_entry_new default_pubkey \<lparr>ncn_group = 0\<rparr> 0 default_pubkey 0"

definition zero_vault_entry :: vault_entry where
  "zero_vault_entry = vault_entry_new default_pubkey default_pubkey 0 0"

definition zero_vault_registry :: vault_registry where
  "zero_vault_registry = \<lparr>vr_ncn = default_pubkey, vr_bump = 0,
     vr_st_mint_list = replicate MAX_ST_MINTS zero_st_mint_entry,
     vr_vault_list = replicate MAX_VAULTS zero_vault_entry\<rparr>"

definition zero_weight_table :: weight_table where
  "zero_weight_table = \<lparr>wt_ncn = default_pubkey, wt_epoch = 0, wt_slot_created = 0, wt_vault_count = 0, wt_bump = 0,
     wt_vault_registry = replicate MAX_VAULTS zero_vault_entry,
     wt_table = replicate MAX_ST_MINTS
       \<lparr>we_st_mint_entry = zero_st_mint_entry, we_weight = 0, we_slot_set = 0, we_slot_updated = 0\<rparr>\<rparr>"

definition zero_epoch_snapshot :: epoch_snapshot where
  "zero_epoch_snapshot = \<lparr>es_ncn = default_pubkey, es_epoch = 0, es_bump = 0, es_slot_created = 0,
     es_slot_finalized = 0, es_fees = zero_fees, es_operator_count = 0, es_vault_count = 0,
     es_operators_registered = 0, es_valid_operator_vault_delegations = 0,
     es_stake_weights = zero_stake_weights\<rparr>"

definition zero_operator_snapshot :: operator_snapshot where
  "zero_operator_snapshot = \<lparr>os_operator = default_pubkey, os_ncn = default_pubkey, os_ncn_epoch = 0, os_bump = 0,
     os_slot_created = 0, os_slot_finalized = 0, os_is_active = False, os_ncn_operator_index = 0,
     os_operator_index = 0, os_operator_fee_bps = 0, os_vault_operator_delegation_count = 0,
     os_vault_operator_delegations_registered = 0, os_valid_operator_vault_delegations = 0,
     os_stake_weights = zero_stake_weights,
     os_vault_operator_stake_weight = replicate MAX_VAULTS
       \<lparr>vw_vault = default_pubkey, vw_vault_index = 0, vw_ncn_fee_group = \<lparr>ncn_group = 0\<rparr>,
        vw_stake_weight = zero_stake_weights\<rparr>\<rparr>"

definition zero_ballot :: ballot where
  "zero_ballot = \<lparr>meta_merkle_root = replicate 32 0, ballot_is_valid = False\<rparr>"

definition zero_ballot_box :: ballot_box where
  "zero_ballot_box = \<lparr>bb_ncn = default_pubkey, bb_epoch = 0, bb_bump = 0, bb_slot_created = 0,
     bb_slot_consensus_reached = 0, bb_operators_voted = 0, bb_unique_ballots = 0,
     bb_winning_ballot = zero_ballot,
     bb_operator_votes = replicate MAX_OPERATORS
       \<lparr>ov_operator = default_pubkey, ov_slot_voted = 0, ov_stake_weights = zero_stake_weights, ov_ballot_index = 0\<rparr>,
     bb_ballot_tallies = replicate MAX_OPERATORS
       \<lparr>bt_index = 0, bt_ballot = zero_ballot, bt_stake_weights = zero_stake_weights, bt_tally = 0\<rparr>\<rparr>"

definition zero_base_reward_router :: base_reward_router where
  "zero_base_reward_router = \<lparr>br_ncn = default_pubkey, br_epoch = 0, br_bump = 0, br_slot_created = 0,
     br_total_rewards = 0, br_reward_pool = 0, br_rewards_processed = 0, br_last_ncn_group_index = 0,
     br_last_vote_index = 0, br_last_rewards_to_process = 0,
     br_base_fee_group_rewards = replicate 8 \<lparr>brw_rewards = 0\<rparr>,
     br_ncn_fee_group_rewards = replicate 8 \<lparr>brw_rewards = 0\<rparr>,
     br_ncn_fee_group_reward_routes = replicate MAX_OPERATORS
       \<lparr>nrr_operator = default_pubkey, nrr_ncn_fee_group_rewards = replicate 8 \<lparr>brw_rewards = 0\<rparr>\<rparr>\<rparr>"

definition zero_ncn_reward_router :: ncn_reward_router where
  "zero_ncn_reward_router = \<lparr>nr_ncn_fee_group = \<lparr>ncn_group = 0\<rparr>, nr_operator = default_pubkey, nr_ncn = default_pubkey,
     nr_epoch = 0, nr_bump = 0, nr_slot_created = 0, nr_ncn_operator_index = 0, nr_total_rewards = 0,
     nr_reward_pool = 0, nr_rewards_processed = 0, nr_operator_rewards = 0, nr_last_rewards_to_process = 0,
     nr_last_vault_operator_delegation_index = 0,
     nr_vault_reward_routes = replicate MAX_VAULTS \<lparr>vrr_vault = default_pubkey, vrr_rewards = 0\<rparr>\<rparr>"

text \<open>
  The cast: the runtime checks discriminator and length, then zeroed bytes read as the zero value and
  written bytes as the value they encode. Bytes that encode a value of another type are refused here; the
  accounts of this program never hold them, because creation writes the discriminator and the value
  together.
\<close>

definition cast_data ::
    "('x, 'y) runtime_scheme \<Rightarrow> discriminators \<Rightarrow> 'd \<Rightarrow> ('x account_data \<Rightarrow> 'd option) \<Rightarrow> 'x account \<Rightarrow> program_error + 'd" where
  "cast_data rt d zero value a =
    rbind (rt_cast rt (discriminator d) (account_size d) (ac_disc a) (ac_len a)) (\<lambda>_.
    case ac_data a of Zeroed \<Rightarrow> Inr zero | written \<Rightarrow> ok_or InvalidAccountData (value written))"

definition as_config :: "('x, 'y) runtime_scheme \<Rightarrow> 'x ledger \<Rightarrow> account_info \<Rightarrow> program_error + config" where
  "as_config rt L a = cast_data rt D_Config zero_config
    (\<lambda>d. case d of Config_Data c \<Rightarrow> Some c | _ \<Rightarrow> None) (L (ai_key a))"

definition as_vault_registry :: "('x, 'y) runtime_scheme \<Rightarrow> 'x ledger \<Rightarrow> account_info \<Rightarrow> program_error + vault_registry" where
  "as_vault_registry rt L a = cast_data rt D_VaultRegistry zero_vault_registry
    (\<lambda>d. case d of Vault_Registry_Data r \<Rightarrow> Some r | _ \<Rightarrow> None) (L (ai_key a))"

definition as_weight_table :: "('x, 'y) runtime_scheme \<Rightarrow> 'x ledger \<Rightarrow> account_info \<Rightarrow> program_error + weight_table" where
  "as_weight_table rt L a = cast_data rt D_WeightTable zero_weight_table
    (\<lambda>d. case d of Weight_Table_Data t \<Rightarrow> Some t | _ \<Rightarrow> None) (L (ai_key a))"

definition as_epoch_snapshot :: "('x, 'y) runtime_scheme \<Rightarrow> 'x ledger \<Rightarrow> account_info \<Rightarrow> program_error + epoch_snapshot" where
  "as_epoch_snapshot rt L a = cast_data rt D_EpochSnapshot zero_epoch_snapshot
    (\<lambda>d. case d of Epoch_Snapshot_Data x \<Rightarrow> Some x | _ \<Rightarrow> None) (L (ai_key a))"

definition as_operator_snapshot :: "('x, 'y) runtime_scheme \<Rightarrow> 'x ledger \<Rightarrow> account_info \<Rightarrow> program_error + operator_snapshot" where
  "as_operator_snapshot rt L a = cast_data rt D_OperatorSnapshot zero_operator_snapshot
    (\<lambda>d. case d of Operator_Snapshot_Data x \<Rightarrow> Some x | _ \<Rightarrow> None) (L (ai_key a))"

definition as_ballot_box :: "('x, 'y) runtime_scheme \<Rightarrow> 'x ledger \<Rightarrow> account_info \<Rightarrow> program_error + ballot_box" where
  "as_ballot_box rt L a = cast_data rt D_BallotBox zero_ballot_box
    (\<lambda>d. case d of Ballot_Box_Data x \<Rightarrow> Some x | _ \<Rightarrow> None) (L (ai_key a))"

definition as_base_reward_router :: "('x, 'y) runtime_scheme \<Rightarrow> 'x ledger \<Rightarrow> account_info \<Rightarrow> program_error + base_reward_router" where
  "as_base_reward_router rt L a = cast_data rt D_BaseRewardRouter zero_base_reward_router
    (\<lambda>d. case d of Base_Reward_Router_Data x \<Rightarrow> Some x | _ \<Rightarrow> None) (L (ai_key a))"

definition as_ncn_reward_router :: "('x, 'y) runtime_scheme \<Rightarrow> 'x ledger \<Rightarrow> account_info \<Rightarrow> program_error + ncn_reward_router" where
  "as_ncn_reward_router rt L a = cast_data rt D_NcnRewardRouter zero_ncn_reward_router
    (\<lambda>d. case d of Ncn_Reward_Router_Data x \<Rightarrow> Some x | _ \<Rightarrow> None) (L (ai_key a))"

definition as_epoch_state :: "('x, 'y) runtime_scheme \<Rightarrow> 'x ledger \<Rightarrow> account_info \<Rightarrow> program_error + epoch_state" where
  "as_epoch_state rt L a = cast_data rt D_EpochState zero_epoch_state
    (\<lambda>d. case d of Epoch_State_Data x \<Rightarrow> Some x | _ \<Rightarrow> None) (L (ai_key a))"

definition as_epoch_marker :: "('x, 'y) runtime_scheme \<Rightarrow> 'x ledger \<Rightarrow> account_info \<Rightarrow> program_error + epoch_marker" where
  "as_epoch_marker rt L a = cast_data rt D_EpochMarker zero_epoch_marker
    (\<lambda>d. case d of Epoch_Marker_Data x \<Rightarrow> Some x | _ \<Rightarrow> None) (L (ai_key a))"

text \<open>Writing: the first byte (an index out of range panics), and the value behind a cast. At the end of an
  instruction the runtime rejects a change to the data of an account that the program does not own or
  that was passed read-only; here the write that changes it fails.\<close>

definition may_write :: "pubkey \<Rightarrow> 'x ledger \<Rightarrow> account_info \<Rightarrow> program_error + unit" where
  "may_write program_id L a =
    fail_if (ac_owner (L (ai_key a)) \<noteq> program_id \<or> \<not> ai_is_writable a) ModifiedUnwritableAccount"

definition put_data :: "pubkey \<Rightarrow> 'x ledger \<Rightarrow> account_info \<Rightarrow> 'x account_data \<Rightarrow> program_error + 'x ledger" where
  "put_data program_id L a d =
    (if ac_data (L (ai_key a)) = d then Inr L else
     rbind (may_write program_id L a) (\<lambda>_. Inr (L(ai_key a := (L (ai_key a))\<lparr>ac_data := d\<rparr>))))"

definition put_discriminator :: "pubkey \<Rightarrow> 'x ledger \<Rightarrow> account_info \<Rightarrow> discriminators \<Rightarrow> program_error + 'x ledger" where
  "put_discriminator program_id L a d =
    rbind (fail_if (ac_len (L (ai_key a)) = 0) Panicked) (\<lambda>_.
    if ac_disc (L (ai_key a)) = discriminator d then Inr L else
    rbind (may_write program_id L a) (\<lambda>_. Inr (L(ai_key a := (L (ai_key a))\<lparr>ac_disc := discriminator d\<rparr>))))"

definition data_is_empty :: "'x ledger \<Rightarrow> account_info \<Rightarrow> bool" where
  "data_is_empty L a \<longleftrightarrow> ac_len (L (ai_key a)) = 0"

section \<open>Loading\<close>

definition check_load :: "pubkey \<Rightarrow> 'x ledger \<Rightarrow> account_info \<Rightarrow> pubkey \<Rightarrow> u8 option \<Rightarrow> bool \<Rightarrow> program_error + unit" where
  "check_load program_id L account expected_pda expected_discriminator expect_writable =
    rbind (fail_if (ac_owner (L (ai_key account)) \<noteq> program_id) InvalidAccountOwner) (\<lambda>_.
    rbind (fail_if (ai_key account \<noteq> expected_pda) InvalidAccountData) (\<lambda>_.
    rbind (case expected_discriminator of
        None \<Rightarrow> Inr ()
      | Some d \<Rightarrow>
          rbind (fail_if (data_is_empty L account) InvalidAccountData) (\<lambda>_.
          fail_if (ac_disc (L (ai_key account)) \<noteq> d) InvalidAccountData)) (\<lambda>_.
    fail_if (expect_writable \<and> \<not> ai_is_writable account) InvalidAccountData)))"

definition get_new_size :: "u64 \<Rightarrow> u64 \<Rightarrow> program_error + u64" where
  "get_new_size current_size target_len =
    rbind (ok_or ProgramArithmeticOverflow (checked_add current_size (of_nat MAX_REALLOC_BYTES))) (\<lambda>n.
    Inr (min n target_len))"

text \<open>\<open>find_program_address\<close> of an account: address, bump and seeds.\<close>

definition find_program_address ::
    "('x, 'y) runtime_scheme \<Rightarrow> pubkey \<Rightarrow> program_account \<Rightarrow> pubkey \<times> u8 \<times> u8 list list" where
  "find_program_address rt program_id p =
    (let (address, bump) = rt_find_program_address rt (pda_seeds p) program_id in (address, bump, pda_seeds p))"

definition pda :: "('x, 'y) runtime_scheme \<Rightarrow> pubkey \<Rightarrow> program_account \<Rightarrow> pubkey" where
  "pda rt program_id p = fst (find_program_address rt program_id p)"

definition config_load ::
    "('x, 'y) runtime_scheme \<Rightarrow> pubkey \<Rightarrow> 'x ledger \<Rightarrow> account_info \<Rightarrow> pubkey \<Rightarrow> bool \<Rightarrow> program_error + unit" where
  "config_load rt program_id L account ncn expect_writable =
    check_load program_id L account (pda rt program_id (Config_Account ncn)) (Some (discriminator D_Config)) expect_writable"

definition vault_registry_load ::
    "('x, 'y) runtime_scheme \<Rightarrow> pubkey \<Rightarrow> 'x ledger \<Rightarrow> account_info \<Rightarrow> pubkey \<Rightarrow> bool \<Rightarrow> program_error + unit" where
  "vault_registry_load rt program_id L account ncn expect_writable =
    check_load program_id L account (pda rt program_id (Vault_Registry_Account ncn)) (Some (discriminator D_VaultRegistry)) expect_writable"

definition weight_table_load ::
    "('x, 'y) runtime_scheme \<Rightarrow> pubkey \<Rightarrow> 'x ledger \<Rightarrow> account_info \<Rightarrow> pubkey \<Rightarrow> u64 \<Rightarrow> bool \<Rightarrow> program_error + unit" where
  "weight_table_load rt program_id L account ncn epoch expect_writable =
    check_load program_id L account (pda rt program_id (Weight_Table_Account ncn epoch)) (Some (discriminator D_WeightTable)) expect_writable"

definition epoch_snapshot_load ::
    "('x, 'y) runtime_scheme \<Rightarrow> pubkey \<Rightarrow> 'x ledger \<Rightarrow> account_info \<Rightarrow> pubkey \<Rightarrow> u64 \<Rightarrow> bool \<Rightarrow> program_error + unit" where
  "epoch_snapshot_load rt program_id L account ncn epoch expect_writable =
    check_load program_id L account (pda rt program_id (Epoch_Snapshot_Account ncn epoch)) (Some (discriminator D_EpochSnapshot)) expect_writable"

definition operator_snapshot_load ::
    "('x, 'y) runtime_scheme \<Rightarrow> pubkey \<Rightarrow> 'x ledger \<Rightarrow> account_info \<Rightarrow> pubkey \<Rightarrow> pubkey \<Rightarrow> u64 \<Rightarrow> bool \<Rightarrow> program_error + unit" where
  "operator_snapshot_load rt program_id L account operator ncn epoch expect_writable =
    check_load program_id L account (pda rt program_id (Operator_Snapshot_Account operator ncn epoch)) (Some (discriminator D_OperatorSnapshot)) expect_writable"

definition ballot_box_load ::
    "('x, 'y) runtime_scheme \<Rightarrow> pubkey \<Rightarrow> 'x ledger \<Rightarrow> account_info \<Rightarrow> pubkey \<Rightarrow> u64 \<Rightarrow> bool \<Rightarrow> program_error + unit" where
  "ballot_box_load rt program_id L account ncn epoch expect_writable =
    check_load program_id L account (pda rt program_id (Ballot_Box_Account ncn epoch)) (Some (discriminator D_BallotBox)) expect_writable"

definition base_reward_router_load ::
    "('x, 'y) runtime_scheme \<Rightarrow> pubkey \<Rightarrow> 'x ledger \<Rightarrow> account_info \<Rightarrow> pubkey \<Rightarrow> u64 \<Rightarrow> bool \<Rightarrow> program_error + unit" where
  "base_reward_router_load rt program_id L account ncn epoch expect_writable =
    check_load program_id L account (pda rt program_id (Base_Reward_Router_Account ncn epoch)) (Some (discriminator D_BaseRewardRouter)) expect_writable"

definition ncn_reward_router_load ::
    "('x, 'y) runtime_scheme \<Rightarrow> pubkey \<Rightarrow> 'x ledger \<Rightarrow> account_info \<Rightarrow> ncn_fee_group \<Rightarrow> pubkey \<Rightarrow> pubkey \<Rightarrow> u64 \<Rightarrow> bool \<Rightarrow> program_error + unit" where
  "ncn_reward_router_load rt program_id L account g operator ncn epoch expect_writable =
    check_load program_id L account (pda rt program_id (Ncn_Reward_Router_Account g operator ncn epoch)) (Some (discriminator D_NcnRewardRouter)) expect_writable"

definition epoch_state_load ::
    "('x, 'y) runtime_scheme \<Rightarrow> pubkey \<Rightarrow> 'x ledger \<Rightarrow> account_info \<Rightarrow> pubkey \<Rightarrow> u64 \<Rightarrow> bool \<Rightarrow> program_error + unit" where
  "epoch_state_load rt program_id L account ncn epoch expect_writable =
    check_load program_id L account (pda rt program_id (Epoch_State_Account ncn epoch)) (Some (discriminator D_EpochState)) expect_writable"

definition base_reward_receiver_load ::
    "('x, 'y) runtime_scheme \<Rightarrow> pubkey \<Rightarrow> 'x ledger \<Rightarrow> account_info \<Rightarrow> pubkey \<Rightarrow> u64 \<Rightarrow> bool \<Rightarrow> program_error + unit" where
  "base_reward_receiver_load rt program_id L account ncn epoch expect_writable =
    check_load system_program_id L account (pda rt program_id (Base_Reward_Receiver_Account ncn epoch)) None expect_writable"

definition ncn_reward_receiver_load ::
    "('x, 'y) runtime_scheme \<Rightarrow> pubkey \<Rightarrow> 'x ledger \<Rightarrow> account_info \<Rightarrow> ncn_fee_group \<Rightarrow> pubkey \<Rightarrow> pubkey \<Rightarrow> u64 \<Rightarrow> bool \<Rightarrow> program_error + unit" where
  "ncn_reward_receiver_load rt program_id L account g operator ncn epoch expect_writable =
    check_load system_program_id L account (pda rt program_id (Ncn_Reward_Receiver_Account g operator ncn epoch)) None expect_writable"

definition account_payer_load ::
    "('x, 'y) runtime_scheme \<Rightarrow> pubkey \<Rightarrow> 'x ledger \<Rightarrow> account_info \<Rightarrow> pubkey \<Rightarrow> bool \<Rightarrow> program_error + unit" where
  "account_payer_load rt program_id L account ncn expect_writable =
    check_load system_program_id L account (pda rt program_id (Account_Payer_Account ncn)) None expect_writable"

definition load_and_check_is_closing ::
    "('x, 'y) runtime_scheme \<Rightarrow> pubkey \<Rightarrow> 'x ledger \<Rightarrow> account_info \<Rightarrow> pubkey \<Rightarrow> u64 \<Rightarrow> bool \<Rightarrow> program_error + unit" where
  "load_and_check_is_closing rt program_id L account ncn epoch expect_writable =
    rbind (as_epoch_state rt L account) (\<lambda>s.
    rbind (fail_if (st_is_closing s) (program_error_from EpochIsClosingDown)) (\<lambda>_.
    epoch_state_load rt program_id L account ncn epoch expect_writable))"

definition check_dne :: "('x, 'y) runtime_scheme \<Rightarrow> pubkey \<Rightarrow> 'x ledger \<Rightarrow> account_info \<Rightarrow> pubkey \<Rightarrow> u64 \<Rightarrow> program_error + unit" where
  "check_dne rt program_id L account ncn epoch =
    rbind (fail_if (pda rt program_id (Epoch_Marker_Account ncn epoch) \<noteq> ai_key account) InvalidSeeds) (\<lambda>_.
    fail_if (ac_len (L (ai_key account)) > 0) (program_error_from MarkerExists))"

text \<open>\<open>load_to_close\<close>: the accounts of an operator are found from what they hold.\<close>

definition operator_snapshot_load_to_close ::
    "('x, 'y) runtime_scheme \<Rightarrow> pubkey \<Rightarrow> 'x ledger \<Rightarrow> account_info \<Rightarrow> pubkey \<Rightarrow> u64 \<Rightarrow> program_error + unit" where
  "operator_snapshot_load_to_close rt program_id L account ncn epoch =
    rbind (as_operator_snapshot rt L account) (\<lambda>os.
    operator_snapshot_load rt program_id L account (os_operator os) ncn epoch True)"

definition ncn_reward_router_load_to_close ::
    "('x, 'y) runtime_scheme \<Rightarrow> pubkey \<Rightarrow> 'x ledger \<Rightarrow> account_info \<Rightarrow> pubkey \<Rightarrow> u64 \<Rightarrow> program_error + unit" where
  "ncn_reward_router_load_to_close rt program_id L account ncn epoch =
    rbind (as_ncn_reward_router rt L account) (\<lambda>r.
    ncn_reward_router_load rt program_id L account (nr_ncn_fee_group r) (nr_operator r) ncn epoch True)"

section \<open>The account payer and the receivers\<close>

text \<open>\<open>AccountPayer::transfer\<close>, \<open>BaseRewardReceiver::transfer\<close> and \<open>NcnRewardReceiver::transfer\<close>: the program signs
  for its own address.\<close>

definition pda_transfer ::
    "('x, 'y) runtime_scheme \<Rightarrow> pubkey \<Rightarrow> program_account \<Rightarrow> account_info \<Rightarrow> account_info \<Rightarrow> u64 \<Rightarrow> 'x ledger \<Rightarrow>
     program_error + 'x ledger" where
  "pda_transfer rt program_id p payer to lamports L =
    (let (address, bump, seeds) = find_program_address rt program_id p in
     rbind (fail_if (address \<noteq> ai_key payer) InvalidAccountData) (\<lambda>_.
     rt_transfer rt payer to lamports (seeds @ [[bump]]) L))"

definition account_payer_transfer ::
    "('x, 'y) runtime_scheme \<Rightarrow> pubkey \<Rightarrow> pubkey \<Rightarrow> account_info \<Rightarrow> account_info \<Rightarrow> u64 \<Rightarrow> 'x ledger \<Rightarrow> program_error + 'x ledger" where
  "account_payer_transfer rt program_id ncn = pda_transfer rt program_id (Account_Payer_Account ncn)"

definition base_reward_receiver_transfer ::
    "('x, 'y) runtime_scheme \<Rightarrow> pubkey \<Rightarrow> pubkey \<Rightarrow> u64 \<Rightarrow> account_info \<Rightarrow> account_info \<Rightarrow> u64 \<Rightarrow> 'x ledger \<Rightarrow>
     program_error + 'x ledger" where
  "base_reward_receiver_transfer rt program_id ncn epoch =
    pda_transfer rt program_id (Base_Reward_Receiver_Account ncn epoch)"

definition ncn_reward_receiver_transfer ::
    "('x, 'y) runtime_scheme \<Rightarrow> pubkey \<Rightarrow> ncn_fee_group \<Rightarrow> pubkey \<Rightarrow> pubkey \<Rightarrow> u64 \<Rightarrow> account_info \<Rightarrow> account_info \<Rightarrow> u64 \<Rightarrow>
     'x ledger \<Rightarrow> program_error + 'x ledger" where
  "ncn_reward_receiver_transfer rt program_id g operator ncn epoch =
    pda_transfer rt program_id (Ncn_Reward_Receiver_Account g operator ncn epoch)"

definition pay_and_create_account ::
    "('x, 'y) runtime_scheme \<Rightarrow> pubkey \<Rightarrow> pubkey \<Rightarrow> account_info \<Rightarrow> account_info \<Rightarrow> pubkey \<Rightarrow> u64 \<Rightarrow> u8 list list \<Rightarrow>
     'x ledger \<Rightarrow> program_error + 'x ledger" where
  "pay_and_create_account rt program_id ncn account_payer new_account program_owner space new_account_seeds L =
    (let required_lamports = saturating_sub (rt_minimum_balance rt space) (ac_lamports (L (ai_key new_account))) in
     rbind (if required_lamports > 0
       then account_payer_transfer rt program_id ncn account_payer new_account required_lamports L
       else Inr L) (\<lambda>L.
     rbind (rt_allocate rt new_account (min space (of_nat MAX_REALLOC_BYTES)) new_account_seeds L) (\<lambda>L.
     rt_assign rt new_account program_owner new_account_seeds L)))"

definition pay_and_realloc ::
    "('x, 'y) runtime_scheme \<Rightarrow> pubkey \<Rightarrow> pubkey \<Rightarrow> account_info \<Rightarrow> account_info \<Rightarrow> u64 \<Rightarrow> 'x ledger \<Rightarrow> program_error + 'x ledger" where
  "pay_and_realloc rt program_id ncn account_payer account new_size L =
    (let required_lamports = saturating_sub (rt_minimum_balance rt new_size) (ac_lamports (L (ai_key account))) in
     rbind (if required_lamports > 0
       then account_payer_transfer rt program_id ncn account_payer account required_lamports L
       else Inr L) (\<lambda>L.
     rt_realloc rt account new_size L))"

definition close_account ::
    "('x, 'y) runtime_scheme \<Rightarrow> pubkey \<Rightarrow> account_info \<Rightarrow> account_info \<Rightarrow> 'x ledger \<Rightarrow> program_error + 'x ledger" where
  "close_account rt program_id account_payer account_to_close L =
    rbind (fail_if (ac_owner (L (ai_key account_to_close)) \<noteq> program_id) IllegalOwner) (\<lambda>_.
    rbind (ok_or ProgramArithmeticOverflow
      (checked_add (ac_lamports (L (ai_key account_payer))) (ac_lamports (L (ai_key account_to_close))))) (\<lambda>sum.
    let L = L(ai_key account_payer := (L (ai_key account_payer))\<lparr>ac_lamports := sum\<rparr>);
        L = L(ai_key account_to_close := (L (ai_key account_to_close))\<lparr>ac_lamports := 0\<rparr>);
        L = L(ai_key account_to_close := (L (ai_key account_to_close))\<lparr>ac_owner := system_program_id\<rparr>)
    in rt_realloc rt account_to_close 0 L))"

definition base_reward_receiver_close ::
    "('x, 'y) runtime_scheme \<Rightarrow> pubkey \<Rightarrow> pubkey \<Rightarrow> u64 \<Rightarrow> account_info \<Rightarrow> account_info \<Rightarrow> account_info \<Rightarrow> 'x ledger \<Rightarrow>
     program_error + 'x ledger" where
  "base_reward_receiver_close rt program_id ncn epoch base_reward_receiver dao_wallet account_payer L =
    (let min_rent = rt_minimum_balance rt 0;
         delta_lamports = saturating_sub (ac_lamports (L (ai_key base_reward_receiver))) min_rent in
     rbind (if delta_lamports > 0
       then base_reward_receiver_transfer rt program_id ncn epoch base_reward_receiver dao_wallet delta_lamports L
       else Inr L) (\<lambda>L.
     base_reward_receiver_transfer rt program_id ncn epoch base_reward_receiver account_payer min_rent L))"

definition ncn_reward_receiver_close ::
    "('x, 'y) runtime_scheme \<Rightarrow> pubkey \<Rightarrow> ncn_fee_group \<Rightarrow> pubkey \<Rightarrow> pubkey \<Rightarrow> u64 \<Rightarrow> account_info \<Rightarrow> account_info \<Rightarrow> account_info \<Rightarrow>
     'x ledger \<Rightarrow> program_error + 'x ledger" where
  "ncn_reward_receiver_close rt program_id g operator ncn epoch ncn_reward_receiver dao_wallet account_payer L =
    (let min_rent = rt_minimum_balance rt 0;
         delta_lamports = saturating_sub (ac_lamports (L (ai_key ncn_reward_receiver))) min_rent in
     rbind (if delta_lamports > 0
       then ncn_reward_receiver_transfer rt program_id g operator ncn epoch ncn_reward_receiver dao_wallet
         delta_lamports L
       else Inr L) (\<lambda>L.
     ncn_reward_receiver_transfer rt program_id g operator ncn epoch ncn_reward_receiver account_payer min_rent L))"

end
