(* ===== verification/Externals.thy ===== *)
theory Externals
  imports Loaders
begin

text \<open>
  What the handlers use of code outside this repository: the account checks of the Jito libraries, the
  accounts of the restaking, vault and oracle programs, and the invocations of the stake pool and tip
  distribution programs. They are the fields of \<open>externals\<close>, a runtime with these functions added; each
  gets the ledger, so that nothing about their state is assumed.
\<close>

text \<open>The fields and methods of the restaking and vault accounts that are read.\<close>

record ncn_account =
  na_admin :: pubkey
  na_ncn_program_admin :: pubkey
  na_weight_table_admin :: pubkey
  na_vault_count :: u64
  na_operator_count :: u64

record operator_account =
  oa_voter :: pubkey
  oa_operator_fee_bps :: u16
  oa_index :: u64

record ncn_operator_state =
  no_index :: u64
  no_ncn_is_active :: "u64 \<Rightarrow> u64 \<Rightarrow> program_error + bool"
  no_operator_is_active_or_cooldown :: "u64 \<Rightarrow> u64 \<Rightarrow> program_error + bool"

record vault_account =
  va_vault_index :: u64
  va_supported_mint :: pubkey
  va_is_update_needed :: "u64 \<Rightarrow> u64 \<Rightarrow> program_error + bool"

text \<open>An oracle feed: the slot of its result, and its price at a slot, as the function that multiplies the
  price with a precision (None when that overflows), rounds, and converts (None when that fails).\<close>

record oracle_feed =
  of_result_slot :: u64
  of_value :: "u64 \<Rightarrow> (u128 \<Rightarrow> u128 option option) option"

record 'x externals = "'x runtime" +
  ex_load_signer :: "'x ledger \<Rightarrow> account_info \<Rightarrow> bool \<Rightarrow> program_error + unit"
  ex_load_system_account :: "'x ledger \<Rightarrow> account_info \<Rightarrow> bool \<Rightarrow> program_error + unit"
  ex_load_system_program :: "'x ledger \<Rightarrow> account_info \<Rightarrow> program_error + unit"
  ex_load_token_mint :: "'x ledger \<Rightarrow> account_info \<Rightarrow> program_error + unit"
  ex_load_associated_token_account :: "'x ledger \<Rightarrow> account_info \<Rightarrow> pubkey \<Rightarrow> pubkey \<Rightarrow> program_error + unit"
  ex_load_ncn :: "'x ledger \<Rightarrow> account_info \<Rightarrow> bool \<Rightarrow> program_error + unit"
  ex_load_operator :: "'x ledger \<Rightarrow> account_info \<Rightarrow> bool \<Rightarrow> program_error + unit"
  ex_load_ncn_operator_state :: "'x ledger \<Rightarrow> account_info \<Rightarrow> account_info \<Rightarrow> account_info \<Rightarrow> bool \<Rightarrow> program_error + unit"
  ex_load_ncn_vault_ticket :: "'x ledger \<Rightarrow> account_info \<Rightarrow> account_info \<Rightarrow> account_info \<Rightarrow> bool \<Rightarrow> program_error + unit"
  ex_load_restaking_config :: "'x ledger \<Rightarrow> account_info \<Rightarrow> bool \<Rightarrow> program_error + unit"
  ex_load_vault :: "'x ledger \<Rightarrow> account_info \<Rightarrow> bool \<Rightarrow> program_error + unit"
  ex_load_vault_ncn_ticket :: "'x ledger \<Rightarrow> account_info \<Rightarrow> account_info \<Rightarrow> account_info \<Rightarrow> bool \<Rightarrow> program_error + unit"
  ex_load_vault_operator_delegation :: "'x ledger \<Rightarrow> account_info \<Rightarrow> account_info \<Rightarrow> account_info \<Rightarrow> bool \<Rightarrow> program_error + unit"
  ex_ncn :: "'x ledger \<Rightarrow> account_info \<Rightarrow> program_error + ncn_account"
  ex_operator :: "'x ledger \<Rightarrow> account_info \<Rightarrow> program_error + operator_account"
  ex_ncn_operator_state :: "'x ledger \<Rightarrow> account_info \<Rightarrow> program_error + ncn_operator_state"
  ex_ncn_vault_ticket_is_active :: "'x ledger \<Rightarrow> account_info \<Rightarrow> program_error + (u64 \<Rightarrow> u64 \<Rightarrow> program_error + bool)"
  ex_epoch_length :: "'x ledger \<Rightarrow> account_info \<Rightarrow> program_error + u64"
  ex_vault :: "'x ledger \<Rightarrow> account_info \<Rightarrow> program_error + vault_account"
  ex_vault_ncn_ticket_is_active_or_cooldown :: "'x ledger \<Rightarrow> account_info \<Rightarrow> program_error + (u64 \<Rightarrow> u64 \<Rightarrow> program_error + bool)"
  ex_delegation_total_security :: "'x ledger \<Rightarrow> account_info \<Rightarrow> program_error + (program_error + u64)"
  ex_oracle_feed :: "'x ledger \<Rightarrow> account_info \<Rightarrow> oracle_feed option"
  ex_max_bps :: u16
  ex_stake_pool_program_id :: pubkey
  ex_tip_distribution_program_id :: pubkey
  ex_deposit_sol :: "account_info list \<Rightarrow> u64 \<Rightarrow> u8 list list \<Rightarrow> 'x ledger \<Rightarrow> program_error + 'x ledger"
  ex_upload_merkle_root :: "account_info list \<Rightarrow> bytes32 \<Rightarrow> u64 \<Rightarrow> u64 \<Rightarrow> u8 list list \<Rightarrow> 'x ledger \<Rightarrow> program_error + 'x ledger"
  ex_claim :: "account_info list \<Rightarrow> bytes32 list \<Rightarrow> u64 \<Rightarrow> u8 \<Rightarrow> u8 list list \<Rightarrow> 'x ledger \<Rightarrow> program_error + 'x ledger"

text \<open>A \<open>TipRouterError\<close> becomes a \<open>ProgramError\<close> at \<open>?\<close>.\<close>

abbreviation tip :: "tip_router_error + 'a \<Rightarrow> program_error + 'a" where
  "tip m \<equiv> rmap_err program_error_from m"

abbreviation tip_err :: "tip_router_error \<Rightarrow> program_error" where
  "tip_err \<equiv> program_error_from"

definition load_ncn_epoch ::
    "('x, 'y) externals_scheme \<Rightarrow> 'x ledger \<Rightarrow> account_info \<Rightarrow> u64 \<Rightarrow> u64 option \<Rightarrow> program_error + u64 \<times> u64" where
  "load_ncn_epoch rt L restaking_config current_slot first_slot_of_ncn_epoch =
    rbind (ex_epoch_length rt L restaking_config) (\<lambda>ncn_epoch_length.
    rbind (ok_or (tip_err DenominatorIsZero) (checked_div current_slot ncn_epoch_length)) (\<lambda>current_ncn_epoch.
    let ncn_epoch_slot = (case first_slot_of_ncn_epoch of None \<Rightarrow> current_slot | Some slot \<Rightarrow> slot) in
    rbind (ok_or (tip_err DenominatorIsZero) (checked_div ncn_epoch_slot ncn_epoch_length)) (\<lambda>ncn_epoch.
    rbind (fail_if (ncn_epoch > current_ncn_epoch) (tip_err CannotCreateFutureWeightTables)) (\<lambda>_.
    Inr (ncn_epoch, ncn_epoch_length)))))"

text \<open>\<open>JITOSOL_MINT\<close>, the address J1toso1uCk3RLmjorhTtrVwY9HJ7X8V9yYac6Y7kGCPn.\<close>

definition JITOSOL_MINT :: pubkey where
  "JITOSOL_MINT =
    [252, 209, 65, 233, 131, 44, 175, 16, 173, 145, 116, 149, 202, 15, 39, 27,
     91, 41, 60, 212, 112, 39, 234, 115, 112, 7, 237, 64, 235, 57, 160, 189]"

text \<open>\<open>tip_distribution_sdk\<close>: the addresses of the tip distribution program.\<close>

definition derive_tip_distribution_account_address ::
    "('x, 'y) runtime_scheme \<Rightarrow> pubkey \<Rightarrow> pubkey \<Rightarrow> u64 \<Rightarrow> pubkey \<times> u8" where
  "derive_tip_distribution_account_address rt tip_distribution_program_id vote_pubkey epoch =
    rt_find_program_address rt
      [ascii ''TIP_DISTRIBUTION_ACCOUNT'', vote_pubkey, to_le_bytes epoch] tip_distribution_program_id"

definition derive_config_account_address :: "('x, 'y) runtime_scheme \<Rightarrow> pubkey \<Rightarrow> pubkey \<times> u8" where
  "derive_config_account_address rt tip_distribution_program_id =
    rt_find_program_address rt [ascii ''CONFIG_ACCOUNT''] tip_distribution_program_id"

definition derive_claim_status_account_address ::
    "('x, 'y) runtime_scheme \<Rightarrow> pubkey \<Rightarrow> pubkey \<Rightarrow> pubkey \<Rightarrow> pubkey \<times> u8" where
  "derive_claim_status_account_address rt tip_distribution_program_id claimant tip_distribution_account =
    rt_find_program_address rt
      [ascii ''CLAIM_STATUS'', claimant, tip_distribution_account] tip_distribution_program_id"

end
