(* ===== verification/Admin_Handlers.thy ===== *)
theory Admin_Handlers
  imports Externals
begin

text \<open>
  The handlers of the administrators (\<open>program/src/admin_*.rs\<close>): creating and changing the configuration of
  an NCN, its fees and its administrators, registering mints, setting weights, and breaking a tie. Each
  handler gets the accounts in the order the instruction lists them; the order of the checks is the order
  of the source.
\<close>

definition process_admin_initialize_config ::
    "'p precise_ops \<Rightarrow> ('x, 'y) externals_scheme \<Rightarrow> pubkey \<Rightarrow> account_info list \<Rightarrow> u16 \<Rightarrow> u16 \<Rightarrow> u16 \<Rightarrow>
     u64 \<Rightarrow> u64 \<Rightarrow> u64 \<Rightarrow> 'x ledger \<Rightarrow> program_error + 'x ledger" where
  "process_admin_initialize_config pn rt program_id accounts block_engine_bps dao_fee_bps
      default_ncn_fee_bps epochs_before_stall epochs_after_consensus_before_close
      valid_slots_after_consensus L =
    (case accounts of
      [config, ncn, dao_fee_wallet, ncn_admin, tie_breaker_admin, account_payer, system_program] \<Rightarrow>
        rbind (ex_load_system_account rt L config True) (\<lambda>_.
        rbind (ex_load_system_program rt L system_program) (\<lambda>_.
        rbind (ex_load_signer rt L ncn_admin False) (\<lambda>_.
        rbind (ex_load_ncn rt L ncn False) (\<lambda>_.
        rbind (account_payer_load rt program_id L account_payer (ai_key ncn) True) (\<lambda>_.
        let epoch = rt_epoch rt in
        rbind (fail_if (ucast block_engine_bps > MAX_FEE_BPS) (tip_err FeeCapExceeded)) (\<lambda>_.
        rbind (fail_if (ucast dao_fee_bps > MAX_FEE_BPS) (tip_err FeeCapExceeded)) (\<lambda>_.
        rbind (fail_if (ucast default_ncn_fee_bps > MAX_FEE_BPS) (tip_err FeeCapExceeded)) (\<lambda>_.
        rbind (fail_if (\<not> (MIN_EPOCHS_BEFORE_STALL \<le> epochs_before_stall \<and>
            epochs_before_stall \<le> MAX_EPOCHS_BEFORE_STALL)) (tip_err InvalidEpochsBeforeStall)) (\<lambda>_.
        rbind (fail_if (\<not> (MIN_EPOCHS_AFTER_CONSENSUS_BEFORE_CLOSE \<le> epochs_after_consensus_before_close \<and>
            epochs_after_consensus_before_close \<le> MAX_EPOCHS_AFTER_CONSENSUS_BEFORE_CLOSE))
            (tip_err InvalidEpochsBeforeClose)) (\<lambda>_.
        rbind (fail_if (\<not> (MIN_VALID_SLOTS_AFTER_CONSENSUS \<le> valid_slots_after_consensus \<and>
            valid_slots_after_consensus \<le> MAX_VALID_SLOTS_AFTER_CONSENSUS))
            (tip_err InvalidSlotsAfterConsensus)) (\<lambda>_.
        rbind (ex_ncn rt L ncn) (\<lambda>ncn_account.
        rbind (fail_if (na_admin ncn_account \<noteq> ai_key ncn_admin) (tip_err IncorrectNcnAdmin)) (\<lambda>_.
        let (config_pda, config_bump, config_seeds) =
          find_program_address rt program_id (Config_Account (ai_key ncn)) in
        rbind (fail_if (config_pda \<noteq> ai_key config) InvalidSeeds) (\<lambda>_.
        rbind (pay_and_create_account rt program_id (ai_key ncn) account_payer config program_id
          (account_size D_Config) (config_seeds @ [[config_bump]]) L) (\<lambda>L.
        rbind (put_discriminator program_id L config D_Config) (\<lambda>L.
        rbind (as_config rt L config) (\<lambda>_.
        rbind (tip (fee_config_new pn (ai_key dao_fee_wallet) block_engine_bps dao_fee_bps
          default_ncn_fee_bps epoch)) (\<lambda>fc.
        let c = config_new (ai_key ncn) (ai_key tie_breaker_admin) (ai_key ncn_admin) fc epoch
          valid_slots_after_consensus epochs_before_stall epochs_after_consensus_before_close config_bump in
        rbind (tip (check_fees_okay pn (cf_fee_config c) epoch)) (\<lambda>_.
        put_data program_id L config (Config_Data c))))))))))))))))))))
    | _ \<Rightarrow> Inl NotEnoughAccountKeys)"

definition process_admin_register_st_mint ::
    "('x, 'y) externals_scheme \<Rightarrow> pubkey \<Rightarrow> account_info list \<Rightarrow> u8 \<Rightarrow> u64 \<Rightarrow> pubkey option \<Rightarrow> u128 option \<Rightarrow>
     'x ledger \<Rightarrow> program_error + 'x ledger" where
  "process_admin_register_st_mint rt program_id accounts group_byte reward_multiplier_bps
      switchboard_feed_opt no_feed_weight_opt L =
    (case accounts of
      [config, ncn, st_mint, vault_registry, admin] \<Rightarrow>
        rbind (config_load rt program_id L config (ai_key ncn) False) (\<lambda>_.
        rbind (vault_registry_load rt program_id L vault_registry (ai_key ncn) True) (\<lambda>_.
        rbind (ex_load_ncn rt L ncn False) (\<lambda>_.
        rbind (ex_load_token_mint rt L st_mint) (\<lambda>_.
        rbind (ex_load_signer rt L admin False) (\<lambda>_.
        rbind (ex_ncn rt L ncn) (\<lambda>ncn_account.
        rbind (fail_if (na_ncn_program_admin ncn_account \<noteq> ai_key admin) InvalidAccountData) (\<lambda>_.
        rbind (as_vault_registry rt L vault_registry) (\<lambda>registry.
        rbind (tip (ncn_fee_group_try_from group_byte)) (\<lambda>g.
        let switchboard_feed = (case switchboard_feed_opt of None \<Rightarrow> default_pubkey | Some f \<Rightarrow> f);
            no_feed_weight = (case no_feed_weight_opt of None \<Rightarrow> 0 | Some w \<Rightarrow> w) in
        rbind (fail_if (switchboard_feed = default_pubkey \<and> no_feed_weight = 0) InvalidArgument) (\<lambda>_.
        rbind (register_st_mint registry (ai_key st_mint) g reward_multiplier_bps switchboard_feed
          no_feed_weight) (\<lambda>registry.
        put_data program_id L vault_registry (Vault_Registry_Data registry))))))))))))
    | _ \<Rightarrow> Inl NotEnoughAccountKeys)"

text \<open>\<open>group.map(\<dots>::try_from).transpose()?\<close>\<close>

definition transpose_opt :: "('a \<Rightarrow> program_error + 'b) \<Rightarrow> 'a option \<Rightarrow> program_error + 'b option" where
  "transpose_opt f m = (case m of None \<Rightarrow> Inr None | Some x \<Rightarrow> rbind (f x) (\<lambda>y. Inr (Some y)))"

definition process_admin_set_config_fees ::
    "'p precise_ops \<Rightarrow> ('x, 'y) externals_scheme \<Rightarrow> pubkey \<Rightarrow> account_info list \<Rightarrow> u16 option \<Rightarrow> u8 option \<Rightarrow>
     pubkey option \<Rightarrow> u16 option \<Rightarrow> u8 option \<Rightarrow> u16 option \<Rightarrow> 'x ledger \<Rightarrow> program_error + 'x ledger" where
  "process_admin_set_config_fees pn rt program_id accounts new_block_engine_fee_bps base_group_opt
      new_base_fee_wallet new_base_fee_bps ncn_group_opt new_ncn_fee_bps L =
    (case accounts of
      [config, ncn, fee_admin] \<Rightarrow>
        rbind (ex_load_signer rt L fee_admin True) (\<lambda>_.
        rbind (config_load rt program_id L config (ai_key ncn) True) (\<lambda>_.
        rbind (ex_load_ncn rt L ncn False) (\<lambda>_.
        let epoch = rt_epoch rt in
        rbind (as_config rt L config) (\<lambda>c.
        rbind (fail_if (cf_ncn c \<noteq> ai_key ncn) (tip_err IncorrectNcn)) (\<lambda>_.
        rbind (fail_if (cf_fee_admin c \<noteq> ai_key fee_admin) (tip_err IncorrectFeeAdmin)) (\<lambda>_.
        rbind (transpose_opt (\<lambda>u. tip (base_fee_group_try_from u)) base_group_opt) (\<lambda>base_group.
        rbind (transpose_opt (\<lambda>u. tip (ncn_fee_group_try_from u)) ncn_group_opt) (\<lambda>group_opt.
        rbind (tip (update_fee_config pn (cf_fee_config c) new_block_engine_fee_bps base_group
          new_base_fee_wallet new_base_fee_bps group_opt new_ncn_fee_bps epoch)) (\<lambda>fc.
        put_data program_id L config (Config_Data (c\<lparr>cf_fee_config := fc\<rparr>)))))))))))
    | _ \<Rightarrow> Inl NotEnoughAccountKeys)"

definition process_admin_set_new_admin ::
    "('x, 'y) externals_scheme \<Rightarrow> pubkey \<Rightarrow> account_info list \<Rightarrow> config_admin_role \<Rightarrow> 'x ledger \<Rightarrow> program_error + 'x ledger" where
  "process_admin_set_new_admin rt program_id accounts role L =
    (case accounts of
      [config, ncn, ncn_admin, new_admin] \<Rightarrow>
        rbind (ex_load_signer rt L ncn_admin True) (\<lambda>_.
        rbind (config_load rt program_id L config (ai_key ncn) True) (\<lambda>_.
        rbind (ex_load_ncn rt L ncn False) (\<lambda>_.
        rbind (as_config rt L config) (\<lambda>c.
        rbind (fail_if (cf_ncn c \<noteq> ai_key ncn) (tip_err IncorrectNcn)) (\<lambda>_.
        rbind (ex_ncn rt L ncn) (\<lambda>ncn_account.
        rbind (fail_if (na_admin ncn_account \<noteq> ai_key ncn_admin) (tip_err IncorrectNcnAdmin)) (\<lambda>_.
        put_data program_id L config (Config_Data
          (case role of
             FeeAdmin \<Rightarrow> c\<lparr>cf_fee_admin := ai_key new_admin\<rparr>
           | TieBreakerAdmin \<Rightarrow> c\<lparr>cf_tie_breaker_admin := ai_key new_admin\<rparr>)))))))))
    | _ \<Rightarrow> Inl NotEnoughAccountKeys)"

definition process_admin_set_parameters ::
    "('x, 'y) externals_scheme \<Rightarrow> pubkey \<Rightarrow> account_info list \<Rightarrow> u64 option \<Rightarrow> u64 option \<Rightarrow> u64 option \<Rightarrow>
     u64 option \<Rightarrow> 'x ledger \<Rightarrow> program_error + 'x ledger" where
  "process_admin_set_parameters rt program_id accounts starting_valid_epoch epochs_before_stall
      epochs_after_consensus_before_close valid_slots_after_consensus L =
    (case accounts of
      [config, ncn, ncn_admin] \<Rightarrow>
        rbind (ex_load_signer rt L ncn_admin True) (\<lambda>_.
        rbind (config_load rt program_id L config (ai_key ncn) True) (\<lambda>_.
        rbind (ex_load_ncn rt L ncn False) (\<lambda>_.
        rbind (ex_ncn rt L ncn) (\<lambda>ncn_account.
        rbind (fail_if (na_admin ncn_account \<noteq> ai_key ncn_admin) (tip_err IncorrectNcnAdmin)) (\<lambda>_.
        rbind (as_config rt L config) (\<lambda>c.
        rbind (fail_if (cf_ncn c \<noteq> ai_key ncn) (tip_err IncorrectNcn)) (\<lambda>_.
        rbind (if_some starting_valid_epoch (\<lambda>epoch c. Inr (c\<lparr>cf_starting_valid_epoch := epoch\<rparr>)) c) (\<lambda>c.
        rbind (if_some epochs_before_stall (\<lambda>epochs c.
          rbind (fail_if (\<not> (MIN_EPOCHS_BEFORE_STALL \<le> epochs \<and> epochs \<le> MAX_EPOCHS_BEFORE_STALL))
            (tip_err InvalidEpochsBeforeStall)) (\<lambda>_.
          Inr (c\<lparr>cf_epochs_before_stall := epochs\<rparr>))) c) (\<lambda>c.
        rbind (if_some epochs_after_consensus_before_close (\<lambda>epochs c.
          rbind (fail_if (\<not> (MIN_EPOCHS_AFTER_CONSENSUS_BEFORE_CLOSE \<le> epochs \<and>
              epochs \<le> MAX_EPOCHS_AFTER_CONSENSUS_BEFORE_CLOSE)) (tip_err InvalidEpochsBeforeClose)) (\<lambda>_.
          Inr (c\<lparr>cf_epochs_after_consensus_before_close := epochs\<rparr>))) c) (\<lambda>c.
        rbind (if_some valid_slots_after_consensus (\<lambda>slots c.
          rbind (fail_if (\<not> (MIN_VALID_SLOTS_AFTER_CONSENSUS \<le> slots \<and> slots \<le> MAX_VALID_SLOTS_AFTER_CONSENSUS))
            (tip_err InvalidSlotsAfterConsensus)) (\<lambda>_.
          Inr (c\<lparr>cf_valid_slots_after_consensus := slots\<rparr>))) c) (\<lambda>c.
        put_data program_id L config (Config_Data c))))))))))))
    | _ \<Rightarrow> Inl NotEnoughAccountKeys)"

definition process_admin_set_st_mint ::
    "('x, 'y) externals_scheme \<Rightarrow> pubkey \<Rightarrow> account_info list \<Rightarrow> pubkey \<Rightarrow> u8 option \<Rightarrow> u64 option \<Rightarrow>
     pubkey option \<Rightarrow> u128 option \<Rightarrow> 'x ledger \<Rightarrow> program_error + 'x ledger" where
  "process_admin_set_st_mint rt program_id accounts st_mint fee_group_opt reward_multiplier_bps
      switchboard_feed no_feed_weight L =
    (case accounts of
      [config, ncn, vault_registry, admin] \<Rightarrow>
        rbind (config_load rt program_id L config (ai_key ncn) False) (\<lambda>_.
        rbind (vault_registry_load rt program_id L vault_registry (ai_key ncn) True) (\<lambda>_.
        rbind (ex_load_ncn rt L ncn False) (\<lambda>_.
        rbind (ex_load_signer rt L admin False) (\<lambda>_.
        rbind (ex_ncn rt L ncn) (\<lambda>ncn_account.
        rbind (fail_if (na_ncn_program_admin ncn_account \<noteq> ai_key admin) InvalidAccountData) (\<lambda>_.
        rbind (as_vault_registry rt L vault_registry) (\<lambda>registry.
        rbind (set_st_mint registry st_mint fee_group_opt reward_multiplier_bps switchboard_feed
          no_feed_weight) (\<lambda>registry.
        put_data program_id L vault_registry (Vault_Registry_Data registry)))))))))
    | _ \<Rightarrow> Inl NotEnoughAccountKeys)"

definition process_admin_set_tie_breaker ::
    "('x, 'y) externals_scheme \<Rightarrow> pubkey \<Rightarrow> account_info list \<Rightarrow> bytes32 \<Rightarrow> u64 \<Rightarrow> 'x ledger \<Rightarrow> program_error + 'x ledger" where
  "process_admin_set_tie_breaker rt program_id accounts voted_root epoch L =
    (case accounts of
      [epoch_state, ncn_config, ballot_box, ncn, tie_breaker_admin] \<Rightarrow>
        rbind (epoch_state_load rt program_id L epoch_state (ai_key ncn) epoch True) (\<lambda>_.
        rbind (config_load rt program_id L ncn_config (ai_key ncn) False) (\<lambda>_.
        rbind (ballot_box_load rt program_id L ballot_box (ai_key ncn) epoch True) (\<lambda>_.
        rbind (ex_load_ncn rt L ncn False) (\<lambda>_.
        rbind (ex_load_signer rt L tie_breaker_admin False) (\<lambda>_.
        rbind (as_config rt L ncn_config) (\<lambda>c.
        rbind (fail_if (cf_tie_breaker_admin c \<noteq> ai_key tie_breaker_admin) (tip_err TieBreakerAdminInvalid)) (\<lambda>_.
        rbind (as_ballot_box rt L ballot_box) (\<lambda>bb.
        rbind (tip (set_tie_breaker_ballot bb voted_root (rt_epoch rt) (cf_epochs_before_stall c))) (\<lambda>bb.
        rbind (put_data program_id L ballot_box (Ballot_Box_Data bb)) (\<lambda>L.
        rbind (as_epoch_state rt L epoch_state) (\<lambda>s.
        rbind (tip (update_set_tie_breaker s (is_consensus_reached bb) (rt_slot rt))) (\<lambda>s.
        put_data program_id L epoch_state (Epoch_State_Data s)))))))))))))
    | _ \<Rightarrow> Inl NotEnoughAccountKeys)"

text \<open>The end of both handlers that set a weight.\<close>

definition store_weight ::
    "('x, 'y) externals_scheme \<Rightarrow> pubkey \<Rightarrow> account_info \<Rightarrow> account_info \<Rightarrow> pubkey \<Rightarrow> u128 \<Rightarrow> 'x ledger \<Rightarrow> program_error + 'x ledger" where
  "store_weight rt program_id epoch_state weight_table st_mint weight L =
    rbind (as_weight_table rt L weight_table) (\<lambda>t.
    rbind (tip (check_table_initialized t)) (\<lambda>_.
    rbind (fail_if (wt_finalized t) InvalidAccountData) (\<lambda>_.
    rbind (tip (set_weight t st_mint weight (rt_slot rt))) (\<lambda>t.
    rbind (put_data program_id L weight_table (Weight_Table_Data t)) (\<lambda>L.
    rbind (as_epoch_state rt L epoch_state) (\<lambda>s.
    put_data program_id L epoch_state (Epoch_State_Data
      (update_set_weight s (of_nat (weight_count t)) (of_nat (wt_st_mint_count t))))))))))"

definition process_admin_set_weight ::
    "('x, 'y) externals_scheme \<Rightarrow> pubkey \<Rightarrow> account_info list \<Rightarrow> pubkey \<Rightarrow> u64 \<Rightarrow> u128 \<Rightarrow> 'x ledger \<Rightarrow>
     program_error + 'x ledger" where
  "process_admin_set_weight rt program_id accounts st_mint epoch weight L =
    (case accounts of
      [epoch_state, ncn, weight_table, weight_table_admin] \<Rightarrow>
        rbind (ex_load_ncn rt L ncn False) (\<lambda>_.
        rbind (ex_ncn rt L ncn) (\<lambda>ncn_account.
        rbind (ex_load_signer rt L weight_table_admin True) (\<lambda>_.
        rbind (epoch_state_load rt program_id L epoch_state (ai_key ncn) epoch True) (\<lambda>_.
        rbind (weight_table_load rt program_id L weight_table (ai_key ncn) epoch True) (\<lambda>_.
        rbind (fail_if (na_weight_table_admin ncn_account \<noteq> ai_key weight_table_admin)
          (tip_err IncorrectWeightTableAdmin)) (\<lambda>_.
        store_weight rt program_id epoch_state weight_table st_mint weight L))))))
    | _ \<Rightarrow> Inl NotEnoughAccountKeys)"

end
