(* ===== verification/Setup_Handlers.thy ===== *)
theory Setup_Handlers
  imports Admin_Handlers
begin

text \<open>
  The handlers that set an NCN and an epoch up: the vault registry, the registration of vaults, the epoch
  state, the weight table and the weights from the oracle (\<open>program/src/initialize_vault_registry.rs\<close>,
  \<open>realloc_vault_registry.rs\<close>, \<open>register_vault.rs\<close>, \<open>initialize_epoch_state.rs\<close>, \<open>realloc_epoch_state.rs\<close>,
  \<open>initialize_weight_table.rs\<close>, \<open>realloc_weight_table.rs\<close>, \<open>switchboard_set_weight.rs\<close>). An account larger than
  one allocation is created with 10240 bytes and grown by one call after the other; the call that
  reaches the full size initialises it.
\<close>

text \<open>The growing step all \<open>realloc\<close> handlers share.\<close>

definition grow_account ::
    "('x, 'y) runtime_scheme \<Rightarrow> pubkey \<Rightarrow> pubkey \<Rightarrow> account_info \<Rightarrow> account_info \<Rightarrow> discriminators \<Rightarrow> 'x ledger \<Rightarrow>
     program_error + 'x ledger" where
  "grow_account rt program_id ncn account_payer account d L =
    (if ac_len (L (ai_key account)) < account_size d then
       rbind (get_new_size (ac_len (L (ai_key account))) (account_size d)) (\<lambda>new_size.
       pay_and_realloc rt program_id ncn account_payer account new_size L)
     else Inr L)"

definition should_initialize :: "'x ledger \<Rightarrow> account_info \<Rightarrow> discriminators \<Rightarrow> bool" where
  "should_initialize L account d \<longleftrightarrow>
    ac_len (L (ai_key account)) \<ge> account_size d \<and> ac_disc (L (ai_key account)) \<noteq> discriminator d"

definition process_initialize_vault_registry ::
    "('x, 'y) externals_scheme \<Rightarrow> pubkey \<Rightarrow> account_info list \<Rightarrow> 'x ledger \<Rightarrow> program_error + 'x ledger" where
  "process_initialize_vault_registry rt program_id accounts L =
    (case accounts of
      [ncn_config, vault_registry, ncn, account_payer, system_program] \<Rightarrow>
        rbind (ex_load_system_account rt L vault_registry True) (\<lambda>_.
        rbind (ex_load_system_program rt L system_program) (\<lambda>_.
        rbind (ex_load_ncn rt L ncn False) (\<lambda>_.
        rbind (config_load rt program_id L ncn_config (ai_key ncn) False) (\<lambda>_.
        rbind (account_payer_load rt program_id L account_payer (ai_key ncn) True) (\<lambda>_.
        let (vault_registry_pda, vault_registry_bump, vault_registry_seeds) =
          find_program_address rt program_id (Vault_Registry_Account (ai_key ncn)) in
        rbind (fail_if (vault_registry_pda \<noteq> ai_key vault_registry) InvalidSeeds) (\<lambda>_.
        pay_and_create_account rt program_id (ai_key ncn) account_payer vault_registry program_id
          (of_nat MAX_REALLOC_BYTES) (vault_registry_seeds @ [[vault_registry_bump]]) L))))))
    | _ \<Rightarrow> Inl NotEnoughAccountKeys)"

definition process_realloc_vault_registry ::
    "('x, 'y) externals_scheme \<Rightarrow> pubkey \<Rightarrow> account_info list \<Rightarrow> 'x ledger \<Rightarrow> program_error + 'x ledger" where
  "process_realloc_vault_registry rt program_id accounts L =
    (case accounts of
      [ncn_config, vault_registry, ncn, account_payer, system_program] \<Rightarrow>
        rbind (ex_load_system_program rt L system_program) (\<lambda>_.
        rbind (ex_load_ncn rt L ncn False) (\<lambda>_.
        rbind (config_load rt program_id L ncn_config (ai_key ncn) False) (\<lambda>_.
        rbind (account_payer_load rt program_id L account_payer (ai_key ncn) True) (\<lambda>_.
        let (vault_registry_pda, vault_registry_bump, _) =
          find_program_address rt program_id (Vault_Registry_Account (ai_key ncn)) in
        rbind (fail_if (vault_registry_pda \<noteq> ai_key vault_registry) InvalidSeeds) (\<lambda>_.
        rbind (grow_account rt program_id (ai_key ncn) account_payer vault_registry D_VaultRegistry L) (\<lambda>L.
        if should_initialize L vault_registry D_VaultRegistry then
          rbind (put_discriminator program_id L vault_registry D_VaultRegistry) (\<lambda>L.
          rbind (as_vault_registry rt L vault_registry) (\<lambda>r.
          put_data program_id L vault_registry
            (Vault_Registry_Data (vault_registry_initialize r (ai_key ncn) vault_registry_bump))))
        else Inr L))))))
    | _ \<Rightarrow> Inl NotEnoughAccountKeys)"

definition process_register_vault ::
    "('x, 'y) externals_scheme \<Rightarrow> pubkey \<Rightarrow> account_info list \<Rightarrow> 'x ledger \<Rightarrow> program_error + 'x ledger" where
  "process_register_vault rt program_id accounts L =
    (case accounts of
      [config, vault_registry, ncn, vault, ncn_vault_ticket] \<Rightarrow>
        rbind (config_load rt program_id L config (ai_key ncn) False) (\<lambda>_.
        rbind (vault_registry_load rt program_id L vault_registry (ai_key ncn) True) (\<lambda>_.
        rbind (ex_load_ncn rt L ncn False) (\<lambda>_.
        rbind (ex_load_vault rt L vault False) (\<lambda>_.
        rbind (ex_load_ncn_vault_ticket rt L ncn_vault_ticket ncn vault False) (\<lambda>_.
        rbind (as_vault_registry rt L vault_registry) (\<lambda>r.
        rbind (ex_vault rt L vault) (\<lambda>v.
        rbind (fail_if (\<not> has_st_mint r (va_supported_mint v)) InvalidAccountData) (\<lambda>_.
        rbind (register_vault r (ai_key vault) (va_supported_mint v) (va_vault_index v) (rt_slot rt)) (\<lambda>r.
        put_data program_id L vault_registry (Vault_Registry_Data r))))))))))
    | _ \<Rightarrow> Inl NotEnoughAccountKeys)"

definition process_initialize_epoch_state ::
    "('x, 'y) externals_scheme \<Rightarrow> pubkey \<Rightarrow> account_info list \<Rightarrow> u64 \<Rightarrow> 'x ledger \<Rightarrow> program_error + 'x ledger" where
  "process_initialize_epoch_state rt program_id accounts epoch L =
    (case accounts of
      [epoch_marker, epoch_state, config, ncn, account_payer, system_program] \<Rightarrow>
        rbind (fail_if (epoch > rt_epoch rt) InvalidArgument) (\<lambda>_.
        rbind (ex_load_system_account rt L epoch_state True) (\<lambda>_.
        rbind (ex_load_system_program rt L system_program) (\<lambda>_.
        rbind (ex_load_ncn rt L ncn False) (\<lambda>_.
        rbind (config_load rt program_id L config (ai_key ncn) False) (\<lambda>_.
        rbind (account_payer_load rt program_id L account_payer (ai_key ncn) True) (\<lambda>_.
        rbind (check_dne rt program_id L epoch_marker (ai_key ncn) epoch) (\<lambda>_.
        rbind (as_config rt L config) (\<lambda>c.
        rbind (fail_if (cf_starting_valid_epoch c > epoch) InvalidArgument) (\<lambda>_.
        let (epoch_state_pda, epoch_state_bump, epoch_state_seeds) =
          find_program_address rt program_id (Epoch_State_Account (ai_key ncn) epoch) in
        rbind (fail_if (epoch_state_pda \<noteq> ai_key epoch_state) InvalidSeeds) (\<lambda>_.
        pay_and_create_account rt program_id (ai_key ncn) account_payer epoch_state program_id
          (of_nat MAX_REALLOC_BYTES) (epoch_state_seeds @ [[epoch_state_bump]]) L))))))))))
    | _ \<Rightarrow> Inl NotEnoughAccountKeys)"

definition process_realloc_epoch_state ::
    "('x, 'y) externals_scheme \<Rightarrow> pubkey \<Rightarrow> account_info list \<Rightarrow> u64 \<Rightarrow> 'x ledger \<Rightarrow> program_error + 'x ledger" where
  "process_realloc_epoch_state rt program_id accounts epoch L =
    (case accounts of
      [epoch_state, config, ncn, account_payer, system_program] \<Rightarrow>
        rbind (ex_load_system_program rt L system_program) (\<lambda>_.
        rbind (ex_load_ncn rt L ncn False) (\<lambda>_.
        rbind (config_load rt program_id L config (ai_key ncn) False) (\<lambda>_.
        rbind (account_payer_load rt program_id L account_payer (ai_key ncn) True) (\<lambda>_.
        let (epoch_state_pda, epoch_state_bump, _) =
          find_program_address rt program_id (Epoch_State_Account (ai_key ncn) epoch) in
        rbind (fail_if (epoch_state_pda \<noteq> ai_key epoch_state) InvalidAccountData) (\<lambda>_.
        rbind (grow_account rt program_id (ai_key ncn) account_payer epoch_state D_EpochState L) (\<lambda>L.
        if should_initialize L epoch_state D_EpochState then
          rbind (put_discriminator program_id L epoch_state D_EpochState) (\<lambda>L.
          rbind (as_epoch_state rt L epoch_state) (\<lambda>s.
          put_data program_id L epoch_state (Epoch_State_Data (update_realloc_epoch_state
            (epoch_state_initialize s (ai_key ncn) epoch epoch_state_bump (rt_slot rt))))))
        else Inr L))))))
    | _ \<Rightarrow> Inl NotEnoughAccountKeys)"

definition process_initialize_weight_table ::
    "('x, 'y) externals_scheme \<Rightarrow> pubkey \<Rightarrow> account_info list \<Rightarrow> u64 \<Rightarrow> 'x ledger \<Rightarrow> program_error + 'x ledger" where
  "process_initialize_weight_table rt program_id accounts epoch L =
    (case accounts of
      [epoch_marker, epoch_state, vault_registry, ncn, weight_table, account_payer, system_program] \<Rightarrow>
        rbind (load_and_check_is_closing rt program_id L epoch_state (ai_key ncn) epoch False) (\<lambda>_.
        rbind (vault_registry_load rt program_id L vault_registry (ai_key ncn) False) (\<lambda>_.
        rbind (ex_load_ncn rt L ncn False) (\<lambda>_.
        rbind (account_payer_load rt program_id L account_payer (ai_key ncn) True) (\<lambda>_.
        rbind (check_dne rt program_id L epoch_marker (ai_key ncn) epoch) (\<lambda>_.
        rbind (ex_load_system_account rt L weight_table True) (\<lambda>_.
        rbind (ex_load_system_program rt L system_program) (\<lambda>_.
        rbind (ex_ncn rt L ncn) (\<lambda>ncn_account.
        rbind (as_vault_registry rt L vault_registry) (\<lambda>r.
        rbind (fail_if (na_vault_count ncn_account \<noteq> vr_vault_count r) InvalidAccountData) (\<lambda>_.
        let (weight_table_pubkey, weight_table_bump, weight_table_seeds) =
          find_program_address rt program_id (Weight_Table_Account (ai_key ncn) epoch) in
        rbind (fail_if (weight_table_pubkey \<noteq> ai_key weight_table) InvalidAccountData) (\<lambda>_.
        pay_and_create_account rt program_id (ai_key ncn) account_payer weight_table program_id
          (of_nat MAX_REALLOC_BYTES) (weight_table_seeds @ [[weight_table_bump]]) L)))))))))))
    | _ \<Rightarrow> Inl NotEnoughAccountKeys)"

definition process_realloc_weight_table ::
    "('x, 'y) externals_scheme \<Rightarrow> pubkey \<Rightarrow> account_info list \<Rightarrow> u64 \<Rightarrow> 'x ledger \<Rightarrow> program_error + 'x ledger" where
  "process_realloc_weight_table rt program_id accounts epoch L =
    (case accounts of
      [epoch_state, ncn_config, weight_table, ncn, vault_registry, account_payer, system_program] \<Rightarrow>
        rbind (ex_load_system_program rt L system_program) (\<lambda>_.
        rbind (ex_load_ncn rt L ncn False) (\<lambda>_.
        rbind (epoch_state_load rt program_id L epoch_state (ai_key ncn) epoch True) (\<lambda>_.
        rbind (config_load rt program_id L ncn_config (ai_key ncn) False) (\<lambda>_.
        rbind (vault_registry_load rt program_id L vault_registry (ai_key ncn) False) (\<lambda>_.
        rbind (account_payer_load rt program_id L account_payer (ai_key ncn) True) (\<lambda>_.
        let (weight_table_pda, weight_table_bump, _) =
          find_program_address rt program_id (Weight_Table_Account (ai_key ncn) epoch) in
        rbind (fail_if (weight_table_pda \<noteq> ai_key weight_table) InvalidAccountData) (\<lambda>_.
        rbind (grow_account rt program_id (ai_key ncn) account_payer weight_table D_WeightTable L) (\<lambda>L.
        if should_initialize L weight_table D_WeightTable then
          rbind (as_vault_registry rt L vault_registry) (\<lambda>r.
          let vault_count = vr_vault_count r; st_mint_count = vr_st_mint_count r in
          rbind (put_discriminator program_id L weight_table D_WeightTable) (\<lambda>L.
          rbind (as_weight_table rt L weight_table) (\<lambda>t.
          rbind (tip (weight_table_initialize t (ai_key ncn) epoch (rt_slot rt) vault_count weight_table_bump
            (vr_vault_list r) (vr_st_mint_list r))) (\<lambda>t.
          rbind (put_data program_id L weight_table (Weight_Table_Data t)) (\<lambda>L.
          rbind (as_epoch_state rt L epoch_state) (\<lambda>s.
          put_data program_id L epoch_state (Epoch_State_Data
            (update_realloc_weight_table s vault_count (of_nat st_mint_count)))))))))
        else Inr L))))))))
    | _ \<Rightarrow> Inl NotEnoughAccountKeys)"

text \<open>The weight an oracle feed gives at a slot.\<close>

definition oracle_weight :: "oracle_feed option \<Rightarrow> u64 \<Rightarrow> program_error + u128" where
  "oracle_weight parsed current_slot =
    rbind (ok_or (tip_err BadSwitchboardFeed) parsed) (\<lambda>feed.
    rbind (ok_or (tip_err BadSwitchboardValue) (of_value feed current_slot)) (\<lambda>price.
    rbind (ok_or (tip_err ArithmeticOverflow)
      (checked_add (of_result_slot feed) SWITCHBOARD_MAX_STALE_SLOTS)) (\<lambda>stale_slot.
    rbind (fail_if (current_slot > stale_slot) (tip_err StaleSwitchboardFeed)) (\<lambda>_.
    rbind (ok_or (tip_err ArithmeticOverflow) (price WEIGHT_PRECISION)) (\<lambda>rounded.
    ok_or (tip_err CastToU128Error) rounded)))))"

definition process_switchboard_set_weight ::
    "('x, 'y) externals_scheme \<Rightarrow> pubkey \<Rightarrow> account_info list \<Rightarrow> pubkey \<Rightarrow> u64 \<Rightarrow> 'x ledger \<Rightarrow> program_error + 'x ledger" where
  "process_switchboard_set_weight rt program_id accounts st_mint epoch L =
    (case accounts of
      [epoch_state, ncn, weight_table, switchboard_feed] \<Rightarrow>
        rbind (epoch_state_load rt program_id L epoch_state (ai_key ncn) epoch True) (\<lambda>_.
        rbind (ex_load_ncn rt L ncn False) (\<lambda>_.
        rbind (weight_table_load rt program_id L weight_table (ai_key ncn) epoch True) (\<lambda>_.
        rbind (as_weight_table rt L weight_table) (\<lambda>t.
        rbind (tip (get_weight_entry t st_mint)) (\<lambda>entry.
        let registered_switchboard_feed = sm_switchboard_feed (we_st_mint_entry entry);
            no_feed_weight = sm_no_feed_weight (we_st_mint_entry entry) in
        rbind (if registered_switchboard_feed = default_pubkey then
            rbind (fail_if (no_feed_weight = 0) (tip_err NoFeedWeightNotSet)) (\<lambda>_. Inr no_feed_weight)
          else
            rbind (fail_if (registered_switchboard_feed \<noteq> ai_key switchboard_feed)
              (tip_err SwitchboardNotRegistered)) (\<lambda>_.
            oracle_weight (ex_oracle_feed rt L switchboard_feed) (rt_slot rt))) (\<lambda>weight.
        store_weight rt program_id epoch_state weight_table st_mint weight L))))))
    | _ \<Rightarrow> Inl NotEnoughAccountKeys)"

end
