(* ===== verification/Snapshot_Handlers.thy ===== *)
theory Snapshot_Handlers
  imports Setup_Handlers
begin

text \<open>
  The handlers of the snapshot stage (\<open>program/src/initialize_epoch_snapshot.rs\<close>,
  \<open>initialize_operator_snapshot.rs\<close>, \<open>realloc_operator_snapshot.rs\<close>,
  \<open>snapshot_vault_operator_delegation.rs\<close>).
\<close>

definition process_initialize_epoch_snapshot ::
    "('x, 'y) externals_scheme \<Rightarrow> pubkey \<Rightarrow> account_info list \<Rightarrow> u64 \<Rightarrow> 'x ledger \<Rightarrow> program_error + 'x ledger" where
  "process_initialize_epoch_snapshot rt program_id accounts epoch L =
    (case accounts of
      [epoch_marker, epoch_state, config, ncn, weight_table, epoch_snapshot, account_payer, system_program] \<Rightarrow>
        rbind (load_and_check_is_closing rt program_id L epoch_state (ai_key ncn) epoch True) (\<lambda>_.
        rbind (config_load rt program_id L config (ai_key ncn) False) (\<lambda>_.
        rbind (ex_load_ncn rt L ncn False) (\<lambda>_.
        rbind (account_payer_load rt program_id L account_payer (ai_key ncn) True) (\<lambda>_.
        rbind (check_dne rt program_id L epoch_marker (ai_key ncn) epoch) (\<lambda>_.
        rbind (ex_load_system_account rt L epoch_snapshot True) (\<lambda>_.
        rbind (ex_load_system_program rt L system_program) (\<lambda>_.
        let current_slot = rt_slot rt; ncn_epoch = epoch in
        rbind (weight_table_load rt program_id L weight_table (ai_key ncn) ncn_epoch False) (\<lambda>_.
        rbind (as_weight_table rt L weight_table) (\<lambda>t.
        rbind (fail_if (\<not> wt_finalized t) (tip_err WeightTableNotFinalized)) (\<lambda>_.
        let vault_count = wt_vault_count t;
            (epoch_snapshot_pubkey, epoch_snapshot_bump, epoch_snapshot_seeds) =
              find_program_address rt program_id (Epoch_Snapshot_Account (ai_key ncn) ncn_epoch) in
        rbind (fail_if (epoch_snapshot_pubkey \<noteq> ai_key epoch_snapshot) InvalidAccountData) (\<lambda>_.
        rbind (pay_and_create_account rt program_id (ai_key ncn) account_payer epoch_snapshot program_id
          (account_size D_EpochSnapshot) (epoch_snapshot_seeds @ [[epoch_snapshot_bump]]) L) (\<lambda>L.
        rbind (as_config rt L config) (\<lambda>c.
        let ncn_fees = current_fees (cf_fee_config c) ncn_epoch in
        rbind (ex_ncn rt L ncn) (\<lambda>ncn_account.
        let operator_count = na_operator_count ncn_account in
        rbind (fail_if (operator_count = 0) (tip_err NoOperators)) (\<lambda>_.
        rbind (put_discriminator program_id L epoch_snapshot D_EpochSnapshot) (\<lambda>L.
        rbind (as_epoch_snapshot rt L epoch_snapshot) (\<lambda>_.
        rbind (put_data program_id L epoch_snapshot (Epoch_Snapshot_Data
          (epoch_snapshot_new (ai_key ncn) ncn_epoch epoch_snapshot_bump current_slot ncn_fees operator_count
            vault_count))) (\<lambda>L.
        rbind (as_epoch_state rt L epoch_state) (\<lambda>s.
        put_data program_id L epoch_state (Epoch_State_Data (update_initialize_epoch_snapshot s operator_count)))))))))))))))))))))
    | _ \<Rightarrow> Inl NotEnoughAccountKeys)"

definition process_initialize_operator_snapshot ::
    "('x, 'y) externals_scheme \<Rightarrow> pubkey \<Rightarrow> account_info list \<Rightarrow> u64 \<Rightarrow> 'x ledger \<Rightarrow> program_error + 'x ledger" where
  "process_initialize_operator_snapshot rt program_id accounts epoch L =
    (case accounts of
      [epoch_marker, epoch_state, config, ncn, operator, ncn_operator_state, epoch_snapshot, operator_snapshot,
       account_payer, system_program] \<Rightarrow>
        rbind (load_and_check_is_closing rt program_id L epoch_state (ai_key ncn) epoch False) (\<lambda>_.
        rbind (config_load rt program_id L config (ai_key ncn) False) (\<lambda>_.
        rbind (ex_load_ncn rt L ncn False) (\<lambda>_.
        rbind (ex_load_operator rt L operator False) (\<lambda>_.
        rbind (ex_load_ncn_operator_state rt L ncn_operator_state ncn operator False) (\<lambda>_.
        rbind (epoch_snapshot_load rt program_id L epoch_snapshot (ai_key ncn) epoch False) (\<lambda>_.
        rbind (ex_load_system_account rt L operator_snapshot True) (\<lambda>_.
        rbind (ex_load_system_program rt L system_program) (\<lambda>_.
        rbind (account_payer_load rt program_id L account_payer (ai_key ncn) True) (\<lambda>_.
        rbind (check_dne rt program_id L epoch_marker (ai_key ncn) epoch) (\<lambda>_.
        let (operator_snapshot_pubkey, operator_snapshot_bump, operator_snapshot_seeds) =
          find_program_address rt program_id (Operator_Snapshot_Account (ai_key operator) (ai_key ncn) epoch) in
        rbind (fail_if (operator_snapshot_pubkey \<noteq> ai_key operator_snapshot) InvalidAccountData) (\<lambda>_.
        rbind (as_epoch_snapshot rt L epoch_snapshot) (\<lambda>es.
        rbind (ex_ncn_operator_state rt L ncn_operator_state) (\<lambda>state.
        rbind (fail_if (no_index state \<ge> es_operator_count es) (tip_err OperatorIsNotInSnapshot)) (\<lambda>_.
        pay_and_create_account rt program_id (ai_key ncn) account_payer operator_snapshot program_id
          (of_nat MAX_REALLOC_BYTES) (operator_snapshot_seeds @ [[operator_snapshot_bump]]) L))))))))))))))
    | _ \<Rightarrow> Inl NotEnoughAccountKeys)"

text \<open>The initialisation branch of \<open>process_realloc_operator_snapshot\<close>: whether the operator takes part is
  decided by the two opt-ins of NCN and operator at the current slot.\<close>

definition initialize_operator_snapshot_data ::
    "('x, 'y) externals_scheme \<Rightarrow> pubkey \<Rightarrow> account_info \<Rightarrow> account_info \<Rightarrow> account_info \<Rightarrow> account_info \<Rightarrow> account_info \<Rightarrow>
     account_info \<Rightarrow> account_info \<Rightarrow> u64 \<Rightarrow> u8 \<Rightarrow> 'x ledger \<Rightarrow> program_error + 'x ledger" where
  "initialize_operator_snapshot_data rt program_id epoch_state restaking_config ncn operator ncn_operator_state
      epoch_snapshot operator_snapshot epoch operator_snapshot_bump L =
    (let current_slot = rt_slot rt in
     rbind (load_ncn_epoch rt L restaking_config current_slot None) (\<lambda>(_, ncn_epoch_length).
     rbind (ex_ncn_operator_state rt L ncn_operator_state) (\<lambda>state.
     rbind (no_ncn_is_active state current_slot ncn_epoch_length) (\<lambda>ncn_operator_okay.
     rbind (no_operator_is_active_or_cooldown state current_slot ncn_epoch_length) (\<lambda>operator_ncn_okay.
     let is_active = (ncn_operator_okay \<and> operator_ncn_okay); ncn_operator_index = no_index state in
     rbind (as_epoch_snapshot rt L epoch_snapshot) (\<lambda>es.
     rbind (ex_operator rt L operator) (\<lambda>operator_account.
     rbind (put_discriminator program_id L operator_snapshot D_OperatorSnapshot) (\<lambda>L.
     rbind (as_operator_snapshot rt L operator_snapshot) (\<lambda>os.
     rbind (tip (open_operator_snapshot es os (ai_key operator) (ai_key ncn) epoch operator_snapshot_bump current_slot
       is_active ncn_operator_index (oa_index operator_account) (oa_operator_fee_bps operator_account))) (\<lambda>(es, os).
     rbind (put_data program_id L operator_snapshot (Operator_Snapshot_Data os)) (\<lambda>L.
     rbind (if \<not> is_active then put_data program_id L epoch_snapshot (Epoch_Snapshot_Data es)
       else Inr L) (\<lambda>L.
     rbind (as_epoch_state rt L epoch_state) (\<lambda>s.
     rbind (update_realloc_operator_snapshot s ncn_operator_index is_active) (\<lambda>s.
     put_data program_id L epoch_state (Epoch_State_Data s)))))))))))))))"

definition process_realloc_operator_snapshot ::
    "('x, 'y) externals_scheme \<Rightarrow> pubkey \<Rightarrow> account_info list \<Rightarrow> u64 \<Rightarrow> 'x ledger \<Rightarrow> program_error + 'x ledger" where
  "process_realloc_operator_snapshot rt program_id accounts epoch L =
    (case accounts of
      [epoch_state, ncn_config, restaking_config, ncn, operator, ncn_operator_state, epoch_snapshot,
       operator_snapshot, account_payer, system_program] \<Rightarrow>
        rbind (epoch_state_load rt program_id L epoch_state (ai_key ncn) epoch True) (\<lambda>_.
        rbind (config_load rt program_id L ncn_config (ai_key ncn) False) (\<lambda>_.
        rbind (ex_load_restaking_config rt L restaking_config False) (\<lambda>_.
        rbind (ex_load_ncn rt L ncn False) (\<lambda>_.
        rbind (ex_load_operator rt L operator False) (\<lambda>_.
        rbind (ex_load_ncn_operator_state rt L ncn_operator_state ncn operator False) (\<lambda>_.
        rbind (epoch_snapshot_load rt program_id L epoch_snapshot (ai_key ncn) epoch True) (\<lambda>_.
        rbind (account_payer_load rt program_id L account_payer (ai_key ncn) True) (\<lambda>_.
        rbind (ex_load_system_program rt L system_program) (\<lambda>_.
        let (operator_snapshot_pda, operator_snapshot_bump, _) =
          find_program_address rt program_id (Operator_Snapshot_Account (ai_key operator) (ai_key ncn) epoch) in
        rbind (fail_if (operator_snapshot_pda \<noteq> ai_key operator_snapshot) InvalidAccountData) (\<lambda>_.
        rbind (grow_account rt program_id (ai_key ncn) account_payer operator_snapshot D_OperatorSnapshot L) (\<lambda>L.
        if should_initialize L operator_snapshot D_OperatorSnapshot then
          initialize_operator_snapshot_data rt program_id epoch_state restaking_config ncn operator ncn_operator_state
            epoch_snapshot operator_snapshot epoch operator_snapshot_bump L
        else Inr L)))))))))))
    | _ \<Rightarrow> Inl NotEnoughAccountKeys)"

text \<open>Whether a delegation counts, and the stake it stands for: the parts of
  \<open>process_snapshot_vault_operator_delegation\<close> that read the accounts of the vault. A missing ticket or
  delegation is an empty account.\<close>

definition delegation_is_active ::
    "('x, 'y) externals_scheme \<Rightarrow> 'x ledger \<Rightarrow> account_info \<Rightarrow> account_info \<Rightarrow> account_info \<Rightarrow> u64 \<Rightarrow> u64 \<Rightarrow>
     program_error + bool" where
  "delegation_is_active rt L vault_ncn_ticket ncn_vault_ticket vault_operator_delegation current_slot
      ncn_epoch_length =
    rbind (ex_ncn_vault_ticket_is_active rt L ncn_vault_ticket) (\<lambda>is_active.
    rbind (is_active current_slot ncn_epoch_length) (\<lambda>ncn_vault_okay.
    rbind (if data_is_empty L vault_ncn_ticket then Inr False else
      rbind (ex_vault_ncn_ticket_is_active_or_cooldown rt L vault_ncn_ticket) (\<lambda>is_active_or_cooldown.
      is_active_or_cooldown current_slot ncn_epoch_length)) (\<lambda>vault_ncn_okay.
    let delegation_dne = data_is_empty L vault_operator_delegation in
    Inr (vault_ncn_okay \<and> ncn_vault_okay \<and> \<not> delegation_dne))))"

definition delegated_stake_weight ::
    "'p precise_ops \<Rightarrow> ('x, 'y) externals_scheme \<Rightarrow> 'x ledger \<Rightarrow> account_info \<Rightarrow> weight_table \<Rightarrow> pubkey \<Rightarrow> bool \<Rightarrow>
     program_error + u128" where
  "delegated_stake_weight pn rt L vault_operator_delegation t st_mint is_active =
    (if is_active then
       rbind (ex_delegation_total_security rt L vault_operator_delegation) (\<lambda>total_security.
       calculate_total_stake_weight pn total_security t st_mint)
     else Inr 0)"

definition process_snapshot_vault_operator_delegation ::
    "'p precise_ops \<Rightarrow> ('x, 'y) externals_scheme \<Rightarrow> pubkey \<Rightarrow> account_info list \<Rightarrow> u64 \<Rightarrow> 'x ledger \<Rightarrow>
     program_error + 'x ledger" where
  "process_snapshot_vault_operator_delegation pn rt program_id accounts epoch L =
    (case accounts of
      [epoch_state, ncn_config, restaking_config, ncn, operator, vault, vault_ncn_ticket, ncn_vault_ticket,
       vault_operator_delegation, weight_table, epoch_snapshot, operator_snapshot] \<Rightarrow>
        rbind (epoch_state_load rt program_id L epoch_state (ai_key ncn) epoch True) (\<lambda>_.
        rbind (config_load rt program_id L ncn_config (ai_key ncn) False) (\<lambda>_.
        rbind (ex_load_restaking_config rt L restaking_config False) (\<lambda>_.
        rbind (ex_load_ncn rt L ncn False) (\<lambda>_.
        rbind (ex_load_operator rt L operator False) (\<lambda>_.
        rbind (ex_load_vault rt L vault False) (\<lambda>_.
        rbind (ex_load_ncn_vault_ticket rt L ncn_vault_ticket ncn vault False) (\<lambda>_.
        rbind (if \<not> data_is_empty L vault_ncn_ticket
          then ex_load_vault_ncn_ticket rt L vault_ncn_ticket vault ncn False else Inr ()) (\<lambda>_.
        rbind (if \<not> data_is_empty L vault_operator_delegation
          then ex_load_vault_operator_delegation rt L vault_operator_delegation vault operator False else Inr ()) (\<lambda>_.
        let current_slot = rt_slot rt in
        rbind (load_ncn_epoch rt L restaking_config current_slot None) (\<lambda>(_, ncn_epoch_length).
        rbind (weight_table_load rt program_id L weight_table (ai_key ncn) epoch False) (\<lambda>_.
        rbind (epoch_snapshot_load rt program_id L epoch_snapshot (ai_key ncn) epoch True) (\<lambda>_.
        rbind (operator_snapshot_load rt program_id L operator_snapshot (ai_key operator) (ai_key ncn) epoch True) (\<lambda>_.
        rbind (ex_vault rt L vault) (\<lambda>vault_account.
        rbind (va_is_update_needed vault_account current_slot ncn_epoch_length) (\<lambda>vault_needs_update.
        rbind (fail_if vault_needs_update (tip_err VaultNeedsUpdate)) (\<lambda>_.
        let vault_index = va_vault_index vault_account; st_mint = va_supported_mint vault_account in
        rbind (delegation_is_active rt L vault_ncn_ticket ncn_vault_ticket vault_operator_delegation current_slot
          ncn_epoch_length) (\<lambda>is_active.
        rbind (as_weight_table rt L weight_table) (\<lambda>t.
        rbind (tip (get_weight_entry t st_mint)) (\<lambda>entry.
        rbind (tip (check_registry_for_vault t vault_index)) (\<lambda>_.
        rbind (delegated_stake_weight pn rt L vault_operator_delegation t st_mint is_active) (\<lambda>total_stake_weight.
        rbind (as_operator_snapshot rt L operator_snapshot) (\<lambda>os.
        let g = sm_ncn_fee_group (we_st_mint_entry entry) in
        rbind (tip (stake_weights_snapshot g total_stake_weight
          (sm_reward_multiplier_bps (we_st_mint_entry entry)))) (\<lambda>sw.
        rbind (tip (increment_vault_operator_delegation_registration os current_slot (ai_key vault) vault_index g sw)) (\<lambda>os.
        rbind (put_data program_id L operator_snapshot (Operator_Snapshot_Data os)) (\<lambda>L.
        rbind (if os_finalized os then
            rbind (as_epoch_snapshot rt L epoch_snapshot) (\<lambda>es.
            rbind (tip (increment_operator_registration es current_slot (os_valid_operator_vault_delegations os)
              (os_stake_weights os))) (\<lambda>es.
            put_data program_id L epoch_snapshot (Epoch_Snapshot_Data es)))
          else Inr L) (\<lambda>L.
        rbind (as_epoch_state rt L epoch_state) (\<lambda>s.
        rbind (update_snapshot_vault_operator_delegation s (os_ncn_operator_index os) (os_finalized os)) (\<lambda>s.
        put_data program_id L epoch_state (Epoch_State_Data s)))))))))))))))))))))))))))))
    | _ \<Rightarrow> Inl NotEnoughAccountKeys)"

end
