(* ===== verification/Vote_Handlers.thy ===== *)
theory Vote_Handlers
  imports Snapshot_Handlers
begin

text \<open>
  The handlers of the vote (\<open>program/src/initialize_ballot_box.rs\<close>, \<open>realloc_ballot_box.rs\<close>,
  \<open>cast_vote.rs\<close>) and of the use of its result (\<open>set_merkle_root.rs\<close>, \<open>claim_with_payer.rs\<close>).
\<close>

definition process_initialize_ballot_box ::
    "('x, 'y) externals_scheme \<Rightarrow> pubkey \<Rightarrow> account_info list \<Rightarrow> u64 \<Rightarrow> 'x ledger \<Rightarrow> program_error + 'x ledger" where
  "process_initialize_ballot_box rt program_id accounts epoch L =
    (case accounts of
      [epoch_marker, epoch_state, ncn_config, ballot_box, ncn, account_payer, system_program] \<Rightarrow>
        rbind (ex_load_system_account rt L ballot_box True) (\<lambda>_.
        rbind (ex_load_system_program rt L system_program) (\<lambda>_.
        rbind (ex_load_ncn rt L ncn False) (\<lambda>_.
        rbind (load_and_check_is_closing rt program_id L epoch_state (ai_key ncn) epoch False) (\<lambda>_.
        rbind (config_load rt program_id L ncn_config (ai_key ncn) False) (\<lambda>_.
        rbind (account_payer_load rt program_id L account_payer (ai_key ncn) True) (\<lambda>_.
        rbind (check_dne rt program_id L epoch_marker (ai_key ncn) epoch) (\<lambda>_.
        let (ballot_box_pda, ballot_box_bump, ballot_box_seeds) =
          find_program_address rt program_id (Ballot_Box_Account (ai_key ncn) epoch) in
        rbind (fail_if (ballot_box_pda \<noteq> ai_key ballot_box) InvalidSeeds) (\<lambda>_.
        pay_and_create_account rt program_id (ai_key ncn) account_payer ballot_box program_id
          (of_nat MAX_REALLOC_BYTES) (ballot_box_seeds @ [[ballot_box_bump]]) L))))))))
    | _ \<Rightarrow> Inl NotEnoughAccountKeys)"

definition process_realloc_ballot_box ::
    "('x, 'y) externals_scheme \<Rightarrow> pubkey \<Rightarrow> account_info list \<Rightarrow> u64 \<Rightarrow> 'x ledger \<Rightarrow> program_error + 'x ledger" where
  "process_realloc_ballot_box rt program_id accounts epoch L =
    (case accounts of
      [epoch_state, ncn_config, ballot_box, ncn, account_payer, system_program] \<Rightarrow>
        rbind (ex_load_system_program rt L system_program) (\<lambda>_.
        rbind (ex_load_ncn rt L ncn False) (\<lambda>_.
        rbind (epoch_state_load rt program_id L epoch_state (ai_key ncn) epoch False) (\<lambda>_.
        rbind (config_load rt program_id L ncn_config (ai_key ncn) False) (\<lambda>_.
        rbind (account_payer_load rt program_id L account_payer (ai_key ncn) True) (\<lambda>_.
        let (ballot_box_pda, ballot_box_bump, _) =
          find_program_address rt program_id (Ballot_Box_Account (ai_key ncn) epoch) in
        rbind (fail_if (ballot_box_pda \<noteq> ai_key ballot_box) InvalidAccountData) (\<lambda>_.
        rbind (grow_account rt program_id (ai_key ncn) account_payer ballot_box D_BallotBox L) (\<lambda>L.
        if should_initialize L ballot_box D_BallotBox then
          rbind (put_discriminator program_id L ballot_box D_BallotBox) (\<lambda>L.
          rbind (as_ballot_box rt L ballot_box) (\<lambda>bb.
          rbind (put_data program_id L ballot_box (Ballot_Box_Data
            (ballot_box_initialize bb (ai_key ncn) epoch ballot_box_bump (rt_slot rt)))) (\<lambda>L.
          rbind (as_epoch_state rt L epoch_state) (\<lambda>s.
          put_data program_id L epoch_state (Epoch_State_Data (update_realloc_ballot_box s))))))
        else Inr L)))))))
    | _ \<Rightarrow> Inl NotEnoughAccountKeys)"

definition process_cast_vote ::
    "'p precise_ops \<Rightarrow> ('x, 'y) externals_scheme \<Rightarrow> pubkey \<Rightarrow> account_info list \<Rightarrow> bytes32 \<Rightarrow> u64 \<Rightarrow> 'x ledger \<Rightarrow>
     program_error + 'x ledger" where
  "process_cast_vote pn rt program_id accounts voted_root epoch L =
    (case accounts of
      [epoch_state, ncn_config, ballot_box, ncn, epoch_snapshot, operator_snapshot, operator, operator_admin] \<Rightarrow>
        rbind (ex_load_signer rt L operator_admin False) (\<lambda>_.
        rbind (epoch_state_load rt program_id L epoch_state (ai_key ncn) epoch False) (\<lambda>_.
        rbind (config_load rt program_id L ncn_config (ai_key ncn) False) (\<lambda>_.
        rbind (ex_load_ncn rt L ncn False) (\<lambda>_.
        rbind (ex_load_operator rt L operator False) (\<lambda>_.
        rbind (ballot_box_load rt program_id L ballot_box (ai_key ncn) epoch True) (\<lambda>_.
        rbind (epoch_snapshot_load rt program_id L epoch_snapshot (ai_key ncn) epoch False) (\<lambda>_.
        rbind (operator_snapshot_load rt program_id L operator_snapshot (ai_key operator) (ai_key ncn) epoch False) (\<lambda>_.
        rbind (ex_operator rt L operator) (\<lambda>operator_account.
        rbind (fail_if (ai_key operator_admin \<noteq> oa_voter operator_account) (tip_err InvalidOperatorVoter)) (\<lambda>_.
        rbind (as_config rt L ncn_config) (\<lambda>c.
        let valid_slots_after_consensus = cf_valid_slots_after_consensus c in
        rbind (as_ballot_box rt L ballot_box) (\<lambda>bb.
        rbind (as_epoch_snapshot rt L epoch_snapshot) (\<lambda>es.
        rbind (fail_if (\<not> es_finalized es) (tip_err EpochSnapshotNotFinalized)) (\<lambda>_.
        let total_stake_weights = es_stake_weights es in
        rbind (as_operator_snapshot rt L operator_snapshot) (\<lambda>os.
        let operator_stake_weights = os_stake_weights os; slot = rt_slot rt; b = ballot_new voted_root in
        rbind (tip (cast_vote bb (ai_key operator) b operator_stake_weights slot valid_slots_after_consensus)) (\<lambda>bb.
        rbind (tip (tally_votes pn bb (sw_stake_weight total_stake_weights) slot)) (\<lambda>bb.
        rbind (if is_consensus_reached bb then rbind (tip (get_winning_ballot_tally bb)) (\<lambda>_. Inr ()) else Inr ()) (\<lambda>_.
        rbind (put_data program_id L ballot_box (Ballot_Box_Data bb)) (\<lambda>L.
        rbind (as_epoch_state rt L epoch_state) (\<lambda>s.
        rbind (tip (update_cast_vote s (bb_operators_voted bb) (is_consensus_reached bb) slot)) (\<lambda>s.
        put_data program_id L epoch_state (Epoch_State_Data s))))))))))))))))))))))
    | _ \<Rightarrow> Inl NotEnoughAccountKeys)"

definition process_set_merkle_root ::
    "hasher \<Rightarrow> ('x, 'y) externals_scheme \<Rightarrow> pubkey \<Rightarrow> account_info list \<Rightarrow> bytes32 list \<Rightarrow> bytes32 \<Rightarrow> u64 \<Rightarrow> u64 \<Rightarrow> u64 \<Rightarrow>
     'x ledger \<Rightarrow> program_error + 'x ledger" where
  "process_set_merkle_root hashv rt program_id accounts merkle_proof merkle_root max_total_claim max_num_nodes epoch L =
    (case accounts of
      [epoch_state, ncn_config, ncn, ballot_box, vote_account, tip_distribution_account, tip_distribution_config,
       tip_distribution_program] \<Rightarrow>
        rbind (epoch_state_load rt program_id L epoch_state (ai_key ncn) epoch True) (\<lambda>_.
        rbind (config_load rt program_id L ncn_config (ai_key ncn) True) (\<lambda>_.
        rbind (ex_load_ncn rt L ncn False) (\<lambda>_.
        rbind (ballot_box_load rt program_id L ballot_box (ai_key ncn) epoch False) (\<lambda>_.
        rbind (fail_if (ai_key tip_distribution_program \<noteq> ex_tip_distribution_program_id rt) InvalidAccountData) (\<lambda>_.
        rbind (ok_or (tip_err ArithmeticUnderflowError) (checked_sub epoch 1)) (\<lambda>tip_distribution_epoch.
        let (tip_distribution_address, _) = derive_tip_distribution_account_address rt
          (ai_key tip_distribution_program) (ai_key vote_account) tip_distribution_epoch in
        rbind (fail_if (tip_distribution_address \<noteq> ai_key tip_distribution_account) InvalidAccountData) (\<lambda>_.
        rbind (as_ballot_box rt L ballot_box) (\<lambda>bb.
        rbind (fail_if (\<not> is_consensus_reached bb) (tip_err ConsensusNotReached)) (\<lambda>_.
        rbind (tip (verify_merkle_root hashv bb tip_distribution_address merkle_proof merkle_root max_total_claim
          max_num_nodes)) (\<lambda>_.
        let (_, bump, ncn_config_seeds) = find_program_address rt program_id (Config_Account (ai_key ncn)) in
        rbind (ex_upload_merkle_root rt [tip_distribution_config, tip_distribution_account, ncn_config] merkle_root
          max_total_claim max_num_nodes (ncn_config_seeds @ [[bump]]) L) (\<lambda>L.
        rbind (as_epoch_state rt L epoch_state) (\<lambda>s.
        rbind (update_set_merkle_root s) (\<lambda>s.
        put_data program_id L epoch_state (Epoch_State_Data s))))))))))))))
    | _ \<Rightarrow> Inl NotEnoughAccountKeys)"

definition process_claim_with_payer ::
    "('x, 'y) externals_scheme \<Rightarrow> pubkey \<Rightarrow> account_info list \<Rightarrow> bytes32 list \<Rightarrow> u64 \<Rightarrow> u8 \<Rightarrow> 'x ledger \<Rightarrow>
     program_error + 'x ledger" where
  "process_claim_with_payer rt program_id accounts merkle_proof claimed bump L =
    (case accounts of
      [account_payer, config, ncn, tip_distribution_config, tip_distribution_account, claim_status, claimant,
       tip_distribution_program, system_program] \<Rightarrow>
        rbind (ex_load_ncn rt L ncn False) (\<lambda>_.
        rbind (config_load rt program_id L config (ai_key ncn) False) (\<lambda>_.
        rbind (account_payer_load rt program_id L account_payer (ai_key ncn) True) (\<lambda>_.
        rbind (fail_if (ai_key tip_distribution_program \<noteq> ex_tip_distribution_program_id rt) InvalidAccountData) (\<lambda>_.
        let (_, account_payer_bump, account_payer_seeds) =
          find_program_address rt program_id (Account_Payer_Account (ai_key ncn)) in
        ex_claim rt
          [tip_distribution_config, tip_distribution_account, claim_status, claimant, account_payer, system_program]
          merkle_proof claimed bump (account_payer_seeds @ [[account_payer_bump]]) L))))
    | _ \<Rightarrow> Inl NotEnoughAccountKeys)"

end
