(* ===== verification/Reward_Handlers.thy ===== *)
theory Reward_Handlers
  imports Vote_Handlers
begin

text \<open>
  The handlers that route and distribute rewards (\<open>program/src/initialize_base_reward_router.rs\<close>,
  \<open>realloc_base_reward_router.rs\<close>, \<open>initialize_ncn_reward_router.rs\<close>, \<open>route_base_rewards.rs\<close>,
  \<open>route_ncn_rewards.rs\<close>, \<open>distribute_base_rewards.rs\<close>, \<open>distribute_base_ncn_reward_route.rs\<close>,
  \<open>distribute_ncn_operator_rewards.rs\<close>, \<open>distribute_ncn_vault_rewards.rs\<close>).
\<close>

section \<open>Creating routers\<close>

definition process_initialize_base_reward_router ::
    "('x, 'y) externals_scheme \<Rightarrow> pubkey \<Rightarrow> account_info list \<Rightarrow> u64 \<Rightarrow> 'x ledger \<Rightarrow> program_error + 'x ledger" where
  "process_initialize_base_reward_router rt program_id accounts epoch L =
    (case accounts of
      [epoch_marker, epoch_state, ncn, base_reward_router, base_reward_receiver, account_payer, system_program] \<Rightarrow>
        rbind (load_and_check_is_closing rt program_id L epoch_state (ai_key ncn) epoch False) (\<lambda>_.
        rbind (ex_load_ncn rt L ncn False) (\<lambda>_.
        rbind (base_reward_receiver_load rt program_id L base_reward_receiver (ai_key ncn) epoch True) (\<lambda>_.
        rbind (account_payer_load rt program_id L account_payer (ai_key ncn) True) (\<lambda>_.
        rbind (check_dne rt program_id L epoch_marker (ai_key ncn) epoch) (\<lambda>_.
        rbind (ex_load_system_account rt L base_reward_router True) (\<lambda>_.
        rbind (ex_load_system_program rt L system_program) (\<lambda>_.
        let (base_reward_router_pubkey, base_reward_router_bump, base_reward_router_seeds) =
          find_program_address rt program_id (Base_Reward_Router_Account (ai_key ncn) epoch) in
        rbind (fail_if (base_reward_router_pubkey \<noteq> ai_key base_reward_router) InvalidAccountData) (\<lambda>_.
        rbind (pay_and_create_account rt program_id (ai_key ncn) account_payer base_reward_router program_id
          (of_nat MAX_REALLOC_BYTES) (base_reward_router_seeds @ [[base_reward_router_bump]]) L) (\<lambda>L.
        account_payer_transfer rt program_id (ai_key ncn) account_payer base_reward_receiver
          (rt_minimum_balance rt 0) L)))))))))
    | _ \<Rightarrow> Inl NotEnoughAccountKeys)"

definition process_realloc_base_reward_router ::
    "('x, 'y) externals_scheme \<Rightarrow> pubkey \<Rightarrow> account_info list \<Rightarrow> u64 \<Rightarrow> 'x ledger \<Rightarrow> program_error + 'x ledger" where
  "process_realloc_base_reward_router rt program_id accounts epoch L =
    (case accounts of
      [epoch_state, ncn_config, base_reward_router, ncn, account_payer, system_program] \<Rightarrow>
        rbind (ex_load_system_program rt L system_program) (\<lambda>_.
        rbind (ex_load_ncn rt L ncn False) (\<lambda>_.
        rbind (epoch_state_load rt program_id L epoch_state (ai_key ncn) epoch True) (\<lambda>_.
        rbind (config_load rt program_id L ncn_config (ai_key ncn) False) (\<lambda>_.
        rbind (account_payer_load rt program_id L account_payer (ai_key ncn) True) (\<lambda>_.
        let (base_reward_router_pda, base_reward_router_bump, _) =
          find_program_address rt program_id (Base_Reward_Router_Account (ai_key ncn) epoch) in
        rbind (fail_if (base_reward_router_pda \<noteq> ai_key base_reward_router) InvalidAccountData) (\<lambda>_.
        rbind (grow_account rt program_id (ai_key ncn) account_payer base_reward_router D_BaseRewardRouter L) (\<lambda>L.
        if should_initialize L base_reward_router D_BaseRewardRouter then
          rbind (put_discriminator program_id L base_reward_router D_BaseRewardRouter) (\<lambda>L.
          rbind (as_base_reward_router rt L base_reward_router) (\<lambda>r.
          rbind (put_data program_id L base_reward_router (Base_Reward_Router_Data
            (base_reward_router_initialize r (ai_key ncn) epoch base_reward_router_bump (rt_slot rt)))) (\<lambda>L.
          rbind (as_epoch_state rt L epoch_state) (\<lambda>s.
          put_data program_id L epoch_state (Epoch_State_Data (update_realloc_base_reward_router s))))))
        else Inr L)))))))
    | _ \<Rightarrow> Inl NotEnoughAccountKeys)"

definition process_initialize_ncn_reward_router ::
    "('x, 'y) externals_scheme \<Rightarrow> pubkey \<Rightarrow> account_info list \<Rightarrow> u8 \<Rightarrow> u64 \<Rightarrow> 'x ledger \<Rightarrow> program_error + 'x ledger" where
  "process_initialize_ncn_reward_router rt program_id accounts group_byte epoch L =
    (case accounts of
      [epoch_marker, epoch_state, ncn, operator, operator_snapshot, ncn_reward_router, ncn_reward_receiver,
       account_payer, system_program] \<Rightarrow>
        rbind (load_and_check_is_closing rt program_id L epoch_state (ai_key ncn) epoch True) (\<lambda>_.
        rbind (ex_load_ncn rt L ncn False) (\<lambda>_.
        rbind (ex_load_operator rt L operator False) (\<lambda>_.
        rbind (operator_snapshot_load rt program_id L operator_snapshot (ai_key operator) (ai_key ncn) epoch False) (\<lambda>_.
        rbind (tip (ncn_fee_group_try_from group_byte)) (\<lambda>g.
        rbind (ncn_reward_receiver_load rt program_id L ncn_reward_receiver g (ai_key operator) (ai_key ncn) epoch True) (\<lambda>_.
        rbind (ex_load_system_account rt L ncn_reward_router True) (\<lambda>_.
        rbind (ex_load_system_program rt L system_program) (\<lambda>_.
        rbind (account_payer_load rt program_id L account_payer (ai_key ncn) True) (\<lambda>_.
        rbind (check_dne rt program_id L epoch_marker (ai_key ncn) epoch) (\<lambda>_.
        rbind (as_operator_snapshot rt L operator_snapshot) (\<lambda>os.
        let operator_ncn_index = os_ncn_operator_index os; current_slot = rt_slot rt;
            (ncn_reward_router_pubkey, ncn_reward_router_bump, ncn_reward_router_seeds) = find_program_address rt
              program_id (Ncn_Reward_Router_Account g (ai_key operator) (ai_key ncn) epoch) in
        rbind (fail_if (ncn_reward_router_pubkey \<noteq> ai_key ncn_reward_router) InvalidAccountData) (\<lambda>_.
        rbind (pay_and_create_account rt program_id (ai_key ncn) account_payer ncn_reward_router program_id
          (account_size D_NcnRewardRouter) (ncn_reward_router_seeds @ [[ncn_reward_router_bump]]) L) (\<lambda>L.
        rbind (put_discriminator program_id L ncn_reward_router D_NcnRewardRouter) (\<lambda>L.
        rbind (as_ncn_reward_router rt L ncn_reward_router) (\<lambda>_.
        rbind (put_data program_id L ncn_reward_router (Ncn_Reward_Router_Data (ncn_reward_router_new g (ai_key operator)
          operator_ncn_index (ai_key ncn) epoch ncn_reward_router_bump current_slot))) (\<lambda>L.
        rbind (account_payer_transfer rt program_id (ai_key ncn) account_payer ncn_reward_receiver
          (rt_minimum_balance rt 0) L) (\<lambda>L.
        rbind (as_epoch_state rt L epoch_state) (\<lambda>s.
        rbind (update_realloc_ncn_reward_router s operator_ncn_index g) (\<lambda>s.
        put_data program_id L epoch_state (Epoch_State_Data s))))))))))))))))))))
    | _ \<Rightarrow> Inl NotEnoughAccountKeys)"

section \<open>Routing\<close>

definition process_route_base_rewards ::
    "'p precise_ops \<Rightarrow> ('x, 'y) externals_scheme \<Rightarrow> pubkey \<Rightarrow> account_info list \<Rightarrow> u16 \<Rightarrow> u64 \<Rightarrow> 'x ledger \<Rightarrow>
     program_error + 'x ledger" where
  "process_route_base_rewards pn rt program_id accounts max_iterations epoch L =
    (case accounts of
      [epoch_state, config, ncn, epoch_snapshot, ballot_box, base_reward_router, base_reward_receiver] \<Rightarrow>
        rbind (epoch_state_load rt program_id L epoch_state (ai_key ncn) epoch True) (\<lambda>_.
        rbind (config_load rt program_id L config (ai_key ncn) False) (\<lambda>_.
        rbind (ex_load_ncn rt L ncn False) (\<lambda>_.
        rbind (epoch_snapshot_load rt program_id L epoch_snapshot (ai_key ncn) epoch False) (\<lambda>_.
        rbind (base_reward_router_load rt program_id L base_reward_router (ai_key ncn) epoch True) (\<lambda>_.
        rbind (ballot_box_load rt program_id L ballot_box (ai_key ncn) epoch False) (\<lambda>_.
        rbind (base_reward_receiver_load rt program_id L base_reward_receiver (ai_key ncn) epoch True) (\<lambda>_.
        rbind (as_epoch_snapshot rt L epoch_snapshot) (\<lambda>es.
        rbind (as_ballot_box rt L ballot_box) (\<lambda>bb.
        let current_slot = rt_slot rt in
        rbind (as_config rt L config) (\<lambda>c.
        rbind (tip (is_voting_valid bb current_slot (cf_valid_slots_after_consensus c))) (\<lambda>voting_valid.
        rbind (fail_if voting_valid (tip_err VotingIsNotOver)) (\<lambda>_.
        let base_reward_receiver_balance = ac_lamports (L (ai_key base_reward_receiver)) in
        rbind (as_base_reward_router rt L base_reward_router) (\<lambda>r.
        let rent_cost = rt_minimum_balance rt 0 in
        rbind (if \<not> br_still_routing r then
            rbind (tip (br_route_incoming_rewards r rent_cost base_reward_receiver_balance)) (\<lambda>r.
            tip (br_route_reward_pool pn r (es_fees es)))
          else Inr r) (\<lambda>r.
        rbind (tip (br_route_ncn_fee_group_rewards pn r bb max_iterations)) (\<lambda>r.
        rbind (put_data program_id L base_reward_router (Base_Reward_Router_Data r)) (\<lambda>L.
        rbind (as_epoch_state rt L epoch_state) (\<lambda>s.
        put_data program_id L epoch_state (Epoch_State_Data (update_route_base_rewards s (br_total_rewards r))))))))))))))))))))
    | _ \<Rightarrow> Inl NotEnoughAccountKeys)"

definition process_route_ncn_rewards ::
    "'p precise_ops \<Rightarrow> ('x, 'y) externals_scheme \<Rightarrow> pubkey \<Rightarrow> account_info list \<Rightarrow> u8 \<Rightarrow> u16 \<Rightarrow> u64 \<Rightarrow> 'x ledger \<Rightarrow>
     program_error + 'x ledger" where
  "process_route_ncn_rewards pn rt program_id accounts group_byte max_iterations epoch L =
    (case accounts of
      [epoch_state, ncn, operator, operator_snapshot, ncn_reward_router, ncn_reward_receiver] \<Rightarrow>
        rbind (epoch_state_load rt program_id L epoch_state (ai_key ncn) epoch True) (\<lambda>_.
        rbind (ex_load_ncn rt L ncn False) (\<lambda>_.
        rbind (ex_load_operator rt L operator False) (\<lambda>_.
        rbind (tip (ncn_fee_group_try_from group_byte)) (\<lambda>g.
        rbind (ncn_reward_receiver_load rt program_id L ncn_reward_receiver g (ai_key operator) (ai_key ncn) epoch True) (\<lambda>_.
        rbind (operator_snapshot_load rt program_id L operator_snapshot (ai_key operator) (ai_key ncn) epoch False) (\<lambda>_.
        rbind (ncn_reward_router_load rt program_id L ncn_reward_router g (ai_key operator) (ai_key ncn) epoch True) (\<lambda>_.
        rbind (as_operator_snapshot rt L operator_snapshot) (\<lambda>os.
        let account_balance = ac_lamports (L (ai_key ncn_reward_receiver)) in
        rbind (as_ncn_reward_router rt L ncn_reward_router) (\<lambda>r.
        let rent_cost = rt_minimum_balance rt 0 in
        rbind (if \<not> nr_still_routing r then
            rbind (tip (nr_route_incoming_rewards r rent_cost account_balance)) (\<lambda>r.
            tip (nr_route_operator_rewards pn (ex_max_bps rt) r os))
          else Inr r) (\<lambda>r.
        rbind (tip (nr_route_reward_pool pn r os max_iterations)) (\<lambda>r.
        rbind (put_data program_id L ncn_reward_router (Ncn_Reward_Router_Data r)) (\<lambda>L.
        rbind (as_epoch_state rt L epoch_state) (\<lambda>s.
        rbind (update_route_ncn_rewards s (os_ncn_operator_index os) g (nr_total_rewards r)) (\<lambda>s.
        put_data program_id L epoch_state (Epoch_State_Data s)))))))))))))))
    | _ \<Rightarrow> Inl NotEnoughAccountKeys)"

section \<open>Distribution\<close>

text \<open>Rewards leave the receiver as a deposit into the stake pool, signed for by the receiver; the tokens go
  to the associated token account of the payee.\<close>

definition deposit_rewards ::
    "('x, 'y) externals_scheme \<Rightarrow> pubkey \<Rightarrow> program_account \<Rightarrow> account_info list \<Rightarrow> u64 \<Rightarrow> 'x ledger \<Rightarrow>
     program_error + 'x ledger" where
  "deposit_rewards rt program_id receiver accounts rewards L =
    (if rewards > 0 then
       let (_, bump, seeds) = find_program_address rt program_id receiver in
       ex_deposit_sol rt accounts rewards (seeds @ [[bump]]) L
     else Inr L)"

definition process_distribute_base_rewards ::
    "('x, 'y) externals_scheme \<Rightarrow> pubkey \<Rightarrow> account_info list \<Rightarrow> u8 \<Rightarrow> u64 \<Rightarrow> 'x ledger \<Rightarrow> program_error + 'x ledger" where
  "process_distribute_base_rewards rt program_id accounts group_byte epoch L =
    (case accounts of
      [epoch_state, ncn_config, ncn, base_reward_router, base_reward_receiver, payee, payee_ata,
       stake_pool_program, stake_pool, stake_pool_withdraw_authority, reserve_stake, manager_fee_account,
       referrer_pool_tokens_account, pool_mint, token_program, system_program] \<Rightarrow>
        rbind (epoch_state_load rt program_id L epoch_state (ai_key ncn) epoch True) (\<lambda>_.
        rbind (ex_load_ncn rt L ncn False) (\<lambda>_.
        rbind (config_load rt program_id L ncn_config (ai_key ncn) False) (\<lambda>_.
        rbind (base_reward_router_load rt program_id L base_reward_router (ai_key ncn) epoch True) (\<lambda>_.
        rbind (base_reward_receiver_load rt program_id L base_reward_receiver (ai_key ncn) epoch True) (\<lambda>_.
        rbind (ex_load_associated_token_account rt L payee_ata (ai_key payee) JITOSOL_MINT) (\<lambda>_.
        rbind (fail_if (ai_key stake_pool_program \<noteq> ex_stake_pool_program_id rt) InvalidAccountData) (\<lambda>_.
        rbind (tip (base_fee_group_try_from group_byte)) (\<lambda>g.
        rbind (as_config rt L ncn_config) (\<lambda>c.
        rbind (tip (base_fee_wallet (cf_fee_config c) g)) (\<lambda>fee_wallet.
        rbind (fail_if (fee_wallet \<noteq> ai_key payee) InvalidAccountData) (\<lambda>_.
        rbind (as_base_reward_router rt L base_reward_router) (\<lambda>r.
        rbind (fail_if (br_still_routing r) (tip_err RouterStillRouting)) (\<lambda>_.
        rbind (tip (br_distribute_base_fee_group_rewards r g)) (\<lambda>(r, rewards).
        rbind (put_data program_id L base_reward_router (Base_Reward_Router_Data r)) (\<lambda>L.
        rbind (deposit_rewards rt program_id (Base_Reward_Receiver_Account (ai_key ncn) epoch)
          [stake_pool, stake_pool_withdraw_authority, reserve_stake, base_reward_receiver, payee_ata,
           manager_fee_account, referrer_pool_tokens_account, pool_mint, system_program, token_program]
          rewards L) (\<lambda>L.
        rbind (as_epoch_state rt L epoch_state) (\<lambda>s.
        rbind (update_distribute_base_rewards s rewards) (\<lambda>s.
        put_data program_id L epoch_state (Epoch_State_Data s)))))))))))))))))))
    | _ \<Rightarrow> Inl NotEnoughAccountKeys)"

definition process_distribute_base_ncn_reward_route ::
    "('x, 'y) externals_scheme \<Rightarrow> pubkey \<Rightarrow> account_info list \<Rightarrow> u8 \<Rightarrow> u64 \<Rightarrow> 'x ledger \<Rightarrow> program_error + 'x ledger" where
  "process_distribute_base_ncn_reward_route rt program_id accounts group_byte epoch L =
    (case accounts of
      [epoch_state, ncn_config, ncn, operator, base_reward_router, base_reward_receiver, ncn_reward_router,
       ncn_reward_receiver, system_program] \<Rightarrow>
        rbind (epoch_state_load rt program_id L epoch_state (ai_key ncn) epoch True) (\<lambda>_.
        rbind (ex_load_ncn rt L ncn False) (\<lambda>_.
        rbind (ex_load_operator rt L operator False) (\<lambda>_.
        rbind (tip (ncn_fee_group_try_from group_byte)) (\<lambda>g.
        rbind (config_load rt program_id L ncn_config (ai_key ncn) False) (\<lambda>_.
        rbind (base_reward_router_load rt program_id L base_reward_router (ai_key ncn) epoch True) (\<lambda>_.
        rbind (ncn_reward_router_load rt program_id L ncn_reward_router g (ai_key operator) (ai_key ncn) epoch False) (\<lambda>_.
        rbind (base_reward_receiver_load rt program_id L base_reward_receiver (ai_key ncn) epoch True) (\<lambda>_.
        rbind (ncn_reward_receiver_load rt program_id L ncn_reward_receiver g (ai_key operator) (ai_key ncn) epoch False) (\<lambda>_.
        rbind (ex_load_system_program rt L system_program) (\<lambda>_.
        rbind (as_base_reward_router rt L base_reward_router) (\<lambda>r.
        rbind (fail_if (br_still_routing r) (tip_err RouterStillRouting)) (\<lambda>_.
        rbind (tip (br_distribute_reward_route r g (ai_key operator))) (\<lambda>(r, rewards).
        rbind (put_data program_id L base_reward_router (Base_Reward_Router_Data r)) (\<lambda>L.
        rbind (if rewards > 0 then
            let (_, bump, seeds) =
              find_program_address rt program_id (Base_Reward_Receiver_Account (ai_key ncn) epoch) in
            rt_transfer rt base_reward_receiver ncn_reward_receiver rewards (seeds @ [[bump]]) L
          else Inr L) (\<lambda>L.
        rbind (as_epoch_state rt L epoch_state) (\<lambda>s.
        rbind (update_distribute_base_ncn_rewards s rewards) (\<lambda>s.
        put_data program_id L epoch_state (Epoch_State_Data s))))))))))))))))))
    | _ \<Rightarrow> Inl NotEnoughAccountKeys)"

definition process_distribute_ncn_operator_rewards ::
    "('x, 'y) externals_scheme \<Rightarrow> pubkey \<Rightarrow> account_info list \<Rightarrow> u8 \<Rightarrow> u64 \<Rightarrow> 'x ledger \<Rightarrow> program_error + 'x ledger" where
  "process_distribute_ncn_operator_rewards rt program_id accounts group_byte epoch L =
    (case accounts of
      [epoch_state, ncn_config, ncn, operator, operator_ata, operator_snapshot, ncn_reward_router,
       ncn_reward_receiver, stake_pool_program, stake_pool, stake_pool_withdraw_authority, reserve_stake,
       manager_fee_account, referrer_pool_tokens_account, pool_mint, token_program, system_program] \<Rightarrow>
        rbind (epoch_state_load rt program_id L epoch_state (ai_key ncn) epoch True) (\<lambda>_.
        rbind (ex_load_ncn rt L ncn False) (\<lambda>_.
        rbind (ex_load_operator rt L operator True) (\<lambda>_.
        rbind (operator_snapshot_load rt program_id L operator_snapshot (ai_key operator) (ai_key ncn) epoch True) (\<lambda>_.
        rbind (tip (ncn_fee_group_try_from group_byte)) (\<lambda>g.
        rbind (config_load rt program_id L ncn_config (ai_key ncn) False) (\<lambda>_.
        rbind (ncn_reward_router_load rt program_id L ncn_reward_router g (ai_key operator) (ai_key ncn) epoch True) (\<lambda>_.
        rbind (ncn_reward_receiver_load rt program_id L ncn_reward_receiver g (ai_key operator) (ai_key ncn) epoch True) (\<lambda>_.
        rbind (ex_load_associated_token_account rt L operator_ata (ai_key operator) JITOSOL_MINT) (\<lambda>_.
        rbind (fail_if (ai_key stake_pool_program \<noteq> ex_stake_pool_program_id rt) InvalidAccountData) (\<lambda>_.
        rbind (as_ncn_reward_router rt L ncn_reward_router) (\<lambda>r.
        rbind (fail_if (nr_still_routing r) (tip_err RouterStillRouting)) (\<lambda>_.
        rbind (tip (nr_distribute_operator_rewards r)) (\<lambda>(r, rewards).
        rbind (put_data program_id L ncn_reward_router (Ncn_Reward_Router_Data r)) (\<lambda>L.
        rbind (deposit_rewards rt program_id
          (Ncn_Reward_Receiver_Account g (ai_key operator) (ai_key ncn) epoch)
          [stake_pool, stake_pool_withdraw_authority, reserve_stake, ncn_reward_receiver, operator_ata,
           manager_fee_account, referrer_pool_tokens_account, pool_mint, system_program, token_program]
          rewards L) (\<lambda>L.
        rbind (as_operator_snapshot rt L operator_snapshot) (\<lambda>os.
        rbind (as_epoch_state rt L epoch_state) (\<lambda>s.
        rbind (update_distribute_ncn_rewards s (os_ncn_operator_index os) g rewards) (\<lambda>s.
        put_data program_id L epoch_state (Epoch_State_Data s)))))))))))))))))))
    | _ \<Rightarrow> Inl NotEnoughAccountKeys)"

definition process_distribute_ncn_vault_rewards ::
    "('x, 'y) externals_scheme \<Rightarrow> pubkey \<Rightarrow> account_info list \<Rightarrow> u8 \<Rightarrow> u64 \<Rightarrow> 'x ledger \<Rightarrow> program_error + 'x ledger" where
  "process_distribute_ncn_vault_rewards rt program_id accounts group_byte epoch L =
    (case accounts of
      [epoch_state, ncn_config, ncn, operator, vault, vault_ata, operator_snapshot, ncn_reward_router,
       ncn_reward_receiver, stake_pool_program, stake_pool, stake_pool_withdraw_authority, reserve_stake,
       manager_fee_account, referrer_pool_tokens_account, pool_mint, token_program, system_program] \<Rightarrow>
        rbind (epoch_state_load rt program_id L epoch_state (ai_key ncn) epoch True) (\<lambda>_.
        rbind (ex_load_ncn rt L ncn False) (\<lambda>_.
        rbind (ex_load_operator rt L operator False) (\<lambda>_.
        rbind (ex_load_vault rt L vault False) (\<lambda>_.
        rbind (operator_snapshot_load rt program_id L operator_snapshot (ai_key operator) (ai_key ncn) epoch False) (\<lambda>_.
        rbind (tip (ncn_fee_group_try_from group_byte)) (\<lambda>g.
        rbind (config_load rt program_id L ncn_config (ai_key ncn) False) (\<lambda>_.
        rbind (ncn_reward_router_load rt program_id L ncn_reward_router g (ai_key operator) (ai_key ncn) epoch True) (\<lambda>_.
        rbind (ncn_reward_receiver_load rt program_id L ncn_reward_receiver g (ai_key operator) (ai_key ncn) epoch True) (\<lambda>_.
        rbind (ex_load_associated_token_account rt L vault_ata (ai_key vault) JITOSOL_MINT) (\<lambda>_.
        rbind (fail_if (ai_key stake_pool_program \<noteq> ex_stake_pool_program_id rt) InvalidAccountData) (\<lambda>_.
        rbind (as_ncn_reward_router rt L ncn_reward_router) (\<lambda>r.
        rbind (fail_if (nr_still_routing r) (tip_err RouterStillRouting)) (\<lambda>_.
        rbind (tip (nr_distribute_vault_reward_route r (ai_key vault))) (\<lambda>(r, rewards).
        rbind (put_data program_id L ncn_reward_router (Ncn_Reward_Router_Data r)) (\<lambda>L.
        rbind (deposit_rewards rt program_id
          (Ncn_Reward_Receiver_Account g (ai_key operator) (ai_key ncn) epoch)
          [stake_pool, stake_pool_withdraw_authority, reserve_stake, ncn_reward_receiver, vault_ata,
           manager_fee_account, referrer_pool_tokens_account, pool_mint, system_program, token_program,
           stake_pool_program]
          rewards L) (\<lambda>L.
        rbind (as_operator_snapshot rt L operator_snapshot) (\<lambda>os.
        rbind (as_epoch_state rt L epoch_state) (\<lambda>s.
        rbind (update_distribute_ncn_rewards s (os_ncn_operator_index os) g rewards) (\<lambda>s.
        put_data program_id L epoch_state (Epoch_State_Data s))))))))))))))))))))
    | _ \<Rightarrow> Inl NotEnoughAccountKeys)"

end
