(* ===== verification/Close_Handlers.thy ===== *)
theory Close_Handlers
  imports Reward_Handlers
begin

text \<open>
  \<open>program/src/close_epoch_account.rs\<close>: closing the accounts of an epoch, one call per account, the epoch
  state last. The closing of a router empties its receiver to the DAO wallet; the closing of the epoch
  state leaves an epoch marker.
\<close>

text \<open>The account check: by the discriminator of the account to close, the state of the epoch with the account
  marked closed and the ledger after the receiver, if any, was emptied. The epoch state is borrowed here,
  so that it is recognised by its address.\<close>

definition close_checks ::
    "('x, 'y) externals_scheme \<Rightarrow> pubkey \<Rightarrow> account_info \<Rightarrow> account_info \<Rightarrow> account_info \<Rightarrow> account_info \<Rightarrow>
     account_info list \<Rightarrow> bool \<Rightarrow> u64 \<Rightarrow> epoch_state \<Rightarrow> 'x ledger \<Rightarrow> program_error + epoch_state \<times> 'x ledger" where
  "close_checks rt program_id ncn account_to_close account_payer dao_wallet optional_accounts closing_epoch_state
      epoch s L =
    (let disc = (if closing_epoch_state then discriminator D_EpochState else ac_disc (L (ai_key account_to_close))) in
     if disc = discriminator D_EpochState then
       rbind (epoch_state_load_to_close s (ai_key ncn) epoch) (\<lambda>_.
       Inr (close_epoch_state s, L))
     else if disc = discriminator D_WeightTable then
       rbind (weight_table_load rt program_id L account_to_close (ai_key ncn) epoch True) (\<lambda>_.
       Inr (close_weight_table s, L))
     else if disc = discriminator D_EpochSnapshot then
       rbind (epoch_snapshot_load rt program_id L account_to_close (ai_key ncn) epoch True) (\<lambda>_.
       Inr (close_epoch_snapshot s, L))
     else if disc = discriminator D_OperatorSnapshot then
       rbind (operator_snapshot_load_to_close rt program_id L account_to_close (ai_key ncn) epoch) (\<lambda>_.
       rbind (as_operator_snapshot rt L account_to_close) (\<lambda>os.
       rbind (close_operator_snapshot s (os_ncn_operator_index os)) (\<lambda>s.
       Inr (s, L))))
     else if disc = discriminator D_BallotBox then
       rbind (ballot_box_load rt program_id L account_to_close (ai_key ncn) epoch True) (\<lambda>_.
       Inr (close_ballot_box s, L))
     else if disc = discriminator D_BaseRewardRouter then
       rbind (base_reward_router_load rt program_id L account_to_close (ai_key ncn) epoch True) (\<lambda>_.
       case optional_accounts of
         [base_reward_receiver] \<Rightarrow>
           rbind (base_reward_receiver_load rt program_id L base_reward_receiver (ai_key ncn) epoch True) (\<lambda>_.
           rbind (base_reward_receiver_close rt program_id (ai_key ncn) epoch base_reward_receiver dao_wallet
             account_payer L) (\<lambda>L.
           Inr (close_base_reward_router s, L)))
       | _ \<Rightarrow> Inl (tip_err CannotCloseAccountNoReceiverProvided))
     else if disc = discriminator D_NcnRewardRouter then
       rbind (ncn_reward_router_load_to_close rt program_id L account_to_close (ai_key ncn) epoch) (\<lambda>_.
       rbind (as_ncn_reward_router rt L account_to_close) (\<lambda>r.
       let ncn_operator_index = nr_ncn_operator_index r; operator = nr_operator r; g = nr_ncn_fee_group r in
       case optional_accounts of
         [ncn_reward_receiver] \<Rightarrow>
           rbind (ncn_reward_receiver_load rt program_id L ncn_reward_receiver g operator (ai_key ncn) epoch True) (\<lambda>_.
           rbind (ncn_reward_receiver_close rt program_id g operator (ai_key ncn) epoch ncn_reward_receiver dao_wallet
             account_payer L) (\<lambda>L.
           rbind (close_ncn_reward_router s ncn_operator_index g) (\<lambda>s.
           Inr (s, L))))
       | _ \<Rightarrow> Inl (tip_err CannotCloseAccountNoReceiverProvided)))
     else Inl (tip_err InvalidAccountToCloseDiscriminator))"

text \<open>The marker of a closed epoch.\<close>

definition create_epoch_marker ::
    "('x, 'y) externals_scheme \<Rightarrow> pubkey \<Rightarrow> account_info \<Rightarrow> account_info \<Rightarrow> account_info \<Rightarrow> u64 \<Rightarrow> 'x ledger \<Rightarrow>
     program_error + 'x ledger" where
  "create_epoch_marker rt program_id ncn epoch_marker account_payer epoch L =
    (let (epoch_marker_pda, epoch_marker_bump, epoch_marker_seeds) =
       find_program_address rt program_id (Epoch_Marker_Account (ai_key ncn) epoch) in
     rbind (fail_if (epoch_marker_pda \<noteq> ai_key epoch_marker) InvalidSeeds) (\<lambda>_.
     rbind (pay_and_create_account rt program_id (ai_key ncn) account_payer epoch_marker program_id
       (account_size D_EpochMarker) (epoch_marker_seeds @ [[epoch_marker_bump]]) L) (\<lambda>L.
     rbind (put_discriminator program_id L epoch_marker D_EpochMarker) (\<lambda>L.
     rbind (as_epoch_marker rt L epoch_marker) (\<lambda>_.
     put_data program_id L epoch_marker (Epoch_Marker_Data (epoch_marker_new (ai_key ncn) epoch (rt_slot rt))))))))"

text \<open>\<open>accounts.split_at(8)\<close> panics on fewer than eight accounts.\<close>

definition process_close_epoch_account ::
    "('x, 'y) externals_scheme \<Rightarrow> pubkey \<Rightarrow> account_info list \<Rightarrow> u64 \<Rightarrow> 'x ledger \<Rightarrow> program_error + 'x ledger" where
  "process_close_epoch_account rt program_id accounts epoch L =
    (case accounts of
      epoch_marker # epoch_state # config # ncn # account_to_close # account_payer # dao_wallet # system_program #
      optional_accounts \<Rightarrow>
        rbind (ex_load_system_program rt L system_program) (\<lambda>_.
        rbind (ex_load_ncn rt L ncn False) (\<lambda>_.
        rbind (epoch_state_load rt program_id L epoch_state (ai_key ncn) epoch False) (\<lambda>_.
        rbind (config_load rt program_id L config (ai_key ncn) False) (\<lambda>_.
        rbind (account_payer_load rt program_id L account_payer (ai_key ncn) False) (\<lambda>_.
        rbind (check_dne rt program_id L epoch_marker (ai_key ncn) epoch) (\<lambda>_.
        let closing_epoch_state = (ai_key account_to_close = ai_key epoch_state) in
        rbind (fail_if (data_is_empty L account_to_close) (tip_err CannotCloseAccountAlreadyClosed)) (\<lambda>_.
        rbind (as_config rt L config) (\<lambda>c.
        rbind (as_epoch_state rt L epoch_state) (\<lambda>s.
        rbind (tip (base_fee_wallet (cf_fee_config c) base_fee_group_dao)) (\<lambda>wallet.
        rbind (fail_if (wallet \<noteq> ai_key dao_wallet) (tip_err InvalidDaoWallet)) (\<lambda>_.
        rbind (can_close_epoch_accounts (rt_get_epoch rt) s (cf_epochs_after_consensus_before_close c)
          (rt_slot rt)) (\<lambda>can_close.
        rbind (fail_if (\<not> can_close) (tip_err CannotCloseAccountNotEnoughEpochs)) (\<lambda>_.
        rbind (close_checks rt program_id ncn account_to_close account_payer dao_wallet optional_accounts
          closing_epoch_state epoch (set_is_closing s) L) (\<lambda>(s, L).
        rbind (put_data program_id L epoch_state (Epoch_State_Data s)) (\<lambda>L.
        rbind (if closing_epoch_state
          then create_epoch_marker rt program_id ncn epoch_marker account_payer epoch L else Inr L) (\<lambda>L.
        close_account rt program_id account_payer account_to_close L))))))))))))))))
    | _ \<Rightarrow> Inl Panicked)"

end
