(* ===== verification/Program.thy ===== *)
theory Program
  imports Close_Handlers
begin

text \<open>
  \<open>core/src/instruction.rs\<close> and \<open>program/src/lib.rs\<close>: the instructions of the program, decoded, and their
  dispatch. A transaction that fails leaves the ledger as it was.
\<close>

datatype tip_router_instruction =
    InitializeConfig u16 u16 u16 u64 u64 u64
  | InitializeVaultRegistry
  | ReallocVaultRegistry
  | RegisterVault
  | InitializeEpochState u64
  | ReallocEpochState u64
  | InitializeWeightTable u64
  | ReallocWeightTable u64
  | SwitchboardSetWeight pubkey u64
  | InitializeEpochSnapshot u64
  | InitializeOperatorSnapshot u64
  | ReallocOperatorSnapshot u64
  | SnapshotVaultOperatorDelegation u64
  | InitializeBallotBox u64
  | ReallocBallotBox u64
  | CastVote bytes32 u64
  | SetMerkleRoot "bytes32 list" bytes32 u64 u64 u64
  | InitializeBaseRewardRouter u64
  | ReallocBaseRewardRouter u64
  | InitializeNcnRewardRouter u8 u64
  | RouteBaseRewards u16 u64
  | RouteNcnRewards u8 u16 u64
  | DistributeBaseRewards u8 u64
  | DistributeBaseNcnRewardRoute u8 u64
  | DistributeNcnOperatorRewards u8 u64
  | DistributeNcnVaultRewards u8 u64
  | ClaimWithPayer "bytes32 list" u64 u8
  | CloseEpochAccount u64
  | AdminSetParameters "u64 option" "u64 option" "u64 option" "u64 option"
  | AdminSetConfigFees "u16 option" "u8 option" "pubkey option" "u16 option" "u8 option" "u16 option"
  | AdminSetNewAdmin config_admin_role
  | AdminSetTieBreaker bytes32 u64
  | AdminSetWeight pubkey u128 u64
  | AdminRegisterStMint u8 u64 "pubkey option" "u128 option"
  | AdminSetStMint pubkey "u8 option" "u64 option" "pubkey option" "u128 option"

text \<open>The dispatch; \<open>tip_router_id\<close> is the address the program was built for.\<close>

primrec dispatch ::
    "'p precise_ops \<Rightarrow> hasher \<Rightarrow> ('x, 'y) externals_scheme \<Rightarrow> pubkey \<Rightarrow> account_info list \<Rightarrow> 'x ledger \<Rightarrow>
     tip_router_instruction \<Rightarrow> program_error + 'x ledger" where
  "dispatch pn hashv rt program_id accounts L (InitializeConfig block_engine_bps dao_fee_bps default_ncn_fee_bps
      epochs_before_stall epochs_after_consensus_before_close valid_slots_after_consensus) =
    process_admin_initialize_config pn rt program_id accounts block_engine_bps dao_fee_bps default_ncn_fee_bps
      epochs_before_stall epochs_after_consensus_before_close valid_slots_after_consensus L"
| "dispatch pn hashv rt program_id accounts L InitializeVaultRegistry =
    process_initialize_vault_registry rt program_id accounts L"
| "dispatch pn hashv rt program_id accounts L ReallocVaultRegistry =
    process_realloc_vault_registry rt program_id accounts L"
| "dispatch pn hashv rt program_id accounts L RegisterVault = process_register_vault rt program_id accounts L"
| "dispatch pn hashv rt program_id accounts L (InitializeEpochState epoch) =
    process_initialize_epoch_state rt program_id accounts epoch L"
| "dispatch pn hashv rt program_id accounts L (ReallocEpochState epoch) =
    process_realloc_epoch_state rt program_id accounts epoch L"
| "dispatch pn hashv rt program_id accounts L (InitializeWeightTable epoch) =
    process_initialize_weight_table rt program_id accounts epoch L"
| "dispatch pn hashv rt program_id accounts L (ReallocWeightTable epoch) =
    process_realloc_weight_table rt program_id accounts epoch L"
| "dispatch pn hashv rt program_id accounts L (SwitchboardSetWeight st_mint epoch) =
    process_switchboard_set_weight rt program_id accounts st_mint epoch L"
| "dispatch pn hashv rt program_id accounts L (InitializeEpochSnapshot epoch) =
    process_initialize_epoch_snapshot rt program_id accounts epoch L"
| "dispatch pn hashv rt program_id accounts L (InitializeOperatorSnapshot epoch) =
    process_initialize_operator_snapshot rt program_id accounts epoch L"
| "dispatch pn hashv rt program_id accounts L (ReallocOperatorSnapshot epoch) =
    process_realloc_operator_snapshot rt program_id accounts epoch L"
| "dispatch pn hashv rt program_id accounts L (SnapshotVaultOperatorDelegation epoch) =
    process_snapshot_vault_operator_delegation pn rt program_id accounts epoch L"
| "dispatch pn hashv rt program_id accounts L (InitializeBallotBox epoch) =
    process_initialize_ballot_box rt program_id accounts epoch L"
| "dispatch pn hashv rt program_id accounts L (ReallocBallotBox epoch) =
    process_realloc_ballot_box rt program_id accounts epoch L"
| "dispatch pn hashv rt program_id accounts L (CastVote voted_root epoch) =
    process_cast_vote pn rt program_id accounts voted_root epoch L"
| "dispatch pn hashv rt program_id accounts L (SetMerkleRoot merkle_proof merkle_root max_total_claim max_num_nodes epoch) =
    process_set_merkle_root hashv rt program_id accounts merkle_proof merkle_root max_total_claim max_num_nodes epoch L"
| "dispatch pn hashv rt program_id accounts L (InitializeBaseRewardRouter epoch) =
    process_initialize_base_reward_router rt program_id accounts epoch L"
| "dispatch pn hashv rt program_id accounts L (ReallocBaseRewardRouter epoch) =
    process_realloc_base_reward_router rt program_id accounts epoch L"
| "dispatch pn hashv rt program_id accounts L (InitializeNcnRewardRouter group_byte epoch) =
    process_initialize_ncn_reward_router rt program_id accounts group_byte epoch L"
| "dispatch pn hashv rt program_id accounts L (RouteBaseRewards max_iterations epoch) =
    process_route_base_rewards pn rt program_id accounts max_iterations epoch L"
| "dispatch pn hashv rt program_id accounts L (RouteNcnRewards group_byte max_iterations epoch) =
    process_route_ncn_rewards pn rt program_id accounts group_byte max_iterations epoch L"
| "dispatch pn hashv rt program_id accounts L (DistributeBaseRewards group_byte epoch) =
    process_distribute_base_rewards rt program_id accounts group_byte epoch L"
| "dispatch pn hashv rt program_id accounts L (DistributeBaseNcnRewardRoute group_byte epoch) =
    process_distribute_base_ncn_reward_route rt program_id accounts group_byte epoch L"
| "dispatch pn hashv rt program_id accounts L (DistributeNcnOperatorRewards group_byte epoch) =
    process_distribute_ncn_operator_rewards rt program_id accounts group_byte epoch L"
| "dispatch pn hashv rt program_id accounts L (DistributeNcnVaultRewards group_byte epoch) =
    process_distribute_ncn_vault_rewards rt program_id accounts group_byte epoch L"
| "dispatch pn hashv rt program_id accounts L (ClaimWithPayer merkle_proof claimed bump) =
    process_claim_with_payer rt program_id accounts merkle_proof claimed bump L"
| "dispatch pn hashv rt program_id accounts L (CloseEpochAccount epoch) =
    process_close_epoch_account rt program_id accounts epoch L"
| "dispatch pn hashv rt program_id accounts L (AdminSetParameters starting_valid_epoch epochs_before_stall
      epochs_after_consensus_before_close valid_slots_after_consensus) =
    process_admin_set_parameters rt program_id accounts starting_valid_epoch epochs_before_stall
      epochs_after_consensus_before_close valid_slots_after_consensus L"
| "dispatch pn hashv rt program_id accounts L (AdminSetConfigFees new_block_engine_fee_bps base_group_opt
      new_base_fee_wallet new_base_fee_bps ncn_group_opt new_ncn_fee_bps) =
    process_admin_set_config_fees pn rt program_id accounts new_block_engine_fee_bps base_group_opt
      new_base_fee_wallet new_base_fee_bps ncn_group_opt new_ncn_fee_bps L"
| "dispatch pn hashv rt program_id accounts L (AdminSetNewAdmin role) =
    process_admin_set_new_admin rt program_id accounts role L"
| "dispatch pn hashv rt program_id accounts L (AdminSetTieBreaker voted_root epoch) =
    process_admin_set_tie_breaker rt program_id accounts voted_root epoch L"
| "dispatch pn hashv rt program_id accounts L (AdminSetWeight st_mint weight epoch) =
    process_admin_set_weight rt program_id accounts st_mint epoch weight L"
| "dispatch pn hashv rt program_id accounts L (AdminRegisterStMint group_byte reward_multiplier_bps
      switchboard_feed no_feed_weight) =
    process_admin_register_st_mint rt program_id accounts group_byte reward_multiplier_bps switchboard_feed
      no_feed_weight L"
| "dispatch pn hashv rt program_id accounts L (AdminSetStMint st_mint group_opt reward_multiplier_bps
      switchboard_feed no_feed_weight) =
    process_admin_set_st_mint rt program_id accounts st_mint group_opt reward_multiplier_bps switchboard_feed
      no_feed_weight L"

definition process_instruction ::
    "pubkey \<Rightarrow> 'p precise_ops \<Rightarrow> hasher \<Rightarrow> ('x, 'y) externals_scheme \<Rightarrow> pubkey \<Rightarrow> account_info list \<Rightarrow>
     tip_router_instruction \<Rightarrow> 'x ledger \<Rightarrow> program_error + 'x ledger" where
  "process_instruction tip_router_id pn hashv rt program_id accounts ix L =
    rbind (fail_if (program_id \<noteq> tip_router_id) IncorrectProgramId) (\<lambda>_.
    dispatch pn hashv rt program_id accounts L ix)"

end
