(* ===== verification/Ledger_Logic.thy ===== *)
theory Ledger_Logic
  imports Program Ballot_Protocol Base_Split Ncn_Split Epoch_Stages
begin

text \<open>
  The invariant of the ledger, and the rules by which a handler keeps it. Every account the program owns
  is either zeroed, or its discriminator says what its data is, its address is the one derived from the
  keys and the epoch it holds, and its data is one the operations of its component can produce. The
  handlers are checked by rules for their building blocks: \<open>safe I m\<close> says that \<open>I\<close> holds of the ledger
  \<open>m\<close> returns, if it returns one.
\<close>

section \<open>What the accounts hold\<close>

fun kind_of :: "'x account_data \<Rightarrow> discriminators option" where
  "kind_of (Config_Data c) = Some D_Config"
| "kind_of (Vault_Registry_Data r) = Some D_VaultRegistry"
| "kind_of (Weight_Table_Data t) = Some D_WeightTable"
| "kind_of (Epoch_Snapshot_Data es) = Some D_EpochSnapshot"
| "kind_of (Operator_Snapshot_Data os) = Some D_OperatorSnapshot"
| "kind_of (Ballot_Box_Data bb) = Some D_BallotBox"
| "kind_of (Base_Reward_Router_Data r) = Some D_BaseRewardRouter"
| "kind_of (Ncn_Reward_Router_Data r) = Some D_NcnRewardRouter"
| "kind_of (Epoch_State_Data s) = Some D_EpochState"
| "kind_of (Epoch_Marker_Data m) = Some D_EpochMarker"
| "kind_of _ = None"

text \<open>The address an account of the program belongs at, by the keys, the group and the epoch it holds.\<close>

fun home :: "'x account_data \<Rightarrow> program_account option" where
  "home (Config_Data c) = Some (Config_Account (cf_ncn c))"
| "home (Vault_Registry_Data r) = Some (Vault_Registry_Account (vr_ncn r))"
| "home (Weight_Table_Data t) = Some (Weight_Table_Account (wt_ncn t) (wt_epoch t))"
| "home (Epoch_Snapshot_Data es) = Some (Epoch_Snapshot_Account (es_ncn es) (es_epoch es))"
| "home (Operator_Snapshot_Data os) = Some (Operator_Snapshot_Account (os_operator os) (os_ncn os) (os_ncn_epoch os))"
| "home (Ballot_Box_Data bb) = Some (Ballot_Box_Account (bb_ncn bb) (bb_epoch bb))"
| "home (Base_Reward_Router_Data r) = Some (Base_Reward_Router_Account (br_ncn r) (br_epoch r))"
| "home (Ncn_Reward_Router_Data r) =
    Some (Ncn_Reward_Router_Account (nr_ncn_fee_group r) (nr_operator r) (nr_ncn r) (nr_epoch r))"
| "home (Epoch_State_Data s) = Some (Epoch_State_Account (st_ncn s) (st_epoch s))"
| "home (Epoch_Marker_Data m) = Some (Epoch_Marker_Account (em_ncn m) (em_epoch m))"
| "home _ = None"

text \<open>The parameters of a configuration are in the ranges of \<open>constants.rs\<close>.\<close>

definition parameters_ok :: "config \<Rightarrow> bool" where
  "parameters_ok c \<longleftrightarrow>
    MIN_EPOCHS_BEFORE_STALL \<le> cf_epochs_before_stall c \<and> cf_epochs_before_stall c \<le> MAX_EPOCHS_BEFORE_STALL \<and>
    MIN_EPOCHS_AFTER_CONSENSUS_BEFORE_CLOSE \<le> cf_epochs_after_consensus_before_close c \<and>
    cf_epochs_after_consensus_before_close c \<le> MAX_EPOCHS_AFTER_CONSENSUS_BEFORE_CLOSE \<and>
    MIN_VALID_SLOTS_AFTER_CONSENSUS \<le> cf_valid_slots_after_consensus c \<and>
    cf_valid_slots_after_consensus c \<le> MAX_VALID_SLOTS_AFTER_CONSENSUS"

definition epoch_snapshot_ok :: "epoch_snapshot \<Rightarrow> bool" where
  "epoch_snapshot_ok es \<longleftrightarrow> wf_stake_weights (es_stake_weights es) \<and>
    es_operators_registered es \<le> es_operator_count es"

text \<open>A weight table lists each mint once; a weight may have been set for the default key, so that an
  empty entry may have one.\<close>

definition weight_table_ok :: "weight_table \<Rightarrow> bool" where
  "weight_table_ok t \<longleftrightarrow> length (wt_table t) = 64 \<and> slots_ok we_st_mint (wt_table t) \<and>
    vault_registry_initialized t \<and> weight_map t \<noteq> Map.empty"

text \<open>The data of the accounts, by the reachable states of the components. \<open>e\<close> is the epoch of the cluster.\<close>

fun content :: "'p precise_ops \<Rightarrow> ('p \<Rightarrow> rat) \<Rightarrow> u64 \<Rightarrow> 'x account_data \<Rightarrow> bool" where
  "content pn val e (Config_Data c) \<longleftrightarrow> fee_reachable pn (cf_fee_config c) e \<and> parameters_ok c"
| "content pn val e (Vault_Registry_Data r) \<longleftrightarrow> registry_reachable r"
| "content pn val e (Weight_Table_Data t) \<longleftrightarrow> weight_table_ok t"
| "content pn val e (Epoch_Snapshot_Data es) \<longleftrightarrow> epoch_snapshot_ok es"
| "content pn val e (Operator_Snapshot_Data os) \<longleftrightarrow> vaults_named os"
| "content pn val e (Ballot_Box_Data bb) \<longleftrightarrow> bb_reachable pn bb"
| "content pn val e (Base_Reward_Router_Data r) \<longleftrightarrow>
    (\<exists>received paid. router_runs base_router_init (base_router_step pn) r received paid)"
| "content pn val e (Ncn_Reward_Router_Data r) \<longleftrightarrow>
    (\<exists>received paid. router_runs ncn_router_init (ncn_router_step pn val 10000 UNIV) r received paid)"
| "content pn val e (Epoch_State_Data s) \<longleftrightarrow> epoch_reachable s"
| "content pn val e (Epoch_Marker_Data m) \<longleftrightarrow> True"
| "content pn val e _ \<longleftrightarrow> False"

text \<open>\<open>addr\<close> is the derivation of addresses. The accounts at the keys \<open>M\<close> are epoch markers: for any set of
  markers, that they stay is part of the invariant.\<close>

definition account_ok ::
    "pubkey \<Rightarrow> (program_account \<Rightarrow> pubkey) \<Rightarrow> pubkey set \<Rightarrow> 'p precise_ops \<Rightarrow> ('p \<Rightarrow> rat) \<Rightarrow> u64 \<Rightarrow> pubkey \<Rightarrow>
     'x account \<Rightarrow> bool" where
  "account_ok program_id addr M pn val e key a \<longleftrightarrow> (ac_owner a = program_id \<longrightarrow>
    (if ac_data a = Zeroed then ac_disc a = 0
     else map_option discriminator (kind_of (ac_data a)) = Some (ac_disc a) \<and>
       map_option addr (home (ac_data a)) = Some key \<and> content pn val e (ac_data a))) \<and>
    (key \<in> M \<longrightarrow> ac_owner a = program_id \<and> 0 < ac_len a \<and> kind_of (ac_data a) = Some D_EpochMarker)"

definition ledger_ok ::
    "pubkey \<Rightarrow> (program_account \<Rightarrow> pubkey) \<Rightarrow> pubkey set \<Rightarrow> 'p precise_ops \<Rightarrow> ('p \<Rightarrow> rat) \<Rightarrow> u64 \<Rightarrow> 'x ledger \<Rightarrow> bool" where
  "ledger_ok program_id addr M pn val e L \<longleftrightarrow> (\<forall>key. account_ok program_id addr M pn val e key (L key))"

text \<open>\<open>keeps\<close>: the operation that made the new data of the old one belongs to the component.\<close>

definition keeps :: "'p precise_ops \<Rightarrow> ('p \<Rightarrow> rat) \<Rightarrow> u64 \<Rightarrow> 'x account_data \<Rightarrow> 'x account_data \<Rightarrow> bool" where
  "keeps pn val e d d' \<longleftrightarrow> (content pn val e d \<longrightarrow> content pn val e d' \<and> home d' = home d)"

lemma keepsI: "(content pn val e d \<Longrightarrow> content pn val e d' \<and> home d' = home d) \<Longrightarrow> keeps pn val e d d'"
  by (simp add: keeps_def)

lemma keeps_trans: "keeps pn val e d d1 \<Longrightarrow> keeps pn val e d1 d2 \<Longrightarrow> keeps pn val e d d2"
  by (simp add: keeps_def)

lemma keeps_refl [simp]: "keeps pn val e d d"
  by (simp add: keeps_def)

section \<open>What the runtime promises\<close>

text \<open>\<open>lamports_only L L'\<close>: a transfer. \<open>others_ran program_id L L'\<close>: code of other programs; it cannot change
  the data of accounts of this program, and an account it hands over is zeroed.\<close>

definition lamports_only :: "'x ledger \<Rightarrow> 'x ledger \<Rightarrow> bool" where
  "lamports_only L L' \<longleftrightarrow> (\<forall>key. L' key = (L key)\<lparr>ac_lamports := ac_lamports (L' key)\<rparr>)"

definition others_ran :: "pubkey \<Rightarrow> 'x ledger \<Rightarrow> 'x ledger \<Rightarrow> bool" where
  "others_ran program_id L L' \<longleftrightarrow> (\<forall>key.
    if ac_owner (L key) = program_id
    then ac_owner (L' key) = program_id \<and> ac_len (L' key) = ac_len (L key) \<and> ac_disc (L' key) = ac_disc (L key) \<and>
      ac_data (L' key) = ac_data (L key)
    else ac_owner (L' key) = program_id \<longrightarrow> ac_disc (L' key) = 0 \<and> ac_data (L' key) = Zeroed)"

text \<open>The laws, all documented behaviour of the runtime and of the libraries: the cast checks the
  discriminator; a transfer moves lamports; an allocation zeroes an account of the system program and an
  assignment hands it over; growing keeps the data and emptying removes it; called programs cannot
  touch the accounts of this one; the accounts the library checks are real ones.\<close>

definition runtime_laws ::
    "pubkey \<Rightarrow> (program_account \<Rightarrow> pubkey) \<Rightarrow> ('x, 'y) externals_scheme \<Rightarrow> bool" where
  "runtime_laws program_id addr rt \<longleftrightarrow>
    program_id \<noteq> system_program_id \<and> (\<forall>p. pda rt program_id p = addr p) \<and>
    (\<forall>d n disc len. rt_cast rt d n disc len = Inr () \<longrightarrow> disc = d) \<and>
    (\<forall>a b n seeds L L'. rt_transfer rt a b n seeds L = Inr L' \<longrightarrow> lamports_only L L') \<and>
    (\<forall>a n seeds L L'. rt_allocate rt a n seeds L = Inr L' \<longrightarrow> ac_owner (L (ai_key a)) = system_program_id \<and>
      L' = L(ai_key a := (L (ai_key a))\<lparr>ac_len := n, ac_disc := 0, ac_data := Zeroed\<rparr>)) \<and>
    (\<forall>a owner seeds L L'. rt_assign rt a owner seeds L = Inr L' \<longrightarrow>
      L' = L(ai_key a := (L (ai_key a))\<lparr>ac_owner := owner\<rparr>)) \<and>
    (\<forall>a n L L'. rt_realloc rt a n L = Inr L' \<longrightarrow>
      (0 < n \<longrightarrow> ac_len (L (ai_key a)) \<le> n \<longrightarrow> L' = L(ai_key a := (L (ai_key a))\<lparr>ac_len := n\<rparr>)) \<and>
      (n = 0 \<longrightarrow> L' = L(ai_key a := (L (ai_key a))\<lparr>ac_len := 0, ac_disc := 0, ac_data := Zeroed\<rparr>))) \<and>
    (\<forall>as n seeds L L'. ex_deposit_sol rt as n seeds L = Inr L' \<longrightarrow> others_ran program_id L L') \<and>
    (\<forall>as r n k seeds L L'. ex_upload_merkle_root rt as r n k seeds L = Inr L' \<longrightarrow> others_ran program_id L L') \<and>
    (\<forall>as p n b seeds L L'. ex_claim rt as p n b seeds L = Inr L' \<longrightarrow> others_ran program_id L L') \<and>
    (\<forall>L a w u. ex_load_operator rt L a w = Inr u \<longrightarrow> ai_key a \<noteq> default_pubkey) \<and>
    (\<forall>L a w u. ex_load_vault rt L a w = Inr u \<longrightarrow> ai_key a \<noteq> default_pubkey) \<and>
    (\<forall>L a v. ex_vault rt L a = Inr v \<longrightarrow> va_supported_mint v \<noteq> default_pubkey) \<and>
    rt_slot rt \<noteq> EMPTY_SLOT_REGISTERED \<and> ex_max_bps rt = 10000"

lemma runtime_lawsD:
  assumes "runtime_laws program_id addr rt"
  shows "program_id \<noteq> system_program_id" "pda rt program_id p = addr p"
    "rt_cast rt d n disc len = Inr () \<Longrightarrow> disc = d"
    "rt_transfer rt a b n seeds L = Inr L' \<Longrightarrow> lamports_only L L'"
    "rt_allocate rt a n seeds L = Inr L' \<Longrightarrow> ac_owner (L (ai_key a)) = system_program_id \<and>
      L' = L(ai_key a := (L (ai_key a))\<lparr>ac_len := n, ac_disc := 0, ac_data := Zeroed\<rparr>)"
    "rt_assign rt a owner seeds L = Inr L' \<Longrightarrow> L' = L(ai_key a := (L (ai_key a))\<lparr>ac_owner := owner\<rparr>)"
    "rt_realloc rt a n L = Inr L' \<Longrightarrow> 0 < n \<Longrightarrow> ac_len (L (ai_key a)) \<le> n \<Longrightarrow>
      L' = L(ai_key a := (L (ai_key a))\<lparr>ac_len := n\<rparr>)"
    "rt_realloc rt a 0 L = Inr L' \<Longrightarrow>
      L' = L(ai_key a := (L (ai_key a))\<lparr>ac_len := 0, ac_disc := 0, ac_data := Zeroed\<rparr>)"
    "ex_deposit_sol rt as n seeds L = Inr L' \<Longrightarrow> others_ran program_id L L'"
    "ex_upload_merkle_root rt as r n k seeds L = Inr L' \<Longrightarrow> others_ran program_id L L'"
    "ex_claim rt as pr n b8 seeds L = Inr L' \<Longrightarrow> others_ran program_id L L'"
    "ex_load_operator rt L a w = Inr u \<Longrightarrow> ai_key a \<noteq> default_pubkey"
    "ex_load_vault rt L a w = Inr u \<Longrightarrow> ai_key a \<noteq> default_pubkey"
    "ex_vault rt L a = Inr v \<Longrightarrow> va_supported_mint v \<noteq> default_pubkey"
    "rt_slot rt \<noteq> EMPTY_SLOT_REGISTERED" "ex_max_bps rt = 10000"
  by (insert assms, unfold runtime_laws_def, (elim conjE, simp (no_asm_simp); fail | elim conjE, metis)+)

section \<open>Steps that keep the invariant\<close>

lemma ledger_okI: "(\<And>key. account_ok program_id addr M pn val e key (L key)) \<Longrightarrow> ledger_ok program_id addr M pn val e L"
  by (simp add: ledger_ok_def)

lemma ledger_okD: "ledger_ok program_id addr M pn val e L \<Longrightarrow> account_ok program_id addr M pn val e key (L key)"
  by (simp add: ledger_ok_def)

lemma ledger_ok_upd:
  "ledger_ok program_id addr M pn val e L \<Longrightarrow> account_ok program_id addr M pn val e key a \<Longrightarrow>
    ledger_ok program_id addr M pn val e (L(key := a))"
  by (simp add: ledger_ok_def)

lemma others_ran_ok:
  assumes "others_ran program_id L L'" and "ledger_ok program_id addr M pn val e L"
  shows "ledger_ok program_id addr M pn val e L'"
proof (rule ledger_okI)
  fix key
  show "account_ok program_id addr M pn val e key (L' key)"
    using assms(1) [unfolded others_ran_def, rule_format, of key] ledger_okD [OF assms(2), of key]
    by (auto simp: account_ok_def split: if_splits)
qed

lemma lamports_onlyD:
  assumes "lamports_only L L'"
  shows "ac_owner (L' key) = ac_owner (L key)" "ac_len (L' key) = ac_len (L key)"
    "ac_disc (L' key) = ac_disc (L key)" "ac_data (L' key) = ac_data (L key)"
proof -
  have eq: "L' key = (L key)\<lparr>ac_lamports := ac_lamports (L' key)\<rparr>" using assms by (simp add: lamports_only_def)
  show "ac_owner (L' key) = ac_owner (L key)" by (subst eq) simp
  show "ac_len (L' key) = ac_len (L key)" by (subst eq) simp
  show "ac_disc (L' key) = ac_disc (L key)" by (subst eq) simp
  show "ac_data (L' key) = ac_data (L key)" by (subst eq) simp
qed

lemma lamports_only_refl [simp]: "lamports_only L L"
  by (simp add: lamports_only_def)

lemma lamports_only_trans:
  assumes "lamports_only L L1" and "lamports_only L1 L2"
  shows "lamports_only L L2"
  unfolding lamports_only_def
proof
  fix key
  show "L2 key = (L key)\<lparr>ac_lamports := ac_lamports (L2 key)\<rparr>"
    using lamports_onlyD [OF assms(1), of key] lamports_onlyD [OF assms(2), of key] by simp
qed

lemma lamports_only_ok:
  assumes "lamports_only L L'" and "ledger_ok program_id addr M pn val e L"
  shows "ledger_ok program_id addr M pn val e L'"
  using ledger_okD [OF assms(2)] lamports_onlyD [OF assms(1)] by (simp add: ledger_ok_def account_ok_def)

section \<open>Rules for the building blocks\<close>

definition safe :: "('a \<Rightarrow> bool) \<Rightarrow> 'e + 'a \<Rightarrow> bool" where
  "safe Q m \<longleftrightarrow> (\<forall>x. m = Inr x \<longrightarrow> Q x)"

lemma safeI: "(\<And>x. m = Inr x \<Longrightarrow> Q x) \<Longrightarrow> safe Q m"
  by (simp add: safe_def)

lemma safeD: "safe Q m \<Longrightarrow> m = Inr x \<Longrightarrow> Q x"
  by (simp add: safe_def)

lemma safe_Inl: "safe Q (Inl e)"
  by (simp add: safe_def)

lemma safe_Inr: "Q x \<Longrightarrow> safe Q (Inr x)"
  by (simp add: safe_def)

lemma safe_bind: "(\<And>x. m = Inr x \<Longrightarrow> safe Q (f x)) \<Longrightarrow> safe Q (rbind m f)"
  by (cases m) (auto simp: safe_def)

lemma safe_guard: "(\<not> b \<Longrightarrow> safe Q (f ())) \<Longrightarrow> safe Q (rbind (fail_if b err) f)"
  by (cases b) (auto simp: safe_def)

lemma safe_if: "(b \<Longrightarrow> safe Q m) \<Longrightarrow> (\<not> b \<Longrightarrow> safe Q m') \<Longrightarrow> safe Q (if b then m else m')"
  by simp

lemma safe_pair: "(\<And>a b. p = (a, b) \<Longrightarrow> safe Q (f a b)) \<Longrightarrow> safe Q (case p of (a, b) \<Rightarrow> f a b)"
  by (cases p) simp

lemma safe_list:
  "(xs = [] \<Longrightarrow> safe Q m) \<Longrightarrow> (\<And>y ys. xs = y # ys \<Longrightarrow> safe Q (f y ys)) \<Longrightarrow>
    safe Q (case xs of [] \<Rightarrow> m | y # ys \<Rightarrow> f y ys)"
  by (cases xs) simp_all

text \<open>A step that returns a ledger, and the steps after it.\<close>

lemma safe_seq:
  "safe Q m \<Longrightarrow> (\<And>L. Q L \<Longrightarrow> m = Inr L \<Longrightarrow> safe Q (f L)) \<Longrightarrow> safe Q (rbind m f)"
  by (cases m) (auto simp: safe_def)

lemma safe_rfold: "Q s \<Longrightarrow> (\<And>x s. Q s \<Longrightarrow> safe Q (f x s)) \<Longrightarrow> safe Q (rfold f xs s)"
proof (induction xs arbitrary: s)
  case (Cons x xs)
  show ?case unfolding rfold.simps by (rule safe_seq [OF Cons.prems(2) [OF Cons.prems(1)]]) (rule Cons.IH [OF _ Cons.prems(2)])
qed (simp add: safe_def)

text \<open>Writes to the data of an account.\<close>

lemma put_data_cases:
  assumes "put_data program_id L a d = Inr L'"
  shows "ac_data (L (ai_key a)) = d \<and> L' = L \<or>
    ac_data (L (ai_key a)) \<noteq> d \<and> ac_owner (L (ai_key a)) = program_id \<and> ai_is_writable a \<and>
    L' = L(ai_key a := (L (ai_key a))\<lparr>ac_data := d\<rparr>)"
  using assms by (auto simp: put_data_def may_write_def res_simps split: if_splits)

lemma put_discriminator_cases:
  assumes "put_discriminator program_id L a D = Inr L'"
  shows "ac_disc (L (ai_key a)) = discriminator D \<and> L' = L \<or>
    ac_disc (L (ai_key a)) \<noteq> discriminator D \<and> ac_owner (L (ai_key a)) = program_id \<and> ai_is_writable a \<and>
    L' = L(ai_key a := (L (ai_key a))\<lparr>ac_disc := discriminator D\<rparr>)"
  using assms by (auto simp: put_discriminator_def may_write_def res_simps split: if_splits)

text \<open>The fields of the accounts after a write.\<close>

lemma put_data_fields:
  assumes "put_data program_id L a d = Inr L'"
  shows "key \<noteq> ai_key a \<Longrightarrow> L' key = L key" "ac_data (L' (ai_key a)) = d"
    "ac_owner (L' key) = ac_owner (L key)" "ac_disc (L' key) = ac_disc (L key)"
    "ac_len (L' key) = ac_len (L key)" "ac_lamports (L' key) = ac_lamports (L key)"
  using put_data_cases [OF assms] by (elim disjE conjE; simp)+

lemma put_discriminator_fields:
  assumes "put_discriminator program_id L a D = Inr L'"
  shows "key \<noteq> ai_key a \<Longrightarrow> L' key = L key" "ac_disc (L' (ai_key a)) = discriminator D"
    "ac_owner (L' key) = ac_owner (L key)" "ac_data (L' key) = ac_data (L key)"
    "ac_len (L' key) = ac_len (L key)" "ac_lamports (L' key) = ac_lamports (L key)"
  using put_discriminator_cases [OF assms] by (elim disjE conjE; simp)+

lemma safe_put_discriminator:
  "(\<And>L1. put_discriminator program_id L a D = Inr L1 \<Longrightarrow> safe Q (f L1)) \<Longrightarrow>
    safe Q (rbind (put_discriminator program_id L a D) f)"
  by (rule safe_bind)

lemma discriminator_not_0 [simp]: "discriminator D \<noteq> 0"
  by (cases D) simp_all

lemma discriminator_inject [simp]: "discriminator D = discriminator D' \<longleftrightarrow> D = D'"
  by (cases D; cases D') simp_all

text \<open>The contract of the typed views: \<open>wrap\<close> makes the data of one kind of account of a value, \<open>value_of\<close>
  reads it, and \<open>zero\<close> is what zeroed bytes read as.\<close>

locale account_kind =
  fixes value_of :: "'x account_data \<Rightarrow> 'd option" and wrap :: "'d \<Rightarrow> 'x account_data" and zero :: 'd
    and D :: discriminators
  assumes value_of_Some: "value_of d = Some v \<longleftrightarrow> d = wrap v"
    and kind_wrap: "kind_of (wrap v) = Some D"
begin

lemma wrap_not_zeroed: "wrap v \<noteq> Zeroed"
  using kind_wrap [of v] by auto

lemma wrap_inject: "wrap v = wrap w \<longleftrightarrow> v = w"
  using value_of_Some [of "wrap v" v] value_of_Some [of "wrap v" w] by auto

text \<open>A cast of an account of the program yields the value it holds.\<close>

lemma cast_reads:
  assumes "runtime_laws program_id addr rt" and "cast_data rt D zero value_of a = Inr v"
  shows "ac_disc a = discriminator D" "ac_data a = Zeroed \<and> v = zero \<or> ac_data a = wrap v"
  using assms(2) runtime_lawsD(3) [OF assms(1)]
  by (auto simp: cast_data_def rbind_Inr ok_or_Inr value_of_Some split: account_data.splits)

lemma cast_holds:
  assumes "runtime_laws program_id addr rt" and "cast_data rt D zero value_of a = Inr v"
    and "account_ok program_id addr M pn val e key a" and "ac_owner a = program_id"
  shows "ac_data a = wrap v" "content pn val e (wrap v)" "map_option addr (home (wrap v)) = Some key"
proof -
  show data: "ac_data a = wrap v"
    using cast_reads [OF assms(1,2)] assms(3,4) by (auto simp: account_ok_def)
  show "content pn val e (wrap v)" "map_option addr (home (wrap v)) = Some key"
    using assms(3,4) by (simp_all add: account_ok_def data wrap_not_zeroed)
qed

lemma held:
  assumes "runtime_laws program_id addr rt" and "ledger_ok program_id addr M pn val e L"
    and "cast_data rt D zero value_of (L key) = Inr v" and "ac_owner (L key) = program_id"
  shows "content pn val e (wrap v)"
  using cast_holds(2) [OF assms(1,3) ledger_okD [OF assms(2)] assms(4)] .

text \<open>Replacing the value by one that an operation of the component makes of it.\<close>

lemma update_ok:
  assumes laws: "runtime_laws program_id addr rt" and ok: "ledger_ok program_id addr M pn val e L"
    and cast: "cast_data rt D zero value_of (L (ai_key a)) = Inr v"
    and step: "keeps pn val e (wrap v) (wrap v')"
    and put: "put_data program_id L a (wrap v') = Inr L'"
  shows "ledger_ok program_id addr M pn val e L'"
  using put_data_cases [OF put]
proof (elim disjE conjE)
  assume owner: "ac_owner (L (ai_key a)) = program_id"
    and L': "L' = L(ai_key a := (L (ai_key a))\<lparr>ac_data := wrap v'\<rparr>)"
  note old = cast_holds [OF laws cast ledger_okD [OF ok] owner]
  have "account_ok program_id addr M pn val e (ai_key a) ((L (ai_key a))\<lparr>ac_data := wrap v'\<rparr>)"
    using step old cast_reads(1) [OF laws cast] ledger_okD [OF ok, of "ai_key a"]
    by (simp add: keeps_def account_ok_def wrap_not_zeroed kind_wrap)
  then show ?thesis using ledger_ok_upd [OF ok] L' by simp
qed (use ok in simp)

lemma safe_update:
  assumes "runtime_laws program_id addr rt" and "ledger_ok program_id addr M pn val e L"
    and "cast_data rt D zero value_of (L (ai_key a)) = Inr v"
    and "keeps pn val e (wrap v) (wrap v')"
  shows "safe (ledger_ok program_id addr M pn val e) (put_data program_id L a (wrap v'))"
  by (rule safeI) (rule update_ok [OF assms])

text \<open>Giving an account its discriminator and its first value.\<close>

lemma initialize_ok:
  assumes laws: "runtime_laws program_id addr rt" and ok: "ledger_ok program_id addr M pn val e L"
    and disc: "put_discriminator program_id L a D = Inr L1"
    and cast: "cast_data rt D zero value_of (L1 (ai_key a)) = Inr v"
    and new: "v = zero \<or> ac_disc (L (ai_key a)) = discriminator D \<and> content pn val e (wrap v) \<Longrightarrow>
      content pn val e (wrap v') \<and> map_option addr (home (wrap v')) = Some (ai_key a)"
    and put: "put_data program_id L1 a (wrap v') = Inr L'"
  shows "ledger_ok program_id addr M pn val e L' \<and>
    (\<forall>key. key \<noteq> ai_key a \<longrightarrow> L' key = L key) \<and> ac_data (L' (ai_key a)) = wrap v'"
proof -
  note F = put_data_fields [OF put] and D = put_discriminator_fields [OF disc]
  have frame: "(\<forall>key. key \<noteq> ai_key a \<longrightarrow> L' key = L key) \<and> ac_data (L' (ai_key a)) = wrap v'"
    by (simp add: F(1,2) D(1))
  have same: "ac_data (L1 (ai_key a)) = ac_data (L (ai_key a))" by (simp add: D(4))
  have after: "ac_owner (L' (ai_key a)) = ac_owner (L (ai_key a)) \<and> ac_disc (L' (ai_key a)) = discriminator D"
    by (simp add: F(3,4) D(2,3))
  have "account_ok program_id addr M pn val e (ai_key a) (L' (ai_key a))"
  proof (cases "ac_owner (L (ai_key a)) = program_id")
    case True
    have "v = zero \<or> ac_disc (L (ai_key a)) = discriminator D \<and> content pn val e (wrap v)"
      using cast_reads(2) [OF laws cast] same True ledger_okD [OF ok, of "ai_key a"] wrap_not_zeroed [of v]
      by (auto simp: account_ok_def kind_wrap)
    note new = new [OF this]
    have "ac_len (L' (ai_key a)) = ac_len (L (ai_key a))" by (simp add: F(5) D(5))
    moreover have "kind_of (ac_data (L (ai_key a))) = Some D_EpochMarker \<Longrightarrow> D = D_EpochMarker"
      using cast_reads(2) [OF laws cast] same by (auto simp: kind_wrap)
    ultimately show ?thesis
      using new after frame True ledger_okD [OF ok, of "ai_key a"]
      by (simp add: account_ok_def wrap_not_zeroed kind_wrap)
  next
    case False
    then show ?thesis using after ledger_okD [OF ok, of "ai_key a"] by (simp add: account_ok_def)
  qed
  then have "account_ok program_id addr M pn val e key (L' key)" for key
    using frame ledger_okD [OF ok, of key] by (cases "key = ai_key a") auto
  then show ?thesis using frame by (simp add: ledger_ok_def)
qed

lemma safe_initialize:
  assumes "runtime_laws program_id addr rt" and "ledger_ok program_id addr M pn val e L"
    and "put_discriminator program_id L a D = Inr L1"
    and "cast_data rt D zero value_of (L1 (ai_key a)) = Inr v"
    and "v = zero \<or> ac_disc (L (ai_key a)) = discriminator D \<and> content pn val e (wrap v) \<Longrightarrow>
      content pn val e (wrap v') \<and> map_option addr (home (wrap v')) = Some (ai_key a)"
  shows "safe (ledger_ok program_id addr M pn val e) (put_data program_id L1 a (wrap v'))"
  by (rule safeI) (rule initialize_ok [OF assms, THEN conjunct1])

end

interpretation config_kind: account_kind
  "\<lambda>d. case d of Config_Data x \<Rightarrow> Some x | _ \<Rightarrow> None" Config_Data zero_config D_Config
  by unfold_locales (auto split: account_data.splits)

interpretation vault_registry_kind: account_kind
  "\<lambda>d. case d of Vault_Registry_Data x \<Rightarrow> Some x | _ \<Rightarrow> None" Vault_Registry_Data zero_vault_registry D_VaultRegistry
  by unfold_locales (auto split: account_data.splits)

interpretation weight_table_kind: account_kind
  "\<lambda>d. case d of Weight_Table_Data x \<Rightarrow> Some x | _ \<Rightarrow> None" Weight_Table_Data zero_weight_table D_WeightTable
  by unfold_locales (auto split: account_data.splits)

interpretation epoch_snapshot_kind: account_kind
  "\<lambda>d. case d of Epoch_Snapshot_Data x \<Rightarrow> Some x | _ \<Rightarrow> None" Epoch_Snapshot_Data zero_epoch_snapshot D_EpochSnapshot
  by unfold_locales (auto split: account_data.splits)

interpretation operator_snapshot_kind: account_kind
  "\<lambda>d. case d of Operator_Snapshot_Data x \<Rightarrow> Some x | _ \<Rightarrow> None" Operator_Snapshot_Data zero_operator_snapshot D_OperatorSnapshot
  by unfold_locales (auto split: account_data.splits)

interpretation ballot_box_kind: account_kind
  "\<lambda>d. case d of Ballot_Box_Data x \<Rightarrow> Some x | _ \<Rightarrow> None" Ballot_Box_Data zero_ballot_box D_BallotBox
  by unfold_locales (auto split: account_data.splits)

interpretation base_reward_router_kind: account_kind
  "\<lambda>d. case d of Base_Reward_Router_Data x \<Rightarrow> Some x | _ \<Rightarrow> None" Base_Reward_Router_Data zero_base_reward_router D_BaseRewardRouter
  by unfold_locales (auto split: account_data.splits)

interpretation ncn_reward_router_kind: account_kind
  "\<lambda>d. case d of Ncn_Reward_Router_Data x \<Rightarrow> Some x | _ \<Rightarrow> None" Ncn_Reward_Router_Data zero_ncn_reward_router D_NcnRewardRouter
  by unfold_locales (auto split: account_data.splits)

interpretation epoch_state_kind: account_kind
  "\<lambda>d. case d of Epoch_State_Data x \<Rightarrow> Some x | _ \<Rightarrow> None" Epoch_State_Data zero_epoch_state D_EpochState
  by unfold_locales (auto split: account_data.splits)

interpretation epoch_marker_kind: account_kind
  "\<lambda>d. case d of Epoch_Marker_Data x \<Rightarrow> Some x | _ \<Rightarrow> None" Epoch_Marker_Data zero_epoch_marker D_EpochMarker
  by unfold_locales (auto split: account_data.splits)

section \<open>Rules for the calls of the runtime\<close>

lemma pda_transfer_moves:
  assumes "runtime_laws program_id addr rt" and "pda_transfer rt program_id p payer to n L = Inr L'"
  shows "lamports_only L L'"
  using assms(2) runtime_lawsD(4) [OF assms(1)] by (auto simp: pda_transfer_def res_simps split: prod.splits)

lemmas transfer_defs = account_payer_transfer_def base_reward_receiver_transfer_def ncn_reward_receiver_transfer_def

lemma safe_moves:
  assumes "\<And>L'. m = Inr L' \<Longrightarrow> lamports_only L L'" and "ledger_ok program_id addr M pn val e L"
  shows "safe (ledger_ok program_id addr M pn val e) m"
  by (rule safeI) (rule lamports_only_ok [OF assms(1) assms(2)])

lemma safe_transfer:
  assumes "runtime_laws program_id addr rt" and "ledger_ok program_id addr M pn val e L"
  shows "safe (ledger_ok program_id addr M pn val e) (rt_transfer rt a b n seeds L)"
    "safe (ledger_ok program_id addr M pn val e) (account_payer_transfer rt program_id ncn a b n L)"
  using assms(2) runtime_lawsD(4) [OF assms(1)] pda_transfer_moves [OF assms(1)]
  by (auto simp: transfer_defs intro!: safe_moves)

lemma safe_others:
  assumes "\<And>L'. m = Inr L' \<Longrightarrow> others_ran program_id L L'" and "ledger_ok program_id addr M pn val e L"
  shows "safe (ledger_ok program_id addr M pn val e) m"
  by (rule safeI) (rule others_ran_ok [OF assms(1) assms(2)])

lemma safe_called:
  assumes "runtime_laws program_id addr rt" and "ledger_ok program_id addr M pn val e L"
  shows "safe (ledger_ok program_id addr M pn val e) (ex_deposit_sol rt as n seeds L)"
    "safe (ledger_ok program_id addr M pn val e) (ex_upload_merkle_root rt as r n k seeds L)"
    "safe (ledger_ok program_id addr M pn val e) (ex_claim rt as merkle_proof n b seeds L)"
  using assms(2) runtime_lawsD(9-11) [OF assms(1)] by (auto intro!: safe_others)

text \<open>The payment before an account is created or grown.\<close>

lemma payment_moves:
  assumes "runtime_laws program_id addr rt"
    and "(if n > 0 then account_payer_transfer rt program_id ncn payer a n L else Inr L) = Inr L'"
  shows "lamports_only L L'"
  using assms(2) pda_transfer_moves [OF assms(1)] by (auto simp: transfer_defs split: if_splits)

lemma pay_and_create_cases:
  assumes laws: "runtime_laws program_id addr rt"
    and create: "pay_and_create_account rt program_id ncn payer a owner space seeds L = Inr L'"
  obtains L1 where "lamports_only L L1" "ac_owner (L1 (ai_key a)) = system_program_id"
    "L' = L1(ai_key a := (L1 (ai_key a))\<lparr>ac_len := min space (of_nat MAX_REALLOC_BYTES), ac_disc := 0, ac_data := Zeroed,
      ac_owner := owner\<rparr>)"
proof -
  define n where "n = saturating_sub (rt_minimum_balance rt space) (ac_lamports (L (ai_key a)))"
  obtain L1 L2 where 1: "(if n > 0 then account_payer_transfer rt program_id ncn payer a n L else Inr L) = Inr L1"
    and 2: "rt_allocate rt a (min space (of_nat MAX_REALLOC_BYTES)) seeds L1 = Inr L2"
    and 3: "rt_assign rt a owner seeds L2 = Inr L'"
    using create unfolding pay_and_create_account_def Let_def rbind_Inr n_def by blast
  show ?thesis
    by (rule that [OF payment_moves [OF laws 1]])
      (simp_all add: runtime_lawsD(6) [OF laws 3] runtime_lawsD(5) [OF laws 2])
qed

lemma safe_create:
  assumes laws: "runtime_laws program_id addr rt" and ok: "ledger_ok program_id addr M pn val e L"
  shows "safe (ledger_ok program_id addr M pn val e) (pay_and_create_account rt program_id ncn payer a owner space seeds L)"
proof (rule safeI)
  fix L'
  assume "pay_and_create_account rt program_id ncn payer a owner space seeds L = Inr L'"
  from pay_and_create_cases [OF laws this] obtain L1 where L1: "lamports_only L L1"
    and owner: "ac_owner (L1 (ai_key a)) = system_program_id"
    and L': "L' = L1(ai_key a := (L1 (ai_key a))\<lparr>ac_len := min space (of_nat MAX_REALLOC_BYTES), ac_disc := 0,
      ac_data := Zeroed, ac_owner := owner\<rparr>)" .
  show "ledger_ok program_id addr M pn val e L'"
    unfolding L' using runtime_lawsD(1) [OF laws] owner ledger_okD [OF lamports_only_ok [OF L1 ok], of "ai_key a"]
    by (intro ledger_ok_upd [OF lamports_only_ok [OF L1 ok]]) (simp add: account_ok_def)
qed

lemma get_new_size_grows:
  assumes "get_new_size n target = Inr n'" and "n < target"
  shows "n < n'" "n' \<le> target"
proof -
  obtain k where k: "checked_add n (of_nat MAX_REALLOC_BYTES) = Some k" and n': "n' = min k target"
    using assms(1) by (auto simp: get_new_size_def res_simps)
  have "n < k" using k by (simp add: checked_add_Some MAX_REALLOC_BYTES_def word_less_nat_alt)
  then show "n < n'" "n' \<le> target" using assms(2) n' by (simp_all add: min_def)
qed

lemma grow_account_cases:
  assumes laws: "runtime_laws program_id addr rt"
    and grow: "grow_account rt program_id ncn payer a D L = Inr L'"
  obtains "\<not> ac_len (L (ai_key a)) < account_size D" "L' = L" | n L1 where "lamports_only L L1" "ac_len (L (ai_key a)) < account_size D"
    "get_new_size (ac_len (L (ai_key a))) (account_size D) = Inr n"
    "L' = L1(ai_key a := (L1 (ai_key a))\<lparr>ac_len := n\<rparr>)"
proof (cases "ac_len (L (ai_key a)) < account_size D")
  case False
  then show ?thesis using grow that(1) [OF False] by (simp add: grow_account_def)
next
  case True
  obtain n where n: "get_new_size (ac_len (L (ai_key a))) (account_size D) = Inr n"
    and pay: "pay_and_realloc rt program_id ncn payer a n L = Inr L'"
    using grow True by (auto simp: grow_account_def rbind_Inr)
  define k where "k = saturating_sub (rt_minimum_balance rt n) (ac_lamports (L (ai_key a)))"
  obtain L1 where 1: "(if k > 0 then account_payer_transfer rt program_id ncn payer a k L else Inr L) = Inr L1"
    and 2: "rt_realloc rt a n L1 = Inr L'"
    using pay unfolding pay_and_realloc_def Let_def rbind_Inr k_def by blast
  note moved = payment_moves [OF laws 1]
  have lt: "ac_len (L1 (ai_key a)) < n" using get_new_size_grows(1) [OF n True] by (simp add: lamports_onlyD(2) [OF moved])
  have "0 < n" using lt by (rule order.strict_trans1 [OF word_zero_le])
  from runtime_lawsD(7) [OF laws 2 this less_imp_le [OF lt]] show ?thesis by (rule that(2) [OF moved True n])
qed

lemma grow_account_owner:
  assumes "runtime_laws program_id addr rt" and "grow_account rt program_id ncn payer a D L = Inr L'"
  shows "ac_owner (L' key) = ac_owner (L key)" "ac_data (L' key) = ac_data (L key)" "ac_disc (L' key) = ac_disc (L key)"
  by (rule grow_account_cases [OF assms]; simp add: lamports_onlyD)+

lemma grow_account_len:
  assumes "runtime_laws program_id addr rt" and "grow_account rt program_id ncn payer a D L = Inr L'"
  shows "ac_len (L key) \<le> ac_len (L' key)"
proof (rule grow_account_cases [OF assms])
  fix n L1
  assume moved: "lamports_only L L1" and size: "ac_len (L (ai_key a)) < account_size D"
    "get_new_size (ac_len (L (ai_key a))) (account_size D) = Inr n"
    and L': "L' = L1(ai_key a := (L1 (ai_key a))\<lparr>ac_len := n\<rparr>)"
  show "ac_len (L key) \<le> ac_len (L' key)"
    using less_imp_le [OF get_new_size_grows(1) [OF size(2,1)]] by (simp add: L' lamports_onlyD [OF moved])
qed simp

lemma safe_grow:
  assumes laws: "runtime_laws program_id addr rt" and ok: "ledger_ok program_id addr M pn val e L"
  shows "safe (ledger_ok program_id addr M pn val e) (grow_account rt program_id ncn payer a D L)"
proof (rule safeI)
  fix L'
  assume grow: "grow_account rt program_id ncn payer a D L = Inr L'"
  show "ledger_ok program_id addr M pn val e L'"
    using ledger_okD [OF ok] order.strict_trans2 [OF _ grow_account_len [OF laws grow]]
    by (simp add: ledger_ok_def account_ok_def grow_account_owner [OF laws grow])
qed

text \<open>Closing hands the emptied account back.\<close>

lemma close_account_cases:
  assumes laws: "runtime_laws program_id addr rt" and close: "close_account rt program_id payer a L = Inr L'"
  obtains n where "ac_owner (L (ai_key a)) = program_id"
    "checked_add (ac_lamports (L (ai_key payer))) (ac_lamports (L (ai_key a))) = Some n"
    "L' = (L(ai_key payer := (L (ai_key payer))\<lparr>ac_lamports := n\<rparr>))
      (ai_key a := (L (ai_key a))\<lparr>ac_lamports := 0, ac_owner := system_program_id, ac_len := 0, ac_disc := 0,
        ac_data := Zeroed\<rparr>)"
proof -
  obtain n where n: "ac_owner (L (ai_key a)) = program_id"
      "checked_add (ac_lamports (L (ai_key payer))) (ac_lamports (L (ai_key a))) = Some n"
    and re: "rt_realloc rt a 0
      (((L(ai_key payer := (L (ai_key payer))\<lparr>ac_lamports := n\<rparr>))
        (ai_key a := ((L(ai_key payer := (L (ai_key payer))\<lparr>ac_lamports := n\<rparr>)) (ai_key a))\<lparr>ac_lamports := 0\<rparr>))
        (ai_key a := (((L(ai_key payer := (L (ai_key payer))\<lparr>ac_lamports := n\<rparr>))
          (ai_key a := ((L(ai_key payer := (L (ai_key payer))\<lparr>ac_lamports := n\<rparr>)) (ai_key a))\<lparr>ac_lamports := 0\<rparr>))
          (ai_key a))\<lparr>ac_owner := system_program_id\<rparr>)) = Inr L'"
    using close unfolding close_account_def Let_def rbind_Inr fail_if_Inr ok_or_Inr by blast
  show ?thesis
    by (rule that [OF n]) (simp add: runtime_lawsD(8) [OF laws re] fun_upd_def fun_eq_iff)
qed

lemma safe_close:
  assumes laws: "runtime_laws program_id addr rt" and ok: "ledger_ok program_id addr M pn val e L" and a: "ai_key a \<notin> M"
  shows "safe (ledger_ok program_id addr M pn val e) (close_account rt program_id payer a L)"
proof (rule safeI)
  fix L'
  assume "close_account rt program_id payer a L = Inr L'"
  from close_account_cases [OF laws this] obtain n where
    L': "L' = (L(ai_key payer := (L (ai_key payer))\<lparr>ac_lamports := n\<rparr>))
      (ai_key a := (L (ai_key a))\<lparr>ac_lamports := 0, ac_owner := system_program_id, ac_len := 0, ac_disc := 0,
        ac_data := Zeroed\<rparr>)" by blast
  have "account_ok program_id addr M pn val e (ai_key payer) ((L (ai_key payer))\<lparr>ac_lamports := n\<rparr>)"
    using ledger_okD [OF ok, of "ai_key payer"] by (simp add: account_ok_def)
  note paid = ledger_ok_upd [OF ok this]
  show "ledger_ok program_id addr M pn val e L'"
    unfolding L' by (rule ledger_ok_upd [OF paid]) (simp add: account_ok_def a runtime_lawsD(1) [OF laws, symmetric])
qed

text \<open>A checked account belongs to the program, and holds what its address says.\<close>

lemma check_load_Inr:
  assumes "check_load owner L a key disc w = Inr u"
  shows "ac_owner (L (ai_key a)) = owner" "ai_key a = key" "\<And>d. disc = Some d \<Longrightarrow> ac_disc (L (ai_key a)) = d"
    "w \<Longrightarrow> ai_is_writable a"
  using assms by (auto simp: check_load_def rbind_Inr fail_if_Inr split: option.splits)

lemmas load_defs = config_load_def vault_registry_load_def weight_table_load_def epoch_snapshot_load_def
  operator_snapshot_load_def ballot_box_load_def base_reward_router_load_def ncn_reward_router_load_def
  epoch_state_load_def

end
