(* ===== verification/Account_Steps.thy ===== *)
theory Account_Steps
  imports Ledger_Logic
begin

text \<open>
  The operations of the components keep what their accounts hold: each is one step of the component, and
  none changes the keys, the group or the epoch its account was derived from.
\<close>

section \<open>Keys and epochs are never changed\<close>

definition br_id :: "base_reward_router \<Rightarrow> pubkey \<times> u64" where
  "br_id r = (br_ncn r, br_epoch r)"

definition nr_id :: "ncn_reward_router \<Rightarrow> ncn_fee_group \<times> pubkey \<times> pubkey \<times> u64" where
  "nr_id r = (nr_ncn_fee_group r, nr_operator r, nr_ncn r, nr_epoch r)"

definition bb_id :: "ballot_box \<Rightarrow> pubkey \<times> u64" where
  "bb_id bb = (bb_ncn bb, bb_epoch bb)"

definition st_id :: "epoch_state \<Rightarrow> pubkey \<times> u64" where
  "st_id s = (st_ncn s, st_epoch s)"

text \<open>\<open>safe (\<lambda>x. f x = k)\<close>: the field \<open>f\<close> of the result is \<open>k\<close>. The loops by induction, the rest by the rules.\<close>

lemmas frame_intros = safe_Inl safe_guard safe_if safe_pair safe_rfold safe_seq safe_Inr safe_bind

lemma br_id_basic:
  assumes "br_id r = k"
  shows "safe (\<lambda>r. br_id r = k) (br_route_to_reward_pool r x)"
    "safe (\<lambda>r. br_id r = k) (br_route_from_reward_pool r x)"
    "safe (\<lambda>r. br_id r = k) (br_decrement_rewards_processed r x)"
    "safe (\<lambda>r. br_id r = k) (br_route_to_base_fee_group_rewards r g x)"
    "safe (\<lambda>r. br_id r = k) (br_route_to_ncn_fee_group_rewards r h x)"
    "safe (\<lambda>r. br_id r = k) (br_route_from_ncn_fee_group_rewards r h x)"
    "safe (\<lambda>r. br_id r = k) (br_route_to_reward_route r h operator x)"
  using assms by (auto simp: br_route_to_reward_pool_def br_route_from_reward_pool_def
      br_decrement_rewards_processed_def br_increment_rewards_processed_def br_route_to_base_fee_group_rewards_def
      br_route_to_ncn_fee_group_rewards_def br_route_from_ncn_fee_group_rewards_def br_route_to_reward_route_def
      br_id_def res_simps Let_def safe_def split: if_splits option.splits)

lemma br_id_route:
  assumes "br_id r = k"
  shows "safe (\<lambda>r. br_id r = k) (br_route_incoming_rewards r rent balance)"
    "safe (\<lambda>r. br_id r = k) (br_route_reward_pool pn r fs)"
    "safe (\<lambda>r. br_id r = k) (route_one_vote pn winning h rewards v r)"
    "safe (\<lambda>r. br_id r = k) (br_route_leftover r h)"
  unfolding br_route_incoming_rewards_def br_route_reward_pool_def route_one_vote_def br_route_leftover_def Let_def
  by ((intro frame_intros br_id_basic; (rule assms | assumption))+)

lemma br_id_votes:
  "br_id r = k \<Longrightarrow> safe (\<lambda>p. br_id (progress_router p) = k) (route_votes pn vs winning gi m rewards is r it)"
proof (induction "is" arbitrary: r it)
  case (Cons i "is")
  show ?case
    unfolding route_votes.simps Let_def
  proof (intro safe_if safe_bind)
    fix it'
    show "safe (\<lambda>p. br_id (progress_router p) = k) (Inr (Saved (br_save_routing_state r gi i rewards)))"
      using Cons.prems by (simp add: safe_def br_save_routing_state_def br_id_def)
  next
    fix it' r'
    assume "route_one_vote pn winning (ncn_fee_group_all_groups ! gi) rewards (vs ! i) r = Inr r'"
    from safeD [OF br_id_route(3) [OF Cons.prems] this]
    show "safe (\<lambda>p. br_id (progress_router p) = k) (route_votes pn vs winning gi m rewards is r' it')"
      by (rule Cons.IH)
  qed (rule Cons.IH [OF Cons.prems])
qed (simp add: safe_def)

lemma br_id_groups:
  "br_id r = k \<Longrightarrow> safe (\<lambda>r. br_id r = k) (route_groups pn vs winning m gs vote rewards r it)"
proof (induction gs arbitrary: vote rewards r it)
  case Nil
  then show ?case by (simp add: safe_def br_reset_routing_state_def br_id_def)
next
  case (Cons g gs)
  have finished: "safe (\<lambda>r. br_id r = k) (case p of Saved r \<Rightarrow> Inr r | Done r it \<Rightarrow>
      rbind (br_route_leftover r (ncn_fee_group_all_groups ! g)) (\<lambda>r. route_groups pn vs winning m gs 0 0 r it))"
    if "br_id (progress_router p) = k" for p
  proof (cases p)
    case (Saved r1)
    then show ?thesis using that by (simp add: safe_def)
  next
    case (Done r1 it1)
    then have "br_id r1 = k" using that by simp
    from safe_seq [OF br_id_route(4) [OF this] Cons.IH] show ?thesis by (simp add: Done)
  qed
  show ?case
    unfolding route_groups.simps
    by (intro safe_bind safe_if Cons.IH [OF Cons.prems] finished) (rule safeD [OF br_id_votes [OF Cons.prems]])
qed

lemma base_router_step_id:
  assumes "base_router_step pn r i p r'"
  shows "br_id r' = br_id r"
  using assms
proof cases
  case (incoming rent balance)
  then show ?thesis by (auto intro: safeD [OF br_id_route(1)])
next
  case (split_pool fs)
  then show ?thesis by (auto intro: safeD [OF br_id_route(2)])
next
  case (route bb m)
  obtain a b c where res: "br_resume_routing_state r = (a, b, c)" by (cases "br_resume_routing_state r")
  then obtain w where "route_groups pn (bb_operator_votes bb) w (max m 1) [a..<FEE_GROUP_COUNT] b c r 0 = Inr r'"
    using route(4) by (auto simp: br_route_ncn_fee_group_rewards_def rbind_Inr)
  then show ?thesis by (rule safeD [OF br_id_groups [OF refl]])
next
  case (distribute_base g x)
  then show ?thesis
    unfolding br_distribute_base_fee_group_rewards_def rbind_Inr
    by (auto simp: br_id_def dest!: safeD [OF br_id_basic(3) [OF refl]])
next
  case (distribute_route h operator x)
  then show ?thesis
    by (auto simp: br_distribute_reward_route_def Let_def rbind_Inr br_id_def
        dest!: safeD [OF br_id_basic(3) [OF refl]] split: option.splits)
qed

subsection \<open>The NCN reward router\<close>

lemma nr_id_basic:
  assumes "nr_id r = k"
  shows "safe (\<lambda>r. nr_id r = k) (nr_route_to_reward_pool r x)"
    "safe (\<lambda>r. nr_id r = k) (nr_route_from_reward_pool r x)"
    "safe (\<lambda>r. nr_id r = k) (nr_decrement_rewards_processed r x)"
    "safe (\<lambda>r. nr_id r = k) (nr_route_to_operator_rewards r x)"
    "safe (\<lambda>r. nr_id r = k) (nr_route_to_vault_reward_route r vault x)"
  using assms by (auto simp: nr_route_to_reward_pool_def nr_route_from_reward_pool_def
      nr_decrement_rewards_processed_def nr_increment_rewards_processed_def nr_route_to_operator_rewards_def
      nr_route_to_vault_reward_route_def nr_id_def res_simps Let_def safe_def split: if_splits option.splits)

lemma nr_id_route:
  assumes "nr_id r = k"
  shows "safe (\<lambda>r. nr_id r = k) (nr_route_incoming_rewards r rent balance)"
    "safe (\<lambda>r. nr_id r = k) (nr_route_operator_rewards pn bps r os)"
    "safe (\<lambda>r. nr_id r = k) (nr_route_one_vault pn os rewards i r)"
    "safe (\<lambda>r. nr_id r = k) (nr_route_leftover r)"
  unfolding nr_route_incoming_rewards_def nr_route_operator_rewards_def nr_route_one_vault_def nr_route_leftover_def
    Let_def
  by ((intro frame_intros nr_id_basic; (rule assms | assumption))+)

lemma nr_id_vaults:
  "nr_id r = k \<Longrightarrow> safe (\<lambda>p. nr_id (vault_progress_router p) = k) (nr_route_vaults pn os m rewards is r it)"
proof (induction "is" arbitrary: r it)
  case (Cons i "is")
  show ?case
    unfolding nr_route_vaults.simps
  proof (intro safe_if safe_bind)
    fix it'
    show "safe (\<lambda>p. nr_id (vault_progress_router p) = k) (Inr (Paused (nr_save_routing_state r rewards i)))"
      using Cons.prems by (simp add: safe_def nr_save_routing_state_def nr_id_def)
  next
    fix it' r'
    assume "nr_route_one_vault pn os rewards i r = Inr r'"
    from safeD [OF nr_id_route(3) [OF Cons.prems] this]
    show "safe (\<lambda>p. nr_id (vault_progress_router p) = k) (nr_route_vaults pn os m rewards is r' it')"
      by (rule Cons.IH)
  qed
qed (simp add: safe_def)

lemma nr_id_pool:
  assumes "nr_id r = k"
  shows "safe (\<lambda>r. nr_id r = k) (nr_route_reward_pool pn r os m)"
proof -
  have "safe (\<lambda>r. nr_id r = k) (case p of Paused r \<Rightarrow> Inr r | Finished r \<Rightarrow> nr_route_leftover (nr_reset_routing_state r))"
    if "nr_id (vault_progress_router p) = k" for p
  proof (cases p)
    case (Finished r1)
    have "nr_id (nr_reset_routing_state r1) = k"
      using that by (simp add: Finished nr_reset_routing_state_def nr_id_def)
    from nr_id_route(4) [OF this] show ?thesis by (simp add: Finished)
  qed (use that in \<open>simp add: safe_def\<close>)
  then show ?thesis
    unfolding nr_route_reward_pool_def Let_def
    by (intro safe_pair safe_if safe_Inr safe_bind assms) (blast intro: safeD [OF nr_id_vaults [OF assms]])
qed

lemma ncn_router_step_id:
  assumes "ncn_router_step pn val bps V r i p r'"
  shows "nr_id r' = nr_id r"
  using assms
proof cases
  case (distribute_operator x)
  then show ?thesis
    by (auto simp: nr_distribute_operator_rewards_def Let_def rbind_Inr nr_id_def
        dest!: safeD [OF nr_id_basic(3) [OF refl]])
next
  case (distribute_vault vault x)
  then show ?thesis
    by (auto simp: nr_distribute_vault_reward_route_def Let_def rbind_Inr nr_id_def
        dest!: safeD [OF nr_id_basic(3) [OF refl]] split: option.splits)
qed (auto intro: safeD [OF nr_id_route(1)] safeD [OF nr_id_route(2)] safeD [OF nr_id_pool])

subsection \<open>Ballot boxes and epoch states\<close>

lemma bb_id_basic:
  assumes "bb_id bb = k"
  shows "increment_or_create_ballot_tally bb b sw = Inr (bb', i) \<Longrightarrow> bb_id bb' = k"
    "safe (\<lambda>bb. bb_id bb = k) (withdraw_vote bb n vote)"
    "bb_id (set_winning_ballot bb b) = k"
  using assms by (auto simp: increment_or_create_ballot_tally_def withdraw_vote_def set_winning_ballot_def bb_id_def
      res_simps Let_def safe_def split: if_splits option.splits)

lemma cast_vote_id:
  assumes "cast_vote bb operator b sw slot window = Inr bb'"
  shows "bb_id bb' = bb_id bb"
proof -
  obtain bb1 i where inc: "increment_or_create_ballot_tally bb b sw = Inr (bb1, i)"
    and rest: "(case find_idx (\<lambda>v. ov_operator v = operator \<or> ov_is_empty v) (bb_operator_votes bb1) of
         None \<Rightarrow> Inl OperatorVotesFull
       | Some j \<Rightarrow>
           if ov_operator (bb_operator_votes bb1 ! j) = operator then
             if is_consensus_reached bb1 then Inl ConsensusAlreadyReached
             else rbind (withdraw_vote bb1 (bb_unique_ballots bb1) (bb_operator_votes bb1 ! j)) (\<lambda>bb.
               Inr (bb\<lparr>bb_operator_votes := (bb_operator_votes bb)[j := operator_vote_new i operator slot sw]\<rparr>))
           else rbind (ok_or ArithmeticOverflow (checked_add (bb_operators_voted bb1) 1)) (\<lambda>n.
             Inr (bb1\<lparr>bb_operator_votes := (bb_operator_votes bb1)[j := operator_vote_new i operator slot sw],
               bb_operators_voted := n\<rparr>))) = Inr bb'"
    using assms unfolding cast_vote_def rbind_Inr Let_def by auto
  have "bb_id bb1 = bb_id bb" by (rule bb_id_basic(1) [OF refl inc])
  moreover have "bb_id bb2 = bb_id bb1" if "withdraw_vote bb1 n v = Inr bb2" for n v bb2
    by (rule safeD [OF bb_id_basic(2) [OF refl] that])
  ultimately show ?thesis
    using rest by (auto simp: rbind_Inr bb_id_def split: option.splits if_splits)
qed

lemma tally_votes_id: "tally_votes pn bb w slot = Inr bb' \<Longrightarrow> bb_id bb' = bb_id bb"
  by (auto simp: tally_votes_def rbind_Inr bb_id_def set_winning_ballot_def split: if_splits option.splits)

lemma tie_breaker_id: "set_tie_breaker_ballot bb r e n = Inr bb' \<Longrightarrow> bb_id bb' = bb_id bb"
  by (auto simp: set_tie_breaker_ballot_def rbind_Inr Let_def bb_id_def set_winning_ballot_def)

lemma epoch_update_id:
  assumes "epoch_update s t"
  shows "st_id t = st_id s"
  using assms
proof (induction rule: epoch_update.induct)
  case (5 s i active t)
  then show ?case unfolding update_realloc_operator_snapshot_def Let_def
    by (cases active) (auto simp: st_id_def rbind_Inr put_index_Inr)
next
  case (6 s i final t)
  then show ?case unfolding update_snapshot_vault_operator_delegation_def rbind_Inr put_index_Inr Let_def
    by (cases final) (auto simp: st_id_def rbind_Inr)
next
  case 12
  then show ?case unfolding update_realloc_ncn_reward_router_def rbind_Inr put_index_Inr by (auto simp: st_id_def)
next
  case 22
  then show ?case unfolding close_operator_snapshot_def rbind_Inr by (auto simp: st_id_def)
next
  case 25
  then show ?case unfolding close_ncn_reward_router_def rbind_Inr by (auto simp: st_id_def)
qed (auto simp: epoch_update_defs st_id_def rbind_Inr put_index_Inr Let_def)

section \<open>Steps of the components\<close>

subsection \<open>Configuration\<close>

lemma keeps_fees:
  "update_fee_config pn (cf_fee_config c) be bgo w bps ngo nbps e = Inr fc \<Longrightarrow>
    keeps pn val e (Config_Data c) (Config_Data (c\<lparr>cf_fee_config := fc\<rparr>))"
  by (rule keepsI) (auto simp: parameters_ok_def intro: fee_reachable.updated)

lemma keeps_admins:
  "keeps pn val e (Config_Data c) (Config_Data (c\<lparr>cf_fee_admin := k\<rparr>))"
  "keeps pn val e (Config_Data c) (Config_Data (c\<lparr>cf_tie_breaker_admin := k\<rparr>))"
  by (auto simp: keeps_def parameters_ok_def)

lemma keeps_parameters:
  "keeps pn val e (Config_Data c) (Config_Data (c\<lparr>cf_starting_valid_epoch := n\<rparr>))"
  "MIN_EPOCHS_BEFORE_STALL \<le> n \<Longrightarrow> n \<le> MAX_EPOCHS_BEFORE_STALL \<Longrightarrow>
    keeps pn val e (Config_Data c) (Config_Data (c\<lparr>cf_epochs_before_stall := n\<rparr>))"
  "MIN_EPOCHS_AFTER_CONSENSUS_BEFORE_CLOSE \<le> n \<Longrightarrow> n \<le> MAX_EPOCHS_AFTER_CONSENSUS_BEFORE_CLOSE \<Longrightarrow>
    keeps pn val e (Config_Data c) (Config_Data (c\<lparr>cf_epochs_after_consensus_before_close := n\<rparr>))"
  "MIN_VALID_SLOTS_AFTER_CONSENSUS \<le> n \<Longrightarrow> n \<le> MAX_VALID_SLOTS_AFTER_CONSENSUS \<Longrightarrow>
    keeps pn val e (Config_Data c) (Config_Data (c\<lparr>cf_valid_slots_after_consensus := n\<rparr>))"
  by (auto simp: keeps_def parameters_ok_def)

subsection \<open>The vault registry\<close>

lemma registry_created:
  "registry_reachable (vault_registry_initialize r ncn bump)" "vr_ncn (vault_registry_initialize r ncn bump) = ncn"
proof -
  have "vault_registry_initialize r ncn bump = vault_registry_new ncn bump"
    by (simp add: vault_registry_initialize_def vault_registry_new_def)
  then show "registry_reachable (vault_registry_initialize r ncn bump)" by (simp add: registry_reachable.created)
qed (simp add: vault_registry_initialize_def)

lemma keeps_register_st_mint:
  "register_st_mint r mint g bps feed w = Inr r' \<Longrightarrow>
    keeps pn val e (Vault_Registry_Data r) (Vault_Registry_Data r')"
  by (rule keepsI) (auto simp: register_st_mint_def Let_def rbind_Inr intro: registry_reachable.register_mint)

lemma keeps_set_st_mint:
  assumes "set_st_mint r mint g bps feed w = Inr r'"
  shows "keeps pn val e (Vault_Registry_Data r) (Vault_Registry_Data r')"
proof (rule keepsI)
  assume "content pn val e (Vault_Registry_Data r)"
  moreover have "vr_ncn r' = vr_ncn r" using assms by (auto simp: set_st_mint_def rbind_Inr)
  ultimately show "content pn val e (Vault_Registry_Data r') \<and> home (Vault_Registry_Data r') = home (Vault_Registry_Data r)"
    using registry_reachable.set_mint [OF _ assms] by simp
qed

lemma keeps_register_vault:
  assumes "register_vault r vault st_mint idx slot = Inr r'" and "real_vault vault st_mint slot"
  shows "keeps pn val e (Vault_Registry_Data r) (Vault_Registry_Data r')"
proof (rule keepsI)
  assume "content pn val e (Vault_Registry_Data r)"
  moreover have "vr_ncn r' = vr_ncn r" using assms(1) by (auto simp: register_vault_def rbind_Inr split: if_splits)
  ultimately show "content pn val e (Vault_Registry_Data r') \<and> home (Vault_Registry_Data r') = home (Vault_Registry_Data r)"
    using registry_reachable.register_vault [OF _ assms(2,1)] by simp
qed

subsection \<open>The weight table\<close>

lemma weight_table_created:
  assumes "registry_reachable r"
    and "weight_table_initialize t ncn epoch slot (vr_vault_count r) bump (vr_vault_list r) (vr_st_mint_list r) = Inr t'"
  shows "weight_table_ok t'" "wt_ncn t' = ncn" "wt_epoch t' = epoch"
proof -
  note inv = registry_reachable_inv [OF assms(1)]
  have t': "t' = initial_table t ncn epoch slot bump r" and "mint_map r \<noteq> Map.empty"
    using assms(2) initial_table_ok(6) [OF inv] by (auto simp: weight_table_initialize_eq split: if_splits)
  then show "weight_table_ok t'"
    using initial_table_ok(1-3) [OF inv, of t ncn epoch slot bump]
    by (auto simp: weight_table_ok_def table_inv_def fun_eq_iff)
  show "wt_ncn t' = ncn" "wt_epoch t' = epoch" by (simp_all add: t' initial_table_def)
qed

lemma slot_map_same_keys:
  assumes "map key xs = map key ys"
  shows "slot_map key xs k = None \<longleftrightarrow> slot_map key ys k = None"
proof -
  have "key ` set xs = key ` set ys" using arg_cong [OF assms, of set] by simp
  then have "(\<forall>x \<in> set xs. key x \<noteq> k) \<longleftrightarrow> (\<forall>y \<in> set ys. key y \<noteq> k)" by (metis (no_types) imageE imageI)
  then show ?thesis by (auto simp: slot_map_def find_None_iff)
qed

lemma keeps_set_weight:
  assumes "set_weight t mint w slot = Inr t'"
  shows "keeps pn val e (Weight_Table_Data t) (Weight_Table_Data t')"
proof (rule keepsI)
  assume ok: "content pn val e (Weight_Table_Data t)"
  obtain i where find: "find_idx (\<lambda>x. we_st_mint x = mint) (wt_table t) = Some i"
    and t': "t' = t\<lparr>wt_table := (wt_table t)[i := we_set_weight (wt_table t ! i) w slot]\<rparr>"
    using assms by (auto simp: set_weight_def split: option.splits)
  note i = find_idx_SomeD(1) [OF find]
  have "map we_st_mint ((wt_table t)[i := we_set_weight (wt_table t ! i) w slot]) = map we_st_mint (wt_table t)"
    using i by (simp add: map_update list_update_same_conv)
  from slot_map_same_keys [OF this] have "weight_map t' = Map.empty \<longleftrightarrow> weight_map t = Map.empty"
    by (auto simp: t' weight_map_def fun_eq_iff)
  moreover have "slots_ok we_st_mint ((wt_table t)[i := we_set_weight (wt_table t ! i) w slot])"
    using ok i by (intro slots_ok_same_key) (simp_all add: weight_table_ok_def)
  ultimately show "content pn val e (Weight_Table_Data t') \<and> home (Weight_Table_Data t') = home (Weight_Table_Data t)"
    using ok by (simp add: t' weight_table_ok_def vault_registry_initialized_def vault_entry_count_def)
qed

subsection \<open>Snapshots\<close>

lemma epoch_snapshot_created: "epoch_snapshot_ok (epoch_snapshot_new ncn epoch bump slot fs operators vaults)"
  by (simp add: epoch_snapshot_ok_def epoch_snapshot_new_def)

lemma keeps_operator_registration:
  assumes "increment_operator_registration es slot n sw = Inr es'"
  shows "keeps pn val e (Epoch_Snapshot_Data es) (Epoch_Snapshot_Data es')"
proof (rule keepsI)
  assume "content pn val e (Epoch_Snapshot_Data es)"
  then have ok: "wf_stake_weights (es_stake_weights es)" "es_operators_registered es \<le> es_operator_count es"
    by (simp_all add: epoch_snapshot_ok_def)
  obtain m v weights es1 where "\<not> es_finalized es" and m: "checked_add (es_operators_registered es) 1 = Some m"
    and w: "stake_weights_increment (es_stake_weights es) sw = Inr weights"
    and es1: "es1 = es\<lparr>es_operators_registered := m, es_valid_operator_vault_delegations := v, es_stake_weights := weights\<rparr>"
    and es': "es' = (if es_finalized es1 then es1\<lparr>es_slot_finalized := slot\<rparr> else es1)"
    using assms unfolding increment_operator_registration_def rbind_Inr Let_def by (auto simp: res_simps)
  have "m \<le> es_operator_count es"
    using m ok(2) \<open>\<not> es_finalized es\<close> by (auto simp: es_finalized_def checked_add_Some word_le_nat_alt word_unat_eq_iff)
  moreover have "wf_stake_weights weights" using stake_weights_increment_wf [OF w ok(1)] by blast
  ultimately show "content pn val e (Epoch_Snapshot_Data es') \<and> home (Epoch_Snapshot_Data es') = home (Epoch_Snapshot_Data es)"
    by (simp add: es' es1 epoch_snapshot_ok_def)
qed

lemma operator_snapshot_opened:
  assumes "open_operator_snapshot es os operator ncn epoch bump slot active ni oi bps = Inr (es', os')"
  shows "vaults_named os'" "os_operator os' = operator" "os_ncn os' = ncn" "os_ncn_epoch os' = epoch"
    "keeps pn val e (Epoch_Snapshot_Data es) (Epoch_Snapshot_Data es')"
proof -
  have init: "operator_snapshot_initialize os operator ncn epoch bump slot active ni oi bps (es_vault_count es) = Inr os'"
    using assms by (auto simp: open_operator_snapshot_def rbind_Inr split: if_splits)
  then show "vaults_named os'" using os_inv_initialize [OF init] by (simp add: vaults_named_def)
  show "os_operator os' = operator" "os_ncn os' = ncn" "os_ncn_epoch os' = epoch"
    using init by (auto simp: operator_snapshot_initialize_def Let_def rbind_Inr)
  show "keeps pn val e (Epoch_Snapshot_Data es) (Epoch_Snapshot_Data es')"
    using assms by (auto simp: open_operator_snapshot_def rbind_Inr intro: keeps_operator_registration split: if_splits)
qed

lemma keeps_delegation:
  assumes sw: "stake_weights_snapshot g0 w bps = Inr sw"
    and reg: "increment_vault_operator_delegation_registration os slot vault idx g sw = Inr os'"
    and vault: "vault \<noteq> default_pubkey"
  shows "keeps pn val e (Operator_Snapshot_Data os) (Operator_Snapshot_Data os')"
proof (rule keepsI)
  assume "content pn val e (Operator_Snapshot_Data os)"
  then have named: "vaults_named os" by simp
  have "wf_stake_weights sw" using stake_weights_snapshot_Inr [OF sw] by blast
  then have "os_inv os' \<and> registered os' = registered os @ [vault_operator_stake_weight_new vault idx g sw]"
    using increment_registration_inv [OF _ _ reg] named by (simp add: vaults_named_def)
  then have "vaults_named os'"
    using named vault by (auto simp: vaults_named_def vault_operator_stake_weight_new_def)
  moreover have "os_operator os' = os_operator os \<and> os_ncn os' = os_ncn os \<and> os_ncn_epoch os' = os_ncn_epoch os"
    by (rule increment_registration_cases [OF reg]) simp
  ultimately show "content pn val e (Operator_Snapshot_Data os') \<and> home (Operator_Snapshot_Data os') = home (Operator_Snapshot_Data os)"
    by simp
qed

subsection \<open>The ballot box\<close>

lemma ballot_box_created: "bb_reachable pn (ballot_box_initialize bb ncn epoch bump slot)"
  "bb_ncn (ballot_box_initialize bb ncn epoch bump slot) = ncn" "bb_epoch (ballot_box_initialize bb ncn epoch bump slot) = epoch"
proof -
  have "ballot_box_initialize bb ncn epoch bump slot = ballot_box_new ncn epoch bump slot"
    by (simp add: ballot_box_initialize_def ballot_box_new_def)
  then show "bb_reachable pn (ballot_box_initialize bb ncn epoch bump slot)" by (simp add: bb_reachable.created)
qed (simp_all add: ballot_box_initialize_def)

lemma keeps_ballot_box:
  assumes "bb_step pn bb bb'"
  shows "keeps pn val e (Ballot_Box_Data bb) (Ballot_Box_Data bb')"
proof (rule keepsI)
  assume "content pn val e (Ballot_Box_Data bb)"
  moreover have "bb_id bb' = bb_id bb"
    using assms by cases (auto dest: cast_vote_id tally_votes_id tie_breaker_id)
  ultimately show "content pn val e (Ballot_Box_Data bb') \<and> home (Ballot_Box_Data bb') = home (Ballot_Box_Data bb)"
    using bb_reachable.stepped [OF _ assms] by (simp add: bb_id_def)
qed

lemmas keeps_ballot_box_steps = keeps_ballot_box [OF bb_step.vote] keeps_ballot_box [OF bb_step.tally]
  keeps_ballot_box [OF bb_step.tie_break]

subsection \<open>The routers\<close>

lemma base_router_created: "content pn val e (Base_Reward_Router_Data (base_reward_router_initialize r ncn epoch bump slot))"
  "br_ncn (base_reward_router_initialize r ncn epoch bump slot) = ncn"
  "br_epoch (base_reward_router_initialize r ncn epoch bump slot) = epoch"
proof -
  have "base_reward_router_initialize r ncn epoch bump slot = base_reward_router_new ncn epoch bump slot"
    by (simp add: base_reward_router_initialize_def base_reward_router_new_def br_reset_routing_state_def)
  then have "base_router_init (base_reward_router_initialize r ncn epoch bump slot)" by (auto simp: base_router_init_def)
  then show "content pn val e (Base_Reward_Router_Data (base_reward_router_initialize r ncn epoch bump slot))"
    by (auto intro: router_runs.start)
qed (simp_all add: base_reward_router_initialize_def br_reset_routing_state_def)

lemma keeps_base_router:
  assumes "base_router_step pn r i p r'"
  shows "keeps pn val e (Base_Reward_Router_Data r) (Base_Reward_Router_Data r')"
proof (rule keepsI)
  assume "content pn val e (Base_Reward_Router_Data r)"
  then obtain received paid where "router_runs base_router_init (base_router_step pn) r received paid" by auto
  from router_runs.step [OF this assms] base_router_step_id [OF assms]
  show "content pn val e (Base_Reward_Router_Data r') \<and> home (Base_Reward_Router_Data r') = home (Base_Reward_Router_Data r)"
    by (auto simp: br_id_def)
qed

lemma ncn_router_created: "content pn val e (Ncn_Reward_Router_Data (ncn_reward_router_new g operator i ncn epoch bump slot))"
proof -
  have "ncn_router_init (ncn_reward_router_new g operator i ncn epoch bump slot)"
    unfolding ncn_router_init_def by blast
  then show ?thesis by (auto intro: router_runs.start)
qed

lemma keeps_ncn_router:
  assumes "ncn_router_step pn val 10000 UNIV r i p r'"
  shows "keeps pn val e (Ncn_Reward_Router_Data r) (Ncn_Reward_Router_Data r')"
proof (rule keepsI)
  assume "content pn val e (Ncn_Reward_Router_Data r)"
  then obtain received paid where "router_runs ncn_router_init (ncn_router_step pn val 10000 UNIV) r received paid" by auto
  from router_runs.step [OF this assms] ncn_router_step_id [OF assms]
  show "content pn val e (Ncn_Reward_Router_Data r') \<and> home (Ncn_Reward_Router_Data r') = home (Ncn_Reward_Router_Data r)"
    by (auto simp: nr_id_def)
qed

subsection \<open>The epoch state\<close>

lemma keeps_epoch_state:
  assumes "epoch_update s t"
  shows "keeps pn val e (Epoch_State_Data s) (Epoch_State_Data t)"
  using epoch_reachable.updated [OF _ assms] epoch_update_id [OF assms] by (auto simp: keeps_def st_id_def)

end
