(* ===== verification/Admin_Safe.thy ===== *)
theory Admin_Safe
  imports Account_Steps
begin

text \<open>
  The rules of the building blocks, put together: the handlers of the administration and of the set-up keep the invariant
  of the ledger.
\<close>

lemmas handler_intros = safe_Inl safe_guard safe_list safe_put_discriminator safe_pair safe_if safe_seq
  safe_create safe_grow safe_transfer safe_called safe_close safe_Inr safe_bind

lemmas updates = config_kind.safe_update [folded as_config_def]
  vault_registry_kind.safe_update [folded as_vault_registry_def]
  weight_table_kind.safe_update [folded as_weight_table_def]
  epoch_snapshot_kind.safe_update [folded as_epoch_snapshot_def]
  operator_snapshot_kind.safe_update [folded as_operator_snapshot_def]
  ballot_box_kind.safe_update [folded as_ballot_box_def]
  base_reward_router_kind.safe_update [folded as_base_reward_router_def]
  ncn_reward_router_kind.safe_update [folded as_ncn_reward_router_def]
  epoch_state_kind.safe_update [folded as_epoch_state_def]

lemma admin_set_new_admin_safe:
  assumes "runtime_laws program_id addr rt" and "ledger_ok program_id addr M pn val e L"
  shows "safe (ledger_ok program_id addr M pn val e) (process_admin_set_new_admin rt program_id accounts role L)"
  unfolding process_admin_set_new_admin_def Let_def
  by (intro handler_intros) (auto intro!: updates [OF assms] keeps_admins split: config_admin_role.split)

lemma admin_set_config_fees_safe:
  assumes "runtime_laws program_id addr rt" and "ledger_ok program_id addr M pn val (rt_epoch rt) L"
  shows "safe (ledger_ok program_id addr M pn val (rt_epoch rt))
    (process_admin_set_config_fees pn rt program_id accounts be bgo w bps ngo nbps L)"
  unfolding process_admin_set_config_fees_def Let_def
  by (intro handler_intros) (auto simp: rmap_err_Inr intro!: updates [OF assms] keeps_fees)

lemma admin_register_st_mint_safe:
  assumes "runtime_laws program_id addr rt" and "ledger_ok program_id addr M pn val e L"
  shows "safe (ledger_ok program_id addr M pn val e) (process_admin_register_st_mint rt program_id accounts g bps feed w L)"
  unfolding process_admin_register_st_mint_def Let_def
  by (intro handler_intros) (auto intro!: updates [OF assms] keeps_register_st_mint)

lemma admin_set_st_mint_safe:
  assumes "runtime_laws program_id addr rt" and "ledger_ok program_id addr M pn val e L"
  shows "safe (ledger_ok program_id addr M pn val e) (process_admin_set_st_mint rt program_id accounts mint g bps feed w L)"
  unfolding process_admin_set_st_mint_def Let_def
  by (intro handler_intros) (auto intro!: updates [OF assms] keeps_set_st_mint)

lemma admin_set_tie_breaker_safe:
  assumes "runtime_laws program_id addr rt" and "ledger_ok program_id addr M pn val e L"
  shows "safe (ledger_ok program_id addr M pn val e) (process_admin_set_tie_breaker rt program_id accounts r epoch L)"
  unfolding process_admin_set_tie_breaker_def Let_def
  by (intro handler_intros)
    (auto simp: rmap_err_Inr intro: assms(2) epoch_update.intros intro!: updates [OF assms(1)] keeps_ballot_box_steps keeps_epoch_state)

lemma store_weight_safe:
  assumes "runtime_laws program_id addr rt" and "ledger_ok program_id addr M pn val e L"
  shows "safe (ledger_ok program_id addr M pn val e) (store_weight rt program_id epoch_state weight_table mint w L)"
  unfolding store_weight_def
  by (intro handler_intros)
    (auto simp: rmap_err_Inr intro: assms(2) epoch_update.intros intro!: updates [OF assms(1)] keeps_set_weight keeps_epoch_state)

lemma admin_set_weight_safe:
  assumes "runtime_laws program_id addr rt" and "ledger_ok program_id addr M pn val e L"
  shows "safe (ledger_ok program_id addr M pn val e) (process_admin_set_weight rt program_id accounts mint epoch w L)"
  unfolding process_admin_set_weight_def
  by (intro handler_intros store_weight_safe [OF assms])

lemma switchboard_set_weight_safe:
  assumes "runtime_laws program_id addr rt" and "ledger_ok program_id addr M pn val e L"
  shows "safe (ledger_ok program_id addr M pn val e) (process_switchboard_set_weight rt program_id accounts mint epoch L)"
  unfolding process_switchboard_set_weight_def Let_def
  by (intro handler_intros store_weight_safe [OF assms])


lemma keeps_if_some:
  fixes pn val e c c'
  defines "P \<equiv> keeps pn val e (Config_Data c :: 'x account_data)"
  assumes "if_some opt f c = Inr c'" and "\<And>x d. f x c = Inr d \<Longrightarrow> P (Config_Data d)"
  shows "P (Config_Data c')"
  using assms(2,3) by (auto simp: if_some_Inr P_def)

lemma keeps_parameter_edits:
  assumes "if_some a (\<lambda>n c. Inr (c\<lparr>cf_starting_valid_epoch := n\<rparr>)) c = Inr c1"
    and "if_some b (\<lambda>n c. rbind (fail_if (\<not> (MIN_EPOCHS_BEFORE_STALL \<le> n \<and> n \<le> MAX_EPOCHS_BEFORE_STALL)) e1)
      (\<lambda>_. Inr (c\<lparr>cf_epochs_before_stall := n\<rparr>))) c1 = Inr c2"
    and "if_some k (\<lambda>n c. rbind (fail_if (\<not> (MIN_EPOCHS_AFTER_CONSENSUS_BEFORE_CLOSE \<le> n \<and>
      n \<le> MAX_EPOCHS_AFTER_CONSENSUS_BEFORE_CLOSE)) e2)
      (\<lambda>_. Inr (c\<lparr>cf_epochs_after_consensus_before_close := n\<rparr>))) c2 = Inr c3"
    and "if_some m (\<lambda>n c. rbind (fail_if (\<not> (MIN_VALID_SLOTS_AFTER_CONSENSUS \<le> n \<and>
      n \<le> MAX_VALID_SLOTS_AFTER_CONSENSUS)) e3)
      (\<lambda>_. Inr (c\<lparr>cf_valid_slots_after_consensus := n\<rparr>))) c3 = Inr c4"
  shows "keeps pn val e (Config_Data c) (Config_Data c4)"
proof -
  have "keeps pn val e (Config_Data c) (Config_Data c1)"
    by (rule keeps_if_some [OF assms(1)]) (auto intro: keeps_parameters)
  moreover have "keeps pn val e (Config_Data c1) (Config_Data c2)"
    by (rule keeps_if_some [OF assms(2)]) (auto simp: rbind_Inr fail_if_Inr intro: keeps_parameters)
  moreover have "keeps pn val e (Config_Data c2) (Config_Data c3)"
    by (rule keeps_if_some [OF assms(3)]) (auto simp: rbind_Inr fail_if_Inr intro: keeps_parameters)
  moreover have "keeps pn val e (Config_Data c3) (Config_Data c4)"
    by (rule keeps_if_some [OF assms(4)]) (auto simp: rbind_Inr fail_if_Inr intro: keeps_parameters)
  ultimately show ?thesis by (blast intro: keeps_trans)
qed

lemma admin_set_parameters_safe:
  assumes "runtime_laws program_id addr rt" and "ledger_ok program_id addr M pn val e L"
  shows "safe (ledger_ok program_id addr M pn val e) (process_admin_set_parameters rt program_id accounts a b c d L)"
  unfolding process_admin_set_parameters_def Let_def
  by (intro handler_intros)
    (rule updates [OF assms], assumption, rule keeps_parameter_edits, assumption+)

section \<open>Set-up\<close>

lemma home_at:
  assumes "runtime_laws program_id addr rt" and "find_program_address rt program_id p = (key, b)" and "\<not> key \<noteq> k"
  shows "addr p = k"
  using runtime_lawsD(2) [OF assms(1), of p] assms(2,3) by (simp add: pda_def)

lemmas state_update = epoch_state_kind.safe_update [OF _ _ _ keeps_epoch_state, folded as_epoch_state_def]

lemmas initializes = config_kind.safe_initialize [folded as_config_def]
  vault_registry_kind.safe_initialize [folded as_vault_registry_def]
  weight_table_kind.safe_initialize [folded as_weight_table_def]
  epoch_snapshot_kind.safe_initialize [folded as_epoch_snapshot_def]
  operator_snapshot_kind.safe_initialize [folded as_operator_snapshot_def]
  ballot_box_kind.safe_initialize [folded as_ballot_box_def]
  base_reward_router_kind.safe_initialize [folded as_base_reward_router_def]
  ncn_reward_router_kind.safe_initialize [folded as_ncn_reward_router_def]
  epoch_state_kind.safe_initialize [folded as_epoch_state_def]
  epoch_marker_kind.safe_initialize [folded as_epoch_marker_def]

lemma realloc_vault_registry_safe:
  assumes "runtime_laws program_id addr rt" and "ledger_ok program_id addr M pn val e L"
  shows "safe (ledger_ok program_id addr M pn val e) (process_realloc_vault_registry rt program_id accounts L)"
  unfolding process_realloc_vault_registry_def Let_def
  by (intro handler_intros;
    (assumption | rule assms | (rule initializes [OF assms(1)], assumption, assumption, assumption,
        simp add: registry_created home_at [OF assms(1)])))


lemma initialize_vault_registry_safe:
  assumes "runtime_laws program_id addr rt" and "ledger_ok program_id addr M pn val e L"
  shows "safe (ledger_ok program_id addr M pn val e) (process_initialize_vault_registry rt program_id accounts L)"
  unfolding process_initialize_vault_registry_def Let_def
  by (intro handler_intros; rule assms)

lemma register_vault_safe:
  assumes "runtime_laws program_id addr rt" and "ledger_ok program_id addr M pn val e L"
  shows "safe (ledger_ok program_id addr M pn val e) (process_register_vault rt program_id accounts L)"
  unfolding process_register_vault_def Let_def
  by (intro handler_intros)
    (auto simp: real_vault_def intro!: updates [OF assms] keeps_register_vault
      dest: runtime_lawsD(13,14) [OF assms(1)] simp: runtime_lawsD(15) [OF assms(1)])

lemma initialize_epoch_state_safe:
  assumes "runtime_laws program_id addr rt" and "ledger_ok program_id addr M pn val e L"
  shows "safe (ledger_ok program_id addr M pn val e) (process_initialize_epoch_state rt program_id accounts epoch L)"
  unfolding process_initialize_epoch_state_def Let_def
  by (intro handler_intros; rule assms)

lemma epoch_state_created:
  "epoch_reachable (update_realloc_epoch_state (epoch_state_initialize zero_epoch_state ncn epoch bump slot))"
  "st_ncn (update_realloc_epoch_state (epoch_state_initialize s ncn epoch bump slot)) = ncn"
  "st_epoch (update_realloc_epoch_state (epoch_state_initialize s ncn epoch bump slot)) = epoch"
  by (auto intro: epoch_reachable.intros epoch_update.intros)
    (simp_all add: update_realloc_epoch_state_def epoch_state_initialize_def)

lemma realloc_epoch_state_safe:
  assumes "runtime_laws program_id addr rt" and "ledger_ok program_id addr M pn val e L"
  shows "safe (ledger_ok program_id addr M pn val e) (process_realloc_epoch_state rt program_id accounts epoch L)"
  unfolding process_realloc_epoch_state_def Let_def
  by (intro handler_intros;
    (assumption | rule assms | (rule initializes [OF assms(1)], assumption, assumption, assumption,
        auto simp: epoch_state_created should_initialize_def home_at [OF assms(1)])))

lemma initialize_weight_table_safe:
  assumes "runtime_laws program_id addr rt" and "ledger_ok program_id addr M pn val e L"
  shows "safe (ledger_ok program_id addr M pn val e) (process_initialize_weight_table rt program_id accounts epoch L)"
  unfolding process_initialize_weight_table_def Let_def
  by (intro handler_intros; rule assms)

lemma weight_table_begins:
  assumes laws: "runtime_laws program_id addr rt" and ok: "ledger_ok program_id addr M pn val e L1"
    and load: "vault_registry_load rt program_id L registry n w = Inr u"
    and grow: "grow_account rt program_id m payer table D L = Inr L1"
    and cast: "as_vault_registry rt L1 registry = Inr r"
    and init: "tip (weight_table_initialize t ncn epoch slot (vr_vault_count r) bump (vr_vault_list r)
      (vr_st_mint_list r)) = Inr t'"
    and find: "find_program_address rt program_id (Weight_Table_Account ncn epoch) = (key, b)" "\<not> key \<noteq> k"
  shows "content pn val e (Weight_Table_Data t') \<and> map_option addr (home (Weight_Table_Data t')) = Some k"
proof -
  have "ac_owner (L1 (ai_key registry)) = program_id"
    using check_load_Inr(1) [OF load [unfolded vault_registry_load_def]] by (simp add: grow_account_owner [OF laws grow])
  from vault_registry_kind.held [OF laws ok cast [unfolded as_vault_registry_def] this]
  have r: "registry_reachable r" by simp
  show ?thesis
    using weight_table_created [OF r init [unfolded rmap_err_Inr]] home_at [OF laws find] by simp
qed

lemma realloc_weight_table_safe:
  assumes "runtime_laws program_id addr rt" and "ledger_ok program_id addr M pn val e L"
  shows "safe (ledger_ok program_id addr M pn val e) (process_realloc_weight_table rt program_id accounts epoch L)"
  unfolding process_realloc_weight_table_def Let_def
  by (intro handler_intros;
    (assumption | rule assms | (rule initializes [OF assms(1)], assumption, assumption, assumption,
        rule weight_table_begins [OF assms(1)]; assumption) |
      (rule state_update [OF assms(1)], assumption, assumption, blast intro: epoch_update.intros)))

end
