(* ===== verification/Snapshot_Safe.thy ===== *)
theory Snapshot_Safe
  imports Admin_Safe
begin

text \<open>
  The handlers of the snapshots and of the vote keep the invariant of the ledger.
\<close>

lemma initialize_epoch_snapshot_safe:
  assumes "runtime_laws program_id addr rt" and "ledger_ok program_id addr M pn val e L"
  shows "safe (ledger_ok program_id addr M pn val e) (process_initialize_epoch_snapshot rt program_id accounts epoch L)"
  unfolding process_initialize_epoch_snapshot_def Let_def
  by (intro handler_intros;
    (assumption | rule assms | (rule initializes [OF assms(1)], assumption, assumption, assumption,
        simp add: epoch_snapshot_created, simp add: epoch_snapshot_new_def home_at [OF assms(1)]) |
      (rule state_update [OF assms(1)], assumption, assumption, blast intro: epoch_update.intros)))

lemma initialize_operator_snapshot_safe:
  assumes "runtime_laws program_id addr rt" and "ledger_ok program_id addr M pn val e L"
  shows "safe (ledger_ok program_id addr M pn val e) (process_initialize_operator_snapshot rt program_id accounts epoch L)"
  unfolding process_initialize_operator_snapshot_def Let_def
  by (intro handler_intros; rule assms)

text \<open>The epoch snapshot read before the operator snapshot was written is the one it is replaced in: the two
  accounts are not the same.\<close>

lemma epoch_snapshot_still_there:
  assumes laws: "runtime_laws program_id addr rt" and ok: "ledger_ok program_id addr M pn val e L"
    and es: "as_epoch_snapshot rt L a = Inr es" and disc: "put_discriminator program_id L b D_OperatorSnapshot = Inr L1"
    and os: "as_operator_snapshot rt L1 b = Inr os" and put: "put_data program_id L1 b (Operator_Snapshot_Data os') = Inr L2"
    and owner: "ac_owner (L2 (ai_key a)) = program_id"
  shows "as_epoch_snapshot rt L2 a = Inr es"
proof -
  note F = put_data_fields [OF put] and D = put_discriminator_fields [OF disc]
  have owner: "ac_owner (L (ai_key a)) = program_id" using owner by (simp add: F D)
  have data: "ac_data (L (ai_key a)) = Epoch_Snapshot_Data es"
    by (rule epoch_snapshot_kind.cast_holds(1) [OF laws es [unfolded as_epoch_snapshot_def] ledger_okD [OF ok] owner])
  have "ai_key a \<noteq> ai_key b"
  proof
    assume "ai_key a = ai_key b"
    then show False
      using operator_snapshot_kind.cast_reads(2) [OF laws os [unfolded as_operator_snapshot_def]] data by (simp add: D(4))
  qed
  then have "L2 (ai_key a) = L (ai_key a)" by (simp add: F(1) D(1))
  then show ?thesis using es by (simp add: as_epoch_snapshot_def)
qed

lemma put_epoch_snapshot_safe:
  assumes laws: "runtime_laws program_id addr rt" and ok: "ledger_ok program_id addr M pn val e L" "ledger_ok program_id addr M pn val e L2"
    and es: "as_epoch_snapshot rt L a = Inr es" and disc: "put_discriminator program_id L b D_OperatorSnapshot = Inr L1"
    and os: "as_operator_snapshot rt L1 b = Inr os" and put: "put_data program_id L1 b (Operator_Snapshot_Data os') = Inr L2"
    and keeps: "keeps pn val e (Epoch_Snapshot_Data es :: 'x account_data) (Epoch_Snapshot_Data es')"
  shows "safe (ledger_ok program_id addr M pn val e) (put_data program_id (L2 :: 'x ledger) a (Epoch_Snapshot_Data es'))"
proof (cases "ac_owner (L2 (ai_key a)) = program_id")
  case True
  show ?thesis
    by (rule updates(4) [OF laws ok(2) epoch_snapshot_still_there [OF laws ok(1) es disc os put True] keeps])
next
  case False
  then show ?thesis using put_data_cases ok(2) by (intro safeI) blast
qed

lemma initialize_operator_snapshot_data_safe:
  assumes "runtime_laws program_id addr rt" and "ledger_ok program_id addr M pn val e L"
    and "addr (Operator_Snapshot_Account (ai_key operator) (ai_key ncn) epoch) = ai_key operator_snapshot"
  shows "safe (ledger_ok program_id addr M pn val e) (initialize_operator_snapshot_data rt program_id epoch_state
    restaking_config ncn operator ncn_operator_state epoch_snapshot operator_snapshot epoch bump L)"
  unfolding initialize_operator_snapshot_data_def Let_def
  by (intro handler_intros;
    (assumption | rule assms | (rule initializes [OF assms(1)], rule assms, assumption, assumption,
        fastforce simp: rmap_err_Inr operator_snapshot_opened assms(3)) |
      (rule put_epoch_snapshot_safe [OF assms(1,2)], assumption, assumption, assumption, assumption, assumption,
        fastforce simp: rmap_err_Inr intro: operator_snapshot_opened(5)) |
      (rule state_update [OF assms(1)], assumption, assumption, blast intro: epoch_update.intros)))

lemma realloc_operator_snapshot_safe:
  assumes "runtime_laws program_id addr rt" and "ledger_ok program_id addr M pn val e L"
  shows "safe (ledger_ok program_id addr M pn val e) (process_realloc_operator_snapshot rt program_id accounts epoch L)"
  unfolding process_realloc_operator_snapshot_def Let_def
  by (intro handler_intros;
    (assumption | rule assms | (rule initialize_operator_snapshot_data_safe [OF assms(1)], assumption,
      rule home_at [OF assms(1)]; assumption)))

lemma snapshot_vault_operator_delegation_safe:
  assumes "runtime_laws program_id addr rt" and "ledger_ok program_id addr M pn val e L"
  shows "safe (ledger_ok program_id addr M pn val e)
    (process_snapshot_vault_operator_delegation pn rt program_id accounts epoch L)"
  unfolding process_snapshot_vault_operator_delegation_def Let_def
  by (intro handler_intros;
    (assumption | rule assms |
      (rule updates [OF assms(1)], (assumption | rule assms), assumption,
        (erule keeps_operator_registration [OF rmap_err_Inr [THEN iffD1]] |
          (rule keeps_delegation, erule rmap_err_Inr [THEN iffD1], erule rmap_err_Inr [THEN iffD1],
            erule runtime_lawsD(13) [OF assms(1)]))) |
      (rule state_update [OF assms(1)], assumption, assumption, blast intro: epoch_update.intros)))

section \<open>Voting\<close>

lemma initialize_ballot_box_safe:
  assumes "runtime_laws program_id addr rt" and "ledger_ok program_id addr M pn val e L"
  shows "safe (ledger_ok program_id addr M pn val e) (process_initialize_ballot_box rt program_id accounts epoch L)"
  unfolding process_initialize_ballot_box_def Let_def
  by (intro handler_intros; rule assms)

lemma realloc_ballot_box_safe:
  assumes "runtime_laws program_id addr rt" and "ledger_ok program_id addr M pn val e L"
  shows "safe (ledger_ok program_id addr M pn val e) (process_realloc_ballot_box rt program_id accounts epoch L)"
  unfolding process_realloc_ballot_box_def Let_def
  by (intro handler_intros;
    (assumption | rule assms | (rule initializes [OF assms(1)], assumption, assumption, assumption,
        simp add: ballot_box_created home_at [OF assms(1)]) |
      (rule state_update [OF assms(1)], assumption, assumption, blast intro: epoch_update.intros)))

lemma set_merkle_root_safe:
  assumes "runtime_laws program_id addr rt" and "ledger_ok program_id addr M pn val e L"
  shows "safe (ledger_ok program_id addr M pn val e)
    (process_set_merkle_root hashv rt program_id accounts path r claim nodes epoch L)"
  unfolding process_set_merkle_root_def Let_def
  by (intro handler_intros;
    (assumption | rule assms | (rule state_update [OF assms(1)], assumption, assumption, blast intro: epoch_update.intros)))

lemma claim_with_payer_safe:
  assumes "runtime_laws program_id addr rt" and "ledger_ok program_id addr M pn val e L"
  shows "safe (ledger_ok program_id addr M pn val e) (process_claim_with_payer rt program_id accounts path claimed b L)"
  unfolding process_claim_with_payer_def Let_def
  by (intro handler_intros; rule assms)

lemma operator_weights_held:
  assumes "runtime_laws program_id addr rt" and "ledger_ok program_id addr M pn val e L"
    and "operator_snapshot_load rt program_id L a operator ncn epoch w = Inr u"
    and "as_operator_snapshot rt L a = Inr os"
  shows "vaults_named os" "wf_stake_weights (os_stake_weights os)"
proof -
  have "ac_owner (L (ai_key a)) = program_id"
    using assms(3) unfolding operator_snapshot_load_def by (rule check_load_Inr(1))
  from operator_snapshot_kind.held [OF assms(1,2) assms(4) [unfolded as_operator_snapshot_def] this]
  show "vaults_named os" by simp
  then show "wf_stake_weights (os_stake_weights os)" by (simp add: vaults_named_def os_inv_def)
qed

lemma cast_vote_safe:
  assumes "runtime_laws program_id addr rt" and "ledger_ok program_id addr M pn val e L"
  shows "safe (ledger_ok program_id addr M pn val e) (process_cast_vote pn rt program_id accounts r epoch L)"
  unfolding process_cast_vote_def Let_def
  by (intro handler_intros;
    (assumption | rule assms |
      (rule updates [OF assms], assumption, rule keeps_trans [OF keeps_ballot_box_steps(1) keeps_ballot_box_steps(2)],
        erule runtime_lawsD(12) [OF assms(1)], rule operator_weights_held(2) [OF assms], assumption, assumption,
        erule rmap_err_Inr [THEN iffD1], erule rmap_err_Inr [THEN iffD1]) |
      (rule state_update [OF assms(1)], assumption, assumption,
        erule epoch_update.intros(8) [OF rmap_err_Inr [THEN iffD1]])))

end
