(* ===== verification/Reward_Safe.thy ===== *)
theory Reward_Safe
  imports Snapshot_Safe
begin

text \<open>
  The handlers that route and distribute rewards, and the handler that closes accounts, keep the invariant of the ledger.
\<close>

lemma admin_initialize_config_safe:
  assumes "runtime_laws program_id addr rt" and "ledger_ok program_id addr M pn val (rt_epoch rt) L"
  shows "safe (ledger_ok program_id addr M pn val (rt_epoch rt))
    (process_admin_initialize_config pn rt program_id accounts be dao ncn_fee a b c L)"
  unfolding process_admin_initialize_config_def Let_def
  by (intro handler_intros;
    (assumption | rule assms | (rule initializes [OF assms(1)], assumption, assumption, assumption,
        auto simp: config_new_def parameters_ok_def rmap_err_Inr home_at [OF assms(1)] intro: fee_reachable.created)))

lemma initialize_base_reward_router_safe:
  assumes "runtime_laws program_id addr rt" and "ledger_ok program_id addr M pn val e L"
  shows "safe (ledger_ok program_id addr M pn val e) (process_initialize_base_reward_router rt program_id accounts epoch L)"
  unfolding process_initialize_base_reward_router_def Let_def
  by (intro handler_intros; (assumption | rule assms))

lemma realloc_base_reward_router_safe:
  assumes "runtime_laws program_id addr rt" and "ledger_ok program_id addr M pn val e L"
  shows "safe (ledger_ok program_id addr M pn val e) (process_realloc_base_reward_router rt program_id accounts epoch L)"
  unfolding process_realloc_base_reward_router_def Let_def
  by (intro handler_intros;
    (assumption | rule assms | (rule initializes [OF assms(1)], assumption, assumption, assumption,
        simp only: base_router_created, simp add: base_router_created home_at [OF assms(1)]) |
      (rule state_update [OF assms(1)], assumption, assumption, blast intro: epoch_update.intros)))

lemma initialize_ncn_reward_router_safe:
  assumes "runtime_laws program_id addr rt" and "ledger_ok program_id addr M pn val e L"
  shows "safe (ledger_ok program_id addr M pn val e) (process_initialize_ncn_reward_router rt program_id accounts g epoch L)"
  unfolding process_initialize_ncn_reward_router_def Let_def
  by (intro handler_intros;
    (assumption | rule assms | (rule initializes [OF assms(1)], assumption, assumption, assumption,
        simp only: ncn_router_created, simp add: ncn_reward_router_new_def home_at [OF assms(1)]) |
      (rule state_update [OF assms(1)], assumption, assumption, blast intro: epoch_update.intros)))

lemma ballots_held:
  assumes "runtime_laws program_id addr rt" and "ledger_ok program_id addr M pn val e L"
    and "ballot_box_load rt program_id L a ncn epoch w = Inr u" and "as_ballot_box rt L a = Inr bb"
  shows "bb_reachable pn bb"
proof -
  have "ac_owner (L (ai_key a)) = program_id"
    using assms(3) unfolding ballot_box_load_def by (rule check_load_Inr(1))
  from ballot_box_kind.held [OF assms(1,2) assms(4) [unfolded as_ballot_box_def] this] show ?thesis by simp
qed

lemma keeps_base_routing:
  assumes pool: "(if \<not> br_still_routing r then
      rbind (tip (br_route_incoming_rewards r rent balance)) (\<lambda>r. tip (br_route_reward_pool pn r fs)) else Inr r) = Inr r1"
    and route: "tip (br_route_ncn_fee_group_rewards pn r1 bb m) = Inr r2" and bb: "bb_reachable pn bb"
    and pn: "precise_number pn val"
  shows "keeps pn val e (Base_Reward_Router_Data r) (Base_Reward_Router_Data r2)"
proof -
  have "keeps pn val e (Base_Reward_Router_Data r) (Base_Reward_Router_Data r1)"
  proof (cases "br_still_routing r")
    case False
    then obtain r0 where "br_route_incoming_rewards r rent balance = Inr r0" "br_route_reward_pool pn r0 fs = Inr r1"
      using pool by (auto simp: rbind_Inr rmap_err_Inr)
    then show ?thesis
      by (rule keeps_trans [OF keeps_base_router [OF base_router_step.incoming] keeps_base_router [OF base_router_step.split_pool]])
  qed (use pool in simp)
  moreover have "keeps pn val e (Base_Reward_Router_Data r1) (Base_Reward_Router_Data r2)"
    by (rule keeps_base_router [OF base_router_step.route [OF bb_reachable_inv [OF pn bb] route [unfolded rmap_err_Inr]]])
  ultimately show ?thesis by (rule keeps_trans)
qed

lemma route_base_rewards_safe:
  assumes "runtime_laws program_id addr rt" and "ledger_ok program_id addr M pn val e L" and "precise_number pn val"
  shows "safe (ledger_ok program_id addr M pn val e) (process_route_base_rewards pn rt program_id accounts m epoch L)"
  unfolding process_route_base_rewards_def Let_def
  by (intro handler_intros;
    (assumption | rule assms(1,2) |
      (rule updates [OF assms(1,2)], assumption, rule keeps_base_routing, assumption, assumption,
        rule ballots_held [OF assms(1,2)], assumption, assumption, rule assms(3)) |
      (rule state_update [OF assms(1)], assumption, assumption, blast intro: epoch_update.intros)))

lemma keeps_ncn_routing:
  assumes pool: "(if \<not> nr_still_routing r then
      rbind (tip (nr_route_incoming_rewards r rent balance)) (\<lambda>r. tip (nr_route_operator_rewards pn bps r os)) else Inr r) = Inr r1"
    and route: "tip (nr_route_reward_pool pn r1 os m) = Inr r2" and os: "vaults_named os"
    and pn: "precise_number pn val" and bps: "bps = 10000"
  shows "keeps pn val e (Ncn_Reward_Router_Data r) (Ncn_Reward_Router_Data r2)"
proof -
  have "keeps pn val e (Ncn_Reward_Router_Data r) (Ncn_Reward_Router_Data r1)"
  proof (cases "nr_still_routing r")
    case False
    then obtain r0 where "nr_route_incoming_rewards r rent balance = Inr r0" "nr_route_operator_rewards pn 10000 r0 os = Inr r1"
      using pool by (auto simp: rbind_Inr rmap_err_Inr bps)
    then show ?thesis
      by (rule keeps_trans [OF keeps_ncn_router [OF ncn_router_step.incoming] keeps_ncn_router [OF ncn_router_step.operator_fee]])
  qed (use pool in simp)
  moreover have "keeps pn val e (Ncn_Reward_Router_Data r1) (Ncn_Reward_Router_Data r2)"
    by (rule keeps_ncn_router [OF ncn_router_step.route [OF pn os subset_UNIV route [unfolded rmap_err_Inr]]])
  ultimately show ?thesis by (rule keeps_trans)
qed

lemma route_ncn_rewards_safe:
  assumes "runtime_laws program_id addr rt" and "ledger_ok program_id addr M pn val e L" and "precise_number pn val"
  shows "safe (ledger_ok program_id addr M pn val e) (process_route_ncn_rewards pn rt program_id accounts g m epoch L)"
  unfolding process_route_ncn_rewards_def Let_def
  by (intro handler_intros;
    (assumption | rule assms(1,2) |
      (rule updates [OF assms(1,2)], assumption, rule keeps_ncn_routing, assumption, assumption,
        rule operator_weights_held(1) [OF assms(1,2)], assumption, assumption, rule assms(3),
        rule runtime_lawsD(16) [OF assms(1)]) |
      (rule state_update [OF assms(1)], assumption, assumption, blast intro: epoch_update.intros)))

section \<open>Distribution\<close>

lemma deposit_rewards_safe:
  assumes "runtime_laws program_id addr rt" and "ledger_ok program_id addr M pn val e L"
  shows "safe (ledger_ok program_id addr M pn val e) (deposit_rewards rt program_id receiver accounts rewards L)"
  unfolding deposit_rewards_def Let_def by (intro handler_intros; rule assms)

lemma distribute_base_rewards_safe:
  assumes "runtime_laws program_id addr rt" and "ledger_ok program_id addr M pn val e L"
  shows "safe (ledger_ok program_id addr M pn val e) (process_distribute_base_rewards rt program_id accounts g epoch L)"
  unfolding process_distribute_base_rewards_def Let_def
  by (intro handler_intros deposit_rewards_safe;
    (assumption | rule assms |
      (rule updates [OF assms], assumption, simp only:, rule keeps_base_router, rule base_router_step.distribute_base,
        erule rmap_err_Inr [THEN iffD1]) |
      (rule state_update [OF assms(1)], assumption, assumption, blast intro: epoch_update.intros)))

lemma distribute_base_ncn_reward_route_safe:
  assumes "runtime_laws program_id addr rt" and "ledger_ok program_id addr M pn val e L"
  shows "safe (ledger_ok program_id addr M pn val e)
    (process_distribute_base_ncn_reward_route rt program_id accounts g epoch L)"
  unfolding process_distribute_base_ncn_reward_route_def Let_def
  by (intro handler_intros;
    (assumption | rule assms |
      (rule updates [OF assms], assumption, simp only:, rule keeps_base_router, rule base_router_step.distribute_route,
        erule rmap_err_Inr [THEN iffD1]) |
      (rule state_update [OF assms(1)], assumption, assumption, blast intro: epoch_update.intros)))

lemma distribute_ncn_operator_rewards_safe:
  assumes "runtime_laws program_id addr rt" and "ledger_ok program_id addr M pn val e L"
  shows "safe (ledger_ok program_id addr M pn val e)
    (process_distribute_ncn_operator_rewards rt program_id accounts g epoch L)"
  unfolding process_distribute_ncn_operator_rewards_def Let_def
  by (intro handler_intros deposit_rewards_safe;
    (assumption | rule assms |
      (rule updates [OF assms], assumption, simp only:, rule keeps_ncn_router, rule ncn_router_step.distribute_operator,
        erule rmap_err_Inr [THEN iffD1]) |
      (rule state_update [OF assms(1)], assumption, assumption, blast intro: epoch_update.intros)))

lemma distribute_ncn_vault_rewards_safe:
  assumes "runtime_laws program_id addr rt" and "ledger_ok program_id addr M pn val e L"
  shows "safe (ledger_ok program_id addr M pn val e)
    (process_distribute_ncn_vault_rewards rt program_id accounts g epoch L)"
  unfolding process_distribute_ncn_vault_rewards_def Let_def
  by (intro handler_intros deposit_rewards_safe;
    (assumption | rule assms |
      (rule updates [OF assms], assumption, simp only:, rule keeps_ncn_router, rule ncn_router_step.distribute_vault,
        erule rmap_err_Inr [THEN iffD1]) |
      (rule state_update [OF assms(1)], assumption, assumption, blast intro: epoch_update.intros)))

section \<open>Closing\<close>

lemma receiver_close_moves:
  assumes "runtime_laws program_id addr rt"
  shows "base_reward_receiver_close rt program_id ncn epoch a dao payer L = Inr L' \<Longrightarrow> lamports_only L L'"
    "ncn_reward_receiver_close rt program_id g operator ncn epoch a dao payer L = Inr L' \<Longrightarrow> lamports_only L L'"
  unfolding base_reward_receiver_close_def ncn_reward_receiver_close_def transfer_defs Let_def
  by (auto simp: rbind_Inr dest!: pda_transfer_moves [OF assms] intro: lamports_only_trans split: if_splits)

text \<open>The checks before a closing mark one account closed and move lamports.\<close>

lemma close_checks_result:
  assumes laws: "runtime_laws program_id addr rt"
    and checks: "close_checks rt program_id ncn a payer dao optional closing epoch s L = Inr (s', L')"
  shows "lamports_only L L' \<and> epoch_update s s'"
proof -
  have "safe (\<lambda>(s', L'). lamports_only L L' \<and> epoch_update s s')
      (close_checks rt program_id ncn a payer dao optional closing epoch s L)"
    unfolding close_checks_def Let_def
    by (intro safe_if safe_bind safe_list safe_Inl safe_Inr)
      (auto intro: epoch_update.intros dest: receiver_close_moves [OF laws])
  then show ?thesis using checks by (simp add: safe_def)
qed

text \<open>A marker is never closed.\<close>

lemma marker_disc:
  assumes "ledger_ok program_id addr M pn val e L" and "key \<in> M"
  shows "ac_disc (L key) = discriminator D_EpochMarker"
  using ledger_okD [OF assms(1), of key] assms(2) by (auto simp: account_ok_def split: if_splits)

lemma close_checks_no_marker:
  assumes ok: "ledger_ok program_id addr M pn val e L"
    and load: "epoch_state_load rt program_id L epoch_state ncn epoch w = Inr u"
    and checks: "close_checks rt program_id ncn_info a payer dao optional (ai_key a = ai_key epoch_state) epoch s L = Inr p"
  shows "ai_key a \<notin> M"
proof
  assume "ai_key a \<in> M"
  then have disc: "ac_disc (L (ai_key a)) = discriminator D_EpochMarker" by (rule marker_disc [OF ok])
  moreover have "ac_disc (L (ai_key epoch_state)) = discriminator D_EpochState"
    using load unfolding epoch_state_load_def by (rule check_load_Inr(3)) simp
  ultimately have "ai_key a \<noteq> ai_key epoch_state" by auto
  then show False using checks disc by (simp add: close_checks_def)
qed

lemma create_epoch_marker_safe:
  assumes "runtime_laws program_id addr rt" and "ledger_ok program_id addr M pn val e L"
  shows "safe (ledger_ok program_id addr M pn val e) (create_epoch_marker rt program_id ncn marker payer epoch L)"
  unfolding create_epoch_marker_def Let_def
  by (intro handler_intros;
    (assumption | rule assms | (rule initializes [OF assms(1)], assumption, assumption, assumption,
        simp add: epoch_marker_new_def home_at [OF assms(1)])))

lemma close_epoch_account_safe:
  assumes laws: "runtime_laws program_id addr rt" and ok: "ledger_ok program_id addr M pn val e L"
  shows "safe (ledger_ok program_id addr M pn val e) (process_close_epoch_account rt program_id accounts epoch L)"
proof -
  have marked: "safe (ledger_ok program_id addr M pn val e) (put_data program_id L1 a (Epoch_State_Data s1))"
    if s: "as_epoch_state rt L a = Inr s"
      and checks: "close_checks rt program_id ncn b payer dao optional closing epoch (set_is_closing s) L = Inr (s1, L1)"
    for a s ncn b payer dao optional closing s1 L1
  proof -
    have moved: "lamports_only L L1" and step: "epoch_update (set_is_closing s) s1"
      using close_checks_result [OF laws checks] by blast+
    have s1: "as_epoch_state rt L1 a = Inr s"
      using s lamports_onlyD [OF moved] by (simp add: as_epoch_state_def cast_data_def)
    have "keeps pn val e (Epoch_State_Data s) (Epoch_State_Data s1)"
      by (rule keeps_trans [OF keeps_epoch_state keeps_epoch_state [OF step]]) (rule epoch_update.intros)
    from updates(9) [OF laws lamports_only_ok [OF moved ok] s1 this] show ?thesis .
  qed
  show ?thesis
    unfolding process_close_epoch_account_def Let_def
    by (intro handler_intros create_epoch_marker_safe;
      (assumption | rule laws | rule ok | (rule marked; (assumption | simp only:)) |
        (rule close_checks_no_marker [OF ok]; (assumption | simp only:))))
qed

end
