(* ===== verification/Program_Runs.thy ===== *)
theory Program_Runs
  imports Reward_Safe
begin

text \<open>
  Runs of the program: successful instructions, other programs, and the passing of time. Every ledger a
  run reaches keeps the invariant, so that the properties of the components hold of the accounts.
\<close>

lemma process_instruction_safe:
  assumes laws: "runtime_laws program_id addr rt" and ok: "ledger_ok program_id addr M pn val (rt_epoch rt) L"
    and pn: "precise_number pn val"
  shows "safe (ledger_ok program_id addr M pn val (rt_epoch rt)) (process_instruction router_id pn hashv rt program_id accounts ix L)"
  unfolding process_instruction_def
  by (intro safe_guard; cases ix; simp only: dispatch.simps;
    rule admin_initialize_config_safe initialize_vault_registry_safe realloc_vault_registry_safe register_vault_safe
      initialize_epoch_state_safe realloc_epoch_state_safe initialize_weight_table_safe realloc_weight_table_safe
      switchboard_set_weight_safe initialize_epoch_snapshot_safe initialize_operator_snapshot_safe
      realloc_operator_snapshot_safe snapshot_vault_operator_delegation_safe initialize_ballot_box_safe
      realloc_ballot_box_safe cast_vote_safe set_merkle_root_safe initialize_base_reward_router_safe
      realloc_base_reward_router_safe initialize_ncn_reward_router_safe route_base_rewards_safe
      route_ncn_rewards_safe distribute_base_rewards_safe distribute_base_ncn_reward_route_safe
      distribute_ncn_operator_rewards_safe distribute_ncn_vault_rewards_safe claim_with_payer_safe
      close_epoch_account_safe admin_set_parameters_safe admin_set_config_fees_safe admin_set_new_admin_safe
      admin_set_tie_breaker_safe admin_set_weight_safe admin_register_st_mint_safe admin_set_st_mint_safe;
    rule laws ok pn)

text \<open>The steps of a run, with the epoch of the cluster: an instruction that succeeds (\<open>rt\<close> is the runtime its
  transaction sees), what other transactions do, and the passing of epochs. A run starts before the
  program owns an account.\<close>

inductive program_step ::
    "pubkey \<Rightarrow> (program_account \<Rightarrow> pubkey) \<Rightarrow> 'p precise_ops \<Rightarrow> hasher \<Rightarrow> ('x, 'y) externals_scheme itself \<Rightarrow>
     u64 \<times> 'x ledger \<Rightarrow> u64 \<times> 'x ledger \<Rightarrow> bool"
  for program_id addr pn hashv ty where
  instruction: "runtime_laws program_id addr (rt :: ('x, 'y) externals_scheme) \<Longrightarrow>
    process_instruction program_id pn hashv rt program_id accounts ix L = Inr L' \<Longrightarrow>
    program_step program_id addr pn hashv ty (rt_epoch rt, L) (rt_epoch rt, L')"
| others: "others_ran program_id L L' \<Longrightarrow> program_step program_id addr pn hashv ty (e, L) (e, L')"
| epoch: "e \<le> e' \<Longrightarrow> program_step program_id addr pn hashv ty (e, L) (e', L)"

definition program_runs ::
    "pubkey \<Rightarrow> (program_account \<Rightarrow> pubkey) \<Rightarrow> 'p precise_ops \<Rightarrow> hasher \<Rightarrow> ('x, 'y) externals_scheme itself \<Rightarrow>
     u64 \<Rightarrow> 'x ledger \<Rightarrow> u64 \<Rightarrow> 'x ledger \<Rightarrow> bool" where
  "program_runs program_id addr pn hashv ty e L e' L' \<longleftrightarrow>
    (program_step program_id addr pn hashv ty)\<^sup>*\<^sup>* (e, L) (e', L')"

lemma content_later:
  assumes "content pn val e d" and "e \<le> e'"
  shows "content pn val e' d"
  using assms by (cases d) (auto intro: fee_reachable.epoch_passes)

lemma ledger_ok_later:
  "ledger_ok program_id addr M pn val e L \<Longrightarrow> e \<le> e' \<Longrightarrow> ledger_ok program_id addr M pn val e' L"
  unfolding ledger_ok_def account_ok_def by (metis content_later)

lemma program_step_ok:
  assumes "program_step program_id addr pn hashv ty s s'" and "precise_number pn val"
    and "ledger_ok program_id addr M pn val (fst s) (snd s)"
  shows "ledger_ok program_id addr M pn val (fst s') (snd s')"
  using assms(1,3)
proof cases
  case (instruction rt accounts ix L L')
  then show ?thesis using safeD [OF process_instruction_safe [OF _ _ assms(2)] instruction(4)] assms(3) by simp
next
  case (others L L' e)
  then show ?thesis using assms(3) by (auto intro: others_ran_ok)
next
  case (epoch e e' L)
  then show ?thesis using assms(3) by (auto intro: ledger_ok_later)
qed

lemma program_steps_ok:
  assumes "(program_step program_id addr pn hashv ty)\<^sup>*\<^sup>* s s'" and "precise_number pn val"
    and "ledger_ok program_id addr M pn val (fst s) (snd s)"
  shows "ledger_ok program_id addr M pn val (fst s') (snd s')"
  using assms by (induction rule: rtranclp_induct) (auto intro: program_step_ok)

lemma program_runs_ok:
  assumes "program_runs program_id addr pn hashv ty e L e' L'" and "precise_number pn val"
    and "ledger_ok program_id addr M pn val e L"
  shows "ledger_ok program_id addr M pn val e' L'"
  using program_steps_ok [of program_id addr pn hashv ty "(e, L)" "(e', L')"] assms unfolding program_runs_def by simp

text \<open>A run starts before the program owns an account.\<close>

lemma fresh_ledger_ok:
  assumes "\<And>key. ac_owner (L key) \<noteq> program_id"
  shows "ledger_ok program_id addr {} pn val e L"
  using assms by (simp add: ledger_ok_def account_ok_def)

end
