(* ===== verification/Sample_Runtime.thy ===== *)
theory Sample_Runtime
  imports Program_Runs
begin

text \<open>
  A small runtime that obeys the laws, on which the theorems about the whole program are applied to
  concrete transactions. Addresses are the joined seeds; the system program moves, allocates and assigns;
  a cast checks discriminator and length; the accounts of the other programs are fixed; the other programs,
  when called, change nothing.
\<close>

definition sample_program :: pubkey where "sample_program = replicate 32 9"
definition sample_ncn :: pubkey where "sample_ncn = replicate 32 2"
definition sample_admin :: pubkey where "sample_admin = replicate 32 3"
definition sample_wallet :: pubkey where "sample_wallet = replicate 32 1"
definition sample_voter :: pubkey where "sample_voter = replicate 32 4"

definition sample_addr :: "program_account \<Rightarrow> pubkey" where
  "sample_addr p = concat (pda_seeds p)"

definition move_lamports :: "account_info \<Rightarrow> account_info \<Rightarrow> u64 \<Rightarrow> 'x ledger \<Rightarrow> program_error + 'x ledger" where
  "move_lamports a b n L =
    rbind (ok_or (Custom 1) (checked_sub (ac_lamports (L (ai_key a))) n)) (\<lambda>left.
    let L1 = L(ai_key a := (L (ai_key a))\<lparr>ac_lamports := left\<rparr>) in
    rbind (ok_or ProgramArithmeticOverflow (checked_add (ac_lamports (L1 (ai_key b))) n)) (\<lambda>more.
    Inr (L1(ai_key b := (L1 (ai_key b))\<lparr>ac_lamports := more\<rparr>))))"

definition sample_runtime :: "u64 \<Rightarrow> unit externals" where
  "sample_runtime s = \<lparr>
    rt_slot = s, rt_epoch = s div 400, rt_get_epoch = (\<lambda>s. s div 400), rt_minimum_balance = (\<lambda>n. n div 2 + 128),
    rt_find_program_address = (\<lambda>seeds _. (concat seeds, 255)),
    rt_cast = (\<lambda>d n disc len. fail_if (disc \<noteq> d \<or> len \<noteq> n) InvalidAccountData),
    rt_transfer = (\<lambda>a b n _. move_lamports a b n),
    rt_allocate = (\<lambda>a n _ L. rbind (fail_if (ac_owner (L (ai_key a)) \<noteq> system_program_id) IllegalOwner) (\<lambda>_.
      Inr (L(ai_key a := (L (ai_key a))\<lparr>ac_len := n, ac_disc := 0, ac_data := Zeroed\<rparr>)))),
    rt_assign = (\<lambda>a owner _ L. Inr (L(ai_key a := (L (ai_key a))\<lparr>ac_owner := owner\<rparr>))),
    rt_realloc = (\<lambda>a n L. Inr (L(ai_key a := (if n = 0
      then (L (ai_key a))\<lparr>ac_len := 0, ac_disc := 0, ac_data := Zeroed\<rparr>
      else (L (ai_key a))\<lparr>ac_len := n\<rparr>)))),
    ex_load_signer = (\<lambda>_ a w. fail_if (\<not> ai_is_signer a \<or> w \<and> \<not> ai_is_writable a) MissingRequiredSignature),
    ex_load_system_account = (\<lambda>L a _. fail_if (ac_owner (L (ai_key a)) \<noteq> system_program_id) InvalidAccountOwner),
    ex_load_system_program = (\<lambda>_ a. fail_if (ai_key a \<noteq> system_program_id) IncorrectProgramId),
    ex_load_token_mint = (\<lambda>_ _. Inr ()),
    ex_load_associated_token_account = (\<lambda>_ _ _ _. Inr ()),
    ex_load_ncn = (\<lambda>_ a _. fail_if (ai_key a \<noteq> sample_ncn) InvalidAccountOwner),
    ex_load_operator = (\<lambda>_ a _. fail_if (ai_key a = default_pubkey) InvalidAccountOwner),
    ex_load_ncn_operator_state = (\<lambda>_ _ _ _ _. Inr ()),
    ex_load_ncn_vault_ticket = (\<lambda>_ _ _ _ _. Inr ()),
    ex_load_restaking_config = (\<lambda>_ _ _. Inr ()),
    ex_load_vault = (\<lambda>_ a _. fail_if (ai_key a = default_pubkey) InvalidAccountOwner),
    ex_load_vault_ncn_ticket = (\<lambda>_ _ _ _ _. Inr ()),
    ex_load_vault_operator_delegation = (\<lambda>_ _ _ _ _. Inr ()),
    ex_ncn = (\<lambda>_ _. Inr \<lparr>na_admin = sample_admin, na_ncn_program_admin = sample_admin,
      na_weight_table_admin = sample_admin, na_vault_count = 1, na_operator_count = 1\<rparr>),
    ex_operator = (\<lambda>_ _. Inr \<lparr>oa_voter = sample_voter, oa_operator_fee_bps = 100, oa_index = 0\<rparr>),
    ex_ncn_operator_state = (\<lambda>_ _. Inr \<lparr>no_index = 0, no_ncn_is_active = (\<lambda>_ _. Inr True),
      no_operator_is_active_or_cooldown = (\<lambda>_ _. Inr True)\<rparr>),
    ex_ncn_vault_ticket_is_active = (\<lambda>_ _. Inr (\<lambda>_ _. Inr True)),
    ex_epoch_length = (\<lambda>_ _. Inr 400),
    ex_vault = (\<lambda>_ _. Inr \<lparr>va_vault_index = 1, va_supported_mint = JITOSOL_MINT,
      va_is_update_needed = (\<lambda>_ _. Inr False)\<rparr>),
    ex_vault_ncn_ticket_is_active_or_cooldown = (\<lambda>_ _. Inr (\<lambda>_ _. Inr True)),
    ex_delegation_total_security = (\<lambda>_ _. Inr (Inr 1000)),
    ex_oracle_feed = (\<lambda>_ _. None),
    ex_max_bps = 10000,
    ex_stake_pool_program_id = replicate 32 7,
    ex_tip_distribution_program_id = replicate 32 8,
    ex_deposit_sol = (\<lambda>_ _ _. Inr),
    ex_upload_merkle_root = (\<lambda>_ _ _ _ _. Inr),
    ex_claim = (\<lambda>_ _ _ _ _. Inr)\<rparr>"

lemma move_lamports_only:
  assumes "move_lamports a b n L = Inr L'"
  shows "lamports_only L L'"
proof -
  obtain left more where L': "L' = (L(ai_key a := (L (ai_key a))\<lparr>ac_lamports := left\<rparr>))
      (ai_key b := ((L(ai_key a := (L (ai_key a))\<lparr>ac_lamports := left\<rparr>)) (ai_key b))\<lparr>ac_lamports := more\<rparr>)"
    using assms unfolding move_lamports_def Let_def rbind_Inr by auto
  show ?thesis unfolding lamports_only_def L' by simp
qed

lemma others_ran_refl [simp]: "others_ran program_id L L"
proof -
  have "if ac_owner (L key) = program_id
    then ac_owner (L key) = program_id \<and> ac_len (L key) = ac_len (L key) \<and> ac_disc (L key) = ac_disc (L key) \<and>
      ac_data (L key) = ac_data (L key)
    else ac_owner (L key) = program_id \<longrightarrow> ac_disc (L key) = 0 \<and> ac_data (L key) = Zeroed" for key by simp
  then show ?thesis unfolding others_ran_def by blast
qed

lemma sample_mint_key: "JITOSOL_MINT \<noteq> default_pubkey"
proof
  assume "JITOSOL_MINT = default_pubkey"
  then have "hd JITOSOL_MINT = hd default_pubkey" by simp
  then show False by (simp add: JITOSOL_MINT_def default_pubkey_def)
qed

lemma sample_pda: "pda (sample_runtime s) prog p = sample_addr p"
  by (simp add: pda_def find_program_address_def sample_runtime_def sample_addr_def)

lemma sample_keys_differ: "sample_program \<noteq> system_program_id"
  by (simp add: sample_program_def system_program_id_def)

lemma sample_laws: "s \<noteq> EMPTY_SLOT_REGISTERED \<Longrightarrow> runtime_laws sample_program sample_addr (sample_runtime s)"
  unfolding runtime_laws_def
  by (intro conjI sample_keys_differ allI sample_pda;
    (simp add: sample_runtime_def res_simps EMPTY_SLOT_REGISTERED_def sample_mint_key; fail |
     auto simp: sample_runtime_def res_simps EMPTY_SLOT_REGISTERED_def sample_mint_key intro: move_lamports_only))

text \<open>The ledger a run starts from.\<close>

definition sample_ledger :: "unit ledger" where
  "sample_ledger = (\<lambda>_. \<lparr>ac_lamports = 10 ^ 12, ac_owner = system_program_id, ac_len = 0, ac_disc = 0, ac_data = Zeroed\<rparr>)"

definition reader :: "pubkey \<Rightarrow> account_info" where
  "reader key = \<lparr>ai_key = key, ai_is_signer = False, ai_is_writable = False\<rparr>"

definition writer :: "pubkey \<Rightarrow> account_info" where
  "writer key = \<lparr>ai_key = key, ai_is_signer = False, ai_is_writable = True\<rparr>"

definition signer :: "pubkey \<Rightarrow> account_info" where
  "signer key = \<lparr>ai_key = key, ai_is_signer = True, ai_is_writable = True\<rparr>"

definition sample_config :: config where
  "sample_config = config_new sample_ncn sample_admin sample_admin (sample_fee_config 5 270) 5 10000 10 10 255"

definition sample_account :: "discriminators \<Rightarrow> unit account_data \<Rightarrow> unit account" where
  "sample_account D d = \<lparr>ac_lamports = 10 ^ 12, ac_owner = sample_program, ac_len = account_size D,
    ac_disc = discriminator D, ac_data = d\<rparr>"

lemma sample_account_reads [simp]:
  "ac_lamports (sample_account D d) = 10 ^ 12" "ac_owner (sample_account D d) = sample_program"
  "ac_len (sample_account D d) = account_size D" "ac_disc (sample_account D d) = discriminator D"
  "ac_data (sample_account D d) = d"
  by (simp_all add: sample_account_def)

definition configured_ledger :: "unit ledger" where
  "configured_ledger = sample_ledger(sample_addr (Config_Account sample_ncn) := sample_account D_Config (Config_Data sample_config))"

lemma sample_check_fees: "check_fees_okay fixed12 (sample_fee_config 5 270) 5 = Inr ()"
  by (simp add: sample_fee_simps split del: if_split)

lemmas sample_defs = sample_runtime_def sample_ledger_def reader_def writer_def signer_def
  find_program_address_def

text \<open>The calls of the sample runtime, rewritten.\<close>

lemma sample_reads [simp]:
  "rt_slot (sample_runtime s) = s" "rt_epoch (sample_runtime s) = s div 400" "rt_get_epoch (sample_runtime s) t = t div 400"
  "rt_minimum_balance (sample_runtime s) n = n div 2 + 128"
  "rt_find_program_address (sample_runtime s) seeds prog = (concat seeds, 255)"
  "rt_cast (sample_runtime s) d n disc len = fail_if (disc \<noteq> d \<or> len \<noteq> n) InvalidAccountData"
  "rt_allocate (sample_runtime s) a n seeds L = rbind (fail_if (ac_owner (L (ai_key a)) \<noteq> system_program_id) IllegalOwner) (\<lambda>_.
      Inr (L(ai_key a := (L (ai_key a))\<lparr>ac_len := n, ac_disc := 0, ac_data := Zeroed\<rparr>)))"
  "rt_assign (sample_runtime s) a owner seeds L = Inr (L(ai_key a := (L (ai_key a))\<lparr>ac_owner := owner\<rparr>))"
  "rt_realloc (sample_runtime s) a n L = Inr (L(ai_key a := (if n = 0
      then (L (ai_key a))\<lparr>ac_len := 0, ac_disc := 0, ac_data := Zeroed\<rparr> else (L (ai_key a))\<lparr>ac_len := n\<rparr>)))"
  "ex_load_signer (sample_runtime s) L a w = fail_if (\<not> ai_is_signer a \<or> w \<and> \<not> ai_is_writable a) MissingRequiredSignature"
  "ex_load_system_account (sample_runtime s) L a w = fail_if (ac_owner (L (ai_key a)) \<noteq> system_program_id) InvalidAccountOwner"
  "ex_load_system_program (sample_runtime s) L a = fail_if (ai_key a \<noteq> system_program_id) IncorrectProgramId"
  "ex_load_ncn (sample_runtime s) L a w = fail_if (ai_key a \<noteq> sample_ncn) InvalidAccountOwner"
  "ex_load_operator (sample_runtime s) L a w = fail_if (ai_key a = default_pubkey) InvalidAccountOwner"
  "ex_operator (sample_runtime s) L a = Inr \<lparr>oa_voter = sample_voter, oa_operator_fee_bps = 100, oa_index = 0\<rparr>"
  "ex_tip_distribution_program_id (sample_runtime s) = replicate 32 8"
  "ex_stake_pool_program_id (sample_runtime s) = replicate 32 7"
  "ex_load_associated_token_account (sample_runtime s) L a wallet mint = Inr ()"
  "ex_deposit_sol (sample_runtime s) as n seeds L = Inr L"
  "ex_upload_merkle_root (sample_runtime s) as r n k seeds L = Inr L"
  "ex_ncn (sample_runtime s) L a = Inr \<lparr>na_admin = sample_admin, na_ncn_program_admin = sample_admin,
      na_weight_table_admin = sample_admin, na_vault_count = 1, na_operator_count = 1\<rparr>"
  by (simp_all add: sample_runtime_def)

lemma account_info_reads [simp]:
  "ai_key (reader key) = key" "ai_key (writer key) = key" "ai_key (signer key) = key"
  "\<not> ai_is_signer (reader key)" "\<not> ai_is_signer (writer key)" "ai_is_signer (signer key)"
  "\<not> ai_is_writable (reader key)" "ai_is_writable (writer key)" "ai_is_writable (signer key)"
  by (simp_all add: reader_def writer_def signer_def)

lemma sample_find [simp]:
  "find_program_address (sample_runtime s) prog p = (sample_addr p, 255, pda_seeds p)"
  by (simp add: find_program_address_def sample_addr_def)

declare sample_pda [simp]

lemma sample_ledger_reads [simp]:
  "sample_ledger key = \<lparr>ac_lamports = 10 ^ 12, ac_owner = system_program_id, ac_len = 0, ac_disc = 0, ac_data = Zeroed\<rparr>"
  by (simp add: sample_ledger_def)

lemma sample_addr_inject: "keys_ok p \<Longrightarrow> keys_ok q \<Longrightarrow> sample_addr p = sample_addr q \<longleftrightarrow> p = q"
  unfolding sample_addr_def by (rule joined_seeds_inject)

lemma sample_keys_length [simp]: "length sample_ncn = 32" "length sample_voter = 32"
  by (simp_all add: sample_ncn_def sample_voter_def)

lemmas size_defs = account_size_def fees_size_def fee_config_size_def stake_weights_size_def ballot_size_def
  ballot_tally_size_def operator_vote_size_def st_mint_entry_size_def vault_entry_size_def weight_entry_size_def
  vault_operator_stake_weight_size_def epoch_account_status_size_def progress_size_def

lemma size_Config: "account_size D_Config = 970"
  by (simp add: size_defs)

lemma size_nonzero: "account_size D \<noteq> 0"
  by (cases D) (simp_all add: size_defs)

lemmas parameter_bounds = MIN_EPOCHS_BEFORE_STALL_def MAX_EPOCHS_BEFORE_STALL_def
  MIN_EPOCHS_AFTER_CONSENSUS_BEFORE_CLOSE_def MAX_EPOCHS_AFTER_CONSENSUS_BEFORE_CLOSE_def
  MIN_VALID_SLOTS_AFTER_CONSENSUS_def MAX_VALID_SLOTS_AFTER_CONSENSUS_def

lemma create_config:
  "process_instruction sample_program fixed12 hashv (sample_runtime 2000) sample_program
    [writer (sample_addr (Config_Account sample_ncn)), reader sample_ncn, reader sample_wallet, signer sample_admin,
     reader sample_admin, writer (sample_addr (Account_Payer_Account sample_ncn)), reader system_program_id]
    (InitializeConfig 500 270 30 10 10 10000) sample_ledger = Inr configured_ledger"
  by (simp add: process_instruction_def process_admin_initialize_config_def account_payer_load_def check_load_def
     size_Config MAX_FEE_BPS_def parameter_bounds pay_and_create_account_def saturating_sub_def MAX_REALLOC_BYTES_def
    put_discriminator_def put_data_def may_write_def as_config_def cast_data_def rmap_err_def
    sample_fee_config_new [folded sample_wallet_def] sample_check_fees config_new_def configured_ledger_def sample_account_def sample_config_def)

lemma sample_run:
  "program_runs sample_program sample_addr fixed12 hashv TYPE((unit, unit) externals_scheme) 5 sample_ledger 5 configured_ledger"
  unfolding program_runs_def
  using program_step.instruction [OF sample_laws create_config, where ty = "TYPE((unit, unit) externals_scheme)"]
  by (simp add: r_into_rtranclp EMPTY_SLOT_REGISTERED_def)

text \<open>Reading and writing the accounts of the sample program.\<close>

lemma sample_casts [simp]:
  "L (ai_key a) = sample_account D_Config (Config_Data v0) \<Longrightarrow> as_config (sample_runtime s) L a = Inr v0"
  "L (ai_key a) = sample_account D_VaultRegistry (Vault_Registry_Data v1) \<Longrightarrow> as_vault_registry (sample_runtime s) L a = Inr v1"
  "L (ai_key a) = sample_account D_WeightTable (Weight_Table_Data v2) \<Longrightarrow> as_weight_table (sample_runtime s) L a = Inr v2"
  "L (ai_key a) = sample_account D_EpochSnapshot (Epoch_Snapshot_Data v3) \<Longrightarrow> as_epoch_snapshot (sample_runtime s) L a = Inr v3"
  "L (ai_key a) = sample_account D_OperatorSnapshot (Operator_Snapshot_Data v4) \<Longrightarrow> as_operator_snapshot (sample_runtime s) L a = Inr v4"
  "L (ai_key a) = sample_account D_BallotBox (Ballot_Box_Data v5) \<Longrightarrow> as_ballot_box (sample_runtime s) L a = Inr v5"
  "L (ai_key a) = sample_account D_BaseRewardRouter (Base_Reward_Router_Data v6) \<Longrightarrow> as_base_reward_router (sample_runtime s) L a = Inr v6"
  "L (ai_key a) = sample_account D_NcnRewardRouter (Ncn_Reward_Router_Data v7) \<Longrightarrow> as_ncn_reward_router (sample_runtime s) L a = Inr v7"
  "L (ai_key a) = sample_account D_EpochState (Epoch_State_Data v8) \<Longrightarrow> as_epoch_state (sample_runtime s) L a = Inr v8"
  by (simp_all add: as_config_def as_vault_registry_def as_weight_table_def as_epoch_snapshot_def as_operator_snapshot_def as_ballot_box_def as_base_reward_router_def as_ncn_reward_router_def as_epoch_state_def cast_data_def)

lemma sample_put_data [simp]:
  assumes "L (ai_key a) = sample_account D d" and "ai_is_writable a"
  shows "put_data sample_program L a d' = Inr (L(ai_key a := sample_account D d'))"
proof (cases "d = d'")
  case True
  then show ?thesis using assms fun_upd_triv [of L "ai_key a"] by (simp add: put_data_def)
next
  case False
  then show ?thesis using assms by (simp add: put_data_def may_write_def) (simp add: sample_account_def)
qed

lemma sample_load [simp]:
  "L (ai_key a) = sample_account D d \<Longrightarrow> disc = discriminator D \<Longrightarrow>
    check_load sample_program L a key (Some disc) w =
      rbind (fail_if (ai_key a \<noteq> key) InvalidAccountData) (\<lambda>_. fail_if (w \<and> \<not> ai_is_writable a) InvalidAccountData)"
  by (simp add: check_load_def data_is_empty_def size_nonzero)

end
