(* ===== verification/Closed_Epochs.thy ===== *)
theory Closed_Epochs
  imports Sample_Runtime
begin

text \<open>
  Properties of runs of the program: the accounts are what they claim to be, an epoch closes for good, and
  every instruction with privileges is signed by who has them.
\<close>

text \<open>C7. Whatever transactions ran, each account the program owns is zeroed, or it is an account of the kind
  its discriminator names, at the address derived from the keys, the group and the epoch it holds, with
  data that the operations of its component produced.\<close>

theorem accounts_typed:
  assumes "precise_number pn val"
    and "\<And>key. ac_owner (L0 key) \<noteq> program_id"
    and "program_runs program_id addr pn hashv ty e0 L0 e L"
    and "ac_owner (L key) = program_id"
  shows "ac_data (L key) = Zeroed \<and> ac_disc (L key) = 0 \<or>
    (\<exists>D p. kind_of (ac_data (L key)) = Some D \<and> ac_disc (L key) = discriminator D \<and>
      home (ac_data (L key)) = Some p \<and> addr p = key \<and> content pn val e (ac_data (L key)))"
proof -
  have "account_ok program_id addr {} pn val e key (L key)"
    using ledger_okD [OF program_runs_ok [OF assms(3,1) fresh_ledger_ok [OF assms(2)]]] .
  then show ?thesis using assms(4) by (cases "ac_data (L key) = Zeroed") (auto simp: account_ok_def)
qed

theorem accounts_typed_witness:
  "fee_reachable fixed12 (sample_fee_config 5 270) 5"
proof -
  let ?key = "sample_addr (Config_Account sample_ncn)"
  have acct: "ac_owner (configured_ledger ?key) = sample_program" "ac_data (configured_ledger ?key) = Config_Data sample_config"
    by (simp_all add: configured_ledger_def)
  have "ac_owner (sample_ledger key) \<noteq> sample_program" for key using sample_keys_differ by simp
  from accounts_typed [OF fixed12.precise_number_axioms this sample_run acct(1)]
  show ?thesis by (auto simp: acct(2) sample_config_def config_new_def)
qed

section \<open>An epoch closes for good\<close>

text \<open>The instructions that create accounts of an epoch, and the one that closes them: the position of the
  NCN among the accounts, and the epoch.\<close>

fun opened_epoch :: "tip_router_instruction \<Rightarrow> (nat \<times> u64) option" where
  "opened_epoch (InitializeEpochState e) = Some (3, e)"
| "opened_epoch (InitializeWeightTable e) = Some (3, e)"
| "opened_epoch (InitializeEpochSnapshot e) = Some (3, e)"
| "opened_epoch (InitializeOperatorSnapshot e) = Some (3, e)"
| "opened_epoch (InitializeBallotBox e) = Some (4, e)"
| "opened_epoch (InitializeBaseRewardRouter e) = Some (2, e)"
| "opened_epoch (InitializeNcnRewardRouter g e) = Some (2, e)"
| "opened_epoch (CloseEpochAccount e) = Some (3, e)"
| "opened_epoch _ = None"

lemma check_dne_Inr:
  "check_dne rt program_id L a ncn epoch = Inr u \<Longrightarrow> ac_len (L (pda rt program_id (Epoch_Marker_Account ncn epoch))) = 0"
  by (auto simp: check_dne_def rbind_Inr fail_if_Inr word_gt_0)

lemmas opening_handlers = process_initialize_epoch_state_def process_initialize_weight_table_def
  process_initialize_epoch_snapshot_def process_initialize_operator_snapshot_def process_initialize_ballot_box_def
  process_initialize_base_reward_router_def process_initialize_ncn_reward_router_def process_close_epoch_account_def

text \<open>Each of them requires that the marker does not exist.\<close>

lemma no_marker_required:
  assumes "process_instruction tip_router_id pn hashv rt program_id accounts ix L = Inr L'"
    and "opened_epoch ix = Some (n, epoch)"
  shows "ac_len (L (pda rt program_id (Epoch_Marker_Account (ai_key (accounts ! n)) epoch))) = 0"
proof -
  let ?Q = "\<lambda>L'. ac_len (L (pda rt program_id (Epoch_Marker_Account (ai_key (accounts ! n)) epoch))) = 0"
  have "safe ?Q (dispatch pn hashv rt program_id accounts L ix)"
  proof (cases ix)
  qed (insert assms(2), simp_all only: dispatch.simps opened_epoch.simps option.inject prod.inject option.distinct,
    (elim conjE; hypsubst; unfold opening_handlers Let_def;
      intro safe_Inl safe_guard safe_list safe_pair safe_if safe_bind; drule check_dne_Inr; simp add: safe_def)+)
  then show ?thesis using assms(1) by (auto simp: process_instruction_def rbind_Inr fail_if_Inr dest: safeD)
qed

text \<open>C5. Once the marker of an epoch exists, in whatever run follows it stays, and no account of this epoch is
  created or closed any more.\<close>

theorem closed_epoch_stays_closed:
  assumes "precise_number pn val" and "ledger_ok program_id addr {} pn val e L"
    and "ac_owner (L (addr (Epoch_Marker_Account ncn epoch))) = program_id"
    and "kind_of (ac_data (L (addr (Epoch_Marker_Account ncn epoch)))) = Some D_EpochMarker"
    and "0 < ac_len (L (addr (Epoch_Marker_Account ncn epoch)))"
    and "program_runs program_id addr pn hashv ty e L e' L'"
    and "runtime_laws program_id addr rt"
    and "opened_epoch ix = Some (n, epoch)" and "ai_key (accounts ! n) = ncn"
  shows "kind_of (ac_data (L' (addr (Epoch_Marker_Account ncn epoch)))) = Some D_EpochMarker \<and>
    (\<exists>err. process_instruction program_id pn hashv rt program_id accounts ix L' = Inl err)"
proof -
  let ?key = "addr (Epoch_Marker_Account ncn epoch)"
  have "ledger_ok program_id addr {?key} pn val e L"
    using assms(2-5) by (simp add: ledger_ok_def account_ok_def)
  then have "account_ok program_id addr {?key} pn val e' ?key (L' ?key)"
    by (rule ledger_okD [OF program_runs_ok [OF assms(6,1)]])
  then have marker: "0 < ac_len (L' ?key)" "kind_of (ac_data (L' ?key)) = Some D_EpochMarker"
    by (simp_all add: account_ok_def)
  have "process_instruction program_id pn hashv rt program_id accounts ix L' \<noteq> Inr L''" for L''
    using no_marker_required [OF _ assms(8), of program_id pn hashv rt program_id accounts L' L''] marker(1)
    by (auto simp: assms(9) runtime_lawsD(2) [OF assms(7)])
  then show ?thesis using marker(2) by (cases "process_instruction program_id pn hashv rt program_id accounts ix L'") auto
qed

text \<open>The epoch 4 of the sample NCN is closed; two epochs later its state cannot be created again.\<close>

definition closed_ledger :: "unit ledger" where
  "closed_ledger = configured_ledger(sample_addr (Epoch_Marker_Account sample_ncn 4) :=
    sample_account D_EpochMarker (Epoch_Marker_Data (epoch_marker_new sample_ncn 4 1900)))"

lemma closed_ledger_ok: "ledger_ok sample_program sample_addr {} fixed12 fixed12_val 5 closed_ledger"
  unfolding closed_ledger_def
proof (rule ledger_ok_upd)
  have "ac_owner (sample_ledger key) \<noteq> sample_program" for key using sample_keys_differ by simp
  from program_runs_ok [OF sample_run fixed12.precise_number_axioms fresh_ledger_ok [OF this]]
  show "ledger_ok sample_program sample_addr {} fixed12 fixed12_val 5 configured_ledger" .
qed (simp add: account_ok_def epoch_marker_new_def)

theorem closed_epoch_stays_closed_witness:
  "\<exists>err. process_instruction sample_program fixed12 pad_hashv (sample_runtime 2800) sample_program
    [reader (sample_addr (Epoch_Marker_Account sample_ncn 4)), writer (sample_addr (Epoch_State_Account sample_ncn 4)),
     reader (sample_addr (Config_Account sample_ncn)), reader sample_ncn,
     writer (sample_addr (Account_Payer_Account sample_ncn)), reader system_program_id]
    (InitializeEpochState 4) closed_ledger = Inl err"
proof -
  let ?a = "closed_ledger (sample_addr (Epoch_Marker_Account sample_ncn 4))"
  have marker: "ac_owner ?a = sample_program" "kind_of (ac_data ?a) = Some D_EpochMarker" "0 < ac_len ?a"
    by (simp_all add: closed_ledger_def size_nonzero word_gt_0)
  have later: "program_runs sample_program sample_addr fixed12 pad_hashv TYPE((unit, unit) externals_scheme) 5 closed_ledger
      7 closed_ledger"
    unfolding program_runs_def by (rule r_into_rtranclp) (rule program_step.epoch, simp)
  show ?thesis
    using closed_epoch_stays_closed [OF fixed12.precise_number_axioms closed_ledger_ok marker later sample_laws [of 2800],
        of "InitializeEpochState 4" 3] by (simp add: EMPTY_SLOT_REGISTERED_def)
qed

end
