(* ===== verification/Authority.thy ===== *)
theory Authority
  imports Closed_Epochs
begin

text \<open>
  Who may do what: the instructions with privileges, the account that must sign each, and the key it must
  have, read from the accounts of the restaking program or from the configuration of the NCN.
\<close>

datatype role =
    Ncn_Admin nat
  | Ncn_Program_Admin nat
  | Weight_Table_Admin nat
  | Fee_Admin nat nat
  | Tie_Breaker_Admin nat nat
  | Operator_Voter nat

text \<open>The role an instruction needs, over the positions of the NCN (and of its configuration, or of the
  operator) among the accounts, and the position of the signer.\<close>

fun required_role :: "tip_router_instruction \<Rightarrow> (role \<times> nat) option" where
  "required_role (InitializeConfig _ _ _ _ _ _) = Some (Ncn_Admin 1, 3)"
| "required_role (AdminSetParameters _ _ _ _) = Some (Ncn_Admin 1, 2)"
| "required_role (AdminSetNewAdmin _) = Some (Ncn_Admin 1, 2)"
| "required_role (AdminRegisterStMint _ _ _ _) = Some (Ncn_Program_Admin 1, 4)"
| "required_role (AdminSetStMint _ _ _ _ _) = Some (Ncn_Program_Admin 1, 3)"
| "required_role (AdminSetWeight _ _ _) = Some (Weight_Table_Admin 1, 3)"
| "required_role (AdminSetConfigFees _ _ _ _ _ _) = Some (Fee_Admin 1 0, 2)"
| "required_role (AdminSetTieBreaker _ _) = Some (Tie_Breaker_Admin 3 1, 4)"
| "required_role (CastVote _ _) = Some (Operator_Voter 6, 7)"
| "required_role _ = None"

text \<open>The key is the one in the account of the NCN or of the operator, or in the configuration found at the
  address derived from the NCN.\<close>

definition config_grants ::
    "('x, 'y) externals_scheme \<Rightarrow> pubkey \<Rightarrow> 'x ledger \<Rightarrow> account_info \<Rightarrow> account_info \<Rightarrow> (config \<Rightarrow> bool) \<Rightarrow> bool" where
  "config_grants rt program_id L ncn config P \<longleftrightarrow>
    ai_key config = pda rt program_id (Config_Account (ai_key ncn)) \<and>
    ac_owner (L (ai_key config)) = program_id \<and>
    (case as_config rt L config of Inr c \<Rightarrow> P c | Inl _ \<Rightarrow> False)"

primrec holds_role ::
    "('x, 'y) externals_scheme \<Rightarrow> pubkey \<Rightarrow> 'x ledger \<Rightarrow> account_info list \<Rightarrow> role \<Rightarrow> pubkey \<Rightarrow> bool" where
  "holds_role rt program_id L accounts (Ncn_Admin n) key \<longleftrightarrow>
    (case ex_ncn rt L (accounts ! n) of Inr a \<Rightarrow> na_admin a = key | Inl _ \<Rightarrow> False)"
| "holds_role rt program_id L accounts (Ncn_Program_Admin n) key \<longleftrightarrow>
    (case ex_ncn rt L (accounts ! n) of Inr a \<Rightarrow> na_ncn_program_admin a = key | Inl _ \<Rightarrow> False)"
| "holds_role rt program_id L accounts (Weight_Table_Admin n) key \<longleftrightarrow>
    (case ex_ncn rt L (accounts ! n) of Inr a \<Rightarrow> na_weight_table_admin a = key | Inl _ \<Rightarrow> False)"
| "holds_role rt program_id L accounts (Fee_Admin n c) key \<longleftrightarrow>
    config_grants rt program_id L (accounts ! n) (accounts ! c) (\<lambda>c. cf_fee_admin c = key)"
| "holds_role rt program_id L accounts (Tie_Breaker_Admin n c) key \<longleftrightarrow>
    config_grants rt program_id L (accounts ! n) (accounts ! c) (\<lambda>c. cf_tie_breaker_admin c = key)"
| "holds_role rt program_id L accounts (Operator_Voter n) key \<longleftrightarrow>
    (case ex_operator rt L (accounts ! n) of Inr a \<Rightarrow> oa_voter a = key | Inl _ \<Rightarrow> False)"

definition signed_by ::
    "('x, 'y) externals_scheme \<Rightarrow> pubkey \<Rightarrow> 'x ledger \<Rightarrow> account_info list \<Rightarrow> role \<Rightarrow> nat \<Rightarrow> bool" where
  "signed_by rt program_id L accounts r n \<longleftrightarrow> n < length accounts \<and>
    (\<exists>w. ex_load_signer rt L (accounts ! n) w = Inr ()) \<and> holds_role rt program_id L accounts r (ai_key (accounts ! n))"

lemma config_grantsI:
  assumes "config_load rt program_id L config (ai_key ncn) w = Inr u" and "as_config rt L config = Inr c" and "P c"
  shows "config_grants rt program_id L ncn config P"
  using check_load_Inr(1,2) [OF assms(1) [unfolded config_load_def]] assms(2,3) by (simp add: config_grants_def)

lemma admin_initialize_config_signed:
  "safe (\<lambda>_. signed_by rt program_id L accounts (Ncn_Admin 1) 3) (process_admin_initialize_config pn rt program_id accounts a b c d e f L)"
  unfolding process_admin_initialize_config_def Let_def
  by (intro safe_Inl safe_guard safe_list safe_pair safe_if safe_bind) (auto simp: safe_def signed_by_def intro: config_grantsI)

lemma admin_set_parameters_signed:
  "safe (\<lambda>_. signed_by rt program_id L accounts (Ncn_Admin 1) 2) (process_admin_set_parameters rt program_id accounts a b c d L)"
  unfolding process_admin_set_parameters_def Let_def
  by (intro safe_Inl safe_guard safe_list safe_pair safe_if safe_bind) (auto simp: safe_def signed_by_def intro: config_grantsI)

lemma admin_set_new_admin_signed:
  "safe (\<lambda>_. signed_by rt program_id L accounts (Ncn_Admin 1) 2) (process_admin_set_new_admin rt program_id accounts a L)"
  unfolding process_admin_set_new_admin_def Let_def
  by (intro safe_Inl safe_guard safe_list safe_pair safe_if safe_bind) (auto simp: safe_def signed_by_def intro: config_grantsI)

lemma admin_register_st_mint_signed:
  "safe (\<lambda>_. signed_by rt program_id L accounts (Ncn_Program_Admin 1) 4) (process_admin_register_st_mint rt program_id accounts a b c d L)"
  unfolding process_admin_register_st_mint_def Let_def
  by (intro safe_Inl safe_guard safe_list safe_pair safe_if safe_bind) (auto simp: safe_def signed_by_def intro: config_grantsI)

lemma admin_set_st_mint_signed:
  "safe (\<lambda>_. signed_by rt program_id L accounts (Ncn_Program_Admin 1) 3) (process_admin_set_st_mint rt program_id accounts a b c d e L)"
  unfolding process_admin_set_st_mint_def Let_def
  by (intro safe_Inl safe_guard safe_list safe_pair safe_if safe_bind) (auto simp: safe_def signed_by_def intro: config_grantsI)

lemma admin_set_weight_signed:
  "safe (\<lambda>_. signed_by rt program_id L accounts (Weight_Table_Admin 1) 3) (process_admin_set_weight rt program_id accounts a b c L)"
  unfolding process_admin_set_weight_def Let_def
  by (intro safe_Inl safe_guard safe_list safe_pair safe_if safe_bind) (auto simp: safe_def signed_by_def intro: config_grantsI)

lemma admin_set_config_fees_signed:
  "safe (\<lambda>_. signed_by rt program_id L accounts (Fee_Admin 1 0) 2) (process_admin_set_config_fees pn rt program_id accounts a b c d e f L)"
  unfolding process_admin_set_config_fees_def Let_def
  by (intro safe_Inl safe_guard safe_list safe_pair safe_if safe_bind) (auto simp: safe_def signed_by_def intro: config_grantsI)

lemma admin_set_tie_breaker_signed:
  "safe (\<lambda>_. signed_by rt program_id L accounts (Tie_Breaker_Admin 3 1) 4) (process_admin_set_tie_breaker rt program_id accounts a b L)"
  unfolding process_admin_set_tie_breaker_def Let_def
  by (intro safe_Inl safe_guard safe_list safe_pair safe_if safe_bind) (auto simp: safe_def signed_by_def intro: config_grantsI)

lemma cast_vote_signed:
  "safe (\<lambda>_. signed_by rt program_id L accounts (Operator_Voter 6) 7) (process_cast_vote pn rt program_id accounts a b L)"
  unfolding process_cast_vote_def Let_def
  by (intro safe_Inl safe_guard safe_list safe_pair safe_if safe_bind) (auto simp: safe_def signed_by_def intro: config_grantsI)

lemmas privileged_signed_rules = admin_initialize_config_signed admin_set_parameters_signed admin_set_new_admin_signed admin_register_st_mint_signed admin_set_st_mint_signed admin_set_weight_signed admin_set_config_fees_signed admin_set_tie_breaker_signed cast_vote_signed

text \<open>C1. An instruction with privileges that succeeds was signed by the key that holds the role for this NCN:
  its admin, its program admin, its weight table admin, the fee admin or tie breaker admin of its
  configuration, or the voter of the operator.\<close>

theorem privileged_signed:
  assumes "process_instruction tip_router_id pn hashv rt program_id accounts ix L = Inr L'"
    and "required_role ix = Some (r, n)"
    and "\<And>L a w u. ex_load_signer rt L a w = Inr u \<Longrightarrow> ai_is_signer a"
  shows "n < length accounts \<and> ai_is_signer (accounts ! n) \<and>
    holds_role rt program_id L accounts r (ai_key (accounts ! n))"
proof -
  have "safe (\<lambda>_. signed_by rt program_id L accounts r n) (dispatch pn hashv rt program_id accounts L ix)"
  proof (cases ix)
  qed (insert assms(2), simp_all only: dispatch.simps required_role.simps option.inject prod.inject option.distinct,
    (elim conjE; hypsubst; rule privileged_signed_rules)+)
  then have "signed_by rt program_id L accounts r n"
    using assms(1) by (auto simp: process_instruction_def rbind_Inr fail_if_Inr dest: safeD)
  then show ?thesis using assms(3) by (auto simp: signed_by_def)
qed

theorem privileged_signed_witness:
  "na_admin \<lparr>na_admin = sample_admin, na_ncn_program_admin = sample_admin, na_weight_table_admin = sample_admin,
    na_vault_count = 1, na_operator_count = 1\<rparr> = ai_key (signer sample_admin) \<and> ai_is_signer (signer sample_admin)"
proof -
  have checked: "ex_load_signer (sample_runtime s) L a w = Inr u \<Longrightarrow> ai_is_signer a" for L a w u by (simp add: fail_if_Inr)
  from privileged_signed [OF create_config [of pad_hashv] _ checked] show ?thesis by simp
qed

end
