(* ===== verification/Epoch_Closing.thy ===== *)
theory Epoch_Closing
  imports Authority
begin

text \<open>
  What closing an account does, and which accounts it can close.
\<close>

text \<open>Which account may be closed, and the statuses that are recorded for it. The branch of epoch states does not compare
  addresses: any account is taken that is the named epoch state or has the discriminator of one.\<close>

definition closes ::
    "('x, 'y) externals_scheme \<Rightarrow> pubkey \<Rightarrow> 'x ledger \<Rightarrow> pubkey \<Rightarrow> u64 \<Rightarrow> bool \<Rightarrow> account_info \<Rightarrow> epoch_account_status \<Rightarrow>
     epoch_account_status \<Rightarrow> bool" where
  "closes rt program_id L ncn epoch closing a status status' \<longleftrightarrow>
    ai_key a = pda rt program_id (Weight_Table_Account ncn epoch) \<and> status' = status\<lparr>as_weight_table := 3\<rparr> \<or>
    ai_key a = pda rt program_id (Epoch_Snapshot_Account ncn epoch) \<and> status' = status\<lparr>as_epoch_snapshot := 3\<rparr> \<or>
    (\<exists>os. as_operator_snapshot rt L a = Inr os \<and>
      ai_key a = pda rt program_id (Operator_Snapshot_Account (os_operator os) ncn epoch) \<and>
      unat (os_ncn_operator_index os) < length (epoch_account_status.as_operator_snapshot status) \<and>
      status' = status\<lparr>as_operator_snapshot := (epoch_account_status.as_operator_snapshot status)[unat (os_ncn_operator_index os) := 3]\<rparr>) \<or>
    ai_key a = pda rt program_id (Ballot_Box_Account ncn epoch) \<and> status' = status\<lparr>as_ballot_box := 3\<rparr> \<or>
    ai_key a = pda rt program_id (Base_Reward_Router_Account ncn epoch) \<and> status' = status\<lparr>as_base_reward_router := 3\<rparr> \<or>
    (\<exists>r i. as_ncn_reward_router rt L a = Inr r \<and>
      ai_key a = pda rt program_id (Ncn_Reward_Router_Account (nr_ncn_fee_group r) (nr_operator r) ncn epoch) \<and>
      i = 8 * unat (nr_ncn_operator_index r) + unat (ncn_group (nr_ncn_fee_group r)) \<and>
      i < length (epoch_account_status.as_ncn_reward_router status) \<and>
      status' = status\<lparr>as_ncn_reward_router := (epoch_account_status.as_ncn_reward_router status)[i := 3]\<rparr>) \<or>
    (closing \<or> ac_disc (L (ai_key a)) = discriminator D_EpochState) \<and> are_all_closed status \<and>
      status' = status\<lparr>as_epoch_state := 3\<rparr>"

definition records ::
    "('x, 'y) externals_scheme \<Rightarrow> pubkey \<Rightarrow> 'x ledger \<Rightarrow> pubkey \<Rightarrow> u64 \<Rightarrow> bool \<Rightarrow> account_info \<Rightarrow> epoch_state \<Rightarrow> epoch_state \<Rightarrow> bool" where
  "records rt program_id L ncn epoch closing a s s' \<longleftrightarrow>
    (\<exists>status'. closes rt program_id L ncn epoch closing a (st_account_status s) status' \<and> s' = s\<lparr>st_account_status := status'\<rparr>)"

lemma recordsI:
  "ai_key a = pda rt program_id (Weight_Table_Account ncn epoch) \<Longrightarrow> records rt program_id L ncn epoch closing a s (close_weight_table s)"
  "ai_key a = pda rt program_id (Epoch_Snapshot_Account ncn epoch) \<Longrightarrow>
    records rt program_id L ncn epoch closing a s (close_epoch_snapshot s)"
  "ai_key a = pda rt program_id (Ballot_Box_Account ncn epoch) \<Longrightarrow> records rt program_id L ncn epoch closing a s (close_ballot_box s)"
  "ai_key a = pda rt program_id (Base_Reward_Router_Account ncn epoch) \<Longrightarrow>
    records rt program_id L ncn epoch closing a s (close_base_reward_router s)"
  unfolding records_def closes_def
  by (auto simp: close_weight_table_def close_epoch_snapshot_def close_ballot_box_def close_base_reward_router_def)

lemma records_operator:
  assumes "as_operator_snapshot rt L a = Inr os"
    and "ai_key a = pda rt program_id (Operator_Snapshot_Account (os_operator os) ncn epoch)"
    and "close_operator_snapshot s (os_ncn_operator_index os) = Inr s'"
  shows "records rt program_id L ncn epoch closing a s s'"
  using assms unfolding records_def closes_def
  by (auto simp: close_operator_snapshot_def set_operator_snapshot_def put_index_def rbind_Inr split: if_splits)

lemma router_place: "get_ncn_reward_router_index i g = Inr j \<Longrightarrow> unat j = 8 * unat i + unat (ncn_group g)"
  by (auto simp: get_ncn_reward_router_index_def rbind_Inr ok_or_Inr checked_simps FEE_GROUP_COUNT_def unat_ucast_widen)

lemma records_router:
  assumes "as_ncn_reward_router rt L a = Inr r"
    and "ai_key a = pda rt program_id (Ncn_Reward_Router_Account (nr_ncn_fee_group r) (nr_operator r) ncn epoch)"
    and "close_ncn_reward_router s (nr_ncn_operator_index r) (nr_ncn_fee_group r) = Inr s'"
  shows "records rt program_id L ncn epoch closing a s s'"
proof -
  obtain j where "get_ncn_reward_router_index (nr_ncn_operator_index r) (nr_ncn_fee_group r) = Inr j"
    and j: "unat j < length (epoch_account_status.as_ncn_reward_router (st_account_status s))"
      "s' = s\<lparr>st_account_status := (st_account_status s)
        \<lparr>as_ncn_reward_router := (epoch_account_status.as_ncn_reward_router (st_account_status s))[unat j := 3]\<rparr>\<rparr>"
    using assms(3) by (auto simp: close_ncn_reward_router_def set_ncn_reward_router_def put_index_def rbind_Inr split: if_splits)
  from router_place [OF this(1)] this(2,3) assms(1,2) show ?thesis
    unfolding records_def closes_def by auto
qed

lemma records_epoch_state:
  "epoch_state_load_to_close s ncn epoch = Inr u \<Longrightarrow> closing \<or> ac_disc (L (ai_key a)) = discriminator D_EpochState \<Longrightarrow>
    records rt program_id L ncn epoch closing a s (close_epoch_state s)"
  unfolding records_def closes_def by (auto simp: epoch_state_load_to_close_def rbind_Inr fail_if_Inr close_epoch_state_def)

lemma close_checks_records:
  assumes "close_checks rt program_id ncn a payer dao optional closing epoch s L = Inr (s', L')"
  shows "records rt program_id L (ai_key ncn) epoch closing a s s'"
proof -
  have "safe (\<lambda>(s', L'). records rt program_id L (ai_key ncn) epoch closing a s s')
    (close_checks rt program_id ncn a payer dao optional closing epoch s L)"
    unfolding close_checks_def Let_def load_defs operator_snapshot_load_to_close_def ncn_reward_router_load_to_close_def
    by (intro safe_if safe_bind safe_list safe_Inl safe_Inr)
      (auto simp: rbind_Inr split: if_splits intro: recordsI records_operator records_router records_epoch_state
        dest!: check_load_Inr(2))
  then show ?thesis using assms by (simp add: safe_def)
qed

lemma process_close_epoch_account_cases:
  assumes "process_close_epoch_account rt program_id accounts epoch L = Inr L'"
  obtains marker st config ncn a payer dao sys optional s c s' L1 L2 L3 u where
    "accounts = marker # st # config # ncn # a # payer # dao # sys # optional"
    "epoch_state_load rt program_id L st (ai_key ncn) epoch False = Inr u"
    "data_is_empty L a = False" "as_config rt L config = Inr c" "as_epoch_state rt L st = Inr s"
    "can_close_epoch_accounts (rt_get_epoch rt) s (cf_epochs_after_consensus_before_close c) (rt_slot rt) = Inr True"
    "close_checks rt program_id ncn a payer dao optional (ai_key a = ai_key st) epoch (set_is_closing s) L = Inr (s', L1)"
    "put_data program_id L1 st (Epoch_State_Data s') = Inr L2"
    "(if ai_key a = ai_key st then create_epoch_marker rt program_id ncn marker payer epoch L2 else Inr L2) = Inr L3"
    "close_account rt program_id payer a L3 = Inr L'"
  using assms unfolding process_close_epoch_account_def Let_def
  by (auto simp only: rbind_Inr fail_if_Inr not_not split_paired_Ex prod.case simp_thms eq_False split: list.splits)

lemma created_marker:
  assumes laws: "runtime_laws program_id addr rt"
    and "create_epoch_marker rt program_id ncn marker payer epoch L = Inr L'"
  shows "ai_key marker = addr (Epoch_Marker_Account (ai_key ncn) epoch)" "ac_owner (L (ai_key marker)) = system_program_id"
    "ac_owner (L' (ai_key marker)) = program_id"
    "ac_data (L' (ai_key marker)) = Epoch_Marker_Data (epoch_marker_new (ai_key ncn) epoch (rt_slot rt))"
proof -
  obtain key bump seeds L1 L2 where find: "find_program_address rt program_id (Epoch_Marker_Account (ai_key ncn) epoch) = (key, bump, seeds)"
    and key: "key = ai_key marker"
    and create: "pay_and_create_account rt program_id (ai_key ncn) payer marker program_id (account_size D_EpochMarker)
      (seeds @ [[bump]]) L = Inr L1"
    and disc: "put_discriminator program_id L1 marker D_EpochMarker = Inr L2"
    and put: "put_data program_id L2 marker (Epoch_Marker_Data (epoch_marker_new (ai_key ncn) epoch (rt_slot rt))) = Inr L'"
    using assms(2) unfolding create_epoch_marker_def Let_def
    by (auto simp only: rbind_Inr fail_if_Inr not_not split: prod.splits)
  show "ai_key marker = addr (Epoch_Marker_Account (ai_key ncn) epoch)"
    using runtime_lawsD(2) [OF laws, of "Epoch_Marker_Account (ai_key ncn) epoch"] find key by (simp add: pda_def)
  obtain L0 where "lamports_only L L0"
    "ac_owner (L0 (ai_key marker)) = system_program_id" "ac_owner (L1 (ai_key marker)) = program_id"
    by (rule pay_and_create_cases [OF laws create]) simp
  then show "ac_owner (L (ai_key marker)) = system_program_id" "ac_owner (L' (ai_key marker)) = program_id"
    by (simp_all add: lamports_onlyD put_data_fields [OF put] put_discriminator_fields [OF disc])
  show "ac_data (L' (ai_key marker)) = Epoch_Marker_Data (epoch_marker_new (ai_key ncn) epoch (rt_slot rt))"
    by (simp add: put_data_fields [OF put])
qed


section \<open>An epoch state of another epoch\<close>

text \<open>The check of an account that is not the named epoch state but claims to be one looks at the named epoch state
  only. So once an epoch has all its accounts closed, its closing can be pointed at the state of any other
  epoch: here epoch 4, long decided, and the state of epoch 19, still in use at epoch 20. The call
  succeeds, the state of epoch 19 is gone, and no marker says so.\<close>

definition finished_state :: epoch_state where
  "finished_state = close_base_reward_router (close_ballot_box (close_epoch_snapshot (close_weight_table
    (epoch_state_initialize zero_epoch_state sample_ncn 4 255 1600
      \<lparr>st_slot_consensus_reached := 1700, st_voting_progress := progress_set_tally zero_progress 1\<rparr>))))"

lemma finished_state_reachable: "epoch_reachable finished_state"
proof -
  let ?s = "epoch_state_initialize zero_epoch_state sample_ncn 4 255 1600"
  have "update_cast_vote ?s 1 True 1700 =
      Inr (?s\<lparr>st_slot_consensus_reached := 1700, st_voting_progress := progress_set_tally zero_progress 1\<rparr>)"
    by (simp add: update_cast_vote_def st_is_consensus_reached_def epoch_state_initialize_def zero_epoch_state_def)
  note decided = epoch_reachable.updated [OF epoch_reachable.created epoch_update.intros(8) [OF this]]
  show ?thesis
    unfolding finished_state_def
    by (rule epoch_reachable.updated, rule epoch_reachable.updated, rule epoch_reachable.updated,
        rule epoch_reachable.updated, rule decided) (rule epoch_update.intros)+
qed

definition live_state :: epoch_state where
  "live_state = update_realloc_ballot_box (update_realloc_epoch_state (epoch_state_initialize zero_epoch_state sample_ncn 19 255 7700))"

definition two_epochs :: "unit ledger" where
  "two_epochs = configured_ledger(
    sample_addr (Epoch_State_Account sample_ncn 4) := sample_account D_EpochState (Epoch_State_Data finished_state),
    sample_addr (Epoch_State_Account sample_ncn 19) := sample_account D_EpochState (Epoch_State_Data live_state))"

lemma finished_closed: "are_all_closed (st_account_status finished_state)"
  by (simp add: finished_state_def are_all_closed_def close_base_reward_router_def close_ballot_box_def
      close_epoch_snapshot_def close_weight_table_def epoch_state_initialize_def zero_epoch_state_def epoch_account_status_default_def list_all_iff)

lemma two_epochs_reads [simp]:
  "two_epochs (sample_addr (Config_Account sample_ncn)) = sample_account D_Config (Config_Data sample_config)"
  "two_epochs (sample_addr (Epoch_State_Account sample_ncn 4)) = sample_account D_EpochState (Epoch_State_Data finished_state)"
  "two_epochs (sample_addr (Epoch_State_Account sample_ncn 19)) = sample_account D_EpochState (Epoch_State_Data live_state)"
  "two_epochs (sample_addr (Account_Payer_Account sample_ncn)) = sample_ledger (sample_addr (Account_Payer_Account sample_ncn))"
  "two_epochs (sample_addr (Epoch_Marker_Account sample_ncn e)) = sample_ledger (sample_addr (Epoch_Marker_Account sample_ncn e))"
  by (simp_all add: two_epochs_def configured_ledger_def sample_addr_inject)

lemma finished_reads:
  "st_ncn finished_state = sample_ncn" "st_epoch finished_state = 4" "st_slot_consensus_reached finished_state = 1700"
  by (simp_all add: finished_state_def close_base_reward_router_def close_ballot_box_def
      close_epoch_snapshot_def close_weight_table_def epoch_state_initialize_def zero_epoch_state_def)

definition closing_accounts :: "account_info list" where
  "closing_accounts =
    [reader (sample_addr (Epoch_Marker_Account sample_ncn 4)), writer (sample_addr (Epoch_State_Account sample_ncn 4)),
     reader (sample_addr (Config_Account sample_ncn)), reader sample_ncn,
     writer (sample_addr (Epoch_State_Account sample_ncn 19)), writer (sample_addr (Account_Payer_Account sample_ncn)),
     reader sample_wallet, reader system_program_id]"

lemma foreign_check:
  "close_checks (sample_runtime 8000) sample_program (reader sample_ncn)
    (writer (sample_addr (Epoch_State_Account sample_ncn 19))) payer dao [] False 4 (set_is_closing finished_state) two_epochs =
   Inr (close_epoch_state (set_is_closing finished_state), two_epochs)"
  using finished_closed
  by (simp add: close_checks_def epoch_state_load_to_close_def set_is_closing_def finished_reads)

lemma foreign_dao: "base_fee_wallet (sample_fee_config 5 270) base_fee_group_dao = Inr sample_wallet"
  by (simp add: base_fee_wallet_def sample_fee_config_def sample_wallet_def base_group_defs)

lemma closing_changes: "finished_state \<noteq> close_epoch_state (set_is_closing finished_state)"
proof -
  have "\<not> st_is_closing finished_state"
    by (simp add: finished_state_def close_base_reward_router_def close_ballot_box_def close_epoch_snapshot_def
        close_weight_table_def epoch_state_initialize_def zero_epoch_state_def)
  moreover have "st_is_closing (close_epoch_state (set_is_closing finished_state))"
    by (simp add: close_epoch_state_def set_is_closing_def)
  ultimately show ?thesis by force
qed

lemma foreign_close_runs:
  "\<exists>L'. process_close_epoch_account (sample_runtime 8000) sample_program closing_accounts 4 two_epochs = Inr L' \<and>
    ac_data (L' (sample_addr (Epoch_State_Account sample_ncn 19))) = Zeroed \<and>
    ac_owner (L' (sample_addr (Epoch_State_Account sample_ncn 19))) = system_program_id \<and>
    ac_len (L' (sample_addr (Epoch_Marker_Account sample_ncn 19))) = 0"
  by (simp add: process_close_epoch_account_def closing_accounts_def epoch_state_load_def account_payer_load_def
    config_load_def check_load_def check_dne_def data_is_empty_def sample_addr_inject size_nonzero
    as_config_def as_epoch_state_def cast_data_def foreign_check rmap_err_def foreign_dao sample_config_def config_new_def
    can_close_epoch_accounts_def get_epoch_consensus_reached_def get_slot_consensus_reached_def finished_reads
    saturating_sub_def DEFAULT_CONSENSUS_REACHED_SLOT_def put_data_def may_write_def closing_changes
    close_account_def checked_add_def Let_def)


end
