(* ===== verification/Vote_Effects.thy ===== *)
theory Vote_Effects
  imports Epoch_Closing
begin

text \<open>
  What the voting instructions do to the accounts of a ledger that keeps the invariant: the vote of an
  operator, and the use of the winning root.
\<close>

lemma ballot_box_held:
  assumes "runtime_laws program_id addr rt" and "ledger_ok program_id addr M pn val e L"
    and load: "ballot_box_load rt program_id L a ncn epoch w = Inr u" and "as_ballot_box rt L a = Inr bb"
  shows "ac_data (L (ai_key a)) = Ballot_Box_Data bb" "ai_key a = addr (Ballot_Box_Account ncn epoch)" "bb_reachable pn bb"
proof -
  note loaded = check_load_Inr [OF load [unfolded ballot_box_load_def]]
  show "ac_data (L (ai_key a)) = Ballot_Box_Data bb"
    using ballot_box_kind.cast_holds(1) [OF assms(1) assms(4) [unfolded as_ballot_box_def] ledger_okD [OF assms(2)] loaded(1)] .
  show "ai_key a = addr (Ballot_Box_Account ncn epoch)" using loaded(2) by (simp add: runtime_lawsD(2) [OF assms(1)])
  show "bb_reachable pn bb" by (rule ballots_held [OF assms])
qed

lemma epoch_snapshot_held:
  assumes "runtime_laws program_id addr rt" and "ledger_ok program_id addr M pn val e L"
    and load: "epoch_snapshot_load rt program_id L a ncn epoch w = Inr u" and "as_epoch_snapshot rt L a = Inr es"
  shows "ac_data (L (addr (Epoch_Snapshot_Account ncn epoch))) = Epoch_Snapshot_Data es"
proof -
  note loaded = check_load_Inr [OF load [unfolded epoch_snapshot_load_def]]
  show ?thesis
    using epoch_snapshot_kind.cast_holds(1) [OF assms(1) assms(4) [unfolded as_epoch_snapshot_def] ledger_okD [OF assms(2)] loaded(1)]
      loaded(2) by (simp add: runtime_lawsD(2) [OF assms(1)])
qed

lemma operator_snapshot_held:
  assumes "runtime_laws program_id addr rt" and "ledger_ok program_id addr M pn val e L"
    and load: "operator_snapshot_load rt program_id L a operator ncn epoch w = Inr u" and "as_operator_snapshot rt L a = Inr os"
  shows "ac_data (L (addr (Operator_Snapshot_Account operator ncn epoch))) = Operator_Snapshot_Data os"
proof -
  note loaded = check_load_Inr [OF load [unfolded operator_snapshot_load_def]]
  show ?thesis
    using operator_snapshot_kind.cast_holds(1) [OF assms(1) assms(4) [unfolded as_operator_snapshot_def]
        ledger_okD [OF assms(2)] loaded(1)]
      loaded(2) by (simp add: runtime_lawsD(2) [OF assms(1)])
qed

section \<open>Votes\<close>

lemma tally_votes_frame:
  assumes "precise_number pn val" and "tally_votes pn bb total_w slot = Inr bb'"
  shows "voted bb' = voted bb" "has_winning_ballot bb \<Longrightarrow> bb_winning_ballot bb' = bb_winning_ballot bb"
  using tally_votes_cases [OF assms]
  by (auto simp: voted_def fun_eq_iff has_winning_ballot_def is_consensus_reached_def)

text \<open>A root in the box was voted for by some operator.\<close>

lemma ballot_was_voted:
  assumes inv: "bb_inv bb" and has: "has_ballot bb b"
  shows "\<exists>operator w. voted bb operator = Some (meta_merkle_root b, w)"
proof -
  let ?vs = "bb_operator_votes bb" and ?n = "unat (bb_operators_voted bb)"
  have vs: "votes_ok ?vs ?n" and ts: "tally_state (bb_ballot_tallies bb) (counted ?vs) (unat (bb_unique_ballots bb))"
    using inv by (auto simp: bb_inv_def)
  obtain j where j: "j < 256" "ballot_eq (bt_ballot (bb_ballot_tallies bb ! j)) b"
    using has tally_stateD(1) [OF ts] by (auto simp: has_ballot_def list_ex_iff in_set_conv_nth)
  then have "bt_is_valid (bb_ballot_tallies bb ! j)" and b: "meta_merkle_root (bt_ballot (bb_ballot_tallies bb ! j)) = meta_merkle_root b"
    by (auto simp: ballot_eq_def bt_is_valid_def split: if_splits)
  then have "0 < counted ?vs 0 j" using tally_stateD(5) [OF ts j(1)] by simp
  moreover have "counted ?vs 0 j = 0" if "\<forall>v \<in> set ?vs. contrib 0 j v = 0"
    unfolding counted_def using that by (simp add: sum_list_eq_0_iff)
  ultimately obtain v where v: "v \<in> set ?vs" "contrib 0 j v \<noteq> 0" by auto
  then obtain i where i: "i < 256" "?vs ! i = v" using votes_okD(1) [OF vs] by (auto simp: in_set_conv_nth)
  have "i < ?n"
  proof (rule ccontr)
    assume "\<not> i < ?n"
    then have "v = operator_vote_default" using votes_okD(7) [OF vs, of i] i by simp
    then show False using v(2) contrib_empty [OF j(1)] by simp
  qed
  moreover have "unat (ov_ballot_index v) = j" using v(2) by (auto simp: contrib_def split: if_splits)
  ultimately have "voted bb (ov_operator v) = Some (meta_merkle_root b, ov_stake_weights v)"
    unfolding voted_Some [OF vs] using i(2) b by (intro exI [of _ i]) (simp add: vote_of_def)
  then show ?thesis by blast
qed

lemma loaded_differ:
  assumes "ballot_box_load rt program_id L a ncn epoch w = Inr u"
    and "epoch_state_load rt program_id L b ncn' epoch' w' = Inr u'"
  shows "ai_key a \<noteq> ai_key b"
proof
  assume "ai_key a = ai_key b"
  then show False
    using check_load_Inr(3) [OF assms(1) [unfolded ballot_box_load_def] refl]
      check_load_Inr(3) [OF assms(2) [unfolded epoch_state_load_def] refl] by simp
qed

lemma process_cast_vote_cases:
  assumes "process_cast_vote pn rt program_id accounts voted_root epoch L = Inr L'"
  obtains st config box ncn es_account os_account operator admin bb es os bb1 bb2 s' L1 c u v w x y where
    "accounts = [st, config, box, ncn, es_account, os_account, operator, admin]"
    "ex_load_operator rt L operator False = Inr u"
    "ballot_box_load rt program_id L box (ai_key ncn) epoch True = Inr v"
    "epoch_snapshot_load rt program_id L es_account (ai_key ncn) epoch False = Inr w"
    "operator_snapshot_load rt program_id L os_account (ai_key operator) (ai_key ncn) epoch False = Inr x"
    "as_ballot_box rt L box = Inr bb" "as_epoch_snapshot rt L es_account = Inr es" "es_finalized es"
    "as_operator_snapshot rt L os_account = Inr os"
    "cast_vote bb (ai_key operator) (ballot_new voted_root) (os_stake_weights os) (rt_slot rt)
      (cf_valid_slots_after_consensus c) = Inr bb1"
    "tally_votes pn bb1 (sw_stake_weight (es_stake_weights es)) (rt_slot rt) = Inr bb2"
    "put_data program_id L box (Ballot_Box_Data bb2) = Inr L1"
    "put_data program_id L1 st (Epoch_State_Data s') = Inr L'"
    "epoch_state_load rt program_id L st (ai_key ncn) epoch False = Inr y" "as_config rt L config = Inr c"
  using assms unfolding process_cast_vote_def Let_def
  by (auto simp only: rbind_Inr fail_if_Inr rmap_err_Inr not_not split: list.splits)

text \<open>C2. A vote that is accepted changes one entry of the ballot box of the epoch, the one of the operator, to the voted
  root with the weights in the operator's snapshot of the epoch; the snapshot of the epoch is final; a
  winner that is set stays; and no account but the ballot box and the epoch state changes.\<close>

theorem cast_vote_effect:
  assumes laws: "runtime_laws program_id addr rt" and ok: "ledger_ok program_id addr M pn val e L"
    and pn: "precise_number pn val"
    and vote: "process_cast_vote pn rt program_id accounts voted_root epoch L = Inr L'"
  shows "\<exists>st ncn operator bb bb' es os.
    let box = addr (Ballot_Box_Account ncn epoch) in
    ai_key (accounts ! 3) = ncn \<and> ai_key (accounts ! 6) = operator \<and> ai_key (accounts ! 0) = st \<and>
    ac_data (L box) = Ballot_Box_Data bb \<and> bb_reachable pn bb \<and>
    ac_data (L (addr (Epoch_Snapshot_Account ncn epoch))) = Epoch_Snapshot_Data es \<and> es_finalized es \<and>
    ac_data (L (addr (Operator_Snapshot_Account operator ncn epoch))) = Operator_Snapshot_Data os \<and>
    ac_data (L' box) = Ballot_Box_Data bb' \<and>
    voted bb' = (voted bb)(operator \<mapsto> (voted_root, os_stake_weights os)) \<and>
    (has_winning_ballot bb \<longrightarrow> bb_winning_ballot bb' = bb_winning_ballot bb) \<and>
    (\<forall>key. key \<noteq> box \<and> key \<noteq> st \<longrightarrow> L' key = L key)"
  using vote
proof (cases rule: process_cast_vote_cases)
  case (1 st config box ncn es_account os_account operator admin bb es os bb1 bb2 s' L1 c u v w x y)
  note held = ballot_box_held [OF laws ok 1(3,6)]
  note old = put_data_fields [OF 1(12)] and new = put_data_fields [OF 1(13)]
  have "voted bb1 = (voted bb)(ai_key operator \<mapsto> (meta_merkle_root (ballot_new voted_root), os_stake_weights os))"
    by (rule cast_vote_voted [OF bb_reachable_inv [OF pn held(3)] runtime_lawsD(12) [OF laws 1(2)]
        operator_weights_held(2) [OF laws ok 1(5,9)] 1(10)])
  then have "voted bb2 = (voted bb)(ai_key operator \<mapsto> (voted_root, os_stake_weights os))"
    by (simp add: tally_votes_frame [OF pn 1(11)] ballot_new_def)
  moreover have "has_winning_ballot bb \<Longrightarrow> bb_winning_ballot bb2 = bb_winning_ballot bb"
    using tally_votes_frame(2) [OF pn 1(11)] by (simp add: has_winning_ballot_def cast_vote_frame [OF 1(10)])
  moreover have "L' key = L key" if "key \<noteq> ai_key box" "key \<noteq> ai_key st" for key
    using that by (simp add: old(1) new(1))
  moreover have "ac_data (L' (ai_key box)) = Ballot_Box_Data bb2"
    using loaded_differ [OF 1(3) 1(14)] new(1) old(2) by simp
  ultimately show ?thesis
    using held epoch_snapshot_held [OF laws ok 1(4,7)] 1(8) operator_snapshot_held [OF laws ok 1(5,9)]
    by (intro exI [of _ "ai_key st"] exI [of _ "ai_key ncn"] exI [of _ "ai_key operator"] exI [of _ bb] exI [of _ bb2]
        exI [of _ es] exI [of _ os]) (simp add: 1(1) Let_def)
qed

section \<open>The use of the result\<close>

lemma process_set_merkle_root_cases:
  assumes "process_set_merkle_root hashv rt program_id accounts merkle_proof merkle_root max_total_claim max_num_nodes epoch L = Inr L'"
  obtains st config ncn box vote tda tdc tdp bb e seeds bump L1 s u v where
    "accounts = [st, config, ncn, box, vote, tda, tdc, tdp]"
    "ballot_box_load rt program_id L box (ai_key ncn) epoch False = Inr u"
    "ai_key tdp = ex_tip_distribution_program_id rt" "checked_sub epoch 1 = Some e"
    "fst (derive_tip_distribution_account_address rt (ai_key tdp) (ai_key vote) e) = ai_key tda"
    "as_ballot_box rt L box = Inr bb" "is_consensus_reached bb"
    "verify_merkle_root hashv bb (ai_key tda) merkle_proof merkle_root max_total_claim max_num_nodes = Inr v"
    "seeds = snd (snd (find_program_address rt program_id (Config_Account (ai_key ncn))))"
    "bump = fst (snd (find_program_address rt program_id (Config_Account (ai_key ncn))))"
    "ex_upload_merkle_root rt [tdc, tda, config] merkle_root max_total_claim max_num_nodes (seeds @ [[bump]]) L = Inr L1"
    "put_data program_id L1 st (Epoch_State_Data s) = Inr L'"
  using assms unfolding process_set_merkle_root_def Let_def
  by (auto simp only: rbind_Inr fail_if_Inr rmap_err_Inr ok_or_Inr not_not case_prod_beta split: list.splits)

text \<open>C3. A Merkle root is uploaded to the tip distribution account of a validator only for an epoch with consensus,
  and only if the leaf made of this account, the root, the total claim and the number of nodes has an
  accepted proof against the winning root, which some operator voted for. The upload is signed by the
  configuration of the NCN; afterwards only the epoch state is changed.\<close>

theorem set_merkle_root_effect:
  assumes laws: "runtime_laws program_id addr rt" and ok: "ledger_ok program_id addr M pn val e L"
    and pn: "precise_number pn val"
    and set_root: "process_set_merkle_root hashv rt program_id accounts merkle_proof merkle_root max_total_claim
      max_num_nodes epoch L = Inr L'"
  shows "\<exists>st config ncn box vote tda tdc tdp bb operator w seeds bump L1.
    accounts = [st, config, ncn, box, vote, tda, tdc, tdp] \<and>
    ac_data (L (addr (Ballot_Box_Account (ai_key ncn) epoch))) = Ballot_Box_Data bb \<and> is_consensus_reached bb \<and>
    voted bb operator = Some (meta_merkle_root (bb_winning_ballot bb), w) \<and>
    1 \<le> epoch \<and> ai_key tda =
      fst (derive_tip_distribution_account_address rt (ex_tip_distribution_program_id rt) (ai_key vote) (epoch - 1)) \<and>
    verify hashv merkle_proof (meta_merkle_root (bb_winning_ballot bb))
      (hashv [LEAF_PREFIX, tree_node_hash hashv (tree_node_new (ai_key tda) merkle_root max_total_claim max_num_nodes)]) \<and>
    find_program_address rt program_id (Config_Account (ai_key ncn)) = (addr (Config_Account (ai_key ncn)), bump, seeds) \<and>
    ex_upload_merkle_root rt [tdc, tda, config] merkle_root max_total_claim max_num_nodes (seeds @ [[bump]]) L = Inr L1 \<and>
    (\<forall>key. key \<noteq> ai_key st \<longrightarrow> L' key = L1 key)"
  using set_root
proof (cases rule: process_set_merkle_root_cases)
  case (1 st config ncn box vote tda tdc tdp bb e' seeds bump L1 s u v)
  note held = ballot_box_held [OF laws ok 1(2,6)]
  have "has_ballot bb (bb_winning_ballot bb)" and inv: "bb_inv bb"
    using bb_reachable_inv [OF pn held(3)] 1(7) by (auto simp: bb_inv_def)
  then obtain operator w where op: "voted bb operator = Some (meta_merkle_root (bb_winning_ballot bb), w)"
    using ballot_was_voted by blast
  have found: "find_program_address rt program_id (Config_Account (ai_key ncn)) =
      (addr (Config_Account (ai_key ncn)), bump, seeds)"
    using runtime_lawsD(2) [OF laws, of "Config_Account (ai_key ncn)"] 1(9,10)
    by (simp add: pda_def prod_eq_iff)
  have epoch: "1 \<le> epoch" "e' = epoch - 1" using 1(4) by (auto simp: checked_sub_def split: if_splits)
  have verified: "verify hashv merkle_proof (meta_merkle_root (bb_winning_ballot bb))
      (hashv [LEAF_PREFIX, tree_node_hash hashv (tree_node_new (ai_key tda) merkle_root max_total_claim max_num_nodes)])"
    using 1(8) by (simp add: verify_merkle_root_def Let_def fail_if_Inr)
  have box: "ac_data (L (addr (Ballot_Box_Account (ai_key ncn) epoch))) = Ballot_Box_Data bb" using held(1,2) by simp
  have frame: "\<forall>k. k \<noteq> ai_key st \<longrightarrow> L' k = L1 k" using put_data_fields(1) [OF 1(12)] by simp
  note facts = 1(1) box 1(7) op epoch(1) 1(5) [unfolded 1(3) epoch(2), symmetric] verified found 1(11) frame
  show ?thesis
    by (rule exI [of _ st], rule exI [of _ config], rule exI [of _ ncn], rule exI [of _ box], rule exI [of _ vote],
        rule exI [of _ tda], rule exI [of _ tdc], rule exI [of _ tdp], rule exI [of _ bb], rule exI [of _ operator],
        rule exI [of _ w], rule exI [of _ seeds], rule exI [of _ bump], rule exI [of _ L1]) (intro conjI facts)
qed
section \<open>A sample vote\<close>

text \<open>Epoch 19 of the sample NCN at slot 8000: the voter of an operator with two vaults, of weight 30, casts the only
  vote. The total weight is 100; it is too little for a consensus.\<close>

definition sample_operator :: pubkey where "sample_operator = replicate 32 6"
definition sample_root :: bytes32 where "sample_root = replicate 32 5"

lemma sample_operator_key [simp]: "length sample_operator = 32" "sample_operator \<noteq> default_pubkey" "default_pubkey \<noteq> sample_operator"
  by (simp_all add: sample_operator_def default_pubkey_def)

definition voting_operator :: operator_snapshot where
  "voting_operator = two_vaults\<lparr>os_operator := sample_operator, os_ncn := sample_ncn, os_ncn_epoch := 19\<rparr>"

definition voting_epoch :: "u128 \<Rightarrow> epoch_snapshot" where
  "voting_epoch w = full_epoch\<lparr>es_ncn := sample_ncn, es_epoch := 19, es_stake_weights := stake_weights_new w\<rparr>"

definition empty_box :: ballot_box where
  "empty_box = ballot_box_new sample_ncn 19 255 7700"

definition voted_box :: ballot_box where
  "voted_box = empty_box\<lparr>bb_operators_voted := 1, bb_unique_ballots := 1,
    bb_operator_votes := operator_vote_new 0 sample_operator 8000 (sample_weights 30) # replicate 255 operator_vote_default,
    bb_ballot_tallies := ballot_tally_new 0 (ballot_new sample_root) (sample_weights 30) # replicate 255 ballot_tally_default\<rparr>"

definition voting_ledger :: "u128 \<Rightarrow> ballot_box \<Rightarrow> unit ledger" where
  "voting_ledger w bb = two_epochs(
    sample_addr (Ballot_Box_Account sample_ncn 19) := sample_account D_BallotBox (Ballot_Box_Data bb),
    sample_addr (Epoch_Snapshot_Account sample_ncn 19) := sample_account D_EpochSnapshot (Epoch_Snapshot_Data (voting_epoch w)),
    sample_addr (Operator_Snapshot_Account sample_operator sample_ncn 19) :=
      sample_account D_OperatorSnapshot (Operator_Snapshot_Data voting_operator))"

lemma voting_ledger_reads [simp]:
  "voting_ledger w bb (sample_addr (Ballot_Box_Account sample_ncn 19)) = sample_account D_BallotBox (Ballot_Box_Data bb)"
  "voting_ledger w bb (sample_addr (Epoch_Snapshot_Account sample_ncn 19)) =
    sample_account D_EpochSnapshot (Epoch_Snapshot_Data (voting_epoch w))"
  "voting_ledger w bb (sample_addr (Operator_Snapshot_Account sample_operator sample_ncn 19)) =
    sample_account D_OperatorSnapshot (Operator_Snapshot_Data voting_operator)"
  "voting_ledger w bb (sample_addr (Config_Account sample_ncn)) = sample_account D_Config (Config_Data sample_config)"
  "voting_ledger w bb (sample_addr (Epoch_State_Account sample_ncn 19)) = sample_account D_EpochState (Epoch_State_Data live_state)"
  by (simp_all add: voting_ledger_def sample_addr_inject)

lemma sample_weights_wf [simp]: "wf_stake_weights (sample_weights w)" "sw_total (sample_weights w) = unat w"
  by (simp_all add: wf_stake_weights_def sample_weights_def sw_total_def)

lemma sample_root_valid [simp]: "ballot_is_valid (ballot_new sample_root)" "meta_merkle_root (ballot_new sample_root) = sample_root"
  by (simp_all add: ballot_new_def sample_root_def list_ex_iff)

lemma sample_cast:
  "cast_vote empty_box sample_operator (ballot_new sample_root) (sample_weights 30) 8000 10000 = Inr voted_box"
  by (simp add: empty_box_def voted_box_def box_defs replicate_256 checked_add_def operator_vote_default_def ov_is_empty_def)

lemma voted_box_reachable: "bb_reachable fixed12 voted_box"
  using bb_step.vote [OF _ _ sample_cast, of fixed12]
  by (intro bb_reachable.stepped [OF bb_reachable.created [of fixed12 sample_ncn 19 255 7700]])
    (simp add: empty_box_def [symmetric])

lemma home_reads:
  "st_ncn live_state = sample_ncn" "st_epoch live_state = 19"
  "es_ncn (voting_epoch w) = sample_ncn" "es_epoch (voting_epoch w) = 19"
  "os_ncn voting_operator = sample_ncn" "os_operator voting_operator = sample_operator" "os_ncn_epoch voting_operator = 19"
  by (simp_all add: live_state_def update_realloc_ballot_box_def update_realloc_epoch_state_def epoch_state_initialize_def zero_epoch_state_def
      voting_epoch_def voting_operator_def)

lemma voting_ledger_ok:
  assumes "bb_reachable fixed12 bb" and "bb_ncn bb = sample_ncn" and "bb_epoch bb = 19"
  shows "ledger_ok sample_program sample_addr {} fixed12 fixed12_val 20 (voting_ledger w bb)"
proof -
  have "ac_owner (sample_ledger key) \<noteq> sample_program" for key using sample_keys_differ by simp
  then have "ledger_ok sample_program sample_addr {} fixed12 fixed12_val 5 configured_ledger"
    by (rule program_runs_ok [OF sample_run fixed12.precise_number_axioms fresh_ledger_ok])
  then have start: "ledger_ok sample_program sample_addr {} fixed12 fixed12_val 20 configured_ledger"
    by (rule ledger_ok_later) simp
  have live: "epoch_reachable live_state"
    unfolding live_state_def
    by (rule epoch_reachable.updated [OF epoch_reachable.updated [OF epoch_reachable.created epoch_update.intros(1)]
        epoch_update.intros(7)])
  have vaults: "vaults_named voting_operator"
    using two_vaults_named by (simp add: vaults_named_def os_inv_def registered_def voting_operator_def)
  have snapshot: "epoch_snapshot_ok (voting_epoch w)"
    by (simp add: epoch_snapshot_ok_def voting_epoch_def full_epoch_def sample_epoch_def epoch_snapshot_new_def)
  show ?thesis
    unfolding voting_ledger_def two_epochs_def
    by (intro ledger_ok_upd start)
      (use finished_state_reachable live vaults snapshot assms in \<open>simp_all add: account_ok_def finished_reads home_reads\<close>)
qed

definition voting_accounts :: "account_info list" where
  "voting_accounts = [writer (sample_addr (Epoch_State_Account sample_ncn 19)), reader (sample_addr (Config_Account sample_ncn)),
    writer (sample_addr (Ballot_Box_Account sample_ncn 19)), reader sample_ncn,
    reader (sample_addr (Epoch_Snapshot_Account sample_ncn 19)),
    reader (sample_addr (Operator_Snapshot_Account sample_operator sample_ncn 19)), reader sample_operator, signer sample_voter]"

lemma voting_reads:
  "es_finalized (voting_epoch w)" "es_stake_weights (voting_epoch w) = stake_weights_new w"
  "os_stake_weights voting_operator = sample_weights 30" "sw_stake_weight (stake_weights_new w) = w"
  by (simp_all add: voting_epoch_def full_epoch_def sample_epoch_def epoch_snapshot_new_def es_finalized_def voting_operator_def
      two_vaults_def stake_weights_new_def)

text \<open>The tally is 30 of 100, and 30 of 30.\<close>

lemma voted_tallies:
  "t \<in> set (bb_ballot_tallies voted_box) \<Longrightarrow> sw_total (bt_stake_weights t) \<le> 30"
  by (auto simp: voted_box_def ballot_tally_new_def ballot_tally_default_def split: if_splits)

lemma sample_tally: "tally_votes fixed12 voted_box 100 8000 = Inr voted_box"
proof -
  have "bb_ballot_tallies voted_box \<noteq> []" "bb_slot_consensus_reached voted_box = DEFAULT_CONSENSUS_REACHED_SLOT"
    by (simp_all add: voted_box_def empty_box_def ballot_box_new_def)
  from tally_votes_eq [OF fixed12.precise_number_axioms this(1) _ this(2), of 100 8000]
  obtain t where t: "t \<in> set (bb_ballot_tallies voted_box)" and "tally_votes fixed12 voted_box 100 8000 = Inr
      (if reaches_consensus (sw_total (bt_stake_weights t)) 100 \<and> \<not> ballot_is_valid (bb_winning_ballot voted_box)
       then voted_box\<lparr>bb_slot_consensus_reached := 8000, bb_winning_ballot := bt_ballot t\<rparr> else voted_box)"
    by auto
  then show ?thesis using voted_tallies [OF t] by (simp add: reaches_consensus_def)
qed

lemma voted_box_open: "\<not> is_consensus_reached voted_box"
  by (simp add: is_consensus_reached_def voted_box_def empty_box_def ballot_box_new_def ballot_default_def)

lemma sample_vote:
  "\<exists>L'. process_cast_vote fixed12 (sample_runtime 8000) sample_program voting_accounts sample_root 19
    (voting_ledger 100 empty_box) = Inr L'"
  by (simp add: process_cast_vote_def voting_accounts_def load_defs sample_addr_inject
    sample_config_def config_new_def voting_reads sample_cast sample_tally rmap_err_def voted_box_open update_cast_vote_def)

theorem cast_vote_effect_witness:
  "\<exists>L' bb'. process_cast_vote fixed12 (sample_runtime 8000) sample_program voting_accounts sample_root 19
      (voting_ledger 100 empty_box) = Inr L' \<and>
    ac_data (L' (sample_addr (Ballot_Box_Account sample_ncn 19))) = Ballot_Box_Data bb' \<and>
    voted bb' sample_operator = Some (sample_root, sample_weights 30)"
proof -
  obtain L' where vote: "process_cast_vote fixed12 (sample_runtime 8000) sample_program voting_accounts sample_root 19
      (voting_ledger 100 empty_box) = Inr L'" using sample_vote by blast
  have ok: "ledger_ok sample_program sample_addr {} fixed12 fixed12_val 20 (voting_ledger 100 empty_box)"
    by (rule voting_ledger_ok) (simp_all add: empty_box_def bb_reachable.created, simp_all add: ballot_box_new_def)
  have slot: "(8000 :: u64) \<noteq> EMPTY_SLOT_REGISTERED" by (simp add: EMPTY_SLOT_REGISTERED_def)
  show ?thesis
    using cast_vote_effect [OF sample_laws [OF slot] ok fixed12.precise_number_axioms vote] vote
    by (auto simp: Let_def voting_accounts_def voting_reads)
qed

text \<open>With a total weight of 30 the vote decides; the root is then uploaded with an empty proof, by a hash
  function whose only value is the root.\<close>

definition decided_sample :: ballot_box where
  "decided_sample = voted_box\<lparr>bb_slot_consensus_reached := 8000, bb_winning_ballot := ballot_new sample_root\<rparr>"

lemma sample_tally_decides: "tally_votes fixed12 voted_box 30 8000 = Inr decided_sample"
proof -
  have start: "bb_ballot_tallies voted_box \<noteq> []" "bb_slot_consensus_reached voted_box = DEFAULT_CONSENSUS_REACHED_SLOT"
    "\<not> ballot_is_valid (bb_winning_ballot voted_box)"
    by (simp_all add: voted_box_def empty_box_def ballot_box_new_def ballot_default_def)
  have winner: "bt_ballot t = ballot_new sample_root"
    if "t \<in> set (bb_ballot_tallies voted_box)" "\<forall>t' \<in> set (bb_ballot_tallies voted_box).
      sw_total (bt_stake_weights t') \<le> sw_total (bt_stake_weights t)" for t
    using that by (auto simp: voted_box_def ballot_tally_new_def ballot_tally_default_def split: if_splits)
  have most: "30 \<le> sw_total (bt_stake_weights t)" if "\<forall>t' \<in> set (bb_ballot_tallies voted_box).
      sw_total (bt_stake_weights t') \<le> sw_total (bt_stake_weights t)" for t
    using that by (auto simp: voted_box_def ballot_tally_new_def)
  from tally_votes_eq [OF fixed12.precise_number_axioms start(1) _ start(2), of 30 8000]
  obtain t where t: "t \<in> set (bb_ballot_tallies voted_box)" "\<forall>t' \<in> set (bb_ballot_tallies voted_box).
      sw_total (bt_stake_weights t') \<le> sw_total (bt_stake_weights t)"
    and "tally_votes fixed12 voted_box 30 8000 = Inr
      (if reaches_consensus (sw_total (bt_stake_weights t)) 30 \<and> \<not> ballot_is_valid (bb_winning_ballot voted_box)
       then voted_box\<lparr>bb_slot_consensus_reached := 8000, bb_winning_ballot := bt_ballot t\<rparr> else voted_box)"
    by auto
  then show ?thesis
    using most [OF t(2)] winner [OF t] start(3) by (simp add: reaches_consensus_def decided_sample_def)
qed

lemma decided_sample_reachable: "bb_reachable fixed12 decided_sample"
  by (rule bb_reachable.stepped [OF voted_box_reachable bb_step.tally [OF sample_tally_decides]])

definition root_accounts :: "account_info list" where
  "root_accounts = [writer (sample_addr (Epoch_State_Account sample_ncn 19)), writer (sample_addr (Config_Account sample_ncn)),
    reader sample_ncn, reader (sample_addr (Ballot_Box_Account sample_ncn 19)), reader [1],
    writer (concat [ascii ''TIP_DISTRIBUTION_ACCOUNT'', [1], to_le_bytes 18]), reader [2], reader (replicate 32 8)]"

lemma decided_reads: "is_consensus_reached decided_sample" "meta_merkle_root (bb_winning_ballot decided_sample) = sample_root"
  by (simp_all add: decided_sample_def is_consensus_reached_def)

lemma live_upload: "st_upload_progress live_state = progress_new 1"
  by (simp add: live_state_def update_realloc_ballot_box_def)

lemma sample_upload:
  "\<exists>L'. process_set_merkle_root (\<lambda>_. sample_root) (sample_runtime 8000) sample_program root_accounts [] [7] 100 3 19
    (voting_ledger 30 decided_sample) = Inr L'"
  by (simp add: process_set_merkle_root_def root_accounts_def load_defs sample_addr_inject
    sample_config_def config_new_def rmap_err_def derive_tip_distribution_account_address_def verify_merkle_root_def
    checked_sub_def decided_reads verify_def live_upload update_set_merkle_root_def progress_increment_one_def
    progress_increment_def progress_new_def checked_add_def)

theorem set_merkle_root_effect_witness:
  "\<exists>bb. ac_data (voting_ledger 30 decided_sample (sample_addr (Ballot_Box_Account sample_ncn 19))) = Ballot_Box_Data bb \<and>
    is_consensus_reached bb \<and>
    (\<exists>operator w. voted bb operator = Some (meta_merkle_root (bb_winning_ballot bb), w))"
proof -
  obtain L' where set_root: "process_set_merkle_root (\<lambda>_. sample_root) (sample_runtime 8000) sample_program root_accounts
      [] [7] 100 3 19 (voting_ledger 30 decided_sample) = Inr L'" using sample_upload by blast
  have ok: "ledger_ok sample_program sample_addr {} fixed12 fixed12_val 20 (voting_ledger 30 decided_sample)"
    by (rule voting_ledger_ok [OF decided_sample_reachable])
      (simp_all add: decided_sample_def voted_box_def empty_box_def ballot_box_new_def)
  have slot: "(8000 :: u64) \<noteq> EMPTY_SLOT_REGISTERED" by (simp add: EMPTY_SLOT_REGISTERED_def)
  show ?thesis
    using set_merkle_root_effect [OF sample_laws [OF slot] ok fixed12.precise_number_axioms set_root]
    by (auto simp: root_accounts_def)
qed

end
