(* ===== verification/Account_Growth.thy ===== *)
theory Account_Growth
  imports Epoch_Closing
begin

text \<open>
  An account larger than one allocation is created with 10240 bytes and grown by repeated calls. Nothing in
  one call says that this ends; here it is shown that it does, for the largest case the vote depends on:
  a fixed number of calls brings the ballot box to its size and initialises it.
\<close>

text \<open>The same instruction, sent \<open>n\<close> times.\<close>

primrec calls :: "('s \<Rightarrow> 'e + 's) \<Rightarrow> nat \<Rightarrow> 's \<Rightarrow> 'e + 's" where
  "calls f 0 s = Inr s"
| "calls f (Suc n) s = rbind (calls f n s) f"

text \<open>What calls before the last one change: lamports, and the length of the account.\<close>

definition grown :: "'x ledger \<Rightarrow> pubkey \<Rightarrow> u64 \<Rightarrow> 'x ledger \<Rightarrow> bool" where
  "grown L key n L' \<longleftrightarrow> (\<forall>k. ac_owner (L' k) = ac_owner (L k) \<and> ac_disc (L' k) = ac_disc (L k) \<and>
    ac_data (L' k) = ac_data (L k) \<and> ac_len (L' k) = (if k = key then n else ac_len (L k)))"

lemma grown_trans: "grown L key n L1 \<Longrightarrow> grown L1 key m L2 \<Longrightarrow> grown L key m L2"
  by (simp add: grown_def)

lemma grown_check_load:
  assumes "grown L key n L'" and "ai_key a \<noteq> key"
  shows "check_load owner L' a k d w = check_load owner L a k d w"
proof -
  have "ac_owner (L' (ai_key a)) = ac_owner (L (ai_key a))" "ac_disc (L' (ai_key a)) = ac_disc (L (ai_key a))"
    "ac_len (L' (ai_key a)) = ac_len (L (ai_key a))" using assms by (simp_all add: grown_def)
  then show ?thesis by (simp only: check_load_def data_is_empty_def)
qed

text \<open>The runtime serves: a transfer the payer can afford succeeds, an account can grow by 10240 bytes, and the
  rent of a longer account is not lower. The payer and the account together hold the rent of the account
  at its full size.\<close>

definition runtime_serves :: "('x, 'y) externals_scheme \<Rightarrow> account_info \<Rightarrow> account_info \<Rightarrow> bool" where
  "runtime_serves rt payer a \<longleftrightarrow>
    (\<forall>n seeds L. n \<le> ac_lamports (L (ai_key payer)) \<longrightarrow> unat (ac_lamports (L (ai_key a))) + unat n < 2 ^ 64 \<longrightarrow>
      rt_transfer rt payer a n seeds L =
        Inr (L(ai_key payer := (L (ai_key payer))\<lparr>ac_lamports := ac_lamports (L (ai_key payer)) - n\<rparr>,
          ai_key a := (L (ai_key a))\<lparr>ac_lamports := ac_lamports (L (ai_key a)) + n\<rparr>))) \<and>
    (\<forall>n L. unat n \<le> unat (ac_len (L (ai_key a))) + 10240 \<longrightarrow> (\<exists>L'. rt_realloc rt a n L = Inr L')) \<and>
    (\<forall>m n. m \<le> n \<longrightarrow> rt_minimum_balance rt m \<le> rt_minimum_balance rt n)"

definition funded :: "('x, 'y) externals_scheme \<Rightarrow> account_info \<Rightarrow> account_info \<Rightarrow> discriminators \<Rightarrow> 'x ledger \<Rightarrow> bool" where
  "funded rt payer a D L \<longleftrightarrow> unat (rt_minimum_balance rt (account_size D)) \<le>
    unat (ac_lamports (L (ai_key payer))) + unat (ac_lamports (L (ai_key a)))"

text \<open>The payment of the missing rent succeeds, and together they hold what they held.\<close>

lemma payment_succeeds:
  assumes laws: "runtime_laws program_id addr rt" and serves: "runtime_serves rt payer a"
    and payer: "ai_key payer = addr (Account_Payer_Account ncn)" "ai_key payer \<noteq> ai_key a"
    and funded: "funded rt payer a D L" and n: "n \<le> account_size D"
  shows "\<exists>L'. (let k = saturating_sub (rt_minimum_balance rt n) (ac_lamports (L (ai_key a))) in
      if k > 0 then account_payer_transfer rt program_id ncn payer a k L else Inr L) = Inr L' \<and> funded rt payer a D L'"
proof -
  let ?p = "ac_lamports (L (ai_key payer))" and ?a = "ac_lamports (L (ai_key a))"
  define k where "k = saturating_sub (rt_minimum_balance rt n) ?a"
  have rent: "unat (rt_minimum_balance rt n) \<le> unat ?p + unat ?a"
    using serves n funded unfolding runtime_serves_def funded_def by (meson le_trans word_le_nat_alt)
  have k: "unat k = unat (rt_minimum_balance rt n) - unat ?a" by (simp add: k_def unat_saturating_sub)
  have afford: "k \<le> ?p" using rent by (simp add: word_le_nat_alt k)
  have "fst (find_program_address rt program_id (Account_Payer_Account ncn)) = ai_key payer"
    using runtime_lawsD(2) [OF laws, of "Account_Payer_Account ncn"] payer by (simp add: pda_def)
  then have transfer: "account_payer_transfer rt program_id ncn payer a k L =
      Inr (L(ai_key payer := (L (ai_key payer))\<lparr>ac_lamports := ?p - k\<rparr>, ai_key a := (L (ai_key a))\<lparr>ac_lamports := ?a + k\<rparr>))"
    if "unat ?a + unat k < 2 ^ 64"
    using serves afford that by (auto simp: account_payer_transfer_def pda_transfer_def runtime_serves_def split: prod.split)
  show ?thesis
  proof (cases "k > 0")
    case True
    then have sum: "unat ?a + unat k = unat (rt_minimum_balance rt n)" using k by (simp add: word_less_nat_alt)
    then have fits: "unat ?a + unat k < 2 ^ 64" using unat_less_pow [of "rt_minimum_balance rt n"] by simp
    then have "unat (?a + k) = unat ?a + unat k" by (simp add: unat_word_ariths)
    moreover have "unat (?p - k) = unat ?p - unat k" using afford by (simp add: unat_sub)
    ultimately have "funded rt payer a D
      (L(ai_key payer := (L (ai_key payer))\<lparr>ac_lamports := ?p - k\<rparr>, ai_key a := (L (ai_key a))\<lparr>ac_lamports := ?a + k\<rparr>))"
      using funded payer(2) afford by (simp add: funded_def word_le_nat_alt)
    then show ?thesis using True transfer [OF fits] by (simp add: Let_def k_def [symmetric])
  qed (use funded in \<open>simp add: Let_def k_def [symmetric]\<close>)
qed

lemma put_data_works:
  assumes "ac_owner (L (ai_key a)) = program_id" and "ai_is_writable a"
  shows "\<exists>L'. put_data program_id L a d = Inr L'"
  using assms by (cases "ac_data (L (ai_key a)) = d") (simp_all add: put_data_def may_write_def)

lemma grow_step:
  assumes laws: "runtime_laws program_id addr rt" and serves: "runtime_serves rt payer a"
    and payer: "ai_key payer = addr (Account_Payer_Account ncn)" "ai_key payer \<noteq> ai_key a"
    and funded: "funded rt payer a D L"
    and len: "ac_len (L (ai_key a)) < account_size D" and room: "unat (ac_len (L (ai_key a))) + 10240 < 2 ^ 64"
  shows "\<exists>L'. grow_account rt program_id ncn payer a D L = Inr L' \<and> funded rt payer a D L' \<and>
    grown L (ai_key a) (min (ac_len (L (ai_key a)) + 10240) (account_size D)) L'"
proof -
  let ?n = "min (ac_len (L (ai_key a)) + 10240) (account_size D)"
  have size: "get_new_size (ac_len (L (ai_key a))) (account_size D) = Inr ?n"
    using room by (simp add: get_new_size_def checked_add_def MAX_REALLOC_BYTES_def unat_word_ariths)
  obtain L1 where pay: "(let k = saturating_sub (rt_minimum_balance rt ?n) (ac_lamports (L (ai_key a))) in
      if k > 0 then account_payer_transfer rt program_id ncn payer a k L else Inr L) = Inr L1"
    and funded1: "funded rt payer a D L1"
    using payment_succeeds [OF laws serves payer funded min.cobounded2] by blast
  have moved: "lamports_only L L1" using payment_moves [OF laws] pay by (simp add: Let_def)
  have "unat ?n \<le> unat (ac_len (L1 (ai_key a))) + 10240"
    using room by (simp add: lamports_onlyD [OF moved] min_def word_le_nat_alt unat_word_ariths)
  then obtain L' where "rt_realloc rt a ?n L1 = Inr L'" using serves unfolding runtime_serves_def by blast
  then have grow: "grow_account rt program_id ncn payer a D L = Inr L'"
    using len size pay by (simp add: grow_account_def pay_and_realloc_def Let_def)
  have lt: "ac_len (L1 (ai_key a)) < ?n" using get_new_size_grows(1) [OF size len] by (simp add: lamports_onlyD [OF moved])
  then have "0 < ?n" by (rule order.strict_trans1 [OF word_zero_le])
  from runtime_lawsD(7) [OF laws \<open>rt_realloc rt a ?n L1 = Inr L'\<close> this less_imp_le [OF lt]]
  have L': "L' = L1(ai_key a := (L1 (ai_key a))\<lparr>ac_len := ?n\<rparr>)" .
  have "funded rt payer a D L'" using funded1 payer(2) by (simp add: funded_def L')
  moreover have "grown L (ai_key a) ?n L'" by (simp add: grown_def L' lamports_onlyD [OF moved])
  ultimately show ?thesis using grow by blast
qed

section \<open>The ballot box\<close>

text \<open>128305 bytes, in steps of 10240: the twelfth call completes the box.\<close>

lemma size_BallotBox: "account_size D_BallotBox = 128305"
  by (simp add: size_defs)

text \<open>The accounts of the instruction are in place, and the box is as the instruction before left it.\<close>

definition box_created ::
    "('x, 'y) externals_scheme \<Rightarrow> pubkey \<Rightarrow> account_info list \<Rightarrow> u64 \<Rightarrow> 'x ledger \<Rightarrow> bool" where
  "box_created rt program_id accounts epoch L \<longleftrightarrow>
    (case accounts of
      [st, config, box, ncn, payer, sys] \<Rightarrow>
        (\<forall>L. ex_load_system_program rt L sys = Inr () \<and> ex_load_ncn rt L ncn False = Inr ()) \<and>
        epoch_state_load rt program_id L st (ai_key ncn) epoch False = Inr () \<and>
        config_load rt program_id L config (ai_key ncn) False = Inr () \<and>
        account_payer_load rt program_id L payer (ai_key ncn) True = Inr () \<and>
        ai_key box = pda rt program_id (Ballot_Box_Account (ai_key ncn) epoch) \<and>
        ai_is_writable box \<and> ai_is_writable st \<and> (\<exists>s. as_epoch_state rt L st = Inr s) \<and>
        ac_owner (L (ai_key box)) = program_id \<and> ac_len (L (ai_key box)) = 10240 \<and> ac_disc (L (ai_key box)) = 0 \<and>
        ac_data (L (ai_key box)) = Zeroed
    | _ \<Rightarrow> False)"

lemma grown_loads:
  assumes "grown L (ai_key box) n L'" and "check_load owner L a key d w = Inr u"
    and "ac_owner (L (ai_key box)) \<noteq> owner \<or> d \<noteq> None \<and> d \<noteq> Some (ac_disc (L (ai_key box)))"
  shows "check_load owner L' a key d w = Inr u"
proof -
  have "ai_key a \<noteq> ai_key box" using check_load_Inr(1,3) [OF assms(2)] assms(3) by (cases d) auto
  then show ?thesis using grown_check_load [OF assms(1)] assms(2) by simp
qed

text \<open>One call on a box of \<open>m\<close> bytes that is not the last.\<close>

lemma grow_call:
  assumes laws: "runtime_laws program_id addr rt"
    and created: "box_created rt program_id [st, config, box, ncn, payer, sys] epoch L"
    and serves: "runtime_serves rt payer box" and funded: "funded rt payer box D_BallotBox L1"
    and now: "grown L (ai_key box) m L1" and m: "m + 10240 < 128305" "unat m + 10240 < 2 ^ 64"
  shows "\<exists>L2. process_realloc_ballot_box rt program_id [st, config, box, ncn, payer, sys] epoch L1 = Inr L2 \<and>
    funded rt payer box D_BallotBox L2 \<and> grown L (ai_key box) (m + 10240) L2"
proof -
  have box: "ac_owner (L (ai_key box)) = program_id" "ac_disc (L (ai_key box)) = 0"
    and loads: "check_load program_id L st (pda rt program_id (Epoch_State_Account (ai_key ncn) epoch))
        (Some (discriminator D_EpochState)) False = Inr ()"
      "check_load program_id L config (pda rt program_id (Config_Account (ai_key ncn))) (Some (discriminator D_Config)) False = Inr ()"
      "check_load system_program_id L payer (pda rt program_id (Account_Payer_Account (ai_key ncn))) None True = Inr ()"
    and others: "ex_load_system_program rt L1 sys = Inr ()" "ex_load_ncn rt L1 ncn False = Inr ()"
    and key: "ai_key box = pda rt program_id (Ballot_Box_Account (ai_key ncn) epoch)"
    using created unfolding box_created_def epoch_state_load_def config_load_def account_payer_load_def list.case by blast+
  note still = grown_loads [OF now loads(1)] grown_loads [OF now loads(2)] grown_loads [OF now loads(3)]
  have len: "ac_len (L1 (ai_key box)) = m" "ac_disc (L1 (ai_key box)) = 0" using now box by (simp_all add: grown_def)
  have lt: "m < account_size D_BallotBox"
    using m by (simp add: size_BallotBox word_less_nat_alt unat_word_ariths)
  have payer: "ai_key payer = addr (Account_Payer_Account (ai_key ncn))" "ai_key payer \<noteq> ai_key box"
    using check_load_Inr(1,2) [OF loads(3)] box(1) runtime_lawsD(1) [OF laws] by (auto simp: runtime_lawsD(2) [OF laws])
  obtain L2 where L2: "grow_account rt program_id (ai_key ncn) payer box D_BallotBox L1 = Inr L2"
    and still_funded: "funded rt payer box D_BallotBox L2"
    and after: "grown L1 (ai_key box) (min (m + 10240) (account_size D_BallotBox)) L2"
    using grow_step [OF laws serves payer funded] len lt m by auto
  have step: "min (m + 10240) (account_size D_BallotBox) = m + 10240" using less_imp_le [OF m(1)] by (simp add: size_BallotBox min_def)
  note after' = after [unfolded step]
  have "\<not> should_initialize L2 box D_BallotBox"
    using after' m(1) by (auto simp: should_initialize_def grown_def size_BallotBox)
  moreover have "fst (find_program_address rt program_id (Ballot_Box_Account (ai_key ncn) epoch)) = ai_key box"
    using key by (simp add: pda_def)
  ultimately show ?thesis
    using still box runtime_lawsD(1) [OF laws] others L2 still_funded grown_trans [OF now after']
    by (auto simp: process_realloc_ballot_box_def epoch_state_load_def config_load_def account_payer_load_def
        split: prod.split)
qed

text \<open>The call that reaches the size initialises the box and notes it in the epoch state.\<close>

lemma last_call:
  assumes laws: "runtime_laws program_id addr rt"
    and created: "box_created rt program_id [st, config, box, ncn, payer, sys] epoch L"
    and serves: "runtime_serves rt payer box" and funded: "funded rt payer box D_BallotBox L1"
    and cast: "\<And>d n. rt_cast rt d n d n = Inr ()"
    and now: "grown L (ai_key box) 122880 L1"
  shows "\<exists>L2 s. process_realloc_ballot_box rt program_id [st, config, box, ncn, payer, sys] epoch L1 = Inr L2 \<and>
    ac_len (L2 (ai_key box)) = account_size D_BallotBox \<and> ac_disc (L2 (ai_key box)) = discriminator D_BallotBox \<and>
    ac_data (L2 (ai_key box)) = Ballot_Box_Data (ballot_box_initialize zero_ballot_box (ai_key ncn) epoch
      (fst (snd (find_program_address rt program_id (Ballot_Box_Account (ai_key ncn) epoch)))) (rt_slot rt)) \<and>
    as_epoch_state rt L st = Inr s \<and> ac_data (L2 (ai_key st)) = Epoch_State_Data (update_realloc_ballot_box s)"
proof -
  obtain s where box: "ac_owner (L (ai_key box)) = program_id" "ac_disc (L (ai_key box)) = 0" "ac_data (L (ai_key box)) = Zeroed"
    and loads: "check_load program_id L st (pda rt program_id (Epoch_State_Account (ai_key ncn) epoch))
        (Some (discriminator D_EpochState)) False = Inr ()"
      "check_load program_id L config (pda rt program_id (Config_Account (ai_key ncn))) (Some (discriminator D_Config)) False = Inr ()"
      "check_load system_program_id L payer (pda rt program_id (Account_Payer_Account (ai_key ncn))) None True = Inr ()"
    and others: "ex_load_system_program rt L1 sys = Inr ()" "ex_load_ncn rt L1 ncn False = Inr ()"
    and key: "ai_key box = pda rt program_id (Ballot_Box_Account (ai_key ncn) epoch)"
    and writes: "ai_is_writable box" "ai_is_writable st" and s: "as_epoch_state rt L st = Inr s"
    using created unfolding box_created_def epoch_state_load_def config_load_def account_payer_load_def list.case by blast
  note still = grown_loads [OF now loads(1)] grown_loads [OF now loads(2)] grown_loads [OF now loads(3)]
  have len: "ac_len (L1 (ai_key box)) = 122880" "ac_disc (L1 (ai_key box)) = 0" using now box by (simp_all add: grown_def)
  have payer: "ai_key payer = addr (Account_Payer_Account (ai_key ncn))" "ai_key payer \<noteq> ai_key box"
    using check_load_Inr(1,2) [OF loads(3)] box(1) runtime_lawsD(1) [OF laws] by (auto simp: runtime_lawsD(2) [OF laws])
  have st: "ac_owner (L (ai_key st)) = program_id" "ai_key st \<noteq> ai_key box"
    using check_load_Inr(1,3) [OF loads(1)] box(2) by auto
  obtain L2 where L2: "grow_account rt program_id (ai_key ncn) payer box D_BallotBox L1 = Inr L2"
    and after: "grown L1 (ai_key box) 128305 L2"
    using grow_step [OF laws serves payer funded] len by (auto simp: size_BallotBox)
  note same = grown_trans [OF now after]
  have ready: "should_initialize L2 box D_BallotBox" and L2_box: "ac_len (L2 (ai_key box)) = 128305"
    "ac_owner (L2 (ai_key box)) = program_id" "ac_data (L2 (ai_key box)) = Zeroed" "ac_disc (L2 (ai_key box)) = 0"
    and L2_st: "L2 (ai_key st) = (L (ai_key st))\<lparr>ac_lamports := ac_lamports (L2 (ai_key st))\<rparr>"
    using same box st by (simp_all add: should_initialize_def grown_def size_BallotBox)
  define bb where "bb = ballot_box_initialize zero_ballot_box (ai_key ncn) epoch
    (fst (snd (find_program_address rt program_id (Ballot_Box_Account (ai_key ncn) epoch)))) (rt_slot rt)"
  obtain L3 where L3: "put_discriminator program_id L2 box D_BallotBox = Inr L3"
    using L2_box writes by (simp add: put_discriminator_def may_write_def)
  note F3 = put_discriminator_fields [OF L3]
  have zero: "as_ballot_box rt L3 box = Inr zero_ballot_box"
    using cast by (simp add: as_ballot_box_def cast_data_def F3 L2_box size_BallotBox)
  obtain L4 where L4: "put_data program_id L3 box (Ballot_Box_Data bb) = Inr L4"
    using writes by (simp add: put_data_def may_write_def F3 L2_box)
  note F4 = put_data_fields [OF L4]
  have L4_st: "L4 (ai_key st) = L2 (ai_key st)" using st(2) by (simp add: F3 F4)
  have s4: "as_epoch_state rt L4 st = Inr s" unfolding s [symmetric] as_epoch_state_def cast_data_def L4_st by (subst (1 2 3) L2_st) simp
  have owner: "ac_owner (L4 (ai_key st)) = program_id" unfolding L4_st by (subst L2_st) (simp add: st)
  obtain L5 where L5: "put_data program_id L4 st (Epoch_State_Data (update_realloc_ballot_box s)) = Inr L5"
    using put_data_works [where a = st and L = L4, OF owner writes(2)] by blast
  note F5 = put_data_fields [OF L5]
  have "fst (find_program_address rt program_id (Ballot_Box_Account (ai_key ncn) epoch)) = ai_key box"
    using key by (simp add: pda_def)
  then have "process_realloc_ballot_box rt program_id [st, config, box, ncn, payer, sys] epoch L1 = Inr L5"
    using still box runtime_lawsD(1) [OF laws] others L2 ready L3 zero L4 s4 L5
    by (auto simp: process_realloc_ballot_box_def epoch_state_load_def config_load_def account_payer_load_def bb_def
        split: prod.split)
  moreover have "ac_len (L5 (ai_key box)) = 128305 \<and> ac_disc (L5 (ai_key box)) = discriminator D_BallotBox \<and>
      ac_data (L5 (ai_key box)) = Ballot_Box_Data bb"
    using st(2) by (simp add: F5 F4 F3 L2_box)
  ultimately show ?thesis using s F5(2) by (auto simp: size_BallotBox bb_def)
qed

text \<open>C8. Growing the ballot box ends: if the payer can pay, each of the first eleven calls adds 10240 bytes and changes
  nothing else, and the twelfth completes the box, empty, at its address, with its discriminator, and
  marks it created in the epoch state.\<close>

theorem realloc_ballot_box_terminates:
  assumes laws: "runtime_laws program_id addr rt" and created: "box_created rt program_id accounts epoch L"
    and serves: "runtime_serves rt (accounts ! 4) (accounts ! 2)"
    and funded: "funded rt (accounts ! 4) (accounts ! 2) D_BallotBox L"
    and cast: "\<And>d n. rt_cast rt d n d n = Inr ()"
  shows "(\<forall>n < 12. \<exists>L'. calls (process_realloc_ballot_box rt program_id accounts epoch) n L = Inr L' \<and>
      grown L (ai_key (accounts ! 2)) (of_nat (10240 * (n + 1))) L') \<and>
    (\<exists>L' s. calls (process_realloc_ballot_box rt program_id accounts epoch) 12 L = Inr L' \<and>
      ac_len (L' (ai_key (accounts ! 2))) = account_size D_BallotBox \<and>
      ac_disc (L' (ai_key (accounts ! 2))) = discriminator D_BallotBox \<and>
      ac_data (L' (ai_key (accounts ! 2))) = Ballot_Box_Data (ballot_box_initialize zero_ballot_box
        (ai_key (accounts ! 3)) epoch
        (fst (snd (find_program_address rt program_id (Ballot_Box_Account (ai_key (accounts ! 3)) epoch)))) (rt_slot rt)) \<and>
      as_epoch_state rt L (accounts ! 0) = Inr s \<and>
      ac_data (L' (ai_key (accounts ! 0))) = Epoch_State_Data (update_realloc_ballot_box s))"
proof -
  obtain st config box ncn payer sys where accounts: "accounts = [st, config, box, ncn, payer, sys]"
    using created by (auto simp: box_created_def split: list.splits)
  note created = created [unfolded accounts] and serves = serves [unfolded accounts, simplified]
    and funded = funded [unfolded accounts, simplified]
  let ?f = "process_realloc_ballot_box rt program_id [st, config, box, ncn, payer, sys] epoch"
  have growing: "\<exists>L'. calls ?f n L = Inr L' \<and> funded rt payer box D_BallotBox L' \<and>
      grown L (ai_key box) (of_nat (10240 * (n + 1))) L'" if "n < 12" for n
    using that
  proof (induction n)
    case 0
    have "ac_len (L (ai_key box)) = 10240" using created unfolding box_created_def list.case by blast
    then show ?case using funded by (simp add: grown_def)
  next
    case (Suc n)
    then obtain L1 where L1: "calls ?f n L = Inr L1" "funded rt payer box D_BallotBox L1"
      "grown L (ai_key box) (of_nat (10240 * (n + 1))) L1" by auto
    have "of_nat (10240 * (n + 1)) + 10240 < (128305 :: u64)" "unat (of_nat (10240 * (n + 1)) :: u64) + 10240 < 2 ^ 64"
      using Suc.prems by (simp_all add: word_less_nat_alt unat_word_ariths unat_of_nat)
    from grow_call [OF laws created serves L1(2,3) this] L1(1) show ?case by (auto simp: algebra_simps)
  qed
  obtain L1 where L1: "calls ?f 11 L = Inr L1" "funded rt payer box D_BallotBox L1" "grown L (ai_key box) 122880 L1" using growing [of 11] by auto
  have "calls ?f 12 L = ?f L1" using L1(1) by (simp add: numeral_eq_Suc)
  moreover have "\<exists>L'. calls ?f n L = Inr L' \<and> grown L (ai_key box) (of_nat (10240 * (n + 1))) L'" if "n < 12" for n
    using growing [OF that] by blast
  ultimately show ?thesis
    using last_call [OF laws created serves L1(2) cast L1(3)] unfolding accounts by auto
qed

text \<open>The ballot box of epoch 19 of the sample NCN.\<close>

definition growing_ledger :: "unit ledger" where
  "growing_ledger = two_epochs(sample_addr (Ballot_Box_Account sample_ncn 19) :=
    \<lparr>ac_lamports = 10 ^ 12, ac_owner = sample_program, ac_len = 10240, ac_disc = 0, ac_data = Zeroed\<rparr>)"

definition growing_accounts :: "account_info list" where
  "growing_accounts = [writer (sample_addr (Epoch_State_Account sample_ncn 19)), reader (sample_addr (Config_Account sample_ncn)),
    writer (sample_addr (Ballot_Box_Account sample_ncn 19)), reader sample_ncn,
    writer (sample_addr (Account_Payer_Account sample_ncn)), reader system_program_id]"

lemma growing_created: "box_created (sample_runtime 8000) sample_program growing_accounts 19 growing_ledger"
  by (simp add: box_created_def growing_accounts_def growing_ledger_def epoch_state_load_def config_load_def
      account_payer_load_def sample_addr_inject) (simp add: check_load_def sample_addr_inject)

lemma sample_rent_monotone: "m \<le> n \<Longrightarrow> m div 2 + 128 \<le> n div 2 + (128 :: u64)"
proof -
  assume "m \<le> n"
  moreover have "unat (k div 2 + 128) = unat k div 2 + 128" for k :: u64
    using unat_less_pow [of k] by (simp add: unat_word_ariths unat_div)
  ultimately show ?thesis by (simp add: word_le_nat_alt div_le_mono)
qed

lemma growing_serves:
  "runtime_serves (sample_runtime 8000) (writer (sample_addr (Account_Payer_Account sample_ncn)))
    (writer (sample_addr (Ballot_Box_Account sample_ncn 19)))"
  using sample_rent_monotone
  by (simp add: runtime_serves_def) (simp add: sample_runtime_def move_lamports_def checked_sub_def checked_add_def sample_addr_inject)

theorem realloc_ballot_box_terminates_witness:
  "\<exists>L'. calls (process_realloc_ballot_box (sample_runtime 8000) sample_program growing_accounts 19) 12 growing_ledger = Inr L' \<and>
    ac_len (L' (sample_addr (Ballot_Box_Account sample_ncn 19))) = 128305"
proof -
  have slot: "(8000 :: u64) \<noteq> EMPTY_SLOT_REGISTERED" by (simp add: EMPTY_SLOT_REGISTERED_def)
  have funded: "funded (sample_runtime 8000) (growing_accounts ! 4) (growing_accounts ! 2) D_BallotBox growing_ledger"
    by (simp add: funded_def growing_accounts_def growing_ledger_def size_BallotBox sample_addr_inject)
  have serves: "runtime_serves (sample_runtime 8000) (growing_accounts ! 4) (growing_accounts ! 2)"
    using growing_serves by (simp add: growing_accounts_def)
  have cast: "rt_cast (sample_runtime 8000) d n d n = Inr ()" for d n by simp
  from realloc_ballot_box_terminates [OF sample_laws [OF slot] growing_created serves funded cast]
  show ?thesis by (auto simp: growing_accounts_def size_BallotBox)
qed

end
