(* ===== verification/Reward_Effects.thy ===== *)
theory Reward_Effects
  imports Vote_Effects Account_Growth
begin

text \<open>
  What the payment of the base rewards does to the accounts.
\<close>

lemma distribute_group:
  assumes "br_distribute_base_fee_group_rewards r g = Inr (r', rewards)"
    and "length (br_base_fee_group_rewards r) = 8"
  shows "br_base_fee_group_reward r g = Inr rewards" "br_base_fee_group_reward r' g = Inr 0"
    "unat (br_rewards_processed r') + unat rewards = unat (br_rewards_processed r)"
    "\<And>h x. h \<noteq> g \<Longrightarrow> br_base_fee_group_reward r h = Inr x \<Longrightarrow> br_base_fee_group_reward r' h = Inr x"
    "br_total_rewards r' = br_total_rewards r"
proof -
  obtain i n where i: "base_fee_group_group_index g = Inr i" and rewards: "rewards = brw_rewards (br_base_fee_group_rewards r ! i)"
    and n: "n = 0" and dec: "br_decrement_rewards_processed (r\<lparr>br_base_fee_group_rewards :=
      (br_base_fee_group_rewards r)[i := (br_base_fee_group_rewards r ! i)\<lparr>brw_rewards := n\<rparr>]\<rparr>) rewards = Inr r'"
    using assms(1) by (auto simp: br_distribute_base_fee_group_rewards_def br_base_fee_group_reward_def rbind_Inr ok_or_Inr
        checked_sub_def)
  have r': "br_base_fee_group_rewards r' = (br_base_fee_group_rewards r)[i := (br_base_fee_group_rewards r ! i)\<lparr>brw_rewards := 0\<rparr>]"
    "br_total_rewards r' = br_total_rewards r"
    and sum: "unat (br_rewards_processed r') + unat rewards = unat (br_rewards_processed r)"
    using dec n by (auto simp: br_decrement_rewards_processed_def rbind_Inr ok_or_Inr checked_sub_Some split: if_splits)
  have "i < 8" by (rule bg.index_bound [OF i])
  then show "br_base_fee_group_reward r g = Inr rewards" "br_base_fee_group_reward r' g = Inr 0"
    using i assms(2) by (simp_all add: br_base_fee_group_reward_def rewards r')
  show "br_base_fee_group_reward r' h = Inr x" if h: "h \<noteq> g" "br_base_fee_group_reward r h = Inr x" for h x
  proof -
    obtain j where j: "base_fee_group_group_index h = Inr j" using h(2) by (auto simp: br_base_fee_group_reward_def rbind_Inr)
    then have "j \<noteq> i" using bg.index_inject [OF _ i] h(1) by blast
    then show ?thesis using h(2) j by (simp add: br_base_fee_group_reward_def r')
  qed
  show "br_total_rewards r' = br_total_rewards r" by (rule r'(2))
  show "unat (br_rewards_processed r') + unat rewards = unat (br_rewards_processed r)" by (rule sum)
qed

lemma process_distribute_base_rewards_cases:
  assumes "process_distribute_base_rewards rt program_id accounts group_byte epoch L = Inr L'"
  obtains st config ncn router receiver payee ata p1 p2 p3 p4 p5 p6 p7 p8 p9 g c r r' rewards L1 L2 s s' u v w x y where
    "accounts = [st, config, ncn, router, receiver, payee, ata, p1, p2, p3, p4, p5, p6, p7, p8, p9]"
    "epoch_state_load rt program_id L st (ai_key ncn) epoch True = Inr u"
    "config_load rt program_id L config (ai_key ncn) False = Inr v"
    "base_reward_router_load rt program_id L router (ai_key ncn) epoch True = Inr w"
    "base_reward_receiver_load rt program_id L receiver (ai_key ncn) epoch True = Inr x"
    "ex_load_associated_token_account rt L ata (ai_key payee) JITOSOL_MINT = Inr y"
    "base_fee_group_try_from group_byte = Inr g" "as_config rt L config = Inr c"
    "base_fee_wallet (cf_fee_config c) g = Inr (ai_key payee)"
    "as_base_reward_router rt L router = Inr r" "\<not> br_still_routing r"
    "br_distribute_base_fee_group_rewards r g = Inr (r', rewards)"
    "put_data program_id L router (Base_Reward_Router_Data r') = Inr L1"
    "deposit_rewards rt program_id (Base_Reward_Receiver_Account (ai_key ncn) epoch)
      [p2, p3, p4, receiver, ata, p5, p6, p7, p9, p8] rewards L1 = Inr L2"
    "as_epoch_state rt L2 st = Inr s" "update_distribute_base_rewards s rewards = Inr s'"
    "put_data program_id L2 st (Epoch_State_Data s') = Inr L'"
proof -
  show thesis
    using assms unfolding process_distribute_base_rewards_def Let_def
    by (clarsimp simp only: rbind_Inr fail_if_Inr rmap_err_Inr not_not split_paired_Ex prod.case split: list.splits)
      (rule that, assumption+)
qed

lemma base_reward_router_held:
  assumes "runtime_laws program_id addr rt" and "ledger_ok program_id addr M pn val e L"
    and load: "base_reward_router_load rt program_id L a ncn epoch w = Inr u" and "as_base_reward_router rt L a = Inr r"
  shows "ac_data (L (ai_key a)) = Base_Reward_Router_Data r" "ai_key a = addr (Base_Reward_Router_Account ncn epoch)"
    "ac_owner (L (ai_key a)) = program_id" "length (br_base_fee_group_rewards r) = 8"
proof -
  note loaded = check_load_Inr [OF load [unfolded base_reward_router_load_def]]
  note held = base_reward_router_kind.cast_holds [OF assms(1) assms(4) [unfolded as_base_reward_router_def]
      ledger_okD [OF assms(2)] loaded(1)]
  show "ac_data (L (ai_key a)) = Base_Reward_Router_Data r" by (rule held(1))
  show "ai_key a = addr (Base_Reward_Router_Account ncn epoch)" using loaded(2) by (simp add: runtime_lawsD(2) [OF assms(1)])
  show "ac_owner (L (ai_key a)) = program_id" by (rule loaded(1))
  show "length (br_base_fee_group_rewards r) = 8" using held(2) base_router.conservation by (auto simp: br_wf_def)
qed

text \<open>C4. A payment of base rewards goes to the wallet the configuration names for the group, through its token
  account; it takes the whole bucket of the group and nothing else from the router, so that a second
  payment finds nothing; and the deposit, signed by the receiver of this epoch, is of exactly this amount.\<close>

theorem distribute_base_rewards_effect:
  assumes laws: "runtime_laws program_id addr rt" and ok: "ledger_ok program_id addr M pn val e L"
    and distribute: "process_distribute_base_rewards rt program_id accounts group_byte epoch L = Inr L'"
  shows "\<exists>g c r r' rewards. let ncn = ai_key (accounts ! 2); payee = ai_key (accounts ! 5);
      router = addr (Base_Reward_Router_Account ncn epoch); receiver = Base_Reward_Receiver_Account ncn epoch in
    base_fee_group_try_from group_byte = Inr g \<and> ac_data (L (addr (Config_Account ncn))) = Config_Data c \<and>
    base_fee_wallet (cf_fee_config c) g = Inr payee \<and>
    ex_load_associated_token_account rt L (accounts ! 6) payee JITOSOL_MINT = Inr () \<and>
    ac_data (L router) = Base_Reward_Router_Data r \<and> br_base_fee_group_reward r g = Inr rewards \<and>
    ac_data (L' router) = Base_Reward_Router_Data r' \<and> br_base_fee_group_reward r' g = Inr 0 \<and>
    (\<forall>h x. h \<noteq> g \<longrightarrow> br_base_fee_group_reward r h = Inr x \<longrightarrow> br_base_fee_group_reward r' h = Inr x) \<and>
    unat (br_rewards_processed r') + unat rewards = unat (br_rewards_processed r) \<and>
    (0 < rewards \<longrightarrow> (\<exists>bump seeds L1 L2. find_program_address rt program_id receiver = (addr receiver, bump, seeds) \<and>
      ai_key (accounts ! 4) = addr receiver \<and>
      ex_deposit_sol rt (map ((!) accounts) [8, 9, 10, 4, 6, 11, 12, 13, 15, 14]) rewards (seeds @ [[bump]]) L1 = Inr L2 \<and>
      (\<forall>key. key \<noteq> router \<longrightarrow> L1 key = L key) \<and> (\<forall>key. key \<noteq> ai_key (accounts ! 0) \<longrightarrow> L' key = L2 key)))"
  using distribute
proof (cases rule: process_distribute_base_rewards_cases)
  case (1 st config ncn router receiver payee ata p1 p2 p3 p4 p5 p6 p7 p8 p9 g c r r' rewards L1 L2 s s' u v w x y)
  note held = base_reward_router_held [OF laws ok 1(4,10)]
  note moved = distribute_group [OF 1(12) held(4)]
  note F1 = put_data_fields [OF 1(13)] and F3 = put_data_fields [OF 1(17)]
  note conf = check_load_Inr [OF 1(3) [unfolded config_load_def]]
  have config: "ac_data (L (addr (Config_Account (ai_key ncn)))) = Config_Data c"
    using config_kind.cast_holds(1) [OF laws 1(8) [unfolded as_config_def] ledger_okD [OF ok] conf(1)] conf(2)
    by (simp add: runtime_lawsD(2) [OF laws])
  have differ: "ai_key router \<noteq> ai_key st"
    using check_load_Inr(3) [OF 1(4) [unfolded base_reward_router_load_def] refl]
      check_load_Inr(3) [OF 1(2) [unfolded epoch_state_load_def] refl] by auto
  have receiver: "ai_key receiver = addr (Base_Reward_Receiver_Account (ai_key ncn) epoch)"
    using check_load_Inr(2) [OF 1(5) [unfolded base_reward_receiver_load_def]] by (simp add: runtime_lawsD(2) [OF laws])
  obtain bump seeds where find: "find_program_address rt program_id (Base_Reward_Receiver_Account (ai_key ncn) epoch) =
      (addr (Base_Reward_Receiver_Account (ai_key ncn) epoch), bump, seeds)"
    using runtime_lawsD(2) [OF laws, of "Base_Reward_Receiver_Account (ai_key ncn) epoch"]
    by (cases "find_program_address rt program_id (Base_Reward_Receiver_Account (ai_key ncn) epoch)") (simp add: pda_def)
  have deposit: "0 < rewards \<Longrightarrow> ex_deposit_sol rt [p2, p3, p4, receiver, ata, p5, p6, p7, p9, p8] rewards (seeds @ [[bump]]) L1 = Inr L2"
    using 1(14) by (simp add: deposit_rewards_def find)
  have "others_ran program_id L1 L2"
    using 1(14) runtime_lawsD(9) [OF laws] by (auto simp: deposit_rewards_def find split: if_splits)
  then have "ac_data (L2 (ai_key router)) = ac_data (L1 (ai_key router))"
    using held(3) unfolding others_ran_def by (metis F1(3))
  then have router: "ac_data (L' (addr (Base_Reward_Router_Account (ai_key ncn) epoch))) = Base_Reward_Router_Data r'"
    using differ by (simp add: held(2) [symmetric] F1 F3)
  have frames: "\<forall>key. key \<noteq> addr (Base_Reward_Router_Account (ai_key ncn) epoch) \<longrightarrow> L1 key = L key"
    "\<forall>key. key \<noteq> ai_key st \<longrightarrow> L' key = L2 key" using F1(1) F3(1) by (simp_all add: held(2))
  show ?thesis
    unfolding Let_def 1(1)
    by (rule exI [of _ g], rule exI [of _ c], rule exI [of _ r], rule exI [of _ r'], rule exI [of _ rewards])
      (use 1(6,7,9) config held(1,2) router moved find deposit frames receiver in \<open>auto\<close>)
qed
text \<open>The router of epoch 19 of the sample NCN, after 1001 lamports came in and were split: 901 for the DAO, 100
  for the first NCN group. The DAO is paid.\<close>

definition new_router :: base_reward_router where
  "new_router = base_reward_router_new sample_ncn 19 255 7900"

definition paying_router :: base_reward_router where
  "paying_router = new_router\<lparr>br_total_rewards := 1001, br_rewards_processed := 1001,
    br_base_fee_group_rewards := \<lparr>brw_rewards = 901\<rparr> # replicate 7 \<lparr>brw_rewards = 0\<rparr>,
    br_ncn_fee_group_rewards := \<lparr>brw_rewards = 100\<rparr> # replicate 7 \<lparr>brw_rewards = 0\<rparr>\<rparr>"

lemma sample_splits:
  "calculate_reward_split fixed12 270 300 1001 = Inr 900" "calculate_reward_split fixed12 30 300 1001 = Inr 100"
  "calculate_reward_split fixed12 0 300 1001 = Inr 0"
  by (simp_all add: calculate_reward_split_def precise_share_def fixed12_def eval_simps)

lemma nothing_routed:
  "br_route_from_reward_pool r 0 = Inr r" "br_route_to_base_fee_group_rewards r g 0 = Inr r"
  "br_route_to_ncn_fee_group_rewards r h 0 = Inr r"
  by (simp_all add: br_route_from_reward_pool_def br_route_to_base_fee_group_rewards_def br_route_to_ncn_fee_group_rewards_def)

lemma sample_fee_reads:
  "fees_total_fees_bps (sample_fees 5 270) = Inr 300"
  "fees_base_fee_bps (sample_fees 5 270) \<lparr>base_group = 0\<rparr> = Inr 270"
  "i \<in> {1, 2, 3, 4, 5, 6, 7} \<Longrightarrow> fees_base_fee_bps (sample_fees 5 270) \<lparr>base_group = i\<rparr> = Inr 0"
  "fees_ncn_fee_bps (sample_fees 5 270) \<lparr>ncn_group = 0\<rparr> = Inr 30"
  "i \<in> {1, 2, 3, 4, 5, 6, 7} \<Longrightarrow> fees_ncn_fee_bps (sample_fees 5 270) \<lparr>ncn_group = i\<rparr> = Inr 0"
  by (auto simp: sample_fees_def fee_config_defs base_group_defs ncn_group_defs eval_simps replicate_7 fee_new_def)

lemma paying_router_split:
  "br_route_reward_pool fixed12 (new_router\<lparr>br_total_rewards := 1001, br_reward_pool := 1001\<rparr>) (sample_fees 5 270) = Inr paying_router"
  by (simp add: br_route_reward_pool_def sample_fee_reads sample_splits nothing_routed base_group_defs ncn_group_defs)
    (simp add: sample_fee_reads sample_splits br_route_from_reward_pool_def br_increment_rewards_processed_def br_route_to_base_fee_group_rewards_def
  br_route_to_ncn_fee_group_rewards_def base_reward_router_new_def
  base_reward_router_rewards_default_def eval_simps new_router_def paying_router_def 
  br_base_fee_group_reward_def br_ncn_fee_group_reward_def base_group_defs ncn_group_defs replicate_7 FEE_GROUP_COUNT_def)

lemma paying_router_runs: "\<exists>received paid. router_runs base_router_init (base_router_step fixed12) paying_router received paid"
proof -
  have start: "router_runs base_router_init (base_router_step fixed12) new_router 0 0"
    by (rule router_runs.start) (auto simp: base_router_init_def new_router_def)
  have "br_route_incoming_rewards new_router 890880 891881 =
      Inr (new_router\<lparr>br_total_rewards := 1001, br_reward_pool := 1001\<rparr>)"
    by (simp add: br_route_incoming_rewards_def br_total_rewards_in_transit_def br_route_to_reward_pool_def
        new_router_def base_reward_router_new_def checked_add_def checked_sub_def)
  from router_runs.step [OF router_runs.step [where step = "base_router_step fixed12",
        OF start base_router_step.incoming [OF this]] base_router_step.split_pool [OF paying_router_split]]
  show ?thesis by blast
qed

definition paying_ledger :: "unit ledger" where
  "paying_ledger = (voting_ledger 100 empty_box)(sample_addr (Base_Reward_Router_Account sample_ncn 19) :=
    sample_account D_BaseRewardRouter (Base_Reward_Router_Data paying_router))"

lemma paying_ledger_reads [simp]:
  "paying_ledger (sample_addr (Base_Reward_Router_Account sample_ncn 19)) =
    sample_account D_BaseRewardRouter (Base_Reward_Router_Data paying_router)"
  "paying_ledger (sample_addr (Base_Reward_Receiver_Account sample_ncn 19)) =
    sample_ledger (sample_addr (Base_Reward_Receiver_Account sample_ncn 19))"
  "paying_ledger (sample_addr (Config_Account sample_ncn)) = sample_account D_Config (Config_Data sample_config)"
  "paying_ledger (sample_addr (Epoch_State_Account sample_ncn 19)) = sample_account D_EpochState (Epoch_State_Data live_state)"
  by (simp_all add: paying_ledger_def voting_ledger_def two_epochs_def configured_ledger_def sample_addr_inject)

lemma paying_ledger_ok: "ledger_ok sample_program sample_addr {} fixed12 fixed12_val 20 paying_ledger"
  unfolding paying_ledger_def
proof (rule ledger_ok_upd)
  show "ledger_ok sample_program sample_addr {} fixed12 fixed12_val 20 (voting_ledger 100 empty_box)"
    by (rule voting_ledger_ok) (simp_all add: empty_box_def bb_reachable.created, simp_all add: ballot_box_new_def)
  have "br_ncn paying_router = sample_ncn" "br_epoch paying_router = 19"
    by (simp_all add: paying_router_def new_router_def base_reward_router_new_def)
  then show "account_ok sample_program sample_addr {} fixed12 fixed12_val 20
      (sample_addr (Base_Reward_Router_Account sample_ncn 19)) (sample_account D_BaseRewardRouter (Base_Reward_Router_Data paying_router))"
    using paying_router_runs by (simp add: account_ok_def)
qed

definition paying_accounts :: "account_info list" where
  "paying_accounts = [writer (sample_addr (Epoch_State_Account sample_ncn 19)), reader (sample_addr (Config_Account sample_ncn)),
    reader sample_ncn, writer (sample_addr (Base_Reward_Router_Account sample_ncn 19)),
    writer (sample_addr (Base_Reward_Receiver_Account sample_ncn 19)), reader sample_wallet, writer [1],
    reader (replicate 32 7), writer [2], reader [3], writer [4], writer [5], writer [6], writer [7], reader [8],
    reader system_program_id]"

definition paid_router :: base_reward_router where
  "paid_router = paying_router\<lparr>br_base_fee_group_rewards := \<lparr>brw_rewards = 0\<rparr> # replicate 7 \<lparr>brw_rewards = 0\<rparr>,
    br_rewards_processed := 100\<rparr>"

lemma sample_dao_payment:
  "base_fee_group_try_from 0 = Inr base_fee_group_dao" "\<not> br_still_routing paying_router"
  "br_distribute_base_fee_group_rewards paying_router base_fee_group_dao = Inr (paid_router, 901)"
  by (simp_all add: base_fee_group_try_from_def base_fee_group_dao_def br_still_routing_def paying_router_def paid_router_def new_router_def
      base_reward_router_new_def br_distribute_base_fee_group_rewards_def br_base_fee_group_reward_def
      br_decrement_rewards_processed_def base_group_defs checked_sub_def)

lemma sample_progress: "\<exists>s. update_distribute_base_rewards live_state 901 = Inr s"
  by (simp add: update_distribute_base_rewards_def progress_increment_def checked_add_def live_state_def
      update_realloc_ballot_box_def update_realloc_epoch_state_def epoch_state_initialize_def zero_epoch_state_def zero_progress_def)

lemma sample_payment:
  "\<exists>L'. process_distribute_base_rewards (sample_runtime 8000) sample_program paying_accounts 0 19 paying_ledger = Inr L'"
proof -
  obtain s where "update_distribute_base_rewards live_state 901 = Inr s" using sample_progress by blast
  then show ?thesis
    by (simp add: process_distribute_base_rewards_def paying_accounts_def load_defs base_reward_receiver_load_def
      sample_config_def config_new_def rmap_err_def check_load_def sample_dao_payment foreign_dao deposit_rewards_def
      sample_addr_inject size_nonzero data_is_empty_def)
qed

theorem distribute_base_rewards_effect_witness:
  "\<exists>L' r'. process_distribute_base_rewards (sample_runtime 8000) sample_program paying_accounts 0 19 paying_ledger = Inr L' \<and>
    ac_data (L' (sample_addr (Base_Reward_Router_Account sample_ncn 19))) = Base_Reward_Router_Data r' \<and>
    br_base_fee_group_reward r' base_fee_group_dao = Inr 0"
proof -
  obtain L' where pay: "process_distribute_base_rewards (sample_runtime 8000) sample_program paying_accounts 0 19
      paying_ledger = Inr L'" using sample_payment by blast
  have slot: "(8000 :: u64) \<noteq> EMPTY_SLOT_REGISTERED" by (simp add: EMPTY_SLOT_REGISTERED_def)
  show ?thesis
    using distribute_base_rewards_effect [OF sample_laws [OF slot] paying_ledger_ok pay] pay
    by (auto simp: Let_def paying_accounts_def sample_dao_payment)
qed

end
