(* ===== verification/Stake_Metas.thy ===== *)
theory Stake_Metas
  imports Externals "HOL-Library.Product_Lexorder" "HOL-Library.Multiset"
begin

text \<open>
  What an operator reads off the chain at the end of an epoch: the validators with their delegations and
  tips (the types of \<open>meta_merkle_tree/src/generated_merkle_tree.rs\<close>, computed by
  \<open>tip-router-operator-cli/src/stake_meta_generator.rs\<close>). The bank, the accounts in it and their
  deserialization are arguments. A hash map is the list of its entries in the order it is iterated, which
  differs from run to run; the theorems show that the result does not depend on it.
\<close>

section \<open>Results in lists\<close>

text \<open>\<open>map(..).collect::<Result<Vec<_>, _>>()\<close> and a \<open>filter\<close> whose test may fail.\<close>

primrec collect :: "('a \<Rightarrow> 'e + 'b) \<Rightarrow> 'a list \<Rightarrow> 'e + 'b list" where
  "collect f [] = Inr []"
| "collect f (x # xs) = rbind (f x) (\<lambda>y. rbind (collect f xs) (\<lambda>ys. Inr (y # ys)))"

primrec rfilter :: "('a \<Rightarrow> 'e + bool) \<Rightarrow> 'a list \<Rightarrow> 'e + 'a list" where
  "rfilter p [] = Inr []"
| "rfilter p (x # xs) = rbind (p x) (\<lambda>b. rbind (rfilter p xs) (\<lambda>ys. Inr (if b then x # ys else ys)))"

lemma collect_Inr [res_simps]: "collect f xs = Inr ys \<longleftrightarrow> list_all2 (\<lambda>x y. f x = Inr y) xs ys"
proof (induction xs arbitrary: ys)
  case Nil
  then show ?case by (cases ys) simp_all
next
  case (Cons x xs)
  show ?case by (cases ys) (simp_all add: rbind_Inr Cons.IH)
qed

lemma collect_member: "collect f xs = Inr ys \<Longrightarrow> y \<in> set ys \<Longrightarrow> \<exists>x \<in> set xs. f x = Inr y"
  unfolding collect_Inr by (induction rule: list_all2_induct) auto

lemma collect_total: "(\<And>x. x \<in> set xs \<Longrightarrow> \<exists>y. f x = Inr y) \<Longrightarrow> \<exists>ys. collect f xs = Inr ys"
  by (induction xs) (auto, fastforce)

lemma collect_result: "collect f xs = Inr ys \<Longrightarrow> x \<in> set xs \<Longrightarrow> \<exists>y \<in> set ys. f x = Inr y"
  unfolding collect_Inr by (induction rule: list_all2_induct) auto

lemma rfilter_Inr [res_simps]:
  "rfilter p xs = Inr ys \<longleftrightarrow> (\<forall>x \<in> set xs. \<exists>b. p x = Inr b) \<and> ys = filter (\<lambda>x. p x = Inr True) xs"
proof (induction xs arbitrary: ys)
  case Nil
  then show ?case by auto
next
  case (Cons x xs)
  show ?case
  proof (cases "p x")
    case (Inr b)
    then show ?thesis by (cases b) (simp_all add: rbind_Inr Cons.IH, blast+)
  qed simp
qed

lemma list_all2_rel_mset:
  "list_all2 R xs ys \<Longrightarrow> mset xs = mset xs' \<Longrightarrow> \<exists>ys'. list_all2 R xs' ys' \<and> mset ys = mset ys'"
proof (induction xs' arbitrary: xs ys)
  case Nil
  then show ?case by simp
next
  case (Cons x xs')
  then have "x \<in> set xs" by (metis list.set_intros(1) mset_eq_setD)
  then obtain us vs where xs: "xs = us @ x # vs" by (meson split_list)
  from Cons.prems(1) xs obtain ks y ls where ys: "ys = ks @ y # ls" and R: "list_all2 R us ks" "R x y" "list_all2 R vs ls"
    by (auto simp: list_all2_append1 list_all2_Cons1)
  have "list_all2 R (us @ vs) (ks @ ls)" using R by (simp add: list_all2_appendI)
  moreover have "mset (us @ vs) = mset xs'" using Cons.prems(2) by (simp add: xs)
  ultimately obtain ys' where "list_all2 R xs' ys'" "mset (ks @ ls) = mset ys'" using Cons.IH by blast
  then show ?case using R(2) ys by (intro exI [of _ "y # ys'"]) simp
qed

lemma collect_mset:
  assumes "collect f xs = Inr ys" and "mset xs = mset xs'"
  obtains ys' where "collect f xs' = Inr ys'" "mset ys = mset ys'"
  using list_all2_rel_mset [OF assms(1) [unfolded collect_Inr] assms(2)] by (auto simp: collect_Inr)

lemma rfilter_mset:
  assumes "rfilter p xs = Inr ys" and "mset xs = mset xs'"
  shows "rfilter p xs' = Inr (filter (\<lambda>x. p x = Inr True) xs')" "mset ys = mset (filter (\<lambda>x. p x = Inr True) xs')"
  using assms mset_eq_setD [OF assms(2)] by (auto simp: rfilter_Inr)

lemma sort_key_mset:
  assumes "mset xs = mset ys" and "distinct (map k xs)"
  shows "sort_key k xs = sort_key k ys"
  using assms by (intro sort_key_inj_key_eq) (simp_all add: distinct_map)

text \<open>A sum with \<open>checked_add\<close> at every step.\<close>

definition checked_sum :: "'e \<Rightarrow> 'a::len word list \<Rightarrow> 'e + 'a word" where
  "checked_sum e xs = rfold (\<lambda>x sum. ok_or e (checked_add sum x)) xs 0"

lemma checked_sum_Inr: "checked_sum e xs = Inr n \<longleftrightarrow> unat n = sum_list (map unat xs)"
proof -
  have "rfold (\<lambda>x sum. ok_or e (checked_add sum x)) xs s = Inr n \<longleftrightarrow> unat n = unat s + sum_list (map unat xs)"
    for s :: "'b word"
  proof (induction xs arbitrary: s)
    case Nil
    then show ?case by (auto simp: word_unat_eq_iff)
  next
    case (Cons x xs)
    have "unat n = unat s + (unat x + sum_list (map unat xs)) \<Longrightarrow> \<exists>m :: 'b word. unat m = unat s + unat x"
      for s n :: "'b word"
    proof -
      assume "unat n = unat s + (unat x + sum_list (map unat xs))"
      then have "unat s + unat x < 2 ^ LENGTH('b)" using unat_less_pow [of n] by linarith
      then have "unat (s + x) = unat s + unat x" by (rule unat_add_lem [THEN iffD1])
      then show ?thesis by blast
    qed
    then show ?case
      by (auto simp: rbind_Inr ok_or_Inr checked_add_Some Cons.IH) (metis add.assoc)+
  qed
  then show ?thesis by (simp add: checked_sum_def)
qed

lemma checked_sum_mset: "checked_sum e xs = Inr n \<Longrightarrow> mset xs = mset ys \<Longrightarrow> checked_sum e ys = Inr n"
  by (simp add: checked_sum_Inr) (metis mset_map sum_mset_sum_list)

section \<open>Model\<close>

record delegation =
  dg_stake_account_pubkey :: pubkey
  dg_staker_pubkey :: pubkey
  dg_withdrawer_pubkey :: pubkey
  dg_lamports_delegated :: u64

record tip_distribution_meta =
  td_merkle_root_upload_authority :: pubkey
  td_tip_distribution_pubkey :: pubkey
  td_total_tips :: u64
  td_validator_fee_bps :: u16

record stake_meta =
  sm_validator_vote_account :: pubkey
  sm_validator_node_pubkey :: pubkey
  sm_maybe_tip_distribution_meta :: "tip_distribution_meta option"
  sm_delegations :: "delegation list"
  sm_total_delegated :: u64
  sm_commission :: u8

record stake_meta_collection =
  sc_stake_metas :: "stake_meta list"
  sc_tip_distribution_program_id :: pubkey
  sc_bank_hash :: string
  sc_epoch :: u64
  sc_slot :: u64

text \<open>\<open>Ord::cmp\<close> of the two types compares these keys; public keys compare as byte arrays do.\<close>

definition delegation_key :: "delegation \<Rightarrow> pubkey \<times> pubkey \<times> pubkey \<times> u64" where
  "delegation_key d =
    (dg_stake_account_pubkey d, dg_withdrawer_pubkey d, dg_staker_pubkey d, dg_lamports_delegated d)"

definition stake_meta_key :: "stake_meta \<Rightarrow> pubkey" where
  "stake_meta_key = sm_validator_vote_account"

text \<open>The errors that can occur here, and the panics of \<open>unwrap\<close>, \<open>expect\<close> and \<open>assert!\<close> as a fault of
  their own.\<close>

datatype anchor_error = AccountNotInitialized | Anchor_Code nat

datatype stake_meta_generator_error =
    AnchorError anchor_error
  | StakeMetaCheckedMathError
  | PanicError string
  | StakeMetaPanic

text \<open>The bank of the Solana runtime. An entry of the stakes cache has the fields that are read; the rest of
  the delegation, on which the activated stake depends, is the extension of the record.\<close>

record vote_state =
  vs_node_pubkey :: pubkey
  vs_commission :: u8

record stake_account =
  sa_voter_pubkey :: pubkey
  sa_stake :: u64
  sa_authorized :: "(pubkey \<times> pubkey) option"

record bank_account =
  ba_lamports :: u64
  ba_data :: "u8 list"

record 'd bank =
  bk_is_frozen :: bool
  bk_epoch :: u64
  bk_slot :: u64
  bk_hash :: string
  bk_epoch_vote_accounts :: "u64 \<Rightarrow> (pubkey \<times> u64 \<times> vote_state) list option"
  bk_stake_delegations :: "(pubkey \<times> 'd stake_account_scheme) list"
  bk_new_warmup_cooldown_rate_epoch :: "u64 option"
  bk_get_account :: "pubkey \<Rightarrow> bank_account option"
  bk_minimum_balance_for_rent_exemption :: "nat \<Rightarrow> u64"

text \<open>The accounts of the tip programs, with the fields that are read.\<close>

record tip_payment_config =
  tp_block_builder_commission_pct :: u64
  tp_tip_receiver :: pubkey

record tip_distribution_account =
  ta_validator_vote_account :: pubkey
  ta_merkle_root_upload_authority :: pubkey
  ta_has_merkle_root :: bool
  ta_epoch_created_at :: u64
  ta_validator_commission_bps :: u16

record tip_distribution_account_wrapper =
  tw_tip_distribution_account :: tip_distribution_account
  tw_account_data :: bank_account
  tw_tip_distribution_pubkey :: pubkey

text \<open>The functions of the Solana and Anchor libraries: the runtime's derivation of addresses, the reading of
  the stake history, the activated stake of a delegation, and \<open>try_deserialize\<close> of the two programs.\<close>

record ('x, 'h, 'd) chain = "'x runtime" +
  ch_stake_history_id :: pubkey
  ch_stake_history :: "bank_account \<Rightarrow> 'h option"
  ch_delegation_stake :: "'d stake_account_scheme \<Rightarrow> u64 \<Rightarrow> 'h \<Rightarrow> u64 option \<Rightarrow> u64"
  ch_tip_payment_config :: "u8 list \<Rightarrow> anchor_error + tip_payment_config"
  ch_tip_distribution_account :: "u8 list \<Rightarrow> tip_distribution_account option"
  ch_max_bps :: u16
  ch_tip_distribution_id :: pubkey

section \<open>Stake metas\<close>

text \<open>\<open>derive_tip_payment_pubkeys\<close>: the configuration and the eight tip accounts.\<close>

definition derive_tip_payment_pubkeys :: "('x, 'y) runtime_scheme \<Rightarrow> pubkey \<Rightarrow> pubkey \<times> pubkey list" where
  "derive_tip_payment_pubkeys rt program_id =
    (fst (rt_find_program_address rt [ascii ''CONFIG_ACCOUNT''] program_id),
     map (\<lambda>seed. fst (rt_find_program_address rt [ascii seed] program_id))
       [''TIP_ACCOUNT_0'', ''TIP_ACCOUNT_1'', ''TIP_ACCOUNT_2'', ''TIP_ACCOUNT_3'',
        ''TIP_ACCOUNT_4'', ''TIP_ACCOUNT_5'', ''TIP_ACCOUNT_6'', ''TIP_ACCOUNT_7''])"

definition tip_distribution_account_from_tda_wrapper ::
    "tip_distribution_account_wrapper \<Rightarrow> u64 \<Rightarrow> stake_meta_generator_error + tip_distribution_meta" where
  "tip_distribution_account_from_tda_wrapper tda_wrapper rent_exempt_amount =
    rbind (ok_or StakeMetaCheckedMathError
      (checked_sub (ba_lamports (tw_account_data tda_wrapper)) rent_exempt_amount)) (\<lambda>total_tips.
    Inr \<lparr>td_merkle_root_upload_authority =
           ta_merkle_root_upload_authority (tw_tip_distribution_account tda_wrapper),
         td_tip_distribution_pubkey = tw_tip_distribution_pubkey tda_wrapper,
         td_total_tips = total_tips,
         td_validator_fee_bps = ta_validator_commission_bps (tw_tip_distribution_account tda_wrapper)\<rparr>)"

text \<open>The delegations with activated stake, grouped: \<open>into_group_map_by\<close> keeps the order of the iteration
  within a group, and has no entry for a voter without delegations.\<close>

definition stake_is_active ::
    "('x, 'h, 'd, 'y) chain_scheme \<Rightarrow> 'd bank \<Rightarrow> pubkey \<times> 'd stake_account_scheme \<Rightarrow>
     stake_meta_generator_error + bool" where
  "stake_is_active ch bank entry =
    rbind (ok_or StakeMetaPanic (bk_get_account bank (ch_stake_history_id ch))) (\<lambda>account.
    rbind (ok_or StakeMetaPanic (ch_stake_history ch account)) (\<lambda>stake_history.
    Inr (ch_delegation_stake ch (snd entry) (bk_epoch bank) stake_history
      (bk_new_warmup_cooldown_rate_epoch bank) > 0)))"

definition delegation_from_stake_account :: "pubkey \<times> 'd stake_account_scheme \<Rightarrow> delegation" where
  "delegation_from_stake_account entry = (case entry of (stake_pubkey, stake_account) \<Rightarrow>
    \<lparr>dg_stake_account_pubkey = stake_pubkey,
     dg_staker_pubkey = (case sa_authorized stake_account of None \<Rightarrow> default_pubkey | Some a \<Rightarrow> fst a),
     dg_withdrawer_pubkey = (case sa_authorized stake_account of None \<Rightarrow> default_pubkey | Some a \<Rightarrow> snd a),
     dg_lamports_delegated = sa_stake stake_account\<rparr>)"

definition group_delegations_by_voter_pubkey ::
    "('x, 'h, 'd, 'y) chain_scheme \<Rightarrow> (pubkey \<times> 'd stake_account_scheme) list \<Rightarrow> 'd bank \<Rightarrow>
     stake_meta_generator_error + (pubkey \<Rightarrow> delegation list option)" where
  "group_delegations_by_voter_pubkey ch delegations bank =
    rbind (rfilter (stake_is_active ch bank) delegations) (\<lambda>active.
    Inr (\<lambda>voter. let group = filter (\<lambda>entry. sa_voter_pubkey (snd entry) = voter) active in
      if group = [] then None else Some (map delegation_from_stake_account group)))"

text \<open>The lamports of a tip account above the rent.\<close>

definition tip_balance :: "'d bank \<Rightarrow> pubkey \<Rightarrow> stake_meta_generator_error + u64" where
  "tip_balance bank pubkey =
    rbind (ok_or StakeMetaPanic (bk_get_account bank pubkey)) (\<lambda>tip_account.
    ok_or StakeMetaPanic (checked_sub (ba_lamports tip_account)
      (bk_minimum_balance_for_rent_exemption bank (length (ba_data tip_account)))))"

text \<open>The tip distribution account of a validator, with the tips that are still to be cranked when it is
  the current receiver.\<close>

definition find_tda ::
    "('x, 'h, 'd, 'y) chain_scheme \<Rightarrow> 'd bank \<Rightarrow> pubkey \<Rightarrow> pubkey \<Rightarrow> u64 \<Rightarrow> pubkey \<Rightarrow>
     stake_meta_generator_error + tip_distribution_account_wrapper option" where
  "find_tda ch bank tip_distribution_program_id tip_receiver tip_receiver_fee vote_pubkey =
    (let tip_distribution_pubkey = fst (derive_tip_distribution_account_address ch tip_distribution_program_id
           vote_pubkey (bk_epoch bank)) in
     case bk_get_account bank tip_distribution_pubkey of
       None \<Rightarrow> Inr None
     | Some account_data \<Rightarrow>
         (case ch_tip_distribution_account ch (ba_data account_data) of
            None \<Rightarrow> Inr None
          | Some tip_distribution_account \<Rightarrow>
              rbind (if tip_distribution_pubkey = tip_receiver
                then rbind (ok_or StakeMetaPanic (checked_add (ba_lamports account_data) tip_receiver_fee))
                  (\<lambda>lamports. Inr (account_data\<lparr>ba_lamports := lamports\<rparr>))
                else Inr account_data) (\<lambda>account_data.
              Inr (Some \<lparr>tw_tip_distribution_account = tip_distribution_account,
                tw_account_data = account_data, tw_tip_distribution_pubkey = tip_distribution_pubkey\<rparr>))))"

text \<open>The body of the loop over the validators: what it pushes for one of them. \<open>total_delegated\<close> is the
  checked sum, whose \<open>unwrap\<close> panics.\<close>

definition stake_meta_of ::
    "'d bank \<Rightarrow> (pubkey \<Rightarrow> delegation list option) \<Rightarrow>
     (pubkey \<times> vote_state) \<times> tip_distribution_account_wrapper option \<Rightarrow>
     stake_meta_generator_error + stake_meta list" where
  "stake_meta_of bank voter_pubkey_to_delegations entry =
    (case entry of ((vote_pubkey, vote_state), maybe_tda) \<Rightarrow>
     (case voter_pubkey_to_delegations vote_pubkey of
        None \<Rightarrow> Inr []
      | Some delegations \<Rightarrow>
          rbind (checked_sum StakeMetaPanic (map dg_lamports_delegated delegations)) (\<lambda>total_delegated.
          rbind (case maybe_tda of
              None \<Rightarrow> Inr None
            | Some tda \<Rightarrow>
                rbind (tip_distribution_account_from_tda_wrapper tda
                  (bk_minimum_balance_for_rent_exemption bank (length (ba_data (tw_account_data tda)))))
                (\<lambda>m. Inr (Some m))) (\<lambda>maybe_tip_distribution_meta.
          Inr [\<lparr>sm_validator_vote_account = vote_pubkey,
                sm_validator_node_pubkey = vs_node_pubkey vote_state,
                sm_maybe_tip_distribution_meta = maybe_tip_distribution_meta,
                sm_delegations = sort_key delegation_key delegations,
                sm_total_delegated = total_delegated,
                sm_commission = vs_commission vote_state\<rparr>]))))"

definition generate_stake_meta_collection ::
    "('x, 'h, 'd, 'y) chain_scheme \<Rightarrow> 'd bank \<Rightarrow> pubkey \<Rightarrow> pubkey \<Rightarrow>
     stake_meta_generator_error + stake_meta_collection" where
  "generate_stake_meta_collection ch bank tip_distribution_program_id tip_payment_program_id =
    rbind (fail_if (\<not> bk_is_frozen bank) StakeMetaPanic) (\<lambda>_.
    rbind (ok_or StakeMetaPanic (bk_epoch_vote_accounts bank (bk_epoch bank))) (\<lambda>epoch_vote_accounts.
    rbind (group_delegations_by_voter_pubkey ch (bk_stake_delegations bank) bank) (\<lambda>voter_pubkey_to_delegations.
    let config_pda = fst (rt_find_program_address ch [ascii ''CONFIG_ACCOUNT''] tip_payment_program_id) in
    rbind (case bk_get_account bank config_pda of
        Some config_account \<Rightarrow> rmap_err AnchorError (ch_tip_payment_config ch (ba_data config_account))
      | None \<Rightarrow> Inl (AnchorError AccountNotInitialized)) (\<lambda>config.
    let tip_accounts = derive_tip_payment_pubkeys ch tip_payment_program_id in
    rbind (collect (tip_balance bank) (snd tip_accounts)) (\<lambda>tip_balances.
    rbind (checked_sum StakeMetaPanic tip_balances) (\<lambda>excess_tip_balances.
    rbind (ok_or StakeMetaPanic (checked_mul excess_tip_balances (tp_block_builder_commission_pct config))) (\<lambda>n.
    rbind (ok_or StakeMetaPanic (checked_div n 100)) (\<lambda>block_builder_tips.
    rbind (ok_or StakeMetaPanic (checked_sub excess_tip_balances block_builder_tips)) (\<lambda>tip_receiver_fee.
    rbind (collect (\<lambda>(vote_pubkey, _, vote_account).
        rbind (find_tda ch bank tip_distribution_program_id (tp_tip_receiver config) tip_receiver_fee vote_pubkey)
          (\<lambda>tda. Inr ((vote_pubkey, vote_account), tda))) epoch_vote_accounts) (\<lambda>vote_pk_and_maybe_tdas.
    rbind (collect (stake_meta_of bank voter_pubkey_to_delegations) vote_pk_and_maybe_tdas) (\<lambda>stake_metas.
    Inr \<lparr>sc_stake_metas = sort_key stake_meta_key (concat stake_metas),
         sc_tip_distribution_program_id = tip_distribution_program_id,
         sc_bank_hash = bk_hash bank, sc_epoch = bk_epoch bank, sc_slot = bk_slot bank\<rparr>)))))))))))"

text \<open>\<open>generate_stake_meta\<close>, over the outcome of reading the bank from the ledger under \<open>catch_unwind\<close>: the
  bank, or the text of the panic.\<close>

definition generate_stake_meta ::
    "('x, 'h, 'd, 'y) chain_scheme \<Rightarrow> string + 'd bank \<Rightarrow> pubkey \<Rightarrow> pubkey \<Rightarrow>
     stake_meta_generator_error + stake_meta_collection" where
  "generate_stake_meta ch res tip_distribution_program_id tip_payment_program_id =
    (case res of
       Inl error_str \<Rightarrow> Inl (PanicError error_str)
     | Inr bank \<Rightarrow>
         generate_stake_meta_collection ch bank tip_distribution_program_id tip_payment_program_id)"

end
