(* ===== verification/Generated_Trees.thy ===== *)
theory Generated_Trees
  imports Stake_Metas Merkle
begin

text \<open>
  The trees of the claims (\<open>meta_merkle_tree/src/generated_merkle_tree.rs\<close>): the tips of each validator are
  split among the tip router, the validator and its stakers, a Merkle tree is built over these claims, and
  the roots of all validators become the leaves of the meta Merkle tree whose root is voted on
  (\<open>get_meta_merkle_root\<close> of \<open>tip-router-operator-cli/src/lib.rs\<close>).
\<close>

section \<open>Model\<close>

record generated_tree_node =
  gn_claimant :: pubkey
  gn_claim_status_pubkey :: pubkey
  gn_claim_status_bump :: u8
  gn_staker_pubkey :: pubkey
  gn_withdrawer_pubkey :: pubkey
  gn_amount :: u64
  gn_proof :: "bytes32 list option"

record generated_merkle_tree =
  gt_tip_distribution_account :: pubkey
  gt_merkle_root_upload_authority :: pubkey
  gt_merkle_root :: bytes32
  gt_tree_nodes :: "generated_tree_node list"
  gt_max_total_claim :: u64
  gt_max_num_nodes :: u64

record generated_merkle_tree_collection =
  gc_generated_merkle_trees :: "generated_merkle_tree list"
  gc_bank_hash :: string
  gc_epoch :: u64
  gc_slot :: u64

datatype merkle_root_generator_error =
    AccountNotFound
  | DeserializationError
  | GeneratorIoError
  | GeneratorSerdeJsonError
  | GeneratorMerkleRootError
  | MerkleTreeTestError
  | CheckedMathError
  | GeneratorPanic

definition CLAIM_STATUS_SEED :: "u8 list" where "CLAIM_STATUS_SEED = ascii ''CLAIM_STATUS''"

text \<open>The product of two numbers divided by a third, all in 128 bits, as a 64-bit number.\<close>

definition mul_div_u64 :: "u128 \<Rightarrow> u128 \<Rightarrow> u128 \<Rightarrow> merkle_root_generator_error + u64" where
  "mul_div_u64 a b c =
    rbind (ok_or CheckedMathError (checked_mul a b)) (\<lambda>n.
    rbind (ok_or CheckedMathError (checked_div n c)) (\<lambda>q.
    ok_or CheckedMathError (try_into q)))"

text \<open>The amount of the validator and what remains for the stakers: if the two fees exceed the tips the
  protocol fee goes first.\<close>

definition split_fees :: "u64 \<Rightarrow> u64 \<Rightarrow> u64 \<Rightarrow> u64 \<times> u64 option" where
  "split_fees total_tips protocol_fee_amount validator_amount =
    (case checked_add validator_amount protocol_fee_amount of
       None \<Rightarrow> (validator_amount, None)
     | Some total_fees \<Rightarrow>
         if total_fees > total_tips then
           (case checked_sub total_tips protocol_fee_amount of
              Some adjusted_validator_amount \<Rightarrow> (adjusted_validator_amount, Some 0)
            | None \<Rightarrow> (0, None))
         else (validator_amount,
           Option.bind (checked_sub total_tips protocol_fee_amount) (\<lambda>v. checked_sub v validator_amount)))"

text \<open>The claim of one delegation.\<close>

definition stake_tree_node ::
    "('x, 'h, 'd, 'y) chain_scheme \<Rightarrow> pubkey \<Rightarrow> u64 \<Rightarrow> u64 \<Rightarrow> u64 \<Rightarrow> delegation \<Rightarrow>
     merkle_root_generator_error + generated_tree_node" where
  "stake_tree_node ch tip_distribution_pubkey remaining_total_rewards total_delegated tip_router_target_epoch d =
    rbind (mul_div_u64 (ucast (dg_lamports_delegated d)) (ucast remaining_total_rewards) (ucast total_delegated))
      (\<lambda>reward_amount.
    let (claim_status_pubkey, claim_status_bump) = rt_find_program_address ch
          [CLAIM_STATUS_SEED, dg_staker_pubkey d, tip_distribution_pubkey] (ch_tip_distribution_id ch) in
    Inr \<lparr>gn_claimant = (if tip_router_target_epoch > 737 then dg_stake_account_pubkey d else dg_staker_pubkey d),
         gn_claim_status_pubkey = claim_status_pubkey, gn_claim_status_bump = claim_status_bump,
         gn_staker_pubkey = dg_staker_pubkey d, gn_withdrawer_pubkey = dg_withdrawer_pubkey d,
         gn_amount = reward_amount, gn_proof = None\<rparr>)"

definition vec_from_stake_meta ::
    "('x, 'h, 'd, 'y) chain_scheme \<Rightarrow> stake_meta \<Rightarrow> u64 \<Rightarrow> pubkey \<Rightarrow> u64 \<Rightarrow> pubkey \<Rightarrow> pubkey \<Rightarrow>
     merkle_root_generator_error + generated_tree_node list option" where
  "vec_from_stake_meta ch stake_meta protocol_fee_bps ncn_address epoch tip_distribution_program_id
      tip_router_program_id =
    (case sm_maybe_tip_distribution_meta stake_meta of
       None \<Rightarrow> Inr None
     | Some m \<Rightarrow>
         rbind (mul_div_u64 (ucast (td_total_tips m)) (ucast protocol_fee_bps) (ucast (ch_max_bps ch)))
           (\<lambda>protocol_fee_amount.
         rbind (mul_div_u64 (ucast (td_total_tips m)) (ucast (td_validator_fee_bps m)) (ucast (ch_max_bps ch)))
           (\<lambda>validator_amount.
         let (validator_amount, remaining_total_rewards) =
           split_fees (td_total_tips m) protocol_fee_amount validator_amount in
         rbind (ok_or CheckedMathError remaining_total_rewards) (\<lambda>remaining_total_rewards.
         rbind (ok_or CheckedMathError (checked_add epoch 1)) (\<lambda>tip_router_target_epoch.
         let base_reward_receiver = fst (rt_find_program_address ch
               [ascii ''base_reward_receiver'', ncn_address, to_le_bytes tip_router_target_epoch]
               tip_router_program_id);
             (protocol_claim_status_pubkey, protocol_claim_status_bump) = rt_find_program_address ch
               [CLAIM_STATUS_SEED, base_reward_receiver, td_tip_distribution_pubkey m] tip_distribution_program_id;
             (validator_claim_status_pubkey, validator_claim_status_bump) = rt_find_program_address ch
               [CLAIM_STATUS_SEED, sm_validator_node_pubkey stake_meta, td_tip_distribution_pubkey m]
               tip_distribution_program_id in
         rbind (collect (stake_tree_node ch (td_tip_distribution_pubkey m) remaining_total_rewards
             (sm_total_delegated stake_meta) tip_router_target_epoch) (sm_delegations stake_meta)) (\<lambda>stakers.
         Inr (Some
           ([\<lparr>gn_claimant = base_reward_receiver, gn_claim_status_pubkey = protocol_claim_status_pubkey,
              gn_claim_status_bump = protocol_claim_status_bump, gn_staker_pubkey = default_pubkey,
              gn_withdrawer_pubkey = default_pubkey, gn_amount = protocol_fee_amount, gn_proof = None\<rparr>] @
            [\<lparr>gn_claimant = sm_validator_node_pubkey stake_meta,
              gn_claim_status_pubkey = validator_claim_status_pubkey,
              gn_claim_status_bump = validator_claim_status_bump, gn_staker_pubkey = default_pubkey,
              gn_withdrawer_pubkey = default_pubkey, gn_amount = validator_amount, gn_proof = None\<rparr>] @
            stakers))))))))"

text \<open>\<open>Hasher::hash\<close> of the two parts and \<open>Hasher::result\<close>.\<close>

definition generated_tree_node_hash :: "hasher \<Rightarrow> generated_tree_node \<Rightarrow> bytes32" where
  "generated_tree_node_hash hashv n = hashv [gn_claimant n, to_le_bytes (gn_amount n)]"

text \<open>The closure of \<open>filter_map\<close> in \<open>new_from_stake_meta_collection\<close>.\<close>

definition generated_merkle_tree_of ::
    "hasher \<Rightarrow> ('x, 'h, 'd, 'y) chain_scheme \<Rightarrow> pubkey \<Rightarrow> pubkey \<Rightarrow> u64 \<Rightarrow> u64 \<Rightarrow> pubkey \<Rightarrow> stake_meta \<Rightarrow>
     merkle_root_generator_error + generated_merkle_tree option" where
  "generated_merkle_tree_of hashv ch tip_distribution_program_id ncn_address epoch protocol_fee_bps
      tip_router_program_id stake_meta =
    rbind (vec_from_stake_meta ch stake_meta protocol_fee_bps ncn_address epoch tip_distribution_program_id
      tip_router_program_id) (\<lambda>maybe_tree_nodes.
    case maybe_tree_nodes of
      None \<Rightarrow> Inr None
    | Some tree_nodes \<Rightarrow>
        let hashed_nodes = map (generated_tree_node_hash hashv) tree_nodes in
        rbind (ok_or GeneratorPanic (sm_maybe_tip_distribution_meta stake_meta)) (\<lambda>tip_distribution_meta.
        let merkle_tree = merkle_tree_new hashv hashed_nodes True;
            max_num_nodes = of_nat (length tree_nodes) in
        rbind (rfold (\<lambda>i ns. rbind (ok_or GeneratorPanic (get_proof merkle_tree i)) (\<lambda>prf.
            Inr (ns[i := (ns ! i)\<lparr>gn_proof := Some prf\<rparr>]))) [0..<length tree_nodes] tree_nodes) (\<lambda>tree_nodes.
        rbind (ok_or GeneratorPanic (get_root merkle_tree)) (\<lambda>root.
        Inr (Some \<lparr>gt_tip_distribution_account = td_tip_distribution_pubkey tip_distribution_meta,
          gt_merkle_root_upload_authority = td_merkle_root_upload_authority tip_distribution_meta,
          gt_merkle_root = root, gt_tree_nodes = tree_nodes,
          gt_max_total_claim = td_total_tips tip_distribution_meta,
          gt_max_num_nodes = max_num_nodes\<rparr>)))))"

definition new_from_stake_meta_collection ::
    "hasher \<Rightarrow> ('x, 'h, 'd, 'y) chain_scheme \<Rightarrow> stake_meta_collection \<Rightarrow> pubkey \<Rightarrow> u64 \<Rightarrow> u64 \<Rightarrow> pubkey \<Rightarrow>
     merkle_root_generator_error + generated_merkle_tree_collection" where
  "new_from_stake_meta_collection hashv ch stake_meta_collection ncn_address epoch protocol_fee_bps
      tip_router_program_id =
    rbind (collect (generated_merkle_tree_of hashv ch (sc_tip_distribution_program_id stake_meta_collection)
        ncn_address epoch protocol_fee_bps tip_router_program_id)
      (filter (\<lambda>stake_meta. sm_maybe_tip_distribution_meta stake_meta \<noteq> None)
        (sc_stake_metas stake_meta_collection))) (\<lambda>trees.
    Inr \<lparr>gc_generated_merkle_trees = List.map_filter (\<lambda>t. t) trees,
         gc_bank_hash = sc_bank_hash stake_meta_collection, gc_epoch = sc_epoch stake_meta_collection,
         gc_slot = sc_slot stake_meta_collection\<rparr>)"

text \<open>\<open>TreeNode::from\<close> and \<open>MetaMerkleTree::new_from_generated_merkle_tree_collection\<close>.\<close>

definition tree_node_from :: "generated_merkle_tree \<Rightarrow> tree_node" where
  "tree_node_from t =
    \<lparr>tn_tip_distribution_account = gt_tip_distribution_account t, tn_proof = None,
     tn_validator_merkle_root = gt_merkle_root t, tn_max_total_claim = gt_max_total_claim t,
     tn_max_num_nodes = gt_max_num_nodes t\<rparr>"

definition new_from_generated_merkle_tree_collection ::
    "hasher \<Rightarrow> generated_merkle_tree_collection \<Rightarrow> merkle_tree_error + meta_merkle_tree" where
  "new_from_generated_merkle_tree_collection hashv c =
    meta_merkle_tree_new hashv (map tree_node_from (gc_generated_merkle_trees c))"

text \<open>\<open>get_meta_merkle_root\<close>, over the outcome of reading the bank and of writing the collection to disk: it
  returns the collection that is on disk for the claims, and the meta tree. Log lines and the removal of
  temporary files are left out.\<close>

datatype merkle_root_error =
    RE_StakeMetaGeneratorError stake_meta_generator_error
  | RE_MerkleRootGeneratorError string
  | RE_MerkleTreeError merkle_tree_error

definition get_meta_merkle_root ::
    "hasher \<Rightarrow> ('x, 'h, 'd, 'y) chain_scheme \<Rightarrow> string + 'd bank \<Rightarrow> (generated_merkle_tree_collection \<Rightarrow> string + unit) \<Rightarrow>
     pubkey \<Rightarrow> pubkey \<Rightarrow> pubkey \<Rightarrow> pubkey \<Rightarrow> u64 \<Rightarrow> u64 \<Rightarrow>
     merkle_root_error + generated_merkle_tree_collection \<times> meta_merkle_tree" where
  "get_meta_merkle_root hashv ch res save tip_distribution_program_id tip_payment_program_id
      tip_router_program_id ncn_address epoch protocol_fee_bps =
    rbind (rmap_err RE_StakeMetaGeneratorError
      (generate_stake_meta ch res tip_distribution_program_id tip_payment_program_id)) (\<lambda>stake_meta_collection.
    rbind (rmap_err (\<lambda>_. RE_MerkleRootGeneratorError ''Failed to generate merkle tree collection'')
      (new_from_stake_meta_collection hashv ch stake_meta_collection ncn_address epoch protocol_fee_bps
        tip_router_program_id)) (\<lambda>merkle_tree_coll.
    rbind (rmap_err RE_MerkleRootGeneratorError (save merkle_tree_coll)) (\<lambda>_.
    rbind (rmap_err RE_MerkleTreeError
      (new_from_generated_merkle_tree_collection hashv merkle_tree_coll)) (\<lambda>meta_merkle_tree.
    Inr (merkle_tree_coll, meta_merkle_tree)))))"

end
