(* ===== verification/Claims_Split.thy ===== *)
theory Claims_Split
  imports Generated_Trees Reward_Pool
begin

text \<open>
  What the trees of the claims promise: the claims of a validator are the shares of its tips and never
  exceed them, every claim has a proof, and the root an operator publishes vouches for all of this.
\<close>

section \<open>The split of the tips\<close>

lemma mul_div_u64_Inr:
  assumes "unat a < 2 ^ 64" and "unat b < 2 ^ 64"
  shows "mul_div_u64 a b c = Inr q \<longleftrightarrow> 0 < unat c \<and> unat q = unat a * unat b div unat c"
proof -
  have "unat a * unat b \<le> (2 ^ 64 - 1) * (2 ^ 64 - 1)" using assms by (intro mult_le_mono) simp_all
  then have "unat a * unat b < 2 ^ LENGTH(128)" by simp
  then have "checked_mul a b = Some (a * b)" "unat (a * b) = unat a * unat b"
    by (simp_all add: checked_mul_def unat_word_ariths)
  moreover from this have "unat (a * b div c) = unat a * unat b div unat c" by (simp add: unat_div_distrib)
  ultimately show ?thesis
    by (auto simp: mul_div_u64_def rbind_Inr ok_or_Inr checked_div_Some try_into_Some unat_gt_0
        intro: exI [of _ "a * b div c"])
qed

lemma split_fees_Some:
  assumes "split_fees tips p v = (v', Some r)"
  shows "unat p + unat v' + unat r = unat tips" "unat v' = min (unat v) (unat tips - unat p)"
proof -
  obtain t where t: "unat t = unat v + unat p" and split: "(if t > tips then
      (case checked_sub tips p of Some a \<Rightarrow> (a, Some 0) | None \<Rightarrow> (0, None))
      else (v, Option.bind (checked_sub tips p) (\<lambda>n. checked_sub n v))) = (v', Some r)"
    using assms by (auto simp: split_fees_def checked_add_Some split: option.splits)
  have "unat p + unat v' + unat r = unat tips \<and> unat v' = min (unat v) (unat tips - unat p)"
  proof (cases "t > tips")
    case True
    then show ?thesis using split t
      by (auto simp: checked_sub_Some word_less_nat_alt split: option.splits)
  next
    case False
    then show ?thesis using split t
      by (auto simp: checked_sub_Some word_less_nat_alt bind_eq_Some_conv)
  qed
  then show "unat p + unat v' + unat r = unat tips" "unat v' = min (unat v) (unat tips - unat p)" by auto
qed

lemma staker_claims_le:
  assumes "list_all2 (\<lambda>d n. 0 < whole \<and> f n = r * g d div whole) ds ns" and "sum_list (map g ds) \<le> whole"
  shows "sum_list (map f ns) \<le> (r :: nat)"
proof (cases "ds = []")
  case False
  then have "0 < whole" using assms(1) by (cases ds) (auto simp: list_all2_Cons1)
  moreover have "map f ns = map (\<lambda>d. r * g d div whole) ds"
    using assms(1) by (auto simp: list_all2_conv_all_nth intro: nth_equalityI)
  ultimately show ?thesis using sum_shares_le [OF assms(2)] by simp
qed (use assms(1) in simp)

lemma vec_from_stake_meta_cases:
  assumes "vec_from_stake_meta ch sm bps ncn epoch tdp trp = Inr (Some nodes)"
  obtains m p v r target protocol validator stakers where
    "sm_maybe_tip_distribution_meta sm = Some m" "nodes = protocol # validator # stakers"
    "unat p = unat (td_total_tips m) * unat bps div unat (ch_max_bps ch)"
    "unat p + unat v + unat r = unat (td_total_tips m)"
    "unat v = min (unat (td_total_tips m) * unat (td_validator_fee_bps m) div unat (ch_max_bps ch))
      (unat (td_total_tips m) - unat p)"
    "unat target = unat epoch + 1"
    "gn_claimant protocol = pda ch trp (Base_Reward_Receiver_Account ncn target)" "gn_amount protocol = p"
    "gn_claimant validator = sm_validator_node_pubkey sm" "gn_amount validator = v"
    "collect (stake_tree_node ch (td_tip_distribution_pubkey m) r (sm_total_delegated sm) target)
      (sm_delegations sm) = Inr stakers"
proof -
  obtain m where m: "sm_maybe_tip_distribution_meta sm = Some m"
    using assms by (auto simp: vec_from_stake_meta_def split: option.splits)
  obtain p v r target stakers where amounts:
    "mul_div_u64 (ucast (td_total_tips m)) (ucast bps) (ucast (ch_max_bps ch)) = Inr p"
    "mul_div_u64 (ucast (td_total_tips m)) (ucast (td_validator_fee_bps m)) (ucast (ch_max_bps ch)) = Inr v"
    "snd (split_fees (td_total_tips m) p v) = Some r" "checked_add epoch 1 = Some target"
    and claims: "nodes = hd nodes # hd (tl nodes) # stakers"
    "gn_claimant (hd nodes) = fst (rt_find_program_address ch
      [ascii ''base_reward_receiver'', ncn, to_le_bytes target] trp)" "gn_amount (hd nodes) = p"
    "gn_claimant (hd (tl nodes)) = sm_validator_node_pubkey sm"
    "gn_amount (hd (tl nodes)) = fst (split_fees (td_total_tips m) p v)"
    "collect (stake_tree_node ch (td_tip_distribution_pubkey m) r (sm_total_delegated sm) target)
      (sm_delegations sm) = Inr stakers"
    using assms by (simp add: vec_from_stake_meta_def m rbind_Inr ok_or_Inr Let_def case_prod_unfold)
      (elim exE conjE, hypsubst, simp)
  have small: "unat (ucast (td_total_tips m) :: u128) < 2 ^ 64" "unat (ucast bps :: u128) < 2 ^ 64"
    "unat (ucast (td_validator_fee_bps m) :: u128) < 2 ^ 64" "unat (ucast x :: u128) = unat (x :: u64)"
    "unat (ucast y :: u128) = unat (y :: u16)" for x y
    using unat_less_pow [of "td_total_tips m"] unat_less_pow [of bps] unat_less_pow [of "td_validator_fee_bps m"]
    by (simp_all add: unat_ucast_widen)
  have split: "split_fees (td_total_tips m) p v = (fst (split_fees (td_total_tips m) p v), Some r)"
    using amounts(3) by (metis prod.collapse)
  note fees = split_fees_Some [OF split]
  show thesis
  proof (rule that [OF m claims(1) _ fees(1) _ _ _ claims(3,4,5,6)])
    show "unat p = unat (td_total_tips m) * unat bps div unat (ch_max_bps ch)"
      using amounts(1) by (simp add: mul_div_u64_Inr [OF small(1,2)] small(4,5))
    show "unat (fst (split_fees (td_total_tips m) p v)) =
        min (unat (td_total_tips m) * unat (td_validator_fee_bps m) div unat (ch_max_bps ch))
          (unat (td_total_tips m) - unat p)"
      using amounts(2) fees(2) by (simp add: mul_div_u64_Inr [OF small(1,3)] small(4,5))
    show "unat target = unat epoch + 1" using amounts(4) by (simp add: checked_add_Some)
    show "gn_claimant (hd nodes) = pda ch trp (Base_Reward_Receiver_Account ncn target)"
      using claims(2) by (simp add: pda_def find_program_address_def base_reward_receiver_seeds_def case_prod_unfold Let_def)
  qed
qed

lemma stakers_nodes:
  assumes "collect (stake_tree_node ch tda r whole target) ds = Inr stakers"
  shows "list_all2 (\<lambda>d n. 0 < unat whole \<and>
    gn_claimant n = (if target > 737 then dg_stake_account_pubkey d else dg_staker_pubkey d) \<and>
    unat (gn_amount n) = unat (dg_lamports_delegated d) * unat r div unat whole) ds stakers"
proof -
  have small: "unat (ucast x :: u128) < 2 ^ 64" "unat (ucast x :: u128) = unat x" for x :: u64
    using unat_less_pow [of x] by (simp_all add: unat_ucast_widen)
  show ?thesis
    using assms unfolding collect_Inr
    by (rule list_all2_mono)
      (auto simp: stake_tree_node_def rbind_Inr mul_div_u64_Inr [OF small(1) small(1)] small(2) Let_def case_prod_unfold)
qed

lemma claims_within_tips:
  assumes "vec_from_stake_meta ch sm bps ncn epoch tdp trp = Inr (Some nodes)"
    and "sum_list (map (unat \<circ> dg_lamports_delegated) (sm_delegations sm)) \<le> unat (sm_total_delegated sm)"
    and "sm_maybe_tip_distribution_meta sm = Some m"
  shows "sum_list (map (unat \<circ> gn_amount) nodes) \<le> unat (td_total_tips m)"
  using assms(1)
proof (cases rule: vec_from_stake_meta_cases)
  case (1 m' p v r target protocol validator stakers)
  have "sum_list (map (unat \<circ> gn_amount) stakers) \<le> unat r"
    using stakers_nodes [OF 1(11)]
    by (intro staker_claims_le [OF _ assms(2)]) (auto elim!: list_all2_mono simp: mult.commute)
  then show ?thesis using 1(1,2,4,8,10) assms(3) by simp
qed

text \<open>C13. The tips of a validator are split exactly: the tip router gets the floored protocol fee, at the
  address the program pays rewards from in the next epoch; the validator its floored commission, cut to what
  is left; each delegation its floored share of the rest by stake. Together the claims never exceed the tips.\<close>

theorem tips_split:
  assumes "vec_from_stake_meta ch sm bps ncn epoch tdp trp = Inr (Some nodes)"
    and "sum_list (map (unat \<circ> dg_lamports_delegated) (sm_delegations sm)) \<le> unat (sm_total_delegated sm)"
  shows "\<exists>m protocol validator stakers target rest. sm_maybe_tip_distribution_meta sm = Some m \<and>
    nodes = protocol # validator # stakers \<and> unat target = unat epoch + 1 \<and>
    gn_claimant protocol = pda ch trp (Base_Reward_Receiver_Account ncn target) \<and>
    unat (gn_amount protocol) = unat (td_total_tips m) * unat bps div unat (ch_max_bps ch) \<and>
    gn_claimant validator = sm_validator_node_pubkey sm \<and>
    unat (gn_amount validator) = min (unat (td_total_tips m) * unat (td_validator_fee_bps m) div unat (ch_max_bps ch))
      (unat (td_total_tips m) - unat (gn_amount protocol)) \<and>
    unat (gn_amount protocol) + unat (gn_amount validator) + rest = unat (td_total_tips m) \<and>
    list_all2 (\<lambda>d n. gn_claimant n = (if target > 737 then dg_stake_account_pubkey d else dg_staker_pubkey d) \<and>
      unat (gn_amount n) = unat (dg_lamports_delegated d) * rest div unat (sm_total_delegated sm))
      (sm_delegations sm) stakers \<and>
    sum_list (map (unat \<circ> gn_amount) nodes) \<le> unat (td_total_tips m)"
  using assms(1)
proof (cases rule: vec_from_stake_meta_cases)
  case (1 m p v r target protocol validator stakers)
  then show ?thesis using claims_within_tips [OF assms 1(1)] stakers_nodes [OF 1(11)]
    by (intro exI [of _ m] exI [of _ protocol] exI [of _ validator] exI [of _ stakers] exI [of _ target]
        exI [of _ "unat r"]) (auto elim!: list_all2_mono)
qed

end
