(* ===== verification/Published_Root.thy ===== *)
theory Published_Root
  imports Claims_Split
begin

text \<open>
  From the bank to the root that is voted on: the root vouches for claims the tips cover, and every operator
  that sees the same bank computes the same root, in whatever order its hash maps are iterated.
\<close>

section \<open>One tree\<close>

lemma generated_merkle_tree_of_cases:
  assumes "generated_merkle_tree_of hashv ch tdp ncn epoch bps trp sm = Inr (Some t)"
  obtains m nodes where "sm_maybe_tip_distribution_meta sm = Some m"
    "vec_from_stake_meta ch sm bps ncn epoch tdp trp = Inr (Some nodes)"
    "gt_tip_distribution_account t = td_tip_distribution_pubkey m" "gt_max_total_claim t = td_total_tips m"
    "gt_max_num_nodes t = of_nat (length (gt_tree_nodes t))"
    "map (gn_proof_update (\<lambda>_. None)) (gt_tree_nodes t) = map (gn_proof_update (\<lambda>_. None)) nodes"
    "\<forall>c \<in> set (gt_tree_nodes t). \<exists>prf. gn_proof c = Some prf \<and>
      verify hashv prf (gt_merkle_root t) (hash_leaf hashv (generated_tree_node_hash hashv c))"
proof -
  obtain nodes m where m: "sm_maybe_tip_distribution_meta sm = Some m"
    and nodes: "vec_from_stake_meta ch sm bps ncn epoch tdp trp = Inr (Some nodes)"
    using assms by (auto simp: generated_merkle_tree_of_def rbind_Inr ok_or_Inr Let_def split: option.splits)
  let ?items = "map (generated_tree_node_hash hashv) nodes"
  let ?tree = "merkle_tree_new hashv ?items True"
  let ?loop = "rfold (\<lambda>i ns. rbind (ok_or GeneratorPanic (get_proof ?tree i)) (\<lambda>prf.
      Inr (ns[i := (ns ! i)\<lparr>gn_proof := Some prf\<rparr>]))) [0..<length nodes] nodes"
  obtain ns root where loop: "?loop = Inr ns" and root: "get_root ?tree = Some root"
    and t: "t = \<lparr>gt_tip_distribution_account = td_tip_distribution_pubkey m,
      gt_merkle_root_upload_authority = td_merkle_root_upload_authority m, gt_merkle_root = root,
      gt_tree_nodes = ns, gt_max_total_claim = td_total_tips m, gt_max_num_nodes = of_nat (length nodes)\<rparr>"
    using assms by (auto simp: generated_merkle_tree_of_def m nodes rbind_Inr ok_or_Inr Let_def)
  have proofs: "\<exists>prf. get_proof ?tree i = Some prf \<and>
      verify hashv prf root (hash_leaf hashv (generated_tree_node_hash hashv (nodes ! i)))" if "i < length nodes" for i
    using get_proof_accepted [of i ?items hashv] that root by auto
  then have "get_proof ?tree i = Some (the (get_proof ?tree i))" if "i < length nodes" for i
    using that by fastforce
  from rfold_attach [where ns = nodes and n = "length nodes" and get = "get_proof ?tree"
      and p = "\<lambda>i. the (get_proof ?tree i)" and g = "\<lambda>prf n. n\<lparr>gn_proof := Some prf\<rparr>" and e = GeneratorPanic,
      OF this order_refl]
  have ns: "ns = map (\<lambda>i. (nodes ! i)\<lparr>gn_proof := Some (the (get_proof ?tree i))\<rparr>) [0..<length nodes]"
    using loop by simp
  have "\<forall>c \<in> set ns. \<exists>prf. gn_proof c = Some prf \<and>
      verify hashv prf root (hash_leaf hashv (generated_tree_node_hash hashv c))"
    using proofs by (fastforce simp: ns generated_tree_node_hash_def)
  moreover have "map (gn_proof_update (\<lambda>_. None)) ns = map (gn_proof_update (\<lambda>_. None)) nodes"
    by (rule nth_equalityI) (simp_all add: ns)
  ultimately show thesis by (intro that [OF m nodes]) (simp_all add: t ns)
qed

text \<open>Nothing panics while a tree is built: it exists as soon as the claims do.\<close>

lemma generated_merkle_tree_of_total:
  assumes "sm_maybe_tip_distribution_meta sm = Some m"
    and vec: "vec_from_stake_meta ch sm bps ncn epoch tdp trp = Inr (Some nodes)"
  shows "\<exists>g. generated_merkle_tree_of hashv ch tdp ncn epoch bps trp sm = Inr (Some g)"
proof -
  let ?items = "map (generated_tree_node_hash hashv) nodes"
  let ?tree = "merkle_tree_new hashv ?items True"
  have "nodes \<noteq> []" using vec by (cases rule: vec_from_stake_meta_cases) simp
  then obtain root where root: "get_root ?tree = Some root" using get_proof_accepted [of 0 ?items hashv] by auto
  have "\<exists>prf. get_proof ?tree i = Some prf" if "i < length nodes" for i
    using get_proof_accepted [of i ?items hashv] that by auto
  then have "get_proof ?tree i = Some (the (get_proof ?tree i))" if "i < length nodes" for i
    using that by fastforce
  from rfold_attach [where ns = nodes and n = "length nodes" and get = "get_proof ?tree"
      and p = "\<lambda>i. the (get_proof ?tree i)" and g = "\<lambda>prf n. n\<lparr>gn_proof := Some prf\<rparr>" and e = GeneratorPanic,
      OF this order_refl]
  show ?thesis by (simp add: generated_merkle_tree_of_def vec assms(1) Let_def root)
qed

lemma new_from_stake_meta_collection_trees:
  assumes "new_from_stake_meta_collection hashv ch coll ncn epoch bps trp = Inr c"
    and "t \<in> set (gc_generated_merkle_trees c)"
  shows "\<exists>sm \<in> set (sc_stake_metas coll).
    generated_merkle_tree_of hashv ch (sc_tip_distribution_program_id coll) ncn epoch bps trp sm = Inr (Some t)"
proof -
  obtain trees where "collect (generated_merkle_tree_of hashv ch (sc_tip_distribution_program_id coll)
      ncn epoch bps trp)
      (filter (\<lambda>sm. sm_maybe_tip_distribution_meta sm \<noteq> None) (sc_stake_metas coll)) = Inr trees"
    and "Some t \<in> set trees"
    using assms by (auto simp: new_from_stake_meta_collection_def rbind_Inr map_filter_def)
  from collect_member [OF this] show ?thesis by auto
qed

section \<open>The stake metas\<close>

lemma stake_meta_of_cases:
  assumes "stake_meta_of bank groups e = Inr ms" and "sm \<in> set ms"
  shows "stake_meta_key sm = fst (fst e)" "ms = [sm]"
    "sum_list (map (unat \<circ> dg_lamports_delegated) (sm_delegations sm)) = unat (sm_total_delegated sm)"
proof -
  obtain ds tot m where "checked_sum StakeMetaPanic (map dg_lamports_delegated ds) = Inr tot"
    and sm: "sm = \<lparr>sm_validator_vote_account = fst (fst e), sm_validator_node_pubkey = vs_node_pubkey (snd (fst e)),
      sm_maybe_tip_distribution_meta = m, sm_delegations = sort_key delegation_key ds,
      sm_total_delegated = tot, sm_commission = vs_commission (snd (fst e))\<rparr>" and ms: "ms = [sm]"
    using assms by (cases e) (auto simp: stake_meta_of_def rbind_Inr split: option.splits prod.splits)
  then have tot: "unat tot = sum_list (map (unat \<circ> dg_lamports_delegated) ds)"
    by (simp add: checked_sum_Inr)
  show "stake_meta_key sm = fst (fst e)" by (simp add: sm stake_meta_key_def)
  show "ms = [sm]" by (rule ms)
  have "mset (map (unat \<circ> dg_lamports_delegated) (sort_key delegation_key ds)) =
      mset (map (unat \<circ> dg_lamports_delegated) ds)" by simp
  then have "sum_list (map (unat \<circ> dg_lamports_delegated) (sort_key delegation_key ds)) =
      sum_list (map (unat \<circ> dg_lamports_delegated) ds)" by (metis sum_mset_sum_list)
  then show "sum_list (map (unat \<circ> dg_lamports_delegated) (sm_delegations sm)) = unat (sm_total_delegated sm)"
    by (simp add: sm tot)
qed

lemma generate_stake_meta_collection_cases:
  assumes "generate_stake_meta_collection ch bank tdp tpp = Inr coll"
  obtains votes groups config balances excess n b fee entries mss where
    "bk_is_frozen bank" "bk_epoch_vote_accounts bank (bk_epoch bank) = Some votes"
    "group_delegations_by_voter_pubkey ch (bk_stake_delegations bank) bank = Inr groups"
    "(case bk_get_account bank (fst (rt_find_program_address ch [ascii ''CONFIG_ACCOUNT''] tpp)) of
        Some config_account \<Rightarrow> rmap_err AnchorError (ch_tip_payment_config ch (ba_data config_account))
      | None \<Rightarrow> Inl (AnchorError AccountNotInitialized)) = Inr config"
    "collect (tip_balance bank) (snd (derive_tip_payment_pubkeys ch tpp)) = Inr balances"
    "checked_sum StakeMetaPanic balances = Inr excess"
    "checked_mul excess (tp_block_builder_commission_pct config) = Some n"
    "checked_div n 100 = Some b" "checked_sub excess b = Some fee"
    "collect (\<lambda>(vote_pubkey, _, vote_account).
        rbind (find_tda ch bank tdp (tp_tip_receiver config) fee vote_pubkey)
          (\<lambda>tda. Inr ((vote_pubkey, vote_account), tda))) votes = Inr entries"
    "collect (stake_meta_of bank groups) entries = Inr mss"
    "coll = \<lparr>sc_stake_metas = sort_key stake_meta_key (concat mss), sc_tip_distribution_program_id = tdp,
      sc_bank_hash = bk_hash bank, sc_epoch = bk_epoch bank, sc_slot = bk_slot bank\<rparr>"
  using assms unfolding generate_stake_meta_collection_def Let_def rbind_Inr ok_or_Inr fail_if_Inr
  by (elim exE conjE) (rule that, simp_all only: not_not sum.inject, simp)

lemma generate_stake_meta_collection_total:
  assumes "generate_stake_meta_collection ch bank tdp tpp = Inr coll" and "sm \<in> set (sc_stake_metas coll)"
  shows "sum_list (map (unat \<circ> dg_lamports_delegated) (sm_delegations sm)) = unat (sm_total_delegated sm)"
  using assms(1)
proof (cases rule: generate_stake_meta_collection_cases)
  case (1 votes groups config balances excess n b fee entries mss)
  then have "sm \<in> set (concat mss)" using assms(2) by simp
  then obtain ms where "sm \<in> set ms" "ms \<in> set mss" by auto
  then obtain e where "stake_meta_of bank groups e = Inr ms"
    using collect_member [OF 1(11)] by blast
  then show ?thesis using \<open>sm \<in> set ms\<close> by (rule stake_meta_of_cases(3))
qed

section \<open>The tips\<close>

text \<open>What the bank holds for a tip distribution account: what is above its rent and, for the current receiver of tips,
  what is above the rent of the eight tip accounts after the commission of the block builder.\<close>

definition uncranked_tips :: "('x, 'h, 'd, 'y) chain_scheme \<Rightarrow> 'd bank \<Rightarrow> pubkey \<Rightarrow> tip_payment_config \<Rightarrow> nat" where
  "uncranked_tips ch bank tip_payment_program_id config =
    (let above_rent = (\<lambda>key. case bk_get_account bank key of None \<Rightarrow> 0 | Some account \<Rightarrow>
           unat (ba_lamports account) - unat (bk_minimum_balance_for_rent_exemption bank (length (ba_data account))));
         tips = sum_list (map above_rent (snd (derive_tip_payment_pubkeys ch tip_payment_program_id))) in
     tips - tips * unat (tp_block_builder_commission_pct config) div 100)"

definition tips_of_account ::
    "('x, 'h, 'd, 'y) chain_scheme \<Rightarrow> 'd bank \<Rightarrow> pubkey \<Rightarrow> pubkey \<Rightarrow> pubkey \<Rightarrow> u64 \<Rightarrow> bool" where
  "tips_of_account ch bank tip_distribution_program_id tip_payment_program_id key tips \<longleftrightarrow>
    (\<exists>vote account config_account config.
      key = fst (derive_tip_distribution_account_address ch tip_distribution_program_id vote (bk_epoch bank)) \<and>
      bk_get_account bank key = Some account \<and>
      bk_get_account bank (fst (rt_find_program_address ch [ascii ''CONFIG_ACCOUNT''] tip_payment_program_id)) = Some config_account \<and>
      ch_tip_payment_config ch (ba_data config_account) = Inr config \<and>
      unat tips + unat (bk_minimum_balance_for_rent_exemption bank (length (ba_data account))) =
        unat (ba_lamports account) +
        (if key = tp_tip_receiver config then uncranked_tips ch bank tip_payment_program_id config else 0))"

lemma tip_balances_above_rent:
  assumes "collect (tip_balance bank) keys = Inr balances"
  shows "sum_list (map unat balances) = sum_list (map (\<lambda>key. case bk_get_account bank key of None \<Rightarrow> 0 | Some account \<Rightarrow>
    unat (ba_lamports account) - unat (bk_minimum_balance_for_rent_exemption bank (length (ba_data account)))) keys)"
  using assms unfolding collect_Inr
  by (induction rule: list_all2_induct) (auto simp: tip_balance_def rbind_Inr ok_or_Inr checked_simps)

lemma find_tda_lamports:
  assumes "find_tda ch bank tdp receiver fee vote = Inr (Some w)"
  shows "\<exists>account. bk_get_account bank (tw_tip_distribution_pubkey w) = Some account \<and>
    tw_tip_distribution_pubkey w = fst (derive_tip_distribution_account_address ch tdp vote (bk_epoch bank)) \<and>
    ba_data (tw_account_data w) = ba_data account \<and>
    unat (ba_lamports (tw_account_data w)) = unat (ba_lamports account) +
      (if tw_tip_distribution_pubkey w = receiver then unat fee else 0)"
  using assms unfolding find_tda_def Let_def
  by (auto simp: rbind_Inr ok_or_Inr checked_simps split: option.splits if_splits)

lemma stake_meta_tips:
  assumes "stake_meta_of bank groups ((vote, st), maybe_tda) = Inr ms" and "sm \<in> set ms"
    and "sm_maybe_tip_distribution_meta sm = Some m"
  shows "\<exists>w. maybe_tda = Some w \<and> td_tip_distribution_pubkey m = tw_tip_distribution_pubkey w \<and>
    unat (td_total_tips m) + unat (bk_minimum_balance_for_rent_exemption bank (length (ba_data (tw_account_data w)))) =
      unat (ba_lamports (tw_account_data w))"
  using assms
  by (auto simp: stake_meta_of_def rbind_Inr ok_or_Inr checked_simps tip_distribution_account_from_tda_wrapper_def
      split: option.splits)

lemma generate_stake_meta_collection_tips:
  assumes "generate_stake_meta_collection ch bank tdp tpp = Inr coll" and "sm \<in> set (sc_stake_metas coll)"
    and "sm_maybe_tip_distribution_meta sm = Some m"
  shows "tips_of_account ch bank tdp tpp (td_tip_distribution_pubkey m) (td_total_tips m)"
  using assms(1)
proof (cases rule: generate_stake_meta_collection_cases)
  case (1 votes groups config balances excess n b fee entries mss)
  then have "sm \<in> set (concat mss)" using assms(2) by simp
  then obtain ms where ms: "sm \<in> set ms" "ms \<in> set mss" by auto
  then obtain e where e: "e \<in> set entries" "stake_meta_of bank groups e = Inr ms" using collect_member [OF 1(11)] by blast
  obtain vote st tda where e': "e = ((vote, st), tda)" by (cases e) auto
  obtain w where w: "tda = Some w" "td_tip_distribution_pubkey m = tw_tip_distribution_pubkey w"
    "unat (td_total_tips m) + unat (bk_minimum_balance_for_rent_exemption bank (length (ba_data (tw_account_data w)))) =
      unat (ba_lamports (tw_account_data w))"
    using stake_meta_tips [OF e(2) [unfolded e'] ms(1) assms(3)] by blast
  have "find_tda ch bank tdp (tp_tip_receiver config) fee vote = Inr (Some w)"
    using collect_member [OF 1(10) e(1)] by (auto simp: e' w(1) rbind_Inr)
  note found = find_tda_lamports [OF this]
  have "unat fee = uncranked_tips ch bank tpp config"
  proof -
    have "unat excess = sum_list (map unat balances)" using 1(6) by (simp add: checked_sum_Inr)
    moreover have "unat fee = unat excess - unat excess * unat (tp_block_builder_commission_pct config) div 100"
      using 1(7-9) by (simp add: checked_simps)
    ultimately show ?thesis by (simp add: uncranked_tips_def Let_def tip_balances_above_rent [OF 1(5)])
  qed
  moreover obtain config_account where "bk_get_account bank (fst (rt_find_program_address ch [ascii ''CONFIG_ACCOUNT''] tpp)) =
      Some config_account" "ch_tip_payment_config ch (ba_data config_account) = Inr config"
    using 1(4) by (auto simp: rmap_err_Inr split: option.splits)
  moreover obtain account where "bk_get_account bank (tw_tip_distribution_pubkey w) = Some account"
    "tw_tip_distribution_pubkey w = fst (derive_tip_distribution_account_address ch tdp vote (bk_epoch bank))"
    "ba_data (tw_account_data w) = ba_data account"
    "unat (ba_lamports (tw_account_data w)) = unat (ba_lamports account) +
      (if tw_tip_distribution_pubkey w = tp_tip_receiver config then unat fee else 0)"
    using found by blast
  ultimately show ?thesis
    using w(2,3) unfolding tips_of_account_def
    by (intro exI [of _ vote] exI [of _ account] exI [of _ config_account] exI [of _ config]) simp
qed

section \<open>The order of the hash maps\<close>

text \<open>The same bank, its hash maps iterated in another order; a hash map has each key once.\<close>

definition reordered :: "'d bank \<Rightarrow> 'd bank \<Rightarrow> bool" where
  "reordered bank bank' \<longleftrightarrow>
    bank' = bank\<lparr>bk_epoch_vote_accounts := bk_epoch_vote_accounts bank', bk_stake_delegations := bk_stake_delegations bank'\<rparr> \<and>
    mset (bk_stake_delegations bank) = mset (bk_stake_delegations bank') \<and>
    distinct (map fst (bk_stake_delegations bank)) \<and>
    rel_option (\<lambda>votes votes'. mset votes = mset votes' \<and> distinct (map fst votes))
      (bk_epoch_vote_accounts bank (bk_epoch bank)) (bk_epoch_vote_accounts bank' (bk_epoch bank))"

definition same_groups :: "(pubkey \<Rightarrow> delegation list option) \<Rightarrow> (pubkey \<Rightarrow> delegation list option) \<Rightarrow> bool" where
  "same_groups g g' \<longleftrightarrow> (\<forall>voter. rel_option (\<lambda>ds ds'. mset ds = mset ds' \<and>
    distinct (map dg_stake_account_pubkey ds)) (g voter) (g' voter))"

lemma reordered_fields:
  assumes "reordered bank bank'"
  shows "bk_is_frozen bank' = bk_is_frozen bank" "bk_epoch bank' = bk_epoch bank" "bk_slot bank' = bk_slot bank"
    "bk_hash bank' = bk_hash bank" "bk_get_account bank' = bk_get_account bank"
    "bk_new_warmup_cooldown_rate_epoch bank' = bk_new_warmup_cooldown_rate_epoch bank"
    "bk_minimum_balance_for_rent_exemption bank' = bk_minimum_balance_for_rent_exemption bank"
proof -
  have eq: "bank' = bank\<lparr>bk_epoch_vote_accounts := bk_epoch_vote_accounts bank',
      bk_stake_delegations := bk_stake_delegations bank'\<rparr>"
    using assms by (simp add: reordered_def)
  show "bk_is_frozen bank' = bk_is_frozen bank" "bk_epoch bank' = bk_epoch bank" "bk_slot bank' = bk_slot bank"
    "bk_hash bank' = bk_hash bank" "bk_get_account bank' = bk_get_account bank"
    "bk_new_warmup_cooldown_rate_epoch bank' = bk_new_warmup_cooldown_rate_epoch bank"
    "bk_minimum_balance_for_rent_exemption bank' = bk_minimum_balance_for_rent_exemption bank"
    by (subst eq, simp)+
qed

lemma same_bank_reads:
  assumes "reordered bank bank'"
  shows "stake_is_active ch bank' = stake_is_active ch bank" "tip_balance bank' = tip_balance bank"
    "find_tda ch bank' = find_tda ch bank" "stake_meta_of bank' = stake_meta_of bank"
  unfolding stake_is_active_def [abs_def] tip_balance_def [abs_def] find_tda_def [abs_def] stake_meta_of_def [abs_def]
    reordered_fields [OF assms] by (rule refl)+

lemma groups_reordered:
  assumes "group_delegations_by_voter_pubkey ch ds bank = Inr g" and "mset ds = mset ds'"
    and "distinct (map fst ds)"
  obtains g' where "group_delegations_by_voter_pubkey ch ds' bank = Inr g'" "same_groups g g'"
proof -
  let ?voter = "\<lambda>voter entry. sa_voter_pubkey (snd entry) = voter"
  let ?group = "\<lambda>active voter. let group = filter (?voter voter) active in
      if group = [] then None else Some (map delegation_from_stake_account group)"
  obtain active where active: "rfilter (stake_is_active ch bank) ds = Inr active" and g: "g = ?group active"
    using assms(1) by (auto simp: group_delegations_by_voter_pubkey_def rbind_Inr)
  note same = rfilter_mset [OF active assms(2)]
  let ?active' = "filter (\<lambda>x. stake_is_active ch bank x = Inr True) ds'"
  have "active = filter (\<lambda>x. stake_is_active ch bank x = Inr True) ds" using active by (simp add: rfilter_Inr)
  then have once: "distinct (map fst active)" using assms(3) by (simp add: distinct_map_filter)
  have key: "dg_stake_account_pubkey (delegation_from_stake_account e) = fst e" for e
    by (cases e) (simp add: delegation_from_stake_account_def)
  have "rel_option (\<lambda>ds ds'. mset ds = mset ds' \<and> distinct (map dg_stake_account_pubkey ds))
      (?group active voter) (?group ?active' voter)" for voter
  proof -
    have "mset (filter (?voter voter) active) = mset (filter (?voter voter) ?active')"
      using same(2) by (metis mset_filter)
    moreover from this have "filter (?voter voter) active = [] \<longleftrightarrow> filter (?voter voter) ?active' = []"
      by (metis mset_zero_iff)
    moreover have "distinct (map fst (filter (?voter voter) active))" using once by (rule distinct_map_filter)
    ultimately show ?thesis by (auto simp: Let_def o_def key)
  qed
  then have "same_groups g (?group ?active')" unfolding same_groups_def g by blast
  moreover have "group_delegations_by_voter_pubkey ch ds' bank = Inr (?group ?active')"
    by (simp add: group_delegations_by_voter_pubkey_def same(1))
  ultimately show thesis by (rule that [rotated])
qed

lemma stake_meta_of_reordered:
  assumes "same_groups g g'" and "stake_meta_of bank g e = Inr ms"
  shows "stake_meta_of bank g' e = Inr ms"
proof -
  have rel: "rel_option (\<lambda>ds ds'. mset ds = mset ds' \<and> distinct (map dg_stake_account_pubkey ds))
      (g (fst (fst e))) (g' (fst (fst e)))" using assms(1) by (simp add: same_groups_def)
  show ?thesis
  proof (cases "g (fst (fst e))")
    case None
    then show ?thesis using rel assms(2) by (cases e) (auto simp: stake_meta_of_def split: prod.splits)
  next
    case (Some ds)
    then obtain ds' where ds': "g' (fst (fst e)) = Some ds'" and same: "mset ds = mset ds'"
      and "distinct (map dg_stake_account_pubkey ds)" using rel by (auto simp: option_rel_Some1)
    then have "distinct (map delegation_key ds)"
      by (metis (mono_tags, lifting) delegation_key_def distinct_map fst_conv inj_on_def)
    then have sorted: "sort_key delegation_key ds' = sort_key delegation_key ds"
      by (rule sort_key_mset [OF same, symmetric])
    have total: "checked_sum StakeMetaPanic (map dg_lamports_delegated ds) = Inr n \<Longrightarrow>
        checked_sum StakeMetaPanic (map dg_lamports_delegated ds') = Inr n" for n
      using same by (elim checked_sum_mset) simp
    show ?thesis using assms(2) Some ds' total
      by (cases e) (auto simp: stake_meta_of_def rbind_Inr sorted split: prod.splits)
  qed
qed

lemma stake_metas_distinct:
  assumes "list_all2 (\<lambda>e ms. stake_meta_of bank g e = Inr ms) entries mss" and "distinct (map (fst \<circ> fst) entries)"
  shows "distinct (map stake_meta_key (concat mss)) \<and>
    set (map stake_meta_key (concat mss)) \<subseteq> set (map (fst \<circ> fst) entries)"
  using assms
proof (induction rule: list_all2_induct)
  case (Cons e entries ms mss)
  have "ms = [] \<or> (\<exists>sm. ms = [sm] \<and> stake_meta_key sm = fst (fst e))"
    using stake_meta_of_cases(1,2) [OF Cons.hyps(1)] by (cases ms) (auto dest: meta_spec)
  moreover have IH: "distinct (map stake_meta_key (concat mss))"
    "set (map stake_meta_key (concat mss)) \<subseteq> set (map (fst \<circ> fst) entries)"
    using Cons.IH Cons.prems by simp_all
  moreover have "fst (fst e) \<notin> set (map stake_meta_key (concat mss))"
    using subsetD [OF IH(2), of "fst (fst e)"] Cons.prems by auto
  ultimately show ?case by auto
qed simp

text \<open>The stake metas do not depend on the order.\<close>

lemma generate_stake_meta_collection_reordered:
  assumes gen: "generate_stake_meta_collection ch bank tdp tpp = Inr coll" and same: "reordered bank bank'"
  shows "generate_stake_meta_collection ch bank' tdp tpp = Inr coll"
  using gen
proof (cases rule: generate_stake_meta_collection_cases)
  case (1 votes groups config balances excess n b fee entries mss)
  let ?pair = "\<lambda>(vote_pubkey, _, vote_account). rbind (find_tda ch bank tdp (tp_tip_receiver config) fee vote_pubkey)
      (\<lambda>tda. Inr ((vote_pubkey, vote_account), tda))"
  obtain votes' where votes': "bk_epoch_vote_accounts bank' (bk_epoch bank) = Some votes'"
    and votes: "mset votes = mset votes'" "distinct (map fst votes)"
    using same 1(2) by (auto simp: reordered_def option_rel_Some1)
  obtain groups' where groups': "group_delegations_by_voter_pubkey ch (bk_stake_delegations bank') bank = Inr groups'"
    and g: "same_groups groups groups'"
    using groups_reordered [OF 1(3)] same by (auto simp: reordered_def)
  obtain entries' where entries': "collect ?pair votes' = Inr entries'" and "mset entries = mset entries'"
    using collect_mset [OF 1(10) votes(1)] by blast
  moreover have "collect (stake_meta_of bank groups') entries = Inr mss"
    using 1(11) unfolding collect_Inr by (rule list_all2_mono) (rule stake_meta_of_reordered [OF g])
  ultimately obtain mss' where mss': "collect (stake_meta_of bank groups') entries' = Inr mss'" and "mset mss = mset mss'"
    using collect_mset by blast
  then have "mset (concat mss) = mset (concat mss')" by (metis mset_concat mset_map sum_mset_sum_list)
  have "list_all2 (\<lambda>v e. fst v = fst (fst e)) votes entries"
    using 1(10) unfolding collect_Inr by (rule list_all2_mono) (auto simp: rbind_Inr split: prod.splits)
  then have "map fst votes = map (fst \<circ> fst) entries"
    by (auto simp: list_all2_conv_all_nth intro: nth_equalityI)
  then have "distinct (map stake_meta_key (concat mss))"
    using stake_metas_distinct [OF 1(11) [unfolded collect_Inr]] votes(2) by simp
  from sort_key_mset [OF \<open>mset (concat mss) = mset (concat mss')\<close> this]
  have coll: "coll = \<lparr>sc_stake_metas = sort_key stake_meta_key (concat mss'), sc_tip_distribution_program_id = tdp,
      sc_bank_hash = bk_hash bank, sc_epoch = bk_epoch bank, sc_slot = bk_slot bank\<rparr>" using 1(12) by simp
  have grouped: "group_delegations_by_voter_pubkey ch ds bank' = group_delegations_by_voter_pubkey ch ds bank" for ds
    by (simp add: group_delegations_by_voter_pubkey_def same_bank_reads [OF same])
  show ?thesis
    unfolding generate_stake_meta_collection_def Let_def reordered_fields [OF same] same_bank_reads [OF same] grouped
    using 1(1) 1(4-9) by (simp add: votes' groups' entries' mss' coll)
qed

section \<open>The published root\<close>

lemma get_meta_merkle_root_cases:
  assumes "get_meta_merkle_root hashv ch res save tdp tpp trp ncn epoch bps = Inr (c, t)"
  obtains bank coll where "res = Inr bank" "generate_stake_meta_collection ch bank tdp tpp = Inr coll"
    "new_from_stake_meta_collection hashv ch coll ncn epoch bps trp = Inr c" "save c = Inr ()"
    "meta_merkle_tree_new hashv (map tree_node_from (gc_generated_merkle_trees c)) = Inr t"
  using assms by (auto simp: get_meta_merkle_root_def generate_stake_meta_def rbind_Inr rmap_err_Inr
      new_from_generated_merkle_tree_collection_def split: sum.splits)

text \<open>The claims of a tree on disk have proofs against its root, and never exceed its total.\<close>

definition backed :: "hasher \<Rightarrow> generated_merkle_tree \<Rightarrow> bool" where
  "backed hashv g \<longleftrightarrow> gt_max_num_nodes g = of_nat (length (gt_tree_nodes g)) \<and>
    sum_list (map (unat \<circ> gn_amount) (gt_tree_nodes g)) \<le> unat (gt_max_total_claim g) \<and>
    (\<forall>n \<in> set (gt_tree_nodes g). \<exists>prf. gn_proof n = Some prf \<and>
      verify hashv prf (gt_merkle_root g) (hash_leaf hashv (generated_tree_node_hash hashv n)))"

lemma generated_tree_backed:
  assumes "generated_merkle_tree_of hashv ch tdp ncn epoch bps trp sm = Inr (Some g)"
    and "sum_list (map (unat \<circ> dg_lamports_delegated) (sm_delegations sm)) = unat (sm_total_delegated sm)"
  shows "backed hashv g"
  using assms(1)
proof (cases rule: generated_merkle_tree_of_cases)
  case (1 m nodes)
  have "map (unat \<circ> gn_amount) (gt_tree_nodes g) = map (unat \<circ> gn_amount) nodes"
    using arg_cong [OF 1(6), of "map (unat \<circ> gn_amount)"] by (simp add: o_def)
  then show ?thesis
    using claims_within_tips [OF 1(2) eq_imp_le [OF assms(2)] 1(1)] 1(4,5,7) by (simp add: backed_def)
qed

lemma every_tree_backed:
  assumes "get_meta_merkle_root hashv ch res save tdp tpp trp ncn epoch bps = Inr (c, t)"
    and "g \<in> set (gc_generated_merkle_trees c)"
  shows "backed hashv g"
  using assms(1)
proof (cases rule: get_meta_merkle_root_cases)
  case (1 bank coll)
  show ?thesis
    using new_from_stake_meta_collection_trees [OF 1(3) assms(2)] generate_stake_meta_collection_total [OF 1(2)]
      generated_tree_backed by blast
qed

lemma every_tree_of_tips:
  assumes "get_meta_merkle_root hashv ch (Inr bank) save tdp tpp trp ncn epoch bps = Inr (c, t)"
    and "g \<in> set (gc_generated_merkle_trees c)"
  shows "tips_of_account ch bank tdp tpp (gt_tip_distribution_account g) (gt_max_total_claim g)"
  using assms(1)
proof (cases rule: get_meta_merkle_root_cases)
  case (1 b coll)
  obtain sm where sm: "sm \<in> set (sc_stake_metas coll)"
    "generated_merkle_tree_of hashv ch (sc_tip_distribution_program_id coll) ncn epoch bps trp sm = Inr (Some g)"
    using new_from_stake_meta_collection_trees [OF 1(3) assms(2)] by blast
  have coll: "generate_stake_meta_collection ch bank tdp tpp = Inr coll" using 1(1,2) by simp
  from sm(2) show ?thesis
  proof (cases rule: generated_merkle_tree_of_cases)
    case (1 m nodes)
    then show ?thesis using generate_stake_meta_collection_tips [OF coll sm(1) 1(1)] by simp
  qed
qed

lemma published_root:
  assumes "get_meta_merkle_root hashv ch res save tdp tpp trp ncn epoch bps = Inr (c, t)"
  shows "(\<forall>n \<in> set (mmt_tree_nodes t). \<exists>g \<in> set (gc_generated_merkle_trees c). \<exists>prf.
      n = (tree_node_from g)\<lparr>tn_proof := Some prf\<rparr> \<and> backed hashv g \<and>
      verify hashv prf (mmt_merkle_root t) (hashv [LEAF_PREFIX, tree_node_hash hashv n])) \<and>
    (\<forall>g \<in> set (gc_generated_merkle_trees c). \<exists>n \<in> set (mmt_tree_nodes t).
      n = (tree_node_from g)\<lparr>tn_proof := tn_proof n\<rparr>)"
  using assms
proof (cases rule: get_meta_merkle_root_cases)
  case (1 bank coll)
  let ?ns = "map tree_node_from (gc_generated_merkle_trees c)"
  define s where "s = sort_key (tree_node_hash hashv) ?ns"
  define leaves where "leaves = map (hash_leaf hashv) (map (tree_node_hash hashv) s)"
  have backed: "backed hashv g" if "g \<in> set (gc_generated_merkle_trees c)" for g
    using every_tree_backed [OF assms that] .
  have t: "t = \<lparr>mmt_merkle_root = last (last (levels hashv True leaves)), mmt_num_nodes = of_nat (length ?ns),
      mmt_tree_nodes = map (\<lambda>i. (s ! i)\<lparr>tn_proof := Some (siblings hashv leaves i)\<rparr>) [0..<length s]\<rparr>"
    using meta_merkle_tree_new_eq [OF meta_merkle_tree_new_Inr [OF 1(5)], of hashv] 1(5)
    by (simp add: s_def leaves_def)
  have set_s: "set s = tree_node_from ` set (gc_generated_merkle_trees c)" by (simp add: s_def)
  have nodes: "set (mmt_tree_nodes t) = (\<lambda>i. (s ! i)\<lparr>tn_proof := Some (siblings hashv leaves i)\<rparr>) ` {..<length s}"
    by (auto simp: t)
  have leaf: "\<exists>g \<in> set (gc_generated_merkle_trees c). s ! i = tree_node_from g" if "i < length s" for i
    using nth_mem [OF that] unfolding set_s by blast
  have proofs: "verify hashv (siblings hashv leaves i) (mmt_merkle_root t)
      (hashv [LEAF_PREFIX, tree_node_hash hashv (s ! i)])" if "i < length s" for i
    using foldl_siblings [of i leaves hashv] that by (simp add: verify_def leaves_def hash_leaf_def t)
  show ?thesis
  proof (intro conjI ballI)
    fix n assume "n \<in> set (mmt_tree_nodes t)"
    then obtain i where i: "i < length s" "n = (s ! i)\<lparr>tn_proof := Some (siblings hashv leaves i)\<rparr>"
      by (auto simp: nodes)
    obtain g where g: "g \<in> set (gc_generated_merkle_trees c)" "s ! i = tree_node_from g" using leaf [OF i(1)] by blast
    then show "\<exists>g \<in> set (gc_generated_merkle_trees c). \<exists>prf. n = (tree_node_from g)\<lparr>tn_proof := Some prf\<rparr> \<and>
        backed hashv g \<and> verify hashv prf (mmt_merkle_root t) (hashv [LEAF_PREFIX, tree_node_hash hashv n])"
      using proofs [OF i(1)] backed i(2)
      by (intro bexI [of _ g] exI [of _ "siblings hashv leaves i"]) simp_all
  next
    fix g assume "g \<in> set (gc_generated_merkle_trees c)"
    then obtain i where "i < length s" "s ! i = tree_node_from g" unfolding set_s [symmetric] in_set_conv_nth
      by (metis set_s imageI in_set_conv_nth)
    then show "\<exists>n \<in> set (mmt_tree_nodes t). n = (tree_node_from g)\<lparr>tn_proof := tn_proof n\<rparr>"
      unfolding nodes by force
  qed
qed

text \<open>C9. The root an operator publishes vouches for claims that the tips cover: every leaf of the meta tree has
  a proof for that root and is a tree of the collection kept on disk, with the claims of this tree adding up
  to at most the total the leaf allows and each of them provable against the root in the leaf; every tree of the
  collection is a leaf; and the total of each tree is the tips that the bank holds for its tip distribution account,
  above the rent and, for the current receiver, with the tips still to be cranked less the block builder's part.\<close>

theorem published_root_backed:
  assumes "get_meta_merkle_root hashv ch (Inr bank) save tdp tpp trp ncn epoch bps = Inr (c, t)"
  shows "(\<forall>n \<in> set (mmt_tree_nodes t). \<exists>g \<in> set (gc_generated_merkle_trees c). \<exists>prf.
      n = (tree_node_from g)\<lparr>tn_proof := Some prf\<rparr> \<and> backed hashv g \<and>
      verify hashv prf (mmt_merkle_root t) (hashv [LEAF_PREFIX, tree_node_hash hashv n])) \<and>
    (\<forall>g \<in> set (gc_generated_merkle_trees c).
      tips_of_account ch bank tdp tpp (gt_tip_distribution_account g) (gt_max_total_claim g) \<and>
      (\<exists>n \<in> set (mmt_tree_nodes t). n = (tree_node_from g)\<lparr>tn_proof := tn_proof n\<rparr>))"
  using published_root [OF assms] every_tree_of_tips [OF assms] by blast

text \<open>C10. Operators that see the same bank publish the same root: the collection, the meta tree, its root and all
  its proofs are the same, in whatever order their hash maps of validators and of delegations are iterated.\<close>

theorem operators_agree:
  assumes "get_meta_merkle_root hashv ch (Inr bank) save tdp tpp trp ncn epoch bps = Inr r"
    and "reordered bank bank'"
  shows "get_meta_merkle_root hashv ch (Inr bank') save tdp tpp trp ncn epoch bps = Inr r"
proof (cases r)
  case (Pair c t)
  show ?thesis using assms(1) unfolding Pair
  proof (cases rule: get_meta_merkle_root_cases)
    case (1 b coll)
    have "generate_stake_meta_collection ch bank' tdp tpp = Inr coll"
      using generate_stake_meta_collection_reordered [OF _ assms(2)] 1(1,2) by simp
    then show "get_meta_merkle_root hashv ch (Inr bank') save tdp tpp trp ncn epoch bps = Inr (c, t)"
      using 1(3-5) by (simp add: get_meta_merkle_root_def generate_stake_meta_def rmap_err_def
          new_from_generated_merkle_tree_collection_def)
  qed
qed

end
