(* ===== verification/Claiming.thy ===== *)
theory Claiming
  imports Published_Root
begin

text \<open>
  The claims that are sent for the trees on disk (\<open>tip-router-operator-cli/src/claim.rs\<close>). Accounts are read in
  batches from the RPC node; the result is a map from the keys asked for to the accounts that exist.
\<close>

section \<open>Model\<close>

text \<open>What \<open>ClaimWithPayerBuilder\<close> is given.\<close>

record claim_with_payer_instruction =
  cw_account_payer :: pubkey
  cw_ncn :: pubkey
  cw_config :: pubkey
  cw_tip_distribution_program :: pubkey
  cw_tip_distribution_config :: pubkey
  cw_tip_distribution_account :: pubkey
  cw_claim_status :: pubkey
  cw_claimant :: pubkey
  cw_system_program :: pubkey
  cw_proof :: "bytes32 list"
  cw_amount :: u64
  cw_bump :: u8

datatype claim_mev_error =
    ClaimIoError
  | ClaimJsonError
  | ClaimAnchorError anchor_error
  | ClaimRpcError string
  | InsufficientBalance u64 u64 u64
  | NotFinished nat
  | UncaughtError string
  | ClaimPanic

text \<open>\<open>ClaimStatus::try_deserialize\<close> of the tip distribution program is the argument \<open>is_claim_status\<close>. The body
  of the loop over the nodes of a tree, and of the loop over the trees.\<close>

definition claim_node ::
    "('x, 'h, 'd, 'y) chain_scheme \<Rightarrow> pubkey \<Rightarrow> pubkey \<Rightarrow> pubkey \<Rightarrow> (pubkey \<Rightarrow> bool) \<Rightarrow> (pubkey \<Rightarrow> bool) \<Rightarrow> pubkey \<Rightarrow>
     generated_tree_node \<Rightarrow> claim_mev_error + claim_with_payer_instruction list" where
  "claim_node ch tip_distribution_program_id tip_router_program_id ncn_address claimants claim_statuses
      tip_distribution_account node =
    (if \<not> claimants (gn_claimant node) \<or> claim_statuses (gn_claim_status_pubkey node) \<or> gn_amount node = 0
     then Inr []
     else
       let (claim_status_pubkey, claim_status_bump) = rt_find_program_address ch
         [CLAIM_STATUS_SEED, gn_claimant node, tip_distribution_account] tip_distribution_program_id in
       rbind (ok_or ClaimPanic (gn_proof node)) (\<lambda>prf.
       Inr [\<lparr>cw_account_payer = pda ch tip_router_program_id (Account_Payer_Account ncn_address),
             cw_ncn = ncn_address,
             cw_config = pda ch tip_router_program_id (Config_Account ncn_address),
             cw_tip_distribution_program = tip_distribution_program_id,
             cw_tip_distribution_config = fst (derive_config_account_address ch tip_distribution_program_id),
             cw_tip_distribution_account = tip_distribution_account,
             cw_claim_status = claim_status_pubkey,
             cw_claimant = gn_claimant node,
             cw_system_program = system_program_id,
             cw_proof = prf, cw_amount = gn_amount node, cw_bump = claim_status_bump\<rparr>]))"

definition claim_tree ::
    "('x, 'h, 'd, 'y) chain_scheme \<Rightarrow> pubkey \<Rightarrow> pubkey \<Rightarrow> pubkey \<Rightarrow> (pubkey \<Rightarrow> tip_distribution_account option) \<Rightarrow>
     (pubkey \<Rightarrow> bool) \<Rightarrow> (pubkey \<Rightarrow> bool) \<Rightarrow> generated_merkle_tree \<Rightarrow>
     claim_mev_error + claim_with_payer_instruction list" where
  "claim_tree ch tip_distribution_program_id tip_router_program_id ncn_address tip_distribution_accounts claimants
      claim_statuses tree =
    (if gt_max_total_claim tree = 0 then Inr []
     else
       rbind (ok_or ClaimPanic (tip_distribution_accounts (gt_tip_distribution_account tree)))
         (\<lambda>tip_distribution_account.
       if \<not> ta_has_merkle_root tip_distribution_account \<or>
          ta_merkle_root_upload_authority tip_distribution_account \<noteq>
            pda ch tip_router_program_id (Config_Account ncn_address)
       then Inr []
       else rbind (collect (claim_node ch tip_distribution_program_id tip_router_program_id ncn_address claimants
           claim_statuses (gt_tip_distribution_account tree)) (gt_tree_nodes tree)) (\<lambda>iss. Inr (concat iss))))"

text \<open>\<open>build_mev_claim_transactions\<close>: one transaction per instruction, which adds two compute budget
  instructions; the list of the claims stands for it.\<close>

definition build_mev_claim_transactions ::
    "('x, 'h, 'd, 'y) chain_scheme \<Rightarrow> (u8 list \<Rightarrow> bool) \<Rightarrow> pubkey \<Rightarrow> pubkey \<Rightarrow> generated_merkle_tree_collection \<Rightarrow>
     (pubkey \<Rightarrow> bank_account option) \<Rightarrow> (pubkey \<Rightarrow> bank_account option) \<Rightarrow> (pubkey \<Rightarrow> bank_account option) \<Rightarrow> pubkey \<Rightarrow>
     claim_mev_error + claim_with_payer_instruction list" where
  "build_mev_claim_transactions ch is_claim_status tip_distribution_program_id tip_router_program_id merkle_trees
      tdas claimants claim_status ncn_address =
    (let tip_distribution_accounts = (\<lambda>pubkey.
           Option.bind (tdas pubkey) (\<lambda>account. ch_tip_distribution_account ch (ba_data account)));
         claim_statuses = (\<lambda>pubkey. case claim_status pubkey of
           None \<Rightarrow> False | Some account \<Rightarrow> is_claim_status (ba_data account)) in
     rbind (collect (claim_tree ch tip_distribution_program_id tip_router_program_id ncn_address
         tip_distribution_accounts (\<lambda>pubkey. claimants pubkey \<noteq> None) claim_statuses)
       (gc_generated_merkle_trees merkle_trees)) (\<lambda>instructions. Inr (concat instructions)))"

text \<open>\<open>get_batched_accounts\<close>, for the accounts the RPC node has, when its requests are answered (an error is
  a \<open>cl_accounts\<close> of the round, below); \<open>get_claim_transactions_for_valid_unclaimed\<close>.\<close>

definition get_batched_accounts :: "(pubkey \<Rightarrow> bank_account option) \<Rightarrow> pubkey list \<Rightarrow> pubkey \<Rightarrow> bank_account option" where
  "get_batched_accounts node pubkeys pubkey = (if pubkey \<in> set pubkeys then node pubkey else None)"

definition get_claim_transactions_for_valid_unclaimed ::
    "('x, 'h, 'd, 'y) chain_scheme \<Rightarrow> (u8 list \<Rightarrow> bool) \<Rightarrow> (pubkey \<Rightarrow> bank_account option) \<Rightarrow>
     generated_merkle_tree_collection \<Rightarrow> pubkey \<Rightarrow> pubkey \<Rightarrow> pubkey \<Rightarrow>
     claim_mev_error + claim_with_payer_instruction list" where
  "get_claim_transactions_for_valid_unclaimed ch is_claim_status node merkle_trees tip_distribution_program_id
      tip_router_program_id ncn_address =
    (let tip_router_config_address = pda ch tip_router_program_id (Config_Account ncn_address);
         tree_nodes = concat (map gt_tree_nodes (filter (\<lambda>tree.
           gt_merkle_root_upload_authority tree = tip_router_config_address) (gc_generated_merkle_trees merkle_trees)));
         tda_pubkeys = map gt_tip_distribution_account (gc_generated_merkle_trees merkle_trees);
         claimant_pubkeys = map gn_claimant tree_nodes;
         claim_status_pubkeys = map gn_claim_status_pubkey tree_nodes in
     build_mev_claim_transactions ch is_claim_status tip_distribution_program_id tip_router_program_id merkle_trees
       (get_batched_accounts node tda_pubkeys) (get_batched_accounts node claimant_pubkeys)
       (get_batched_accounts node claim_status_pubkeys) ncn_address)"

text \<open>\<open>is_sufficient_balance\<close>, over the balance, the rent of a claim status and the SDK's constants.\<close>

definition is_sufficient_balance ::
    "u64 \<Rightarrow> u64 \<Rightarrow> u64 \<Rightarrow> u64 \<Rightarrow> u64 \<Rightarrow> claim_mev_error + (u64 \<times> u64 \<times> u64) option" where
  "is_sufficient_balance lamports_per_signature lamports_per_sol start_balance min_rent_per_claim instruction_count =
    rbind (ok_or ClaimPanic (checked_add min_rent_per_claim lamports_per_signature)) (\<lambda>cost.
    rbind (ok_or ClaimPanic (checked_mul instruction_count cost)) (\<lambda>desired_balance.
    if start_balance < desired_balance then
      rbind (ok_or ClaimPanic (checked_sub desired_balance start_balance)) (\<lambda>d.
      rbind (ok_or ClaimPanic (checked_add d lamports_per_sol)) (\<lambda>d.
      rbind (ok_or ClaimPanic (checked_sub d 1)) (\<lambda>d.
      rbind (ok_or ClaimPanic (checked_div d lamports_per_sol)) (\<lambda>sol_to_deposit.
      Inr (Some (start_balance, desired_balance, sol_to_deposit))))))
    else Inr None))"

text \<open>\<open>claim_mev_tips\<close>, over what each round sees: the accounts of the RPC node (or the error of one of the requests
  of \<open>get_batched_accounts\<close>, which ends the run), the balance of the payer, the rent,
  and what the simulation of a claim reports. The rounds are the ones that start in time; each sends at most
  300 claims (which ones is random, and whether they arrive shows only in the next round). The last view is
  the one after the time is up.\<close>

record claim_view =
  cl_accounts :: "claim_mev_error + (pubkey \<Rightarrow> bank_account option)"
  cl_start_balance :: u64
  cl_min_rent :: u64
  cl_latest_blockhash :: "claim_mev_error + unit"
  cl_simulate :: "claim_with_payer_instruction \<Rightarrow> string option"

definition claim_round ::
    "((pubkey \<Rightarrow> bank_account option) \<Rightarrow> claim_mev_error + claim_with_payer_instruction list) \<Rightarrow> u64 \<Rightarrow> u64 \<Rightarrow>
     claim_view \<Rightarrow> claim_mev_error + bool" where
  "claim_round claims lamports_per_signature lamports_per_sol view =
    rbind (rbind (cl_accounts view) claims) (\<lambda>all_claim_transactions.
    if all_claim_transactions = [] then Inr True
    else
      rbind (is_sufficient_balance lamports_per_signature lamports_per_sol (cl_start_balance view)
          (cl_min_rent view) (of_nat (min (length all_claim_transactions) 300))) (\<lambda>balance.
      case balance of
        Some (start_balance, desired_balance, sol_to_deposit) \<Rightarrow>
          Inl (InsufficientBalance desired_balance start_balance sol_to_deposit)
      | None \<Rightarrow> rbind (cl_latest_blockhash view) (\<lambda>_. Inr False)))"

primrec claim_mev_tips ::
    "((pubkey \<Rightarrow> bank_account option) \<Rightarrow> claim_mev_error + claim_with_payer_instruction list) \<Rightarrow> u64 \<Rightarrow> u64 \<Rightarrow>
     claim_view \<Rightarrow> claim_view list \<Rightarrow> claim_mev_error + unit" where
  "claim_mev_tips claims lamports_per_signature lamports_per_sol last_view [] =
    rbind (rbind (cl_accounts last_view) claims) (\<lambda>transactions.
    if transactions = [] then Inr ()
    else
      (case List.map_filter (cl_simulate last_view) transactions of
         e # _ \<Rightarrow> Inl (UncaughtError e)
       | [] \<Rightarrow> Inl (NotFinished (length transactions))))"
| "claim_mev_tips claims lamports_per_signature lamports_per_sol last_view (view # views) =
    rbind (claim_round claims lamports_per_signature lamports_per_sol view) (\<lambda>finished.
    if finished then Inr ()
    else claim_mev_tips claims lamports_per_signature lamports_per_sol last_view views)"

section \<open>The claims that are sent\<close>

lemma claim_node_cases:
  assumes "claim_node ch tdp trp ncn claimants statuses tda n = Inr is1" and "ix \<in> set is1"
  obtains p where "claimants (gn_claimant n)" "\<not> statuses (gn_claim_status_pubkey n)" "gn_amount n \<noteq> 0"
    "gn_proof n = Some p" "is1 = [ix]" "cw_tip_distribution_account ix = tda" "cw_claimant ix = gn_claimant n"
    "cw_amount ix = gn_amount n" "cw_proof ix = p"
    "(cw_claim_status ix, cw_bump ix) = derive_claim_status_account_address ch tdp (gn_claimant n) tda"
    "cw_account_payer ix = pda ch trp (Account_Payer_Account ncn)" "cw_config ix = pda ch trp (Config_Account ncn)"
  using assms by (auto simp: claim_node_def rbind_Inr ok_or_Inr Let_def case_prod_unfold CLAIM_STATUS_SEED_def
      derive_claim_status_account_address_def split: if_splits)

lemma claim_tree_cases:
  assumes "claim_tree ch tdp trp ncn tdas claimants statuses g = Inr is1" and "ix \<in> set is1"
  obtains a n is2 where "tdas (gt_tip_distribution_account g) = Some a" "ta_has_merkle_root a"
    "ta_merkle_root_upload_authority a = pda ch trp (Config_Account ncn)" "gt_max_total_claim g \<noteq> 0"
    "n \<in> set (gt_tree_nodes g)"
    "claim_node ch tdp trp ncn claimants statuses (gt_tip_distribution_account g) n = Inr is2" "ix \<in> set is2"
proof -
  obtain a iss where a: "tdas (gt_tip_distribution_account g) = Some a" "ta_has_merkle_root a"
    "ta_merkle_root_upload_authority a = pda ch trp (Config_Account ncn)" "gt_max_total_claim g \<noteq> 0"
    and iss: "collect (claim_node ch tdp trp ncn claimants statuses (gt_tip_distribution_account g))
      (gt_tree_nodes g) = Inr iss" "ix \<in> set (concat iss)"
    using assms by (auto simp: claim_tree_def rbind_Inr ok_or_Inr split: if_splits)
  then obtain is2 where "is2 \<in> set iss" "ix \<in> set is2" by auto
  then show thesis using collect_member [OF iss(1)] that [OF a] by blast
qed

text \<open>C12. Every claim that is sent is one of a tree on disk: not zero, for a claimant that exists, with the proof that
  makes the root of this tree out of it, the claim status address derived from the claimant, and the account
  of the tip router that pays; and the claims of this tree stay within its total.\<close>

theorem claims_provable:
  assumes published: "get_meta_merkle_root hashv ch res save tdp tpp trp ncn epoch bps = Inr (c, t)"
    and claims: "get_claim_transactions_for_valid_unclaimed ch is_claim_status accounts c tdp trp ncn = Inr ixs"
    and ix: "ix \<in> set ixs"
  shows "\<exists>g \<in> set (gc_generated_merkle_trees c). \<exists>n \<in> set (gt_tree_nodes g). backed hashv g \<and>
    cw_tip_distribution_account ix = gt_tip_distribution_account g \<and>
    cw_claimant ix = gn_claimant n \<and> cw_amount ix = gn_amount n \<and> gn_amount n \<noteq> 0 \<and>
    verify hashv (cw_proof ix) (gt_merkle_root g) (hash_leaf hashv (generated_tree_node_hash hashv n)) \<and>
    (cw_claim_status ix, cw_bump ix) =
      derive_claim_status_account_address ch tdp (gn_claimant n) (gt_tip_distribution_account g) \<and>
    cw_account_payer ix = pda ch trp (Account_Payer_Account ncn) \<and>
    accounts (gn_claimant n) \<noteq> None"
proof -
  obtain iss tdas claimants statuses where
    "collect (claim_tree ch tdp trp ncn tdas claimants statuses) (gc_generated_merkle_trees c) = Inr iss"
    "ix \<in> set (concat iss)" and exists: "\<And>key. claimants key \<Longrightarrow> accounts key \<noteq> None"
    using claims ix by (auto simp: get_claim_transactions_for_valid_unclaimed_def build_mev_claim_transactions_def
        get_batched_accounts_def Let_def rbind_Inr split: if_splits)
  then obtain g is1 where g: "g \<in> set (gc_generated_merkle_trees c)"
    and tree: "claim_tree ch tdp trp ncn tdas claimants statuses g = Inr is1" "ix \<in> set is1"
    using collect_member by fastforce
  have backed: "backed hashv g" using every_tree_backed [OF published g] .
  from tree obtain n is2 where n: "n \<in> set (gt_tree_nodes g)"
    and node: "claim_node ch tdp trp ncn claimants statuses (gt_tip_distribution_account g) n = Inr is2" "ix \<in> set is2"
    by (rule claim_tree_cases)
  from node show ?thesis
  proof (cases rule: claim_node_cases)
    case (1 p)
    then show ?thesis using g n backed exists by (intro bexI [of _ g] bexI [of _ n]) (auto simp: backed_def)
  qed
qed

text \<open>The claims can be built when the accounts of the trees deserialize, and then none is forgotten.\<close>

lemma claims_total:
  assumes published: "get_meta_merkle_root hashv ch res save tdp tpp trp ncn epoch bps = Inr (c, t)"
    and accounts: "\<And>g. g \<in> set (gc_generated_merkle_trees c) \<Longrightarrow> \<exists>account a.
      accounts (gt_tip_distribution_account g) = Some account \<and>
      ch_tip_distribution_account ch (ba_data account) = Some a"
  shows "\<exists>ixs. get_claim_transactions_for_valid_unclaimed ch is_claim_status accounts c tdp trp ncn = Inr ixs"
proof -
  have "\<exists>is1. claim_tree ch tdp trp ncn
      (\<lambda>pubkey. Option.bind (get_batched_accounts accounts (map gt_tip_distribution_account
        (gc_generated_merkle_trees c)) pubkey) (\<lambda>account. ch_tip_distribution_account ch (ba_data account)))
      claimants statuses g = Inr is1"
    if g: "g \<in> set (gc_generated_merkle_trees c)" for g claimants statuses
  proof -
    have "\<exists>is1. claim_node ch tdp trp ncn claimants statuses (gt_tip_distribution_account g) n = Inr is1"
      if n: "n \<in> set (gt_tree_nodes g)" for n
    proof -
      obtain p where "gn_proof n = Some p" using every_tree_backed [OF published g] n by (auto simp: backed_def)
      then show ?thesis by (simp add: claim_node_def Let_def case_prod_unfold)
    qed
    then have "\<exists>iss. collect (claim_node ch tdp trp ncn claimants statuses (gt_tip_distribution_account g))
        (gt_tree_nodes g) = Inr iss" by (rule collect_total)
    then show ?thesis using accounts [OF g] g by (auto simp: claim_tree_def get_batched_accounts_def)
  qed
  then have "\<exists>iss. collect (claim_tree ch tdp trp ncn
      (\<lambda>pubkey. Option.bind (get_batched_accounts accounts (map gt_tip_distribution_account
        (gc_generated_merkle_trees c)) pubkey) (\<lambda>account. ch_tip_distribution_account ch (ba_data account)))
      claimants statuses) (gc_generated_merkle_trees c) = Inr iss" for claimants statuses by (rule collect_total)
  then show ?thesis
    unfolding get_claim_transactions_for_valid_unclaimed_def build_mev_claim_transactions_def Let_def rbind_Inr
    by blast
qed

lemma claim_sent:
  assumes published: "get_meta_merkle_root hashv ch res save tdp tpp trp ncn epoch bps = Inr (c, t)"
    and claims: "get_claim_transactions_for_valid_unclaimed ch is_claim_status accounts c tdp trp ncn = Inr ixs"
    and g: "g \<in> set (gc_generated_merkle_trees c)" "gt_max_total_claim g \<noteq> 0"
      "gt_merkle_root_upload_authority g = pda ch trp (Config_Account ncn)"
    and account: "accounts (gt_tip_distribution_account g) = Some account"
      "ch_tip_distribution_account ch (ba_data account) = Some a" "ta_has_merkle_root a"
      "ta_merkle_root_upload_authority a = pda ch trp (Config_Account ncn)"
    and n: "n \<in> set (gt_tree_nodes g)" "gn_amount n \<noteq> 0" "accounts (gn_claimant n) \<noteq> None"
    and unclaimed: "\<And>status. accounts (gn_claim_status_pubkey n) = Some status \<Longrightarrow> \<not> is_claim_status (ba_data status)"
  shows "\<exists>ix \<in> set ixs. cw_claimant ix = gn_claimant n \<and> cw_amount ix = gn_amount n \<and>
    cw_tip_distribution_account ix = gt_tip_distribution_account g"
proof -
  obtain p where p: "gn_proof n = Some p" using every_tree_backed [OF published g(1)] n(1) by (auto simp: backed_def)
  let ?keys = "\<lambda>f. map f (concat (map gt_tree_nodes (filter (\<lambda>tree.
      gt_merkle_root_upload_authority tree = pda ch trp (Config_Account ncn)) (gc_generated_merkle_trees c))))"
  let ?tdas = "\<lambda>pubkey. Option.bind (get_batched_accounts accounts (map gt_tip_distribution_account
      (gc_generated_merkle_trees c)) pubkey) (\<lambda>account. ch_tip_distribution_account ch (ba_data account))"
  let ?claimants = "\<lambda>pubkey. get_batched_accounts accounts (?keys gn_claimant) pubkey \<noteq> None"
  let ?statuses = "\<lambda>pubkey. case get_batched_accounts accounts (?keys gn_claim_status_pubkey) pubkey of
      None \<Rightarrow> False | Some account \<Rightarrow> is_claim_status (ba_data account)"
  obtain iss where "collect (claim_tree ch tdp trp ncn ?tdas ?claimants ?statuses) (gc_generated_merkle_trees c) = Inr iss"
    and ixs: "ixs = concat iss"
    using claims by (auto simp: get_claim_transactions_for_valid_unclaimed_def build_mev_claim_transactions_def
        Let_def rbind_Inr)
  then obtain is1 where is1: "is1 \<in> set iss" and tree: "claim_tree ch tdp trp ncn ?tdas ?claimants ?statuses g = Inr is1"
    using collect_result [OF _ g(1)] by blast
  have "?tdas (gt_tip_distribution_account g) = Some a" using g(1) account(1,2) by (simp add: get_batched_accounts_def)
  then obtain jss where jss: "collect (claim_node ch tdp trp ncn ?claimants ?statuses (gt_tip_distribution_account g))
      (gt_tree_nodes g) = Inr jss" and is1_eq: "is1 = concat jss"
    using tree g(2) account(3,4) by (auto simp: claim_tree_def rbind_Inr)
  obtain is2 where is2: "is2 \<in> set jss"
    and node: "claim_node ch tdp trp ncn ?claimants ?statuses (gt_tip_distribution_account g) n = Inr is2"
    using collect_result [OF jss n(1)] by blast
  have "?claimants (gn_claimant n)" using g(1,3) n(1,3) by (auto simp: get_batched_accounts_def)
  moreover have "\<not> ?statuses (gn_claim_status_pubkey n)" using unclaimed by (auto simp: get_batched_accounts_def split: option.splits)
  ultimately obtain ix where "ix \<in> set is2" "cw_claimant ix = gn_claimant n" "cw_amount ix = gn_amount n"
    "cw_tip_distribution_account ix = gt_tip_distribution_account g"
    using node n(2) p by (auto simp: claim_node_def Let_def case_prod_unfold)
  moreover have "set is2 \<subseteq> set is1" using is2 by (auto simp: is1_eq)
  moreover have "set is1 \<subseteq> set ixs" using is1 by (auto simp: ixs)
  ultimately show ?thesis by blast
qed

lemma collect_length:
  assumes "\<And>x. x \<in> set xs \<Longrightarrow> \<exists>ys. f x = Inr ys \<and> length ys = k x"
  shows "\<exists>yss. collect f xs = Inr yss \<and> length (concat yss) = sum_list (map k xs)"
  using assms
proof (induction xs)
  case (Cons x xs)
  then obtain yss where "collect f xs = Inr yss" "length (concat yss) = sum_list (map k xs)" by force
  moreover obtain ys where "f x = Inr ys" "length ys = k x" using Cons.prems [of x] by auto
  ultimately show ?case by simp
qed simp

lemma length_filter_sum: "length (filter P xs) = sum_list (map (\<lambda>x. if P x then 1 else 0) xs)"
  by (induction xs) auto

text \<open>When every tree can be claimed, the claims that are sent are those whose claimant exists and whose claim status
  account, by the address that the tree names, does not.\<close>

lemma claims_sent_length:
  assumes published: "get_meta_merkle_root hashv ch res save tdp tpp trp ncn epoch bps = Inr (c, t)"
    and trees: "\<And>g. g \<in> set (gc_generated_merkle_trees c) \<Longrightarrow> gt_max_total_claim g \<noteq> 0 \<and>
      gt_merkle_root_upload_authority g = pda ch trp (Config_Account ncn) \<and> (\<exists>account a.
      accounts (gt_tip_distribution_account g) = Some account \<and>
      ch_tip_distribution_account ch (ba_data account) = Some a \<and> ta_has_merkle_root a \<and>
      ta_merkle_root_upload_authority a = pda ch trp (Config_Account ncn))"
  shows "\<exists>ixs. get_claim_transactions_for_valid_unclaimed ch is_claim_status accounts c tdp trp ncn = Inr ixs \<and>
    length ixs = length (filter (\<lambda>n. gn_amount n \<noteq> 0 \<and> accounts (gn_claimant n) \<noteq> None \<and>
      (case accounts (gn_claim_status_pubkey n) of None \<Rightarrow> True | Some status \<Rightarrow> \<not> is_claim_status (ba_data status)))
      (concat (map gt_tree_nodes (gc_generated_merkle_trees c))))"
proof -
  let ?sent = "\<lambda>n. gn_amount n \<noteq> 0 \<and> accounts (gn_claimant n) \<noteq> None \<and>
      (case accounts (gn_claim_status_pubkey n) of None \<Rightarrow> True | Some status \<Rightarrow> \<not> is_claim_status (ba_data status))"
  let ?keys = "\<lambda>f. map f (concat (map gt_tree_nodes (filter (\<lambda>tree.
      gt_merkle_root_upload_authority tree = pda ch trp (Config_Account ncn)) (gc_generated_merkle_trees c))))"
  let ?tdas = "\<lambda>pubkey. Option.bind (get_batched_accounts accounts (map gt_tip_distribution_account
      (gc_generated_merkle_trees c)) pubkey) (\<lambda>account. ch_tip_distribution_account ch (ba_data account))"
  let ?claimants = "\<lambda>pubkey. get_batched_accounts accounts (?keys gn_claimant) pubkey \<noteq> None"
  let ?statuses = "\<lambda>pubkey. case get_batched_accounts accounts (?keys gn_claim_status_pubkey) pubkey of
      None \<Rightarrow> False | Some account \<Rightarrow> is_claim_status (ba_data account)"
  have "\<exists>is1. claim_tree ch tdp trp ncn ?tdas ?claimants ?statuses g = Inr is1 \<and>
      length is1 = length (filter ?sent (gt_tree_nodes g))"
    if g: "g \<in> set (gc_generated_merkle_trees c)" for g
  proof -
    have "\<exists>is2. claim_node ch tdp trp ncn ?claimants ?statuses (gt_tip_distribution_account g) n = Inr is2 \<and>
        length is2 = (if ?sent n then 1 else 0)" if n: "n \<in> set (gt_tree_nodes g)" for n
    proof -
      obtain p where "gn_proof n = Some p" using every_tree_backed [OF published g] n by (auto simp: backed_def)
      moreover have "?claimants (gn_claimant n) \<longleftrightarrow> accounts (gn_claimant n) \<noteq> None"
        "?statuses (gn_claim_status_pubkey n) \<longleftrightarrow> \<not> (case accounts (gn_claim_status_pubkey n) of
          None \<Rightarrow> True | Some status \<Rightarrow> \<not> is_claim_status (ba_data status))"
        using g n trees [OF g] by (auto simp: get_batched_accounts_def split: option.splits)
      ultimately show ?thesis by (simp add: claim_node_def Let_def case_prod_unfold)
    qed
    then have "\<exists>jss. collect (claim_node ch tdp trp ncn ?claimants ?statuses (gt_tip_distribution_account g))
        (gt_tree_nodes g) = Inr jss \<and> length (concat jss) = sum_list (map (\<lambda>n. if ?sent n then 1 else 0) (gt_tree_nodes g))"
      by (rule collect_length)
    moreover have "?tdas (gt_tip_distribution_account g) = Option.bind (accounts (gt_tip_distribution_account g))
        (\<lambda>account. ch_tip_distribution_account ch (ba_data account))"
      using g by (simp add: get_batched_accounts_def)
    ultimately show ?thesis using trees [OF g] unfolding length_filter_sum by (auto simp: claim_tree_def)
  qed
  then have "\<exists>jss. collect (claim_tree ch tdp trp ncn ?tdas ?claimants ?statuses) (gc_generated_merkle_trees c) = Inr jss \<and>
      length (concat jss) = sum_list (map (\<lambda>g. length (filter ?sent (gt_tree_nodes g))) (gc_generated_merkle_trees c))"
    by (rule collect_length)
  then show ?thesis
    by (auto simp: get_claim_transactions_for_valid_unclaimed_def build_mev_claim_transactions_def Let_def filter_concat
        length_concat o_def)
qed

end
