(* ===== verification/Submission.thy ===== *)
theory Submission
  imports Published_Root Ballot_Protocol
begin

text \<open>
  What the client of an operator sends once its tree is on disk (\<open>submit_to_ncn\<close> of
  \<open>tip-router-operator-cli/src/submit.rs\<close>, with the instructions of \<open>tip_router.rs\<close>): its vote, when the
  ballot box does not have it, and the roots of the tip distribution accounts, when the vote is decided.
  What the RPC node returns is an argument.
\<close>

section \<open>Model\<close>

record cast_vote_accounts =
  cv_epoch_state :: pubkey
  cv_config :: pubkey
  cv_ballot_box :: pubkey
  cv_ncn :: pubkey
  cv_epoch_snapshot :: pubkey
  cv_operator_snapshot :: pubkey
  cv_operator :: pubkey
  cv_operator_voter :: pubkey
  cv_meta_merkle_root :: bytes32
  cv_epoch :: u64

record set_merkle_root_accounts =
  sr_epoch_state :: pubkey
  sr_config :: pubkey
  sr_ncn :: pubkey
  sr_ballot_box :: pubkey
  sr_vote_account :: pubkey
  sr_tip_distribution_account :: pubkey
  sr_tip_distribution_config :: pubkey
  sr_tip_distribution_program :: pubkey
  sr_proof :: "bytes32 list"
  sr_merkle_root :: bytes32
  sr_max_total_claim :: u64
  sr_max_num_nodes :: u64
  sr_epoch :: u64

datatype operator_instruction =
    Cast_Vote cast_vote_accounts
  | Memo bytes32 pubkey
  | Set_Merkle_Root set_merkle_root_accounts

datatype operator_error = Rpc_Error string | Tally_Not_Found | Voting_Error tip_router_error | Operator_Panic

text \<open>\<open>tip_router.rs\<close>, \<open>cast_vote\<close>: the instruction, or the memo that stands in for it.\<close>

definition cast_vote_instruction ::
    "('x, 'y) runtime_scheme \<Rightarrow> pubkey \<Rightarrow> pubkey \<Rightarrow> pubkey \<Rightarrow> pubkey \<Rightarrow> bytes32 \<Rightarrow> u64 \<Rightarrow> bool \<Rightarrow> operator_instruction" where
  "cast_vote_instruction rt tip_router_program_id ncn operator operator_voter merkle_root tip_router_epoch
      submit_as_memo =
    (if submit_as_memo then Memo merkle_root operator_voter
     else Cast_Vote
       \<lparr>cv_epoch_state = pda rt tip_router_program_id (Epoch_State_Account ncn tip_router_epoch),
        cv_config = pda rt tip_router_program_id (Config_Account ncn),
        cv_ballot_box = pda rt tip_router_program_id (Ballot_Box_Account ncn tip_router_epoch),
        cv_ncn = ncn,
        cv_epoch_snapshot = pda rt tip_router_program_id (Epoch_Snapshot_Account ncn tip_router_epoch),
        cv_operator_snapshot = pda rt tip_router_program_id (Operator_Snapshot_Account operator ncn tip_router_epoch),
        cv_operator = operator, cv_operator_voter = operator_voter,
        cv_meta_merkle_root = merkle_root, cv_epoch = tip_router_epoch\<rparr>)"

text \<open>\<open>set_merkle_roots_batched\<close>: the instructions it builds; \<open>get_node\<close> panics for an account without a node,
  a node without a proof is skipped. They are then sent in order, each up to five times.\<close>

definition set_merkle_root_instruction ::
    "('x, 'y) runtime_scheme \<Rightarrow> pubkey \<Rightarrow> pubkey \<Rightarrow> pubkey \<Rightarrow> u64 \<Rightarrow> meta_merkle_tree \<Rightarrow> pubkey \<times> tip_distribution_account \<Rightarrow>
     operator_error + set_merkle_root_accounts list" where
  "set_merkle_root_instruction rt ncn_address tip_distribution_program tip_router_program_id epoch t entry =
    (case entry of (key, tip_distribution_account) \<Rightarrow>
      rbind (ok_or Operator_Panic (get_node t key)) (\<lambda>meta_merkle_node.
      case tn_proof meta_merkle_node of
        None \<Rightarrow> Inr []
      | Some prf \<Rightarrow> Inr
          [\<lparr>sr_epoch_state = pda rt tip_router_program_id (Epoch_State_Account ncn_address epoch),
            sr_config = pda rt tip_router_program_id (Config_Account ncn_address),
            sr_ncn = ncn_address,
            sr_ballot_box = pda rt tip_router_program_id (Ballot_Box_Account ncn_address epoch),
            sr_vote_account = ta_validator_vote_account tip_distribution_account,
            sr_tip_distribution_account = key,
            sr_tip_distribution_config = fst (derive_config_account_address rt tip_distribution_program),
            sr_tip_distribution_program = tip_distribution_program,
            sr_proof = prf,
            sr_merkle_root = tn_validator_merkle_root meta_merkle_node,
            sr_max_total_claim = tn_max_total_claim meta_merkle_node,
            sr_max_num_nodes = tn_max_num_nodes meta_merkle_node,
            sr_epoch = epoch\<rparr>]))"

definition set_merkle_roots_batched ::
    "('x, 'y) runtime_scheme \<Rightarrow> pubkey \<Rightarrow> pubkey \<Rightarrow> pubkey \<Rightarrow> u64 \<Rightarrow> (pubkey \<times> tip_distribution_account) list \<Rightarrow>
     meta_merkle_tree \<Rightarrow> operator_error + set_merkle_root_accounts list" where
  "set_merkle_roots_batched rt ncn_address tip_distribution_program tip_router_program_id epoch accounts t =
    rbind (collect (set_merkle_root_instruction rt ncn_address tip_distribution_program tip_router_program_id epoch t)
      accounts) (\<lambda>instructions. Inr (concat instructions))"

text \<open>The accounts the RPC node returned that deserialize, of this epoch and with the configuration of the NCN
  as the authority that uploads.\<close>

definition get_tip_distribution_accounts_to_upload ::
    "('x, 'h, 'd, 'y) chain_scheme \<Rightarrow> u64 \<Rightarrow> pubkey \<Rightarrow> (pubkey \<times> bank_account) list \<Rightarrow>
     (pubkey \<times> tip_distribution_account) list" where
  "get_tip_distribution_accounts_to_upload ch epoch tip_router_config_address accounts =
    List.map_filter (\<lambda>(pubkey, account).
      case ch_tip_distribution_account ch (ba_data account) of
        None \<Rightarrow> None
      | Some tip_distribution_account \<Rightarrow>
          if ta_epoch_created_at tip_distribution_account = epoch \<and>
             ta_merkle_root_upload_authority tip_distribution_account = tip_router_config_address
          then Some (pubkey, tip_distribution_account) else None) accounts"

text \<open>The vote of the operator in the ballot box differs from the root, or there is none.\<close>

definition should_cast_vote :: "ballot_box \<Rightarrow> pubkey \<Rightarrow> bytes32 \<Rightarrow> operator_error + bool" where
  "should_cast_vote bb operator merkle_root =
    (case List.find (\<lambda>vote. ov_operator vote = operator) (bb_operator_votes bb) of
       Some vote \<Rightarrow>
         rbind (fail_if (length (bb_ballot_tallies bb) \<le> unat (ov_ballot_index vote)) Tally_Not_Found) (\<lambda>_.
         Inr (meta_merkle_root (bt_ballot (bb_ballot_tallies bb ! unat (ov_ballot_index vote))) \<noteq> merkle_root))
     | None \<Rightarrow> Inr True)"

text \<open>The answers of the RPC node and of the file system.\<close>

record operator_view =
  vw_slot :: "operator_error + u64"
  vw_meta_merkle_tree :: "operator_error + meta_merkle_tree"
  vw_config :: "operator_error + config"
  vw_ballot_box :: "(operator_error + ballot_box) option"
  vw_tip_distribution_accounts :: "operator_error + (pubkey \<times> bank_account) list"

text \<open>\<open>submit_to_ncn\<close>: the instructions that are sent, and the result. Whether a sent instruction arrives is only
  logged, so an error after the vote leaves the vote sent.\<close>

definition submit_to_ncn ::
    "('x, 'h, 'd, 'y) chain_scheme \<Rightarrow> operator_view \<Rightarrow> pubkey \<Rightarrow> pubkey \<Rightarrow> u64 \<Rightarrow> pubkey \<Rightarrow> pubkey \<Rightarrow> pubkey \<Rightarrow>
     bool \<Rightarrow> bool \<Rightarrow> operator_instruction list \<times> (operator_error + unit)" where
  "submit_to_ncn ch view keypair operator_address merkle_root_epoch ncn_address tip_router_program_id
      tip_distribution_program_id submit_as_memo set_merkle_roots =
    (case
       rbind (vw_slot view) (\<lambda>slot.
       rbind (vw_meta_merkle_tree view) (\<lambda>t.
       rbind (vw_config view) (\<lambda>config.
       rbind (ok_or Operator_Panic (checked_add merkle_root_epoch 1)) (\<lambda>tip_router_target_epoch.
       case vw_ballot_box view of
         None \<Rightarrow> Inr None
       | Some res \<Rightarrow>
           rbind res (\<lambda>ballot_box.
           rbind (rmap_err Voting_Error (is_voting_valid ballot_box slot (cf_valid_slots_after_consensus config)))
             (\<lambda>voting_valid.
           rbind (should_cast_vote ballot_box operator_address (mmt_merkle_root t)) (\<lambda>should_vote.
           Inr (Some (t, tip_router_target_epoch, ballot_box, voting_valid, should_vote))))))))) of
       Inl e \<Rightarrow> ([], Inl e)
     | Inr None \<Rightarrow> ([], Inr ())
     | Inr (Some (t, tip_router_target_epoch, ballot_box, voting_valid, should_vote)) \<Rightarrow>
         let votes = (if should_vote \<and> voting_valid
           then [cast_vote_instruction ch tip_router_program_id ncn_address operator_address keypair
             (mmt_merkle_root t) tip_router_target_epoch submit_as_memo] else []) in
         if is_consensus_reached ballot_box \<and> set_merkle_roots then
           (case
              rbind (vw_tip_distribution_accounts view) (\<lambda>accounts.
              set_merkle_roots_batched ch ncn_address tip_distribution_program_id tip_router_program_id
                tip_router_target_epoch
                (get_tip_distribution_accounts_to_upload ch merkle_root_epoch
                  (pda ch tip_router_program_id (Config_Account ncn_address)) accounts) t) of
              Inl e \<Rightarrow> (votes, Inl e)
            | Inr uploads \<Rightarrow> (votes @ map Set_Merkle_Root uploads, Inr ()))
         else (votes, Inr ()))"

section \<open>The roots that are uploaded\<close>

lemma batched_upload:
  assumes published: "get_meta_merkle_root hashv ch res save tdp tpp trp ncn root_epoch bps = Inr (c, t)"
    and sent: "set_merkle_roots_batched ch ncn tdp trp epoch accounts t = Inr ixs" and ix: "ix \<in> set ixs"
  shows "sr_ballot_box ix = pda ch trp (Ballot_Box_Account ncn epoch) \<and>
    (\<exists>g \<in> set (gc_generated_merkle_trees c). backed hashv g \<and> sr_merkle_root ix = gt_merkle_root g \<and>
      sr_max_total_claim ix = gt_max_total_claim g \<and> sr_tip_distribution_account ix = gt_tip_distribution_account g) \<and>
    verify_merkle_root hashv bb (sr_tip_distribution_account ix) (sr_proof ix) (sr_merkle_root ix)
      (sr_max_total_claim ix) (sr_max_num_nodes ix) =
      (if meta_merkle_root (bb_winning_ballot bb) = mmt_merkle_root t then Inr () else Inl InvalidMerkleProof)"
proof -
  obtain ixss where "collect (set_merkle_root_instruction ch ncn tdp trp epoch t) accounts = Inr ixss"
    and "ix \<in> set (concat ixss)" using sent ix by (auto simp: set_merkle_roots_batched_def rbind_Inr)
  then obtain key a one where "set_merkle_root_instruction ch ncn tdp trp epoch t (key, a) = Inr one" "ix \<in> set one"
    using collect_member by fastforce
  then obtain n pr where n: "get_node t key = Some n" "tn_proof n = Some pr" and ix:
    "sr_ballot_box ix = pda ch trp (Ballot_Box_Account ncn epoch)" "sr_tip_distribution_account ix = key"
    "sr_proof ix = pr" "sr_merkle_root ix = tn_validator_merkle_root n"
    "sr_max_total_claim ix = tn_max_total_claim n" "sr_max_num_nodes ix = tn_max_num_nodes n"
    by (auto simp: set_merkle_root_instruction_def rbind_Inr ok_or_Inr split: option.splits)
  from n(1) have "n \<in> set (mmt_tree_nodes t)" and key: "tn_tip_distribution_account n = key"
    by (auto simp: get_node_def find_Some_iff)
  then obtain g pr' where g: "g \<in> set (gc_generated_merkle_trees c)" "backed hashv g"
    "n = (tree_node_from g)\<lparr>tn_proof := Some pr'\<rparr>"
    "verify hashv pr' (mmt_merkle_root t) (hashv [LEAF_PREFIX, tree_node_hash hashv n])"
    using published_root [OF published] by blast
  have "pr' = pr" using n(2) g(3) by simp
  moreover have "tree_node_hash hashv (tree_node_new key (tn_validator_merkle_root n) (tn_max_total_claim n)
      (tn_max_num_nodes n)) = tree_node_hash hashv n" by (simp add: tree_node_new_def tree_node_hash_def key)
  ultimately have "verify_merkle_root hashv bb key pr (tn_validator_merkle_root n) (tn_max_total_claim n)
      (tn_max_num_nodes n) =
      (if meta_merkle_root (bb_winning_ballot bb) = mmt_merkle_root t then Inr () else Inl InvalidMerkleProof)"
    using g(4) by (auto simp: verify_merkle_root_def verify_def Let_def fail_if_def)
  then show ?thesis using ix g key by (auto simp: tree_node_from_def)
qed

lemma submitted_uploads:
  assumes "vw_meta_merkle_tree view = Inr t" and "vw_ballot_box view = Some (Inr bb)"
    and "Set_Merkle_Root ix \<in> set (fst (submit_to_ncn ch view keypair operator root_epoch ncn trp tdp memo upload))"
  shows "is_consensus_reached bb \<and> (\<exists>accounts ixs.
    set_merkle_roots_batched ch ncn tdp trp (root_epoch + 1) accounts t = Inr ixs \<and> ix \<in> set ixs)"
  using assms
  by (auto simp: submit_to_ncn_def cast_vote_instruction_def Let_def rbind_Inr ok_or_Inr checked_add_def
      split: sum.splits option.splits if_splits prod.splits)


section \<open>The vote\<close>

text \<open>Once a vote for the root is in the ballot box, the client does not vote again.\<close>

lemma voted_not_again:
  assumes inv: "bb_inv bb" and vote: "voted bb operator = Some (voted_root, w)"
  shows "should_cast_vote bb operator voted_root = Inr False"
proof -
  let ?vs = "bb_operator_votes bb" and ?n = "unat (bb_operators_voted bb)"
  have ok: "votes_ok ?vs ?n" and tallies: "length (bb_ballot_tallies bb) = 256"
    using inv tally_stateD(1) by (auto simp: bb_inv_def)
  note D = votes_okD [OF ok]
  from vote obtain i where i: "i < ?n" "ov_operator (?vs ! i) = operator" "(voted_root, w) = vote_of bb i"
    by (auto simp: voted_Some [OF ok])
  have "ov_operator (?vs ! j) \<noteq> operator" if "j < i" for j
    using D(1-3) i(1,2) that by (auto simp: nth_eq_iff_index_eq distinct_conv_nth)
  then have "find_idx (\<lambda>v. ov_operator v = operator) ?vs = Some i"
    using i(1,2) D(1,2) by (simp add: find_idx_Some)
  then show ?thesis
    using D(4) [OF i(1)] i(3) tallies by (simp add: should_cast_vote_def find_conv_find_idx vote_of_def Let_def)
qed

lemma accepted_vote_not_again:
  assumes "bb_inv bb" and "bb_inv bb'" and "operator \<noteq> default_pubkey" and "wf_stake_weights sw"
    and "cast_vote bb operator (ballot_new voted_root) sw slot window = Inr bb'"
  shows "should_cast_vote bb' operator voted_root = Inr False"
  using voted_not_again [OF assms(2)] cast_vote_voted [OF assms(1,3,4,5)] by (simp add: ballot_new_def)

end
