(* ===== verification/Sample_Bank.thy ===== *)
theory Sample_Bank
  imports Claiming Submission
begin

text \<open>
  A small bank, with two validators and three delegations, on which the pipeline of the operator is run.
\<close>

definition sample_history_id :: pubkey where "sample_history_id = [99]"

definition sample_tda :: tip_distribution_account where
  "sample_tda = \<lparr>ta_validator_vote_account = [1], ta_merkle_root_upload_authority = ascii ''config'' @ [50],
    ta_has_merkle_root = True, ta_epoch_created_at = 800, ta_validator_commission_bps = 1000\<rparr>"

definition sample_chain :: "(unit, unit, unit) chain" where
  "sample_chain =
    \<lparr>rt_slot = 0, rt_epoch = 800, rt_get_epoch = (\<lambda>s. s), rt_minimum_balance = (\<lambda>_. 1000),
     rt_find_program_address = (\<lambda>seeds _. (concat seeds, 255)), rt_cast = (\<lambda>_ _ _ _. Inr ()),
     rt_transfer = (\<lambda>_ _ _ _ L. Inr L), rt_allocate = (\<lambda>_ _ _ L. Inr L), rt_assign = (\<lambda>_ _ _ L. Inr L),
     rt_realloc = (\<lambda>_ _ L. Inr L),
     ch_stake_history_id = sample_history_id, ch_stake_history = (\<lambda>_. Some ()),
     ch_delegation_stake = (\<lambda>a _ _ _. sa_stake a),
     ch_tip_payment_config = (\<lambda>_. Inr \<lparr>tp_block_builder_commission_pct = 5, tp_tip_receiver = [77]\<rparr>),
     ch_tip_distribution_account = (\<lambda>_. Some sample_tda),
     ch_max_bps = 10000, ch_tip_distribution_id = [66]\<rparr>"

definition sample_stake :: "pubkey \<Rightarrow> u64 \<Rightarrow> pubkey \<Rightarrow> stake_account" where
  "sample_stake voter stake staker = \<lparr>sa_voter_pubkey = voter, sa_stake = stake, sa_authorized = Some (staker, [30])\<rparr>"

definition sample_votes :: "(pubkey \<times> u64 \<times> vote_state) list" where
  "sample_votes = [([1], 100, \<lparr>vs_node_pubkey = [41], vs_commission = 5\<rparr>),
    ([2], 50, \<lparr>vs_node_pubkey = [42], vs_commission = 0\<rparr>)]"

definition sample_stakes :: "(pubkey \<times> stake_account) list" where
  "sample_stakes = [([11], sample_stake [1] 60 [21]), ([12], sample_stake [2] 50 [22]), ([13], sample_stake [1] 40 [23])]"

definition sample_bank :: "unit bank" where
  "sample_bank =
    \<lparr>bk_is_frozen = True, bk_epoch = 800, bk_slot = 5, bk_hash = ''h'',
     bk_epoch_vote_accounts = (\<lambda>_. Some sample_votes), bk_stake_delegations = sample_stakes,
     bk_new_warmup_cooldown_rate_epoch = None,
     bk_get_account = (\<lambda>_. Some \<lparr>ba_lamports = 1000000, ba_data = [7]\<rparr>),
     bk_minimum_balance_for_rent_exemption = (\<lambda>_. 1000)\<rparr>"

lemma sample_chain_reads [simp]:
  "rt_find_program_address sample_chain seeds prog = (concat seeds, 255)"
  "ch_stake_history_id sample_chain = sample_history_id" "ch_stake_history sample_chain a = Some ()"
  "ch_delegation_stake sample_chain s e h r = sa_stake s"
  "ch_tip_payment_config sample_chain d = Inr \<lparr>tp_block_builder_commission_pct = 5, tp_tip_receiver = [77]\<rparr>"
  "ch_tip_distribution_account sample_chain d = Some sample_tda"
  "ch_max_bps sample_chain = 10000" "ch_tip_distribution_id sample_chain = [66]"
  by (simp_all add: sample_chain_def)

lemma sample_bank_reads [simp]:
  "bk_is_frozen sample_bank" "bk_epoch sample_bank = 800" "bk_slot sample_bank = 5" "bk_hash sample_bank = ''h''"
  "bk_epoch_vote_accounts sample_bank e = Some sample_votes" "bk_stake_delegations sample_bank = sample_stakes"
  "bk_get_account sample_bank key = Some \<lparr>ba_lamports = 1000000, ba_data = [7]\<rparr>"
  "bk_minimum_balance_for_rent_exemption sample_bank n = 1000"
  by (simp_all add: sample_bank_def)

definition sample_tips :: "pubkey \<Rightarrow> tip_distribution_meta" where
  "sample_tips vote = \<lparr>td_merkle_root_upload_authority = ascii ''config'' @ [50],
    td_tip_distribution_pubkey = fst (derive_tip_distribution_account_address sample_chain [66] vote 800),
    td_total_tips = 999000, td_validator_fee_bps = 1000\<rparr>"

definition sample_delegation :: "pubkey \<Rightarrow> pubkey \<Rightarrow> u64 \<Rightarrow> delegation" where
  "sample_delegation key staker n = \<lparr>dg_stake_account_pubkey = key, dg_staker_pubkey = staker,
    dg_withdrawer_pubkey = [30], dg_lamports_delegated = n\<rparr>"

definition sample_metas :: "stake_meta list" where
  "sample_metas =
    [\<lparr>sm_validator_vote_account = [1], sm_validator_node_pubkey = [41],
      sm_maybe_tip_distribution_meta = Some (sample_tips [1]),
      sm_delegations = [sample_delegation [11] [21] 60, sample_delegation [13] [23] 40],
      sm_total_delegated = 100, sm_commission = 5\<rparr>,
     \<lparr>sm_validator_vote_account = [2], sm_validator_node_pubkey = [42],
      sm_maybe_tip_distribution_meta = Some (sample_tips [2]),
      sm_delegations = [sample_delegation [12] [22] 50], sm_total_delegated = 50, sm_commission = 0\<rparr>]"

lemma sample_receiver: "fst (derive_tip_distribution_account_address sample_chain [66] vote e) \<noteq> [77]"
  by (simp add: derive_tip_distribution_account_address_def ascii_def)

lemma sample_groups:
  "group_delegations_by_voter_pubkey sample_chain sample_stakes sample_bank = Inr (\<lambda>voter.
    if voter = [1] then Some [sample_delegation [11] [21] 60, sample_delegation [13] [23] 40]
    else if voter = [2] then Some [sample_delegation [12] [22] 50] else None)"
  by (auto simp: group_delegations_by_voter_pubkey_def stake_is_active_def sample_stakes_def sample_stake_def
      delegation_from_stake_account_def sample_delegation_def fun_eq_iff Let_def)

lemma sample_balances:
  "collect (tip_balance sample_bank) (snd (derive_tip_payment_pubkeys sample_chain tpp)) = Inr (replicate 8 999000)"
  by (simp add: derive_tip_payment_pubkeys_def tip_balance_def checked_sub_def replicate_8)

lemma sample_stake_metas:
  "generate_stake_meta_collection sample_chain sample_bank [66] [55] = Inr \<lparr>sc_stake_metas = sample_metas,
    sc_tip_distribution_program_id = [66], sc_bank_hash = ''h'', sc_epoch = 800, sc_slot = 5\<rparr>"
proof -
  have tda: "find_tda sample_chain sample_bank [66] [77] fee vote = Inr (Some
      \<lparr>tw_tip_distribution_account = sample_tda, tw_account_data = \<lparr>ba_lamports = 1000000, ba_data = [7]\<rparr>,
       tw_tip_distribution_pubkey = fst (derive_tip_distribution_account_address sample_chain [66] vote 800)\<rparr>)" for fee vote
    by (simp add: find_tda_def sample_receiver)
  have tips: "tip_distribution_account_from_tda_wrapper
      \<lparr>tw_tip_distribution_account = sample_tda, tw_account_data = \<lparr>ba_lamports = 1000000, ba_data = [7]\<rparr>,
       tw_tip_distribution_pubkey = fst (derive_tip_distribution_account_address sample_chain [66] vote 800)\<rparr> 1000 =
      Inr (sample_tips vote)" for vote
    by (simp add: tip_distribution_account_from_tda_wrapper_def checked_sub_def sample_tips_def sample_tda_def)
  have sum: "checked_sum StakeMetaPanic (replicate 8 (999000 :: u64)) = Inr 7992000"
    by (simp add: checked_sum_Inr replicate_8)
  have sums: "checked_sum StakeMetaPanic [60 :: u64, 40] = Inr 100" "checked_sum StakeMetaPanic [50 :: u64] = Inr 50"
    by (simp_all add: checked_sum_Inr)
  show ?thesis
    by (simp add: generate_stake_meta_collection_def sample_groups sample_balances sum checked_mul_def checked_div_def
        checked_sub_def sample_votes_def tda tips stake_meta_of_def sums sample_delegation_def sample_metas_def
        delegation_key_def stake_meta_key_def rmap_err_def)
qed

section \<open>The sample published\<close>

abbreviation sample_run_of :: "hasher \<Rightarrow> unit bank \<Rightarrow> merkle_root_error + generated_merkle_tree_collection \<times> meta_merkle_tree" where
  "sample_run_of hashv bank \<equiv>
    get_meta_merkle_root hashv sample_chain (Inr bank) (\<lambda>_. Inr ()) [66] [55] [44] [50] 800 300"

definition sample_receiver_address :: pubkey where
  "sample_receiver_address = ascii ''base_reward_receiver'' @ [50] @ to_le_bytes 801"

definition sample_node :: "pubkey \<Rightarrow> pubkey \<Rightarrow> pubkey \<Rightarrow> pubkey \<Rightarrow> pubkey \<Rightarrow> u64 \<Rightarrow> generated_tree_node" where
  "sample_node vote claimant status_of staker withdrawer n =
    \<lparr>gn_claimant = claimant,
     gn_claim_status_pubkey = CLAIM_STATUS_SEED @ status_of @ td_tip_distribution_pubkey (sample_tips vote),
     gn_claim_status_bump = 255, gn_staker_pubkey = staker, gn_withdrawer_pubkey = withdrawer,
     gn_amount = n, gn_proof = None\<rparr>"

definition sample_claims :: "pubkey \<Rightarrow> generated_tree_node list" where
  "sample_claims vote =
    (if vote = [1] then
      [sample_node vote sample_receiver_address sample_receiver_address default_pubkey default_pubkey 29970,
       sample_node vote [41] [41] default_pubkey default_pubkey 99900,
       sample_node vote [11] [21] [21] [30] 521478, sample_node vote [13] [23] [23] [30] 347652]
     else
      [sample_node vote sample_receiver_address sample_receiver_address default_pubkey default_pubkey 29970,
       sample_node vote [42] [42] default_pubkey default_pubkey 99900,
       sample_node vote [12] [22] [22] [30] 869130])"

lemma sample_bank_splits:
  "vec_from_stake_meta sample_chain (hd sample_metas) 300 [50] 800 [66] [44] = Inr (Some (sample_claims [1]))"
  "vec_from_stake_meta sample_chain (last sample_metas) 300 [50] 800 [66] [44] = Inr (Some (sample_claims [2]))"
proof -
  have tips: "mul_div_u64 999000 300 10000 = Inr 29970" "mul_div_u64 999000 1000 10000 = Inr 99900"
    by (simp_all add: mul_div_u64_Inr)
  have fees: "split_fees 999000 29970 99900 = (99900, Some 869130)"
    by (simp add: split_fees_def checked_add_def checked_sub_def)
  have shares: "mul_div_u64 60 869130 100 = Inr 521478" "mul_div_u64 40 869130 100 = Inr 347652"
    "mul_div_u64 50 869130 50 = Inr 869130"
    by (simp_all add: mul_div_u64_Inr)
  show "vec_from_stake_meta sample_chain (hd sample_metas) 300 [50] 800 [66] [44] = Inr (Some (sample_claims [1]))"
    "vec_from_stake_meta sample_chain (last sample_metas) 300 [50] 800 [66] [44] = Inr (Some (sample_claims [2]))"
    by (simp_all add: sample_metas_def vec_from_stake_meta_def sample_tips_def tips fees checked_add_def
        stake_tree_node_def sample_delegation_def shares sample_claims_def sample_node_def sample_receiver_address_def)
qed

lemma sample_published:
  obtains g1 g2 c t where "sample_run_of hashv sample_bank = Inr (c, t)" "gc_generated_merkle_trees c = [g1, g2]"
    "generated_merkle_tree_of hashv sample_chain [66] [50] 800 300 [44] (hd sample_metas) = Inr (Some g1)"
    "generated_merkle_tree_of hashv sample_chain [66] [50] 800 300 [44] (last sample_metas) = Inr (Some g2)"
proof -
  let ?coll = "\<lparr>sc_stake_metas = sample_metas, sc_tip_distribution_program_id = [66], sc_bank_hash = ''h'',
    sc_epoch = 800, sc_slot = 5\<rparr>"
  have metas: "sample_metas = [hd sample_metas, last sample_metas]"
    "sm_maybe_tip_distribution_meta (hd sample_metas) = Some (sample_tips [1])"
    "sm_maybe_tip_distribution_meta (last sample_metas) = Some (sample_tips [2])"
    by (simp_all add: sample_metas_def)
  obtain g1 where g1: "generated_merkle_tree_of hashv sample_chain [66] [50] 800 300 [44] (hd sample_metas) = Inr (Some g1)"
    using generated_merkle_tree_of_total [OF metas(2) sample_bank_splits(1)] by blast
  obtain g2 where g2: "generated_merkle_tree_of hashv sample_chain [66] [50] 800 300 [44] (last sample_metas) = Inr (Some g2)"
    using generated_merkle_tree_of_total [OF metas(3) sample_bank_splits(2)] by blast
  have accounts: "gt_tip_distribution_account g1 = td_tip_distribution_pubkey (sample_tips [1])"
    using g1 by (cases rule: generated_merkle_tree_of_cases) (simp add: metas(2))
  have accounts2: "gt_tip_distribution_account g2 = td_tip_distribution_pubkey (sample_tips [2])"
    using g2 by (cases rule: generated_merkle_tree_of_cases) (simp add: metas(3))
  let ?c = "\<lparr>gc_generated_merkle_trees = [g1, g2], gc_bank_hash = ''h'', gc_epoch = 800, gc_slot = 5\<rparr>"
  have "filter (\<lambda>sm. sm_maybe_tip_distribution_meta sm \<noteq> None) sample_metas = [hd sample_metas, last sample_metas]"
    by (subst metas(1)) (simp add: metas(2,3))
  then have c: "new_from_stake_meta_collection hashv sample_chain ?coll [50] 800 300 [44] = Inr ?c"
    unfolding new_from_stake_meta_collection_def
    by (simp only: stake_meta_collection.simps collect.simps g1 g2 rbind_simps map_filter_simps option.simps)
  have "distinct (map tn_tip_distribution_account (map tree_node_from [g1, g2]))"
    by (simp add: tree_node_from_def accounts accounts2 sample_tips_def derive_tip_distribution_account_address_def)
  from meta_merkle_tree_new_eq [OF _ _ this]
  obtain t where "meta_merkle_tree_new hashv (map tree_node_from [g1, g2]) = Inr t" by auto
  then have "sample_run_of hashv sample_bank = Inr (?c, t)"
    by (simp add: get_meta_merkle_root_def generate_stake_meta_def sample_stake_metas c rmap_err_def
        new_from_generated_merkle_tree_collection_def)
  then show thesis using that [OF _ _ g1 g2] by simp
qed

theorem tips_split_witness:
  "sum_list (map (unat \<circ> gn_amount) (sample_claims [1])) \<le> 999000"
proof -
  have total: "sum_list (map (unat \<circ> dg_lamports_delegated) (sm_delegations (hd sample_metas))) \<le>
      unat (sm_total_delegated (hd sample_metas))"
    by (simp add: sample_metas_def sample_delegation_def)
  have "sm_maybe_tip_distribution_meta (hd sample_metas) = Some (sample_tips [1])" by (simp add: sample_metas_def)
  then show ?thesis using tips_split [OF sample_bank_splits(1) total] by (auto simp: sample_tips_def)
qed

theorem published_root_backed_witness:
  "\<exists>c t. sample_run_of pad_hashv sample_bank = Inr (c, t) \<and> length (gc_generated_merkle_trees c) = 2 \<and>
    (\<forall>n \<in> set (mmt_tree_nodes t). \<exists>g \<in> set (gc_generated_merkle_trees c). backed pad_hashv g \<and>
      tn_validator_merkle_root n = gt_merkle_root g)"
proof -
  obtain g1 g2 c t where "sample_run_of pad_hashv sample_bank = Inr (c, t)" "gc_generated_merkle_trees c = [g1, g2]"
    by (rule sample_published)
  then show ?thesis using published_root_backed [of pad_hashv sample_chain] 
    by (intro exI [of _ c] exI [of _ t]) (fastforce simp: tree_node_from_def)
qed

definition shuffled_bank :: "unit bank" where
  "shuffled_bank = sample_bank\<lparr>bk_epoch_vote_accounts := (\<lambda>_. Some (rev sample_votes)),
    bk_stake_delegations := rev sample_stakes\<rparr>"

theorem operators_agree_witness:
  "\<exists>r. sample_run_of pad_hashv sample_bank = Inr r \<and> sample_run_of pad_hashv shuffled_bank = Inr r"
proof -
  have same: "reordered sample_bank shuffled_bank"
    by (simp add: reordered_def shuffled_bank_def, simp add: sample_votes_def sample_stakes_def)
  obtain g1 g2 c t where "sample_run_of pad_hashv sample_bank = Inr (c, t)" "gc_generated_merkle_trees c = [g1, g2]"
    by (rule sample_published)
  then show ?thesis using operators_agree [OF _ same] by blast
qed

section \<open>Uploads and claims\<close>

definition decided_box :: "bytes32 \<Rightarrow> ballot_box" where
  "decided_box voted_root = (ballot_box_new [50] 801 255 0)\<lparr>bb_slot_consensus_reached := 0, bb_winning_ballot := ballot_new voted_root,
    bb_operator_votes := [operator_vote_new 0 [4] 0 stake_weights_default],
    bb_ballot_tallies := [ballot_tally_new 0 (ballot_new voted_root) stake_weights_default]\<rparr>"

definition upload_view :: "config \<Rightarrow> meta_merkle_tree \<Rightarrow> bytes32 \<Rightarrow> pubkey list \<Rightarrow> operator_view" where
  "upload_view config t voted_root keys = \<lparr>vw_slot = Inr 5, vw_meta_merkle_tree = Inr t, vw_config = Inr config,
    vw_ballot_box = Some (Inr (decided_box voted_root)),
    vw_tip_distribution_accounts = Inr (map (\<lambda>key. (key, \<lparr>ba_lamports = 1000000, ba_data = [7]\<rparr>)) keys)\<rparr>"

lemma decided_box_reads:
  "is_consensus_reached (decided_box voted_root)" "should_cast_vote (decided_box voted_root) [4] voted_root = Inr False"
  "is_voting_valid (decided_box voted_root) slot w = Inr (slot \<le> w)"
  by (simp_all add: decided_box_def is_consensus_reached_def should_cast_vote_def is_voting_valid_def tie_breaker_set_def
      ballot_new_def ballot_tally_new_def operator_vote_new_def DEFAULT_CONSENSUS_REACHED_SLOT_def checked_add_def
      unat_less_pow [of w, simplified])



text \<open>The trees of the sample, read.\<close>

lemma sample_tree_reads:
  assumes "generated_merkle_tree_of hashv sample_chain [66] [50] 800 300 [44] sm = Inr (Some g)"
    and "sm_maybe_tip_distribution_meta sm = Some (sample_tips vote)"
    and "vec_from_stake_meta sample_chain sm 300 [50] 800 [66] [44] = Inr (Some (sample_claims vote))"
  shows "gt_tip_distribution_account g = td_tip_distribution_pubkey (sample_tips vote)" "gt_max_total_claim g = 999000"
    "map (gn_proof_update (\<lambda>_. None)) (gt_tree_nodes g) = sample_claims vote"
    "gt_merkle_root_upload_authority g = ascii ''config'' @ [50]"
proof -
  have none: "map (gn_proof_update (\<lambda>_. None)) (sample_claims vote) = sample_claims vote"
    by (simp add: sample_claims_def sample_node_def)
  obtain m nodes where "sm_maybe_tip_distribution_meta sm = Some m"
    "vec_from_stake_meta sample_chain sm 300 [50] 800 [66] [44] = Inr (Some nodes)"
    and g: "gt_tip_distribution_account g = td_tip_distribution_pubkey m" "gt_max_total_claim g = td_total_tips m"
    "map (gn_proof_update (\<lambda>_. None)) (gt_tree_nodes g) = map (gn_proof_update (\<lambda>_. None)) nodes"
    using assms(1) by (rule generated_merkle_tree_of_cases)
  then have m: "m = sample_tips vote" "nodes = sample_claims vote" by (simp_all add: assms(2,3))
  show "gt_tip_distribution_account g = td_tip_distribution_pubkey (sample_tips vote)" by (simp add: g(1) m)
  show "gt_max_total_claim g = 999000" by (simp add: g(2) m sample_tips_def)
  show "map (gn_proof_update (\<lambda>_. None)) (gt_tree_nodes g) = sample_claims vote" by (simp add: g(3) m none)
  show "gt_merkle_root_upload_authority g = ascii ''config'' @ [50]"
    using assms by (auto simp: generated_merkle_tree_of_def rbind_Inr ok_or_Inr Let_def sample_tips_def)
qed

lemma sample_tree_nodes:
  assumes "map (gn_proof_update (\<lambda>_. None)) ns = sample_claims vote"
  shows "map gn_claimant ns = map gn_claimant (sample_claims vote)"
    "map gn_claim_status_pubkey ns = map gn_claim_status_pubkey (sample_claims vote)"
    "map gn_amount ns = map gn_amount (sample_claims vote)"
  using arg_cong [OF assms, of "map gn_claimant"] arg_cong [OF assms, of "map gn_claim_status_pubkey"]
    arg_cong [OF assms, of "map gn_amount"] by (simp_all add: o_def)

definition present :: "u8 list \<Rightarrow> bank_account option" where
  "present d = Some \<lparr>ba_lamports = 1000000, ba_data = d\<rparr>"

text \<open>When every claim was made: the accounts of the claimants and those the claims are marked in exist; but the
  trees name other addresses for the stake accounts, the ones derived from the staker.\<close>

definition claimed_accounts :: "pubkey \<Rightarrow> bank_account option" where
  "claimed_accounts key =
    (if key \<in> {CLAIM_STATUS_SEED @ [21] @ td_tip_distribution_pubkey (sample_tips [1]),
        CLAIM_STATUS_SEED @ [23] @ td_tip_distribution_pubkey (sample_tips [1]),
        CLAIM_STATUS_SEED @ [22] @ td_tip_distribution_pubkey (sample_tips [2])}
     then None else present [9])"

abbreviation sample_claims_sent ::
    "(u8 list \<Rightarrow> bool) \<Rightarrow> generated_merkle_tree_collection \<Rightarrow> (pubkey \<Rightarrow> bank_account option) \<Rightarrow>
     claim_mev_error + claim_with_payer_instruction list" where
  "sample_claims_sent is_claim_status c accounts \<equiv>
    get_claim_transactions_for_valid_unclaimed sample_chain is_claim_status accounts c [66] [44] [50]"

definition marked_at :: "generated_merkle_tree_collection \<Rightarrow> pubkey list" where
  "marked_at c = concat (map (\<lambda>g. map (\<lambda>claimant. fst (derive_claim_status_account_address sample_chain [66] claimant
    (gt_tip_distribution_account g))) (map gn_claimant (gt_tree_nodes g))) (gc_generated_merkle_trees c))"

lemma sample_tree_filter:
  assumes "map (gn_proof_update (\<lambda>_. None)) ns = sample_claims vote"
    and "\<And>n. P (n\<lparr>gn_proof := None\<rparr>) \<longleftrightarrow> P n"
  shows "length (filter P ns) = length (filter P (sample_claims vote))"
  by (simp add: assms(1) [symmetric] filter_map o_def assms(2))

lemma sample_config: "pda sample_chain p (Config_Account ncn) = ascii ''config'' @ ncn"
  by (simp add: pda_def find_program_address_def config_seeds_def)

theorem claims_provable_witness:
  "\<exists>c t ixs. sample_run_of pad_hashv sample_bank = Inr (c, t) \<and>
    sample_claims_sent (\<lambda>_. False) c (\<lambda>_. present [7]) = Inr ixs \<and> ixs \<noteq> [] \<and>
    (\<exists>root leaf. verify pad_hashv (cw_proof (hd ixs)) root (hash_leaf pad_hashv leaf))"
proof -
  obtain g1 g2 c t where run: "sample_run_of pad_hashv sample_bank = Inr (c, t)" "gc_generated_merkle_trees c = [g1, g2]"
    and g1: "generated_merkle_tree_of pad_hashv sample_chain [66] [50] 800 300 [44] (hd sample_metas) = Inr (Some g1)"
    by (rule sample_published)
  have "sm_maybe_tip_distribution_meta (hd sample_metas) = Some (sample_tips [1])" by (simp add: sample_metas_def)
  note reads = sample_tree_reads [OF g1 this sample_bank_splits(1)]
  have "29970 \<in> set (map gn_amount (gt_tree_nodes g1))"
    by (simp only: sample_tree_nodes(3) [OF reads(3)]) (simp add: sample_claims_def sample_node_def)
  then obtain n where n: "n \<in> set (gt_tree_nodes g1)" "gn_amount n = 29970" by auto
  obtain ixs where sent: "sample_claims_sent (\<lambda>_. False) c (\<lambda>_. present [7]) = Inr ixs"
    using claims_total [OF run(1), where accounts = "\<lambda>_. present [7]" and is_claim_status = "\<lambda>_. False"] by (auto simp: present_def)
  have "ixs \<noteq> []"
    using claim_sent [OF run(1) sent, of g1 "\<lparr>ba_lamports = 1000000, ba_data = [7]\<rparr>" sample_tda n] n
    by (auto simp: run(2) reads present_def sample_tda_def sample_config)
  then show ?thesis using claims_provable [OF run(1) sent, of "hd ixs"] run(1) sent by fastforce
qed

lemma sample_claims_left:
  obtains c t ixs where "sample_run_of hashv sample_bank = Inr (c, t)"
    "set (map claimed_accounts (marked_at c)) = {present [9]}"
    "sample_claims_sent (\<lambda>d. d = [9]) c claimed_accounts = Inr ixs" "length ixs = 3"
proof -
  obtain g1 g2 c t where run: "sample_run_of hashv sample_bank = Inr (c, t)" "gc_generated_merkle_trees c = [g1, g2]"
    and g1: "generated_merkle_tree_of hashv sample_chain [66] [50] 800 300 [44] (hd sample_metas) = Inr (Some g1)"
    and g2: "generated_merkle_tree_of hashv sample_chain [66] [50] 800 300 [44] (last sample_metas) = Inr (Some g2)"
    by (rule sample_published)
  have tips: "sm_maybe_tip_distribution_meta (hd sample_metas) = Some (sample_tips [1])"
    "sm_maybe_tip_distribution_meta (last sample_metas) = Some (sample_tips [2])" by (simp_all add: sample_metas_def)
  note r1 = sample_tree_reads [OF g1 tips(1) sample_bank_splits(1)]
  note r2 = sample_tree_reads [OF g2 tips(2) sample_bank_splits(2)]
  note unfold = claimed_accounts_def CLAIM_STATUS_SEED_def sample_claims_def sample_node_def
    sample_receiver_address_def sample_tips_def derive_tip_distribution_account_address_def ascii_def
  have marked: "set (map claimed_accounts (marked_at c)) = {present [9]}"
    by (simp only: marked_at_def run(2) list.map concat.simps sample_tree_nodes(1) [OF r1(3)]
        sample_tree_nodes(1) [OF r2(3)] r1(1) r2(1))
      (simp add: derive_claim_status_account_address_def unfold)
  have trees: "gt_max_total_claim g \<noteq> 0 \<and>
      gt_merkle_root_upload_authority g = pda sample_chain [44] (Config_Account [50]) \<and> (\<exists>account a.
      claimed_accounts (gt_tip_distribution_account g) = Some account \<and>
      ch_tip_distribution_account sample_chain (ba_data account) = Some a \<and> ta_has_merkle_root a \<and>
      ta_merkle_root_upload_authority a = pda sample_chain [44] (Config_Account [50]))"
    if "g \<in> set (gc_generated_merkle_trees c)" for g
    using that by (auto simp: run(2) r1 r2 sample_config sample_tda_def present_def unfold)
  from claims_sent_length [OF run(1) trees, where is_claim_status = "\<lambda>d. d = [9]"]
  have "\<exists>ixs. sample_claims_sent (\<lambda>d. d = [9]) c claimed_accounts = Inr ixs \<and> length ixs = 3"
    by (simp add: run(2) sample_tree_filter [OF r1(3)] sample_tree_filter [OF r2(3)])
      (simp add: unfold present_def numeral_3_eq_3)
  then show thesis using that run(1) marked by blast
qed

text \<open>C17. \<open>claim.rs\<close> asks whether a claim was made by the address in the tree, but claims at the address it derives from the
  claimant. For the claims of stake accounts \<open>generated_merkle_tree.rs\<close> derives the first from the staker, the second comes from
  the stake account: when everything has been claimed, they are sent again in every round, and the run ends as
  not finished.\<close>

theorem claimed_stakes_resubmitted:
  "\<exists>c t. sample_run_of pad_hashv sample_bank = Inr (c, t) \<and>
    set (map claimed_accounts (marked_at c)) = {present [9]} \<and>
    (\<forall>k. claim_mev_tips (sample_claims_sent (\<lambda>d. d = [9]) c) 5000 1000000000
      \<lparr>cl_accounts = Inr claimed_accounts, cl_start_balance = 1000000000, cl_min_rent = 2000000,
       cl_latest_blockhash = Inr (), cl_simulate = (\<lambda>_. None)\<rparr>
      (replicate k \<lparr>cl_accounts = Inr claimed_accounts, cl_start_balance = 1000000000, cl_min_rent = 2000000,
       cl_latest_blockhash = Inr (), cl_simulate = (\<lambda>_. None)\<rparr>) = Inl (NotFinished 3))"
proof -
  obtain c t ixs where run: "sample_run_of pad_hashv sample_bank = Inr (c, t)"
    "set (map claimed_accounts (marked_at c)) = {present [9]}"
    and ixs: "sample_claims_sent (\<lambda>d. d = [9]) c claimed_accounts = Inr ixs" "length ixs = 3"
    by (rule sample_claims_left)
  then have "ixs \<noteq> []" by auto
  have "claim_mev_tips (sample_claims_sent (\<lambda>d. d = [9]) c) 5000 1000000000
      \<lparr>cl_accounts = Inr claimed_accounts, cl_start_balance = 1000000000, cl_min_rent = 2000000,
       cl_latest_blockhash = Inr (), cl_simulate = (\<lambda>_. None)\<rparr>
      (replicate k \<lparr>cl_accounts = Inr claimed_accounts, cl_start_balance = 1000000000, cl_min_rent = 2000000,
       cl_latest_blockhash = Inr (), cl_simulate = (\<lambda>_. None)\<rparr>) = Inl (NotFinished 3)" for k
    by (induction k) (simp_all add: ixs claim_round_def \<open>ixs \<noteq> []\<close> is_sufficient_balance_def checked_add_def
        checked_mul_def map_filter_def)
  then show ?thesis using run by blast
qed

end
