(* ===== verification/Client_Reads.thy ===== *)
theory Client_Reads
  imports Stake_Metas
begin

text \<open>
  What the administration client reads (\<open>cli/src/getters.rs\<close>): the accounts of the tip router, fetched from an
  RPC node and cast to their types. The answers of the node to one such request are a record; the lists of
  operators and vaults are the answers of its search over the accounts of the restaking program.
\<close>

section \<open>Model\<close>

text \<open>\<open>anyhow::Error\<close>: a message, an error of the RPC client, an error of the tip router library. A panic is told
  apart, for nothing catches it; so is a loop that has not ended within its fuel.\<close>

datatype client_error = Anyhow string | Rpc_Failure string | Library_Error program_error | Client_Panic | Still_Running

definition fatal :: "client_error \<Rightarrow> bool" where
  "fatal e \<longleftrightarrow> e = Client_Panic \<or> e = Still_Running"

record 'x rpc =
  rp_account :: "pubkey \<Rightarrow> client_error + 'x account option"
  rp_operators :: "client_error + pubkey list"
  rp_vaults :: "client_error + pubkey list"
  rp_slot :: "client_error + u64"
  rp_get_epoch :: "client_error + (u64 \<Rightarrow> u64)"
  rp_minimum_balance :: "client_error + u64"

text \<open>The parts of \<open>CliHandler\<close> that are used.\<close>

record handler =
  hd_tip_router_program_id :: pubkey
  hd_ncn :: "pubkey option"
  hd_epoch :: u64

definition handler_ncn :: "'h handler_scheme \<Rightarrow> client_error + pubkey" where
  "handler_ncn h = ok_or (Anyhow ''No NCN address'') (hd_ncn h)"

definition handler_pda :: "('x, 'y) runtime_scheme \<Rightarrow> 'h handler_scheme \<Rightarrow> (pubkey \<Rightarrow> program_account) \<Rightarrow> client_error + pubkey" where
  "handler_pda rt h account =
    rbind (handler_ncn h) (\<lambda>ncn. Inr (pda rt (hd_tip_router_program_id h) (account ncn)))"

text \<open>\<open>try_from_slice_unchecked\<close> of the bytes that were fetched; \<open>as\<close> is the cast of an account on a ledger.\<close>

definition try_from_slice ::
    "('x ledger \<Rightarrow> account_info \<Rightarrow> program_error + 'd) \<Rightarrow> 'x account \<Rightarrow> client_error + 'd" where
  "try_from_slice as account = rmap_err Library_Error
    (as (\<lambda>_. account) \<lparr>ai_key = default_pubkey, ai_is_signer = False, ai_is_writable = False\<rparr>)"

text \<open>Every getter of an account derives its address, fetches it, and casts it.\<close>

definition require_found :: "'a option \<Rightarrow> client_error + 'a" where
  "require_found = ok_or (Anyhow ''Account not found'')"

definition get_typed ::
    "('x, 'y) runtime_scheme \<Rightarrow> 'h handler_scheme \<Rightarrow> ('x, 'z) rpc_scheme \<Rightarrow> (pubkey \<Rightarrow> program_account) \<Rightarrow>
     ('x ledger \<Rightarrow> account_info \<Rightarrow> program_error + 'd) \<Rightarrow> client_error + 'd" where
  "get_typed rt h rpc account as =
    rbind (handler_pda rt h account) (\<lambda>address.
    rbind (rp_account rpc address) (\<lambda>account.
    rbind (require_found account) (try_from_slice as)))"

definition get_tip_router_config :: "('x, 'y) runtime_scheme \<Rightarrow> 'h handler_scheme \<Rightarrow> ('x, 'z) rpc_scheme \<Rightarrow> client_error + config" where
  "get_tip_router_config rt h rpc = get_typed rt h rpc Config_Account (as_config rt)"

definition get_vault_registry :: "('x, 'y) runtime_scheme \<Rightarrow> 'h handler_scheme \<Rightarrow> ('x, 'z) rpc_scheme \<Rightarrow> client_error + vault_registry" where
  "get_vault_registry rt h rpc =
    rbind (handler_pda rt h Vault_Registry_Account) (\<lambda>address.
    rbind (rp_account rpc address) (\<lambda>account.
    rbind (ok_or (Anyhow ''VR Account not found'') account) (try_from_slice (as_vault_registry rt))))"

definition get_epoch_state :: "('x, 'y) runtime_scheme \<Rightarrow> 'h handler_scheme \<Rightarrow> ('x, 'z) rpc_scheme \<Rightarrow> u64 \<Rightarrow> client_error + epoch_state" where
  "get_epoch_state rt h rpc epoch = get_typed rt h rpc (\<lambda>ncn. Epoch_State_Account ncn epoch) (as_epoch_state rt)"

definition get_weight_table :: "('x, 'y) runtime_scheme \<Rightarrow> 'h handler_scheme \<Rightarrow> ('x, 'z) rpc_scheme \<Rightarrow> u64 \<Rightarrow> client_error + weight_table" where
  "get_weight_table rt h rpc epoch = get_typed rt h rpc (\<lambda>ncn. Weight_Table_Account ncn epoch) (as_weight_table rt)"

definition get_epoch_snapshot :: "('x, 'y) runtime_scheme \<Rightarrow> 'h handler_scheme \<Rightarrow> ('x, 'z) rpc_scheme \<Rightarrow> u64 \<Rightarrow> client_error + epoch_snapshot" where
  "get_epoch_snapshot rt h rpc epoch =
    get_typed rt h rpc (\<lambda>ncn. Epoch_Snapshot_Account ncn epoch) (as_epoch_snapshot rt)"

definition get_operator_snapshot ::
    "('x, 'y) runtime_scheme \<Rightarrow> 'h handler_scheme \<Rightarrow> ('x, 'z) rpc_scheme \<Rightarrow> pubkey \<Rightarrow> u64 \<Rightarrow> client_error + operator_snapshot" where
  "get_operator_snapshot rt h rpc operator epoch =
    get_typed rt h rpc (\<lambda>ncn. Operator_Snapshot_Account operator ncn epoch) (as_operator_snapshot rt)"

definition get_ballot_box :: "('x, 'y) runtime_scheme \<Rightarrow> 'h handler_scheme \<Rightarrow> ('x, 'z) rpc_scheme \<Rightarrow> u64 \<Rightarrow> client_error + ballot_box" where
  "get_ballot_box rt h rpc epoch = get_typed rt h rpc (\<lambda>ncn. Ballot_Box_Account ncn epoch) (as_ballot_box rt)"

definition get_base_reward_router ::
    "('x, 'y) runtime_scheme \<Rightarrow> 'h handler_scheme \<Rightarrow> ('x, 'z) rpc_scheme \<Rightarrow> u64 \<Rightarrow> client_error + base_reward_router" where
  "get_base_reward_router rt h rpc epoch =
    get_typed rt h rpc (\<lambda>ncn. Base_Reward_Router_Account ncn epoch) (as_base_reward_router rt)"

definition get_ncn_reward_router ::
    "('x, 'y) runtime_scheme \<Rightarrow> 'h handler_scheme \<Rightarrow> ('x, 'z) rpc_scheme \<Rightarrow> ncn_fee_group \<Rightarrow> pubkey \<Rightarrow> u64 \<Rightarrow> client_error + ncn_reward_router" where
  "get_ncn_reward_router rt h rpc g operator epoch =
    get_typed rt h rpc (\<lambda>ncn. Ncn_Reward_Router_Account g operator ncn epoch) (as_ncn_reward_router rt)"

definition get_epoch_marker :: "('x, 'y) runtime_scheme \<Rightarrow> 'h handler_scheme \<Rightarrow> ('x, 'z) rpc_scheme \<Rightarrow> u64 \<Rightarrow> client_error + epoch_marker" where
  "get_epoch_marker rt h rpc epoch = get_typed rt h rpc (\<lambda>ncn. Epoch_Marker_Account ncn epoch) (as_epoch_marker rt)"

definition get_is_epoch_completed :: "('x, 'y) runtime_scheme \<Rightarrow> 'h handler_scheme \<Rightarrow> ('x, 'z) rpc_scheme \<Rightarrow> u64 \<Rightarrow> client_error + bool" where
  "get_is_epoch_completed rt h rpc epoch =
    rbind (handler_pda rt h (\<lambda>ncn. Epoch_Marker_Account ncn epoch)) (\<lambda>address.
    rbind (rp_account rpc address) (\<lambda>account. Inr (account \<noteq> None)))"

text \<open>The receivers hold lamports only.\<close>

definition get_receiver ::
    "('x, 'y) runtime_scheme \<Rightarrow> 'h handler_scheme \<Rightarrow> ('x, 'z) rpc_scheme \<Rightarrow> (pubkey \<Rightarrow> program_account) \<Rightarrow> client_error + pubkey \<times> 'x account" where
  "get_receiver rt h rpc receiver =
    rbind (handler_pda rt h receiver) (\<lambda>address.
    rbind (rp_account rpc address) (\<lambda>account.
    rbind (require_found account) (\<lambda>account. Inr (address, account))))"

definition get_base_reward_receiver ::
    "('x, 'y) runtime_scheme \<Rightarrow> 'h handler_scheme \<Rightarrow> ('x, 'z) rpc_scheme \<Rightarrow> u64 \<Rightarrow> client_error + pubkey \<times> 'x account" where
  "get_base_reward_receiver rt h rpc epoch = get_receiver rt h rpc (\<lambda>ncn. Base_Reward_Receiver_Account ncn epoch)"

definition get_ncn_reward_receiver ::
    "('x, 'y) runtime_scheme \<Rightarrow> 'h handler_scheme \<Rightarrow> ('x, 'z) rpc_scheme \<Rightarrow> ncn_fee_group \<Rightarrow> pubkey \<Rightarrow> u64 \<Rightarrow>
     client_error + pubkey \<times> 'x account" where
  "get_ncn_reward_receiver rt h rpc g operator epoch =
    get_receiver rt h rpc (\<lambda>ncn. Ncn_Reward_Receiver_Account g operator ncn epoch)"

definition get_receiver_rewards :: "('x, 'z) rpc_scheme \<Rightarrow> pubkey \<Rightarrow> client_error + u64" where
  "get_receiver_rewards rpc address =
    rbind (rp_account rpc address) (\<lambda>account.
    rbind (rp_minimum_balance rpc) (\<lambda>rent.
    rbind (require_found account) (\<lambda>account.
    ok_or Client_Panic (checked_sub (ac_lamports account) rent))))"

definition get_base_reward_receiver_rewards ::
    "('x, 'y) runtime_scheme \<Rightarrow> 'h handler_scheme \<Rightarrow> ('x, 'z) rpc_scheme \<Rightarrow> u64 \<Rightarrow> client_error + u64" where
  "get_base_reward_receiver_rewards rt h rpc epoch =
    rbind (get_base_reward_receiver rt h rpc epoch) (\<lambda>(address, _). get_receiver_rewards rpc address)"

definition get_ncn_reward_receiver_rewards ::
    "('x, 'y) runtime_scheme \<Rightarrow> 'h handler_scheme \<Rightarrow> ('x, 'z) rpc_scheme \<Rightarrow> ncn_fee_group \<Rightarrow> pubkey \<Rightarrow> u64 \<Rightarrow> client_error + u64" where
  "get_ncn_reward_receiver_rewards rt h rpc g operator epoch =
    rbind (get_ncn_reward_receiver rt h rpc g operator epoch) (\<lambda>(address, _). get_receiver_rewards rpc address)"

text \<open>\<open>get_total_rewards_to_be_distributed\<close>: what the receivers of the epoch hold, of the operators that voted for the
  winner and the groups with a fee. Receivers that cannot be read count nothing, but a panic is not caught; the
  sums are checked.\<close>

definition or_nothing :: "client_error + u64 \<Rightarrow> client_error + u64" where
  "or_nothing r = (case r of Inl e \<Rightarrow> if fatal e then Inl e else Inr 0 | Inr n \<Rightarrow> Inr n)"

definition winning_operators :: "ballot_box \<Rightarrow> tip_router_error + pubkey list" where
  "winning_operators bb =
    rbind (get_winning_ballot_tally bb) (\<lambda>tally.
    Inr (map ov_operator (filter (\<lambda>vote. ov_ballot_index vote = bt_index tally) (bb_operator_votes bb))))"

definition charged_groups :: "fees \<Rightarrow> client_error + ncn_fee_group list" where
  "charged_groups fees = rfilter
    (\<lambda>g. rbind (rmap_err (\<lambda>_. Client_Panic) (fees_ncn_fee_bps fees g)) (\<lambda>bps. Inr (bps > 0)))
    ncn_fee_group_all_groups"

definition get_total_rewards_to_be_distributed ::
    "('x, 'y) runtime_scheme \<Rightarrow> 'h handler_scheme \<Rightarrow> ('x, 'z) rpc_scheme \<Rightarrow> u64 \<Rightarrow> client_error + u64" where
  "get_total_rewards_to_be_distributed rt h rpc epoch =
    rbind (get_ballot_box rt h rpc epoch) (\<lambda>ballot_box.
    rbind (rmap_err (Library_Error \<circ> program_error_from) (winning_operators ballot_box)) (\<lambda>all_operators.
    rbind (get_epoch_snapshot rt h rpc epoch) (\<lambda>epoch_snapshot.
    rbind (charged_groups (es_fees epoch_snapshot)) (\<lambda>all_ncn_groups.
    case get_base_reward_receiver_rewards rt h rpc epoch of
      Inl e \<Rightarrow> if fatal e then Inl e else Inr 0
    | Inr base_rewards \<Rightarrow>
        rfold (\<lambda>(operator, g) total.
          rbind (or_nothing (get_ncn_reward_receiver_rewards rt h rpc g operator epoch)) (\<lambda>rewards.
          ok_or Client_Panic (checked_add total rewards)))
          (List.product all_operators all_ncn_groups) base_rewards))))"

end
