(* ===== verification/Keeper.thy ===== *)
theory Keeper
  imports Client_Reads Epoch_Stages
begin

text \<open>
  The keeper (\<open>cli/src/keeper/keeper_state.rs\<close>, \<open>keeper_loop.rs\<close>): a process that walks over the epochs and cranks
  each one through its stages. Every round of its loop is a function of what the RPC node answers and of how the
  cranks end; a method that changes the state in place returns the state with its result, for an error leaves the
  changes made before it.
\<close>

section \<open>Model\<close>

record keeper_state =
  ks_epoch :: u64
  ks_ncn :: pubkey
  ks_vaults :: "pubkey list"
  ks_operators :: "pubkey list"
  ks_tip_router_config_address :: pubkey
  ks_vault_registry_address :: pubkey
  ks_epoch_state_address :: pubkey
  ks_weight_table_address :: pubkey
  ks_epoch_snapshot_address :: pubkey
  ks_operator_snapshots_address :: "pubkey list"
  ks_ballot_box_address :: pubkey
  ks_base_reward_router_address :: pubkey
  ks_base_reward_receiver_address :: pubkey
  ks_ncn_reward_routers_address :: "pubkey list list"
  ks_ncn_reward_receivers_address :: "pubkey list list"
  ks_epoch_state :: "epoch_state option"
  ks_current_state :: "epoch_stage option"
  ks_is_epoch_completed :: bool

definition keeper_state_default :: keeper_state where
  "keeper_state_default =
    \<lparr>ks_epoch = 0, ks_ncn = default_pubkey, ks_vaults = [], ks_operators = [],
     ks_tip_router_config_address = default_pubkey, ks_vault_registry_address = default_pubkey,
     ks_epoch_state_address = default_pubkey, ks_weight_table_address = default_pubkey,
     ks_epoch_snapshot_address = default_pubkey, ks_operator_snapshots_address = [],
     ks_ballot_box_address = default_pubkey, ks_base_reward_router_address = default_pubkey,
     ks_base_reward_receiver_address = default_pubkey, ks_ncn_reward_routers_address = [],
     ks_ncn_reward_receivers_address = [], ks_epoch_state = None, ks_current_state = None,
     ks_is_epoch_completed = False\<rparr>"

text \<open>The stage of the epoch state that is held, with the weight table when weights are being set.\<close>

definition keeper_weight_table :: "('x, 'y) runtime_scheme \<Rightarrow> 'x rpc \<Rightarrow> keeper_state \<Rightarrow> client_error + weight_table option" where
  "keeper_weight_table rt rpc ks =
    rbind (rp_account rpc (ks_weight_table_address ks)) (\<lambda>raw_account.
    case raw_account of
      None \<Rightarrow> Inr None
    | Some raw_account \<Rightarrow> rbind (try_from_slice (as_weight_table rt) raw_account) (\<lambda>t. Inr (Some t)))"

definition stage_of :: "('x, 'y) runtime_scheme \<Rightarrow> 'h handler_scheme \<Rightarrow> 'x rpc \<Rightarrow> keeper_state \<Rightarrow> client_error + epoch_stage" where
  "stage_of rt h rpc ks =
    rbind (rp_slot rpc) (\<lambda>current_slot.
    rbind (rp_get_epoch rpc) (\<lambda>epoch_schedule.
    rbind (get_tip_router_config rt h rpc) (\<lambda>config.
    rbind (ok_or (Anyhow ''Epoch state does not exist'') (ks_epoch_state ks)) (\<lambda>epoch_state.
    if pr_tally (st_set_weight_progress epoch_state) > 0 then
      rbind (keeper_weight_table rt rpc ks) (\<lambda>weight_table_result.
      rbind (ok_or (Anyhow ''Weight table does not exist'') weight_table_result) (\<lambda>weight_table.
      rmap_err Library_Error (current_state_patched epoch_schedule epoch_state (cf_valid_slots_after_consensus config)
        (cf_epochs_after_consensus_before_close config) (of_nat (wt_st_mint_count weight_table)) current_slot)))
    else rmap_err Library_Error (current_state epoch_schedule epoch_state (cf_valid_slots_after_consensus config)
        (cf_epochs_after_consensus_before_close config) current_slot)))))"

definition update_current_state ::
    "('x, 'y) runtime_scheme \<Rightarrow> 'h handler_scheme \<Rightarrow> 'x rpc \<Rightarrow> keeper_state \<Rightarrow> (client_error + unit) \<times> keeper_state" where
  "update_current_state rt h rpc ks =
    (case stage_of rt h rpc ks of
       Inl e \<Rightarrow> (Inl e, ks)
     | Inr stage \<Rightarrow> (Inr (), ks\<lparr>ks_current_state := Some stage\<rparr>))"

definition update_epoch_state ::
    "('x, 'y) runtime_scheme \<Rightarrow> 'h handler_scheme \<Rightarrow> 'x rpc \<Rightarrow> keeper_state \<Rightarrow> (client_error + unit) \<times> keeper_state" where
  "update_epoch_state rt h rpc ks =
    (case get_is_epoch_completed rt h rpc (ks_epoch ks) of
       Inl e \<Rightarrow> (Inl e, ks)
     | Inr True \<Rightarrow> (Inr (), ks\<lparr>ks_is_epoch_completed := True\<rparr>)
     | Inr False \<Rightarrow>
         let ks = ks\<lparr>ks_is_epoch_completed := False\<rparr> in
         (case rp_account rpc (ks_epoch_state_address ks) of
            Inl e \<Rightarrow> (Inl e, ks)
          | Inr None \<Rightarrow> (Inr (), ks\<lparr>ks_epoch_state := None\<rparr>)
          | Inr (Some raw_account) \<Rightarrow>
              if ac_len raw_account < account_size D_EpochState then (Inr (), ks\<lparr>ks_epoch_state := None\<rparr>)
              else
                (case try_from_slice (as_epoch_state rt) raw_account of
                   Inl e \<Rightarrow> (Inl e, ks)
                 | Inr account \<Rightarrow> update_current_state rt h rpc (ks\<lparr>ks_epoch_state := Some account\<rparr>))))"

text \<open>The addresses of an epoch; the three lists are extended, they are never cleared.\<close>

definition fetch_addresses :: "('x, 'y) runtime_scheme \<Rightarrow> pubkey \<Rightarrow> pubkey \<Rightarrow> u64 \<Rightarrow> keeper_state \<Rightarrow> keeper_state" where
  "fetch_addresses rt program_id ncn epoch ks =
    ks\<lparr>ks_tip_router_config_address := pda rt program_id (Config_Account ncn),
      ks_vault_registry_address := pda rt program_id (Vault_Registry_Account ncn),
      ks_epoch_state_address := pda rt program_id (Epoch_State_Account ncn epoch),
      ks_weight_table_address := pda rt program_id (Weight_Table_Account ncn epoch),
      ks_epoch_snapshot_address := pda rt program_id (Epoch_Snapshot_Account ncn epoch),
      ks_operator_snapshots_address := ks_operator_snapshots_address ks @
        map (\<lambda>operator. pda rt program_id (Operator_Snapshot_Account operator ncn epoch)) (ks_operators ks),
      ks_ballot_box_address := pda rt program_id (Ballot_Box_Account ncn epoch),
      ks_base_reward_router_address := pda rt program_id (Base_Reward_Router_Account ncn epoch),
      ks_base_reward_receiver_address := pda rt program_id (Base_Reward_Receiver_Account ncn epoch),
      ks_ncn_reward_routers_address := ks_ncn_reward_routers_address ks @
        map (\<lambda>operator. map (\<lambda>g. pda rt program_id (Ncn_Reward_Router_Account g operator ncn epoch))
          ncn_fee_group_all_groups) (ks_operators ks),
      ks_ncn_reward_receivers_address := ks_ncn_reward_receivers_address ks @
        map (\<lambda>operator. map (\<lambda>g. pda rt program_id (Ncn_Reward_Receiver_Account g operator ncn epoch))
          ncn_fee_group_all_groups) (ks_operators ks)\<rparr>"

definition keeper_fetch ::
    "('x, 'y) runtime_scheme \<Rightarrow> 'h handler_scheme \<Rightarrow> 'x rpc \<Rightarrow> u64 \<Rightarrow> keeper_state \<Rightarrow> (client_error + unit) \<times> keeper_state" where
  "keeper_fetch rt h rpc epoch ks =
    (case handler_ncn h of
       Inl e \<Rightarrow> (Inl e, ks)
     | Inr ncn \<Rightarrow>
         let ks = ks\<lparr>ks_ncn := ncn\<rparr> in
         (case rp_vaults rpc of
            Inl e \<Rightarrow> (Inl e, ks)
          | Inr vaults \<Rightarrow>
              let ks = ks\<lparr>ks_vaults := vaults\<rparr> in
              (case rp_operators rpc of
                 Inl e \<Rightarrow> (Inl e, ks)
               | Inr operators \<Rightarrow>
                   let ks = ks\<lparr>ks_operators := operators\<rparr> in
                   (case update_epoch_state rt h rpc (fetch_addresses rt (hd_tip_router_program_id h) ncn epoch ks) of
                      (Inl e, ks) \<Rightarrow> (Inl e, ks)
                    | (Inr _, ks) \<Rightarrow> (Inr (), ks\<lparr>ks_epoch := epoch\<rparr>)))))"

definition detect_stall :: "('x, 'y) runtime_scheme \<Rightarrow> 'h handler_scheme \<Rightarrow> 'x rpc \<Rightarrow> keeper_state \<Rightarrow> client_error + bool" where
  "detect_stall rt h rpc ks =
    rbind (ok_or (Anyhow ''Current state does not exist'') (ks_current_state ks)) (\<lambda>current_state.
    if current_state = Vote then Inr True
    else if current_state = Distribute then
      rbind (get_total_rewards_to_be_distributed rt h rpc (ks_epoch ks)) (\<lambda>total_rewards_to_be_distributed.
      Inr (total_rewards_to_be_distributed < 10000))
    else Inr False)"

text \<open>\<open>progress_epoch\<close>, for the epoch the cluster is in; None is the overflow of \<open>keeper_epoch + 1\<close>.\<close>

definition progress_epoch :: "u64 \<Rightarrow> bool \<Rightarrow> u64 \<Rightarrow> u64 \<Rightarrow> u64 \<Rightarrow> bool \<Rightarrow> u64 option" where
  "progress_epoch current_epoch is_epoch_completed starting_epoch last_current_epoch keeper_epoch epoch_stall =
    (if current_epoch > last_current_epoch then Some current_epoch
     else if is_epoch_completed \<or> epoch_stall then
       (if keeper_epoch = current_epoch then Some starting_epoch else checked_add keeper_epoch 1)
     else Some keeper_epoch)"

text \<open>One round of \<open>run_keeper\<close>: what the node answers during it and how the cranks end. The metrics and the pauses
  change nothing.\<close>

record 'x round_answers =
  ra_epoch :: u64
  ra_register_vaults :: "client_error + unit"
  ra_fetch :: "'x rpc"
  ra_update :: "'x rpc"
  ra_create_epoch_state :: "client_error + unit"
  ra_crank :: "epoch_stage \<Rightarrow> u64 \<Rightarrow> client_error + unit"
  ra_stall :: "'x rpc"

record keeper =
  kp_state :: keeper_state
  kp_epoch_stall :: bool
  kp_current_epoch :: u64
  kp_last_current_epoch :: u64

datatype keeper_action = Create_Epoch_State u64 | Crank epoch_stage u64

definition start_keeper :: "'h handler_scheme \<Rightarrow> u64 \<Rightarrow> keeper" where
  "start_keeper h cluster_epoch =
    \<lparr>kp_state = keeper_state_default, kp_epoch_stall = False, kp_current_epoch = hd_epoch h,
     kp_last_current_epoch = cluster_epoch\<rparr>"

text \<open>Result of a round: what it did, and the keeper that goes on; none after a panic.\<close>

definition goes_on :: "client_error + 'a \<Rightarrow> keeper_action list \<Rightarrow> keeper \<Rightarrow> keeper_action list \<times> keeper option" where
  "goes_on r actions k = (actions, case r of Inl e \<Rightarrow> if fatal e then None else Some k | Inr _ \<Rightarrow> Some k)"

definition keeper_crank_stage ::
    "('x, 'y) runtime_scheme \<Rightarrow> 'h handler_scheme \<Rightarrow> 'x round_answers \<Rightarrow> keeper \<Rightarrow> keeper_action list \<times> keeper option" where
  "keeper_crank_stage rt h answers k =
    (let ks = kp_state k in
     case ks_current_state ks of
       None \<Rightarrow> ([], None)
     | Some stage \<Rightarrow>
         let crank = ra_crank answers stage (ks_epoch ks) in
         (case crank of
            Inl e \<Rightarrow> goes_on crank [Crank stage (ks_epoch ks)] k
          | Inr _ \<Rightarrow>
              let stall = detect_stall rt h (ra_stall answers) ks in
              goes_on stall [Crank stage (ks_epoch ks)]
                (case stall of Inl _ \<Rightarrow> k | Inr b \<Rightarrow> k\<lparr>kp_epoch_stall := b\<rparr>)))"

definition keeper_act ::
    "('x, 'y) runtime_scheme \<Rightarrow> 'h handler_scheme \<Rightarrow> 'x round_answers \<Rightarrow> keeper \<Rightarrow> keeper_action list \<times> keeper option" where
  "keeper_act rt h answers k =
    (case update_epoch_state rt h (ra_update answers) (kp_state k) of
       (Inl e, ks) \<Rightarrow> goes_on (Inl e :: client_error + unit) [] (k\<lparr>kp_state := ks\<rparr>)
     | (Inr _, ks) \<Rightarrow>
         if ks_is_epoch_completed ks then ([], Some (k\<lparr>kp_state := ks\<rparr>))
         else if ks_epoch_state ks = None then
           goes_on (ra_create_epoch_state answers) [Create_Epoch_State (ks_epoch ks)] (k\<lparr>kp_state := ks\<rparr>)
         else keeper_crank_stage rt h answers (k\<lparr>kp_state := ks\<rparr>))"

definition keeper_round ::
    "('x, 'y) runtime_scheme \<Rightarrow> 'h handler_scheme \<Rightarrow> 'x round_answers \<Rightarrow> keeper \<Rightarrow> keeper_action list \<times> keeper option" where
  "keeper_round rt h answers k =
    (case progress_epoch (ra_epoch answers) (ks_is_epoch_completed (kp_state k)) (hd_epoch h)
        (kp_last_current_epoch k) (kp_current_epoch k) (kp_epoch_stall k) of
       None \<Rightarrow> ([], None)
     | Some epoch \<Rightarrow>
         let k = k\<lparr>kp_current_epoch := epoch, kp_last_current_epoch := max (kp_last_current_epoch k) epoch,
           kp_epoch_stall := False\<rparr> in
         (case ra_register_vaults answers of
            Inl e \<Rightarrow> goes_on (ra_register_vaults answers) [] k
          | Inr _ \<Rightarrow>
              (case (if ks_epoch (kp_state k) \<noteq> epoch then keeper_fetch rt h (ra_fetch answers) epoch (kp_state k)
                  else (Inr (), kp_state k)) of
                 (Inl e, ks) \<Rightarrow> goes_on (Inl e :: client_error + unit) [] (k\<lparr>kp_state := ks\<rparr>)
               | (Inr _, ks) \<Rightarrow> keeper_act rt h answers (k\<lparr>kp_state := ks\<rparr>))))"

text \<open>The loop over a list of rounds: what each did, and the keeper after each, while it goes on.\<close>

primrec run_keeper ::
    "('x, 'y) runtime_scheme \<Rightarrow> 'h handler_scheme \<Rightarrow> 'x round_answers list \<Rightarrow> keeper \<Rightarrow> (keeper_action list \<times> keeper option) list" where
  "run_keeper rt h [] k = []"
| "run_keeper rt h (answers # rounds) k =
    (let result = keeper_round rt h answers k in
     result # (case snd result of None \<Rightarrow> [] | Some k \<Rightarrow> run_keeper rt h rounds k))"

end
