(* ===== verification/Keeper_Runs.thy ===== *)
theory Keeper_Runs
  imports Keeper
begin

text \<open>
  What the keeper does over many rounds: it cranks an epoch through the stage its accounts are in, and comes to every
  epoch.
\<close>

section \<open>The stage that is cranked\<close>

text \<open>The addresses of the keeper are those of its epoch.\<close>

definition at_epoch :: "('x, 'y) runtime_scheme \<Rightarrow> handler \<Rightarrow> pubkey \<Rightarrow> keeper_state \<Rightarrow> bool" where
  "at_epoch rt h ncn ks \<longleftrightarrow>
    ks_epoch_state_address ks = pda rt (hd_tip_router_program_id h) (Epoch_State_Account ncn (ks_epoch ks)) \<and>
    ks_weight_table_address ks = pda rt (hd_tip_router_program_id h) (Weight_Table_Account ncn (ks_epoch ks))"

text \<open>The node shows that an epoch is in a stage: there is no marker, and the stage is the one of its state.\<close>

definition shows_stage :: "('x, 'y) runtime_scheme \<Rightarrow> handler \<Rightarrow> 'x rpc \<Rightarrow> pubkey \<Rightarrow> u64 \<Rightarrow> epoch_stage \<Rightarrow> bool" where
  "shows_stage rt h rpc ncn epoch stage \<longleftrightarrow>
    rp_account rpc (pda rt (hd_tip_router_program_id h) (Epoch_Marker_Account ncn epoch)) = Inr None \<and>
    (\<exists>account ks.
      rp_account rpc (pda rt (hd_tip_router_program_id h) (Epoch_State_Account ncn epoch)) = Inr (Some account) \<and>
      try_from_slice (as_epoch_state rt) account = Inr (the (ks_epoch_state ks)) \<and> ks_epoch_state ks \<noteq> None \<and>
      at_epoch rt h ncn ks \<and> ks_epoch ks = epoch \<and> stage_of rt h rpc ks = Inr stage)"

definition same_addresses :: "keeper_state \<Rightarrow> keeper_state \<Rightarrow> bool" where
  "same_addresses ks ks' \<longleftrightarrow> ks_epoch ks' = ks_epoch ks \<and> ks_epoch_state_address ks' = ks_epoch_state_address ks \<and>
    ks_weight_table_address ks' = ks_weight_table_address ks"

lemma same_addresses_at_epoch: "same_addresses ks ks' \<Longrightarrow> at_epoch rt h ncn ks' \<longleftrightarrow> at_epoch rt h ncn ks"
  by (simp add: same_addresses_def at_epoch_def)

lemma update_current_state_cases:
  assumes "update_current_state rt h rpc ks = (r, ks')"
  shows "same_addresses ks ks'" "ks_epoch_state ks' = ks_epoch_state ks"
    "ks_is_epoch_completed ks' = ks_is_epoch_completed ks"
    "r = Inr () \<Longrightarrow> \<exists>stage. stage_of rt h rpc ks = Inr stage \<and> ks_current_state ks' = Some stage"
  using assms by (auto simp: update_current_state_def same_addresses_def split: sum.splits)

lemma update_epoch_state_addresses:
  assumes "update_epoch_state rt h rpc ks = (r, ks')"
  shows "same_addresses ks ks'"
  using assms
  by (auto simp: update_epoch_state_def Let_def same_addresses_def update_current_state_def
      split: sum.splits bool.splits option.splits if_splits)

text \<open>After an update that found an epoch state and no marker, the stage that is held is the one shown.\<close>

lemma update_epoch_state_shows:
  assumes ncn: "hd_ncn h = Some ncn" and at: "at_epoch rt h ncn ks"
    and update: "update_epoch_state rt h rpc ks = (Inr (), ks')"
    and live: "\<not> ks_is_epoch_completed ks'" "ks_epoch_state ks' \<noteq> None"
  shows "\<exists>stage. ks_current_state ks' = Some stage \<and> shows_stage rt h rpc ncn (ks_epoch ks') stage"
proof -
  have marker: "get_is_epoch_completed rt h rpc (ks_epoch ks) = Inr False"
    using update live(1) by (auto simp: update_epoch_state_def split: sum.splits bool.splits)
  let ?ks = "ks\<lparr>ks_is_epoch_completed := False\<rparr>"
  obtain account s where account: "rp_account rpc (ks_epoch_state_address ks) = Inr (Some account)"
    and s: "try_from_slice (as_epoch_state rt) account = Inr s"
    and current: "update_current_state rt h rpc (?ks\<lparr>ks_epoch_state := Some s\<rparr>) = (Inr (), ks')"
    using update live(2) marker
    by (auto simp: update_epoch_state_def Let_def split: sum.splits option.splits if_splits)
  have addresses: "at_epoch rt h ncn (?ks\<lparr>ks_epoch_state := Some s\<rparr>)" using at by (simp add: at_epoch_def)
  from update_current_state_cases [OF current] obtain stage
    where "stage_of rt h rpc (?ks\<lparr>ks_epoch_state := Some s\<rparr>) = Inr stage" "ks_current_state ks' = Some stage"
      "ks_epoch ks' = ks_epoch ks" by (auto simp: same_addresses_def)
  moreover have "rp_account rpc (pda rt (hd_tip_router_program_id h) (Epoch_Marker_Account ncn (ks_epoch ks))) = Inr None"
    using marker by (auto simp: get_is_epoch_completed_def handler_pda_def handler_ncn_def ncn rbind_Inr)
  ultimately show ?thesis using account s addresses at
    by (intro exI [of _ stage] conjI) (auto simp: shows_stage_def at_epoch_def
        intro!: exI [of _ account] exI [of _ "?ks\<lparr>ks_epoch_state := Some s\<rparr>"])
qed

lemma keeper_fetch_at_epoch:
  assumes ncn: "hd_ncn h = Some ncn" and "keeper_fetch rt h rpc epoch ks = (Inr (), ks')"
  shows "at_epoch rt h ncn ks' \<and> ks_epoch ks' = epoch"
  using assms
  by (auto simp: keeper_fetch_def handler_ncn_def Let_def at_epoch_def fetch_addresses_def same_addresses_def
      split: sum.splits prod.splits dest!: update_epoch_state_addresses)

section \<open>Rounds\<close>

text \<open>Between rounds: the addresses are those of the epoch of the state, which is 0 until the first fetch.\<close>

definition keeper_inv :: "('x, 'y) runtime_scheme \<Rightarrow> handler \<Rightarrow> pubkey \<Rightarrow> keeper \<Rightarrow> bool" where
  "keeper_inv rt h ncn k \<longleftrightarrow> 0 < kp_current_epoch k \<and>
    (ks_epoch (kp_state k) = 0 \<or> at_epoch rt h ncn (kp_state k))"

definition fetches :: "('x, 'y) runtime_scheme \<Rightarrow> handler \<Rightarrow> 'x round_answers \<Rightarrow> bool" where
  "fetches rt h answers \<longleftrightarrow> (\<forall>epoch ks. fst (keeper_fetch rt h (ra_fetch answers) epoch ks) = Inr ())"

lemma progress_epoch_pos:
  assumes "progress_epoch c d start reached e stall = Some e'" and "0 < start" and "0 < e"
  shows "0 < e'"
  using assms by (auto simp: progress_epoch_def checked_add_Some word_less_nat_alt split: if_splits)

lemma goes_on_cases:
  assumes "goes_on r acts k = (acts', k')"
  shows "acts' = acts" "k' = None \<or> k' = Some k"
  using assms by (auto simp: goes_on_def split: if_splits sum.splits)

lemma keeper_crank_stage_cases:
  assumes "keeper_crank_stage rt h answers k = (acts, k')"
  shows "Crank stage e \<in> set acts \<Longrightarrow> e = ks_epoch (kp_state k) \<and> ks_current_state (kp_state k) = Some stage"
    "k' = Some k1 \<Longrightarrow> kp_state k1 = kp_state k \<and> kp_current_epoch k1 = kp_current_epoch k \<and>
      kp_last_current_epoch k1 = kp_last_current_epoch k"
  using assms by (auto simp: keeper_crank_stage_def goes_on_def Let_def split: option.splits sum.splits if_splits)

lemma keeper_act_step:
  assumes ncn: "hd_ncn h = Some ncn" and at: "at_epoch rt h ncn (kp_state k)"
    and act: "keeper_act rt h answers k = (acts, k')"
  shows "Crank stage e \<in> set acts \<Longrightarrow> e = ks_epoch (kp_state k) \<and> shows_stage rt h (ra_update answers) ncn e stage"
    and "k' = Some k1 \<Longrightarrow> at_epoch rt h ncn (kp_state k1) \<and> kp_current_epoch k1 = kp_current_epoch k"
proof -
  obtain r ks where update: "update_epoch_state rt h (ra_update answers) (kp_state k) = (r, ks)" by fastforce
  have ks: "at_epoch rt h ncn ks" "ks_epoch ks = ks_epoch (kp_state k)"
    using update_epoch_state_addresses [OF update] at by (simp_all add: same_addresses_def at_epoch_def)
  let ?live = "r = Inr () \<and> \<not> ks_is_epoch_completed ks \<and> ks_epoch_state ks \<noteq> None"
  have live: "keeper_crank_stage rt h answers (k\<lparr>kp_state := ks\<rparr>) = (acts, k')" if ?live
    using act that by (auto simp: keeper_act_def update)
  have idle: "set acts \<subseteq> {Create_Epoch_State (ks_epoch ks)} \<and> (k' = None \<or> k' = Some (k\<lparr>kp_state := ks\<rparr>))" if "\<not> ?live"
    using act that by (auto simp: keeper_act_def update goes_on_def split: sum.splits if_splits)
  show "e = ks_epoch (kp_state k) \<and> shows_stage rt h (ra_update answers) ncn e stage" if c: "Crank stage e \<in> set acts"
  proof (cases ?live)
    case True
    from keeper_crank_stage_cases(1) [OF live [OF True] c]
    have "e = ks_epoch ks" "ks_current_state ks = Some stage" by simp_all
    then show ?thesis using update_epoch_state_shows [OF ncn at] update True ks(2) by fastforce
  next
    case False
    then show ?thesis using idle c by auto
  qed
  show "at_epoch rt h ncn (kp_state k1) \<and> kp_current_epoch k1 = kp_current_epoch k" if "k' = Some k1"
    using idle live keeper_crank_stage_cases(2) [of rt h answers "k\<lparr>kp_state := ks\<rparr>" acts k' k1] ks that
    by (cases ?live) auto
qed

lemma keeper_round_step:
  assumes ncn: "hd_ncn h = Some ncn" and start: "0 < hd_epoch h" and fetch: "fetches rt h answers"
    and inv: "keeper_inv rt h ncn k" and round: "keeper_round rt h answers k = (acts, k')"
  shows "(\<forall>stage e. Crank stage e \<in> set acts \<longrightarrow> shows_stage rt h (ra_update answers) ncn e stage) \<and>
    (\<forall>k1. k' = Some k1 \<longrightarrow> keeper_inv rt h ncn k1)"
proof (cases "progress_epoch (ra_epoch answers) (ks_is_epoch_completed (kp_state k)) (hd_epoch h)
      (kp_last_current_epoch k) (kp_current_epoch k) (kp_epoch_stall k)")
  case None
  then show ?thesis using round by (simp add: keeper_round_def)
next
  case (Some epoch)
  have pos: "0 < epoch" using progress_epoch_pos [OF Some start] inv by (simp add: keeper_inv_def)
  let ?k = "k\<lparr>kp_current_epoch := epoch, kp_last_current_epoch := max (kp_last_current_epoch k) epoch,
      kp_epoch_stall := False\<rparr>"
  obtain r ks where fetched: "(if ks_epoch (kp_state k) \<noteq> epoch
      then keeper_fetch rt h (ra_fetch answers) epoch (kp_state k) else (Inr (), kp_state k)) = (r, ks)" by fastforce
  have r: "r = Inr ()" using fetch fetched by (auto simp: fetches_def split: if_splits dest: arg_cong [of _ _ fst])
  have ks: "at_epoch rt h ncn ks" "ks_epoch ks = epoch"
    using fetched inv pos keeper_fetch_at_epoch [OF ncn, of rt "ra_fetch answers" epoch "kp_state k" ks]
    by (simp_all add: r keeper_inv_def split: if_splits) auto
  show ?thesis
  proof (cases "ra_register_vaults answers")
    case (Inl e)
    then show ?thesis using round inv pos Some
      by (auto simp: keeper_round_def keeper_inv_def goes_on_def split: if_splits)
  next
    case (Inr u)
    then have "keeper_act rt h answers (?k\<lparr>kp_state := ks\<rparr>) = (acts, k')"
      using round fetched Some by (auto simp: keeper_round_def r Let_def split: if_splits)
    from keeper_act_step [OF ncn _ this] show ?thesis using ks pos by (auto simp: keeper_inv_def)
  qed
qed

text \<open>C14. The keeper cranks an epoch only through the stage it is in: in every round of every run, if no fetch fails half way,
  whatever else fails and whatever the node answers, the epoch that is cranked has no marker, and the stage is the one
  its epoch state showed in this round.\<close>

theorem keeper_cranks_stage:
  assumes ncn: "hd_ncn h = Some ncn" and start: "0 < hd_epoch h"
    and fetch: "\<And>answers. answers \<in> set rounds \<Longrightarrow> fetches rt h answers"
    and i: "i < length (run_keeper rt h rounds (start_keeper h cluster_epoch))"
    and crank: "Crank stage e \<in> set (fst (run_keeper rt h rounds (start_keeper h cluster_epoch) ! i))"
  shows "shows_stage rt h (ra_update (rounds ! i)) ncn e stage"
proof -
  have "shows_stage rt h (ra_update (rounds ! i)) ncn e stage"
    if "keeper_inv rt h ncn k" "i < length (run_keeper rt h rounds k)" "Crank stage e \<in> set (fst (run_keeper rt h rounds k ! i))" for k
    using that fetch
  proof (induction rounds arbitrary: k i)
    case (Cons answers rounds)
    obtain acts k' where round: "keeper_round rt h answers k = (acts, k')" by fastforce
    note step = keeper_round_step [OF ncn start Cons.prems(4) [OF list.set_intros(1)] Cons.prems(1) round]
    show ?case
    proof (cases i)
      case 0
      then show ?thesis using step Cons.prems(3) by (simp add: round)
    next
      case (Suc j)
      then obtain k1 where "k' = Some k1" using Cons.prems(2) by (auto simp: round split: option.splits)
      then show ?thesis using Cons.IH [of k1 j] Cons.prems step by (simp add: round Suc)
    qed
  qed simp
  moreover have "keeper_inv rt h ncn (start_keeper h cluster_epoch)"
    using start by (simp add: keeper_inv_def start_keeper_def keeper_state_default_def)
  ultimately show ?thesis using i crank by blast
qed

section \<open>The epochs that are visited\<close>

lemma keeper_act_current:
  assumes "keeper_act rt h answers k = (acts, Some k1)"
  shows "kp_current_epoch k1 = kp_current_epoch k \<and> kp_last_current_epoch k1 = kp_last_current_epoch k"
  using assms
  by (auto simp: keeper_act_def goes_on_def dest!: keeper_crank_stage_cases(2) [OF _ refl]
      split: prod.splits sum.splits if_splits)

lemma keeper_round_current:
  assumes "keeper_round rt h answers k = (acts, Some k1)"
  shows "progress_epoch (ra_epoch answers) (ks_is_epoch_completed (kp_state k)) (hd_epoch h)
      (kp_last_current_epoch k) (kp_current_epoch k) (kp_epoch_stall k) = Some (kp_current_epoch k1) \<and>
    kp_last_current_epoch k1 = max (kp_last_current_epoch k) (kp_current_epoch k1)"
  using assms
  by (auto simp: keeper_round_def Let_def goes_on_def split: option.splits sum.splits prod.splits if_splits
      dest!: keeper_act_current)

lemma run_keeper_Suc:
  assumes "Suc i < length (run_keeper rt h rounds k)"
  shows "\<exists>k1. snd (run_keeper rt h rounds k ! i) = Some k1 \<and>
    run_keeper rt h rounds k ! Suc i = keeper_round rt h (rounds ! Suc i) k1 \<and> Suc i < length rounds"
  using assms
proof (induction rounds arbitrary: k i)
  case (Cons answers rounds)
  then obtain k1 where k1: "snd (keeper_round rt h answers k) = Some k1"
    by (auto simp: Let_def split: option.splits)
  show ?case
  proof (cases i)
    case 0
    then show ?thesis using Cons.prems k1 by (cases rounds) (auto simp: Let_def)
  next
    case (Suc j)
    then show ?thesis using Cons.IH [of j k1] Cons.prems k1 by (auto simp: Let_def)
  qed
qed simp

text \<open>C15. While the cluster stays in an epoch and every round ends with its epoch completed or stalled, the keeper goes round
  all epochs from the one it was started with to the one of the cluster, one each round, and starts again.\<close>

theorem keeper_round_robin:
  assumes range: "hd_epoch h \<le> cluster_epoch"
    and cluster: "\<And>answers. answers \<in> set rounds \<Longrightarrow> ra_epoch answers = cluster_epoch"
    and passed: "\<And>j k. Suc j < length (run_keeper rt h rounds (start_keeper h cluster_epoch)) \<Longrightarrow>
      snd (run_keeper rt h rounds (start_keeper h cluster_epoch) ! j) = Some k \<Longrightarrow>
      ks_is_epoch_completed (kp_state k) \<or> kp_epoch_stall k"
    and i: "i < length (run_keeper rt h rounds (start_keeper h cluster_epoch))"
    and k: "snd (run_keeper rt h rounds (start_keeper h cluster_epoch) ! i) = Some k"
  shows "unat (kp_current_epoch k) =
    unat (hd_epoch h) + i mod (unat cluster_epoch - unat (hd_epoch h) + 1)"
proof -
  let ?run = "run_keeper rt h rounds (start_keeper h cluster_epoch)"
  let ?n = "unat cluster_epoch - unat (hd_epoch h) + 1"
  have le: "unat (hd_epoch h) \<le> unat cluster_epoch" using range by (simp add: word_le_nat_alt)
  have "unat (kp_current_epoch k) = unat (hd_epoch h) + i mod ?n \<and> kp_last_current_epoch k = cluster_epoch"
    using i k
  proof (induction i arbitrary: k)
    case 0
    obtain answers rest where rounds: "rounds = answers # rest" using 0 by (cases rounds) auto
    then have "keeper_round rt h answers (start_keeper h cluster_epoch) =
        (fst (?run ! 0), Some k)" using 0(2) by (simp add: Let_def prod_eq_iff)
    from keeper_round_current [OF this] show ?case using range cluster [of answers]
      by (auto simp: progress_epoch_def start_keeper_def keeper_state_default_def rounds)
  next
    case (Suc i)
    obtain k1 where k1: "snd (?run ! i) = Some k1" and next_round: "?run ! Suc i = keeper_round rt h (rounds ! Suc i) k1"
      and len: "Suc i < length rounds"
      using run_keeper_Suc [OF Suc.prems(1)] by blast
    have IH: "unat (kp_current_epoch k1) = unat (hd_epoch h) + i mod ?n" "kp_last_current_epoch k1 = cluster_epoch"
      using Suc.IH [OF _ k1] Suc.prems(1) by simp_all
    have c: "ra_epoch (rounds ! Suc i) = cluster_epoch" using cluster len by (simp add: nth_mem)
    have "keeper_round rt h (rounds ! Suc i) k1 = (fst (?run ! Suc i), Some k)"
      using Suc.prems(2) next_round by (simp add: prod_eq_iff)
    from keeper_round_current [OF this] passed [OF Suc.prems(1) k1]
    have step: "(if kp_current_epoch k1 = cluster_epoch then Some (hd_epoch h) else checked_add (kp_current_epoch k1) 1) =
        Some (kp_current_epoch k)" and top: "kp_last_current_epoch k = max cluster_epoch (kp_current_epoch k)"
      by (auto simp: progress_epoch_def c IH(2))
    show ?case
    proof (cases "i mod ?n = ?n - 1")
      case True
      then have "kp_current_epoch k1 = cluster_epoch" using IH(1) le by (simp add: word_unat_eq_iff)
      then show ?thesis using step top True range by (simp add: mod_Suc max_def)
    next
      case False
      then have less: "i mod ?n < ?n - 1" using mod_less_divisor [of ?n i] by linarith
      then have "kp_current_epoch k1 \<noteq> cluster_epoch" using IH(1) le by auto
      then have "unat (kp_current_epoch k) = unat (kp_current_epoch k1) + 1"
        using step by (simp add: checked_add_Some)
      moreover from this have "kp_current_epoch k \<le> cluster_epoch" using IH(1) less le by (simp add: word_le_nat_alt)
      ultimately show ?thesis using top IH(1) less by (simp add: mod_Suc max_absorb1)
    qed
  qed
  then show ?thesis ..
qed

end
