(* ===== verification/Sample_Keeper.thy ===== *)
theory Sample_Keeper
  imports Keeper_Runs Sample_Runtime
begin

text \<open>
  The keeper on two epochs of the sample runtime: epoch 5 is completed, epoch 6 is the one the cluster is in.
\<close>

definition sample_handler :: handler where
  "sample_handler = \<lparr>hd_tip_router_program_id = sample_program, hd_ncn = Some sample_ncn, hd_epoch = 5\<rparr>"

definition opened_state :: epoch_state where
  "opened_state = epoch_state_initialize zero_epoch_state sample_ncn 6 255 2400"

definition node_account :: "pubkey \<Rightarrow> unit account option" where
  "node_account key =
    (if key = sample_addr (Epoch_Marker_Account sample_ncn 5) then Some (sample_account D_EpochMarker Zeroed)
     else if key = sample_addr (Config_Account sample_ncn) then Some (sample_account D_Config (Config_Data sample_config))
     else if key = sample_addr (Epoch_State_Account sample_ncn 6)
       then Some (sample_account D_EpochState (Epoch_State_Data opened_state))
     else None)"

definition sample_node :: "unit rpc" where
  "sample_node = \<lparr>rp_account = (\<lambda>key. Inr (node_account key)), rp_operators = Inr [], rp_vaults = Inr [],
    rp_slot = Inr 2400, rp_get_epoch = Inr (\<lambda>s. s div 400), rp_minimum_balance = Inr 128\<rparr>"

definition failing_node :: "unit rpc" where
  "failing_node = sample_node\<lparr>rp_account := (\<lambda>_. Inl (Rpc_Failure ''timeout''))\<rparr>"

definition sample_round :: "unit round_answers" where
  "sample_round = \<lparr>ra_epoch = 6, ra_register_vaults = Inr (), ra_fetch = sample_node, ra_update = sample_node,
    ra_create_epoch_state = Inr (), ra_crank = (\<lambda>_ _. Inr ()), ra_stall = sample_node\<rparr>"

lemma sample_handler_reads [simp]:
  "hd_tip_router_program_id sample_handler = sample_program" "hd_ncn sample_handler = Some sample_ncn"
  "hd_epoch sample_handler = 5"
  by (simp_all add: sample_handler_def)

lemma sample_round_reads [simp]:
  "ra_epoch sample_round = 6" "ra_register_vaults sample_round = Inr ()" "ra_fetch sample_round = sample_node"
  "ra_update sample_round = sample_node" "ra_create_epoch_state sample_round = Inr ()"
  "ra_crank sample_round stage e = Inr ()" "ra_stall sample_round = sample_node"
  by (simp_all add: sample_round_def)

lemma node_reads [simp]:
  "rp_account sample_node key = Inr (node_account key)" "rp_operators sample_node = Inr []" "rp_vaults sample_node = Inr []"
  "rp_slot sample_node = Inr 2400" "rp_get_epoch sample_node = Inr (\<lambda>s. s div 400)"
  "rp_account failing_node key = Inl (Rpc_Failure ''timeout'')" "rp_operators failing_node = Inr []"
  "rp_vaults failing_node = Inr []"
  by (simp_all add: sample_node_def failing_node_def)

lemma node_accounts [simp]:
  "node_account (sample_addr (Epoch_Marker_Account sample_ncn e)) =
    (if e = 5 then Some (sample_account D_EpochMarker Zeroed) else None)"
  "node_account (sample_addr (Config_Account sample_ncn)) = Some (sample_account D_Config (Config_Data sample_config))"
  "node_account (sample_addr (Epoch_State_Account sample_ncn e)) =
    (if e = 6 then Some (sample_account D_EpochState (Epoch_State_Data opened_state)) else None)"
  by (simp_all add: node_account_def sample_addr_inject)

lemma sample_completed [simp]:
  "get_is_epoch_completed (sample_runtime s) sample_handler sample_node e = Inr (e = 5)"
  "get_is_epoch_completed (sample_runtime s) sample_handler failing_node e = Inl (Rpc_Failure ''timeout'')"
  by (simp_all add: get_is_epoch_completed_def handler_pda_def handler_ncn_def sample_pda)

lemma sample_stage:
  assumes "ks_epoch_state ks = Some opened_state"
  shows "stage_of (sample_runtime s) sample_handler sample_node ks = Inr SetWeight"
  using assms by (simp add: stage_of_def get_tip_router_config_def get_typed_def handler_pda_def handler_ncn_def
      sample_pda try_from_slice_def as_config_def cast_data_def rmap_err_def require_found_def opened_state_def
      epoch_state_initialize_def zero_epoch_state_def zero_progress_def current_state_def or_else_def account_dne_def
      epoch_account_status_default_def get_account_status_def)

lemma sample_shows: "shows_stage (sample_runtime s) sample_handler sample_node sample_ncn 6 SetWeight"
proof -
  let ?ks = "keeper_state_default\<lparr>ks_epoch := 6, ks_epoch_state := Some opened_state,
    ks_epoch_state_address := sample_addr (Epoch_State_Account sample_ncn 6),
    ks_weight_table_address := sample_addr (Weight_Table_Account sample_ncn 6)\<rparr>"
  have "stage_of (sample_runtime s) sample_handler sample_node ?ks = Inr SetWeight" by (rule sample_stage) simp
  then show ?thesis unfolding shows_stage_def
    by (intro conjI exI [of _ ?ks] exI [of _ "sample_account D_EpochState (Epoch_State_Data opened_state)"])
      (simp_all add: sample_pda at_epoch_def try_from_slice_def as_epoch_state_def cast_data_def rmap_err_def)
qed

lemma sample_update:
  "ks_epoch ks = 5 \<Longrightarrow> update_epoch_state (sample_runtime s) sample_handler sample_node ks =
    (Inr (), ks\<lparr>ks_is_epoch_completed := True\<rparr>)"
  "ks_epoch ks \<noteq> 5 \<Longrightarrow> ks_epoch_state_address ks = sample_addr (Epoch_State_Account sample_ncn e) \<Longrightarrow> e \<noteq> 6 \<Longrightarrow>
    update_epoch_state (sample_runtime s) sample_handler sample_node ks =
      (Inr (), ks\<lparr>ks_is_epoch_completed := False, ks_epoch_state := None\<rparr>)"
  "ks_epoch ks \<noteq> 5 \<Longrightarrow> ks_epoch_state_address ks = sample_addr (Epoch_State_Account sample_ncn 6) \<Longrightarrow>
    update_epoch_state (sample_runtime s) sample_handler sample_node ks =
      (Inr (), ks\<lparr>ks_is_epoch_completed := False, ks_epoch_state := Some opened_state, ks_current_state := Some SetWeight\<rparr>)"
  "update_epoch_state (sample_runtime s) sample_handler failing_node ks = (Inl (Rpc_Failure ''timeout''), ks)"
  by (simp_all add: update_epoch_state_def Let_def try_from_slice_def as_epoch_state_def cast_data_def rmap_err_def
      update_current_state_def sample_stage)

lemma sample_fetch_addresses [simp]:
  "ks_epoch (fetch_addresses (sample_runtime s) prog ncn e ks) = ks_epoch ks"
  "ks_is_epoch_completed (fetch_addresses (sample_runtime s) prog ncn e ks) = ks_is_epoch_completed ks"
  "ks_epoch_state_address (fetch_addresses (sample_runtime s) prog ncn e ks) = sample_addr (Epoch_State_Account ncn e)"
  by (simp_all add: fetch_addresses_def sample_pda)

lemma sample_fetch:
  assumes "rp_vaults rpc = Inr []" and "rp_operators rpc = Inr []"
  shows "keeper_fetch (sample_runtime s) sample_handler rpc e ks =
    (case update_epoch_state (sample_runtime s) sample_handler rpc
        (fetch_addresses (sample_runtime s) sample_program sample_ncn e
          (ks\<lparr>ks_ncn := sample_ncn, ks_vaults := [], ks_operators := []\<rparr>)) of
      (Inl e, ks) \<Rightarrow> (Inl e, ks) | (Inr _, ks) \<Rightarrow> (Inr (), ks\<lparr>ks_epoch := e\<rparr>))"
  using assms by (simp add: keeper_fetch_def handler_ncn_def Let_def)

definition keeper_at :: "u64 \<Rightarrow> u64 \<Rightarrow> bool \<Rightarrow> keeper \<Rightarrow> bool" where
  "keeper_at current addresses flag k \<longleftrightarrow> kp_current_epoch k = current \<and> kp_last_current_epoch k = 6 \<and>
    \<not> kp_epoch_stall k \<and> ks_is_epoch_completed (kp_state k) = flag \<and>
    ks_epoch_state_address (kp_state k) = sample_addr (Epoch_State_Account sample_ncn addresses)"

text \<open>Epoch 5 is seen to be completed; epoch 6 is fetched, and the reads after it fail; the fetch of epoch 5 that follows
  fails half way; and the keeper is back at epoch 6 with the addresses of epoch 5.\<close>

lemma first_round:
  "\<exists>k. keeper_round (sample_runtime 2400) sample_handler sample_round (start_keeper sample_handler 6) = ([], Some k) \<and>
    keeper_at 5 5 True k \<and> ks_epoch (kp_state k) = 5"
  by (simp add: keeper_round_def start_keeper_def progress_epoch_def keeper_state_default_def sample_fetch
      sample_update keeper_act_def keeper_at_def Let_def)

lemma second_round:
  assumes "keeper_at 5 5 True k" and "ks_epoch (kp_state k) = 5"
  shows "\<exists>k1. keeper_round (sample_runtime 2400) sample_handler (sample_round\<lparr>ra_update := failing_node\<rparr>) k = ([], Some k1) \<and>
    keeper_at 6 6 True k1 \<and> ks_epoch (kp_state k1) = 6"
  using assms by (simp add: keeper_round_def progress_epoch_def sample_fetch sample_update keeper_act_def keeper_at_def Let_def
      checked_add_def goes_on_def fatal_def)

lemma third_round:
  assumes "keeper_at 6 6 True k" and "ks_epoch (kp_state k) = 6"
  shows "\<exists>k1. keeper_round (sample_runtime 2400) sample_handler (sample_round\<lparr>ra_fetch := failing_node\<rparr>) k = ([], Some k1) \<and>
    keeper_at 5 5 True k1 \<and> ks_epoch (kp_state k1) = 6"
  using assms by (simp add: keeper_round_def progress_epoch_def sample_fetch sample_update keeper_act_def keeper_at_def Let_def
      goes_on_def fatal_def)

lemma stuck_round:
  assumes "keeper_at 5 5 True k \<or> keeper_at 6 5 False k" and "ks_epoch (kp_state k) = 6"
  shows "\<exists>k1. keeper_round (sample_runtime 2400) sample_handler sample_round k = ([Create_Epoch_State 6], Some k1) \<and>
    keeper_at 6 5 False k1 \<and> ks_epoch (kp_state k1) = 6"
  using assms by (auto simp: keeper_round_def progress_epoch_def sample_update keeper_act_def keeper_at_def Let_def
      goes_on_def fatal_def checked_add_def)

lemma stuck_rounds:
  assumes "keeper_at 5 5 True k \<or> keeper_at 6 5 False k" and "ks_epoch (kp_state k) = 6"
  shows "map fst (run_keeper (sample_runtime 2400) sample_handler (replicate n sample_round) k) =
    replicate n [Create_Epoch_State 6]"
  using assms
proof (induction n arbitrary: k)
  case (Suc n)
  from stuck_round [OF Suc.prems] Suc.IH show ?case by (auto simp: Let_def)
qed simp

text \<open>C16. A fetch that fails half way leaves the addresses of the epoch it was for with the epoch of the fetch before. After
  two failed requests the keeper stays on the current epoch with the addresses of the epoch before: however many rounds
  follow, all of them without an error, it only tries to create the epoch state, which exists and waits for weights.\<close>

theorem failed_fetch_stuck:
  "shows_stage (sample_runtime 2400) sample_handler sample_node sample_ncn 6 SetWeight \<and>
    (\<forall>n. map fst (run_keeper (sample_runtime 2400) sample_handler
        (sample_round # sample_round\<lparr>ra_update := failing_node\<rparr> # sample_round\<lparr>ra_fetch := failing_node\<rparr> #
          replicate n sample_round) (start_keeper sample_handler 6)) =
      [] # [] # [] # replicate n [Create_Epoch_State 6])"
proof -
  obtain k1 where k1: "keeper_round (sample_runtime 2400) sample_handler sample_round (start_keeper sample_handler 6) =
      ([], Some k1)" "keeper_at 5 5 True k1" "ks_epoch (kp_state k1) = 5" using first_round by blast
  obtain k2 where k2: "keeper_round (sample_runtime 2400) sample_handler (sample_round\<lparr>ra_update := failing_node\<rparr>) k1 =
      ([], Some k2)" "keeper_at 6 6 True k2" "ks_epoch (kp_state k2) = 6" using second_round [OF k1(2,3)] by blast
  obtain k3 where k3: "keeper_round (sample_runtime 2400) sample_handler (sample_round\<lparr>ra_fetch := failing_node\<rparr>) k2 =
      ([], Some k3)" "keeper_at 5 5 True k3" "ks_epoch (kp_state k3) = 6" using third_round [OF k2(2,3)] by blast
  show ?thesis using stuck_rounds [of k3] k3(2,3) sample_shows by (simp add: k1(1) k2(1) k3(1) Let_def)
qed

section \<open>The properties, applied\<close>

lemma sample_fetches: "fetches (sample_runtime s) sample_handler sample_round"
proof -
  have "fst (keeper_fetch (sample_runtime s) sample_handler sample_node e ks) = Inr ()" for e ks
    by (cases "ks_epoch ks = 5"; cases "e = 6") (simp_all add: sample_fetch sample_update)
  then show ?thesis by (simp add: fetches_def)
qed

lemma crank_round:
  assumes "keeper_at 5 5 True k" and "ks_epoch (kp_state k) = 5"
  shows "\<exists>k1. keeper_round (sample_runtime 2400) sample_handler sample_round k = ([Crank SetWeight 6], Some k1) \<and>
    kp_current_epoch k1 = 6"
  using assms by (simp add: keeper_round_def progress_epoch_def sample_fetch sample_update keeper_act_def keeper_at_def
      Let_def checked_add_def goes_on_def fatal_def keeper_crank_stage_def detect_stall_def)

lemma two_rounds:
  obtains k1 k2 where "run_keeper (sample_runtime 2400) sample_handler [sample_round, sample_round]
      (start_keeper sample_handler 6) = [([], Some k1), ([Crank SetWeight 6], Some k2)]"
    "ks_is_epoch_completed (kp_state k1)" "kp_current_epoch k2 = 6"
proof -
  obtain k1 where k1: "keeper_round (sample_runtime 2400) sample_handler sample_round (start_keeper sample_handler 6) =
      ([], Some k1)" "keeper_at 5 5 True k1" "ks_epoch (kp_state k1) = 5" using first_round by blast
  obtain k2 where "keeper_round (sample_runtime 2400) sample_handler sample_round k1 = ([Crank SetWeight 6], Some k2)"
    "kp_current_epoch k2 = 6" using crank_round [OF k1(2,3)] by blast
  then show thesis using k1 that by (simp add: keeper_at_def)
qed

theorem keeper_cranks_stage_witness:
  "Crank SetWeight 6 \<in> set (fst (run_keeper (sample_runtime 2400) sample_handler [sample_round, sample_round]
      (start_keeper sample_handler 6) ! 1)) \<and>
    shows_stage (sample_runtime 2400) sample_handler sample_node sample_ncn 6 SetWeight"
proof -
  obtain k1 k2 where run: "run_keeper (sample_runtime 2400) sample_handler [sample_round, sample_round]
      (start_keeper sample_handler 6) = [([], Some k1), ([Crank SetWeight 6], Some k2)]" by (rule two_rounds)
  have "shows_stage (sample_runtime 2400) sample_handler (ra_update ([sample_round, sample_round] ! 1)) sample_ncn 6 SetWeight"
    by (rule keeper_cranks_stage [where cluster_epoch = 6]) (simp_all add: sample_fetches run del: run_keeper.simps)
  then show ?thesis by (simp add: run del: run_keeper.simps)
qed

theorem keeper_round_robin_witness:
  "\<exists>k. snd (run_keeper (sample_runtime 2400) sample_handler [sample_round, sample_round] (start_keeper sample_handler 6) ! 1) =
      Some k \<and> unat (kp_current_epoch k) = 6"
proof -
  obtain k1 k2 where run: "run_keeper (sample_runtime 2400) sample_handler [sample_round, sample_round]
      (start_keeper sample_handler 6) = [([], Some k1), ([Crank SetWeight 6], Some k2)]"
    "ks_is_epoch_completed (kp_state k1)" by (rule two_rounds)
  have "unat (kp_current_epoch k2) = unat (hd_epoch sample_handler) +
      1 mod (unat (6 :: u64) - unat (hd_epoch sample_handler) + 1)"
    by (rule keeper_round_robin [where rt = "sample_runtime 2400" and rounds = "[sample_round, sample_round]"])
      (auto simp: run less_Suc_eq simp del: run_keeper.simps)
  then show ?thesis by (simp add: run del: run_keeper.simps)
qed

end
