(* ===== verification/Cranks.thy ===== *)
theory Cranks
  imports Keeper Program
begin

text \<open>
  The cranks of the administration client (\<open>cli/src/instructions.rs\<close>): each takes an epoch through one of its stages by
  reading accounts and sending transactions. They run against a network: what a node answers at a moment, and what
  becomes of a transaction. Every transaction that is sent is kept in a log. An instruction is its data and the
  accounts by the names the generated builders give them; the order of the accounts is the builder's.
\<close>

section \<open>Model\<close>

datatype withdrawal_allocation_method = Greedy

datatype vault_instruction =
    InitializeVaultUpdateStateTracker withdrawal_allocation_method
  | CrankVaultUpdateStateTracker
  | CloseVaultUpdateStateTracker u64
  | UpdateVaultBalance

datatype client_instruction =
    Compute_Unit_Limit nat
  | Compute_Unit_Price u64
  | Tip_Router tip_router_instruction "(string \<times> pubkey) list"
  | System_Transfer pubkey pubkey u64
  | Create_Associated_Token_Account pubkey pubkey pubkey pubkey
  | Switchboard_Update string
  | Vault_Program vault_instruction "(string \<times> pubkey) list"

type_synonym transaction = "client_instruction list"

text \<open>What the client reads beyond the accounts of the tip router: a vault, the configuration and the update tracker of
  the vault program, the operators of a vault, the voter of an operator, the stake pool, the gateways of the Switchboard queue and the
  instruction its library builds for a feed, a payer and a gateway.\<close>

record vault_read =
  vd_is_update_needed :: "u64 \<Rightarrow> u64 \<Rightarrow> client_error + bool"
  vd_supported_mint :: pubkey
  vd_vrt_mint :: pubkey
  vd_fee_wallet :: pubkey

record vault_config_read =
  vc_epoch_of_slot :: "u64 \<Rightarrow> client_error + u64"
  vc_epoch_length :: u64

record stake_pool_read =
  sp_pool_mint :: pubkey
  sp_manager_fee_account :: pubkey
  sp_reserve_stake :: pubkey

record 'x client_rpc = "'x rpc" +
  cr_vault_config :: "client_error + vault_config_read"
  cr_vault :: "pubkey \<Rightarrow> client_error + vault_read"
  cr_last_updated_index :: "pubkey \<Rightarrow> u64 \<Rightarrow> client_error + u64"
  cr_sorted_operators :: "pubkey \<Rightarrow> client_error + pubkey list"
  cr_operator_voter :: "pubkey \<Rightarrow> client_error + pubkey"
  cr_stake_pool :: "client_error + stake_pool_read"
  cr_latest_blockhash :: "client_error + bytes32"
  cr_gateways :: "client_error + string list"
  cr_fetch_update_ix :: "pubkey \<Rightarrow> pubkey \<Rightarrow> string \<Rightarrow> client_error + string"

text \<open>The addresses of other programs, which their libraries derive, and the rest of the handler.\<close>

record addresses =
  ad_ncn_operator_state :: "pubkey \<Rightarrow> pubkey \<Rightarrow> pubkey"
  ad_ncn_vault_ticket :: "pubkey \<Rightarrow> pubkey \<Rightarrow> pubkey"
  ad_restaking_config :: pubkey
  ad_vault_ncn_ticket :: "pubkey \<Rightarrow> pubkey \<Rightarrow> pubkey"
  ad_vault_operator_delegation :: "pubkey \<Rightarrow> pubkey \<Rightarrow> pubkey"
  ad_vault_config :: pubkey
  ad_vault_update_state_tracker :: "pubkey \<Rightarrow> u64 \<Rightarrow> pubkey"
  ad_associated_token_address :: "pubkey \<Rightarrow> pubkey \<Rightarrow> pubkey"
  ad_stake_pool_program :: pubkey
  ad_stake_pool :: pubkey
  ad_stake_pool_withdraw_authority :: pubkey
  ad_spl_token_program :: pubkey
  ad_tip_router_program :: pubkey

record client_handler = handler +
  hd_keypair :: "pubkey option"
  hd_token_program_id :: pubkey
  hd_retries :: nat
  hd_priority_fee_micro_lamports :: u64
  hd_addresses :: addresses

record ('x, 'w) network =
  nw_rpc :: "'w \<Rightarrow> 'x client_rpc"
  nw_tick :: "'w \<Rightarrow> 'w"
  nw_send :: "transaction \<Rightarrow> 'w \<Rightarrow> (client_error + unit) \<times> 'w"

text \<open>A client changes the world and the log, and returns or fails. \<open>?\<close> is \<open>cbind\<close>; an error that is only logged is
  \<open>cignore\<close>, which lets a panic pass.\<close>

type_synonym ('w, 'a) client = "'w \<times> transaction list \<Rightarrow> (client_error + 'a) \<times> 'w \<times> transaction list"

definition cret :: "'a \<Rightarrow> ('w, 'a) client" where "cret a = (\<lambda>s. (Inr a, s))"

definition cbind :: "('w, 'a) client \<Rightarrow> ('a \<Rightarrow> ('w, 'b) client) \<Rightarrow> ('w, 'b) client" where
  "cbind m f = (\<lambda>s. case m s of (Inl e, s) \<Rightarrow> (Inl e, s) | (Inr a, s) \<Rightarrow> f a s)"

definition clift :: "client_error + 'a \<Rightarrow> ('w, 'a) client" where "clift r = (\<lambda>s. (r, s))"

definition ctry :: "('w, 'a) client \<Rightarrow> ('w, client_error + 'a) client" where
  "ctry m = (\<lambda>s. case m s of (Inl e, s) \<Rightarrow> (if fatal e then Inl e else Inr (Inl e), s) | (Inr a, s) \<Rightarrow> (Inr (Inr a), s))"

definition cignore :: "('w, 'a) client \<Rightarrow> ('w, unit) client" where
  "cignore m = cbind (ctry m) (\<lambda>_. cret ())"

primrec cfor :: "'b list \<Rightarrow> ('b \<Rightarrow> ('w, unit) client) \<Rightarrow> ('w, unit) client" where
  "cfor [] body = cret ()"
| "cfor (x # xs) body = cbind (body x) (\<lambda>_. cfor xs body)"

definition cread :: "('x, 'w) network \<Rightarrow> ('x client_rpc \<Rightarrow> client_error + 'a) \<Rightarrow> ('w, 'a) client" where
  "cread net f = (\<lambda>(w, log). (f (nw_rpc net w), nw_tick net w, log))"

definition the_keypair :: "('h) client_handler_scheme \<Rightarrow> client_error + pubkey" where
  "the_keypair h = ok_or (Anyhow ''No keypair'') (hd_keypair h)"

text \<open>\<open>send_transactions\<close>: with its price, as many times as there are retries, then once more without; every attempt takes
  a new blockhash. An attempt whose confirmation is lost may have been executed, and is made again.\<close>

definition send_signed :: "('x, 'w) network \<Rightarrow> transaction \<Rightarrow> ('w, unit) client" where
  "send_signed net tx = (\<lambda>(w, log). let (r, w) = nw_send net tx w in (r, w, log @ [tx]))"

primrec send_attempts :: "nat \<Rightarrow> ('x, 'w) network \<Rightarrow> transaction \<Rightarrow> transaction \<Rightarrow> ('w, unit) client" where
  "send_attempts 0 net priced tx =
    cbind (cread net cr_latest_blockhash) (\<lambda>_.
    cbind (ctry (send_signed net tx)) (\<lambda>result.
    case result of Inl _ \<Rightarrow> clift (Inl (Anyhow ''Error'')) | Inr _ \<Rightarrow> cret ()))"
| "send_attempts (Suc retries) net priced tx =
    cbind (cread net cr_latest_blockhash) (\<lambda>_.
    cbind (ctry (send_signed net priced)) (\<lambda>result.
    case result of Inl _ \<Rightarrow> send_attempts retries net priced tx | Inr _ \<Rightarrow> cret ()))"

definition send_transactions :: "'h client_handler_scheme \<Rightarrow> ('x, 'w) network \<Rightarrow> transaction \<Rightarrow> ('w, unit) client" where
  "send_transactions h net tx =
    cbind (clift (the_keypair h)) (\<lambda>_.
    send_attempts (hd_retries h) net (Compute_Unit_Price (hd_priority_fee_micro_lamports h) # tx) tx)"

definition send_and_log_transaction :: "'h client_handler_scheme \<Rightarrow> ('x, 'w) network \<Rightarrow> transaction \<Rightarrow> ('w, unit) client" where
  "send_and_log_transaction h net tx = send_transactions h net tx"

text \<open>The addresses of this program; the marker is derived with the id that was compiled in.\<close>

definition at_router :: "('x, 'y) runtime_scheme \<Rightarrow> 'h client_handler_scheme \<Rightarrow> program_account \<Rightarrow> pubkey" where
  "at_router rt h a = pda rt (hd_tip_router_program_id h) a"

definition at_builtin :: "('x, 'y) runtime_scheme \<Rightarrow> 'h client_handler_scheme \<Rightarrow> program_account \<Rightarrow> pubkey" where
  "at_builtin rt h a = pda rt (ad_tip_router_program (hd_addresses h)) a"

text \<open>The compute limit, and as many reallocations as the account needs after its first 10240 bytes.\<close>

definition num_reallocs :: "discriminators \<Rightarrow> nat" where
  "num_reallocs d = (unat (account_size d) + (MAX_REALLOC_BYTES - 1)) div MAX_REALLOC_BYTES - 1"

definition create_account ::
    "'h client_handler_scheme \<Rightarrow> ('x, 'w) network \<Rightarrow> discriminators \<Rightarrow> pubkey \<Rightarrow> client_instruction \<Rightarrow> client_instruction \<Rightarrow> ('w, unit) client" where
  "create_account h net d address initialize_ix realloc_ix =
    cbind (cread net (\<lambda>rpc. rp_account rpc address)) (\<lambda>account.
    cbind (if account = None then send_and_log_transaction h net [initialize_ix] else cret ()) (\<lambda>_.
    send_and_log_transaction h net (Compute_Unit_Limit 1400000 # replicate (num_reallocs d) realloc_ix)))"

definition create_epoch_state ::
    "('x, 'y) runtime_scheme \<Rightarrow> 'h client_handler_scheme \<Rightarrow> ('x, 'w) network \<Rightarrow> u64 \<Rightarrow> ('w, unit) client" where
  "create_epoch_state rt h net epoch =
    cbind (clift (handler_ncn h)) (\<lambda>ncn.
    let config = at_router rt h (Config_Account ncn);
        epoch_state = at_router rt h (Epoch_State_Account ncn epoch);
        account_payer = at_router rt h (Account_Payer_Account ncn);
        epoch_marker = at_builtin rt h (Epoch_Marker_Account ncn epoch) in
    create_account h net D_EpochState epoch_state
      (Tip_Router (InitializeEpochState epoch) [(''epoch_marker'', epoch_marker), (''config'', config),
         (''epoch_state'', epoch_state), (''ncn'', ncn), (''account_payer'', account_payer),
         (''system_program'', system_program_id)])
      (Tip_Router (ReallocEpochState epoch) [(''config'', config), (''epoch_state'', epoch_state), (''ncn'', ncn),
         (''account_payer'', account_payer), (''system_program'', system_program_id)]))"

definition create_weight_table ::
    "('x, 'y) runtime_scheme \<Rightarrow> 'h client_handler_scheme \<Rightarrow> ('x, 'w) network \<Rightarrow> u64 \<Rightarrow> ('w, unit) client" where
  "create_weight_table rt h net epoch =
    cbind (clift (handler_ncn h)) (\<lambda>ncn.
    let config = at_router rt h (Config_Account ncn);
        vault_registry = at_router rt h (Vault_Registry_Account ncn);
        weight_table = at_router rt h (Weight_Table_Account ncn epoch);
        epoch_state = at_router rt h (Epoch_State_Account ncn epoch);
        account_payer = at_router rt h (Account_Payer_Account ncn);
        epoch_marker = at_builtin rt h (Epoch_Marker_Account ncn epoch) in
    create_account h net D_WeightTable weight_table
      (Tip_Router (InitializeWeightTable epoch) [(''epoch_marker'', epoch_marker), (''vault_registry'', vault_registry),
         (''ncn'', ncn), (''epoch_state'', epoch_state), (''weight_table'', weight_table),
         (''account_payer'', account_payer), (''system_program'', system_program_id)])
      (Tip_Router (ReallocWeightTable epoch) [(''config'', config), (''weight_table'', weight_table), (''ncn'', ncn),
         (''epoch_state'', epoch_state), (''vault_registry'', vault_registry), (''account_payer'', account_payer),
         (''system_program'', system_program_id)]))"

definition create_epoch_snapshot ::
    "('x, 'y) runtime_scheme \<Rightarrow> 'h client_handler_scheme \<Rightarrow> ('x, 'w) network \<Rightarrow> u64 \<Rightarrow> ('w, unit) client" where
  "create_epoch_snapshot rt h net epoch =
    cbind (clift (handler_ncn h)) (\<lambda>ncn.
    send_and_log_transaction h net
      [Tip_Router (InitializeEpochSnapshot epoch) [(''epoch_marker'', at_builtin rt h (Epoch_Marker_Account ncn epoch)),
         (''config'', at_router rt h (Config_Account ncn)), (''ncn'', ncn),
         (''epoch_state'', at_router rt h (Epoch_State_Account ncn epoch)),
         (''weight_table'', at_router rt h (Weight_Table_Account ncn epoch)),
         (''epoch_snapshot'', at_router rt h (Epoch_Snapshot_Account ncn epoch)),
         (''account_payer'', at_router rt h (Account_Payer_Account ncn)), (''system_program'', system_program_id)]])"

definition create_operator_snapshot ::
    "('x, 'y) runtime_scheme \<Rightarrow> 'h client_handler_scheme \<Rightarrow> ('x, 'w) network \<Rightarrow> pubkey \<Rightarrow> u64 \<Rightarrow> ('w, unit) client" where
  "create_operator_snapshot rt h net operator epoch =
    cbind (clift (handler_ncn h)) (\<lambda>ncn.
    let config = at_router rt h (Config_Account ncn);
        epoch_state = at_router rt h (Epoch_State_Account ncn epoch);
        ncn_operator_state = ad_ncn_operator_state (hd_addresses h) ncn operator;
        epoch_snapshot = at_router rt h (Epoch_Snapshot_Account ncn epoch);
        operator_snapshot = at_router rt h (Operator_Snapshot_Account operator ncn epoch);
        account_payer = at_router rt h (Account_Payer_Account ncn);
        epoch_marker = at_builtin rt h (Epoch_Marker_Account ncn epoch) in
    create_account h net D_OperatorSnapshot operator_snapshot
      (Tip_Router (InitializeOperatorSnapshot epoch) [(''epoch_marker'', epoch_marker), (''config'', config), (''ncn'', ncn),
         (''operator'', operator), (''epoch_state'', epoch_state), (''ncn_operator_state'', ncn_operator_state),
         (''epoch_snapshot'', epoch_snapshot), (''operator_snapshot'', operator_snapshot),
         (''account_payer'', account_payer), (''system_program'', system_program_id)])
      (Tip_Router (ReallocOperatorSnapshot epoch) [(''config'', config),
         (''restaking_config'', ad_restaking_config (hd_addresses h)), (''ncn'', ncn), (''operator'', operator),
         (''epoch_state'', epoch_state), (''ncn_operator_state'', ncn_operator_state),
         (''epoch_snapshot'', epoch_snapshot), (''operator_snapshot'', operator_snapshot),
         (''account_payer'', account_payer), (''system_program'', system_program_id)]))"

definition create_ballot_box ::
    "('x, 'y) runtime_scheme \<Rightarrow> 'h client_handler_scheme \<Rightarrow> ('x, 'w) network \<Rightarrow> u64 \<Rightarrow> ('w, unit) client" where
  "create_ballot_box rt h net epoch =
    cbind (clift (handler_ncn h)) (\<lambda>ncn.
    let config = at_router rt h (Config_Account ncn);
        epoch_state = at_router rt h (Epoch_State_Account ncn epoch);
        ballot_box = at_router rt h (Ballot_Box_Account ncn epoch);
        account_payer = at_router rt h (Account_Payer_Account ncn);
        epoch_marker = at_builtin rt h (Epoch_Marker_Account ncn epoch) in
    create_account h net D_BallotBox ballot_box
      (Tip_Router (InitializeBallotBox epoch) [(''epoch_marker'', epoch_marker), (''config'', config),
         (''epoch_state'', epoch_state), (''ballot_box'', ballot_box), (''ncn'', ncn),
         (''account_payer'', account_payer), (''system_program'', system_program_id)])
      (Tip_Router (ReallocBallotBox epoch) [(''config'', config), (''epoch_state'', epoch_state),
         (''ballot_box'', ballot_box), (''ncn'', ncn), (''account_payer'', account_payer),
         (''system_program'', system_program_id)]))"

definition create_base_reward_router ::
    "('x, 'y) runtime_scheme \<Rightarrow> 'h client_handler_scheme \<Rightarrow> ('x, 'w) network \<Rightarrow> u64 \<Rightarrow> ('w, unit) client" where
  "create_base_reward_router rt h net epoch =
    cbind (clift (handler_ncn h)) (\<lambda>ncn.
    let epoch_state = at_router rt h (Epoch_State_Account ncn epoch);
        base_reward_router = at_router rt h (Base_Reward_Router_Account ncn epoch);
        base_reward_receiver = at_router rt h (Base_Reward_Receiver_Account ncn epoch);
        account_payer = at_router rt h (Account_Payer_Account ncn);
        epoch_marker = at_builtin rt h (Epoch_Marker_Account ncn epoch) in
    create_account h net D_BaseRewardRouter base_reward_router
      (Tip_Router (InitializeBaseRewardRouter epoch) [(''epoch_marker'', epoch_marker), (''ncn'', ncn),
         (''epoch_state'', epoch_state), (''base_reward_router'', base_reward_router),
         (''base_reward_receiver'', base_reward_receiver), (''account_payer'', account_payer),
         (''system_program'', system_program_id)])
      (Tip_Router (ReallocBaseRewardRouter epoch) [(''config'', at_router rt h (Config_Account ncn)),
         (''epoch_state'', epoch_state), (''base_reward_router'', base_reward_router), (''ncn'', ncn),
         (''account_payer'', account_payer), (''system_program'', system_program_id)]))"

definition create_ncn_reward_router ::
    "('x, 'y) runtime_scheme \<Rightarrow> 'h client_handler_scheme \<Rightarrow> ('x, 'w) network \<Rightarrow> ncn_fee_group \<Rightarrow> pubkey \<Rightarrow> u64 \<Rightarrow>
     ('w, unit) client" where
  "create_ncn_reward_router rt h net g operator epoch =
    cbind (clift (handler_ncn h)) (\<lambda>ncn.
    send_and_log_transaction h net
      [Tip_Router (InitializeNcnRewardRouter (ncn_group g) epoch)
        [(''epoch_marker'', at_builtin rt h (Epoch_Marker_Account ncn epoch)),
         (''epoch_state'', at_router rt h (Epoch_State_Account ncn epoch)), (''ncn'', ncn), (''operator'', operator),
         (''operator_snapshot'', at_router rt h (Operator_Snapshot_Account operator ncn epoch)),
         (''ncn_reward_router'', at_router rt h (Ncn_Reward_Router_Account g operator ncn epoch)),
         (''ncn_reward_receiver'', at_router rt h (Ncn_Reward_Receiver_Account g operator ncn epoch)),
         (''account_payer'', at_router rt h (Account_Payer_Account ncn)), (''system_program'', system_program_id)]])"

end
