(* ===== verification/Crank_Stages.thy ===== *)
theory Crank_Stages
  imports Cranks
begin

text \<open>
  The stages: accounts are created when they are missing, weights set, delegations snapshotted, rewards routed and
  distributed, accounts closed (\<open>cli/src/instructions.rs\<close>, \<open>crank_*\<close> and what they call).
\<close>

section \<open>Created accounts\<close>

text \<open>\<open>check_created\<close>: up to three more reads, then an error.\<close>

primrec check_created_within :: "('x, 'w) network \<Rightarrow> pubkey \<Rightarrow> nat \<Rightarrow> ('w, unit) client" where
  "check_created_within net address 0 =
    cbind (cread net (\<lambda>rpc. rp_account rpc address)) (\<lambda>account.
    if account = None then clift (Inl (Anyhow ''Failed to get account after creation'')) else cret ())"
| "check_created_within net address (Suc retries) =
    cbind (cread net (\<lambda>rpc. rp_account rpc address)) (\<lambda>account.
    if account = None then check_created_within net address retries else cret ())"

definition CREATE_GET_RETRIES :: nat where "CREATE_GET_RETRIES = 3"

definition check_created :: "('x, 'w) network \<Rightarrow> pubkey \<Rightarrow> ('w, unit) client" where
  "check_created net address = check_created_within net address CREATE_GET_RETRIES"

definition get_or_create ::
    "('x, 'w) network \<Rightarrow> client_error + pubkey \<Rightarrow> discriminators \<Rightarrow> ('w, unit) client \<Rightarrow> ('x client_rpc \<Rightarrow> client_error + 'd) \<Rightarrow>
     ('w, 'd) client" where
  "get_or_create net address d create get =
    cbind (clift address) (\<lambda>address.
    cbind (cread net (\<lambda>rpc. rp_account rpc address)) (\<lambda>account.
    cbind (if (case account of None \<Rightarrow> True | Some a \<Rightarrow> ac_len a < account_size d)
      then cbind create (\<lambda>_. check_created net address) else cret ()) (\<lambda>_.
    cread net get)))"

definition get_or_create_weight_table ::
    "('x, 'y) runtime_scheme \<Rightarrow> 'h client_handler_scheme \<Rightarrow> ('x, 'w) network \<Rightarrow> u64 \<Rightarrow> ('w, weight_table) client" where
  "get_or_create_weight_table rt h net epoch =
    get_or_create net (handler_pda rt h (\<lambda>ncn. Weight_Table_Account ncn epoch)) D_WeightTable
      (create_weight_table rt h net epoch) (\<lambda>rpc. get_weight_table rt h rpc epoch)"

definition get_or_create_epoch_snapshot ::
    "('x, 'y) runtime_scheme \<Rightarrow> 'h client_handler_scheme \<Rightarrow> ('x, 'w) network \<Rightarrow> u64 \<Rightarrow> ('w, epoch_snapshot) client" where
  "get_or_create_epoch_snapshot rt h net epoch =
    get_or_create net (handler_pda rt h (\<lambda>ncn. Epoch_Snapshot_Account ncn epoch)) D_EpochSnapshot
      (create_epoch_snapshot rt h net epoch) (\<lambda>rpc. get_epoch_snapshot rt h rpc epoch)"

definition get_or_create_operator_snapshot ::
    "('x, 'y) runtime_scheme \<Rightarrow> 'h client_handler_scheme \<Rightarrow> ('x, 'w) network \<Rightarrow> pubkey \<Rightarrow> u64 \<Rightarrow> ('w, operator_snapshot) client" where
  "get_or_create_operator_snapshot rt h net operator epoch =
    get_or_create net (handler_pda rt h (\<lambda>ncn. Operator_Snapshot_Account operator ncn epoch)) D_OperatorSnapshot
      (create_operator_snapshot rt h net operator epoch) (\<lambda>rpc. get_operator_snapshot rt h rpc operator epoch)"

definition get_or_create_ballot_box ::
    "('x, 'y) runtime_scheme \<Rightarrow> 'h client_handler_scheme \<Rightarrow> ('x, 'w) network \<Rightarrow> u64 \<Rightarrow> ('w, ballot_box) client" where
  "get_or_create_ballot_box rt h net epoch =
    get_or_create net (handler_pda rt h (\<lambda>ncn. Ballot_Box_Account ncn epoch)) D_BallotBox
      (create_ballot_box rt h net epoch) (\<lambda>rpc. get_ballot_box rt h rpc epoch)"

definition get_or_create_base_reward_router ::
    "('x, 'y) runtime_scheme \<Rightarrow> 'h client_handler_scheme \<Rightarrow> ('x, 'w) network \<Rightarrow> u64 \<Rightarrow> ('w, base_reward_router) client" where
  "get_or_create_base_reward_router rt h net epoch =
    get_or_create net (handler_pda rt h (\<lambda>ncn. Base_Reward_Router_Account ncn epoch)) D_BaseRewardRouter
      (create_base_reward_router rt h net epoch) (\<lambda>rpc. get_base_reward_router rt h rpc epoch)"

definition get_or_create_ncn_reward_router ::
    "('x, 'y) runtime_scheme \<Rightarrow> 'h client_handler_scheme \<Rightarrow> ('x, 'w) network \<Rightarrow> ncn_fee_group \<Rightarrow> pubkey \<Rightarrow> u64 \<Rightarrow> ('w, ncn_reward_router) client" where
  "get_or_create_ncn_reward_router rt h net g operator epoch =
    get_or_create net (handler_pda rt h (\<lambda>ncn. Ncn_Reward_Router_Account g operator ncn epoch)) D_NcnRewardRouter
      (create_ncn_reward_router rt h net g operator epoch) (\<lambda>rpc. get_ncn_reward_router rt h rpc g operator epoch)"

section \<open>Registering vaults, setting weights\<close>

definition register_vault_ix ::
    "('x, 'y) runtime_scheme \<Rightarrow> 'h client_handler_scheme \<Rightarrow> pubkey \<Rightarrow> pubkey \<Rightarrow> client_instruction" where
  "register_vault_ix rt h ncn vault =
    Tip_Router RegisterVault [(''config'', at_router rt h (Config_Account ncn)),
      (''vault_registry'', at_router rt h (Vault_Registry_Account ncn)), (''vault'', vault), (''ncn'', ncn),
      (''ncn_vault_ticket'', ad_ncn_vault_ticket (hd_addresses h) ncn vault)]"

definition client_register_vault ::
    "('x, 'y) runtime_scheme \<Rightarrow> 'h client_handler_scheme \<Rightarrow> ('x, 'w) network \<Rightarrow> pubkey \<Rightarrow> ('w, unit) client" where
  "client_register_vault rt h net vault =
    cbind (clift (handler_ncn h)) (\<lambda>ncn. send_and_log_transaction h net [register_vault_ix rt h ncn vault])"

definition crank_register_vaults ::
    "('x, 'y) runtime_scheme \<Rightarrow> 'h client_handler_scheme \<Rightarrow> ('x, 'w) network \<Rightarrow> ('w, unit) client" where
  "crank_register_vaults rt h net =
    cbind (cread net rp_vaults) (\<lambda>all_ncn_vaults.
    cbind (cread net (get_vault_registry rt h)) (\<lambda>vault_registry.
    let all_registered_vaults = map ve_vault (get_valid_vault_entries vault_registry);
        vaults_to_register = filter (\<lambda>vault. vault \<notin> set all_registered_vaults) all_ncn_vaults in
    cfor vaults_to_register (\<lambda>vault. cignore (client_register_vault rt h net vault))))"

text \<open>\<open>crank_switchboard\<close> waits for the slots after the start of the epoch, which with a clock that stands still has no end;
  the wait takes fuel.\<close>

definition DEFAULT_SLOTS_PER_EPOCH :: u64 where "DEFAULT_SLOTS_PER_EPOCH = 432000"

primrec wait_for_x_slots_after_epoch :: "nat \<Rightarrow> ('x, 'w) network \<Rightarrow> u64 \<Rightarrow> ('w, unit) client" where
  "wait_for_x_slots_after_epoch 0 net slots = clift (Inl Still_Running)"
| "wait_for_x_slots_after_epoch (Suc fuel) net slots =
    cbind (cread net rp_slot) (\<lambda>current_slot.
    if current_slot mod DEFAULT_SLOTS_PER_EPOCH > slots then cret () else wait_for_x_slots_after_epoch fuel net slots)"

definition crank_switchboard ::
    "nat \<Rightarrow> 'h client_handler_scheme \<Rightarrow> ('x, 'w) network \<Rightarrow> pubkey \<Rightarrow> ('w, unit) client" where
  "crank_switchboard fuel h net switchboard_feed =
    cbind (clift (the_keypair h)) (\<lambda>payer.
    if switchboard_feed = default_pubkey then cret ()
    else
      cbind (wait_for_x_slots_after_epoch fuel net 400) (\<lambda>_.
      cbind (cread net cr_gateways) (\<lambda>gateways.
      case gateways of
        [] \<Rightarrow> clift (Inl (Anyhow ''No gateways found''))
      | gw # _ \<Rightarrow>
          cbind (cread net (\<lambda>rpc. cr_fetch_update_ix rpc switchboard_feed payer gw)) (\<lambda>ix.
          send_and_log_transaction h net [Compute_Unit_Limit 1400000, Switchboard_Update ix]))))"

definition set_weight_with_st_mint ::
    "nat \<Rightarrow> ('x, 'y) runtime_scheme \<Rightarrow> 'h client_handler_scheme \<Rightarrow> ('x, 'w) network \<Rightarrow> pubkey \<Rightarrow> u64 \<Rightarrow> ('w, unit) client" where
  "set_weight_with_st_mint fuel rt h net st_mint epoch =
    cbind (clift (handler_ncn h)) (\<lambda>ncn.
    cbind (cread net (get_vault_registry rt h)) (\<lambda>vault_registry.
    cbind (clift (rmap_err Library_Error (get_mint_entry vault_registry st_mint))) (\<lambda>mint_entry.
    let switchboard_feed = sm_switchboard_feed mint_entry in
    cbind (cignore (crank_switchboard fuel h net switchboard_feed)) (\<lambda>_.
    send_and_log_transaction h net
      [Tip_Router (SwitchboardSetWeight st_mint epoch) [(''ncn'', ncn),
         (''weight_table'', at_router rt h (Weight_Table_Account ncn epoch)),
         (''epoch_state'', at_router rt h (Epoch_State_Account ncn epoch)),
         (''switchboard_feed'', switchboard_feed)]]))))"

definition client_set_weight ::
    "nat \<Rightarrow> ('x, 'y) runtime_scheme \<Rightarrow> 'h client_handler_scheme \<Rightarrow> ('x, 'w) network \<Rightarrow> pubkey \<Rightarrow> u64 \<Rightarrow> ('w, unit) client" where
  "client_set_weight fuel rt h net vault epoch =
    cbind (cread net (\<lambda>rpc. cr_vault rpc vault)) (\<lambda>vault_account.
    set_weight_with_st_mint fuel rt h net (vd_supported_mint vault_account) epoch)"

definition crank_set_weight ::
    "nat \<Rightarrow> ('x, 'y) runtime_scheme \<Rightarrow> 'h client_handler_scheme \<Rightarrow> ('x, 'w) network \<Rightarrow> u64 \<Rightarrow> ('w, unit) client" where
  "crank_set_weight fuel rt h net epoch =
    cbind (get_or_create_weight_table rt h net epoch) (\<lambda>weight_table.
    let st_mints = map we_st_mint (filter (\<lambda>e. \<not> we_is_empty e \<and> \<not> we_is_set e) (wt_table weight_table)) in
    cfor st_mints (\<lambda>st_mint. cignore (set_weight_with_st_mint fuel rt h net st_mint epoch)))"

section \<open>Snapshots\<close>

text \<open>\<open>full_vault_update\<close>: the update of a vault by the vault program, operator by operator from the one after the
  last updated. Without operators the remainder by their number panics.\<close>

definition vault_tracker_ix ::
    "'h client_handler_scheme \<Rightarrow> vault_instruction \<Rightarrow> pubkey \<Rightarrow> u64 \<Rightarrow> (string \<times> pubkey) list \<Rightarrow>
     client_instruction" where
  "vault_tracker_ix h instruction vault ncn_epoch others =
    Vault_Program instruction ([(''vault'', vault),
      (''vault_update_state_tracker'', ad_vault_update_state_tracker (hd_addresses h) vault ncn_epoch),
      (''config'', ad_vault_config (hd_addresses h))] @ others)"

definition starting_index :: "u64 \<Rightarrow> u64 \<Rightarrow> nat \<Rightarrow> client_error + nat" where
  "starting_index ncn_epoch last_updated_index operators =
    (if operators = 0 then Inl Client_Panic
     else if last_updated_index = 18446744073709551615 then Inr (unat ncn_epoch mod operators)
     else Inr ((unat last_updated_index + 1) mod operators))"

definition full_vault_update ::
    "'h client_handler_scheme \<Rightarrow> ('x, 'w) network \<Rightarrow> pubkey \<Rightarrow> ('w, unit) client" where
  "full_vault_update h net vault =
    cbind (clift (the_keypair h)) (\<lambda>payer.
    cbind (cread net rp_slot) (\<lambda>current_slot.
    cbind (cread net cr_vault_config) (\<lambda>vault_config.
    cbind (clift (vc_epoch_of_slot vault_config current_slot)) (\<lambda>ncn_epoch.
    cbind (cread net (\<lambda>rpc. cr_vault rpc vault)) (\<lambda>vault_account.
    cbind (cread net rp_slot) (\<lambda>current_slot.
    cbind (clift (vd_is_update_needed vault_account current_slot (vc_epoch_length vault_config))) (\<lambda>needed.
    if \<not> needed then cret ()
    else
      let tracker = ad_vault_update_state_tracker (hd_addresses h) vault ncn_epoch in
      cbind (cread net (\<lambda>rpc. rp_account rpc tracker)) (\<lambda>tracker_account.
      cbind (if tracker_account = None then cignore (send_and_log_transaction h net
          [vault_tracker_ix h (InitializeVaultUpdateStateTracker Greedy) vault ncn_epoch
            [(''payer'', payer), (''system_program'', system_program_id)]]) else cret ())
        (\<lambda>_.
      cbind (cread net (\<lambda>rpc. cr_sorted_operators rpc vault)) (\<lambda>all_operators.
      cbind (cread net (\<lambda>rpc. cr_last_updated_index rpc vault ncn_epoch)) (\<lambda>last_updated_index.
      cbind (clift (starting_index ncn_epoch last_updated_index (length all_operators))) (\<lambda>start.
      cbind (cfor [0..<length all_operators] (\<lambda>index.
        let operator = all_operators ! ((start + index) mod length all_operators) in
        cignore (send_and_log_transaction h net
          [vault_tracker_ix h CrankVaultUpdateStateTracker vault ncn_epoch [(''operator'', operator),
            (''vault_operator_delegation'', ad_vault_operator_delegation (hd_addresses h) vault operator)]]))) (\<lambda>_.
      cbind (cread net (\<lambda>rpc. rp_account rpc tracker)) (\<lambda>tracker_account.
      if tracker_account \<noteq> None then cignore (send_and_log_transaction h net
        [vault_tracker_ix h (CloseVaultUpdateStateTracker ncn_epoch) vault ncn_epoch [(''payer'', payer)]])
      else cret ()))))))))))))))"

definition client_snapshot_vault_operator_delegation ::
    "('x, 'y) runtime_scheme \<Rightarrow> 'h client_handler_scheme \<Rightarrow> ('x, 'w) network \<Rightarrow> pubkey \<Rightarrow> pubkey \<Rightarrow> u64 \<Rightarrow>
     ('w, unit) client" where
  "client_snapshot_vault_operator_delegation rt h net vault operator epoch =
    cbind (clift (handler_ncn h)) (\<lambda>ncn.
    let ads = hd_addresses h in
    send_and_log_transaction h net
      [Tip_Router (SnapshotVaultOperatorDelegation epoch) [(''config'', at_router rt h (Config_Account ncn)),
         (''epoch_state'', at_router rt h (Epoch_State_Account ncn epoch)),
         (''restaking_config'', ad_restaking_config ads), (''ncn'', ncn), (''operator'', operator), (''vault'', vault),
         (''vault_ncn_ticket'', ad_vault_ncn_ticket ads vault ncn),
         (''ncn_vault_ticket'', ad_ncn_vault_ticket ads ncn vault),
         (''vault_operator_delegation'', ad_vault_operator_delegation ads vault operator),
         (''weight_table'', at_router rt h (Weight_Table_Account ncn epoch)),
         (''epoch_snapshot'', at_router rt h (Epoch_Snapshot_Account ncn epoch)),
         (''operator_snapshot'', at_router rt h (Operator_Snapshot_Account operator ncn epoch))]])"

definition crank_snapshot ::
    "('x, 'y) runtime_scheme \<Rightarrow> 'h client_handler_scheme \<Rightarrow> ('x, 'w) network \<Rightarrow> u64 \<Rightarrow> ('w, unit) client" where
  "crank_snapshot rt h net epoch =
    cbind (cread net (get_vault_registry rt h)) (\<lambda>vault_registry.
    cbind (cread net rp_operators) (\<lambda>operators.
    let all_vaults = map ve_vault (get_valid_vault_entries vault_registry) in
    cbind (get_or_create_epoch_snapshot rt h net epoch) (\<lambda>epoch_snapshot.
    if es_finalized epoch_snapshot then cret ()
    else cfor operators (\<lambda>operator.
      cbind (ctry (get_or_create_operator_snapshot rt h net operator epoch)) (\<lambda>result.
      case result of
        Inl _ \<Rightarrow> cret ()
      | Inr operator_snapshot \<Rightarrow>
          cfor (filter (\<lambda>vault. \<not> contains_vault operator_snapshot vault) all_vaults) (\<lambda>vault.
            cbind (cignore (full_vault_update h net vault)) (\<lambda>_.
            cignore (client_snapshot_vault_operator_delegation rt h net vault operator epoch))))))))"

section \<open>The vote\<close>

definition operator_cast_vote ::
    "('x, 'y) runtime_scheme \<Rightarrow> 'h client_handler_scheme \<Rightarrow> ('x, 'w) network \<Rightarrow> pubkey \<Rightarrow> u64 \<Rightarrow> bytes32 \<Rightarrow>
     ('w, unit) client" where
  "operator_cast_vote rt h net operator epoch voted_root =
    cbind (clift (the_keypair h)) (\<lambda>keypair.
    cbind (clift (handler_ncn h)) (\<lambda>ncn.
    send_and_log_transaction h net
      [Tip_Router (CastVote voted_root epoch) [(''config'', at_router rt h (Config_Account ncn)),
         (''epoch_state'', at_router rt h (Epoch_State_Account ncn epoch)),
         (''ballot_box'', at_router rt h (Ballot_Box_Account ncn epoch)), (''ncn'', ncn),
         (''epoch_snapshot'', at_router rt h (Epoch_Snapshot_Account ncn epoch)),
         (''operator_snapshot'', at_router rt h (Operator_Snapshot_Account operator ncn epoch)),
         (''operator'', operator), (''operator_voter'', keypair)]]))"

definition crank_test_vote ::
    "('x, 'y) runtime_scheme \<Rightarrow> 'h client_handler_scheme \<Rightarrow> ('x, 'w) network \<Rightarrow> u64 \<Rightarrow> ('w, unit) client" where
  "crank_test_vote rt h net epoch =
    cbind (clift (the_keypair h)) (\<lambda>voter.
    cbind (cread net rp_operators) (\<lambda>operators.
    cbind (cfor operators (\<lambda>operator.
      cbind (cread net (\<lambda>rpc. cr_operator_voter rpc operator)) (\<lambda>operator_voter.
      if operator_voter \<noteq> voter then cret ()
      else cignore (operator_cast_vote rt h net operator epoch (replicate 32 8))))) (\<lambda>_.
    cbind (get_or_create_ballot_box rt h net epoch) (\<lambda>ballot_box.
    if is_consensus_reached ballot_box then
      cbind (clift (handler_pda rt h (\<lambda>ncn. Base_Reward_Receiver_Account ncn epoch))) (\<lambda>base_reward_receiver_address.
      cbind (cread net (\<lambda>rpc. rp_account rpc base_reward_receiver_address)) (\<lambda>base_reward_receiver.
      if base_reward_receiver = None then
        send_and_log_transaction h net [System_Transfer voter base_reward_receiver_address 100000000]
      else cret ()))
    else cret ()))))"

definition crank_vote ::
    "('x, 'y) runtime_scheme \<Rightarrow> 'h client_handler_scheme \<Rightarrow> ('x, 'w) network \<Rightarrow> u64 \<Rightarrow> bool \<Rightarrow> ('w, unit) client" where
  "crank_vote rt h net epoch test_vote =
    cbind (get_or_create_ballot_box rt h net epoch) (\<lambda>ballot_box.
    if is_consensus_reached ballot_box then cret ()
    else if test_vote then crank_test_vote rt h net epoch
    else cret ())"

section \<open>Routing and distribution\<close>

text \<open>The loops that route until the router is done. A network can keep a router routing for ever, so they take fuel.\<close>

primrec route_until_done ::
    "nat \<Rightarrow> ('w, unit) client \<Rightarrow> ('w, bool) client \<Rightarrow> ('w, unit) client" where
  "route_until_done 0 send still_routing = clift (Inl Still_Running)"
| "route_until_done (Suc fuel) send still_routing =
    cbind send (\<lambda>_. cbind still_routing (\<lambda>routing.
    if routing then route_until_done fuel send still_routing else cret ()))"

definition route_base_rewards_ixs :: "('x, 'y) runtime_scheme \<Rightarrow> 'h client_handler_scheme \<Rightarrow> pubkey \<Rightarrow> u64 \<Rightarrow> transaction" where
  "route_base_rewards_ixs rt h ncn epoch =
    [Compute_Unit_Limit 1400000,
     Tip_Router (RouteBaseRewards MAX_ROUTE_BASE_ITERATIONS epoch)
      [(''epoch_state'', at_router rt h (Epoch_State_Account ncn epoch)),
       (''config'', at_builtin rt h (Config_Account ncn)), (''ncn'', ncn),
       (''epoch_snapshot'', at_router rt h (Epoch_Snapshot_Account ncn epoch)),
       (''ballot_box'', at_router rt h (Ballot_Box_Account ncn epoch)),
       (''base_reward_router'', at_router rt h (Base_Reward_Router_Account ncn epoch)),
       (''base_reward_receiver'', at_router rt h (Base_Reward_Receiver_Account ncn epoch))]]"

definition route_base_rewards ::
    "nat \<Rightarrow> ('x, 'y) runtime_scheme \<Rightarrow> 'h client_handler_scheme \<Rightarrow> ('x, 'w) network \<Rightarrow> u64 \<Rightarrow> ('w, unit) client" where
  "route_base_rewards fuel rt h net epoch =
    cbind (clift (handler_ncn h)) (\<lambda>ncn.
    route_until_done fuel
      (send_and_log_transaction h net (route_base_rewards_ixs rt h ncn epoch))
      (cread net (\<lambda>rpc. rbind (get_base_reward_router rt h rpc epoch) (\<lambda>r. Inr (br_still_routing r)))))"

definition route_ncn_rewards ::
    "nat \<Rightarrow> ('x, 'y) runtime_scheme \<Rightarrow> 'h client_handler_scheme \<Rightarrow> ('x, 'w) network \<Rightarrow> pubkey \<Rightarrow> ncn_fee_group \<Rightarrow> u64 \<Rightarrow>
     ('w, unit) client" where
  "route_ncn_rewards fuel rt h net operator g epoch =
    cbind (clift (handler_ncn h)) (\<lambda>ncn.
    route_until_done fuel
      (send_and_log_transaction h net [Compute_Unit_Limit 1400000,
        Tip_Router (RouteNcnRewards (ncn_group g) MAX_ROUTE_NCN_ITERATIONS epoch)
          [(''epoch_state'', at_router rt h (Epoch_State_Account ncn epoch)), (''ncn'', ncn), (''operator'', operator),
           (''operator_snapshot'', at_router rt h (Operator_Snapshot_Account operator ncn epoch)),
           (''ncn_reward_router'', at_router rt h (Ncn_Reward_Router_Account g operator ncn epoch)),
           (''ncn_reward_receiver'', at_router rt h (Ncn_Reward_Receiver_Account g operator ncn epoch))]])
      (cread net (\<lambda>rpc. rbind (get_ncn_reward_router rt h rpc g operator epoch) (\<lambda>r. Inr (nr_still_routing r)))))"

definition distribute_base_ncn_rewards ::
    "('x, 'y) runtime_scheme \<Rightarrow> 'h client_handler_scheme \<Rightarrow> ('x, 'w) network \<Rightarrow> pubkey \<Rightarrow> ncn_fee_group \<Rightarrow> u64 \<Rightarrow>
     ('w, unit) client" where
  "distribute_base_ncn_rewards rt h net operator g epoch =
    cbind (clift (handler_ncn h)) (\<lambda>ncn.
    send_and_log_transaction h net
      [Tip_Router (DistributeBaseNcnRewardRoute (ncn_group g) epoch)
        [(''epoch_state'', at_router rt h (Epoch_State_Account ncn epoch)),
         (''config'', at_router rt h (Config_Account ncn)), (''ncn'', ncn), (''operator'', operator),
         (''base_reward_router'', at_router rt h (Base_Reward_Router_Account ncn epoch)),
         (''base_reward_receiver'', at_router rt h (Base_Reward_Receiver_Account ncn epoch)),
         (''ncn_reward_router'', at_router rt h (Ncn_Reward_Router_Account g operator ncn epoch)),
         (''ncn_reward_receiver'', at_router rt h (Ncn_Reward_Receiver_Account g operator ncn epoch)),
         (''system_program'', system_program_id)]])"

text \<open>\<open>get_stake_pool_accounts\<close>: the accounts of the stake pool, with the wallet of the default group as referrer.\<close>

definition get_stake_pool_accounts ::
    "('x, 'y) runtime_scheme \<Rightarrow> 'h client_handler_scheme \<Rightarrow> ('x, 'w) network \<Rightarrow>
     ('w, pubkey \<times> (string \<times> pubkey) list) client" where
  "get_stake_pool_accounts rt h net =
    cbind (cread net cr_stake_pool) (\<lambda>stake_pool.
    cbind (cread net (get_tip_router_config rt h)) (\<lambda>tip_router_config.
    cbind (clift (rmap_err (Library_Error \<circ> program_error_from)
        (base_fee_wallet (cf_fee_config tip_router_config) base_fee_group_default))) (\<lambda>wallet.
    let ads = hd_addresses h in
    cret (sp_pool_mint stake_pool,
      [(''pool_mint'', sp_pool_mint stake_pool), (''manager_fee_account'', sp_manager_fee_account stake_pool),
       (''referrer_pool_tokens_account'', ad_associated_token_address ads wallet (sp_pool_mint stake_pool)),
       (''reserve_stake'', sp_reserve_stake stake_pool), (''stake_pool'', ad_stake_pool ads),
       (''stake_pool_withdraw_authority'', ad_stake_pool_withdraw_authority ads),
       (''stake_pool_program'', ad_stake_pool_program ads)]))))"

definition distribute_base_rewards ::
    "('x, 'y) runtime_scheme \<Rightarrow> 'h client_handler_scheme \<Rightarrow> ('x, 'w) network \<Rightarrow> base_fee_group \<Rightarrow> u64 \<Rightarrow> ('w, unit) client" where
  "distribute_base_rewards rt h net g epoch =
    cbind (clift (the_keypair h)) (\<lambda>keypair.
    cbind (clift (handler_ncn h)) (\<lambda>ncn.
    cbind (cread net (get_tip_router_config rt h)) (\<lambda>tip_router_config.
    cbind (clift (rmap_err (Library_Error \<circ> program_error_from) (base_fee_wallet (cf_fee_config tip_router_config) g)))
      (\<lambda>wallet.
    cbind (get_stake_pool_accounts rt h net) (\<lambda>(pool_mint, stake_pool_accounts).
    send_and_log_transaction h net
      [Create_Associated_Token_Account keypair wallet pool_mint (hd_token_program_id h),
       Tip_Router (DistributeBaseRewards (base_group g) epoch)
        ([(''epoch_state'', at_router rt h (Epoch_State_Account ncn epoch)),
          (''config'', at_router rt h (Config_Account ncn)), (''ncn'', ncn),
          (''base_reward_router'', at_router rt h (Base_Reward_Router_Account ncn epoch)),
          (''base_reward_receiver'', at_router rt h (Base_Reward_Receiver_Account ncn epoch)),
          (''system_program'', system_program_id), (''base_fee_wallet'', wallet),
          (''base_fee_wallet_ata'', ad_associated_token_address (hd_addresses h) wallet pool_mint)] @
         stake_pool_accounts)])))))"

definition distribute_ncn_operator_rewards ::
    "('x, 'y) runtime_scheme \<Rightarrow> 'h client_handler_scheme \<Rightarrow> ('x, 'w) network \<Rightarrow> pubkey \<Rightarrow> ncn_fee_group \<Rightarrow> u64 \<Rightarrow>
     ('w, unit) client" where
  "distribute_ncn_operator_rewards rt h net operator g epoch =
    cbind (clift (the_keypair h)) (\<lambda>keypair.
    cbind (clift (handler_ncn h)) (\<lambda>ncn.
    cbind (get_stake_pool_accounts rt h net) (\<lambda>(pool_mint, stake_pool_accounts).
    send_and_log_transaction h net
      [Create_Associated_Token_Account keypair operator pool_mint (hd_token_program_id h),
       Tip_Router (DistributeNcnOperatorRewards (ncn_group g) epoch)
        ([(''epoch_state'', at_router rt h (Epoch_State_Account ncn epoch)),
          (''config'', at_router rt h (Config_Account ncn)), (''ncn'', ncn), (''operator'', operator),
          (''operator_ata'', ad_associated_token_address (hd_addresses h) operator pool_mint),
          (''operator_snapshot'', at_router rt h (Operator_Snapshot_Account operator ncn epoch)),
          (''ncn_reward_router'', at_router rt h (Ncn_Reward_Router_Account g operator ncn epoch)),
          (''ncn_reward_receiver'', at_router rt h (Ncn_Reward_Receiver_Account g operator ncn epoch))] @
         stake_pool_accounts @
         [(''token_program'', hd_token_program_id h), (''system_program'', system_program_id)])])))"

definition distribute_ncn_vault_rewards ::
    "('x, 'y) runtime_scheme \<Rightarrow> 'h client_handler_scheme \<Rightarrow> ('x, 'w) network \<Rightarrow> pubkey \<Rightarrow> pubkey \<Rightarrow> ncn_fee_group \<Rightarrow> u64 \<Rightarrow>
     ('w, unit) client" where
  "distribute_ncn_vault_rewards rt h net vault operator g epoch =
    cbind (clift (the_keypair h)) (\<lambda>keypair.
    cbind (clift (handler_ncn h)) (\<lambda>ncn.
    cbind (get_stake_pool_accounts rt h net) (\<lambda>(pool_mint, stake_pool_accounts).
    cbind (cread net (\<lambda>rpc. cr_vault rpc vault)) (\<lambda>vault_account.
    let ads = hd_addresses h in
    send_and_log_transaction h net
      [Compute_Unit_Limit 1400000,
       Create_Associated_Token_Account keypair vault pool_mint (hd_token_program_id h),
       Tip_Router (DistributeNcnVaultRewards (ncn_group g) epoch)
        ([(''epoch_state'', at_router rt h (Epoch_State_Account ncn epoch)),
          (''config'', at_router rt h (Config_Account ncn)), (''ncn'', ncn), (''operator'', operator), (''vault'', vault),
          (''vault_ata'', ad_associated_token_address ads vault pool_mint),
          (''operator_snapshot'', at_router rt h (Operator_Snapshot_Account operator ncn epoch)),
          (''ncn_reward_router'', at_router rt h (Ncn_Reward_Router_Account g operator ncn epoch)),
          (''ncn_reward_receiver'', at_router rt h (Ncn_Reward_Receiver_Account g operator ncn epoch))] @
         stake_pool_accounts @
         [(''token_program'', hd_token_program_id h), (''system_program'', system_program_id)]),
       Vault_Program UpdateVaultBalance [(''config'', ad_vault_config ads), (''vault'', vault),
         (''token_program'', ad_spl_token_program ads),
         (''vault_fee_token_account'', ad_associated_token_address ads (vd_fee_wallet vault_account) (vd_vrt_mint vault_account)),
         (''vault_token_account'', ad_associated_token_address ads vault (vd_supported_mint vault_account)),
         (''vrt_mint'', vd_vrt_mint vault_account)]]))))"

text \<open>\<open>crank_distribute\<close>. The base router is read before the rewards are routed, and it is this reading that the
  distribution goes by.\<close>

definition distribute_to_base_group ::
    "('x, 'y) runtime_scheme \<Rightarrow> 'h client_handler_scheme \<Rightarrow> ('x, 'w) network \<Rightarrow> fees \<Rightarrow> base_reward_router \<Rightarrow> u64 \<Rightarrow>
     base_fee_group \<Rightarrow> ('w, unit) client" where
  "distribute_to_base_group rt h net fees base_reward_router epoch g =
    cbind (clift (rmap_err (Library_Error \<circ> program_error_from) (fees_base_fee_bps fees g))) (\<lambda>bps.
    if bps = 0 then cret ()
    else
      cbind (clift (rmap_err (Library_Error \<circ> program_error_from) (br_base_fee_group_reward base_reward_router g)))
        (\<lambda>rewards.
      if rewards \<noteq> 0 then cignore (distribute_base_rewards rt h net g epoch) else cret ()))"

text \<open>A step of the loop over operators and groups that fails ends this pair (\<open>continue\<close>): \<open>or_continue\<close>.\<close>

definition or_continue :: "('w, 'a) client \<Rightarrow> ('a \<Rightarrow> ('w, unit) client) \<Rightarrow> ('w, unit) client" where
  "or_continue m f = cbind (ctry m) (\<lambda>r. case r of Inl _ \<Rightarrow> cret () | Inr a \<Rightarrow> f a)"

definition distribute_to_operator ::
    "nat \<Rightarrow> ('x, 'y) runtime_scheme \<Rightarrow> 'h client_handler_scheme \<Rightarrow> ('x, 'w) network \<Rightarrow> fees \<Rightarrow> base_reward_router \<Rightarrow> u64 \<Rightarrow>
     pubkey \<times> ncn_fee_group \<Rightarrow> ('w, unit) client" where
  "distribute_to_operator fuel rt h net fees base_reward_router epoch pair =
    (case pair of (operator, g) \<Rightarrow>
    cbind (clift (rmap_err (Library_Error \<circ> program_error_from) (fees_ncn_fee_bps fees g))) (\<lambda>bps.
    if bps = 0 then cret ()
    else
      or_continue (get_or_create_ncn_reward_router rt h net g operator epoch) (\<lambda>_.
      case ncn_fee_group_reward_route base_reward_router operator of
        Inl _ \<Rightarrow> cret ()
      | Inr route \<Rightarrow>
          cbind (clift (rmap_err (Library_Error \<circ> program_error_from) (route_rewards route g))) (\<lambda>rewards.
          or_continue (if rewards \<noteq> 0 then distribute_base_ncn_rewards rt h net operator g epoch else cret ()) (\<lambda>_.
          cbind (cread net (\<lambda>rpc. get_ncn_reward_receiver_rewards rt h rpc g operator epoch)) (\<lambda>receiver_rewards.
          or_continue (if receiver_rewards > 0 then route_ncn_rewards fuel rt h net operator g epoch else cret ()) (\<lambda>_.
          or_continue (get_or_create_ncn_reward_router rt h net g operator epoch) (\<lambda>ncn_reward_router.
          or_continue (if nr_operator_rewards ncn_reward_router \<noteq> 0
              then distribute_ncn_operator_rewards rt h net operator g epoch else cret ()) (\<lambda>_.
          cfor (map vrr_vault (filter (\<lambda>route. \<not> vrr_is_empty route \<and> vrr_has_rewards route)
              (nr_vault_reward_routes ncn_reward_router))) (\<lambda>vault.
            cignore (distribute_ncn_vault_rewards rt h net vault operator g epoch)))))))))))"

definition crank_distribute ::
    "nat \<Rightarrow> ('x, 'y) runtime_scheme \<Rightarrow> 'h client_handler_scheme \<Rightarrow> ('x, 'w) network \<Rightarrow> u64 \<Rightarrow> ('w, unit) client" where
  "crank_distribute fuel rt h net epoch =
    cbind (cread net rp_operators) (\<lambda>operators.
    cbind (get_or_create_epoch_snapshot rt h net epoch) (\<lambda>epoch_snapshot.
    let fees = es_fees epoch_snapshot in
    cbind (get_or_create_base_reward_router rt h net epoch) (\<lambda>base_reward_router.
    cbind (cread net (\<lambda>rpc. get_base_reward_receiver_rewards rt h rpc epoch)) (\<lambda>receiver_rewards.
    cbind (if receiver_rewards > 0 then route_base_rewards fuel rt h net epoch else cret ()) (\<lambda>_.
    cbind (cfor base_fee_group_all_groups (distribute_to_base_group rt h net fees base_reward_router epoch)) (\<lambda>_.
    cfor (List.product operators ncn_fee_group_all_groups)
      (distribute_to_operator fuel rt h net fees base_reward_router epoch)))))))"

section \<open>Closing\<close>

definition close_epoch_account_ix ::
    "('x, 'y) runtime_scheme \<Rightarrow> 'h client_handler_scheme \<Rightarrow> pubkey \<Rightarrow> u64 \<Rightarrow> pubkey \<Rightarrow> pubkey \<Rightarrow> pubkey option \<Rightarrow>
     client_instruction" where
  "close_epoch_account_ix rt h ncn epoch dao_wallet account_to_close receiver_to_close =
    Tip_Router (CloseEpochAccount epoch)
      ([(''account_payer'', at_router rt h (Account_Payer_Account ncn)),
        (''epoch_marker'', at_router rt h (Epoch_Marker_Account ncn epoch)),
        (''config'', at_router rt h (Config_Account ncn)), (''account_to_close'', account_to_close),
        (''epoch_state'', at_router rt h (Epoch_State_Account ncn epoch)), (''ncn'', ncn),
        (''dao_wallet'', dao_wallet), (''system_program'', system_program_id)] @
       (case receiver_to_close of None \<Rightarrow> [] | Some receiver \<Rightarrow> [(''receiver_to_close'', receiver)]))"

definition close_epoch_account ::
    "('x, 'y) runtime_scheme \<Rightarrow> 'h client_handler_scheme \<Rightarrow> ('x, 'w) network \<Rightarrow> pubkey \<Rightarrow> u64 \<Rightarrow> pubkey \<times> pubkey option \<Rightarrow>
     ('w, unit) client" where
  "close_epoch_account rt h net ncn epoch target =
    (case target of (account_to_close, receiver_to_close) \<Rightarrow>
    cbind (cread net (\<lambda>rpc. rp_account rpc account_to_close)) (\<lambda>account.
    if (case account of None \<Rightarrow> True | Some a \<Rightarrow> ac_len a = 0 \<or> ac_lamports a = 0) then cret ()
    else
      cbind (cread net (get_tip_router_config rt h)) (\<lambda>config_account.
      cbind (clift (rmap_err (Library_Error \<circ> program_error_from)
          (base_fee_wallet (cf_fee_config config_account) base_fee_group_dao))) (\<lambda>dao_wallet.
      send_and_log_transaction h net [close_epoch_account_ix rt h ncn epoch dao_wallet account_to_close receiver_to_close]))))"

text \<open>What is closed, in this order: the routers of the operators, the base router, the ballot box, the operator
  snapshots, the epoch snapshot, the weight table, and the epoch state last.\<close>

definition epoch_accounts_to_close ::
    "('x, 'y) runtime_scheme \<Rightarrow> 'h client_handler_scheme \<Rightarrow> pubkey \<Rightarrow> u64 \<Rightarrow> pubkey list \<Rightarrow> (pubkey \<times> pubkey option) list" where
  "epoch_accounts_to_close rt h ncn epoch operators =
    map (\<lambda>(operator, g). (at_router rt h (Ncn_Reward_Router_Account g operator ncn epoch),
        Some (at_router rt h (Ncn_Reward_Receiver_Account g operator ncn epoch))))
      (List.product operators ncn_fee_group_all_groups) @
    [(at_router rt h (Base_Reward_Router_Account ncn epoch), Some (at_router rt h (Base_Reward_Receiver_Account ncn epoch))),
     (at_router rt h (Ballot_Box_Account ncn epoch), None)] @
    map (\<lambda>operator. (at_router rt h (Operator_Snapshot_Account operator ncn epoch), None)) operators @
    [(at_router rt h (Epoch_Snapshot_Account ncn epoch), None),
     (at_router rt h (Weight_Table_Account ncn epoch), None),
     (at_router rt h (Epoch_State_Account ncn epoch), None)]"

definition crank_close_epoch_accounts ::
    "nat \<Rightarrow> ('x, 'y) runtime_scheme \<Rightarrow> 'h client_handler_scheme \<Rightarrow> ('x, 'w) network \<Rightarrow> u64 \<Rightarrow> ('w, unit) client" where
  "crank_close_epoch_accounts fuel rt h net epoch =
    cbind (clift (handler_ncn h)) (\<lambda>ncn.
    cbind (cignore (crank_distribute fuel rt h net epoch)) (\<lambda>_.
    cbind (cread net rp_operators) (\<lambda>all_operators.
    cfor (epoch_accounts_to_close rt h ncn epoch all_operators) (\<lambda>target.
      cignore (close_epoch_account rt h net ncn epoch target)))))"

text \<open>The crank of a stage, as the keeper calls it.\<close>

definition crank_stage ::
    "nat \<Rightarrow> ('x, 'y) runtime_scheme \<Rightarrow> 'h client_handler_scheme \<Rightarrow> ('x, 'w) network \<Rightarrow> bool \<Rightarrow> epoch_stage \<Rightarrow> u64 \<Rightarrow>
     ('w, unit) client" where
  "crank_stage fuel rt h net test_vote stage epoch = (case stage of
      SetWeight \<Rightarrow> crank_set_weight fuel rt h net epoch
    | Snapshot \<Rightarrow> crank_snapshot rt h net epoch
    | Vote \<Rightarrow> crank_vote rt h net epoch test_vote
    | Distribute \<Rightarrow> crank_distribute fuel rt h net epoch
    | Close \<Rightarrow> crank_close_epoch_accounts fuel rt h net epoch)"

end
