(* ===== verification/Interface.thy ===== *)
theory Interface
  imports Program
begin

text \<open>
  The interface of the program (\<open>core/src/instruction.rs\<close>) as the generated client has it
  (\<open>clients/rust/jito_tip_router/src/generated/instructions\<close>, one file for each instruction): the accounts of an
  instruction in their order, with their flags, and what a builder makes of the accounts it is given. Where a
  generated file holds both sides of a merge, the side is taken that has the epoch marker, which is the one of
  \<open>instruction.rs\<close>. The builders for calls from other programs, which have the same accounts, are left out.
\<close>

section \<open>The interface of the program\<close>

record account_meta =
  am_name :: string
  am_writable :: bool
  am_signer :: bool
  am_optional :: bool

definition ro :: "string \<Rightarrow> account_meta" where
  "ro name = \<lparr>am_name = name, am_writable = False, am_signer = False, am_optional = False\<rparr>"

definition rw :: "string \<Rightarrow> account_meta" where "rw name = (ro name)\<lparr>am_writable := True\<rparr>"
definition ro_signer :: "string \<Rightarrow> account_meta" where "ro_signer name = (ro name)\<lparr>am_signer := True\<rparr>"
definition rw_signer :: "string \<Rightarrow> account_meta" where "rw_signer name = (rw name)\<lparr>am_signer := True\<rparr>"
definition rw_optional :: "string \<Rightarrow> account_meta" where "rw_optional name = (rw name)\<lparr>am_optional := True\<rparr>"

definition initialize_config_accounts :: "account_meta list" where
  "initialize_config_accounts = [
    rw ''config'', ro ''ncn'', ro ''fee_wallet'', ro_signer ''ncn_admin'', ro ''tie_breaker_admin'',
    rw ''account_payer'', ro ''system_program'']"

definition initialize_vault_registry_accounts :: "account_meta list" where
  "initialize_vault_registry_accounts = [
    ro ''config'', rw ''vault_registry'', ro ''ncn'', rw ''account_payer'', ro ''system_program'']"

definition realloc_vault_registry_accounts :: "account_meta list" where
  "realloc_vault_registry_accounts = [
    ro ''config'', rw ''vault_registry'', ro ''ncn'', rw ''account_payer'', ro ''system_program'']"

definition register_vault_accounts :: "account_meta list" where
  "register_vault_accounts = [
    ro ''config'', rw ''vault_registry'', ro ''ncn'', ro ''vault'', ro ''ncn_vault_ticket'']"

definition initialize_epoch_state_accounts :: "account_meta list" where
  "initialize_epoch_state_accounts = [
    ro ''epoch_marker'', rw ''epoch_state'', ro ''config'', ro ''ncn'', rw ''account_payer'',
    ro ''system_program'']"

definition realloc_epoch_state_accounts :: "account_meta list" where
  "realloc_epoch_state_accounts = [
    rw ''epoch_state'', ro ''config'', ro ''ncn'', rw ''account_payer'', ro ''system_program'']"

definition initialize_weight_table_accounts :: "account_meta list" where
  "initialize_weight_table_accounts = [
    ro ''epoch_marker'', ro ''epoch_state'', ro ''vault_registry'', ro ''ncn'', rw ''weight_table'',
    rw ''account_payer'', ro ''system_program'']"

definition realloc_weight_table_accounts :: "account_meta list" where
  "realloc_weight_table_accounts = [
    rw ''epoch_state'', ro ''config'', rw ''weight_table'', ro ''ncn'', ro ''vault_registry'',
    rw ''account_payer'', ro ''system_program'']"

definition switchboard_set_weight_accounts :: "account_meta list" where
  "switchboard_set_weight_accounts = [
    rw ''epoch_state'', ro ''ncn'', rw ''weight_table'', ro ''switchboard_feed'']"

definition initialize_epoch_snapshot_accounts :: "account_meta list" where
  "initialize_epoch_snapshot_accounts = [
    ro ''epoch_marker'', rw ''epoch_state'', ro ''config'', ro ''ncn'', ro ''weight_table'',
    rw ''epoch_snapshot'', rw ''account_payer'', ro ''system_program'']"

definition initialize_operator_snapshot_accounts :: "account_meta list" where
  "initialize_operator_snapshot_accounts = [
    ro ''epoch_marker'', ro ''epoch_state'', ro ''config'', ro ''ncn'', ro ''operator'',
    ro ''ncn_operator_state'', ro ''epoch_snapshot'', rw ''operator_snapshot'', rw ''account_payer'',
    ro ''system_program'']"

definition realloc_operator_snapshot_accounts :: "account_meta list" where
  "realloc_operator_snapshot_accounts = [
    rw ''epoch_state'', ro ''config'', ro ''restaking_config'', ro ''ncn'', ro ''operator'',
    ro ''ncn_operator_state'', rw ''epoch_snapshot'', rw ''operator_snapshot'', rw ''account_payer'',
    ro ''system_program'']"

definition snapshot_vault_operator_delegation_accounts :: "account_meta list" where
  "snapshot_vault_operator_delegation_accounts = [
    rw ''epoch_state'', ro ''config'', ro ''restaking_config'', ro ''ncn'', ro ''operator'', ro ''vault'',
    ro ''vault_ncn_ticket'', ro ''ncn_vault_ticket'', ro ''vault_operator_delegation'', ro ''weight_table'',
    rw ''epoch_snapshot'', rw ''operator_snapshot'']"

definition initialize_ballot_box_accounts :: "account_meta list" where
  "initialize_ballot_box_accounts = [
    ro ''epoch_marker'', ro ''epoch_state'', ro ''config'', rw ''ballot_box'', ro ''ncn'',
    rw ''account_payer'', ro ''system_program'']"

definition realloc_ballot_box_accounts :: "account_meta list" where
  "realloc_ballot_box_accounts = [
    rw ''epoch_state'', ro ''config'', rw ''ballot_box'', ro ''ncn'', rw ''account_payer'',
    ro ''system_program'']"

definition cast_vote_ix_accounts :: "account_meta list" where
  "cast_vote_ix_accounts = [
    rw ''epoch_state'', ro ''config'', rw ''ballot_box'', ro ''ncn'', ro ''epoch_snapshot'',
    ro ''operator_snapshot'', ro ''operator'', ro_signer ''operator_voter'']"

definition set_merkle_root_ix_accounts :: "account_meta list" where
  "set_merkle_root_ix_accounts = [
    rw ''epoch_state'', rw ''config'', ro ''ncn'', ro ''ballot_box'', ro ''vote_account'',
    rw ''tip_distribution_account'', ro ''tip_distribution_config'', ro ''tip_distribution_program'']"

definition initialize_base_reward_router_accounts :: "account_meta list" where
  "initialize_base_reward_router_accounts = [
    ro ''epoch_marker'', ro ''epoch_state'', ro ''ncn'', rw ''base_reward_router'',
    rw ''base_reward_receiver'', rw ''account_payer'', ro ''system_program'']"

definition realloc_base_reward_router_accounts :: "account_meta list" where
  "realloc_base_reward_router_accounts = [
    rw ''epoch_state'', ro ''config'', rw ''base_reward_router'', ro ''ncn'', rw ''account_payer'',
    ro ''system_program'']"

definition initialize_ncn_reward_router_accounts :: "account_meta list" where
  "initialize_ncn_reward_router_accounts = [
    ro ''epoch_marker'', rw ''epoch_state'', ro ''ncn'', ro ''operator'', ro ''operator_snapshot'',
    rw ''ncn_reward_router'', rw ''ncn_reward_receiver'', rw ''account_payer'', ro ''system_program'']"

definition route_base_rewards_accounts :: "account_meta list" where
  "route_base_rewards_accounts = [
    rw ''epoch_state'', ro ''config'', ro ''ncn'', ro ''epoch_snapshot'', ro ''ballot_box'',
    rw ''base_reward_router'', rw ''base_reward_receiver'']"

definition route_ncn_rewards_accounts :: "account_meta list" where
  "route_ncn_rewards_accounts = [
    rw ''epoch_state'', ro ''ncn'', ro ''operator'', ro ''operator_snapshot'', rw ''ncn_reward_router'',
    rw ''ncn_reward_receiver'']"

definition distribute_base_rewards_accounts :: "account_meta list" where
  "distribute_base_rewards_accounts = [
    rw ''epoch_state'', ro ''config'', ro ''ncn'', rw ''base_reward_router'', rw ''base_reward_receiver'',
    ro ''base_fee_wallet'', rw ''base_fee_wallet_ata'', ro ''stake_pool_program'', rw ''stake_pool'',
    ro ''stake_pool_withdraw_authority'', rw ''reserve_stake'', rw ''manager_fee_account'',
    rw ''referrer_pool_tokens_account'', rw ''pool_mint'', ro ''token_program'', ro ''system_program'']"

definition distribute_base_ncn_reward_route_accounts :: "account_meta list" where
  "distribute_base_ncn_reward_route_accounts = [
    rw ''epoch_state'', ro ''config'', ro ''ncn'', ro ''operator'', rw ''base_reward_router'',
    rw ''base_reward_receiver'', ro ''ncn_reward_router'', rw ''ncn_reward_receiver'', ro ''system_program'']"

definition distribute_ncn_operator_rewards_accounts :: "account_meta list" where
  "distribute_ncn_operator_rewards_accounts = [
    rw ''epoch_state'', ro ''config'', ro ''ncn'', rw ''operator'', rw ''operator_ata'',
    rw ''operator_snapshot'', rw ''ncn_reward_router'', rw ''ncn_reward_receiver'', ro ''stake_pool_program'',
    rw ''stake_pool'', ro ''stake_pool_withdraw_authority'', rw ''reserve_stake'', rw ''manager_fee_account'',
    rw ''referrer_pool_tokens_account'', rw ''pool_mint'', ro ''token_program'', ro ''system_program'']"

definition distribute_ncn_vault_rewards_accounts :: "account_meta list" where
  "distribute_ncn_vault_rewards_accounts = [
    rw ''epoch_state'', ro ''config'', ro ''ncn'', ro ''operator'', ro ''vault'', rw ''vault_ata'',
    rw ''operator_snapshot'', rw ''ncn_reward_router'', rw ''ncn_reward_receiver'', ro ''stake_pool_program'',
    rw ''stake_pool'', ro ''stake_pool_withdraw_authority'', rw ''reserve_stake'', rw ''manager_fee_account'',
    rw ''referrer_pool_tokens_account'', rw ''pool_mint'', ro ''token_program'', ro ''system_program'']"

definition claim_with_payer_accounts :: "account_meta list" where
  "claim_with_payer_accounts = [
    rw ''account_payer'', ro ''config'', ro ''ncn'', ro ''tip_distribution_config'',
    rw ''tip_distribution_account'', rw ''claim_status'', rw ''claimant'', ro ''tip_distribution_program'',
    ro ''system_program'']"

definition close_epoch_account_accounts :: "account_meta list" where
  "close_epoch_account_accounts = [
    rw ''epoch_marker'', rw ''epoch_state'', ro ''config'', ro ''ncn'', rw ''account_to_close'',
    rw ''account_payer'', rw ''dao_wallet'', ro ''system_program'', rw_optional ''receiver_to_close'']"

definition admin_set_parameters_accounts :: "account_meta list" where
  "admin_set_parameters_accounts = [
    rw ''config'', ro ''ncn'', ro_signer ''ncn_admin'']"

definition admin_set_config_fees_accounts :: "account_meta list" where
  "admin_set_config_fees_accounts = [
    rw ''config'', ro ''ncn'', ro_signer ''ncn_admin'']"

definition admin_set_new_admin_accounts :: "account_meta list" where
  "admin_set_new_admin_accounts = [
    rw ''config'', ro ''ncn'', ro_signer ''ncn_admin'', ro ''new_admin'']"

definition admin_set_tie_breaker_accounts :: "account_meta list" where
  "admin_set_tie_breaker_accounts = [
    rw ''epoch_state'', ro ''config'', rw ''ballot_box'', ro ''ncn'', ro_signer ''tie_breaker_admin'']"

definition admin_set_weight_accounts :: "account_meta list" where
  "admin_set_weight_accounts = [
    rw ''epoch_state'', ro ''ncn'', rw ''weight_table'', ro_signer ''weight_table_admin'']"

definition admin_register_st_mint_accounts :: "account_meta list" where
  "admin_register_st_mint_accounts = [
    ro ''config'', ro ''ncn'', ro ''st_mint'', rw ''vault_registry'', rw_signer ''admin'']"

definition admin_set_st_mint_accounts :: "account_meta list" where
  "admin_set_st_mint_accounts = [
    ro ''config'', ro ''ncn'', rw ''vault_registry'', rw_signer ''admin'']"

primrec account_metas :: "tip_router_instruction \<Rightarrow> account_meta list" where
  "account_metas (InitializeConfig _ _ _ _ _ _) = initialize_config_accounts"
| "account_metas InitializeVaultRegistry = initialize_vault_registry_accounts"
| "account_metas ReallocVaultRegistry = realloc_vault_registry_accounts"
| "account_metas RegisterVault = register_vault_accounts"
| "account_metas (InitializeEpochState _) = initialize_epoch_state_accounts"
| "account_metas (ReallocEpochState _) = realloc_epoch_state_accounts"
| "account_metas (InitializeWeightTable _) = initialize_weight_table_accounts"
| "account_metas (ReallocWeightTable _) = realloc_weight_table_accounts"
| "account_metas (SwitchboardSetWeight _ _) = switchboard_set_weight_accounts"
| "account_metas (InitializeEpochSnapshot _) = initialize_epoch_snapshot_accounts"
| "account_metas (InitializeOperatorSnapshot _) = initialize_operator_snapshot_accounts"
| "account_metas (ReallocOperatorSnapshot _) = realloc_operator_snapshot_accounts"
| "account_metas (SnapshotVaultOperatorDelegation _) = snapshot_vault_operator_delegation_accounts"
| "account_metas (InitializeBallotBox _) = initialize_ballot_box_accounts"
| "account_metas (ReallocBallotBox _) = realloc_ballot_box_accounts"
| "account_metas (CastVote _ _) = cast_vote_ix_accounts"
| "account_metas (SetMerkleRoot _ _ _ _ _) = set_merkle_root_ix_accounts"
| "account_metas (InitializeBaseRewardRouter _) = initialize_base_reward_router_accounts"
| "account_metas (ReallocBaseRewardRouter _) = realloc_base_reward_router_accounts"
| "account_metas (InitializeNcnRewardRouter _ _) = initialize_ncn_reward_router_accounts"
| "account_metas (RouteBaseRewards _ _) = route_base_rewards_accounts"
| "account_metas (RouteNcnRewards _ _ _) = route_ncn_rewards_accounts"
| "account_metas (DistributeBaseRewards _ _) = distribute_base_rewards_accounts"
| "account_metas (DistributeBaseNcnRewardRoute _ _) = distribute_base_ncn_reward_route_accounts"
| "account_metas (DistributeNcnOperatorRewards _ _) = distribute_ncn_operator_rewards_accounts"
| "account_metas (DistributeNcnVaultRewards _ _) = distribute_ncn_vault_rewards_accounts"
| "account_metas (ClaimWithPayer _ _ _) = claim_with_payer_accounts"
| "account_metas (CloseEpochAccount _) = close_epoch_account_accounts"
| "account_metas (AdminSetParameters _ _ _ _) = admin_set_parameters_accounts"
| "account_metas (AdminSetConfigFees _ _ _ _ _ _) = admin_set_config_fees_accounts"
| "account_metas (AdminSetNewAdmin _) = admin_set_new_admin_accounts"
| "account_metas (AdminSetTieBreaker _ _) = admin_set_tie_breaker_accounts"
| "account_metas (AdminSetWeight _ _ _) = admin_set_weight_accounts"
| "account_metas (AdminRegisterStMint _ _ _ _) = admin_register_st_mint_accounts"
| "account_metas (AdminSetStMint _ _ _ _ _) = admin_set_st_mint_accounts"

lemmas account_metas_defs = account_metas.simps
  initialize_config_accounts_def initialize_vault_registry_accounts_def realloc_vault_registry_accounts_def
  register_vault_accounts_def initialize_epoch_state_accounts_def realloc_epoch_state_accounts_def
  initialize_weight_table_accounts_def realloc_weight_table_accounts_def switchboard_set_weight_accounts_def
  initialize_epoch_snapshot_accounts_def initialize_operator_snapshot_accounts_def
  realloc_operator_snapshot_accounts_def snapshot_vault_operator_delegation_accounts_def
  initialize_ballot_box_accounts_def realloc_ballot_box_accounts_def cast_vote_ix_accounts_def
  set_merkle_root_ix_accounts_def initialize_base_reward_router_accounts_def
  realloc_base_reward_router_accounts_def initialize_ncn_reward_router_accounts_def
  route_base_rewards_accounts_def route_ncn_rewards_accounts_def distribute_base_rewards_accounts_def
  distribute_base_ncn_reward_route_accounts_def distribute_ncn_operator_rewards_accounts_def
  distribute_ncn_vault_rewards_accounts_def claim_with_payer_accounts_def close_epoch_account_accounts_def
  admin_set_parameters_accounts_def admin_set_config_fees_accounts_def admin_set_new_admin_accounts_def
  admin_set_tie_breaker_accounts_def admin_set_weight_accounts_def admin_register_st_mint_accounts_def
  admin_set_st_mint_accounts_def

text \<open>A builder: the account named, or a default; an optional account that is left out is the address of the program,
  read only. A builder without an account it needs panics.\<close>

definition default_account :: "pubkey \<Rightarrow> string \<Rightarrow> pubkey option" where
  "default_account token_program name =
    (if name = ''system_program'' then Some system_program_id
     else if name = ''token_program'' then Some token_program else None)"

definition build_account :: "pubkey \<Rightarrow> pubkey \<Rightarrow> (string \<times> pubkey) list \<Rightarrow> account_meta \<Rightarrow> account_info option" where
  "build_account program_id token_program given m =
    (case map_of given (am_name m) of
       Some key \<Rightarrow> Some \<lparr>ai_key = key, ai_is_signer = am_signer m, ai_is_writable = am_writable m\<rparr>
     | None \<Rightarrow>
         if am_optional m then Some \<lparr>ai_key = program_id, ai_is_signer = False, ai_is_writable = False\<rparr>
         else map_option (\<lambda>key. \<lparr>ai_key = key, ai_is_signer = am_signer m, ai_is_writable = am_writable m\<rparr>)
           (default_account token_program (am_name m)))"

definition build ::
    "pubkey \<Rightarrow> pubkey \<Rightarrow> tip_router_instruction \<Rightarrow> (string \<times> pubkey) list \<Rightarrow> account_info list option" where
  "build program_id token_program ix given = those (map (build_account program_id token_program given) (account_metas ix))"

section \<open>Accounts that are missing or too many\<close>

lemma counted:
  "length xs \<noteq> 3 \<Longrightarrow> (case xs of [x0, x1, x2] \<Rightarrow> f3 x0 x1 x2 | _ \<Rightarrow> e) = e"
  "length xs \<noteq> 4 \<Longrightarrow> (case xs of [x0, x1, x2, x3] \<Rightarrow> f4 x0 x1 x2 x3 | _ \<Rightarrow> e) = e"
  "length xs \<noteq> 5 \<Longrightarrow> (case xs of [x0, x1, x2, x3, x4] \<Rightarrow> f5 x0 x1 x2 x3 x4 | _ \<Rightarrow> e) = e"
  "length xs \<noteq> 6 \<Longrightarrow> (case xs of [x0, x1, x2, x3, x4, x5] \<Rightarrow> f6 x0 x1 x2 x3 x4 x5 | _ \<Rightarrow> e) = e"
  "length xs \<noteq> 7 \<Longrightarrow> (case xs of [x0, x1, x2, x3, x4, x5, x6] \<Rightarrow> f7 x0 x1 x2 x3 x4 x5 x6 | _ \<Rightarrow> e) = e"
  "length xs \<noteq> 8 \<Longrightarrow> (case xs of [x0, x1, x2, x3, x4, x5, x6, x7] \<Rightarrow> f8 x0 x1 x2 x3 x4 x5 x6 x7 | _ \<Rightarrow> e) = e"
  "length xs \<noteq> 9 \<Longrightarrow> (case xs of [x0, x1, x2, x3, x4, x5, x6, x7, x8] \<Rightarrow> f9 x0 x1 x2 x3 x4 x5 x6 x7 x8 | _ \<Rightarrow> e) = e"
  "length xs \<noteq> 10 \<Longrightarrow> (case xs of [x0, x1, x2, x3, x4, x5, x6, x7, x8, x9] \<Rightarrow> f10 x0 x1 x2 x3 x4 x5 x6 x7 x8 x9 | _ \<Rightarrow> e) = e"
  "length xs \<noteq> 12 \<Longrightarrow> (case xs of [x0, x1, x2, x3, x4, x5, x6, x7, x8, x9, x10, x11] \<Rightarrow> f12 x0 x1 x2 x3 x4 x5 x6 x7 x8 x9 x10 x11 | _ \<Rightarrow> e) = e"
  "length xs \<noteq> 16 \<Longrightarrow> (case xs of [x0, x1, x2, x3, x4, x5, x6, x7, x8, x9, x10, x11, x12, x13, x14, x15] \<Rightarrow> f16 x0 x1 x2 x3 x4 x5 x6 x7 x8 x9 x10 x11 x12 x13 x14 x15 | _ \<Rightarrow> e) = e"
  "length xs \<noteq> 17 \<Longrightarrow> (case xs of [x0, x1, x2, x3, x4, x5, x6, x7, x8, x9, x10, x11, x12, x13, x14, x15, x16] \<Rightarrow> f17 x0 x1 x2 x3 x4 x5 x6 x7 x8 x9 x10 x11 x12 x13 x14 x15 x16 | _ \<Rightarrow> e) = e"
  "length xs \<noteq> 18 \<Longrightarrow> (case xs of [x0, x1, x2, x3, x4, x5, x6, x7, x8, x9, x10, x11, x12, x13, x14, x15, x16, x17] \<Rightarrow> f18 x0 x1 x2 x3 x4 x5 x6 x7 x8 x9 x10 x11 x12 x13 x14 x15 x16 x17 | _ \<Rightarrow> e) = e"
  by (auto split: list.split)

text \<open>Every handler takes as many accounts as its interface lists, and refuses any other number before it reads one
  of them. (Closing an account, which may leave out its last, is the exception.)\<close>

lemma accounts_counted:
  assumes "length accounts \<noteq> length (account_metas ix)" and "\<forall>epoch. ix \<noteq> CloseEpochAccount epoch"
  shows "process_instruction tip_router_id pn hashv rt tip_router_id accounts ix L = Inl NotEnoughAccountKeys"
  using assms
  by (cases ix) (simp_all add: account_metas_defs process_instruction_def counted
    process_admin_initialize_config_def process_admin_register_st_mint_def process_admin_set_config_fees_def
    process_admin_set_new_admin_def process_admin_set_parameters_def process_admin_set_st_mint_def
    process_admin_set_tie_breaker_def process_admin_set_weight_def process_cast_vote_def
    process_claim_with_payer_def process_distribute_base_ncn_reward_route_def
    process_distribute_base_rewards_def process_distribute_ncn_operator_rewards_def
    process_distribute_ncn_vault_rewards_def process_initialize_ballot_box_def
    process_initialize_base_reward_router_def process_initialize_epoch_snapshot_def
    process_initialize_epoch_state_def process_initialize_ncn_reward_router_def
    process_initialize_operator_snapshot_def process_initialize_vault_registry_def
    process_initialize_weight_table_def process_realloc_ballot_box_def
    process_realloc_base_reward_router_def process_realloc_epoch_state_def
    process_realloc_operator_snapshot_def process_realloc_vault_registry_def
    process_realloc_weight_table_def process_register_vault_def process_route_base_rewards_def
    process_route_ncn_rewards_def process_set_merkle_root_def process_snapshot_vault_operator_delegation_def
    process_switchboard_set_weight_def)

end
