(* ===== verification/Wire.thy ===== *)
theory Wire
  imports Interface
begin

text \<open>
  Instructions as bytes: what the generated client writes (the discriminator and the arguments of each file of
  \<open>clients/rust/jito_tip_router/src/generated/instructions\<close>) and what the program reads
  (\<open>TipRouterInstruction::try_from_slice\<close>, \<open>core/src/instruction.rs\<close>, and the entry point of \<open>program/src/lib.rs\<close>).
  How Borsh writes a value of a type is a parameter; that it reads back what it wrote is a law.
\<close>

section \<open>Borsh\<close>

type_synonym 'a reader = "u8 list \<Rightarrow> program_error + 'a \<times> u8 list"

record 'a codec =
  put :: "'a \<Rightarrow> u8 list"
  get :: "'a reader"

record borsh =
  bo_u8 :: "u8 codec"
  bo_u16 :: "u16 codec"
  bo_u64 :: "u64 codec"
  bo_u128 :: "u128 codec"
  bo_bytes32 :: "bytes32 codec"
  bo_u8_option :: "u8 option codec"
  bo_u16_option :: "u16 option codec"
  bo_u64_option :: "u64 option codec"
  bo_u128_option :: "u128 option codec"
  bo_bytes32_option :: "bytes32 option codec"
  bo_proof :: "bytes32 list codec"

definition codec_ok :: "('a \<Rightarrow> bool) \<Rightarrow> 'a codec \<Rightarrow> bool" where
  "codec_ok ok c \<longleftrightarrow> (\<forall>x rest. ok x \<longrightarrow> get c (put c x @ rest) = Inr (x, rest))"

definition key_ok :: "bytes32 \<Rightarrow> bool" where "key_ok k \<longleftrightarrow> length k = 32"

definition proof_ok :: "bytes32 list \<Rightarrow> bool" where
  "proof_ok ks \<longleftrightarrow> list_all key_ok ks \<and> length ks < 2 ^ 32"

definition borsh_laws :: "borsh \<Rightarrow> bool" where
  "borsh_laws b \<longleftrightarrow>
    codec_ok (\<lambda>_. True) (bo_u8 b) \<and> codec_ok (\<lambda>_. True) (bo_u16 b) \<and> codec_ok (\<lambda>_. True) (bo_u64 b) \<and>
    codec_ok (\<lambda>_. True) (bo_u128 b) \<and> codec_ok key_ok (bo_bytes32 b) \<and> codec_ok (\<lambda>_. True) (bo_u8_option b) \<and>
    codec_ok (\<lambda>_. True) (bo_u16_option b) \<and> codec_ok (\<lambda>_. True) (bo_u64_option b) \<and>
    codec_ok (\<lambda>_. True) (bo_u128_option b) \<and> codec_ok (pred_option key_ok) (bo_bytes32_option b) \<and>
    codec_ok proof_ok (bo_proof b)"

definition read :: "'a codec \<Rightarrow> ('a \<Rightarrow> 'b reader) \<Rightarrow> 'b reader" where
  "read c f bytes = rbind (get c bytes) (\<lambda>(x, rest). f x rest)"

definition yield_value :: "'a \<Rightarrow> 'a reader" where "yield_value x bytes = Inr (x, bytes)"

definition borsh_error :: "'a reader" where "borsh_error bytes = Inl BorshIoError"

text \<open>A derived enum is the number of its variant, then its fields.\<close>

definition put_role :: "borsh \<Rightarrow> config_admin_role \<Rightarrow> u8 list" where
  "put_role b role = put (bo_u8 b) (case role of FeeAdmin \<Rightarrow> 0 | TieBreakerAdmin \<Rightarrow> 1)"

definition read_role :: "borsh \<Rightarrow> (config_admin_role \<Rightarrow> 'b reader) \<Rightarrow> 'b reader" where
  "read_role b f = read (bo_u8 b) (\<lambda>tag.
    if tag = 0 then f FeeAdmin else if tag = 1 then f TieBreakerAdmin else borsh_error)"

section \<open>What the client writes\<close>

definition initialize_config_data :: "borsh \<Rightarrow> u16 \<Rightarrow> u16 \<Rightarrow> u16 \<Rightarrow>
  u64 \<Rightarrow> u64 \<Rightarrow> u64 \<Rightarrow> u8 list" where
  "initialize_config_data b block_engine_bps dao_fee_bps default_ncn_fee_bps epochs_before_stall
  epochs_after_consensus_before_close valid_slots_after_consensus =
    put (bo_u8 b) 0 @ put (bo_u16 b) block_engine_bps @ put (bo_u16 b) dao_fee_bps @
    put (bo_u16 b) default_ncn_fee_bps @ put (bo_u64 b) epochs_before_stall @
    put (bo_u64 b) epochs_after_consensus_before_close @ put (bo_u64 b) valid_slots_after_consensus"

definition initialize_vault_registry_data :: "borsh \<Rightarrow> u8 list" where
  "initialize_vault_registry_data b =
    put (bo_u8 b) 1"

definition realloc_vault_registry_data :: "borsh \<Rightarrow> u8 list" where
  "realloc_vault_registry_data b =
    put (bo_u8 b) 2"

definition register_vault_data :: "borsh \<Rightarrow> u8 list" where
  "register_vault_data b =
    put (bo_u8 b) 3"

definition initialize_epoch_state_data :: "borsh \<Rightarrow> u64 \<Rightarrow> u8 list" where
  "initialize_epoch_state_data b epoch =
    put (bo_u8 b) 4 @ put (bo_u64 b) epoch"

definition realloc_epoch_state_data :: "borsh \<Rightarrow> u64 \<Rightarrow> u8 list" where
  "realloc_epoch_state_data b epoch =
    put (bo_u8 b) 5 @ put (bo_u64 b) epoch"

definition initialize_weight_table_data :: "borsh \<Rightarrow> u64 \<Rightarrow> u8 list" where
  "initialize_weight_table_data b epoch =
    put (bo_u8 b) 6 @ put (bo_u64 b) epoch"

definition realloc_weight_table_data :: "borsh \<Rightarrow> u64 \<Rightarrow> u8 list" where
  "realloc_weight_table_data b epoch =
    put (bo_u8 b) 7 @ put (bo_u64 b) epoch"

definition switchboard_set_weight_data :: "borsh \<Rightarrow> pubkey \<Rightarrow> u64 \<Rightarrow> u8 list" where
  "switchboard_set_weight_data b st_mint epoch =
    put (bo_u8 b) 8 @ put (bo_bytes32 b) st_mint @ put (bo_u64 b) epoch"

definition initialize_epoch_snapshot_data :: "borsh \<Rightarrow> u64 \<Rightarrow> u8 list" where
  "initialize_epoch_snapshot_data b epoch =
    put (bo_u8 b) 9 @ put (bo_u64 b) epoch"

definition initialize_operator_snapshot_ix_data :: "borsh \<Rightarrow> u64 \<Rightarrow> u8 list" where
  "initialize_operator_snapshot_ix_data b epoch =
    put (bo_u8 b) 10 @ put (bo_u64 b) epoch"

definition realloc_operator_snapshot_data :: "borsh \<Rightarrow> u64 \<Rightarrow> u8 list" where
  "realloc_operator_snapshot_data b epoch =
    put (bo_u8 b) 11 @ put (bo_u64 b) epoch"

definition snapshot_vault_operator_delegation_data :: "borsh \<Rightarrow> u64 \<Rightarrow> u8 list" where
  "snapshot_vault_operator_delegation_data b epoch =
    put (bo_u8 b) 12 @ put (bo_u64 b) epoch"

definition initialize_ballot_box_data :: "borsh \<Rightarrow> u64 \<Rightarrow> u8 list" where
  "initialize_ballot_box_data b epoch =
    put (bo_u8 b) 13 @ put (bo_u64 b) epoch"

definition realloc_ballot_box_data :: "borsh \<Rightarrow> u64 \<Rightarrow> u8 list" where
  "realloc_ballot_box_data b epoch =
    put (bo_u8 b) 14 @ put (bo_u64 b) epoch"

definition cast_vote_data :: "borsh \<Rightarrow> bytes32 \<Rightarrow> u64 \<Rightarrow> u8 list" where
  "cast_vote_data b voted_root epoch =
    put (bo_u8 b) 15 @ put (bo_bytes32 b) voted_root @ put (bo_u64 b) epoch"

definition set_merkle_root_data :: "borsh \<Rightarrow> bytes32 list \<Rightarrow> bytes32 \<Rightarrow> u64
  \<Rightarrow> u64 \<Rightarrow> u64 \<Rightarrow> u8 list" where
  "set_merkle_root_data b merkle_proof merkle_root max_total_claim max_num_nodes epoch =
    put (bo_u8 b) 16 @ put (bo_proof b) merkle_proof @ put (bo_bytes32 b) merkle_root @
    put (bo_u64 b) max_total_claim @ put (bo_u64 b) max_num_nodes @ put (bo_u64 b) epoch"

definition initialize_base_reward_router_data :: "borsh \<Rightarrow> u64 \<Rightarrow> u8 list" where
  "initialize_base_reward_router_data b epoch =
    put (bo_u8 b) 17 @ put (bo_u64 b) epoch"

definition realloc_base_reward_router_data :: "borsh \<Rightarrow> u64 \<Rightarrow> u8 list" where
  "realloc_base_reward_router_data b epoch =
    put (bo_u8 b) 18 @ put (bo_u64 b) epoch"

definition initialize_ncn_reward_router_data :: "borsh \<Rightarrow> u8 \<Rightarrow> u64 \<Rightarrow> u8 list" where
  "initialize_ncn_reward_router_data b ncn_group_byte epoch =
    put (bo_u8 b) 19 @ put (bo_u8 b) ncn_group_byte @ put (bo_u64 b) epoch"

definition route_base_rewards_data :: "borsh \<Rightarrow> u16 \<Rightarrow> u64 \<Rightarrow> u8 list" where
  "route_base_rewards_data b max_iterations epoch =
    put (bo_u8 b) 20 @ put (bo_u16 b) max_iterations @ put (bo_u64 b) epoch"

definition route_ncn_rewards_data :: "borsh \<Rightarrow> u8 \<Rightarrow> u16 \<Rightarrow> u64 \<Rightarrow>
  u8 list" where
  "route_ncn_rewards_data b ncn_group_byte max_iterations epoch =
    put (bo_u8 b) 21 @ put (bo_u8 b) ncn_group_byte @ put (bo_u16 b) max_iterations @ put (bo_u64 b) epoch"

definition distribute_base_rewards_data :: "borsh \<Rightarrow> u8 \<Rightarrow> u64 \<Rightarrow> u8 list" where
  "distribute_base_rewards_data b base_group_byte epoch =
    put (bo_u8 b) 22 @ put (bo_u8 b) base_group_byte @ put (bo_u64 b) epoch"

definition distribute_base_ncn_reward_route_data :: "borsh \<Rightarrow> u8 \<Rightarrow> u64 \<Rightarrow> u8
  list" where
  "distribute_base_ncn_reward_route_data b ncn_group_byte epoch =
    put (bo_u8 b) 23 @ put (bo_u8 b) ncn_group_byte @ put (bo_u64 b) epoch"

definition distribute_ncn_operator_rewards_data :: "borsh \<Rightarrow> u8 \<Rightarrow> u64 \<Rightarrow> u8
  list" where
  "distribute_ncn_operator_rewards_data b ncn_group_byte epoch =
    put (bo_u8 b) 24 @ put (bo_u8 b) ncn_group_byte @ put (bo_u64 b) epoch"

definition distribute_ncn_vault_rewards_data :: "borsh \<Rightarrow> u8 \<Rightarrow> u64 \<Rightarrow> u8 list" where
  "distribute_ncn_vault_rewards_data b ncn_group_byte epoch =
    put (bo_u8 b) 25 @ put (bo_u8 b) ncn_group_byte @ put (bo_u64 b) epoch"

definition claim_with_payer_data :: "borsh \<Rightarrow> bytes32 list \<Rightarrow> u64 \<Rightarrow> u8
  \<Rightarrow> u8 list" where
  "claim_with_payer_data b merkle_proof claimed bump =
    put (bo_u8 b) 26 @ put (bo_proof b) merkle_proof @ put (bo_u64 b) claimed @ put (bo_u8 b) bump"

definition close_epoch_account_data :: "borsh \<Rightarrow> u64 \<Rightarrow> u8 list" where
  "close_epoch_account_data b epoch =
    put (bo_u8 b) 27 @ put (bo_u64 b) epoch"

definition admin_set_parameters_data :: "borsh \<Rightarrow> u64 option \<Rightarrow> u64 option \<Rightarrow>
  u64 option \<Rightarrow> u64 option \<Rightarrow> u8 list" where
  "admin_set_parameters_data b starting_valid_epoch epochs_before_stall epochs_after_consensus_before_close
  valid_slots_after_consensus =
    put (bo_u8 b) 28 @ put (bo_u64_option b) starting_valid_epoch @ put (bo_u64_option b) epochs_before_stall @
    put (bo_u64_option b) epochs_after_consensus_before_close @
    put (bo_u64_option b) valid_slots_after_consensus"

definition admin_set_config_fees_data :: "borsh \<Rightarrow> u16 option \<Rightarrow> u8 option \<Rightarrow>
  pubkey option \<Rightarrow> u16 option \<Rightarrow> u8 option \<Rightarrow> u16 option \<Rightarrow> u8 list" where
  "admin_set_config_fees_data b new_block_engine_fee_bps base_group_byte new_base_fee_wallet new_base_fee_bps
  ncn_group_byte new_ncn_fee_bps =
    put (bo_u8 b) 29 @ put (bo_u16_option b) new_block_engine_fee_bps @ put (bo_u8_option b) base_group_byte @
    put (bo_bytes32_option b) new_base_fee_wallet @ put (bo_u16_option b) new_base_fee_bps @
    put (bo_u8_option b) ncn_group_byte @ put (bo_u16_option b) new_ncn_fee_bps"

definition admin_set_new_admin_data :: "borsh \<Rightarrow> config_admin_role \<Rightarrow> u8 list" where
  "admin_set_new_admin_data b role =
    put (bo_u8 b) 30 @ put_role b role"

definition admin_set_tie_breaker_data :: "borsh \<Rightarrow> bytes32 \<Rightarrow> u64 \<Rightarrow> u8 list" where
  "admin_set_tie_breaker_data b voted_root epoch =
    put (bo_u8 b) 31 @ put (bo_bytes32 b) voted_root @ put (bo_u64 b) epoch"

definition admin_set_weight_data :: "borsh \<Rightarrow> pubkey \<Rightarrow> u128 \<Rightarrow> u64
  \<Rightarrow> u8 list" where
  "admin_set_weight_data b st_mint weight epoch =
    put (bo_u8 b) 32 @ put (bo_bytes32 b) st_mint @ put (bo_u128 b) weight @ put (bo_u64 b) epoch"

definition admin_register_st_mint_data :: "borsh \<Rightarrow> u8 \<Rightarrow> u64 \<Rightarrow> pubkey option
  \<Rightarrow> u128 option \<Rightarrow> u8 list" where
  "admin_register_st_mint_data b ncn_group_byte reward_multiplier_bps switchboard_feed no_feed_weight =
    put (bo_u8 b) 33 @ put (bo_u8 b) ncn_group_byte @ put (bo_u64 b) reward_multiplier_bps @
    put (bo_bytes32_option b) switchboard_feed @ put (bo_u128_option b) no_feed_weight"

definition admin_set_st_mint_data :: "borsh \<Rightarrow> pubkey \<Rightarrow> u8 option \<Rightarrow> u64
  option \<Rightarrow> pubkey option \<Rightarrow> u128 option \<Rightarrow> u8 list" where
  "admin_set_st_mint_data b st_mint ncn_group_byte reward_multiplier_bps switchboard_feed no_feed_weight =
    put (bo_u8 b) 34 @ put (bo_bytes32 b) st_mint @ put (bo_u8_option b) ncn_group_byte @
    put (bo_u64_option b) reward_multiplier_bps @ put (bo_bytes32_option b) switchboard_feed @
    put (bo_u128_option b) no_feed_weight"

primrec instruction_data :: "borsh \<Rightarrow> tip_router_instruction \<Rightarrow> u8 list" where
  "instruction_data b (InitializeConfig block_engine_bps dao_fee_bps default_ncn_fee_bps
    epochs_before_stall epochs_after_consensus_before_close valid_slots_after_consensus) =
    initialize_config_data b block_engine_bps dao_fee_bps default_ncn_fee_bps epochs_before_stall
      epochs_after_consensus_before_close valid_slots_after_consensus"
| "instruction_data b InitializeVaultRegistry = initialize_vault_registry_data b"
| "instruction_data b ReallocVaultRegistry = realloc_vault_registry_data b"
| "instruction_data b RegisterVault = register_vault_data b"
| "instruction_data b (InitializeEpochState epoch) = initialize_epoch_state_data b epoch"
| "instruction_data b (ReallocEpochState epoch) = realloc_epoch_state_data b epoch"
| "instruction_data b (InitializeWeightTable epoch) = initialize_weight_table_data b epoch"
| "instruction_data b (ReallocWeightTable epoch) = realloc_weight_table_data b epoch"
| "instruction_data b (SwitchboardSetWeight st_mint epoch) = switchboard_set_weight_data b st_mint epoch"
| "instruction_data b (InitializeEpochSnapshot epoch) = initialize_epoch_snapshot_data b epoch"
| "instruction_data b (InitializeOperatorSnapshot epoch) = initialize_operator_snapshot_ix_data b epoch"
| "instruction_data b (ReallocOperatorSnapshot epoch) = realloc_operator_snapshot_data b epoch"
| "instruction_data b (SnapshotVaultOperatorDelegation epoch) = snapshot_vault_operator_delegation_data b epoch"
| "instruction_data b (InitializeBallotBox epoch) = initialize_ballot_box_data b epoch"
| "instruction_data b (ReallocBallotBox epoch) = realloc_ballot_box_data b epoch"
| "instruction_data b (CastVote voted_root epoch) = cast_vote_data b voted_root epoch"
| "instruction_data b (SetMerkleRoot merkle_proof merkle_root max_total_claim max_num_nodes epoch) =
    set_merkle_root_data b merkle_proof merkle_root max_total_claim max_num_nodes epoch"
| "instruction_data b (InitializeBaseRewardRouter epoch) = initialize_base_reward_router_data b epoch"
| "instruction_data b (ReallocBaseRewardRouter epoch) = realloc_base_reward_router_data b epoch"
| "instruction_data b (InitializeNcnRewardRouter ncn_group_byte epoch) =
    initialize_ncn_reward_router_data b ncn_group_byte epoch"
| "instruction_data b (RouteBaseRewards max_iterations epoch) = route_base_rewards_data b max_iterations epoch"
| "instruction_data b (RouteNcnRewards ncn_group_byte max_iterations epoch) =
    route_ncn_rewards_data b ncn_group_byte max_iterations epoch"
| "instruction_data b (DistributeBaseRewards base_group_byte epoch) =
    distribute_base_rewards_data b base_group_byte epoch"
| "instruction_data b (DistributeBaseNcnRewardRoute ncn_group_byte epoch) =
    distribute_base_ncn_reward_route_data b ncn_group_byte epoch"
| "instruction_data b (DistributeNcnOperatorRewards ncn_group_byte epoch) =
    distribute_ncn_operator_rewards_data b ncn_group_byte epoch"
| "instruction_data b (DistributeNcnVaultRewards ncn_group_byte epoch) =
    distribute_ncn_vault_rewards_data b ncn_group_byte epoch"
| "instruction_data b (ClaimWithPayer merkle_proof claimed bump) = claim_with_payer_data b merkle_proof claimed bump"
| "instruction_data b (CloseEpochAccount epoch) = close_epoch_account_data b epoch"
| "instruction_data b (AdminSetParameters starting_valid_epoch epochs_before_stall
  epochs_after_consensus_before_close valid_slots_after_consensus) =
    admin_set_parameters_data b starting_valid_epoch epochs_before_stall epochs_after_consensus_before_close
      valid_slots_after_consensus"
| "instruction_data b (AdminSetConfigFees new_block_engine_fee_bps base_group_byte new_base_fee_wallet
  new_base_fee_bps ncn_group_byte new_ncn_fee_bps) =
    admin_set_config_fees_data b new_block_engine_fee_bps base_group_byte new_base_fee_wallet new_base_fee_bps
      ncn_group_byte new_ncn_fee_bps"
| "instruction_data b (AdminSetNewAdmin role) = admin_set_new_admin_data b role"
| "instruction_data b (AdminSetTieBreaker voted_root epoch) =
    admin_set_tie_breaker_data b voted_root epoch"
| "instruction_data b (AdminSetWeight st_mint weight epoch) = admin_set_weight_data b st_mint weight epoch"
| "instruction_data b (AdminRegisterStMint ncn_group_byte reward_multiplier_bps switchboard_feed no_feed_weight) =
    admin_register_st_mint_data b ncn_group_byte reward_multiplier_bps switchboard_feed no_feed_weight"
| "instruction_data b (AdminSetStMint st_mint ncn_group_byte reward_multiplier_bps switchboard_feed no_feed_weight) =
    admin_set_st_mint_data b st_mint ncn_group_byte reward_multiplier_bps switchboard_feed no_feed_weight"

lemmas instruction_data_defs = instruction_data.simps
  initialize_config_data_def initialize_vault_registry_data_def realloc_vault_registry_data_def
  register_vault_data_def initialize_epoch_state_data_def realloc_epoch_state_data_def
  initialize_weight_table_data_def realloc_weight_table_data_def switchboard_set_weight_data_def
  initialize_epoch_snapshot_data_def initialize_operator_snapshot_ix_data_def realloc_operator_snapshot_data_def
  snapshot_vault_operator_delegation_data_def initialize_ballot_box_data_def realloc_ballot_box_data_def
  cast_vote_data_def set_merkle_root_data_def initialize_base_reward_router_data_def
  realloc_base_reward_router_data_def initialize_ncn_reward_router_data_def route_base_rewards_data_def
  route_ncn_rewards_data_def distribute_base_rewards_data_def distribute_base_ncn_reward_route_data_def
  distribute_ncn_operator_rewards_data_def distribute_ncn_vault_rewards_data_def claim_with_payer_data_def
  close_epoch_account_data_def admin_set_parameters_data_def admin_set_config_fees_data_def
  admin_set_new_admin_data_def admin_set_tie_breaker_data_def admin_set_weight_data_def
  admin_register_st_mint_data_def admin_set_st_mint_data_def

section \<open>What the program reads\<close>

definition read_global :: "borsh \<Rightarrow> u8 \<Rightarrow> tip_router_instruction reader" where
  "read_global b tag = (
     if tag = 0 then
       read (bo_u16 b) (\<lambda>block_engine_bps. read (bo_u16 b) (\<lambda>dao_fee_bps.
       read (bo_u16 b) (\<lambda>default_ncn_fee_bps. read (bo_u64 b) (\<lambda>epochs_before_stall.
       read (bo_u64 b) (\<lambda>epochs_after_consensus_before_close.
       read (bo_u64 b) (\<lambda>valid_slots_after_consensus.
       yield_value (InitializeConfig block_engine_bps dao_fee_bps default_ncn_fee_bps epochs_before_stall
         epochs_after_consensus_before_close valid_slots_after_consensus)))))))
     else if tag = 1 then yield_value InitializeVaultRegistry
     else if tag = 2 then yield_value ReallocVaultRegistry
     else if tag = 3 then yield_value RegisterVault
     else borsh_error)"

definition read_snapshot :: "borsh \<Rightarrow> u8 \<Rightarrow> tip_router_instruction reader" where
  "read_snapshot b tag = (
     if tag = 4 then read (bo_u64 b) (\<lambda>epoch. yield_value (InitializeEpochState epoch))
     else if tag = 5 then read (bo_u64 b) (\<lambda>epoch. yield_value (ReallocEpochState epoch))
     else if tag = 6 then read (bo_u64 b) (\<lambda>epoch. yield_value (InitializeWeightTable epoch))
     else if tag = 7 then read (bo_u64 b) (\<lambda>epoch. yield_value (ReallocWeightTable epoch))
     else if tag = 8 then
       read (bo_bytes32 b) (\<lambda>st_mint. read (bo_u64 b) (\<lambda>epoch.
       yield_value (SwitchboardSetWeight st_mint epoch)))
     else if tag = 9 then read (bo_u64 b) (\<lambda>epoch. yield_value (InitializeEpochSnapshot epoch))
     else if tag = 10 then read (bo_u64 b) (\<lambda>epoch. yield_value (InitializeOperatorSnapshot epoch))
     else if tag = 11 then read (bo_u64 b) (\<lambda>epoch. yield_value (ReallocOperatorSnapshot epoch))
     else if tag = 12 then read (bo_u64 b) (\<lambda>epoch. yield_value (SnapshotVaultOperatorDelegation epoch))
     else borsh_error)"

definition read_vote :: "borsh \<Rightarrow> u8 \<Rightarrow> tip_router_instruction reader" where
  "read_vote b tag = (
     if tag = 13 then read (bo_u64 b) (\<lambda>epoch. yield_value (InitializeBallotBox epoch))
     else if tag = 14 then read (bo_u64 b) (\<lambda>epoch. yield_value (ReallocBallotBox epoch))
     else if tag = 15 then
       read (bo_bytes32 b) (\<lambda>voted_root. read (bo_u64 b) (\<lambda>epoch.
       yield_value (CastVote voted_root epoch)))
     else if tag = 16 then
       read (bo_proof b) (\<lambda>merkle_proof. read (bo_bytes32 b) (\<lambda>merkle_root.
       read (bo_u64 b) (\<lambda>max_total_claim. read (bo_u64 b) (\<lambda>max_num_nodes.
       read (bo_u64 b) (\<lambda>epoch.
       yield_value (SetMerkleRoot merkle_proof merkle_root max_total_claim max_num_nodes epoch))))))
     else borsh_error)"

definition read_route :: "borsh \<Rightarrow> u8 \<Rightarrow> tip_router_instruction reader" where
  "read_route b tag = (
     if tag = 17 then read (bo_u64 b) (\<lambda>epoch. yield_value (InitializeBaseRewardRouter epoch))
     else if tag = 18 then read (bo_u64 b) (\<lambda>epoch. yield_value (ReallocBaseRewardRouter epoch))
     else if tag = 19 then
       read (bo_u8 b) (\<lambda>ncn_group_byte. read (bo_u64 b) (\<lambda>epoch.
       yield_value (InitializeNcnRewardRouter ncn_group_byte epoch)))
     else if tag = 20 then
       read (bo_u16 b) (\<lambda>max_iterations. read (bo_u64 b) (\<lambda>epoch.
       yield_value (RouteBaseRewards max_iterations epoch)))
     else if tag = 21 then
       read (bo_u8 b) (\<lambda>ncn_group_byte. read (bo_u16 b) (\<lambda>max_iterations.
       read (bo_u64 b) (\<lambda>epoch. yield_value (RouteNcnRewards ncn_group_byte max_iterations epoch))))
     else if tag = 22 then
       read (bo_u8 b) (\<lambda>base_group_byte. read (bo_u64 b) (\<lambda>epoch.
       yield_value (DistributeBaseRewards base_group_byte epoch)))
     else if tag = 23 then
       read (bo_u8 b) (\<lambda>ncn_group_byte. read (bo_u64 b) (\<lambda>epoch.
       yield_value (DistributeBaseNcnRewardRoute ncn_group_byte epoch)))
     else if tag = 24 then
       read (bo_u8 b) (\<lambda>ncn_group_byte. read (bo_u64 b) (\<lambda>epoch.
       yield_value (DistributeNcnOperatorRewards ncn_group_byte epoch)))
     else if tag = 25 then
       read (bo_u8 b) (\<lambda>ncn_group_byte. read (bo_u64 b) (\<lambda>epoch.
       yield_value (DistributeNcnVaultRewards ncn_group_byte epoch)))
     else if tag = 26 then
       read (bo_proof b) (\<lambda>merkle_proof. read (bo_u64 b) (\<lambda>claimed.
       read (bo_u8 b) (\<lambda>bump. yield_value (ClaimWithPayer merkle_proof claimed bump))))
     else if tag = 27 then read (bo_u64 b) (\<lambda>epoch. yield_value (CloseEpochAccount epoch))
     else borsh_error)"

definition read_admin :: "borsh \<Rightarrow> u8 \<Rightarrow> tip_router_instruction reader" where
  "read_admin b tag = (
     if tag = 28 then
       read (bo_u64_option b) (\<lambda>starting_valid_epoch.
       read (bo_u64_option b) (\<lambda>epochs_before_stall.
       read (bo_u64_option b) (\<lambda>epochs_after_consensus_before_close.
       read (bo_u64_option b) (\<lambda>valid_slots_after_consensus.
       yield_value (AdminSetParameters starting_valid_epoch epochs_before_stall
         epochs_after_consensus_before_close valid_slots_after_consensus)))))
     else if tag = 29 then
       read (bo_u16_option b) (\<lambda>new_block_engine_fee_bps.
       read (bo_u8_option b) (\<lambda>base_group_byte.
       read (bo_bytes32_option b) (\<lambda>new_base_fee_wallet.
       read (bo_u16_option b) (\<lambda>new_base_fee_bps. read (bo_u8_option b) (\<lambda>ncn_group_byte.
       read (bo_u16_option b) (\<lambda>new_ncn_fee_bps.
       yield_value (AdminSetConfigFees new_block_engine_fee_bps base_group_byte new_base_fee_wallet
         new_base_fee_bps ncn_group_byte new_ncn_fee_bps)))))))
     else if tag = 30 then read_role b (\<lambda>role. yield_value (AdminSetNewAdmin role))
     else if tag = 31 then
       read (bo_bytes32 b) (\<lambda>voted_root. read (bo_u64 b) (\<lambda>epoch.
       yield_value (AdminSetTieBreaker voted_root epoch)))
     else if tag = 32 then
       read (bo_bytes32 b) (\<lambda>st_mint. read (bo_u128 b) (\<lambda>weight.
       read (bo_u64 b) (\<lambda>epoch. yield_value (AdminSetWeight st_mint weight epoch))))
     else if tag = 33 then
       read (bo_u8 b) (\<lambda>ncn_group_byte. read (bo_u64 b) (\<lambda>reward_multiplier_bps.
       read (bo_bytes32_option b) (\<lambda>switchboard_feed. read (bo_u128_option b) (\<lambda>no_feed_weight.
       yield_value (AdminRegisterStMint ncn_group_byte reward_multiplier_bps switchboard_feed no_feed_weight)))))
     else if tag = 34 then
       read (bo_bytes32 b) (\<lambda>st_mint. read (bo_u8_option b) (\<lambda>ncn_group_byte.
       read (bo_u64_option b) (\<lambda>reward_multiplier_bps.
       read (bo_bytes32_option b) (\<lambda>switchboard_feed. read (bo_u128_option b) (\<lambda>no_feed_weight.
       yield_value (AdminSetStMint st_mint ncn_group_byte reward_multiplier_bps switchboard_feed no_feed_weight))))))
     else borsh_error)"

definition read_instruction :: "borsh \<Rightarrow> u8 \<Rightarrow> tip_router_instruction reader" where
  "read_instruction b tag =
    (if tag < 4 then read_global b tag else if tag < 13 then read_snapshot b tag
     else if tag < 17 then read_vote b tag else if tag < 28 then read_route b tag else read_admin b tag)"

text \<open>All bytes must be read.\<close>

definition instruction_from_slice :: "borsh \<Rightarrow> u8 list \<Rightarrow> program_error + tip_router_instruction" where
  "instruction_from_slice b bytes =
    rbind (read (bo_u8 b) (read_instruction b) bytes) (\<lambda>(ix, rest).
    if rest = [] then Inr ix else Inl BorshIoError)"

definition entrypoint ::
    "borsh \<Rightarrow> pubkey \<Rightarrow> 'p precise_ops \<Rightarrow> hasher \<Rightarrow> ('x, 'y) externals_scheme \<Rightarrow> pubkey \<Rightarrow> account_info list \<Rightarrow>
     u8 list \<Rightarrow> 'x ledger \<Rightarrow> program_error + 'x ledger" where
  "entrypoint b tip_router_id pn hashv rt program_id accounts bytes L =
    rbind (fail_if (program_id \<noteq> tip_router_id) IncorrectProgramId) (\<lambda>_.
    rbind (instruction_from_slice b bytes) (\<lambda>ix.
    dispatch pn hashv rt program_id accounts L ix))"

section \<open>What is written is read\<close>

definition instruction_ok :: "tip_router_instruction \<Rightarrow> bool" where
  "instruction_ok ix = (case ix of
      SwitchboardSetWeight st_mint _ \<Rightarrow> key_ok st_mint
    | CastVote voted_root _ \<Rightarrow> key_ok voted_root
    | SetMerkleRoot merkle_proof merkle_root _ _ _ \<Rightarrow> proof_ok merkle_proof \<and> key_ok merkle_root
    | ClaimWithPayer merkle_proof _ _ \<Rightarrow> proof_ok merkle_proof
    | AdminSetConfigFees _ _ wallet _ _ _ \<Rightarrow> pred_option key_ok wallet
    | AdminSetTieBreaker voted_root _ \<Rightarrow> key_ok voted_root
    | AdminSetWeight st_mint _ _ \<Rightarrow> key_ok st_mint
    | AdminRegisterStMint _ _ feed _ \<Rightarrow> pred_option key_ok feed
    | AdminSetStMint st_mint _ _ feed _ \<Rightarrow> key_ok st_mint \<and> pred_option key_ok feed
    | _ \<Rightarrow> True)"

lemma read_put: "codec_ok ok c \<Longrightarrow> ok x \<Longrightarrow> read c f (put c x @ rest) = f x rest"
  by (simp add: read_def codec_ok_def)

lemma read_put_all [simp]:
  assumes "borsh_laws b"
  shows "read (bo_u8 b) f1 (put (bo_u8 b) x1 @ rest) = f1 x1 rest"
    "read (bo_u16 b) f2 (put (bo_u16 b) x2 @ rest) = f2 x2 rest"
    "read (bo_u64 b) f3 (put (bo_u64 b) x3 @ rest) = f3 x3 rest"
    "read (bo_u128 b) f4 (put (bo_u128 b) x4 @ rest) = f4 x4 rest"
    "key_ok x5 \<Longrightarrow> read (bo_bytes32 b) f5 (put (bo_bytes32 b) x5 @ rest) = f5 x5 rest"
    "read (bo_u8_option b) f6 (put (bo_u8_option b) x6 @ rest) = f6 x6 rest"
    "read (bo_u16_option b) f7 (put (bo_u16_option b) x7 @ rest) = f7 x7 rest"
    "read (bo_u64_option b) f8 (put (bo_u64_option b) x8 @ rest) = f8 x8 rest"
    "read (bo_u128_option b) f9 (put (bo_u128_option b) x9 @ rest) = f9 x9 rest"
    "pred_option key_ok x10 \<Longrightarrow> read (bo_bytes32_option b) f10 (put (bo_bytes32_option b) x10 @ rest) = f10 x10 rest"
    "proof_ok x11 \<Longrightarrow> read (bo_proof b) f11 (put (bo_proof b) x11 @ rest) = f11 x11 rest"
  using assms by (auto simp: borsh_laws_def intro!: read_put)

lemma read_put_role [simp]: "borsh_laws b \<Longrightarrow> read_role b f (put_role b role @ rest) = f role rest"
  by (cases role) (simp_all add: read_role_def put_role_def)

lemma read_instruction_data:
  assumes "borsh_laws b" and "instruction_ok ix"
  shows "read (bo_u8 b) (read_instruction b) (instruction_data b ix @ rest) = Inr (ix, rest)"
  using assms
  by (cases ix) (simp_all add: instruction_data_defs instruction_ok_def read_instruction_def read_global_def
    read_snapshot_def read_vote_def read_route_def read_admin_def yield_value_def)

text \<open>C38. What the generated client writes for an instruction is what the program reads: the same instruction with the
  same arguments, and an error if anything follows it.\<close>

theorem instruction_roundtrip:
  assumes "borsh_laws b" and "instruction_ok ix"
  shows "instruction_from_slice b (instruction_data b ix @ rest) = (if rest = [] then Inr ix else Inl BorshIoError)"
  using read_instruction_data [OF assms] by (simp add: instruction_from_slice_def)

lemma entrypoint_runs:
  assumes "borsh_laws b" and "instruction_ok ix"
  shows "entrypoint b tip_router_id pn hashv rt program_id accounts (instruction_data b ix) L =
    process_instruction tip_router_id pn hashv rt program_id accounts ix L"
  using read_instruction_data [OF assms, of "[]"] by (simp add: entrypoint_def process_instruction_def instruction_from_slice_def)

lemma unknown_instruction:
  assumes "borsh_laws b" and "35 \<le> tag"
  shows "instruction_from_slice b (put (bo_u8 b) tag @ rest) = Inl BorshIoError"
proof -
  have "\<not> tag < 28" "tag \<notin> {28, 29, 30, 31, 32, 33, 34}" and low: "\<not> tag < 4" "\<not> tag < 13" "\<not> tag < 17"
    using assms(2) by (auto simp: word_le_nat_alt word_less_nat_alt)
  then show ?thesis
    using assms(1) by (simp add: instruction_from_slice_def read_instruction_def read_admin_def borsh_error_def)
qed

end
