(* ===== verification/Cluster.thy ===== *)
theory Cluster
  imports Crank_Stages Wire
begin

text \<open>
  The client on a cluster that runs the program: the accounts and bytes of every instruction as the generated client
  makes them, and the network on which a transaction is the run of its instructions, all or none.
\<close>

section \<open>The cluster\<close>

text \<open>The programs of the cluster: this one with what it uses, and what the instructions of the others do. The clock
  stands still while the client works.\<close>

record ('p, 'x) cluster =
  cl_pn :: "'p precise_ops"
  cl_hashv :: hasher
  cl_borsh :: borsh
  cl_rt :: "'x externals"
  cl_program_id :: pubkey
  cl_token_program_id :: pubkey
  cl_payer :: pubkey
  cl_foreign_accounts :: "client_instruction \<Rightarrow> account_info list"
  cl_foreign :: "client_instruction \<Rightarrow> 'x ledger \<Rightarrow> program_error + 'x ledger"
  cl_reads :: "'x ledger \<Rightarrow> 'x client_rpc"

definition instruction_accounts :: "('p, 'x) cluster \<Rightarrow> client_instruction \<Rightarrow> account_info list option" where
  "instruction_accounts cl ix =
    (case ix of
       Tip_Router i given \<Rightarrow> build (cl_program_id cl) (cl_token_program_id cl) i given
     | _ \<Rightarrow> Some (cl_foreign_accounts cl ix))"

text \<open>The flags of an account are those of the transaction: it is signed for or writable if it is so anywhere in it,
  and the payer is both.\<close>

definition message_accounts :: "('p, 'x) cluster \<Rightarrow> transaction \<Rightarrow> account_info list" where
  "message_accounts cl tx = \<lparr>ai_key = cl_payer cl, ai_is_signer = True, ai_is_writable = True\<rparr> #
    concat (map (\<lambda>ix. case instruction_accounts cl ix of None \<Rightarrow> [] | Some infos \<Rightarrow> infos) tx)"

definition in_message :: "account_info list \<Rightarrow> account_info \<Rightarrow> account_info" where
  "in_message message a =
    a\<lparr>ai_is_signer := list_ex (\<lambda>m. ai_key m = ai_key a \<and> ai_is_signer m) message,
      ai_is_writable := list_ex (\<lambda>m. ai_key m = ai_key a \<and> ai_is_writable m) message\<rparr>"

definition run_instruction ::
    "('p, 'x) cluster \<Rightarrow> account_info list \<Rightarrow> client_instruction \<Rightarrow> 'x ledger \<Rightarrow> program_error + 'x ledger" where
  "run_instruction cl message ix L =
    (case ix of
       Tip_Router i _ \<Rightarrow>
         rbind (ok_or NotEnoughAccountKeys (instruction_accounts cl ix)) (\<lambda>infos.
         entrypoint (cl_borsh cl) (cl_program_id cl) (cl_pn cl) (cl_hashv cl) (cl_rt cl) (cl_program_id cl)
           (map (in_message message) infos) (instruction_data (cl_borsh cl) i) L)
     | Compute_Unit_Limit _ \<Rightarrow> Inr L
     | Compute_Unit_Price _ \<Rightarrow> Inr L
     | _ \<Rightarrow> cl_foreign cl ix L)"

definition run_transaction :: "('p, 'x) cluster \<Rightarrow> transaction \<Rightarrow> 'x ledger \<Rightarrow> program_error + 'x ledger" where
  "run_transaction cl tx L = rfold (run_instruction cl (message_accounts cl tx)) tx L"

definition cluster_network :: "('p, 'x) cluster \<Rightarrow> ('x, 'x ledger) network" where
  "cluster_network cl =
    \<lparr>nw_rpc = (\<lambda>L. (cl_reads cl L)\<lparr>rp_account := \<lambda>key. Inr (if ac_lamports (L key) = 0 then None else Some (L key))\<rparr>),
     nw_tick = (\<lambda>L. L),
     nw_send = (\<lambda>tx L.
       if list_ex (\<lambda>ix. instruction_accounts cl ix = None) tx then (Inl Client_Panic, L)
       else case run_transaction cl tx L of
         Inl e \<Rightarrow> (Inl (Rpc_Failure ''transaction failed''), L)
       | Inr L \<Rightarrow> (Inr (), L))\<rparr>"

end
