(* ===== verification/Client_Routing.thy ===== *)
theory Client_Routing
  imports Cluster Base_Resume Ledger_Logic
begin

text \<open>
  The client, the dispatch, the handler and the router together: the client's loop over \<open>RouteBaseRewards\<close> on a cluster
  that runs the program ends, and leaves the router one pass without a limit makes.
\<close>

section \<open>The handler, call after call\<close>

definition routed :: "'x ledger \<Rightarrow> pubkey \<Rightarrow> pubkey \<Rightarrow> base_reward_router \<Rightarrow> epoch_state \<Rightarrow> 'x ledger" where
  "routed L router state r s = L(router := (L router)\<lparr>ac_data := Base_Reward_Router_Data r\<rparr>,
    state := (L state)\<lparr>ac_data := Epoch_State_Data s\<rparr>)"

lemma routed_reads:
  "ac_owner (routed L router state r s key) = ac_owner (L key)" "ac_len (routed L router state r s key) = ac_len (L key)"
  "ac_disc (routed L router state r s key) = ac_disc (L key)" "ac_lamports (routed L router state r s key) = ac_lamports (L key)"
  "key \<noteq> router \<Longrightarrow> key \<noteq> state \<Longrightarrow> routed L router state r s key = L key"
  "router \<noteq> state \<Longrightarrow> routed L router state r s router = (L router)\<lparr>ac_data := Base_Reward_Router_Data r\<rparr>"
  "routed L router state r s state = (L state)\<lparr>ac_data := Epoch_State_Data s\<rparr>"
  by (simp_all add: routed_def)

lemma check_load_routed:
  "check_load owner (routed L router state r s) a key disc w = check_load owner L a key disc w"
  by (cases disc) (simp_all add: check_load_def data_is_empty_def routed_reads)

lemma put_router_routed:
  assumes "ac_owner (L (ai_key a)) = program_id" and "ai_is_writable a" and "ai_key a \<noteq> state"
  shows "put_data program_id (routed L (ai_key a) state r s) a (Base_Reward_Router_Data r') =
    Inr (routed L (ai_key a) state r' s)"
proof (cases "r' = r")
  case False
  then show ?thesis
    using assms by (simp add: put_data_def may_write_def routed_reads) (simp add: routed_def fun_upd_twist)
qed (use assms(3) in \<open>simp add: put_data_def routed_reads\<close>)

lemma put_state_routed:
  assumes "ac_owner (L (ai_key a)) = program_id" and "ai_is_writable a"
  shows "put_data program_id (routed L router (ai_key a) r s) a (Epoch_State_Data s') =
    Inr (routed L router (ai_key a) r s')"
proof (cases "s' = s")
  case False
  then show ?thesis
    using assms by (simp add: put_data_def may_write_def routed_reads) (simp add: routed_def)
qed (simp add: put_data_def routed_reads)

text \<open>What a call that was accepted has checked and read.\<close>

lemma process_route_base_rewards_cases:
  assumes "process_route_base_rewards pn rt program_id accounts m epoch L = Inr L'"
  obtains st config ncn es_account box router receiver es bb c r r0 r1 s L1 u1 u2 u3 u4 u5 u6 u7 where
    "accounts = [st, config, ncn, es_account, box, router, receiver]"
    "epoch_state_load rt program_id L st (ai_key ncn) epoch True = Inr u1"
    "config_load rt program_id L config (ai_key ncn) False = Inr u2"
    "ex_load_ncn rt L ncn False = Inr u3"
    "epoch_snapshot_load rt program_id L es_account (ai_key ncn) epoch False = Inr u4"
    "base_reward_router_load rt program_id L router (ai_key ncn) epoch True = Inr u5"
    "ballot_box_load rt program_id L box (ai_key ncn) epoch False = Inr u6"
    "base_reward_receiver_load rt program_id L receiver (ai_key ncn) epoch True = Inr u7"
    "as_epoch_snapshot rt L es_account = Inr es" "as_ballot_box rt L box = Inr bb" "as_config rt L config = Inr c"
    "is_voting_valid bb (rt_slot rt) (cf_valid_slots_after_consensus c) = Inr False"
    "as_base_reward_router rt L router = Inr r"
    "(if \<not> br_still_routing r then
        rbind (tip (br_route_incoming_rewards r (rt_minimum_balance rt 0) (ac_lamports (L (ai_key receiver))))) (\<lambda>r.
        tip (br_route_reward_pool pn r (es_fees es))) else Inr r) = Inr r0"
    "br_route_ncn_fee_group_rewards pn r0 bb m = Inr r1"
    "put_data program_id L router (Base_Reward_Router_Data r1) = Inr L1" "as_epoch_state rt L1 st = Inr s"
    "put_data program_id L1 st (Epoch_State_Data (update_route_base_rewards s (br_total_rewards r1))) = Inr L'"
  using assms unfolding process_route_base_rewards_def Let_def
  by (clarsimp simp only: rbind_Inr fail_if_Inr rmap_err_Inr not_not split: list.splits)

text \<open>The check of the NCN reads the account of the NCN, which this program does not own.\<close>

definition ncn_checked_alone :: "('x, 'y) externals_scheme \<Rightarrow> bool" where
  "ncn_checked_alone rt \<longleftrightarrow> (\<forall>a w L L'. L (ai_key a) = L' (ai_key a) \<longrightarrow> ex_load_ncn rt L a w = ex_load_ncn rt L' a w)"

lemma ncn_checked_aloneD:
  "ncn_checked_alone rt \<Longrightarrow> L (ai_key a) = L' (ai_key a) \<Longrightarrow> ex_load_ncn rt L a w = ex_load_ncn rt L' a w"
  unfolding ncn_checked_alone_def by blast

lemma loaded_disc_differ:
  assumes "check_load p L a k (Some (discriminator D)) w = Inr u" and "check_load p L b k' (Some (discriminator D')) w' = Inr u'"
    and "D \<noteq> D'"
  shows "ai_key a \<noteq> ai_key b"
  using check_load_Inr(3) [OF assms(1) refl] check_load_Inr(3) [OF assms(2) refl] assms(3) by auto

lemma route_again:
  assumes first: "process_route_base_rewards pn rt program_id accounts m epoch L = Inr L1"
    and alone: "ncn_checked_alone rt" and ncn: "ac_owner (L (ai_key (accounts ! 2))) \<noteq> program_id"
    and box: "as_ballot_box rt L (accounts ! 4) = Inr bb" and still: "br_still_routing r"
    and router: "router = ai_key (accounts ! 5)" and state: "state = ai_key (accounts ! 0)"
  shows "process_route_base_rewards pn rt program_id accounts m epoch (routed L router state r s) =
    rbind (tip (br_route_ncn_fee_group_rewards pn r bb m)) (\<lambda>r'.
    Inr (routed L router state r' (update_route_base_rewards s (br_total_rewards r'))))"
  using first
proof (cases rule: process_route_base_rewards_cases)
  case (1 st config ncn_a es_account box_a router_a receiver es bb' c r' r0 r1 s' L2 u1 u2 u3 u4 u5 u6 u7)
  note loads = 1(2,3,5,6,7) [unfolded load_defs]
  note st = check_load_Inr [OF loads(1)] and ro = check_load_Inr [OF loads(4)]
  have keys: "router = ai_key router_a" "state = ai_key st" by (simp_all add: router state 1(1))
  have differ: "router \<noteq> state" "ai_key config \<noteq> router" "ai_key config \<noteq> state" "ai_key es_account \<noteq> router"
    "ai_key es_account \<noteq> state" "ai_key box_a \<noteq> router" "ai_key box_a \<noteq> state"
    using loaded_disc_differ [OF loads(4,1)] loaded_disc_differ [OF loads(2,4)] loaded_disc_differ [OF loads(2,1)]
      loaded_disc_differ [OF loads(3,4)] loaded_disc_differ [OF loads(3,1)] loaded_disc_differ [OF loads(5,4)]
      loaded_disc_differ [OF loads(5,1)] by (simp_all add: keys)
  have "ai_key ncn_a \<noteq> router" "ai_key ncn_a \<noteq> state"
    using ncn st(1) ro(1) by (auto simp: keys 1(1))
  then have "routed L router state r s (ai_key ncn_a) = L (ai_key ncn_a)" by (simp add: routed_reads)
  from ncn_checked_aloneD [where a = ncn_a and L = "routed L router state r s" and L' = L, OF alone this] have ncn_ok: "ex_load_ncn rt (routed L router state r s) ncn_a False = Inr ()"
    using 1(4) by simp
  have reads: "as_epoch_snapshot rt (routed L router state r s) es_account = Inr es"
    "as_ballot_box rt (routed L router state r s) box_a = Inr bb" "as_config rt (routed L router state r s) config = Inr c"
    using 1(1,9,10,11) box differ
    by (simp_all add: as_epoch_snapshot_def as_ballot_box_def as_config_def routed_reads)
  have cast: "as_base_reward_router rt (routed L router state r s) router_a = Inr r"
    using 1(13) differ by (simp add: keys as_base_reward_router_def cast_data_def routed_reads rbind_Inr)
  have cast_state: "as_epoch_state rt (routed L router state r2 s) st = Inr s" for r2
    using 1(17) put_data_fields(4,5) [OF 1(16)] by (simp add: keys as_epoch_state_def cast_data_def routed_reads rbind_Inr)
  have bb: "bb' = bb" using 1(1,10) box by simp
  show ?thesis
    using 1(12) 1(2,3,5,6,7,8) st(1) ro(1) st(4) ro(4) put_router_routed [of L router_a program_id state]
      put_state_routed [of L st program_id router]
    by (simp add: process_route_base_rewards_def 1(1) load_defs base_reward_receiver_load_def check_load_routed keys
       differ [unfolded keys] ncn_ok [unfolded keys] reads [unfolded keys] cast [unfolded keys]
       cast_state [unfolded keys] still bb rmap_err_def)
qed

lemma put_routed:
  assumes "put_data program_id L a (Base_Reward_Router_Data r) = Inr L1" and "put_data program_id L1 b (Epoch_State_Data s) = Inr L2"
    and "ai_key a \<noteq> ai_key b"
  shows "L2 = routed L (ai_key a) (ai_key b) r s"
proof
  fix key
  show "L2 key = routed L (ai_key a) (ai_key b) r s key"
    using put_data_cases [OF assms(1)] put_data_cases [OF assms(2)] assms(3) by (auto simp: routed_def)
qed

lemma route_first:
  assumes "process_route_base_rewards pn rt program_id accounts m epoch L = Inr L1"
    and "as_base_reward_router rt L (accounts ! 5) = Inr r" and "\<not> br_still_routing r"
  obtains es ra r0 bb r1 s where "as_epoch_snapshot rt L (accounts ! 3) = Inr es"
    "br_route_incoming_rewards r (rt_minimum_balance rt 0) (ac_lamports (L (ai_key (accounts ! 6)))) = Inr ra"
    "br_route_reward_pool pn ra (es_fees es) = Inr r0" "as_ballot_box rt L (accounts ! 4) = Inr bb"
    "br_route_ncn_fee_group_rewards pn r0 bb m = Inr r1" "ai_key (accounts ! 5) \<noteq> ai_key (accounts ! 0)"
    "L1 = routed L (ai_key (accounts ! 5)) (ai_key (accounts ! 0)) r1 s"
  using assms(1)
proof (cases rule: process_route_base_rewards_cases)
  case (1 st config ncn_a es_account box_a router_a receiver es bb c r' r0 r1 s L2 u1 u2 u3 u4 u5 u6 u7)
  note loads = 1(2,6) [unfolded load_defs]
  have differ: "ai_key router_a \<noteq> ai_key st" using loaded_disc_differ [OF loads(2,1)] by simp
  obtain ra where ra: "br_route_incoming_rewards r (rt_minimum_balance rt 0) (ac_lamports (L (ai_key receiver))) = Inr ra"
    "br_route_reward_pool pn ra (es_fees es) = Inr r0"
    using 1(1,13,14) assms(2,3) by (auto simp: rbind_Inr rmap_err_Inr)
  show thesis
  proof (rule that)
    show "as_epoch_snapshot rt L (accounts ! 3) = Inr es" using 1(1,9) by simp
    show "br_route_incoming_rewards r (rt_minimum_balance rt 0) (ac_lamports (L (ai_key (accounts ! 6)))) = Inr ra"
      using ra(1) by (simp add: 1(1))
    show "br_route_reward_pool pn ra (es_fees es) = Inr r0" by (rule ra(2))
    show "as_ballot_box rt L (accounts ! 4) = Inr bb" using 1(1,10) by simp
    show "br_route_ncn_fee_group_rewards pn r0 bb m = Inr r1" by (rule 1(15))
    show "ai_key (accounts ! 5) \<noteq> ai_key (accounts ! 0)" using differ by (simp add: 1(1))
    show "L1 = routed L (ai_key (accounts ! 5)) (ai_key (accounts ! 0)) r1 (update_route_base_rewards s (br_total_rewards r1))"
      using put_routed [OF 1(16,18) differ] by (simp add: 1(1))
  qed
qed

section \<open>The loop of the client\<close>

lemma route_until_done_calls:
  assumes send: "\<And>r r' s sent. br_still_routing r \<Longrightarrow> br_route_ncn_fee_group_rewards pn r bb m = Inr r' \<Longrightarrow>
      \<exists>s'. send (G r s, sent) = (Inr (), G r' s', sent @ [tx])"
    and read: "\<And>r s sent. still_routing (G r s, sent) = (Inr (br_still_routing r), G r s, sent)"
    and "br_still_routing r" and "route_calls pn bb (replicate fuel m) r = Inr r'" and "\<not> br_still_routing r'"
  shows "\<exists>s' n. n \<le> fuel \<and>
    route_until_done fuel send still_routing (G r s, sent) = (Inr (), G r' s', sent @ replicate n tx)"
  using assms(3,4)
proof (induction fuel arbitrary: r s sent)
  case 0
  then show ?case using assms(5) by simp
next
  case (Suc fuel)
  then obtain r1 where r1: "br_route_ncn_fee_group_rewards pn r bb m = Inr r1"
    and rest: "if br_still_routing r1 then route_calls pn bb (replicate fuel m) r1 = Inr r' else r1 = r'"
    by (auto simp: rbind_Inr split: if_splits)
  from send [OF Suc.prems(1) r1] obtain s1 where s1: "send (G r s, sent) = (Inr (), G r1 s1, sent @ [tx])" by blast
  show ?case
  proof (cases "br_still_routing r1")
    case True
    with Suc.IH [of r1 s1 "sent @ [tx]"] rest obtain s' n where "n \<le> fuel"
      "route_until_done fuel send still_routing (G r1 s1, sent @ [tx]) = (Inr (), G r' s', (sent @ [tx]) @ replicate n tx)" by auto
    then show ?thesis
      by (intro exI [of _ s'] exI [of _ "Suc n"]) (simp add: cbind_def s1 read True)
  next
    case False
    then show ?thesis
      using rest by (intro exI [of _ s1] exI [of _ "Suc 0"]) (simp add: cbind_def s1 read cret_def)
  qed
qed

text \<open>The first transaction also pools the rewards; the router it leaves is the one after the first call.\<close>

lemma route_until_done_first:
  assumes send: "\<And>r r' s sent. br_still_routing r \<Longrightarrow> br_route_ncn_fee_group_rewards pn r bb m = Inr r' \<Longrightarrow>
      \<exists>s'. send (G r s, sent) = (Inr (), G r' s', sent @ [tx])"
    and read: "\<And>r s sent. still_routing (G r s, sent) = (Inr (br_still_routing r), G r s, sent)"
    and first: "send (w, sent) = (Inr (), G r1 s1, sent @ [tx])" "br_route_ncn_fee_group_rewards pn r0 bb m = Inr r1"
    and calls: "route_calls pn bb (replicate (Suc fuel) m) r0 = Inr r'" and finished: "\<not> br_still_routing r'"
  shows "\<exists>s' n. n \<le> Suc fuel \<and>
    route_until_done (Suc fuel) send still_routing (w, sent) = (Inr (), G r' s', sent @ replicate n tx)"
proof (cases "br_still_routing r1")
  case True
  then have "route_calls pn bb (replicate fuel m) r1 = Inr r'" using calls first(2) by simp
  from route_until_done_calls [where G = G and sent = "sent @ [tx]" and s = s1, OF send read True this finished]
  obtain s' n where "n \<le> fuel" "route_until_done fuel send still_routing (G r1 s1, sent @ [tx]) =
      (Inr (), G r' s', (sent @ [tx]) @ replicate n tx)" by blast
  with True show ?thesis by (intro exI [of _ s'] exI [of _ "Suc n"]) (simp add: cbind_def first read)
next
  case False
  then show ?thesis
    using calls first(2) by (intro exI [of _ s1] exI [of _ "Suc 0"]) (simp add: cbind_def first read cret_def)
qed

section \<open>On the cluster\<close>

text \<open>The client is the one of the cluster: its program and its key, bytes that are read back as they were written, and a
  node that answers.\<close>

definition on_cluster :: "('p, 'x) cluster \<Rightarrow> client_handler \<Rightarrow> pubkey \<Rightarrow> bool" where
  "on_cluster cl h ncn \<longleftrightarrow> hd_tip_router_program_id h = cl_program_id cl \<and>
    ad_tip_router_program (hd_addresses h) = cl_program_id cl \<and> hd_ncn h = Some ncn \<and>
    hd_keypair h = Some (cl_payer cl) \<and> borsh_laws (cl_borsh cl) \<and> (\<forall>L. \<exists>b. cr_latest_blockhash (cl_reads cl L) = Inr b)"

definition priced :: "client_handler \<Rightarrow> transaction \<Rightarrow> transaction" where
  "priced h tx = (if hd_retries h = 0 then tx else Compute_Unit_Price (hd_priority_fee_micro_lamports h) # tx)"

lemma send_accepted:
  assumes "on_cluster cl h ncn" and "\<forall>ix \<in> set tx. instruction_accounts cl ix \<noteq> None"
    and "run_transaction cl (priced h tx) L = Inr L'"
  shows "send_and_log_transaction h (cluster_network cl) tx (L, sent) = (Inr (), L', sent @ [priced h tx])"
proof -
  obtain b where b: "cr_latest_blockhash (cl_reads cl L) = Inr b" using assms(1) by (auto simp: on_cluster_def)
  have "\<not> list_ex (\<lambda>ix. instruction_accounts cl ix = None) (priced h tx)"
    using assms(2) by (auto simp: list_ex_iff priced_def instruction_accounts_def)
  then have signed: "send_signed (cluster_network cl) (priced h tx) (L, sent) = (Inr (), L', sent @ [priced h tx])"
    using assms(3) by (simp add: send_signed_def cluster_network_def)
  have reads: "cr_latest_blockhash (nw_rpc (cluster_network cl) L) = Inr b" "nw_tick (cluster_network cl) L = L"
    using b by (simp_all add: cluster_network_def)
  show ?thesis
    using assms(1) signed reads by (cases "hd_retries h")
      (simp_all add: send_and_log_transaction_def send_transactions_def the_keypair_def on_cluster_def cbind_def clift_def
        cread_def ctry_def cret_def priced_def)
qed

definition route_accounts :: "('p, 'x) cluster \<Rightarrow> client_handler \<Rightarrow> pubkey \<Rightarrow> u64 \<Rightarrow> account_info list" where
  "route_accounts cl h ncn epoch =
    (let rt = cl_rt cl;
         acc = \<lambda>w a. \<lparr>ai_key = at_router rt h a, ai_is_signer = False, ai_is_writable = w\<rparr> in
     map (in_message (message_accounts cl (priced h (route_base_rewards_ixs rt h ncn epoch))))
      [acc True (Epoch_State_Account ncn epoch), acc False (Config_Account ncn),
       \<lparr>ai_key = ncn, ai_is_signer = False, ai_is_writable = False\<rparr>, acc False (Epoch_Snapshot_Account ncn epoch),
       acc False (Ballot_Box_Account ncn epoch), acc True (Base_Reward_Router_Account ncn epoch),
       acc True (Base_Reward_Receiver_Account ncn epoch)])"

lemma rfold_last: "rbind m (rfold f []) = m"
  by (cases m) simp_all

lemma route_build:
  assumes "on_cluster cl h ncn"
  shows "instruction_accounts cl (Tip_Router (RouteBaseRewards m epoch)
      [(''epoch_state'', at_router rt h (Epoch_State_Account ncn epoch)),
       (''config'', at_builtin rt h (Config_Account ncn)), (''ncn'', ncn),
       (''epoch_snapshot'', at_router rt h (Epoch_Snapshot_Account ncn epoch)),
       (''ballot_box'', at_router rt h (Ballot_Box_Account ncn epoch)),
       (''base_reward_router'', at_router rt h (Base_Reward_Router_Account ncn epoch)),
       (''base_reward_receiver'', at_router rt h (Base_Reward_Receiver_Account ncn epoch))]) = Some
      [\<lparr>ai_key = at_router rt h (Epoch_State_Account ncn epoch), ai_is_signer = False, ai_is_writable = True\<rparr>,
       \<lparr>ai_key = at_router rt h (Config_Account ncn), ai_is_signer = False, ai_is_writable = False\<rparr>,
       \<lparr>ai_key = ncn, ai_is_signer = False, ai_is_writable = False\<rparr>,
       \<lparr>ai_key = at_router rt h (Epoch_Snapshot_Account ncn epoch), ai_is_signer = False, ai_is_writable = False\<rparr>,
       \<lparr>ai_key = at_router rt h (Ballot_Box_Account ncn epoch), ai_is_signer = False, ai_is_writable = False\<rparr>,
       \<lparr>ai_key = at_router rt h (Base_Reward_Router_Account ncn epoch), ai_is_signer = False, ai_is_writable = True\<rparr>,
       \<lparr>ai_key = at_router rt h (Base_Reward_Receiver_Account ncn epoch), ai_is_signer = False, ai_is_writable = True\<rparr>]"
  using assms by (simp add: instruction_accounts_def build_def account_metas_defs build_account_def ro_def rw_def
      at_router_def at_builtin_def on_cluster_def)

lemma run_route:
  assumes "on_cluster cl h ncn"
  shows "run_transaction cl (priced h (route_base_rewards_ixs (cl_rt cl) h ncn epoch)) L =
      process_route_base_rewards (cl_pn cl) (cl_rt cl) (cl_program_id cl) (route_accounts cl h ncn epoch)
        MAX_ROUTE_BASE_ITERATIONS epoch L"
    "\<forall>ix \<in> set (route_base_rewards_ixs (cl_rt cl) h ncn epoch). instruction_accounts cl ix \<noteq> None"
proof -
  have laws: "borsh_laws (cl_borsh cl)" using assms by (simp add: on_cluster_def)
  note build = route_build [OF assms]
  have run: "rfold (run_instruction cl M) (priced h (route_base_rewards_ixs (cl_rt cl) h ncn epoch)) L =
      process_route_base_rewards (cl_pn cl) (cl_rt cl) (cl_program_id cl) (map (in_message M)
        (let rt = cl_rt cl; acc = \<lambda>w a. \<lparr>ai_key = at_router rt h a, ai_is_signer = False, ai_is_writable = w\<rparr> in
         [acc True (Epoch_State_Account ncn epoch), acc False (Config_Account ncn),
          \<lparr>ai_key = ncn, ai_is_signer = False, ai_is_writable = False\<rparr>, acc False (Epoch_Snapshot_Account ncn epoch),
          acc False (Ballot_Box_Account ncn epoch), acc True (Base_Reward_Router_Account ncn epoch),
          acc True (Base_Reward_Receiver_Account ncn epoch)])) MAX_ROUTE_BASE_ITERATIONS epoch L" for M
    by (simp add: priced_def route_base_rewards_ixs_def run_instruction_def build entrypoint_runs [OF laws] instruction_ok_def
        process_instruction_def Let_def rfold_last del: instruction_data.simps)
  show "run_transaction cl (priced h (route_base_rewards_ixs (cl_rt cl) h ncn epoch)) L =
      process_route_base_rewards (cl_pn cl) (cl_rt cl) (cl_program_id cl) (route_accounts cl h ncn epoch)
        MAX_ROUTE_BASE_ITERATIONS epoch L"
    unfolding run_transaction_def route_accounts_def run Let_def ..
  show "\<forall>ix \<in> set (route_base_rewards_ixs (cl_rt cl) h ncn epoch). instruction_accounts cl ix \<noteq> None"
    unfolding route_base_rewards_ixs_def by (simp add: build) (simp add: instruction_accounts_def)
qed

lemma in_message_key [simp]: "ai_key (in_message M a) = ai_key a"
  by (simp add: in_message_def)

lemma in_message_writable:
  assumes "ix \<in> set tx" and "instruction_accounts cl ix = Some infos" and "a \<in> set infos" and "ai_is_writable a"
  shows "ai_is_writable (in_message (message_accounts cl tx) a)"
proof -
  have "a \<in> set (message_accounts cl tx)"
    using assms(1-3) unfolding message_accounts_def by (auto intro!: bexI [of _ ix])
  then show ?thesis using assms(4) by (auto simp: in_message_def list_ex_iff)
qed

lemma route_writable:
  assumes "on_cluster cl h ncn"
  shows "ai_is_writable (route_accounts cl h ncn epoch ! 0)" "ai_is_writable (route_accounts cl h ncn epoch ! 5)"
    "ai_is_writable (route_accounts cl h ncn epoch ! 6)"
proof -
  let ?rt = "cl_rt cl"
  have ix: "Tip_Router (RouteBaseRewards MAX_ROUTE_BASE_ITERATIONS epoch)
      [(''epoch_state'', at_router ?rt h (Epoch_State_Account ncn epoch)),
       (''config'', at_builtin ?rt h (Config_Account ncn)), (''ncn'', ncn),
       (''epoch_snapshot'', at_router ?rt h (Epoch_Snapshot_Account ncn epoch)),
       (''ballot_box'', at_router ?rt h (Ballot_Box_Account ncn epoch)),
       (''base_reward_router'', at_router ?rt h (Base_Reward_Router_Account ncn epoch)),
       (''base_reward_receiver'', at_router ?rt h (Base_Reward_Receiver_Account ncn epoch))]
    \<in> set (priced h (route_base_rewards_ixs ?rt h ncn epoch))"
    by (simp add: priced_def route_base_rewards_ixs_def)
  note writable = in_message_writable [OF ix route_build [OF assms]]
  show "ai_is_writable (route_accounts cl h ncn epoch ! 0)" "ai_is_writable (route_accounts cl h ncn epoch ! 5)"
    "ai_is_writable (route_accounts cl h ncn epoch ! 6)"
    unfolding route_accounts_def Let_def by (simp_all add: writable)
qed

lemma cluster_reads:
  assumes "hd_ncn h = Some ncn"
  shows "ai_key a = at_router rt h (Base_Reward_Router_Account ncn epoch) \<Longrightarrow>
      get_base_reward_router rt h (nw_rpc (cluster_network cl) L) epoch = (if ac_lamports (L (ai_key a)) = 0
        then Inl (Anyhow ''Account not found'') else rmap_err Library_Error (as_base_reward_router rt L a))"
    "ai_key a = at_router rt h (Epoch_Snapshot_Account ncn epoch) \<Longrightarrow>
      get_epoch_snapshot rt h (nw_rpc (cluster_network cl) L) epoch = (if ac_lamports (L (ai_key a)) = 0
        then Inl (Anyhow ''Account not found'') else rmap_err Library_Error (as_epoch_snapshot rt L a))"
    "ai_key a = at_router rt h (Ballot_Box_Account ncn epoch) \<Longrightarrow>
      get_ballot_box rt h (nw_rpc (cluster_network cl) L) epoch = (if ac_lamports (L (ai_key a)) = 0
        then Inl (Anyhow ''Account not found'') else rmap_err Library_Error (as_ballot_box rt L a))"
  using assms
  by (auto simp: get_base_reward_router_def get_epoch_snapshot_def get_ballot_box_def get_typed_def handler_pda_def
      handler_ncn_def at_router_def cluster_network_def require_found_def try_from_slice_def as_base_reward_router_def
      as_epoch_snapshot_def as_ballot_box_def)

lemma route_account_keys:
  "ai_key (route_accounts cl h ncn epoch ! 0) = at_router (cl_rt cl) h (Epoch_State_Account ncn epoch)"
  "ai_key (route_accounts cl h ncn epoch ! 2) = ncn"
  "ai_key (route_accounts cl h ncn epoch ! 3) = at_router (cl_rt cl) h (Epoch_Snapshot_Account ncn epoch)"
  "ai_key (route_accounts cl h ncn epoch ! 4) = at_router (cl_rt cl) h (Ballot_Box_Account ncn epoch)"
  "ai_key (route_accounts cl h ncn epoch ! 5) = at_router (cl_rt cl) h (Base_Reward_Router_Account ncn epoch)"
  "ai_key (route_accounts cl h ncn epoch ! 6) = at_router (cl_rt cl) h (Base_Reward_Receiver_Account ncn epoch)"
  by (simp_all add: route_accounts_def Let_def)

lemma one_pass_finished: "one_pass pn bb r = Inr r' \<Longrightarrow> \<not> br_still_routing r'"
  by (auto simp: one_pass_def rbind_Inr br_still_routing_def br_reset_routing_state_def simp del: upt_Suc)

lemma pool_position:
  "br_route_incoming_rewards r rent balance = Inr r' \<Longrightarrow> br_still_routing r' = br_still_routing r"
  "br_route_reward_pool pn r fs = Inr r' \<Longrightarrow> br_still_routing r' = br_still_routing r"
proof -
  have steps: "br_route_to_base_fee_group_rewards r g x = Inr r' \<Longrightarrow> br_still_routing r' = br_still_routing r"
    "br_route_to_ncn_fee_group_rewards r k x = Inr r' \<Longrightarrow> br_still_routing r' = br_still_routing r"
    "br_route_from_reward_pool r x = Inr r' \<Longrightarrow> br_still_routing r' = br_still_routing r" for r r' g k x
    by (auto simp: br_route_to_base_fee_group_rewards_def br_route_to_ncn_fee_group_rewards_def br_route_from_reward_pool_def
        br_increment_rewards_processed_def br_still_routing_def rbind_Inr ok_or_Inr split: if_splits)
  show "br_still_routing r' = br_still_routing r" if "br_route_incoming_rewards r rent balance = Inr r'"
    using that by (auto simp: br_route_incoming_rewards_def br_route_to_reward_pool_def br_still_routing_def rbind_Inr ok_or_Inr
        split: if_splits)
  show "br_still_routing r' = br_still_routing r" if split: "br_route_reward_pool pn r fs = Inr r'"
  proof -
    from split obtain total r1 r2 r3 where loops:
      "rfold (\<lambda>g r'. rbind (fees_base_fee_bps fs g) (\<lambda>base_fee. rbind (calculate_reward_split pn base_fee total (br_reward_pool r))
         (\<lambda>rewards. rbind (br_route_from_reward_pool r' rewards) (\<lambda>r. br_route_to_base_fee_group_rewards r g rewards))))
         base_fee_group_all_groups r = Inr r1"
      "rfold (\<lambda>g r'. rbind (fees_ncn_fee_bps fs g) (\<lambda>base_fee. rbind (calculate_reward_split pn base_fee total (br_reward_pool r))
         (\<lambda>rewards. rbind (br_route_from_reward_pool r' rewards) (\<lambda>r. br_route_to_ncn_fee_group_rewards r g rewards))))
         ncn_fee_group_all_groups r1 = Inr r2"
      and rest: "br_route_from_reward_pool r2 (br_reward_pool r2) = Inr r3"
        "br_route_to_base_fee_group_rewards r3 base_fee_group_dao (br_reward_pool r2) = Inr r'"
      unfolding br_route_reward_pool_def Let_def rbind_Inr by blast
    have "br_still_routing r1 = br_still_routing r"
      by (rule rfold_frame [where g = br_still_routing, OF loops(1)]) (auto simp: rbind_Inr dest!: steps)
    moreover have "br_still_routing r2 = br_still_routing r1"
      by (rule rfold_frame [where g = br_still_routing, OF loops(2)]) (auto simp: rbind_Inr dest!: steps)
    ultimately show ?thesis using steps(3) [OF rest(1)] steps(1) [OF rest(2)] by simp
  qed
qed


end
