(* ===== verification/Sample_Wire.thy ===== *)
theory Sample_Wire
  imports Wire
begin

text \<open>
  Borsh as it is specified: integers in little endian, options and lists behind a tag or a length.
\<close>

primrec le_bytes :: "nat \<Rightarrow> nat \<Rightarrow> u8 list" where
  "le_bytes 0 k = []"
| "le_bytes (Suc n) k = of_nat k # le_bytes n (k div 256)"

primrec from_le :: "u8 list \<Rightarrow> nat" where
  "from_le [] = 0"
| "from_le (x # xs) = unat x + 256 * from_le xs"

definition chunk :: "nat \<Rightarrow> (u8 list \<Rightarrow> 'a) \<Rightarrow> 'a reader" where
  "chunk n f bytes = (if length bytes < n then Inl BorshIoError else Inr (f (take n bytes), drop n bytes))"

definition le_codec :: "nat \<Rightarrow> 'a::len word codec" where
  "le_codec n = \<lparr>put = (\<lambda>w. le_bytes n (unat w)), get = chunk n (\<lambda>bytes. of_nat (from_le bytes))\<rparr>"

definition key_codec :: "bytes32 codec" where
  "key_codec = \<lparr>put = (\<lambda>k. k), get = chunk 32 (\<lambda>bytes. bytes)\<rparr>"

definition option_codec :: "'a codec \<Rightarrow> 'a option codec" where
  "option_codec c = \<lparr>put = case_option [0] (\<lambda>x. 1 # put c x),
    get = (\<lambda>bytes. case bytes of
      [] \<Rightarrow> Inl BorshIoError
    | tag # rest \<Rightarrow>
        if tag = 0 then Inr (None, rest)
        else if tag = 1 then rbind (get c rest) (\<lambda>(x, rest). Inr (Some x, rest))
        else Inl BorshIoError)\<rparr>"

primrec get_all :: "'a codec \<Rightarrow> nat \<Rightarrow> 'a list reader" where
  "get_all c 0 bytes = Inr ([], bytes)"
| "get_all c (Suc n) bytes =
    rbind (get c bytes) (\<lambda>(x, rest). rbind (get_all c n rest) (\<lambda>(xs, rest). Inr (x # xs, rest)))"

definition list_codec :: "'a codec \<Rightarrow> 'a list codec" where
  "list_codec c = \<lparr>put = (\<lambda>xs. le_bytes 4 (length xs) @ concat (map (put c) xs)),
    get = (\<lambda>bytes. rbind (chunk 4 from_le bytes) (\<lambda>(n, rest). get_all c n rest))\<rparr>"

definition sample_borsh :: borsh where
  "sample_borsh = \<lparr>bo_u8 = le_codec 1, bo_u16 = le_codec 2, bo_u64 = le_codec 8, bo_u128 = le_codec 16,
    bo_bytes32 = key_codec, bo_u8_option = option_codec (le_codec 1), bo_u16_option = option_codec (le_codec 2),
    bo_u64_option = option_codec (le_codec 8), bo_u128_option = option_codec (le_codec 16),
    bo_bytes32_option = option_codec key_codec, bo_proof = list_codec key_codec\<rparr>"

lemma le_bytes_length [simp]: "length (le_bytes n k) = n"
  by (induction n arbitrary: k) auto

lemma from_le_bytes: "k < 256 ^ n \<Longrightarrow> from_le (le_bytes n k) = k"
proof (induction n arbitrary: k)
  case (Suc n)
  have "k div 256 < 256 ^ n" using Suc.prems by (simp add: less_mult_imp_div_less mult.commute)
  moreover have "unat (of_nat k :: u8) = k mod 256" by (simp add: unat_of_nat)
  ultimately show ?case using Suc.IH by simp
qed simp

lemma chunk_append: "length bytes = n \<Longrightarrow> chunk n f (bytes @ rest) = Inr (f bytes, rest)"
  by (simp add: chunk_def)

lemma le_codec_ok: "LENGTH('a) = 8 * n \<Longrightarrow> codec_ok (\<lambda>_. True) (le_codec n :: 'a::len word codec)"
proof -
  assume len: "LENGTH('a) = 8 * n"
  have "unat w < 256 ^ n" for w :: "'a word"
    using unat_less_pow [of w] by (simp add: len power_mult)
  then show ?thesis by (simp add: codec_ok_def le_codec_def chunk_append from_le_bytes)
qed

lemma key_codec_ok: "codec_ok key_ok key_codec"
  by (simp add: codec_ok_def key_codec_def key_ok_def chunk_append)

lemma option_codec_ok: "codec_ok ok c \<Longrightarrow> codec_ok (pred_option ok) (option_codec c)"
  by (auto simp: codec_ok_def option_codec_def split: option.splits)

lemma option_codec_ok_all: "codec_ok (\<lambda>_. True) c \<Longrightarrow> codec_ok (\<lambda>_. True) (option_codec c)"
  by (auto simp: codec_ok_def option_codec_def split: option.splits)

lemma get_all_concat:
  "codec_ok ok c \<Longrightarrow> list_all ok xs \<Longrightarrow> get_all c (length xs) (concat (map (put c) xs) @ rest) = Inr (xs, rest)"
  by (induction xs) (auto simp: codec_ok_def)

lemma list_codec_ok: "codec_ok ok c \<Longrightarrow> codec_ok (\<lambda>xs. list_all ok xs \<and> length xs < 2 ^ 32) (list_codec c)"
  unfolding codec_ok_def [where c = "list_codec c"]
  by (auto simp: list_codec_def chunk_append from_le_bytes get_all_concat)

lemma sample_borsh_laws: "borsh_laws sample_borsh"
proof -
  have "(\<lambda>xs. list_all key_ok xs \<and> length xs < 2 ^ 32) = proof_ok" by (simp add: proof_ok_def fun_eq_iff)
  then show ?thesis
    using list_codec_ok [OF key_codec_ok]
    by (simp add: borsh_laws_def sample_borsh_def le_codec_ok key_codec_ok option_codec_ok option_codec_ok_all)
qed

lemma le_bytes_numeral [simp]: "le_bytes (numeral n) k = of_nat k # le_bytes (pred_numeral n) (k div 256)"
  by (metis le_bytes.simps(2) numeral_eq_Suc)

lemma le_bytes_examples:
  "le_bytes 1 32 = [32]"
  "le_bytes 8 19 = [19, 0, 0, 0, 0, 0, 0, 0]"
  "le_bytes 16 261 = [5, 1, 0, 0, 0, 0, 0, 0, 0, 0, 0, 0, 0, 0, 0, 0]"
  by simp_all

theorem instruction_roundtrip_witness:
  "instruction_from_slice sample_borsh ([32] @ replicate 32 7 @
      [5, 1, 0, 0, 0, 0, 0, 0, 0, 0, 0, 0, 0, 0, 0, 0] @ [19, 0, 0, 0, 0, 0, 0, 0]) =
    Inr (AdminSetWeight (replicate 32 7) 261 19)"
proof -
  have "instruction_ok (AdminSetWeight (replicate 32 7) 261 19)" by (simp add: instruction_ok_def key_ok_def)
  moreover have "instruction_data sample_borsh (AdminSetWeight (replicate 32 7) 261 19) = [32] @ replicate 32 7 @
      [5, 1, 0, 0, 0, 0, 0, 0, 0, 0, 0, 0, 0, 0, 0, 0] @ [19, 0, 0, 0, 0, 0, 0, 0]"
    by (simp add: admin_set_weight_data_def sample_borsh_def le_codec_def key_codec_def le_bytes_examples del: le_bytes_numeral)
  ultimately show ?thesis
    using instruction_roundtrip [OF sample_borsh_laws, of "AdminSetWeight (replicate 32 7) 261 19" "[]"] by simp
qed

end
