(* ===== verification/Sample_Cluster.thy ===== *)
theory Sample_Cluster
  imports Client_Routing Reward_Effects Sample_Wire
begin

text \<open>
  The client on the cluster of the sample runtime: epoch 19, decided at slot 8000 by one operator; at slot 20000 the
  receiver of the epoch holds 1001 lamports above its rent.
\<close>

definition sample_addresses :: addresses where
  "sample_addresses = \<lparr>ad_ncn_operator_state = (\<lambda>_ _. [1]), ad_ncn_vault_ticket = (\<lambda>_ _. [2]), ad_restaking_config = [3],
    ad_vault_ncn_ticket = (\<lambda>_ _. [4]), ad_vault_operator_delegation = (\<lambda>_ _. [5]), ad_vault_config = [6],
    ad_vault_update_state_tracker = (\<lambda>_ _. [7]), ad_associated_token_address = (\<lambda>_ _. [8]),
    ad_stake_pool_program = replicate 32 7, ad_stake_pool = [9], ad_stake_pool_withdraw_authority = [10],
    ad_spl_token_program = [11], ad_tip_router_program = sample_program\<rparr>"

definition sample_client :: client_handler where
  "sample_client = \<lparr>hd_tip_router_program_id = sample_program, hd_ncn = Some sample_ncn, hd_epoch = 19,
    hd_keypair = Some sample_wallet, hd_token_program_id = [11], hd_retries = 3, hd_priority_fee_micro_lamports = 1,
    hd_addresses = sample_addresses\<rparr>"

definition quiet_rpc :: "unit client_rpc" where
  "quiet_rpc = \<lparr>rp_account = (\<lambda>_. Inr None), rp_operators = Inr [sample_operator], rp_vaults = Inr [],
    rp_slot = Inr 20000, rp_get_epoch = Inr (\<lambda>s. s div 400), rp_minimum_balance = Inr 128,
    cr_vault_config = Inl (Anyhow ''none''), cr_vault = (\<lambda>_. Inl (Anyhow ''none'')),
    cr_last_updated_index = (\<lambda>_ _. Inl (Anyhow ''none'')), cr_sorted_operators = (\<lambda>_. Inr []),
    cr_operator_voter = (\<lambda>_. Inr sample_voter), cr_stake_pool = Inl (Anyhow ''none''), cr_latest_blockhash = Inr [],
    cr_gateways = Inr [], cr_fetch_update_ix = (\<lambda>_ _ _. Inl (Anyhow ''none''))\<rparr>"

definition sample_cluster :: "(nat, unit) cluster" where
  "sample_cluster = \<lparr>cl_pn = fixed12, cl_hashv = (\<lambda>_. []), cl_borsh = sample_borsh, cl_rt = sample_runtime 20000, cl_program_id = sample_program,
    cl_token_program_id = [11], cl_payer = sample_wallet, cl_foreign_accounts = (\<lambda>_. []), cl_foreign = (\<lambda>_. Inr),
    cl_reads = (\<lambda>_. quiet_rpc)\<rparr>"

definition routing_ledger :: "unit ledger" where
  "routing_ledger = (voting_ledger 30 decided_sample)(
    sample_addr (Epoch_Snapshot_Account sample_ncn 19) :=
      sample_account D_EpochSnapshot (Epoch_Snapshot_Data ((voting_epoch 30)\<lparr>es_fees := sample_fees 5 270\<rparr>)),
    sample_addr (Base_Reward_Router_Account sample_ncn 19) :=
      sample_account D_BaseRewardRouter (Base_Reward_Router_Data new_router),
    sample_addr (Base_Reward_Receiver_Account sample_ncn 19) :=
      (sample_ledger (sample_addr (Base_Reward_Receiver_Account sample_ncn 19)))\<lparr>ac_lamports := 1129\<rparr>)"

lemma routing_ledger_reads [simp]:
  "routing_ledger (sample_addr (Epoch_Snapshot_Account sample_ncn 19)) =
    sample_account D_EpochSnapshot (Epoch_Snapshot_Data ((voting_epoch 30)\<lparr>es_fees := sample_fees 5 270\<rparr>))"
  "routing_ledger (sample_addr (Ballot_Box_Account sample_ncn 19)) = sample_account D_BallotBox (Ballot_Box_Data decided_sample)"
  "routing_ledger (sample_addr (Base_Reward_Router_Account sample_ncn 19)) =
    sample_account D_BaseRewardRouter (Base_Reward_Router_Data new_router)"
  "routing_ledger (sample_addr (Config_Account sample_ncn)) = sample_account D_Config (Config_Data sample_config)"
  "routing_ledger (sample_addr (Epoch_State_Account sample_ncn 19)) = sample_account D_EpochState (Epoch_State_Data live_state)"
  "ac_lamports (routing_ledger (sample_addr (Base_Reward_Receiver_Account sample_ncn 19))) = 1129"
  "ac_owner (routing_ledger (sample_addr (Base_Reward_Receiver_Account sample_ncn 19))) = system_program_id"
  by (simp_all add: routing_ledger_def sample_addr_inject)

lemma sample_cluster_reads [simp]:
  "cl_pn sample_cluster = fixed12" "cl_rt sample_cluster = sample_runtime 20000" "cl_program_id sample_cluster = sample_program"
  "cl_reads sample_cluster L = quiet_rpc"
  by (simp_all add: sample_cluster_def)

lemma sample_client_on: "on_cluster sample_cluster sample_client sample_ncn"
  by (simp add: on_cluster_def sample_borsh_laws sample_cluster_def sample_client_def sample_addresses_def quiet_rpc_def)

lemma at_sample [simp]: "at_router (sample_runtime s) sample_client a = sample_addr a"
  by (simp add: at_router_def)

text \<open>One vote has a share, the others are not for the winner.\<close>

definition shared_router :: base_reward_router where
  "shared_router = paying_router\<lparr>br_ncn_fee_group_rewards := \<lparr>brw_rewards = 0\<rparr> # replicate 7 \<lparr>brw_rewards = 0\<rparr>,
    br_ncn_fee_group_reward_routes := \<lparr>nrr_operator = sample_operator,
      nrr_ncn_fee_group_rewards = \<lparr>brw_rewards = 100\<rparr> # replicate 7 \<lparr>brw_rewards = 0\<rparr>\<rparr> #
      tl (br_ncn_fee_group_reward_routes paying_router)\<rparr>"

definition sample_winner :: ballot_tally where
  "sample_winner = ballot_tally_new 0 (ballot_new sample_root) (sample_weights 30)"

lemma winner_found: "get_winning_ballot_tally decided_sample = Inr sample_winner"
  by (simp add: get_winning_ballot_tally_def decided_sample_def voted_box_def sample_winner_def ballot_tally_new_def ballot_eq_def)

lemma shared_fields:
  "br_ncn_fee_group_rewards paying_router = \<lparr>brw_rewards = 100\<rparr> # replicate 7 \<lparr>brw_rewards = 0\<rparr>"
  "br_ncn_fee_group_reward_routes paying_router = replicate 256 ncn_reward_route_default"
  by (simp_all add: paying_router_def new_router_def base_reward_router_new_def MAX_OPERATORS_def)

lemma routed_share:
  "nrr_operator ncn_reward_route_default = default_pubkey"
  "ncn_reward_route_new sample_operator \<lparr>ncn_group = 0\<rparr> 100 = Inr \<lparr>nrr_operator = sample_operator,
    nrr_ncn_fee_group_rewards = \<lparr>brw_rewards = 100\<rparr> # replicate 7 \<lparr>brw_rewards = 0\<rparr>\<rparr>"
  by (simp_all add: ncn_reward_route_default_def ncn_reward_route_new_def route_set_rewards_def FEE_GROUP_COUNT_def
      base_reward_router_rewards_default_def ncn_group_defs numeral_eq_Suc)

lemma sample_share:
  "route_one_vote fixed12 sample_winner \<lparr>ncn_group = 0\<rparr> 100 (operator_vote_new 0 sample_operator 8000 (sample_weights 30))
    paying_router = Inr shared_router"
proof -
  have tail: "(replicate 256 x)[0 := y] = y # tl (replicate 256 x)" for x y :: ncn_reward_route
    by (simp add: numeral_eq_Suc)
  show ?thesis
  by (simp add: route_one_vote_def sample_winner_def ballot_tally_new_def operator_vote_new_def sample_weights_def
      ncn_fee_group_stake_weight_def ncn_group_defs calculate_ncn_fee_group_route_reward_def precise_share_def fixed12_def eval_simps
      br_route_from_ncn_fee_group_rewards_def br_ncn_fee_group_reward_def shared_fields br_route_to_reward_route_def
      routed_share shared_router_def tail)
qed

lemma sample_votes:
  "bb_operator_votes decided_sample =
    operator_vote_new 0 sample_operator 8000 (sample_weights 30) # replicate 255 operator_vote_default"
  by (simp add: decided_sample_def voted_box_def)

lemma only_first_vote:
  "ov_ballot_index (bb_operator_votes decided_sample ! 0) = bt_index sample_winner"
  "0 < i \<Longrightarrow> i < 256 \<Longrightarrow> ov_ballot_index (bb_operator_votes decided_sample ! i) \<noteq> bt_index sample_winner"
  by (simp_all add: sample_votes operator_vote_new_def sample_winner_def ballot_tally_new_def nth_Cons' operator_vote_default_def)

lemma votes_of_others:
  assumes "\<forall>i \<in> set is. ov_ballot_index (vs ! i) \<noteq> bt_index w"
  shows "route_votes pn vs w gi m x is r it = Inr (Done r it)" "rfold (share_vote pn vs w gi x) is r = Inr r"
  using assms by (induction "is") (simp_all add: share_vote_def)

lemma first_group: "ncn_fee_group_all_groups ! 0 = \<lparr>ncn_group = 0\<rparr>"
  by (simp add: ncn_group_defs)

lemma upt_256: "[0..<256] = 0 # [Suc 0..<256]"
  by (simp add: upt_conv_Cons)

lemma sample_routing:
  "route_votes fixed12 (bb_operator_votes decided_sample) sample_winner 0 30 100 [0..<256] paying_router 0 = Inr (Done shared_router 1)"
  "rfold (share_vote fixed12 (bb_operator_votes decided_sample) sample_winner 0 100) [0..<256] paying_router = Inr shared_router"
proof -
  have first: "route_one_vote fixed12 sample_winner (ncn_fee_group_all_groups ! 0) 100 (bb_operator_votes decided_sample ! 0) paying_router =
      Inr shared_router"
    unfolding first_group by (simp add: sample_votes sample_share)
  have others: "\<forall>i \<in> set [Suc 0..<256]. ov_ballot_index (bb_operator_votes decided_sample ! i) \<noteq> bt_index sample_winner"
    using only_first_vote(2) by simp
  note skip = votes_of_others [OF others]
  show "route_votes fixed12 (bb_operator_votes decided_sample) sample_winner 0 30 100 [0..<256] paying_router 0 = Inr (Done shared_router 1)"
    unfolding upt_256 by (simp add: only_first_vote(1) first skip checked_add_def del: upt_Suc)
  have "rfold (share_vote fixed12 (bb_operator_votes decided_sample) sample_winner 0 100) (0 # is) paying_router =
      rfold (share_vote fixed12 (bb_operator_votes decided_sample) sample_winner 0 100) is shared_router" for "is"
    by (simp add: share_vote_def only_first_vote(1) first)
  then show "rfold (share_vote fixed12 (bb_operator_votes decided_sample) sample_winner 0 100) [0..<256] paying_router = Inr shared_router"
    unfolding upt_256 by (simp only: skip(2))
qed

lemma nothing_left: "br_route_leftover shared_router \<lparr>ncn_group = 0\<rparr> = Inr shared_router"
  by (simp add: br_route_leftover_def br_ncn_fee_group_reward_def ncn_group_defs shared_router_def
      br_route_from_ncn_fee_group_rewards_def br_route_to_base_fee_group_rewards_def)

lemma no_more_groups:
  "i < 8 \<Longrightarrow> 0 < i \<Longrightarrow> br_ncn_fee_group_reward shared_router (ncn_fee_group_all_groups ! i) = Inr 0"
  by (simp add: br_ncn_fee_group_reward_def ng.index_all shared_router_def)

lemma empty_groups:
  assumes "\<forall>g \<in> set gs. br_ncn_fee_group_reward r (ncn_fee_group_all_groups ! g) = Inr 0"
  shows "route_groups pn vs w m gs 0 0 r it = Inr (br_reset_routing_state r)" "rfold (pass_group pn vs w) gs r = Inr r"
  using assms by (induction gs) (simp_all add: pass_group_def)

lemma sample_pass:
  "br_route_ncn_fee_group_rewards fixed12 paying_router decided_sample 30 = Inr shared_router"
  "one_pass fixed12 decided_sample paying_router = Inr shared_router"
proof -
  have start: "br_resume_routing_state paying_router = (0, 0, 0)"
    using sample_dao_payment(2) by (simp add: br_resume_routing_state_def)
  have reset: "br_reset_routing_state shared_router = shared_router"
    by (simp add: br_reset_routing_state_def shared_router_def paying_router_def new_router_def base_reward_router_new_def)
  have rewards: "br_ncn_fee_group_reward paying_router (ncn_fee_group_all_groups ! 0) = Inr 100"
    by (simp add: br_ncn_fee_group_reward_def shared_fields first_group ncn_group_defs)
  have upt: "[0..<8] = 0 # [Suc 0..<8]" and votes: "length (bb_operator_votes decided_sample) = 256"
    by (simp add: upt_conv_Cons) (simp add: sample_votes)
  have later: "\<forall>g \<in> set [Suc 0..<8]. br_ncn_fee_group_reward shared_router (ncn_fee_group_all_groups ! g) = Inr 0"
    using no_more_groups by simp
  have "route_groups fixed12 (bb_operator_votes decided_sample) sample_winner (max 30 1) (0 # gs) 0 0 paying_router 0 =
      route_groups fixed12 (bb_operator_votes decided_sample) sample_winner (max 30 1) gs 0 0 shared_router 1" for gs
    by (simp add: rewards votes sample_routing(1) nothing_left [folded first_group] del: upt_Suc)
  then show "br_route_ncn_fee_group_rewards fixed12 paying_router decided_sample 30 = Inr shared_router"
    unfolding br_route_ncn_fee_group_rewards_def winner_found rbind_simps start FEE_GROUP_COUNT_def upt Let_def prod.case
    by (simp only: empty_groups(1) [OF later] reset)
  have "pass_group fixed12 (bb_operator_votes decided_sample) sample_winner 0 paying_router = Inr shared_router"
    by (simp add: pass_group_def rewards votes sample_routing(2) nothing_left [folded first_group] del: upt_Suc)
  then show "one_pass fixed12 decided_sample paying_router = Inr shared_router"
    unfolding one_pass_def winner_found rbind_simps upt rfold.simps
    by (simp only: empty_groups(2) [OF later] reset rbind_simps)
qed

lemma sample_pooled:
  "br_route_incoming_rewards new_router 128 1129 = Inr (new_router\<lparr>br_total_rewards := 1001, br_reward_pool := 1001\<rparr>)"
  by (simp add: br_route_incoming_rewards_def br_total_rewards_in_transit_def br_route_to_reward_pool_def
      new_router_def base_reward_router_new_def checked_add_def checked_sub_def)

lemma voting_over: "is_voting_valid decided_sample 20000 10000 = Inr False"
  by (simp add: is_voting_valid_def decided_reads) (simp add: decided_sample_def checked_add_def)

lemma sample_accepted:
  "\<exists>L1. run_transaction sample_cluster (priced sample_client (route_base_rewards_ixs (cl_rt sample_cluster) sample_client sample_ncn 19))
    routing_ledger = Inr L1"
proof -
  obtain st config ncn es box router receiver where accounts:
    "route_accounts sample_cluster sample_client sample_ncn 19 = [st, config, ncn, es, box, router, receiver]"
    by (simp add: route_accounts_def Let_def)
  note writable = route_writable [OF sample_client_on, where epoch = 19, unfolded accounts]
  have keys: "ai_key st = sample_addr (Epoch_State_Account sample_ncn 19)" "ai_key config = sample_addr (Config_Account sample_ncn)"
    "ai_key ncn = sample_ncn" "ai_key es = sample_addr (Epoch_Snapshot_Account sample_ncn 19)"
    "ai_key box = sample_addr (Ballot_Box_Account sample_ncn 19)"
    "ai_key router = sample_addr (Base_Reward_Router_Account sample_ncn 19)"
    "ai_key receiver = sample_addr (Base_Reward_Receiver_Account sample_ncn 19)"
    using accounts by (auto simp: route_accounts_def Let_def)
  have fresh: "\<not> br_still_routing new_router"
    by (simp add: br_still_routing_def new_router_def base_reward_router_new_def)
  show ?thesis
    unfolding run_route [OF sample_client_on] accounts using writable
    by (simp add: process_route_base_rewards_def load_defs base_reward_receiver_load_def check_load_def keys sample_config_def
        config_new_def voting_over fresh sample_pooled paying_router_split sample_pass(1) rmap_err_def sample_addr_inject
        MAX_ROUTE_BASE_ITERATIONS_def size_nonzero data_is_empty_def)
qed

lemma ncn_elsewhere: "a \<in> {Ballot_Box_Account sample_ncn e, Epoch_Snapshot_Account sample_ncn e,
    Operator_Snapshot_Account sample_operator sample_ncn e, Epoch_State_Account sample_ncn e, Config_Account sample_ncn,
    Base_Reward_Router_Account sample_ncn e, Base_Reward_Receiver_Account sample_ncn e} \<Longrightarrow> sample_ncn \<noteq> sample_addr a"
  by (rule notI, drule arg_cong [of _ _ length]) (auto simp: sample_addr_def seeds_defs)


end
