(* ===== verification/Interface_Gaps.thy ===== *)
theory Interface_Gaps
  imports Sample_Cluster
begin

text \<open>
  Where the interface of the program and its handlers disagree: four administration instructions pass the admin as a
  signer that is read only, and their handlers want the signer writable. It is so only if the admin also pays for the
  transaction.
\<close>

definition writable_signer :: "tip_router_instruction \<Rightarrow> string option" where
  "writable_signer ix = (case ix of
      AdminSetParameters _ _ _ _ \<Rightarrow> Some ''ncn_admin''
    | AdminSetConfigFees _ _ _ _ _ _ \<Rightarrow> Some ''ncn_admin''
    | AdminSetNewAdmin _ \<Rightarrow> Some ''ncn_admin''
    | AdminSetWeight _ _ _ \<Rightarrow> Some ''weight_table_admin''
    | _ \<Rightarrow> None)"

lemma refused_in_message:
  assumes "ai_key a \<noteq> cl_payer cl" and "instruction_accounts cl ix = Some infos" and "\<not> ai_is_writable a"
    and "\<forall>b \<in> set infos. ai_is_writable b \<longrightarrow> ai_key b \<noteq> ai_key a"
  shows "\<not> ai_is_writable (in_message (message_accounts cl [ix]) a)"
  using assms by (auto simp: in_message_def message_accounts_def list_ex_iff)

lemma those_Some: "those xs = Some ys \<longleftrightarrow> map Some ys = xs"
proof (induction xs arbitrary: ys)
  case (Cons x xs)
  then show ?case by (cases x; cases ys; cases "those xs") auto
qed auto

lemma build_Some:
  "build program_id token_program ix given = Some infos \<longleftrightarrow>
    map Some infos = map (build_account program_id token_program given) (account_metas ix)"
  by (simp add: build_def those_Some)

text \<open>The handler of such an instruction runs only if the signer it names is writable.\<close>

lemma rbindE: "rbind m f = Inr y \<Longrightarrow> (\<And>x. m = Inr x \<Longrightarrow> thesis) \<Longrightarrow> thesis"
  by (auto simp: rbind_Inr)

lemma handlers_want_writable:
  "process_admin_set_parameters rt program_id accounts a b c d L = Inr L' \<Longrightarrow>
    \<exists>x y z. accounts = [x, y, z] \<and> ex_load_signer rt L z True = Inr ()"
  "process_admin_set_config_fees pn rt program_id accounts fee g wallet base g' fee' L = Inr L' \<Longrightarrow>
    \<exists>x y z. accounts = [x, y, z] \<and> ex_load_signer rt L z True = Inr ()"
  "process_admin_set_new_admin rt program_id accounts role L = Inr L' \<Longrightarrow>
    \<exists>x y z w. accounts = [x, y, z, w] \<and> ex_load_signer rt L z True = Inr ()"
  "process_admin_set_weight rt program_id accounts mint ep weight L = Inr L' \<Longrightarrow>
    \<exists>x y z w. accounts = [x, y, z, w] \<and> ex_load_signer rt L w True = Inr ()"
  subgoal unfolding process_admin_set_parameters_def by (auto split: list.splits elim!: rbindE)
  subgoal unfolding process_admin_set_config_fees_def by (auto split: list.splits elim!: rbindE)
  subgoal unfolding process_admin_set_new_admin_def by (auto split: list.splits elim!: rbindE)
  subgoal unfolding process_admin_set_weight_def by (auto split: list.splits simp: rbind_Inr)
  done

lemma signer_checked:
  assumes "writable_signer ix = Some name" and "process_instruction program_id pn hashv rt program_id infos ix L = Inr L'"
  shows "\<exists>i < length infos. account_metas ix ! i = ro_signer name \<and> length (account_metas ix) = length infos \<and>
    ex_load_signer rt L (infos ! i) True = Inr ()"
  using assms
  by (cases ix) (auto simp: writable_signer_def account_metas_defs process_instruction_def rbind_Inr less_Suc_eq
    dest!: handlers_want_writable)

text \<open>Whatever is writable in such an instruction was named by the client.\<close>

lemma writable_was_named:
  assumes "writable_signer ix = Some name" and "m \<in> set (account_metas ix)"
    and "build_account program_id token_program given m = Some b" "ai_is_writable b"
  shows "am_writable m \<and> map_of given (am_name m) = Some (ai_key b)"
proof -
  have "\<not> am_optional m" "am_writable m \<Longrightarrow> default_account token_program (am_name m) = None"
    using assms(1,2)
    by (cases ix; auto simp: writable_signer_def account_metas_defs ro_def rw_def ro_signer_def default_account_def)+
  then show ?thesis using assms(3,4) by (auto simp: build_account_def split: option.splits)
qed

text \<open>An admin who does not pay for the transaction cannot set parameters, fees, admins or weights through the
  interface: whatever the accounts and the ledger, the program refuses, provided only that \<open>load_signer\<close> checks what it
  is asked to.\<close>

lemma admin_must_pay:
  assumes law: "\<And>L a u. ex_load_signer (cl_rt cl) L a True = Inr u \<Longrightarrow> ai_is_writable a"
    and read: "borsh_laws (cl_borsh cl)" "instruction_ok ix"
    and ix: "writable_signer ix = Some name" and admin: "map_of given name = Some admin" "admin \<noteq> cl_payer cl"
    and other: "\<forall>m \<in> set (account_metas ix). am_writable m \<longrightarrow> map_of given (am_name m) \<noteq> Some admin"
  shows "\<forall>L'. run_transaction cl [Tip_Router ix given] L \<noteq> Inr L'"
proof (intro allI notI)
  fix L'
  assume "run_transaction cl [Tip_Router ix given] L = Inr L'"
  then obtain infos where infos: "instruction_accounts cl (Tip_Router ix given) = Some infos"
    and ok: "process_instruction (cl_program_id cl) (cl_pn cl) (cl_hashv cl) (cl_rt cl) (cl_program_id cl)
      (map (in_message (message_accounts cl [Tip_Router ix given])) infos) ix L = Inr L'"
    by (auto simp: run_transaction_def run_instruction_def rbind_Inr ok_or_def entrypoint_runs [OF read] split: option.splits)
  then have built: "build (cl_program_id cl) (cl_token_program_id cl) ix given = Some infos"
    by (simp add: instruction_accounts_def)
  let ?in = "in_message (message_accounts cl [Tip_Router ix given])"
  obtain i where i: "i < length infos" "account_metas ix ! i = ro_signer name" "length (account_metas ix) = length infos"
    and signer: "ex_load_signer (cl_rt cl) L (?in (infos ! i)) True = Inr ()"
    using signer_checked [OF ix ok] by auto
  note made = built [unfolded build_Some, THEN arg_cong, of "\<lambda>xs. xs ! j" for j]
  have a: "ai_key (infos ! i) = admin" "\<not> ai_is_writable (infos ! i)"
    using made [of i] i admin(1) by (auto simp: build_account_def ro_signer_def ro_def)
  have "\<forall>b \<in> set infos. ai_is_writable b \<longrightarrow> ai_key b \<noteq> ai_key (infos ! i)"
  proof (intro ballI impI)
    fix b
    assume "b \<in> set infos" and w: "ai_is_writable b"
    then obtain j where j: "j < length infos" "b = infos ! j" by (auto simp: in_set_conv_nth)
    then have "build_account (cl_program_id cl) (cl_token_program_id cl) given (account_metas ix ! j) = Some b"
      using made [of j] i(3) by simp
    from writable_was_named [OF ix _ this w] other j(1) i(3) a(1) show "ai_key b \<noteq> ai_key (infos ! i)" by force
  qed
  from refused_in_message [OF _ infos a(2) this] law [OF signer] admin(2) a(1) show False by simp
qed

lemma admin_must_pay_sample:
  "\<forall>L'. run_transaction sample_cluster [Tip_Router (AdminSetNewAdmin FeeAdmin)
    [(''config'', sample_addr (Config_Account sample_ncn)), (''ncn'', sample_ncn), (''ncn_admin'', sample_admin),
     (''new_admin'', sample_voter)]] configured_ledger \<noteq> Inr L'"
proof (rule admin_must_pay [where name = "''ncn_admin''" and admin = sample_admin])
  show "ai_is_writable a" if "ex_load_signer (cl_rt sample_cluster) L a True = Inr u" for L a u
    using that by (auto simp: fail_if_def split: if_splits)
  show "sample_admin \<noteq> cl_payer sample_cluster"
    by (simp add: sample_cluster_def sample_admin_def sample_wallet_def numeral_eq_Suc)
  show "\<forall>m \<in> set (account_metas (AdminSetNewAdmin FeeAdmin)). am_writable m \<longrightarrow>
      map_of [(''config'', sample_addr (Config_Account sample_ncn)), (''ncn'', sample_ncn), (''ncn_admin'', sample_admin),
        (''new_admin'', sample_voter)] (am_name m) \<noteq> Some sample_admin"
    by (auto simp: account_metas_defs ro_def rw_def ro_signer_def sample_admin_def sample_addr_def seeds_defs
        dest: arg_cong [of _ _ length])
qed (simp_all add: writable_signer_def sample_cluster_def sample_borsh_laws instruction_ok_def)

end
