(* ===== verification/Admin_Commands.thy ===== *)
theory Admin_Commands
  imports Interface_Gaps
begin

text \<open>
  The commands of the administrator (\<open>cli/src/instructions.rs\<close>): each makes one instruction of its arguments and the
  addresses of the NCN, signed for by the key pair of the handler, and sends it. Which instruction that is, is
  a definition of its own; a wallet is parsed by \<open>Pubkey::from_str\<close>, and an amount of SOL arrives as the lamports
  \<open>sol_to_lamports\<close> makes of it, both of the SDK.
\<close>

section \<open>Instructions\<close>

text \<open>The tie breaker given to \<open>admin_create_config\<close> is only logged; the instruction names the key pair.\<close>

definition create_config_ix ::
    "('x, 'y) runtime_scheme \<Rightarrow> 'h client_handler_scheme \<Rightarrow> pubkey \<Rightarrow> pubkey \<Rightarrow> u64 \<Rightarrow> u64 \<Rightarrow> u64 \<Rightarrow> u16 \<Rightarrow> u16 \<Rightarrow> u16 \<Rightarrow>
     pubkey option \<Rightarrow> pubkey option \<Rightarrow> client_instruction" where
  "create_config_ix rt h keypair ncn epochs_before_stall valid_slots_after_consensus epochs_after_consensus_before_close
      dao_fee_bps block_engine_fee default_ncn_fee_bps fee_wallet tie_breaker_admin =
    (let fee_wallet = (case fee_wallet of None \<Rightarrow> keypair | Some wallet \<Rightarrow> wallet) in
     Tip_Router (InitializeConfig block_engine_fee dao_fee_bps default_ncn_fee_bps epochs_before_stall
         epochs_after_consensus_before_close valid_slots_after_consensus)
       [(''config'', at_router rt h (Config_Account ncn)), (''ncn_admin'', keypair), (''ncn'', ncn),
        (''account_payer'', at_router rt h (Account_Payer_Account ncn)), (''tie_breaker_admin'', keypair),
        (''fee_wallet'', fee_wallet)])"

definition register_st_mint_ix ::
    "('x, 'y) runtime_scheme \<Rightarrow> 'h client_handler_scheme \<Rightarrow> pubkey \<Rightarrow> pubkey \<Rightarrow> pubkey \<Rightarrow> ncn_fee_group \<Rightarrow> u64 \<Rightarrow>
     pubkey option \<Rightarrow> u128 option \<Rightarrow> client_instruction" where
  "register_st_mint_ix rt h keypair ncn st_mint g reward_multiplier_bps switchboard_feed no_feed_weight =
    Tip_Router (AdminRegisterStMint (ncn_group g) reward_multiplier_bps switchboard_feed no_feed_weight)
      [(''config'', at_router rt h (Config_Account ncn)), (''admin'', keypair),
       (''vault_registry'', at_router rt h (Vault_Registry_Account ncn)), (''ncn'', ncn), (''st_mint'', st_mint)]"

definition set_weight_ix ::
    "('x, 'y) runtime_scheme \<Rightarrow> 'h client_handler_scheme \<Rightarrow> pubkey \<Rightarrow> pubkey \<Rightarrow> pubkey \<Rightarrow> u64 \<Rightarrow> u128 \<Rightarrow> client_instruction" where
  "set_weight_ix rt h keypair ncn st_mint epoch weight =
    Tip_Router (AdminSetWeight st_mint weight epoch)
      [(''ncn'', ncn), (''weight_table'', at_router rt h (Weight_Table_Account ncn epoch)),
       (''epoch_state'', at_router rt h (Epoch_State_Account ncn epoch)), (''weight_table_admin'', keypair)]"

definition set_tie_breaker_ix ::
    "('x, 'y) runtime_scheme \<Rightarrow> 'h client_handler_scheme \<Rightarrow> pubkey \<Rightarrow> pubkey \<Rightarrow> u64 \<Rightarrow> bytes32 \<Rightarrow> client_instruction" where
  "set_tie_breaker_ix rt h keypair ncn epoch voted_root =
    Tip_Router (AdminSetTieBreaker voted_root epoch)
      [(''epoch_state'', at_router rt h (Epoch_State_Account ncn epoch)), (''config'', at_router rt h (Config_Account ncn)),
       (''ballot_box'', at_router rt h (Ballot_Box_Account ncn epoch)), (''ncn'', ncn), (''tie_breaker_admin'', keypair)]"

definition set_new_admin_ix ::
    "('x, 'y) runtime_scheme \<Rightarrow> 'h client_handler_scheme \<Rightarrow> pubkey \<Rightarrow> pubkey \<Rightarrow> pubkey \<Rightarrow> config_admin_role \<Rightarrow> client_instruction" where
  "set_new_admin_ix rt h keypair ncn new_admin role =
    Tip_Router (AdminSetNewAdmin role)
      [(''config'', at_router rt h (Config_Account ncn)), (''ncn'', ncn), (''ncn_admin'', keypair),
       (''new_admin'', new_admin)]"

definition set_parameters_ix ::
    "('x, 'y) runtime_scheme \<Rightarrow> 'h client_handler_scheme \<Rightarrow> pubkey \<Rightarrow> pubkey \<Rightarrow> u64 option \<Rightarrow> u64 option \<Rightarrow> u64 option \<Rightarrow>
     u64 option \<Rightarrow> client_instruction" where
  "set_parameters_ix rt h keypair ncn epochs_before_stall epochs_after_consensus_before_close valid_slots_after_consensus
      starting_valid_epoch =
    Tip_Router (AdminSetParameters epochs_before_stall epochs_after_consensus_before_close valid_slots_after_consensus
        starting_valid_epoch)
      [(''config'', at_router rt h (Config_Account ncn)), (''ncn'', ncn), (''ncn_admin'', keypair)]"

definition set_config_fees_ix ::
    "('x, 'y) runtime_scheme \<Rightarrow> 'h client_handler_scheme \<Rightarrow> pubkey \<Rightarrow> pubkey \<Rightarrow> u16 option \<Rightarrow> u8 option \<Rightarrow> pubkey option \<Rightarrow>
     u16 option \<Rightarrow> u8 option \<Rightarrow> u16 option \<Rightarrow> client_instruction" where
  "set_config_fees_ix rt h keypair ncn new_block_engine_fee_bps base_fee_group_byte wallet new_base_fee_bps ncn_fee_group_byte new_ncn_fee_bps =
    Tip_Router (AdminSetConfigFees new_block_engine_fee_bps base_fee_group_byte wallet new_base_fee_bps ncn_fee_group_byte new_ncn_fee_bps)
      [(''config'', at_router rt h (Config_Account ncn)), (''ncn'', ncn), (''ncn_admin'', keypair)]"

section \<open>Commands\<close>

definition signed_command ::
    "'h client_handler_scheme \<Rightarrow> ('x, 'w) network \<Rightarrow> (pubkey \<Rightarrow> pubkey \<Rightarrow> client_instruction) \<Rightarrow> ('w, unit) client" where
  "signed_command h net ix =
    cbind (clift (the_keypair h)) (\<lambda>keypair.
    cbind (clift (handler_ncn h)) (\<lambda>ncn. send_and_log_transaction h net [ix keypair ncn]))"

text \<open>The account of the program is read, and must exist, only for the log.\<close>

definition admin_create_config ::
    "('x, 'y) runtime_scheme \<Rightarrow> 'h client_handler_scheme \<Rightarrow> ('x, 'w) network \<Rightarrow> u64 \<Rightarrow> u64 \<Rightarrow> u64 \<Rightarrow> u16 \<Rightarrow> u16 \<Rightarrow> u16 \<Rightarrow>
     pubkey option \<Rightarrow> pubkey option \<Rightarrow> ('w, unit) client" where
  "admin_create_config rt h net epochs_before_stall valid_slots_after_consensus epochs_after_consensus_before_close
      dao_fee_bps block_engine_fee default_ncn_fee_bps fee_wallet tie_breaker_admin =
    cbind (clift (the_keypair h)) (\<lambda>keypair.
    cbind (clift (handler_ncn h)) (\<lambda>ncn.
    cbind (cread net (\<lambda>rpc. rbind (rp_account rpc (hd_tip_router_program_id h)) (ok_or (Rpc_Failure ''AccountNotFound'')))) (\<lambda>_.
    send_and_log_transaction h net
      [create_config_ix rt h keypair ncn epochs_before_stall valid_slots_after_consensus
        epochs_after_consensus_before_close dao_fee_bps block_engine_fee default_ncn_fee_bps fee_wallet tie_breaker_admin])))"

definition admin_register_st_mint ::
    "('x, 'y) runtime_scheme \<Rightarrow> 'h client_handler_scheme \<Rightarrow> ('x, 'w) network \<Rightarrow> pubkey \<Rightarrow> ncn_fee_group \<Rightarrow> u64 \<Rightarrow>
     pubkey option \<Rightarrow> u128 option \<Rightarrow> ('w, unit) client" where
  "admin_register_st_mint rt h net vault g reward_multiplier_bps switchboard_feed no_feed_weight =
    cbind (clift (the_keypair h)) (\<lambda>keypair.
    cbind (clift (handler_ncn h)) (\<lambda>ncn.
    cbind (cread net (\<lambda>rpc. cr_vault rpc vault)) (\<lambda>vault_account.
    send_and_log_transaction h net
      [register_st_mint_ix rt h keypair ncn (vd_supported_mint vault_account) g reward_multiplier_bps switchboard_feed
        no_feed_weight])))"

definition admin_set_weight_with_st_mint ::
    "('x, 'y) runtime_scheme \<Rightarrow> 'h client_handler_scheme \<Rightarrow> ('x, 'w) network \<Rightarrow> pubkey \<Rightarrow> u64 \<Rightarrow> u128 \<Rightarrow> ('w, unit) client" where
  "admin_set_weight_with_st_mint rt h net st_mint epoch weight =
    signed_command h net (\<lambda>keypair ncn. set_weight_ix rt h keypair ncn st_mint epoch weight)"

definition admin_set_weight ::
    "('x, 'y) runtime_scheme \<Rightarrow> 'h client_handler_scheme \<Rightarrow> ('x, 'w) network \<Rightarrow> pubkey \<Rightarrow> u64 \<Rightarrow> u128 \<Rightarrow> ('w, unit) client" where
  "admin_set_weight rt h net vault epoch weight =
    cbind (cread net (\<lambda>rpc. cr_vault rpc vault)) (\<lambda>vault_account.
    admin_set_weight_with_st_mint rt h net (vd_supported_mint vault_account) epoch weight)"

definition admin_set_tie_breaker ::
    "('x, 'y) runtime_scheme \<Rightarrow> 'h client_handler_scheme \<Rightarrow> ('x, 'w) network \<Rightarrow> u64 \<Rightarrow> bytes32 \<Rightarrow> ('w, unit) client" where
  "admin_set_tie_breaker rt h net epoch voted_root =
    signed_command h net (\<lambda>keypair ncn. set_tie_breaker_ix rt h keypair ncn epoch voted_root)"

definition admin_set_new_admin ::
    "('x, 'y) runtime_scheme \<Rightarrow> 'h client_handler_scheme \<Rightarrow> ('x, 'w) network \<Rightarrow> pubkey \<Rightarrow> bool \<Rightarrow> bool \<Rightarrow> ('w, unit) client" where
  "admin_set_new_admin rt h net new_admin set_fee_admin set_tie_breaker_admin =
    cbind (clift (the_keypair h)) (\<lambda>keypair.
    cbind (clift (handler_ncn h)) (\<lambda>ncn.
    cfor [(set_fee_admin, FeeAdmin), (set_tie_breaker_admin, TieBreakerAdmin)] (\<lambda>(should_set, role).
      if should_set then send_and_log_transaction h net [set_new_admin_ix rt h keypair ncn new_admin role]
      else cret ())))"

definition admin_set_parameters ::
    "('x, 'y) runtime_scheme \<Rightarrow> 'h client_handler_scheme \<Rightarrow> ('x, 'w) network \<Rightarrow> u64 option \<Rightarrow> u64 option \<Rightarrow> u64 option \<Rightarrow>
     u64 option \<Rightarrow> ('w, unit) client" where
  "admin_set_parameters rt h net epochs_before_stall epochs_after_consensus_before_close valid_slots_after_consensus
      starting_valid_epoch =
    signed_command h net (\<lambda>keypair ncn. set_parameters_ix rt h keypair ncn epochs_before_stall
      epochs_after_consensus_before_close valid_slots_after_consensus starting_valid_epoch)"

definition admin_fund_account_payer ::
    "('x, 'y) runtime_scheme \<Rightarrow> 'h client_handler_scheme \<Rightarrow> ('x, 'w) network \<Rightarrow> u64 \<Rightarrow> ('w, unit) client" where
  "admin_fund_account_payer rt h net lamports =
    signed_command h net (\<lambda>keypair ncn. System_Transfer keypair (at_router rt h (Account_Payer_Account ncn)) lamports)"

definition admin_set_config_fees ::
    "(string \<Rightarrow> pubkey option) \<Rightarrow> ('x, 'y) runtime_scheme \<Rightarrow> 'h client_handler_scheme \<Rightarrow> ('x, 'w) network \<Rightarrow> u16 option \<Rightarrow>
     u8 option \<Rightarrow> string option \<Rightarrow> u16 option \<Rightarrow> u8 option \<Rightarrow> u16 option \<Rightarrow> ('w, unit) client" where
  "admin_set_config_fees pubkey_from_str rt h net new_block_engine_fee_bps base_fee_group_byte wallet new_base_fee_bps ncn_fee_group_byte new_ncn_fee_bps =
    cbind (clift (the_keypair h)) (\<lambda>keypair.
    cbind (clift (handler_ncn h)) (\<lambda>ncn.
    cbind (clift (case wallet of None \<Rightarrow> Inr None
      | Some text \<Rightarrow> rbind (ok_or (Anyhow ''Invalid wallet address'') (pubkey_from_str text)) (\<lambda>w. Inr (Some w)))) (\<lambda>wallet.
    send_and_log_transaction h net
      [set_config_fees_ix rt h keypair ncn new_block_engine_fee_bps base_fee_group_byte wallet new_base_fee_bps ncn_fee_group_byte new_ncn_fee_bps])))"

definition create_vault_registry ::
    "('x, 'y) runtime_scheme \<Rightarrow> 'h client_handler_scheme \<Rightarrow> ('x, 'w) network \<Rightarrow> ('w, unit) client" where
  "create_vault_registry rt h net =
    cbind (clift (handler_ncn h)) (\<lambda>ncn.
    let config = at_router rt h (Config_Account ncn);
        vault_registry = at_router rt h (Vault_Registry_Account ncn);
        account_payer = at_router rt h (Account_Payer_Account ncn) in
    create_account h net D_VaultRegistry vault_registry
      (Tip_Router InitializeVaultRegistry [(''config'', config), (''account_payer'', account_payer), (''ncn'', ncn),
        (''vault_registry'', vault_registry)])
      (Tip_Router ReallocVaultRegistry [(''config'', config), (''vault_registry'', vault_registry), (''ncn'', ncn),
        (''account_payer'', account_payer), (''system_program'', system_program_id)]))"

section \<open>What the commands send\<close>

lemmas command_ix_defs = create_config_ix_def register_st_mint_ix_def set_weight_ix_def set_tie_breaker_ix_def
  set_new_admin_ix_def set_parameters_ix_def set_config_fees_ix_def

definition command_instruction ::
    "('x, 'y) runtime_scheme \<Rightarrow> 'h client_handler_scheme \<Rightarrow> pubkey \<Rightarrow> pubkey \<Rightarrow> client_instruction \<Rightarrow> bool" where
  "command_instruction rt h keypair ncn ix \<longleftrightarrow>
    (\<exists>a b c d e f w t. ix = create_config_ix rt h keypair ncn a b c d e f w t) \<or>
    (\<exists>mint g m feed w. ix = register_st_mint_ix rt h keypair ncn mint g m feed w) \<or>
    (\<exists>mint epoch w. ix = set_weight_ix rt h keypair ncn mint epoch w) \<or>
    (\<exists>epoch voted_root. ix = set_tie_breaker_ix rt h keypair ncn epoch voted_root) \<or>
    (\<exists>admin role. ix = set_new_admin_ix rt h keypair ncn admin role) \<or>
    (\<exists>a b c d. ix = set_parameters_ix rt h keypair ncn a b c d) \<or>
    (\<exists>a b c d e f. ix = set_config_fees_ix rt h keypair ncn a b c d e f)"

text \<open>Every command names all the accounts its instruction needs, and the only signer is the key pair, which also pays
  for the transaction: the signers that \<open>admin_must_pay\<close> speaks of are writable in it.\<close>

lemma command_complete:
  assumes "command_instruction rt h keypair ncn ix"
  obtains i given infos where "ix = Tip_Router i given" "build program_id token_program i given = Some infos"
    "\<forall>a \<in> set infos. ai_is_signer a \<longrightarrow> ai_key a = keypair"
  using assms
  by (auto simp: command_instruction_def command_ix_defs Let_def build_def build_account_def default_account_def
    account_metas_defs ro_def rw_def ro_signer_def rw_signer_def)

lemma command_signer_writable:
  assumes "command_instruction (cl_rt cl) h keypair ncn ix" and "cl_payer cl = keypair"
    and "instruction_accounts cl ix = Some infos" and "a \<in> set infos" "ai_is_signer a"
  shows "ai_is_signer (in_message (message_accounts cl [ix]) a) \<and> ai_is_writable (in_message (message_accounts cl [ix]) a)"
proof -
  obtain i given infos' where "ix = Tip_Router i given" "build (cl_program_id cl) (cl_token_program_id cl) i given = Some infos'"
    "\<forall>a \<in> set infos'. ai_is_signer a \<longrightarrow> ai_key a = keypair"
    by (rule command_complete [OF assms(1)])
  then have "ai_key a = keypair" using assms(3-5) by (simp add: instruction_accounts_def)
  then show ?thesis using assms(2) by (simp add: in_message_def message_accounts_def)
qed

end
