(* ===== verification/Client_Errors.thy ===== *)
theory Client_Errors
  imports Tip_Errors
begin

text \<open>
  The errors of the program as the generated client names them
  (\<open>clients/rust/jito_tip_router/src/generated/errors/jito_tip_router.rs\<close>), with the codes it gives them.
\<close>

primrec client_error_code :: "tip_router_error \<Rightarrow> nat" where
  "client_error_code DenominatorIsZero = 8448"
| "client_error_code ArithmeticOverflow = 8449"
| "client_error_code ArithmeticUnderflowError = 8450"
| "client_error_code ArithmeticFloorError = 8451"
| "client_error_code ModuloOverflow = 8452"
| "client_error_code NewPreciseNumberError = 8453"
| "client_error_code CastToImpreciseNumberError = 8454"
| "client_error_code CastToU64Error = 8455"
| "client_error_code CastToU128Error = 8456"
| "client_error_code IncorrectWeightTableAdmin = 8704"
| "client_error_code DuplicateMintsInTable = 8705"
| "client_error_code NoMintsInTable = 8706"
| "client_error_code TableNotInitialized = 8707"
| "client_error_code RegistryNotInitialized = 8708"
| "client_error_code NoVaultsInRegistry = 8709"
| "client_error_code VaultNotInRegistry = 8710"
| "client_error_code MintInTable = 8711"
| "client_error_code TooManyMintsForTable = 8712"
| "client_error_code TooManyVaultsForRegistry = 8713"
| "client_error_code WeightTableAlreadyInitialized = 8714"
| "client_error_code CannotCreateFutureWeightTables = 8715"
| "client_error_code WeightMintsDoNotMatchLength = 8716"
| "client_error_code WeightMintsDoNotMatchMintHash = 8717"
| "client_error_code InvalidMintForWeightTable = 8718"
| "client_error_code ConfigMintsNotUpdated = 8719"
| "client_error_code ConfigMintListFull = 8720"
| "client_error_code VaultRegistryListFull = 8721"
| "client_error_code VaultRegistryVaultLocked = 8722"
| "client_error_code VaultIndexAlreadyInUse = 8723"
| "client_error_code MintEntryNotFound = 8724"
| "client_error_code FeeCapExceeded = 8725"
| "client_error_code TotalFeesCannotBeZero = 8726"
| "client_error_code DefaultDaoWallet = 8727"
| "client_error_code IncorrectNcnAdmin = 8728"
| "client_error_code IncorrectNcn = 8729"
| "client_error_code IncorrectFeeAdmin = 8730"
| "client_error_code WeightTableNotFinalized = 8731"
| "client_error_code WeightNotFound = 8732"
| "client_error_code NoOperators = 8733"
| "client_error_code VaultOperatorDelegationFinalized = 8734"
| "client_error_code OperatorFinalized = 8735"
| "client_error_code TooManyVaultOperatorDelegations = 8736"
| "client_error_code DuplicateVaultOperatorDelegation = 8737"
| "client_error_code DuplicateVoteCast = 8738"
| "client_error_code OperatorVotesFull = 8739"
| "client_error_code BallotTallyFull = 8740"
| "client_error_code BallotTallyNotFoundFull = 8741"
| "client_error_code BallotTallyNotEmpty = 8742"
| "client_error_code ConsensusAlreadyReached = 8743"
| "client_error_code ConsensusNotReached = 8744"
| "client_error_code EpochSnapshotNotFinalized = 8745"
| "client_error_code VotingNotValid = 8746"
| "client_error_code TieBreakerAdminInvalid = 8747"
| "client_error_code VotingNotFinalized = 8748"
| "client_error_code TieBreakerNotInPriorVotes = 8749"
| "client_error_code InvalidMerkleProof = 8750"
| "client_error_code InvalidOperatorVoter = 8751"
| "client_error_code InvalidNcnFeeGroup = 8752"
| "client_error_code InvalidBaseFeeGroup = 8753"
| "client_error_code OperatorRewardListFull = 8754"
| "client_error_code OperatorRewardNotFound = 8755"
| "client_error_code VaultRewardNotFound = 8756"
| "client_error_code DestinationMismatch = 8757"
| "client_error_code NcnRewardRouteNotFound = 8758"
| "client_error_code FeeNotActive = 8759"
| "client_error_code NoRewards = 8760"
| "client_error_code NoFeedWeightNotSet = 8761"
| "client_error_code SwitchboardNotRegistered = 8762"
| "client_error_code BadSwitchboardFeed = 8763"
| "client_error_code BadSwitchboardValue = 8764"
| "client_error_code StaleSwitchboardFeed = 8765"
| "client_error_code NoFeedWeightOrSwitchboardFeed = 8766"
| "client_error_code RouterStillRouting = 8767"
| "client_error_code InvalidEpochsBeforeStall = 8768"
| "client_error_code InvalidEpochsBeforeClose = 8769"
| "client_error_code InvalidSlotsAfterConsensus = 8770"
| "client_error_code VaultNeedsUpdate = 8771"
| "client_error_code InvalidAccountStatus = 8772"
| "client_error_code AccountAlreadyInitialized = 8773"
| "client_error_code BadBallot = 8774"
| "client_error_code VotingIsNotOver = 8775"
| "client_error_code OperatorIsNotInSnapshot = 8776"
| "client_error_code InvalidAccountToCloseDiscriminator = 8777"
| "client_error_code CannotCloseAccount = 8778"
| "client_error_code CannotCloseAccountAlreadyClosed = 8779"
| "client_error_code CannotCloseAccountNotEnoughEpochs = 8780"
| "client_error_code CannotCloseAccountNoReceiverProvided = 8781"
| "client_error_code CannotCloseEpochStateAccount = 8782"
| "client_error_code InvalidDaoWallet = 8783"
| "client_error_code EpochIsClosingDown = 8784"
| "client_error_code MarkerExists = 8785"

text \<open>\<open>FromPrimitive\<close>: the error of a code.\<close>

definition client_error_of :: "nat \<Rightarrow> tip_router_error option" where
  "client_error_of code = find (\<lambda>e. client_error_code e = code) all_tip_router_errors"

lemma client_codes: "client_error_code e = error_code e"
  by (cases e) simp_all

lemma client_reads_error:
  assumes "program_error_from e = Custom code"
  shows "client_error_of code = Some e"
  using assms by (cases e) (simp_all add: program_error_from_def client_error_of_def all_tip_router_errors_def)

end
